(* ===== verification/Gateway_Prelude.thy ===== *)
theory Gateway_Prelude
  imports Complex_Main "HOL-Library.AList" "HOL-Library.Signed_Division"
begin

text \<open>
  Shared vocabulary of the development: Go's 64-bit signed integers with their
  wrap-around, Go's float64 with its infinities and NaN, Go's maps (built-in maps and
  \<^verbatim>\<open>sync.Map\<close>) as association lists, byte strings, the error type of the model and the
  generic lemmas and rule collections the component theories use.

  A Go \<^verbatim>\<open>int\<close>, \<^verbatim>\<open>int64\<close> or \<^verbatim>\<open>time.Duration\<close> is an \<^typ>\<open>int\<close>; where the source computes
  with one and the result may leave the 64-bit range, the model applies \<open>wrap64\<close>.
  A float64 is a \<open>f64\<close>: finite values are exact rationals (rounding and overflow to
  infinity of finite sums are not modelled), NaN and the infinities behave as IEEE 754
  prescribes for the operations the source uses.
  A Go map is a list of key/value pairs with distinct keys; the list's order stands for
  the iteration order, which Go leaves unspecified, so a statement about every list is a
  statement about every iteration order.
\<close>

named_theorems calendar_simps \<open>characterisations of the calendar and window functions\<close>
named_theorems frame_simps \<open>which fields an operation leaves unchanged\<close>

section \<open>Signed 64-bit integers\<close>

definition wrap64 :: "int \<Rightarrow> int" where
  "wrap64 x = (x + 2 ^ 63) mod 2 ^ 64 - 2 ^ 63"

definition in64 :: "int \<Rightarrow> bool" where
  "in64 x \<longleftrightarrow> - (2 ^ 63) \<le> x \<and> x < 2 ^ 63"

definition max64 :: int where
  "max64 = 2 ^ 63 - 1"

definition min64 :: int where
  "min64 = - (2 ^ 63)"

section \<open>IEEE doubles without rounding\<close>

datatype f64 = Fin rat | PosInf | NegInf | NaN

fun f64_add :: "f64 \<Rightarrow> f64 \<Rightarrow> f64" where
  "f64_add NaN _ = NaN"
| "f64_add _ NaN = NaN"
| "f64_add PosInf NegInf = NaN"
| "f64_add NegInf PosInf = NaN"
| "f64_add PosInf _ = PosInf"
| "f64_add _ PosInf = PosInf"
| "f64_add NegInf _ = NegInf"
| "f64_add _ NegInf = NegInf"
| "f64_add (Fin a) (Fin b) = Fin (a + b)"

text \<open>\<open>f64_le a b\<close> is Go's \<^verbatim>\<open>a <= b\<close>; every comparison with NaN is false.\<close>

fun f64_le :: "f64 \<Rightarrow> f64 \<Rightarrow> bool" where
  "f64_le NaN _ = False"
| "f64_le _ NaN = False"
| "f64_le NegInf _ = True"
| "f64_le _ PosInf = True"
| "f64_le (Fin a) (Fin b) = (a \<le> b)"
| "f64_le _ _ = False"

fun f64_lt :: "f64 \<Rightarrow> f64 \<Rightarrow> bool" where
  "f64_lt NaN _ = False"
| "f64_lt _ NaN = False"
| "f64_lt NegInf b = (b \<noteq> NegInf)"
| "f64_lt PosInf _ = False"
| "f64_lt (Fin _) PosInf = True"
| "f64_lt (Fin a) (Fin b) = (a < b)"
| "f64_lt (Fin _) NegInf = False"

definition f64_eq :: "f64 \<Rightarrow> f64 \<Rightarrow> bool" where
  "f64_eq a b \<longleftrightarrow> a \<noteq> NaN \<and> a = b"

definition f64_finite :: "f64 \<Rightarrow> bool" where
  "f64_finite a \<longleftrightarrow> (\<exists>q. a = Fin q)"

section \<open>Maps and strings\<close>

type_synonym ('k, 'v) gomap = "('k \<times> 'v) list"

abbreviation gm_get :: "('k, 'v) gomap \<Rightarrow> 'k \<Rightarrow> 'v option" where
  "gm_get m k \<equiv> map_of m k"

abbreviation gm_put :: "'k \<Rightarrow> 'v \<Rightarrow> ('k, 'v) gomap \<Rightarrow> ('k, 'v) gomap" where
  "gm_put k v m \<equiv> AList.update k v m"

abbreviation gm_del :: "'k \<Rightarrow> ('k, 'v) gomap \<Rightarrow> ('k, 'v) gomap" where
  "gm_del k m \<equiv> AList.delete k m"

abbreviation gm_ok :: "('k, 'v) gomap \<Rightarrow> bool" where
  "gm_ok m \<equiv> distinct (map fst m)"

text \<open>Reading a missing key of a Go map yields the zero value of its type.\<close>

definition gm_get0 :: "'v \<Rightarrow> ('k, 'v) gomap \<Rightarrow> 'k \<Rightarrow> 'v" where
  "gm_get0 z m k = (case gm_get m k of None \<Rightarrow> z | Some v \<Rightarrow> v)"

definition hasPrefix :: "string \<Rightarrow> string \<Rightarrow> bool" where
  "hasPrefix s p \<longleftrightarrow> take (length p) s = p"

text \<open>
  \<open>lastByte s\<close> is the byte \<^verbatim>\<open>s[len(s)-1]\<close> of a Go string; the source reads it only after
  the check that the string is not empty, so the value for the empty string is unused.
\<close>

definition lastByte :: "string \<Rightarrow> char" where
  "lastByte s = (if s = [] then CHR 0x00 else last s)"

text \<open>Decimal notation, as \<^verbatim>\<open>%d\<close> and \<^verbatim>\<open>json.Marshal\<close> print an int.\<close>

fun dec_nat :: "nat \<Rightarrow> string" where
  "dec_nat n = (if n < 10 then [char_of (48 + n)] else dec_nat (n div 10) @ [char_of (48 + n mod 10)])"

declare dec_nat.simps [simp del]

definition dec_int :: "int \<Rightarrow> string" where
  "dec_int i = (if i < 0 then CHR ''-'' # dec_nat (nat (- i)) else dec_nat (nat i))"

text \<open>
  \<open>sort_by lt\<close> sorts as \<^verbatim>\<open>sort.Slice\<close> does, here keeping the order of elements that \<open>lt\<close> does
  not separate, which Go leaves open.
\<close>

fun insert_by :: "('a \<Rightarrow> 'a \<Rightarrow> bool) \<Rightarrow> 'a \<Rightarrow> 'a list \<Rightarrow> 'a list" where
  "insert_by lt x [] = [x]"
| "insert_by lt x (y # ys) = (if lt y x then y # insert_by lt x ys else x # y # ys)"

definition sort_by :: "('a \<Rightarrow> 'a \<Rightarrow> bool) \<Rightarrow> 'a list \<Rightarrow> 'a list" where
  "sort_by lt xs = foldr (insert_by lt) xs []"

text \<open>Go's \<^verbatim>\<open><\<close> on strings compares bytes.\<close>

fun str_lt :: "string \<Rightarrow> string \<Rightarrow> bool" where
  "str_lt _ [] = False"
| "str_lt [] (_ # _) = True"
| "str_lt (x # xs) (y # ys) =
     (if of_char x < (of_char y :: nat) then True else if x = y then str_lt xs ys else False)"

section \<open>Errors\<close>

text \<open>An error value carries the message the source builds, up to its formatted numbers.\<close>

datatype err = Err string

section \<open>Generic lemmas\<close>

lemma wrap64_in64: "in64 (wrap64 x)"
  by (simp add: in64_def wrap64_def algebra_simps)

lemma wrap64_id [simp]: "in64 x \<Longrightarrow> wrap64 x = x"
  by (simp add: in64_def wrap64_def)

lemma sdiv_nonneg: "0 \<le> a \<Longrightarrow> 0 < b \<Longrightarrow> a sdiv b = a div b" for a b :: int
  by (cases "a = 0") (simp_all add: signed_divide_int_def sgn_if)

lemma smod_nonneg: "0 \<le> a \<Longrightarrow> 0 < b \<Longrightarrow> a smod b = a mod b" for a b :: int
  by (cases "a = 0") (simp_all add: signed_modulo_int_def sgn_if)

lemma smod_pos_bounds:
  fixes a b :: int
  assumes "0 < b"
  shows "- b < a smod b" "a smod b < b"
proof -
  have e: "a smod b = sgn a * (\<bar>a\<bar> mod b)"
    using assms by (simp add: signed_modulo_int_def)
  have "0 \<le> \<bar>a\<bar> mod b" "\<bar>a\<bar> mod b < b" using assms by auto
  then show "- b < a smod b" "a smod b < b" unfolding e by (auto simp: sgn_if)
qed

lemma smod_cong: "(a smod b) mod b = a mod b" for a b :: int
proof -
  have "a = a sdiv b * b + a smod b" by (simp add: sdiv_mult_smod_eq)
  then show ?thesis by (metis mod_mult_self3)
qed

text \<open>Go's idiom for the non-negative remainder, \<^verbatim>\<open>(x % n + n) % n\<close>.\<close>

lemma smod_floor: "0 < b \<Longrightarrow> (a smod b + b) smod b = a mod b" for a b :: int
  using smod_pos_bounds(1) [of b a] smod_cong [of a b] by (simp add: smod_nonneg)

lemma in64_add_wrap: "in64 x \<Longrightarrow> in64 y \<Longrightarrow> in64 (x + y) \<Longrightarrow> wrap64 (x + y) = x + y"
  by simp

lemma f64_le_Fin [simp]: "f64_le (Fin a) (Fin b) = (a \<le> b)"
  by simp

lemma f64_le_iff_not_lt: "a \<noteq> NaN \<Longrightarrow> b \<noteq> NaN \<Longrightarrow> f64_le a b \<longleftrightarrow> \<not> f64_lt b a"
  by (cases a; cases b) auto

lemma f64_le_refl: "f64_le a a \<longleftrightarrow> a \<noteq> NaN"
  by (cases a) auto

lemma f64_le_trans: "f64_le a b \<Longrightarrow> f64_le b c \<Longrightarrow> f64_le a c"
  by (cases a; cases b; cases c) auto

lemma f64_add_commute: "f64_add a b = f64_add b a"
  by (cases a; cases b) auto

lemma f64_add_zero [simp]: "f64_add a (Fin 0) = a"
  by (cases a) auto

lemma f64_finite_add: "f64_finite a \<Longrightarrow> f64_finite b \<Longrightarrow> f64_finite (f64_add a b)"
  by (auto simp: f64_finite_def)

lemma gm_get_put [simp]: "gm_get (gm_put k v m) k' = (if k' = k then Some v else gm_get m k')"
  by (simp add: update_conv')

lemma gm_get_del [simp]: "gm_get (gm_del k m) k' = (if k' = k then None else gm_get m k')"
  by (simp add: delete_conv')

lemma gm_ok_put [simp, intro]: "gm_ok m \<Longrightarrow> gm_ok (gm_put k v m)"
  by (rule distinct_update)

lemma gm_ok_del [simp, intro]: "gm_ok m \<Longrightarrow> gm_ok (gm_del k m)"
  by (rule distinct_delete)

lemma gm_get0_put [simp]: "gm_get0 z (gm_put k v m) k' = (if k' = k then v else gm_get0 z m k')"
  by (simp add: gm_get0_def)

lemma gm_get0_Nil [simp]: "gm_get0 z [] k = z"
  by (simp add: gm_get0_def)

lemma hasPrefix_iff: "hasPrefix s p \<longleftrightarrow> (\<exists>t. s = p @ t)"
  by (auto simp: hasPrefix_def) (metis append_take_drop_id)

lemma lastByte_snoc [simp]: "lastByte (s @ [c]) = c"
  by (simp add: lastByte_def)

text \<open>A loop keeps what every round keeps.\<close>

lemma fold_keeps: "(\<And>x s. P (f x s) = P s) \<Longrightarrow> P (fold f xs s) = P s"
  by (induction xs arbitrary: s) simp_all

lemma fold_inv: "Q s \<Longrightarrow> (\<And>x s. x \<in> set xs \<Longrightarrow> Q s \<Longrightarrow> Q (f x s)) \<Longrightarrow> Q (fold f xs s)"
  by (induction xs arbitrary: s) simp_all

lemma card_int_Ioc: "a \<le> b \<Longrightarrow> int (card {a <.. b :: int}) = b - a"
  by simp

lemma set_insert_by [simp]: "set (insert_by lt x ys) = insert x (set ys)"
  by (induction ys) auto

lemma set_sort_by [simp]: "set (sort_by lt xs) = set xs"
  unfolding sort_by_def by (induction xs) simp_all

lemma length_insert_by [simp]: "length (insert_by lt x ys) = Suc (length ys)"
  by (induction ys) auto

lemma length_sort_by [simp]: "length (sort_by lt xs) = length xs"
  unfolding sort_by_def by (induction xs) simp_all

lemma sort_by_key_sorted: "sorted (map key (sort_by (\<lambda>x y. key x < key y) xs))" for key :: "'a \<Rightarrow> 'b :: linorder"
proof -
  have "sorted (map key ys) \<Longrightarrow> sorted (map key (insert_by (\<lambda>x y. key x < key y) x ys))" for x ys
    by (induction ys) auto
  then show ?thesis unfolding sort_by_def by (induction xs) simp_all
qed

lemma sort_by_distinct: "distinct (map g xs) \<Longrightarrow> distinct (map g (sort_by lt xs))"
proof -
  have "distinct (map g ys) \<Longrightarrow> g x \<notin> g ` set ys \<Longrightarrow> distinct (map g (insert_by lt x ys))" for x ys
    by (induction ys) auto
  moreover assume "distinct (map g xs)"
  ultimately show ?thesis
    unfolding sort_by_def by (induction xs) (auto simp: set_sort_by [unfolded sort_by_def])
qed

end
