(* ===== verification/Go_Time.thy ===== *)
theory Go_Time
  imports Gateway_Prelude
begin

text \<open>
  The parts of Go's standard package \<^verbatim>\<open>time\<close> that the governance code uses: instants,
  saturating differences, the proleptic Gregorian calendar in UTC and
  \<^verbatim>\<open>time.ParseDuration\<close>.

  An instant is the number of nanoseconds since 0001-01-01T00:00:00Z, so Go's zero
  \<^verbatim>\<open>Time\<close> is \<open>0\<close> and \<^verbatim>\<open>IsZero\<close>, \<^verbatim>\<open>Before\<close>, \<^verbatim>\<open>After\<close> and \<^verbatim>\<open>Equal\<close> are the relations on
  integers. A \<^verbatim>\<open>Duration\<close> is a signed 64-bit count of nanoseconds.
  The fraction part of a parsed duration is computed exactly where Go multiplies
  float64 values.
\<close>

type_synonym time = int
type_synonym duration = int

abbreviation millisecond :: duration where "millisecond \<equiv> 1000000"
abbreviation second :: duration where "second \<equiv> 1000000000"
abbreviation hour :: duration where "hour \<equiv> 3600000000000"
abbreviation day :: duration where "day \<equiv> 86400000000000"

section \<open>Instants\<close>

definition time_Sub :: "time \<Rightarrow> time \<Rightarrow> duration" where
  "time_Sub t u =
     (let d = t - u in
      if in64 d then d else if t < u then min64 else max64)"

definition time_Add :: "time \<Rightarrow> duration \<Rightarrow> time" where
  "time_Add t d = t + d"

definition time_IsZero :: "time \<Rightarrow> bool" where
  "time_IsZero t \<longleftrightarrow> t = 0"

section \<open>The calendar\<close>

definition is_leap :: "int \<Rightarrow> bool" where
  "is_leap y \<longleftrightarrow> y mod 4 = 0 \<and> (y mod 100 \<noteq> 0 \<or> y mod 400 = 0)"

definition days_before_year :: "int \<Rightarrow> int" where
  "days_before_year y = 365 * (y - 1) + (y - 1) div 4 - (y - 1) div 100 + (y - 1) div 400"

definition days_before_month :: "int \<Rightarrow> int \<Rightarrow> int" where
  "days_before_month y m =
     (if m \<le> 1 then 0 else if m = 2 then 31
      else (if is_leap y then 1 else 0) +
        (if m = 3 then 59 else if m = 4 then 90 else if m = 5 then 120 else if m = 6 then 151
         else if m = 7 then 181 else if m = 8 then 212 else if m = 9 then 243
         else if m = 10 then 273 else if m = 11 then 304 else if m = 12 then 334 else 365))"

text \<open>Number of the day \<open>y\<close>-\<open>m\<close>-\<open>d\<close>, day 0 being 0001-01-01; \<open>d\<close> may be out of range.\<close>

definition civil_to_days :: "int \<Rightarrow> int \<Rightarrow> int \<Rightarrow> int" where
  "civil_to_days y m d = days_before_year y + days_before_month y m + d - 1"

text \<open>\<^verbatim>\<open>time.Date\<close> in UTC; \<open>tod\<close> is the time of day in nanoseconds.\<close>

definition time_Date :: "int \<Rightarrow> int \<Rightarrow> int \<Rightarrow> int \<Rightarrow> time" where
  "time_Date y m d tod =
     civil_to_days (y + (m - 1) div 12) ((m - 1) mod 12 + 1) d * day + tod"

definition year_of_days :: "int \<Rightarrow> int" where
  "year_of_days n =
     (let y = (400 * n) div 146097 + 1 in
      if n < days_before_year y then y - 1
      else if days_before_year (y + 1) \<le> n then y + 1 else y)"

definition month_of_yday :: "int \<Rightarrow> int \<Rightarrow> int" where
  "month_of_yday y n =
     (if n < days_before_month y 2 then 1 else if n < days_before_month y 3 then 2
      else if n < days_before_month y 4 then 3 else if n < days_before_month y 5 then 4
      else if n < days_before_month y 6 then 5 else if n < days_before_month y 7 then 6
      else if n < days_before_month y 8 then 7 else if n < days_before_month y 9 then 8
      else if n < days_before_month y 10 then 9 else if n < days_before_month y 11 then 10
      else if n < days_before_month y 12 then 11 else 12)"

definition time_Year :: "time \<Rightarrow> int" where
  "time_Year t = year_of_days (t div day)"

definition time_Month :: "time \<Rightarrow> int" where
  "time_Month t = (let y = time_Year t in month_of_yday y (t div day - days_before_year y))"

definition time_Day :: "time \<Rightarrow> int" where
  "time_Day t =
     (let y = time_Year t; n = t div day - days_before_year y
      in n - days_before_month y (month_of_yday y n) + 1)"

text \<open>\<^verbatim>\<open>Weekday\<close>: Sunday is 0; 0001-01-01 was a Monday.\<close>

definition time_Weekday :: "time \<Rightarrow> int" where
  "time_Weekday t = (t div day + 1) mod 7"

definition time_AddDate :: "time \<Rightarrow> int \<Rightarrow> int \<Rightarrow> int \<Rightarrow> time" where
  "time_AddDate t years months days =
     time_Date (time_Year t + years) (time_Month t + months) (time_Day t + days) (t mod day)"

section \<open>Parsing durations\<close>

definition is_digit :: "char \<Rightarrow> bool" where
  "is_digit c \<longleftrightarrow> 48 \<le> (of_char c :: nat) \<and> (of_char c :: nat) \<le> 57"

definition digit_val :: "char \<Rightarrow> int" where
  "digit_val c = int (of_char c :: nat) - 48"

text \<open>\<^verbatim>\<open>leadingInt\<close>: the value of the leading digits and the rest, \<open>None\<close> on overflow.\<close>

fun leadingInt :: "int \<Rightarrow> string \<Rightarrow> (int \<times> string) option" where
  "leadingInt x [] = Some (x, [])"
| "leadingInt x (c # cs) =
     (if is_digit c then
        (if x > 2 ^ 63 div 10 then None
         else let y = x * 10 + digit_val c in
           if y > 2 ^ 63 then None else leadingInt y cs)
      else Some (x, c # cs))"

text \<open>\<^verbatim>\<open>leadingFraction\<close>: numerator, scale and rest; digits past the precision are dropped.\<close>

fun leadingFraction :: "int \<Rightarrow> int \<Rightarrow> bool \<Rightarrow> string \<Rightarrow> int \<times> int \<times> string" where
  "leadingFraction x scale ovf [] = (x, scale, [])"
| "leadingFraction x scale ovf (c # cs) =
     (if is_digit c then
        (if ovf then leadingFraction x scale True cs
         else if x > (2 ^ 63 - 1) div 10 then leadingFraction x scale True cs
         else let y = x * 10 + digit_val c in
           if y > 2 ^ 63 then leadingFraction x scale True cs
           else leadingFraction y (scale * 10) False cs)
      else (x, scale, c # cs))"

definition unitMap :: "string \<Rightarrow> int option" where
  "unitMap u =
     (if u = ''ns'' then Some 1
      else if u = ''us'' \<or> u = [CHR 0xC2, CHR 0xB5, CHR ''s''] \<or> u = [CHR 0xCE, CHR 0xBC, CHR ''s'']
        then Some 1000
      else if u = ''ms'' then Some 1000000
      else if u = ''s'' then Some 1000000000
      else if u = ''m'' then Some 60000000000
      else if u = ''h'' then Some 3600000000000
      else None)"

definition unit_char :: "char \<Rightarrow> bool" where
  "unit_char c \<longleftrightarrow> c \<noteq> CHR ''.'' \<and> \<not> is_digit c"

text \<open>The optional \<^verbatim>\<open>(\\.[0-9]*)?\<close> part: numerator, scale, rest, and whether digits were read.\<close>

definition fraction_part :: "string \<Rightarrow> int \<times> int \<times> string \<times> bool" where
  "fraction_part s =
     (if s \<noteq> [] \<and> hd s = CHR ''.'' then
        (case leadingFraction 0 1 False (tl s) of
           (f, scale, s2) \<Rightarrow> (f, scale, s2, length s2 \<noteq> length (tl s)))
      else (0, 1, s, False))"

text \<open>The unit and the scaled value \<open>v + f / scale\<close>.\<close>

definition unit_part :: "int \<Rightarrow> int \<Rightarrow> int \<Rightarrow> string \<Rightarrow> (int \<times> string) option" where
  "unit_part v f scale s =
     (let u = takeWhile unit_char s in
      if u = [] then None
      else case unitMap u of None \<Rightarrow> None
      | Some unit \<Rightarrow>
          if v > 2 ^ 63 div unit then None
          else let v1 = v * unit; v2 = (if f > 0 then v1 + (f * unit) div scale else v1) in
            if v2 > 2 ^ 63 then None else Some (v2, dropWhile unit_char s))"

text \<open>
  One round of the loop: a number with its unit. The result is the number of
  nanoseconds and the rest of the string.
\<close>

definition parse_component :: "string \<Rightarrow> (int \<times> string) option" where
  "parse_component s =
     (if s = [] \<or> \<not> (hd s = CHR ''.'' \<or> is_digit (hd s)) then None
      else case leadingInt 0 s of None \<Rightarrow> None
      | Some (v, s1) \<Rightarrow>
          (case fraction_part s1 of (f, scale, s2, post) \<Rightarrow>
             if length s1 = length s \<and> \<not> post then None else unit_part v f scale s2))"

lemma leadingInt_length: "leadingInt x s = Some (v, r) \<Longrightarrow> length r \<le> length s"
  by (induction x s arbitrary: v r rule: leadingInt.induct)
     (auto simp: Let_def split: if_splits intro: le_SucI)

lemma leadingFraction_length:
  "leadingFraction x sc ovf s = (f, sc', r) \<Longrightarrow> length r \<le> length s"
  by (induction x sc ovf s arbitrary: f sc' r rule: leadingFraction.induct)
     (auto simp: Let_def split: if_splits intro: le_SucI)

lemma fraction_part_length: "fraction_part s = (f, sc, r, post) \<Longrightarrow> length r \<le> length s"
  by (cases s)
     (auto simp: fraction_part_def split: if_splits prod.splits dest!: leadingFraction_length)

lemma dropWhile_shorter: "takeWhile P s \<noteq> [] \<Longrightarrow> length (dropWhile P s) < length s"
  by (cases s) (auto simp: le_imp_less_Suc length_dropWhile_le split: if_splits)

lemma unit_part_length: "unit_part v f sc s = Some (w, r) \<Longrightarrow> length r < length s"
  using dropWhile_shorter [of unit_char s]
  by (auto simp: unit_part_def Let_def split: if_splits option.splits)

lemma parse_component_shorter:
  "parse_component s = Some (v, r) \<Longrightarrow> length r < length s"
  by (fastforce simp: parse_component_def split: if_splits option.splits prod.splits
        dest: leadingInt_length fraction_part_length unit_part_length)

function parse_loop :: "int \<Rightarrow> string \<Rightarrow> int option" where
  "parse_loop d s =
     (if s = [] then Some d
      else case parse_component s of None \<Rightarrow> None
      | Some (v, rest) \<Rightarrow> if d + v > 2 ^ 63 then None else parse_loop (d + v) rest)"
  by pat_completeness auto
termination
  by (relation "measure (\<lambda>(d, s). length s)") (auto simp: parse_component_shorter)

declare parse_loop.simps [simp del]

definition time_ParseDuration :: "string \<Rightarrow> err + duration" where
  "time_ParseDuration s0 =
     (let neg = (s0 \<noteq> [] \<and> hd s0 = CHR ''-'');
          s = (if s0 \<noteq> [] \<and> (hd s0 = CHR ''-'' \<or> hd s0 = CHR ''+'') then tl s0 else s0)
      in if s = ''0'' then Inr 0
         else if s = [] then Inl (Err ''time: invalid duration'')
         else case parse_loop 0 s of
                None \<Rightarrow> Inl (Err ''time: invalid duration'')
              | Some d \<Rightarrow>
                  if neg then Inr (wrap64 (- d))
                  else if d > 2 ^ 63 - 1 then Inl (Err ''time: invalid duration'')
                  else Inr d)"

end
