(* ===== verification/Calendar_Grid.thy ===== *)
theory Calendar_Grid
  imports Go_Time
begin

text \<open>
  The interface \<open>period_grid\<close> states what it takes for a family of instants to cut the
  time line into consecutive periods: every instant lies in exactly one of them, between
  the start of its period and the start of the next. Its lemmas (the start of the period
  is idempotent and monotone, and the difference of two period numbers counts the
  boundaries between two instants) are proved once and used for the UTC days, the
  Monday weeks, the months, the fiscal quarters and the years, which are interpretations
  over the calendar of Go's \<^verbatim>\<open>time\<close> package, and for rolling windows.
\<close>

locale period_grid =
  fixes start :: "int \<Rightarrow> time"
    and idx :: "time \<Rightarrow> int"
  assumes start_idx_le: "start (idx t) \<le> t"
    and less_next: "t < start (idx t + 1)"
    and start_step: "start i < start (i + 1)"
begin

lemma start_strict: "i < j \<Longrightarrow> start i < start j"
proof (induction j rule: int_gr_induct)
  case base
  then show ?case by (rule start_step)
next
  case (step j)
  then show ?case using start_step [of j] by simp
qed

lemma start_less_iff: "start i < start j \<longleftrightarrow> i < j"
  using start_strict [of i j] start_strict [of j i] by (metis less_asym linorder_neqE_linordered_idom)

lemma start_le_iff: "start i \<le> start j \<longleftrightarrow> i \<le> j"
  by (metis linorder_not_less start_less_iff)

lemma idx_unique: "start i \<le> t \<Longrightarrow> t < start (i + 1) \<Longrightarrow> idx t = i"
  using start_idx_le [of t] less_next [of t] start_less_iff [of i "idx t + 1"]
    start_less_iff [of "idx t" "i + 1"] by linarith

lemma idx_start: "idx (start i) = i"
  by (rule idx_unique) (simp_all add: start_step)

lemma snap_idem: "start (idx (start (idx t))) = start (idx t)"
  by (simp add: idx_start)

lemma idx_mono: "t \<le> u \<Longrightarrow> idx t \<le> idx u"
  using start_idx_le [of t] less_next [of u] start_less_iff [of "idx t" "idx u + 1"] by linarith

lemma snap_mono: "t \<le> u \<Longrightarrow> start (idx t) \<le> start (idx u)"
  by (simp add: start_le_iff idx_mono)

lemma snap_eq_iff: "start (idx t) = start (idx u) \<longleftrightarrow> idx t = idx u"
  by (metis idx_start)

lemma boundaries_between:
  "{b. a < b \<and> b \<le> c \<and> start (idx b) = b} = start ` {idx a <.. idx c}" (is "?L = ?R")
proof
  show "?L \<subseteq> ?R"
  proof
    fix b assume b: "b \<in> ?L"
    then have "start (idx a) < start (idx b)"
      using start_idx_le [of a] by simp
    then have "idx a < idx b" by (simp add: start_less_iff)
    moreover have "idx b \<le> idx c" using b by (simp add: idx_mono)
    ultimately show "b \<in> ?R" using b by force
  qed
  show "?R \<subseteq> ?L"
  proof
    fix b assume "b \<in> ?R"
    then obtain i where i: "idx a < i" "i \<le> idx c" "b = start i" by auto
    have "a < start i"
      using less_next [of a] start_le_iff [of "idx a + 1" i] i(1) by simp
    moreover have "start i \<le> c"
      using start_idx_le [of c] start_le_iff [of i "idx c"] i(2) by simp
    ultimately show "b \<in> ?L" using i(3) by (simp add: idx_start)
  qed
qed

lemma count_boundaries:
  assumes "a \<le> c"
  shows "int (card {b. a < b \<and> b \<le> c \<and> start (idx b) = b}) = idx c - idx a"
proof -
  have "inj_on start {idx a <.. idx c}"
    by (rule inj_onI) (metis idx_start)
  then have "card (start ` {idx a <.. idx c}) = card {idx a <.. idx c}"
    by (rule card_image)
  then show ?thesis
    using idx_mono [OF assms] by (simp add: boundaries_between)
qed

end

section \<open>Years\<close>

lemma div_pred: "0 < n \<Longrightarrow> y div n = (y - 1) div n + (if y mod n = 0 then 1 else 0)" for y n :: int
proof -
  assume n: "0 < n"
  define q r where "q = (y - 1) div n" and "r = (y - 1) mod n"
  have y: "y = n * q + (r + 1)" by (simp add: q_def r_def)
  have r: "0 \<le> r" "r < n" using n by (auto simp: r_def)
  show ?thesis
  proof (cases "r + 1 = n")
    case True
    then have e: "y = n * (q + 1)" using y by (simp add: algebra_simps)
    have "y div n = q + 1" "y mod n = 0" unfolding e using n by simp_all
    then show ?thesis by (simp add: q_def)
  next
    case False
    with r have r1: "0 \<le> r + 1" "r + 1 < n" by auto
    have "y div n = q" using y r1 by (rule int_div_pos_eq)
    moreover have "y mod n = r + 1" using y r1 by (rule int_mod_pos_eq)
    ultimately show ?thesis using r by (simp add: q_def)
  qed
qed

lemma div_pred_diff:
  "0 < n \<Longrightarrow> y div n - (y - 1) div n = (if y mod n = 0 then 1 else 0)" for y n :: int
  using div_pred [of n y] by linarith

lemma days_before_year_next:
  "days_before_year (y + 1) = days_before_year y + (if is_leap y then 366 else 365)"
proof -
  have m: "y mod 100 = 0 \<Longrightarrow> y mod 4 = 0" "y mod 400 = 0 \<Longrightarrow> y mod 100 = 0"
    using mod_mod_cancel [of 4 100 y] mod_mod_cancel [of 100 400 y] by simp_all
  have "days_before_year (y + 1) - days_before_year y =
      365 + (y div 4 - (y - 1) div 4) - (y div 100 - (y - 1) div 100) + (y div 400 - (y - 1) div 400)"
    by (simp add: days_before_year_def algebra_simps)
  also have "\<dots> = 365 + (if y mod 4 = 0 then 1 else 0) - (if y mod 100 = 0 then 1 else 0)
      + (if y mod 400 = 0 then 1 else 0)"
    by (simp only: div_pred_diff [of 4 y, simplified] div_pred_diff [of 100 y, simplified]
        div_pred_diff [of 400 y, simplified])
  also have "\<dots> = (if is_leap y then 366 else 365)"
    using m unfolding is_leap_def
    by (cases "y mod 4 = 0"; cases "y mod 100 = 0"; cases "y mod 400 = 0") simp_all
  finally show ?thesis by simp
qed

lemma days_before_year_bounds:
  "146097 * y - 146796 \<le> 400 * days_before_year y"
  "400 * days_before_year y \<le> 146097 * y - 145701"
proof -
  define z where "z = y - 1"
  have a: "z div 4 * 4 = z - z mod 4" "z div 100 * 100 = z - z mod 100"
    "z div 400 * 400 = z - z mod 400"
    by (simp_all add: minus_mod_eq_div_mult)
  have b: "0 \<le> z mod 4" "z mod 4 < 4" "0 \<le> z mod 100" "z mod 100 < 100" "0 \<le> z mod 400"
    "z mod 400 < 400" by simp_all
  have d: "400 * days_before_year y = 146000 * z + 100 * (z div 4 * 4) - 4 * (z div 100 * 100)
      + z div 400 * 400"
    by (simp add: days_before_year_def z_def)
  have "y = z + 1" by (simp add: z_def)
  then show "146097 * y - 146796 \<le> 400 * days_before_year y"
    "400 * days_before_year y \<le> 146097 * y - 145701"
    using d a b by linarith+
qed

lemma days_before_year_strict: "y < y' \<Longrightarrow> days_before_year y < days_before_year y'"
  using days_before_year_bounds(2) [of y] days_before_year_bounds(1) [of y'] by linarith

lemma year_of_days_bracket:
  "days_before_year (year_of_days n) \<le> n \<and> n < days_before_year (year_of_days n + 1)"
proof -
  define z where "z = (400 * n) div 146097"
  have z: "146097 * z \<le> 400 * n" "400 * n < 146097 * z + 146097"
    using div_mult_mod_eq [of "400 * n" 146097] pos_mod_bound [of 146097 "400 * n"]
      pos_mod_sign [of 146097 "400 * n"] unfolding z_def by linarith+
  have lo: "days_before_year z \<le> n"
    using days_before_year_bounds(2) [of z] z by linarith
  have hi: "n < days_before_year (z + 3)"
    using days_before_year_bounds(1) [of "z + 3"] z distrib_left [of 146097 z 3] by linarith
  have "year_of_days n = (if n < days_before_year (z + 1) then z
      else if days_before_year (z + 2) \<le> n then z + 2 else z + 1)"
    by (simp add: year_of_days_def Let_def z_def add.commute)
  with lo hi show ?thesis by (auto simp: add.commute)
qed

section \<open>Months\<close>

lemma month_of_yday_range: "1 \<le> month_of_yday y n \<and> month_of_yday y n \<le> 12"
  by (simp add: month_of_yday_def)

lemma days_before_month_num:
  "days_before_month y 1 = 0" "days_before_month y 2 = 31"
  "days_before_month y 3 = 59 + (if is_leap y then 1 else 0)"
  "days_before_month y 4 = 90 + (if is_leap y then 1 else 0)"
  "days_before_month y 5 = 120 + (if is_leap y then 1 else 0)"
  "days_before_month y 6 = 151 + (if is_leap y then 1 else 0)"
  "days_before_month y 7 = 181 + (if is_leap y then 1 else 0)"
  "days_before_month y 8 = 212 + (if is_leap y then 1 else 0)"
  "days_before_month y 9 = 243 + (if is_leap y then 1 else 0)"
  "days_before_month y 10 = 273 + (if is_leap y then 1 else 0)"
  "days_before_month y 11 = 304 + (if is_leap y then 1 else 0)"
  "days_before_month y 12 = 334 + (if is_leap y then 1 else 0)"
  "days_before_month y 13 = 365 + (if is_leap y then 1 else 0)"
  by (simp_all add: days_before_month_def)

lemma month_of_yday_bracket_leap:
  assumes "0 \<le> n" "n < 365 + l" "l = (if is_leap y then 1 else 0)"
  shows "days_before_month y (month_of_yday y n) \<le> n \<and>
    n < days_before_month y (month_of_yday y n + 1)"
proof -
  consider "n < 31" | "31 \<le> n \<and> n < 59 + l" | "59 + l \<le> n \<and> n < 90 + l"
    | "90 + l \<le> n \<and> n < 120 + l" | "120 + l \<le> n \<and> n < 151 + l"
    | "151 + l \<le> n \<and> n < 181 + l" | "181 + l \<le> n \<and> n < 212 + l"
    | "212 + l \<le> n \<and> n < 243 + l" | "243 + l \<le> n \<and> n < 273 + l"
    | "273 + l \<le> n \<and> n < 304 + l" | "304 + l \<le> n \<and> n < 334 + l"
    | "334 + l \<le> n \<and> n < 365 + l"
    using assms(2) by (meson not_le)
  moreover have "0 \<le> l" "l \<le> 1" using assms(3) by auto
  ultimately show ?thesis
    using assms(1)
    by cases (simp_all add: month_of_yday_def days_before_month_num assms(3) [symmetric])
qed

lemma month_of_yday_bracket:
  assumes "0 \<le> n" "n < (if is_leap y then 366 else 365)"
  shows "days_before_month y (month_of_yday y n) \<le> n"
    "n < days_before_month y (month_of_yday y n + 1)"
proof -
  have "n < 365 + (if is_leap y then 1 else 0)" using assms(2) by (simp split: if_splits)
  from month_of_yday_bracket_leap [OF assms(1) this refl]
  show "days_before_month y (month_of_yday y n) \<le> n"
    "n < days_before_month y (month_of_yday y n + 1)" by auto
qed

lemma month_cases:
  assumes "1 \<le> m" "m \<le> (12 :: int)"
  obtains "m = 1" | "m = 2" | "m = 3" | "m = 4" | "m = 5" | "m = 6" | "m = 7" | "m = 8"
    | "m = 9" | "m = 10" | "m = 11" | "m = 12"
proof -
  have "m = 1 \<or> m = 2 \<or> m = 3 \<or> m = 4 \<or> m = 5 \<or> m = 6 \<or> m = 7 \<or> m = 8 \<or> m = 9
      \<or> m = 10 \<or> m = 11 \<or> m = 12" using assms by presburger
  then show thesis using that by blast
qed

lemma days_before_month_next:
  "1 \<le> m \<Longrightarrow> m \<le> 12 \<Longrightarrow> days_before_month y m < days_before_month y (m + 1)"
  by (erule (1) month_cases) (simp_all add: days_before_month_def)

definition month_start :: "int \<Rightarrow> time" where
  "month_start i = civil_to_days (i div 12) (i mod 12 + 1) 1 * day"

definition month_idx :: "time \<Rightarrow> int" where
  "month_idx t = time_Year t * 12 + time_Month t - 1"

lemma month_range [simp]: "1 \<le> time_Month t" "time_Month t \<le> 12"
  using month_of_yday_range by (auto simp: time_Month_def Let_def)

lemma month_index_split:
  assumes "1 \<le> m" "m \<le> (12 :: int)"
  shows "(y * 12 + m - 1) div 12 = y" "(y * 12 + m - 1) mod 12 = m - 1"
proof -
  have e: "y * 12 + m - 1 = 12 * y + (m - 1)" by simp
  show "(y * 12 + m - 1) div 12 = y" by (rule int_div_pos_eq [OF e]) (use assms in auto)
  show "(y * 12 + m - 1) mod 12 = m - 1" by (rule int_mod_pos_eq [OF e]) (use assms in auto)
qed

lemma month_idx_div_mod: "month_idx t div 12 = time_Year t" "month_idx t mod 12 = time_Month t - 1"
  unfolding month_idx_def by (rule month_index_split, simp_all)+

lemma month_start_civil:
  assumes "1 \<le> m" "m \<le> 12"
  shows "month_start (y * 12 + m - 1) = (days_before_year y + days_before_month y m) * day"
  using month_index_split [OF assms, of y] by (simp add: month_start_def civil_to_days_def)

lemma month_start_next:
  assumes "1 \<le> m" "m \<le> 12"
  shows "month_start (y * 12 + m) = (days_before_year y + days_before_month y (m + 1)) * day"
proof (cases "m = 12")
  case True
  have "y * 12 + m = (y + 1) * 12 + 1 - 1" using True by simp
  then have "month_start (y * 12 + m) = month_start ((y + 1) * 12 + 1 - 1)" by (simp only:)
  also have "\<dots> = days_before_year (y + 1) * day"
    using month_start_civil [of 1 "y + 1"] by (simp add: days_before_month_def)
  finally show ?thesis
    using True by (simp add: days_before_year_next days_before_month_def)
next
  case False
  then show ?thesis using assms month_start_civil [of "m + 1" y] by simp
qed

lemma yday_bounds:
  "0 \<le> t div day - days_before_year (time_Year t)"
  "t div day - days_before_year (time_Year t) < (if is_leap (time_Year t) then 366 else 365)"
  using year_of_days_bracket [of "t div day"] days_before_year_next [of "time_Year t"]
  by (auto simp: time_Year_def)

lemma day_mult_le: "n \<le> t div day \<Longrightarrow> n * day \<le> t"
proof -
  assume "n \<le> t div day"
  then have "n * day \<le> t div day * day" by simp
  also have "\<dots> \<le> t" using minus_mod_eq_div_mult [of t day] by simp
  finally show ?thesis .
qed

lemma less_day_mult: "t div day < n \<Longrightarrow> t < n * day"
proof -
  assume "t div day < n"
  then have "(t div day + 1) * day \<le> n * day" by simp
  moreover have "t < (t div day + 1) * day"
    using minus_mod_eq_div_mult [of t day] pos_mod_bound [of day t] by (simp add: algebra_simps)
  ultimately show ?thesis by simp
qed

lemma month_start_step: "month_start i < month_start (i + 1)"
proof -
  define y m where "y = i div 12" and "m = i mod 12 + 1"
  have m: "1 \<le> m" "m \<le> 12" by (auto simp: m_def)
  have i: "i = y * 12 + m - 1" by (simp add: y_def m_def)
  show ?thesis
    unfolding i using month_start_civil [OF m, of y] month_start_next [OF m, of y]
      days_before_month_next [OF m, of y] by simp
qed

section \<open>The grids of the calendar\<close>

interpretation day_grid: period_grid "\<lambda>i. i * day" "\<lambda>t. t div day"
  by unfold_locales (auto intro: day_mult_le less_day_mult)

interpretation week_grid: period_grid "\<lambda>i. i * (7 * day)" "\<lambda>t. t div (7 * day)"
proof unfold_locales
  fix t i :: int
  show "t div (7 * day) * (7 * day) \<le> t"
    using minus_mod_eq_div_mult [of t "7 * day"] pos_mod_sign [of "7 * day" t] by simp
  show "t < (t div (7 * day) + 1) * (7 * day)"
    using minus_mod_eq_div_mult [of t "7 * day"] pos_mod_bound [of "7 * day" t]
    by (simp add: algebra_simps)
  show "i * (7 * day) < (i + 1) * (7 * day)" by simp
qed

interpretation month_grid: period_grid month_start month_idx
proof unfold_locales
  fix t i :: int
  note b = month_of_yday_bracket [OF yday_bounds [of t]]
  have m: "time_Month t = month_of_yday (time_Year t) (t div day - days_before_year (time_Year t))"
    by (simp add: time_Month_def Let_def)
  have lo: "days_before_year (time_Year t) + days_before_month (time_Year t) (time_Month t) \<le> t div day"
    using b(1) unfolding m by linarith
  have hi: "t div day < days_before_year (time_Year t) + days_before_month (time_Year t) (time_Month t + 1)"
    using b(2) unfolding m by linarith
  show "month_start (month_idx t) \<le> t"
    using day_mult_le [OF lo] by (simp add: month_idx_def month_start_civil)
  show "t < month_start (month_idx t + 1)"
    using less_day_mult [OF hi] by (simp add: month_idx_def month_start_next)
  show "month_start i < month_start (i + 1)" by (rule month_start_step)
qed

definition year_start :: "int \<Rightarrow> time" where
  "year_start y = days_before_year y * day"

interpretation year_grid: period_grid year_start time_Year
proof unfold_locales
  fix t i :: int
  show "year_start (time_Year t) \<le> t" "t < year_start (time_Year t + 1)"
    using year_of_days_bracket [of "t div day"]
    by (auto simp: year_start_def time_Year_def intro: day_mult_le less_day_mult)
  show "year_start i < year_start (i + 1)"
    by (simp add: year_start_def days_before_year_strict)
qed

text \<open>Quarter \<open>i\<close> of a year whose first quarter opens \<open>p\<close> months after a January (\<open>p = 0, 1, 2\<close>).\<close>

definition quarter_start :: "int \<Rightarrow> int \<Rightarrow> time" where
  "quarter_start p i = month_start (3 * i + p)"

definition quarter_idx :: "int \<Rightarrow> time \<Rightarrow> int" where
  "quarter_idx p t = (month_idx t - p) div 3"

interpretation quarter_grid: period_grid "quarter_start p" "quarter_idx p" for p
proof unfold_locales
  fix t i :: int
  have q: "3 * quarter_idx p t + p \<le> month_idx t" "month_idx t < 3 * (quarter_idx p t + 1) + p"
    unfolding quarter_idx_def by presburger+
  show "quarter_start p (quarter_idx p t) \<le> t"
    using month_grid.start_idx_le [of t] month_grid.start_le_iff q(1)
    unfolding quarter_start_def by (meson order_trans)
  have "month_idx t + 1 \<le> 3 * (quarter_idx p t + 1) + p" using q(2) by simp
  then show "t < quarter_start p (quarter_idx p t + 1)"
    using month_grid.less_next [of t] month_grid.start_le_iff
    unfolding quarter_start_def by (meson less_le_trans)
  show "quarter_start p i < quarter_start p (i + 1)"
    by (simp add: quarter_start_def month_grid.start_less_iff)
qed

text \<open>Rolling windows of length \<open>d\<close> from an anchor are a grid too.\<close>

lemma rolling_grid: "0 < d \<Longrightarrow> period_grid (\<lambda>i. a + i * d) (\<lambda>t. (t - a) div d)"
proof
  fix t i :: int
  assume d: "0 < d"
  note e = minus_mod_eq_div_mult [of "t - a" d]
  show "a + (t - a) div d * d \<le> t"
    using e pos_mod_sign [OF d, of "t - a"] by linarith
  show "t < a + ((t - a) div d + 1) * d"
    using e pos_mod_bound [OF d, of "t - a"] distrib_right [of "(t - a) div d" 1 d] by linarith
  show "a + i * d < a + (i + 1) * d"
    using d by (simp add: algebra_simps)
qed

section \<open>Dates and their components\<close>

lemma time_Date_midnight [calendar_simps]:
  "time_Date (time_Year t) (time_Month t) (time_Day t) 0 = t div day * day"
proof -
  have "(time_Month t - 1) div 12 = 0" "(time_Month t - 1) mod 12 = time_Month t - 1"
    using month_range [of t] div_pos_pos_trivial [of "time_Month t - 1" 12]
      mod_pos_pos_trivial [of "time_Month t - 1" 12] by linarith+
  then show ?thesis
    by (simp add: time_Date_def civil_to_days_def time_Day_def time_Month_def Let_def)
qed

lemma time_Date_first [calendar_simps]:
  assumes "1 \<le> m" "m \<le> 12"
  shows "time_Date y m 1 0 = month_start (y * 12 + m - 1)"
proof -
  have "(m - 1) div 12 = 0" "(m - 1) mod 12 = m - 1"
    using assms by (simp_all add: div_pos_pos_trivial)
  then show ?thesis
    using month_start_civil [OF assms, of y] by (simp add: time_Date_def civil_to_days_def)
qed

lemma time_Date_yearstart [calendar_simps]: "time_Date y 1 1 0 = year_start y"
  by (simp add: time_Date_def civil_to_days_def days_before_month_def year_start_def)

lemma time_AddDate_days [calendar_simps]: "time_AddDate t 0 0 n = t + n * day"
proof -
  have "time_Date (time_Year t) (time_Month t) (time_Day t + n) (t mod day)
      = time_Date (time_Year t) (time_Month t) (time_Day t) 0 + n * day + t mod day"
    by (simp add: time_Date_def civil_to_days_def algebra_simps)
  then show ?thesis by (simp add: time_AddDate_def time_Date_midnight)
qed

lemma month_start_year_month:
  "time_Year (month_start i) = i div 12" "time_Month (month_start i) = i mod 12 + 1"
proof -
  have i: "month_idx (month_start i) = i" by (rule month_grid.idx_start)
  show "time_Year (month_start i) = i div 12" "time_Month (month_start i) = i mod 12 + 1"
    using month_idx_div_mod [of "month_start i"] unfolding i by simp_all
qed

lemma time_Year_pos: "0 \<le> t \<Longrightarrow> 1 \<le> time_Year t"
proof -
  assume t: "0 \<le> t"
  have "time_Year 0 = 1"
    by (simp add: time_Year_def year_of_days_def days_before_year_def Let_def)
  with year_grid.idx_mono [OF t] show ?thesis by simp
qed

end
