(* ===== verification/Windows.thy ===== *)
theory Windows
  imports Calendar_Grid
begin

text \<open>
  The reset windows of budgets and rate limits: framework/configstore/tables/utils.go.
  Calendar periods snap to UTC days, Monday weeks, months, fiscal quarters and years;
  rolling windows are lattices anchored at a persisted instant. The theorems say that the
  snapped instant opens the period that contains its argument, that counting periods is
  counting exactly the boundaries the snap produces, and that a rolling boundary is a
  fixed point of the lattice as long as Go's \<^verbatim>\<open>Sub\<close> does not saturate.
\<close>

definition QuarterStartNotApplicable :: int where
  "QuarterStartNotApplicable = 1"

definition IsCalendarAlignableDuration :: "string \<Rightarrow> bool" where
  "IsCalendarAlignableDuration dur =
     (dur \<noteq> [] \<and>
      (lastByte dur = CHR ''d'' \<or> lastByte dur = CHR ''w'' \<or> lastByte dur = CHR ''M'' \<or>
       lastByte dur = CHR ''Q'' \<or> lastByte dur = CHR ''Y''))"

definition quarterStartAt :: "time \<Rightarrow> int \<Rightarrow> time" where
  "quarterStartAt t quarterStart =
     (let q = (if quarterStart < 1 \<or> quarterStart > 12 then 1 else quarterStart);
          absoluteMonth = time_Year t * 12 + time_Month t - 1;
          monthsIntoQuarter = ((absoluteMonth - (q - 1)) smod 3 + 3) smod 3;
          start = absoluteMonth - monthsIntoQuarter
      in time_Date (start sdiv 12) (start smod 12 + 1) 1 0)"

definition GetCalendarPeriodStart :: "string \<Rightarrow> time \<Rightarrow> int \<Rightarrow> time" where
  "GetCalendarPeriodStart dur t quarterStart =
     (if dur = [] then t
      else let suffix = lastByte dur in
        if suffix = CHR ''d'' then time_Date (time_Year t) (time_Month t) (time_Day t) 0
        else if suffix = CHR ''w'' then
          (let weekday = time_Weekday t;
               daysFromMonday = (weekday + 6) smod 7;
               monday = time_AddDate t 0 0 (- daysFromMonday)
           in time_Date (time_Year monday) (time_Month monday) (time_Day monday) 0)
        else if suffix = CHR ''M'' then time_Date (time_Year t) (time_Month t) 1 0
        else if suffix = CHR ''Q'' then quarterStartAt t quarterStart
        else if suffix = CHR ''Y'' then time_Date (time_Year t) 1 1 0
        else t)"

definition RollingWindowStart :: "time \<Rightarrow> duration \<Rightarrow> time \<Rightarrow> time" where
  "RollingWindowStart anchor dur now =
     (if dur \<le> 0 then anchor
      else let elapsed = time_Sub now anchor in
        if elapsed < 0 then anchor
        else time_Add anchor (wrap64 ((elapsed sdiv dur) * dur)))"

definition CountCalendarPeriods :: "string \<Rightarrow> time \<Rightarrow> time \<Rightarrow> int \<Rightarrow> int" where
  "CountCalendarPeriods dur from to quarterStart =
     (if dur = [] \<or> \<not> from < to then 0
      else let suffix = lastByte dur in
        if suffix = CHR ''d'' then
          (let fromDay = time_Date (time_Year from) (time_Month from) (time_Day from) 0;
               toDay = time_Date (time_Year to) (time_Month to) (time_Day to) 0
           in time_Sub toDay fromDay sdiv (24 * hour))
        else if suffix = CHR ''w'' then
          (let fromWeek = GetCalendarPeriodStart ''1w'' from QuarterStartNotApplicable;
               toWeek = GetCalendarPeriodStart ''1w'' to QuarterStartNotApplicable
           in time_Sub toWeek fromWeek sdiv (7 * 24 * hour))
        else if suffix = CHR ''M'' then
          (time_Year to - time_Year from) * 12 + time_Month to - time_Month from
        else if suffix = CHR ''Q'' then
          (let fromQuarter = quarterStartAt from quarterStart;
               toQuarter = quarterStartAt to quarterStart;
               months = (time_Year toQuarter - time_Year fromQuarter) * 12
                          + time_Month toQuarter - time_Month fromQuarter
           in months sdiv 3)
        else if suffix = CHR ''Y'' then time_Year to - time_Year from
        else 0)"

definition ParseDuration :: "string \<Rightarrow> err + duration" where
  "ParseDuration dur =
     (if dur = [] then Inl (Err ''duration is empty'')
      else let n = butlast dur; c = lastByte dur in
        if c = CHR ''d'' then
          (case time_ParseDuration (n @ ''h'') of
             Inr d \<Rightarrow> Inr (wrap64 (d * 24)) | Inl _ \<Rightarrow> Inl (Err (''invalid day duration: '' @ dur)))
        else if c = CHR ''w'' then
          (case time_ParseDuration (n @ ''h'') of
             Inr w \<Rightarrow> Inr (wrap64 (wrap64 (w * 24) * 7))
           | Inl _ \<Rightarrow> Inl (Err (''invalid week duration: '' @ dur)))
        else if c = CHR ''M'' then
          (case time_ParseDuration (n @ ''h'') of
             Inr m \<Rightarrow> Inr (wrap64 (wrap64 (m * 24) * 30))
           | Inl _ \<Rightarrow> Inl (Err (''invalid month duration: '' @ dur)))
        else if c = CHR ''Q'' then
          (case time_ParseDuration (n @ ''h'') of
             Inr q \<Rightarrow> Inr (wrap64 (wrap64 (q * 24) * 90))
           | Inl _ \<Rightarrow> Inl (Err (''invalid quarter duration: '' @ dur)))
        else if c = CHR ''Y'' then
          (case time_ParseDuration (n @ ''h'') of
             Inr y \<Rightarrow> Inr (wrap64 (wrap64 (y * 24) * 365))
           | Inl _ \<Rightarrow> Inl (Err (''invalid year duration: '' @ dur)))
        else time_ParseDuration dur)"

section \<open>Calendar periods as grids\<close>

text \<open>The phase of a fiscal calendar: only the quarter start modulo 3 matters.\<close>

definition quarter_phase :: "int \<Rightarrow> int" where
  "quarter_phase q = ((if q < 1 \<or> q > 12 then 1 else q) - 1) mod 3"

lemma quarterStartAt_grid:
  assumes "2 \<le> month_idx t"
  shows "quarterStartAt t q = quarter_start (quarter_phase q) (quarter_idx (quarter_phase q) t)"
proof -
  define q' where "q' = (if q < 1 \<or> q > 12 then 1 else q)"
  define p where "p = quarter_phase q"
  define am where "am = month_idx t"
  define s where "s = am - (am - (q' - 1)) mod 3"
  have p: "p = (q' - 1) mod 3" by (simp add: p_def quarter_phase_def q'_def)
  have "(am - (q' - 1)) mod 3 = (am - p) mod 3"
    unfolding p by (metis mod_diff_right_eq)
  then have s: "s = 3 * ((am - p) div 3) + p"
    unfolding s_def using minus_mod_eq_mult_div [of "am - p" 3] by linarith
  have "2 \<le> am" using assms by (simp add: am_def)
  then have s0: "0 \<le> s" unfolding s_def using pos_mod_bound [of 3 "am - (q' - 1)"] by linarith
  have "quarterStartAt t q = time_Date (s sdiv 12) (s smod 12 + 1) 1 0"
    unfolding quarterStartAt_def Let_def q'_def [symmetric]
    by (simp add: smod_floor s_def am_def month_idx_def)
  also have "\<dots> = month_start s"
    using s0 by (simp add: sdiv_nonneg smod_nonneg time_Date_first)
  finally show ?thesis
    by (simp add: s quarter_start_def quarter_idx_def am_def p_def [symmetric])
qed

lemma week_snap:
  "GetCalendarPeriodStart ''1w'' t q = t div (7 * day) * (7 * day)"
proof -
  define n where "n = t div day"
  have "((n + 1) mod 7 + 6) mod 7 = n mod 7" by presburger
  then have "(time_Weekday t + 6) smod 7 = n mod 7"
    by (simp add: smod_nonneg time_Weekday_def n_def)
  then have "GetCalendarPeriodStart ''1w'' t q = (t - n mod 7 * day) div day * day"
    by (simp add: GetCalendarPeriodStart_def lastByte_def time_AddDate_days time_Date_midnight)
  also have "(t - n mod 7 * day) div day = n - n mod 7"
    using div_mult_self1 [of day t "- (n mod 7)"] by (simp add: n_def)
  also have "n - n mod 7 = n div 7 * 7" by (rule minus_mod_eq_div_mult)
  also have "n div 7 = t div (7 * day)"
    using zdiv_zmult2_eq [of 7 t day] by (simp add: n_def)
  finally show ?thesis by simp
qed

lemma GetCalendarPeriodStart_cases [calendar_simps]:
  "lastByte dur = CHR ''d'' \<Longrightarrow> dur \<noteq> [] \<Longrightarrow> GetCalendarPeriodStart dur t q = t div day * day"
  "lastByte dur = CHR ''w'' \<Longrightarrow> dur \<noteq> [] \<Longrightarrow>
     GetCalendarPeriodStart dur t q = t div (7 * day) * (7 * day)"
  "lastByte dur = CHR ''M'' \<Longrightarrow> dur \<noteq> [] \<Longrightarrow> GetCalendarPeriodStart dur t q = month_start (month_idx t)"
  "lastByte dur = CHR ''Q'' \<Longrightarrow> dur \<noteq> [] \<Longrightarrow> GetCalendarPeriodStart dur t q = quarterStartAt t q"
  "lastByte dur = CHR ''Y'' \<Longrightarrow> dur \<noteq> [] \<Longrightarrow> GetCalendarPeriodStart dur t q = year_start (time_Year t)"
  using week_snap [of t q]
  by (simp_all add: GetCalendarPeriodStart_def lastByte_def Let_def time_Date_midnight
      time_Date_first time_Date_yearstart month_idx_def)

lemma alignable_cases:
  assumes "IsCalendarAlignableDuration dur"
  obtains (d) "lastByte dur = CHR ''d''" "dur \<noteq> []" | (w) "lastByte dur = CHR ''w''" "dur \<noteq> []"
    | (M) "lastByte dur = CHR ''M''" "dur \<noteq> []" | (Q) "lastByte dur = CHR ''Q''" "dur \<noteq> []"
    | (Y) "lastByte dur = CHR ''Y''" "dur \<noteq> []"
  using assms by (auto simp: IsCalendarAlignableDuration_def)

lemma month_idx_nonneg: "0 \<le> t \<Longrightarrow> 12 \<le> month_idx t"
  using time_Year_pos [of t] month_range(1) [of t] unfolding month_idx_def by linarith

text \<open>
  Every alignable duration has a grid, and the snap is the start of the period of \<open>t\<close>.
  Go's truncating division by 12 restricts the fiscal quarters to instants after the
  second month of year 0.
\<close>

lemma alignable_grid:
  assumes "IsCalendarAlignableDuration dur"
  obtains start idx where "period_grid start idx"
    and "\<And>t. 2 \<le> month_idx t \<Longrightarrow> GetCalendarPeriodStart dur t q = start (idx t)"
    and "\<And>t. 0 \<le> t \<Longrightarrow> 2 \<le> month_idx (start (idx t))"
  using assms
proof (cases rule: alignable_cases)
  case d
  have "2 \<le> month_idx (t div day * day)" if "0 \<le> t" for t
    using that month_idx_nonneg [of "t div day * day"] by (simp add: pos_imp_zdiv_nonneg_iff)
  then show ?thesis
    by (intro that [OF day_grid.period_grid_axioms]) (simp_all add: d GetCalendarPeriodStart_cases)
next
  case w
  have "2 \<le> month_idx (t div (7 * day) * (7 * day))" if "0 \<le> t" for t
    using that month_idx_nonneg [of "t div (7 * day) * (7 * day)"]
    by (simp add: pos_imp_zdiv_nonneg_iff)
  then show ?thesis
    by (intro that [OF week_grid.period_grid_axioms]) (simp_all add: w GetCalendarPeriodStart_cases)
next
  case M
  have "2 \<le> month_idx (month_start (month_idx t))" if "0 \<le> t" for t
    using that month_idx_nonneg [of t] by (simp add: month_grid.idx_start)
  then show ?thesis
    by (intro that [OF month_grid.period_grid_axioms]) (simp_all add: M GetCalendarPeriodStart_cases)
next
  case Q
  have "2 \<le> month_idx (quarter_start (quarter_phase q) (quarter_idx (quarter_phase q) t))"
    if "0 \<le> t" for t
    using that month_idx_nonneg [of t] pos_mod_bound [of 3 "month_idx t - quarter_phase q"]
      minus_mod_eq_mult_div [of "month_idx t - quarter_phase q" 3]
    by (simp add: quarter_start_def quarter_idx_def month_grid.idx_start)
  then show ?thesis
    by (intro that [OF quarter_grid.period_grid_axioms [of "quarter_phase q"]])
       (simp_all add: Q GetCalendarPeriodStart_cases quarterStartAt_grid)
next
  case Y
  have "2 \<le> month_idx (year_start (time_Year t))" if "0 \<le> t" for t
  proof -
    have "year_start 1 \<le> year_start (time_Year t)"
      using time_Year_pos [OF that] by (simp add: year_grid.start_le_iff)
    then have "0 \<le> year_start (time_Year t)" by (simp add: year_start_def days_before_year_def)
    then show ?thesis using month_idx_nonneg [of "year_start (time_Year t)"] by simp
  qed
  then show ?thesis
    by (intro that [OF year_grid.period_grid_axioms]) (simp_all add: Y GetCalendarPeriodStart_cases)
qed

lemma CountCalendarPeriods_idx:
  assumes "from < to" "2 \<le> month_idx from" "to - from + 7 * day < 2 ^ 63"
  shows "lastByte dur = CHR ''d'' \<Longrightarrow> dur \<noteq> [] \<Longrightarrow>
      CountCalendarPeriods dur from to q = to div day - from div day"
    and "lastByte dur = CHR ''w'' \<Longrightarrow> dur \<noteq> [] \<Longrightarrow>
      CountCalendarPeriods dur from to q = to div (7 * day) - from div (7 * day)"
    and "lastByte dur = CHR ''M'' \<Longrightarrow> dur \<noteq> [] \<Longrightarrow>
      CountCalendarPeriods dur from to q = month_idx to - month_idx from"
    and "lastByte dur = CHR ''Q'' \<Longrightarrow> dur \<noteq> [] \<Longrightarrow>
      CountCalendarPeriods dur from to q =
        quarter_idx (quarter_phase q) to - quarter_idx (quarter_phase q) from"
    and "lastByte dur = CHR ''Y'' \<Longrightarrow> dur \<noteq> [] \<Longrightarrow>
      CountCalendarPeriods dur from to q = time_Year to - time_Year from"
proof -
  have sub: "time_Sub (i * d) (j * d) sdiv d = i - j"
    if "0 < d" "j \<le> i" "i * d - j * d < 2 ^ 63" for i j d :: int
  proof -
    have e: "i * d - j * d = (i - j) * d" by (simp add: algebra_simps)
    have "0 \<le> i * d - j * d" unfolding e using that by simp
    then have "time_Sub (i * d) (j * d) = (i - j) * d"
      using that(3) by (simp add: time_Sub_def Let_def in64_def e [symmetric])
    then show ?thesis using that by (simp add: sdiv_nonneg)
  qed
  have dday: "to div day * day - from div day * day < 2 ^ 63"
    using day_grid.start_idx_le [of to] day_grid.less_next [of "from"] assms(3)
      distrib_right [of "from div day" 1 day] by linarith
  have dweek: "to div (7 * day) * (7 * day) - from div (7 * day) * (7 * day) < 2 ^ 63"
    using week_grid.start_idx_le [of to] week_grid.less_next [of "from"] assms(3)
      distrib_right [of "from div (7 * day)" 1 "7 * day"] by linarith
  show "CountCalendarPeriods dur from to q = to div day - from div day"
    if "lastByte dur = CHR ''d''" "dur \<noteq> []"
    using that assms sub [OF _ day_grid.idx_mono dday]
    by (simp add: CountCalendarPeriods_def Let_def time_Date_midnight)
  show "CountCalendarPeriods dur from to q = to div (7 * day) - from div (7 * day)"
    if "lastByte dur = CHR ''w''" "dur \<noteq> []"
    using that assms sub [OF _ week_grid.idx_mono dweek]
    by (simp add: CountCalendarPeriods_def Let_def week_snap)
  show "CountCalendarPeriods dur from to q = month_idx to - month_idx from"
    if "lastByte dur = CHR ''M''" "dur \<noteq> []"
    using that assms by (simp add: CountCalendarPeriods_def Let_def month_idx_def algebra_simps)
  show "CountCalendarPeriods dur from to q = time_Year to - time_Year from"
    if "lastByte dur = CHR ''Y''" "dur \<noteq> []"
    using that assms by (simp add: CountCalendarPeriods_def Let_def)
  show "CountCalendarPeriods dur from to q =
      quarter_idx (quarter_phase q) to - quarter_idx (quarter_phase q) from"
    if "lastByte dur = CHR ''Q''" "dur \<noteq> []"
  proof -
    let ?p = "quarter_phase q"
    have to2: "2 \<le> month_idx to" using assms month_grid.idx_mono [of "from" to] by simp
    have le: "quarter_idx ?p from \<le> quarter_idx ?p to"
      using assms(1) by (simp add: quarter_grid.idx_mono)
    have ym: "time_Year (month_start i) * 12 + time_Month (month_start i) = i + 1" for i
      by (simp add: month_start_year_month)
    define A B where "A = quarterStartAt to q" and "B = quarterStartAt from q"
    have "CountCalendarPeriods dur from to q =
        ((time_Year A - time_Year B) * 12 + time_Month A - time_Month B) sdiv 3"
      using that assms(1) by (simp add: CountCalendarPeriods_def Let_def A_def B_def)
    also have "(time_Year A - time_Year B) * 12 + time_Month A - time_Month B =
        3 * (quarter_idx ?p to - quarter_idx ?p from)"
      using ym [of "3 * quarter_idx ?p to + ?p"] ym [of "3 * quarter_idx ?p from + ?p"]
        left_diff_distrib [of "time_Year A" "time_Year B" 12]
        right_diff_distrib [of 3 "quarter_idx ?p to" "quarter_idx ?p from"]
      unfolding A_def B_def quarterStartAt_grid [OF to2] quarterStartAt_grid [OF assms(2)]
        quarter_start_def by linarith
    also have "\<dots> sdiv 3 = quarter_idx ?p to - quarter_idx ?p from"
      using le by (simp add: sdiv_nonneg)
    finally show ?thesis .
  qed
qed

section \<open>Properties\<close>

lemma calendar_snap:
  assumes "IsCalendarAlignableDuration dur" "0 \<le> t"
  shows "GetCalendarPeriodStart dur t q \<le> t
    \<and> GetCalendarPeriodStart dur (GetCalendarPeriodStart dur t q) q = GetCalendarPeriodStart dur t q
    \<and> (\<forall>u. GetCalendarPeriodStart dur t q \<le> u \<and> u \<le> t \<longrightarrow>
         GetCalendarPeriodStart dur u q = GetCalendarPeriodStart dur t q)"
proof -
  obtain start idx where g: "period_grid start idx"
    and snap: "\<And>t. 2 \<le> month_idx t \<Longrightarrow> GetCalendarPeriodStart dur t q = start (idx t)"
    and low: "\<And>t. 0 \<le> t \<Longrightarrow> 2 \<le> month_idx (start (idx t))"
    using alignable_grid [OF assms(1)] by blast
  note grid = period_grid.start_idx_le [OF g] period_grid.idx_mono [OF g] period_grid.snap_idem [OF g]
  have t2: "2 \<le> month_idx t" using month_idx_nonneg [OF assms(2)] by simp
  have "start (idx u) = start (idx t)" if u: "start (idx t) \<le> u" "u \<le> t" for u
    using grid(2) [OF u(1)] grid(2) [OF u(2)] by (simp add: period_grid.idx_start [OF g])
  moreover have "2 \<le> month_idx u" if "start (idx t) \<le> u" for u
    using low [OF assms(2)] month_grid.idx_mono [OF that] by simp
  ultimately have "GetCalendarPeriodStart dur u q = start (idx t)"
    if "start (idx t) \<le> u" "u \<le> t" for u
    using that snap by metis
  then show ?thesis
    unfolding snap [OF t2] using grid(1) [of t] by blast
qed

text \<open>
  for every duration with a calendar boundary the period start of \<open>t\<close> lies at or
  before \<open>t\<close>, is its own period start, and is the period start of every instant between
  it and \<open>t\<close>: no boundary is skipped.
\<close>

theorem calendar_snap_opens_period:
  assumes "IsCalendarAlignableDuration dur" "0 \<le> t"
  shows "GetCalendarPeriodStart dur t q \<le> t
    \<and> GetCalendarPeriodStart dur (GetCalendarPeriodStart dur t q) q = GetCalendarPeriodStart dur t q
    \<and> (\<forall>u. GetCalendarPeriodStart dur t q \<le> u \<and> u \<le> t \<longrightarrow>
         GetCalendarPeriodStart dur u q = GetCalendarPeriodStart dur t q)"
  using assms by (rule calendar_snap)

theorem calendar_snap_opens_period_witness:
  "GetCalendarPeriodStart ''1M'' 63900000000000000000 1 \<le> 63900000000000000000
    \<and> GetCalendarPeriodStart ''1M'' (GetCalendarPeriodStart ''1M'' 63900000000000000000 1) 1
      = GetCalendarPeriodStart ''1M'' 63900000000000000000 1"
proof -
  have "IsCalendarAlignableDuration ''1M''"
    by (simp add: IsCalendarAlignableDuration_def lastByte_def)
  moreover have "(0 :: int) \<le> 63900000000000000000" by simp
  ultimately show ?thesis using calendar_snap_opens_period [of "''1M''" _ 1] by blast
qed

lemma calendar_periods_boundaries:
  assumes "IsCalendarAlignableDuration dur" "0 \<le> from" "from < to" "to - from + 7 * day < 2 ^ 63"
  shows "CountCalendarPeriods dur from to q =
    int (card {b. from < b \<and> b \<le> to \<and> GetCalendarPeriodStart dur b q = b})"
proof -
  have f2: "2 \<le> month_idx from" using month_idx_nonneg [OF assms(2)] by simp
  have b2: "2 \<le> month_idx b" if "from < b" for b
    using f2 month_grid.idx_mono [of "from" b] that by simp
  note count = CountCalendarPeriods_idx [OF assms(3) f2 assms(4)]
  have le: "from \<le> to" using assms(3) by simp
  show ?thesis using assms(1)
  proof (cases rule: alignable_cases)
    case d
    then show ?thesis using day_grid.count_boundaries [OF le]
      by (simp add: count GetCalendarPeriodStart_cases)
  next
    case w
    then show ?thesis using week_grid.count_boundaries [OF le]
      by (simp add: count GetCalendarPeriodStart_cases)
  next
    case M
    then show ?thesis using month_grid.count_boundaries [OF le]
      by (simp add: count GetCalendarPeriodStart_cases)
  next
    case Q
    have "{b. from < b \<and> b \<le> to \<and> GetCalendarPeriodStart dur b q = b} =
        {b. from < b \<and> b \<le> to \<and> quarter_start (quarter_phase q) (quarter_idx (quarter_phase q) b) = b}"
      using Q b2 by (auto simp: GetCalendarPeriodStart_cases quarterStartAt_grid)
    then show ?thesis using Q quarter_grid.count_boundaries [OF le, of "quarter_phase q"]
      by (simp add: count)
  next
    case Y
    then show ?thesis using year_grid.count_boundaries [OF le]
      by (simp add: count GetCalendarPeriodStart_cases)
  qed
qed

text \<open>
  \<^verbatim>\<open>CountCalendarPeriods\<close> returns exactly the number of instants in the interval
  \<open>(from, to]\<close> that \<^verbatim>\<open>GetCalendarPeriodStart\<close> maps to themselves, for days, weeks, months,
  fiscal quarters with any configured start and years, as long as the interval is short
  enough for Go's saturating time difference (about 292 years).
\<close>

theorem CountCalendarPeriods_counts_boundaries:
  assumes "IsCalendarAlignableDuration dur" "0 \<le> from" "from < to" "to - from + 7 * day < 2 ^ 63"
  shows "CountCalendarPeriods dur from to q =
    int (card {b. from < b \<and> b \<le> to \<and> GetCalendarPeriodStart dur b q = b})"
  using assms by (rule calendar_periods_boundaries)

theorem CountCalendarPeriods_counts_boundaries_witness:
  "CountCalendarPeriods ''1Q'' 63900000000000000000 63950000000000000000 4 =
    int (card {b. 63900000000000000000 < b \<and> b \<le> 63950000000000000000
           \<and> GetCalendarPeriodStart ''1Q'' b 4 = b})"
  using CountCalendarPeriods_counts_boundaries [of "''1Q''" 63900000000000000000 63950000000000000000 4]
  by (simp add: IsCalendarAlignableDuration_def lastByte_def)

text \<open>
  only the quarter start modulo 3 decides a fiscal quarter's boundaries, so a fiscal
  year opening in January, April, July or October has the same quarters.
\<close>

theorem quarterStartAt_period_three:
  assumes "1 \<le> q" "q \<le> 9"
  shows "quarterStartAt t (q + 3) = quarterStartAt t q"
proof -
  have "(x - (q + 3 - 1)) mod 3 = (x - (q - 1)) mod 3" for x :: int by presburger
  moreover have "\<not> (q + 3 < 1 \<or> q + 3 > 12)" "\<not> (q < 1 \<or> q > 12)" using assms by auto
  ultimately show ?thesis by (simp only: quarterStartAt_def Let_def smod_floor if_False)
qed

theorem quarterStartAt_period_three_witness:
  "quarterStartAt 63900000000000000000 (1 + 3) = quarterStartAt 63900000000000000000 1"
  by (rule quarterStartAt_period_three) simp_all

lemma rolling_lattice:
  assumes "0 < dur" "anchor \<le> now" "now - anchor < 2 ^ 63"
  shows "\<exists>k \<ge> 0. RollingWindowStart anchor dur now = anchor + k * dur
      \<and> anchor + k * dur \<le> now \<and> now < anchor + (k + 1) * dur
      \<and> RollingWindowStart (anchor + k * dur) dur now = anchor + k * dur
      \<and> (\<forall>u. anchor + k * dur \<le> u \<and> u \<le> now \<longrightarrow>
            RollingWindowStart anchor dur u = anchor + k * dur)"
proof -
  define k where "k = (now - anchor) div dur"
  have roll: "RollingWindowStart a dur u = a + (u - a) div dur * dur"
    if "a \<le> u" "u - a < 2 ^ 63" for a u
  proof -
    have "0 \<le> (u - a) div dur * dur" "(u - a) div dur * dur \<le> u - a"
      using that assms(1) pos_mod_sign [OF assms(1), of "u - a"]
        minus_mod_eq_div_mult [of "u - a" dur] pos_imp_zdiv_nonneg_iff [OF assms(1), of "u - a"]
      by (simp, linarith)
    then have "in64 ((u - a) div dur * dur)" "in64 (u - a)"
      using that by (auto simp: in64_def)
    then show ?thesis
      using that assms(1)
      by (simp add: RollingWindowStart_def time_Sub_def time_Add_def Let_def sdiv_nonneg)
  qed
  have k0: "0 \<le> k" using assms by (simp add: k_def pos_imp_zdiv_nonneg_iff)
  have g: "period_grid (\<lambda>i. anchor + i * dur) (\<lambda>t. (t - anchor) div dur)"
    by (rule rolling_grid [OF assms(1)])
  have lo: "anchor + k * dur \<le> now" and hi: "now < anchor + (k + 1) * dur"
    using period_grid.start_idx_le [OF g, of now] period_grid.less_next [OF g, of now]
    by (simp_all add: k_def)
  have ge: "anchor \<le> anchor + k * dur" using k0 assms(1) by simp
  have "(now - (anchor + k * dur)) div dur = 0"
    using lo hi by (simp add: algebra_simps)
  then have "RollingWindowStart (anchor + k * dur) dur now = anchor + k * dur"
    using roll [OF lo] ge assms(3) by simp
  moreover have "RollingWindowStart anchor dur u = anchor + k * dur"
    if u: "anchor + k * dur \<le> u" "u \<le> now" for u
  proof -
    have "(u - anchor) div dur = k"
      by (rule period_grid.idx_unique [OF g]) (use u hi in auto)
    then show ?thesis using roll [of anchor u] ge u assms(3) by simp
  qed
  moreover have "RollingWindowStart anchor dur now = anchor + k * dur"
    using roll [of anchor now] assms by (simp add: k_def)
  ultimately show ?thesis using k0 lo hi by blast
qed

text \<open>
  while the distance from the anchor fits a Go duration, the rolling window start is
  a lattice point \<open>anchor + k * dur\<close> at or before \<open>now\<close> and less than one window away, it is
  a fixed point of the computation whether the lattice is anchored at the original
  anchor or at the boundary itself, and every instant of the same window yields it.
\<close>

theorem rolling_window_lattice:
  assumes "0 < dur" "anchor \<le> now" "now - anchor < 2 ^ 63"
  shows "\<exists>k \<ge> 0. RollingWindowStart anchor dur now = anchor + k * dur
      \<and> anchor + k * dur \<le> now \<and> now < anchor + (k + 1) * dur
      \<and> RollingWindowStart (anchor + k * dur) dur now = anchor + k * dur
      \<and> (\<forall>u. anchor + k * dur \<le> u \<and> u \<le> now \<longrightarrow>
            RollingWindowStart anchor dur u = anchor + k * dur)"
  using assms by (rule rolling_lattice)

theorem rolling_window_lattice_witness:
  "\<exists>k \<ge> 0. RollingWindowStart 1000 hour 63900000000 = 1000 + k * hour \<and> 1000 + k * hour \<le> 63900000000"
  using rolling_window_lattice [of hour 1000 63900000000] by auto

text \<open>
  anchored at Go's zero time, which is where \<^verbatim>\<open>WindowStart\<close> anchors a row whose
  \<^verbatim>\<open>CreatedAt\<close> and \<^verbatim>\<open>LastReset\<close> are both unset, the time difference saturates: one hour
  windows in the year 2025 get a boundary in the year 293, and applying that boundary
  makes the next evaluation return a different one.
\<close>

theorem rolling_window_saturates_from_zero_time:
  "time_Year 63900000000000000000 = 2025
    \<and> time_Year (RollingWindowStart 0 hour 63900000000000000000) = 293
    \<and> RollingWindowStart (RollingWindowStart 0 hour 63900000000000000000) hour 63900000000000000000
        \<noteq> RollingWindowStart 0 hour 63900000000000000000"
  by (simp add: RollingWindowStart_def time_Sub_def time_Add_def Let_def in64_def max64_def
      min64_def sdiv_nonneg time_Year_def year_of_days_def days_before_year_def)

end
