(* ===== verification/Budget.thy ===== *)
theory Budget
  imports Windows
begin

text \<open>
  Budget rows and their finite overrides: framework/configstore/tables/budget.go.
  A \<^verbatim>\<open>*TableBudget\<close> that the code holds is a record; a method's nil-receiver guard is
  represented where the pointer may be nil, by the option type of the value the caller
  holds. A Go \<^verbatim>\<open>error\<close> is an \<open>err option\<close>, \<open>None\<close> for nil.

  The theorems: a grant that is set is well formed and a rejected one changes nothing; the
  remaining cycle count is a function of the immutable grant and the window boundary
  alone, tolerates sub-millisecond jitter and never grows as the boundary advances; a
  saved row satisfies every validation; adopting calendar alignment keeps the usage and
  moves the boundary forward only.
\<close>

record BudgetResetConfig =
  QuarterStartMonth :: int

record TableBudget =
  ID :: string
  MaxLimit :: f64
  ResetDuration :: string
  LastReset :: time
  CurrentUsage :: f64
  OverrideAmount :: f64
  OverrideMode :: string
  OverrideCyclesRemaining :: int
  OverrideCyclesTotal :: int
  OverrideAnchorReset :: "time option"
  ResetConfigJSON :: string
  ResetConfig :: "BudgetResetConfig option"
  UserID :: "string option"
  TeamID :: "string option"
  VirtualKeyID :: "string option"
  ProviderConfigID :: "nat option"
  ModelConfigID :: "string option"
  CustomerID :: "string option"
  IsCalendarAligned :: bool
  CreatedAt :: time

definition BudgetOverrideModeCycles :: string where
  "BudgetOverrideModeCycles = ''cycles''"

definition BudgetOverrideModeForever :: string where
  "BudgetOverrideModeForever = ''forever''"

section \<open>Reset windows\<close>

definition QuarterStart :: "BudgetResetConfig option \<Rightarrow> int" where
  "QuarterStart c =
     (case c of None \<Rightarrow> 1
      | Some c \<Rightarrow> if QuarterStartMonth c < 1 \<or> QuarterStartMonth c > 12 then 1
                  else QuarterStartMonth c)"

definition budget_QuarterStartMonth :: "TableBudget \<Rightarrow> int" where
  "budget_QuarterStartMonth b = QuarterStart (ResetConfig b)"

definition IsQuarterlyDuration :: "string \<Rightarrow> bool" where
  "IsQuarterlyDuration dur = (dur \<noteq> [] \<and> lastByte dur = CHR ''Q'')"

definition validateResetConfig :: "TableBudget \<Rightarrow> err option" where
  "validateResetConfig b =
     (case ResetConfig b of None \<Rightarrow> None
      | Some c \<Rightarrow>
        if \<not> IsQuarterlyDuration (ResetDuration b) then
          Some (Err (''reset_config is only valid on a quarterly reset duration, got: '' @ ResetDuration b))
        else let month = QuarterStartMonth c in
          if month \<noteq> 0 \<and> (month < 1 \<or> month > 12) then
            Some (Err (''quarter_start_month must be between 1 and 12, got: '' @ dec_int month))
          else None)"

definition WindowStart :: "TableBudget \<Rightarrow> time \<Rightarrow> time" where
  "WindowStart b now =
     (if ResetDuration b = [] then LastReset b
      else if IsCalendarAligned b \<and> IsCalendarAlignableDuration (ResetDuration b) then
        GetCalendarPeriodStart (ResetDuration b) now (budget_QuarterStartMonth b)
      else case ParseDuration (ResetDuration b) of
        Inl _ \<Rightarrow> LastReset b
      | Inr dur \<Rightarrow>
          if dur \<le> 0 then LastReset b
          else let anchor = (if time_IsZero (CreatedAt b) then LastReset b else CreatedAt b)
            in RollingWindowStart anchor dur now)"

definition AdoptCalendarAlignment :: "TableBudget \<Rightarrow> time \<Rightarrow> TableBudget \<times> bool" where
  "AdoptCalendarAlignment b now =
     (if \<not> IsCalendarAligned b \<or> \<not> IsCalendarAlignableDuration (ResetDuration b) then (b, False)
      else let start = WindowStart b now in
        if \<not> start > LastReset b then (b, False) else (b\<lparr>LastReset := start\<rparr>, True))"

section \<open>Overrides\<close>

definition HasActiveOverride :: "TableBudget \<Rightarrow> bool" where
  "HasActiveOverride b =
     (if f64_le (OverrideAmount b) (Fin 0) then False
      else OverrideMode b = BudgetOverrideModeForever \<or>
        (OverrideMode b = BudgetOverrideModeCycles \<and> OverrideCyclesRemaining b > 0))"

definition EffectiveMaxLimit :: "TableBudget \<Rightarrow> f64" where
  "EffectiveMaxLimit b =
     (if \<not> HasActiveOverride b then MaxLimit b else f64_add (MaxLimit b) (OverrideAmount b))"

definition validateOverride :: "TableBudget \<Rightarrow> err option" where
  "validateOverride b =
     (if OverrideAmount b = NaN \<or> OverrideAmount b = PosInf \<or> OverrideAmount b = NegInf then
        Some (Err ''budget override_amount must be finite'')
      else if OverrideMode b = [] then
        (if \<not> f64_eq (OverrideAmount b) (Fin 0) \<or> OverrideCyclesRemaining b \<noteq> 0 then
           Some (Err ''budget override fields require override_mode'')
         else if OverrideCyclesTotal b \<noteq> 0 \<or> OverrideAnchorReset b \<noteq> None then
           Some (Err ''budget override grant fields require override_mode'')
         else None)
      else if OverrideMode b = BudgetOverrideModeCycles then
        (if f64_le (OverrideAmount b) (Fin 0) then
           Some (Err ''budget override_amount must be > 0 for cycles mode'')
         else if OverrideCyclesRemaining b \<le> 0 then
           Some (Err ''budget override_cycles_remaining must be > 0 for cycles mode'')
         else if OverrideAnchorReset b = None then
           Some (Err ''budget override_anchor_reset is required for cycles mode'')
         else if OverrideCyclesTotal b < OverrideCyclesRemaining b then
           Some (Err ''budget override_cycles_total must be >= override_cycles_remaining for cycles mode'')
         else None)
      else if OverrideMode b = BudgetOverrideModeForever then
        (if f64_le (OverrideAmount b) (Fin 0) then
           Some (Err ''budget override_amount must be > 0 for forever mode'')
         else if OverrideCyclesRemaining b \<noteq> 0 then
           Some (Err ''budget override_cycles_remaining must be 0 for forever mode'')
         else if OverrideCyclesTotal b \<noteq> 0 \<or> OverrideAnchorReset b \<noteq> None then
           Some (Err ''budget override grant fields must be empty for forever mode'')
         else None)
      else Some (Err (''invalid budget override_mode: '' @ OverrideMode b)))"

definition SetOverrideAt ::
    "TableBudget \<Rightarrow> f64 \<Rightarrow> string \<Rightarrow> int \<Rightarrow> time \<Rightarrow> TableBudget \<times> err option" where
  "SetOverrideAt b amount mode cyclesTotal anchor =
     (let b1 = b\<lparr>OverrideAmount := amount, OverrideMode := mode,
                 OverrideCyclesRemaining := cyclesTotal\<rparr>;
          b2 = (if mode = BudgetOverrideModeCycles then
                  b1\<lparr>OverrideCyclesTotal := cyclesTotal, OverrideAnchorReset := Some anchor\<rparr>
                else b1\<lparr>OverrideCyclesTotal := 0, OverrideAnchorReset := None\<rparr>)
      in case validateOverride b2 of
           Some e \<Rightarrow>
             (b2\<lparr>OverrideAmount := OverrideAmount b, OverrideMode := OverrideMode b,
                 OverrideCyclesRemaining := OverrideCyclesRemaining b,
                 OverrideCyclesTotal := OverrideCyclesTotal b,
                 OverrideAnchorReset := OverrideAnchorReset b\<rparr>, Some e)
         | None \<Rightarrow> (b2, None))"

definition SetOverride :: "TableBudget \<Rightarrow> f64 \<Rightarrow> string \<Rightarrow> int \<Rightarrow> TableBudget \<times> err option" where
  "SetOverride b amount mode cyclesRemaining =
     SetOverrideAt b amount mode cyclesRemaining (LastReset b)"

definition ClearOverride :: "TableBudget \<Rightarrow> TableBudget" where
  "ClearOverride b =
     b\<lparr>OverrideAmount := Fin 0, OverrideMode := [], OverrideCyclesRemaining := 0,
       OverrideCyclesTotal := 0, OverrideAnchorReset := None\<rparr>"

definition boundaryJitterTolerance :: duration where
  "boundaryJitterTolerance = millisecond"

definition WindowsSinceAnchor :: "TableBudget \<Rightarrow> int" where
  "WindowsSinceAnchor b =
     (case OverrideAnchorReset b of None \<Rightarrow> 0
      | Some anchor \<Rightarrow>
        if ResetDuration b = [] then 0
        else if \<not> LastReset b > time_Add anchor boundaryJitterTolerance then 0
        else if IsCalendarAligned b \<and> IsCalendarAlignableDuration (ResetDuration b) then
          CountCalendarPeriods (ResetDuration b) (time_Add anchor boundaryJitterTolerance)
            (time_Add (LastReset b) boundaryJitterTolerance) (budget_QuarterStartMonth b)
        else case ParseDuration (ResetDuration b) of
          Inl _ \<Rightarrow> 0
        | Inr dur \<Rightarrow>
            if dur \<le> 0 then 0
            else wrap64 (time_Sub (LastReset b) anchor + boundaryJitterTolerance) sdiv dur)"

definition RefreshOverrideCyclesRemaining :: "TableBudget \<Rightarrow> TableBudget" where
  "RefreshOverrideCyclesRemaining b =
     (if OverrideMode b \<noteq> BudgetOverrideModeCycles then b
      else let remaining = wrap64 (OverrideCyclesTotal b - WindowsSinceAnchor b) in
        if remaining \<le> 0 then ClearOverride b else b\<lparr>OverrideCyclesRemaining := remaining\<rparr>)"

section \<open>Saving a row\<close>

text \<open>\<^verbatim>\<open>json.Marshal\<close> of a \<^verbatim>\<open>BudgetResetConfig\<close>, whose only field is omitted when zero.\<close>

definition marshal_BudgetResetConfig :: "BudgetResetConfig \<Rightarrow> string" where
  "marshal_BudgetResetConfig c =
     (if QuarterStartMonth c = 0 then ''{}''
      else ''{'' @ [CHR 0x22] @ ''quarter_start_month'' @ [CHR 0x22] @ '':''
           @ dec_int (QuarterStartMonth c) @ ''}'')"

definition budget_owners :: "TableBudget \<Rightarrow> nat" where
  "budget_owners b =
     length (filter id [UserID b \<noteq> None, TeamID b \<noteq> None, VirtualKeyID b \<noteq> None,
       ProviderConfigID b \<noteq> None, ModelConfigID b \<noteq> None, CustomerID b \<noteq> None])"

definition budget_BeforeSave :: "TableBudget \<Rightarrow> TableBudget \<times> err option" where
  "budget_BeforeSave b =
     (if UserID b = Some [] then (b, Some (Err ''budget user_id must not be empty''))
      else if budget_owners b > 1 then (b, Some (Err ''budget cannot have more than one owner''))
      else case ParseDuration (ResetDuration b) of
        Inl _ \<Rightarrow> (b, Some (Err (''invalid reset duration format: '' @ ResetDuration b)))
      | Inr d \<Rightarrow>
          if d \<le> 0 then (b, Some (Err (''reset duration must be > 0: '' @ ResetDuration b)))
          else if f64_lt (MaxLimit b) (Fin 0) then
            (b, Some (Err ''budget max_limit cannot be negative''))
          else case validateOverride b of
            Some e \<Rightarrow> (b, Some e)
          | None \<Rightarrow>
              (case validateResetConfig b of
                 Some e \<Rightarrow> (b, Some e)
               | None \<Rightarrow>
                   (b\<lparr>ResetConfigJSON :=
                       (case ResetConfig b of None \<Rightarrow> []
                        | Some c \<Rightarrow> marshal_BudgetResetConfig c)\<rparr>, None)))"

section \<open>Lemmas\<close>

lemma refresh_frame [frame_simps, simp]:
  "ID (RefreshOverrideCyclesRemaining b) = ID b"
  "MaxLimit (RefreshOverrideCyclesRemaining b) = MaxLimit b"
  "ResetDuration (RefreshOverrideCyclesRemaining b) = ResetDuration b"
  "LastReset (RefreshOverrideCyclesRemaining b) = LastReset b"
  "CurrentUsage (RefreshOverrideCyclesRemaining b) = CurrentUsage b"
  "ResetConfig (RefreshOverrideCyclesRemaining b) = ResetConfig b"
  "IsCalendarAligned (RefreshOverrideCyclesRemaining b) = IsCalendarAligned b"
  "CreatedAt (RefreshOverrideCyclesRemaining b) = CreatedAt b"
  by (simp_all add: RefreshOverrideCyclesRemaining_def ClearOverride_def Let_def)

lemma WindowStart_cong:
  "\<lbrakk>ResetDuration a = ResetDuration b; LastReset a = LastReset b; ResetConfig a = ResetConfig b;
    IsCalendarAligned a = IsCalendarAligned b; CreatedAt a = CreatedAt b\<rbrakk>
   \<Longrightarrow> WindowStart a now = WindowStart b now"
  by (simp add: WindowStart_def budget_QuarterStartMonth_def split: sum.split)

lemma WindowStart_refresh [simp]:
  "WindowStart (RefreshOverrideCyclesRemaining b) now = WindowStart b now"
  by (rule WindowStart_cong) simp_all

lemma WindowStart_usage [simp]: "WindowStart (b\<lparr>CurrentUsage := u\<rparr>) now = WindowStart b now"
  by (rule WindowStart_cong) simp_all

lemma WindowsSinceAnchor_remaining [simp]:
  "WindowsSinceAnchor (b\<lparr>OverrideCyclesRemaining := n\<rparr>) = WindowsSinceAnchor b"
  by (auto simp: WindowsSinceAnchor_def budget_QuarterStartMonth_def split: option.split sum.split)

lemma refresh_remaining:
  "OverrideMode b = BudgetOverrideModeCycles \<Longrightarrow>
   RefreshOverrideCyclesRemaining (b\<lparr>OverrideCyclesRemaining := n\<rparr>) = RefreshOverrideCyclesRemaining b"
  by (simp add: RefreshOverrideCyclesRemaining_def ClearOverride_def Let_def)

lemma refresh_refresh [simp]:
  "RefreshOverrideCyclesRemaining (RefreshOverrideCyclesRemaining b) = RefreshOverrideCyclesRemaining b"
  by (simp add: RefreshOverrideCyclesRemaining_def ClearOverride_def Let_def
      BudgetOverrideModeCycles_def)

lemma refresh_usage [simp]:
  "RefreshOverrideCyclesRemaining (b\<lparr>CurrentUsage := u\<rparr>) = RefreshOverrideCyclesRemaining b\<lparr>CurrentUsage := u\<rparr>"
proof -
  have "WindowsSinceAnchor (b\<lparr>CurrentUsage := u\<rparr>) = WindowsSinceAnchor b"
    by (auto simp: WindowsSinceAnchor_def budget_QuarterStartMonth_def split: option.split sum.split)
  then show ?thesis by (simp add: RefreshOverrideCyclesRemaining_def ClearOverride_def Let_def)
qed

lemma CountCalendarPeriods_nonneg:
  assumes "2 \<le> month_idx from" "to - from + 7 * day < 2 ^ 63"
  shows "0 \<le> CountCalendarPeriods dur from to q"
proof (cases "IsCalendarAlignableDuration dur \<and> from < to")
  case False
  then show ?thesis
    by (auto simp: CountCalendarPeriods_def Let_def IsCalendarAlignableDuration_def)
next
  case True
  then have le: "from \<le> to" and lt: "from < to" and al: "IsCalendarAlignableDuration dur" by auto
  note c = CountCalendarPeriods_idx [OF lt assms]
  show ?thesis using al
    by (cases rule: alignable_cases)
       (use day_grid.idx_mono [OF le] week_grid.idx_mono [OF le] month_grid.idx_mono [OF le]
          quarter_grid.idx_mono [OF le] year_grid.idx_mono [OF le] in \<open>simp_all add: c\<close>)
qed

lemma WindowsSinceAnchor_rolling:
  assumes rolling: "\<not> (IsCalendarAligned b \<and> IsCalendarAlignableDuration (ResetDuration b))"
    and dur: "ParseDuration (ResetDuration b) = Inr d" "2 * millisecond < d"
    and grant: "OverrideAnchorReset b = Some anchor"
    and reset: "LastReset b = anchor + k * d + j" "\<bar>j\<bar> \<le> millisecond"
    and k: "0 \<le> k" "k * d + 2 * millisecond < 2 ^ 63"
  shows "WindowsSinceAnchor b = k"
proof -
  have ne: "ResetDuration b \<noteq> []" using dur(1) by (auto simp: ParseDuration_def)
  have d0: "0 < d" using dur(2) by simp
  have kd: "0 \<le> k * d" using k(1) d0 by simp
  show ?thesis
  proof (cases "k = 0")
    case True
    then have "\<not> time_Add anchor boundaryJitterTolerance < LastReset b"
      using reset by (simp add: time_Add_def boundaryJitterTolerance_def)
    then show ?thesis using True grant by (simp add: WindowsSinceAnchor_def)
  next
    case False
    then have "d \<le> k * d" using k(1) d0 by (simp add: mult_le_cancel_right1)
    then have gt: "LastReset b > anchor + millisecond" using reset dur(2) by linarith
    have "in64 (k * d + j)" "in64 (k * d + (j + millisecond))"
      using reset(2) k kd by (auto simp: in64_def)
    then have "wrap64 (time_Sub (LastReset b) anchor + millisecond) = k * d + (j + millisecond)"
      using reset(1) by (simp add: time_Sub_def Let_def add.assoc)
    moreover have "(k * d + (j + millisecond)) sdiv d = k"
    proof -
      have j: "0 \<le> j + millisecond" "j + millisecond < d" using reset(2) dur(2) by linarith+
      then have "(k * d + (j + millisecond)) div d = k"
        using int_div_pos_eq [of "k * d + (j + millisecond)" d k "j + millisecond"]
        by (simp add: mult.commute)
      then show ?thesis using kd j d0 by (simp add: sdiv_nonneg)
    qed
    ultimately show ?thesis
      using ne gt rolling dur(1) d0 grant
      by (auto simp: WindowsSinceAnchor_def time_Add_def boundaryJitterTolerance_def)
  qed
qed

lemma WindowStart_calendar:
  assumes "IsCalendarAligned b" "IsCalendarAlignableDuration (ResetDuration b)"
  shows "WindowStart b now = GetCalendarPeriodStart (ResetDuration b) now (budget_QuarterStartMonth b)"
  using assms by (auto simp: WindowStart_def IsCalendarAlignableDuration_def)

section \<open>Properties\<close>

text \<open>
  setting an override either installs exactly the requested amount, mode and count as
  a state that passes the override validation, or reports an error and leaves the whole
  budget as it was. In both cases nothing but the override fields can change.
\<close>

theorem SetOverrideAt_all_or_nothing:
  "case SetOverrideAt b amount mode n anchor of
     (b', Some e) \<Rightarrow> b' = b
   | (b', None) \<Rightarrow>
       validateOverride b' = None \<and> OverrideAmount b' = amount \<and> OverrideMode b' = mode
       \<and> OverrideCyclesRemaining b' = n
       \<and> OverrideCyclesTotal b' = (if mode = BudgetOverrideModeCycles then n else 0)
       \<and> OverrideAnchorReset b' = (if mode = BudgetOverrideModeCycles then Some anchor else None)
       \<and> CurrentUsage b' = CurrentUsage b \<and> MaxLimit b' = MaxLimit b \<and> LastReset b' = LastReset b"
  by (auto simp: SetOverrideAt_def Let_def split: option.splits)

text \<open>
  the remaining cycle count of a finite override is a function of the immutable grant
  and the window boundary: whatever count a reloaded row carries, refreshing it gives the
  same budget, and refreshing twice is refreshing once.
\<close>

theorem refresh_is_derived:
  assumes "OverrideMode b = BudgetOverrideModeCycles"
  shows "RefreshOverrideCyclesRemaining (b\<lparr>OverrideCyclesRemaining := n\<rparr>) = RefreshOverrideCyclesRemaining b
     \<and> RefreshOverrideCyclesRemaining (RefreshOverrideCyclesRemaining b) = RefreshOverrideCyclesRemaining b"
  using assms by (simp add: refresh_remaining refresh_refresh)

definition sample_budget :: TableBudget where
  "sample_budget =
     \<lparr>ID = ''b1'', MaxLimit = Fin 100, ResetDuration = ''1h'', LastReset = 63900000000000000000,
      CurrentUsage = Fin 7, OverrideAmount = Fin 50, OverrideMode = ''cycles'',
      OverrideCyclesRemaining = 3, OverrideCyclesTotal = 3,
      OverrideAnchorReset = Some 63899992800000000000, ResetConfigJSON = [], ResetConfig = None,
      UserID = None, TeamID = Some ''team'', VirtualKeyID = None, ProviderConfigID = None,
      ModelConfigID = None, CustomerID = None, IsCalendarAligned = False,
      CreatedAt = 63899992800000000000\<rparr>"

theorem refresh_is_derived_witness:
  "RefreshOverrideCyclesRemaining (sample_budget\<lparr>OverrideCyclesRemaining := 99\<rparr>)
     = RefreshOverrideCyclesRemaining sample_budget"
  using refresh_is_derived [of sample_budget 99]
  by (simp add: sample_budget_def BudgetOverrideModeCycles_def)

text \<open>
  a finite override on a rolling budget lives exactly as many windows as it was granted
  for. If the boundary is \<open>k\<close> windows after the anchor, up to a millisecond of jitter, the
  override is active with \<open>total - k\<close> cycles left and raises the limit by its amount while
  \<open>k < total\<close>, and is gone, with the base limit back in force, from then on.
\<close>

theorem finite_override_lifetime:
  assumes "\<not> (IsCalendarAligned b \<and> IsCalendarAlignableDuration (ResetDuration b))"
    and "ParseDuration (ResetDuration b) = Inr d" "2 * millisecond < d"
    and "OverrideMode b = BudgetOverrideModeCycles" "validateOverride b = None"
    and "OverrideAnchorReset b = Some anchor" "OverrideCyclesTotal b < 2 ^ 63"
    and "LastReset b = anchor + k * d + j" "\<bar>j\<bar> \<le> millisecond"
    and "0 \<le> k" "k * d + 2 * millisecond < 2 ^ 63"
  shows "if k < OverrideCyclesTotal b
    then OverrideCyclesRemaining (RefreshOverrideCyclesRemaining b) = OverrideCyclesTotal b - k
      \<and> EffectiveMaxLimit (RefreshOverrideCyclesRemaining b) = f64_add (MaxLimit b) (OverrideAmount b)
    else OverrideMode (RefreshOverrideCyclesRemaining b) = []
      \<and> EffectiveMaxLimit (RefreshOverrideCyclesRemaining b) = MaxLimit b"
proof -
  have w: "WindowsSinceAnchor b = k"
    by (rule WindowsSinceAnchor_rolling [OF assms(1-3,6,8-11)])
  have v: "0 < OverrideCyclesTotal b" "\<not> f64_le (OverrideAmount b) (Fin 0)"
    using assms(4,5) by (auto simp: validateOverride_def BudgetOverrideModeCycles_def split: if_splits)
  have "d * k \<ge> 1 * k" using assms(3,10) by (intro mult_right_mono) auto
  then have "in64 (OverrideCyclesTotal b - k)"
    using v(1) assms(7,10,11) by (simp add: in64_def mult.commute)
  then show ?thesis
    using assms(4) v w
    by (simp add: RefreshOverrideCyclesRemaining_def EffectiveMaxLimit_def HasActiveOverride_def
        ClearOverride_def Let_def BudgetOverrideModeCycles_def BudgetOverrideModeForever_def)
qed

lemmas parse_duration_defs = ParseDuration_def lastByte_def time_ParseDuration_def parse_loop.simps
  parse_component_def fraction_part_def unit_part_def unitMap_def is_digit_def digit_val_def
  unit_char_def

lemma parse_1h: "ParseDuration ''1h'' = Inr hour"
  by (simp add: parse_duration_defs)

theorem finite_override_lifetime_witness:
  "OverrideCyclesRemaining (RefreshOverrideCyclesRemaining sample_budget) = 1
    \<and> EffectiveMaxLimit (RefreshOverrideCyclesRemaining sample_budget) = Fin 150"
  using finite_override_lifetime [of sample_budget hour 63899992800000000000 2 0]
  by (simp add: sample_budget_def parse_1h validateOverride_def BudgetOverrideModeCycles_def)

text \<open>
  on a calendar-aligned budget the number of cycles a finite override has spent is the
  number of the budget's own reset boundaries between the grant's anchor and the current
  boundary, both moved by the jitter tolerance.
\<close>

theorem calendar_override_counts_boundaries:
  assumes "IsCalendarAligned b" "IsCalendarAlignableDuration (ResetDuration b)"
    and "OverrideAnchorReset b = Some anchor" "0 \<le> anchor"
    and "anchor + millisecond < LastReset b" "LastReset b - anchor + 7 * day < 2 ^ 63"
  shows "WindowsSinceAnchor b =
    int (card {t. anchor + millisecond < t \<and> t \<le> LastReset b + millisecond \<and> WindowStart b t = t})"
proof -
  have "ResetDuration b \<noteq> []" using assms(2) by (auto simp: IsCalendarAlignableDuration_def)
  then have "WindowsSinceAnchor b = CountCalendarPeriods (ResetDuration b) (anchor + millisecond)
      (LastReset b + millisecond) (budget_QuarterStartMonth b)"
    using assms by (simp add: WindowsSinceAnchor_def time_Add_def boundaryJitterTolerance_def)
  also have "\<dots> = int (card {t. anchor + millisecond < t \<and> t \<le> LastReset b + millisecond
      \<and> GetCalendarPeriodStart (ResetDuration b) t (budget_QuarterStartMonth b) = t})"
    by (rule calendar_periods_boundaries) (use assms in auto)
  finally show ?thesis by (simp add: WindowStart_calendar assms(1,2))
qed

theorem calendar_override_counts_boundaries_witness:
  "WindowsSinceAnchor (sample_budget\<lparr>IsCalendarAligned := True, ResetDuration := ''1d''\<rparr>) =
    int (card {t. 63899992800000000000 + millisecond < t \<and> t \<le> 63900000000000000000 + millisecond
      \<and> WindowStart (sample_budget\<lparr>IsCalendarAligned := True, ResetDuration := ''1d''\<rparr>) t = t})"
proof -
  let ?b = "sample_budget\<lparr>IsCalendarAligned := True, ResetDuration := ''1d''\<rparr>"
  have "WindowsSinceAnchor ?b = int (card {t. 63899992800000000000 + millisecond < t
      \<and> t \<le> LastReset ?b + millisecond \<and> WindowStart ?b t = t})"
    by (rule calendar_override_counts_boundaries)
       (simp_all add: sample_budget_def IsCalendarAlignableDuration_def lastByte_def)
  then show ?thesis by (simp add: sample_budget_def)
qed

text \<open>
  switching a budget to calendar alignment never forgives or adds spend and never moves
  the boundary backward; when it moves the boundary, the new one is the start of the
  current calendar period, so afterwards the window is not overdue.
\<close>

theorem AdoptCalendarAlignment_keeps_usage:
  "case AdoptCalendarAlignment b now of (b', moved) \<Rightarrow>
     CurrentUsage b' = CurrentUsage b \<and> LastReset b \<le> LastReset b'
     \<and> b' = b\<lparr>LastReset := LastReset b'\<rparr> \<and> (moved \<longleftrightarrow> LastReset b < LastReset b')
     \<and> (IsCalendarAligned b \<and> IsCalendarAlignableDuration (ResetDuration b) \<longrightarrow>
          WindowStart b' now \<le> LastReset b' \<and> (moved \<longrightarrow> WindowStart b' now = LastReset b'))"
proof -
  have "WindowStart (b\<lparr>LastReset := t\<rparr>) now = WindowStart b now"
    if "IsCalendarAligned b" "IsCalendarAlignableDuration (ResetDuration b)" for t
    using that by (simp add: WindowStart_calendar budget_QuarterStartMonth_def)
  then show ?thesis by (auto simp: AdoptCalendarAlignment_def Let_def)
qed

theorem AdoptCalendarAlignment_keeps_usage_witness:
  "case AdoptCalendarAlignment (sample_budget\<lparr>IsCalendarAligned := True, ResetDuration := ''1d''\<rparr>)
      64000000000000000000 of (b', moved) \<Rightarrow> CurrentUsage b' = Fin 7"
  using AdoptCalendarAlignment_keeps_usage
    [of "sample_budget\<lparr>IsCalendarAligned := True, ResetDuration := ''1d''\<rparr>" 64000000000000000000]
  by (auto simp: sample_budget_def)

text \<open>
  a budget row that passes \<^verbatim>\<open>BeforeSave\<close> has at most one owner, a parseable positive reset
  duration, a limit that is not negative, a well-formed override and, if it carries a
  quarter definition, a quarterly window with a month in range; the hook changes only the
  serialized reset configuration, and a rejected row is not changed at all.
\<close>

theorem budget_BeforeSave_validates:
  "case budget_BeforeSave b of
     (b', Some e) \<Rightarrow> b' = b
   | (b', None) \<Rightarrow>
       b' = b\<lparr>ResetConfigJSON := ResetConfigJSON b'\<rparr> \<and> budget_owners b \<le> 1 \<and> UserID b \<noteq> Some []
       \<and> (\<exists>d > 0. ParseDuration (ResetDuration b) = Inr d) \<and> \<not> f64_lt (MaxLimit b) (Fin 0)
       \<and> validateOverride b = None
       \<and> (\<exists>q. OverrideAmount b = Fin q)
       \<and> (case ResetConfig b of None \<Rightarrow> ResetConfigJSON b' = []
          | Some c \<Rightarrow> lastByte (ResetDuration b) = CHR ''Q'' \<and> 0 \<le> QuarterStartMonth c
              \<and> QuarterStartMonth c \<le> 12 \<and> ResetConfigJSON b' = marshal_BudgetResetConfig c)"
proof -
  have "\<exists>q. OverrideAmount b = Fin q" if "validateOverride b = None"
    using that by (cases "OverrideAmount b") (auto simp: validateOverride_def)
  then show ?thesis
    by (auto simp: budget_BeforeSave_def validateResetConfig_def IsQuarterlyDuration_def Let_def
        split: sum.splits option.splits)
qed

end
