(* ===== verification/RateLimit.thy ===== *)
theory RateLimit
  imports Budget
begin

text \<open>
  Rate-limit rows: framework/configstore/tables/ratelimit.go. A rate limit carries two
  independent counters, tokens and requests, each with an optional limit, an optional
  reset duration and its own window boundary. Field names that the budget row also has
  carry the prefix \<open>rl_\<close>. The theorems say what a saved row guarantees and that adopting
  calendar alignment treats the two counters independently and keeps both usages.
\<close>

record TableRateLimit =
  rl_ID :: string
  TokenMaxLimit :: "int option"
  TokenResetDuration :: "string option"
  TokenCurrentUsage :: int
  TokenLastReset :: time
  RequestMaxLimit :: "int option"
  RequestResetDuration :: "string option"
  RequestCurrentUsage :: int
  RequestLastReset :: time
  rl_IsCalendarAligned :: bool
  rl_CreatedAt :: time

definition rl_BeforeSave :: "TableRateLimit \<Rightarrow> err option" where
  "rl_BeforeSave rl =
     (let bad_duration = (\<lambda>label d. case d of None \<Rightarrow> None
        | Some s \<Rightarrow> (case ParseDuration s of
            Inl _ \<Rightarrow> Some (Err (''invalid '' @ label @ '' reset duration format: '' @ s))
          | Inr dur \<Rightarrow> if dur \<le> 0 then
              Some (Err (label @ '' reset duration cannot be zero or negative: '' @ s)) else None))
      in case bad_duration ''token'' (TokenResetDuration rl) of Some e \<Rightarrow> Some e
      | None \<Rightarrow> (case bad_duration ''request'' (RequestResetDuration rl) of Some e \<Rightarrow> Some e
      | None \<Rightarrow>
        if TokenMaxLimit rl \<noteq> None \<and> TokenResetDuration rl = None then
          Some (Err ''token_reset_duration is required when token_max_limit is set'')
        else if RequestMaxLimit rl \<noteq> None \<and> RequestResetDuration rl = None then
          Some (Err ''request_reset_duration is required when request_max_limit is set'')
        else case TokenMaxLimit rl of
          Some m \<Rightarrow>
            if m \<le> 0 then Some (Err (''token_max_limit cannot be zero or negative: '' @ dec_int m))
            else (case RequestMaxLimit rl of
                Some m \<Rightarrow> if m \<le> 0 then
                    Some (Err (''request_max_limit cannot be zero or negative: '' @ dec_int m)) else None
              | None \<Rightarrow> None)
        | None \<Rightarrow> (case RequestMaxLimit rl of
                Some m \<Rightarrow> if m \<le> 0 then
                    Some (Err (''request_max_limit cannot be zero or negative: '' @ dec_int m)) else None
              | None \<Rightarrow> None)))"

text \<open>The closure \<^verbatim>\<open>adopt\<close> returns the new boundary and whether it moved.\<close>

definition rl_adopt :: "time \<Rightarrow> string option \<Rightarrow> time \<Rightarrow> time \<times> bool" where
  "rl_adopt now dur lastReset =
     (case dur of None \<Rightarrow> (lastReset, False)
      | Some s \<Rightarrow>
        if \<not> IsCalendarAlignableDuration s then (lastReset, False)
        else let start = GetCalendarPeriodStart s now QuarterStartNotApplicable in
          if \<not> start > lastReset then (lastReset, False) else (start, True))"

definition rl_AdoptCalendarAlignment :: "TableRateLimit \<Rightarrow> time \<Rightarrow> TableRateLimit \<times> bool" where
  "rl_AdoptCalendarAlignment rl now =
     (if \<not> rl_IsCalendarAligned rl then (rl, False)
      else let (tl, tokenMoved) = rl_adopt now (TokenResetDuration rl) (TokenLastReset rl);
               (qr, requestMoved) = rl_adopt now (RequestResetDuration rl) (RequestLastReset rl)
           in (rl\<lparr>TokenLastReset := tl, RequestLastReset := qr\<rparr>, tokenMoved \<or> requestMoved))"

text \<open>
  \<^verbatim>\<open>StampCalendarAlignment\<close> (budget.go) copies an owner's flag onto its budgets and its rate
  limit.
\<close>

definition stamp_budget :: "bool \<Rightarrow> TableBudget \<Rightarrow> TableBudget" where
  "stamp_budget aligned b = b\<lparr>IsCalendarAligned := aligned\<rparr>"

definition stamp_rl :: "bool \<Rightarrow> TableRateLimit \<Rightarrow> TableRateLimit" where
  "stamp_rl aligned rl = rl\<lparr>rl_IsCalendarAligned := aligned\<rparr>"

definition StampCalendarAlignment ::
    "bool \<Rightarrow> TableBudget list \<Rightarrow> TableRateLimit option \<Rightarrow> TableBudget list \<times> TableRateLimit option" where
  "StampCalendarAlignment aligned bs rl =
     (map (stamp_budget aligned) bs, map_option (stamp_rl aligned) rl)"

section \<open>Properties\<close>

text \<open>
  a rate limit that passes \<^verbatim>\<open>BeforeSave\<close> has, on each counter, a parseable positive reset
  duration whenever one is given, and a positive limit only together with a reset duration.
\<close>

theorem rl_BeforeSave_validates:
  "rl_BeforeSave rl = None \<longleftrightarrow>
     (\<forall>(m, d) \<in> {(TokenMaxLimit rl, TokenResetDuration rl),
                 (RequestMaxLimit rl, RequestResetDuration rl)}.
        (case d of None \<Rightarrow> m = None | Some s \<Rightarrow> \<exists>dur > 0. ParseDuration s = Inr dur)
        \<and> (case m of None \<Rightarrow> True | Some k \<Rightarrow> 0 < k))"
  by (auto simp: rl_BeforeSave_def Let_def split: option.splits sum.splits if_splits)

lemma rl_adopt_cases:
  "rl_adopt now d t = (if (\<exists>s. d = Some s \<and> IsCalendarAlignableDuration s
       \<and> t < GetCalendarPeriodStart s now QuarterStartNotApplicable)
     then (GetCalendarPeriodStart (the d) now QuarterStartNotApplicable, True) else (t, False))"
  by (auto simp: rl_adopt_def Let_def split: option.split)

text \<open>
  adopting calendar alignment changes nothing of a rate limit but the two boundaries,
  each counter's boundary moves only forward and by its own duration alone, and the
  result says whether at least one of the two moved.
\<close>

theorem rl_adopt_independent:
  "case rl_AdoptCalendarAlignment rl now of (rl', moved) \<Rightarrow>
     rl' = rl\<lparr>TokenLastReset := TokenLastReset rl', RequestLastReset := RequestLastReset rl'\<rparr>
     \<and> TokenLastReset rl \<le> TokenLastReset rl' \<and> RequestLastReset rl \<le> RequestLastReset rl'
     \<and> (moved \<longleftrightarrow> TokenLastReset rl < TokenLastReset rl' \<or> RequestLastReset rl < RequestLastReset rl')
     \<and> (rl_IsCalendarAligned rl \<longrightarrow>
          TokenLastReset rl' = fst (rl_adopt now (TokenResetDuration rl) (TokenLastReset rl))
        \<and> RequestLastReset rl' = fst (rl_adopt now (RequestResetDuration rl) (RequestLastReset rl)))"
  by (auto simp: rl_AdoptCalendarAlignment_def rl_adopt_cases Let_def)

definition sample_rl :: TableRateLimit where
  "sample_rl = \<lparr>rl_ID = ''r1'', TokenMaxLimit = Some 1000, TokenResetDuration = Some ''1h'',
     TokenCurrentUsage = 10, TokenLastReset = 63899992800000000000, RequestMaxLimit = Some 5,
     RequestResetDuration = Some ''1d'', RequestCurrentUsage = 2,
     RequestLastReset = 63899992800000000000, rl_IsCalendarAligned = True,
     rl_CreatedAt = 63899992800000000000\<rparr>"

theorem rl_adopt_independent_witness:
  "case rl_AdoptCalendarAlignment sample_rl 64000000000000000000 of (rl', moved) \<Rightarrow>
     RequestCurrentUsage rl' = 2 \<and> TokenLastReset rl' = 63899992800000000000"
  using rl_adopt_independent [of sample_rl 64000000000000000000]
  by (auto simp: sample_rl_def rl_adopt_def IsCalendarAlignableDuration_def lastByte_def)

theorem rl_BeforeSave_validates_witness:
  "rl_BeforeSave (sample_rl\<lparr>RequestResetDuration := None\<rparr>) \<noteq> None"
  unfolding rl_BeforeSave_validates by (simp add: sample_rl_def)

end
