(* ===== verification/Governance_Tables.thy ===== *)
theory Governance_Tables
  imports RateLimit
begin

text \<open>
  The owners of budgets and rate limits: framework/configstore/tables/virtualkey.go, team.go,
  customer.go, modelconfig.go and provider.go, with the white and black lists of
  core/schemas/account.go. The records keep the columns and relations that the governance
  plugin reads or writes; display data, JSON blobs and database bookkeeping are left out.

  A relation that the code holds as a pointer is an \<open>option\<close>, a slice is a list; the
  provider configs of a virtual key are an optional list because the update path
  distinguishes a nil slice from an empty one. The resolved value of a virtual key (its
  \<^verbatim>\<open>SecretVar.GetValue()\<close>) is the field \<open>vk_Value\<close>.

  The theorems describe the expiry of a virtual key, the validation and normalization of a
  model config, and the white and black lists.
\<close>

section \<open>Strings\<close>

text \<open>
  \<^verbatim>\<open>strings.TrimSpace\<close> on the bytes of a UTF-8 string: the byte sequences of the Unicode
  white space characters are cut off at both ends.
\<close>

definition ws_seqs :: "string list" where
  "ws_seqs =
     [[CHR 0x09], [CHR 0x0A], [CHR 0x0B], [CHR 0x0C], [CHR 0x0D], [CHR 0x20], 
      [CHR 0xC2, CHR 0x85], [CHR 0xC2, CHR 0xA0], [CHR 0xE1, CHR 0x9A, CHR 0x80], 
      [CHR 0xE2, CHR 0x80, CHR 0x80], [CHR 0xE2, CHR 0x80, CHR 0x81], 
      [CHR 0xE2, CHR 0x80, CHR 0x82], [CHR 0xE2, CHR 0x80, CHR 0x83], 
      [CHR 0xE2, CHR 0x80, CHR 0x84], [CHR 0xE2, CHR 0x80, CHR 0x85], 
      [CHR 0xE2, CHR 0x80, CHR 0x86], [CHR 0xE2, CHR 0x80, CHR 0x87], 
      [CHR 0xE2, CHR 0x80, CHR 0x88], [CHR 0xE2, CHR 0x80, CHR 0x89], 
      [CHR 0xE2, CHR 0x80, CHR 0x8A], [CHR 0xE2, CHR 0x80, CHR 0xA8], 
      [CHR 0xE2, CHR 0x80, CHR 0xA9], [CHR 0xE2, CHR 0x80, CHR 0xAF], 
      [CHR 0xE2, CHR 0x81, CHR 0x9F], [CHR 0xE3, CHR 0x80, CHR 0x80]]"

fun cut_prefix :: "string list \<Rightarrow> string \<Rightarrow> string option" where
  "cut_prefix [] s = None"
| "cut_prefix (w # ws) s =
     (if w \<noteq> [] \<and> hasPrefix s w then Some (drop (length w) s) else cut_prefix ws s)"

lemma cut_prefix_shorter: "cut_prefix ws s = Some t \<Longrightarrow> length t < length s"
proof (induction ws)
  case (Cons w ws)
  then show ?case
    by (cases "w \<noteq> [] \<and> hasPrefix s w") (auto simp: hasPrefix_iff)
qed simp

function trim_left :: "string list \<Rightarrow> string \<Rightarrow> string" where
  "trim_left ws s = (case cut_prefix ws s of None \<Rightarrow> s | Some t \<Rightarrow> trim_left ws t)"
  by auto
termination
  by (relation "measure (\<lambda>(ws, s). length s)") (auto simp: cut_prefix_shorter)

declare trim_left.simps [simp del]

definition trimSpace :: "string \<Rightarrow> string" where
  "trimSpace s = rev (trim_left (map rev ws_seqs) (rev (trim_left ws_seqs s)))"

text \<open>
  \<^verbatim>\<open>strings.EqualFold\<close> and \<^verbatim>\<open>strings.ToLower\<close> on ASCII letters; other bytes are compared as
  they are.
\<close>

definition ascii_lower :: "char \<Rightarrow> char" where
  "ascii_lower c = (let n = of_char c :: nat in if 65 \<le> n \<and> n \<le> 90 then char_of (n + 32) else c)"

definition toLower :: "string \<Rightarrow> string" where
  "toLower s = map ascii_lower s"

definition equalFold :: "string \<Rightarrow> string \<Rightarrow> bool" where
  "equalFold s t \<longleftrightarrow> toLower s = toLower t"

section \<open>White and black lists\<close>

definition wl_Contains :: "string list \<Rightarrow> string \<Rightarrow> bool" where
  "wl_Contains wl v = list_ex (\<lambda>s. equalFold s v) wl"

definition wl_IsUnrestricted :: "string list \<Rightarrow> bool" where
  "wl_IsUnrestricted wl = (wl = [''*''])"

definition wl_IsAllowed :: "string list \<Rightarrow> string \<Rightarrow> bool" where
  "wl_IsAllowed wl v = (wl_IsUnrestricted wl \<or> wl_Contains wl v)"

fun wl_duplicate :: "string list \<Rightarrow> string list \<Rightarrow> string option" where
  "wl_duplicate seen [] = None"
| "wl_duplicate seen (v # vs) =
     (if toLower v \<in> set seen then Some v else wl_duplicate (toLower v # seen) vs)"

definition wl_Validate :: "string list \<Rightarrow> err option" where
  "wl_Validate wl =
     (if wl_Contains wl ''*'' \<and> length wl > 1 then
        Some (Err (''wildcard '' @ [CHR 0x27] @ ''*'' @ [CHR 0x27] @ '' cannot be used with other values in the whitelist''))
      else case wl_duplicate [] wl of
        Some v \<Rightarrow> Some (Err (''duplicate value '' @ [CHR 0x27] @ v @ [CHR 0x27] @ '' in whitelist''))
      | None \<Rightarrow> None)"

definition bl_Contains :: "string list \<Rightarrow> string \<Rightarrow> bool" where
  "bl_Contains bl v = list_ex (\<lambda>s. equalFold s v) bl"

definition bl_IsBlockAll :: "string list \<Rightarrow> bool" where
  "bl_IsBlockAll bl = (bl = [''*''])"

definition bl_IsBlocked :: "string list \<Rightarrow> string \<Rightarrow> bool" where
  "bl_IsBlocked bl v = (bl_IsBlockAll bl \<or> bl_Contains bl v)"

section \<open>Owners\<close>

record TableCustomer =
  customer_ID :: string
  customer_Name :: string
  customer_RateLimitID :: "string option"
  customer_Budgets :: "TableBudget list"
  customer_RateLimit :: "TableRateLimit option"
  customer_CalendarAligned :: bool

record TableTeam =
  team_ID :: string
  team_Name :: string
  team_CustomerID :: "string option"
  team_RateLimitID :: "string option"
  team_Customer :: "TableCustomer option"
  team_Budgets :: "TableBudget list"
  team_RateLimit :: "TableRateLimit option"
  team_CalendarAligned :: bool

record TableVirtualKeyProviderConfig =
  pc_ID :: nat
  pc_Provider :: string
  AllowedModels :: "string list"
  BlacklistedModels :: "string list"
  AllowAllKeys :: bool
  pc_RateLimitID :: "string option"
  pc_RateLimit :: "TableRateLimit option"
  pc_Budgets :: "TableBudget list"
  pc_Keys :: "string list"
  pc_Weight :: "f64 option"

record TableMCPClient =
  mcpclient_ClientID :: string
  mcpclient_Name :: string

record TableVirtualKeyMCPConfig =
  mcp_ID :: nat
  mcp_MCPClient :: TableMCPClient
  ToolsToExecute :: "string list"

record TableVirtualKey =
  vk_ID :: string
  vk_Name :: string
  vk_Value :: string
  vk_IsActive :: "bool option"
  vk_ExpiresAt :: "time option"
  vk_ProviderConfigs :: "TableVirtualKeyProviderConfig list option"
  vk_UserID :: "string option"
  vk_TeamID :: "string option"
  vk_CustomerID :: "string option"
  vk_RateLimitID :: "string option"
  vk_CalendarAligned :: bool
  vk_Team :: "TableTeam option"
  vk_Customer :: "TableCustomer option"
  vk_RateLimit :: "TableRateLimit option"
  vk_Budgets :: "TableBudget list"
  vk_MCPConfigs :: "TableVirtualKeyMCPConfig list"

record TableModelConfig =
  mc_ID :: string
  ModelName :: string
  mc_Provider :: "string option"
  mc_Scope :: string
  mc_ScopeID :: "string option"
  mc_CalendarAligned :: bool
  mc_BudgetID :: "string option"
  mc_RateLimitID :: "string option"
  mc_Budgets :: "TableBudget list"
  mc_RateLimit :: "TableRateLimit option"

record TableProvider =
  provider_Name :: string
  provider_BudgetID :: "string option"
  provider_RateLimitID :: "string option"
  provider_Budget :: "TableBudget option"
  provider_RateLimit :: "TableRateLimit option"

text \<open>Ranging over a nil slice visits nothing.\<close>

definition vk_pcs :: "TableVirtualKey \<Rightarrow> TableVirtualKeyProviderConfig list" where
  "vk_pcs vk = (case vk_ProviderConfigs vk of None \<Rightarrow> [] | Some l \<Rightarrow> l)"

definition IsActiveValue :: "TableVirtualKey option \<Rightarrow> bool" where
  "IsActiveValue v =
     (case v of None \<Rightarrow> False
      | Some vk \<Rightarrow> (case vk_IsActive vk of None \<Rightarrow> True | Some a \<Rightarrow> a))"

definition IsExpiredAt :: "TableVirtualKey option \<Rightarrow> time \<Rightarrow> bool" where
  "IsExpiredAt v now =
     (case v of None \<Rightarrow> False
      | Some vk \<Rightarrow> (case vk_ExpiresAt vk of None \<Rightarrow> False | Some e \<Rightarrow> \<not> now < e))"

definition customer_AfterFind :: "TableCustomer \<Rightarrow> TableCustomer" where
  "customer_AfterFind c =
     (let (bs, rl) = StampCalendarAlignment (customer_CalendarAligned c) (customer_Budgets c)
        (customer_RateLimit c)
      in c\<lparr>customer_Budgets := bs, customer_RateLimit := rl\<rparr>)"

definition mc_AfterFind :: "TableModelConfig \<Rightarrow> TableModelConfig" where
  "mc_AfterFind mc =
     mc\<lparr>mc_Budgets := fst (StampCalendarAlignment (mc_CalendarAligned mc) (mc_Budgets mc) None)\<rparr>"

definition ModelConfigScopeGlobal :: string where
  "ModelConfigScopeGlobal = ''global''"

definition ModelConfigScopeVirtualKey :: string where
  "ModelConfigScopeVirtualKey = ''virtual_key''"

definition ModelConfigScopeUser :: string where
  "ModelConfigScopeUser = ''user''"

definition ModelConfigAllModels :: string where
  "ModelConfigAllModels = ''*''"

text \<open>The scope registry is the list of the registered names.\<close>

definition validModelConfigScopes :: "string list" where
  "validModelConfigScopes = [ModelConfigScopeGlobal, ModelConfigScopeVirtualKey]"

definition RegisterModelConfigScope :: "string list \<Rightarrow> string \<Rightarrow> string list" where
  "RegisterModelConfigScope reg scope =
     (let s = trimSpace scope in if s = [] then reg else List.insert s reg)"

definition IsValidModelConfigScope :: "string list \<Rightarrow> string \<Rightarrow> bool" where
  "IsValidModelConfigScope reg scope = (scope \<in> set reg)"

definition mc_BeforeSave ::
    "string list \<Rightarrow> TableModelConfig \<Rightarrow> TableModelConfig \<times> err option" where
  "mc_BeforeSave reg mc0 =
     (let mc1 = (if trimSpace (mc_Scope mc0) = [] then mc0\<lparr>mc_Scope := ModelConfigScopeGlobal\<rparr> else mc0);
          blank = (\<lambda>x. case x of None \<Rightarrow> False | Some s \<Rightarrow> trimSpace s = [])
      in if \<not> IsValidModelConfigScope reg (mc_Scope mc1) then
           (mc1, Some (Err (''invalid scope '' @ mc_Scope mc1 @ '' for model config'')))
         else if mc_Scope mc1 \<noteq> ModelConfigScopeGlobal \<and>
             (mc_ScopeID mc1 = None \<or> blank (mc_ScopeID mc1)) then
           (mc1, Some (Err (''scope_id is required when scope is '' @ mc_Scope mc1)))
         else let mc = (if mc_Scope mc1 = ModelConfigScopeGlobal then mc1\<lparr>mc_ScopeID := None\<rparr> else mc1) in
           if trimSpace (ModelName mc) = [] then (mc, Some (Err ''model_name cannot be empty''))
           else if blank (mc_BudgetID mc) then (mc, Some (Err ''budget_id cannot be an empty string''))
           else if blank (mc_RateLimitID mc) then
             (mc, Some (Err ''rate_limit_id cannot be an empty string''))
           else if blank (mc_Provider mc) then (mc, Some (Err ''provider cannot be an empty string''))
           else (mc, None))"

section \<open>Lemmas\<close>

lemma equalFold_refl [simp]: "equalFold s s"
  by (simp add: equalFold_def)

lemma trim_left_Nil [simp]: "trim_left ws [] = []"
proof -
  have "cut_prefix ws [] = None"
    by (induction ws) (auto simp: hasPrefix_iff)
  then show ?thesis by (subst trim_left.simps) simp
qed

lemma trimSpace_Nil [simp]: "trimSpace [] = []"
  by (simp add: trimSpace_def)

lemma ascii_lower_star [simp]: "ascii_lower c = CHR ''*'' \<longleftrightarrow> c = CHR ''*''"
proof
  assume "ascii_lower c = CHR ''*''"
  then have "of_char (ascii_lower c) = (42 :: nat)" by simp
  then have "of_char c = (42 :: nat)"
    by (auto simp: ascii_lower_def Let_def split: if_splits)
  then have "char_of (of_char c :: nat) = (char_of (42 :: nat) :: char)" by simp
  moreover have "char_of (42 :: nat) = CHR ''*''" by code_simp
  ultimately show "c = CHR ''*''" by simp
qed (simp add: ascii_lower_def)

lemma equalFold_star [simp]: "equalFold s ''*'' \<longleftrightarrow> s = ''*''"
proof -
  have "ascii_lower CHR ''*'' = CHR ''*''" by simp
  then have "equalFold s ''*'' \<longleftrightarrow> toLower s = ''*''"
    unfolding equalFold_def toLower_def by (simp only: list.map)
  then show ?thesis by (auto simp: toLower_def map_eq_Cons_conv)
qed

lemma wl_Contains_star: "wl_Contains wl ''*'' \<longleftrightarrow> ''*'' \<in> set wl"
  by (auto simp: wl_Contains_def list_ex_iff)

lemma wl_duplicate_None:
  "wl_duplicate seen vs = None \<longleftrightarrow> distinct (map toLower vs) \<and> toLower ` set vs \<inter> set seen = {}"
  by (induction vs arbitrary: seen) auto

section \<open>Properties\<close>

text \<open>
  a white list that passes \<^verbatim>\<open>Validate\<close> has no two entries that differ only in case, and
  carries the wildcard only alone; so for a valid list the wildcard allows everything or
  is not there, and every other value is allowed exactly when it is listed up to case.
\<close>

theorem wl_Validate_sound:
  "wl_Validate wl = None \<longleftrightarrow>
     distinct (map toLower wl) \<and> (wl_Contains wl ''*'' \<longrightarrow> wl_IsUnrestricted wl)"
proof -
  have "wl_Validate wl = None \<longleftrightarrow>
      wl_duplicate [] wl = None \<and> (wl_Contains wl ''*'' \<longrightarrow> length wl \<le> 1)"
    by (auto simp: wl_Validate_def split: option.split)
  moreover have "wl_Contains wl ''*'' \<longrightarrow> (length wl \<le> 1 \<longleftrightarrow> wl_IsUnrestricted wl)"
    by (cases wl; cases "tl wl") (auto simp: wl_Contains_star wl_IsUnrestricted_def)
  ultimately show ?thesis by (auto simp: wl_duplicate_None)
qed

theorem wl_Validate_sound_witness:
  "wl_Validate [''gpt-4'', ''GPT-4''] \<noteq> None"
proof -
  have "\<not> distinct (map toLower [''gpt-4'', ''GPT-4''])" by code_simp
  then show ?thesis unfolding wl_Validate_sound by blast
qed

text \<open>
  a model config that passes \<^verbatim>\<open>BeforeSave\<close> has a registered scope, a scope target exactly
  when its scope is not the global one, and a model name that is not blank; the hook
  changes only the scope and its target.
\<close>

theorem mc_BeforeSave_normalizes:
  assumes "ModelConfigScopeGlobal \<in> set reg" "mc_BeforeSave reg mc = (mc', None)"
  shows "mc_Scope mc' \<in> set reg
    \<and> (mc_ScopeID mc' = None \<longleftrightarrow> mc_Scope mc' = ModelConfigScopeGlobal)
    \<and> trimSpace (ModelName mc') \<noteq> []
    \<and> mc' = mc\<lparr>mc_Scope := mc_Scope mc', mc_ScopeID := mc_ScopeID mc'\<rparr>"
  using assms(2)
  by (auto simp: mc_BeforeSave_def Let_def IsValidModelConfigScope_def split: if_splits option.splits)

theorem mc_BeforeSave_normalizes_witness:
  "\<exists>mc'. mc_BeforeSave validModelConfigScopes
       \<lparr>mc_ID = ''m'', ModelName = ''gpt-4'', mc_Provider = None, mc_Scope = [], mc_ScopeID = Some ''x'',
        mc_CalendarAligned = False, mc_BudgetID = None, mc_RateLimitID = None, mc_Budgets = [],
        mc_RateLimit = None\<rparr> = (mc', None) \<and> mc_Scope mc' \<in> set validModelConfigScopes"
proof -
  let ?mc = "\<lparr>mc_ID = ''m'', ModelName = ''gpt-4'', mc_Provider = None, mc_Scope = [],
    mc_ScopeID = Some ''x'', mc_CalendarAligned = False, mc_BudgetID = None, mc_RateLimitID = None,
    mc_Budgets = [], mc_RateLimit = None\<rparr>"
  have "cut_prefix ws_seqs ''gpt-4'' = None" "cut_prefix (map rev ws_seqs) ''4-tpg'' = None"
    by (simp_all add: ws_seqs_def hasPrefix_def)
  then have t: "trimSpace ''gpt-4'' = ''gpt-4''"
    by (simp add: trimSpace_def trim_left.simps [of ws_seqs] trim_left.simps [of "map rev ws_seqs"])
  obtain mc' where "mc_BeforeSave validModelConfigScopes ?mc = (mc', None)"
    by (simp add: mc_BeforeSave_def t IsValidModelConfigScope_def validModelConfigScopes_def Let_def)
  then show ?thesis
    using mc_BeforeSave_normalizes [of validModelConfigScopes ?mc mc']
    by (auto simp: validModelConfigScopes_def)
qed

end
