(* ===== verification/Governance_Store.thy ===== *)
theory Governance_Store
  imports Governance_Tables
begin

text \<open>
  The in-memory governance store: plugins/governance/store.go, the live maps of budgets and
  rate limits, usage accounting, window resets and the index of virtual keys.

  The state is the record \<open>LocalGovernanceStore\<close>; an operation maps a state to the next one,
  paired with what the Go method returns. A \<^verbatim>\<open>sync.Map\<close> never holds a nil pointer (every
  store guards it), so the failed type assertions and nil checks of the source are the
  branch of a missing key. Operations are modelled as one thread runs them: the
  compare-and-swap of a loop succeeds at once; interleavings are the subject of the theory
  \<open>CAS_Interleaving\<close>. Stored rows are replaced, never written in place, so a row
  embedded in an owner and the row of the live map are separate values.

  The clock is an argument: an operation that reads it once takes \<open>now\<close>; the request-path
  loops, which read it again in every round, take the sequence of readings.
  The reset hooks are callbacks of other components: the field is \<open>None\<close> when no hook is
  registered, and otherwise collects the arguments of the calls, latest first.
  Mutexes and debug logging have no counterpart.
\<close>

record LocalGovernanceStore =
  virtualKeys :: "(string, TableVirtualKey) gomap"
  virtualKeysByID :: "(string, TableVirtualKey) gomap"
  teams :: "(string, TableTeam) gomap"
  customers :: "(string, TableCustomer) gomap"
  budgets :: "(string, TableBudget) gomap"
  rateLimits :: "(string, TableRateLimit) gomap"
  modelConfigs :: "(string, TableModelConfig) gomap"
  providers :: "(string, TableProvider) gomap"
  LastDBUsagesBudgets :: "(string, f64) gomap"
  LastDBUsagesRequestsRateLimits :: "(string, int) gomap"
  LastDBUsagesTokensRateLimits :: "(string, int) gomap"
  budgetResetGens :: "(string, nat) gomap"
  modelCatalog :: "(string \<Rightarrow> string) option"
  onBudgetsReset :: "TableBudget list list option"
  onRateLimitsReset :: "TableRateLimit list list option"

section \<open>Budgets\<close>

definition LoadBudget :: "LocalGovernanceStore \<Rightarrow> string \<Rightarrow> TableBudget option" where
  "LoadBudget gs budgetID = gm_get (budgets gs) budgetID"

definition storeBudget :: "LocalGovernanceStore \<Rightarrow> string \<Rightarrow> TableBudget \<Rightarrow> LocalGovernanceStore" where
  "storeBudget gs budgetID b =
     gs\<lparr>budgets := gm_put budgetID (RefreshOverrideCyclesRemaining b) (budgets gs)\<rparr>"

definition UpsertBudgetConfig ::
    "LocalGovernanceStore \<Rightarrow> string \<Rightarrow> TableBudget option \<Rightarrow> LocalGovernanceStore" where
  "UpsertBudgetConfig gs budgetID config =
     (case config of None \<Rightarrow> gs
      | Some c \<Rightarrow>
        (case gm_get (budgets gs) budgetID of
           None \<Rightarrow> gs\<lparr>budgets := gm_put budgetID (RefreshOverrideCyclesRemaining c) (budgets gs)\<rparr>
         | Some old \<Rightarrow>
             let merged = c\<lparr>CurrentUsage := CurrentUsage old, LastReset := LastReset old\<rparr>
             in gs\<lparr>budgets := gm_put budgetID (RefreshOverrideCyclesRemaining merged) (budgets gs)\<rparr>))"

definition markBudgetResetLocked :: "LocalGovernanceStore \<Rightarrow> string \<Rightarrow> LocalGovernanceStore" where
  "markBudgetResetLocked gs budgetID =
     gs\<lparr>budgetResetGens := gm_put budgetID ((gm_get0 0 (budgetResetGens gs) budgetID + 1) mod 2 ^ 64)
          (budgetResetGens gs)\<rparr>"

definition DeleteBudget :: "LocalGovernanceStore \<Rightarrow> string \<Rightarrow> LocalGovernanceStore" where
  "DeleteBudget gs budgetID =
     (let gs1 = gs\<lparr>budgets := gm_del budgetID (budgets gs)\<rparr>;
          gs2 = gs1\<lparr>LastDBUsagesBudgets := gm_del budgetID (LastDBUsagesBudgets gs1)\<rparr>
      in markBudgetResetLocked gs2 budgetID)"

definition SetBudgetDBBaseline :: "LocalGovernanceStore \<Rightarrow> string \<Rightarrow> f64 \<Rightarrow> LocalGovernanceStore" where
  "SetBudgetDBBaseline gs budgetID currentUsage =
     gs\<lparr>LastDBUsagesBudgets := gm_put budgetID currentUsage (LastDBUsagesBudgets gs)\<rparr>"

definition budgetResetGensSnapshot :: "LocalGovernanceStore \<Rightarrow> (string, nat) gomap" where
  "budgetResetGensSnapshot gs = budgetResetGens gs"

text \<open>The pair of writes every reset performs: clear the baseline, invalidate pending dumps.\<close>

definition clearBudgetBaseline :: "LocalGovernanceStore \<Rightarrow> string \<Rightarrow> LocalGovernanceStore" where
  "clearBudgetBaseline gs budgetID =
     markBudgetResetLocked
       (gs\<lparr>LastDBUsagesBudgets := gm_put budgetID (Fin 0) (LastDBUsagesBudgets gs)\<rparr>) budgetID"

definition budgetResetTarget :: "TableBudget \<Rightarrow> time \<Rightarrow> time option" where
  "budgetResetTarget b now =
     (if ResetDuration b = [] then None
      else if (\<not> IsCalendarAligned b \<or> \<not> IsCalendarAlignableDuration (ResetDuration b))
          \<and> (case ParseDuration (ResetDuration b) of Inl _ \<Rightarrow> True | Inr d \<Rightarrow> d \<le> 0) then None
      else let target = WindowStart b now in
        if target > LastReset b then Some target else None)"

definition ResetBudgetAt ::
    "LocalGovernanceStore \<Rightarrow> string \<Rightarrow> time \<Rightarrow> LocalGovernanceStore \<times> TableBudget option" where
  "ResetBudgetAt gs budgetID newLastReset =
     (case gm_get (budgets gs) budgetID of None \<Rightarrow> (gs, None)
      | Some old \<Rightarrow>
        if \<not> LastReset old < newLastReset then (gs, None)
        else let clone = RefreshOverrideCyclesRemaining
                   (old\<lparr>CurrentUsage := Fin 0, LastReset := newLastReset\<rparr>)
          in (gs\<lparr>budgets := gm_put budgetID clone (budgets gs)\<rparr>, Some clone))"

definition RebaseBudget ::
    "LocalGovernanceStore \<Rightarrow> string \<Rightarrow> f64 \<Rightarrow> time option
      \<Rightarrow> LocalGovernanceStore \<times> TableBudget option" where
  "RebaseBudget gs budgetID newUsage newLastReset =
     (case gm_get (budgets gs) budgetID of None \<Rightarrow> (gs, None)
      | Some old \<Rightarrow>
        let clone1 = old\<lparr>CurrentUsage := newUsage\<rparr>;
            clone2 = (case newLastReset of
                None \<Rightarrow> clone1
              | Some t \<Rightarrow> if LastReset clone1 < t then clone1\<lparr>LastReset := t\<rparr> else clone1);
            clone = RefreshOverrideCyclesRemaining clone2
        in (gs\<lparr>budgets := gm_put budgetID clone (budgets gs)\<rparr>, Some clone))"

definition resetExpiredBudgetFromSnapshot ::
    "LocalGovernanceStore \<Rightarrow> TableBudget \<Rightarrow> time \<Rightarrow> LocalGovernanceStore \<times> TableBudget option" where
  "resetExpiredBudgetFromSnapshot gs b now =
     (case budgetResetTarget b now of None \<Rightarrow> (gs, None)
      | Some newLastReset \<Rightarrow>
        (case ResetBudgetAt gs (ID b) newLastReset of
           (gs', None) \<Rightarrow> (gs', None)
         | (gs', Some reset) \<Rightarrow> (clearBudgetBaseline gs' (ID reset), Some reset)))"

definition ResetBudgetUsageInMemory ::
    "LocalGovernanceStore \<Rightarrow> string \<Rightarrow> LocalGovernanceStore \<times> TableBudget option" where
  "ResetBudgetUsageInMemory gs budgetID =
     (case RebaseBudget gs budgetID (Fin 0) None of
        (gs', None) \<Rightarrow> (gs', None)
      | (gs', Some reset) \<Rightarrow> (clearBudgetBaseline gs' budgetID, Some reset))"

definition AdoptCalendarAlignmentInMemory ::
    "LocalGovernanceStore \<Rightarrow> string \<Rightarrow> time \<Rightarrow> LocalGovernanceStore \<times> bool" where
  "AdoptCalendarAlignmentInMemory gs budgetID now =
     (case gm_get (budgets gs) budgetID of None \<Rightarrow> (gs, False)
      | Some old \<Rightarrow>
        (case AdoptCalendarAlignment (old\<lparr>IsCalendarAligned := True\<rparr>) now of
           (clone, False) \<Rightarrow> (gs, False)
         | (clone, True) \<Rightarrow>
             (gs\<lparr>budgets := gm_put budgetID (RefreshOverrideCyclesRemaining clone) (budgets gs)\<rparr>, True)))"

section \<open>Rate limits\<close>

definition LoadRateLimit :: "LocalGovernanceStore \<Rightarrow> string \<Rightarrow> TableRateLimit option" where
  "LoadRateLimit gs rateLimitID = gm_get (rateLimits gs) rateLimitID"

definition UpsertRateLimitConfig ::
    "LocalGovernanceStore \<Rightarrow> string \<Rightarrow> TableRateLimit option \<Rightarrow> LocalGovernanceStore" where
  "UpsertRateLimitConfig gs rateLimitID config =
     (case config of None \<Rightarrow> gs
      | Some c \<Rightarrow>
        (case gm_get (rateLimits gs) rateLimitID of
           None \<Rightarrow> gs\<lparr>rateLimits := gm_put rateLimitID c (rateLimits gs)\<rparr>
         | Some old \<Rightarrow>
             let merged = c\<lparr>TokenCurrentUsage := TokenCurrentUsage old,
                            TokenLastReset := TokenLastReset old,
                            RequestCurrentUsage := RequestCurrentUsage old,
                            RequestLastReset := RequestLastReset old\<rparr>
             in gs\<lparr>rateLimits := gm_put rateLimitID merged (rateLimits gs)\<rparr>))"

definition DeleteRateLimit :: "LocalGovernanceStore \<Rightarrow> string \<Rightarrow> LocalGovernanceStore" where
  "DeleteRateLimit gs rateLimitID =
     gs\<lparr>rateLimits := gm_del rateLimitID (rateLimits gs),
        LastDBUsagesTokensRateLimits := gm_del rateLimitID (LastDBUsagesTokensRateLimits gs),
        LastDBUsagesRequestsRateLimits := gm_del rateLimitID (LastDBUsagesRequestsRateLimits gs)\<rparr>"

definition SetRateLimitDBBaseline ::
    "LocalGovernanceStore \<Rightarrow> string \<Rightarrow> int \<Rightarrow> int \<Rightarrow> LocalGovernanceStore" where
  "SetRateLimitDBBaseline gs rateLimitID tokenUsage requestUsage =
     gs\<lparr>LastDBUsagesTokensRateLimits :=
           gm_put rateLimitID tokenUsage (LastDBUsagesTokensRateLimits gs),
        LastDBUsagesRequestsRateLimits :=
           gm_put rateLimitID requestUsage (LastDBUsagesRequestsRateLimits gs)\<rparr>"

definition clearTokenBaseline :: "LocalGovernanceStore \<Rightarrow> string \<Rightarrow> LocalGovernanceStore" where
  "clearTokenBaseline gs rateLimitID =
     gs\<lparr>LastDBUsagesTokensRateLimits := gm_put rateLimitID 0 (LastDBUsagesTokensRateLimits gs)\<rparr>"

definition clearRequestBaseline :: "LocalGovernanceStore \<Rightarrow> string \<Rightarrow> LocalGovernanceStore" where
  "clearRequestBaseline gs rateLimitID =
     gs\<lparr>LastDBUsagesRequestsRateLimits := gm_put rateLimitID 0 (LastDBUsagesRequestsRateLimits gs)\<rparr>"

definition rateLimitResetTarget ::
    "string option \<Rightarrow> bool \<Rightarrow> time \<Rightarrow> time \<Rightarrow> time \<Rightarrow> time option" where
  "rateLimitResetTarget resetDuration calendarAligned anchor lastReset now =
     (case resetDuration of None \<Rightarrow> None
      | Some dur \<Rightarrow>
        if calendarAligned \<and> IsCalendarAlignableDuration dur then
          (let period = GetCalendarPeriodStart dur now QuarterStartNotApplicable in
             if period > lastReset then Some period else None)
        else case ParseDuration dur of
          Inl _ \<Rightarrow> None
        | Inr duration \<Rightarrow>
            if duration \<le> 0 then None
            else let anchor = (if time_IsZero anchor then lastReset else anchor);
                     target = RollingWindowStart anchor duration now
                 in if target > lastReset then Some target else None)"

definition rateLimitResetTargets :: "TableRateLimit \<Rightarrow> time \<Rightarrow> time option \<times> time option" where
  "rateLimitResetTargets rl now =
     (rateLimitResetTarget (TokenResetDuration rl) (rl_IsCalendarAligned rl) (rl_CreatedAt rl)
        (TokenLastReset rl) now,
      rateLimitResetTarget (RequestResetDuration rl) (rl_IsCalendarAligned rl) (rl_CreatedAt rl)
        (RequestLastReset rl) now)"

text \<open>\<open>advance_opt\<close> is the guard \<^verbatim>\<open>target != nil && last.Before(*target)\<close> of the reset code.\<close>

definition advance_opt :: "time \<Rightarrow> time option \<Rightarrow> bool" where
  "advance_opt prev target = (case target of None \<Rightarrow> False | Some t \<Rightarrow> prev < t)"

definition ResetRateLimitAt ::
    "LocalGovernanceStore \<Rightarrow> string \<Rightarrow> time option \<Rightarrow> time option
      \<Rightarrow> LocalGovernanceStore \<times> TableRateLimit option" where
  "ResetRateLimitAt gs rateLimitID tokenNew requestNew =
     (if tokenNew = None \<and> requestNew = None then (gs, None)
      else case gm_get (rateLimits gs) rateLimitID of None \<Rightarrow> (gs, None)
      | Some old \<Rightarrow>
        let t = advance_opt (TokenLastReset old) tokenNew;
            q = advance_opt (RequestLastReset old) requestNew;
            clone1 = (if t then old\<lparr>TokenCurrentUsage := 0, TokenLastReset := the tokenNew\<rparr> else old);
            clone = (if q then clone1\<lparr>RequestCurrentUsage := 0, RequestLastReset := the requestNew\<rparr>
                     else clone1)
        in if \<not> t \<and> \<not> q then (gs, None)
           else (gs\<lparr>rateLimits := gm_put rateLimitID clone (rateLimits gs)\<rparr>, Some clone))"

definition RebaseRateLimit ::
    "LocalGovernanceStore \<Rightarrow> string \<Rightarrow> int \<Rightarrow> int \<Rightarrow> time option \<Rightarrow> time option
      \<Rightarrow> LocalGovernanceStore \<times> TableRateLimit option" where
  "RebaseRateLimit gs rateLimitID newTokens newRequests tokenLast requestLast =
     (case gm_get (rateLimits gs) rateLimitID of None \<Rightarrow> (gs, None)
      | Some old \<Rightarrow>
        let clone0 = old\<lparr>TokenCurrentUsage := newTokens, RequestCurrentUsage := newRequests\<rparr>;
            clone1 = (if advance_opt (TokenLastReset clone0) tokenLast
                      then clone0\<lparr>TokenLastReset := the tokenLast\<rparr> else clone0);
            clone = (if advance_opt (RequestLastReset clone1) requestLast
                     then clone1\<lparr>RequestLastReset := the requestLast\<rparr> else clone1)
        in (gs\<lparr>rateLimits := gm_put rateLimitID clone (rateLimits gs)\<rparr>, Some clone))"

definition resetExpiredRateLimitFromSnapshot ::
    "LocalGovernanceStore \<Rightarrow> TableRateLimit \<Rightarrow> time \<Rightarrow> LocalGovernanceStore \<times> TableRateLimit option" where
  "resetExpiredRateLimitFromSnapshot gs rl now =
     (let (tokenNew, requestNew) = rateLimitResetTargets rl now in
      if tokenNew = None \<and> requestNew = None then (gs, None)
      else case ResetRateLimitAt gs (rl_ID rl) tokenNew requestNew of
        (gs', None) \<Rightarrow> (gs', None)
      | (gs', Some reset) \<Rightarrow>
          let gs1 = (if tokenNew \<noteq> None then clearTokenBaseline gs' (rl_ID reset) else gs');
              gs2 = (if requestNew \<noteq> None then clearRequestBaseline gs1 (rl_ID reset) else gs1)
          in (gs2, Some reset))"

definition AdoptRateLimitCalendarAlignmentInMemory ::
    "LocalGovernanceStore \<Rightarrow> string \<Rightarrow> time \<Rightarrow> LocalGovernanceStore \<times> bool" where
  "AdoptRateLimitCalendarAlignmentInMemory gs rateLimitID now =
     (case gm_get (rateLimits gs) rateLimitID of None \<Rightarrow> (gs, False)
      | Some old \<Rightarrow>
        (case rl_AdoptCalendarAlignment (old\<lparr>rl_IsCalendarAligned := True\<rparr>) now of
           (clone, False) \<Rightarrow> (gs, False)
         | (clone, True) \<Rightarrow>
             (gs\<lparr>rateLimits := gm_put rateLimitID clone (rateLimits gs)\<rparr>, True)))"

definition BumpRateLimitUsageBy ::
    "LocalGovernanceStore \<Rightarrow> string \<Rightarrow> int \<Rightarrow> int \<Rightarrow> LocalGovernanceStore" where
  "BumpRateLimitUsageBy gs rateLimitID tokenDelta requestDelta =
     (if tokenDelta = 0 \<and> requestDelta = 0 then gs
      else case gm_get (rateLimits gs) rateLimitID of None \<Rightarrow> gs
      | Some old \<Rightarrow>
        gs\<lparr>rateLimits := gm_put rateLimitID
             (old\<lparr>TokenCurrentUsage := wrap64 (TokenCurrentUsage old + tokenDelta),
                  RequestCurrentUsage := wrap64 (RequestCurrentUsage old + requestDelta)\<rparr>)
             (rateLimits gs)\<rparr>)"

section \<open>The index of virtual keys\<close>

definition GetVirtualKey :: "LocalGovernanceStore \<Rightarrow> string \<Rightarrow> TableVirtualKey option" where
  "GetVirtualKey gs vkValue = gm_get (virtualKeys gs) vkValue"

definition GetVirtualKeyByID :: "LocalGovernanceStore \<Rightarrow> string \<Rightarrow> TableVirtualKey option" where
  "GetVirtualKeyByID gs vkID = gm_get (virtualKeysByID gs) vkID"

definition storeVirtualKey ::
    "LocalGovernanceStore \<Rightarrow> string \<Rightarrow> TableVirtualKey \<Rightarrow> LocalGovernanceStore" where
  "storeVirtualKey gs v vk =
     (if v = [] then gs
      else let gs1 = gs\<lparr>virtualKeys := gm_put v vk (virtualKeys gs)\<rparr> in
        if vk_ID vk \<noteq> [] then gs1\<lparr>virtualKeysByID := gm_put (vk_ID vk) vk (virtualKeysByID gs1)\<rparr>
        else gs1)"

definition deleteVirtualKeyByValue :: "LocalGovernanceStore \<Rightarrow> string \<Rightarrow> LocalGovernanceStore" where
  "deleteVirtualKeyByValue gs v =
     (let gs1 = (case gm_get (virtualKeys gs) v of
          Some vk \<Rightarrow> if vk_ID vk \<noteq> [] then
              gs\<lparr>virtualKeysByID := gm_del (vk_ID vk) (virtualKeysByID gs)\<rparr> else gs
        | None \<Rightarrow> gs)
      in gs1\<lparr>virtualKeys := gm_del v (virtualKeys gs1)\<rparr>)"

section \<open>Embedded references\<close>

text \<open>
  After a sweep the rows embedded in owners are replaced by the reset rows. \<open>resets\<close> is
  the map by ID built from the reset rows; a later row wins.
\<close>

definition budget_resets :: "TableBudget list \<Rightarrow> (string, TableBudget) gomap" where
  "budget_resets bs = fold (\<lambda>b m. gm_put (ID b) b m) bs []"

definition any_reset :: "(string, TableBudget) gomap \<Rightarrow> TableBudget list \<Rightarrow> bool" where
  "any_reset resets bs = list_ex (\<lambda>b. gm_get resets (ID b) \<noteq> None) bs"

definition replace_reset :: "(string, TableBudget) gomap \<Rightarrow> TableBudget list \<Rightarrow> TableBudget list" where
  "replace_reset resets bs =
     map (\<lambda>b. case gm_get resets (ID b) of Some r \<Rightarrow> r | None \<Rightarrow> b) bs"

definition vk_budget_refs ::
    "(string, TableBudget) gomap \<Rightarrow> TableVirtualKey \<Rightarrow> TableVirtualKey option" where
  "vk_budget_refs resets vk =
     (let vkMatch = any_reset resets (vk_Budgets vk);
          pcMatch = list_ex (\<lambda>pc. any_reset resets (pc_Budgets pc)) (vk_pcs vk)
      in if \<not> vkMatch \<and> \<not> pcMatch then None
         else let clone1 = (if vkMatch then vk\<lparr>vk_Budgets := replace_reset resets (vk_Budgets vk)\<rparr> else vk);
                  clone = (if pcMatch then clone1\<lparr>vk_ProviderConfigs :=
                      Some (map (\<lambda>pc. if any_reset resets (pc_Budgets pc)
                        then pc\<lparr>pc_Budgets := replace_reset resets (pc_Budgets pc)\<rparr> else pc) (vk_pcs vk))\<rparr>
                    else clone1)
              in Some clone)"

definition updateBudgetReferences :: "LocalGovernanceStore \<Rightarrow> TableBudget list \<Rightarrow> LocalGovernanceStore" where
  "updateBudgetReferences gs resetBudgets =
     (if resetBudgets = [] then gs
      else let resets = budget_resets resetBudgets;
          gs1 = fold (\<lambda>(k, vk) s. case vk_budget_refs resets vk of
                   None \<Rightarrow> s | Some clone \<Rightarrow> storeVirtualKey s k clone) (virtualKeys gs) gs;
          gs2 = fold (\<lambda>(k, t) s. if any_reset resets (team_Budgets t)
                   then s\<lparr>teams := gm_put k (t\<lparr>team_Budgets := replace_reset resets (team_Budgets t)\<rparr>) (teams s)\<rparr>
                   else s) (teams gs1) gs1
      in fold (\<lambda>(k, c) s. if any_reset resets (customer_Budgets c)
             then s\<lparr>customers := gm_put k (c\<lparr>customer_Budgets := replace_reset resets (customer_Budgets c)\<rparr>)
                      (customers s)\<rparr>
             else s) (customers gs2) gs2)"

definition rl_resets :: "TableRateLimit list \<Rightarrow> (string, TableRateLimit) gomap" where
  "rl_resets rls = fold (\<lambda>rl m. gm_put (rl_ID rl) rl m) rls []"

definition find_reset ::
    "(string, TableRateLimit) gomap \<Rightarrow> string option \<Rightarrow> TableRateLimit option" where
  "find_reset resets rlid = (case rlid of None \<Rightarrow> None | Some i \<Rightarrow> gm_get resets i)"

definition vk_rl_refs ::
    "(string, TableRateLimit) gomap \<Rightarrow> TableVirtualKey \<Rightarrow> TableVirtualKey option" where
  "vk_rl_refs resets vk =
     (let vkMatch = (find_reset resets (vk_RateLimitID vk) \<noteq> None);
          pcMatch = list_ex (\<lambda>pc. find_reset resets (pc_RateLimitID pc) \<noteq> None) (vk_pcs vk)
      in if \<not> vkMatch \<and> \<not> pcMatch then None
         else let clone1 = (if vkMatch then vk\<lparr>vk_RateLimit := find_reset resets (vk_RateLimitID vk)\<rparr> else vk);
                  clone = (if pcMatch then clone1\<lparr>vk_ProviderConfigs :=
                      Some (map (\<lambda>pc. case find_reset resets (pc_RateLimitID pc) of
                        Some rl \<Rightarrow> pc\<lparr>pc_RateLimit := Some rl\<rparr> | None \<Rightarrow> pc) (vk_pcs vk))\<rparr>
                    else clone1)
              in Some clone)"

definition updateRateLimitReferences ::
    "LocalGovernanceStore \<Rightarrow> TableRateLimit list \<Rightarrow> LocalGovernanceStore" where
  "updateRateLimitReferences gs resetRateLimits =
     (if resetRateLimits = [] then gs
      else let resets = rl_resets resetRateLimits;
          gs1 = fold (\<lambda>(k, vk) s. case vk_rl_refs resets vk of
                   None \<Rightarrow> s | Some clone \<Rightarrow> storeVirtualKey s k clone) (virtualKeys gs) gs;
          gs2 = fold (\<lambda>(k, t) s. case find_reset resets (team_RateLimitID t) of
                   None \<Rightarrow> s
                 | Some rl \<Rightarrow> s\<lparr>teams := gm_put k (t\<lparr>team_RateLimit := Some rl\<rparr>) (teams s)\<rparr>)
                 (teams gs1) gs1
      in fold (\<lambda>(k, c) s. case find_reset resets (customer_RateLimitID c) of
             None \<Rightarrow> s
           | Some rl \<Rightarrow> s\<lparr>customers := gm_put k (c\<lparr>customer_RateLimit := Some rl\<rparr>) (customers s)\<rparr>)
           (customers gs2) gs2)"

section \<open>Sweeps\<close>

definition sweep_budget ::
    "time \<Rightarrow> string \<Rightarrow> LocalGovernanceStore \<times> TableBudget list \<Rightarrow> LocalGovernanceStore \<times> TableBudget list" where
  "sweep_budget now budgetID acc =
     (case acc of (gs, resets) \<Rightarrow>
       (case gm_get (budgets gs) budgetID of None \<Rightarrow> (gs, resets)
        | Some b \<Rightarrow>
          (case resetExpiredBudgetFromSnapshot gs b now of
             (gs', None) \<Rightarrow> (gs', resets)
           | (gs', Some r) \<Rightarrow> (gs', resets @ [r]))))"

definition ResetExpiredBudgetsInMemory ::
    "LocalGovernanceStore \<Rightarrow> time \<Rightarrow> bool \<Rightarrow> string list \<Rightarrow> LocalGovernanceStore \<times> TableBudget list" where
  "ResetExpiredBudgetsInMemory gs now refreshReferences budgetIDs =
     (let ids = (if budgetIDs = [] then map fst (budgets gs) else budgetIDs);
          (gs1, resetBudgets) = fold (sweep_budget now) ids (gs, []);
          gs2 = (if refreshReferences then updateBudgetReferences gs1 resetBudgets else gs1);
          gs3 = (if resetBudgets \<noteq> [] then
                   gs2\<lparr>onBudgetsReset := map_option (Cons resetBudgets) (onBudgetsReset gs2)\<rparr> else gs2)
      in (gs3, resetBudgets))"

definition sweep_rate_limit ::
    "time \<Rightarrow> string \<Rightarrow> LocalGovernanceStore \<times> TableRateLimit list
      \<Rightarrow> LocalGovernanceStore \<times> TableRateLimit list" where
  "sweep_rate_limit now rateLimitID acc =
     (case acc of (gs, resets) \<Rightarrow>
       (case gm_get (rateLimits gs) rateLimitID of None \<Rightarrow> (gs, resets)
        | Some rl \<Rightarrow>
          (case resetExpiredRateLimitFromSnapshot gs rl now of
             (gs', None) \<Rightarrow> (gs', resets)
           | (gs', Some r) \<Rightarrow> (gs', resets @ [r]))))"

definition ResetExpiredRateLimitsInMemory ::
    "LocalGovernanceStore \<Rightarrow> time \<Rightarrow> bool \<Rightarrow> string list \<Rightarrow> LocalGovernanceStore \<times> TableRateLimit list" where
  "ResetExpiredRateLimitsInMemory gs now refreshReferences rateLimitIDs =
     (let ids = (if rateLimitIDs = [] then map fst (rateLimits gs) else rateLimitIDs);
          (gs1, resetRateLimits) = fold (sweep_rate_limit now) ids (gs, []);
          gs2 = (if refreshReferences then updateRateLimitReferences gs1 resetRateLimits else gs1);
          gs3 = (if resetRateLimits \<noteq> [] then
                   gs2\<lparr>onRateLimitsReset := map_option (Cons resetRateLimits) (onRateLimitsReset gs2)\<rparr>
                 else gs2)
      in (gs3, resetRateLimits))"

section \<open>Usage accounting\<close>

definition maxRequestTimeResetAttempts :: nat where
  "maxRequestTimeResetAttempts = 3"

text \<open>
  One round of a bump loop reads the clock once, and once more inside the sweep; \<open>clock\<close>
  is the sequence of these readings.
\<close>

function bump_budget_loop ::
    "LocalGovernanceStore \<Rightarrow> (nat \<Rightarrow> time) \<Rightarrow> nat \<Rightarrow> string \<Rightarrow> f64 \<Rightarrow> LocalGovernanceStore" where
  "bump_budget_loop gs clock resetAttempts budgetID cost =
     (case gm_get (budgets gs) budgetID of None \<Rightarrow> gs
      | Some old \<Rightarrow>
        let target = budgetResetTarget old (clock 0) in
        if target \<noteq> None \<and> resetAttempts < maxRequestTimeResetAttempts then
          bump_budget_loop (fst (ResetExpiredBudgetsInMemory gs (clock 1) False [budgetID]))
            (\<lambda>i. clock (i + 2)) (resetAttempts + 1) budgetID cost
        else
          let (gs1, clone) = (case target of
                None \<Rightarrow> (gs, old)
              | Some t \<Rightarrow>
                  (clearBudgetBaseline gs budgetID,
                   RefreshOverrideCyclesRemaining (old\<lparr>CurrentUsage := Fin 0, LastReset := t\<rparr>)))
          in gs1\<lparr>budgets := gm_put budgetID
                 (clone\<lparr>CurrentUsage := f64_add (CurrentUsage clone) cost\<rparr>) (budgets gs1)\<rparr>)"
  by pat_completeness auto
termination
  by (relation "measure (\<lambda>(_, _, n, _, _). maxRequestTimeResetAttempts - n)") auto

declare bump_budget_loop.simps [simp del]

definition BumpBudgetUsage ::
    "LocalGovernanceStore \<Rightarrow> (nat \<Rightarrow> time) \<Rightarrow> string \<Rightarrow> f64 \<Rightarrow> LocalGovernanceStore" where
  "BumpBudgetUsage gs clock budgetID cost = bump_budget_loop gs clock 0 budgetID cost"

definition bump_counters :: "TableRateLimit \<Rightarrow> int \<Rightarrow> bool \<Rightarrow> bool \<Rightarrow> TableRateLimit" where
  "bump_counters rl tokensUsed shouldUpdateTokens shouldUpdateRequests =
     (let rl1 = (if shouldUpdateTokens
                 then rl\<lparr>TokenCurrentUsage := wrap64 (TokenCurrentUsage rl + tokensUsed)\<rparr> else rl)
      in if shouldUpdateRequests
         then rl1\<lparr>RequestCurrentUsage := wrap64 (RequestCurrentUsage rl1 + 1)\<rparr> else rl1)"

function bump_rate_limit_loop ::
    "LocalGovernanceStore \<Rightarrow> (nat \<Rightarrow> time) \<Rightarrow> nat \<Rightarrow> string \<Rightarrow> int \<Rightarrow> bool \<Rightarrow> bool \<Rightarrow> LocalGovernanceStore" where
  "bump_rate_limit_loop gs clock resetAttempts rateLimitID tokensUsed updT updR =
     (case gm_get (rateLimits gs) rateLimitID of None \<Rightarrow> gs
      | Some old \<Rightarrow>
        let (tokenNew, requestNew) = rateLimitResetTargets old (clock 0) in
        if (tokenNew \<noteq> None \<or> requestNew \<noteq> None) \<and> resetAttempts < maxRequestTimeResetAttempts then
          bump_rate_limit_loop (fst (ResetExpiredRateLimitsInMemory gs (clock 1) False [rateLimitID]))
            (\<lambda>i. clock (i + 2)) (resetAttempts + 1) rateLimitID tokensUsed updT updR
        else
          let (gs1, clone1) = (case tokenNew of None \<Rightarrow> (gs, old)
                | Some t \<Rightarrow> (clearTokenBaseline gs rateLimitID,
                             old\<lparr>TokenCurrentUsage := 0, TokenLastReset := t\<rparr>));
              (gs2, clone2) = (case requestNew of None \<Rightarrow> (gs1, clone1)
                | Some t \<Rightarrow> (clearRequestBaseline gs1 rateLimitID,
                             clone1\<lparr>RequestCurrentUsage := 0, RequestLastReset := t\<rparr>))
          in gs2\<lparr>rateLimits := gm_put rateLimitID (bump_counters clone2 tokensUsed updT updR)
                 (rateLimits gs2)\<rparr>)"
  by pat_completeness auto
termination
  by (relation "measure (\<lambda>(_, _, n, _, _, _, _). maxRequestTimeResetAttempts - n)") auto

declare bump_rate_limit_loop.simps [simp del]

definition BumpRateLimitUsage ::
    "LocalGovernanceStore \<Rightarrow> (nat \<Rightarrow> time) \<Rightarrow> string \<Rightarrow> int \<Rightarrow> bool \<Rightarrow> bool \<Rightarrow> LocalGovernanceStore" where
  "BumpRateLimitUsage gs clock rateLimitID tokensUsed shouldUpdateTokens shouldUpdateRequests =
     bump_rate_limit_loop gs clock 0 rateLimitID tokensUsed shouldUpdateTokens shouldUpdateRequests"

end
