(* ===== verification/Store_Accounting.thy ===== *)
theory Store_Accounting
  imports Governance_Store
begin

text \<open>
  Correctness of usage accounting and window resets in the governance store.
  The life of one metered row is specified by itself: a row is charged, after at most a few
  resets, and the charge lands in the window the row ends up in. The locale
  \<open>metered_row\<close> states what a counter promises and proves the accounting law once; it is
  interpreted for the spend of a budget and for the token and the request counter of a
  rate limit. Refinement lemmas show that the loops of the store, seen through the row
  they work on, are that specification.
\<close>

section \<open>The specification of one metered row\<close>

function row_bump ::
    "('r \<Rightarrow> time \<Rightarrow> bool) \<Rightarrow> ('r \<Rightarrow> time \<Rightarrow> 'r) \<Rightarrow> ('r \<Rightarrow> 'r) \<Rightarrow> (nat \<Rightarrow> time) \<Rightarrow> nat \<Rightarrow> 'r \<Rightarrow> 'r" where
  "row_bump due reset charge clock n r =
     (if due r (clock 0) \<and> n < maxRequestTimeResetAttempts
      then row_bump due reset charge (\<lambda>i. clock (i + 2)) (n + 1) (reset r (clock 1))
      else charge (reset r (clock 0)))"
  by pat_completeness auto
termination
  by (relation "measure (\<lambda>(_, _, _, _, n, _). maxRequestTimeResetAttempts - n)") auto

declare row_bump.simps [simp del]

locale metered_row =
  fixes due :: "'r \<Rightarrow> time \<Rightarrow> bool"
    and reset :: "'r \<Rightarrow> time \<Rightarrow> 'r"
    and charge :: "'r \<Rightarrow> 'r"
    and boundary :: "'r \<Rightarrow> time"
    and usage :: "'r \<Rightarrow> 'u"
    and zero :: 'u
    and add :: "'u \<Rightarrow> 'u"
  assumes reset_forward: "boundary r \<le> boundary (reset r t)"
    and reset_usage: "usage (reset r t) = (if boundary (reset r t) = boundary r then usage r else zero)"
    and charge_boundary: "boundary (charge r) = boundary r"
    and charge_usage: "usage (charge r) = add (usage r)"
begin

lemma bump_accounts_once:
  "boundary r \<le> boundary (row_bump due reset charge clock n r)
   \<and> usage (row_bump due reset charge clock n r) =
       add (if boundary (row_bump due reset charge clock n r) = boundary r then usage r else zero)"
proof (induction "maxRequestTimeResetAttempts - n" arbitrary: n clock r rule: less_induct)
  case less
  let ?again = "due r (clock 0) \<and> n < maxRequestTimeResetAttempts"
  show ?case
  proof (cases ?again)
    case True
    let ?r' = "row_bump due reset charge (\<lambda>i. clock (i + 2)) (n + 1) (reset r (clock 1))"
    have e: "row_bump due reset charge clock n r = ?r'"
      using True by (simp add: row_bump.simps [of due reset charge clock n r])
    have "maxRequestTimeResetAttempts - (n + 1) < maxRequestTimeResetAttempts - n" using True by linarith
    from less [OF this, of "reset r (clock 1)" "\<lambda>i. clock (i + 2)"]
    have "boundary (reset r (clock 1)) \<le> boundary ?r'
      \<and> usage ?r' = add (if boundary ?r' = boundary (reset r (clock 1)) then usage (reset r (clock 1)) else zero)"
      by simp
    then show ?thesis unfolding e
      using reset_forward [of r "clock 1"] reset_usage [of r "clock 1"] by auto
  next
    case False
    then have "row_bump due reset charge clock n r = charge (reset r (clock 0))"
      by (subst row_bump.simps) auto
    then show ?thesis
      using reset_forward [of r "clock 0"] reset_usage [of r "clock 0"]
      by (simp add: charge_boundary charge_usage)
  qed
qed

end

section \<open>Budgets and rate limits as metered rows\<close>

definition budget_due :: "TableBudget \<Rightarrow> time \<Rightarrow> bool" where
  "budget_due b now = (budgetResetTarget b now \<noteq> None)"

definition budget_reset :: "TableBudget \<Rightarrow> time \<Rightarrow> TableBudget" where
  "budget_reset b now =
     (case budgetResetTarget b now of None \<Rightarrow> b
      | Some t \<Rightarrow> RefreshOverrideCyclesRemaining (b\<lparr>CurrentUsage := Fin 0, LastReset := t\<rparr>))"

definition budget_charge :: "f64 \<Rightarrow> TableBudget \<Rightarrow> TableBudget" where
  "budget_charge cost b = b\<lparr>CurrentUsage := f64_add (CurrentUsage b) cost\<rparr>"

definition rl_due :: "TableRateLimit \<Rightarrow> time \<Rightarrow> bool" where
  "rl_due rl now = (fst (rateLimitResetTargets rl now) \<noteq> None \<or> snd (rateLimitResetTargets rl now) \<noteq> None)"

definition rl_reset :: "TableRateLimit \<Rightarrow> time \<Rightarrow> TableRateLimit" where
  "rl_reset rl now =
     (let (t, q) = rateLimitResetTargets rl now;
          rl1 = (case t of None \<Rightarrow> rl | Some x \<Rightarrow> rl\<lparr>TokenCurrentUsage := 0, TokenLastReset := x\<rparr>)
      in case q of None \<Rightarrow> rl1 | Some x \<Rightarrow> rl1\<lparr>RequestCurrentUsage := 0, RequestLastReset := x\<rparr>)"

lemma budgetResetTarget_after: "budgetResetTarget b now = Some t \<Longrightarrow> LastReset b < t \<and> t = WindowStart b now"
  by (auto simp: budgetResetTarget_def Let_def split: if_splits)

lemma rateLimitResetTarget_after: "rateLimitResetTarget d a anchor prev now = Some t \<Longrightarrow> prev < t"
  by (auto simp: rateLimitResetTarget_def Let_def split: if_splits option.splits sum.splits)

lemma budget_reset_frame [simp]:
  "ID (budget_reset b now) = ID b" "MaxLimit (budget_reset b now) = MaxLimit b"
  "ResetDuration (budget_reset b now) = ResetDuration b"
  "ResetConfig (budget_reset b now) = ResetConfig b" "CreatedAt (budget_reset b now) = CreatedAt b"
  "IsCalendarAligned (budget_reset b now) = IsCalendarAligned b"
  by (simp_all add: budget_reset_def split: option.split)

lemma rl_reset_frame [simp]: "rl_ID (rl_reset rl now) = rl_ID rl"
  by (simp add: rl_reset_def Let_def split: option.split prod.split)

interpretation budget_row: metered_row budget_due budget_reset "budget_charge cost" LastReset CurrentUsage
    "Fin 0" "\<lambda>u. f64_add u cost" for cost
proof
  fix b :: TableBudget and t
  show "LastReset b \<le> LastReset (budget_reset b t)"
    by (auto simp: budget_reset_def dest: budgetResetTarget_after split: option.split)
  show "CurrentUsage (budget_reset b t) =
      (if LastReset (budget_reset b t) = LastReset b then CurrentUsage b else Fin 0)"
    by (auto simp: budget_reset_def dest: budgetResetTarget_after split: option.split)
qed (simp_all add: budget_charge_def)

lemma rl_reset_counters:
  "TokenLastReset (rl_reset rl t) = (case fst (rateLimitResetTargets rl t) of None \<Rightarrow> TokenLastReset rl | Some x \<Rightarrow> x)"
  "RequestLastReset (rl_reset rl t) = (case snd (rateLimitResetTargets rl t) of None \<Rightarrow> RequestLastReset rl | Some x \<Rightarrow> x)"
  "TokenCurrentUsage (rl_reset rl t) = (case fst (rateLimitResetTargets rl t) of None \<Rightarrow> TokenCurrentUsage rl | Some x \<Rightarrow> 0)"
  "RequestCurrentUsage (rl_reset rl t) = (case snd (rateLimitResetTargets rl t) of None \<Rightarrow> RequestCurrentUsage rl | Some x \<Rightarrow> 0)"
  by (simp_all add: rl_reset_def Let_def split: option.split prod.split)

lemma rateLimitResetTargets_after:
  "fst (rateLimitResetTargets rl t) = Some x \<Longrightarrow> TokenLastReset rl < x"
  "snd (rateLimitResetTargets rl t) = Some y \<Longrightarrow> RequestLastReset rl < y"
  by (auto simp: rateLimitResetTargets_def dest: rateLimitResetTarget_after)

lemma bump_counters_fields [simp]:
  "TokenLastReset (bump_counters rl n a b) = TokenLastReset rl"
  "RequestLastReset (bump_counters rl n a b) = RequestLastReset rl"
  "TokenCurrentUsage (bump_counters rl n a b) =
     (if a then wrap64 (TokenCurrentUsage rl + n) else TokenCurrentUsage rl)"
  "RequestCurrentUsage (bump_counters rl n a b) =
     (if b then wrap64 (RequestCurrentUsage rl + 1) else RequestCurrentUsage rl)"
  "rl_ID (bump_counters rl n a b) = rl_ID rl"
  by (simp_all add: bump_counters_def Let_def)

interpretation token_row: metered_row rl_due rl_reset "\<lambda>rl. bump_counters rl n a b" TokenLastReset
    TokenCurrentUsage 0 "\<lambda>u. if a then wrap64 (u + n) else u" for n a b
  by unfold_locales
     (auto simp: rl_reset_counters split: option.split dest: rateLimitResetTargets_after)

interpretation request_row: metered_row rl_due rl_reset "\<lambda>rl. bump_counters rl n a b" RequestLastReset
    RequestCurrentUsage 0 "\<lambda>u. if b then wrap64 (u + 1) else u" for n a b
  by unfold_locales
     (auto simp: rl_reset_counters split: option.split dest: rateLimitResetTargets_after)

section \<open>One reset in the store\<close>

lemma baseline_frame [simp, frame_simps]:
  "budgets (clearBudgetBaseline gs k) = budgets gs"
  "rateLimits (clearBudgetBaseline gs k) = rateLimits gs"
  "onBudgetsReset (clearBudgetBaseline gs k) = onBudgetsReset gs"
  "LastDBUsagesBudgets (clearBudgetBaseline gs k) = gm_put k (Fin 0) (LastDBUsagesBudgets gs)"
  "budgetResetGens (clearBudgetBaseline gs k) =
     gm_put k ((gm_get0 0 (budgetResetGens gs) k + 1) mod 2 ^ 64) (budgetResetGens gs)"
  "rateLimits (clearTokenBaseline gs k) = rateLimits gs"
  "rateLimits (clearRequestBaseline gs k) = rateLimits gs"
  "budgets (clearTokenBaseline gs k) = budgets gs"
  "budgets (clearRequestBaseline gs k) = budgets gs"
  by (simp_all add: clearBudgetBaseline_def markBudgetResetLocked_def clearTokenBaseline_def
      clearRequestBaseline_def)

definition ids_ok :: "LocalGovernanceStore \<Rightarrow> bool" where
  "ids_ok gs \<longleftrightarrow> (\<forall>k b. gm_get (budgets gs) k = Some b \<longrightarrow> ID b = k)
     \<and> (\<forall>k rl. gm_get (rateLimits gs) k = Some rl \<longrightarrow> rl_ID rl = k)"

lemma sweep_budget_step:
  assumes "gm_get (budgets gs) k = Some b" "ID b = k"
  shows "sweep_budget now k (gs, acc) =
    (if budget_due b now
     then (clearBudgetBaseline (gs\<lparr>budgets := gm_put k (budget_reset b now) (budgets gs)\<rparr>) k,
           acc @ [budget_reset b now])
     else (gs, acc))"
  using assms budgetResetTarget_after [of b now]
  by (auto simp: sweep_budget_def resetExpiredBudgetFromSnapshot_def ResetBudgetAt_def Let_def
      budget_due_def budget_reset_def split: option.split)

lemma sweep_budget_missing [simp]:
  "gm_get (budgets gs) k = None \<Longrightarrow> sweep_budget now k (gs, acc) = (gs, acc)"
  by (simp add: sweep_budget_def)

lemma sweep_rate_limit_step:
  assumes "gm_get (rateLimits gs) k = Some rl" "rl_ID rl = k"
  shows "\<exists>gs'. sweep_rate_limit now k (gs, acc) =
      (gs', if rl_due rl now then acc @ [rl_reset rl now] else acc)
    \<and> rateLimits gs' = (if rl_due rl now then gm_put k (rl_reset rl now) (rateLimits gs) else rateLimits gs)
    \<and> budgets gs' = budgets gs"
proof (cases "rl_due rl now")
  case False
  then show ?thesis using assms
    by (auto simp: sweep_rate_limit_def resetExpiredRateLimitFromSnapshot_def rl_due_def split_beta)
next
  case True
  obtain t q where tq: "rateLimitResetTargets rl now = (t, q)" by fastforce
  have adv: "advance_opt (TokenLastReset rl) t \<longleftrightarrow> t \<noteq> None"
    "advance_opt (RequestLastReset rl) q \<longleftrightarrow> q \<noteq> None"
    using rateLimitResetTargets_after [of rl now] tq by (auto simp: advance_opt_def split: option.split)
  have ne: "t \<noteq> None \<or> q \<noteq> None" using True tq by (simp add: rl_due_def)
  have r: "ResetRateLimitAt gs k t q =
      (gs\<lparr>rateLimits := gm_put k (rl_reset rl now) (rateLimits gs)\<rparr>, Some (rl_reset rl now))"
    using ne adv assms(1) tq
    by (cases t; cases q) (auto simp: ResetRateLimitAt_def rl_reset_def Let_def)
  show ?thesis
    using True assms ne r tq
    by (simp add: sweep_rate_limit_def resetExpiredRateLimitFromSnapshot_def Let_def)
qed

lemma reset_one_budget:
  assumes "gm_get (budgets gs) k = Some b" "ID b = k"
  shows "budgets (fst (ResetExpiredBudgetsInMemory gs now False [k])) =
      (if budget_due b now then gm_put k (budget_reset b now) (budgets gs) else budgets gs)"
    and "rateLimits (fst (ResetExpiredBudgetsInMemory gs now False [k])) = rateLimits gs"
  by (simp_all add: ResetExpiredBudgetsInMemory_def sweep_budget_step [OF assms] Let_def)

lemma reset_one_rate_limit:
  assumes "gm_get (rateLimits gs) k = Some rl" "rl_ID rl = k"
  shows "rateLimits (fst (ResetExpiredRateLimitsInMemory gs now False [k])) =
      (if rl_due rl now then gm_put k (rl_reset rl now) (rateLimits gs) else rateLimits gs)"
    and "budgets (fst (ResetExpiredRateLimitsInMemory gs now False [k])) = budgets gs"
  using sweep_rate_limit_step [OF assms, of now "[]"]
  by (auto simp: ResetExpiredRateLimitsInMemory_def Let_def)

section \<open>The loops refine the specification\<close>

lemma put_same: "gm_get (gm_put k v (gm_put k w m)) = gm_get (gm_put k v m)"
  by (rule ext) simp

lemma bump_budget_refines:
  assumes "gm_get (budgets gs) k = Some b" "ID b = k"
  shows "gm_get (budgets (bump_budget_loop gs clock n k cost)) =
      (gm_get (budgets gs))(k \<mapsto> row_bump budget_due budget_reset (budget_charge cost) clock n b)
    \<and> rateLimits (bump_budget_loop gs clock n k cost) = rateLimits gs"
  using assms
proof (induction "maxRequestTimeResetAttempts - n" arbitrary: gs clock n b rule: less_induct)
  case less
  note loop = bump_budget_loop.simps [of gs clock n k cost]
  show ?case
  proof (cases "budget_due b (clock 0) \<and> n < maxRequestTimeResetAttempts")
    case True
    let ?gs' = "fst (ResetExpiredBudgetsInMemory gs (clock 1) False [k])"
    let ?b' = "budget_reset b (clock 1)"
    have e: "bump_budget_loop gs clock n k cost
        = bump_budget_loop ?gs' (\<lambda>i. clock (i + 2)) (n + 1) k cost"
      using True less.prems by (subst loop) (simp add: budget_due_def)
    have b': "gm_get (budgets ?gs') = (gm_get (budgets gs))(k \<mapsto> ?b')" "rateLimits ?gs' = rateLimits gs"
      using less.prems by (auto simp: reset_one_budget budget_due_def budget_reset_def)
    have "maxRequestTimeResetAttempts - (n + 1) < maxRequestTimeResetAttempts - n" using True by linarith
    from less.hyps [OF this, of ?gs' ?b' "\<lambda>i. clock (i + 2)"]
    show ?thesis
      using b' less.prems True by (simp add: e row_bump.simps [of budget_due _ _ clock n b])
  next
    case False
    then have "bump_budget_loop gs clock n k cost =
        (let gs1 = (if budget_due b (clock 0) then clearBudgetBaseline gs k else gs)
         in gs1\<lparr>budgets := gm_put k (budget_charge cost (budget_reset b (clock 0))) (budgets gs1)\<rparr>)"
      using less.prems
      by (subst loop) (auto simp: budget_due_def budget_reset_def budget_charge_def Let_def split: option.split)
    then show ?thesis
      using False by (auto simp: Let_def row_bump.simps [of budget_due _ _ clock n b])
  qed
qed

lemma bump_rate_limit_refines:
  assumes "gm_get (rateLimits gs) k = Some rl" "rl_ID rl = k"
  shows "gm_get (rateLimits (bump_rate_limit_loop gs clock n k u a c)) =
      (gm_get (rateLimits gs))(k \<mapsto> row_bump rl_due rl_reset (\<lambda>rl. bump_counters rl u a c) clock n rl)
    \<and> budgets (bump_rate_limit_loop gs clock n k u a c) = budgets gs"
  using assms
proof (induction "maxRequestTimeResetAttempts - n" arbitrary: gs clock n rl rule: less_induct)
  case less
  note loop = bump_rate_limit_loop.simps [of gs clock n k u a c]
  obtain t q where tq: "rateLimitResetTargets rl (clock 0) = (t, q)" by fastforce
  show ?case
  proof (cases "rl_due rl (clock 0) \<and> n < maxRequestTimeResetAttempts")
    case True
    let ?gs' = "fst (ResetExpiredRateLimitsInMemory gs (clock 1) False [k])"
    let ?r' = "rl_reset rl (clock 1)"
    have e: "bump_rate_limit_loop gs clock n k u a c
        = bump_rate_limit_loop ?gs' (\<lambda>i. clock (i + 2)) (n + 1) k u a c"
      using True less.prems by (subst loop) (simp add: rl_due_def split_beta)
    have "\<not> rl_due rl (clock 1) \<Longrightarrow> ?r' = rl"
      by (simp add: rl_due_def rl_reset_def split_beta)
    then have r': "gm_get (rateLimits ?gs') = (gm_get (rateLimits gs))(k \<mapsto> ?r')" "budgets ?gs' = budgets gs"
      using less.prems by (auto simp: reset_one_rate_limit)
    have "maxRequestTimeResetAttempts - (n + 1) < maxRequestTimeResetAttempts - n" using True by linarith
    from less.hyps [OF this, of ?gs' ?r' "\<lambda>i. clock (i + 2)"]
    show ?thesis
      using r' less.prems True by (simp add: e row_bump.simps [of rl_due _ _ clock n rl])
  next
    case False
    then have "rateLimits (bump_rate_limit_loop gs clock n k u a c) =
          gm_put k (bump_counters (rl_reset rl (clock 0)) u a c) (rateLimits gs)
        \<and> budgets (bump_rate_limit_loop gs clock n k u a c) = budgets gs"
      using less.prems tq
      unfolding loop by (auto simp: rl_due_def rl_reset_def Let_def split: option.split)
    then show ?thesis
      using False by (auto simp: row_bump.simps [of rl_due _ _ clock n rl])
  qed
qed

section \<open>Convergence of resets\<close>

text \<open>
  A reset target converges when Go's time difference does not saturate: always for a
  calendar-aligned row or one whose \<^verbatim>\<open>CreatedAt\<close> is set, and otherwise within about 292 years
  of the last reset.
\<close>

definition converging :: "TableBudget \<Rightarrow> time \<Rightarrow> bool" where
  "converging b now \<longleftrightarrow> \<not> time_IsZero (CreatedAt b)
     \<or> (IsCalendarAligned b \<and> IsCalendarAlignableDuration (ResetDuration b))
     \<or> now - LastReset b < 2 ^ 63"

lemma budget_reset_converges:
  assumes "converging b now"
  shows "budgetResetTarget (budget_reset b now) now = None"
proof (cases "budgetResetTarget b now")
  case None
  then show ?thesis by (simp add: budget_reset_def)
next
  case (Some t)
  let ?b' = "b\<lparr>CurrentUsage := Fin 0, LastReset := t\<rparr>"
  have t: "t = WindowStart b now" "LastReset b < t" using budgetResetTarget_after [OF Some] by auto
  have "WindowStart ?b' now = t"
  proof (cases "IsCalendarAligned b \<and> IsCalendarAlignableDuration (ResetDuration b)")
    case True
    then show ?thesis using t by (simp add: WindowStart_calendar budget_QuarterStartMonth_def)
  next
    case rolling: False
    then obtain d where d: "ParseDuration (ResetDuration b) = Inr d" "0 < d" and ne: "ResetDuration b \<noteq> []"
      using Some by (auto simp: budgetResetTarget_def split: if_splits sum.splits)
    then have w: "WindowStart c now = RollingWindowStart (if time_IsZero (CreatedAt b) then LastReset c else CreatedAt b) d now"
      if "c = b \<or> c = ?b'" for c
      using rolling that by (auto simp: WindowStart_def Let_def)
    show ?thesis
    proof (cases "time_IsZero (CreatedAt b)")
      case False
      then show ?thesis using w [of b] w [of ?b'] t by simp
    next
      case True
      then have lt: "now - LastReset b < 2 ^ 63" using assms rolling by (auto simp: converging_def)
      have tw: "t = RollingWindowStart (LastReset b) d now" using t w [of b] True by simp
      have "LastReset b \<le> now"
        using tw t(2) d by (auto simp: RollingWindowStart_def Let_def time_Sub_def min64_def max64_def split: if_splits)
      then have "RollingWindowStart t d now = t"
        using rolling_lattice [OF d(2) _ lt] tw by auto
      then show ?thesis using w [of ?b'] True by simp
    qed
  qed
  then show ?thesis
    using Some by (simp add: budget_reset_def budgetResetTarget_def)
qed

section \<open>Sweeps\<close>

definition due_resets :: "(string \<Rightarrow> TableBudget option) \<Rightarrow> time \<Rightarrow> string list \<Rightarrow> TableBudget list" where
  "due_resets m now ids = concat (map (\<lambda>k. case m k of
     Some b \<Rightarrow> if budget_due b now then [budget_reset b now] else [] | None \<Rightarrow> []) ids)"

definition swept :: "LocalGovernanceStore \<Rightarrow> time \<Rightarrow> string set \<Rightarrow> LocalGovernanceStore \<Rightarrow> bool" where
  "swept gs now ks gs' \<longleftrightarrow>
     (\<forall>k. gm_get (budgets gs') k =
        (if k \<in> ks then map_option (\<lambda>b. budget_reset b now) (gm_get (budgets gs) k)
         else gm_get (budgets gs) k))
     \<and> onBudgetsReset gs' = onBudgetsReset gs
     \<and> (\<forall>k. gm_get (LastDBUsagesBudgets gs') k =
         (if k \<in> ks \<and> (\<exists>b. gm_get (budgets gs) k = Some b \<and> budget_due b now) then Some (Fin 0)
          else gm_get (LastDBUsagesBudgets gs) k))"

lemma budget_reset_idle: "\<not> budget_due b now \<Longrightarrow> budget_reset b now = b"
  by (simp add: budget_due_def budget_reset_def)

lemma set_due_resets:
  "set (due_resets m now ids) = {budget_reset b now |k b. k \<in> set ids \<and> m k = Some b \<and> budget_due b now}"
proof -
  have "set (case m k of Some b \<Rightarrow> if budget_due b now then [budget_reset b now] else [] | None \<Rightarrow> [])
      = {budget_reset b now |b. m k = Some b \<and> budget_due b now}" for k
    by (cases "m k") auto
  then show ?thesis unfolding due_resets_def by auto
qed

lemma due_resets_cong: "(\<And>k. k \<in> set ids \<Longrightarrow> m k = m' k) \<Longrightarrow> due_resets m now ids = due_resets m' now ids"
  unfolding due_resets_def by (rule arg_cong [where f = concat], rule map_cong) auto

lemma sweep_fold:
  assumes "distinct ids" "\<And>k b. gm_get (budgets gs) k = Some b \<Longrightarrow> ID b = k"
  shows "\<exists>gs'. fold (sweep_budget now) ids (gs, acc) = (gs', acc @ due_resets (gm_get (budgets gs)) now ids)
    \<and> swept gs now (set ids) gs'"
  using assms
proof (induction ids arbitrary: gs acc)
  case Nil
  then show ?case by (simp add: due_resets_def swept_def)
next
  case (Cons k ids)
  show ?case
  proof (cases "\<exists>b. gm_get (budgets gs) k = Some b \<and> budget_due b now")
    case False
    then have s: "sweep_budget now k (gs, acc) = (gs, acc)"
      using Cons.prems(2) [of k] by (cases "gm_get (budgets gs) k") (auto simp: sweep_budget_step)
    have r: "due_resets (gm_get (budgets gs)) now (k # ids) = due_resets (gm_get (budgets gs)) now ids"
      using False by (auto simp: due_resets_def split: option.split)
    have "\<exists>gs'. fold (sweep_budget now) ids (gs, acc) = (gs', acc @ due_resets (gm_get (budgets gs)) now ids)
        \<and> swept gs now (set ids) gs'"
      by (rule Cons.IH) (use Cons.prems in auto)
    then obtain gs' where "fold (sweep_budget now) ids (gs, acc) = (gs', acc @ due_resets (gm_get (budgets gs)) now ids)"
      and w: "swept gs now (set ids) gs'" by blast
    moreover have "swept gs now (set (k # ids)) gs'"
      using w False by (cases "gm_get (budgets gs) k") (auto simp: swept_def budget_reset_idle)
    ultimately show ?thesis using s r by auto
  next
    case True
    then obtain b where b: "gm_get (budgets gs) k = Some b" and due: "budget_due b now" by blast
    let ?gs1 = "clearBudgetBaseline (gs\<lparr>budgets := gm_put k (budget_reset b now) (budgets gs)\<rparr>) k"
    let ?acc1 = "acc @ [budget_reset b now]"
    have kn: "k \<notin> set ids" using Cons.prems(1) by simp
    have c: "due_resets (gm_get (budgets ?gs1)) now ids = due_resets (gm_get (budgets gs)) now ids"
      by (rule due_resets_cong) (use kn in auto)
    have "\<exists>gs'. fold (sweep_budget now) ids (?gs1, ?acc1) =
        (gs', ?acc1 @ due_resets (gm_get (budgets ?gs1)) now ids) \<and> swept ?gs1 now (set ids) gs'"
      by (rule Cons.IH) (use Cons.prems b in \<open>auto split: if_splits\<close>)
    then obtain gs' where f: "fold (sweep_budget now) ids (?gs1, ?acc1) =
        (gs', ?acc1 @ due_resets (gm_get (budgets gs)) now ids)" and w: "swept ?gs1 now (set ids) gs'"
      unfolding c by blast
    have "swept gs now (set (k # ids)) gs'"
      using w b due kn by (simp add: swept_def) blast
    moreover have "sweep_budget now k (gs, acc) = (?gs1, ?acc1)"
      using sweep_budget_step [OF b Cons.prems(2) [OF b]] due by simp
    moreover have "due_resets (gm_get (budgets gs)) now (k # ids) =
        budget_reset b now # due_resets (gm_get (budgets gs)) now ids"
      using b due by (simp add: due_resets_def)
    ultimately show ?thesis using f by auto
  qed
qed

lemma storeVirtualKey_frame [simp, frame_simps]:
  "budgets (storeVirtualKey gs v vk) = budgets gs"
  "rateLimits (storeVirtualKey gs v vk) = rateLimits gs"
  "LastDBUsagesBudgets (storeVirtualKey gs v vk) = LastDBUsagesBudgets gs"
  "onBudgetsReset (storeVirtualKey gs v vk) = onBudgetsReset gs"
  "teams (storeVirtualKey gs v vk) = teams gs"
  "customers (storeVirtualKey gs v vk) = customers gs"
  by (simp_all add: storeVirtualKey_def Let_def)

lemma references_keep:
  assumes "\<And>s v vk. P (storeVirtualKey s v vk) = P s" "\<And>s x. P (teams_update x s) = P s"
    and "\<And>s x. P (customers_update x s) = P s"
  shows "P (updateBudgetReferences gs rs) = P gs" "P (updateRateLimitReferences gs rls) = P gs"
proof -
  have 1: "P (fold f xs s) = P s" if "\<And>k x s. P (f (k, x) s) = P s" for f xs s
    by (rule fold_keeps) (use that in auto)
  show "P (updateBudgetReferences gs rs) = P gs" "P (updateRateLimitReferences gs rls) = P gs"
    by (simp_all add: updateBudgetReferences_def updateRateLimitReferences_def Let_def)
       (simp_all add: 1 assms split: option.split)
qed

lemma updateBudgetReferences_frame [simp, frame_simps]:
  "budgets (updateBudgetReferences gs rs) = budgets gs"
  "rateLimits (updateBudgetReferences gs rs) = rateLimits gs"
  "LastDBUsagesBudgets (updateBudgetReferences gs rs) = LastDBUsagesBudgets gs"
  "onBudgetsReset (updateBudgetReferences gs rs) = onBudgetsReset gs"
  by (rule references_keep(1); simp)+

lemma updateRateLimitReferences_frame [simp, frame_simps]:
  "budgets (updateRateLimitReferences gs rs) = budgets gs"
  "rateLimits (updateRateLimitReferences gs rs) = rateLimits gs"
  by (rule references_keep(2); simp)+

section \<open>A concrete store\<close>

definition empty_store :: LocalGovernanceStore where
  "empty_store = \<lparr>virtualKeys = [], virtualKeysByID = [], teams = [], customers = [], budgets = [],
     rateLimits = [], modelConfigs = [], providers = [], LastDBUsagesBudgets = [],
     LastDBUsagesRequestsRateLimits = [], LastDBUsagesTokensRateLimits = [], budgetResetGens = [],
     modelCatalog = None, onBudgetsReset = Some [], onRateLimitsReset = None\<rparr>"

definition sample_store :: LocalGovernanceStore where
  "sample_store = empty_store\<lparr>budgets := [(''b1'', sample_budget)], rateLimits := [(''r1'', sample_rl)]\<rparr>"

lemma sample_store_rows:
  "gm_ok (budgets sample_store)" "gm_get (budgets sample_store) k = Some b \<Longrightarrow> k = ''b1'' \<and> b = sample_budget"
  "LoadBudget sample_store ''b1'' = Some sample_budget" "LoadRateLimit sample_store ''r1'' = Some sample_rl"
  "ID sample_budget = ''b1''" "rl_ID sample_rl = ''r1''"
  by (auto simp: sample_store_def empty_store_def LoadBudget_def LoadRateLimit_def sample_budget_def
      sample_rl_def split: if_splits)

section \<open>Properties\<close>

text \<open>
  C1: a cost is charged to a budget exactly once. For every sequence of clock readings the
  stored row ends with the old usage plus the cost when its window boundary did not move,
  and with the cost alone when it moved; the boundary never moves backward, and no other
  budget and no rate limit changes.
\<close>

theorem BumpBudgetUsage_charges_once:
  assumes "LoadBudget gs k = Some b" "ID b = k"
  shows "\<exists>b'. gm_get (budgets (BumpBudgetUsage gs clock k cost)) = (gm_get (budgets gs))(k \<mapsto> b')
    \<and> LastReset b \<le> LastReset b'
    \<and> CurrentUsage b' = f64_add (if LastReset b' = LastReset b then CurrentUsage b else Fin 0) cost
    \<and> rateLimits (BumpBudgetUsage gs clock k cost) = rateLimits gs"
  using bump_budget_refines [of gs k b clock 0 cost] assms
    budget_row.bump_accounts_once [of b cost clock 0]
  by (intro exI [of _ "row_bump budget_due budget_reset (budget_charge cost) clock 0 b"])
     (simp add: BumpBudgetUsage_def LoadBudget_def fun_upd_def)

theorem BumpBudgetUsage_charges_once_witness:
  "\<exists>b'. LoadBudget (BumpBudgetUsage sample_store (\<lambda>_. 63900000000000000000) ''b1'' (Fin 5)) ''b1'' = Some b'
    \<and> CurrentUsage b' = f64_add (if LastReset b' = LastReset sample_budget then Fin 7 else Fin 0) (Fin 5)"
proof -
  obtain b' where "gm_get (budgets (BumpBudgetUsage sample_store (\<lambda>_. 63900000000000000000) ''b1'' (Fin 5)))
      = (gm_get (budgets sample_store))(''b1'' \<mapsto> b')"
    and "CurrentUsage b' = f64_add (if LastReset b' = LastReset sample_budget then CurrentUsage sample_budget
      else Fin 0) (Fin 5)"
    using BumpBudgetUsage_charges_once [OF sample_store_rows(3,5)] by blast
  moreover have "CurrentUsage sample_budget = Fin 7" by (simp add: sample_budget_def)
  ultimately show ?thesis by (simp add: LoadBudget_def)
qed

text \<open>
  a request is counted on a rate limit exactly once on each counter that is to be
  updated, each in its own window: the token counter grows by the tokens used and the
  request counter by one, from the old value if that counter's boundary did not move and
  from zero if it did; a counter that is not to be updated keeps its value or is reset.
\<close>

theorem BumpRateLimitUsage_counts_once:
  assumes "LoadRateLimit gs k = Some rl" "rl_ID rl = k"
  shows "\<exists>rl'. gm_get (rateLimits (BumpRateLimitUsage gs clock k n a c)) = (gm_get (rateLimits gs))(k \<mapsto> rl')
    \<and> TokenLastReset rl \<le> TokenLastReset rl' \<and> RequestLastReset rl \<le> RequestLastReset rl'
    \<and> TokenCurrentUsage rl' = (let u = (if TokenLastReset rl' = TokenLastReset rl then TokenCurrentUsage rl else 0)
        in if a then wrap64 (u + n) else u)
    \<and> RequestCurrentUsage rl' = (let u = (if RequestLastReset rl' = RequestLastReset rl then RequestCurrentUsage rl else 0)
        in if c then wrap64 (u + 1) else u)"
  using bump_rate_limit_refines [of gs k rl clock 0 n a c] assms
    token_row.bump_accounts_once [of rl n a c clock 0]
    request_row.bump_accounts_once [of rl n a c clock 0]
  by (intro exI [of _ "row_bump rl_due rl_reset (\<lambda>rl. bump_counters rl n a c) clock 0 rl"])
     (simp add: BumpRateLimitUsage_def LoadRateLimit_def Let_def fun_upd_def)

theorem BumpRateLimitUsage_counts_once_witness:
  "\<exists>rl'. LoadRateLimit (BumpRateLimitUsage sample_store (\<lambda>_. 63899992800000000001) ''r1'' 40 True False) ''r1'' = Some rl'
    \<and> TokenLastReset sample_rl \<le> TokenLastReset rl'"
proof -
  obtain rl' where "gm_get (rateLimits (BumpRateLimitUsage sample_store (\<lambda>_. 63899992800000000001) ''r1'' 40 True False))
      = (gm_get (rateLimits sample_store))(''r1'' \<mapsto> rl')"
    and "TokenLastReset sample_rl \<le> TokenLastReset rl'"
    using BumpRateLimitUsage_counts_once [OF sample_store_rows(4,6)] by blast
  then show ?thesis by (simp add: LoadRateLimit_def)
qed

text \<open>The state after a sweep over all budgets, in terms of the due resets.\<close>

lemma sweep_all_budgets:
  assumes "gm_ok (budgets gs)" "\<And>k b. gm_get (budgets gs) k = Some b \<Longrightarrow> ID b = k"
    and "ResetExpiredBudgetsInMemory gs now refresh [] = (gs', resets)"
  shows "gm_get (budgets gs') k = map_option (\<lambda>b. budget_reset b now) (gm_get (budgets gs) k)"
    and "set resets = {budget_reset b now |j b. gm_get (budgets gs) j = Some b \<and> budget_due b now}"
    and "gm_get (budgets gs) k = Some b \<Longrightarrow> budget_due b now \<Longrightarrow> gm_get (LastDBUsagesBudgets gs') k = Some (Fin 0)"
    and "onBudgetsReset gs' = (if resets = [] then onBudgetsReset gs else map_option (Cons resets) (onBudgetsReset gs))"
proof -
  let ?ids = "map fst (budgets gs)"
  have mem: "k \<in> set ?ids \<longleftrightarrow> gm_get (budgets gs) k \<noteq> None" for k
    by (metis domIff dom_map_of_conv_image_fst list.set_map)
  obtain g1 where g1: "fold (sweep_budget now) ?ids (gs, []) = (g1, due_resets (gm_get (budgets gs)) now ?ids)"
    and w: "swept gs now (set ?ids) g1"
    using sweep_fold [OF assms(1,2), where now = now and acc = "[]"] by auto
  have r: "resets = due_resets (gm_get (budgets gs)) now ?ids" "budgets gs' = budgets g1"
    "LastDBUsagesBudgets gs' = LastDBUsagesBudgets g1"
    and hook: "onBudgetsReset gs' = (if resets = [] then onBudgetsReset gs else map_option (Cons resets) (onBudgetsReset gs))"
    using assms(3) w by (auto simp: ResetExpiredBudgetsInMemory_def g1 Let_def swept_def split: if_splits)
  show "onBudgetsReset gs' = (if resets = [] then onBudgetsReset gs else map_option (Cons resets) (onBudgetsReset gs))"
    by (rule hook)
  show "set resets = {budget_reset b now |j b. gm_get (budgets gs) j = Some b \<and> budget_due b now}"
    unfolding r(1) set_due_resets using mem by blast
  show "gm_get (budgets gs') k = map_option (\<lambda>b. budget_reset b now) (gm_get (budgets gs) k)"
    unfolding r(2) using w mem [of k] by (auto simp: swept_def)
  show "gm_get (budgets gs) k = Some b \<Longrightarrow> budget_due b now \<Longrightarrow> gm_get (LastDBUsagesBudgets gs') k = Some (Fin 0)"
    using w mem [of k] by (simp add: r(3) swept_def)
qed

text \<open>
  a sweep over all budgets resets exactly the budgets whose window has closed: each of
  them, and no other, is replaced by its reset row with usage zero at the new boundary,
  its database baseline is zeroed, and the reset hook is called once with the reset rows,
  or not at all when nothing was due.
\<close>

theorem sweep_resets_exactly_the_due:
  assumes "gm_ok (budgets gs)" "\<And>k b. gm_get (budgets gs) k = Some b \<Longrightarrow> ID b = k"
    and "ResetExpiredBudgetsInMemory gs now refresh [] = (gs', resets)"
  shows "gm_get (budgets gs') k = map_option (\<lambda>b. budget_reset b now) (gm_get (budgets gs) k)
    \<and> set resets = {budget_reset b now |j b. gm_get (budgets gs) j = Some b \<and> budget_due b now}
    \<and> (\<forall>b. gm_get (budgets gs) k = Some b \<and> budget_due b now \<longrightarrow>
         gm_get (LastDBUsagesBudgets gs') k = Some (Fin 0) \<and> CurrentUsage (budget_reset b now) = Fin 0)
    \<and> onBudgetsReset gs' = (if resets = [] then onBudgetsReset gs
        else map_option (Cons resets) (onBudgetsReset gs))"
proof -
  have "CurrentUsage (budget_reset b now) = Fin 0" if "budget_due b now" for b
    using that by (auto simp: budget_due_def budget_reset_def)
  then show ?thesis
    using sweep_all_budgets(1,2,4) [OF assms] sweep_all_budgets(3) [OF assms, of k] by blast
qed

theorem sweep_resets_exactly_the_due_witness:
  "gm_get (budgets (fst (ResetExpiredBudgetsInMemory sample_store 63900007200000000000 True []))) ''b1''
     = Some (budget_reset sample_budget 63900007200000000000)"
proof -
  have g: "gm_get (budgets sample_store) ''b1'' = Some sample_budget"
    using sample_store_rows(3) by (simp add: LoadBudget_def)
  obtain gs' rs where e: "ResetExpiredBudgetsInMemory sample_store 63900007200000000000 True [] = (gs', rs)"
    by fastforce
  have "ID b = k" if "gm_get (budgets sample_store) k = Some b" for k b
    using sample_store_rows(2) [OF that] sample_store_rows(5) by simp
  from sweep_resets_exactly_the_due [OF sample_store_rows(1) this e, of "''b1''"]
  show ?thesis using e g by simp
qed

text \<open>
  applying a reset target makes the row not due: when every stored budget converges, a
  second sweep at the same instant resets nothing, and a row just reset has no target.
\<close>

theorem sweep_idempotent:
  assumes "gm_ok (budgets gs)" "\<And>k b. gm_get (budgets gs) k = Some b \<Longrightarrow> ID b = k"
    and "\<And>k b. gm_get (budgets gs) k = Some b \<Longrightarrow> converging b now"
  shows "snd (ResetExpiredBudgetsInMemory (fst (ResetExpiredBudgetsInMemory gs now r [])) now r' []) = []"
proof -
  let ?g = "fst (ResetExpiredBudgetsInMemory gs now r [])"
  let ?ids = "map fst (budgets ?g)"
  obtain g1 where g1: "fold (sweep_budget now) (map fst (budgets gs)) (gs, []) =
      (g1, due_resets (gm_get (budgets gs)) now (map fst (budgets gs)))"
    and w: "swept gs now (set (map fst (budgets gs))) g1"
    using sweep_fold [OF assms(1,2), where now = now and acc = "[]"] by auto
  have g: "budgets ?g = budgets g1"
    by (simp add: ResetExpiredBudgetsInMemory_def g1 Let_def)
  have idle: "\<not> budget_due b now \<and> ID b = k" if kb: "gm_get (budgets ?g) k = Some b" for k b
  proof -
    have "k \<in> set (map fst (budgets gs))" if "gm_get (budgets gs) k \<noteq> None"
      using that by (metis domIff dom_map_of_conv_image_fst list.set_map)
    then obtain c where "gm_get (budgets gs) k = Some c" "b = budget_reset c now"
      using kb w unfolding g by (cases "gm_get (budgets gs) k") (auto simp: swept_def split: if_splits)
    then show ?thesis
      using assms(2,3) [of k c] budget_reset_converges [of c now] by (simp add: budget_due_def)
  qed
  have "fold (sweep_budget now) ks (?g, []) = (?g, [])" for ks
  proof (induction ks)
    case (Cons k ks)
    then show ?case
      using idle [of k] by (cases "gm_get (budgets ?g) k") (auto simp: sweep_budget_step)
  qed simp
  then show ?thesis by (simp add: ResetExpiredBudgetsInMemory_def [of ?g] Let_def)
qed

theorem sweep_idempotent_witness:
  "snd (ResetExpiredBudgetsInMemory
     (fst (ResetExpiredBudgetsInMemory sample_store 63900007200000000000 False [])) 63900007200000000000 True []) = []"
proof (rule sweep_idempotent)
  fix k b assume "gm_get (budgets sample_store) k = Some b"
  then have "k = ''b1'' \<and> b = sample_budget" by (rule sample_store_rows(2))
  then show "ID b = k" "converging b 63900007200000000000"
    using sample_store_rows(5) by (auto simp: converging_def sample_budget_def time_IsZero_def)
qed (rule sample_store_rows(1))

text \<open>
  all nodes of a cluster reset a budget to the same boundary. Two nodes that hold the
  same persisted row, whatever usage and last reset each has seen, and that both look at it
  within one window, compute the same boundary although their clocks differ; a node that
  has already applied it has nothing to do.
\<close>

theorem cluster_nodes_agree:
  assumes "ResetDuration b' = ResetDuration b" "ResetConfig b' = ResetConfig b"
    and "IsCalendarAligned b' = IsCalendarAligned b" "CreatedAt b' = CreatedAt b"
    and "\<not> time_IsZero (CreatedAt b)" "0 \<le> CreatedAt b" "CreatedAt b \<le> now'"
    and "now' \<le> now" "now - CreatedAt b < 2 ^ 63" "WindowStart b now \<le> now'"
    and "budgetResetTarget b now = Some t"
  shows "budgetResetTarget b' now' = (if LastReset b' < t then Some t else None)"
proof -
  have t: "t = WindowStart b now" using budgetResetTarget_after [OF assms(11)] by simp
  have e: "WindowStart b' now' = t"
  proof (cases "IsCalendarAligned b \<and> IsCalendarAlignableDuration (ResetDuration b)")
    case True
    then have "IsCalendarAlignableDuration (ResetDuration b)" "0 \<le> now" using assms by auto
    note snap = calendar_snap [OF this, of "budget_QuarterStartMonth b"]
    have w: "WindowStart b now = GetCalendarPeriodStart (ResetDuration b) now (budget_QuarterStartMonth b)"
      using True by (simp add: WindowStart_calendar)
    then have "GetCalendarPeriodStart (ResetDuration b) now' (budget_QuarterStartMonth b) = t"
      using snap assms(8,10) t by metis
    then show ?thesis
      using True assms(1-3) by (simp add: WindowStart_calendar budget_QuarterStartMonth_def)
  next
    case False
    then obtain d where d: "ParseDuration (ResetDuration b) = Inr d" "0 < d" "ResetDuration b \<noteq> []"
      using assms(11) by (auto simp: budgetResetTarget_def split: if_splits sum.splits)
    then have w: "WindowStart b now = RollingWindowStart (CreatedAt b) d now"
      "WindowStart b' now' = RollingWindowStart (CreatedAt b) d now'"
      using False assms(1-5) by (auto simp: WindowStart_def Let_def)
    have "CreatedAt b \<le> now" using assms(7,8) by simp
    from rolling_lattice [OF d(2) this assms(9)] obtain k where
      "RollingWindowStart (CreatedAt b) d now = CreatedAt b + k * d"
      "\<forall>u. CreatedAt b + k * d \<le> u \<and> u \<le> now \<longrightarrow> RollingWindowStart (CreatedAt b) d u = CreatedAt b + k * d"
      by blast
    then show ?thesis using w t assms(8,10) by simp
  qed
  show ?thesis using assms(1,3,11) e by (auto simp: budgetResetTarget_def Let_def split: if_splits)
qed

theorem cluster_nodes_agree_witness:
  "\<exists>t. budgetResetTarget sample_budget 63900007200000000005 = Some t
     \<and> budgetResetTarget (sample_budget\<lparr>CurrentUsage := Fin 99\<rparr>) 63900007200000000001 = Some t"
proof -
  have due: "budgetResetTarget sample_budget 63900007200000000005 = Some 63900007200000000000"
    by (simp add: budgetResetTarget_def sample_budget_def parse_1h WindowStart_def Let_def
        RollingWindowStart_def time_IsZero_def time_Sub_def time_Add_def in64_def sdiv_nonneg)
  then have ws: "WindowStart sample_budget 63900007200000000005 = 63900007200000000000"
    using budgetResetTarget_after [OF due] by simp
  have "budgetResetTarget (sample_budget\<lparr>CurrentUsage := Fin 99\<rparr>) 63900007200000000001 =
      (if LastReset (sample_budget\<lparr>CurrentUsage := Fin 99\<rparr>) < 63900007200000000000
       then Some 63900007200000000000 else None)"
    by (rule cluster_nodes_agree [OF _ _ _ _ _ _ _ _ _ _ due], unfold ws)
       (simp_all add: sample_budget_def time_IsZero_def)
  then show ?thesis using due by (simp add: sample_budget_def)
qed

text \<open>
  publishing a configuration keeps what the requests have spent: the usage and the window
  boundary of the stored row survive, and replaying a stale copy of the stored row, with
  any usage, boundary or remaining count, leaves the row exactly as it is, so a reload can
  not hand back an override cycle.
\<close>

theorem UpsertBudgetConfig_keeps_spend:
  assumes "LoadBudget gs k = Some old" "RefreshOverrideCyclesRemaining old = old"
    and "OverrideMode old = BudgetOverrideModeCycles"
  shows "LoadBudget (UpsertBudgetConfig gs k (Some c)) k =
      Some (RefreshOverrideCyclesRemaining (c\<lparr>CurrentUsage := CurrentUsage old, LastReset := LastReset old\<rparr>))
    \<and> LoadBudget (UpsertBudgetConfig gs k
        (Some (old\<lparr>CurrentUsage := u, LastReset := t, OverrideCyclesRemaining := n\<rparr>))) k = Some old"
proof -
  have "old\<lparr>CurrentUsage := CurrentUsage old, LastReset := LastReset old, OverrideCyclesRemaining := n\<rparr>
      = old\<lparr>OverrideCyclesRemaining := n\<rparr>" by simp
  then show ?thesis
    using assms refresh_remaining [OF assms(3), of n]
    by (simp add: UpsertBudgetConfig_def LoadBudget_def Let_def)
qed

definition granted_budget :: TableBudget where
  "granted_budget = RefreshOverrideCyclesRemaining sample_budget"

lemma granted_budget_mode: "OverrideMode granted_budget = BudgetOverrideModeCycles"
proof -
  have "WindowsSinceAnchor sample_budget = 2"
    by (simp add: WindowsSinceAnchor_def sample_budget_def boundaryJitterTolerance_def time_Add_def
        parse_1h time_Sub_def Let_def in64_def wrap64_def sdiv_nonneg)
  then show ?thesis
    by (simp add: granted_budget_def RefreshOverrideCyclesRemaining_def sample_budget_def
        BudgetOverrideModeCycles_def Let_def wrap64_def)
qed

theorem UpsertBudgetConfig_keeps_spend_witness:
  "LoadBudget (UpsertBudgetConfig (sample_store\<lparr>budgets := [(''b1'', granted_budget)]\<rparr>) ''b1''
     (Some (granted_budget\<lparr>CurrentUsage := Fin 0, LastReset := 0, OverrideCyclesRemaining := 99\<rparr>))) ''b1''
   = Some granted_budget"
  using UpsertBudgetConfig_keeps_spend [of "sample_store\<lparr>budgets := [(''b1'', granted_budget)]\<rparr>"
      "''b1''" granted_budget, where c = granted_budget and u = "Fin 0" and t = 0 and n = 99] granted_budget_mode
  by (simp add: LoadBudget_def) (simp add: granted_budget_def)

text \<open>
  an operator's usage reset clears the usage and the database baseline, bumps the reset
  generation so that a pending dump recognises its row as stale, and leaves the window
  boundary where it is.
\<close>

theorem operator_reset_keeps_boundary:
  assumes "LoadBudget gs k = Some old"
  shows "\<exists>gs' b'. ResetBudgetUsageInMemory gs k = (gs', Some b') \<and> LoadBudget gs' k = Some b'
    \<and> CurrentUsage b' = Fin 0 \<and> LastReset b' = LastReset old \<and> MaxLimit b' = MaxLimit old
    \<and> gm_get (LastDBUsagesBudgets gs') k = Some (Fin 0)
    \<and> gm_get0 0 (budgetResetGens gs') k = (gm_get0 0 (budgetResetGens gs) k + 1) mod 2 ^ 64
    \<and> (\<forall>j. j \<noteq> k \<longrightarrow> LoadBudget gs' j = LoadBudget gs j)"
  using assms
  by (simp add: ResetBudgetUsageInMemory_def RebaseBudget_def LoadBudget_def Let_def)

theorem operator_reset_keeps_boundary_witness:
  "\<exists>gs' b'. ResetBudgetUsageInMemory sample_store ''b1'' = (gs', Some b')
     \<and> CurrentUsage b' = Fin 0 \<and> LastReset b' = 63900000000000000000"
  using operator_reset_keeps_boundary [of sample_store "''b1''" sample_budget] sample_store_rows(3)
  by (auto simp: sample_budget_def)

text \<open>
  installing usage received from the cluster never moves a window boundary backward, on
  a budget or on either counter of a rate limit, and installs exactly the received usage.
\<close>

theorem rebase_never_reopens_window:
  assumes "LoadBudget gs k = Some b" "LoadRateLimit gs j = Some rl"
  shows "(\<exists>b'. snd (RebaseBudget gs k u lr) = Some b' \<and> CurrentUsage b' = u
      \<and> LastReset b' = (case lr of None \<Rightarrow> LastReset b | Some t \<Rightarrow> max (LastReset b) t))
    \<and> (\<exists>rl'. snd (RebaseRateLimit gs j n m tr qr) = Some rl' \<and> TokenCurrentUsage rl' = n \<and> RequestCurrentUsage rl' = m
      \<and> TokenLastReset rl' = (case tr of None \<Rightarrow> TokenLastReset rl | Some t \<Rightarrow> max (TokenLastReset rl) t)
      \<and> RequestLastReset rl' = (case qr of None \<Rightarrow> RequestLastReset rl | Some t \<Rightarrow> max (RequestLastReset rl) t))"
  using assms
  by (auto simp: RebaseBudget_def RebaseRateLimit_def LoadBudget_def LoadRateLimit_def Let_def
      advance_opt_def max_def split: option.split)

theorem rebase_never_reopens_window_witness:
  "\<exists>b'. snd (RebaseBudget sample_store ''b1'' (Fin 3) (Some 0)) = Some b' \<and> LastReset b' = LastReset sample_budget"
  using rebase_never_reopens_window [of sample_store "''b1''" sample_budget "''r1''" sample_rl "Fin 3" "Some 0"
      0 0 None None] sample_store_rows(3,4)
  by (auto simp: sample_budget_def)

end
