(* ===== verification/CAS_Interleaving.thy ===== *)
theory CAS_Interleaving
  imports Store_Accounting "HOL-Library.Multiset"
begin

text \<open>
  The compare-and-swap loops of plugins/governance/store.go, run by many goroutines at once
  on one live row. \<open>BumpBudgetUsage\<close>, \<open>ResetBudgetAt\<close>, \<open>UpsertBudgetConfig\<close>, \<open>RebaseBudget\<close>,
  \<open>AdoptCalendarAlignmentInMemory\<close> and their counterparts for rate limits load the row of a live map,
  change a clone of it and publish the clone with \<^verbatim>\<open>CompareAndSwap\<close>, starting over when another
  goroutine has published in between; an operator's reset of a budget is a rebase to zero. The
  comparison is of pointers, and every published clone is a fresh pointer, so a row of the map is a
  cell with a version that each publication increments. The updates of owners (\<open>UpdateVirtualKeyInMemory\<close>
  and its like) are not such loops: they load the row, put its counters into the new configuration
  and store that, whatever was published in between; the task \<open>Install\<close> is one of these.

  A goroutine is at a task: charging the row (with the number of resets it has requested so
  far), the sweep over the one row that precedes a charge or that the reset worker runs, the
  conditional reset of the sweep, the publication of a configuration, a rebase, the switch to the
  calendar grid, or an unchecked store. It either is about to load the row, or holds what it loaded
  and the clock reading it then took. Loads, successful swaps, failed swaps, unchecked stores and
  decisions that publish nothing are the steps of the system, in any order and with any clock readings.

  The last three fields of the state are not part of the program. A rebase and a calendar switch
  start a new epoch of the row: \<open>origin\<close> is the row the present epoch started with, \<open>charged\<close> lists the
  charges of the present epoch in the order in which they took effect, each with the clone that
  carried it into the map, and \<open>epochs\<close> lists the epochs that ended, each with its first row, its charges and
  its last row. Not modelled are the deletion of a row during a loop and \<open>BumpRateLimitUsageBy\<close>.

  The locale \<open>shared_row\<close> states what one published clone may do to a counter; it is
  interpreted for the spend of a budget and the token and request counters of a rate limit.
\<close>

datatype ('c, 'g, 'o, 't) cas_task =
    Bump 'c nat
  | Sweep "('c \<times> nat) option"
  | ResetTo 't "('c \<times> nat) option"
  | Upsert 'g
  | Rebase 'o
  | Adopt time
  | Install 'g

datatype ('k, 'r) goroutine = Running 'k | Loaded 'k nat 'r time | Finished

type_synonym ('c, 'r) epoch = "'r \<times> ('r \<times> 'c) list \<times> 'r"

record ('c, 'k, 'r) cas_state =
  version :: nat
  cell :: 'r
  goroutines :: "('k, 'r) goroutine list"
  origin :: 'r
  epochs :: "('c, 'r) epoch list"
  charged :: "('r \<times> 'c) list"

section \<open>The tasks of a goroutine\<close>

text \<open>
  What a task does with the row it loaded: the clone it tries to publish, if any, and the
  task it goes on with; \<open>None\<close> as the next task is the return of the call.
\<close>

definition after_sweep :: "('c \<times> nat) option \<Rightarrow> ('c, 'g, 'o, 't) cas_task option" where
  "after_sweep k = (case k of None \<Rightarrow> None | Some (c, n) \<Rightarrow> Some (Bump c n))"

type_synonym budget_task = "(f64, TableBudget, f64 \<times> time option, time) cas_task"

fun budget_act ::
    "time \<Rightarrow> TableBudget \<Rightarrow> budget_task
      \<Rightarrow> TableBudget option \<times> budget_task option" where
  "budget_act now old (Bump cost resetAttempts) =
     (let target = budgetResetTarget old now in
      if target \<noteq> None \<and> resetAttempts < maxRequestTimeResetAttempts
      then (None, Some (Sweep (Some (cost, resetAttempts + 1))))
      else let clone = (case target of None \<Rightarrow> old
              | Some t \<Rightarrow> RefreshOverrideCyclesRemaining (old\<lparr>CurrentUsage := Fin 0, LastReset := t\<rparr>))
        in (Some (clone\<lparr>CurrentUsage := f64_add (CurrentUsage clone) cost\<rparr>), None))"
| "budget_act now old (Sweep k) =
     (case budgetResetTarget old now of
        None \<Rightarrow> (None, after_sweep k) | Some t \<Rightarrow> (None, Some (ResetTo t k)))"
| "budget_act now old (ResetTo newLastReset k) =
     (if \<not> LastReset old < newLastReset then (None, after_sweep k)
      else (Some (RefreshOverrideCyclesRemaining (old\<lparr>CurrentUsage := Fin 0, LastReset := newLastReset\<rparr>)),
            after_sweep k))"
| "budget_act now old (Upsert config) =
     (Some (RefreshOverrideCyclesRemaining
        (config\<lparr>CurrentUsage := CurrentUsage old, LastReset := LastReset old\<rparr>)), None)"
| "budget_act now old (Rebase (newUsage, newLastReset)) =
     (let clone1 = old\<lparr>CurrentUsage := newUsage\<rparr>;
          clone2 = (case newLastReset of None \<Rightarrow> clone1
            | Some t \<Rightarrow> if LastReset clone1 < t then clone1\<lparr>LastReset := t\<rparr> else clone1)
      in (Some (RefreshOverrideCyclesRemaining clone2), None))"
| "budget_act now old (Adopt switched) =
     (case AdoptCalendarAlignment (old\<lparr>IsCalendarAligned := True\<rparr>) switched of
        (clone, False) \<Rightarrow> (None, None)
      | (clone, True) \<Rightarrow> (Some (RefreshOverrideCyclesRemaining clone), None))"
| "budget_act now old (Install config) =
     (Some (RefreshOverrideCyclesRemaining
        (config\<lparr>LastReset := LastReset old, CurrentUsage := CurrentUsage old\<rparr>)), None)"

type_synonym rl_charge = "int \<times> bool \<times> bool"
type_synonym rl_target = "time option \<times> time option"
type_synonym rl_task = "(rl_charge, TableRateLimit, (int \<times> int) \<times> rl_target, rl_target) cas_task"

fun rate_limit_act ::
    "time \<Rightarrow> TableRateLimit \<Rightarrow> rl_task
      \<Rightarrow> TableRateLimit option \<times> rl_task option" where
  "rate_limit_act now old (Bump (tokensUsed, updT, updR) resetAttempts) =
     (let (tokenNew, requestNew) = rateLimitResetTargets old now in
      if (tokenNew \<noteq> None \<or> requestNew \<noteq> None) \<and> resetAttempts < maxRequestTimeResetAttempts
      then (None, Some (Sweep (Some ((tokensUsed, updT, updR), resetAttempts + 1))))
      else let clone1 = (case tokenNew of None \<Rightarrow> old
                | Some t \<Rightarrow> old\<lparr>TokenCurrentUsage := 0, TokenLastReset := t\<rparr>);
               clone2 = (case requestNew of None \<Rightarrow> clone1
                | Some t \<Rightarrow> clone1\<lparr>RequestCurrentUsage := 0, RequestLastReset := t\<rparr>)
        in (Some (bump_counters clone2 tokensUsed updT updR), None))"
| "rate_limit_act now old (Sweep k) =
     (let (tokenNew, requestNew) = rateLimitResetTargets old now in
      if tokenNew = None \<and> requestNew = None then (None, after_sweep k)
      else (None, Some (ResetTo (tokenNew, requestNew) k)))"
| "rate_limit_act now old (ResetTo (tokenNew, requestNew) k) =
     (let t = advance_opt (TokenLastReset old) tokenNew;
          q = advance_opt (RequestLastReset old) requestNew;
          clone1 = (if t then old\<lparr>TokenCurrentUsage := 0, TokenLastReset := the tokenNew\<rparr> else old);
          clone = (if q then clone1\<lparr>RequestCurrentUsage := 0, RequestLastReset := the requestNew\<rparr>
                   else clone1)
      in if \<not> t \<and> \<not> q then (None, after_sweep k) else (Some clone, after_sweep k))"
| "rate_limit_act now old (Upsert config) =
     (Some (config\<lparr>TokenCurrentUsage := TokenCurrentUsage old, TokenLastReset := TokenLastReset old,
        RequestCurrentUsage := RequestCurrentUsage old, RequestLastReset := RequestLastReset old\<rparr>), None)"
| "rate_limit_act now old (Rebase ((newTokens, newRequests), (tokenLast, requestLast))) =
     (let clone0 = old\<lparr>TokenCurrentUsage := newTokens, RequestCurrentUsage := newRequests\<rparr>;
          clone1 = (if advance_opt (TokenLastReset clone0) tokenLast
                    then clone0\<lparr>TokenLastReset := the tokenLast\<rparr> else clone0);
          clone = (if advance_opt (RequestLastReset clone1) requestLast
                   then clone1\<lparr>RequestLastReset := the requestLast\<rparr> else clone1)
      in (Some clone, None))"
| "rate_limit_act now old (Adopt switched) =
     (case rl_AdoptCalendarAlignment (old\<lparr>rl_IsCalendarAligned := True\<rparr>) switched of
        (clone, False) \<Rightarrow> (None, None) | (clone, True) \<Rightarrow> (Some clone, None))"
| "rate_limit_act now old (Install config) =
     (Some (config\<lparr>TokenCurrentUsage := TokenCurrentUsage old, RequestCurrentUsage := RequestCurrentUsage old,
        TokenLastReset := TokenLastReset old, RequestLastReset := RequestLastReset old\<rparr>), None)"

fun charge_of :: "('c, 'g, 'o, 't) cas_task \<Rightarrow> 'c list" where
  "charge_of (Bump c _) = [c]"
| "charge_of (Sweep k) = (case k of None \<Rightarrow> [] | Some (c, _) \<Rightarrow> [c])"
| "charge_of (ResetTo _ k) = (case k of None \<Rightarrow> [] | Some (c, _) \<Rightarrow> [c])"
| "charge_of _ = []"

fun is_bump :: "('c, 'g, 'o, 't) cas_task \<Rightarrow> bool" where
  "is_bump (Bump _ _) = True"
| "is_bump _ = False"

text \<open>The tasks that start a new epoch, and those that store without a check.\<close>

fun restarts :: "('c, 'g, 'o, 't) cas_task \<Rightarrow> bool" where
  "restarts (Rebase _) = True"
| "restarts (Adopt _) = True"
| "restarts _ = False"

fun blind :: "('c, 'g, 'o, 't) cas_task \<Rightarrow> bool" where
  "blind (Install _) = True"
| "blind _ = False"

lemma restarts_frame: "restarts k \<Longrightarrow> charge_of k = [] \<and> \<not> is_bump k \<and> \<not> blind k"
  by (cases k) simp_all

fun pending :: "(('c, 'g, 'o, 't) cas_task, 'r) goroutine \<Rightarrow> 'c list" where
  "pending (Running k) = charge_of k"
| "pending (Loaded k _ _ _) = charge_of k"
| "pending Finished = []"

text \<open>The rounds a task has left when nobody interferes.\<close>

fun rounds_left :: "('c, 'g, 'o, 't) cas_task \<Rightarrow> nat" where
  "rounds_left (Bump _ n) = 3 * (maxRequestTimeResetAttempts - n)"
| "rounds_left (Sweep k) = 2 + (case k of None \<Rightarrow> 0 | Some (_, n) \<Rightarrow> 3 * (maxRequestTimeResetAttempts - n))"
| "rounds_left (ResetTo _ k) = 1 + (case k of None \<Rightarrow> 0 | Some (_, n) \<Rightarrow> 3 * (maxRequestTimeResetAttempts - n))"
| "rounds_left _ = 0"

definition go_on :: "'k option \<Rightarrow> ('k, 'r) goroutine" where
  "go_on next_task = (case next_task of None \<Rightarrow> Finished | Some k \<Rightarrow> Running k)"

section \<open>Interleavings\<close>

text \<open>Publishing a clone.\<close>

definition put_clone ::
    "('c, 'g, 'o, 't) cas_task \<Rightarrow> 'r \<Rightarrow> ('c, ('c, 'g, 'o, 't) cas_task, 'r) cas_state
      \<Rightarrow> ('c, ('c, 'g, 'o, 't) cas_task, 'r) cas_state" where
  "put_clone k clone s =
     (let s1 = s\<lparr>version := Suc (version s), cell := clone\<rparr>
      in if restarts k
         then s1\<lparr>epochs := epochs s @ [(origin s, charged s, cell s)], origin := clone, charged := []\<rparr>
         else s1\<lparr>charged := charged s @ (if is_bump k then map (Pair clone) (charge_of k) else [])\<rparr>)"

inductive cas_step ::
    "(time \<Rightarrow> 'r \<Rightarrow> ('c, 'g, 'o, 't) cas_task \<Rightarrow> 'r option \<times> ('c, 'g, 'o, 't) cas_task option)
      \<Rightarrow> nat \<Rightarrow> ('c, ('c, 'g, 'o, 't) cas_task, 'r) cas_state \<Rightarrow> ('c, ('c, 'g, 'o, 't) cas_task, 'r) cas_state \<Rightarrow> bool"
  for act :: "time \<Rightarrow> 'r \<Rightarrow> ('c, 'g, 'o, 't) cas_task \<Rightarrow> 'r option \<times> ('c, 'g, 'o, 't) cas_task option"
    and i :: nat where
  load: "i < length (goroutines s) \<Longrightarrow> goroutines s ! i = Running k \<Longrightarrow>
    cas_step act i s (s\<lparr>goroutines := (goroutines s)[i := Loaded k (version s) (cell s) now]\<rparr>)"
| pass: "i < length (goroutines s) \<Longrightarrow> goroutines s ! i = Loaded k v old now \<Longrightarrow> act now old k = (None, n) \<Longrightarrow>
    cas_step act i s (s\<lparr>goroutines := (goroutines s)[i := go_on n]\<rparr>)"
| swap: "i < length (goroutines s) \<Longrightarrow> goroutines s ! i = Loaded k v old now \<Longrightarrow> act now old k = (Some clone, n) \<Longrightarrow>
    \<not> blind k \<Longrightarrow> v = version s \<Longrightarrow>
    cas_step act i s ((put_clone k clone s)\<lparr>goroutines := (goroutines s)[i := go_on n]\<rparr>)"
| retry: "i < length (goroutines s) \<Longrightarrow> goroutines s ! i = Loaded k v old now \<Longrightarrow> act now old k = (Some clone, n) \<Longrightarrow>
    \<not> blind k \<Longrightarrow> v \<noteq> version s \<Longrightarrow>
    cas_step act i s (s\<lparr>goroutines := (goroutines s)[i := Running k]\<rparr>)"
| overwrite: "i < length (goroutines s) \<Longrightarrow> goroutines s ! i = Loaded k v old now \<Longrightarrow> act now old k = (Some clone, n) \<Longrightarrow>
    blind k \<Longrightarrow>
    cas_step act i s ((put_clone k clone s)\<lparr>goroutines := (goroutines s)[i := go_on n]\<rparr>)"

inductive_cases cas_stepE: "cas_step act i s s'"

definition any_step where
  "any_step act s s' \<longleftrightarrow> (\<exists>i. cas_step act i s s')"

definition cas_start :: "'r \<Rightarrow> 'k list \<Rightarrow> ('c, 'k, 'r) cas_state" where
  "cas_start row tasks = \<lparr>version = 0, cell = row, goroutines = map Running tasks,
     origin = row, epochs = [], charged = []\<rparr>"

text \<open>The charges of the window \<open>w\<close>, added up in the order of their publication.\<close>

definition tally ::
    "('c \<Rightarrow> 'u \<Rightarrow> 'u) \<Rightarrow> ('r \<Rightarrow> time) \<Rightarrow> time \<Rightarrow> ('r \<times> 'c) list \<Rightarrow> 'u \<Rightarrow> 'u" where
  "tally add boundary w charges u = fold add (map snd (filter (\<lambda>(r, _). boundary r = w) charges)) u"

text \<open>
  An epoch counts its charges: from its first row to its last the usage is that of the last one's window, what
  it started with if the boundary is still the same, plus the charges published in that window.
\<close>

definition counted ::
    "('r \<Rightarrow> time) \<Rightarrow> ('r \<Rightarrow> 'u) \<Rightarrow> 'u \<Rightarrow> ('c \<Rightarrow> 'u \<Rightarrow> 'u) \<Rightarrow> ('c, 'r) epoch \<Rightarrow> bool" where
  "counted boundary usage zero add e \<longleftrightarrow> (case e of (first, charges, final) \<Rightarrow>
     boundary first \<le> boundary final
     \<and> (\<forall>(r, c) \<in> set charges. boundary first \<le> boundary r \<and> boundary r \<le> boundary final)
     \<and> usage final = tally add boundary (boundary final) charges (if boundary final = boundary first then usage first else zero))"

text \<open>All charges, of the epochs that ended and of the present one.\<close>

definition all_charges :: "('c, 'k, 'r) cas_state \<Rightarrow> 'c list" where
  "all_charges s = map snd (concat (map (\<lambda>(_, charges, _). charges) (epochs s)) @ charged s)"

text \<open>Each epoch starts where the one before it ended, across a restart.\<close>

fun linked :: "('r \<Rightarrow> 'r \<Rightarrow> bool) \<Rightarrow> 'r \<Rightarrow> ('c, 'r) epoch list \<Rightarrow> 'r \<Rightarrow> bool" where
  "linked R row [] first = (first = row)"
| "linked R row ((o1, _, final) # es) first = (o1 = row \<and> (\<exists>o2. R final o2 \<and> linked R o2 es first))"

lemma linked_snoc: "linked R row (es @ [(o1, ch, final)]) first \<longleftrightarrow> linked R row es o1 \<and> R final first"
  by (induction R row es o1 rule: linked.induct) auto

lemma linked_mono: "linked R row es first \<Longrightarrow> (\<And>x y. R x y \<Longrightarrow> R' x y) \<Longrightarrow> linked R' row es first"
  by (induction R row es first rule: linked.induct) auto

lemma linked_nowhere: "linked R row es first \<Longrightarrow> (\<And>x y. \<not> R x y) \<Longrightarrow> es = [] \<and> first = row"
  by (cases es) auto

section \<open>What a published clone may do\<close>

locale shared_row =
  fixes act :: "time \<Rightarrow> 'r \<Rightarrow> ('c, 'g, 'o, 't) cas_task \<Rightarrow> 'r option \<times> ('c, 'g, 'o, 't) cas_task option"
    and boundary :: "'r \<Rightarrow> time"
    and usage :: "'r \<Rightarrow> 'u"
    and zero :: 'u
    and add :: "'c \<Rightarrow> 'u \<Rightarrow> 'u"
  assumes publish: "act now old k = (Some clone, n) \<Longrightarrow> \<not> restarts k \<Longrightarrow> boundary old \<le> boundary clone
        \<and> usage clone = fold add (if is_bump k then charge_of k else [])
            (if boundary clone = boundary old then usage old else zero)"
    and forward: "act now old k = (Some clone, n) \<Longrightarrow> boundary old \<le> boundary clone"
    and bump_returns: "act now old (Bump c m) = (Some clone, n) \<Longrightarrow> n = None"
    and carries: "act now old k = (p, Some k') \<Longrightarrow> charge_of k' = charge_of k"
    and owes: "act now old k = (p, None) \<Longrightarrow> (is_bump k \<and> p \<noteq> None) \<or> charge_of k = []"
    and shorter: "act now old k = (p, Some k') \<Longrightarrow> rounds_left k' < rounds_left k"
    and plain: "act now old k = (p, Some k') \<Longrightarrow> \<not> restarts k' \<and> \<not> blind k'"
begin

definition holds_current :: "('c, ('c, 'g, 'o, 't) cas_task, 'r) cas_state \<Rightarrow> bool" where
  "holds_current s \<longleftrightarrow> (\<forall>k v old now. Loaded k v old now \<in> set (goroutines s) \<longrightarrow>
      v \<le> version s \<and> (v = version s \<longrightarrow> old = cell s))"

text \<open>No goroutine is at an unchecked store, and a restart is one of the tasks given.\<close>

fun known_task :: "('c, 'g, 'o, 't) cas_task list \<Rightarrow> (('c, 'g, 'o, 't) cas_task, 'r) goroutine \<Rightarrow> bool" where
  "known_task tasks (Running k) \<longleftrightarrow> \<not> blind k \<and> (restarts k \<longrightarrow> k \<in> set tasks)"
| "known_task tasks (Loaded k _ _ _) \<longleftrightarrow> \<not> blind k \<and> (restarts k \<longrightarrow> k \<in> set tasks)"
| "known_task tasks Finished \<longleftrightarrow> True"

definition restarted :: "('c, 'g, 'o, 't) cas_task list \<Rightarrow> 'r \<Rightarrow> 'r \<Rightarrow> bool" where
  "restarted tasks old clone \<longleftrightarrow> (\<exists>k now n. k \<in> set tasks \<and> restarts k \<and> act now old k = (Some clone, n))"

definition accounted :: "'r \<Rightarrow> ('c, 'g, 'o, 't) cas_task list \<Rightarrow> ('c, ('c, 'g, 'o, 't) cas_task, 'r) cas_state \<Rightarrow> bool" where
  "accounted row tasks s \<longleftrightarrow>
     boundary row \<le> boundary (origin s)
     \<and> counted boundary usage zero add (origin s, charged s, cell s)
     \<and> list_all (counted boundary usage zero add) (epochs s)
     \<and> linked (restarted tasks) row (epochs s) (origin s)
     \<and> list_all (known_task tasks) (goroutines s)
     \<and> mset (all_charges s) + (\<Sum>g \<in># mset (goroutines s). mset (pending g)) = mset (concat (map charge_of tasks))"

lemma pending_sum_update:
  assumes "i < length gs"
  shows "(\<Sum>g \<in># mset (gs[i := g']). mset (pending g)) + mset (pending (gs ! i)) =
     (\<Sum>g \<in># mset gs. mset (pending g)) + mset (pending g')"
proof -
  obtain M where "mset gs = add_mset (gs ! i) M"
    using assms multi_member_split [of "gs ! i" "mset gs"] by auto
  then show ?thesis using assms by (simp add: mset_update)
qed

lemma settle: "x' + k = x + p \<Longrightarrow> n + p = k \<Longrightarrow> n + x' = x" for x x' k n p :: "'c multiset"
proof -
  assume "x' + k = x + p" "n + p = k"
  then have "x' + (n + p) = x + p" by (simp only:)
  then have "(n + x') + p = x + p" by (simp only: ac_simps)
  then show ?thesis by (simp only: add_right_cancel)
qed

lemma pending_go_on [simp]: "pending (go_on n) = (case n of None \<Rightarrow> [] | Some k \<Rightarrow> charge_of k)"
  by (simp add: go_on_def split: option.split)

lemma go_on_not_loaded [simp]: "Loaded k v old now \<noteq> go_on n" "go_on n \<noteq> Loaded k v old now"
  by (auto simp: go_on_def split: option.split)

lemma set_update_cases: "g \<in> set (xs[i := x]) \<Longrightarrow> g = x \<or> g \<in> set xs"
  using set_update_subset_insert [of xs i x] by auto

lemma holds_current_update:
  assumes "holds_current s" "\<And>k v old now. g = Loaded k v old now \<Longrightarrow> v = version s \<and> old = cell s"
  shows "holds_current (s\<lparr>goroutines := (goroutines s)[i := g]\<rparr>)"
proof -
  have "v \<le> version s \<and> (v = version s \<longrightarrow> old = cell s)"
    if "Loaded k v old now \<in> set ((goroutines s)[i := g])" for k v old now
    using set_update_cases [OF that]
  proof
    assume "Loaded k v old now = g" then show ?thesis using assms(2) [of k v old now] by simp
  next
    assume "Loaded k v old now \<in> set (goroutines s)" then show ?thesis using assms(1) unfolding holds_current_def by blast
  qed
  then show ?thesis unfolding holds_current_def by simp
qed

lemma holds_current_publish:
  assumes "holds_current s"
  shows "holds_current ((put_clone k clone s)\<lparr>goroutines := (goroutines s)[i := go_on n]\<rparr>)"
proof -
  have "v \<le> version s" if "Loaded k v old now \<in> set ((goroutines s)[i := go_on n])" for k v old now
    using set_update_cases [OF that] assms unfolding holds_current_def by auto
  moreover have "version (put_clone k clone s) = Suc (version s)" by (simp add: put_clone_def Let_def)
  ultimately show ?thesis unfolding holds_current_def by fastforce
qed

lemma holds_current_step:
  assumes "cas_step act i s s'" "holds_current s"
  shows "holds_current s'"
  using assms(1)
proof (cases rule: cas_step.cases)
  case (load k now)
  have "holds_current (s\<lparr>goroutines := (goroutines s)[i := Loaded k (version s) (cell s) now]\<rparr>)"
    by (rule holds_current_update [OF assms(2)]) simp
  then show ?thesis using load by simp
next
  case (pass k v old now n)
  have "holds_current (s\<lparr>goroutines := (goroutines s)[i := go_on n]\<rparr>)"
    by (rule holds_current_update [OF assms(2)]) simp
  then show ?thesis using pass by simp
next
  case (swap k v old now clone n) then show ?thesis using holds_current_publish [OF assms(2)] by simp
next
  case (retry k v old now clone n)
  have "holds_current (s\<lparr>goroutines := (goroutines s)[i := Running k]\<rparr>)"
    by (rule holds_current_update [OF assms(2)]) simp
  then show ?thesis using retry by simp
next
  case (overwrite k v old now clone n) then show ?thesis using holds_current_publish [OF assms(2)] by simp
qed

lemma tally_new_window:
  assumes "\<forall>(r, c) \<in> set l. boundary r \<le> w" "w < w'"
  shows "tally add boundary w' l u = u"
proof -
  have "filter (\<lambda>(r, _). boundary r = w') l = []" using assms by (intro filter_False) auto
  then show ?thesis by (simp add: tally_def)
qed

lemma tally_append: "tally add boundary w (l @ l') u = tally add boundary w l' (tally add boundary w l u)"
  by (simp add: tally_def)

lemma tally_all: "tally add boundary (boundary r) (map (Pair r) cs) u = fold add cs u"
  by (simp add: tally_def comp_def)

text \<open>One publication within an epoch.\<close>

lemma counted_publish:
  assumes "counted boundary usage zero add (first, l, old)" "act now old k = (Some clone, n)" "\<not> restarts k"
  shows "counted boundary usage zero add (first, l @ (if is_bump k then map (Pair clone) (charge_of k) else []), clone)"
proof -
  let ?new = "if is_bump k then charge_of k else []"
  note p = publish [OF assms(2,3)]
  have a: "boundary first \<le> boundary old" "\<forall>(r, c) \<in> set l. boundary first \<le> boundary r \<and> boundary r \<le> boundary old"
    "usage old = tally add boundary (boundary old) l (if boundary old = boundary first then usage first else zero)"
    using assms(1) by (simp_all add: counted_def)
  have t: "tally add boundary (boundary clone) l (if boundary clone = boundary first then usage first else zero)
      = (if boundary clone = boundary old then usage old else zero)"
  proof (cases "boundary clone = boundary old")
    case True then show ?thesis using a(3) by simp
  next
    case False
    then have "boundary first < boundary clone" "boundary old < boundary clone" using a(1) p by auto
    moreover have "\<forall>(r, c) \<in> set l. boundary r \<le> boundary old" using a(2) by fastforce
    ultimately show ?thesis using tally_new_window [of l "boundary old" "boundary clone"] False by auto
  qed
  have "tally add boundary (boundary clone) (if is_bump k then map (Pair clone) (charge_of k) else []) u = fold add ?new u" for u
    by (simp add: tally_all) (simp add: tally_def)
  moreover have "\<forall>(r, c) \<in> set l. boundary first \<le> boundary r \<and> boundary r \<le> boundary clone" "boundary first \<le> boundary clone"
    using a p by fastforce+
  ultimately show ?thesis using p t by (auto simp: counted_def tally_append)
qed

lemma counted_start: "counted boundary usage zero add (r, [], r)"
  by (simp add: counted_def tally_def)

text \<open>The charge a publication settles is no longer pending.\<close>

lemma settled_charge:
  assumes "i < length (goroutines s)" "goroutines s ! i = Loaded k v old now" "act now old k = (p, n)" "is_bump k \<Longrightarrow> p \<noteq> None"
  shows "mset (if is_bump k \<and> p \<noteq> None then charge_of k else []) + (\<Sum>g \<in># mset ((goroutines s)[i := go_on n]). mset (pending g))
    = (\<Sum>g \<in># mset (goroutines s). mset (pending g))"
proof -
  have "mset (if is_bump k \<and> p \<noteq> None then charge_of k else []) + mset (pending (go_on n)) = mset (charge_of k)"
  proof (cases n)
    case None then show ?thesis using owes [of now old k] assms(3) by auto
  next
    case (Some k')
    then show ?thesis using carries [of now old k] bump_returns [of now old] assms(3,4) by (cases k) auto
  qed
  moreover have "mset (pending (goroutines s ! i)) = mset (charge_of k)" using assms(2) by simp
  ultimately show ?thesis using settle [OF pending_sum_update [OF assms(1), of "go_on n"]] by simp
qed

lemma known_go_on: "act now old k = (p, n) \<Longrightarrow> known_task tasks (go_on n)"
  using plain [of now old k p] by (auto simp: go_on_def split: option.split)

lemma known_update: "list_all (known_task tasks) gs \<Longrightarrow> known_task tasks g \<Longrightarrow> list_all (known_task tasks) (gs[i := g])"
  using set_update_cases by (fastforce simp: list_all_iff)

lemma all_charges_update [simp]: "all_charges (s\<lparr>goroutines := gs\<rparr>) = all_charges s"
  by (simp add: all_charges_def)

lemma accounted_swap:
  assumes a: "accounted row tasks s" and h: "holds_current s"
    and i: "i < length (goroutines s)" "goroutines s ! i = Loaded k (version s) old now"
    and act: "act now old k = (Some clone, n)"
  shows "accounted row tasks ((put_clone k clone s)\<lparr>goroutines := (goroutines s)[i := go_on n]\<rparr>)"
proof -
  have old: "old = cell s" using h i unfolding holds_current_def by (metis nth_mem)
  have "Loaded k (version s) old now \<in> set (goroutines s)" using i nth_mem by metis
  then have known: "restarts k \<Longrightarrow> k \<in> set tasks" using a by (auto simp: accounted_def list_all_iff)
  have g: "list_all (known_task tasks) ((goroutines s)[i := go_on n])"
    using a known_update [OF _ known_go_on [OF act]] by (simp add: accounted_def)
  have m: "mset (if is_bump k then charge_of k else []) + (\<Sum>g \<in># mset ((goroutines s)[i := go_on n]). mset (pending g))
    = (\<Sum>g \<in># mset (goroutines s). mset (pending g))"
    using settled_charge [OF i act] by simp
  have total: "mset (all_charges s) + (\<Sum>g \<in># mset (goroutines s). mset (pending g)) = mset (concat (map charge_of tasks))"
    using a by (simp add: accounted_def)
  show ?thesis
  proof (cases "restarts k")
    case True
    have c: "all_charges (put_clone k clone s) = all_charges s" using True by (simp add: all_charges_def put_clone_def Let_def)
    have "restarted tasks (cell s) clone" unfolding restarted_def using True known act old by blast
    moreover have "boundary (cell s) \<le> boundary clone" using forward [OF act] old by simp
    moreover have "boundary (origin s) \<le> boundary (cell s)" using a by (simp add: accounted_def counted_def)
    ultimately show ?thesis
      using a g m total restarts_frame [OF True] True
      by (simp add: accounted_def c) (simp add: put_clone_def Let_def linked_snoc counted_start)
  next
    case False
    have new: "map snd (if is_bump k then map (Pair clone) (charge_of k) else []) = (if is_bump k then charge_of k else [])"
      by (simp add: comp_def)
    have c: "all_charges (put_clone k clone s) = all_charges s @ (if is_bump k then charge_of k else [])"
      using False new by (simp add: all_charges_def put_clone_def Let_def)
    have "counted boundary usage zero add (origin s, charged s @ (if is_bump k then map (Pair clone) (charge_of k) else []), clone)"
      by (rule counted_publish [OF _ act False]) (use a in \<open>simp add: accounted_def old\<close>)
    moreover have "mset (all_charges s @ (if is_bump k then charge_of k else []))
        + (\<Sum>g \<in># mset ((goroutines s)[i := go_on n]). mset (pending g)) = mset (concat (map charge_of tasks))"
      using total unfolding m [symmetric] by (simp only: mset_append ac_simps)
    ultimately show ?thesis using a g False by (simp only: accounted_def c all_charges_update) (simp add: put_clone_def Let_def)
  qed
qed

lemma accounted_same_row:
  assumes "accounted row tasks s" "i < length (goroutines s)" "pending (goroutines s ! i) = pending g" "known_task tasks g"
  shows "accounted row tasks (s\<lparr>goroutines := (goroutines s)[i := g]\<rparr>)"
  using assms pending_sum_update [of i "goroutines s" g] known_update [of tasks "goroutines s" g i] by (simp add: accounted_def)

lemma accounted_step:
  assumes "cas_step act i s s'" "accounted row tasks s" "holds_current s"
  shows "accounted row tasks s'"
proof -
  have here: "known_task tasks (goroutines s ! j)" if "j < length (goroutines s)" for j
    using assms(2) that by (simp add: accounted_def list_all_length)
  show ?thesis using assms(1)
  proof (cases rule: cas_step.cases)
    case (load k now)
    then show ?thesis using accounted_same_row assms(2) here [of i] by auto
  next
    case (pass k v old now n)
    have "charge_of k = pending (go_on n)"
      using owes [of now old k] carries [of now old k] pass(4) by (auto split: option.split)
    then show ?thesis using pass accounted_same_row [OF assms(2)] known_go_on by auto
  next
    case (swap k v old now clone n)
    then show ?thesis using accounted_swap assms(2,3) by auto
  next
    case (retry k v old now clone n)
    then show ?thesis using accounted_same_row assms(2) here [of i] by auto
  next
    case (overwrite k v old now clone n)
    then show ?thesis using here [of i] by simp
  qed
qed

lemma goroutines_put [simp]: "goroutines (put_clone k clone s) = goroutines s"
  by (simp add: put_clone_def Let_def)

lemma goroutine_count: "cas_step act i s s' \<Longrightarrow> length (goroutines s') = length (goroutines s)"
  by (auto elim!: cas_stepE)

lemma reachable_holds_current:
  assumes "(any_step act)\<^sup>*\<^sup>* (cas_start row tasks) s"
  shows "holds_current s \<and> length (goroutines s) = length tasks"
  using assms
proof (induction rule: rtranclp_induct)
  case base
  then show ?case by (auto simp: cas_start_def holds_current_def)
next
  case (step s s')
  then obtain i where i: "cas_step act i s s'" by (auto simp: any_step_def)
  then show ?case using step.IH holds_current_step [OF i] goroutine_count [OF i] by simp
qed

lemma reachable_accounted:
  assumes "(any_step act)\<^sup>*\<^sup>* (cas_start row tasks) s" "list_all (\<lambda>k. \<not> blind k) tasks"
  shows "accounted row tasks s"
  using assms(1)
proof (induction rule: rtranclp_induct)
  case base
  have "(\<Sum>g \<in># mset (map Running tasks). mset (pending g)) = mset (concat (map charge_of tasks))"
    by (induction tasks) auto
  then show ?case
    using assms(2) by (auto simp: cas_start_def accounted_def counted_start all_charges_def list_all_iff)
next
  case (step s s')
  then obtain i where i: "cas_step act i s s'" by (auto simp: any_step_def)
  show ?case using step.IH accounted_step [OF i] reachable_holds_current [OF step.hyps(1)] by blast
qed

lemma no_charge_lost:
  assumes "(any_step act)\<^sup>*\<^sup>* (cas_start row tasks) s" "set (goroutines s) \<subseteq> {Finished}" "list_all (\<lambda>k. \<not> blind k) tasks"
  shows "mset (all_charges s) = mset (concat (map charge_of tasks))"
    "counted boundary usage zero add (origin s, charged s, cell s)" "list_all (counted boundary usage zero add) (epochs s)"
    "linked (restarted tasks) row (epochs s) (origin s)" "boundary row \<le> boundary (cell s)"
proof -
  have "\<forall>g \<in> set (goroutines s). mset (pending g) = {#}" using assms(2) by (auto simp: subset_iff)
  then have none: "(\<Sum>g \<in># mset (goroutines s). mset (pending g)) = {#}" by (intro sum_mset.neutral) simp
  have acc: "accounted row tasks s" by (rule reachable_accounted [OF assms(1,3)])
  show "mset (all_charges s) = mset (concat (map charge_of tasks))"
    using acc unfolding accounted_def none by (elim conjE) (simp only: add_0_right)
  show c: "counted boundary usage zero add (origin s, charged s, cell s)" "list_all (counted boundary usage zero add) (epochs s)"
    "linked (restarted tasks) row (epochs s) (origin s)"
    using acc by (simp_all add: accounted_def)
  show "boundary row \<le> boundary (cell s)" using c(1) acc by (simp add: accounted_def counted_def)
qed

text \<open>Without restarts there is one epoch, from the row the goroutines found.\<close>

lemma one_epoch:
  assumes "linked (restarted tasks) row (epochs s) (origin s)" "list_all (\<lambda>k. \<not> restarts k) tasks"
  shows "epochs s = [] \<and> origin s = row"
  using linked_nowhere [OF assms(1)] assms(2) by (auto simp: restarted_def list_all_iff)

lemma failed_swap_means_progress:
  assumes "(any_step act)\<^sup>*\<^sup>* (cas_start row tasks) s"
    "Loaded k v old now \<in> set (goroutines s)" "v \<noteq> version s"
  shows "v < version s"
  using reachable_holds_current [OF assms(1)] assms(2,3) unfolding holds_current_def by force

text \<open>A goroutine that runs alone returns after at most \<open>rounds_left\<close> further rounds.\<close>

lemma solo_task_returns:
  assumes "i < length (goroutines s)" "goroutines s ! i = Running k"
  shows "\<exists>s'. (cas_step act i)\<^sup>*\<^sup>* s s' \<and> goroutines s' = (goroutines s)[i := Finished]"
  using assms
proof (induction "rounds_left k" arbitrary: k s rule: less_induct)
  case less
  let ?s1 = "s\<lparr>goroutines := (goroutines s)[i := Loaded k (version s) (cell s) 0]\<rparr>"
  obtain p n where act: "act 0 (cell s) k = (p, n)" by (cases "act 0 (cell s) k")
  have 1: "cas_step act i s ?s1" using cas_step.load [OF less.prems] .
  have i1: "i < length (goroutines ?s1)" "goroutines ?s1 ! i = Loaded k (version s) (cell s) 0"
    using less.prems by simp_all
  obtain s2 where 2: "cas_step act i ?s1 s2" "goroutines s2 = (goroutines s)[i := go_on n]"
  proof (cases p)
    case None
    then show ?thesis using that [OF cas_step.pass [OF i1]] act by simp
  next
    case (Some clone)
    then show ?thesis
      using that [OF cas_step.swap [OF i1]] that [OF cas_step.overwrite [OF i1]] act by (cases "blind k") simp_all
  qed
  have two: "(cas_step act i)\<^sup>*\<^sup>* s s2" using 1 2(1) by (meson rtranclp.simps)
  show ?case
  proof (cases n)
    case None
    then show ?thesis using two 2(2) by (auto simp: go_on_def)
  next
    case (Some k')
    have "rounds_left k' < rounds_left k" using shorter act Some by simp
    moreover have "i < length (goroutines s2)" "goroutines s2 ! i = Running k'"
      using 2(2) less.prems(1) Some by (simp_all add: go_on_def)
    ultimately obtain s' where "(cas_step act i)\<^sup>*\<^sup>* s2 s'" "goroutines s' = (goroutines s2)[i := Finished]"
      using less.hyps by blast
    then show ?thesis using two 2(2) by (auto intro: rtranclp_trans)
  qed
qed

lemma solo_run_returns:
  assumes "(any_step act)\<^sup>*\<^sup>* (cas_start row tasks) s" "i < length (goroutines s)"
  shows "\<exists>s'. (cas_step act i)\<^sup>*\<^sup>* s s' \<and> goroutines s' = (goroutines s)[i := Finished]"
proof (cases "goroutines s ! i")
  case (Running k)
  then show ?thesis using solo_task_returns assms(2) by blast
next
  case Finished
  then show ?thesis by (metis list_update_id rtranclp.rtrancl_refl)
next
  case (Loaded k v old now)
  obtain p n where act: "act now old k = (p, n)" by (cases "act now old k")
  obtain g s1 where 1: "cas_step act i s s1" "goroutines s1 = (goroutines s)[i := g]"
    "g = Finished \<or> (\<exists>k'. g = Running k')"
  proof (cases p)
    case None
    then show ?thesis using that [OF cas_step.pass [OF assms(2) Loaded]] act
      by (cases n) (simp_all add: go_on_def)
  next
    case (Some clone)
    then show ?thesis
      using that [OF cas_step.swap [OF assms(2) Loaded]] that [OF cas_step.retry [OF assms(2) Loaded]]
        that [OF cas_step.overwrite [OF assms(2) Loaded]] act
      by (cases "blind k"; cases "v = version s"; cases n) (simp_all add: go_on_def)
  qed
  show ?thesis
  proof (cases "g = Finished")
    case True
    then show ?thesis using 1 by (metis r_into_rtranclp)
  next
    case False
    then obtain k' where "goroutines s1 ! i = Running k'" "i < length (goroutines s1)"
      using 1 assms(2) by auto
    from solo_task_returns [OF this(2,1)] obtain s' where "(cas_step act i)\<^sup>*\<^sup>* s1 s'"
      "goroutines s' = (goroutines s1)[i := Finished]" by blast
    then show ?thesis using 1 by (metis converse_rtranclp_into_rtranclp list_update_overwrite)
  qed
qed

end

section \<open>The rows of the store\<close>

lemma after_sweep_simps [simp]:
  "after_sweep k = None \<longleftrightarrow> k = None"
  "after_sweep k = Some t \<longleftrightarrow> (\<exists>c n. k = Some (c, n) \<and> t = Bump c n)"
  by (auto simp: after_sweep_def split: option.split)

lemma budget_act_forward:
  assumes "budget_act now old k = (Some clone, n)"
  shows "LastReset old \<le> LastReset clone"
  using assms
  by (cases "(now, old, k)" rule: budget_act.cases)
     (auto simp: Let_def AdoptCalendarAlignment_def split: if_splits option.splits prod.splits bool.splits dest: budgetResetTarget_after)

interpretation shared_budget: shared_row budget_act LastReset CurrentUsage "Fin 0" "\<lambda>c u. f64_add u c"
proof
  fix now old k and clone :: TableBudget and n
  assume a: "budget_act now old k = (Some clone, n)"
  show "\<not> restarts k \<Longrightarrow> LastReset old \<le> LastReset clone
      \<and> CurrentUsage clone = fold (\<lambda>c u. f64_add u c) (if is_bump k then charge_of k else [])
          (if LastReset clone = LastReset old then CurrentUsage old else Fin 0)"
    using a by (cases k)
       (auto simp: Let_def split: if_splits option.splits dest: budgetResetTarget_after)
  show "LastReset old \<le> LastReset clone" by (rule budget_act_forward [OF a])
next
  fix now old c m and clone :: TableBudget and n
  show "budget_act now old (Bump c m) = (Some clone, n) \<Longrightarrow> n = None"
    by (auto simp: Let_def split: if_splits)
next
  fix now old k k' and p :: "TableBudget option"
  assume a: "budget_act now old k = (p, Some k')"
  show "charge_of k' = charge_of k" "rounds_left k' < rounds_left k" "\<not> restarts k' \<and> \<not> blind k'"
    using a by (cases "(now, old, k)" rule: budget_act.cases; auto simp: Let_def split: if_splits option.splits prod.splits bool.splits)+
next
  fix now old k and p :: "TableBudget option"
  show "budget_act now old k = (p, None) \<Longrightarrow> (is_bump k \<and> p \<noteq> None) \<or> charge_of k = []"
    by (cases k) (auto simp: Let_def split: if_splits option.splits)
qed

definition add_tokens :: "rl_charge \<Rightarrow> int \<Rightarrow> int" where
  "add_tokens c u = (case c of (n, updT, updR) \<Rightarrow> if updT then wrap64 (u + n) else u)"

definition add_request :: "rl_charge \<Rightarrow> int \<Rightarrow> int" where
  "add_request c u = (case c of (n, updT, updR) \<Rightarrow> if updR then wrap64 (u + 1) else u)"

lemma rate_limit_act_next:
  "rate_limit_act now old (Bump c m) = (Some clone, n) \<Longrightarrow> n = None"
  "rate_limit_act now old k = (p, Some k') \<Longrightarrow> charge_of k' = charge_of k"
  "rate_limit_act now old k = (p, None) \<Longrightarrow> (is_bump k \<and> p \<noteq> None) \<or> charge_of k = []"
  "rate_limit_act now old k = (p, Some k') \<Longrightarrow> rounds_left k' < rounds_left k"
  "rate_limit_act now old k = (p, Some k') \<Longrightarrow> \<not> restarts k' \<and> \<not> blind k'"
proof -
  show "rate_limit_act now old (Bump c m) = (Some clone, n) \<Longrightarrow> n = None"
    by (cases c) (auto simp: Let_def split: if_splits prod.splits)
  show "rate_limit_act now old k = (p, Some k') \<Longrightarrow> charge_of k' = charge_of k"
    by (cases "(now, old, k)" rule: rate_limit_act.cases) (auto simp: Let_def split: if_splits prod.splits bool.splits)
  show "rate_limit_act now old k = (p, None) \<Longrightarrow> (is_bump k \<and> p \<noteq> None) \<or> charge_of k = []"
    by (cases "(now, old, k)" rule: rate_limit_act.cases) (auto simp: Let_def split: if_splits prod.splits bool.splits)
  show "rate_limit_act now old k = (p, Some k') \<Longrightarrow> rounds_left k' < rounds_left k"
    by (cases "(now, old, k)" rule: rate_limit_act.cases) (auto simp: Let_def split: if_splits prod.splits bool.splits)
  show "rate_limit_act now old k = (p, Some k') \<Longrightarrow> \<not> restarts k' \<and> \<not> blind k'"
    by (cases "(now, old, k)" rule: rate_limit_act.cases) (auto simp: Let_def split: if_splits prod.splits bool.splits)
qed

text \<open>The two counters of a rate limit, seen as one law on either.\<close>

definition counter_law ::
    "rl_task \<Rightarrow> TableRateLimit \<Rightarrow> TableRateLimit \<Rightarrow> bool" where
  "counter_law k old clone \<longleftrightarrow>
     TokenLastReset old \<le> TokenLastReset clone
     \<and> TokenCurrentUsage clone = fold add_tokens (if is_bump k then charge_of k else [])
         (if TokenLastReset clone = TokenLastReset old then TokenCurrentUsage old else 0)
     \<and> RequestLastReset old \<le> RequestLastReset clone
     \<and> RequestCurrentUsage clone = fold add_request (if is_bump k then charge_of k else [])
         (if RequestLastReset clone = RequestLastReset old then RequestCurrentUsage old else 0)"

lemma publish_bump: 
  assumes "rate_limit_act now old (Bump (u, a, b) m) = (Some clone, n)"
  shows "counter_law (Bump (u, a, b) m) old clone"
proof -
  obtain t q where e: "rateLimitResetTargets old now = (t, q)" by (cases "rateLimitResetTargets old now")
  then have f: "\<And>x. t = Some x \<Longrightarrow> TokenLastReset old < x" "\<And>y. q = Some y \<Longrightarrow> RequestLastReset old < y"
    using rateLimitResetTargets_after [of old now] by simp_all
  have "clone = bump_counters (case q of None \<Rightarrow> (case t of None \<Rightarrow> old
      | Some t \<Rightarrow> old\<lparr>TokenCurrentUsage := 0, TokenLastReset := t\<rparr>)
    | Some y \<Rightarrow> (case t of None \<Rightarrow> old
      | Some t \<Rightarrow> old\<lparr>TokenCurrentUsage := 0, TokenLastReset := t\<rparr>)\<lparr>RequestCurrentUsage := 0, RequestLastReset := y\<rparr>) u a b"
    using assms by (simp only: rate_limit_act.simps e Let_def prod.case split: if_splits) simp_all
  then show ?thesis using f
    by (cases t; cases q) (simp_all add: counter_law_def add_tokens_def add_request_def less_imp_le less_imp_neq [THEN not_sym])
qed

lemma publish_reset:
  assumes "rate_limit_act now old (ResetTo (t, q) k) = (Some clone, n)"
  shows "counter_law (ResetTo (t, q) k) old clone"
proof -
  let ?t = "advance_opt (TokenLastReset old) t" and ?q = "advance_opt (RequestLastReset old) q"
  have "clone = (if ?q then (if ?t then old\<lparr>TokenCurrentUsage := 0, TokenLastReset := the t\<rparr> else old)
      \<lparr>RequestCurrentUsage := 0, RequestLastReset := the q\<rparr>
    else if ?t then old\<lparr>TokenCurrentUsage := 0, TokenLastReset := the t\<rparr> else old)"
    using assms by (simp only: rate_limit_act.simps Let_def split: if_splits) simp_all
  moreover have "?t \<Longrightarrow> TokenLastReset old < the t" "?q \<Longrightarrow> RequestLastReset old < the q"
    by (simp_all add: advance_opt_def split: option.splits)
  ultimately show ?thesis
    by (cases ?t; cases ?q) (simp_all add: counter_law_def less_imp_le less_imp_neq [THEN not_sym])
qed

lemma rate_limit_act_publish:
  assumes "rate_limit_act now old k = (Some clone, n)" "\<not> restarts k"
  shows "counter_law k old clone"
proof (cases k)
  case (Bump c m)
  then show ?thesis using assms publish_bump by (cases c) blast
next
  case (Sweep j)
  then show ?thesis using assms by (simp add: Let_def split: prod.splits if_splits)
next
  case (ResetTo tgt j)
  then show ?thesis using assms publish_reset by (cases tgt) blast
qed (use assms in \<open>auto simp: counter_law_def\<close>)

lemma rl_adopt_forward:
  "TokenLastReset rl \<le> TokenLastReset (fst (rl_AdoptCalendarAlignment rl now))"
  "RequestLastReset rl \<le> RequestLastReset (fst (rl_AdoptCalendarAlignment rl now))"
  by (auto simp: rl_AdoptCalendarAlignment_def rl_adopt_def Let_def split: prod.split option.splits if_splits)

lemma rate_limit_act_forward:
  assumes "rate_limit_act now old k = (Some clone, n)"
  shows "TokenLastReset old \<le> TokenLastReset clone \<and> RequestLastReset old \<le> RequestLastReset clone"
proof (cases "restarts k")
  case False
  then show ?thesis using rate_limit_act_publish [OF assms] by (simp add: counter_law_def)
next
  case True
  have adv: "advance_opt l t \<Longrightarrow> l \<le> the t" for l t by (cases t) (simp_all add: advance_opt_def)
  show ?thesis
  proof (cases "(now, old, k)" rule: rate_limit_act.cases)
    case (6 now old switched)
    then show ?thesis using assms rl_adopt_forward [of "old\<lparr>rl_IsCalendarAligned := True\<rparr>" switched]
      by (auto split: prod.splits bool.splits)
  qed (use assms True adv in \<open>auto simp: Let_def split: if_splits\<close>)
qed

interpretation shared_tokens: shared_row rate_limit_act TokenLastReset TokenCurrentUsage 0 add_tokens
  by unfold_locales (use rate_limit_act_publish in \<open>simp add: counter_law_def\<close>, use rate_limit_act_forward in blast, (fact rate_limit_act_next)+)

interpretation shared_requests: shared_row rate_limit_act RequestLastReset RequestCurrentUsage 0 add_request
  by unfold_locales (use rate_limit_act_publish in \<open>simp add: counter_law_def\<close>, use rate_limit_act_forward in blast, (fact rate_limit_act_next)+)

end
