(* ===== verification/CAS_Properties.thy ===== *)
theory CAS_Properties
  imports CAS_Interleaving
begin

text \<open>
  What the compare-and-swap loops promise under concurrency: whatever the schedule and the
  clock readings, requests, the reset worker, configuration upserts, rebases, operator resets and
  calendar switches that work on one row neither lose nor repeat a charge, a charge is wiped only by
  a reset that moved the boundary after it or by a rebase, and a goroutine that is left alone returns.
  The updates of owners store without the check, and can lose a charge.
\<close>

lemma fold_add_Fin: "fold (\<lambda>c u. f64_add u c) (map Fin qs) (Fin u) = Fin (u + sum_list qs)"
  by (induction qs arbitrary: u) (simp_all add: add.assoc)

lemma any_stepI: "cas_step act i s s' \<Longrightarrow> (any_step act)\<^sup>*\<^sup>* s0 s \<Longrightarrow> (any_step act)\<^sup>*\<^sup>* s0 s'"
  by (rule rtranclp.rtrancl_into_rtrancl) (auto simp: any_step_def)

lemma solo_any_step:
  assumes "(cas_step act i)\<^sup>*\<^sup>* s s'"
  shows "(any_step act)\<^sup>*\<^sup>* s s'"
  using assms by (induction rule: rtranclp_induct) (auto intro: any_stepI)

section \<open>A race of two requests\<close>

text \<open>
  A schedule in which the second of two requests loses the race: both load the row, the first
  publishes, the swap of the second fails, and its second round succeeds.
\<close>

definition race_row :: TableBudget where
  "race_row = sample_budget\<lparr>ResetDuration := [], OverrideMode := []\<rparr>"

definition race_end :: "(f64, budget_task, TableBudget) cas_state" where
  "race_end = \<lparr>version = 2, cell = race_row\<lparr>CurrentUsage := Fin 12\<rparr>, goroutines = [Finished, Finished],
     origin = race_row, epochs = [], charged = [(race_row\<lparr>CurrentUsage := Fin 9\<rparr>, Fin 2), (race_row\<lparr>CurrentUsage := Fin 12\<rparr>, Fin 3)]\<rparr>"

lemma race_row_act:
  "budget_act now (race_row\<lparr>CurrentUsage := u\<rparr>) (Bump c n) = (Some (race_row\<lparr>CurrentUsage := f64_add u c\<rparr>), None)"
  "budget_act now race_row (Bump c n) = (Some (race_row\<lparr>CurrentUsage := f64_add (Fin 7) c\<rparr>), None)"
  by (simp_all add: race_row_def budgetResetTarget_def sample_budget_def)

lemma race_reachable:
  "(any_step budget_act)\<^sup>*\<^sup>* (cas_start race_row [Bump (Fin 2) 0, Bump (Fin 3) 0]) race_end"
proof -
  let ?b = "\<lambda>u. race_row\<lparr>CurrentUsage := Fin u\<rparr>" and ?k1 = "Bump (Fin 2) 0" and ?k2 = "Bump (Fin 3) 0"
  let ?s = "\<lambda>v r gs c. \<lparr>version = v, cell = r, goroutines = gs, origin = race_row, epochs = [], charged = c\<rparr>"
  have "(any_step budget_act)\<^sup>*\<^sup>* (cas_start race_row [?k1, ?k2])
      (?s 0 race_row [Loaded ?k1 0 race_row 0, Running ?k2] [])"
    by (rule any_stepI [OF _ rtranclp.rtrancl_refl, where i = 0])
       (use cas_step.load [where act = budget_act and i = 0 and s = "cas_start race_row [?k1, ?k2]" and now = 0] in
        \<open>simp add: cas_start_def\<close>)
  from any_stepI [OF _ this, where s' = "?s 0 race_row [Loaded ?k1 0 race_row 0, Loaded ?k2 0 race_row 0] []"]
  have "(any_step budget_act)\<^sup>*\<^sup>* (cas_start race_row [?k1, ?k2])
      (?s 0 race_row [Loaded ?k1 0 race_row 0, Loaded ?k2 0 race_row 0] [])"
    using cas_step.load [where act = budget_act and i = 1 and now = 0
      and s = "?s 0 race_row [Loaded ?k1 0 race_row 0, Running ?k2] []"] by simp
  from any_stepI [OF _ this, where s' = "?s 1 (?b 9) [Finished, Loaded ?k2 0 race_row 0] [(?b 9, Fin 2)]"]
  have "(any_step budget_act)\<^sup>*\<^sup>* (cas_start race_row [?k1, ?k2])
      (?s 1 (?b 9) [Finished, Loaded ?k2 0 race_row 0] [(?b 9, Fin 2)])"
    using cas_step.swap [where i = 0 and act = budget_act and k = ?k1 and v = 0 and old = race_row and now = 0
      and n = None and clone = "?b 9"
      and s = "?s 0 race_row [Loaded ?k1 0 race_row 0, Loaded ?k2 0 race_row 0] []"]
    by (simp del: budget_act.simps add: race_row_act go_on_def put_clone_def)
  from any_stepI [OF _ this, where s' = "?s 1 (?b 9) [Finished, Running ?k2] [(?b 9, Fin 2)]"]
  have "(any_step budget_act)\<^sup>*\<^sup>* (cas_start race_row [?k1, ?k2])
      (?s 1 (?b 9) [Finished, Running ?k2] [(?b 9, Fin 2)])"
    using cas_step.retry [where i = 1 and act = budget_act and k = ?k2 and v = 0 and old = race_row and now = 0
      and n = None and clone = "?b 10"
      and s = "?s 1 (?b 9) [Finished, Loaded ?k2 0 race_row 0] [(?b 9, Fin 2)]"]
    by (simp del: budget_act.simps add: race_row_act)
  from any_stepI [OF _ this, where s' = "?s 1 (?b 9) [Finished, Loaded ?k2 1 (?b 9) 0] [(?b 9, Fin 2)]"]
  have "(any_step budget_act)\<^sup>*\<^sup>* (cas_start race_row [?k1, ?k2])
      (?s 1 (?b 9) [Finished, Loaded ?k2 1 (?b 9) 0] [(?b 9, Fin 2)])"
    using cas_step.load [where act = budget_act and i = 1 and now = 0
      and s = "?s 1 (?b 9) [Finished, Running ?k2] [(?b 9, Fin 2)]"] by simp
  from any_stepI [OF _ this, where s' = race_end] show ?thesis
    using cas_step.swap [where i = 1 and act = budget_act and k = ?k2 and v = 1 and old = "?b 9" and now = 0
      and n = None and clone = "?b 12"
      and s = "?s 1 (?b 9) [Finished, Loaded ?k2 1 (?b 9) 0] [(?b 9, Fin 2)]"]
    by (simp del: budget_act.simps add: race_row_act go_on_def put_clone_def race_end_def numeral_2_eq_2)
qed

section \<open>Undisturbed rounds\<close>

text \<open>A goroutine that loads the row and publishes before anybody else does.\<close>

lemma one_round:
  assumes "(any_step act)\<^sup>*\<^sup>* s0 s" "i < length (goroutines s)" "goroutines s ! i = Running k"
    and "act 0 (cell s) k = (Some clone, n)"
  shows "(any_step act)\<^sup>*\<^sup>* s0 ((put_clone k clone s)\<lparr>goroutines := (goroutines s)[i := go_on n]\<rparr>)"
proof -
  let ?s1 = "s\<lparr>goroutines := (goroutines s)[i := Loaded k (version s) (cell s) 0]\<rparr>"
  have 1: "(any_step act)\<^sup>*\<^sup>* s0 ?s1" by (rule any_stepI [OF cas_step.load [OF assms(2,3)] assms(1)])
  have i: "i < length (goroutines ?s1)" "goroutines ?s1 ! i = Loaded k (version s) (cell s) 0" using assms(2) by simp_all
  have g: "(put_clone k clone ?s1)\<lparr>goroutines := (goroutines ?s1)[i := go_on n]\<rparr>
      = (put_clone k clone s)\<lparr>goroutines := (goroutines s)[i := go_on n]\<rparr>"
    by (simp add: put_clone_def Let_def)
  have "cas_step act i ?s1 ((put_clone k clone ?s1)\<lparr>goroutines := (goroutines ?s1)[i := go_on n]\<rparr>)"
  proof (cases "blind k")
    case True
    then show ?thesis
      by (intro cas_step.overwrite [where v = "version s" and old = "cell s" and now = 0]) (use i assms(4) in simp_all)
  next
    case False
    then show ?thesis
      by (intro cas_step.swap [where v = "version s" and old = "cell s" and now = 0]) (use i assms(4) in simp_all)
  qed
  from any_stepI [OF this 1] show ?thesis unfolding g .
qed

text \<open>A request, an operator's reset and another request, one after the other.\<close>

definition rebase_tasks :: "budget_task list" where
  "rebase_tasks = [Bump (Fin 2) 0, Rebase (Fin 0, None), Bump (Fin 3) 0]"

definition rebase_end :: "(f64, budget_task, TableBudget) cas_state" where
  "rebase_end = \<lparr>version = 3, cell = race_row\<lparr>CurrentUsage := Fin 3\<rparr>, goroutines = [Finished, Finished, Finished],
     origin = race_row\<lparr>CurrentUsage := Fin 0\<rparr>,
     epochs = [(race_row, [(race_row\<lparr>CurrentUsage := Fin 9\<rparr>, Fin 2)], race_row\<lparr>CurrentUsage := Fin 9\<rparr>)],
     charged = [(race_row\<lparr>CurrentUsage := Fin 3\<rparr>, Fin 3)]\<rparr>"

lemma race_row_rebase:
  "budget_act now (race_row\<lparr>CurrentUsage := u\<rparr>) (Rebase (Fin 0, None)) = (Some (race_row\<lparr>CurrentUsage := Fin 0\<rparr>), None)"
  by (simp add: race_row_def sample_budget_def RefreshOverrideCyclesRemaining_def BudgetOverrideModeCycles_def)

lemma rebase_reachable: "(any_step budget_act)\<^sup>*\<^sup>* (cas_start race_row rebase_tasks) rebase_end"
proof -
  let ?b = "\<lambda>u. race_row\<lparr>CurrentUsage := Fin u\<rparr>" and ?s0 = "cas_start race_row rebase_tasks :: (f64, budget_task, TableBudget) cas_state"
  note fields = cas_start_def rebase_tasks_def put_clone_def go_on_def
  have 1: "(any_step budget_act)\<^sup>*\<^sup>* ?s0 ((put_clone (Bump (Fin 2) 0) (?b 9) ?s0)\<lparr>goroutines := (goroutines ?s0)[0 := go_on None]\<rparr>)"
    by (rule one_round [OF rtranclp.rtrancl_refl]; simp del: budget_act.simps add: fields race_row_act)
  let ?s1 = "(put_clone (Bump (Fin 2) 0) (?b 9) ?s0)\<lparr>goroutines := (goroutines ?s0)[0 := go_on None]\<rparr>"
  have 2: "(any_step budget_act)\<^sup>*\<^sup>* ?s0 ((put_clone (Rebase (Fin 0, None)) (?b 0) ?s1)\<lparr>goroutines := (goroutines ?s1)[1 := go_on None]\<rparr>)"
    by (rule one_round [OF 1]; simp del: budget_act.simps add: fields race_row_rebase)
  let ?s2 = "(put_clone (Rebase (Fin 0, None)) (?b 0) ?s1)\<lparr>goroutines := (goroutines ?s1)[1 := go_on None]\<rparr>"
  have 3: "(any_step budget_act)\<^sup>*\<^sup>* ?s0 ((put_clone (Bump (Fin 3) 0) (?b 3) ?s2)\<lparr>goroutines := (goroutines ?s2)[2 := go_on None]\<rparr>)"
    by (rule one_round [OF 2]; simp del: budget_act.simps add: fields race_row_act)
  then show ?thesis by (simp add: fields rebase_end_def numeral_2_eq_2 numeral_3_eq_3)
qed

section \<open>Properties\<close>

text \<open>What a restart does to the usage: a rebase installs one, a calendar switch keeps it.\<close>

definition budget_restarted :: "budget_task list \<Rightarrow> TableBudget \<Rightarrow> TableBudget \<Rightarrow> bool" where
  "budget_restarted tasks old clone \<longleftrightarrow>
     (\<exists>u t. Rebase (u, t) \<in> set tasks \<and> CurrentUsage clone = u)
     \<or> (\<exists>switched. Adopt switched \<in> set tasks \<and> CurrentUsage clone = CurrentUsage old)"

lemma restarted_budget: "shared_budget.restarted tasks old clone \<Longrightarrow> budget_restarted tasks old clone"
proof -
  assume "shared_budget.restarted tasks old clone"
  then obtain k now n where k: "k \<in> set tasks" "restarts k" "budget_act now old k = (Some clone, n)"
    unfolding shared_budget.restarted_def by blast
  show ?thesis
  proof (cases "(now, old, k)" rule: budget_act.cases)
    case (5 now old u t)
    then show ?thesis using k by (auto simp: budget_restarted_def Let_def split: option.splits if_splits)
  next
    case (6 now old switched)
    then show ?thesis using k by (auto simp: budget_restarted_def AdoptCalendarAlignment_def Let_def split: prod.splits bool.splits if_splits)
  qed (use k(2) in simp_all)
qed

text \<open>
  C2: Concurrent requests, sweeps, configuration upserts, rebases, operator resets and calendar switches on one
  budget -- every compare-and-swap loop there is on it -- neither lose nor repeat a charge. In every
  schedule, with any clock readings, once all goroutines have returned each charge has taken effect exactly once, in
  one epoch; the usage at the end of an epoch, and now, is that of the window the row is in: the usage the epoch started with,
  if the boundary is still the same, plus exactly the charges the epoch published in that window. The first epoch starts with the
  row the goroutines found, and a later one with the usage a rebase installs (zero for an operator's reset) or, for a
  calendar switch, with the usage the epoch before it ended with. A late reset cannot wipe a charge of the window
  it opens. The owner updates that store a row without comparing are not among the tasks:
  they lose charges (\<open>unchecked_store_loses_charge\<close>).
\<close>

theorem concurrent_charges_counted:
  assumes "(any_step budget_act)\<^sup>*\<^sup>* (cas_start b tasks) s"
    and "set (goroutines s) \<subseteq> {Finished}" "list_all (\<lambda>k. \<not> blind k) tasks"
  shows "mset (all_charges s) = mset (concat (map charge_of tasks))
    \<and> counted LastReset CurrentUsage (Fin 0) (\<lambda>c u. f64_add u c) (origin s, charged s, cell s)
    \<and> list_all (counted LastReset CurrentUsage (Fin 0) (\<lambda>c u. f64_add u c)) (epochs s)
    \<and> linked (budget_restarted tasks) b (epochs s) (origin s)
    \<and> LastReset b \<le> LastReset (cell s)"
  using shared_budget.no_charge_lost(1-3,5) [OF assms]
    linked_mono [OF shared_budget.no_charge_lost(4) [OF assms], of "budget_restarted tasks"] restarted_budget by blast

theorem concurrent_charges_counted_witness:
  "mset (all_charges rebase_end) = mset [Fin 2, Fin 3] \<and> CurrentUsage (cell rebase_end) = Fin 3
    \<and> linked (budget_restarted rebase_tasks) race_row (epochs rebase_end) (origin rebase_end)"
  using concurrent_charges_counted [OF rebase_reachable] by (simp add: rebase_end_def rebase_tasks_def)

text \<open>
  An owner update -- of a virtual key, a team, a customer, a model or a provider configuration -- loads the budget, carries its usage over
  into the new row and stores that without comparing. A charge published in between is lost: here a request
  charges 2 on a usage of 7 and the usage is 7 in the end, though every goroutine has returned.
\<close>

definition blind_tasks :: "budget_task list" where
  "blind_tasks = [Bump (Fin 2) 0, Install race_row]"

theorem unchecked_store_loses_charge:
  "\<exists>s. (any_step budget_act)\<^sup>*\<^sup>* (cas_start race_row blind_tasks) s \<and> set (goroutines s) \<subseteq> {Finished}
    \<and> all_charges s = [Fin 2] \<and> CurrentUsage (cell s) = Fin 7 \<and> CurrentUsage race_row = Fin 7"
proof -
  let ?s0 = "cas_start race_row blind_tasks :: (f64, budget_task, TableBudget) cas_state" and ?k = "Install race_row :: budget_task"
  note fields = cas_start_def blind_tasks_def put_clone_def go_on_def
  have i: "1 < length (goroutines ?s0)" "goroutines ?s0 ! 1 = Running ?k" by (simp_all add: fields)
  let ?s1 = "?s0\<lparr>goroutines := (goroutines ?s0)[1 := Loaded ?k (version ?s0) (cell ?s0) 0]\<rparr>"
  have 1: "(any_step budget_act)\<^sup>*\<^sup>* ?s0 ?s1" by (rule any_stepI [OF cas_step.load [OF i] rtranclp.rtrancl_refl])
  let ?b = "race_row\<lparr>CurrentUsage := Fin 9\<rparr>"
  have 2: "(any_step budget_act)\<^sup>*\<^sup>* ?s0 ((put_clone (Bump (Fin 2) 0) ?b ?s1)\<lparr>goroutines := (goroutines ?s1)[0 := go_on None]\<rparr>)"
    by (rule one_round [OF 1]; simp del: budget_act.simps add: fields race_row_act)
  let ?s2 = "(put_clone (Bump (Fin 2) 0) ?b ?s1)\<lparr>goroutines := (goroutines ?s1)[0 := go_on None]\<rparr>"
  have j: "1 < length (goroutines ?s2)" "goroutines ?s2 ! 1 = Loaded ?k 0 race_row 0" by (simp_all add: fields)
  have "budget_act 0 race_row ?k = (Some race_row, None)"
    by (simp add: race_row_def sample_budget_def RefreshOverrideCyclesRemaining_def BudgetOverrideModeCycles_def)
  then have "cas_step budget_act 1 ?s2 ((put_clone ?k race_row ?s2)\<lparr>goroutines := (goroutines ?s2)[1 := go_on None]\<rparr>)"
    by (intro cas_step.overwrite [where v = 0 and old = race_row and now = 0]) (use j in simp_all)
  note 3 = any_stepI [OF this 2]
  show ?thesis
    by (intro exI [of _ "(put_clone ?k race_row ?s2)\<lparr>goroutines := (goroutines ?s2)[1 := go_on None]\<rparr>"] conjI 3)
       (simp_all add: fields all_charges_def, simp_all add: race_row_def sample_budget_def)
qed

text \<open>
  when the window of a budget does not move, the spend after any number of concurrent
  requests, sweeps and upserts is the old spend plus the sum of their costs, in every schedule.
\<close>

theorem concurrent_spend_is_sum:
  assumes "(any_step budget_act)\<^sup>*\<^sup>* (cas_start b tasks) s"
    and "set (goroutines s) \<subseteq> {Finished}" "list_all (\<lambda>k. \<not> blind k) tasks" "list_all (\<lambda>k. \<not> restarts k) tasks"
    and "concat (map charge_of tasks) = map Fin costs"
    and "CurrentUsage b = Fin spent" and "LastReset (cell s) = LastReset b"
  shows "CurrentUsage (cell s) = Fin (spent + sum_list costs)"
proof -
  note lost = shared_budget.no_charge_lost [OF assms(1-3)]
  have one: "epochs s = []" "origin s = b" using shared_budget.one_epoch [OF lost(4) assms(4)] by simp_all
  then have counted: "mset (map snd (charged s)) = mset (concat (map charge_of tasks))"
    "\<forall>(r, c) \<in> set (charged s). LastReset b \<le> LastReset r \<and> LastReset r \<le> LastReset (cell s)"
    "CurrentUsage (cell s) = tally (\<lambda>c u. f64_add u c) LastReset (LastReset (cell s)) (charged s)
        (if LastReset (cell s) = LastReset b then CurrentUsage b else Fin 0)"
    using lost(1,2) by (simp_all add: all_charges_def counted_def)
  have "\<forall>(r, c) \<in> set (charged s). LastReset r = LastReset (cell s)" using counted assms(7) by auto
  then have "filter (\<lambda>(r, _). LastReset r = LastReset (cell s)) (charged s) = charged s"
    by (intro filter_True) auto
  then have usage: "CurrentUsage (cell s) = fold (\<lambda>c u. f64_add u c) (map snd (charged s)) (Fin spent)"
    using counted assms(6,7) by (simp add: tally_def)
  have m: "mset (map snd (charged s)) = mset (map Fin costs)" using counted assms(5) by simp
  then have "set (map snd (charged s)) = Fin ` set costs" by (metis list.set_map set_mset_mset)
  then have "\<exists>qs. map snd (charged s) = map Fin qs" by (subst ex_map_conv) auto
  then obtain qs where qs: "map snd (charged s) = map Fin qs" ..
  then have "image_mset Fin (mset qs) = image_mset Fin (mset costs)" using m by simp
  then have "image_mset (inv Fin) (image_mset Fin (mset qs)) = image_mset (inv Fin) (image_mset Fin (mset costs))"
    by simp
  moreover have "inv Fin \<circ> Fin = id" by (simp add: inj_def)
  ultimately have "mset qs = mset costs" by (simp add: multiset.map_comp)
  then have "sum_list qs = sum_list costs" by (metis sum_mset_sum_list)
  then show ?thesis using usage qs by (simp add: fold_add_Fin)
qed

theorem concurrent_spend_is_sum_witness: "CurrentUsage (cell race_end) = Fin (7 + sum_list [2, 3])"
  by (rule concurrent_spend_is_sum [OF race_reachable])
     (simp_all add: race_end_def race_row_def sample_budget_def)

text \<open>
  concurrent requests on one rate limit are counted exactly once on both counters. In each epoch, each
  counter holds what it started with, if its own boundary is still the same, plus the tokens
  or requests published in its window, whatever resets ran in between.
\<close>

theorem concurrent_requests_counted:
  assumes "(any_step rate_limit_act)\<^sup>*\<^sup>* (cas_start rl tasks) s"
    and "set (goroutines s) \<subseteq> {Finished}" "list_all (\<lambda>k. \<not> blind k) tasks"
  shows "mset (all_charges s) = mset (concat (map charge_of tasks))
    \<and> counted TokenLastReset TokenCurrentUsage 0 add_tokens (origin s, charged s, cell s)
    \<and> counted RequestLastReset RequestCurrentUsage 0 add_request (origin s, charged s, cell s)"
  using shared_tokens.no_charge_lost(1,2) [OF assms] shared_requests.no_charge_lost(2) [OF assms] by blast

theorem concurrent_requests_counted_witness:
  "\<exists>s. (any_step rate_limit_act)\<^sup>*\<^sup>* (cas_start sample_rl [Bump (40, True, True) 0]) s
    \<and> set (goroutines s) \<subseteq> {Finished} \<and> mset (all_charges s) = mset [(40, True, True)]"
proof -
  let ?s0 = "cas_start sample_rl [Bump (40, True, True) 0]"
  have l: "0 < length (goroutines ?s0)" by (simp add: cas_start_def)
  have "\<exists>s. (cas_step rate_limit_act 0)\<^sup>*\<^sup>* ?s0 s \<and> goroutines s = [Finished]"
    using shared_tokens.solo_run_returns [OF rtranclp.rtrancl_refl l] by (simp add: cas_start_def)
  then obtain s where s: "(cas_step rate_limit_act 0)\<^sup>*\<^sup>* ?s0 s" "goroutines s = [Finished]" by (elim exE conjE)
  have f: "set (goroutines s) \<subseteq> {Finished}" using s(2) by simp
  from concurrent_requests_counted [OF solo_any_step [OF s(1)] f] show ?thesis
    using solo_any_step [OF s(1)] f by (intro exI [of _ s]) simp
qed

text \<open>
  no goroutine blocks another, and none spins. From every state that a race can reach, a
  goroutine that is scheduled alone returns, whatever task it was at and however stale the
  row it holds.
\<close>

theorem goroutine_alone_returns:
  assumes "(any_step budget_act)\<^sup>*\<^sup>* (cas_start b tasks) s" and "i < length (goroutines s)"
  shows "\<exists>s'. (cas_step budget_act i)\<^sup>*\<^sup>* s s' \<and> goroutines s' = (goroutines s)[i := Finished]"
  by (rule shared_budget.solo_run_returns [OF assms])

theorem goroutine_alone_returns_witness:
  "\<exists>s'. (cas_step budget_act 0)\<^sup>*\<^sup>* (cas_start sample_budget [Bump (Fin 2) 0, Sweep None]) s'
    \<and> goroutines s' = [Finished, Running (Sweep None)]"
  using goroutine_alone_returns [OF rtranclp.rtrancl_refl, of 0 sample_budget "[Bump (Fin 2) 0, Sweep None]"]
  by (simp add: cas_start_def)

end
