(* ===== verification/Governance_Crud.thy ===== *)
theory Governance_Crud
  imports Store_Accounting
begin

text \<open>
  Creating, updating and deleting the owners in the in-memory store:
  plugins/governance/store.go, the \<^verbatim>\<open>*InMemory\<close> methods for virtual keys, teams, customers,
  model configs and providers. A nil argument is the branch of the caller and is not
  represented; the baselines some of the methods receive are not read by them.
  The writes a method makes through the pointers it was given are part of the stored
  owner; the caller's own copy is not modelled.

  A loop over a slice of budgets is a recursive function that threads the store and
  returns the rows as they end up embedded in the owner.
\<close>

section \<open>Rows of an owner\<close>

fun create_budgets ::
    "bool \<Rightarrow> TableBudget list \<Rightarrow> LocalGovernanceStore \<Rightarrow> LocalGovernanceStore \<times> TableBudget list" where
  "create_budgets aligned [] gs = (gs, [])"
| "create_budgets aligned (b # bs) gs =
     (let b' = stamp_budget aligned b;
          (gs', bs') = create_budgets aligned bs (storeBudget gs (ID b') b')
      in (gs', RefreshOverrideCyclesRemaining b' # bs'))"

definition preserve_budget :: "LocalGovernanceStore \<Rightarrow> TableBudget \<Rightarrow> TableBudget" where
  "preserve_budget gs b =
     (case gm_get (budgets gs) (ID b) of None \<Rightarrow> b
      | Some live \<Rightarrow> b\<lparr>CurrentUsage := CurrentUsage live, LastReset := LastReset live\<rparr>)"

fun reconcile_budgets ::
    "bool \<Rightarrow> TableBudget list \<Rightarrow> LocalGovernanceStore \<Rightarrow> LocalGovernanceStore \<times> TableBudget list" where
  "reconcile_budgets aligned [] gs = (gs, [])"
| "reconcile_budgets aligned (b # bs) gs =
     (let b' = stamp_budget aligned (preserve_budget gs b);
          (gs', bs') = reconcile_budgets aligned bs (storeBudget gs (ID b') b')
      in (gs', RefreshOverrideCyclesRemaining b' # bs'))"

definition delete_removed_budgets ::
    "string list \<Rightarrow> string list \<Rightarrow> LocalGovernanceStore \<Rightarrow> LocalGovernanceStore" where
  "delete_removed_budgets keep old gs =
     fold (\<lambda>i s. if i \<in> set keep then s else DeleteBudget s i) old gs"

definition store_rate_limit :: "LocalGovernanceStore \<Rightarrow> TableRateLimit \<Rightarrow> LocalGovernanceStore" where
  "store_rate_limit gs rl = gs\<lparr>rateLimits := gm_put (rl_ID rl) rl (rateLimits gs)\<rparr>"

definition create_rate_limit ::
    "bool \<Rightarrow> TableRateLimit option \<Rightarrow> LocalGovernanceStore \<Rightarrow> LocalGovernanceStore \<times> TableRateLimit option" where
  "create_rate_limit aligned r gs =
     (case r of None \<Rightarrow> (gs, None)
      | Some rl \<Rightarrow> (store_rate_limit gs (stamp_rl aligned rl), Some (stamp_rl aligned rl)))"

definition preserve_rl :: "LocalGovernanceStore \<Rightarrow> TableRateLimit \<Rightarrow> TableRateLimit" where
  "preserve_rl gs rl =
     (case gm_get (rateLimits gs) (rl_ID rl) of None \<Rightarrow> rl
      | Some live \<Rightarrow>
          rl\<lparr>TokenCurrentUsage := TokenCurrentUsage live, RequestCurrentUsage := RequestCurrentUsage live,
             TokenLastReset := TokenLastReset live, RequestLastReset := RequestLastReset live\<rparr>)"

text \<open>The rate limit of an owner on update; \<open>old\<close> is the rate limit embedded in the stored owner.\<close>

definition reconcile_rate_limit ::
    "bool \<Rightarrow> TableRateLimit option \<Rightarrow> TableRateLimit option \<Rightarrow> LocalGovernanceStore
      \<Rightarrow> LocalGovernanceStore \<times> TableRateLimit option" where
  "reconcile_rate_limit aligned r old gs =
     (case r of
        Some rl \<Rightarrow>
          let rl' = stamp_rl aligned (preserve_rl gs rl);
              gs1 = store_rate_limit gs rl';
              gs2 = (case old of
                  Some o1 \<Rightarrow> if rl_ID o1 \<noteq> rl_ID rl' then DeleteRateLimit gs1 (rl_ID o1) else gs1
                | None \<Rightarrow> gs1)
          in (gs2, Some rl')
      | None \<Rightarrow> (case old of Some o1 \<Rightarrow> (DeleteRateLimit gs (rl_ID o1), None) | None \<Rightarrow> (gs, None)))"

definition delete_opt_rate_limit :: "string option \<Rightarrow> LocalGovernanceStore \<Rightarrow> LocalGovernanceStore" where
  "delete_opt_rate_limit rid gs = (case rid of None \<Rightarrow> gs | Some i \<Rightarrow> DeleteRateLimit gs i)"

definition delete_budgets :: "TableBudget list \<Rightarrow> LocalGovernanceStore \<Rightarrow> LocalGovernanceStore" where
  "delete_budgets bs gs = fold (\<lambda>b s. DeleteBudget s (ID b)) bs gs"

section \<open>Virtual keys\<close>

fun create_pcs ::
    "bool \<Rightarrow> TableVirtualKeyProviderConfig list \<Rightarrow> LocalGovernanceStore
      \<Rightarrow> LocalGovernanceStore \<times> TableVirtualKeyProviderConfig list" where
  "create_pcs aligned [] gs = (gs, [])"
| "create_pcs aligned (pc # pcs) gs =
     (let (gs1, bs) = create_budgets aligned (pc_Budgets pc) gs;
          (gs2, rl) = create_rate_limit aligned (pc_RateLimit pc) gs1;
          (gs3, pcs') = create_pcs aligned pcs gs2
      in (gs3, pc\<lparr>pc_Budgets := bs, pc_RateLimit := rl\<rparr> # pcs'))"

definition CreateVirtualKeyInMemory :: "LocalGovernanceStore \<Rightarrow> TableVirtualKey \<Rightarrow> LocalGovernanceStore" where
  "CreateVirtualKeyInMemory gs vk =
     (let al = vk_CalendarAligned vk;
          (gs1, bs) = create_budgets al (vk_Budgets vk) gs;
          (gs2, rl) = create_rate_limit al (vk_RateLimit vk) gs1;
          (gs3, pcs) = (case vk_ProviderConfigs vk of None \<Rightarrow> (gs2, None)
             | Some l \<Rightarrow> (let (g, l') = create_pcs al l gs2 in (g, Some l')))
      in storeVirtualKey gs3 (vk_Value vk)
           (vk\<lparr>vk_Budgets := bs, vk_RateLimit := rl, vk_ProviderConfigs := pcs\<rparr>))"

definition find_existing_vk ::
    "LocalGovernanceStore \<Rightarrow> TableVirtualKey \<Rightarrow> (string \<times> TableVirtualKey) option" where
  "find_existing_vk gs vk =
     (let scan = find (\<lambda>(k, e). vk_ID e = vk_ID vk) (virtualKeys gs)
      in case gm_get (virtualKeys gs) (vk_Value vk) of
           Some e \<Rightarrow> if vk_ID e = vk_ID vk then Some (vk_Value vk, e) else scan
         | None \<Rightarrow> scan)"

definition pc_budget_ids :: "TableVirtualKeyProviderConfig list \<Rightarrow> string list" where
  "pc_budget_ids pcs = concat (map (\<lambda>pc. map ID (pc_Budgets pc)) pcs)"

definition opt_rl_id :: "TableRateLimit option \<Rightarrow> string list" where
  "opt_rl_id r = (case r of None \<Rightarrow> [] | Some rl \<Rightarrow> [rl_ID rl])"

text \<open>One provider config of the updated key; \<open>existing\<close> is the map of the stored ones by ID.\<close>

definition update_pc ::
    "bool \<Rightarrow> string list \<Rightarrow> (nat, TableVirtualKeyProviderConfig) gomap \<Rightarrow> TableVirtualKeyProviderConfig
      \<Rightarrow> LocalGovernanceStore \<Rightarrow> LocalGovernanceStore \<times> TableVirtualKeyProviderConfig" where
  "update_pc aligned newBudgetIDs existing pc gs =
     (let (gs1, rl) = (case pc_RateLimit pc of
            Some rl \<Rightarrow> (let rl' = stamp_rl aligned (preserve_rl gs rl) in (store_rate_limit gs rl', Some rl'))
          | None \<Rightarrow> (case gm_get existing (pc_ID pc) of
                Some e \<Rightarrow> (case pc_RateLimit e of
                    Some o1 \<Rightarrow> (DeleteRateLimit gs (rl_ID o1), None) | None \<Rightarrow> (gs, None))
              | None \<Rightarrow> (gs, None)));
          (gs2, bs) = reconcile_budgets aligned (pc_Budgets pc) gs1;
          gs3 = (case gm_get existing (pc_ID pc) of
                Some e \<Rightarrow> delete_removed_budgets newBudgetIDs (map ID (pc_Budgets e)) gs2 | None \<Rightarrow> gs2)
      in (gs3, pc\<lparr>pc_RateLimit := rl, pc_Budgets := bs\<rparr>))"

fun update_pcs ::
    "bool \<Rightarrow> string list \<Rightarrow> (nat, TableVirtualKeyProviderConfig) gomap \<Rightarrow> TableVirtualKeyProviderConfig list
      \<Rightarrow> LocalGovernanceStore \<Rightarrow> LocalGovernanceStore \<times> TableVirtualKeyProviderConfig list" where
  "update_pcs aligned newIDs existing [] gs = (gs, [])"
| "update_pcs aligned newIDs existing (pc # pcs) gs =
     (let (gs1, pc') = update_pc aligned newIDs existing pc gs;
          (gs2, pcs') = update_pcs aligned newIDs existing pcs gs1
      in (gs2, pc' # pcs'))"

definition cleanup_pcs ::
    "string list \<Rightarrow> string list \<Rightarrow> TableVirtualKeyProviderConfig list \<Rightarrow> LocalGovernanceStore \<Rightarrow> LocalGovernanceStore" where
  "cleanup_pcs newRateLimitIDs newBudgetIDs oldpcs gs =
     fold (\<lambda>old s.
        let s1 = (case pc_RateLimit old of
              Some rl \<Rightarrow> if rl_ID rl \<in> set newRateLimitIDs then s else DeleteRateLimit s (rl_ID rl)
            | None \<Rightarrow> s)
        in delete_removed_budgets newBudgetIDs (map ID (pc_Budgets old)) s1) oldpcs gs"

definition UpdateVirtualKeyInMemory :: "LocalGovernanceStore \<Rightarrow> TableVirtualKey \<Rightarrow> LocalGovernanceStore" where
  "UpdateVirtualKeyInMemory gs vk =
     (case find_existing_vk gs vk of
        None \<Rightarrow> CreateVirtualKeyInMemory gs vk
      | Some (existingKey, existing) \<Rightarrow>
        let al = vk_CalendarAligned vk;
            newBudgetIDs = map ID (vk_Budgets vk) @ pc_budget_ids (vk_pcs vk);
            (gs1, bs) = reconcile_budgets al (vk_Budgets vk) gs;
            gs2 = delete_removed_budgets newBudgetIDs (map ID (vk_Budgets existing)) gs1;
            (gs3, rl) = reconcile_rate_limit al (vk_RateLimit vk) (vk_RateLimit existing) gs2;
            (gs4, pcs) = (case vk_ProviderConfigs vk of None \<Rightarrow> (gs3, None)
               | Some l \<Rightarrow>
                   let existingPCs = fold (\<lambda>pc m. gm_put (pc_ID pc) pc m) (vk_pcs existing) [];
                       newRateLimitIDs = opt_rl_id rl @ concat (map (\<lambda>pc. opt_rl_id (pc_RateLimit pc)) l);
                       (g1, l') = update_pcs al newBudgetIDs existingPCs l gs3
                   in (cleanup_pcs newRateLimitIDs newBudgetIDs (vk_pcs existing) g1, Some l'));
            gs5 = (if existingKey \<noteq> [] \<and> existingKey \<noteq> vk_Value vk
                   then deleteVirtualKeyByValue gs4 existingKey else gs4)
        in storeVirtualKey gs5 (vk_Value vk)
             (vk\<lparr>vk_Budgets := bs, vk_RateLimit := rl, vk_ProviderConfigs := pcs\<rparr>))"

definition delete_model_config_of_scope ::
    "string \<Rightarrow> string \<Rightarrow> string \<times> TableModelConfig \<Rightarrow> LocalGovernanceStore \<Rightarrow> LocalGovernanceStore" where
  "delete_model_config_of_scope scope scopeID e gs =
     (case e of (key, mc) \<Rightarrow>
       if mc_Scope mc = scope \<and> mc_ScopeID mc = Some scopeID then
         let gs1 = delete_budgets (mc_Budgets mc) gs;
             gs2 = (case mc_BudgetID mc of Some i \<Rightarrow> DeleteBudget gs1 i | None \<Rightarrow> gs1);
             gs3 = delete_opt_rate_limit (mc_RateLimitID mc) gs2
         in gs3\<lparr>modelConfigs := gm_del key (modelConfigs gs3)\<rparr>
       else gs)"

definition DeleteModelConfigsForScopeInMemory ::
    "LocalGovernanceStore \<Rightarrow> string \<Rightarrow> string \<Rightarrow> LocalGovernanceStore" where
  "DeleteModelConfigsForScopeInMemory gs scope scopeID =
     fold (delete_model_config_of_scope scope scopeID) (modelConfigs gs) gs"

definition DeleteVirtualKeyInMemory :: "LocalGovernanceStore \<Rightarrow> string \<Rightarrow> LocalGovernanceStore" where
  "DeleteVirtualKeyInMemory gs vkID =
     (if vkID = [] then gs
      else let gs1 = (case find (\<lambda>(k, vk). vk_ID vk = vkID) (virtualKeys gs) of
             None \<Rightarrow> gs
           | Some (key, vk) \<Rightarrow>
               let g1 = delete_budgets (vk_Budgets vk) gs;
                   g2 = delete_opt_rate_limit (vk_RateLimitID vk) g1;
                   g3 = fold (\<lambda>pc s. delete_opt_rate_limit (pc_RateLimitID pc) (delete_budgets (pc_Budgets pc) s))
                          (vk_pcs vk) g2
               in deleteVirtualKeyByValue g3 key)
        in DeleteModelConfigsForScopeInMemory gs1 ModelConfigScopeVirtualKey vkID)"

section \<open>Teams and customers\<close>

text \<open>
  \<^verbatim>\<open>CreateTeamInMemory\<close> stores a copy of each budget, so the embedded rows are stamped but
  not refreshed.
\<close>

definition CreateTeamInMemory :: "LocalGovernanceStore \<Rightarrow> TableTeam \<Rightarrow> LocalGovernanceStore" where
  "CreateTeamInMemory gs team =
     (let al = team_CalendarAligned team;
          (gs1, _) = create_budgets al (team_Budgets team) gs;
          (gs2, rl) = create_rate_limit al (team_RateLimit team) gs1;
          clone = team\<lparr>team_Budgets := map (stamp_budget al) (team_Budgets team), team_RateLimit := rl\<rparr>
      in gs2\<lparr>teams := gm_put (team_ID team) clone (teams gs2)\<rparr>)"

definition UpdateTeamInMemory :: "LocalGovernanceStore \<Rightarrow> TableTeam \<Rightarrow> LocalGovernanceStore" where
  "UpdateTeamInMemory gs team =
     (case gm_get (teams gs) (team_ID team) of None \<Rightarrow> CreateTeamInMemory gs team
      | Some existing \<Rightarrow>
        let al = team_CalendarAligned team;
            (gs1, bs) = reconcile_budgets al (team_Budgets team) gs;
            gs2 = delete_removed_budgets (map ID (team_Budgets team)) (remdups (map ID (team_Budgets existing))) gs1;
            (gs3, rl) = reconcile_rate_limit al (team_RateLimit team) (team_RateLimit existing) gs2
        in gs3\<lparr>teams := gm_put (team_ID team) (team\<lparr>team_Budgets := bs, team_RateLimit := rl\<rparr>) (teams gs3)\<rparr>)"

definition DeleteTeamInMemory :: "LocalGovernanceStore \<Rightarrow> string \<Rightarrow> LocalGovernanceStore" where
  "DeleteTeamInMemory gs teamID =
     (if teamID = [] then gs
      else let gs1 = (case gm_get (teams gs) teamID of None \<Rightarrow> gs
             | Some team \<Rightarrow> delete_opt_rate_limit (team_RateLimitID team) (delete_budgets (team_Budgets team) gs));
          gs2 = fold (\<lambda>(k, vk) s. if vk_TeamID vk = Some teamID
                  then storeVirtualKey s k (vk\<lparr>vk_TeamID := None, vk_Team := None\<rparr>) else s)
                (virtualKeys gs1) gs1
      in gs2\<lparr>teams := gm_del teamID (teams gs2)\<rparr>)"

definition CreateCustomerInMemory :: "LocalGovernanceStore \<Rightarrow> TableCustomer \<Rightarrow> LocalGovernanceStore" where
  "CreateCustomerInMemory gs customer =
     (let al = customer_CalendarAligned customer;
          (gs1, bs) = create_budgets al (customer_Budgets customer) gs;
          (gs2, rl) = create_rate_limit al (customer_RateLimit customer) gs1;
          clone = customer\<lparr>customer_Budgets := bs, customer_RateLimit := rl\<rparr>
      in gs2\<lparr>customers := gm_put (customer_ID customer) clone (customers gs2)\<rparr>)"

definition UpdateCustomerInMemory :: "LocalGovernanceStore \<Rightarrow> TableCustomer \<Rightarrow> LocalGovernanceStore" where
  "UpdateCustomerInMemory gs customer =
     (case gm_get (customers gs) (customer_ID customer) of None \<Rightarrow> CreateCustomerInMemory gs customer
      | Some existing \<Rightarrow>
        let al = customer_CalendarAligned customer;
            (gs1, bs) = reconcile_budgets al (customer_Budgets customer) gs;
            gs2 = delete_removed_budgets (map ID (customer_Budgets customer)) (map ID (customer_Budgets existing)) gs1;
            (gs3, rl) = reconcile_rate_limit al (customer_RateLimit customer) (customer_RateLimit existing) gs2
        in gs3\<lparr>customers := gm_put (customer_ID customer)
                 (customer\<lparr>customer_Budgets := bs, customer_RateLimit := rl\<rparr>) (customers gs3)\<rparr>)"

definition DeleteCustomerInMemory :: "LocalGovernanceStore \<Rightarrow> string \<Rightarrow> LocalGovernanceStore" where
  "DeleteCustomerInMemory gs customerID =
     (if customerID = [] then gs
      else let gs1 = (case gm_get (customers gs) customerID of None \<Rightarrow> gs
             | Some c \<Rightarrow> delete_opt_rate_limit (customer_RateLimitID c) (delete_budgets (customer_Budgets c) gs));
          gs2 = fold (\<lambda>(k, vk) s. if vk_CustomerID vk = Some customerID
                  then storeVirtualKey s k (vk\<lparr>vk_CustomerID := None, vk_Customer := None\<rparr>) else s)
                (virtualKeys gs1) gs1;
          gs3 = fold (\<lambda>(k, t) s. if team_CustomerID t = Some customerID
                  then s\<lparr>teams := gm_put k (t\<lparr>team_CustomerID := None, team_Customer := None\<rparr>) (teams s)\<rparr> else s)
                (teams gs2) gs2
      in gs3\<lparr>customers := gm_del customerID (customers gs3)\<rparr>)"

section \<open>Model configs and providers\<close>

definition modelConfigStoreKey :: "string \<Rightarrow> string \<Rightarrow> string \<Rightarrow> string option \<Rightarrow> string" where
  "modelConfigStoreKey scope scopeID modelKey provider =
     (let base = (case provider of None \<Rightarrow> modelKey | Some p \<Rightarrow> modelKey @ '':'' @ p)
      in if scope = [] \<or> scope = ModelConfigScopeGlobal then base
         else scope @ '':'' @ scopeID @ '':'' @ base)"

text \<open>The model config path preserves the usages of a rate limit but not its boundaries.\<close>

definition preserve_rl_usage :: "LocalGovernanceStore \<Rightarrow> TableRateLimit \<Rightarrow> TableRateLimit" where
  "preserve_rl_usage gs rl =
     (case gm_get (rateLimits gs) (rl_ID rl) of None \<Rightarrow> rl
      | Some live \<Rightarrow>
          rl\<lparr>TokenCurrentUsage := TokenCurrentUsage live, RequestCurrentUsage := RequestCurrentUsage live\<rparr>)"

definition UpdateModelConfigInMemory ::
    "LocalGovernanceStore \<Rightarrow> TableModelConfig \<Rightarrow> LocalGovernanceStore \<times> TableModelConfig" where
  "UpdateModelConfigInMemory gs mc =
     (let al = mc_CalendarAligned mc;
          (gs1, bs) = reconcile_budgets al (mc_Budgets mc) gs;
          (gs2, rl) = (case mc_RateLimit mc of None \<Rightarrow> (gs1, None)
             | Some r \<Rightarrow> (let r' = preserve_rl_usage gs1 (stamp_rl al r) in (store_rate_limit gs1 r', Some r')));
          clone = mc\<lparr>mc_Budgets := bs, mc_RateLimit := rl\<rparr>;
          scopeID = (case mc_ScopeID mc of None \<Rightarrow> [] | Some i \<Rightarrow> i);
          key = (case mc_Provider mc of
              Some p \<Rightarrow> modelConfigStoreKey (mc_Scope mc) scopeID (ModelName mc) (Some p)
            | None \<Rightarrow>
                let modelKey = (case modelCatalog gs2 of
                      Some base \<Rightarrow> if ModelName mc \<noteq> ModelConfigAllModels then base (ModelName mc) else ModelName mc
                    | None \<Rightarrow> ModelName mc)
                in modelConfigStoreKey (mc_Scope mc) scopeID modelKey None)
      in (gs2\<lparr>modelConfigs := gm_put key clone (modelConfigs gs2)\<rparr>, clone))"

definition DeleteModelConfigInMemory :: "LocalGovernanceStore \<Rightarrow> string \<Rightarrow> LocalGovernanceStore" where
  "DeleteModelConfigInMemory gs mcID =
     (if mcID = [] then gs
      else case find (\<lambda>(k, mc). mc_ID mc = mcID) (modelConfigs gs) of
        None \<Rightarrow> gs
      | Some (key, mc) \<Rightarrow>
          let gs1 = delete_budgets (mc_Budgets mc) gs;
              gs2 = delete_opt_rate_limit (mc_RateLimitID mc) gs1
          in gs2\<lparr>modelConfigs := gm_del key (modelConfigs gs2)\<rparr>)"

definition ScopedModelConfigIDs :: "LocalGovernanceStore \<Rightarrow> string \<Rightarrow> string \<Rightarrow> string list" where
  "ScopedModelConfigIDs gs scope scopeID =
     map (\<lambda>(k, mc). mc_ID mc) (filter (\<lambda>(k, mc). mc_Scope mc = scope
       \<and> (case mc_ScopeID mc of None \<Rightarrow> [] | Some i \<Rightarrow> i) = scopeID) (modelConfigs gs))"

text \<open>The provider path preserves the usage of a budget but not its boundary.\<close>

definition preserve_budget_usage :: "LocalGovernanceStore \<Rightarrow> TableBudget \<Rightarrow> TableBudget" where
  "preserve_budget_usage gs b =
     (case gm_get (budgets gs) (ID b) of None \<Rightarrow> b | Some live \<Rightarrow> b\<lparr>CurrentUsage := CurrentUsage live\<rparr>)"

definition UpdateProviderInMemory ::
    "LocalGovernanceStore \<Rightarrow> TableProvider \<Rightarrow> LocalGovernanceStore \<times> TableProvider" where
  "UpdateProviderInMemory gs p =
     (let (gs1, b) = (case provider_Budget p of None \<Rightarrow> (gs, None)
            | Some b0 \<Rightarrow> (let b1 = preserve_budget_usage gs b0
                in (storeBudget gs (ID b1) b1, Some (RefreshOverrideCyclesRemaining b1))));
          (gs2, rl) = (case provider_RateLimit p of None \<Rightarrow> (gs1, None)
            | Some r0 \<Rightarrow> (let r1 = preserve_rl_usage gs1 r0 in (store_rate_limit gs1 r1, Some r1)));
          clone = p\<lparr>provider_Budget := b, provider_RateLimit := rl\<rparr>
      in (gs2\<lparr>providers := gm_put (provider_Name p) clone (providers gs2)\<rparr>, clone))"

definition DeleteProviderInMemory :: "LocalGovernanceStore \<Rightarrow> string \<Rightarrow> LocalGovernanceStore" where
  "DeleteProviderInMemory gs name =
     (if name = [] then gs
      else let gs1 = (case gm_get (providers gs) name of None \<Rightarrow> gs
             | Some p \<Rightarrow>
                 let g = (case provider_BudgetID p of Some i \<Rightarrow> DeleteBudget gs i | None \<Rightarrow> gs)
                 in delete_opt_rate_limit (provider_RateLimitID p) g)
        in gs1\<lparr>providers := gm_del name (providers gs1)\<rparr>)"

end
