(* ===== verification/Store_Invariants.thy ===== *)
theory Store_Invariants
  imports Governance_Crud
begin

text \<open>
  Invariants of the governance store over every operation. The step relation \<open>gov_step\<close>
  has one rule per method of the store that changes state, with the caller's side of the
  contract as premise; the invariant of the live rows is proved for every operation and
  carried to every reachable store by rule induction. A second invariant relates the
  index of virtual keys by ID to the primary map.
\<close>

section \<open>The live rows\<close>

definition rows_ok :: "LocalGovernanceStore \<Rightarrow> bool" where
  "rows_ok gs \<longleftrightarrow> gm_ok (budgets gs) \<and> gm_ok (rateLimits gs)
     \<and> (\<forall>k b. gm_get (budgets gs) k = Some b \<longrightarrow> ID b = k \<and> RefreshOverrideCyclesRemaining b = b)
     \<and> (\<forall>k rl. gm_get (rateLimits gs) k = Some rl \<longrightarrow> rl_ID rl = k)"

lemma rows_ok_cong:
  "budgets gs' = budgets gs \<Longrightarrow> rateLimits gs' = rateLimits gs \<Longrightarrow> rows_ok gs' = rows_ok gs"
  by (simp add: rows_ok_def)

lemma rows_ok_other [simp]:
  "rows_ok (virtualKeys_update f gs) = rows_ok gs" "rows_ok (virtualKeysByID_update f gs) = rows_ok gs"
  "rows_ok (teams_update f1 gs) = rows_ok gs" "rows_ok (customers_update f2 gs) = rows_ok gs"
  "rows_ok (modelConfigs_update f3 gs) = rows_ok gs" "rows_ok (providers_update f4 gs) = rows_ok gs"
  "rows_ok (LastDBUsagesBudgets_update f5 gs) = rows_ok gs"
  "rows_ok (LastDBUsagesRequestsRateLimits_update f6 gs) = rows_ok gs"
  "rows_ok (LastDBUsagesTokensRateLimits_update f6 gs) = rows_ok gs"
  "rows_ok (budgetResetGens_update f7 gs) = rows_ok gs"
  "rows_ok (onBudgetsReset_update f8 gs) = rows_ok gs" "rows_ok (onRateLimitsReset_update f9 gs) = rows_ok gs"
  "rows_ok (storeVirtualKey gs v vk) = rows_ok gs" "rows_ok (deleteVirtualKeyByValue gs v) = rows_ok gs"
  "rows_ok (clearBudgetBaseline gs k) = rows_ok gs" "rows_ok (markBudgetResetLocked gs k) = rows_ok gs"
  "rows_ok (clearTokenBaseline gs k) = rows_ok gs" "rows_ok (clearRequestBaseline gs k) = rows_ok gs"
  "rows_ok (updateBudgetReferences gs rs) = rows_ok gs" "rows_ok (updateRateLimitReferences gs rls) = rows_ok gs"
  by (auto intro!: rows_ok_cong simp: deleteVirtualKeyByValue_def markBudgetResetLocked_def Let_def
      split: option.split)

lemma rows_ok_put_budget:
  assumes "rows_ok gs" "budgets gs = m" "ID b = k" "RefreshOverrideCyclesRemaining b = b"
  shows "rows_ok (gs\<lparr>budgets := gm_put k b m\<rparr>)"
  using assms by (auto simp: rows_ok_def)

lemma rows_ok_put_rl:
  assumes "rows_ok gs" "rateLimits gs = m" "rl_ID rl = k"
  shows "rows_ok (gs\<lparr>rateLimits := gm_put k rl m\<rparr>)"
  using assms by (auto simp: rows_ok_def)

lemma rows_okD:
  assumes "rows_ok gs"
  shows "gm_get (budgets gs) k = Some b \<Longrightarrow> ID b = k"
    and "gm_get (budgets gs) k = Some b \<Longrightarrow> RefreshOverrideCyclesRemaining b = b"
    and "gm_get (rateLimits gs) j = Some rl \<Longrightarrow> rl_ID rl = j"
  using assms by (auto simp: rows_ok_def)

named_theorems rows_intro \<open>operations that keep the live rows well formed\<close>

lemma rows_ok_storeBudget [rows_intro]: "rows_ok gs \<Longrightarrow> ID b = k \<Longrightarrow> rows_ok (storeBudget gs k b)"
  unfolding storeBudget_def by (rule rows_ok_put_budget) simp_all

lemma rows_ok_UpsertBudgetConfig [rows_intro]:
  "rows_ok gs \<Longrightarrow> ID c = k \<Longrightarrow> rows_ok (UpsertBudgetConfig gs k (Some c))"
  by (auto simp: UpsertBudgetConfig_def Let_def intro!: rows_ok_put_budget split: option.split)

lemma rows_ok_DeleteBudget [rows_intro]: "rows_ok gs \<Longrightarrow> rows_ok (DeleteBudget gs k)"
  by (simp add: DeleteBudget_def Let_def) (auto simp: rows_ok_def split: if_splits)

lemma rows_ok_DeleteRateLimit [rows_intro]: "rows_ok gs \<Longrightarrow> rows_ok (DeleteRateLimit gs k)"
  by (auto simp: DeleteRateLimit_def rows_ok_def split: if_splits)

lemma rows_ok_ResetBudgetAt [rows_intro]: "rows_ok gs \<Longrightarrow> rows_ok (fst (ResetBudgetAt gs k t))"
  by (auto simp: ResetBudgetAt_def Let_def dest: rows_okD intro!: rows_ok_put_budget split: option.split)

lemma rows_ok_RebaseBudget [rows_intro]: "rows_ok gs \<Longrightarrow> rows_ok (fst (RebaseBudget gs k u t))"
  by (auto simp: RebaseBudget_def Let_def dest: rows_okD intro!: rows_ok_put_budget split: option.split)

lemma rows_ok_resetExpiredBudget [rows_intro]:
  "rows_ok gs \<Longrightarrow> rows_ok (fst (resetExpiredBudgetFromSnapshot gs b now))"
proof -
  assume ok: "rows_ok gs"
  have "rows_ok g" if "ResetBudgetAt gs (ID b) t = (g, r)" for t g r
    using rows_ok_ResetBudgetAt [OF ok, of "ID b" t] that by simp
  then show ?thesis
    using ok by (auto simp: resetExpiredBudgetFromSnapshot_def split: option.split prod.split)
qed

lemma rows_ok_ResetBudgetUsage [rows_intro]: "rows_ok gs \<Longrightarrow> rows_ok (fst (ResetBudgetUsageInMemory gs k))"
  using rows_ok_RebaseBudget [of gs k "Fin 0" None]
  by (auto simp: ResetBudgetUsageInMemory_def split: option.split prod.split)

lemma AdoptCalendarAlignment_ID [simp]: "ID (fst (AdoptCalendarAlignment b now)) = ID b"
  by (simp add: AdoptCalendarAlignment_def Let_def)

lemma rl_AdoptCalendarAlignment_ID [simp]: "rl_ID (fst (rl_AdoptCalendarAlignment rl now)) = rl_ID rl"
  by (simp add: rl_AdoptCalendarAlignment_def Let_def split: prod.split)

lemma rows_ok_Adopt [rows_intro]: "rows_ok gs \<Longrightarrow> rows_ok (fst (AdoptCalendarAlignmentInMemory gs k now))"
proof -
  assume ok: "rows_ok gs"
  show ?thesis
  proof (cases "gm_get (budgets gs) k")
    case (Some b)
    obtain c m where c: "AdoptCalendarAlignment (b\<lparr>IsCalendarAligned := True\<rparr>) now = (c, m)" by fastforce
    then have "ID c = ID b" using AdoptCalendarAlignment_ID [of "b\<lparr>IsCalendarAligned := True\<rparr>" now] by simp
    then show ?thesis
      using ok Some c rows_okD(1) [OF ok Some]
      by (auto simp: AdoptCalendarAlignmentInMemory_def intro!: rows_ok_put_budget split: bool.split)
  qed (use ok in \<open>simp add: AdoptCalendarAlignmentInMemory_def\<close>)
qed

lemma rows_ok_UpsertRateLimit [rows_intro]:
  "rows_ok gs \<Longrightarrow> rl_ID c = k \<Longrightarrow> rows_ok (UpsertRateLimitConfig gs k (Some c))"
  by (auto simp: UpsertRateLimitConfig_def Let_def intro!: rows_ok_put_rl split: option.split)

lemma rows_ok_store_rate_limit [rows_intro]: "rows_ok gs \<Longrightarrow> rows_ok (store_rate_limit gs rl)"
  unfolding store_rate_limit_def by (rule rows_ok_put_rl) simp_all

lemma rows_ok_ResetRateLimitAt [rows_intro]: "rows_ok gs \<Longrightarrow> rows_ok (fst (ResetRateLimitAt gs k t q))"
  by (auto simp: ResetRateLimitAt_def Let_def dest: rows_okD intro!: rows_ok_put_rl split: option.split)

lemma rows_ok_RebaseRateLimit [rows_intro]: "rows_ok gs \<Longrightarrow> rows_ok (fst (RebaseRateLimit gs k n m t q))"
  by (auto simp: RebaseRateLimit_def Let_def dest: rows_okD intro!: rows_ok_put_rl split: option.split)

lemma rows_ok_resetExpiredRateLimit [rows_intro]:
  "rows_ok gs \<Longrightarrow> rows_ok (fst (resetExpiredRateLimitFromSnapshot gs rl now))"
proof -
  assume ok: "rows_ok gs"
  obtain t q where tq: "rateLimitResetTargets rl now = (t, q)" by fastforce
  obtain g r where g: "ResetRateLimitAt gs (rl_ID rl) t q = (g, r)" by fastforce
  then have "rows_ok g" using rows_ok_ResetRateLimitAt [OF ok, of "rl_ID rl" t q] by simp
  then show ?thesis
    using ok by (auto simp: resetExpiredRateLimitFromSnapshot_def tq g Let_def split: option.split)
qed

lemma rows_ok_AdoptRl [rows_intro]: "rows_ok gs \<Longrightarrow> rows_ok (fst (AdoptRateLimitCalendarAlignmentInMemory gs k now))"
proof -
  assume ok: "rows_ok gs"
  show ?thesis
  proof (cases "gm_get (rateLimits gs) k")
    case (Some rl)
    obtain c m where c: "rl_AdoptCalendarAlignment (rl\<lparr>rl_IsCalendarAligned := True\<rparr>) now = (c, m)" by fastforce
    then have "rl_ID c = rl_ID rl"
      using rl_AdoptCalendarAlignment_ID [of "rl\<lparr>rl_IsCalendarAligned := True\<rparr>" now] by simp
    then show ?thesis
      using ok Some c rows_okD(3) [OF ok Some]
      by (auto simp: AdoptRateLimitCalendarAlignmentInMemory_def intro!: rows_ok_put_rl split: bool.split)
  qed (use ok in \<open>simp add: AdoptRateLimitCalendarAlignmentInMemory_def\<close>)
qed

lemma rows_ok_BumpBy [rows_intro]: "rows_ok gs \<Longrightarrow> rows_ok (BumpRateLimitUsageBy gs k n m)"
  by (auto simp: BumpRateLimitUsageBy_def dest: rows_okD intro!: rows_ok_put_rl split: option.split)

section \<open>Sweeps and bumps\<close>

lemma rows_ok_sweep_budget: "rows_ok (fst acc) \<Longrightarrow> rows_ok (fst (sweep_budget now k acc))"
proof -
  assume ok: "rows_ok (fst acc)"
  have "rows_ok g" if "resetExpiredBudgetFromSnapshot (fst acc) b now = (g, r)" for b g r
    using rows_ok_resetExpiredBudget [OF ok, of b now] that by simp
  then show ?thesis
    using ok by (auto simp: sweep_budget_def split: prod.split option.split)
qed

lemma rows_ok_sweep_rl: "rows_ok (fst acc) \<Longrightarrow> rows_ok (fst (sweep_rate_limit now k acc))"
proof -
  assume ok: "rows_ok (fst acc)"
  have "rows_ok g" if "resetExpiredRateLimitFromSnapshot (fst acc) b now = (g, r)" for b g r
    using rows_ok_resetExpiredRateLimit [OF ok, of b now] that by simp
  then show ?thesis
    using ok by (auto simp: sweep_rate_limit_def split: prod.split option.split)
qed

lemma rows_ok_ResetExpiredBudgets [rows_intro]:
  "rows_ok gs \<Longrightarrow> rows_ok (fst (ResetExpiredBudgetsInMemory gs now r ids))"
proof -
  assume ok: "rows_ok gs"
  have "rows_ok (fst (fold (sweep_budget now) ks (gs, [])))" for ks
    by (rule fold_inv) (use ok in \<open>auto intro: rows_ok_sweep_budget\<close>)
  then show ?thesis by (simp add: ResetExpiredBudgetsInMemory_def Let_def split_beta)
qed

lemma rows_ok_ResetExpiredRateLimits [rows_intro]:
  "rows_ok gs \<Longrightarrow> rows_ok (fst (ResetExpiredRateLimitsInMemory gs now r ids))"
proof -
  assume ok: "rows_ok gs"
  have "rows_ok (fst (fold (sweep_rate_limit now) ks (gs, [])))" for ks
    by (rule fold_inv) (use ok in \<open>auto intro: rows_ok_sweep_rl\<close>)
  then show ?thesis by (simp add: ResetExpiredRateLimitsInMemory_def Let_def split_beta)
qed

lemma rows_ok_bump_budget: "rows_ok gs \<Longrightarrow> rows_ok (bump_budget_loop gs clock n k cost)"
proof (induction gs clock n k cost rule: bump_budget_loop.induct)
  case (1 gs clock n k cost)
  show ?case
  proof (cases "gm_get (budgets gs) k")
    case None
    then show ?thesis using 1(2) by (simp add: bump_budget_loop.simps)
  next
    case (Some b)
    have b: "ID b = k" "RefreshOverrideCyclesRemaining b = b" using rows_okD [OF 1(2)] Some by auto
    show ?thesis
    proof (cases "budgetResetTarget b (clock 0) \<noteq> None \<and> n < maxRequestTimeResetAttempts")
      case True
      then show ?thesis
        using 1(1) [OF Some refl] Some rows_ok_ResetExpiredBudgets [OF 1(2)]
        by (simp add: bump_budget_loop.simps [of gs])
    next
      case False
      then show ?thesis
        using Some b 1(2)
        by (subst bump_budget_loop.simps)
           (auto simp: Let_def intro!: rows_ok_put_budget split: option.split)
    qed
  qed
qed

lemma rows_ok_bump_rl: "rows_ok gs \<Longrightarrow> rows_ok (bump_rate_limit_loop gs clock n k u a c)"
proof (induction gs clock n k u a c rule: bump_rate_limit_loop.induct)
  case (1 gs clock n k u a c)
  show ?case
  proof (cases "gm_get (rateLimits gs) k")
    case None
    then show ?thesis using 1(2) by (simp add: bump_rate_limit_loop.simps)
  next
    case (Some rl)
    obtain t q where tq: "rateLimitResetTargets rl (clock 0) = (t, q)" by fastforce
    have id: "rl_ID rl = k" using rows_okD [OF 1(2)] Some by auto
    show ?thesis
    proof (cases "(t \<noteq> None \<or> q \<noteq> None) \<and> n < maxRequestTimeResetAttempts")
      case True
      then show ?thesis
        using 1(1) [OF Some tq [symmetric] refl] Some tq rows_ok_ResetExpiredRateLimits [OF 1(2)]
        by (simp add: bump_rate_limit_loop.simps [of gs])
    next
      case False
      then show ?thesis
        using Some id 1(2) tq
        by (subst bump_rate_limit_loop.simps)
           (auto simp: Let_def intro!: rows_ok_put_rl split: option.split)
    qed
  qed
qed

lemma rows_ok_Bump [rows_intro]:
  "rows_ok gs \<Longrightarrow> rows_ok (BumpBudgetUsage gs clock k cost)"
  "rows_ok gs \<Longrightarrow> rows_ok (BumpRateLimitUsage gs clock k u a c)"
  by (simp_all add: BumpBudgetUsage_def BumpRateLimitUsage_def rows_ok_bump_budget rows_ok_bump_rl)

section \<open>Owners\<close>

lemma stamp_ID [simp]: "ID (stamp_budget a b) = ID b" "rl_ID (stamp_rl a rl) = rl_ID rl"
  by (simp_all add: stamp_budget_def stamp_rl_def)

lemma rows_ok_create_budgets [rows_intro]: "rows_ok gs \<Longrightarrow> rows_ok (fst (create_budgets a bs gs))"
  by (induction bs arbitrary: gs) (simp_all add: Let_def split_beta rows_ok_storeBudget)

lemma rows_ok_reconcile_budgets [rows_intro]: "rows_ok gs \<Longrightarrow> rows_ok (fst (reconcile_budgets a bs gs))"
  by (induction bs arbitrary: gs) (simp_all add: Let_def split_beta rows_ok_storeBudget)

lemma rows_ok_delete_removed [rows_intro]: "rows_ok gs \<Longrightarrow> rows_ok (delete_removed_budgets keep old gs)"
  unfolding delete_removed_budgets_def by (rule fold_inv) (auto intro: rows_intro)

lemma rows_ok_delete_budgets [rows_intro]: "rows_ok gs \<Longrightarrow> rows_ok (delete_budgets bs gs)"
  unfolding delete_budgets_def by (rule fold_inv) (auto intro: rows_intro)

lemma rows_ok_delete_opt [rows_intro]: "rows_ok gs \<Longrightarrow> rows_ok (delete_opt_rate_limit r gs)"
  by (auto simp: delete_opt_rate_limit_def intro: rows_intro split: option.split)

lemma rows_ok_create_rl [rows_intro]: "rows_ok gs \<Longrightarrow> rows_ok (fst (create_rate_limit a r gs))"
  by (auto simp: create_rate_limit_def intro: rows_intro split: option.split)

lemma rows_ok_reconcile_rl [rows_intro]: "rows_ok gs \<Longrightarrow> rows_ok (fst (reconcile_rate_limit a r old gs))"
  by (auto simp: reconcile_rate_limit_def Let_def intro!: rows_intro split: option.split)

lemma rows_ok_create_pcs [rows_intro]: "rows_ok gs \<Longrightarrow> rows_ok (fst (create_pcs a pcs gs))"
  by (induction pcs arbitrary: gs) (simp_all add: Let_def split_beta rows_intro)

lemma rows_ok_CreateVirtualKey [rows_intro]: "rows_ok gs \<Longrightarrow> rows_ok (CreateVirtualKeyInMemory gs vk)"
  by (auto simp: CreateVirtualKeyInMemory_def Let_def split_beta intro!: rows_intro split: option.split)

lemma rows_ok_update_pc [rows_intro]: "rows_ok gs \<Longrightarrow> rows_ok (fst (update_pc a ids ex pc gs))"
  by (auto simp: update_pc_def Let_def split_beta intro!: rows_intro split: option.split)

lemma rows_ok_update_pcs [rows_intro]: "rows_ok gs \<Longrightarrow> rows_ok (fst (update_pcs a ids ex pcs gs))"
  by (induction pcs arbitrary: gs) (simp_all add: Let_def split_beta rows_intro)

lemma rows_ok_cleanup_pcs [rows_intro]: "rows_ok gs \<Longrightarrow> rows_ok (cleanup_pcs rs bs pcs gs)"
  unfolding cleanup_pcs_def
  by (rule fold_inv) (auto simp: Let_def intro!: rows_intro split: option.split)

lemma rows_ok_UpdateVirtualKey [rows_intro]: "rows_ok gs \<Longrightarrow> rows_ok (UpdateVirtualKeyInMemory gs vk)"
  by (auto simp: UpdateVirtualKeyInMemory_def Let_def split_beta intro!: rows_intro split: option.split)

lemma rows_ok_DeleteModelConfigsForScope [rows_intro]:
  "rows_ok gs \<Longrightarrow> rows_ok (DeleteModelConfigsForScopeInMemory gs scope i)"
  unfolding DeleteModelConfigsForScopeInMemory_def
  by (rule fold_inv)
     (auto simp: delete_model_config_of_scope_def Let_def intro!: rows_intro split: option.split prod.split)

lemma rows_ok_fold_pcs [rows_intro]:
  "rows_ok gs \<Longrightarrow> rows_ok (fold (\<lambda>pc s. delete_opt_rate_limit (pc_RateLimitID pc) (delete_budgets (pc_Budgets pc) s)) pcs gs)"
  by (rule fold_inv) (auto intro!: rows_intro)

lemma rows_ok_DeleteVirtualKey [rows_intro]: "rows_ok gs \<Longrightarrow> rows_ok (DeleteVirtualKeyInMemory gs i)"
  by (auto simp: DeleteVirtualKeyInMemory_def Let_def intro!: rows_intro split: option.split)

lemma rows_ok_fold_vks [simp]:
  "rows_ok (fold (\<lambda>(k, vk) s. if P vk then storeVirtualKey s k (f vk) else s) xs gs) = rows_ok gs"
  by (rule fold_keeps) (auto split: prod.split)

lemma rows_ok_fold_teams [simp]:
  "rows_ok (fold (\<lambda>(k, t) s. if P t then s\<lparr>teams := gm_put k (f t) (teams s)\<rparr> else s) xs gs) = rows_ok gs"
  by (rule fold_keeps) (auto split: prod.split)

lemma rows_ok_teams [rows_intro]:
  "rows_ok gs \<Longrightarrow> rows_ok (CreateTeamInMemory gs t)"
  "rows_ok gs \<Longrightarrow> rows_ok (UpdateTeamInMemory gs t)"
  "rows_ok gs \<Longrightarrow> rows_ok (DeleteTeamInMemory gs i)"
proof -
  assume ok: "rows_ok gs"
  show c: "rows_ok (CreateTeamInMemory gs t)"
    using ok by (auto simp: CreateTeamInMemory_def Let_def split_beta intro!: rows_intro)
  show "rows_ok (UpdateTeamInMemory gs t)"
    using ok c by (auto simp: UpdateTeamInMemory_def Let_def split_beta intro!: rows_intro split: option.split)
  show "rows_ok (DeleteTeamInMemory gs i)"
    using ok by (auto simp: DeleteTeamInMemory_def Let_def intro!: rows_intro split: option.split)
qed

lemma rows_ok_customers [rows_intro]:
  "rows_ok gs \<Longrightarrow> rows_ok (CreateCustomerInMemory gs c)"
  "rows_ok gs \<Longrightarrow> rows_ok (UpdateCustomerInMemory gs c)"
  "rows_ok gs \<Longrightarrow> rows_ok (DeleteCustomerInMemory gs i)"
proof -
  assume ok: "rows_ok gs"
  show c: "rows_ok (CreateCustomerInMemory gs c)"
    using ok by (auto simp: CreateCustomerInMemory_def Let_def split_beta intro!: rows_intro)
  show "rows_ok (UpdateCustomerInMemory gs c)"
    using ok c by (auto simp: UpdateCustomerInMemory_def Let_def split_beta intro!: rows_intro split: option.split)
  show "rows_ok (DeleteCustomerInMemory gs i)"
    using ok by (auto simp: DeleteCustomerInMemory_def Let_def intro!: rows_intro split: option.split)
qed

lemma rows_ok_models_providers [rows_intro]:
  "rows_ok gs \<Longrightarrow> rows_ok (fst (UpdateModelConfigInMemory gs mc))"
  "rows_ok gs \<Longrightarrow> rows_ok (DeleteModelConfigInMemory gs i)"
  "rows_ok gs \<Longrightarrow> rows_ok (fst (UpdateProviderInMemory gs p))"
  "rows_ok gs \<Longrightarrow> rows_ok (DeleteProviderInMemory gs n)"
  by (auto simp: UpdateModelConfigInMemory_def DeleteModelConfigInMemory_def UpdateProviderInMemory_def
      DeleteProviderInMemory_def Let_def split_beta intro!: rows_intro split: option.split)

section \<open>Steps of the store\<close>

inductive gov_step :: "LocalGovernanceStore \<Rightarrow> LocalGovernanceStore \<Rightarrow> bool" where
  upsert_budget: "ID c = k \<Longrightarrow> gov_step gs (UpsertBudgetConfig gs k (Some c))"
| delete_budget: "gov_step gs (DeleteBudget gs k)"
| budget_baseline: "gov_step gs (SetBudgetDBBaseline gs k u)"
| rebase_budget: "gov_step gs (fst (RebaseBudget gs k u t))"
| operator_reset: "gov_step gs (fst (ResetBudgetUsageInMemory gs k))"
| adopt_budget: "gov_step gs (fst (AdoptCalendarAlignmentInMemory gs k now))"
| upsert_rate_limit: "rl_ID c = k \<Longrightarrow> gov_step gs (UpsertRateLimitConfig gs k (Some c))"
| delete_rate_limit: "gov_step gs (DeleteRateLimit gs k)"
| rate_limit_baseline: "gov_step gs (SetRateLimitDBBaseline gs k n m)"
| rebase_rate_limit: "gov_step gs (fst (RebaseRateLimit gs k n m t q))"
| adopt_rate_limit: "gov_step gs (fst (AdoptRateLimitCalendarAlignmentInMemory gs k now))"
| carry_rate_limit: "gov_step gs (BumpRateLimitUsageBy gs k n m)"
| sweep_budgets: "gov_step gs (fst (ResetExpiredBudgetsInMemory gs now r ids))"
| sweep_rate_limits: "gov_step gs (fst (ResetExpiredRateLimitsInMemory gs now r ids))"
| bump_budget: "gov_step gs (BumpBudgetUsage gs clock k cost)"
| bump_rate_limit: "gov_step gs (BumpRateLimitUsage gs clock k u a b)"
| create_vk: "gov_step gs (CreateVirtualKeyInMemory gs vk)"
| update_vk: "gov_step gs (UpdateVirtualKeyInMemory gs vk)"
| delete_vk: "gov_step gs (DeleteVirtualKeyInMemory gs i)"
| create_team: "gov_step gs (CreateTeamInMemory gs team)"
| update_team: "gov_step gs (UpdateTeamInMemory gs team)"
| delete_team: "gov_step gs (DeleteTeamInMemory gs i)"
| create_customer: "gov_step gs (CreateCustomerInMemory gs customer)"
| update_customer: "gov_step gs (UpdateCustomerInMemory gs customer)"
| delete_customer: "gov_step gs (DeleteCustomerInMemory gs i)"
| update_model_config: "gov_step gs (fst (UpdateModelConfigInMemory gs mc))"
| delete_model_config: "gov_step gs (DeleteModelConfigInMemory gs i)"
| delete_scope: "gov_step gs (DeleteModelConfigsForScopeInMemory gs scope i)"
| update_provider: "gov_step gs (fst (UpdateProviderInMemory gs p))"
| delete_provider: "gov_step gs (DeleteProviderInMemory gs i)"

lemma rows_ok_baselines [rows_intro]:
  "rows_ok gs \<Longrightarrow> rows_ok (SetBudgetDBBaseline gs k u)"
  "rows_ok gs \<Longrightarrow> rows_ok (SetRateLimitDBBaseline gs k n m)"
  by (simp_all add: SetBudgetDBBaseline_def SetRateLimitDBBaseline_def)

lemma gov_step_rows: "gov_step gs gs' \<Longrightarrow> rows_ok gs \<Longrightarrow> rows_ok gs'"
  by (induction rule: gov_step.induct) (auto intro: rows_intro)

lemma reachable_rows: "gov_step\<^sup>*\<^sup>* gs gs' \<Longrightarrow> rows_ok gs \<Longrightarrow> rows_ok gs'"
  by (induction rule: rtranclp_induct) (auto intro: gov_step_rows)

lemma rows_ok_empty: "rows_ok empty_store"
  by (simp add: rows_ok_def empty_store_def)

section \<open>Properties\<close>

text \<open>
  C18: in every store reachable from the empty one by any sequence of the store's operations, a
  live row is stored under its own ID and each budget's override count is the one derived
  from its grant and its boundary: no path installs a stale count.
\<close>

theorem reachable_store_rows_ok:
  assumes "gov_step\<^sup>*\<^sup>* empty_store gs"
  shows "rows_ok gs"
  using assms rows_ok_empty by (rule reachable_rows)

theorem reachable_store_rows_ok_witness:
  "rows_ok (BumpBudgetUsage (UpsertBudgetConfig empty_store ''b1'' (Some sample_budget)) (\<lambda>_. 5) ''b1'' (Fin 1))"
proof (rule reachable_store_rows_ok)
  have "gov_step empty_store (UpsertBudgetConfig empty_store ''b1'' (Some sample_budget))"
    by (rule upsert_budget) (simp add: sample_budget_def)
  then show "gov_step\<^sup>*\<^sup>* empty_store
      (BumpBudgetUsage (UpsertBudgetConfig empty_store ''b1'' (Some sample_budget)) (\<lambda>_. 5) ''b1'' (Fin 1))"
    by (meson bump_budget r_into_rtranclp rtranclp.rtrancl_into_rtrancl)
qed

end
