(* ===== verification/Owner_Properties.thy ===== *)
theory Owner_Properties
  imports Store_Invariants
begin

text \<open>
  What the owner operations guarantee: the index of virtual keys by ID stays in step with
  the primary map as long as no key takes over the value of another one, updating a team
  reconciles its budgets exactly, and where the update paths lose state.
\<close>

section \<open>The index of virtual keys\<close>

definition index_ok :: "LocalGovernanceStore \<Rightarrow> bool" where
  "index_ok gs \<longleftrightarrow> gm_ok (virtualKeys gs)
     \<and> (\<forall>v vk. gm_get (virtualKeys gs) v = Some vk \<longrightarrow> v \<noteq> [] \<and> vk_ID vk \<noteq> []
          \<and> gm_get (virtualKeysByID gs) (vk_ID vk) = Some vk)
     \<and> (\<forall>i vk. gm_get (virtualKeysByID gs) i = Some vk \<longrightarrow> vk_ID vk = i
          \<and> (\<exists>v. gm_get (virtualKeys gs) v = Some vk))
     \<and> (\<forall>v v' vk vk'. gm_get (virtualKeys gs) v = Some vk \<and> gm_get (virtualKeys gs) v' = Some vk'
          \<and> vk_ID vk = vk_ID vk' \<longrightarrow> v = v')"

lemma index_okI:
  assumes "gm_ok (virtualKeys gs)"
    and "\<And>v vk. gm_get (virtualKeys gs) v = Some vk \<Longrightarrow> v \<noteq> [] \<and> vk_ID vk \<noteq> []"
    and "\<And>v vk. gm_get (virtualKeys gs) v = Some vk \<Longrightarrow> gm_get (virtualKeysByID gs) (vk_ID vk) = Some vk"
    and "\<And>i vk. gm_get (virtualKeysByID gs) i = Some vk \<Longrightarrow> vk_ID vk = i \<and> (\<exists>v. gm_get (virtualKeys gs) v = Some vk)"
    and "\<And>v v' vk vk'. \<lbrakk>gm_get (virtualKeys gs) v = Some vk; gm_get (virtualKeys gs) v' = Some vk';
          vk_ID vk = vk_ID vk'\<rbrakk> \<Longrightarrow> v = v'"
  shows "index_ok gs"
  unfolding index_ok_def using assms by blast

lemma index_okD:
  assumes "index_ok gs"
  shows "gm_ok (virtualKeys gs)"
    and "gm_get (virtualKeys gs) v = Some vk \<Longrightarrow> v \<noteq> []"
    and "gm_get (virtualKeys gs) v = Some vk \<Longrightarrow> vk_ID vk \<noteq> []"
    and "gm_get (virtualKeys gs) v = Some vk \<Longrightarrow> gm_get (virtualKeysByID gs) (vk_ID vk) = Some vk"
    and "gm_get (virtualKeysByID gs) i = Some vk \<Longrightarrow> vk_ID vk = i"
    and "gm_get (virtualKeysByID gs) i = Some vk \<Longrightarrow> \<exists>v. gm_get (virtualKeys gs) v = Some vk"
    and "\<lbrakk>gm_get (virtualKeys gs) v = Some vk; gm_get (virtualKeys gs) v' = Some vk'; vk_ID vk = vk_ID vk'\<rbrakk>
      \<Longrightarrow> v = v'"
  using assms unfolding index_ok_def by blast+

definition vkmaps ::
    "LocalGovernanceStore \<Rightarrow> (string, TableVirtualKey) gomap \<times> (string, TableVirtualKey) gomap" where
  "vkmaps gs = (virtualKeys gs, virtualKeysByID gs)"

lemma index_ok_cong: "vkmaps gs' = vkmaps gs \<Longrightarrow> index_ok gs' = index_ok gs"
  by (simp add: vkmaps_def index_ok_def)

lemma vkmaps_update [simp]:
  "vkmaps (budgets_update f0 gs) = vkmaps gs" "vkmaps (rateLimits_update f1 gs) = vkmaps gs"
  "vkmaps (teams_update f2 gs) = vkmaps gs" "vkmaps (customers_update f3 gs) = vkmaps gs"
  "vkmaps (modelConfigs_update f4 gs) = vkmaps gs" "vkmaps (LastDBUsagesBudgets_update f5 gs) = vkmaps gs"
  "vkmaps (LastDBUsagesRequestsRateLimits_update f6 gs) = vkmaps gs"
  "vkmaps (LastDBUsagesTokensRateLimits_update f6 gs) = vkmaps gs"
  "vkmaps (budgetResetGens_update f7 gs) = vkmaps gs" "vkmaps (onBudgetsReset_update f8 gs) = vkmaps gs"
  by (simp_all add: vkmaps_def)

lemma vkmaps_rows [simp]:
  "vkmaps (storeBudget gs k b) = vkmaps gs" "vkmaps (markBudgetResetLocked gs k) = vkmaps gs"
  "vkmaps (DeleteBudget gs k) = vkmaps gs" "vkmaps (DeleteRateLimit gs k) = vkmaps gs"
  "vkmaps (store_rate_limit gs rl) = vkmaps gs" "vkmaps (clearBudgetBaseline gs k) = vkmaps gs"
  by (simp_all add: storeBudget_def markBudgetResetLocked_def DeleteBudget_def DeleteRateLimit_def
      store_rate_limit_def clearBudgetBaseline_def Let_def)

lemma vkmaps_loops [simp]:
  "vkmaps (fst (create_budgets a bs gs)) = vkmaps gs"
  "vkmaps (fst (reconcile_budgets a bs gs)) = vkmaps gs"
  "vkmaps (delete_removed_budgets keep old gs) = vkmaps gs"
  "vkmaps (delete_budgets bs gs) = vkmaps gs"
  "vkmaps (delete_opt_rate_limit r gs) = vkmaps gs"
  "vkmaps (fst (create_rate_limit a r' gs)) = vkmaps gs"
  "vkmaps (fst (reconcile_rate_limit a r' r'' gs)) = vkmaps gs"
proof -
  show "vkmaps (fst (create_budgets a bs gs)) = vkmaps gs" "vkmaps (fst (reconcile_budgets a bs gs)) = vkmaps gs"
    by (induction bs arbitrary: gs) (simp_all add: Let_def split_beta)
  show "vkmaps (delete_removed_budgets keep old gs) = vkmaps gs" "vkmaps (delete_budgets bs gs) = vkmaps gs"
    unfolding delete_removed_budgets_def delete_budgets_def by (rule fold_keeps; simp)+
qed (simp_all add: delete_opt_rate_limit_def create_rate_limit_def reconcile_rate_limit_def Let_def
      split: option.split)

lemma vkmaps_pcs [simp]:
  "vkmaps (fst (create_pcs a pcs gs)) = vkmaps gs"
  "vkmaps (fst (update_pcs a ids ex pcs gs)) = vkmaps gs"
  "vkmaps (cleanup_pcs rs bs pcs gs) = vkmaps gs"
  "vkmaps (fold (\<lambda>pc s. delete_opt_rate_limit (pc_RateLimitID pc) (delete_budgets (pc_Budgets pc) s)) pcs gs) = vkmaps gs"
  "vkmaps (DeleteModelConfigsForScopeInMemory gs scope i) = vkmaps gs"
proof -
  have u: "vkmaps (fst (update_pc a ids ex pc gs)) = vkmaps gs" for pc gs
    by (simp add: update_pc_def Let_def split_beta split: option.split)
  show "vkmaps (fst (create_pcs a pcs gs)) = vkmaps gs" "vkmaps (fst (update_pcs a ids ex pcs gs)) = vkmaps gs"
    by (induction pcs arbitrary: gs) (simp_all add: Let_def split_beta u)
  show "vkmaps (cleanup_pcs rs bs pcs gs) = vkmaps gs"
    unfolding cleanup_pcs_def by (rule fold_keeps) (simp add: Let_def split: option.split)
  show "vkmaps (fold (\<lambda>pc s. delete_opt_rate_limit (pc_RateLimitID pc) (delete_budgets (pc_Budgets pc) s)) pcs gs) = vkmaps gs"
    by (rule fold_keeps) simp
  show "vkmaps (DeleteModelConfigsForScopeInMemory gs scope i) = vkmaps gs"
    unfolding DeleteModelConfigsForScopeInMemory_def
    by (rule fold_keeps) (simp add: delete_model_config_of_scope_def Let_def split: option.split prod.split)
qed

lemma vkmapsD: "vkmaps gs' = vkmaps gs \<Longrightarrow> virtualKeys gs' = virtualKeys gs"
  by (simp add: vkmaps_def)

lemma index_ok_store:
  assumes "index_ok gs" "vk_ID vk \<noteq> []"
    and own: "\<And>v' e. gm_get (virtualKeys gs) v' = Some e \<Longrightarrow> vk_ID e = vk_ID vk \<longleftrightarrow> v' = v"
  shows "index_ok (storeVirtualKey gs v vk)"
proof (cases "v = []")
  case True
  then show ?thesis using assms(1) by (simp add: storeVirtualKey_def)
next
  case False
  let ?gs = "storeVirtualKey gs v vk"
  have m: "gm_get (virtualKeys ?gs) u = (if u = v then Some vk else gm_get (virtualKeys gs) u)"
    "gm_get (virtualKeysByID ?gs) i = (if i = vk_ID vk then Some vk else gm_get (virtualKeysByID gs) i)"
    "gm_ok (virtualKeys ?gs)" for u i
    using False assms(1,2) by (simp_all add: storeVirtualKey_def Let_def index_ok_def)
  have bwd: "\<exists>u. gm_get (virtualKeys ?gs) u = Some e" if "gm_get (virtualKeysByID ?gs) i = Some e" for i e
  proof (cases "i = vk_ID vk")
    case False
    then have "gm_get (virtualKeysByID gs) i = Some e" using that by (simp add: m)
    then obtain u where "gm_get (virtualKeys gs) u = Some e" "vk_ID e = i"
      using index_okD(5,6) [OF assms(1)] by blast
    moreover have "u \<noteq> v" using calculation False own [of u e] by auto
    ultimately show ?thesis by (auto simp: m)
  qed (use that m in auto)
  show ?thesis
  proof (rule index_okI)
    fix u e assume "gm_get (virtualKeys ?gs) u = Some e"
    then show "u \<noteq> [] \<and> vk_ID e \<noteq> []"
      using False assms(2) index_okD(2,3) [OF assms(1)] by (auto simp: m split: if_splits)
  next
    fix u e assume e: "gm_get (virtualKeys ?gs) u = Some e"
    show "gm_get (virtualKeysByID ?gs) (vk_ID e) = Some e"
    proof (cases "u = v")
      case False
      then have "gm_get (virtualKeys gs) u = Some e" using e by (simp add: m)
      then show ?thesis using own [of u e] False index_okD(4) [OF assms(1)] by (simp add: m)
    qed (use e m(1) [of v] m(2) [of "vk_ID vk"] in auto)
  next
    fix i e assume "gm_get (virtualKeysByID ?gs) i = Some e"
    then show "vk_ID e = i \<and> (\<exists>u. gm_get (virtualKeys ?gs) u = Some e)"
      using bwd index_okD(5) [OF assms(1)] by (auto simp: m(2) split: if_splits)
  next
    fix u u' e e' assume "gm_get (virtualKeys ?gs) u = Some e" "gm_get (virtualKeys ?gs) u' = Some e'" "vk_ID e = vk_ID e'"
    then show "u = u'"
      using own [of u e] own [of u' e'] index_okD(7) [OF assms(1), of u e u' e'] by (auto simp: m(1) split: if_splits)
  qed (rule m(3))
qed

lemma delete_maps:
  assumes "index_ok gs"
  shows "gm_get (virtualKeys (deleteVirtualKeyByValue gs v)) u = (if u = v then None else gm_get (virtualKeys gs) u)"
    and "gm_get (virtualKeysByID (deleteVirtualKeyByValue gs v)) i =
      (if \<exists>vk. gm_get (virtualKeys gs) v = Some vk \<and> vk_ID vk = i then None else gm_get (virtualKeysByID gs) i)"
    and "gm_ok (virtualKeys (deleteVirtualKeyByValue gs v))"
  using index_okD(1,3) [OF assms]
  by (cases "gm_get (virtualKeys gs) v"; simp add: deleteVirtualKeyByValue_def Let_def)+

lemma index_ok_delete: "index_ok gs \<Longrightarrow> index_ok (deleteVirtualKeyByValue gs v)"
proof -
  assume ok: "index_ok gs"
  note m = delete_maps [OF ok]
  have fwd: "gm_get (virtualKeysByID (deleteVirtualKeyByValue gs v)) (vk_ID e) = Some e"
    if "gm_get (virtualKeys (deleteVirtualKeyByValue gs v)) u = Some e" for u e
  proof -
    have u: "u \<noteq> v" "gm_get (virtualKeys gs) u = Some e" using that by (auto simp: m split: if_splits)
    then have "\<not> (\<exists>vk. gm_get (virtualKeys gs) v = Some vk \<and> vk_ID vk = vk_ID e)"
      using index_okD(7) [OF ok] by blast
    then show ?thesis using u index_okD(4) [OF ok] by (simp add: m)
  qed
  have bwd: "vk_ID e = i \<and> (\<exists>u. gm_get (virtualKeys (deleteVirtualKeyByValue gs v)) u = Some e)"
    if "gm_get (virtualKeysByID (deleteVirtualKeyByValue gs v)) i = Some e" for i e
  proof -
    have n: "\<not> (\<exists>vk. gm_get (virtualKeys gs) v = Some vk \<and> vk_ID vk = i)" "gm_get (virtualKeysByID gs) i = Some e"
      using that by (auto simp: m split: if_splits)
    then obtain u where "gm_get (virtualKeys gs) u = Some e" "vk_ID e = i" using index_okD(5,6) [OF ok] by blast
    with n show ?thesis by (auto simp: m(1))
  qed
  show ?thesis
    by (rule index_okI)
       (use m(3) fwd bwd index_okD(2,3,7) [OF ok] in \<open>auto simp: m(1) split: if_splits\<close>)
qed

lemma index_ok_replace:
  assumes "index_ok gs" "gm_get (virtualKeys gs) v = Some e" "vk_ID vk = vk_ID e"
  shows "index_ok (storeVirtualKey gs v vk)"
    and "gm_get (virtualKeys (storeVirtualKey gs v vk)) u = (if u = v then Some vk else gm_get (virtualKeys gs) u)"
proof -
  have v: "v \<noteq> []" "vk_ID vk \<noteq> []" using assms(2,3) index_okD(2,3) [OF assms(1)] by auto
  show "index_ok (storeVirtualKey gs v vk)"
  proof (rule index_ok_store [OF assms(1) v(2)])
    fix v' e' assume "gm_get (virtualKeys gs) v' = Some e'"
    then show "vk_ID e' = vk_ID vk \<longleftrightarrow> v' = v" 
      using assms(2,3) index_okD(7) [OF assms(1), of v' e' v e] by auto
  qed
  show "gm_get (virtualKeys (storeVirtualKey gs v vk)) u = (if u = v then Some vk else gm_get (virtualKeys gs) u)"
    using v by (simp add: storeVirtualKey_def Let_def)
qed

text \<open>A loop that rewrites stored keys in place, each under its own value and with its own ID.\<close>

lemma index_ok_rewrite:
  assumes "index_ok gs" "\<And>k vk vk'. (k, vk) \<in> set xs \<Longrightarrow> f vk = Some vk' \<Longrightarrow> vk_ID vk' = vk_ID vk"
    and "\<And>k vk. (k, vk) \<in> set xs \<Longrightarrow> \<exists>e. gm_get (virtualKeys gs) k = Some e \<and> vk_ID e = vk_ID vk"
  shows "index_ok (fold (\<lambda>(k, vk) s. case f vk of None \<Rightarrow> s | Some vk' \<Rightarrow> storeVirtualKey s k vk') xs gs)"
  using assms
proof (induction xs arbitrary: gs)
  case Nil
  then show ?case by simp
next
  case (Cons x xs)
  obtain k vk where x: "x = (k, vk)" by fastforce
  show ?case
  proof (cases "f vk")
    case None
    moreover have "index_ok (fold (\<lambda>(k, vk) s. case f vk of None \<Rightarrow> s | Some vk' \<Rightarrow> storeVirtualKey s k vk') xs gs)"
      by (rule Cons.IH) (use Cons.prems in auto)
    ultimately show ?thesis using x by simp
  next
    case (Some vk')
    obtain e where e: "gm_get (virtualKeys gs) k = Some e" "vk_ID e = vk_ID vk" using Cons.prems(3) x by auto
    have i: "vk_ID vk' = vk_ID e" using Cons.prems(2) [of k vk vk'] Some e x by simp
    note r = index_ok_replace [OF Cons.prems(1) e(1) i]
    have "index_ok (fold (\<lambda>(k, vk) s. case f vk of None \<Rightarrow> s | Some vk' \<Rightarrow> storeVirtualKey s k vk') xs
        (storeVirtualKey gs k vk'))"
    proof (rule Cons.IH)
      fix j w assume jw: "(j, w) \<in> set xs"
      then obtain e' where "gm_get (virtualKeys gs) j = Some e'" "vk_ID e' = vk_ID w"
        using Cons.prems(3) by auto
      then show "\<exists>e. gm_get (virtualKeys (storeVirtualKey gs k vk')) j = Some e \<and> vk_ID e = vk_ID w"
        using e i by (auto simp: r(2))
    qed (use r Cons.prems in auto)
    then show ?thesis using x Some by simp
  qed
qed

lemma stored_entries:
  "index_ok gs \<Longrightarrow> (k, vk) \<in> set (virtualKeys gs) \<Longrightarrow> \<exists>e. gm_get (virtualKeys gs) k = Some e \<and> vk_ID e = vk_ID vk"
  by (auto simp: index_ok_def)

lemma index_ok_Create:
  assumes "index_ok gs" "vk_ID vk \<noteq> []"
    and "\<And>v e. gm_get (virtualKeys gs) v = Some e \<Longrightarrow> vk_ID e = vk_ID vk \<longleftrightarrow> v = vk_Value vk"
  shows "index_ok (CreateVirtualKeyInMemory gs vk)"
proof -
  have "\<exists>gs3 bs rl pcs. CreateVirtualKeyInMemory gs vk = storeVirtualKey gs3 (vk_Value vk)
      (vk\<lparr>vk_Budgets := bs, vk_RateLimit := rl, vk_ProviderConfigs := pcs\<rparr>) \<and> vkmaps gs3 = vkmaps gs"
    unfolding CreateVirtualKeyInMemory_def Let_def split_beta
    by (intro exI conjI, rule refl) (simp add: split_beta split: option.split)
  then obtain gs3 bs rl pcs where c: "CreateVirtualKeyInMemory gs vk = storeVirtualKey gs3 (vk_Value vk)
      (vk\<lparr>vk_Budgets := bs, vk_RateLimit := rl, vk_ProviderConfigs := pcs\<rparr>)" and m: "vkmaps gs3 = vkmaps gs" by blast
  show ?thesis unfolding c
    by (rule index_ok_store) (use assms m index_ok_cong [OF m] vkmapsD [OF m] in auto)
qed

lemma find_existing_vk_cases:
  assumes "index_ok gs"
  shows "find_existing_vk gs vk = None \<Longrightarrow> gm_get (virtualKeys gs) v = Some e \<Longrightarrow> vk_ID e \<noteq> vk_ID vk"
    and "find_existing_vk gs vk = Some (k, e') \<Longrightarrow> gm_get (virtualKeys gs) k = Some e' \<and> vk_ID e' = vk_ID vk"
proof -
  have "find (\<lambda>(k, e). vk_ID e = vk_ID vk) (virtualKeys gs) = Some (k, e') \<Longrightarrow>
      gm_get (virtualKeys gs) k = Some e' \<and> vk_ID e' = vk_ID vk"
    using index_okD(1) [OF assms] by (auto simp: find_Some_iff) (metis map_of_is_SomeI nth_mem)
  then show "find_existing_vk gs vk = Some (k, e') \<Longrightarrow> gm_get (virtualKeys gs) k = Some e' \<and> vk_ID e' = vk_ID vk"
    by (auto simp: find_existing_vk_def Let_def split: option.splits if_splits)
  show "find_existing_vk gs vk = None \<Longrightarrow> gm_get (virtualKeys gs) v = Some e \<Longrightarrow> vk_ID e \<noteq> vk_ID vk"
    by (auto simp: find_existing_vk_def Let_def find_None_iff dest!: map_of_SomeD split: option.splits if_splits)
qed

lemma index_ok_Update:
  assumes ok: "index_ok gs" and "vk_ID vk \<noteq> []"
    and free: "\<And>e. gm_get (virtualKeys gs) (vk_Value vk) = Some e \<Longrightarrow> vk_ID e = vk_ID vk"
  shows "index_ok (UpdateVirtualKeyInMemory gs vk)"
proof (cases "find_existing_vk gs vk")
  case None
  have "index_ok (CreateVirtualKeyInMemory gs vk)"
    by (rule index_ok_Create) (use assms find_existing_vk_cases(1) [OF ok None] in auto)
  then show ?thesis using None by (simp add: UpdateVirtualKeyInMemory_def)
next
  case (Some p)
  obtain key ex where p: "p = (key, ex)" by fastforce
  note ex = find_existing_vk_cases(2) [OF ok Some [unfolded p]]
  have "\<exists>gs4 bs rl pcs. UpdateVirtualKeyInMemory gs vk = storeVirtualKey
      (if key \<noteq> [] \<and> key \<noteq> vk_Value vk then deleteVirtualKeyByValue gs4 key else gs4) (vk_Value vk)
      (vk\<lparr>vk_Budgets := bs, vk_RateLimit := rl, vk_ProviderConfigs := pcs\<rparr>) \<and> vkmaps gs4 = vkmaps gs"
    unfolding UpdateVirtualKeyInMemory_def Let_def split_beta Some p option.case prod.case fst_conv snd_conv
    by (intro exI conjI, rule refl) (simp add: split_beta split: option.split)
  then obtain gs4 bs rl pcs where u: "UpdateVirtualKeyInMemory gs vk = storeVirtualKey
      (if key \<noteq> [] \<and> key \<noteq> vk_Value vk then deleteVirtualKeyByValue gs4 key else gs4) (vk_Value vk)
      (vk\<lparr>vk_Budgets := bs, vk_RateLimit := rl, vk_ProviderConfigs := pcs\<rparr>)" and m: "vkmaps gs4 = vkmaps gs" by blast
  have ok4: "index_ok gs4" and v4: "virtualKeys gs4 = virtualKeys gs"
    using ok index_ok_cong [OF m] vkmapsD [OF m] by auto
  have uniq: "v = key" if "gm_get (virtualKeys gs) v = Some e" "vk_ID e = vk_ID vk" for v e
    using index_okD(7) [OF ok that(1)] ex that(2) by auto
  show ?thesis
  proof (cases "key = vk_Value vk")
    case True
    then show ?thesis unfolding u
      using index_ok_replace(1) [OF ok4, of "vk_Value vk" ex] ex v4 by simp
  next
    case False
    have k: "key \<noteq> []" using ex index_okD(2) [OF ok] by blast
    show ?thesis unfolding u
    proof (rule index_ok_store)
      fix v e
      assume "gm_get (virtualKeys (if key \<noteq> [] \<and> key \<noteq> vk_Value vk then deleteVirtualKeyByValue gs4 key else gs4)) v = Some e"
      then have "v \<noteq> key" "gm_get (virtualKeys gs) v = Some e"
        using k False v4 by (auto simp: delete_maps [OF ok4] split: if_splits)
      then show "vk_ID e = vk_ID (vk\<lparr>vk_Budgets := bs, vk_RateLimit := rl, vk_ProviderConfigs := pcs\<rparr>) \<longleftrightarrow> v = vk_Value vk"
        using free uniq by auto
    qed (use k False ok4 assms(2) index_ok_delete in auto)
  qed
qed

lemma index_ok_DeleteVK: "index_ok gs \<Longrightarrow> index_ok (DeleteVirtualKeyInMemory gs i)"
proof -
  assume ok: "index_ok gs"
  have d: "index_ok (deleteVirtualKeyByValue g v)" if "vkmaps g = vkmaps gs" for g v
    using index_ok_delete index_ok_cong [OF that] ok by blast
  show ?thesis
  proof (cases "i = []")
    case False
    let ?gs1 = "case find (\<lambda>(k, vk). vk_ID vk = i) (virtualKeys gs) of None \<Rightarrow> gs
      | Some (key, vk) \<Rightarrow> deleteVirtualKeyByValue
          (fold (\<lambda>pc s. delete_opt_rate_limit (pc_RateLimitID pc) (delete_budgets (pc_Budgets pc) s)) (vk_pcs vk)
            (delete_opt_rate_limit (vk_RateLimitID vk) (delete_budgets (vk_Budgets vk) gs))) key"
    have "index_ok ?gs1" using ok by (auto intro!: d split: option.split)
    moreover have "DeleteVirtualKeyInMemory gs i = DeleteModelConfigsForScopeInMemory ?gs1 ModelConfigScopeVirtualKey i"
      using False unfolding DeleteVirtualKeyInMemory_def Let_def by simp
    ultimately show ?thesis using index_ok_cong [OF vkmaps_pcs(5)] by simp
  qed (use ok in \<open>simp add: DeleteVirtualKeyInMemory_def\<close>)
qed

lemma index_ok_unlink:
  assumes "index_ok gs" "\<And>vk. vk_ID (f vk) = vk_ID vk"
  shows "index_ok (fold (\<lambda>(k, vk) s. if P vk then storeVirtualKey s k (f vk) else s) (virtualKeys gs) gs)"
proof -
  have "(\<lambda>(k, vk) s. if P vk then storeVirtualKey s k (f vk) else s) =
      (\<lambda>(k, vk) s. case (if P vk then Some (f vk) else None) of None \<Rightarrow> s | Some vk' \<Rightarrow> storeVirtualKey s k vk')"
    by (auto simp: fun_eq_iff)
  moreover have "index_ok (fold (\<lambda>(k, vk) s. case (if P vk then Some (f vk) else None) of None \<Rightarrow> s
      | Some vk' \<Rightarrow> storeVirtualKey s k vk') (virtualKeys gs) gs)"
    by (rule index_ok_rewrite [OF assms(1)]) (use assms stored_entries [OF assms(1)] in \<open>auto split: if_splits\<close>)
  ultimately show ?thesis by simp
qed

lemma index_ok_DeleteTeam: "index_ok gs \<Longrightarrow> index_ok (DeleteTeamInMemory gs i)"
proof -
  assume ok: "index_ok gs"
  define gs1 where "gs1 = (case gm_get (teams gs) i of None \<Rightarrow> gs
     | Some team \<Rightarrow> delete_opt_rate_limit (team_RateLimitID team) (delete_budgets (team_Budgets team) gs))"
  have "vkmaps gs1 = vkmaps gs" by (simp add: gs1_def split: option.split)
  then have "index_ok gs1" using ok index_ok_cong by blast
  then have "index_ok (fold (\<lambda>(k, vk) s. if vk_TeamID vk = Some i
      then storeVirtualKey s k (vk\<lparr>vk_TeamID := None, vk_Team := None\<rparr>) else s) (virtualKeys gs1) gs1)"
    by (rule index_ok_unlink) simp
  then show ?thesis
    using ok by (simp add: DeleteTeamInMemory_def gs1_def [symmetric] Let_def index_ok_cong [OF vkmaps_update(3)])
qed

lemma index_ok_DeleteCustomer: "index_ok gs \<Longrightarrow> index_ok (DeleteCustomerInMemory gs i)"
proof -
  assume ok: "index_ok gs"
  define gs1 where "gs1 = (case gm_get (customers gs) i of None \<Rightarrow> gs
     | Some c \<Rightarrow> delete_opt_rate_limit (customer_RateLimitID c) (delete_budgets (customer_Budgets c) gs))"
  define gs2 where "gs2 = fold (\<lambda>(k, vk) s. if vk_CustomerID vk = Some i
      then storeVirtualKey s k (vk\<lparr>vk_CustomerID := None, vk_Customer := None\<rparr>) else s) (virtualKeys gs1) gs1"
  define gs3 where "gs3 = fold (\<lambda>(k, t) s. if team_CustomerID t = Some i
      then s\<lparr>teams := gm_put k (t\<lparr>team_CustomerID := None, team_Customer := None\<rparr>) (teams s)\<rparr> else s) (teams gs2) gs2"
  have "vkmaps gs1 = vkmaps gs" by (simp add: gs1_def split: option.split)
  then have "index_ok gs1" using ok index_ok_cong by blast
  then have "index_ok gs2" unfolding gs2_def by (rule index_ok_unlink) simp
  moreover have "vkmaps gs3 = vkmaps gs2" unfolding gs3_def by (rule fold_keeps) (auto split: prod.split)
  ultimately have "index_ok gs3" using index_ok_cong by blast
  then show ?thesis
    using ok by (simp add: DeleteCustomerInMemory_def gs1_def [symmetric] gs2_def [symmetric] gs3_def [symmetric]
        Let_def index_ok_cong [OF vkmaps_update(4)])
qed

lemma vk_budget_refs_ID: "vk_budget_refs resets vk = Some vk' \<Longrightarrow> vk_ID vk' = vk_ID vk"
  by (auto simp: vk_budget_refs_def Let_def split: if_splits)

lemma index_ok_updateBudgetReferences: "index_ok gs \<Longrightarrow> index_ok (updateBudgetReferences gs rs)"
proof -
  assume ok: "index_ok gs"
  define gs1 where "gs1 = fold (\<lambda>(k, vk) s. case vk_budget_refs (budget_resets rs) vk of
      None \<Rightarrow> s | Some clone \<Rightarrow> storeVirtualKey s k clone) (virtualKeys gs) gs"
  have ok1: "index_ok gs1" unfolding gs1_def
    by (rule index_ok_rewrite [OF ok]) (auto intro: vk_budget_refs_ID stored_entries [OF ok])
  define gs2 where "gs2 = fold (\<lambda>(k, t) s. if any_reset (budget_resets rs) (team_Budgets t)
      then s\<lparr>teams := gm_put k (t\<lparr>team_Budgets := replace_reset (budget_resets rs) (team_Budgets t)\<rparr>) (teams s)\<rparr>
      else s) (teams gs1) gs1"
  have "vkmaps gs2 = vkmaps gs1" unfolding gs2_def by (rule fold_keeps) (auto split: prod.split)
  then have ok2: "index_ok gs2" using ok1 index_ok_cong by blast
  show ?thesis
  proof (cases "rs = []")
    case True
    then show ?thesis using ok by (simp add: updateBudgetReferences_def)
  next
    case False
    have "vkmaps (updateBudgetReferences gs rs) = vkmaps gs2"
      unfolding updateBudgetReferences_def Let_def gs1_def [symmetric] gs2_def [symmetric] if_not_P [OF False]
      by (rule fold_keeps) (auto split: prod.split)
    then show ?thesis using ok2 index_ok_cong by blast
  qed
qed

lemma vkmaps_sweep: "vkmaps (fst (sweep_budget now k acc)) = vkmaps (fst acc)"
  by (auto simp: sweep_budget_def resetExpiredBudgetFromSnapshot_def ResetBudgetAt_def Let_def
      split: prod.splits option.splits if_splits)

lemma index_ok_ResetExpiredBudgets: "index_ok gs \<Longrightarrow> index_ok (fst (ResetExpiredBudgetsInMemory gs now r ids))"
proof -
  assume ok: "index_ok gs"
  have "vkmaps (fst (fold (sweep_budget now) ks (gs, []))) = vkmaps gs" for ks
    using fold_keeps [of "\<lambda>a. vkmaps (fst a)" "sweep_budget now" ks "(gs, [])"] by (simp add: vkmaps_sweep)
  then have "index_ok (fst (fold (sweep_budget now) ks (gs, [])))" for ks using ok index_ok_cong by blast
  then show ?thesis
    by (auto simp: ResetExpiredBudgetsInMemory_def Let_def split_beta index_ok_cong [OF vkmaps_update(10)]
        intro: index_ok_updateBudgetReferences)
qed

inductive vk_step :: "LocalGovernanceStore \<Rightarrow> LocalGovernanceStore \<Rightarrow> bool" where
  create: "vk_ID vk \<noteq> [] \<Longrightarrow> gm_get (virtualKeys gs) (vk_Value vk) = None \<Longrightarrow>
    (\<forall>v e. gm_get (virtualKeys gs) v = Some e \<longrightarrow> vk_ID e \<noteq> vk_ID vk) \<Longrightarrow>
    vk_step gs (CreateVirtualKeyInMemory gs vk)"
| update: "vk_ID vk \<noteq> [] \<Longrightarrow> (\<forall>e. gm_get (virtualKeys gs) (vk_Value vk) = Some e \<longrightarrow> vk_ID e = vk_ID vk) \<Longrightarrow>
    vk_step gs (UpdateVirtualKeyInMemory gs vk)"
| delete: "vk_step gs (DeleteVirtualKeyInMemory gs i)"
| delete_team: "vk_step gs (DeleteTeamInMemory gs i)"
| delete_customer: "vk_step gs (DeleteCustomerInMemory gs i)"
| sweep: "vk_step gs (fst (ResetExpiredBudgetsInMemory gs now r ids))"

lemma vk_step_index: "vk_step gs gs' \<Longrightarrow> index_ok gs \<Longrightarrow> index_ok gs'"
proof (induction rule: vk_step.induct)
  case (create vk gs)
  then show ?case by (intro index_ok_Create) auto
qed (auto intro: index_ok_Update index_ok_DeleteVK index_ok_DeleteTeam index_ok_DeleteCustomer
    index_ok_ResetExpiredBudgets)

lemma reachable_index: "vk_step\<^sup>*\<^sup>* gs gs' \<Longrightarrow> index_ok gs \<Longrightarrow> index_ok gs'"
  by (induction rule: rtranclp_induct) (auto intro: vk_step_index)

lemma index_ok_empty: "index_ok empty_store"
  by (rule index_okI) (simp_all add: empty_store_def)

section \<open>Properties\<close>

text \<open>
  as long as a key is created only under a fresh ID and value and updated only to a value
  that no other key holds, looking a virtual key up by its ID finds exactly the key that is
  stored under some value with that ID: the index and the primary map never diverge under
  creation, update, value rotation, deletion, team and customer deletion and sweeps.
\<close>

theorem vk_index_in_step:
  assumes "vk_step\<^sup>*\<^sup>* empty_store gs"
  shows "GetVirtualKeyByID gs i = Some vk \<longleftrightarrow> (\<exists>v. GetVirtualKey gs v = Some vk \<and> vk_ID vk = i)"
proof -
  have ok: "index_ok gs" using assms index_ok_empty by (rule reachable_index)
  show ?thesis
    unfolding GetVirtualKeyByID_def GetVirtualKey_def
    using index_okD(4,5,6) [OF ok] by blast
qed

definition sample_vk :: TableVirtualKey where
  "sample_vk = \<lparr>vk_ID = ''vk1'', vk_Name = ''key'', vk_Value = ''sk-1'', vk_IsActive = None, vk_ExpiresAt = None,
     vk_ProviderConfigs = None, vk_UserID = None, vk_TeamID = None, vk_CustomerID = None, vk_RateLimitID = None,
     vk_CalendarAligned = False, vk_Team = None, vk_Customer = None, vk_RateLimit = None, vk_Budgets = [],
     vk_MCPConfigs = []\<rparr>"

theorem vk_index_in_step_witness:
  "GetVirtualKeyByID (CreateVirtualKeyInMemory empty_store sample_vk) ''vk1'' = Some sample_vk"
proof -
  have "vk_step empty_store (CreateVirtualKeyInMemory empty_store sample_vk)"
    by (rule create) (simp_all add: sample_vk_def empty_store_def)
  then have "vk_step\<^sup>*\<^sup>* empty_store (CreateVirtualKeyInMemory empty_store sample_vk)" by blast
  note iff = vk_index_in_step [OF this, of "''vk1''" sample_vk]
  have "GetVirtualKey (CreateVirtualKeyInMemory empty_store sample_vk) ''sk-1'' = Some sample_vk"
    by (simp add: CreateVirtualKeyInMemory_def sample_vk_def create_rate_limit_def storeVirtualKey_def
        empty_store_def GetVirtualKey_def Let_def)
  moreover have "vk_ID sample_vk = ''vk1''" by (simp add: sample_vk_def)
  ultimately show ?thesis unfolding iff by blast
qed

text \<open>
  when a key is stored under the value of another key, the index keeps the other key
  although the primary map has lost it, and deleting that key by its ID does not help: it
  stays resolvable by ID for as long as the store lives.
\<close>

theorem vk_index_diverges_on_value_reuse:
  "let a = sample_vk; b = sample_vk\<lparr>vk_ID := ''vk2''\<rparr>;
       gs = DeleteVirtualKeyInMemory
              (UpdateVirtualKeyInMemory (CreateVirtualKeyInMemory empty_store a) b) ''vk1''
   in GetVirtualKey gs ''sk-1'' = Some b \<and> GetVirtualKeyByID gs ''vk1'' = Some a"
  by (simp add: CreateVirtualKeyInMemory_def UpdateVirtualKeyInMemory_def DeleteVirtualKeyInMemory_def
      find_existing_vk_def sample_vk_def create_rate_limit_def storeVirtualKey_def empty_store_def
      GetVirtualKey_def GetVirtualKeyByID_def DeleteModelConfigsForScopeInMemory_def Let_def)

section \<open>Reconciling budgets\<close>

lemma preserve_budget_frame [simp]: "ID (preserve_budget gs b) = ID b"
  by (simp add: preserve_budget_def split: option.split)

lemma reconcile_budgets_lookup:
  assumes "distinct (map ID bs)"
  shows "gm_get (budgets (fst (reconcile_budgets a bs gs))) k =
      (case find (\<lambda>b. ID b = k) bs of
         Some b \<Rightarrow> Some (RefreshOverrideCyclesRemaining (stamp_budget a (preserve_budget gs b)))
       | None \<Rightarrow> gm_get (budgets gs) k)"
  using assms
proof (induction bs arbitrary: gs)
  case (Cons b bs)
  let ?b' = "stamp_budget a (preserve_budget gs b)"
  let ?gs1 = "storeBudget gs (ID b) ?b'"
  have p: "preserve_budget ?gs1 c = preserve_budget gs c" if "ID c \<noteq> ID b" for c
    using that by (simp add: preserve_budget_def storeBudget_def)
  have ih: "gm_get (budgets (fst (reconcile_budgets a bs ?gs1))) k =
      (case find (\<lambda>b. ID b = k) bs of
         Some c \<Rightarrow> Some (RefreshOverrideCyclesRemaining (stamp_budget a (preserve_budget ?gs1 c)))
       | None \<Rightarrow> gm_get (budgets ?gs1) k)"
    by (rule Cons.IH) (use Cons.prems in simp)
  show ?case
  proof (cases "ID b = k")
    case True
    then have "find (\<lambda>b. ID b = k) bs = None" 
      using Cons.prems by (simp add: find_None_iff) (metis image_eqI)
    then show ?thesis using ih True by (simp add: Let_def split_beta storeBudget_def)
  next
    case False
    have "preserve_budget ?gs1 c = preserve_budget gs c" if "find (\<lambda>b. ID b = k) bs = Some c" for c
      by (rule p) (use that False in \<open>auto simp: find_Some_iff\<close>)
    then show ?thesis
      using ih False by (auto simp: Let_def split_beta storeBudget_def split: option.split)
  qed
qed simp

lemma delete_removed_lookup:
  "gm_get (budgets (delete_removed_budgets keep old gs)) k =
     (if k \<in> set old \<and> k \<notin> set keep then None else gm_get (budgets gs) k)"
proof -
  have "gm_get (budgets (fold (\<lambda>i s. if i \<in> set keep then s else DeleteBudget s i) old gs)) k =
      (if k \<in> set old \<and> k \<notin> set keep then None else gm_get (budgets gs) k)"
    by (induction old arbitrary: gs) (auto simp: DeleteBudget_def markBudgetResetLocked_def Let_def)
  then show ?thesis by (simp add: delete_removed_budgets_def)
qed

lemma rate_limit_keeps_budgets [simp]:
  "budgets (DeleteRateLimit gs k) = budgets gs" "budgets (store_rate_limit gs rl) = budgets gs"
  "budgets (fst (reconcile_rate_limit a r old gs)) = budgets gs"
  by (simp_all add: DeleteRateLimit_def store_rate_limit_def reconcile_rate_limit_def Let_def split: option.split)

text \<open>
  updating a team leaves exactly the following live budgets: each budget of the new team
  with the new configuration, the team's alignment flag and the usage and boundary the live
  row already had; none of the budgets the team no longer has; and every other budget as it
  was.
\<close>

theorem UpdateTeamInMemory_reconciles:
  assumes "gm_get (teams gs) (team_ID team) = Some old" "distinct (map ID (team_Budgets team))"
  shows "LoadBudget (UpdateTeamInMemory gs team) k =
    (case find (\<lambda>b. ID b = k) (team_Budgets team) of
       Some b \<Rightarrow> Some (RefreshOverrideCyclesRemaining (stamp_budget (team_CalendarAligned team) (preserve_budget gs b)))
     | None \<Rightarrow> if k \<in> ID ` set (team_Budgets old) then None else LoadBudget gs k)"
proof -
  have n: "find (\<lambda>b. ID b = k) bs = None \<longleftrightarrow> k \<notin> ID ` set bs" for bs by (auto simp: find_None_iff)
  have "LoadBudget (UpdateTeamInMemory gs team) k =
      gm_get (budgets (delete_removed_budgets (map ID (team_Budgets team)) (remdups (map ID (team_Budgets old)))
        (fst (reconcile_budgets (team_CalendarAligned team) (team_Budgets team) gs)))) k"
    using assms(1) by (simp add: UpdateTeamInMemory_def LoadBudget_def Let_def split_beta)
  then show ?thesis
    using n [of "team_Budgets team"]
    by (auto simp: delete_removed_lookup reconcile_budgets_lookup [OF assms(2)] LoadBudget_def split: option.split)
qed

definition sample_team :: TableTeam where
  "sample_team = \<lparr>team_ID = ''t1'', team_Name = ''team'', team_CustomerID = None, team_RateLimitID = None,
     team_Customer = None, team_Budgets = [sample_budget], team_RateLimit = None, team_CalendarAligned = False\<rparr>"

theorem UpdateTeamInMemory_reconciles_witness:
  "LoadBudget (UpdateTeamInMemory (CreateTeamInMemory empty_store sample_team) (sample_team\<lparr>team_Budgets := []\<rparr>)) ''b1'' = None"
proof -
  have t: "gm_get (teams (CreateTeamInMemory empty_store sample_team)) (team_ID (sample_team\<lparr>team_Budgets := []\<rparr>))
      = Some (sample_team\<lparr>team_Budgets := [stamp_budget False sample_budget]\<rparr>)"
    by (simp add: CreateTeamInMemory_def sample_team_def create_rate_limit_def Let_def)
  have "''b1'' \<in> ID ` set (team_Budgets (sample_team\<lparr>team_Budgets := [stamp_budget False sample_budget]\<rparr>))"
    using sample_store_rows(5) by simp
  then show ?thesis using UpdateTeamInMemory_reconciles [OF t, of "''b1''"] by simp
qed

section \<open>Where updates lose state\<close>

text \<open>
  updating a provider keeps the usage of its live budget but takes the window boundary from
  the row it is given. When that row is older than the current window, the kept usage is
  due at once, so the next sweep or charge clears spend of the window that is still open,
  while publishing the same row with \<^verbatim>\<open>UpsertBudgetConfig\<close> keeps the window open.
\<close>

theorem UpdateProvider_reopens_window:
  assumes "gm_get (budgets gs) k = Some b" "ID b = k" "\<not> time_IsZero (CreatedAt b)"
    and "ParseDuration (ResetDuration b) = Inr d" "0 < d" "IsCalendarAligned b = False"
    and "LastReset b = WindowStart b now" "t < LastReset b"
    and "provider_Budget p = Some (b\<lparr>LastReset := t, CurrentUsage := u\<rparr>)"
  shows "(\<exists>b'. LoadBudget (fst (UpdateProviderInMemory gs p)) k = Some b' \<and> CurrentUsage b' = CurrentUsage b
      \<and> LastReset b' = t \<and> budgetResetTarget b' now = Some (LastReset b))
    \<and> (\<exists>b''. LoadBudget (UpsertBudgetConfig gs k (Some (b\<lparr>LastReset := t, CurrentUsage := u\<rparr>))) k = Some b''
      \<and> budgetResetTarget b'' now = None)"
proof -
  have ne: "ResetDuration b \<noteq> []" using assms(4) by (auto simp: ParseDuration_def)
  have w: "WindowStart (b\<lparr>LastReset := x, CurrentUsage := y\<rparr>) now = LastReset b" for x y
    using assms(3-7) ne by (simp add: WindowStart_def Let_def)
  have t: "budgetResetTarget (RefreshOverrideCyclesRemaining (b\<lparr>LastReset := x, CurrentUsage := y\<rparr>)) now =
      (if x < LastReset b then Some (LastReset b) else None)" for x y
    using assms(4-6) ne w [where x = x and y = y]
    by (simp add: budgetResetTarget_def Let_def del: refresh_usage)
  let ?b1 = "preserve_budget_usage gs (b\<lparr>LastReset := t, CurrentUsage := u\<rparr>)"
  have p: "?b1 = b\<lparr>LastReset := t, CurrentUsage := CurrentUsage b\<rparr>"
    using assms(1,2) by (simp add: preserve_budget_usage_def)
  have "gm_get (budgets (fst (UpdateProviderInMemory gs p))) k = Some (RefreshOverrideCyclesRemaining ?b1)"
    using assms(2,9) p
    by (simp add: UpdateProviderInMemory_def Let_def storeBudget_def split_beta del: refresh_usage split: option.split)
  then have "\<exists>b'. LoadBudget (fst (UpdateProviderInMemory gs p)) k = Some b' \<and> CurrentUsage b' = CurrentUsage b
      \<and> LastReset b' = t \<and> budgetResetTarget b' now = Some (LastReset b)"
    using t [where x = t and y = "CurrentUsage b"] assms(8) unfolding p by (simp add: LoadBudget_def del: refresh_usage)
  moreover have "\<exists>b''. LoadBudget (UpsertBudgetConfig gs k (Some (b\<lparr>LastReset := t, CurrentUsage := u\<rparr>))) k = Some b''
      \<and> budgetResetTarget b'' now = None"
    using t [where x = "LastReset b" and y = "CurrentUsage b"] assms(1)
    by (simp add: UpsertBudgetConfig_def LoadBudget_def Let_def del: refresh_usage)
  ultimately show ?thesis by blast
qed

definition sample_provider :: TableProvider where
  "sample_provider = \<lparr>provider_Name = ''openai'', provider_BudgetID = Some ''b1'', provider_RateLimitID = None,
     provider_Budget = Some (sample_budget\<lparr>LastReset := 63899996400000000000, CurrentUsage := Fin 0\<rparr>),
     provider_RateLimit = None\<rparr>"

theorem UpdateProvider_reopens_window_witness:
  "\<exists>b'. LoadBudget (fst (UpdateProviderInMemory sample_store sample_provider)) ''b1'' = Some b'
     \<and> CurrentUsage b' = CurrentUsage sample_budget
     \<and> budgetResetTarget b' 63900000000000000005 = Some (LastReset sample_budget)"
proof -
  have "WindowStart sample_budget 63900000000000000005 = LastReset sample_budget"
    by (simp add: sample_budget_def parse_1h WindowStart_def Let_def RollingWindowStart_def time_IsZero_def
        time_Sub_def time_Add_def in64_def sdiv_nonneg)
  moreover have "ParseDuration (ResetDuration sample_budget) = Inr hour"
    by (simp add: sample_budget_def parse_1h)
  moreover have "\<not> time_IsZero (CreatedAt sample_budget)" "IsCalendarAligned sample_budget = False"
    "63899996400000000000 < LastReset sample_budget"
    by (simp_all add: sample_budget_def time_IsZero_def)
  moreover have "provider_Budget sample_provider =
      Some (sample_budget\<lparr>LastReset := 63899996400000000000, CurrentUsage := Fin 0\<rparr>)"
    by (simp add: sample_provider_def)
  ultimately show ?thesis
    using UpdateProvider_reopens_window [OF sample_store_rows(3) [unfolded LoadBudget_def] sample_store_rows(5),
        of hour 63900000000000000005 63899996400000000000 sample_provider "Fin 0"] by fastforce
qed

definition moving_pcs :: "TableVirtualKeyProviderConfig list" where
  "moving_pcs =
     [\<lparr>pc_ID = 1, pc_Provider = ''openai'', AllowedModels = [''*''], BlacklistedModels = [], AllowAllKeys = True,
       pc_RateLimitID = None, pc_RateLimit = None, pc_Budgets = [], pc_Keys = [], pc_Weight = None\<rparr>,
      \<lparr>pc_ID = 2, pc_Provider = ''anthropic'', AllowedModels = [''*''], BlacklistedModels = [], AllowAllKeys = True,
       pc_RateLimitID = Some ''r1'', pc_RateLimit = Some sample_rl, pc_Budgets = [], pc_Keys = [], pc_Weight = None\<rparr>]"

definition moved_pcs :: "TableVirtualKeyProviderConfig list" where
  "moved_pcs =
     [(moving_pcs ! 0)\<lparr>pc_RateLimitID := Some ''r1'', pc_RateLimit := Some sample_rl\<rparr>,
      (moving_pcs ! 1)\<lparr>pc_RateLimitID := None, pc_RateLimit := None\<rparr>]"

text \<open>
  a rate limit that moves between two provider configs of one virtual key in one update
  can vanish from the live map: the config that loses it is processed after the one that
  gains it and deletes the row by its old ID, so the limit is no longer enforced
  although the key still names it.
\<close>

theorem moved_rate_limit_vanishes:
  "let gs = CreateVirtualKeyInMemory empty_store (sample_vk\<lparr>vk_ProviderConfigs := Some moving_pcs\<rparr>);
       gs' = UpdateVirtualKeyInMemory gs (sample_vk\<lparr>vk_ProviderConfigs := Some moved_pcs\<rparr>)
   in LoadRateLimit gs ''r1'' \<noteq> None \<and> LoadRateLimit gs' ''r1'' = None
    \<and> map pc_RateLimitID (vk_pcs (the (GetVirtualKey gs' ''sk-1''))) = [Some ''r1'', None]"
  by (simp add: CreateVirtualKeyInMemory_def UpdateVirtualKeyInMemory_def find_existing_vk_def sample_vk_def
      moving_pcs_def moved_pcs_def create_rate_limit_def store_rate_limit_def storeVirtualKey_def empty_store_def
      GetVirtualKey_def LoadRateLimit_def update_pc_def reconcile_rate_limit_def cleanup_pcs_def
      delete_removed_budgets_def DeleteRateLimit_def opt_rl_id_def vk_pcs_def sample_rl_def stamp_rl_def
      preserve_rl_def Let_def)

end
