(* ===== verification/Governance_Checks.thy ===== *)
theory Governance_Checks
  imports Owner_Properties
begin

text \<open>
  Policy checks and usage updates of the governance store: plugins/governance/store.go, the
  \<^verbatim>\<open>Check*\<close>, \<^verbatim>\<open>Collect*\<close>, \<^verbatim>\<open>collect*\<close> and \<^verbatim>\<open>Update*UsageInMemory\<close> methods.

  A check returns the decision and the error, \<open>None\<close> for nil. A map from entity names to
  rows is a \<open>gomap\<close>; its order stands for Go's unspecified iteration order. All clock
  readings of one check are the argument \<open>now\<close>. A nil map of baselines reads as the empty
  one. A request that may be nil is an \<open>option\<close>. The value of the context key
  \<^verbatim>\<open>GovernanceScopedCustomerID\<close> is the argument \<open>scoped\<close>, empty when it is not set.
\<close>

datatype Decision =
    DecisionAllow | DecisionVirtualKeyNotFound | DecisionVirtualKeyBlocked | DecisionRateLimited
  | DecisionBudgetExceeded | DecisionTokenLimited | DecisionRequestLimited | DecisionModelBlocked
  | DecisionProviderBlocked | DecisionMCPToolBlocked

record EvaluationRequest =
  req_VirtualKey :: string
  req_Provider :: string
  req_Model :: string
  req_UserID :: string

type_synonym EntityWiseBudgets = "(string, TableBudget list) gomap"
type_synonym EntityWiseRateLimits = "(string, TableRateLimit list) gomap"
type_synonym verdict = "Decision \<times> err option"

definition req_provider :: "EvaluationRequest option \<Rightarrow> string" where
  "req_provider r = (case r of None \<Rightarrow> [] | Some q \<Rightarrow> req_Provider q)"

section \<open>Rate limits\<close>

definition counter_expired :: "string option \<Rightarrow> time \<Rightarrow> time \<Rightarrow> bool" where
  "counter_expired dur lastReset now =
     (case dur of None \<Rightarrow> False
      | Some s \<Rightarrow> (case ParseDuration s of Inl _ \<Rightarrow> False | Inr d \<Rightarrow> time_Sub now lastReset \<ge> d))"

definition violation_text :: "string \<Rightarrow> int \<Rightarrow> int \<Rightarrow> string option \<Rightarrow> string" where
  "violation_text label used limit dur =
     label @ '' limit exceeded ('' @ dec_int used @ ''/'' @ dec_int limit @ '', resets every ''
       @ (case dur of None \<Rightarrow> ''unknown'' | Some s \<Rightarrow> s) @ '')''"

definition counter_violation ::
    "string \<Rightarrow> int option \<Rightarrow> int \<Rightarrow> string option \<Rightarrow> time \<Rightarrow> time \<Rightarrow> string list" where
  "counter_violation label limit used dur lastReset now =
     (case limit of None \<Rightarrow> []
      | Some m \<Rightarrow> if \<not> counter_expired dur lastReset now \<and> used \<ge> m
                  then [violation_text label used m dur] else [])"

definition rl_violations ::
    "time \<Rightarrow> (string, int) gomap \<Rightarrow> (string, int) gomap \<Rightarrow> TableRateLimit \<Rightarrow> string list" where
  "rl_violations now tokensBaselines requestsBaselines rl =
     (let tokens = wrap64 (TokenCurrentUsage rl + gm_get0 0 tokensBaselines (rl_ID rl));
          requests = wrap64 (RequestCurrentUsage rl + gm_get0 0 requestsBaselines (rl_ID rl))
      in counter_violation ''token'' (TokenMaxLimit rl) tokens (TokenResetDuration rl) (TokenLastReset rl) now
         @ counter_violation ''request'' (RequestMaxLimit rl) requests (RequestResetDuration rl)
             (RequestLastReset rl) now)"

definition contains :: "string \<Rightarrow> string \<Rightarrow> bool" where
  "contains s t = list_ex (\<lambda>i. hasPrefix (drop i s) t) [0..<length s + 1]"

fun join_space :: "string list \<Rightarrow> string" where
  "join_space [] = []"
| "join_space [s] = s"
| "join_space (s # t # ss) = s @ '' '' @ join_space (t # ss)"

definition rl_verdict :: "string \<Rightarrow> string list \<Rightarrow> verdict option" where
  "rl_verdict entity violations =
     (if violations = [] then None
      else let decision =
          (case violations of
             [v] \<Rightarrow> if contains v ''token'' then DecisionTokenLimited
                    else if contains v ''request'' then DecisionRequestLimited else DecisionRateLimited
           | _ \<Rightarrow> DecisionRateLimited)
        in Some (decision, Some (Err (''rate limit violated for '' @ entity @ '': ['' @ join_space violations @ '']''))))"

fun first_verdict :: "('a \<Rightarrow> verdict option) \<Rightarrow> 'a list \<Rightarrow> verdict option" where
  "first_verdict f [] = None"
| "first_verdict f (x # xs) = (case f x of Some v \<Rightarrow> Some v | None \<Rightarrow> first_verdict f xs)"

definition CheckRateLimit ::
    "time \<Rightarrow> EntityWiseRateLimits \<Rightarrow> (string, int) gomap \<Rightarrow> (string, int) gomap \<Rightarrow> verdict" where
  "CheckRateLimit now entityWise tokensBaselines requestsBaselines =
     (case first_verdict (\<lambda>(entity, rls).
        first_verdict (\<lambda>rl. rl_verdict entity (rl_violations now tokensBaselines requestsBaselines rl)) rls)
        entityWise of
       Some v \<Rightarrow> v | None \<Rightarrow> (DecisionAllow, None))"

section \<open>Budgets\<close>

definition budget_verdict :: "time \<Rightarrow> (string, f64) gomap \<Rightarrow> string \<Rightarrow> TableBudget \<Rightarrow> verdict option" where
  "budget_verdict now baselines entity b =
     (if budgetResetTarget b now \<noteq> None then None
      else let baseline = gm_get0 (Fin 0) baselines (ID b) in
        if f64_le (EffectiveMaxLimit b) (f64_add (CurrentUsage b) baseline)
        then Some (DecisionBudgetExceeded, Some (Err (entity @ '' budget exceeded''))) else None)"

definition CheckBudget :: "time \<Rightarrow> EntityWiseBudgets \<Rightarrow> (string, f64) gomap \<Rightarrow> verdict" where
  "CheckBudget now entityWise baselines =
     (case first_verdict (\<lambda>(entity, bs). first_verdict (budget_verdict now baselines entity) bs) entityWise of
       Some v \<Rightarrow> v | None \<Rightarrow> (DecisionAllow, None))"

section \<open>Collecting the hierarchy of a virtual key\<close>

definition ew_append :: "string \<Rightarrow> 'a \<Rightarrow> (string, 'a list) gomap \<Rightarrow> (string, 'a list) gomap" where
  "ew_append category x m = gm_put category (gm_get0 [] m category @ [x]) m"

definition collect_budget ::
    "LocalGovernanceStore \<Rightarrow> bool \<Rightarrow> string \<Rightarrow> TableBudget
      \<Rightarrow> EntityWiseBudgets \<times> string list \<Rightarrow> EntityWiseBudgets \<times> string list" where
  "collect_budget gs dedup category b acc =
     (case acc of (m, seen) \<Rightarrow>
       if dedup \<and> ID b \<in> set seen then (m, seen)
       else case gm_get (budgets gs) (ID b) of None \<Rightarrow> (m, seen)
         | Some live \<Rightarrow> (ew_append category live m, ID live # seen))"

definition collectBudgetsFromHierarchy ::
    "LocalGovernanceStore \<Rightarrow> string \<Rightarrow> TableVirtualKey option \<Rightarrow> string \<Rightarrow> EntityWiseBudgets" where
  "collectBudgetsFromHierarchy gs scoped vko requestedProvider =
     (case vko of None \<Rightarrow> []
      | Some vk \<Rightarrow>
        let a1 = fold (\<lambda>pc a. if pc_Provider pc \<noteq> requestedProvider then a
                 else fold (collect_budget gs True (pc_Provider pc)) (pc_Budgets pc) a) (vk_pcs vk) ([], []);
            a2 = fold (collect_budget gs True ''VK'') (vk_Budgets vk) a1;
            team = (case vk_TeamID vk of None \<Rightarrow> None | Some i \<Rightarrow> gm_get (teams gs) i);
            (a3, teamCustomerID) = (case team of None \<Rightarrow> (a2, [])
              | Some t \<Rightarrow>
                  let b1 = fold (collect_budget gs True ''Team'') (team_Budgets t) a2
                  in case team_CustomerID t of None \<Rightarrow> (b1, [])
                     | Some c \<Rightarrow>
                         let charge = (scoped = [] \<or> scoped = c)
                         in (case gm_get (customers gs) c of
                               Some cust \<Rightarrow> if charge
                                 then fold (collect_budget gs False ''Customer'') (customer_Budgets cust) b1 else b1
                             | None \<Rightarrow> b1, c));
            a4 = (case vk_CustomerID vk of None \<Rightarrow> a3
              | Some c \<Rightarrow> if teamCustomerID = [] \<or> c \<noteq> teamCustomerID then
                    (case gm_get (customers gs) c of None \<Rightarrow> a3
                     | Some cust \<Rightarrow> fold (collect_budget gs False ''Customer'') (customer_Budgets cust) a3)
                  else a3)
        in fst a4)"

definition collect_rl ::
    "LocalGovernanceStore \<Rightarrow> string \<Rightarrow> string option \<Rightarrow> EntityWiseRateLimits \<Rightarrow> EntityWiseRateLimits" where
  "collect_rl gs category rid m =
     (case rid of None \<Rightarrow> m
      | Some i \<Rightarrow> (case gm_get (rateLimits gs) i of None \<Rightarrow> m | Some rl \<Rightarrow> ew_append category rl m))"

definition collectRateLimitsFromHierarchy ::
    "LocalGovernanceStore \<Rightarrow> string \<Rightarrow> TableVirtualKey option \<Rightarrow> string \<Rightarrow> EntityWiseRateLimits" where
  "collectRateLimitsFromHierarchy gs scoped vko requestedProvider =
     (case vko of None \<Rightarrow> []
      | Some vk \<Rightarrow>
        let a1 = fold (\<lambda>pc m. if pc_Provider pc = requestedProvider
                   then collect_rl gs (pc_Provider pc) (pc_RateLimitID pc) m else m) (vk_pcs vk) [];
            a2 = collect_rl gs ''VK'' (vk_RateLimitID vk) a1;
            team = (case vk_TeamID vk of None \<Rightarrow> None | Some i \<Rightarrow> gm_get (teams gs) i);
            (a3, teamCustomerID) = (case team of None \<Rightarrow> (a2, [])
              | Some t \<Rightarrow>
                  let b1 = collect_rl gs ''Team'' (team_RateLimitID t) a2
                  in case team_CustomerID t of None \<Rightarrow> (b1, [])
                     | Some c \<Rightarrow>
                         let charge = (scoped = [] \<or> scoped = c)
                         in (case gm_get (customers gs) c of
                               Some cust \<Rightarrow> if charge
                                 then collect_rl gs ''Customer'' (customer_RateLimitID cust) b1 else b1
                             | None \<Rightarrow> b1, c))
        in case vk_CustomerID vk of None \<Rightarrow> a3
           | Some c \<Rightarrow> if teamCustomerID = [] \<or> c \<noteq> teamCustomerID then
                 (case gm_get (customers gs) c of None \<Rightarrow> a3
                  | Some cust \<Rightarrow> collect_rl gs ''Customer'' (customer_RateLimitID cust) a3)
               else a3)"

definition collectBudgetIDsFromMemory ::
    "LocalGovernanceStore \<Rightarrow> string \<Rightarrow> TableVirtualKey option \<Rightarrow> string \<Rightarrow> string list" where
  "collectBudgetIDsFromMemory gs scoped vk provider =
     concat (map (\<lambda>(_, bs). map ID bs) (collectBudgetsFromHierarchy gs scoped vk provider))"

definition collectRateLimitIDsFromMemory ::
    "LocalGovernanceStore \<Rightarrow> string \<Rightarrow> TableVirtualKey option \<Rightarrow> string \<Rightarrow> string list" where
  "collectRateLimitIDsFromMemory gs scoped vk provider =
     concat (map (\<lambda>(_, rls). map rl_ID rls) (collectRateLimitsFromHierarchy gs scoped vk provider))"

definition CheckVirtualKeyBudget ::
    "LocalGovernanceStore \<Rightarrow> time \<Rightarrow> string \<Rightarrow> TableVirtualKey option \<Rightarrow> EvaluationRequest option
      \<Rightarrow> (string, f64) gomap \<Rightarrow> verdict" where
  "CheckVirtualKeyBudget gs now scoped vk request baselines =
     (if vk = None then (DecisionVirtualKeyNotFound, Some (Err ''virtual key cannot be nil''))
      else CheckBudget now (collectBudgetsFromHierarchy gs scoped vk (req_provider request)) baselines)"

definition CheckVirtualKeyRateLimit ::
    "LocalGovernanceStore \<Rightarrow> time \<Rightarrow> string \<Rightarrow> TableVirtualKey option \<Rightarrow> EvaluationRequest option
      \<Rightarrow> (string, int) gomap \<Rightarrow> (string, int) gomap \<Rightarrow> verdict" where
  "CheckVirtualKeyRateLimit gs now scoped vk request tokensBaselines requestsBaselines =
     CheckRateLimit now (collectRateLimitsFromHierarchy gs scoped vk (req_provider request))
       tokensBaselines requestsBaselines"

section \<open>Providers\<close>

definition CheckProviderBudget ::
    "LocalGovernanceStore \<Rightarrow> time \<Rightarrow> EvaluationRequest option \<Rightarrow> (string, f64) gomap \<Rightarrow> verdict" where
  "CheckProviderBudget gs now request baselines =
     (let key = req_provider request in
      case gm_get (providers gs) key of None \<Rightarrow> (DecisionAllow, None)
      | Some p \<Rightarrow> (case provider_BudgetID p of None \<Rightarrow> (DecisionAllow, None)
      | Some i \<Rightarrow> (case LoadBudget gs i of None \<Rightarrow> (DecisionAllow, None)
      | Some b \<Rightarrow> CheckBudget now [(key, [b])] baselines)))"

definition CheckProviderRateLimit ::
    "LocalGovernanceStore \<Rightarrow> time \<Rightarrow> EvaluationRequest option \<Rightarrow> (string, int) gomap \<Rightarrow> (string, int) gomap
      \<Rightarrow> verdict" where
  "CheckProviderRateLimit gs now request tokensBaselines requestsBaselines =
     (let key = req_provider request in
      case gm_get (providers gs) key of None \<Rightarrow> (DecisionAllow, None)
      | Some p \<Rightarrow> (case provider_RateLimitID p of None \<Rightarrow> (DecisionAllow, None)
      | Some i \<Rightarrow> (case LoadRateLimit gs i of None \<Rightarrow> (DecisionAllow, None)
      | Some rl \<Rightarrow> CheckRateLimit now [(key, [rl])] tokensBaselines requestsBaselines)))"

section \<open>Model configs\<close>

definition nonGlobalModelConfigScopeChain :: "TableVirtualKey option \<Rightarrow> (string \<times> string) list" where
  "nonGlobalModelConfigScopeChain vk =
     (case vk of None \<Rightarrow> [] | Some v \<Rightarrow> [(ModelConfigScopeVirtualKey, vk_ID v)])"

definition findScopedModelOnlyConfig ::
    "LocalGovernanceStore \<Rightarrow> string \<Rightarrow> string \<Rightarrow> string \<Rightarrow> (TableModelConfig \<times> string) option" where
  "findScopedModelOnlyConfig gs scope scopeID model =
     (let tryKey = (\<lambda>modelKey. map_option (\<lambda>mc. (mc, modelKey))
            (gm_get (modelConfigs gs) (modelConfigStoreKey scope scopeID modelKey None)))
      in case modelCatalog gs of
           Some base \<Rightarrow>
             if base model \<noteq> model then (case tryKey (base model) of Some r \<Rightarrow> Some r | None \<Rightarrow> tryKey model)
             else tryKey model
         | None \<Rightarrow> tryKey model)"

definition extractModelAndProvider :: "EvaluationRequest option \<Rightarrow> string \<times> string option" where
  "extractModelAndProvider request =
     (case request of None \<Rightarrow> ([], None)
      | Some r \<Rightarrow> (req_Model r, if req_Provider r \<noteq> [] then Some (req_Provider r) else None))"

definition add_config :: "TableModelConfig option \<Rightarrow> TableModelConfig list \<Rightarrow> TableModelConfig list" where
  "add_config mc out =
     (case mc of None \<Rightarrow> out
      | Some c \<Rightarrow> if mc_ID c \<in> set (map mc_ID out) then out else out @ [c])"

definition collectModelConfigsFor ::
    "LocalGovernanceStore \<Rightarrow> string \<Rightarrow> string \<Rightarrow> string \<Rightarrow> string option \<Rightarrow> TableModelConfig list" where
  "collectModelConfigsFor gs scope scopeID model provider =
     (let loadKey = (\<lambda>modelKey prov. gm_get (modelConfigs gs) (modelConfigStoreKey scope scopeID modelKey prov));
          o1 = (if provider \<noteq> None then add_config (loadKey model provider) [] else []);
          o2 = add_config (map_option fst (findScopedModelOnlyConfig gs scope scopeID model)) o1;
          o3 = (if provider \<noteq> None then add_config (loadKey ModelConfigAllModels provider) o2 else o2)
      in add_config (loadKey ModelConfigAllModels None) o3)"

definition modelConfigEntityKey :: "TableModelConfig \<Rightarrow> string" where
  "modelConfigEntityKey mc =
     ''Model:'' @ (if ModelName mc = ModelConfigAllModels then ''AllModels'' else ModelName mc)
     @ (case mc_Provider mc of None \<Rightarrow> [] | Some p \<Rightarrow> '':Provider:'' @ p)
     @ (if mc_Scope mc \<noteq> [] \<and> mc_Scope mc \<noteq> ModelConfigScopeGlobal
        then '':'' @ mc_Scope mc @ '':'' @ (case mc_ScopeID mc of None \<Rightarrow> [] | Some i \<Rightarrow> i) else [])"

definition live_budgets :: "LocalGovernanceStore \<Rightarrow> TableBudget list \<Rightarrow> TableBudget list" where
  "live_budgets gs bs = concat (map (\<lambda>b. case LoadBudget gs (ID b) of None \<Rightarrow> [] | Some l \<Rightarrow> [l]) bs)"

definition loadModelConfigBudgets :: "LocalGovernanceStore \<Rightarrow> TableModelConfig \<Rightarrow> TableBudget list" where
  "loadModelConfigBudgets gs mc = live_budgets gs (mc_Budgets mc)"

definition model_budgets :: "LocalGovernanceStore \<Rightarrow> TableModelConfig list \<Rightarrow> EntityWiseBudgets" where
  "model_budgets gs mcs =
     fold (\<lambda>mc m. let bs = loadModelConfigBudgets gs mc in
       if bs \<noteq> [] then gm_put (modelConfigEntityKey mc) bs m else m) mcs []"

definition model_rate_limits :: "LocalGovernanceStore \<Rightarrow> TableModelConfig list \<Rightarrow> EntityWiseRateLimits" where
  "model_rate_limits gs mcs =
     fold (\<lambda>mc m. case mc_RateLimitID mc of None \<Rightarrow> m
       | Some i \<Rightarrow> (case LoadRateLimit gs i of None \<Rightarrow> m
         | Some rl \<Rightarrow> gm_put (modelConfigEntityKey mc) [rl] m)) mcs []"

definition CheckModelBudget ::
    "LocalGovernanceStore \<Rightarrow> time \<Rightarrow> EvaluationRequest option \<Rightarrow> (string, f64) gomap \<Rightarrow> verdict" where
  "CheckModelBudget gs now request baselines =
     (let (model, provider) = extractModelAndProvider request
      in CheckBudget now (model_budgets gs (collectModelConfigsFor gs ModelConfigScopeGlobal [] model provider))
           baselines)"

definition CheckModelRateLimit ::
    "LocalGovernanceStore \<Rightarrow> time \<Rightarrow> EvaluationRequest option \<Rightarrow> (string, int) gomap \<Rightarrow> (string, int) gomap
      \<Rightarrow> verdict" where
  "CheckModelRateLimit gs now request tokensBaselines requestsBaselines =
     (let (model, provider) = extractModelAndProvider request
      in CheckRateLimit now (model_rate_limits gs (collectModelConfigsFor gs ModelConfigScopeGlobal [] model provider))
           tokensBaselines requestsBaselines)"

definition CheckScopedModelBudget ::
    "LocalGovernanceStore \<Rightarrow> time \<Rightarrow> string \<Rightarrow> string \<Rightarrow> EvaluationRequest option \<Rightarrow> (string, f64) gomap
      \<Rightarrow> verdict" where
  "CheckScopedModelBudget gs now scope scopeID request baselines =
     (if scope = [] \<or> scopeID = [] then (DecisionAllow, None)
      else let (model, provider) = extractModelAndProvider request
        in CheckBudget now (model_budgets gs (collectModelConfigsFor gs scope scopeID model provider)) baselines)"

definition CheckScopedModelRateLimit ::
    "LocalGovernanceStore \<Rightarrow> time \<Rightarrow> string \<Rightarrow> string \<Rightarrow> EvaluationRequest option \<Rightarrow> (string, int) gomap
      \<Rightarrow> (string, int) gomap \<Rightarrow> verdict" where
  "CheckScopedModelRateLimit gs now scope scopeID request tokensBaselines requestsBaselines =
     (if scope = [] \<or> scopeID = [] then (DecisionAllow, None)
      else let (model, provider) = extractModelAndProvider request
        in CheckRateLimit now (model_rate_limits gs (collectModelConfigsFor gs scope scopeID model provider))
             tokensBaselines requestsBaselines)"

section \<open>Teams, customers and users\<close>

definition CollectTeamBudgets :: "LocalGovernanceStore \<Rightarrow> string \<Rightarrow> TableBudget list" where
  "CollectTeamBudgets gs teamID =
     (if teamID = [] then []
      else case gm_get (teams gs) teamID of None \<Rightarrow> [] | Some t \<Rightarrow> live_budgets gs (team_Budgets t))"

definition CollectTeamRateLimits :: "LocalGovernanceStore \<Rightarrow> string \<Rightarrow> TableRateLimit list" where
  "CollectTeamRateLimits gs teamID =
     (if teamID = [] then []
      else case gm_get (teams gs) teamID of None \<Rightarrow> []
        | Some t \<Rightarrow> (case team_RateLimitID t of None \<Rightarrow> []
          | Some i \<Rightarrow> (case LoadRateLimit gs i of None \<Rightarrow> [] | Some rl \<Rightarrow> [rl])))"

definition CollectCustomerBudgets :: "LocalGovernanceStore \<Rightarrow> string \<Rightarrow> TableBudget list" where
  "CollectCustomerBudgets gs customerID =
     (if customerID = [] then []
      else case gm_get (customers gs) customerID of None \<Rightarrow> [] | Some c \<Rightarrow> live_budgets gs (customer_Budgets c))"

definition CollectCustomerRateLimits :: "LocalGovernanceStore \<Rightarrow> string \<Rightarrow> TableRateLimit list" where
  "CollectCustomerRateLimits gs customerID =
     (if customerID = [] then []
      else case gm_get (customers gs) customerID of None \<Rightarrow> []
        | Some c \<Rightarrow> (case customer_RateLimitID c of None \<Rightarrow> []
          | Some i \<Rightarrow> (case LoadRateLimit gs i of None \<Rightarrow> [] | Some rl \<Rightarrow> [rl])))"

definition GetTeamCustomerID :: "LocalGovernanceStore \<Rightarrow> string \<Rightarrow> string" where
  "GetTeamCustomerID gs teamID =
     (if teamID = [] then []
      else case gm_get (teams gs) teamID of None \<Rightarrow> []
        | Some t \<Rightarrow> (case team_CustomerID t of None \<Rightarrow> [] | Some c \<Rightarrow> c))"

definition GetTeamName :: "LocalGovernanceStore \<Rightarrow> string \<Rightarrow> string" where
  "GetTeamName gs teamID =
     (if teamID = [] then [] else case gm_get (teams gs) teamID of None \<Rightarrow> [] | Some t \<Rightarrow> team_Name t)"

definition GetCustomerName :: "LocalGovernanceStore \<Rightarrow> string \<Rightarrow> string" where
  "GetCustomerName gs customerID =
     (if customerID = [] then []
      else case gm_get (customers gs) customerID of None \<Rightarrow> [] | Some c \<Rightarrow> customer_Name c)"

definition CheckTeamBudget ::
    "LocalGovernanceStore \<Rightarrow> time \<Rightarrow> string \<Rightarrow> (string, f64) gomap \<Rightarrow> verdict" where
  "CheckTeamBudget gs now teamID baselines =
     (if teamID = [] then (DecisionAllow, None)
      else case gm_get (teams gs) teamID of None \<Rightarrow> (DecisionAllow, None)
        | Some t \<Rightarrow> let bs = live_budgets gs (team_Budgets t) in
            if bs = [] then (DecisionAllow, None)
            else CheckBudget now [(''Team:'' @ teamID, bs)] baselines)"

definition CheckTeamRateLimit ::
    "LocalGovernanceStore \<Rightarrow> time \<Rightarrow> string \<Rightarrow> (string, int) gomap \<Rightarrow> (string, int) gomap \<Rightarrow> verdict" where
  "CheckTeamRateLimit gs now teamID tokensBaselines requestsBaselines =
     (case gm_get (teams gs) teamID of None \<Rightarrow> (DecisionAllow, None)
      | Some t \<Rightarrow> (case team_RateLimitID t of None \<Rightarrow> (DecisionAllow, None)
        | Some i \<Rightarrow> (case LoadRateLimit gs i of None \<Rightarrow> (DecisionAllow, None)
          | Some rl \<Rightarrow> CheckRateLimit now [(''Team:'' @ teamID, [rl])] tokensBaselines requestsBaselines)))"

definition CheckCustomerBudget ::
    "LocalGovernanceStore \<Rightarrow> time \<Rightarrow> string \<Rightarrow> (string, f64) gomap \<Rightarrow> verdict" where
  "CheckCustomerBudget gs now customerID baselines =
     (if customerID = [] then (DecisionAllow, None)
      else case gm_get (customers gs) customerID of None \<Rightarrow> (DecisionAllow, None)
        | Some c \<Rightarrow> let bs = live_budgets gs (customer_Budgets c) in
            if bs = [] then (DecisionAllow, None)
            else CheckBudget now [(''Customer:'' @ customerID, bs)] baselines)"

definition CheckCustomerRateLimit ::
    "LocalGovernanceStore \<Rightarrow> time \<Rightarrow> string \<Rightarrow> (string, int) gomap \<Rightarrow> (string, int) gomap \<Rightarrow> verdict" where
  "CheckCustomerRateLimit gs now customerID tokensBaselines requestsBaselines =
     (if customerID = [] then (DecisionAllow, None)
      else case gm_get (customers gs) customerID of None \<Rightarrow> (DecisionAllow, None)
        | Some c \<Rightarrow> (case customer_RateLimitID c of None \<Rightarrow> (DecisionAllow, None)
          | Some i \<Rightarrow> (case LoadRateLimit gs i of None \<Rightarrow> (DecisionAllow, None)
            | Some rl \<Rightarrow> CheckRateLimit now [(''Customer:'' @ customerID, [rl])] tokensBaselines requestsBaselines)))"

definition CheckUserBudget :: "LocalGovernanceStore \<Rightarrow> string \<Rightarrow> verdict" where
  "CheckUserBudget gs userID = (DecisionAllow, None)"

definition CheckUserRateLimit :: "LocalGovernanceStore \<Rightarrow> string \<Rightarrow> verdict" where
  "CheckUserRateLimit gs userID = (DecisionAllow, None)"

section \<open>Usage updates\<close>

text \<open>Each bump of a loop reads its own clock: \<open>clocks i\<close> is the sequence of the \<open>i\<close>-th bump.\<close>

fun bump_all :: "(nat \<Rightarrow> nat \<Rightarrow> time) \<Rightarrow> f64 \<Rightarrow> string list \<Rightarrow> LocalGovernanceStore \<Rightarrow> LocalGovernanceStore" where
  "bump_all clocks cost [] gs = gs"
| "bump_all clocks cost (k # ks) gs =
     bump_all (\<lambda>i. clocks (Suc i)) cost ks (BumpBudgetUsage gs (clocks 0) k cost)"

fun bump_all_rl ::
    "(nat \<Rightarrow> nat \<Rightarrow> time) \<Rightarrow> int \<Rightarrow> bool \<Rightarrow> bool \<Rightarrow> string list \<Rightarrow> LocalGovernanceStore \<Rightarrow> LocalGovernanceStore" where
  "bump_all_rl clocks n a b [] gs = gs"
| "bump_all_rl clocks n a b (k # ks) gs =
     bump_all_rl (\<lambda>i. clocks (Suc i)) n a b ks (BumpRateLimitUsage gs (clocks 0) k n a b)"

definition UpdateVirtualKeyBudgetUsageInMemory ::
    "LocalGovernanceStore \<Rightarrow> (nat \<Rightarrow> nat \<Rightarrow> time) \<Rightarrow> string \<Rightarrow> TableVirtualKey option \<Rightarrow> string \<Rightarrow> f64
      \<Rightarrow> LocalGovernanceStore \<times> err option" where
  "UpdateVirtualKeyBudgetUsageInMemory gs clocks scoped vk provider cost =
     (if vk = None then (gs, Some (Err ''virtual key cannot be nil''))
      else (bump_all clocks cost (collectBudgetIDsFromMemory gs scoped vk provider) gs, None))"

definition UpdateVirtualKeyRateLimitUsageInMemory ::
    "LocalGovernanceStore \<Rightarrow> (nat \<Rightarrow> nat \<Rightarrow> time) \<Rightarrow> string \<Rightarrow> TableVirtualKey option \<Rightarrow> string \<Rightarrow> int \<Rightarrow> bool
      \<Rightarrow> bool \<Rightarrow> LocalGovernanceStore \<times> err option" where
  "UpdateVirtualKeyRateLimitUsageInMemory gs clocks scoped vk provider tokensUsed updT updR =
     (if vk = None then (gs, Some (Err ''virtual key cannot be nil''))
      else (bump_all_rl clocks tokensUsed updT updR (collectRateLimitIDsFromMemory gs scoped vk provider) gs, None))"

definition model_budget_ids :: "TableModelConfig list \<Rightarrow> string list" where
  "model_budget_ids mcs = concat (map (\<lambda>mc. map ID (mc_Budgets mc)) mcs)"

definition model_rl_ids :: "TableModelConfig list \<Rightarrow> string list" where
  "model_rl_ids mcs = concat (map (\<lambda>mc. case mc_RateLimitID mc of None \<Rightarrow> [] | Some i \<Rightarrow> [i]) mcs)"

definition opt_provider :: "string \<Rightarrow> string option" where
  "opt_provider provider = (if provider \<noteq> [] then Some provider else None)"

text \<open>
  A bump changes neither providers nor model configs, so the model configs collected after the
  provider's bump are those of the store before it.
\<close>

definition UpdateProviderAndModelBudgetUsageInMemory ::
    "LocalGovernanceStore \<Rightarrow> (nat \<Rightarrow> nat \<Rightarrow> time) \<Rightarrow> string \<Rightarrow> string \<Rightarrow> f64 \<Rightarrow> LocalGovernanceStore" where
  "UpdateProviderAndModelBudgetUsageInMemory gs clocks model provider cost =
     (let ids = (if provider = [] then []
             else case gm_get (providers gs) provider of None \<Rightarrow> []
               | Some p \<Rightarrow> (case provider_BudgetID p of None \<Rightarrow> [] | Some i \<Rightarrow> [i]));
          mcs = collectModelConfigsFor gs ModelConfigScopeGlobal [] model (opt_provider provider)
      in bump_all clocks cost (ids @ model_budget_ids mcs) gs)"

definition UpdateProviderAndModelRateLimitUsageInMemory ::
    "LocalGovernanceStore \<Rightarrow> (nat \<Rightarrow> nat \<Rightarrow> time) \<Rightarrow> string \<Rightarrow> string \<Rightarrow> int \<Rightarrow> bool \<Rightarrow> bool
      \<Rightarrow> LocalGovernanceStore" where
  "UpdateProviderAndModelRateLimitUsageInMemory gs clocks model provider tokensUsed updT updR =
     (let ids = (if provider = [] then []
             else case gm_get (providers gs) provider of None \<Rightarrow> []
               | Some p \<Rightarrow> (case provider_RateLimitID p of None \<Rightarrow> [] | Some i \<Rightarrow> [i]));
          mcs = collectModelConfigsFor gs ModelConfigScopeGlobal [] model (opt_provider provider)
      in bump_all_rl clocks tokensUsed updT updR (ids @ model_rl_ids mcs) gs)"

definition UpdateScopedModelBudgetUsageInMemory ::
    "LocalGovernanceStore \<Rightarrow> (nat \<Rightarrow> nat \<Rightarrow> time) \<Rightarrow> string \<Rightarrow> string \<Rightarrow> string \<Rightarrow> string \<Rightarrow> f64
      \<Rightarrow> LocalGovernanceStore" where
  "UpdateScopedModelBudgetUsageInMemory gs clocks scope scopeID model provider cost =
     (if scope = [] \<or> scopeID = [] then gs
      else bump_all clocks cost
        (model_budget_ids (collectModelConfigsFor gs scope scopeID model (opt_provider provider))) gs)"

definition UpdateScopedModelRateLimitUsageInMemory ::
    "LocalGovernanceStore \<Rightarrow> (nat \<Rightarrow> nat \<Rightarrow> time) \<Rightarrow> string \<Rightarrow> string \<Rightarrow> string \<Rightarrow> string \<Rightarrow> int \<Rightarrow> bool
      \<Rightarrow> bool \<Rightarrow> LocalGovernanceStore" where
  "UpdateScopedModelRateLimitUsageInMemory gs clocks scope scopeID model provider tokensUsed updT updR =
     (if scope = [] \<or> scopeID = [] then gs
      else bump_all_rl clocks tokensUsed updT updR
        (model_rl_ids (collectModelConfigsFor gs scope scopeID model (opt_provider provider))) gs)"

section \<open>Applicable identifiers\<close>

definition add_ids :: "string list \<Rightarrow> string list \<Rightarrow> string list" where
  "add_ids new acc = fold (\<lambda>i a. if i \<in> set a then a else a @ [i]) new acc"

definition CollectApplicableGovernanceIDs ::
    "LocalGovernanceStore \<Rightarrow> string \<Rightarrow> string \<Rightarrow> string \<Rightarrow> string \<Rightarrow> string \<Rightarrow> string list \<times> string list" where
  "CollectApplicableGovernanceIDs gs scoped virtualKey userID provider model =
     (let prov = opt_provider provider;
          (b0, r0) = (if provider = [] then ([], [])
             else case gm_get (providers gs) provider of None \<Rightarrow> ([], [])
               | Some p \<Rightarrow> (case provider_BudgetID p of None \<Rightarrow> [] | Some i \<Rightarrow> [i],
                            case provider_RateLimitID p of None \<Rightarrow> [] | Some i \<Rightarrow> [i]));
          add_mcs = (\<lambda>mcs (b, r). (add_ids (model_budget_ids mcs) b, add_ids (model_rl_ids mcs) r));
          a1 = (if model = [] then (b0, r0)
                else add_mcs (collectModelConfigsFor gs ModelConfigScopeGlobal [] model prov) (b0, r0));
          a2 = (if userID = [] \<or> model = [] then a1
                else add_mcs (collectModelConfigsFor gs ModelConfigScopeUser userID model prov) a1);
          a3 = (if virtualKey = [] then a2
                else case GetVirtualKey gs virtualKey of None \<Rightarrow> a2
                  | Some vk \<Rightarrow>
                      let c1 = (if model = [] then a2
                                else fold (\<lambda>(scope, i). add_mcs (collectModelConfigsFor gs scope i model prov))
                                       (nonGlobalModelConfigScopeChain (Some vk)) a2)
                      in (add_ids (collectBudgetIDsFromMemory gs scoped (Some vk) provider) (fst c1),
                          add_ids (collectRateLimitIDsFromMemory gs scoped (Some vk) provider) (snd c1)))
      in a3)"

end
