(* ===== verification/Check_Properties.thy ===== *)
theory Check_Properties
  imports Governance_Checks
begin

text \<open>
  What the policy checks of the governance store decide, and what the usage updates that
  follow a request charge. A check walks rows grouped by entity and stops at the first row
  that objects; the locale \<open>policy_check\<close> states what such a check relies on, a row
  objects exactly when it does not pass and every objection is a denial with an error, and
  is interpreted for budgets and for rate limits. The rows a check walks and the rows an
  update charges are compared with a declarative reading of the ownership hierarchy.
\<close>

section \<open>Checks that walk rows\<close>

lemma first_verdict_None: "first_verdict f xs = None \<longleftrightarrow> list_all (\<lambda>x. f x = None) xs"
  by (induction xs) (auto split: option.splits)

lemma first_verdict_Some: "first_verdict f xs = Some v \<Longrightarrow> \<exists>x. x \<in> set xs \<and> f x = Some v"
  by (induction xs) (auto split: option.splits)

definition walk :: "(string \<Rightarrow> 'r \<Rightarrow> verdict option) \<Rightarrow> (string, 'r list) gomap \<Rightarrow> verdict" where
  "walk row m = (case first_verdict (\<lambda>(e, rs). first_verdict (row e) rs) m of
     Some v \<Rightarrow> v | None \<Rightarrow> (DecisionAllow, None))"

definition grouped_rows :: "(string, 'r list) gomap \<Rightarrow> 'r set" where
  "grouped_rows m = {r. \<exists>e rs. (e, rs) \<in> set m \<and> r \<in> set rs}"

locale policy_check =
  fixes row :: "string \<Rightarrow> 'r \<Rightarrow> verdict option"
    and passes :: "'r \<Rightarrow> bool"
  assumes row_silent: "row e r = None \<longleftrightarrow> passes r"
    and row_objects: "row e r = Some (d, x) \<Longrightarrow> d \<noteq> DecisionAllow \<and> x \<noteq> None"
begin

lemma walk_result:
  "if \<forall>r \<in> grouped_rows m. passes r then walk row m = (DecisionAllow, None)
   else \<exists>e rs r. (e, rs) \<in> set m \<and> r \<in> set rs \<and> \<not> passes r \<and> row e r = Some (walk row m)"
proof (cases "first_verdict (\<lambda>(e, rs). first_verdict (row e) rs) m")
  case None
  then have "\<forall>r \<in> grouped_rows m. passes r"
    by (fastforce simp: first_verdict_None list_all_iff grouped_rows_def row_silent)
  then show ?thesis using None by (simp add: walk_def)
next
  case (Some v)
  then obtain e rs r where r: "(e, rs) \<in> set m" "r \<in> set rs" "row e r = Some v"
    by (auto dest!: first_verdict_Some)
  then have "\<not> passes r" using row_silent [of e r] by simp
  moreover have "r \<in> grouped_rows m" using r by (auto simp: grouped_rows_def)
  moreover have "walk row m = v" using Some by (simp add: walk_def)
  ultimately show ?thesis using r by auto
qed

lemma walk_denies:
  assumes "\<not> (\<forall>r \<in> grouped_rows m. passes r)"
  shows "fst (walk row m) \<noteq> DecisionAllow \<and> snd (walk row m) \<noteq> None"
proof -
  obtain e r where "row e r = Some (walk row m)"
    using walk_result [of m] assms by (meson if_splits)
  then show ?thesis using row_objects [of e r "fst (walk row m)" "snd (walk row m)"] by simp
qed

lemma walk_allows: "fst (walk row m) = DecisionAllow \<longleftrightarrow> (\<forall>r \<in> grouped_rows m. passes r)"
  using walk_result [of m] walk_denies [of m] by (metis fst_conv)

lemma walk_error: "snd (walk row m) = None \<longleftrightarrow> fst (walk row m) = DecisionAllow"
  using walk_result [of m] walk_denies [of m] by (metis fst_conv snd_conv)

lemma walk_order_irrelevant:
  "grouped_rows m = grouped_rows m' \<Longrightarrow>
     (fst (walk row m) = DecisionAllow) = (fst (walk row m') = DecisionAllow)"
  by (simp add: walk_allows)

end

definition budget_passes :: "time \<Rightarrow> (string, f64) gomap \<Rightarrow> TableBudget \<Rightarrow> bool" where
  "budget_passes now baselines b \<longleftrightarrow> budgetResetTarget b now \<noteq> None
     \<or> \<not> f64_le (EffectiveMaxLimit b) (f64_add (CurrentUsage b) (gm_get0 (Fin 0) baselines (ID b)))"

definition token_over :: "time \<Rightarrow> (string, int) gomap \<Rightarrow> TableRateLimit \<Rightarrow> bool" where
  "token_over now baselines rl \<longleftrightarrow> (\<exists>m. TokenMaxLimit rl = Some m
     \<and> \<not> counter_expired (TokenResetDuration rl) (TokenLastReset rl) now
     \<and> m \<le> wrap64 (TokenCurrentUsage rl + gm_get0 0 baselines (rl_ID rl)))"

definition request_over :: "time \<Rightarrow> (string, int) gomap \<Rightarrow> TableRateLimit \<Rightarrow> bool" where
  "request_over now baselines rl \<longleftrightarrow> (\<exists>m. RequestMaxLimit rl = Some m
     \<and> \<not> counter_expired (RequestResetDuration rl) (RequestLastReset rl) now
     \<and> m \<le> wrap64 (RequestCurrentUsage rl + gm_get0 0 baselines (rl_ID rl)))"

lemma CheckBudget_walk: "CheckBudget now m baselines = walk (budget_verdict now baselines) m"
  by (simp add: CheckBudget_def walk_def)

lemma CheckRateLimit_walk:
  "CheckRateLimit now m tb rb = walk (\<lambda>e rl. rl_verdict e (rl_violations now tb rb rl)) m"
  by (simp add: CheckRateLimit_def walk_def)

interpretation budget_check: policy_check "budget_verdict now baselines" "budget_passes now baselines"
  for now baselines
  by unfold_locales (auto simp: budget_verdict_def budget_passes_def Let_def split: if_splits)

interpretation rate_check: policy_check "\<lambda>e rl. rl_verdict e (rl_violations now tb rb rl)"
    "\<lambda>rl. \<not> token_over now tb rl \<and> \<not> request_over now rb rl"
  for now tb rb
  by unfold_locales
     (auto simp: rl_verdict_def rl_violations_def counter_violation_def token_over_def request_over_def
        Let_def split: if_splits option.splits list.splits)

section \<open>The decision of a rate limit\<close>

lemma contains_self: "contains (t @ s) t"
  by (auto simp: contains_def list_ex_iff hasPrefix_iff intro!: bexI [of _ 0])

lemma contains_mem: "contains s t \<Longrightarrow> c \<in> set t \<Longrightarrow> c \<in> set s"
  by (auto simp: contains_def list_ex_iff hasPrefix_def) (metis in_set_dropD in_set_takeD)

lemma dec_nat_digits: "c \<in> set (dec_nat n) \<Longrightarrow> \<exists>d :: nat. d < 10 \<and> c = char_of (48 + d)"
proof (induction n rule: dec_nat.induct)
  case (1 n)
  show ?case
  proof (cases "n < 10")
    case True
    then show ?thesis using 1(2) by (auto simp: dec_nat.simps [of n])
  next
    case False
    then have "c \<in> set (dec_nat (n div 10)) \<or> c = char_of (48 + n mod 10)"
      using 1(2) by (auto simp: dec_nat.simps [of n])
    moreover have "n mod 10 < 10" by simp
    ultimately show ?thesis using 1(1) [OF False] by blast
  qed
qed

lemma dec_int_no_letter: "CHR ''k'' \<notin> set (dec_int i)"
proof
  assume "CHR ''k'' \<in> set (dec_int i)"
  then have "CHR ''k'' \<in> set (dec_nat (nat (- i))) \<or> CHR ''k'' \<in> set (dec_nat (nat i))"
    by (auto simp: dec_int_def split: if_splits)
  then obtain d :: nat where d: "d < 10" "CHR ''k'' = char_of (48 + d)"
    using dec_nat_digits by blast
  then have "of_char (CHR ''k'') = (of_char (char_of (48 + d)) :: nat)" by simp
  then have "(107 :: nat) = (48 + d) mod 256" unfolding of_char_of by simp
  then show False using d(1) by simp
qed

text \<open>A reset duration that parses has no letter k, so a request violation never mentions tokens.\<close>

lemma leadingInt_keeps_k: "leadingInt x s = Some (v, r) \<Longrightarrow> CHR ''k'' \<in> set s \<Longrightarrow> CHR ''k'' \<in> set r"
  by (induction x s arbitrary: v r rule: leadingInt.induct) (auto simp: Let_def is_digit_def split: if_splits)

lemma leadingFraction_keeps_k:
  "leadingFraction x sc ovf s = (f, sc', r) \<Longrightarrow> CHR ''k'' \<in> set s \<Longrightarrow> CHR ''k'' \<in> set r"
  by (induction x sc ovf s arbitrary: f sc' r rule: leadingFraction.induct)
     (auto simp: Let_def is_digit_def split: if_splits)

lemma fraction_part_keeps_k:
  "fraction_part s = (f, sc, r, post) \<Longrightarrow> CHR ''k'' \<in> set s \<Longrightarrow> CHR ''k'' \<in> set r"
  by (cases s) (auto simp: fraction_part_def split: if_splits prod.splits dest: leadingFraction_keeps_k)

lemma unit_no_k: "unitMap u \<noteq> None \<Longrightarrow> CHR ''k'' \<notin> set u"
  by (auto simp: unitMap_def split: if_splits)

lemma unit_part_keeps_k:
  assumes "unit_part v f sc s = Some (w, r)" "CHR ''k'' \<in> set s"
  shows "CHR ''k'' \<in> set r"
proof -
  have "r = dropWhile unit_char s" "unitMap (takeWhile unit_char s) \<noteq> None"
    using assms(1) by (simp_all add: unit_part_def Let_def split: if_splits option.splits)
  moreover have "set s = set (takeWhile unit_char s) \<union> set (dropWhile unit_char s)"
    by (metis set_append takeWhile_dropWhile_id)
  ultimately show ?thesis using assms(2) unit_no_k by blast
qed

lemma parse_component_keeps_k:
  assumes "parse_component s = Some (v, r)" "CHR ''k'' \<in> set s"
  shows "CHR ''k'' \<in> set r"
proof -
  obtain v1 s1 where i: "leadingInt 0 s = Some (v1, s1)"
    using assms(1) by (auto simp: parse_component_def split: if_splits option.splits)
  obtain f sc s2 post where f: "fraction_part s1 = (f, sc, s2, post)" by (metis surj_pair)
  have "unit_part v1 f sc s2 = Some (v, r)"
    using assms(1) i f by (auto simp: parse_component_def split: if_splits)
  then show ?thesis
    using assms(2) leadingInt_keeps_k [OF i] fraction_part_keeps_k [OF f] unit_part_keeps_k by blast
qed

lemma parse_loop_no_k: "parse_loop d s = Some v \<Longrightarrow> CHR ''k'' \<notin> set s"
proof (induction d s rule: parse_loop.induct)
  case (1 d s)
  show ?case
  proof (cases "s = []")
    case False
    then obtain a r where c: "parse_component s = Some (a, r)" "\<not> 2 ^ 63 < d + a" "parse_loop (d + a) r = Some v"
      using 1(2) by (auto simp: parse_loop.simps [of d s] split: option.splits if_splits)
    then have "CHR ''k'' \<notin> set r" using 1(1) [OF False c(1) refl c(2,3)] by simp
    then show ?thesis using parse_component_keeps_k [OF c(1)] by blast
  qed simp
qed

lemma time_ParseDuration_no_k:
  assumes "time_ParseDuration s = Inr d"
  shows "CHR ''k'' \<notin> set s"
proof -
  let ?t = "if s \<noteq> [] \<and> (hd s = CHR ''-'' \<or> hd s = CHR ''+'') then tl s else s"
  have "?t = ''0'' \<or> (\<exists>v. parse_loop 0 ?t = Some v)"
    using assms unfolding time_ParseDuration_def Let_def by (auto split: if_splits option.splits)
  then have "CHR ''k'' \<notin> set ?t" by (auto dest: parse_loop_no_k)
  then show ?thesis by (cases s) (auto split: if_splits)
qed

lemma ParseDuration_no_k:
  assumes "ParseDuration s = Inr d"
  shows "CHR ''k'' \<notin> set s"
proof -
  have s: "s \<noteq> []" using assms by (auto simp: ParseDuration_def)
  then have c: "set s = insert (lastByte s) (set (butlast s))"
    using append_butlast_last_id [OF s] by (metis lastByte_snoc list.simps(15) rotate1.simps(2) set_rotate1)
  have "time_ParseDuration s = Inr d \<or> (lastByte s \<noteq> CHR ''k'' \<and> (\<exists>e. time_ParseDuration (butlast s @ ''h'') = Inr e))"
    using assms unfolding ParseDuration_def Let_def by (auto split: if_splits sum.splits)
  then show ?thesis using c by (auto dest!: time_ParseDuration_no_k)
qed

lemma request_text_no_token:
  assumes "CHR ''k'' \<notin> set s"
  shows "\<not> contains (violation_text ''request'' u m (Some s)) ''token''"
proof
  assume "contains (violation_text ''request'' u m (Some s)) ''token''"
  then have "CHR ''k'' \<in> set (violation_text ''request'' u m (Some s))" by (rule contains_mem) simp
  then show False
    using dec_int_no_letter [of u] dec_int_no_letter [of m] assms by (simp add: violation_text_def)
qed

lemma rl_verdict_kind:
  assumes "request_over now rb rl \<Longrightarrow> \<exists>s. RequestResetDuration rl = Some s \<and> CHR ''k'' \<notin> set s"
    and "rl_verdict e (rl_violations now tb rb rl) = Some (d, x)"
  shows "d = (if token_over now tb rl \<and> request_over now rb rl then DecisionRateLimited
       else if token_over now tb rl then DecisionTokenLimited else DecisionRequestLimited)"
proof -
  have t: "contains (violation_text ''token'' u m dur) ''token''" for u m dur
    unfolding violation_text_def append_assoc by (rule contains_self)
  have r: "contains (violation_text ''request'' u m dur) ''request''" for u m dur
    unfolding violation_text_def append_assoc by (rule contains_self)
  have "\<not> contains (violation_text ''request'' u m (RequestResetDuration rl)) ''token''"
    if "request_over now rb rl" for u m
    using assms(1) [OF that] request_text_no_token by auto
  then show ?thesis
    using assms(2) t r
    by (auto simp: rl_verdict_def rl_violations_def counter_violation_def token_over_def request_over_def
        Let_def split: if_splits option.splits)
qed

section \<open>Properties of the two checks\<close>

lemma CheckBudget_denies:
  assumes "fst (CheckBudget now m baselines) \<noteq> DecisionAllow"
  shows "\<exists>e bs b. (e, bs) \<in> set m \<and> b \<in> set bs \<and> \<not> budget_passes now baselines b
    \<and> CheckBudget now m baselines = (DecisionBudgetExceeded, Some (Err (e @ '' budget exceeded'')))"
proof -
  obtain e bs b where w: "(e, bs) \<in> set m" "b \<in> set bs" "\<not> budget_passes now baselines b"
    "budget_verdict now baselines e b = Some (CheckBudget now m baselines)"
    using budget_check.walk_result [of m now baselines] assms unfolding CheckBudget_walk by (metis fst_conv)
  then have "CheckBudget now m baselines = (DecisionBudgetExceeded, Some (Err (e @ '' budget exceeded'')))"
    by (auto simp: budget_verdict_def Let_def split: if_splits)
  then show ?thesis using w by blast
qed

text \<open>
  a budget check lets a request through exactly when every budget it was given either
  has a closed window, by the predicate the reset code uses, or has usage plus the
  cluster's baseline below its effective limit, the limit with an active override applied.
  Otherwise it denies with an error that names the entity of a budget that is exhausted.
  The outcome does not depend on the order in which entities and budgets are visited.
\<close>

theorem CheckBudget_allows_iff:
  "(fst (CheckBudget now m baselines) = DecisionAllow) =
     (\<forall>b \<in> grouped_rows m. budgetResetTarget b now \<noteq> None
        \<or> \<not> f64_le (EffectiveMaxLimit b) (f64_add (CurrentUsage b) (gm_get0 (Fin 0) baselines (ID b))))
   \<and> (fst (CheckBudget now m baselines) \<noteq> DecisionAllow \<longrightarrow>
        (\<exists>e bs b. (e, bs) \<in> set m \<and> b \<in> set bs \<and> \<not> budget_passes now baselines b
           \<and> CheckBudget now m baselines = (DecisionBudgetExceeded, Some (Err (e @ '' budget exceeded'')))))
   \<and> (grouped_rows m' = grouped_rows m \<longrightarrow>
        fst (CheckBudget now m' baselines) = fst (CheckBudget now m baselines))"
proof -
  note deny = CheckBudget_denies [of now _ baselines]
  have "fst (CheckBudget now m' baselines) = fst (CheckBudget now m baselines)"
    if "grouped_rows m' = grouped_rows m"
    using budget_check.walk_order_irrelevant [OF that, of now baselines] deny [of m] deny [of m']
    unfolding CheckBudget_walk by (metis fst_conv)
  then show ?thesis
    using deny [of m] budget_check.walk_allows [of now baselines m]
    unfolding CheckBudget_walk budget_passes_def by blast
qed

theorem CheckBudget_allows_iff_witness:
  "fst (CheckBudget 63900000000000000000 [(''VK'', [sample_budget\<lparr>CurrentUsage := Fin 100000\<rparr>])] []) \<noteq> DecisionAllow"
proof -
  let ?b = "sample_budget\<lparr>CurrentUsage := Fin 100000\<rparr>"
  have t: "budgetResetTarget ?b 63900000000000000000 = None"
    by (simp add: budgetResetTarget_def sample_budget_def parse_1h WindowStart_def Let_def
        RollingWindowStart_def time_IsZero_def time_Sub_def time_Add_def in64_def sdiv_nonneg)
  have "EffectiveMaxLimit ?b = Fin 150"
    by (simp add: EffectiveMaxLimit_def HasActiveOverride_def sample_budget_def BudgetOverrideModeCycles_def)
  moreover have "?b \<in> grouped_rows [(''VK'', [?b])]" by (simp add: grouped_rows_def)
  moreover have "CurrentUsage ?b = Fin 100000" by simp
  ultimately show ?thesis
    using CheckBudget_allows_iff [of 63900000000000000000 "[(''VK'', [?b])]" "[]" "[]"] t by auto
qed

lemma rl_saved_request:
  assumes "rl_BeforeSave rl = None" "RequestMaxLimit rl = Some m"
  shows "\<exists>s d. RequestResetDuration rl = Some s \<and> ParseDuration s = Inr d"
  using assms by (auto simp: rl_BeforeSave_def Let_def split: option.splits sum.splits if_splits)

text \<open>
  a rate limit check lets a request through exactly when no counter with a limit has
  reached it in a window the check takes to be open. When it denies, the decision names what
  was exhausted on one of the rows: the token decision when only its token counter is, the
  request decision when only its request counter is, and the general one when both are. The
  rows are assumed to have passed the validation that saving applies.
\<close>

theorem CheckRateLimit_decides:
  assumes "\<And>rl. rl \<in> grouped_rows m \<Longrightarrow> rl_BeforeSave rl = None"
  shows "(fst (CheckRateLimit now m tb rb) = DecisionAllow) =
      (\<forall>rl \<in> grouped_rows m. \<not> token_over now tb rl \<and> \<not> request_over now rb rl)
    \<and> (fst (CheckRateLimit now m tb rb) \<noteq> DecisionAllow \<longrightarrow> snd (CheckRateLimit now m tb rb) \<noteq> None
       \<and> (\<exists>rl \<in> grouped_rows m. (token_over now tb rl \<or> request_over now rb rl)
           \<and> fst (CheckRateLimit now m tb rb) =
              (if token_over now tb rl \<and> request_over now rb rl then DecisionRateLimited
               else if token_over now tb rl then DecisionTokenLimited else DecisionRequestLimited)))"
proof -
  let ?v = "CheckRateLimit now m tb rb"
  have "\<exists>rl \<in> grouped_rows m. (token_over now tb rl \<or> request_over now rb rl) \<and> fst ?v =
      (if token_over now tb rl \<and> request_over now rb rl then DecisionRateLimited
       else if token_over now tb rl then DecisionTokenLimited else DecisionRequestLimited)"
    if d: "fst ?v \<noteq> DecisionAllow"
  proof -
    obtain e rls rl where w: "(e, rls) \<in> set m" "rl \<in> set rls" "token_over now tb rl \<or> request_over now rb rl"
      "rl_verdict e (rl_violations now tb rb rl) = Some ?v"
      using rate_check.walk_result [of m now tb rb] d unfolding CheckRateLimit_walk by (metis fst_conv)
    have mem: "rl \<in> grouped_rows m" using w by (auto simp: grouped_rows_def)
    have "\<exists>s. RequestResetDuration rl = Some s \<and> CHR ''k'' \<notin> set s" if "request_over now rb rl"
      using rl_saved_request [OF assms [OF mem]] that ParseDuration_no_k by (auto simp: request_over_def)
    from rl_verdict_kind [OF this, where e = e and tb = tb and d = "fst ?v" and x = "snd ?v"] show ?thesis using w mem by auto
  qed
  then show ?thesis
    using rate_check.walk_allows [of now tb rb m] rate_check.walk_error [of now tb rb m]
    unfolding CheckRateLimit_walk by blast
qed

lemma sample_rl_saved: "rl_BeforeSave sample_rl = None"
proof -
  have "ParseDuration ''1d'' = Inr (24 * hour)"
    by (simp add: parse_duration_defs Let_def wrap64_def)
  then show ?thesis
    by (simp add: rl_BeforeSave_def sample_rl_def parse_1h Let_def)
qed

theorem CheckRateLimit_decides_witness:
  "fst (CheckRateLimit 63899992800000000001 [(''Team'', [sample_rl])] [(''r1'', 2000)] []) = DecisionTokenLimited"
proof -
  have over: "token_over 63899992800000000001 [(''r1'', 2000)] sample_rl"
    by (simp add: token_over_def sample_rl_def counter_expired_def parse_1h time_Sub_def in64_def wrap64_def
        gm_get0_def)
  have under: "\<not> request_over 63899992800000000001 [] sample_rl"
    by (simp add: request_over_def sample_rl_def wrap64_def)
  have "grouped_rows [(''Team'', [sample_rl])] = {sample_rl}" by (auto simp: grouped_rows_def)
  then show ?thesis
    using CheckRateLimit_decides [of "[(''Team'', [sample_rl])]" 63899992800000000001 "[(''r1'', 2000)]" "[]"]
      sample_rl_saved over under by auto
qed

text \<open>
  for a counter on rolling windows whose boundary lies on the row's lattice, the check
  and the reset code agree on whether the window is over.
\<close>

theorem check_expiry_agrees_rolling:
  assumes "ParseDuration dur = Inr d" "0 < d" "\<not> (aligned \<and> IsCalendarAlignableDuration dur)"
    and "\<not> time_IsZero anchor" "0 \<le> j" "prev = anchor + j * d" "prev \<le> now" "now - anchor < 2 ^ 63"
  shows "counter_expired (Some dur) prev now \<longleftrightarrow> rateLimitResetTarget (Some dur) aligned anchor prev now \<noteq> None"
proof -
  have j: "0 \<le> j * d" using assms(2,5) by simp
  then have "anchor \<le> now" using assms(6,7) by simp
  from rolling_lattice [OF assms(2) this assms(8)] obtain k where
    k: "RollingWindowStart anchor d now = anchor + k * d" "anchor + k * d \<le> now" "now < anchor + (k + 1) * d"
    by blast
  have "d \<le> now - prev \<longleftrightarrow> j < k"
  proof
    assume "d \<le> now - prev"
    then have "(j + 1) * d < (k + 1) * d" using k(3) assms(6) by (simp add: algebra_simps)
    then show "j < k" using assms(2) by simp
  next
    assume "j < k"
    then have "(j + 1) * d \<le> k * d" using assms(2) by (intro mult_right_mono) simp_all
    then show "d \<le> now - prev" using k(2) assms(6) by (simp add: algebra_simps)
  qed
  moreover have "time_Sub now prev = now - prev"
    using j assms(6,7,8) by (simp add: time_Sub_def in64_def)
  moreover have "j < k \<longleftrightarrow> prev < anchor + k * d" using assms(2,6) by simp
  ultimately show ?thesis
    using assms(1-4) k(1) by (auto simp: counter_expired_def rateLimitResetTarget_def Let_def)
qed

theorem check_expiry_agrees_rolling_witness:
  "counter_expired (Some ''1h'') 63899992800000000000 63899996400000000000"
  using check_expiry_agrees_rolling [of "''1h''" hour False 63899992800000000000 0 63899992800000000000
      63899996400000000000]
  by (simp add: parse_1h IsCalendarAlignableDuration_def lastByte_def time_IsZero_def rateLimitResetTarget_def
      RollingWindowStart_def time_Sub_def time_Add_def in64_def sdiv_nonneg)

definition monthly_rl :: TableRateLimit where
  "monthly_rl = \<lparr>rl_ID = ''m1'', TokenMaxLimit = Some 1000, TokenResetDuration = Some ''1M'',
     TokenCurrentUsage = 1000, TokenLastReset = 63871286400000000000, RequestMaxLimit = None,
     RequestResetDuration = None, RequestCurrentUsage = 0, RequestLastReset = 0,
     rl_IsCalendarAligned = True, rl_CreatedAt = 63871286400000000000\<rparr>"

text \<open>
  for a calendar-aligned counter they disagree. A monthly token limit last reset on the
  first of January 2025 and exhausted on the 30th is enforced that day, but on the 31st, with
  the month still open and no reset due, the check takes the window to be over and lets every
  request through.
\<close>

theorem CheckRateLimit_skips_open_month:
  "rl_BeforeSave monthly_rl = None
   \<and> fst (CheckRateLimit 63873792000000000000 [(''VK'', [monthly_rl])] [] []) = DecisionTokenLimited
   \<and> time_Day 63873878400000000000 = 31
   \<and> rateLimitResetTargets monthly_rl 63873878400000000000 = (None, None)
   \<and> fst (CheckRateLimit 63873878400000000000 [(''VK'', [monthly_rl])] [] []) = DecisionAllow"
proof -
  have p: "ParseDuration ''1M'' = Inr (720 * hour)"
    by (simp add: parse_duration_defs Let_def wrap64_def)
  have g: "grouped_rows [(''VK'', [monthly_rl])] = {monthly_rl}" by (auto simp: grouped_rows_def)
  have saved: "rl_BeforeSave monthly_rl = None"
    by (simp add: rl_BeforeSave_def monthly_rl_def p Let_def)
  have n: "\<not> request_over now [] monthly_rl" for now
    by (simp add: request_over_def monthly_rl_def)
  have o30: "token_over 63873792000000000000 [] monthly_rl"
    by (simp add: token_over_def monthly_rl_def counter_expired_def p time_Sub_def in64_def wrap64_def)
  have "rl_verdict ''VK'' (rl_violations 63873792000000000000 [] [] monthly_rl)
      = Some (CheckRateLimit 63873792000000000000 [(''VK'', [monthly_rl])] [] [])"
    using rate_check.walk_result [of "[(''VK'', [monthly_rl])]" 63873792000000000000 "[]" "[]"] g o30
    by (simp add: CheckRateLimit_walk)
  then have d30: "fst (CheckRateLimit 63873792000000000000 [(''VK'', [monthly_rl])] [] []) = DecisionTokenLimited"
    using rl_verdict_kind [where rl = monthly_rl and rb = "[]" and tb = "[]" and now = 63873792000000000000 and
        e = "''VK''"] n o30 by (metis prod.collapse)
  have "\<not> token_over 63873878400000000000 [] monthly_rl"
    by (simp add: token_over_def monthly_rl_def counter_expired_def p time_Sub_def in64_def)
  then have d31: "fst (CheckRateLimit 63873878400000000000 [(''VK'', [monthly_rl])] [] []) = DecisionAllow"
    using rate_check.walk_allows [of 63873878400000000000 "[]" "[]" "[(''VK'', [monthly_rl])]"] g n
    by (simp add: CheckRateLimit_walk)
  have "GetCalendarPeriodStart ''1M'' 63873878400000000000 QuarterStartNotApplicable = 63871286400000000000"
    by code_simp
  then have "rateLimitResetTargets monthly_rl 63873878400000000000 = (None, None)"
    by (simp add: rateLimitResetTargets_def rateLimitResetTarget_def monthly_rl_def IsCalendarAlignableDuration_def
        lastByte_def Let_def)
  moreover have "time_Day 63873878400000000000 = 31" by code_simp
  ultimately show ?thesis using saved d30 d31 by blast
qed

end
