(* ===== verification/Hierarchy.thy ===== *)
theory Hierarchy
  imports Check_Properties "HOL-Library.Multiset"
begin

text \<open>
  The ownership hierarchy of a virtual key. The definitions \<open>team_of\<close>, \<open>charged_customers\<close>
  and \<open>owned_budget_ids\<close> say declaratively which budgets a request made with a key and
  routed to a provider falls under; the lemmas show that the collection code of
  plugins/governance/store.go finds exactly the live rows of those budgets, and that the
  usage update after the request charges each of them once.
\<close>

section \<open>Who owns what\<close>

definition team_of :: "LocalGovernanceStore \<Rightarrow> TableVirtualKey \<Rightarrow> TableTeam option" where
  "team_of gs vk = (case vk_TeamID vk of None \<Rightarrow> None | Some i \<Rightarrow> gm_get (teams gs) i)"

definition team_customer_id :: "LocalGovernanceStore \<Rightarrow> TableVirtualKey \<Rightarrow> string option" where
  "team_customer_id gs vk = (case team_of gs vk of None \<Rightarrow> None | Some t \<Rightarrow> team_CustomerID t)"

definition customer_rows :: "LocalGovernanceStore \<Rightarrow> string \<Rightarrow> TableCustomer list" where
  "customer_rows gs c = (case gm_get (customers gs) c of None \<Rightarrow> [] | Some r \<Rightarrow> [r])"

text \<open>
  The customers a request is charged to: the team's, unless the request is scoped to another
  customer, and the key's own, unless it is the team's.
\<close>

definition charged_customers :: "LocalGovernanceStore \<Rightarrow> string \<Rightarrow> TableVirtualKey \<Rightarrow> TableCustomer list" where
  "charged_customers gs scoped vk =
     (case team_customer_id gs vk of None \<Rightarrow> []
      | Some c \<Rightarrow> if scoped = [] \<or> scoped = c then customer_rows gs c else [])
     @ (case vk_CustomerID vk of None \<Rightarrow> []
        | Some c \<Rightarrow> if team_customer_id gs vk = Some c \<and> c \<noteq> [] then [] else customer_rows gs c)"

definition customer_budgets :: "LocalGovernanceStore \<Rightarrow> string \<Rightarrow> TableVirtualKey \<Rightarrow> TableBudget list" where
  "customer_budgets gs scoped vk = concat (map customer_Budgets (charged_customers gs scoped vk))"

definition inner_budgets :: "LocalGovernanceStore \<Rightarrow> TableVirtualKey \<Rightarrow> string \<Rightarrow> TableBudget list" where
  "inner_budgets gs vk provider =
     concat (map pc_Budgets (filter (\<lambda>pc. pc_Provider pc = provider) (vk_pcs vk)))
     @ vk_Budgets vk @ (case team_of gs vk of None \<Rightarrow> [] | Some t \<Rightarrow> team_Budgets t)"

definition owned_budget_ids :: "LocalGovernanceStore \<Rightarrow> string \<Rightarrow> TableVirtualKey \<Rightarrow> string \<Rightarrow> string set" where
  "owned_budget_ids gs scoped vk provider =
     ID ` set (inner_budgets gs vk provider) \<union> ID ` set (customer_budgets gs scoped vk)"

section \<open>Collecting rows\<close>

lemma grouped_rows_get: "gm_ok m \<Longrightarrow> grouped_rows m = {r. \<exists>e rs. gm_get m e = Some rs \<and> r \<in> set rs}"
  unfolding grouped_rows_def by (metis map_of_eq_Some_iff)

lemma grouped_rows_put:
  assumes "gm_ok m"
  shows "grouped_rows (ew_append c x m) = insert x (grouped_rows m)" "gm_ok (ew_append c x m)"
proof -
  show ok: "gm_ok (ew_append c x m)" using assms by (simp add: ew_append_def)
  have get: "gm_get (ew_append c x m) e = (if e = c then Some (gm_get0 [] m c @ [x]) else gm_get m e)" for e
    by (simp add: ew_append_def)
  have old: "r \<in> set (gm_get0 [] m c) \<longleftrightarrow> (\<exists>rs. gm_get m c = Some rs \<and> r \<in> set rs)" for r
    by (cases "gm_get m c") (simp_all add: gm_get0_def)
  show "grouped_rows (ew_append c x m) = insert x (grouped_rows m)"
  proof (rule set_eqI)
    fix r
    have "r \<in> grouped_rows (ew_append c x m) \<longleftrightarrow>
        r = x \<or> r \<in> set (gm_get0 [] m c) \<or> (\<exists>e rs. e \<noteq> c \<and> gm_get m e = Some rs \<and> r \<in> set rs)"
      unfolding grouped_rows_get [OF ok] get by auto
    then show "r \<in> grouped_rows (ew_append c x m) \<longleftrightarrow> r \<in> insert x (grouped_rows m)"
      unfolding old grouped_rows_get [OF assms] by auto
  qed
qed

definition collected :: "LocalGovernanceStore \<Rightarrow> string set \<Rightarrow> EntityWiseBudgets \<times> string list \<Rightarrow> bool" where
  "collected gs S acc \<longleftrightarrow> gm_ok (fst acc)
     \<and> grouped_rows (fst acc) = {b. \<exists>i \<in> S. LoadBudget gs i = Some b}
     \<and> set (snd acc) = {i \<in> S. LoadBudget gs i \<noteq> None}"

lemma collect_skip:
  "dedup \<and> ID b \<in> set (snd acc) \<or> LoadBudget gs (ID b) = None \<Longrightarrow> collect_budget gs dedup cat b acc = acc"
  by (cases acc) (auto simp: collect_budget_def LoadBudget_def)

lemma collect_take:
  assumes "rows_ok gs" "\<not> (dedup \<and> ID b \<in> set (snd acc))" "LoadBudget gs (ID b) = Some l"
  shows "collect_budget gs dedup cat b acc = (ew_append cat l (fst acc), ID l # snd acc)" "ID l = ID b"
  using assms rows_okD(1) [OF assms(1)] by (cases acc; auto simp: collect_budget_def LoadBudget_def)+

lemma collect_step:
  assumes "rows_ok gs" "collected gs S acc"
  shows "collected gs (insert (ID b) S) (collect_budget gs dedup cat b acc)"
proof (cases "dedup \<and> ID b \<in> set (snd acc) \<or> LoadBudget gs (ID b) = None")
  case True
  then show ?thesis using collect_skip [OF True] assms(2) by (auto simp: collected_def)
next
  case False
  then obtain l where l: "LoadBudget gs (ID b) = Some l" by blast
  show ?thesis
    using collect_take [OF assms(1) _ l, where dedup = dedup and acc = acc] False assms(2) l grouped_rows_put [of "fst acc" cat l]
    by (auto simp: collected_def)
qed

section \<open>Each row once\<close>

definition row_ids :: "EntityWiseBudgets \<Rightarrow> string list" where
  "row_ids m = concat (map (\<lambda>(_, bs). map ID bs) m)"

lemma row_ids_append: "gm_ok m \<Longrightarrow> mset (row_ids (ew_append c b m)) = add_mset (ID b) (mset (row_ids m))"
proof (induction m)
  case (Cons p m)
  then show ?case
  proof (cases "fst p = c")
    case True
    then show ?thesis by (cases p) (simp add: row_ids_def ew_append_def gm_get0_def)
  next
    case False
    then have "ew_append c b (p # m) = p # ew_append c b m"
      by (cases p) (simp add: ew_append_def gm_get0_def)
    then show ?thesis using Cons by (cases p) (simp add: row_ids_def)
  qed
qed (simp add: row_ids_def ew_append_def)

definition once :: "LocalGovernanceStore \<Rightarrow> string set \<Rightarrow> EntityWiseBudgets \<times> string list \<Rightarrow> bool" where
  "once gs S acc \<longleftrightarrow> collected gs S acc \<and> distinct (row_ids (fst acc)) \<and> set (row_ids (fst acc)) = set (snd acc)"

lemma once_step:
  assumes "rows_ok gs" "once gs S acc" "dedup \<or> ID b \<notin> S"
  shows "once gs (insert (ID b) S) (collect_budget gs dedup cat b acc)"
proof -
  have c: "collected gs (insert (ID b) S) (collect_budget gs dedup cat b acc)"
    using assms(1,2) collect_step unfolding once_def by blast
  show ?thesis
  proof (cases "dedup \<and> ID b \<in> set (snd acc) \<or> LoadBudget gs (ID b) = None")
    case True
    then show ?thesis using c assms(2) collect_skip [OF True] by (simp add: once_def)
  next
    case False
    then obtain l where l: "LoadBudget gs (ID b) = Some l" by blast
    have fresh: "ID b \<notin> set (snd acc)" using False assms(2,3) by (auto simp: once_def collected_def)
    note t = collect_take [OF assms(1) _ l, where dedup = dedup and acc = acc]
    have "gm_ok (fst acc)" using assms(2) by (simp add: once_def collected_def)
    then have "mset (row_ids (ew_append cat l (fst acc))) = mset (ID l # row_ids (fst acc))"
      by (simp add: row_ids_append)
    then have "distinct (row_ids (ew_append cat l (fst acc))) = distinct (ID l # row_ids (fst acc))"
      "set (row_ids (ew_append cat l (fst acc))) = set (ID l # row_ids (fst acc))"
      by (rule mset_eq_imp_distinct_iff, rule mset_eq_setD)
    then show ?thesis using c t False fresh assms(2) by (simp add: once_def)
  qed
qed

lemma hierarchy_unfold:
  "collectBudgetsFromHierarchy gs scoped (Some vk) p =
     fst (fold (collect_budget gs False ''Customer'') (customer_budgets gs scoped vk)
       (fold (collect_budget gs True ''Team'') (case team_of gs vk of None \<Rightarrow> [] | Some t \<Rightarrow> team_Budgets t)
         (fold (collect_budget gs True ''VK'') (vk_Budgets vk)
           (fold (\<lambda>pc a. if pc_Provider pc \<noteq> p then a
              else fold (collect_budget gs True (pc_Provider pc)) (pc_Budgets pc) a) (vk_pcs vk) ([], [])))))"
proof (cases "team_of gs vk")
  case None
  then show ?thesis
    by (cases "vk_CustomerID vk")
       (auto simp: collectBudgetsFromHierarchy_def customer_budgets_def charged_customers_def customer_rows_def
          team_customer_id_def Let_def team_of_def split: option.splits)
next
  case (Some t)
  then obtain i where i: "vk_TeamID vk = Some i" "gm_get (teams gs) i = Some t"
    by (auto simp: team_of_def split: option.splits)
  show ?thesis
  proof (cases "team_CustomerID t")
    case None
    with Some i show ?thesis
      by (cases "vk_CustomerID vk")
         (simp_all add: collectBudgetsFromHierarchy_def customer_budgets_def charged_customers_def
            customer_rows_def team_customer_id_def Let_def split: option.split)
  next
    case (Some c)
    with \<open>team_of gs vk = Some t\<close> i show ?thesis
      by (cases "vk_CustomerID vk")
         (auto simp: collectBudgetsFromHierarchy_def customer_budgets_def charged_customers_def
            customer_rows_def team_customer_id_def Let_def split: option.split)
  qed
qed

section \<open>The walk over the hierarchy\<close>

text \<open>
  A property \<open>I S acc\<close> of the rows collected for a set of identifiers \<open>S\<close> holds of the
  whole hierarchy when one collection step keeps it. The customers' budgets are collected
  without a check for duplicates, so a property that needs it has to be told that they are
  owned exclusively; \<open>free\<close> says that it does not.
\<close>

definition customers_exclusive :: "LocalGovernanceStore \<Rightarrow> string \<Rightarrow> TableVirtualKey \<Rightarrow> string \<Rightarrow> bool" where
  "customers_exclusive gs scoped vk provider \<longleftrightarrow> distinct (map ID (customer_budgets gs scoped vk))
     \<and> ID ` set (inner_budgets gs vk provider) \<inter> ID ` set (customer_budgets gs scoped vk) = {}"

locale row_collector =
  fixes gs :: LocalGovernanceStore
    and I :: "string set \<Rightarrow> EntityWiseBudgets \<times> string list \<Rightarrow> bool"
    and free :: bool
  assumes start: "I {} ([], [])"
    and step: "I S acc \<Longrightarrow> free \<or> dedup \<or> ID b \<notin> S \<Longrightarrow> I (insert (ID b) S) (collect_budget gs dedup cat b acc)"
begin

lemma fold_rows:
  assumes "I S acc" "free \<or> dedup \<or> (distinct (map ID bs) \<and> S \<inter> ID ` set bs = {})"
  shows "I (S \<union> ID ` set bs) (fold (collect_budget gs dedup cat) bs acc)"
  using assms
proof (induction bs arbitrary: S acc)
  case (Cons b bs)
  have "I (insert (ID b) S) (collect_budget gs dedup cat b acc)"
    using step [OF Cons.prems(1)] Cons.prems(2) by auto
  moreover have "free \<or> dedup \<or> (distinct (map ID bs) \<and> insert (ID b) S \<inter> ID ` set bs = {})"
    using Cons.prems(2) by auto
  ultimately show ?case using Cons.IH by fastforce
qed simp

lemma fold_pcs:
  assumes "I S acc"
  shows "I (S \<union> ID ` set (concat (map pc_Budgets (filter (\<lambda>pc. pc_Provider pc = p) pcs))))
    (fold (\<lambda>pc a. if pc_Provider pc \<noteq> p then a
       else fold (collect_budget gs True (pc_Provider pc)) (pc_Budgets pc) a) pcs acc)"
  using assms
proof (induction pcs arbitrary: S acc)
  case (Cons pc pcs)
  show ?case
  proof (cases "pc_Provider pc = p")
    case True
    have "I (S \<union> ID ` set (pc_Budgets pc)) (fold (collect_budget gs True p) (pc_Budgets pc) acc)"
      by (rule fold_rows [OF Cons.prems]) simp
    from Cons.IH [OF this] show ?thesis using True by (simp add: image_Un Un_assoc)
  qed (use Cons in simp)
qed simp

lemma hierarchy:
  assumes "free \<or> customers_exclusive gs scoped vk p"
  shows "\<exists>seen. I (owned_budget_ids gs scoped vk p) (collectBudgetsFromHierarchy gs scoped (Some vk) p, seen)"
proof -
  let ?pcs = "concat (map pc_Budgets (filter (\<lambda>pc. pc_Provider pc = p) (vk_pcs vk)))"
  let ?team = "case team_of gs vk of None \<Rightarrow> [] | Some t \<Rightarrow> team_Budgets t"
  let ?pc = "fold (\<lambda>pc a. if pc_Provider pc \<noteq> p then a
      else fold (collect_budget gs True (pc_Provider pc)) (pc_Budgets pc) a) (vk_pcs vk) ([], [])"
  let ?t = "fold (collect_budget gs True ''Team'') ?team (fold (collect_budget gs True ''VK'') (vk_Budgets vk) ?pc)"
  let ?all = "fold (collect_budget gs False ''Customer'') (customer_budgets gs scoped vk) ?t"
  from fold_pcs [OF start] have "I (ID ` set ?pcs) ?pc" by (simp only: Un_empty_left)
  then have "I (ID ` set ?pcs \<union> ID ` set (vk_Budgets vk) \<union> ID ` set ?team) ?t"
    by (intro fold_rows) simp_all
  then have "I (ID ` set (inner_budgets gs vk p)) ?t"
    by (simp only: inner_budgets_def set_append image_Un Un_assoc)
  then have "I (owned_budget_ids gs scoped vk p) ?all"
    unfolding owned_budget_ids_def using assms by (intro fold_rows) (auto simp: customers_exclusive_def)
  then have "I (owned_budget_ids gs scoped vk p) (fst ?all, snd ?all)" by (simp only: prod.collapse)
  then show ?thesis unfolding hierarchy_unfold by (rule exI)
qed

end

interpretation live_rows: row_collector gs "\<lambda>S acc. rows_ok gs \<longrightarrow> collected gs S acc" True for gs
proof
  show "rows_ok gs \<longrightarrow> collected gs {} ([], [])" by (simp add: collected_def grouped_rows_def)
qed (blast intro: collect_step)

interpretation single_rows: row_collector gs "\<lambda>S acc. rows_ok gs \<longrightarrow> once gs S acc" False for gs
proof
  show "rows_ok gs \<longrightarrow> once gs {} ([], [])"
    by (simp add: once_def collected_def grouped_rows_def row_ids_def)
qed (blast intro: once_step)

lemma hierarchy_rows:
  assumes "rows_ok gs"
  shows "grouped_rows (collectBudgetsFromHierarchy gs scoped (Some vk) p) =
    {b. \<exists>i \<in> owned_budget_ids gs scoped vk p. LoadBudget gs i = Some b}"
  using live_rows.hierarchy [of gs scoped vk p] assms by (auto simp: collected_def)

lemma hierarchy_ids:
  assumes "rows_ok gs" "customers_exclusive gs scoped vk p"
  shows "distinct (collectBudgetIDsFromMemory gs scoped (Some vk) p)"
    and "set (collectBudgetIDsFromMemory gs scoped (Some vk) p) =
      {i \<in> owned_budget_ids gs scoped vk p. LoadBudget gs i \<noteq> None}"
proof -
  have e: "collectBudgetIDsFromMemory gs scoped (Some vk) p = row_ids (collectBudgetsFromHierarchy gs scoped (Some vk) p)"
    by (simp add: collectBudgetIDsFromMemory_def row_ids_def)
  obtain seen where
    "once gs (owned_budget_ids gs scoped vk p) (collectBudgetsFromHierarchy gs scoped (Some vk) p, seen)"
    using single_rows.hierarchy [of gs scoped vk p] assms by blast
  then show "distinct (collectBudgetIDsFromMemory gs scoped (Some vk) p)"
    and "set (collectBudgetIDsFromMemory gs scoped (Some vk) p) =
      {i \<in> owned_budget_ids gs scoped vk p. LoadBudget gs i \<noteq> None}"
    unfolding e once_def collected_def by simp_all
qed

section \<open>Charging a list of budgets\<close>

lemma BumpBudgetUsage_row:
  assumes "rows_ok gs" "LoadBudget gs k = Some b"
  shows "LoadBudget (BumpBudgetUsage gs clock k cost) j =
    (if j = k then Some (row_bump budget_due budget_reset (budget_charge cost) clock 0 b) else LoadBudget gs j)"
  using bump_budget_refines [of gs k b clock 0 cost] assms rows_okD(1) [OF assms(1), of k b]
  by (simp add: BumpBudgetUsage_def LoadBudget_def)

lemma bump_all_rows:
  assumes "rows_ok gs" "distinct ks" "\<And>k. k \<in> set ks \<Longrightarrow> LoadBudget gs k \<noteq> None"
  shows "rows_ok (bump_all clocks cost ks gs)
    \<and> (\<forall>k. k \<notin> set ks \<longrightarrow> LoadBudget (bump_all clocks cost ks gs) k = LoadBudget gs k)
    \<and> (\<forall>k b. k \<in> set ks \<and> LoadBudget gs k = Some b \<longrightarrow>
         (\<exists>b' clock. LoadBudget (bump_all clocks cost ks gs) k = Some b'
            \<and> b' = row_bump budget_due budget_reset (budget_charge cost) clock 0 b))"
  using assms
proof (induction ks arbitrary: gs clocks)
  case (Cons k ks)
  let ?g = "BumpBudgetUsage gs (clocks 0) k cost"
  obtain b where b: "LoadBudget gs k = Some b" using Cons.prems(3) [of k] by auto
  note row = BumpBudgetUsage_row [OF Cons.prems(1) b, of "clocks 0" cost]
  have "rows_ok ?g" using Cons.prems(1) by (rule rows_intro)
  moreover have "LoadBudget ?g j \<noteq> None" if "j \<in> set ks" for j
    using that Cons.prems(3) [of j] by (simp add: row)
  ultimately have IH: "rows_ok (bump_all (\<lambda>i. clocks (Suc i)) cost ks ?g)"
    "\<And>j. j \<notin> set ks \<Longrightarrow> LoadBudget (bump_all (\<lambda>i. clocks (Suc i)) cost ks ?g) j = LoadBudget ?g j"
    "\<And>j b. j \<in> set ks \<Longrightarrow> LoadBudget ?g j = Some b \<Longrightarrow>
       \<exists>b' clock. LoadBudget (bump_all (\<lambda>i. clocks (Suc i)) cost ks ?g) j = Some b'
         \<and> b' = row_bump budget_due budget_reset (budget_charge cost) clock 0 b"
    using Cons.IH [of ?g "\<lambda>i. clocks (Suc i)"] Cons.prems(2) by auto
  have k: "k \<notin> set ks" using Cons.prems(2) by simp
  show ?case
  proof (intro conjI allI impI; (elim conjE)?)
    show "rows_ok (bump_all clocks cost (k # ks) gs)" using IH(1) by simp
    show "LoadBudget (bump_all clocks cost (k # ks) gs) j = LoadBudget gs j" if "j \<notin> set (k # ks)" for j
      using that IH(2) [of j] by (simp add: row)
    show "\<exists>b' clock. LoadBudget (bump_all clocks cost (k # ks) gs) j = Some b'
        \<and> b' = row_bump budget_due budget_reset (budget_charge cost) clock 0 c"
      if "j \<in> set (k # ks)" "LoadBudget gs j = Some c" for j c
    proof (cases "j = k")
      case True
      then show ?thesis using IH(2) [OF k] b that(2) by (auto simp: row)
    next
      case False
      then show ?thesis using IH(3) [of j c] that by (simp add: row)
    qed
  qed
qed simp

section \<open>Charging leaves the hierarchy alone\<close>

text \<open>What the hierarchy of a key depends on, besides the key itself.\<close>

definition owners :: "LocalGovernanceStore \<Rightarrow> (string, TableTeam) gomap \<times> (string, TableCustomer) gomap" where
  "owners gs = (teams gs, customers gs)"

lemma owners_clear [simp]:
  "teams (clearBudgetBaseline gs k) = teams gs" "customers (clearBudgetBaseline gs k) = customers gs"
  by (simp_all add: clearBudgetBaseline_def markBudgetResetLocked_def)

lemma owners_sweep: "owners (fst (sweep_budget now k acc)) = owners (fst acc)"
  by (cases acc)
     (auto simp: owners_def sweep_budget_def resetExpiredBudgetFromSnapshot_def ResetBudgetAt_def Let_def
        split: option.splits prod.splits if_splits)

lemma owners_reset: "owners (fst (ResetExpiredBudgetsInMemory gs now False ks)) = owners gs"
proof -
  have "owners (fst (fold (sweep_budget now) ids (gs, []))) = owners gs" for ids
    using fold_keeps [of "\<lambda>acc. owners (fst acc)" "sweep_budget now" ids "(gs, [])"] by (simp add: owners_sweep)
  then show ?thesis
    by (auto simp: ResetExpiredBudgetsInMemory_def Let_def owners_def split: prod.splits) (metis fst_conv snd_conv)+
qed

lemma owners_bump_loop: "owners (bump_budget_loop gs clock n k cost) = owners gs"
proof (induction gs clock n k cost rule: bump_budget_loop.induct)
  case (1 gs clock n k cost)
  show ?case
  proof (cases "gm_get (budgets gs) k")
    case (Some b)
    show ?thesis
    proof (cases "budgetResetTarget b (clock 0) \<noteq> None \<and> n < maxRequestTimeResetAttempts")
      case True
      from 1 [OF Some refl True] show ?thesis
        using Some True by (subst bump_budget_loop.simps) (simp add: owners_reset Let_def)
    next
      case False
      then show ?thesis
        using Some by (subst bump_budget_loop.simps) (auto simp: owners_def Let_def split: option.splits)
    qed
  qed (simp add: bump_budget_loop.simps)
qed

lemma owners_bump_all: "owners (bump_all clocks cost ks gs) = owners gs"
  by (induction ks arbitrary: gs clocks) (simp_all add: BumpBudgetUsage_def owners_bump_loop)

lemma owned_owners:
  assumes "owners gs' = owners gs"
  shows "owned_budget_ids gs' scoped vk p = owned_budget_ids gs scoped vk p"
proof -
  have o: "teams gs' = teams gs" "customers gs' = customers gs" using assms by (simp_all add: owners_def)
  have t: "team_of gs' vk = team_of gs vk" by (simp only: team_of_def o)
  have "charged_customers gs' scoped vk = charged_customers gs scoped vk"
    by (simp only: charged_customers_def team_customer_id_def t customer_rows_def o)
  then show ?thesis by (simp only: owned_budget_ids_def inner_budgets_def customer_budgets_def t)
qed

section \<open>A concrete hierarchy\<close>

definition plain_budget :: TableBudget where
  "plain_budget = sample_budget\<lparr>OverrideAmount := Fin 0, OverrideMode := [], OverrideCyclesRemaining := 0,
     OverrideCyclesTotal := 0, OverrideAnchorReset := None\<rparr>"

definition team_store :: LocalGovernanceStore where
  "team_store = empty_store\<lparr>budgets := [(''b1'', plain_budget)], teams := [(''t1'', sample_team)]\<rparr>"

definition team_vk :: TableVirtualKey where
  "team_vk = sample_vk\<lparr>vk_TeamID := Some ''t1''\<rparr>"

lemma plain_budget_fields:
  "ID plain_budget = ''b1''" "CurrentUsage plain_budget = Fin 7" "MaxLimit plain_budget = Fin 100"
  "LastReset plain_budget = 63900000000000000000" "RefreshOverrideCyclesRemaining plain_budget = plain_budget"
  "\<not> HasActiveOverride plain_budget"
  by (simp_all add: plain_budget_def sample_budget_def RefreshOverrideCyclesRemaining_def HasActiveOverride_def
      BudgetOverrideModeCycles_def)

lemma plain_budget_open: "budgetResetTarget (plain_budget\<lparr>CurrentUsage := u\<rparr>) 63900000000000000000 = None"
  by (simp add: budgetResetTarget_def plain_budget_def sample_budget_def parse_1h WindowStart_def Let_def
      RollingWindowStart_def time_IsZero_def time_Sub_def time_Add_def in64_def sdiv_nonneg)

lemma team_store_rows: "rows_ok team_store" "LoadBudget team_store k = (if k = ''b1'' then Some plain_budget else None)"
  using plain_budget_fields by (auto simp: rows_ok_def team_store_def empty_store_def LoadBudget_def split: if_splits)

lemma team_store_owned:
  "owned_budget_ids team_store [] team_vk p = {''b1''}" "customers_exclusive team_store [] team_vk p"
  by (simp_all add: owned_budget_ids_def customers_exclusive_def inner_budgets_def customer_budgets_def
      charged_customers_def team_customer_id_def team_of_def team_vk_def sample_vk_def team_store_def
      empty_store_def sample_team_def sample_budget_def vk_pcs_def)

lemma singleton_list: "set xs = {a} \<Longrightarrow> distinct xs \<Longrightarrow> xs = [a]"
  by (cases xs; cases "tl xs") auto

lemma team_store_charge:
  "LoadBudget (fst (UpdateVirtualKeyBudgetUsageInMemory team_store (\<lambda>_ _. 63900000000000000000) [] (Some team_vk) p
     (Fin 200))) ''b1'' = Some (plain_budget\<lparr>CurrentUsage := Fin 207\<rparr>)"
proof -
  note ids = hierarchy_ids [OF team_store_rows(1) team_store_owned(2), of p]
  have "set (collectBudgetIDsFromMemory team_store [] (Some team_vk) p) = {''b1''}"
    unfolding ids(2) team_store_owned team_store_rows(2) by auto
  then have "collectBudgetIDsFromMemory team_store [] (Some team_vk) p = [''b1'']"
    by (rule singleton_list) (rule ids(1))
  moreover have "budgetResetTarget plain_budget 63900000000000000000 = None"
    using plain_budget_open [of "CurrentUsage plain_budget"] by simp
  then have "row_bump budget_due budget_reset (budget_charge (Fin 200)) (\<lambda>_. 63900000000000000000) 0 plain_budget
      = plain_budget\<lparr>CurrentUsage := Fin 207\<rparr>"
    by (subst row_bump.simps) (simp add: budget_due_def budget_reset_def budget_charge_def plain_budget_fields)
  ultimately show ?thesis
    by (simp add: UpdateVirtualKeyBudgetUsageInMemory_def BumpBudgetUsage_row [OF team_store_rows(1)] team_store_rows(2))
qed

section \<open>Properties\<close>

lemma CheckVirtualKeyBudget_rows:
  assumes "rows_ok gs"
  shows "(fst (CheckVirtualKeyBudget gs now scoped (Some vk) req baselines) = DecisionAllow) =
      (\<forall>i \<in> owned_budget_ids gs scoped vk (req_provider req). \<forall>b. LoadBudget gs i = Some b \<longrightarrow> budget_passes now baselines b)"
  by (auto simp: CheckVirtualKeyBudget_def CheckBudget_walk budget_check.walk_allows hierarchy_rows [OF assms])

text \<open>
  C5: a request made with a virtual key passes the budget check exactly when every live
  budget of its hierarchy passes: those of the key's configurations for the requested
  provider, of the key, of its team, and of the customers the request is charged to, namely
  the team's customer unless the request is scoped to another one, and the key's own. No
  budget is skipped because it appears under several owners.
\<close>

theorem CheckVirtualKeyBudget_covers_hierarchy:
  assumes "rows_ok gs"
  shows "(fst (CheckVirtualKeyBudget gs now scoped (Some vk) req baselines) = DecisionAllow) =
      (\<forall>i \<in> owned_budget_ids gs scoped vk (req_provider req). \<forall>b. LoadBudget gs i = Some b \<longrightarrow>
         budgetResetTarget b now \<noteq> None
         \<or> \<not> f64_le (EffectiveMaxLimit b) (f64_add (CurrentUsage b) (gm_get0 (Fin 0) baselines i)))"
proof -
  have "budget_passes now baselines b \<longleftrightarrow> budgetResetTarget b now \<noteq> None
      \<or> \<not> f64_le (EffectiveMaxLimit b) (f64_add (CurrentUsage b) (gm_get0 (Fin 0) baselines i))"
    if "LoadBudget gs i = Some b" for i b
    using rows_okD(1) [OF assms] that by (simp add: budget_passes_def LoadBudget_def)
  then show ?thesis unfolding CheckVirtualKeyBudget_rows [OF assms] by blast
qed

theorem CheckVirtualKeyBudget_covers_hierarchy_witness:
  "fst (CheckVirtualKeyBudget team_store 63900000000000000000 [] (Some team_vk) None [(''b1'', Fin 93)]) \<noteq> DecisionAllow"
proof -
  have "budgetResetTarget plain_budget 63900000000000000000 = None"
    using plain_budget_open [of "CurrentUsage plain_budget"] by simp
  then show ?thesis
    using CheckVirtualKeyBudget_covers_hierarchy [OF team_store_rows(1), of 63900000000000000000 "[]" team_vk None
        "[(''b1'', Fin 93)]"]
    by (simp add: team_store_owned team_store_rows(2) plain_budget_fields EffectiveMaxLimit_def gm_get0_def)
qed

text \<open>
  C4: the usage update after a request charges every live budget of the key's hierarchy
  exactly once, each in the window it is in, and no other budget, provided the budgets of the
  charged customers are owned by nobody else.
\<close>

theorem UpdateVirtualKeyBudgetUsage_charges_hierarchy_once:
  assumes "rows_ok gs" "customers_exclusive gs scoped vk p"
    and "UpdateVirtualKeyBudgetUsageInMemory gs clocks scoped (Some vk) p cost = (gs', e)"
  shows "e = None \<and> rows_ok gs'
    \<and> (k \<notin> owned_budget_ids gs scoped vk p \<longrightarrow> LoadBudget gs' k = LoadBudget gs k)
    \<and> (k \<in> owned_budget_ids gs scoped vk p \<longrightarrow> (case LoadBudget gs k of None \<Rightarrow> LoadBudget gs' k = None
         | Some b \<Rightarrow> \<exists>b'. LoadBudget gs' k = Some b' \<and> LastReset b \<le> LastReset b'
             \<and> CurrentUsage b' = f64_add (if LastReset b' = LastReset b then CurrentUsage b else Fin 0) cost))"
proof -
  let ?ids = "collectBudgetIDsFromMemory gs scoped (Some vk) p"
  have g: "gs' = bump_all clocks cost ?ids gs" "e = None"
    using assms(3) by (auto simp: UpdateVirtualKeyBudgetUsageInMemory_def)
  note ids = hierarchy_ids [OF assms(1,2)]
  have "LoadBudget gs j \<noteq> None" if "j \<in> set ?ids" for j using that unfolding ids(2) by blast
  note all = bump_all_rows [OF assms(1) ids(1) this, of clocks cost, folded g(1)]
  show ?thesis
  proof (cases "LoadBudget gs k")
    case None
    then have "LoadBudget gs' k = None" using all unfolding ids(2) by simp
    then show ?thesis using None all g(2) by simp
  next
    case (Some b)
    have acc: "LastReset b \<le> LastReset (row_bump budget_due budget_reset (budget_charge cost) clock 0 b)
        \<and> CurrentUsage (row_bump budget_due budget_reset (budget_charge cost) clock 0 b) =
          f64_add (if LastReset (row_bump budget_due budget_reset (budget_charge cost) clock 0 b) = LastReset b
            then CurrentUsage b else Fin 0) cost" for clock
      by (rule budget_row.bump_accounts_once)
    have "\<exists>b'. LoadBudget gs' k = Some b' \<and> LastReset b \<le> LastReset b'
        \<and> CurrentUsage b' = f64_add (if LastReset b' = LastReset b then CurrentUsage b else Fin 0) cost"
      if "k \<in> owned_budget_ids gs scoped vk p"
      using all that Some acc unfolding ids(2) by blast
    moreover have "k \<notin> owned_budget_ids gs scoped vk p \<longrightarrow> LoadBudget gs' k = LoadBudget gs k"
      using all unfolding ids(2) by blast
    ultimately show ?thesis using Some all g(2) by simp
  qed
qed

theorem UpdateVirtualKeyBudgetUsage_charges_hierarchy_once_witness:
  "\<exists>b'. LoadBudget (fst (UpdateVirtualKeyBudgetUsageInMemory team_store (\<lambda>_ _. 63900000000000000000) []
     (Some team_vk) ''openai'' (Fin 200))) ''b1'' = Some b' \<and> LastReset plain_budget \<le> LastReset b'"
  using UpdateVirtualKeyBudgetUsage_charges_hierarchy_once [OF team_store_rows(1) team_store_owned(2)
      prod.collapse [symmetric], where k = "''b1''" and p = "''openai''" and cost = "Fin 200"
      and clocks = "\<lambda>_ _. 63900000000000000000"]
  by (auto simp: team_store_owned team_store_rows(2))

text \<open>
  C3: what a key spends closes its own gate. When the charge of one request brings a budget of
  the hierarchy to its effective limit and that budget's window is still open, the next
  request of any key under that budget is denied.
\<close>

theorem spending_closes_the_gate:
  assumes "rows_ok gs" "customers_exclusive gs scoped vk p" "k \<in> owned_budget_ids gs scoped vk p"
    and "UpdateVirtualKeyBudgetUsageInMemory gs clocks scoped (Some vk) p cost = (gs', e)"
    and "LoadBudget gs k = Some b" "LoadBudget gs' k = Some b'" "LastReset b' = LastReset b"
    and "f64_le (EffectiveMaxLimit b') (f64_add (CurrentUsage b) cost)" "budgetResetTarget b' now = None"
    and "k \<in> owned_budget_ids gs scoped' vk' (req_provider req)"
  shows "fst (CheckVirtualKeyBudget gs' now scoped' (Some vk') req []) = DecisionBudgetExceeded"
proof -
  let ?ids = "collectBudgetIDsFromMemory gs scoped (Some vk) p"
  have g: "gs' = bump_all clocks cost ?ids gs"
    using assms(4) by (auto simp: UpdateVirtualKeyBudgetUsageInMemory_def)
  note ids = hierarchy_ids [OF assms(1,2)]
  have live: "LoadBudget gs j \<noteq> None" if "j \<in> set ?ids" for j using that unfolding ids(2) by blast
  note all = bump_all_rows [OF assms(1) ids(1) live, of clocks cost, folded g]
  then obtain clock where "b' = row_bump budget_due budget_reset (budget_charge cost) clock 0 b"
    using assms(3,5,6) unfolding ids(2) by (metis (mono_tags, lifting) mem_Collect_eq option.discI option.inject)
  then have "CurrentUsage b' = f64_add (CurrentUsage b) cost"
    using budget_row.bump_accounts_once [of b cost clock 0] assms(7) by simp
  then have "\<not> budget_passes now [] b'" using assms(8,9) by (simp add: budget_passes_def)
  moreover have "k \<in> owned_budget_ids gs' scoped' vk' (req_provider req)"
    using assms(10) owned_owners [of gs' gs] owners_bump_all g by auto
  ultimately have "fst (CheckVirtualKeyBudget gs' now scoped' (Some vk') req []) \<noteq> DecisionAllow"
    using CheckVirtualKeyBudget_rows [of gs' now scoped' vk' req "[]"] all assms(6) by blast
  then show ?thesis
    using CheckBudget_denies [of now "collectBudgetsFromHierarchy gs' scoped' (Some vk') (req_provider req)" "[]"]
    by (auto simp: CheckVirtualKeyBudget_def)
qed

theorem spending_closes_the_gate_witness:
  "fst (CheckVirtualKeyBudget (fst (UpdateVirtualKeyBudgetUsageInMemory team_store (\<lambda>_ _. 63900000000000000000) []
     (Some team_vk) ''openai'' (Fin 200))) 63900000000000000000 [] (Some team_vk) None []) = DecisionBudgetExceeded"
proof (rule spending_closes_the_gate [OF team_store_rows(1) team_store_owned(2) _ prod.collapse [symmetric] _
      team_store_charge])
  show "LoadBudget team_store ''b1'' = Some plain_budget" by (simp add: team_store_rows(2))
  show "f64_le (EffectiveMaxLimit (plain_budget\<lparr>CurrentUsage := Fin 207\<rparr>)) (f64_add (CurrentUsage plain_budget) (Fin 200))"
    using plain_budget_fields(6)
    by (cases "f64_le (OverrideAmount plain_budget) (Fin 0)")
       (simp_all add: EffectiveMaxLimit_def HasActiveOverride_def plain_budget_fields)
qed (simp_all add: team_store_owned plain_budget_open)

end
