(* ===== verification/Resolver.thy ===== *)
theory Resolver
  imports Hierarchy
begin

text \<open>
  The decision engine: plugins/governance/resolver.go, the request filter of
  plugins/governance/utils.go, the allow-list test of framework/modelcatalog/models.go and the
  model string of core/schemas/utils.go.

  The resolver calls the governance store; here it holds the local store. The contents of the
  model catalog and the set of known providers are data: the catalog is a record of the two
  lookups the code makes, and the known providers are the argument \<open>known\<close>. The values the
  code reads from and writes to the request context are the fields of \<open>BifrostContext\<close>, \<open>None\<close>
  for a key that is not set. All clock readings of one evaluation are the argument \<open>now\<close>.
  A user's own budgets and limits are enforced outside this store, whose checks of them
  always allow.
\<close>

section \<open>Data\<close>

record UsageInfo =
  TokensUsedMinute :: int
  TokensUsedHour :: int
  TokensUsedDay :: int
  RequestsUsedMinute :: int
  RequestsUsedHour :: int
  RequestsUsedDay :: int
  VKBudgetUsage :: int
  TeamBudgetUsage :: int
  CustomerBudgetUsage :: int

record EvaluationResult =
  res_Decision :: Decision
  res_Reason :: string
  res_VirtualKey :: "TableVirtualKey option"
  res_RateLimitInfo :: "TableRateLimit option"
  res_BudgetInfo :: "TableBudget list"
  res_UsageInfo :: "UsageInfo option"

definition result :: "Decision \<Rightarrow> string \<Rightarrow> TableVirtualKey option \<Rightarrow> EvaluationResult" where
  "result d reason vk = \<lparr>res_Decision = d, res_Reason = reason, res_VirtualKey = vk, res_RateLimitInfo = None,
     res_BudgetInfo = [], res_UsageInfo = None\<rparr>"

record BifrostContext =
  ctx_VirtualKeyID :: "string option"
  ctx_VirtualKeyName :: "string option"
  ctx_TeamID :: "string option"
  ctx_TeamName :: "string option"
  ctx_CustomerID :: "string option"
  ctx_CustomerName :: "string option"
  ctx_IncludeOnlyKeys :: "string list option"
  ctx_ScopedCustomerID :: string
  ctx_SkipBudgetAndRateLimits :: bool
  ctx_MCPAddedTools :: "string list option"
  ctx_MCPIncludeTools :: "string list option"
  ctx_RequestHeaders :: "(string, string) gomap"
  ctx_Rejected :: "bool option"
  ctx_MCPIncludeClients :: bool
  ctx_RoutingAllowedProviders :: "string list option"
  ctx_RoutingEnginesUsed :: "string list"
  ctx_RoutingPinnedAPIKeyID :: "string option"
  ctx_RoutingRuleID :: "string option"
  ctx_RoutingRuleName :: "string option"

text \<open>Of a custom provider's restrictions the code reads only whether listing models is allowed.\<close>

record ProviderConfig =
  CustomProviderConfig :: "bool option option"

record ModelCatalog =
  GetProvidersForModel :: "string \<Rightarrow> string list"
  GetModelsForProvider :: "string \<Rightarrow> string list"

record BudgetResolver =
  r_store :: LocalGovernanceStore
  r_modelCatalog :: "ModelCatalog option"
  r_providers :: "(string, ProviderConfig) gomap option"

section \<open>Model filtering\<close>

definition ParseModelString :: "(string \<Rightarrow> bool) \<Rightarrow> string \<Rightarrow> string \<Rightarrow> string \<times> string" where
  "ParseModelString known model defaultProvider =
     (if CHR ''/'' \<in> set model then
        (let prefix = takeWhile (\<lambda>c. c \<noteq> CHR ''/'') model;
             rest = tl (dropWhile (\<lambda>c. c \<noteq> CHR ''/'') model)
         in if known prefix then (prefix, rest) else (defaultProvider, model))
      else (defaultProvider, model))"

definition IsModelAllowedForProvider ::
    "(string \<Rightarrow> bool) \<Rightarrow> ModelCatalog \<Rightarrow> string \<Rightarrow> string \<Rightarrow> ProviderConfig option \<Rightarrow> string list \<Rightarrow> bool" where
  "IsModelAllowedForProvider known mc provider model providerConfig allowedModels =
     (let custom = (case providerConfig of None \<Rightarrow> None | Some pc \<Rightarrow> CustomProviderConfig pc);
          isCustomProvider = (custom \<noteq> None);
          hasListModelsEndpointDisabled = (case custom of None \<Rightarrow> False | Some None \<Rightarrow> False | Some (Some ok) \<Rightarrow> \<not> ok)
      in if wl_IsUnrestricted allowedModels then
           (if isCustomProvider \<and> hasListModelsEndpointDisabled then True
            else provider \<in> set (GetProvidersForModel mc model))
         else if allowedModels = [] then False
         else list_ex (\<lambda>allowedModel. allowedModel = model
              \<or> (CHR ''/'' \<in> set allowedModel \<and> allowedModel \<in> set (GetModelsForProvider mc provider)
                 \<and> snd (ParseModelString known allowedModel []) = model)) allowedModels)"

definition pc_allows ::
    "(string \<Rightarrow> bool) \<Rightarrow> BudgetResolver \<Rightarrow> string \<Rightarrow> string \<Rightarrow> TableVirtualKeyProviderConfig \<Rightarrow> bool" where
  "pc_allows known r provider model pc =
     (case (r_modelCatalog r, r_providers r) of
        (Some mc, Some configured) \<Rightarrow>
          IsModelAllowedForProvider known mc provider model (gm_get configured provider) (AllowedModels pc)
      | _ \<Rightarrow> wl_IsAllowed (AllowedModels pc) model)"

definition isModelAllowed :: "(string \<Rightarrow> bool) \<Rightarrow> BudgetResolver \<Rightarrow> TableVirtualKey \<Rightarrow> string \<Rightarrow> string \<Rightarrow> bool" where
  "isModelAllowed known r vk provider model =
     (if vk_pcs vk = [] then False
      else if list_ex (\<lambda>pc. pc_Provider pc = provider \<and> bl_IsBlocked (BlacklistedModels pc) model) (vk_pcs vk) then False
      else list_ex (\<lambda>pc. pc_Provider pc = provider \<and> pc_allows known r provider model pc) (vk_pcs vk))"

definition isProviderAllowed :: "TableVirtualKey \<Rightarrow> string \<Rightarrow> bool" where
  "isProviderAllowed vk provider =
     (if vk_pcs vk = [] then False else list_ex (\<lambda>pc. pc_Provider pc = provider) (vk_pcs vk))"

definition modelless_requests :: "string list" where
  "modelless_requests =
     [''list_models'', ''mcp_tool_execution'', ''batch_create'', ''batch_list'', ''batch_retrieve'', ''batch_cancel'',
      ''batch_results'', ''file_upload'', ''file_list'', ''file_retrieve'', ''file_delete'', ''file_content'',
      ''container_create'', ''container_list'', ''container_retrieve'', ''container_delete'',
      ''container_file_create'', ''container_file_list'', ''container_file_retrieve'', ''container_file_content'',
      ''container_file_delete'', ''cached_content_list'', ''cached_content_retrieve'', ''cached_content_update'',
      ''cached_content_delete'', ''responses_retrieve'', ''responses_retrieve_stream'', ''responses_delete'',
      ''responses_cancel'', ''responses_input_items'', ''video_retrieve'', ''video_download'', ''video_list'',
      ''video_delete'', ''video_remix'', ''passthrough'', ''passthrough_stream'']"

definition IsModelRequiredForRequest :: "string \<Rightarrow> bool" where
  "IsModelRequiredForRequest requestType = (requestType \<notin> set modelless_requests)"

section \<open>Violations\<close>

definition isRateLimitViolation :: "Decision \<Rightarrow> bool" where
  "isRateLimitViolation d = (d = DecisionRateLimited \<or> d = DecisionTokenLimited \<or> d = DecisionRequestLimited)"

definition isBudgetViolation :: "Decision \<Rightarrow> bool" where
  "isBudgetViolation d = (d = DecisionBudgetExceeded)"

fun decision_string :: "Decision \<Rightarrow> string" where
  "decision_string DecisionAllow = ''allow''"
| "decision_string DecisionVirtualKeyNotFound = ''virtual_key_not_found''"
| "decision_string DecisionVirtualKeyBlocked = ''virtual_key_blocked''"
| "decision_string DecisionRateLimited = ''rate_limited''"
| "decision_string DecisionBudgetExceeded = ''budget_exceeded''"
| "decision_string DecisionTokenLimited = ''token_limited''"
| "decision_string DecisionRequestLimited = ''request_limited''"
| "decision_string DecisionModelBlocked = ''model_blocked''"
| "decision_string DecisionProviderBlocked = ''provider_blocked''"
| "decision_string DecisionMCPToolBlocked = ''mcp_tool_blocked''"

definition reasonFromErr :: "err option \<Rightarrow> Decision \<Rightarrow> string" where
  "reasonFromErr e d = (case e of Some (Err msg) \<Rightarrow> msg | None \<Rightarrow> ''policy violation ('' @ decision_string d @ '')'')"

text \<open>
  \<open>guard_rl\<close> and \<open>guard_budget\<close> are the conditional returns after a check: the result when the
  check failed, \<open>None\<close> to go on.
\<close>

definition guard_rl :: "string \<Rightarrow> TableVirtualKey option \<Rightarrow> verdict \<Rightarrow> EvaluationResult option" where
  "guard_rl prefix vk v =
     (case v of (d, e) \<Rightarrow>
       if e \<noteq> None \<or> isRateLimitViolation d then Some (result d (prefix @ reasonFromErr e d) vk) else None)"

definition guard_budget :: "string \<Rightarrow> TableVirtualKey option \<Rightarrow> verdict \<Rightarrow> EvaluationResult option" where
  "guard_budget prefix vk v =
     (case v of (d, e) \<Rightarrow>
       if e \<noteq> None \<or> isBudgetViolation d then Some (result d (prefix @ reasonFromErr e d) vk) else None)"

fun first_failure :: "EvaluationResult option list \<Rightarrow> EvaluationResult option" where
  "first_failure [] = None"
| "first_failure (Some res # gs) = Some res"
| "first_failure (None # gs) = first_failure gs"

definition finish :: "EvaluationResult option \<Rightarrow> EvaluationResult \<Rightarrow> EvaluationResult" where
  "finish failure pass = (case failure of Some res \<Rightarrow> res | None \<Rightarrow> pass)"

section \<open>Evaluation\<close>

definition EvaluateModelAndProviderRequest ::
    "BudgetResolver \<Rightarrow> time \<Rightarrow> string \<Rightarrow> string \<Rightarrow> EvaluationResult" where
  "EvaluateModelAndProviderRequest r now provider model =
     (let gs = r_store r;
          request = Some \<lparr>req_VirtualKey = [], req_Provider = provider, req_Model = model, req_UserID = []\<rparr>
      in finish (first_failure
           ((if provider \<noteq> [] then
               [guard_rl ''Provider-level rate limit check failed: '' None (CheckProviderRateLimit gs now request [] []),
                guard_budget ''Provider-level budget exceeded: '' None (CheckProviderBudget gs now request [])]
             else [])
            @ (if model \<noteq> [] then
               [guard_rl ''Model-level rate limit check failed: '' None (CheckModelRateLimit gs now request [] []),
                guard_budget ''Model-level budget exceeded: '' None (CheckModelBudget gs now request [])]
             else [])))
         (result DecisionAllow
            ''Request allowed by governance policy (provider-level and model-level checks passed)'' None))"

definition EvaluateCustomerRequest :: "BudgetResolver \<Rightarrow> time \<Rightarrow> string \<Rightarrow> EvaluationResult" where
  "EvaluateCustomerRequest r now customerID =
     (if customerID = [] then result DecisionAllow ''No customer ID provided, skipping customer-level checks'' None
      else finish (first_failure
        [guard_rl ''Customer-level rate limit exceeded: '' None (CheckCustomerRateLimit (r_store r) now customerID [] []),
         guard_budget ''Customer-level budget exceeded: '' None (CheckCustomerBudget (r_store r) now customerID [])])
        (result DecisionAllow ''Customer-level checks passed'' None))"

definition EvaluateTeamRequest :: "BudgetResolver \<Rightarrow> time \<Rightarrow> string \<Rightarrow> EvaluationResult" where
  "EvaluateTeamRequest r now teamID =
     (if teamID = [] then result DecisionAllow ''No team ID provided, skipping team-level checks'' None
      else finish (first_failure
        [guard_rl ''Team-level rate limit exceeded: '' None (CheckTeamRateLimit (r_store r) now teamID [] []),
         guard_budget ''Team-level budget exceeded: '' None (CheckTeamBudget (r_store r) now teamID [])])
        (result DecisionAllow ''Team-level checks passed'' None))"

definition EvaluateUserRequest ::
    "BudgetResolver \<Rightarrow> time \<Rightarrow> string \<Rightarrow> EvaluationRequest \<Rightarrow> EvaluationResult" where
  "EvaluateUserRequest r now userID request =
     (if userID = [] then result DecisionAllow ''No user ID provided, skipping user-level checks'' None
      else let gs = r_store r in finish (first_failure
        ([guard_rl ''User-level rate limit exceeded: '' None (CheckUserRateLimit gs userID),
          guard_budget ''User-level budget exceeded: '' None (CheckUserBudget gs userID)]
         @ (if req_Model request \<noteq> [] then
            [guard_rl ''User-level model rate limit exceeded: '' None
               (CheckScopedModelRateLimit gs now ModelConfigScopeUser userID (Some request) [] []),
             guard_budget ''User-level model budget exceeded: '' None
               (CheckScopedModelBudget gs now ModelConfigScopeUser userID (Some request) [])] else [])))
        (result DecisionAllow ''User-level checks passed'' None))"

definition checkRateLimitHierarchy ::
    "BudgetResolver \<Rightarrow> time \<Rightarrow> string \<Rightarrow> TableVirtualKey \<Rightarrow> EvaluationRequest \<Rightarrow> EvaluationResult option" where
  "checkRateLimitHierarchy r now scoped vk request =
     (let gs = r_store r in
      case guard_rl ''Rate limit check failed: '' (Some vk)
             (CheckVirtualKeyRateLimit gs now scoped (Some vk) (Some request) [] []) of
        None \<Rightarrow> None
      | Some res \<Rightarrow>
          let info = (case find (\<lambda>pc. pc_Provider pc = req_Provider request \<and> pc_RateLimitID pc \<noteq> None) (vk_pcs vk) of
                None \<Rightarrow> None
              | Some pc \<Rightarrow> (case pc_RateLimitID pc of None \<Rightarrow> None | Some i \<Rightarrow> LoadRateLimit gs i));
              info' = (case (info, vk_RateLimitID vk) of (None, Some i) \<Rightarrow> LoadRateLimit gs i | _ \<Rightarrow> info)
          in Some (res\<lparr>res_RateLimitInfo := info'\<rparr>))"

definition checkBudgetHierarchy ::
    "BudgetResolver \<Rightarrow> time \<Rightarrow> string \<Rightarrow> TableVirtualKey \<Rightarrow> EvaluationRequest \<Rightarrow> EvaluationResult option" where
  "checkBudgetHierarchy r now scoped vk request =
     guard_budget ''Budget exceeded: '' (Some vk)
       (CheckVirtualKeyBudget (r_store r) now scoped (Some vk) (Some request) [])"

definition vk_identity ::
    "(string \<Rightarrow> bool) \<Rightarrow> BudgetResolver \<Rightarrow> time \<Rightarrow> TableVirtualKey \<Rightarrow> string \<Rightarrow> string \<Rightarrow> string \<Rightarrow> EvaluationResult option" where
  "vk_identity known r now vk provider model requestType =
     (if \<not> IsActiveValue (Some vk) then Some (result DecisionVirtualKeyBlocked ''Virtual key is inactive'' None)
      else if IsExpiredAt (Some vk) now then Some (result DecisionVirtualKeyBlocked ''Virtual key has expired'' None)
      else if requestType \<noteq> ''mcp_tool_execution'' \<and> requestType \<noteq> ''list_models'' \<and> \<not> isProviderAllowed vk provider
        then Some (result DecisionProviderBlocked
               (''Provider '' @ [CHR 0x27] @ provider @ [CHR 0x27] @ '' is not allowed for this virtual key'') (Some vk))
      else if (IsModelRequiredForRequest requestType
            \<or> ((requestType = ''passthrough'' \<or> requestType = ''passthrough_stream'') \<and> model \<noteq> []))
          \<and> \<not> isModelAllowed known r vk provider model
        then Some (result DecisionModelBlocked
               (''Model '' @ [CHR 0x27] @ model @ [CHR 0x27] @ '' is not allowed for this virtual key'') (Some vk))
      else None)"

definition vk_limit_checks ::
    "BudgetResolver \<Rightarrow> time \<Rightarrow> string \<Rightarrow> TableVirtualKey \<Rightarrow> EvaluationRequest \<Rightarrow> EvaluationResult option list" where
  "vk_limit_checks r now scoped vk request =
     [checkRateLimitHierarchy r now scoped vk request, checkBudgetHierarchy r now scoped vk request]
     @ (if req_Model request \<noteq> [] then
        [guard_rl ''Model-level rate limit check failed (virtual key scope): '' (Some vk)
           (CheckScopedModelRateLimit (r_store r) now ModelConfigScopeVirtualKey (vk_ID vk) (Some request) [] []),
         guard_budget ''Model-level budget exceeded (virtual key scope): '' (Some vk)
           (CheckScopedModelBudget (r_store r) now ModelConfigScopeVirtualKey (vk_ID vk) (Some request) [])]
        else [])"

definition stamp_vk :: "TableVirtualKey \<Rightarrow> BifrostContext \<Rightarrow> BifrostContext" where
  "stamp_vk vk c =
     (let c1 = c\<lparr>ctx_VirtualKeyID := Some (vk_ID vk), ctx_VirtualKeyName := Some (vk_Name vk)\<rparr>;
          c2 = (case vk_Team vk of None \<Rightarrow> c1
             | Some t \<Rightarrow>
                 let d = c1\<lparr>ctx_TeamID := Some (team_ID t), ctx_TeamName := Some (team_Name t)\<rparr>
                 in (case team_Customer t of None \<Rightarrow> d
                   | Some cu \<Rightarrow> d\<lparr>ctx_CustomerID := Some (customer_ID cu), ctx_CustomerName := Some (customer_Name cu)\<rparr>))
      in case vk_Customer vk of None \<Rightarrow> c2
         | Some cu \<Rightarrow> c2\<lparr>ctx_CustomerID := Some (customer_ID cu), ctx_CustomerName := Some (customer_Name cu)\<rparr>)"

definition filter_keys :: "TableVirtualKey \<Rightarrow> string \<Rightarrow> BifrostContext \<Rightarrow> BifrostContext" where
  "filter_keys vk provider c =
     (case find (\<lambda>pc. pc_Provider pc = provider) (vk_pcs vk) of None \<Rightarrow> c
      | Some pc \<Rightarrow> if AllowAllKeys pc then c else c\<lparr>ctx_IncludeOnlyKeys := Some (pc_Keys pc)\<rparr>)"

definition EvaluateVirtualKeyRequest ::
    "(string \<Rightarrow> bool) \<Rightarrow> BudgetResolver \<Rightarrow> time \<Rightarrow> BifrostContext \<Rightarrow> string \<Rightarrow> string \<Rightarrow> string \<Rightarrow> string \<Rightarrow> bool
      \<Rightarrow> EvaluationResult \<times> BifrostContext" where
  "EvaluateVirtualKeyRequest known r now ctx virtualKeyValue provider model requestType skipRateLimitsAndBudgets =
     (case GetVirtualKey (r_store r) virtualKeyValue of
        None \<Rightarrow> (result DecisionVirtualKeyNotFound ''Virtual key not found'' None, ctx)
      | Some vk \<Rightarrow>
        let c = stamp_vk vk ctx;
            request = \<lparr>req_VirtualKey = virtualKeyValue, req_Provider = provider, req_Model = model, req_UserID = []\<rparr>
        in (case vk_identity known r now vk provider model requestType of
              Some res \<Rightarrow> (res, c)
            | None \<Rightarrow>
                (case (if skipRateLimitsAndBudgets then None
                       else first_failure (vk_limit_checks r now (ctx_ScopedCustomerID ctx) vk request)) of
                   Some res \<Rightarrow> (res, c)
                 | None \<Rightarrow> (result DecisionAllow ''Request allowed by governance policy'' (Some vk),
                            filter_keys vk provider c))))"

definition isProviderBudgetViolated ::
    "BudgetResolver \<Rightarrow> time \<Rightarrow> string \<Rightarrow> TableVirtualKey \<Rightarrow> TableVirtualKeyProviderConfig \<Rightarrow> bool" where
  "isProviderBudgetViolated r now scoped vk config =
     (let gs = r_store r;
          request = Some \<lparr>req_VirtualKey = [], req_Provider = pc_Provider config, req_Model = [], req_UserID = []\<rparr>
      in if snd (CheckProviderBudget gs now request []) \<noteq> None then True
         else if pc_Budgets config = [] then False
         else snd (CheckVirtualKeyBudget gs now scoped (Some vk) request []) \<noteq> None)"

definition isProviderRateLimitViolated ::
    "BudgetResolver \<Rightarrow> time \<Rightarrow> string \<Rightarrow> TableVirtualKey \<Rightarrow> TableVirtualKeyProviderConfig \<Rightarrow> bool" where
  "isProviderRateLimitViolated r now scoped vk config =
     (let gs = r_store r;
          request = Some \<lparr>req_VirtualKey = [], req_Provider = pc_Provider config, req_Model = [], req_UserID = []\<rparr>;
          violated = (\<lambda>(d, e). e \<noteq> None \<or> isRateLimitViolation d)
      in if violated (CheckProviderRateLimit gs now request [] []) then True
         else if pc_RateLimitID config = None then False
         else violated (CheckVirtualKeyRateLimit gs now scoped (Some vk) request [] []))"

end
