(* ===== verification/Governance_Plugin.thy ===== *)
theory Governance_Plugin
  imports Resolver
begin

text \<open>
  The gates of the plugin: plugins/governance/main.go and utils.go. \<open>EvaluateGovernanceRequest\<close>
  composes the evaluations of the resolver, the hooks before an LLM call and before a tool
  execution call it, and the tool grants of a virtual key decide which MCP tools a request
  may use.

  The plugin reads the clients that allow all virtual keys from its in-memory store, here
  the field \<open>p_allowAllClients\<close>, \<open>None\<close> when there is no such store; it maps client identifiers to
  client names. A hook returns the error of its short circuit, \<open>None\<close> to go on, and the
  context. The default branch of the final switch is for decisions that are not in the
  enumeration and has no counterpart.
\<close>

record GovernancePlugin =
  p_resolver :: BudgetResolver
  p_isVkMandatory :: "bool option"
  p_isEnterprise :: bool
  p_requiredHeaders :: "string list option"
  p_allowAllClients :: "(string, string) gomap option"
  p_disableAutoToolInject :: "bool option"

record BifrostError =
  be_Type :: string
  be_StatusCode :: int
  be_Message :: string

section \<open>Tool grants\<close>

definition allow_all :: "GovernancePlugin \<Rightarrow> (string, string) gomap" where
  "allow_all p = (case p_allowAllClients p of None \<Rightarrow> [] | Some m \<Rightarrow> m)"

definition mcp_matches :: "string \<Rightarrow> string \<Rightarrow> bool" where
  "mcp_matches toolPattern clientName =
     (toolPattern = clientName @ ''-*'' \<or> hasPrefix toolPattern (clientName @ ''-''))"

definition isMCPToolAllowedByVKWith :: "TableVirtualKey \<Rightarrow> string \<Rightarrow> (string, string) gomap \<Rightarrow> bool" where
  "isMCPToolAllowedByVKWith vk toolPattern allowAllClients =
     (case find (\<lambda>c. mcp_matches toolPattern (mcpclient_Name (mcp_MCPClient c))) (vk_MCPConfigs vk) of
        Some c \<Rightarrow>
          let clientName = mcpclient_Name (mcp_MCPClient c) in
          if toolPattern = clientName @ ''-*'' then ToolsToExecute c \<noteq> []
          else if wl_IsUnrestricted (ToolsToExecute c) then True
          else wl_Contains (ToolsToExecute c) (drop (length clientName + 1) toolPattern)
      | None \<Rightarrow> list_ex (\<lambda>(_, clientName). mcp_matches toolPattern clientName) allowAllClients)"

definition isMCPToolAllowedByVK :: "GovernancePlugin \<Rightarrow> TableVirtualKey \<Rightarrow> string \<Rightarrow> bool" where
  "isMCPToolAllowedByVK p vk toolPattern = isMCPToolAllowedByVKWith vk toolPattern (allow_all p)"

definition mcp_grants :: "TableVirtualKeyMCPConfig \<Rightarrow> string list" where
  "mcp_grants c =
     (let clientName = mcpclient_Name (mcp_MCPClient c) in
      if ToolsToExecute c = [] then []
      else if wl_IsUnrestricted (ToolsToExecute c) then [clientName @ ''-*'']
      else map (\<lambda>tool. clientName @ ''-'' @ tool) (filter (\<lambda>tool. tool \<noteq> []) (ToolsToExecute c)))"

definition computeMCPIncludeToolsWith :: "TableVirtualKey \<Rightarrow> (string, string) gomap \<Rightarrow> string list" where
  "computeMCPIncludeToolsWith vk allowAllVKsClients =
     (let handledClients = map (\<lambda>c. mcpclient_ClientID (mcp_MCPClient c)) (vk_MCPConfigs vk)
      in concat (map mcp_grants (vk_MCPConfigs vk))
         @ map (\<lambda>(_, clientName). clientName @ ''-*'')
             (filter (\<lambda>(clientID, _). clientID \<notin> set handledClients) allowAllVKsClients))"

definition computeMCPIncludeTools :: "GovernancePlugin \<Rightarrow> TableVirtualKey \<Rightarrow> string list" where
  "computeMCPIncludeTools p vk = computeMCPIncludeToolsWith vk (allow_all p)"

definition cut_wildcard :: "string \<Rightarrow> string option" where
  "cut_wildcard pattern =
     (if 2 \<le> length pattern \<and> drop (length pattern - 2) pattern = ''-*''
      then Some (take (length pattern - 2) pattern) else None)"

definition add_tool :: "string \<Rightarrow> string list \<Rightarrow> string list" where
  "add_tool tool pruned = (if tool \<in> set pruned then pruned else pruned @ [tool])"

definition prune_tool :: "TableVirtualKey \<Rightarrow> (string, string) gomap \<Rightarrow> string \<Rightarrow> string list \<Rightarrow> string list" where
  "prune_tool vk allowAllClients pattern pruned =
     (let vkTools = computeMCPIncludeToolsWith vk allowAllClients in
      if pattern = [] then pruned
      else case cut_wildcard pattern of
        Some clientName \<Rightarrow>
          if pattern \<in> set vkTools then add_tool pattern pruned
          else fold (\<lambda>tool acc. if hasPrefix tool (clientName @ ''-'') then add_tool tool acc else acc) vkTools pruned
      | None \<Rightarrow> if isMCPToolAllowedByVKWith vk pattern allowAllClients then add_tool pattern pruned else pruned)"

definition pruneMCPIncludeToolsFromContext ::
    "GovernancePlugin \<Rightarrow> BifrostContext \<Rightarrow> TableVirtualKey \<Rightarrow> BifrostContext \<times> bool" where
  "pruneMCPIncludeToolsFromContext p ctx vk =
     (case ctx_MCPIncludeTools ctx of None \<Rightarrow> (ctx, False)
      | Some requested \<Rightarrow>
          (ctx\<lparr>ctx_MCPIncludeTools := Some (fold (prune_tool vk (allow_all p)) requested [])\<rparr>, True))"

section \<open>Required headers\<close>

fun join_comma :: "string list \<Rightarrow> string" where
  "join_comma [] = []"
| "join_comma [s] = s"
| "join_comma (s # t # ss) = s @ '', '' @ join_comma (t # ss)"

definition validateRequiredHeaders :: "GovernancePlugin \<Rightarrow> BifrostContext \<Rightarrow> BifrostError option" where
  "validateRequiredHeaders p ctx =
     (case p_requiredHeaders p of None \<Rightarrow> None
      | Some hs \<Rightarrow>
          let missing = filter (\<lambda>h. gm_get (ctx_RequestHeaders ctx) (toLower h) = None) hs in
          if missing = [] then None
          else Some \<lparr>be_Type = ''missing_required_headers'', be_StatusCode = 400,
                     be_Message = ''missing required headers: '' @ join_comma missing\<rparr>)"

section \<open>Listing models\<close>

definition filterModelsForVirtualKey ::
    "(string \<Rightarrow> bool) \<Rightarrow> GovernancePlugin \<Rightarrow> string list \<Rightarrow> string \<Rightarrow> string list" where
  "filterModelsForVirtualKey known p models virtualKeyValue =
     (case GetVirtualKey (r_store (p_resolver p)) virtualKeyValue of None \<Rightarrow> []
      | Some vk \<Rightarrow>
          if vk_pcs vk = [] then []
          else filter (\<lambda>model.
            let (provider, modelName) = ParseModelString known model []
            in \<not> list_ex (\<lambda>pc. pc_Provider pc = provider \<and> bl_IsBlocked (BlacklistedModels pc) modelName) (vk_pcs vk)
               \<and> list_ex (\<lambda>pc. pc_Provider pc = provider \<and> pc_allows known (p_resolver p) provider modelName pc)
                   (vk_pcs vk)) models)"

section \<open>The evaluation\<close>

definition hierarchy_customer :: "TableVirtualKey \<Rightarrow> string \<times> bool" where
  "hierarchy_customer vk =
     (case vk_CustomerID vk of Some c \<Rightarrow> (c, False)
      | None \<Rightarrow> (case vk_Customer vk of Some cu \<Rightarrow> (customer_ID cu, False)
      | None \<Rightarrow> (case vk_Team vk of None \<Rightarrow> ([], False)
      | Some t \<Rightarrow> (case team_CustomerID t of Some c \<Rightarrow> (c, True)
      | None \<Rightarrow> (case team_Customer t of Some cu \<Rightarrow> (customer_ID cu, True) | None \<Rightarrow> ([], False))))))"

definition hierarchy_team :: "TableVirtualKey \<Rightarrow> string" where
  "hierarchy_team vk =
     (case vk_TeamID vk of Some t \<Rightarrow> t
      | None \<Rightarrow> (case vk_Team vk of Some t \<Rightarrow> team_ID t | None \<Rightarrow> []))"

definition check_added_tools :: "GovernancePlugin \<Rightarrow> BifrostContext \<Rightarrow> EvaluationResult \<Rightarrow> EvaluationResult" where
  "check_added_tools p ctx res =
     (case (res_VirtualKey res, ctx_MCPAddedTools ctx) of
        (Some vk, Some addedTools) \<Rightarrow>
          let disallowed = filter (\<lambda>tool. \<not> isMCPToolAllowedByVKWith vk tool (allow_all p)) addedTools in
          if res_Decision res = DecisionAllow \<and> disallowed \<noteq> []
          then result DecisionMCPToolBlocked
                 (''MCP tools not allowed for virtual key '' @ [CHR 0x27] @ vk_Name vk @ [CHR 0x27] @ '': ''
                    @ join_comma disallowed) (Some vk)
          else res
      | _ \<Rightarrow> res)"

fun decision_status :: "Decision \<Rightarrow> int" where
  "decision_status DecisionRateLimited = 429"
| "decision_status DecisionTokenLimited = 429"
| "decision_status DecisionRequestLimited = 429"
| "decision_status DecisionBudgetExceeded = 402"
| "decision_status d = 403"

definition customer_stage ::
    "BudgetResolver \<Rightarrow> time \<Rightarrow> BifrostContext \<Rightarrow> TableVirtualKey option \<Rightarrow> EvaluationResult \<Rightarrow> EvaluationResult" where
  "customer_stage r now ctx hierarchyVK res =
     (case hierarchyVK of None \<Rightarrow> res
      | Some vk \<Rightarrow>
        if \<not> ctx_SkipBudgetAndRateLimits ctx \<and> res_Decision res = DecisionAllow then
          let (customerID, customerFromTeam) = hierarchy_customer vk;
              scoped = ctx_ScopedCustomerID ctx;
              scopedAway = (customerFromTeam \<and> scoped \<noteq> [] \<and> scoped \<noteq> customerID)
          in if customerID \<noteq> [] \<and> \<not> scopedAway then EvaluateCustomerRequest r now customerID else res
        else res)"

definition team_stage ::
    "BudgetResolver \<Rightarrow> time \<Rightarrow> BifrostContext \<Rightarrow> TableVirtualKey option \<Rightarrow> EvaluationResult \<Rightarrow> EvaluationResult" where
  "team_stage r now ctx hierarchyVK res =
     (case hierarchyVK of None \<Rightarrow> res
      | Some vk \<Rightarrow>
        if \<not> ctx_SkipBudgetAndRateLimits ctx \<and> res_Decision res = DecisionAllow \<and> hierarchy_team vk \<noteq> []
        then EvaluateTeamRequest r now (hierarchy_team vk) else res)"

definition user_stage ::
    "BudgetResolver \<Rightarrow> time \<Rightarrow> BifrostContext \<Rightarrow> EvaluationRequest \<Rightarrow> EvaluationResult \<Rightarrow> EvaluationResult" where
  "user_stage r now ctx request res =
     (if \<not> ctx_SkipBudgetAndRateLimits ctx \<and> res_Decision res = DecisionAllow
      then EvaluateUserRequest r now (req_UserID request) request else res)"

definition decide ::
    "EvaluationResult \<Rightarrow> BifrostContext \<Rightarrow> EvaluationResult option \<times> BifrostError option \<times> BifrostContext" where
  "decide res c =
     (if res_Decision res = DecisionAllow then (Some res, None, c\<lparr>ctx_Rejected := None\<rparr>)
      else (Some res,
            Some \<lparr>be_Type = decision_string (res_Decision res), be_StatusCode = decision_status (res_Decision res),
                  be_Message = res_Reason res\<rparr>,
            if ctx_Rejected c = None then c\<lparr>ctx_Rejected := Some True\<rparr> else c))"

definition EvaluateGovernanceRequest ::
    "(string \<Rightarrow> bool) \<Rightarrow> GovernancePlugin \<Rightarrow> time \<Rightarrow> BifrostContext \<Rightarrow> EvaluationRequest \<Rightarrow> string
      \<Rightarrow> EvaluationResult option \<times> BifrostError option \<times> BifrostContext" where
  "EvaluateGovernanceRequest known p now ctx request requestType =
     (let r = p_resolver p; vkv = req_VirtualKey request; found = GetVirtualKey (r_store r) vkv in
      if vkv \<noteq> [] \<and> found = None then
        (None, Some \<lparr>be_Type = ''virtual_key_not_found'', be_StatusCode = 401,
           be_Message = ''virtual key not found. The provided virtual key does not exist or has been revoked.''\<rparr>, ctx)
      else if vkv = [] \<and> req_UserID request = [] \<and> p_isVkMandatory p = Some True then
        (None, Some \<lparr>be_Type = ''virtual_key_required'', be_StatusCode = 401,
           be_Message = (if p_isEnterprise p
             then ''authentication is required. Provide a virtual key (x-bf-vk), API key, or user token.''
             else ''virtual key is required. Provide a virtual key via the x-bf-vk header.'')\<rparr>, ctx)
      else
        let r0 = EvaluateModelAndProviderRequest r now (req_Provider request) (req_Model request);
            hierarchyVK = (if vkv \<noteq> [] then found else None);
            (r1, c) = (if res_Decision r0 = DecisionAllow \<and> vkv \<noteq> []
               then EvaluateVirtualKeyRequest known r now ctx vkv (req_Provider request) (req_Model request)
                      requestType (req_UserID request \<noteq> [] \<or> ctx_SkipBudgetAndRateLimits ctx)
               else (r0, ctx));
            r4 = user_stage r now c request (team_stage r now c hierarchyVK (customer_stage r now c hierarchyVK r1))
        in decide (check_added_tools p c r4) c)"

section \<open>Hooks\<close>

definition PreLLMHook ::
    "(string \<Rightarrow> bool) \<Rightarrow> GovernancePlugin \<Rightarrow> time \<Rightarrow> BifrostContext \<Rightarrow> EvaluationRequest \<Rightarrow> string
      \<Rightarrow> BifrostError option \<times> BifrostContext" where
  "PreLLMHook known p now ctx request requestType =
     (case validateRequiredHeaders p ctx of Some e \<Rightarrow> (Some e, ctx)
      | None \<Rightarrow> snd (EvaluateGovernanceRequest known p now ctx request requestType))"

definition codeModeToolNames :: "string list" where
  "codeModeToolNames = [''listToolFiles'', ''readToolFile'', ''getToolDocs'', ''executeToolCode'']"

definition IsCodeModeTool :: "string \<Rightarrow> bool" where
  "IsCodeModeTool toolName = (toolName \<in> set codeModeToolNames)"

definition reject ::
    "Decision \<Rightarrow> string \<Rightarrow> BifrostContext \<Rightarrow> BifrostError option \<times> BifrostContext" where
  "reject d message ctx =
     (Some \<lparr>be_Type = decision_string d, be_StatusCode = 403, be_Message = message\<rparr>, ctx\<lparr>ctx_Rejected := Some True\<rparr>)"

definition PreMCPHook ::
    "(string \<Rightarrow> bool) \<Rightarrow> GovernancePlugin \<Rightarrow> time \<Rightarrow> BifrostContext \<Rightarrow> string \<Rightarrow> string \<Rightarrow> bool \<Rightarrow> string
      \<Rightarrow> BifrostError option \<times> BifrostContext" where
  "PreMCPHook known p now ctx virtualKeyValue userID isExecuteTool toolName =
     (if \<not> isExecuteTool then (None, ctx)
      else if IsCodeModeTool toolName then (None, ctx)
      else case validateRequiredHeaders p ctx of Some e \<Rightarrow> (Some e, ctx)
      | None \<Rightarrow>
        (case EvaluateGovernanceRequest known p now ctx
            \<lparr>req_VirtualKey = virtualKeyValue, req_Provider = [], req_Model = [], req_UserID = userID\<rparr>
            ''mcp_tool_execution'' of
          (_, Some e, c) \<Rightarrow> (Some e, c)
        | (_, None, c) \<Rightarrow>
            if virtualKeyValue \<noteq> [] then
              (case GetVirtualKey (r_store (p_resolver p)) virtualKeyValue of
                 None \<Rightarrow> reject DecisionVirtualKeyNotFound ''Virtual key not found'' c
               | Some vk \<Rightarrow>
                   if \<not> IsActiveValue (Some vk) then reject DecisionVirtualKeyBlocked ''Virtual key is inactive'' c
                   else if IsExpiredAt (Some vk) now then reject DecisionVirtualKeyBlocked ''Virtual key has expired'' c
                   else if \<not> isMCPToolAllowedByVK p vk toolName
                     then reject DecisionMCPToolBlocked (''MCP tool '' @ [CHR 0x27] @ toolName @ [CHR 0x27]
                            @ '' is not allowed for virtual key '' @ [CHR 0x27] @ vk_Name vk @ [CHR 0x27]) c
                   else (None, c))
            else (None, c)))"

end
