(* ===== verification/Plugin_Properties.thy ===== *)
theory Plugin_Properties
  imports Governance_Plugin
begin

text \<open>
  What the decision engine and the plugin's gates guarantee. The resolver relies on one law of
  every check of the store: it returns an error exactly when it does not allow. The locale
  \<open>governance_check\<close> states it and proves what the conditional returns of the resolver make
  of such a check; it is interpreted on each check of the local store. From there the
  properties follow the composition: an allowed request passed every check, what the hook
  before a tool execution enforces, and which of the plugin's tool checks can not fire.
\<close>

section \<open>The contract of a check\<close>

locale governance_check =
  fixes check :: "'q \<Rightarrow> verdict"
  assumes error_iff_deny: "snd (check q) = None \<longleftrightarrow> fst (check q) = DecisionAllow"
begin

lemma guard_rl_passes: "guard_rl prefix vk (check q) = None \<longleftrightarrow> fst (check q) = DecisionAllow"
  using error_iff_deny [of q]
  by (cases "check q") (auto simp: guard_rl_def isRateLimitViolation_def)

lemma guard_budget_passes: "guard_budget prefix vk (check q) = None \<longleftrightarrow> fst (check q) = DecisionAllow"
  using error_iff_deny [of q]
  by (cases "check q") (auto simp: guard_budget_def isBudgetViolation_def)

lemma guard_rl_denies: "guard_rl prefix vk (check q) = Some res \<Longrightarrow> res_Decision res \<noteq> DecisionAllow"
  using error_iff_deny [of q]
  by (cases "check q") (auto simp: guard_rl_def isRateLimitViolation_def result_def split: if_splits)

lemma guard_budget_denies: "guard_budget prefix vk (check q) = Some res \<Longrightarrow> res_Decision res \<noteq> DecisionAllow"
  using error_iff_deny [of q]
  by (cases "check q") (auto simp: guard_budget_def isBudgetViolation_def result_def split: if_splits)

end

lemma CheckBudget_error: "snd (CheckBudget now m b) = None \<longleftrightarrow> fst (CheckBudget now m b) = DecisionAllow"
  unfolding CheckBudget_walk by (rule budget_check.walk_error)

lemma CheckRateLimit_error: "snd (CheckRateLimit now m t q) = None \<longleftrightarrow> fst (CheckRateLimit now m t q) = DecisionAllow"
  unfolding CheckRateLimit_walk by (rule rate_check.walk_error)

interpretation provider_rate: governance_check "\<lambda>q. CheckProviderRateLimit gs now q [] []" for gs now
  by unfold_locales (auto simp: CheckProviderRateLimit_def Let_def CheckRateLimit_error split: option.split)

interpretation provider_budget: governance_check "\<lambda>q. CheckProviderBudget gs now q []" for gs now
  by unfold_locales (auto simp: CheckProviderBudget_def Let_def CheckBudget_error split: option.split)

interpretation model_rate: governance_check "\<lambda>q. CheckModelRateLimit gs now q [] []" for gs now
  by unfold_locales (auto simp: CheckModelRateLimit_def Let_def CheckRateLimit_error split: prod.split)

interpretation model_budget: governance_check "\<lambda>q. CheckModelBudget gs now q []" for gs now
  by unfold_locales (auto simp: CheckModelBudget_def Let_def CheckBudget_error split: prod.split)

interpretation scoped_rate: governance_check "\<lambda>(scope, i, q). CheckScopedModelRateLimit gs now scope i q [] []" for gs now
  by unfold_locales (auto simp: CheckScopedModelRateLimit_def Let_def CheckRateLimit_error split: prod.split)

interpretation scoped_budget: governance_check "\<lambda>(scope, i, q). CheckScopedModelBudget gs now scope i q []" for gs now
  by unfold_locales (auto simp: CheckScopedModelBudget_def Let_def CheckBudget_error split: prod.split)

interpretation customer_rate: governance_check "\<lambda>i. CheckCustomerRateLimit gs now i [] []" for gs now
  by unfold_locales (auto simp: CheckCustomerRateLimit_def CheckRateLimit_error split: option.split)

interpretation customer_budget: governance_check "\<lambda>i. CheckCustomerBudget gs now i []" for gs now
  by unfold_locales (auto simp: CheckCustomerBudget_def Let_def CheckBudget_error split: option.split)

interpretation team_rate: governance_check "\<lambda>i. CheckTeamRateLimit gs now i [] []" for gs now
  by unfold_locales (auto simp: CheckTeamRateLimit_def CheckRateLimit_error split: option.split)

interpretation team_budget: governance_check "\<lambda>i. CheckTeamBudget gs now i []" for gs now
  by unfold_locales (auto simp: CheckTeamBudget_def Let_def CheckBudget_error split: option.split)

interpretation vk_rate: governance_check "\<lambda>(vk, q). CheckVirtualKeyRateLimit gs now scoped vk q [] []" for gs now scoped
  by unfold_locales (auto simp: CheckVirtualKeyRateLimit_def CheckRateLimit_error)

interpretation vk_budget: governance_check "\<lambda>(vk, q). CheckVirtualKeyBudget gs now scoped vk q []" for gs now scoped
  by unfold_locales (auto simp: CheckVirtualKeyBudget_def CheckBudget_error split: if_splits)

lemmas guard_passes = provider_rate.guard_rl_passes provider_budget.guard_budget_passes
  model_rate.guard_rl_passes model_budget.guard_budget_passes
  scoped_rate.guard_rl_passes [where q = "(s, i, q)" for s i q, simplified]
  scoped_budget.guard_budget_passes [where q = "(s, i, q)" for s i q, simplified]
  customer_rate.guard_rl_passes customer_budget.guard_budget_passes
  team_rate.guard_rl_passes team_budget.guard_budget_passes
  vk_rate.guard_rl_passes [where q = "(v, q)" for v q, simplified]
  vk_budget.guard_budget_passes [where q = "(v, q)" for v q, simplified]

lemmas guard_denies = provider_rate.guard_rl_denies provider_budget.guard_budget_denies
  model_rate.guard_rl_denies model_budget.guard_budget_denies
  scoped_rate.guard_rl_denies [where q = "(s, i, q)" for s i q, simplified]
  scoped_budget.guard_budget_denies [where q = "(s, i, q)" for s i q, simplified]
  customer_rate.guard_rl_denies customer_budget.guard_budget_denies
  team_rate.guard_rl_denies team_budget.guard_budget_denies
  vk_rate.guard_rl_denies [where q = "(v, q)" for v q, simplified]
  vk_budget.guard_budget_denies [where q = "(v, q)" for v q, simplified]

section \<open>What an evaluation that allows has checked\<close>

text \<open>A list of guards stops at a denial or passes them all.\<close>

definition denying :: "EvaluationResult option \<Rightarrow> bool" where
  "denying g \<longleftrightarrow> (\<forall>res. g = Some res \<longrightarrow> res_Decision res \<noteq> DecisionAllow)"

lemma denying_None [simp]: "denying None"
  by (simp add: denying_def)

lemma first_failure_None: "first_failure gs = None \<longleftrightarrow> list_all (\<lambda>g. g = None) gs"
  by (induction gs rule: first_failure.induct) simp_all

lemma first_failure_denies:
  "list_all denying gs \<Longrightarrow> first_failure gs = Some res \<Longrightarrow> res_Decision res \<noteq> DecisionAllow"
  by (induction gs rule: first_failure.induct) (auto simp: denying_def)

lemma first_failure_allow:
  assumes "list_all denying gs" "res_Decision ok = DecisionAllow"
  shows "res_Decision (finish (first_failure gs) ok) = DecisionAllow \<longleftrightarrow> list_all (\<lambda>g. g = None) gs"
  using assms first_failure_denies [OF assms(1)] first_failure_None [of gs]
  by (cases "first_failure gs") (auto simp: finish_def)

lemma result_fields [simp]: "res_Decision (result d m vk) = d" "res_VirtualKey (result d m vk) = vk"
  "res_Reason (result d m vk) = m"
  by (simp_all add: result_def)

lemma denying_guards [simp]:
  "denying (guard_rl m vk (CheckProviderRateLimit gs now q [] []))"
  "denying (guard_budget m vk (CheckProviderBudget gs now q []))"
  "denying (guard_rl m vk (CheckModelRateLimit gs now q [] []))"
  "denying (guard_budget m vk (CheckModelBudget gs now q []))"
  "denying (guard_rl m vk (CheckScopedModelRateLimit gs now s i q [] []))"
  "denying (guard_budget m vk (CheckScopedModelBudget gs now s i q []))"
  "denying (guard_rl m vk (CheckCustomerRateLimit gs now i [] []))"
  "denying (guard_budget m vk (CheckCustomerBudget gs now i []))"
  "denying (guard_rl m vk (CheckTeamRateLimit gs now i [] []))"
  "denying (guard_budget m vk (CheckTeamBudget gs now i []))"
  "denying (guard_rl m vk (CheckVirtualKeyRateLimit gs now scoped v q [] []))"
  "denying (guard_budget m vk (CheckVirtualKeyBudget gs now scoped v q []))"
  "guard_rl m vk (CheckUserRateLimit gs u) = None" "guard_budget m vk (CheckUserBudget gs u) = None"
  using guard_denies unfolding denying_def
  by (blast | simp add: CheckUserRateLimit_def CheckUserBudget_def guard_rl_def guard_budget_def
        isRateLimitViolation_def isBudgetViolation_def)+

abbreviation plain_request :: "string \<Rightarrow> string \<Rightarrow> EvaluationRequest option" where
  "plain_request provider model \<equiv>
     Some \<lparr>req_VirtualKey = [], req_Provider = provider, req_Model = model, req_UserID = []\<rparr>"

lemma EvaluateModelAndProviderRequest_allow:
  "res_Decision (EvaluateModelAndProviderRequest r now provider model) = DecisionAllow \<longleftrightarrow>
     (provider \<noteq> [] \<longrightarrow> fst (CheckProviderRateLimit (r_store r) now (plain_request provider model) [] []) = DecisionAllow
        \<and> fst (CheckProviderBudget (r_store r) now (plain_request provider model) []) = DecisionAllow)
   \<and> (model \<noteq> [] \<longrightarrow> fst (CheckModelRateLimit (r_store r) now (plain_request provider model) [] []) = DecisionAllow
        \<and> fst (CheckModelBudget (r_store r) now (plain_request provider model) []) = DecisionAllow)"
  unfolding EvaluateModelAndProviderRequest_def Let_def
  by (subst first_failure_allow) (auto simp: guard_passes)

lemma EvaluateCustomerRequest_allow:
  "res_Decision (EvaluateCustomerRequest r now c) = DecisionAllow \<longleftrightarrow>
     (c \<noteq> [] \<longrightarrow> fst (CheckCustomerRateLimit (r_store r) now c [] []) = DecisionAllow
        \<and> fst (CheckCustomerBudget (r_store r) now c []) = DecisionAllow)"
  unfolding EvaluateCustomerRequest_def
  by (cases "c = []"; simp; subst first_failure_allow) (auto simp: guard_passes)

lemma EvaluateTeamRequest_allow:
  "res_Decision (EvaluateTeamRequest r now t) = DecisionAllow \<longleftrightarrow>
     (t \<noteq> [] \<longrightarrow> fst (CheckTeamRateLimit (r_store r) now t [] []) = DecisionAllow
        \<and> fst (CheckTeamBudget (r_store r) now t []) = DecisionAllow)"
  unfolding EvaluateTeamRequest_def
  by (cases "t = []"; simp; subst first_failure_allow) (auto simp: guard_passes)

lemma EvaluateUserRequest_allow:
  "res_Decision (EvaluateUserRequest r now u q) = DecisionAllow \<longleftrightarrow>
     (u \<noteq> [] \<and> req_Model q \<noteq> [] \<longrightarrow>
        fst (CheckScopedModelRateLimit (r_store r) now ModelConfigScopeUser u (Some q) [] []) = DecisionAllow
        \<and> fst (CheckScopedModelBudget (r_store r) now ModelConfigScopeUser u (Some q) []) = DecisionAllow)"
  unfolding EvaluateUserRequest_def Let_def
  by (cases "u = []"; cases "req_Model q = []"; simp add: finish_def [of None]; subst first_failure_allow)
     (auto simp: guard_passes)

lemma checkRateLimitHierarchy_guard:
  "denying (checkRateLimitHierarchy r now scoped vk q)"
  "checkRateLimitHierarchy r now scoped vk q = None \<longleftrightarrow>
     fst (CheckVirtualKeyRateLimit (r_store r) now scoped (Some vk) (Some q) [] []) = DecisionAllow"
proof -
  let ?g = "guard_rl ''Rate limit check failed: '' (Some vk)
    (CheckVirtualKeyRateLimit (r_store r) now scoped (Some vk) (Some q) [] [])"
  have "denying ?g" by simp
  then show "denying (checkRateLimitHierarchy r now scoped vk q)"
    by (cases ?g) (simp_all add: checkRateLimitHierarchy_def Let_def denying_def)
  show "checkRateLimitHierarchy r now scoped vk q = None \<longleftrightarrow>
     fst (CheckVirtualKeyRateLimit (r_store r) now scoped (Some vk) (Some q) [] []) = DecisionAllow"
    using guard_passes(11) [of "''Rate limit check failed: ''" "Some vk" "r_store r" now scoped "Some vk" "Some q"]
    by (cases ?g) (auto simp: checkRateLimitHierarchy_def Let_def)
qed

text \<open>What the key itself must satisfy, whatever its budgets.\<close>

definition key_admits :: "(string \<Rightarrow> bool) \<Rightarrow> BudgetResolver \<Rightarrow> time \<Rightarrow> TableVirtualKey \<Rightarrow> string \<Rightarrow> string \<Rightarrow> string \<Rightarrow> bool" where
  "key_admits known r now vk provider model requestType \<longleftrightarrow>
     IsActiveValue (Some vk) \<and> \<not> IsExpiredAt (Some vk) now
   \<and> (requestType \<noteq> ''mcp_tool_execution'' \<and> requestType \<noteq> ''list_models'' \<longrightarrow> isProviderAllowed vk provider)
   \<and> (IsModelRequiredForRequest requestType
        \<or> ((requestType = ''passthrough'' \<or> requestType = ''passthrough_stream'') \<and> model \<noteq> []) \<longrightarrow>
        isModelAllowed known r vk provider model)"

lemma vk_identity_admits:
  "vk_identity known r now vk provider model rt = None \<longleftrightarrow> key_admits known r now vk provider model rt"
  "vk_identity known r now vk provider model rt = Some res \<Longrightarrow> res_Decision res \<noteq> DecisionAllow"
  unfolding vk_identity_def key_admits_def by (simp, blast) (auto split: if_splits)

definition key_within_limits :: "BudgetResolver \<Rightarrow> time \<Rightarrow> string \<Rightarrow> TableVirtualKey \<Rightarrow> EvaluationRequest \<Rightarrow> bool" where
  "key_within_limits r now scoped vk q \<longleftrightarrow>
     fst (CheckVirtualKeyRateLimit (r_store r) now scoped (Some vk) (Some q) [] []) = DecisionAllow
   \<and> fst (CheckVirtualKeyBudget (r_store r) now scoped (Some vk) (Some q) []) = DecisionAllow
   \<and> (req_Model q \<noteq> [] \<longrightarrow>
        fst (CheckScopedModelRateLimit (r_store r) now ModelConfigScopeVirtualKey (vk_ID vk) (Some q) [] []) = DecisionAllow
      \<and> fst (CheckScopedModelBudget (r_store r) now ModelConfigScopeVirtualKey (vk_ID vk) (Some q) []) = DecisionAllow)"

lemma vk_limit_checks_pass:
  "first_failure (vk_limit_checks r now scoped vk q) = None \<longleftrightarrow> key_within_limits r now scoped vk q"
  "first_failure (vk_limit_checks r now scoped vk q) = Some res \<Longrightarrow> res_Decision res \<noteq> DecisionAllow"
proof -
  show "first_failure (vk_limit_checks r now scoped vk q) = None \<longleftrightarrow> key_within_limits r now scoped vk q"
    by (simp add: first_failure_None vk_limit_checks_def checkRateLimitHierarchy_guard checkBudgetHierarchy_def
        guard_passes key_within_limits_def)
  have "list_all denying (vk_limit_checks r now scoped vk q)"
    by (simp add: vk_limit_checks_def checkRateLimitHierarchy_guard checkBudgetHierarchy_def)
  then show "first_failure (vk_limit_checks r now scoped vk q) = Some res \<Longrightarrow> res_Decision res \<noteq> DecisionAllow"
    by (rule first_failure_denies)
qed

lemma EvaluateVirtualKeyRequest_allow:
  assumes "GetVirtualKey (r_store r) v = Some vk"
  shows "res_Decision (fst (EvaluateVirtualKeyRequest known r now ctx v provider model rt skip)) = DecisionAllow \<longleftrightarrow>
     key_admits known r now vk provider model rt
   \<and> (skip \<or> key_within_limits r now (ctx_ScopedCustomerID ctx) vk
        \<lparr>req_VirtualKey = v, req_Provider = provider, req_Model = model, req_UserID = []\<rparr>)"
proof -
  let ?q = "\<lparr>req_VirtualKey = v, req_Provider = provider, req_Model = model, req_UserID = []\<rparr>"
  let ?f = "first_failure (vk_limit_checks r now (ctx_ScopedCustomerID ctx) vk ?q)"
  let ?i = "vk_identity known r now vk provider model rt"
  show ?thesis
    using vk_limit_checks_pass [of r now "ctx_ScopedCustomerID ctx" vk ?q]
      vk_identity_admits [of known r now vk provider model rt]
    by (cases ?i; cases ?f) (auto simp: EvaluateVirtualKeyRequest_def assms Let_def split: if_splits)
qed

section \<open>The stages of the evaluation\<close>

lemma context_stamps [simp]:
  "ctx_SkipBudgetAndRateLimits (stamp_vk vk c) = ctx_SkipBudgetAndRateLimits c"
  "ctx_ScopedCustomerID (stamp_vk vk c) = ctx_ScopedCustomerID c"
  "ctx_SkipBudgetAndRateLimits (filter_keys vk provider c) = ctx_SkipBudgetAndRateLimits c"
  "ctx_ScopedCustomerID (filter_keys vk provider c) = ctx_ScopedCustomerID c"
  by (simp_all add: stamp_vk_def filter_keys_def Let_def split: option.split)

lemma EvaluateVirtualKeyRequest_context [simp]:
  "ctx_SkipBudgetAndRateLimits (snd (EvaluateVirtualKeyRequest known r now ctx v p m rt skip)) = ctx_SkipBudgetAndRateLimits ctx"
  "ctx_ScopedCustomerID (snd (EvaluateVirtualKeyRequest known r now ctx v p m rt skip)) = ctx_ScopedCustomerID ctx"
  by (simp_all add: EvaluateVirtualKeyRequest_def Let_def split: option.split)

definition charged_customer :: "BifrostContext \<Rightarrow> TableVirtualKey \<Rightarrow> string" where
  "charged_customer ctx vk =
     (case hierarchy_customer vk of (c, fromTeam) \<Rightarrow>
       if fromTeam \<and> ctx_ScopedCustomerID ctx \<noteq> [] \<and> ctx_ScopedCustomerID ctx \<noteq> c then [] else c)"

lemma customer_stage_allow:
  "res_Decision (customer_stage r now ctx h res) = DecisionAllow \<longleftrightarrow> res_Decision res = DecisionAllow
     \<and> (\<forall>vk. h = Some vk \<and> \<not> ctx_SkipBudgetAndRateLimits ctx \<longrightarrow>
          res_Decision (EvaluateCustomerRequest r now (charged_customer ctx vk)) = DecisionAllow)"
  by (cases h) (auto simp: customer_stage_def charged_customer_def EvaluateCustomerRequest_def Let_def
      split: prod.split)

lemma team_stage_allow:
  "res_Decision (team_stage r now ctx h res) = DecisionAllow \<longleftrightarrow> res_Decision res = DecisionAllow
     \<and> (\<forall>vk. h = Some vk \<and> \<not> ctx_SkipBudgetAndRateLimits ctx \<longrightarrow>
          res_Decision (EvaluateTeamRequest r now (hierarchy_team vk)) = DecisionAllow)"
  by (cases h) (auto simp: team_stage_def EvaluateTeamRequest_def)

lemma user_stage_allow:
  "res_Decision (user_stage r now ctx q res) = DecisionAllow \<longleftrightarrow> res_Decision res = DecisionAllow
     \<and> (\<not> ctx_SkipBudgetAndRateLimits ctx \<longrightarrow>
          res_Decision (EvaluateUserRequest r now (req_UserID q) q) = DecisionAllow)"
  by (auto simp: user_stage_def)

lemma check_added_tools_allow:
  "res_Decision (check_added_tools p c res) = DecisionAllow \<Longrightarrow> res_Decision res = DecisionAllow"
  by (auto simp: check_added_tools_def Let_def split: option.splits if_splits)

lemma EvaluateUserRequest_no_key: "res_VirtualKey (EvaluateUserRequest r now u q) = None"
proof -
  have "res_VirtualKey (finish (first_failure gs) (result d m None)) = None"
    if "list_all (\<lambda>g. \<forall>res. g = Some res \<longrightarrow> res_VirtualKey res = None) gs" for gs d m
    using that by (induction gs rule: first_failure.induct) (auto simp: finish_def)
  moreover have "\<forall>res. guard_rl m None v = Some res \<longrightarrow> res_VirtualKey res = None"
    "\<forall>res. guard_budget m None v = Some res \<longrightarrow> res_VirtualKey res = None" for m v
    by (auto simp: guard_rl_def guard_budget_def split: prod.splits if_splits)
  ultimately show ?thesis by (simp add: EvaluateUserRequest_def Let_def)
qed

lemma decide_allow: "decide res c = (x, None, y) \<Longrightarrow> res_Decision res = DecisionAllow"
  by (simp add: decide_def split: if_splits)

lemma evaluation_stages:
  assumes "EvaluateGovernanceRequest known p now ctx q rt = (res, None, ctx')" "r = p_resolver p"
  shows "req_VirtualKey q = [] \<or> GetVirtualKey (r_store r) (req_VirtualKey q) \<noteq> None"
    and "\<not> (req_VirtualKey q = [] \<and> req_UserID q = [] \<and> p_isVkMandatory p = Some True)"
    and "res_Decision (EvaluateModelAndProviderRequest r now (req_Provider q) (req_Model q)) = DecisionAllow"
    and "\<not> ctx_SkipBudgetAndRateLimits ctx \<Longrightarrow> res_Decision (EvaluateUserRequest r now (req_UserID q) q) = DecisionAllow"
    and "req_VirtualKey q \<noteq> [] \<Longrightarrow> GetVirtualKey (r_store r) (req_VirtualKey q) = Some vk \<Longrightarrow>
      res_Decision (fst (EvaluateVirtualKeyRequest known r now ctx (req_VirtualKey q) (req_Provider q) (req_Model q) rt
        (req_UserID q \<noteq> [] \<or> ctx_SkipBudgetAndRateLimits ctx))) = DecisionAllow
      \<and> (\<not> ctx_SkipBudgetAndRateLimits ctx \<longrightarrow>
           res_Decision (EvaluateCustomerRequest r now (charged_customer ctx vk)) = DecisionAllow
         \<and> res_Decision (EvaluateTeamRequest r now (hierarchy_team vk)) = DecisionAllow)"
proof -
  let ?v = "req_VirtualKey q" and ?skip = "ctx_SkipBudgetAndRateLimits ctx"
  let ?r0 = "EvaluateModelAndProviderRequest r now (req_Provider q) (req_Model q)"
  let ?found = "GetVirtualKey (r_store r) ?v"
  let ?h = "if ?v \<noteq> [] then ?found else None"
  define rc where "rc = (if res_Decision ?r0 = DecisionAllow \<and> ?v \<noteq> []
    then EvaluateVirtualKeyRequest known r now ctx ?v (req_Provider q) (req_Model q) rt (req_UserID q \<noteq> [] \<or> ?skip)
    else (?r0, ctx))"
  show "?v = [] \<or> ?found \<noteq> None" "\<not> (?v = [] \<and> req_UserID q = [] \<and> p_isVkMandatory p = Some True)"
    using assms(1) unfolding EvaluateGovernanceRequest_def assms(2) [symmetric] Let_def by (auto split: if_splits)
  have d: "decide (check_added_tools p (snd rc) (user_stage r now (snd rc) q
          (team_stage r now (snd rc) ?h (customer_stage r now (snd rc) ?h (fst rc))))) (snd rc) = (res, None, ctx')"
    using assms(1) unfolding EvaluateGovernanceRequest_def assms(2) [symmetric] Let_def rc_def [symmetric]
    by (auto split: if_splits prod.splits)
  have c: "ctx_SkipBudgetAndRateLimits (snd rc) = ?skip" "ctx_ScopedCustomerID (snd rc) = ctx_ScopedCustomerID ctx"
    by (simp_all add: rc_def)
  then have cc: "charged_customer (snd rc) vk = charged_customer ctx vk" for vk
    by (simp add: charged_customer_def)
  note all = check_added_tools_allow [OF decide_allow [OF d],
      unfolded user_stage_allow team_stage_allow customer_stage_allow c cc]
  then show r0: "res_Decision ?r0 = DecisionAllow" by (auto simp: rc_def split: if_splits)
  show "res_Decision (EvaluateUserRequest r now (req_UserID q) q) = DecisionAllow" if "\<not> ?skip" using all that by blast
  show "res_Decision (fst (EvaluateVirtualKeyRequest known r now ctx ?v (req_Provider q) (req_Model q) rt
        (req_UserID q \<noteq> [] \<or> ?skip))) = DecisionAllow
      \<and> (\<not> ?skip \<longrightarrow> res_Decision (EvaluateCustomerRequest r now (charged_customer ctx vk)) = DecisionAllow
         \<and> res_Decision (EvaluateTeamRequest r now (hierarchy_team vk)) = DecisionAllow)"
    if "?v \<noteq> []" "?found = Some vk"
    using all r0 that by (simp add: rc_def)
qed

section \<open>Properties\<close>

text \<open>
  C6: a request that governance lets through has passed every check that applies to it. If
  it names a virtual key, the key exists, is active and not expired, admits the provider
  and, where the request carries one, the model. Without a key and without a user it passes
  only when keys are not mandatory. The provider's and the model's own limits hold, and
  unless the request asked to skip limits so do those of the key's hierarchy (when no user
  is authenticated), of the customer it is charged to, of its team and of the user's models.
\<close>

theorem allowed_request_passed_every_check:
  assumes "EvaluateGovernanceRequest known p now ctx q rt = (res, None, ctx')" "r = p_resolver p"
  shows "res_Decision (EvaluateModelAndProviderRequest r now (req_Provider q) (req_Model q)) = DecisionAllow
    \<and> (req_VirtualKey q = [] \<and> req_UserID q = [] \<longrightarrow> p_isVkMandatory p \<noteq> Some True)
    \<and> (\<not> ctx_SkipBudgetAndRateLimits ctx \<longrightarrow>
         res_Decision (EvaluateUserRequest r now (req_UserID q) q) = DecisionAllow)
    \<and> (req_VirtualKey q \<noteq> [] \<longrightarrow> (\<exists>vk. GetVirtualKey (r_store r) (req_VirtualKey q) = Some vk
         \<and> key_admits known r now vk (req_Provider q) (req_Model q) rt
         \<and> (\<not> ctx_SkipBudgetAndRateLimits ctx \<longrightarrow>
              fst (CheckCustomerBudget (r_store r) now (charged_customer ctx vk) []) = DecisionAllow
            \<and> fst (CheckCustomerRateLimit (r_store r) now (charged_customer ctx vk) [] []) = DecisionAllow
            \<and> (hierarchy_team vk \<noteq> [] \<longrightarrow>
                 fst (CheckTeamBudget (r_store r) now (hierarchy_team vk) []) = DecisionAllow
               \<and> fst (CheckTeamRateLimit (r_store r) now (hierarchy_team vk) [] []) = DecisionAllow)
            \<and> (req_UserID q = [] \<longrightarrow> key_within_limits r now (ctx_ScopedCustomerID ctx) vk (q\<lparr>req_UserID := []\<rparr>)))))"
proof -
  have e: "\<lparr>req_VirtualKey = req_VirtualKey q, req_Provider = req_Provider q, req_Model = req_Model q, req_UserID = []\<rparr>
      = q\<lparr>req_UserID := []\<rparr>" by simp
  note st = evaluation_stages [OF assms]
  have "\<exists>vk. GetVirtualKey (r_store r) (req_VirtualKey q) = Some vk
      \<and> key_admits known r now vk (req_Provider q) (req_Model q) rt
      \<and> (\<not> ctx_SkipBudgetAndRateLimits ctx \<longrightarrow>
           fst (CheckCustomerBudget (r_store r) now (charged_customer ctx vk) []) = DecisionAllow
         \<and> fst (CheckCustomerRateLimit (r_store r) now (charged_customer ctx vk) [] []) = DecisionAllow
         \<and> (hierarchy_team vk \<noteq> [] \<longrightarrow>
              fst (CheckTeamBudget (r_store r) now (hierarchy_team vk) []) = DecisionAllow
            \<and> fst (CheckTeamRateLimit (r_store r) now (hierarchy_team vk) [] []) = DecisionAllow)
         \<and> (req_UserID q = [] \<longrightarrow> key_within_limits r now (ctx_ScopedCustomerID ctx) vk (q\<lparr>req_UserID := []\<rparr>)))"
    if v: "req_VirtualKey q \<noteq> []"
  proof -
    obtain vk where vk: "GetVirtualKey (r_store r) (req_VirtualKey q) = Some vk" using st(1) v by blast
    note k = st(5) [OF v vk, unfolded EvaluateVirtualKeyRequest_allow [OF vk] e EvaluateCustomerRequest_allow
        EvaluateTeamRequest_allow]
    have "charged_customer ctx vk = [] \<Longrightarrow>
        fst (CheckCustomerBudget (r_store r) now (charged_customer ctx vk) []) = DecisionAllow
      \<and> fst (CheckCustomerRateLimit (r_store r) now (charged_customer ctx vk) [] []) = DecisionAllow"
      by (simp add: CheckCustomerBudget_def CheckCustomerRateLimit_def)
    then show ?thesis using vk k by blast
  qed
  then show ?thesis using st(2-4) by blast
qed

section \<open>A concrete plugin\<close>

definition gate_vk :: TableVirtualKey where
  "gate_vk = sample_vk\<lparr>vk_ProviderConfigs := Some
     [\<lparr>pc_ID = 1, pc_Provider = ''openai'', AllowedModels = [''*''], BlacklistedModels = [''o1''], AllowAllKeys = True,
       pc_RateLimitID = None, pc_RateLimit = None, pc_Budgets = [], pc_Keys = [], pc_Weight = None\<rparr>],
     vk_MCPConfigs := [\<lparr>mcp_ID = 1, mcp_MCPClient = \<lparr>mcpclient_ClientID = ''c1'', mcpclient_Name = ''fs''\<rparr>,
       ToolsToExecute = [''read'', ''list'']\<rparr>]\<rparr>"

definition gate_plugin :: GovernancePlugin where
  "gate_plugin = \<lparr>p_resolver = \<lparr>r_store = empty_store\<lparr>virtualKeys := [(''sk-1'', gate_vk)]\<rparr>, r_modelCatalog = None,
       r_providers = None\<rparr>, p_isVkMandatory = Some True, p_isEnterprise = False, p_requiredHeaders = None,
     p_allowAllClients = None, p_disableAutoToolInject = None\<rparr>"

definition gate_ctx :: BifrostContext where
  "gate_ctx = \<lparr>ctx_VirtualKeyID = None, ctx_VirtualKeyName = None, ctx_TeamID = None, ctx_TeamName = None,
     ctx_CustomerID = None, ctx_CustomerName = None, ctx_IncludeOnlyKeys = None, ctx_ScopedCustomerID = [],
     ctx_SkipBudgetAndRateLimits = False, ctx_MCPAddedTools = None, ctx_MCPIncludeTools = None,
     ctx_RequestHeaders = [], ctx_Rejected = None, ctx_MCPIncludeClients = False, ctx_RoutingAllowedProviders = None,
     ctx_RoutingEnginesUsed = [], ctx_RoutingPinnedAPIKeyID = None, ctx_RoutingRuleID = None, ctx_RoutingRuleName = None\<rparr>"

definition gate_request :: EvaluationRequest where
  "gate_request = \<lparr>req_VirtualKey = ''sk-1'', req_Provider = ''openai'', req_Model = ''gpt-4o'', req_UserID = []\<rparr>"

lemmas gate_defs = gate_vk_def gate_plugin_def gate_ctx_def gate_request_def sample_vk_def empty_store_def

lemma gate_key: "GetVirtualKey (r_store (p_resolver gate_plugin)) ''sk-1'' = Some gate_vk"
  by (simp add: gate_plugin_def GetVirtualKey_def)

lemma gate_stages:
  "res_Decision (EvaluateModelAndProviderRequest (p_resolver gate_plugin) now ''openai'' ''gpt-4o'') = DecisionAllow"
  "key_admits known (p_resolver gate_plugin) now gate_vk ''openai'' ''gpt-4o'' ''chat_completion''"
  "key_within_limits (p_resolver gate_plugin) now [] gate_vk gate_request"
  "EvaluateUserRequest (p_resolver gate_plugin) now [] q =
     result DecisionAllow ''No user ID provided, skipping user-level checks'' None"
proof -
  show "res_Decision (EvaluateModelAndProviderRequest (p_resolver gate_plugin) now ''openai'' ''gpt-4o'') = DecisionAllow"
    by (simp add: EvaluateModelAndProviderRequest_allow gate_defs CheckProviderRateLimit_def CheckProviderBudget_def
        CheckModelRateLimit_def CheckModelBudget_def extractModelAndProvider_def collectModelConfigsFor_def
        findScopedModelOnlyConfig_def add_config_def model_budgets_def model_rate_limits_def CheckBudget_def
        CheckRateLimit_def Let_def)
  show "key_admits known (p_resolver gate_plugin) now gate_vk ''openai'' ''gpt-4o'' ''chat_completion''"
    by (simp add: key_admits_def gate_defs IsActiveValue_def IsExpiredAt_def isProviderAllowed_def isModelAllowed_def
        vk_pcs_def bl_IsBlocked_def bl_IsBlockAll_def bl_Contains_def equalFold_def toLower_def ascii_lower_def
        pc_allows_def wl_IsAllowed_def wl_IsUnrestricted_def Let_def)
  show "key_within_limits (p_resolver gate_plugin) now [] gate_vk gate_request"
    by (simp add: key_within_limits_def gate_defs CheckVirtualKeyRateLimit_def CheckVirtualKeyBudget_def
        collectRateLimitsFromHierarchy_def collectBudgetsFromHierarchy_def collect_rl_def req_provider_def vk_pcs_def
        CheckScopedModelRateLimit_def CheckScopedModelBudget_def extractModelAndProvider_def collectModelConfigsFor_def
        findScopedModelOnlyConfig_def add_config_def model_budgets_def model_rate_limits_def CheckBudget_def
        CheckRateLimit_def Let_def)
  show "EvaluateUserRequest (p_resolver gate_plugin) now [] q =
     result DecisionAllow ''No user ID provided, skipping user-level checks'' None"
    by (simp add: EvaluateUserRequest_def)
qed

lemma gate_passes:
  assumes "req_VirtualKey q = ''sk-1''" "req_UserID q = []"
    and "res_Decision (EvaluateModelAndProviderRequest (p_resolver gate_plugin) now (req_Provider q) (req_Model q)) = DecisionAllow"
    and "key_admits known (p_resolver gate_plugin) now gate_vk (req_Provider q) (req_Model q) rt"
    and "key_within_limits (p_resolver gate_plugin) now [] gate_vk q"
  shows "\<exists>res c. EvaluateGovernanceRequest known gate_plugin now (gate_ctx\<lparr>ctx_MCPAddedTools := t\<rparr>) q rt = (Some res, None, c)"
proof -
  let ?ctx = "gate_ctx\<lparr>ctx_MCPAddedTools := t\<rparr>"
  let ?e = "EvaluateVirtualKeyRequest known (p_resolver gate_plugin) now ?ctx ''sk-1'' (req_Provider q) (req_Model q) rt False"
  have "\<lparr>req_VirtualKey = ''sk-1'', req_Provider = req_Provider q, req_Model = req_Model q, req_UserID = []\<rparr> = q"
    using assms(1,2) by simp
  then have a: "res_Decision (fst ?e) = DecisionAllow"
    using EvaluateVirtualKeyRequest_allow [OF gate_key, of known now ?ctx "req_Provider q" "req_Model q" rt False]
      assms(4,5) by (simp add: gate_ctx_def)
  have c: "\<not> ctx_SkipBudgetAndRateLimits (snd ?e)" by (simp add: gate_ctx_def)
  have h: "hierarchy_customer gate_vk = ([], False)" "hierarchy_team gate_vk = []"
    by (simp_all add: hierarchy_customer_def hierarchy_team_def gate_vk_def sample_vk_def)
  have "customer_stage (p_resolver gate_plugin) now (snd ?e) (Some gate_vk) (fst ?e) = fst ?e"
    "team_stage (p_resolver gate_plugin) now (snd ?e) (Some gate_vk) (fst ?e) = fst ?e"
    by (simp_all add: customer_stage_def team_stage_def h)
  moreover have "user_stage (p_resolver gate_plugin) now (snd ?e) q (fst ?e) =
      result DecisionAllow ''No user ID provided, skipping user-level checks'' None"
    using a c by (simp add: user_stage_def assms(2) gate_stages(4))
  ultimately show ?thesis
    using assms(1-3)
    by (simp add: EvaluateGovernanceRequest_def Let_def gate_key gate_ctx_def split_beta decide_def check_added_tools_def)
qed

lemma gate_allows:
  "\<exists>res c. EvaluateGovernanceRequest known gate_plugin now (gate_ctx\<lparr>ctx_MCPAddedTools := t\<rparr>) gate_request
     ''chat_completion'' = (Some res, None, c)"
  by (rule gate_passes) (simp_all add: gate_request_def gate_stages(1,2) gate_stages(3) [unfolded gate_request_def])

theorem allowed_request_passed_every_check_witness:
  "key_admits (\<lambda>_. True) (p_resolver gate_plugin) 0 gate_vk ''openai'' ''gpt-4o'' ''chat_completion''"
proof -
  obtain res c where "EvaluateGovernanceRequest (\<lambda>_. True) gate_plugin 0 (gate_ctx\<lparr>ctx_MCPAddedTools := None\<rparr>) gate_request
      ''chat_completion'' = (Some res, None, c)" using gate_allows by blast
  from allowed_request_passed_every_check [OF this refl] show ?thesis
    by (simp add: gate_request_def gate_key)
qed

section \<open>Tools\<close>

lemma EvaluateVirtualKeyRequest_added:
  "EvaluateVirtualKeyRequest known r now (ctx\<lparr>ctx_MCPAddedTools := t\<rparr>) v provider model rt skip =
     (case EvaluateVirtualKeyRequest known r now ctx v provider model rt skip of (res, c) \<Rightarrow> (res, c\<lparr>ctx_MCPAddedTools := t\<rparr>))"
  by (simp add: EvaluateVirtualKeyRequest_def Let_def stamp_vk_def filter_keys_def split: option.split)

lemma stages_added [simp]:
  "customer_stage r now (c\<lparr>ctx_MCPAddedTools := t\<rparr>) h res = customer_stage r now c h res"
  "team_stage r now (c\<lparr>ctx_MCPAddedTools := t\<rparr>) h res = team_stage r now c h res"
  "user_stage r now (c\<lparr>ctx_MCPAddedTools := t\<rparr>) q res = user_stage r now c q res"
  by (cases h; simp add: customer_stage_def team_stage_def user_stage_def)+

lemma no_tool_check_after_user_stage:
  "\<not> ctx_SkipBudgetAndRateLimits c \<Longrightarrow> check_added_tools p c' (user_stage r now c q res) = user_stage r now c q res"
  by (auto simp: check_added_tools_def user_stage_def EvaluateUserRequest_no_key Let_def split: option.split)

lemma decide_split: "fst (decide res c) = Some res"
  "fst (snd (decide res c)) = fst (snd (decide res c'))"
  by (simp_all add: decide_def)

text \<open>
  the check of the tools injected into a request is never reached by a request that does
  not skip limits. Every evaluation after the key's replaces the result by one without a
  virtual key, the user's always does, and the tool check runs only when the result has
  one: whatever tools were added, the result and the error are those of the request
  without tools. A key with no tool grants at all gets an injected tool accepted.
\<close>

theorem added_tools_are_never_checked:
  assumes "\<not> ctx_SkipBudgetAndRateLimits ctx"
  shows "fst (EvaluateGovernanceRequest known p now (ctx\<lparr>ctx_MCPAddedTools := t\<rparr>) q rt) =
      fst (EvaluateGovernanceRequest known p now (ctx\<lparr>ctx_MCPAddedTools := None\<rparr>) q rt)
    \<and> fst (snd (EvaluateGovernanceRequest known p now (ctx\<lparr>ctx_MCPAddedTools := t\<rparr>) q rt)) =
      fst (snd (EvaluateGovernanceRequest known p now (ctx\<lparr>ctx_MCPAddedTools := None\<rparr>) q rt))"
proof -
  let ?res = "p_resolver p"
  let ?mp = "EvaluateModelAndProviderRequest ?res now (req_Provider q) (req_Model q)"
  let ?vk = "EvaluateVirtualKeyRequest known ?res now ctx (req_VirtualKey q) (req_Provider q) (req_Model q) rt
    (req_UserID q \<noteq> [] \<or> ctx_SkipBudgetAndRateLimits ctx)"
  define rc where "rc = (if res_Decision ?mp = DecisionAllow \<and> req_VirtualKey q \<noteq> [] then ?vk else (?mp, ctx))"
  have skip: "\<not> ctx_SkipBudgetAndRateLimits ((snd rc)\<lparr>ctx_MCPAddedTools := t\<rparr>)" for t
    using assms by (simp add: rc_def)
  have rc: "(if res_Decision ?mp = DecisionAllow \<and> req_VirtualKey q \<noteq> []
      then EvaluateVirtualKeyRequest known ?res now (ctx\<lparr>ctx_MCPAddedTools := t\<rparr>) (req_VirtualKey q) (req_Provider q)
        (req_Model q) rt (req_UserID q \<noteq> [] \<or> ctx_SkipBudgetAndRateLimits (ctx\<lparr>ctx_MCPAddedTools := t\<rparr>))
      else (?mp, ctx\<lparr>ctx_MCPAddedTools := t\<rparr>)) = (fst rc, (snd rc)\<lparr>ctx_MCPAddedTools := t\<rparr>)" for t
    by (simp add: rc_def EvaluateVirtualKeyRequest_added split_beta)
  define h where "h = (if req_VirtualKey q \<noteq> [] then GetVirtualKey (r_store ?res) (req_VirtualKey q) else None)"
  define fin where "fin = user_stage ?res now (snd rc) q (team_stage ?res now (snd rc) h (customer_stage ?res now (snd rc) h (fst rc)))"
  have tail: "decide (check_added_tools p ((snd rc)\<lparr>ctx_MCPAddedTools := t\<rparr>) (user_stage ?res now ((snd rc)\<lparr>ctx_MCPAddedTools := t\<rparr>) q
      (team_stage ?res now ((snd rc)\<lparr>ctx_MCPAddedTools := t\<rparr>) h (customer_stage ?res now ((snd rc)\<lparr>ctx_MCPAddedTools := t\<rparr>) h
        (fst rc))))) ((snd rc)\<lparr>ctx_MCPAddedTools := t\<rparr>) = decide fin ((snd rc)\<lparr>ctx_MCPAddedTools := t\<rparr>)" for t
    using no_tool_check_after_user_stage [of "snd rc"] skip by (simp add: fin_def)
  have main: "EvaluateGovernanceRequest known p now (ctx\<lparr>ctx_MCPAddedTools := t\<rparr>) q rt =
      decide fin ((snd rc)\<lparr>ctx_MCPAddedTools := t\<rparr>)"
    if "\<not> (req_VirtualKey q \<noteq> [] \<and> GetVirtualKey (r_store ?res) (req_VirtualKey q) = None)"
      "\<not> (req_VirtualKey q = [] \<and> req_UserID q = [] \<and> p_isVkMandatory p = Some True)" for t
    unfolding EvaluateGovernanceRequest_def Let_def if_not_P [OF that(1)] if_not_P [OF that(2)]
    by (simp only: rc BifrostContext.simps h_def [symmetric] prod.case tail)
  show ?thesis
  proof (cases "(req_VirtualKey q \<noteq> [] \<and> GetVirtualKey (r_store ?res) (req_VirtualKey q) = None)
      \<or> (req_VirtualKey q = [] \<and> req_UserID q = [] \<and> p_isVkMandatory p = Some True)")
    case True
    then show ?thesis by (auto simp: EvaluateGovernanceRequest_def Let_def)
  next
    case False
    then show ?thesis using main by (simp add: decide_def)
  qed
qed

theorem added_tools_are_never_checked_witness:
  "\<not> isMCPToolAllowedByVK gate_plugin gate_vk ''shell-run''
   \<and> fst (snd (EvaluateGovernanceRequest (\<lambda>_. True) gate_plugin 0 (gate_ctx\<lparr>ctx_MCPAddedTools := Some [''shell-run'']\<rparr>)
        gate_request ''chat_completion'')) = None"
proof -
  have "\<not> ctx_SkipBudgetAndRateLimits gate_ctx" by (simp add: gate_ctx_def)
  from added_tools_are_never_checked [OF this, of "\<lambda>_. True" gate_plugin 0 "Some [''shell-run'']" gate_request "''chat_completion''"]
  have "fst (snd (EvaluateGovernanceRequest (\<lambda>_. True) gate_plugin 0 (gate_ctx\<lparr>ctx_MCPAddedTools := Some [''shell-run'']\<rparr>)
        gate_request ''chat_completion'')) = None"
    using gate_allows [of "\<lambda>_. True" 0 None] by auto
  moreover have "\<not> isMCPToolAllowedByVK gate_plugin gate_vk ''shell-run''"
    by (simp add: isMCPToolAllowedByVK_def isMCPToolAllowedByVKWith_def gate_defs allow_all_def mcp_matches_def
        hasPrefix_def)
  ultimately show ?thesis by blast
qed

end
