(* ===== verification/Tool_Grants.thy ===== *)
theory Tool_Grants
  imports Plugin_Properties
begin

text \<open>
  The tool grants of a virtual key and the lists of models shown for it. A grant names a
  client and a tool, joined by a hyphen; core/mcp/utils.go keeps hyphens out of client names,
  which is what makes the grants unambiguous.
\<close>

definition ValidateMCPClientName :: "string \<Rightarrow> err option" where
  "ValidateMCPClientName name =
     (if trimSpace name = [] then Some (Err ''name is required for MCP client'')
      else if \<not> list_all (\<lambda>c. (of_char c :: nat) \<le> 127) name then Some (Err ''name must contain only ASCII characters'')
      else if CHR ''-'' \<in> set name then Some (Err ''name cannot contain hyphens'')
      else if CHR '' '' \<in> set name then Some (Err ''name cannot contain spaces'')
      else if length name > 0 \<and> is_digit (hd name) then Some (Err ''name cannot start with a number'')
      else None)"

section \<open>Unambiguous grants\<close>

lemma valid_name_no_hyphen: "ValidateMCPClientName n = None \<Longrightarrow> CHR ''-'' \<notin> set n"
  by (simp add: ValidateMCPClientName_def split: if_splits)

lemma mcp_match_name:
  assumes "CHR ''-'' \<notin> set n" "mcp_matches t n"
  shows "takeWhile (\<lambda>c. c \<noteq> CHR ''-'') t = n"
proof -
  obtain u where "t = n @ CHR ''-'' # u" using assms(2) by (auto simp: mcp_matches_def hasPrefix_iff)
  then show ?thesis using assms(1) by (simp add: takeWhile_append)
qed

abbreviation client_name :: "TableVirtualKeyMCPConfig \<Rightarrow> string" where
  "client_name c \<equiv> mcpclient_Name (mcp_MCPClient c)"

text \<open>
  The names the store accepts: validated names, one configuration per client name, and a
  client that allows all keys is the configured one when it has the same name.
\<close>

definition clients_ok :: "TableVirtualKey \<Rightarrow> (string, string) gomap \<Rightarrow> bool" where
  "clients_ok vk allow \<longleftrightarrow>
     list_all (\<lambda>c. ValidateMCPClientName (client_name c) = None) (vk_MCPConfigs vk)
   \<and> list_all (\<lambda>(i, n). ValidateMCPClientName n = None) allow
   \<and> distinct (map client_name (vk_MCPConfigs vk))
   \<and> list_all (\<lambda>(i, n). list_all (\<lambda>c. n = client_name c \<longrightarrow> i = mcpclient_ClientID (mcp_MCPClient c)) (vk_MCPConfigs vk)) allow"

lemma clients_okD:
  assumes "clients_ok vk allow"
  shows "c \<in> set (vk_MCPConfigs vk) \<Longrightarrow> CHR ''-'' \<notin> set (client_name c)"
    and "(i, n) \<in> set allow \<Longrightarrow> CHR ''-'' \<notin> set n"
    and "(i, n) \<in> set allow \<Longrightarrow> c \<in> set (vk_MCPConfigs vk) \<Longrightarrow> n = client_name c \<Longrightarrow>
      i = mcpclient_ClientID (mcp_MCPClient c)"
  using assms unfolding clients_ok_def list_all_iff by (auto dest!: bspec dest: valid_name_no_hyphen)

lemma find_client:
  assumes "clients_ok vk allow" "c \<in> set (vk_MCPConfigs vk)" "mcp_matches t (client_name c)"
  shows "find (\<lambda>c. mcp_matches t (client_name c)) (vk_MCPConfigs vk) = Some c"
proof (cases "find (\<lambda>c. mcp_matches t (client_name c)) (vk_MCPConfigs vk)")
  case None
  then show ?thesis using assms(2,3) by (auto simp: find_None_iff)
next
  case (Some d)
  then have d: "d \<in> set (vk_MCPConfigs vk)" "mcp_matches t (client_name d)"
    by (auto simp: find_Some_iff)
  have "client_name d = client_name c"
    using mcp_match_name clients_okD(1) [OF assms(1)] assms(2,3) d by metis
  then have "d = c"
    using assms(1,2) d(1) by (auto simp: clients_ok_def distinct_map dest: inj_onD)
  then show ?thesis using Some by simp
qed

lemma grant_allowed:
  assumes "clients_ok vk allow" "t \<in> set (computeMCPIncludeToolsWith vk allow)"
  shows "isMCPToolAllowedByVKWith vk t allow"
proof -
  consider c where "c \<in> set (vk_MCPConfigs vk)" "t \<in> set (mcp_grants c)"
    | i n where "(i, n) \<in> set allow" "t = n @ ''-*''" "i \<notin> mcpclient_ClientID ` mcp_MCPClient ` set (vk_MCPConfigs vk)"
    using assms(2) by (auto simp: computeMCPIncludeToolsWith_def Let_def)
  then show ?thesis
  proof cases
    case 1
    then have "mcp_matches t (client_name c)"
      by (auto simp: mcp_grants_def mcp_matches_def hasPrefix_iff Let_def split: if_splits)
    then have "find (\<lambda>c. mcp_matches t (client_name c)) (vk_MCPConfigs vk) = Some c"
      by (rule find_client [OF assms(1) 1(1)])
    moreover have "ToolsToExecute c \<noteq> []" using 1(2) by (auto simp: mcp_grants_def Let_def split: if_splits)
    ultimately show ?thesis
      using 1(2) by (auto simp: isMCPToolAllowedByVKWith_def mcp_grants_def Let_def wl_Contains_def list_ex_iff
          equalFold_def split: if_splits)
  next
    case 2
    have m: "mcp_matches t n" using 2(2) by (simp add: mcp_matches_def)
    have "\<not> mcp_matches t (client_name c)" if "c \<in> set (vk_MCPConfigs vk)" for c
    proof
      assume "mcp_matches t (client_name c)"
      then have "n = client_name c"
        using mcp_match_name clients_okD(1,2) [OF assms(1)] m that 2(1) by metis
      then show False using clients_okD(3) [OF assms(1) 2(1) that] that 2(3) by auto
    qed
    then have "find (\<lambda>c. mcp_matches t (client_name c)) (vk_MCPConfigs vk) = None" by (auto simp: find_None_iff)
    then show ?thesis using m 2(1) by (auto simp: isMCPToolAllowedByVKWith_def list_ex_iff)
  qed
qed

definition within_grant :: "TableVirtualKey \<Rightarrow> (string, string) gomap \<Rightarrow> string \<Rightarrow> bool" where
  "within_grant vk allow t \<longleftrightarrow> isMCPToolAllowedByVKWith vk t allow
     \<and> (cut_wildcard t \<noteq> None \<longrightarrow> t \<in> set (computeMCPIncludeToolsWith vk allow))"

lemma add_tool_within: "list_all (within_grant vk allow) ts \<Longrightarrow> within_grant vk allow t \<Longrightarrow>
    list_all (within_grant vk allow) (add_tool t ts)"
  by (simp add: add_tool_def)

lemma prune_tool_within:
  assumes "clients_ok vk allow" "list_all (within_grant vk allow) ts"
  shows "list_all (within_grant vk allow) (prune_tool vk allow pattern ts)"
proof -
  have g: "within_grant vk allow t" if "t \<in> set (computeMCPIncludeToolsWith vk allow)" for t
    using grant_allowed [OF assms(1) that] that by (simp add: within_grant_def)
  have f: "list_all (within_grant vk allow)
      (fold (\<lambda>tool acc. if hasPrefix tool n then add_tool tool acc else acc) (computeMCPIncludeToolsWith vk allow) ts)" for n
    using assms(2) by (rule fold_inv) (auto intro: add_tool_within g)
  show ?thesis
  proof (cases "cut_wildcard pattern")
    case None
    then show ?thesis
      using assms(2) by (auto simp: prune_tool_def Let_def within_grant_def intro!: add_tool_within)
  next
    case (Some n)
    then show ?thesis
      using f [of "n @ ''-''"] g [of pattern] assms(2) by (auto simp: prune_tool_def Let_def intro!: add_tool_within)
  qed
qed

section \<open>Properties\<close>

text \<open>
  narrowing the tools a caller asked for never widens what the key grants. Every tool
  that survives is one the execution-time check lets the key run, and a wildcard for all
  tools of a client survives only when the key itself grants that wildcard.
\<close>

theorem pruned_tools_are_granted:
  assumes "clients_ok vk (allow_all p)" "pruneMCPIncludeToolsFromContext p ctx vk = (ctx', True)"
  shows "\<exists>tools. ctx_MCPIncludeTools ctx' = Some tools
    \<and> (\<forall>t \<in> set tools. isMCPToolAllowedByVK p vk t
        \<and> (cut_wildcard t \<noteq> None \<longrightarrow> t \<in> set (computeMCPIncludeTools p vk)))"
proof -
  obtain req where c: "ctx' = ctx\<lparr>ctx_MCPIncludeTools := Some (fold (prune_tool vk (allow_all p)) req [])\<rparr>"
    using assms(2) by (auto simp: pruneMCPIncludeToolsFromContext_def split: option.splits)
  have "list_all (within_grant vk (allow_all p)) (fold (prune_tool vk (allow_all p)) req [])"
    by (rule fold_inv) (simp_all add: prune_tool_within [OF assms(1)])
  then show ?thesis
    unfolding c by (simp add: list_all_iff within_grant_def isMCPToolAllowedByVK_def computeMCPIncludeTools_def)
qed

theorem pruned_tools_are_granted_witness:
  "ctx_MCPIncludeTools (fst (pruneMCPIncludeToolsFromContext gate_plugin
      (gate_ctx\<lparr>ctx_MCPIncludeTools := Some [''fs-*'', ''fs-write'']\<rparr>) gate_vk)) = Some [''fs-read'', ''fs-list'']
   \<and> isMCPToolAllowedByVK gate_plugin gate_vk ''fs-read''"
proof -
  let ?x = "pruneMCPIncludeToolsFromContext gate_plugin (gate_ctx\<lparr>ctx_MCPIncludeTools := Some [''fs-*'', ''fs-write'']\<rparr>) gate_vk"
  have ok: "clients_ok gate_vk (allow_all gate_plugin)"
    unfolding gate_vk_def sample_vk_def gate_plugin_def by code_simp
  have e: "ctx_MCPIncludeTools (fst ?x) = Some [''fs-read'', ''fs-list'']"
    unfolding gate_vk_def sample_vk_def gate_plugin_def gate_ctx_def by code_simp
  have "?x = (fst ?x, True)"
    by (simp add: pruneMCPIncludeToolsFromContext_def)
  from pruned_tools_are_granted [OF ok this] show ?thesis using e by simp
qed

text \<open>
  a tool execution that the hook lets through with a virtual key, code mode tools apart,
  is made with a key that exists, is active and not expired, and is granted that tool.
\<close>

theorem PreMCPHook_enforces_grant:
  assumes "PreMCPHook known p now ctx v userID True tool = (None, ctx')" "\<not> IsCodeModeTool tool" "v \<noteq> []"
  shows "\<exists>vk. GetVirtualKey (r_store (p_resolver p)) v = Some vk \<and> IsActiveValue (Some vk)
    \<and> \<not> IsExpiredAt (Some vk) now \<and> isMCPToolAllowedByVK p vk tool"
  using assms
  by (auto simp: PreMCPHook_def reject_def split: option.splits prod.splits if_splits)

theorem PreMCPHook_enforces_grant_witness:
  "isMCPToolAllowedByVK gate_plugin gate_vk ''fs-read''"
proof -
  let ?q = "\<lparr>req_VirtualKey = ''sk-1'', req_Provider = [], req_Model = [], req_UserID = []\<rparr>"
  have "\<exists>res c. EvaluateGovernanceRequest (\<lambda>_. True) gate_plugin 0 (gate_ctx\<lparr>ctx_MCPAddedTools := None\<rparr>) ?q
      ''mcp_tool_execution'' = (Some res, None, c)"
  proof (rule gate_passes)
    show "key_admits (\<lambda>_. True) (p_resolver gate_plugin) 0 gate_vk (req_Provider ?q) (req_Model ?q) ''mcp_tool_execution''"
      by (simp add: key_admits_def gate_defs IsActiveValue_def IsExpiredAt_def IsModelRequiredForRequest_def
          modelless_requests_def)
    show "key_within_limits (p_resolver gate_plugin) 0 [] gate_vk ?q"
      by (simp add: key_within_limits_def gate_defs CheckVirtualKeyRateLimit_def CheckVirtualKeyBudget_def
          collectRateLimitsFromHierarchy_def collectBudgetsFromHierarchy_def collect_rl_def req_provider_def vk_pcs_def
          CheckBudget_def CheckRateLimit_def Let_def)
  qed (simp_all add: EvaluateModelAndProviderRequest_allow)
  then obtain res c where e: "EvaluateGovernanceRequest (\<lambda>_. True) gate_plugin 0 gate_ctx ?q
      ''mcp_tool_execution'' = (Some res, None, c)" by (auto simp: gate_ctx_def)
  have t: "isMCPToolAllowedByVK gate_plugin gate_vk ''fs-read''"
    unfolding gate_vk_def sample_vk_def gate_plugin_def by code_simp
  have "PreMCPHook (\<lambda>_. True) gate_plugin 0 gate_ctx ''sk-1'' [] True ''fs-read'' = (None, c)"
    using e t gate_key
    by (simp add: PreMCPHook_def IsCodeModeTool_def codeModeToolNames_def validateRequiredHeaders_def)
       (simp add: gate_defs IsActiveValue_def IsExpiredAt_def)
  from PreMCPHook_enforces_grant [OF this] show ?thesis
    by (simp add: IsCodeModeTool_def codeModeToolNames_def gate_key)
qed

text \<open>
  the models listed for a key are exactly those the request gate would let it use, by the
  same black lists, white lists and catalog.
\<close>

theorem listed_models_are_usable:
  assumes "GetVirtualKey (r_store (p_resolver p)) v = Some vk"
  shows "filterModelsForVirtualKey known p models v =
    filter (\<lambda>m. case ParseModelString known m [] of (provider, name) \<Rightarrow> isModelAllowed known (p_resolver p) vk provider name) models"
proof (cases "vk_pcs vk = []")
  case True
  then show ?thesis using assms by (simp add: filterModelsForVirtualKey_def isModelAllowed_def split_beta)
next
  case False
  then show ?thesis
    using assms by (auto simp: filterModelsForVirtualKey_def isModelAllowed_def split_beta Let_def intro!: filter_cong)
qed

theorem listed_models_are_usable_witness:
  "filterModelsForVirtualKey (\<lambda>s. s = ''openai'') gate_plugin [''openai/gpt-4o'', ''openai/o1'', ''gpt-4o''] ''sk-1''
     = [''openai/gpt-4o'']"
proof -
  have "isModelAllowed (\<lambda>s. s = ''openai'') (p_resolver gate_plugin) gate_vk ''openai'' ''gpt-4o''"
    "\<not> isModelAllowed (\<lambda>s. s = ''openai'') (p_resolver gate_plugin) gate_vk ''openai'' ''o1''"
    "\<not> isModelAllowed (\<lambda>s. s = ''openai'') (p_resolver gate_plugin) gate_vk [] ''gpt-4o''"
    by (simp_all add: isModelAllowed_def gate_defs vk_pcs_def bl_IsBlocked_def bl_IsBlockAll_def bl_Contains_def
        equalFold_def toLower_def ascii_lower_def pc_allows_def wl_IsAllowed_def wl_IsUnrestricted_def Let_def)
  then show ?thesis
    unfolding listed_models_are_usable [OF gate_key] by (simp add: ParseModelString_def)
qed

text \<open>
  a request to delete a batch carries no model, but is not among the requests whose
  model is not checked, unlike the other operations on batches: a key restricted to a list
  of models can create, list, read and cancel batches but is blocked when it deletes one.
\<close>

theorem batch_delete_needs_a_model:
  "IsModelRequiredForRequest ''batch_delete''
   \<and> filter IsModelRequiredForRequest [''batch_create'', ''batch_list'', ''batch_retrieve'', ''batch_cancel'', ''batch_results''] = []
   \<and> (let vk = gate_vk\<lparr>vk_ProviderConfigs := map_option (map (\<lambda>pc. pc\<lparr>AllowedModels := [''gpt-4o'']\<rparr>)) (vk_ProviderConfigs gate_vk)\<rparr>
      in \<not> key_admits known (p_resolver gate_plugin) now vk ''openai'' [] ''batch_delete''
         \<and> key_admits known (p_resolver gate_plugin) now vk ''openai'' [] ''batch_cancel'')"
  by (simp add: IsModelRequiredForRequest_def modelless_requests_def key_admits_def gate_defs IsActiveValue_def
      IsExpiredAt_def isProviderAllowed_def isModelAllowed_def vk_pcs_def bl_IsBlocked_def bl_IsBlockAll_def
      bl_Contains_def equalFold_def toLower_def ascii_lower_def pc_allows_def wl_IsAllowed_def
      wl_IsUnrestricted_def wl_Contains_def Let_def)

end
