(* ===== verification/Load_Balancer.thy ===== *)
theory Load_Balancer
  imports Tool_Grants
begin

text \<open>
  Choosing a provider for a request that names none: \<open>loadBalanceProvider\<close> and
  \<open>publishRoutingAllowlist\<close> of plugins/governance/main.go, \<open>getWeight\<close> and \<open>stampGovernanceCtxFromVK\<close>
  of plugins/governance/utils.go, and \<open>RefineModelForProvider\<close> of
  framework/modelcatalog/models.go.

  The value of \<^verbatim>\<open>rand.Float64\<close> is the argument \<open>rnd\<close>, a rational in the half-open unit interval.
  The plugin and its resolver share the model catalog and the
  in-memory store. Routing logs are omitted.
\<close>

record RoutedRequest =
  rq_Provider :: string
  rq_Model :: string
  rq_Fallbacks :: "(string \<times> string) list"

section \<open>Refining model names\<close>

definition nested_providers :: "string list" where
  "nested_providers = [''groq'', ''replicate'', ''perplexity'', ''openrouter'']"

definition nested_candidates :: "(string \<Rightarrow> bool) \<Rightarrow> string list \<Rightarrow> string \<Rightarrow> string list" where
  "nested_candidates known models model =
     fold (\<lambda>poolModel acc.
       let (providerPart, modelPart) = ParseModelString known poolModel []
       in if providerPart = [] \<or> model \<noteq> modelPart then acc
          else add_tool (providerPart @ ''/'' @ modelPart) acc) models []"

definition refineNestedProviderModel ::
    "(string \<Rightarrow> bool) \<Rightarrow> ModelCatalog \<Rightarrow> string \<Rightarrow> string \<Rightarrow> err + string" where
  "refineNestedProviderModel known mc provider model =
     (case nested_candidates known (GetModelsForProvider mc provider) model of
        [] \<Rightarrow> Inr model
      | [c] \<Rightarrow> Inr c
      | cs \<Rightarrow> Inl (Err (''multiple compatible models found for model '' @ model @ '': ['' @ join_space cs @ '']'')))"

lemma ParseModelString_shorter:
  assumes "fst (ParseModelString known model []) \<noteq> []"
  shows "length (snd (ParseModelString known model [])) < length model"
proof -
  let ?rest = "dropWhile (\<lambda>c. c \<noteq> CHR ''/'') model"
  have slash: "CHR ''/'' \<in> set model" and part: "snd (ParseModelString known model []) = tl ?rest"
    using assms by (auto simp: ParseModelString_def Let_def split: if_splits)
  have "?rest \<noteq> []" using slash by (auto simp: dropWhile_eq_Nil_conv)
  then show ?thesis
    unfolding part using length_dropWhile_le [of "\<lambda>c. c \<noteq> CHR ''/''" model] by (cases ?rest) auto
qed

function RefineModelForProvider ::
    "(string \<Rightarrow> bool) \<Rightarrow> ModelCatalog \<Rightarrow> string \<Rightarrow> string \<Rightarrow> err + string" where
  "RefineModelForProvider known mc provider model =
     (let (prefixProvider, modelPart) = ParseModelString known model [] in
      if prefixProvider \<noteq> [] then
        (if prefixProvider = provider then RefineModelForProvider known mc provider modelPart else Inr model)
      else if provider \<in> set nested_providers then refineNestedProviderModel known mc provider model
      else Inr model)"
  by pat_completeness auto
termination
  by (relation "measure (\<lambda>(known, mc, provider, model). length model)")
     (auto simp: prod_eq_iff case_prod_beta intro!: ParseModelString_shorter)

declare RefineModelForProvider.simps [simp del]

section \<open>Weights\<close>

definition getWeight :: "f64 option \<Rightarrow> f64" where
  "getWeight w = (case w of None \<Rightarrow> Fin 1 | Some x \<Rightarrow> x)"

fun f64_scale :: "rat \<Rightarrow> f64 \<Rightarrow> f64" where
  "f64_scale r (Fin t) = Fin (r * t)"
| "f64_scale r PosInf = (if r = 0 then NaN else PosInf)"
| "f64_scale r NegInf = (if r = 0 then NaN else NegInf)"
| "f64_scale r NaN = NaN"

fun select_weighted :: "f64 \<Rightarrow> f64 \<Rightarrow> TableVirtualKeyProviderConfig list \<Rightarrow> string" where
  "select_weighted randomValue currentWeight [] = []"
| "select_weighted randomValue currentWeight (config # configs) =
     (let current = f64_add currentWeight (getWeight (pc_Weight config)) in
      if f64_le randomValue current then pc_Provider config else select_weighted randomValue current configs)"

definition sort_weight :: "TableVirtualKeyProviderConfig list \<Rightarrow> TableVirtualKeyProviderConfig list" where
  "sort_weight = sort_by (\<lambda>c d. f64_lt (getWeight (pc_Weight d)) (getWeight (pc_Weight c)))"

section \<open>Load balancing\<close>

definition AppendToContextList :: "string list \<Rightarrow> string \<Rightarrow> string list" where
  "AppendToContextList existingValues v = (if v \<in> set existingValues then existingValues else existingValues @ [v])"

definition eligible ::
    "(string \<Rightarrow> bool) \<Rightarrow> BudgetResolver \<Rightarrow> time \<Rightarrow> string \<Rightarrow> TableVirtualKey \<Rightarrow> string
      \<Rightarrow> TableVirtualKeyProviderConfig \<Rightarrow> bool" where
  "eligible known r now scoped vk model config =
     (if list_ex (\<lambda>c. pc_Provider c = pc_Provider config \<and> bl_IsBlocked (BlacklistedModels c) model) (vk_pcs vk) then False
      else if \<not> pc_allows known r (pc_Provider config) model config then False
      else if isProviderBudgetViolated r now scoped vk config then False
      else \<not> isProviderRateLimitViolated r now scoped vk config)"

definition refine ::
    "(string \<Rightarrow> bool) \<Rightarrow> BudgetResolver \<Rightarrow> string \<Rightarrow> string \<Rightarrow> err + string" where
  "refine known r provider model =
     (case r_modelCatalog r of None \<Rightarrow> Inr model | Some mc \<Rightarrow> RefineModelForProvider known mc provider model)"

definition fallback_list ::
    "(string \<Rightarrow> bool) \<Rightarrow> BudgetResolver \<Rightarrow> string \<Rightarrow> string \<Rightarrow> TableVirtualKeyProviderConfig list
      \<Rightarrow> (string \<times> string) list" where
  "fallback_list known r selected model configs =
     List.map_filter (\<lambda>config.
       if pc_Provider config = selected then None
       else case refine known r (pc_Provider config) model of
         Inl _ \<Rightarrow> None | Inr refined \<Rightarrow> Some (pc_Provider config, refined)) configs"

definition loadBalanceProvider ::
    "(string \<Rightarrow> bool) \<Rightarrow> BudgetResolver \<Rightarrow> time \<Rightarrow> rat \<Rightarrow> BifrostContext \<Rightarrow> RoutedRequest \<Rightarrow> TableVirtualKey
      \<Rightarrow> err + RoutedRequest \<times> BifrostContext" where
  "loadBalanceProvider known r now rnd ctx req vk =
     (let model = rq_Model req;
          allowed = filter (eligible known r now (ctx_ScopedCustomerID ctx) vk model) (vk_pcs vk);
          weighted = filter (\<lambda>config. pc_Weight config \<noteq> None) allowed;
          totalWeight = fold (\<lambda>config total. f64_add total (getWeight (pc_Weight config))) weighted (Fin 0);
          chosen = select_weighted (f64_scale rnd totalWeight) (Fin 0) weighted
      in if model = [] \<or> rq_Provider req \<noteq> [] \<or> vk_pcs vk = [] \<or> allowed = [] \<or> weighted = [] then Inr (req, ctx)
         else let selected = (if chosen = [] then pc_Provider (hd weighted) else chosen)
           in case refine known r selected model of
             Inl e \<Rightarrow> Inl e
           | Inr refined \<Rightarrow>
               let routed = req\<lparr>rq_Provider := selected, rq_Model := refined\<rparr>
               in Inr (if rq_Fallbacks req = [] \<and> 1 < length weighted
                       then routed\<lparr>rq_Fallbacks := fallback_list known r selected model (sort_weight weighted)\<rparr>
                       else routed,
                       ctx\<lparr>ctx_RoutingEnginesUsed := AppendToContextList (ctx_RoutingEnginesUsed ctx) ''governance''\<rparr>))"

section \<open>What downstream routing may choose\<close>

definition publishRoutingAllowlist :: "BifrostContext \<Rightarrow> TableVirtualKey option \<Rightarrow> string \<Rightarrow> BifrostContext" where
  "publishRoutingAllowlist ctx virtualKey model =
     (case virtualKey of None \<Rightarrow> ctx
      | Some vk \<Rightarrow>
          ctx\<lparr>ctx_RoutingAllowedProviders := Some (map pc_Provider (filter (\<lambda>pc. model = []
            \<or> (wl_IsAllowed (AllowedModels pc) model \<and> \<not> bl_IsBlocked (BlacklistedModels pc) model)) (vk_pcs vk)))\<rparr>)"

definition stampGovernanceCtxFromVK :: "BifrostContext \<Rightarrow> TableVirtualKey option \<Rightarrow> BifrostContext" where
  "stampGovernanceCtxFromVK ctx virtualKey =
     (case virtualKey of None \<Rightarrow> ctx
      | Some vk \<Rightarrow>
          let c1 = (case vk_TeamID vk of None \<Rightarrow> ctx | Some t \<Rightarrow> ctx\<lparr>ctx_TeamID := Some t\<rparr>) in
          (case vk_Team vk of
             Some team \<Rightarrow>
               let c2 = c1\<lparr>ctx_TeamName := Some (team_Name team)\<rparr> in
               (case team_CustomerID team of None \<Rightarrow> c2
                | Some cid \<Rightarrow>
                    let c3 = c2\<lparr>ctx_CustomerID := Some cid\<rparr> in
                    (case team_Customer team of None \<Rightarrow> c3
                     | Some cu \<Rightarrow> c3\<lparr>ctx_CustomerName := Some (customer_Name cu)\<rparr>))
           | None \<Rightarrow>
               let c2 = (case vk_CustomerID vk of None \<Rightarrow> c1 | Some cid \<Rightarrow> c1\<lparr>ctx_CustomerID := Some cid\<rparr>) in
               (case vk_Customer vk of None \<Rightarrow> c2
                | Some cu \<Rightarrow> c2\<lparr>ctx_CustomerName := Some (customer_Name cu)\<rparr>)))"

text \<open>
  The include-tools list of a request: a list the caller gave is narrowed to the grants of the
  key; otherwise the grants are stamped wherever tools may be injected.
\<close>

definition stamp_include_tools :: "GovernancePlugin \<Rightarrow> BifrostContext \<Rightarrow> TableVirtualKey \<Rightarrow> BifrostContext" where
  "stamp_include_tools p ctx vk =
     (let (c, provided) = pruneMCPIncludeToolsFromContext p ctx vk;
          autoInjectDisabled = (p_disableAutoToolInject p = Some True)
      in if \<not> provided \<and> (\<not> autoInjectDisabled \<or> ctx_MCPIncludeClients c)
         then c\<lparr>ctx_MCPIncludeTools := Some (computeMCPIncludeTools p vk)\<rparr> else c)"

end
