(* ===== verification/Balancer_Properties.thy ===== *)
theory Balancer_Properties
  imports Load_Balancer
begin

text \<open>
  What load balancing guarantees: the provider it picks and every fallback it adds are
  configured on the key, allowed for the model and within their limits, so that the gate
  lets the request through as long as the model keeps its name; refining a model name is
  idempotent. A refined name need not be on the key's list, and then the gate blocks the
  request that the balancer routed.
\<close>

section \<open>Refinement of model names\<close>

lemma ParseModelString_join:
  "known pp \<Longrightarrow> CHR ''/'' \<notin> set pp \<Longrightarrow> ParseModelString known (pp @ CHR ''/'' # m) [] = (pp, m)"
proof -
  assume k: "known pp" and s: "CHR ''/'' \<notin> set pp"
  have "takeWhile (\<lambda>c. c \<noteq> CHR ''/'') (pp @ ''/'' @ m) = pp" "dropWhile (\<lambda>c. c \<noteq> CHR ''/'') (pp @ ''/'' @ m) = ''/'' @ m"
    using s by (auto simp: takeWhile_append dropWhile_append)
  then show ?thesis using k by (simp add: ParseModelString_def Let_def)
qed

lemma ParseModelString_prefix:
  "ParseModelString known m [] = (pp, part) \<Longrightarrow> pp \<noteq> [] \<Longrightarrow> known pp \<and> CHR ''/'' \<notin> set pp"
  by (auto simp: ParseModelString_def Let_def dest: set_takeWhileD split: if_splits)

lemma nested_candidates_shape:
  assumes "c \<in> set (nested_candidates known ms m)"
  shows "\<exists>pp. pp \<noteq> [] \<and> known pp \<and> CHR ''/'' \<notin> set pp \<and> c = pp @ ''/'' @ m"
proof -
  let ?ok = "\<lambda>c. \<exists>pp. pp \<noteq> [] \<and> known pp \<and> CHR ''/'' \<notin> set pp \<and> c = pp @ ''/'' @ m"
  have "list_all ?ok (nested_candidates known ms m)"
    unfolding nested_candidates_def
  proof (rule fold_inv)
    fix poolModel acc
    assume acc: "list_all ?ok acc"
    obtain pp part where parse: "ParseModelString known poolModel [] = (pp, part)" by (cases "ParseModelString known poolModel []")
    show "list_all ?ok (let (providerPart, modelPart) = ParseModelString known poolModel []
       in if providerPart = [] \<or> m \<noteq> modelPart then acc else add_tool (providerPart @ ''/'' @ modelPart) acc)"
      using acc ParseModelString_prefix [OF parse] by (auto simp: parse add_tool_def list_all_iff)
  qed simp
  then show ?thesis using assms by (simp add: list_all_iff)
qed

lemma refine_stays: "RefineModelForProvider known mc p m = Inr m' \<Longrightarrow> RefineModelForProvider known mc p m' = Inr m'"
proof (induction known mc p m rule: RefineModelForProvider.induct)
  case (1 known mc p m)
  obtain pp part where parse: "ParseModelString known m [] = (pp, part)" by (cases "ParseModelString known m []")
  note step = RefineModelForProvider.simps [of known mc p]
  consider "pp \<noteq> []" "pp = p" | "pp \<noteq> []" "pp \<noteq> p" | "pp = []" by blast
  then show ?case
  proof cases
    case 1
    then show ?thesis using "1.IH" [OF parse [symmetric] refl] "1.prems" parse by (simp add: step [of m])
  next
    case 2
    then have "RefineModelForProvider known mc p m = Inr m" using parse by (simp add: step [of m])
    then show ?thesis using "1.prems" by simp
  next
    case 3
    have same: "RefineModelForProvider known mc p m = (if p \<in> set nested_providers then refineNestedProviderModel known mc p m else Inr m)"
      using 3 parse by (simp add: step [of m])
    show ?thesis
    proof (cases "m' = m")
      case False
      then have "nested_candidates known (GetModelsForProvider mc p) m = [m']"
        using "1.prems" unfolding same
        by (auto simp: refineNestedProviderModel_def split: if_splits list.splits)
      then obtain q where "q \<noteq> []" "known q" "CHR ''/'' \<notin> set q" "m' = q @ ''/'' @ m"
        using nested_candidates_shape [of m' known "GetModelsForProvider mc p" m] by auto
      then have "q \<noteq> []" "ParseModelString known m' [] = (q, m)" by (simp_all add: ParseModelString_join)
      then show ?thesis using "1.prems" by (simp add: step [of m'])
    qed (use "1.prems" in simp)
  qed
qed

section \<open>Selection\<close>

lemma select_weighted_mem: "select_weighted v w cs \<noteq> [] \<Longrightarrow> select_weighted v w cs \<in> pc_Provider ` set cs"
  by (induction cs arbitrary: w) (auto simp: Let_def split: if_splits)

lemma set_sort_weight [simp]: "set (sort_weight cs) = set cs"
  by (simp add: sort_weight_def)

lemma eligible_allowed:
  assumes "pc \<in> set (vk_pcs vk)" "eligible known r now scoped vk model pc"
  shows "isProviderAllowed vk (pc_Provider pc)" "isModelAllowed known r vk (pc_Provider pc) model"
    "\<not> isProviderBudgetViolated r now scoped vk pc" "\<not> isProviderRateLimitViolated r now scoped vk pc"
  using assms by (auto simp: eligible_def isProviderAllowed_def isModelAllowed_def list_ex_iff split: if_splits)

lemma loadBalance_picks:
  assumes "loadBalanceProvider known r now rnd ctx req vk = Inr (q, ctx')" "q \<noteq> req"
  defines "weighted \<equiv> filter (\<lambda>c. pc_Weight c \<noteq> None)
    (filter (eligible known r now (ctx_ScopedCustomerID ctx) vk (rq_Model req)) (vk_pcs vk))"
  shows "rq_Provider req = []" "rq_Provider q \<in> pc_Provider ` set weighted"
    "refine known r (rq_Provider q) (rq_Model req) = Inr (rq_Model q)"
    "rq_Fallbacks q = (if rq_Fallbacks req = [] \<and> 1 < length weighted
       then fallback_list known r (rq_Provider q) (rq_Model req) (sort_weight weighted) else rq_Fallbacks req)"
proof -
  let ?total = "fold (\<lambda>config total. f64_add total (getWeight (pc_Weight config))) weighted (Fin 0)"
  let ?chosen = "select_weighted (f64_scale rnd ?total) (Fin 0) weighted"
  define sel where "sel = (if ?chosen = [] then pc_Provider (hd weighted) else ?chosen)"
  have nonempty: "weighted \<noteq> []" and prov: "rq_Provider req = []"
    using assms(1,2) by (auto simp: loadBalanceProvider_def Let_def weighted_def split: if_splits)
  show "rq_Provider req = []" by (rule prov)
  have mem: "sel \<in> pc_Provider ` set weighted"
    using nonempty select_weighted_mem [of "f64_scale rnd ?total" "Fin 0" weighted] by (auto simp: sel_def)
  obtain m where m: "refine known r sel (rq_Model req) = Inr m"
    and q: "q = (let routed = req\<lparr>rq_Provider := sel, rq_Model := m\<rparr>
         in if rq_Fallbacks req = [] \<and> 1 < length weighted
            then routed\<lparr>rq_Fallbacks := fallback_list known r sel (rq_Model req) (sort_weight weighted)\<rparr> else routed)"
    using assms(1,2) unfolding loadBalanceProvider_def Let_def weighted_def [symmetric] sel_def [symmetric]
    by (auto split: if_splits sum.splits)
  show "rq_Provider q \<in> pc_Provider ` set weighted" using mem by (simp add: q Let_def)
  show "refine known r (rq_Provider q) (rq_Model req) = Inr (rq_Model q)" using m by (simp add: q Let_def)
  show "rq_Fallbacks q = (if rq_Fallbacks req = [] \<and> 1 < length weighted
       then fallback_list known r (rq_Provider q) (rq_Model req) (sort_weight weighted) else rq_Fallbacks req)"
    by (simp add: q Let_def)
qed

lemma fallback_list_mem:
  "(fp, fm) \<in> set (fallback_list known r sel model cs) \<longleftrightarrow>
     fp \<noteq> sel \<and> fp \<in> pc_Provider ` set cs \<and> refine known r fp model = Inr fm"
  unfolding fallback_list_def
  by (induction cs) (auto simp: map_filter_simps split: sum.splits)

section \<open>Properties\<close>

definition nested_catalog :: ModelCatalog where
  "nested_catalog = \<lparr>GetProvidersForModel = (\<lambda>m. if m = ''oss'' then [''groq''] else []),
     GetModelsForProvider = (\<lambda>p. if p = ''groq'' then [''openai/oss'', ''meta/llama''] else [])\<rparr>"

definition known_sample :: "string \<Rightarrow> bool" where
  "known_sample p = (p \<in> set [''openai'', ''groq''])"

definition groq_config :: "string list \<Rightarrow> TableVirtualKeyProviderConfig" where
  "groq_config models = \<lparr>pc_ID = 1, pc_Provider = ''groq'', AllowedModels = models, BlacklistedModels = [],
     AllowAllKeys = True, pc_RateLimitID = None, pc_RateLimit = None, pc_Budgets = [], pc_Keys = [], pc_Weight = Some (Fin 1)\<rparr>"

definition groq_vk :: "string list \<Rightarrow> TableVirtualKey" where
  "groq_vk models = sample_vk\<lparr>vk_ProviderConfigs := Some [groq_config models]\<rparr>"

definition groq_resolver :: BudgetResolver where
  "groq_resolver = \<lparr>r_store = empty_store, r_modelCatalog = Some nested_catalog, r_providers = Some []\<rparr>"

definition bare_request :: RoutedRequest where
  "bare_request = \<lparr>rq_Provider = [], rq_Model = ''oss'', rq_Fallbacks = []\<rparr>"

lemmas groq_defs = groq_vk_def groq_config_def groq_resolver_def nested_catalog_def bare_request_def sample_vk_def
  empty_store_def known_sample_def

lemma groq_eligible:
  "eligible known_sample groq_resolver now [] (groq_vk [''oss'']) ''oss'' (groq_config [''oss''])"
  by (simp add: eligible_def groq_defs vk_pcs_def bl_IsBlocked_def bl_IsBlockAll_def bl_Contains_def pc_allows_def
      IsModelAllowedForProvider_def wl_IsUnrestricted_def wl_Contains_def equalFold_def toLower_def ascii_lower_def
      isProviderBudgetViolated_def isProviderRateLimitViolated_def CheckProviderBudget_def CheckProviderRateLimit_def
      isRateLimitViolation_def Let_def)

lemma groq_refines: "refine known_sample groq_resolver ''groq'' ''oss'' = Inr ''openai/oss''"
  by (simp add: refine_def groq_defs RefineModelForProvider.simps ParseModelString_def nested_providers_def
      refineNestedProviderModel_def nested_candidates_def add_tool_def)

lemma gate_scope: "ctx_ScopedCustomerID gate_ctx = []"
  by (simp add: gate_ctx_def)

lemma groq_balanced:
  "loadBalanceProvider known_sample groq_resolver now (1 / 2) gate_ctx bare_request (groq_vk [''oss'']) =
     Inr (\<lparr>rq_Provider = ''groq'', rq_Model = ''openai/oss'', rq_Fallbacks = []\<rparr>,
       gate_ctx\<lparr>ctx_RoutingEnginesUsed := [''governance'']\<rparr>)"
proof -
  have pcs: "vk_pcs (groq_vk [''oss'']) = [groq_config [''oss'']]" by (simp add: vk_pcs_def groq_vk_def)
  have fields: "pc_Provider (groq_config [''oss'']) = ''groq''" "pc_Weight (groq_config [''oss'']) = Some (Fin 1)"
    "rq_Model bare_request = ''oss''" "rq_Provider bare_request = []" "rq_Fallbacks bare_request = []"
    by (simp_all add: groq_config_def bare_request_def)
  show ?thesis
    by (simp add: loadBalanceProvider_def pcs fields groq_eligible groq_refines getWeight_def gate_scope Let_def)
       (simp add: bare_request_def gate_ctx_def AppendToContextList_def)
qed

text \<open>
  C23: Load balancing sends a request only where the key allows it. When it picks a provider,
  the request named none, and the picked provider and every fallback it adds belong to a
  weighted provider config of the key that allows the model, is not blocked for it and has
  neither its budget nor its rate limit exhausted; the fallbacks are distinct from the pick.
\<close>

theorem balanced_provider_is_eligible:
  assumes "loadBalanceProvider known r now rnd ctx req vk = Inr (q, ctx')" "q \<noteq> req"
    and "p = rq_Provider q \<or> (rq_Fallbacks req = [] \<and> p \<in> fst ` set (rq_Fallbacks q))"
  shows "rq_Provider req = [] \<and> (p \<noteq> rq_Provider q \<or> p \<notin> fst ` set (rq_Fallbacks q) \<or> rq_Fallbacks req \<noteq> [])
    \<and> isProviderAllowed vk p \<and> isModelAllowed known r vk p (rq_Model req)
    \<and> (\<exists>pc \<in> set (vk_pcs vk). pc_Provider pc = p \<and> pc_Weight pc \<noteq> None
          \<and> \<not> isProviderBudgetViolated r now (ctx_ScopedCustomerID ctx) vk pc
          \<and> \<not> isProviderRateLimitViolated r now (ctx_ScopedCustomerID ctx) vk pc)"
proof -
  note picks = loadBalance_picks [OF assms(1,2)]
  let ?w = "filter (\<lambda>c. pc_Weight c \<noteq> None) (filter (eligible known r now (ctx_ScopedCustomerID ctx) vk (rq_Model req)) (vk_pcs vk))"
  have "p \<in> pc_Provider ` set ?w"
    using assms(3) picks(2,4) by (auto simp: fallback_list_mem split: if_splits)
  then obtain pc where pc: "pc \<in> set (vk_pcs vk)" "eligible known r now (ctx_ScopedCustomerID ctx) vk (rq_Model req) pc"
    "pc_Weight pc \<noteq> None" "pc_Provider pc = p" by auto
  moreover have "p \<noteq> rq_Provider q \<or> p \<notin> fst ` set (rq_Fallbacks q) \<or> rq_Fallbacks req \<noteq> []"
    using picks(4) by (auto simp: fallback_list_mem split: if_splits)
  ultimately show ?thesis using picks(1) eligible_allowed [OF pc(1,2)] by auto
qed

theorem balanced_provider_is_eligible_witness:
  "isModelAllowed known_sample groq_resolver (groq_vk [''oss'']) ''groq'' ''oss''"
  using balanced_provider_is_eligible [OF groq_balanced, where p = "''groq''"] by (simp add: bare_request_def)

text \<open>
  Refining a model name twice gives the same name as refining it once, as routing plugins
  that refine the same request one after the other rely on.
\<close>

theorem RefineModelForProvider_idempotent:
  assumes "RefineModelForProvider known mc provider model = Inr refined"
  shows "RefineModelForProvider known mc provider refined = Inr refined"
  using assms by (rule refine_stays)

theorem RefineModelForProvider_idempotent_witness:
  "RefineModelForProvider known_sample nested_catalog ''groq'' ''openai/oss'' = Inr ''openai/oss''"
  using RefineModelForProvider_idempotent [of known_sample nested_catalog "''groq''" "''oss''" "''openai/oss''"]
    groq_refines by (simp add: refine_def groq_resolver_def)

text \<open>
  A request that load balancing routed passes the identity checks of its key, provided the
  key is active and the chosen provider keeps the name of the model.
\<close>

theorem balanced_request_is_admitted:
  assumes "loadBalanceProvider known r now rnd ctx req vk = Inr (q, ctx')" "q \<noteq> req" "rq_Model q = rq_Model req"
    and "IsActiveValue (Some vk)" "\<not> IsExpiredAt (Some vk) now"
  shows "vk_identity known r now vk (rq_Provider q) (rq_Model q) requestType = None"
proof -
  obtain pc where "pc \<in> set (vk_pcs vk)" "eligible known r now (ctx_ScopedCustomerID ctx) vk (rq_Model req) pc" "pc_Provider pc = rq_Provider q"
    using loadBalance_picks(2) [OF assms(1,2)] by auto
  then show ?thesis
    using eligible_allowed(1,2) assms(3-5) unfolding vk_identity_admits key_admits_def by metis
qed

theorem balanced_request_is_admitted_witness:
  "vk_identity known_sample (groq_resolver\<lparr>r_modelCatalog := None\<rparr>) 0 (groq_vk [''oss'']) ''groq'' ''oss'' ''chat_completion'' = None"
proof -
  let ?r = "groq_resolver\<lparr>r_modelCatalog := None\<rparr>"
  let ?q = "\<lparr>rq_Provider = ''groq'', rq_Model = ''oss'', rq_Fallbacks = []\<rparr>"
  have pcs: "vk_pcs (groq_vk [''oss'']) = [groq_config [''oss'']]" by (simp add: vk_pcs_def groq_vk_def)
  have fields: "pc_Provider (groq_config [''oss'']) = ''groq''" "pc_Weight (groq_config [''oss'']) = Some (Fin 1)"
    "rq_Model bare_request = ''oss''" "rq_Provider bare_request = []" "rq_Fallbacks bare_request = []"
    by (simp_all add: groq_config_def bare_request_def)
  have el: "eligible known_sample ?r 0 [] (groq_vk [''oss'']) ''oss'' (groq_config [''oss''])"
    by (simp add: eligible_def groq_defs vk_pcs_def bl_IsBlocked_def bl_IsBlockAll_def bl_Contains_def pc_allows_def
        wl_IsAllowed_def wl_IsUnrestricted_def wl_Contains_def equalFold_def toLower_def ascii_lower_def
        isProviderBudgetViolated_def isProviderRateLimitViolated_def CheckProviderBudget_def CheckProviderRateLimit_def
        isRateLimitViolation_def Let_def)
  have "loadBalanceProvider known_sample ?r 0 (1 / 2) gate_ctx bare_request (groq_vk [''oss'']) =
      Inr (?q, gate_ctx\<lparr>ctx_RoutingEnginesUsed := [''governance'']\<rparr>)"
    by (simp add: loadBalanceProvider_def pcs fields el refine_def getWeight_def gate_scope Let_def)
       (simp add: bare_request_def gate_ctx_def AppendToContextList_def)
  from balanced_request_is_admitted [OF this] show ?thesis
    by (simp add: bare_request_def IsActiveValue_def IsExpiredAt_def groq_vk_def sample_vk_def)
qed

text \<open>
  A key that allows a model under its plain name is blocked from a provider that load
  balancing itself picks: the picked provider knows the model under a prefixed name, the
  balancer writes the prefixed name into the request, and the gate looks that name up in the
  list of the key, where it is not.
\<close>

theorem refined_model_is_blocked:
  "\<exists>q ctx. loadBalanceProvider known_sample groq_resolver now (1 / 2) gate_ctx bare_request (groq_vk [''oss'']) = Inr (q, ctx)
     \<and> isModelAllowed known_sample groq_resolver (groq_vk [''oss'']) (rq_Provider q) (rq_Model bare_request)
     \<and> \<not> isModelAllowed known_sample groq_resolver (groq_vk [''oss'']) (rq_Provider q) (rq_Model q)"
  unfolding groq_balanced
  by (simp add: isModelAllowed_def groq_defs vk_pcs_def bl_IsBlocked_def bl_IsBlockAll_def bl_Contains_def pc_allows_def
      IsModelAllowedForProvider_def wl_IsUnrestricted_def wl_Contains_def equalFold_def toLower_def ascii_lower_def)

end
