(* ===== verification/Routing_Rules.thy ===== *)
theory Routing_Rules
  imports Balancer_Properties
begin

text \<open>
  Routing rules: the rule cache of plugins/governance/store.go, the engine of
  plugins/governance/routing.go, \<open>applyRoutingRules\<close>, \<open>runPreRequestRouting\<close> and \<open>PreRequestHook\<close> of
  plugins/governance/main.go, and the rows of framework/configstore/tables/routingrules.go.

  A rule's expression is a program of a third-party interpreter. Whether it compiles and
  evaluates to true for a provider and a model, the other inputs of the request being fixed,
  is the argument \<open>matches\<close>; the code skips a rule that does not compile or fails to evaluate.
  The cache of compiled programs is not modelled. The random draws of chain step \<open>i\<close> are
  \<open>draws i\<close>: the value of \<^verbatim>\<open>rand.Float64\<close> and the index from which \<^verbatim>\<open>rand.IntN\<close> is taken.
  The engine writes the identifier and name of each matched rule to the context, the last one
  stays; here they are fields of the decision and \<open>applyRoutingRules\<close> writes them.
\<close>

section \<open>Rules and their cache\<close>

record TableRoutingTarget =
  rt_Provider :: "string option"
  rt_Model :: "string option"
  rt_KeyID :: "string option"
  rt_Weight :: f64

record TableRoutingRule =
  rr_ID :: string
  rr_Name :: string
  rr_Enabled :: "bool option"
  CelExpression :: string
  Targets :: "TableRoutingTarget list"
  ParsedFallbacks :: "string list"
  rr_Scope :: string
  rr_ScopeID :: "string option"
  ChainRule :: bool
  Priority :: int
  rr_CreatedAt :: time

type_synonym rule_cache = "(string, TableRoutingRule list) gomap"

definition EnabledValue :: "TableRoutingRule option \<Rightarrow> bool" where
  "EnabledValue r = (case r of None \<Rightarrow> False | Some rule \<Rightarrow> (case rr_Enabled rule of None \<Rightarrow> True | Some b \<Rightarrow> b))"

definition HasRoutingRules :: "rule_cache \<Rightarrow> bool" where
  "HasRoutingRules m = (m \<noteq> [])"

definition GetAllRoutingRules :: "rule_cache \<Rightarrow> TableRoutingRule list" where
  "GetAllRoutingRules m =
     sort_by (\<lambda>a b. if Priority a \<noteq> Priority b then Priority a < Priority b else rr_CreatedAt b < rr_CreatedAt a)
       (concat (map snd m))"

definition GetScopedRoutingRules :: "rule_cache \<Rightarrow> string \<Rightarrow> string \<Rightarrow> TableRoutingRule list" where
  "GetScopedRoutingRules m scope scopeID =
     (let key = (if scope = ''global'' then ''global:'' else scope @ '':'' @ scopeID)
      in case gm_get m key of None \<Rightarrow> [] | Some rules \<Rightarrow> filter (\<lambda>rule. EnabledValue (Some rule)) rules)"

definition rule_key :: "TableRoutingRule \<Rightarrow> string" where
  "rule_key rule =
     (if rr_Scope rule = ''global'' then ''global:''
      else rr_Scope rule @ '':'' @ (case rr_ScopeID rule of None \<Rightarrow> [] | Some i \<Rightarrow> i))"

definition drop_entry :: "string \<Rightarrow> string \<times> TableRoutingRule list \<Rightarrow> rule_cache" where
  "drop_entry i e =
     (let newRules = filter (\<lambda>r. rr_ID r \<noteq> i) (snd e)
      in if length newRules = length (snd e) then [e] else if newRules = [] then [] else [(fst e, newRules)])"

definition drop_rule :: "string \<Rightarrow> rule_cache \<Rightarrow> rule_cache" where
  "drop_rule i m = concat (map (drop_entry i) m)"

definition UpdateRoutingRuleInMemory :: "rule_cache \<Rightarrow> TableRoutingRule option \<Rightarrow> err + rule_cache" where
  "UpdateRoutingRuleInMemory m r =
     (case r of None \<Rightarrow> Inl (Err ''routing rule cannot be nil'')
      | Some rule \<Rightarrow>
          let m1 = drop_rule (rr_ID rule) m;
              rules = (case gm_get m1 (rule_key rule) of None \<Rightarrow> [] | Some existing \<Rightarrow> existing)
          in Inr (gm_put (rule_key rule) (sort_by (\<lambda>a b. Priority a < Priority b) (rules @ [rule])) m1))"

definition DeleteRoutingRuleInMemory :: "rule_cache \<Rightarrow> string \<Rightarrow> rule_cache" where
  "DeleteRoutingRuleInMemory m i =
     concat (map (\<lambda>(key, rules).
       let filteredRules = filter (\<lambda>r. rr_ID r \<noteq> i) rules
       in if filteredRules = [] then [] else [(key, filteredRules)]) m)"

section \<open>The engine\<close>

record RoutingDecision =
  rd_Provider :: string
  rd_Model :: string
  rd_KeyID :: string
  rd_Fallbacks :: "string list"
  MatchedRuleID :: string
  MatchedRuleName :: string

definition buildScopeChain :: "TableVirtualKey option \<Rightarrow> string \<Rightarrow> (string \<times> string) list" where
  "buildScopeChain virtualKey userID =
     (case virtualKey of None \<Rightarrow> [] | Some vk \<Rightarrow> [(''virtual_key'', vk_ID vk)])
     @ (if userID \<noteq> [] then [(''user'', userID)] else [])
     @ (case virtualKey of None \<Rightarrow> []
        | Some vk \<Rightarrow>
            (case vk_Team vk of
               Some team \<Rightarrow> (''team'', team_ID team)
                 # (case team_Customer team of None \<Rightarrow> [] | Some cu \<Rightarrow> [(''customer'', customer_ID cu)])
             | None \<Rightarrow> (case vk_Customer vk of None \<Rightarrow> [] | Some cu \<Rightarrow> [(''customer'', customer_ID cu)])))
     @ [(''global'', [])]"

fun pick_target :: "f64 \<Rightarrow> f64 \<Rightarrow> TableRoutingTarget list \<Rightarrow> TableRoutingTarget option" where
  "pick_target r cumulative [] = None"
| "pick_target r cumulative (t # ts) =
     (let c = f64_add cumulative (rt_Weight t) in if f64_lt r c then Some t else pick_target r c ts)"

definition selectWeightedTarget :: "TableRoutingTarget list \<Rightarrow> rat \<times> nat \<Rightarrow> TableRoutingTarget option" where
  "selectWeightedTarget targets draw =
     (let valid = filter (\<lambda>t. f64_le (Fin 0) (rt_Weight t)) targets;
          total = fold (\<lambda>t acc. f64_add acc (rt_Weight t)) valid (Fin 0)
      in if valid = [] then None
         else if f64_eq total (Fin 0) then Some (valid ! (snd draw mod length valid))
         else if length valid = 1 then Some (hd valid)
         else case pick_target (f64_scale (fst draw) total) (Fin 0) valid of
           Some t \<Rightarrow> Some t | None \<Rightarrow> Some (last valid))"

definition target_or :: "string option \<Rightarrow> string \<Rightarrow> string" where
  "target_or t current = (case t of None \<Rightarrow> current | Some s \<Rightarrow> if s = [] then current else s)"

definition rule_decision :: "string \<Rightarrow> string \<Rightarrow> TableRoutingRule \<Rightarrow> TableRoutingTarget \<Rightarrow> RoutingDecision" where
  "rule_decision provider model rule t =
     \<lparr>rd_Provider = target_or (rt_Provider t) provider, rd_Model = target_or (rt_Model t) model,
      rd_KeyID = (case rt_KeyID t of None \<Rightarrow> [] | Some k \<Rightarrow> k), rd_Fallbacks = ParsedFallbacks rule,
      MatchedRuleID = rr_ID rule, MatchedRuleName = rr_Name rule\<rparr>"

text \<open>One step of a chain: the first rule that has not fired, matches and has a target to offer.\<close>

fun chain_step ::
    "(TableRoutingRule \<Rightarrow> string \<Rightarrow> string \<Rightarrow> bool) \<Rightarrow> rat \<times> nat \<Rightarrow> string list \<Rightarrow> string \<Rightarrow> string
      \<Rightarrow> TableRoutingRule list \<Rightarrow> (TableRoutingRule \<times> RoutingDecision) option" where
  "chain_step matches draw visited provider model [] = None"
| "chain_step matches draw visited provider model (rule # rules) =
     (if rr_ID rule \<in> set visited \<or> \<not> matches rule provider model
      then chain_step matches draw visited provider model rules
      else case selectWeightedTarget (Targets rule) draw of
        None \<Rightarrow> chain_step matches draw visited provider model rules
      | Some t \<Rightarrow> Some (rule, rule_decision provider model rule t))"

fun rule_chain ::
    "(TableRoutingRule \<Rightarrow> string \<Rightarrow> string \<Rightarrow> bool) \<Rightarrow> (nat \<Rightarrow> rat \<times> nat) \<Rightarrow> TableRoutingRule list \<Rightarrow> nat \<Rightarrow> nat
      \<Rightarrow> string list \<Rightarrow> string \<Rightarrow> string \<Rightarrow> RoutingDecision option \<Rightarrow> RoutingDecision option" where
  "rule_chain matches draws rules 0 step visited provider model final = final"
| "rule_chain matches draws rules (Suc depth) step visited provider model final =
     (case chain_step matches (draws step) visited provider model rules of
        None \<Rightarrow> final
      | Some (rule, d) \<Rightarrow>
          if \<not> ChainRule rule then Some d
          else rule_chain matches draws rules depth (Suc step) (rr_ID rule # visited) (rd_Provider d) (rd_Model d) (Some d))"

definition scoped_rules :: "rule_cache \<Rightarrow> TableVirtualKey option \<Rightarrow> string \<Rightarrow> TableRoutingRule list" where
  "scoped_rules m virtualKey userID =
     concat (map (\<lambda>(scope, i). GetScopedRoutingRules m scope i) (buildScopeChain virtualKey userID))"

definition EvaluateRoutingRules ::
    "(TableRoutingRule \<Rightarrow> string \<Rightarrow> string \<Rightarrow> bool) \<Rightarrow> (nat \<Rightarrow> rat \<times> nat) \<Rightarrow> int \<Rightarrow> rule_cache \<Rightarrow> TableVirtualKey option
      \<Rightarrow> string \<Rightarrow> string \<Rightarrow> string \<Rightarrow> RoutingDecision option" where
  "EvaluateRoutingRules matches draws chainMaxDepth m virtualKey userID provider model =
     rule_chain matches draws (scoped_rules m virtualKey userID) (nat chainMaxDepth) 0 [] provider model None"

section \<open>Applying a decision\<close>

definition resolve_fallbacks :: "(string \<Rightarrow> bool) \<Rightarrow> string \<Rightarrow> string list \<Rightarrow> (string \<times> string) list" where
  "resolve_fallbacks known model fbs =
     List.map_filter (\<lambda>fb.
       let (fbProvider, fbModel) = ParseModelString known fb [];
           p = trimSpace fbProvider; mo = trimSpace fbModel
       in if p = [] then None else Some (p, if mo = [] \<and> model \<noteq> [] then model else mo)) fbs"

definition applyRoutingRules ::
    "(string \<Rightarrow> bool) \<Rightarrow> (string \<Rightarrow> string \<Rightarrow> RoutingDecision option) \<Rightarrow> BifrostContext \<Rightarrow> RoutedRequest
      \<Rightarrow> RoutedRequest \<times> BifrostContext" where
  "applyRoutingRules known evaluate ctx req =
     (if rq_Model req = [] then (req, ctx)
      else case evaluate (rq_Provider req) (rq_Model req) of None \<Rightarrow> (req, ctx)
      | Some d \<Rightarrow>
          let r1 = (if rd_Provider d \<noteq> [] then req\<lparr>rq_Provider := rd_Provider d\<rparr> else req);
              r2 = (if rd_Model d \<noteq> [] then r1\<lparr>rq_Model := rd_Model d\<rparr> else r1);
              r3 = (if rd_Fallbacks d \<noteq> [] then r2\<lparr>rq_Fallbacks := resolve_fallbacks known (rq_Model req) (rd_Fallbacks d)\<rparr>
                    else r2);
              c1 = ctx\<lparr>ctx_RoutingRuleID := Some (MatchedRuleID d), ctx_RoutingRuleName := Some (MatchedRuleName d),
                     ctx_RoutingEnginesUsed := AppendToContextList (ctx_RoutingEnginesUsed ctx) ''routing-rule''\<rparr>
          in (r3, if rd_KeyID d \<noteq> [] then c1\<lparr>ctx_RoutingPinnedAPIKeyID := Some (rd_KeyID d)\<rparr> else c1))"

section \<open>The hook before a request\<close>

text \<open>
  \<open>balance\<close> is what the two branches of the hook share after the rules: load balancing and the
  include-tools list of a key. \<open>evaluate\<close> is the engine applied to everything but the provider
  and the model.
\<close>

definition balance ::
    "(string \<Rightarrow> bool) \<Rightarrow> GovernancePlugin \<Rightarrow> time \<Rightarrow> rat \<Rightarrow> BifrostContext \<Rightarrow> RoutedRequest \<Rightarrow> TableVirtualKey option
      \<Rightarrow> (err + RoutedRequest) \<times> BifrostContext" where
  "balance known p now rnd ctx req virtualKey =
     (case virtualKey of None \<Rightarrow> (Inr req, ctx)
      | Some vk \<Rightarrow>
          (case loadBalanceProvider known (p_resolver p) now rnd ctx req vk of
             Inl e \<Rightarrow> (Inl e, ctx)
           | Inr (q, c) \<Rightarrow> (Inr q, stamp_include_tools p c vk)))"

definition apply_rules ::
    "(string \<Rightarrow> bool) \<Rightarrow> (string \<Rightarrow> string \<Rightarrow> RoutingDecision option) \<Rightarrow> bool \<Rightarrow> BifrostContext \<Rightarrow> RoutedRequest
      \<Rightarrow> RoutedRequest \<times> BifrostContext" where
  "apply_rules known evaluate hasRules ctx req =
     (if hasRules then applyRoutingRules known evaluate ctx req else (req, ctx))"

definition runPreRequestRouting ::
    "(string \<Rightarrow> bool) \<Rightarrow> GovernancePlugin \<Rightarrow> time \<Rightarrow> rat \<Rightarrow> (string \<Rightarrow> string \<Rightarrow> RoutingDecision option) \<Rightarrow> bool
      \<Rightarrow> BifrostContext \<Rightarrow> TableVirtualKey option \<Rightarrow> string \<Rightarrow> (err + string) \<times> BifrostContext" where
  "runPreRequestRouting known p now rnd evaluate hasRules ctx virtualKey modelIn =
     (let (providerIn, parsedModel) = ParseModelString known modelIn [];
          synthetic = \<lparr>rq_Provider = providerIn, rq_Model = parsedModel, rq_Fallbacks = []\<rparr>;
          (routed, c0) = apply_rules known evaluate hasRules ctx synthetic
      in case balance known p now rnd c0 routed virtualKey of
        (Inl e, c) \<Rightarrow> (Inl e, c)
      | (Inr q, c) \<Rightarrow> (Inr (if rq_Provider q \<noteq> [] then rq_Provider q @ ''/'' @ rq_Model q else rq_Model q), c))"

text \<open>
  The result is the error, if any, the request, the context and the model of the large-payload
  metadata, \<open>[]\<close> when there is none.
\<close>

definition PreRequestHook ::
    "(string \<Rightarrow> bool) \<Rightarrow> GovernancePlugin \<Rightarrow> time \<Rightarrow> rat \<Rightarrow> (TableVirtualKey option \<Rightarrow> string \<Rightarrow> string \<Rightarrow> RoutingDecision option)
      \<Rightarrow> bool \<Rightarrow> BifrostContext \<Rightarrow> string \<Rightarrow> string \<Rightarrow> RoutedRequest \<Rightarrow> string
      \<Rightarrow> err option \<times> RoutedRequest \<times> BifrostContext \<times> string" where
  "PreRequestHook known p now rnd evaluate hasRules ctx virtualKeyValue requestType req metadataModel =
     (let found = GetVirtualKey (r_store (p_resolver p)) virtualKeyValue;
          virtualKey = (if virtualKeyValue = [] then None else found)
      in if requestType = ''passthrough'' \<or> requestType = ''passthrough_stream'' then (None, req, ctx, metadataModel)
         else if virtualKeyValue = [] \<and> \<not> hasRules then (None, req, ctx, metadataModel)
         else if virtualKeyValue \<noteq> [] \<and> (found = None \<or> \<not> IsActiveValue found \<or> IsExpiredAt found now)
         then (None, req, ctx, metadataModel)
         else
           let c0 = stampGovernanceCtxFromVK ctx virtualKey in
           if metadataModel \<noteq> [] then
             (case runPreRequestRouting known p now rnd (evaluate virtualKey) hasRules c0 virtualKey metadataModel of
                (Inl e, c) \<Rightarrow> (Some e, req, c, metadataModel)
              | (Inr newModel, c) \<Rightarrow>
                  let mm = (if newModel \<noteq> [] then newModel else metadataModel)
                  in (None, req, publishRoutingAllowlist c virtualKey (snd (ParseModelString known mm [])), mm))
           else
             let (r1, c1) = apply_rules known (evaluate virtualKey) hasRules c0 req
             in (case balance known p now rnd (publishRoutingAllowlist c1 virtualKey (rq_Model r1)) r1 virtualKey of
                   (Inl e, c) \<Rightarrow> (Some e, r1, c, metadataModel)
                 | (Inr q, c) \<Rightarrow> (None, q, c, metadataModel)))"

end
