(* ===== verification/Routing_Properties.thy ===== *)
theory Routing_Properties
  imports Routing_Rules
begin

text \<open>
  What routing rules guarantee: a chain of rules ends whatever the rules are, because every
  chain rule fires at most once; every decision comes from an enabled rule in the scope of the
  request whose expression matched; within a step the first rule in the order of scopes and
  priorities wins; updating a rule moves it to its scope and leaves the other rules alone;
  and the tools that the hook before a request lets through never exceed the grants of the key.
\<close>

section \<open>Steps and chains\<close>

lemma selectWeightedTarget_valid:
  assumes "selectWeightedTarget targets draw = Some t"
  shows "t \<in> set targets \<and> f64_le (Fin 0) (rt_Weight t)"
proof -
  let ?valid = "filter (\<lambda>t. f64_le (Fin 0) (rt_Weight t)) targets"
  have pick: "pick_target r c ts = Some t \<Longrightarrow> t \<in> set ts" for r c ts t
    by (induction ts arbitrary: c) (auto simp: Let_def split: if_splits)
  have "?valid \<noteq> []" using assms by (auto simp: selectWeightedTarget_def Let_def split: if_splits)
  moreover from this have "?valid ! (snd draw mod length ?valid) \<in> set ?valid" by (intro nth_mem) simp
  ultimately have "t \<in> set ?valid"
    using assms pick unfolding selectWeightedTarget_def Let_def
    by (auto split: if_splits option.splits simp del: set_filter)
  then show ?thesis by simp
qed

lemma chain_step_Some:
  assumes "chain_step matches draw visited provider model rules = Some (rule, d)"
  shows "rule \<in> set rules \<and> rr_ID rule \<notin> set visited \<and> matches rule provider model
    \<and> (\<exists>t. selectWeightedTarget (Targets rule) draw = Some t \<and> d = rule_decision provider model rule t)"
  using assms by (induction rules) (auto split: if_splits option.splits)

lemma chain_step_first:
  assumes "list_all (\<lambda>r. rr_ID r \<in> set visited \<or> \<not> matches r provider model \<or> selectWeightedTarget (Targets r) draw = None) before"
    and "rr_ID rule \<notin> set visited" "matches rule provider model" "selectWeightedTarget (Targets rule) draw = Some t"
  shows "chain_step matches draw visited provider model (before @ rule # after) = Some (rule, rule_decision provider model rule t)"
  using assms by (induction before) auto

lemma rule_chain_deeper:
  assumes "card (rr_ID ` set rules - set visited) < depth"
  shows "rule_chain matches draws rules (depth + k) step visited provider model final
    = rule_chain matches draws rules depth step visited provider model final"
  using assms
proof (induction depth arbitrary: step visited provider model final)
  case (Suc depth)
  show ?case
  proof (cases "chain_step matches (draws step) visited provider model rules")
    case (Some rd)
    obtain rule d where rd: "rd = (rule, d)" by (cases rd)
    have "rr_ID rule \<in> rr_ID ` set rules - set visited"
      using chain_step_Some [OF Some [unfolded rd]] by auto
    then have "card (rr_ID ` set rules - set (rr_ID rule # visited)) < card (rr_ID ` set rules - set visited)"
      by (intro psubset_card_mono) auto
    then have "card (rr_ID ` set rules - set (rr_ID rule # visited)) < depth" using Suc.prems by simp
    from Suc.IH [OF this] show ?thesis by (simp add: Some rd)
  qed simp
qed simp

lemma rule_chain_justified:
  assumes "rule_chain matches draws rules depth step visited provider model final = Some dec"
  shows "final = Some dec \<or> (\<exists>rule \<in> set rules. \<exists>p m t. matches rule p m \<and> t \<in> set (Targets rule)
     \<and> f64_le (Fin 0) (rt_Weight t) \<and> dec = rule_decision p m rule t)"
  using assms
proof (induction depth arbitrary: step visited provider model final)
  case (Suc depth)
  show ?case
  proof (cases "chain_step matches (draws step) visited provider model rules")
    case (Some rd)
    obtain rule d where rd: "rd = (rule, d)" by (cases rd)
    from chain_step_Some [OF Some [unfolded rd]] obtain t where t: "rule \<in> set rules" "matches rule provider model"
      "selectWeightedTarget (Targets rule) (draws step) = Some t" "d = rule_decision provider model rule t" by blast
    have now: "\<exists>rule \<in> set rules. \<exists>p m t. matches rule p m \<and> t \<in> set (Targets rule)
       \<and> f64_le (Fin 0) (rt_Weight t) \<and> d = rule_decision p m rule t"
      using t selectWeightedTarget_valid [OF t(3)] by blast
    show ?thesis
    proof (cases "ChainRule rule")
      case True
      then have "rule_chain matches draws rules depth (Suc step) (rr_ID rule # visited) (rd_Provider d) (rd_Model d) (Some d) = Some dec"
        using Suc.prems by (simp add: Some rd)
      from Suc.IH [OF this] now show ?thesis by blast
    next
      case False
      then show ?thesis using Suc.prems now by (simp add: Some rd)
    qed
  qed (use Suc.prems in simp)
qed simp

lemma scoped_rules_enabled:
  assumes "rule \<in> set (scoped_rules m vk user)"
  shows "EnabledValue (Some rule) \<and> (\<exists>scope i. (scope, i) \<in> set (buildScopeChain vk user) \<and> rule \<in> set (GetScopedRoutingRules m scope i))"
proof -
  obtain scope i where s: "(scope, i) \<in> set (buildScopeChain vk user)" "rule \<in> set (GetScopedRoutingRules m scope i)"
    using assms by (auto simp: scoped_rules_def)
  have "EnabledValue (Some rule)"
    using s(2) by (auto simp: GetScopedRoutingRules_def Let_def split: option.splits if_splits)
  then show ?thesis using s by blast
qed

section \<open>The rule cache\<close>

lemma drop_rule_Cons: "drop_rule i (e # m) = drop_entry i e @ drop_rule i m"
  by (simp add: drop_rule_def)

lemma drop_entry_cases:
  "drop_entry i e = [(fst e, filter (\<lambda>r. rr_ID r \<noteq> i) (snd e))]
    \<or> (drop_entry i e = [] \<and> filter (\<lambda>r. rr_ID r \<noteq> i) (snd e) = [])"
proof -
  have "length (filter (\<lambda>r. rr_ID r \<noteq> i) rules) = length rules \<Longrightarrow> filter (\<lambda>r. rr_ID r \<noteq> i) rules = rules" for rules
    by (metis filter_id_conv length_filter_less less_irrefl)
  from this [of "snd e"] show ?thesis unfolding drop_entry_def Let_def by (cases e) auto
qed

lemma keys_drop_rule: "fst ` set (drop_rule i m) \<subseteq> fst ` set m"
proof (induction m)
  case (Cons e m)
  then show ?case using drop_entry_cases [of i e] by (auto simp: drop_rule_Cons)
qed (simp add: drop_rule_def)

lemma gm_ok_drop_rule: "gm_ok m \<Longrightarrow> gm_ok (drop_rule i m)"
proof (induction m)
  case (Cons e m)
  have "fst e \<notin> fst ` set (drop_rule i m)" using Cons.prems keys_drop_rule [of i m] by auto
  then show ?case
    using Cons drop_entry_cases [of i e] by (elim disjE) (simp_all add: drop_rule_Cons)
qed (simp add: drop_rule_def)

lemma get_drop_rule:
  "gm_ok m \<Longrightarrow> gm_get0 [] (drop_rule i m) k = filter (\<lambda>r. rr_ID r \<noteq> i) (gm_get0 [] m k)"
proof (induction m)
  case (Cons e m)
  have "gm_get m (fst e) = None" using Cons.prems by (simp add: map_of_eq_None_iff)
  moreover from this have "gm_get (drop_rule i m) (fst e) = None"
    using keys_drop_rule [of i m] by (auto simp: map_of_eq_None_iff)
  ultimately show ?case
    using Cons drop_entry_cases [of i e]
    by (cases e) (auto simp: drop_rule_Cons gm_get0_def split: if_splits)
qed (simp add: drop_rule_def)

section \<open>Properties\<close>

definition sample_rule :: TableRoutingRule where
  "sample_rule = \<lparr>rr_ID = ''r1'', rr_Name = ''to groq'', rr_Enabled = None, CelExpression = ''true'',
     Targets = [\<lparr>rt_Provider = Some ''groq'', rt_Model = None, rt_KeyID = None, rt_Weight = Fin 1\<rparr>],
     ParsedFallbacks = [''openai/gpt-4o''], rr_Scope = ''global'', rr_ScopeID = None, ChainRule = True, Priority = 3,
     rr_CreatedAt = 10\<rparr>"

definition sample_cache :: rule_cache where
  "sample_cache = [(''global:'', [sample_rule])]"

lemma sample_scoped: "scoped_rules sample_cache None [] = [sample_rule]"
  by (simp add: scoped_rules_def buildScopeChain_def GetScopedRoutingRules_def sample_cache_def sample_rule_def
      EnabledValue_def Let_def)

definition moved_rule :: TableRoutingRule where
  "moved_rule = sample_rule\<lparr>rr_Scope := ''team'', rr_ScopeID := Some ''t1''\<rparr>"

lemma moved_rule_facts: "rr_ID sample_rule = rr_ID moved_rule" "rule_key moved_rule = ''team:t1''"
  by (simp_all add: moved_rule_def sample_rule_def rule_key_def)

lemma sample_target:
  "selectWeightedTarget (Targets sample_rule) draw =
     Some \<lparr>rt_Provider = Some ''groq'', rt_Model = None, rt_KeyID = None, rt_Weight = Fin 1\<rparr>"
  by (simp add: selectWeightedTarget_def sample_rule_def f64_eq_def Let_def)

text \<open>
  C21: A chain of routing rules ends, and the depth limit is not what ends it as long as it
  exceeds the number of rules in the scopes of the request: from there on every larger limit
  gives the same decision, because a chain rule that has fired does not fire again.
\<close>

theorem routing_chain_ends:
  assumes "int (card (rr_ID ` set (scoped_rules m vk userID))) < depth" "depth \<le> depth'"
  shows "EvaluateRoutingRules matches draws depth' m vk userID provider model
    = EvaluateRoutingRules matches draws depth m vk userID provider model"
proof -
  have "card (rr_ID ` set (scoped_rules m vk userID) - set []) < nat depth" using assms(1) by simp
  moreover have "nat depth' = nat depth + (nat depth' - nat depth)" using assms(2) by simp
  ultimately show ?thesis unfolding EvaluateRoutingRules_def by (metis rule_chain_deeper)
qed

theorem routing_chain_ends_witness:
  "EvaluateRoutingRules (\<lambda>_ _ _. True) (\<lambda>_. (0, 0)) 10 sample_cache None [] [] ''gpt-4o''
    = EvaluateRoutingRules (\<lambda>_ _ _. True) (\<lambda>_. (0, 0)) 2 sample_cache None [] [] ''gpt-4o''"
  by (rule routing_chain_ends) (simp_all add: sample_scoped)

text \<open>
  A request is routed only by a rule that applies to it: the decision of the engine is made
  by an enabled rule in one of the scopes of the request, whose expression matched for the
  provider and model the chain had reached, and sends the request to one of the targets of
  that rule with a weight that is not negative.
\<close>

theorem routing_decision_is_justified:
  assumes "EvaluateRoutingRules matches draws depth m vk userID provider model = Some dec"
  shows "\<exists>rule scope i. (scope, i) \<in> set (buildScopeChain vk userID) \<and> rule \<in> set (GetScopedRoutingRules m scope i)
     \<and> EnabledValue (Some rule) \<and> MatchedRuleID dec = rr_ID rule \<and> rd_Fallbacks dec = ParsedFallbacks rule
     \<and> (\<exists>p mo. matches rule p mo \<and> (\<exists>t \<in> set (Targets rule). f64_le (Fin 0) (rt_Weight t)
           \<and> rd_Provider dec = target_or (rt_Provider t) p \<and> rd_Model dec = target_or (rt_Model t) mo))"
proof -
  obtain rule p mo t where r: "rule \<in> set (scoped_rules m vk userID)" "matches rule p mo" "t \<in> set (Targets rule)"
    "f64_le (Fin 0) (rt_Weight t)" "dec = rule_decision p mo rule t"
    using rule_chain_justified [OF assms [unfolded EvaluateRoutingRules_def]] by auto
  from scoped_rules_enabled [OF r(1)] obtain scope i where s: "EnabledValue (Some rule)"
    "(scope, i) \<in> set (buildScopeChain vk userID)" "rule \<in> set (GetScopedRoutingRules m scope i)" by blast
  have "MatchedRuleID dec = rr_ID rule" "rd_Fallbacks dec = ParsedFallbacks rule"
    "rd_Provider dec = target_or (rt_Provider t) p" "rd_Model dec = target_or (rt_Model t) mo"
    by (simp_all add: r(5) rule_decision_def)
  with s r(2-4) show ?thesis by blast
qed

lemma sample_decision:
  "EvaluateRoutingRules (\<lambda>_ _ _. True) (\<lambda>_. (0, 0)) 10 sample_cache None [] [] ''gpt-4o'' =
     Some \<lparr>rd_Provider = ''groq'', rd_Model = ''gpt-4o'', rd_KeyID = [], rd_Fallbacks = [''openai/gpt-4o''],
       MatchedRuleID = ''r1'', MatchedRuleName = ''to groq''\<rparr>"
proof -
  have "ChainRule sample_rule" by (simp add: sample_rule_def)
  then show ?thesis
    unfolding EvaluateRoutingRules_def sample_scoped
    by (simp add: numeral_eq_Suc sample_target rule_decision_def target_or_def) (simp add: sample_rule_def)
qed

theorem routing_decision_is_justified_witness:
  "\<exists>rule scope i. (scope, i) \<in> set (buildScopeChain None []) \<and> rule \<in> set (GetScopedRoutingRules sample_cache scope i)
     \<and> rr_ID rule = ''r1''"
proof -
  obtain rule scope i where "(scope, i) \<in> set (buildScopeChain None [])"
    "rule \<in> set (GetScopedRoutingRules sample_cache scope i)" "''r1'' = rr_ID rule"
    using routing_decision_is_justified [OF sample_decision] unfolding RoutingDecision.simps by blast
  then show ?thesis by metis
qed

text \<open>
  The first applicable rule wins. With the rules of a request in the order key, user, team,
  customer, global and by priority within a scope, a rule that matches and is not a chain
  rule decides the request when every rule before it does not match or has no target.
\<close>

theorem first_matching_rule_decides:
  assumes "scoped_rules m vk userID = before @ rule # after"
    and "list_all (\<lambda>r. \<not> matches r provider model \<or> selectWeightedTarget (Targets r) (draws 0) = None) before"
    and "matches rule provider model" "selectWeightedTarget (Targets rule) (draws 0) = Some t" "\<not> ChainRule rule" "0 < depth"
  shows "EvaluateRoutingRules matches draws depth m vk userID provider model = Some (rule_decision provider model rule t)"
proof -
  obtain n where n: "nat depth = Suc n" using assms(6) by (metis gr0_implies_Suc zero_less_nat_eq)
  have "chain_step matches (draws 0) [] provider model (before @ rule # after) = Some (rule, rule_decision provider model rule t)"
    using assms(2-4) by (intro chain_step_first) (auto simp: list_all_iff)
  then show ?thesis using assms(1,5) by (simp add: EvaluateRoutingRules_def n)
qed

theorem first_matching_rule_decides_witness:
  "EvaluateRoutingRules (\<lambda>_ _ _. True) (\<lambda>_. (0, 0)) 10 [(''global:'', [sample_rule\<lparr>ChainRule := False\<rparr>])] None [] [] ''gpt-4o'' =
     Some (rule_decision [] ''gpt-4o'' (sample_rule\<lparr>ChainRule := False\<rparr>)
       \<lparr>rt_Provider = Some ''groq'', rt_Model = None, rt_KeyID = None, rt_Weight = Fin 1\<rparr>)"
  by (rule first_matching_rule_decides [where before = "[]" and after = "[]"])
     (simp_all add: scoped_rules_def buildScopeChain_def GetScopedRoutingRules_def EnabledValue_def sample_rule_def
       selectWeightedTarget_def f64_eq_def Let_def)

text \<open>
  Updating a routing rule puts it into the list of its scope, in order of priority, removes
  every older version of it from all scopes, and leaves the other rules where they were.
\<close>

theorem UpdateRoutingRule_moves_rule:
  assumes "gm_ok m" "UpdateRoutingRuleInMemory m (Some rule) = Inr m'"
  shows "rule \<in> set (gm_get0 [] m' (rule_key rule)) \<and> sorted (map Priority (gm_get0 [] m' (rule_key rule)))
    \<and> (r \<in> set (gm_get0 [] m' k) \<longleftrightarrow>
         (if rr_ID r = rr_ID rule then r = rule \<and> k = rule_key rule else r \<in> set (gm_get0 [] m k)))"
proof -
  have m': "m' = gm_put (rule_key rule) (sort_by (\<lambda>a b. Priority a < Priority b)
      (gm_get0 [] (drop_rule (rr_ID rule) m) (rule_key rule) @ [rule])) (drop_rule (rr_ID rule) m)"
    using assms(2) by (auto simp: UpdateRoutingRuleInMemory_def gm_get0_def Let_def)
  show ?thesis
    unfolding m' gm_get0_put get_drop_rule [OF assms(1)] by (auto simp: sort_by_key_sorted)
qed

theorem UpdateRoutingRule_moves_rule_witness:
  "\<exists>m'. UpdateRoutingRuleInMemory sample_cache (Some moved_rule) = Inr m'
     \<and> moved_rule \<in> set (gm_get0 [] m' ''team:t1'') \<and> sample_rule \<notin> set (gm_get0 [] m' ''global:'')"
proof -
  obtain m' where u: "UpdateRoutingRuleInMemory sample_cache (Some moved_rule) = Inr m'"
    by (simp add: UpdateRoutingRuleInMemory_def Let_def)
  have "gm_ok sample_cache" by (simp add: sample_cache_def)
  from UpdateRoutingRule_moves_rule [OF this u, of sample_rule "''global:''"] u show ?thesis
    by (auto simp: moved_rule_facts)
qed

text \<open>
  Listing all rules puts the newer of two rules with the same priority first.
\<close>

theorem newer_rule_listed_first:
  "GetAllRoutingRules [(''global:'', [sample_rule, sample_rule\<lparr>rr_ID := ''r2'', rr_CreatedAt := 20\<rparr>])]
    = [sample_rule\<lparr>rr_ID := ''r2'', rr_CreatedAt := 20\<rparr>, sample_rule]"
  by (simp add: GetAllRoutingRules_def sort_by_def sample_rule_def)

section \<open>Tools after the hook\<close>

lemma stamp_include_tools_granted:
  assumes "clients_ok vk (allow_all p)" "ctx_MCPIncludeTools (stamp_include_tools p c vk) = Some tools" "t \<in> set tools"
  shows "isMCPToolAllowedByVK p vk t"
proof -
  have prune: "list_all (within_grant vk (allow_all p)) (fold (prune_tool vk (allow_all p)) req [])" for req
    by (rule fold_inv) (simp_all add: prune_tool_within [OF assms(1)])
  consider req where "tools = fold (prune_tool vk (allow_all p)) req []" | "tools = computeMCPIncludeTools p vk"
    using assms(2) by (auto simp: stamp_include_tools_def pruneMCPIncludeToolsFromContext_def Let_def
        split: option.splits if_splits prod.splits)
  then show ?thesis
  proof cases
    case 1
    then show ?thesis
      using prune assms(3) by (auto simp: list_all_iff within_grant_def isMCPToolAllowedByVK_def)
  next
    case 2
    then show ?thesis
      using assms(3) grant_allowed [OF assms(1)] by (simp add: computeMCPIncludeTools_def isMCPToolAllowedByVK_def)
  qed
qed

lemma balance_stamps:
  "balance known p now rnd c req (Some vk) = (Inr q, c') \<Longrightarrow> \<exists>c0. c' = stamp_include_tools p c0 vk"
  by (auto simp: balance_def split: sum.splits)

lemma publish_keeps_tools: "ctx_MCPIncludeTools (publishRoutingAllowlist c vk m) = ctx_MCPIncludeTools c"
  by (simp add: publishRoutingAllowlist_def split: option.split)

lemma PreRequestHook_stamps:
  assumes "PreRequestHook known p now rnd evaluate hasRules ctx v requestType req mm = (None, q, ctx', mm')"
    and "GetVirtualKey (r_store (p_resolver p)) v = Some vk" "IsActiveValue (Some vk)" "\<not> IsExpiredAt (Some vk) now" "v \<noteq> []"
    and "requestType \<noteq> ''passthrough''" "requestType \<noteq> ''passthrough_stream''"
  shows "\<exists>c. ctx_MCPIncludeTools ctx' = ctx_MCPIncludeTools (stamp_include_tools p c vk)"
proof (cases "mm = []")
  case True
  then show ?thesis
    using assms by (auto simp: PreRequestHook_def Let_def dest!: balance_stamps split: prod.splits sum.splits)
next
  case False
  then obtain newModel c where "runPreRequestRouting known p now rnd (evaluate (Some vk)) hasRules
      (stampGovernanceCtxFromVK ctx (Some vk)) (Some vk) mm = (Inr newModel, c)"
    "ctx_MCPIncludeTools ctx' = ctx_MCPIncludeTools c"
    using assms by (auto simp: PreRequestHook_def Let_def publish_keeps_tools split: prod.splits sum.splits)
  then show ?thesis
    by (auto simp: runPreRequestRouting_def Let_def dest!: balance_stamps split: prod.splits sum.splits)
qed

text \<open>
  The tools of a request never exceed the grants of its key. After the hook before a request
  made with an active key, every tool on the include list, whether the caller named it or the
  hook stamped it, is one that the check at execution time lets the key run.
\<close>

theorem request_tools_never_exceed_grant:
  assumes "PreRequestHook known p now rnd evaluate hasRules ctx v requestType req mm = (None, q, ctx', mm')"
    and "GetVirtualKey (r_store (p_resolver p)) v = Some vk" "IsActiveValue (Some vk)" "\<not> IsExpiredAt (Some vk) now" "v \<noteq> []"
    and "requestType \<noteq> ''passthrough''" "requestType \<noteq> ''passthrough_stream''"
    and "clients_ok vk (allow_all p)" "ctx_MCPIncludeTools ctx' = Some tools" "t \<in> set tools"
  shows "isMCPToolAllowedByVK p vk t"
  using PreRequestHook_stamps [OF assms(1-7)] stamp_include_tools_granted [OF assms(8)] assms(9,10) by metis

theorem request_tools_never_exceed_grant_witness:
  "isMCPToolAllowedByVK gate_plugin gate_vk ''fs-list''"
proof -
  let ?req = "\<lparr>rq_Provider = ''openai'', rq_Model = ''gpt-4o'', rq_Fallbacks = []\<rparr>"
  let ?ctx = "gate_ctx\<lparr>ctx_MCPIncludeTools := Some [''fs-*'']\<rparr>"
  obtain q c mm where h: "PreRequestHook (\<lambda>_. False) gate_plugin 0 0 (\<lambda>_ _ _. None) False ?ctx ''sk-1'' ''chat_completion'' ?req [] = (None, q, c, mm)"
    and c: "ctx_MCPIncludeTools c = Some [''fs-read'', ''fs-list'']"
    by (simp add: PreRequestHook_def GetVirtualKey_def balance_def apply_rules_def loadBalanceProvider_def
        stampGovernanceCtxFromVK_def publishRoutingAllowlist_def stamp_include_tools_def pruneMCPIncludeToolsFromContext_def
        prune_tool_def cut_wildcard_def computeMCPIncludeToolsWith_def mcp_grants_def add_tool_def hasPrefix_def
        wl_IsUnrestricted_def wl_Contains_def equalFold_def toLower_def ascii_lower_def gate_defs IsActiveValue_def
        IsExpiredAt_def allow_all_def Let_def)
  have ok: "clients_ok gate_vk (allow_all gate_plugin)"
    unfolding gate_vk_def sample_vk_def gate_plugin_def by code_simp
  show ?thesis
    by (rule request_tools_never_exceed_grant [OF h gate_key _ _ _ _ _ ok c])
       (simp_all add: gate_vk_def sample_vk_def IsActiveValue_def IsExpiredAt_def)
qed

end
