(* ===== verification/Usage_Tracker.thy ===== *)
theory Usage_Tracker
  imports Governance_Checks
begin

text \<open>
  Settling the usage of a request: plugins/governance/tracker.go. The tracker holds the store
  and the set of physical provider calls already billed, keyed by request and attempt.
  Updates of one provider, key or user read their clocks independently: \<open>clocks s i\<close> is the
  sequence the \<open>i\<close>-th row of the \<open>s\<close>-th loop reads. The reading of \<^verbatim>\<open>time.Now\<close> in a claim or in
  a sweep is the argument \<open>now\<close>. The user counters of the store are empty operations here, as
  in the local store. \<open>scoped\<close> is the request's scoped customer.
\<close>

record UsageUpdate =
  upd_VirtualKey :: string
  upd_Provider :: string
  upd_Model :: string
  Success :: bool
  TokensUsed :: int
  Cost :: f64
  RequestID :: string
  upd_UserID :: string
  IsStreaming :: bool
  IsFinalChunk :: bool
  HasUsageData :: bool
  AttemptNumber :: int

record UsageTracker =
  t_store :: LocalGovernanceStore
  billed :: "(string, time) gomap"

definition billedEntryTTL :: duration where
  "billedEntryTTL = 5 * 60 * 1000000000"

definition billing_key :: "UsageUpdate \<Rightarrow> string" where
  "billing_key u = RequestID u @ '':'' @ dec_int (AttemptNumber u)"

definition tryClaimBilling :: "UsageTracker \<Rightarrow> time \<Rightarrow> UsageUpdate \<Rightarrow> UsageTracker \<times> bool" where
  "tryClaimBilling t now u =
     (if RequestID u = [] then (t, True)
      else case gm_get (billed t) (billing_key u) of
        Some _ \<Rightarrow> (t, False)
      | None \<Rightarrow> (t\<lparr>billed := gm_put (billing_key u) now (billed t)\<rparr>, True))"

definition sweepBilled :: "UsageTracker \<Rightarrow> time \<Rightarrow> UsageTracker" where
  "sweepBilled t now =
     (let cutoff = time_Add now (- billedEntryTTL)
      in t\<lparr>billed := filter (\<lambda>(k, claimedAt). \<not> claimedAt < cutoff) (billed t)\<rparr>)"

definition UpdateUserRateLimitUsageInMemory ::
    "LocalGovernanceStore \<Rightarrow> string \<Rightarrow> int \<Rightarrow> bool \<Rightarrow> bool \<Rightarrow> LocalGovernanceStore" where
  "UpdateUserRateLimitUsageInMemory gs userID tokensUsed updT updR = gs"

definition UpdateUserBudgetUsageInMemory :: "LocalGovernanceStore \<Rightarrow> string \<Rightarrow> f64 \<Rightarrow> LocalGovernanceStore" where
  "UpdateUserBudgetUsageInMemory gs userID cost = gs"

definition has_usage :: "UsageUpdate \<Rightarrow> bool" where
  "has_usage u = (TokensUsed u > 0 \<or> f64_lt (Fin 0) (Cost u))"

definition is_terminal :: "UsageUpdate \<Rightarrow> bool" where
  "is_terminal u = (\<not> IsStreaming u \<or> IsFinalChunk u)"

definition should_tokens :: "UsageUpdate \<Rightarrow> bool" where
  "should_tokens u = (\<not> IsStreaming u \<or> (IsStreaming u \<and> HasUsageData u))"

definition should_requests :: "UsageUpdate \<Rightarrow> bool" where
  "should_requests u = (Success u \<and> (\<not> IsStreaming u \<or> (IsStreaming u \<and> IsFinalChunk u)))"

definition should_budget :: "UsageUpdate \<Rightarrow> bool" where
  "should_budget u = ((\<not> IsStreaming u \<or> (IsStreaming u \<and> HasUsageData u)) \<and> f64_lt (Fin 0) (Cost u))"

section \<open>The counters an update touches\<close>

definition settle_model ::
    "(nat \<Rightarrow> nat \<Rightarrow> nat \<Rightarrow> time) \<Rightarrow> UsageUpdate \<Rightarrow> LocalGovernanceStore \<Rightarrow> LocalGovernanceStore" where
  "settle_model clocks u gs =
     (if upd_Model u = [] then gs
      else let gs1 = UpdateProviderAndModelRateLimitUsageInMemory gs (clocks 0) (upd_Model u) (upd_Provider u)
                       (TokensUsed u) (should_tokens u) (should_requests u)
        in if should_budget u
           then UpdateProviderAndModelBudgetUsageInMemory gs1 (clocks 1) (upd_Model u) (upd_Provider u) (Cost u)
           else gs1)"

definition settle_scope ::
    "(nat \<Rightarrow> nat \<Rightarrow> time) \<Rightarrow> (nat \<Rightarrow> nat \<Rightarrow> time) \<Rightarrow> string \<Rightarrow> string \<Rightarrow> UsageUpdate
      \<Rightarrow> LocalGovernanceStore \<Rightarrow> LocalGovernanceStore" where
  "settle_scope c1 c2 scope scopeID u gs =
     (if upd_Model u = [] then gs
      else let gs1 = UpdateScopedModelRateLimitUsageInMemory gs c1 scope scopeID (upd_Model u) (upd_Provider u)
                       (TokensUsed u) (should_tokens u) (should_requests u)
        in if should_budget u
           then UpdateScopedModelBudgetUsageInMemory gs1 c2 scope scopeID (upd_Model u) (upd_Provider u) (Cost u)
           else gs1)"

definition settle_user ::
    "(nat \<Rightarrow> nat \<Rightarrow> nat \<Rightarrow> time) \<Rightarrow> UsageUpdate \<Rightarrow> LocalGovernanceStore \<Rightarrow> LocalGovernanceStore" where
  "settle_user clocks u gs =
     (if upd_UserID u = [] then gs
      else let gs1 = UpdateUserRateLimitUsageInMemory gs (upd_UserID u) (TokensUsed u) (should_tokens u)
                       (should_requests u);
               gs2 = (if should_budget u then UpdateUserBudgetUsageInMemory gs1 (upd_UserID u) (Cost u) else gs1)
        in settle_scope (clocks 2) (clocks 3) ModelConfigScopeUser (upd_UserID u) u gs2)"

definition settle_key ::
    "(nat \<Rightarrow> nat \<Rightarrow> nat \<Rightarrow> time) \<Rightarrow> string \<Rightarrow> UsageUpdate \<Rightarrow> LocalGovernanceStore \<Rightarrow> LocalGovernanceStore" where
  "settle_key clocks scoped u gs =
     (if upd_VirtualKey u = [] then gs
      else case GetVirtualKey gs (upd_VirtualKey u) of None \<Rightarrow> gs
      | Some vk \<Rightarrow>
          let gs1 = settle_scope (clocks 4) (clocks 5) ModelConfigScopeVirtualKey (vk_ID vk) u gs;
              gs2 = (if vk_RateLimit vk \<noteq> None \<or> vk_pcs vk \<noteq> [] \<or> vk_TeamID vk \<noteq> None \<or> vk_CustomerID vk \<noteq> None
                     then fst (UpdateVirtualKeyRateLimitUsageInMemory gs1 (clocks 6) scoped (Some vk) (upd_Provider u)
                                 (TokensUsed u) (should_tokens u) (should_requests u))
                     else gs1)
          in if should_budget u
             then fst (UpdateVirtualKeyBudgetUsageInMemory gs2 (clocks 7) scoped (Some vk) (upd_Provider u) (Cost u))
             else gs2)"

definition UpdateUsage ::
    "(nat \<Rightarrow> nat \<Rightarrow> nat \<Rightarrow> time) \<Rightarrow> time \<Rightarrow> string \<Rightarrow> UsageUpdate \<Rightarrow> UsageTracker \<Rightarrow> UsageTracker" where
  "UpdateUsage clocks now scoped u t =
     (if \<not> Success u \<and> \<not> has_usage u then t
      else let (t1, claimed) = (if is_terminal u then tryClaimBilling t now u else (t, True))
        in if \<not> claimed then t1
           else t1\<lparr>t_store := settle_key clocks scoped u (settle_user clocks u (settle_model clocks u (t_store t1)))\<rparr>)"

end
