(* ===== verification/Tracker_Properties.thy ===== *)
theory Tracker_Properties
  imports Usage_Tracker Hierarchy
begin

text \<open>
  What settling a request guarantees: a physical call is billed at most once however often its
  end is reported, distinct attempts are billed separately, a failed request never counts as
  a request, and a request without cost spends nothing. The locale \<open>settlement_invariant\<close> says
  what a property of the store must survive, one bump of a budget and one of a rate limit,
  to survive the settlement of a request; its flags say whether the settlement may count a
  request or spend money at all.
\<close>

section \<open>Settlement as a sequence of bumps\<close>

locale settlement_invariant =
  fixes I :: "LocalGovernanceStore \<Rightarrow> bool"
    and requests :: bool
    and spends :: bool
  assumes bump_rl: "I gs \<Longrightarrow> (b \<longrightarrow> requests) \<Longrightarrow> I (BumpRateLimitUsage gs clock k n a b)"
    and bump_budget: "I gs \<Longrightarrow> spends \<Longrightarrow> I (BumpBudgetUsage gs clock k cost)"
begin

lemma bump_all_rl_keeps: "I gs \<Longrightarrow> (b \<longrightarrow> requests) \<Longrightarrow> I (bump_all_rl clocks n a b ks gs)"
  by (induction ks arbitrary: gs clocks) (simp_all add: bump_rl)

lemma bump_all_keeps: "I gs \<Longrightarrow> spends \<Longrightarrow> I (bump_all clocks cost ks gs)"
  by (induction ks arbitrary: gs clocks) (simp_all add: bump_budget)

lemma settle_scope_keeps:
  "I gs \<Longrightarrow> (should_requests u \<longrightarrow> requests) \<Longrightarrow> (should_budget u \<longrightarrow> spends) \<Longrightarrow> I (settle_scope c1 c2 scope i u gs)"
  by (simp add: settle_scope_def Let_def UpdateScopedModelRateLimitUsageInMemory_def
      UpdateScopedModelBudgetUsageInMemory_def bump_all_rl_keeps bump_all_keeps)

lemma settle_model_keeps:
  "I gs \<Longrightarrow> (should_requests u \<longrightarrow> requests) \<Longrightarrow> (should_budget u \<longrightarrow> spends) \<Longrightarrow> I (settle_model clocks u gs)"
  by (simp add: settle_model_def Let_def UpdateProviderAndModelRateLimitUsageInMemory_def
      UpdateProviderAndModelBudgetUsageInMemory_def bump_all_rl_keeps bump_all_keeps)

lemma settle_user_keeps:
  "I gs \<Longrightarrow> (should_requests u \<longrightarrow> requests) \<Longrightarrow> (should_budget u \<longrightarrow> spends) \<Longrightarrow> I (settle_user clocks u gs)"
  by (simp add: settle_user_def Let_def UpdateUserRateLimitUsageInMemory_def UpdateUserBudgetUsageInMemory_def
      settle_scope_keeps)

lemma settle_key_keeps:
  assumes "I gs" "should_requests u \<longrightarrow> requests" "should_budget u \<longrightarrow> spends"
  shows "I (settle_key clocks scoped u gs)"
proof (cases "GetVirtualKey gs (upd_VirtualKey u)")
  case (Some vk)
  have "I (settle_scope (clocks 4) (clocks 5) ModelConfigScopeVirtualKey (vk_ID vk) u gs)"
    using assms by (rule settle_scope_keeps)
  then show ?thesis
    using assms Some
    by (simp add: settle_key_def Let_def UpdateVirtualKeyRateLimitUsageInMemory_def
        UpdateVirtualKeyBudgetUsageInMemory_def bump_all_rl_keeps bump_all_keeps)
qed (simp add: settle_key_def assms)

lemma UpdateUsage_keeps:
  assumes "I (t_store t)" "should_requests u \<longrightarrow> requests" "should_budget u \<longrightarrow> spends"
  shows "I (t_store (UpdateUsage clocks now scoped u t))"
proof -
  have "t_store (fst (tryClaimBilling t now u)) = t_store t"
    by (simp add: tryClaimBilling_def split: option.split)
  then show ?thesis
    using assms by (auto simp: UpdateUsage_def settle_key_keeps settle_user_keeps settle_model_keeps
        split: prod.split)
qed

end

section \<open>The rows of a bump\<close>

lemma BumpRateLimitUsage_row:
  assumes "rows_ok gs" "LoadRateLimit gs k = Some rl"
  shows "LoadRateLimit (BumpRateLimitUsage gs clock k n a b) j =
      (if j = k then Some (row_bump rl_due rl_reset (\<lambda>rl. bump_counters rl n a b) clock 0 rl) else LoadRateLimit gs j)"
    and "budgets (BumpRateLimitUsage gs clock k n a b) = budgets gs"
  using bump_rate_limit_refines [of gs k rl clock 0 n a b] assms rows_okD(3) [OF assms(1), of k rl]
  by (simp_all add: BumpRateLimitUsage_def LoadRateLimit_def)

lemma bump_missing:
  "LoadRateLimit gs k = None \<Longrightarrow> BumpRateLimitUsage gs clock k n a b = gs"
  "LoadBudget gs k = None \<Longrightarrow> BumpBudgetUsage gs clock k cost = gs"
  by (simp_all add: BumpRateLimitUsage_def LoadRateLimit_def BumpBudgetUsage_def LoadBudget_def
      bump_rate_limit_loop.simps bump_budget_loop.simps)

lemma BumpBudgetUsage_rateLimits:
  "rows_ok gs \<Longrightarrow> rateLimits (BumpBudgetUsage gs clock k cost) = rateLimits gs"
  using bump_budget_refines [of gs k _ clock 0 cost] rows_okD(1) [of gs k] bump_missing(2) [of gs k clock cost]
  by (cases "LoadBudget gs k") (auto simp: BumpBudgetUsage_def LoadBudget_def)

text \<open>The request counter of a row that was reset or left alone, but not counted up.\<close>

definition uncounted :: "TableRateLimit \<Rightarrow> TableRateLimit \<Rightarrow> bool" where
  "uncounted rl rl' \<longleftrightarrow> RequestLastReset rl \<le> RequestLastReset rl'
     \<and> RequestCurrentUsage rl' = (if RequestLastReset rl' = RequestLastReset rl then RequestCurrentUsage rl else 0)"

definition no_request_counted :: "LocalGovernanceStore \<Rightarrow> LocalGovernanceStore \<Rightarrow> bool" where
  "no_request_counted gs gs' \<longleftrightarrow> rows_ok gs' \<and>
     (\<forall>k rl. LoadRateLimit gs k = Some rl \<longrightarrow> (\<exists>rl'. LoadRateLimit gs' k = Some rl' \<and> uncounted rl rl'))"

lemma uncounted_trans: "uncounted r1 r2 \<Longrightarrow> uncounted r2 r3 \<Longrightarrow> uncounted r1 r3"
  by (auto simp: uncounted_def split: if_splits)

lemma no_request_counted_step:
  assumes "no_request_counted gs gs'" "rows_ok gs''"
    and "\<And>k rl. LoadRateLimit gs' k = Some rl \<Longrightarrow> \<exists>rl'. LoadRateLimit gs'' k = Some rl' \<and> uncounted rl rl'"
  shows "no_request_counted gs gs''"
  using assms unfolding no_request_counted_def by (meson uncounted_trans)

lemma bump_uncounted:
  assumes "rows_ok gs" "LoadRateLimit gs j = Some rl"
  shows "\<exists>rl'. LoadRateLimit (BumpRateLimitUsage gs clock k n a False) j = Some rl' \<and> uncounted rl rl'"
proof (cases "LoadRateLimit gs k")
  case None
  then show ?thesis using assms(2) by (simp add: bump_missing uncounted_def)
next
  case (Some r)
  have "uncounted rl rl" by (simp add: uncounted_def)
  moreover have "uncounted r (row_bump rl_due rl_reset (\<lambda>rl. bump_counters rl n a False) clock 0 r)"
    using request_row.bump_accounts_once [of r n a False clock 0] by (simp add: uncounted_def)
  ultimately show ?thesis
    using assms(2) Some by (auto simp: BumpRateLimitUsage_row [OF assms(1) Some])
qed

interpretation uncounted_settlement: settlement_invariant "no_request_counted gs0" False True for gs0
proof
  fix gs b clock k n a
  assume i: "no_request_counted gs0 gs" and b: "b \<longrightarrow> False"
  have ok: "rows_ok gs" using i by (simp add: no_request_counted_def)
  show "no_request_counted gs0 (BumpRateLimitUsage gs clock k n a b)"
    using i b rows_ok_Bump(2) [OF ok] bump_uncounted [OF ok] by (intro no_request_counted_step [OF i]) simp_all
next
  fix gs clock k cost
  assume i: "no_request_counted gs0 gs"
  have ok: "rows_ok gs" using i by (simp add: no_request_counted_def)
  show "no_request_counted gs0 (BumpBudgetUsage gs clock k cost)"
    using rows_ok_Bump(1) [OF ok]
    by (intro no_request_counted_step [OF i])
       (simp_all add: LoadRateLimit_def BumpBudgetUsage_rateLimits [OF ok] uncounted_def)
qed

interpretation unspent_settlement: settlement_invariant "\<lambda>gs. rows_ok gs \<and> budgets gs = m" True False for m
proof
  fix gs b clock k n a
  assume i: "rows_ok gs \<and> budgets gs = m"
  then show "rows_ok (BumpRateLimitUsage gs clock k n a b) \<and> budgets (BumpRateLimitUsage gs clock k n a b) = m"
    using rows_ok_Bump(2) BumpRateLimitUsage_row(2) [of gs k] bump_missing(1) [of gs k]
    by (cases "LoadRateLimit gs k") auto
qed simp

section \<open>Failed and free requests\<close>

definition tracked_store :: LocalGovernanceStore where
  "tracked_store = team_store\<lparr>rateLimits := [(''r1'', sample_rl)]\<rparr>"

definition sample_update :: UsageUpdate where
  "sample_update = \<lparr>upd_VirtualKey = ''vk-value'', upd_Provider = ''openai'', upd_Model = ''gpt-4o'', Success = False,
     TokensUsed = 12, Cost = Fin 0, RequestID = ''req-1'', upd_UserID = [], IsStreaming = False, IsFinalChunk = False,
     HasUsageData = True, AttemptNumber = 0\<rparr>"

definition sample_tracker :: UsageTracker where
  "sample_tracker = \<lparr>t_store = tracked_store, billed = []\<rparr>"

lemma tracked_store_rows:
  "rows_ok tracked_store" "LoadRateLimit tracked_store ''r1'' = Some sample_rl" "LoadBudget tracked_store ''b1'' = Some plain_budget"
  using team_store_rows by (auto simp: tracked_store_def rows_ok_def LoadRateLimit_def LoadBudget_def sample_rl_def)

lemma settled_rows: "rows_ok gs \<Longrightarrow> no_request_counted gs gs"
  by (auto simp: no_request_counted_def uncounted_def)

text \<open>
  Settling a request that failed never counts a request against any rate limit, whatever
  it consumed and at whatever level the limit sits: every request counter of the store is
  afterwards the one before, or zero because its window was moved on.
\<close>

theorem failed_request_counts_no_request:
  assumes "rows_ok (t_store t)" "\<not> Success u" "LoadRateLimit (t_store t) k = Some rl"
  shows "\<exists>rl'. LoadRateLimit (t_store (UpdateUsage clocks now scoped u t)) k = Some rl'
           \<and> RequestLastReset rl \<le> RequestLastReset rl'
           \<and> RequestCurrentUsage rl' = (if RequestLastReset rl' = RequestLastReset rl then RequestCurrentUsage rl else 0)"
proof -
  have "no_request_counted (t_store t) (t_store (UpdateUsage clocks now scoped u t))"
    using assms by (intro uncounted_settlement.UpdateUsage_keeps) (simp_all add: settled_rows should_requests_def)
  then show ?thesis using assms(3) by (auto simp: no_request_counted_def uncounted_def)
qed

theorem failed_request_counts_no_request_witness:
  "\<exists>rl'. LoadRateLimit (t_store (UpdateUsage (\<lambda>_ _ _. 64000000000000000000) 64000000000000000000 [] sample_update sample_tracker)) ''r1'' = Some rl'
     \<and> RequestLastReset sample_rl \<le> RequestLastReset rl'
     \<and> RequestCurrentUsage rl' = (if RequestLastReset rl' = RequestLastReset sample_rl then RequestCurrentUsage sample_rl else 0)"
  by (rule failed_request_counts_no_request) (simp_all add: sample_tracker_def sample_update_def tracked_store_rows)

text \<open>
  Settling a request whose cost is not positive (zero, negative or NaN) leaves every
  budget of the store as it is, window and spending included.
\<close>

theorem no_cost_no_spend:
  assumes "rows_ok (t_store t)" "\<not> f64_lt (Fin 0) (Cost u)"
  shows "budgets (t_store (UpdateUsage clocks now scoped u t)) = budgets (t_store t)"
  using unspent_settlement.UpdateUsage_keeps [of t "budgets (t_store t)" u clocks now scoped] assms
  by (simp add: should_budget_def)

theorem no_cost_no_spend_witness:
  "budgets (t_store (UpdateUsage (\<lambda>_ _ _. 64000000000000000000) 64000000000000000000 [] sample_update sample_tracker))
     = [(''b1'', plain_budget)]"
  using no_cost_no_spend [of sample_tracker sample_update]
  by (simp add: sample_tracker_def sample_update_def tracked_store_rows) (simp add: tracked_store_def team_store_def)

section \<open>Billing keys\<close>

lemma dec_nat_inj: "dec_nat m = dec_nat n \<Longrightarrow> m = n"
proof (induction m arbitrary: n rule: dec_nat.induct)
  case (1 m)
  have nonempty: "dec_nat k \<noteq> []" for k by (simp add: dec_nat.simps [of k])
  have last: "last (dec_nat k) = char_of (48 + k mod 10)" for k by (simp add: dec_nat.simps [of k])
  have but: "butlast (dec_nat k) = (if k < 10 then [] else dec_nat (k div 10))" for k
    by (simp add: dec_nat.simps [of k] butlast_append)
  have "of_char (last (dec_nat m)) = (of_char (last (dec_nat n)) :: nat)" using 1(2) by simp
  then have "(48 + m mod 10) mod 256 = (48 + n mod 10) mod (256 :: nat)" unfolding last of_char_of by simp
  moreover have "48 + m mod 10 < 256" "48 + n mod 10 < (256 :: nat)"
    using mod_less_divisor [of 10 m] mod_less_divisor [of 10 n] by linarith+
  ultimately have digit: "m mod 10 = n mod 10" by simp
  have rest: "(if m < 10 then [] else dec_nat (m div 10)) = (if n < 10 then [] else dec_nat (n div 10))"
    using 1(2) but by metis
  show ?case
  proof (cases "m < 10")
    case True
    then have "n < 10" using rest nonempty by (metis (full_types))
    then show ?thesis using True digit by simp
  next
    case False
    then have "\<not> n < 10" using rest nonempty by (metis (full_types))
    then have "m div 10 = n div 10" using False rest 1(1) [OF False, of "n div 10"] by simp
    then show ?thesis using digit by (metis div_mult_mod_eq)
  qed
qed

lemma dec_nat_chars: "c \<in> set (dec_nat n) \<Longrightarrow> c \<noteq> CHR '':'' \<and> c \<noteq> CHR ''-''"
proof -
  assume "c \<in> set (dec_nat n)"
  then obtain d :: nat where d: "d < 10" "c = char_of (48 + d)" using dec_nat_digits by blast
  have "of_char c = (48 + d) mod (256 :: nat)" unfolding d(2) of_char_of by simp
  then have "of_char c = 48 + d" using d(1) by simp
  then show ?thesis using d(1) by auto
qed

lemma dec_int_inj: "dec_int i = dec_int j \<Longrightarrow> i = j"
proof -
  assume e: "dec_int i = dec_int j"
  have "hd (dec_nat n) \<in> set (dec_nat n)" for n by (simp add: dec_nat.simps [of n])
  then have hd: "CHR ''-'' # xs \<noteq> dec_nat n" for n xs using dec_nat_chars by (metis list.sel(1))
  show "i = j"
    using e hd dec_nat_inj [of "nat i" "nat j"] dec_nat_inj [of "nat (- i)" "nat (- j)"]
    by (auto simp: dec_int_def split: if_splits) (metis hd)+
qed

lemma dec_int_no_colon: "CHR '':'' \<notin> set (dec_int i)"
  using dec_nat_chars by (auto simp: dec_int_def)

lemma append_sep_inj:
  assumes "xs @ c # ys = xs' @ c # ys'" "c \<notin> set ys" "c \<notin> set ys'"
  shows "xs = xs' \<and> ys = ys'"
proof -
  have "rev ys @ c # rev xs = rev ys' @ c # rev xs'" using arg_cong [OF assms(1), of rev] by simp
  moreover have "takeWhile (\<lambda>x. x \<noteq> c) (rev zs @ c # ws) = rev zs" if "c \<notin> set zs" for zs ws
    using that by (subst takeWhile_append2) auto
  ultimately have "rev ys = rev ys'" using assms(2,3) by metis
  then show ?thesis using assms(1) by simp
qed

lemma billing_key_inj:
  "billing_key u = billing_key v \<longleftrightarrow> RequestID u = RequestID v \<and> AttemptNumber u = AttemptNumber v"
  using append_sep_inj [of "RequestID u" "CHR '':''" "dec_int (AttemptNumber u)" "RequestID v" "dec_int (AttemptNumber v)"]
    dec_int_no_colon dec_int_inj by (auto simp: billing_key_def)

section \<open>Billing once\<close>

text \<open>
  What may happen to a tracker while the claim taken at \<open>c\<close> is alive: settlements of any
  requests, and sweeps of the billed set by the worker, up to \<open>billedEntryTTL\<close> after \<open>c\<close>.
\<close>

inductive alive :: "time \<Rightarrow> UsageTracker \<Rightarrow> UsageTracker \<Rightarrow> bool" for c :: time and t :: UsageTracker where
  alive_start: "alive c t t"
| alive_settle: "alive c t t1 \<Longrightarrow> alive c t (UpdateUsage clocks now scoped u t1)"
| alive_sweep: "alive c t t1 \<Longrightarrow> now \<le> time_Add c billedEntryTTL \<Longrightarrow> alive c t (sweepBilled t1 now)"

lemma billed_UpdateUsage:
  "billed (UpdateUsage clocks now scoped u t) =
     (if (Success u \<or> has_usage u) \<and> is_terminal u \<and> RequestID u \<noteq> [] \<and> gm_get (billed t) (billing_key u) = None
      then gm_put (billing_key u) now (billed t) else billed t)"
  by (simp add: UpdateUsage_def tryClaimBilling_def split: option.split)

lemma claim_kept_by_sweep:
  "gm_get (billed t) k = Some c \<Longrightarrow> gm_ok (billed t) \<Longrightarrow> now \<le> time_Add c billedEntryTTL
    \<Longrightarrow> gm_get (billed (sweepBilled t now)) k = Some c"
  by (auto simp: sweepBilled_def time_Add_def map_of_eq_Some_iff distinct_map_filter)

lemma billed_ok_steps:
  "gm_ok (billed t) \<Longrightarrow> gm_ok (billed (UpdateUsage clocks now scoped u t))"
  "gm_ok (billed t) \<Longrightarrow> gm_ok (billed (sweepBilled t now))"
  by (auto simp: billed_UpdateUsage sweepBilled_def distinct_map_filter)

lemma alive_keeps_claim:
  assumes "alive c t t'" "gm_ok (billed t)" "gm_get (billed t) k = Some c"
  shows "gm_ok (billed t') \<and> gm_get (billed t') k = Some c"
  using assms
proof (induction rule: alive.induct)
  case (alive_settle t1 clocks now scoped u)
  have "gm_ok (billed (UpdateUsage clocks now scoped u t1))"
    using alive_settle by (intro billed_ok_steps(1)) simp
  moreover have "gm_get (billed (UpdateUsage clocks now scoped u t1)) k = Some c"
    using alive_settle by (cases "k = billing_key u") (simp_all add: billed_UpdateUsage del: map_of_eq_Some_iff)
  ultimately show ?case ..
next
  case (alive_sweep t1 now)
  then show ?case using billed_ok_steps(2) claim_kept_by_sweep by blast
qed simp

lemma UpdateUsage_claimed:
  "gm_get (billed t) (billing_key u) = Some c \<Longrightarrow> is_terminal u \<Longrightarrow> RequestID u \<noteq> [] \<Longrightarrow> UpdateUsage clocks now scoped u t = t"
  by (simp add: UpdateUsage_def tryClaimBilling_def)

text \<open>
  C7: A physical provider call is billed at most once. Once the end of an attempt of a request
  has been settled, every further report of the end of that attempt leaves the tracker and
  the store as they are, whichever other settlements and sweeps happen in between, as long as
  no sweep comes later than five minutes after the settlement.
\<close>

theorem billed_once:
  assumes first: "Success u \<or> has_usage u" "is_terminal u" "RequestID u \<noteq> []"
    and fresh: "gm_get (billed t) (billing_key u) = None" "gm_ok (billed t)"
    and between: "alive now (UpdateUsage clocks now scoped u t) t'"
    and again: "RequestID u' = RequestID u" "AttemptNumber u' = AttemptNumber u" "is_terminal u'"
  shows "UpdateUsage clocks' now' scoped' u' t' = t'"
proof -
  have "gm_get (billed t') (billing_key u) = Some now"
    using alive_keeps_claim [OF between billed_ok_steps(1) [OF fresh(2)], of "billing_key u"] first fresh
    by (simp add: billed_UpdateUsage)
  then show ?thesis
    using again first(3) by (intro UpdateUsage_claimed) (simp_all add: billing_key_def)
qed

theorem billed_once_witness:
  "UpdateUsage (\<lambda>_ _ _. 200) 200 [] (sample_update\<lparr>Success := True, Cost := Fin 3\<rparr>)
      (sweepBilled (UpdateUsage (\<lambda>_ _ _. 100) 100 [] sample_update sample_tracker) 150)
    = sweepBilled (UpdateUsage (\<lambda>_ _ _. 100) 100 [] sample_update sample_tracker) 150"
proof (rule billed_once [where u = sample_update and t = sample_tracker and now = 100])
  show "alive 100 (UpdateUsage (\<lambda>_ _ _. 100) 100 [] sample_update sample_tracker)
      (sweepBilled (UpdateUsage (\<lambda>_ _ _. 100) 100 [] sample_update sample_tracker) 150)"
    by (rule alive_sweep [OF alive_start]) (simp add: billedEntryTTL_def time_Add_def)
qed (simp_all add: sample_update_def sample_tracker_def has_usage_def is_terminal_def)

text \<open>
  Distinct attempts bill separately. Settling one attempt of a request never makes the
  tracker refuse, or accept, the claim of another attempt or of another request: the printed
  keys of the billed set never coincide, even when request ids contain colons.
\<close>

theorem attempts_bill_separately:
  assumes "RequestID u' \<noteq> RequestID u \<or> AttemptNumber u' \<noteq> AttemptNumber u"
  shows "snd (tryClaimBilling (UpdateUsage clocks now scoped u t) now' u') = snd (tryClaimBilling t now' u')"
proof -
  have "billing_key u' \<noteq> billing_key u" using assms by (simp add: billing_key_inj)
  then show ?thesis by (simp add: tryClaimBilling_def billed_UpdateUsage split: option.split)
qed

theorem attempts_bill_separately_witness:
  "snd (tryClaimBilling (UpdateUsage (\<lambda>_ _ _. 100) 100 [] sample_update sample_tracker) 200 (sample_update\<lparr>AttemptNumber := 1\<rparr>))"
  using attempts_bill_separately [of "sample_update\<lparr>AttemptNumber := 1\<rparr>" sample_update "\<lambda>_ _ _. 100" 100 "[]" sample_tracker 200]
  by (simp add: sample_update_def) (simp add: tryClaimBilling_def sample_tracker_def)

text \<open>
  The billed set does not grow for ever: after a sweep it holds exactly the claims of the
  last five minutes.
\<close>

theorem sweepBilled_bounds:
  assumes "gm_ok (billed t)"
  shows "gm_get (billed (sweepBilled t now)) k = Some c \<longleftrightarrow> gm_get (billed t) k = Some c \<and> now - c \<le> billedEntryTTL"
  using assms by (auto simp: sweepBilled_def time_Add_def map_of_eq_Some_iff distinct_map_filter)

theorem sweepBilled_bounds_witness:
  "gm_get (billed (sweepBilled \<lparr>t_store = empty_store, billed = [(''req-1:0'', 10)]\<rparr> 300000000011)) ''req-1:0'' \<noteq> Some 10"
  using sweepBilled_bounds [of "\<lparr>t_store = empty_store, billed = [(''req-1:0'', 10)]\<rparr>" 300000000011 "''req-1:0''" 10]
  by (simp add: billedEntryTTL_def)

end
