(* ===== verification/Post_Hooks.thy ===== *)
theory Post_Hooks
  imports Tracker_Properties Tool_Grants
begin

text \<open>
  The hooks after a call: \<open>PostLLMHook\<close>, \<open>postHookWorker\<close>, \<open>PostMCPHook\<close> and \<open>PreMCPConnectionHook\<close> of
  plugins/governance/main.go with the helpers of core/utils.go they use. They turn a response
  or an error into the update that the usage tracker settles. The hooks start the settlement
  in a goroutine; here they return the update, and settling it is a separate step, so that
  any order of hooks and settlements can be written down.

  The prices are data of the catalogs: \<open>CalculateCost\<close> prices a response, \<open>CalculateCostForUsage\<close>
  the tokens of a failed call, the tool catalog one execution. Of a response only what the
  hooks read is modelled: which kind it is, and the token total of its usage, if it has one.
  The reason recorded for audits is omitted.
\<close>

record LLMUsage =
  PromptTokens :: int
  CompletionTokens :: int
  TotalTokens :: int

text \<open>
  The fields of a response are options for the pointers the code tests in turn: the response,
  its usage and, for transcriptions, the total; a stream of a response nests one more.
\<close>

record BifrostResponse =
  rs_RequestType :: string
  rs_Provider :: string
  rs_OriginalModelRequested :: string
  TextCompletionResponse :: "LLMUsage option option"
  ChatResponse :: "LLMUsage option option"
  ResponsesResponse :: "LLMUsage option option"
  ResponsesStreamResponse :: "LLMUsage option option option"
  EmbeddingResponse :: "LLMUsage option option"
  SpeechResponse :: "LLMUsage option option"
  SpeechStreamResponse :: "LLMUsage option option"
  TranscriptionResponse :: "int option option option"
  TranscriptionStreamResponse :: "int option option option"
  PassthroughResponse :: "LLMUsage option option option"
  ListModelsResponse :: "string list option"

record LLMError =
  le_RequestType :: string
  le_Provider :: string
  le_OriginalModelRequested :: string
  BilledUsage :: "LLMUsage option"

record PricingCatalog =
  CalculateCost :: "BifrostResponse \<Rightarrow> f64"
  CalculateCostForUsage :: "LLMUsage \<Rightarrow> string \<Rightarrow> string \<Rightarrow> string \<Rightarrow> f64"

definition stream_requests :: "string list" where
  "stream_requests =
     [''text_completion_stream'', ''chat_completion_stream'', ''responses_stream'', ''responses_retrieve_stream'',
      ''speech_stream'', ''transcription_stream'', ''image_generation_stream'', ''image_edit_stream'',
      ''passthrough_stream'', ''websocket_responses'', ''realtime'']"

definition IsStreamRequestType :: "string \<Rightarrow> bool" where
  "IsStreamRequestType reqType = (reqType \<in> set stream_requests)"

definition GetResponseFields :: "BifrostResponse option \<Rightarrow> LLMError option \<Rightarrow> string \<times> string \<times> string" where
  "GetResponseFields res err =
     (case res of Some rs \<Rightarrow> (rs_RequestType rs, rs_Provider rs, rs_OriginalModelRequested rs)
      | None \<Rightarrow> (case err of Some e \<Rightarrow> (le_RequestType e, le_Provider e, le_OriginalModelRequested e)
                 | None \<Rightarrow> ([], [], [])))"

fun deref :: "'a option option \<Rightarrow> 'a option" where
  "deref None = None"
| "deref (Some x) = x"

fun first_some :: "int option list \<Rightarrow> int" where
  "first_some [] = 0"
| "first_some (None # xs) = first_some xs"
| "first_some (Some n # xs) = n"

definition response_tokens :: "BifrostResponse \<Rightarrow> int" where
  "response_tokens rs = first_some
     [map_option TotalTokens (deref (TextCompletionResponse rs)), map_option TotalTokens (deref (ChatResponse rs)),
      map_option TotalTokens (deref (ResponsesResponse rs)),
      map_option TotalTokens (deref (deref (ResponsesStreamResponse rs))),
      map_option TotalTokens (deref (EmbeddingResponse rs)), map_option TotalTokens (deref (SpeechResponse rs)),
      map_option TotalTokens (deref (SpeechStreamResponse rs)), deref (deref (TranscriptionResponse rs)),
      deref (deref (TranscriptionStreamResponse rs)), map_option TotalTokens (deref (deref (PassthroughResponse rs)))]"

definition postHookWorker ::
    "PricingCatalog option \<Rightarrow> BifrostResponse option \<Rightarrow> LLMError option \<Rightarrow> string \<Rightarrow> string \<Rightarrow> string \<Rightarrow> string \<Rightarrow> string
      \<Rightarrow> string \<Rightarrow> bool \<Rightarrow> int \<Rightarrow> UsageUpdate option" where
  "postHookWorker catalog res err provider model requestType virtualKey requestID userID isFinalChunk attemptNumber =
     (let isStreaming = IsStreamRequestType requestType;
          usage = (case (res, err) of (None, Some e) \<Rightarrow> BilledUsage e | _ \<Rightarrow> None);
          cost = (case catalog of None \<Rightarrow> Fin 0
            | Some c \<Rightarrow> (case res of Some rs \<Rightarrow> CalculateCost c rs
                        | None \<Rightarrow> (case usage of None \<Rightarrow> Fin 0 | Some u \<Rightarrow> CalculateCostForUsage c u provider model requestType)));
          tokensUsed = (case res of Some rs \<Rightarrow> response_tokens rs
                        | None \<Rightarrow> (case usage of None \<Rightarrow> 0 | Some u \<Rightarrow> TotalTokens u))
      in if isStreaming \<and> \<not> isFinalChunk then None
         else Some \<lparr>upd_VirtualKey = virtualKey, upd_Provider = provider, upd_Model = model, Success = (res \<noteq> None),
           TokensUsed = tokensUsed, Cost = cost, RequestID = requestID, upd_UserID = userID, IsStreaming = isStreaming,
           IsFinalChunk = isFinalChunk, HasUsageData = (tokensUsed > 0 \<or> f64_lt (Fin 0) cost),
           AttemptNumber = attemptNumber\<rparr>)"

record post_result =
  post_Response :: "BifrostResponse option"
  post_BudgetIDs :: "string list"
  post_RateLimitIDs :: "string list"
  post_Update :: "UsageUpdate option"

definition PostLLMHook ::
    "(string \<Rightarrow> bool) \<Rightarrow> GovernancePlugin \<Rightarrow> PricingCatalog option \<Rightarrow> BifrostContext \<Rightarrow> string \<Rightarrow> string \<Rightarrow> string \<Rightarrow> bool \<Rightarrow> bool
      \<Rightarrow> int \<Rightarrow> BifrostResponse option \<Rightarrow> LLMError option \<Rightarrow> post_result" where
  "PostLLMHook known p catalog ctx virtualKey requestID userID skipVK isFinalChunk attemptNumber res err =
     (if ctx_Rejected ctx \<noteq> None
      then \<lparr>post_Response = res, post_BudgetIDs = [], post_RateLimitIDs = [], post_Update = None\<rparr>
      else
        let (requestType, provider, requestedModel) = GetResponseFields res err;
            res' = (case res of None \<Rightarrow> None
              | Some rs \<Rightarrow> (case ListModelsResponse rs of None \<Rightarrow> Some rs
                | Some models \<Rightarrow> if requestType = ''list_models'' \<and> virtualKey \<noteq> []
                    then Some (rs\<lparr>ListModelsResponse := Some (filterModelsForVirtualKey known p models virtualKey)\<rparr>)
                    else Some rs));
            effectiveVK = (if skipVK then [] else virtualKey);
            (budgetIDs, rateLimitIDs) = CollectApplicableGovernanceIDs (r_store (p_resolver p)) (ctx_ScopedCustomerID ctx)
                effectiveVK userID provider requestedModel
        in if requestedModel = []
           then \<lparr>post_Response = res', post_BudgetIDs = [], post_RateLimitIDs = [], post_Update = None\<rparr>
           else \<lparr>post_Response = res', post_BudgetIDs = budgetIDs, post_RateLimitIDs = rateLimitIDs,
                 post_Update = postHookWorker catalog res' err provider requestedModel requestType effectiveVK
                   requestID userID isFinalChunk attemptNumber\<rparr>)"

section \<open>Tool executions\<close>

record MCPResponse =
  mr_MCPRequestType :: string
  mr_ClientName :: string
  mr_ToolName :: string

definition IsExecuteTool :: "string \<Rightarrow> bool" where
  "IsExecuteTool requestType = (requestType \<in> set [''chat_tool_call'', ''responses_tool_call'', ''execute_tool''])"

text \<open>\<open>errType\<close> is the request type an error carries, \<open>None\<close> when there is no error.\<close>

definition PostMCPHook ::
    "(string \<Rightarrow> string \<Rightarrow> f64 option) option \<Rightarrow> BifrostContext \<Rightarrow> string \<Rightarrow> string \<Rightarrow> bool \<Rightarrow> MCPResponse option
      \<Rightarrow> string option \<Rightarrow> UsageUpdate option" where
  "PostMCPHook mcpCatalog ctx virtualKeyValue requestID skipVK resp errType =
     (let reqType = (case resp of Some r \<Rightarrow> mr_MCPRequestType r | None \<Rightarrow> (case errType of Some t \<Rightarrow> t | None \<Rightarrow> []));
          virtualKey = (if skipVK then [] else virtualKeyValue);
          success = (resp \<noteq> None \<and> errType = None);
          codemode = (case resp of Some r \<Rightarrow> success \<and> IsCodeModeTool (mr_ToolName r) | None \<Rightarrow> False);
          toolCost = (case (resp, mcpCatalog) of
             (Some r, Some pricing) \<Rightarrow>
               if success \<and> mr_ClientName r \<noteq> [] \<and> mr_ToolName r \<noteq> []
               then (case pricing (mr_ClientName r) (mr_ToolName r) of Some c \<Rightarrow> c | None \<Rightarrow> Fin 0) else Fin 0
           | _ \<Rightarrow> Fin 0)
      in if ctx_Rejected ctx \<noteq> None \<or> \<not> IsExecuteTool reqType \<or> virtualKey = [] \<or> codemode then None
         else Some \<lparr>upd_VirtualKey = virtualKey, upd_Provider = [], upd_Model = [], Success = success, TokensUsed = 0,
           Cost = toolCost, RequestID = requestID, upd_UserID = [], IsStreaming = False, IsFinalChunk = True,
           HasUsageData = f64_lt (Fin 0) toolCost, AttemptNumber = 0\<rparr>)"

definition PreMCPConnectionHook :: "GovernancePlugin \<Rightarrow> BifrostContext \<Rightarrow> string \<Rightarrow> BifrostContext" where
  "PreMCPConnectionHook p ctx virtualKeyValue =
     (if virtualKeyValue = [] then ctx
      else case GetVirtualKey (r_store (p_resolver p)) virtualKeyValue of None \<Rightarrow> ctx | Some vk \<Rightarrow> stamp_vk vk ctx)"

section \<open>Properties\<close>

text \<open>
  The cost of a tool execution that runs under the request id of an LLM call is never
  charged. The tool hook builds its update with attempt number zero, so its claim is that of
  the first attempt of the LLM call; once that call has been settled the update of the tool
  changes neither the counters nor the budgets, whatever the tool costs.
\<close>

theorem agent_tool_cost_is_dropped:
  assumes "PostMCPHook mcpCatalog ctx vkv requestID skipVK resp errType = Some tool"
    and "PostLLMHook known p catalog ctx' vkv' requestID userID skipVK' fin 0 (Some rs) err = post" "post_Update post = Some llm"
    and "requestID \<noteq> []"
  shows "UpdateUsage clocks now scoped tool (UpdateUsage clocks' now' scoped' llm t) = UpdateUsage clocks' now' scoped' llm t"
proof -
  have tool: "RequestID tool = requestID" "AttemptNumber tool = 0" "is_terminal tool"
    using assms(1) by (auto simp: PostMCPHook_def is_terminal_def Let_def split: if_splits)
  have llm: "RequestID llm = requestID" "AttemptNumber llm = 0" "Success llm" "is_terminal llm"
    using assms(2,3)
    by (auto simp: PostLLMHook_def postHookWorker_def is_terminal_def Let_def split: if_splits prod.splits option.splits)
  have "\<exists>c. gm_get (billed (UpdateUsage clocks' now' scoped' llm t)) (billing_key llm) = Some c"
    using llm assms(4) by (auto simp: billed_UpdateUsage simp del: map_of_eq_Some_iff)
  moreover have "billing_key tool = billing_key llm" using tool llm by (simp add: billing_key_def)
  ultimately show ?thesis using UpdateUsage_claimed tool assms(4) by metis
qed

definition chat_response :: BifrostResponse where
  "chat_response = \<lparr>rs_RequestType = ''chat_completion'', rs_Provider = ''openai'', rs_OriginalModelRequested = ''gpt-4o'',
     TextCompletionResponse = None, ChatResponse = Some (Some \<lparr>PromptTokens = 5, CompletionTokens = 7, TotalTokens = 12\<rparr>),
     ResponsesResponse = None, ResponsesStreamResponse = None, EmbeddingResponse = None, SpeechResponse = None,
     SpeechStreamResponse = None, TranscriptionResponse = None, TranscriptionStreamResponse = None,
     PassthroughResponse = None, ListModelsResponse = None\<rparr>"

definition priced_tool :: UsageUpdate where
  "priced_tool = \<lparr>upd_VirtualKey = ''sk-1'', upd_Provider = [], upd_Model = [], Success = True, TokensUsed = 0,
     Cost = Fin 2, RequestID = ''req-1'', upd_UserID = [], IsStreaming = False, IsFinalChunk = True,
     HasUsageData = True, AttemptNumber = 0\<rparr>"

lemma priced_tool_update:
  "PostMCPHook (Some (\<lambda>_ _. Some (Fin 2))) gate_ctx ''sk-1'' ''req-1'' False
     (Some \<lparr>mr_MCPRequestType = ''execute_tool'', mr_ClientName = ''fs'', mr_ToolName = ''fs-read''\<rparr>) None = Some priced_tool"
  by (simp add: PostMCPHook_def gate_ctx_def IsExecuteTool_def IsCodeModeTool_def codeModeToolNames_def priced_tool_def)

theorem agent_tool_cost_is_dropped_witness:
  "\<exists>llm. post_Update (PostLLMHook (\<lambda>_. False) gate_plugin None gate_ctx ''sk-1'' ''req-1'' [] False False 0 (Some chat_response) None) = Some llm
     \<and> UpdateUsage (\<lambda>_ _ _. 200) 200 [] priced_tool (UpdateUsage (\<lambda>_ _ _. 100) 100 [] llm sample_tracker)
         = UpdateUsage (\<lambda>_ _ _. 100) 100 [] llm sample_tracker"
proof -
  let ?post = "PostLLMHook (\<lambda>_. False) gate_plugin None gate_ctx ''sk-1'' ''req-1'' [] False False 0 (Some chat_response) None"
  obtain llm where "post_Update ?post = Some llm"
    by (auto simp: PostLLMHook_def postHookWorker_def GetResponseFields_def gate_ctx_def chat_response_def
        IsStreamRequestType_def stream_requests_def Let_def split: prod.splits)
  then show ?thesis using agent_tool_cost_is_dropped [OF priced_tool_update refl] by blast
qed

text \<open>
  Only what reached the model is billed. A rejected request produces no update, an
  intermediate chunk of a stream produces none, and a failed call produces an update that
  does not count as a success and carries exactly the tokens the provider reported as
  processed.
\<close>

theorem failed_call_bills_reported_usage:
  assumes "post_Update (PostLLMHook known p catalog ctx vkv requestID userID skipVK fin attempt None (Some e)) = Some u"
  shows "ctx_Rejected ctx = None \<and> is_terminal u \<and> \<not> Success u \<and> AttemptNumber u = attempt \<and> RequestID u = requestID
    \<and> TokensUsed u = (case BilledUsage e of None \<Rightarrow> 0 | Some b \<Rightarrow> TotalTokens b)
    \<and> (BilledUsage e = None \<longrightarrow> UpdateUsage clocks now scoped u t = t)"
proof -
  have u: "ctx_Rejected ctx = None" "is_terminal u" "\<not> Success u" "AttemptNumber u = attempt" "RequestID u = requestID"
    "TokensUsed u = (case BilledUsage e of None \<Rightarrow> 0 | Some b \<Rightarrow> TotalTokens b)"
    "BilledUsage e = None \<longrightarrow> Cost u = Fin 0"
    using assms
    by (auto simp: PostLLMHook_def postHookWorker_def GetResponseFields_def is_terminal_def Let_def
        split: if_splits prod.splits option.splits)
  then show ?thesis by (simp add: UpdateUsage_def has_usage_def)
qed

theorem failed_call_bills_reported_usage_witness:
  "TokensUsed (the (post_Update (PostLLMHook (\<lambda>_. False) gate_plugin None gate_ctx ''sk-1'' ''req-1'' [] False False 0 None
     (Some \<lparr>le_RequestType = ''chat_completion'', le_Provider = ''openai'', le_OriginalModelRequested = ''gpt-4o'',
        BilledUsage = Some \<lparr>PromptTokens = 5, CompletionTokens = 0, TotalTokens = 5\<rparr>\<rparr>)))) = 5"
proof -
  let ?e = "\<lparr>le_RequestType = ''chat_completion'', le_Provider = ''openai'', le_OriginalModelRequested = ''gpt-4o'',
        BilledUsage = Some \<lparr>PromptTokens = 5, CompletionTokens = 0, TotalTokens = 5\<rparr>\<rparr>"
  obtain u where u: "post_Update (PostLLMHook (\<lambda>_. False) gate_plugin None gate_ctx ''sk-1'' ''req-1'' [] False False 0 None (Some ?e)) = Some u"
    by (auto simp: PostLLMHook_def postHookWorker_def GetResponseFields_def gate_ctx_def
        IsStreamRequestType_def stream_requests_def Let_def split: prod.splits)
  from failed_call_bills_reported_usage [OF u] show ?thesis by (simp add: u)
qed

end
