(* ===== verification/Persistence.thy ===== *)
theory Persistence
  imports Tracker_Properties
begin

text \<open>
  Writing the live counters to the database: the dump and reset writes of
  plugins/governance/store.go.

  The database is the two governance tables, keyed by primary key. A write is an UPDATE with
  a guard on the stored row; \<open>postgres\<close> says whether the dialect takes the multi-row form or the
  per-row form. The writes go out in batches, each a transaction of the config store, which is
  external: \<open>outcome i\<close> is the error of the \<open>i\<close>-th transaction, \<open>None\<close> when it commits, and a
  transaction that fails leaves the tables as they were. Other goroutines may reset budgets and
  write the tables while a dump is under way: the dump sees the store \<open>gsAt i\<close> when it checks its
  \<open>i\<close>-th batch, and \<open>others i\<close> is what other transactions commit to the budget table since its last
  batch and until the transaction of the \<open>i\<close>-th one, after the check of the batch as well.
  Sorting is by the byte order of the identifiers.
\<close>

record ConfigDB =
  db_budgets :: "(string, TableBudget) gomap"
  db_rateLimits :: "(string, TableRateLimit) gomap"

definition dumpBatchSize :: nat where
  "dumpBatchSize = 500"

record budgetDumpRow =
  bd_ID :: string
  bd_CurrentUsage :: f64
  bd_LastReset :: time
  bd_OverrideAmount :: f64
  bd_OverrideMode :: string
  bd_OverrideCyclesRemaining :: int
  bd_OverrideCyclesTotal :: int
  bd_OverrideAnchorReset :: "time option"

record rateLimitDumpRow =
  rd_ID :: string
  rd_TokenCurrentUsage :: int
  rd_TokenLastReset :: time
  rd_RequestCurrentUsage :: int
  rd_RequestLastReset :: time

record rateLimitBoundaryRow =
  rb_ID :: string
  Boundary :: time

fun chunks :: "nat \<Rightarrow> 'a list \<Rightarrow> 'a list list" where
  "chunks n [] = []"
| "chunks 0 xs = [xs]"
| "chunks (Suc n) xs = take (Suc n) xs # chunks (Suc n) (drop (Suc n) xs)"

definition isDumpDeadlock :: "err \<Rightarrow> bool" where
  "isDumpDeadlock e = (case e of Err s \<Rightarrow> contains s ''deadlock'' \<or> contains s ''40P01'' \<or> contains s ''1213'')"

section \<open>Updates\<close>

text \<open>
  \<open>update_row\<close> is \<^verbatim>\<open>UPDATE ... WHERE id = ? AND guard\<close>, \<open>update_from\<close> is \<^verbatim>\<open>UPDATE ... FROM (VALUES ...)\<close>.
\<close>

definition update_row :: "string \<Rightarrow> ('r \<Rightarrow> bool) \<Rightarrow> ('r \<Rightarrow> 'r) \<Rightarrow> (string, 'r) gomap \<Rightarrow> (string, 'r) gomap" where
  "update_row i guard f tbl = map (\<lambda>(k, r). (k, if k = i \<and> guard r then f r else r)) tbl"

definition update_from ::
    "('v \<Rightarrow> string) \<Rightarrow> ('v \<Rightarrow> 'r \<Rightarrow> bool) \<Rightarrow> ('v \<Rightarrow> 'r \<Rightarrow> 'r) \<Rightarrow> 'v list \<Rightarrow> (string, 'r) gomap \<Rightarrow> (string, 'r) gomap" where
  "update_from key guard f vals tbl =
     map (\<lambda>(k, r). (k, case find (\<lambda>v. key v = k) vals of None \<Rightarrow> r
                       | Some v \<Rightarrow> if guard v r then f v r else r)) tbl"

definition put_override :: "budgetDumpRow \<Rightarrow> TableBudget \<Rightarrow> TableBudget" where
  "put_override row b = b\<lparr>OverrideAmount := bd_OverrideAmount row, OverrideMode := bd_OverrideMode row,
     OverrideCyclesRemaining := bd_OverrideCyclesRemaining row, OverrideCyclesTotal := bd_OverrideCyclesTotal row,
     OverrideAnchorReset := bd_OverrideAnchorReset row\<rparr>"

definition put_usage :: "budgetDumpRow \<Rightarrow> TableBudget \<Rightarrow> TableBudget" where
  "put_usage row b = b\<lparr>CurrentUsage := bd_CurrentUsage row, LastReset := bd_LastReset row\<rparr>"

definition override_guard :: "budgetDumpRow \<Rightarrow> TableBudget \<Rightarrow> bool" where
  "override_guard row b = (LastReset b < bd_LastReset row)"

definition usage_guard :: "bool \<Rightarrow> budgetDumpRow \<Rightarrow> TableBudget \<Rightarrow> bool" where
  "usage_guard strict row b = (if strict then LastReset b < bd_LastReset row else LastReset b \<le> bd_LastReset row)"

definition writeBudgetBatch ::
    "bool \<Rightarrow> bool \<Rightarrow> budgetDumpRow list \<Rightarrow> (string, TableBudget) gomap \<Rightarrow> (string, TableBudget) gomap" where
  "writeBudgetBatch postgres strict batch tbl =
     (if postgres
      then update_from bd_ID (usage_guard strict) put_usage batch (update_from bd_ID override_guard put_override batch tbl)
      else fold (\<lambda>row t. update_row (bd_ID row) (usage_guard strict row) (put_usage row)
                   (update_row (bd_ID row) (override_guard row) (put_override row) t)) batch tbl)"

definition put_rl :: "rateLimitDumpRow \<Rightarrow> TableRateLimit \<Rightarrow> TableRateLimit" where
  "put_rl row rl = rl\<lparr>TokenCurrentUsage := rd_TokenCurrentUsage row, TokenLastReset := rd_TokenLastReset row,
     RequestCurrentUsage := rd_RequestCurrentUsage row, RequestLastReset := rd_RequestLastReset row\<rparr>"

definition dumpRateLimitBatch ::
    "bool \<Rightarrow> rateLimitDumpRow list \<Rightarrow> (string, TableRateLimit) gomap \<Rightarrow> (string, TableRateLimit) gomap" where
  "dumpRateLimitBatch postgres batch tbl =
     (if postgres then update_from rd_ID (\<lambda>_ _. True) put_rl batch tbl
      else fold (\<lambda>row t. update_row (rd_ID row) (\<lambda>_. True) (put_rl row) t) batch tbl)"

text \<open>\<open>tokens\<close> selects the counter: the token counter or the request counter.\<close>

definition boundary_of :: "bool \<Rightarrow> TableRateLimit \<Rightarrow> time" where
  "boundary_of tokens rl = (if tokens then TokenLastReset rl else RequestLastReset rl)"

definition zero_counter :: "bool \<Rightarrow> rateLimitBoundaryRow \<Rightarrow> TableRateLimit \<Rightarrow> TableRateLimit" where
  "zero_counter tokens row rl =
     (if tokens then rl\<lparr>TokenCurrentUsage := 0, TokenLastReset := Boundary row\<rparr>
      else rl\<lparr>RequestCurrentUsage := 0, RequestLastReset := Boundary row\<rparr>)"

definition resetRateLimitDimensionBatch ::
    "bool \<Rightarrow> bool \<Rightarrow> rateLimitBoundaryRow list \<Rightarrow> (string, TableRateLimit) gomap \<Rightarrow> (string, TableRateLimit) gomap" where
  "resetRateLimitDimensionBatch postgres tokens batch tbl =
     (if postgres then update_from rb_ID (\<lambda>row rl. boundary_of tokens rl < Boundary row) (zero_counter tokens) batch tbl
      else fold (\<lambda>row t. update_row (rb_ID row) (\<lambda>rl. boundary_of tokens rl < Boundary row) (zero_counter tokens row) t)
             batch tbl)"

section \<open>Dumping budgets\<close>

definition budget_row :: "TableBudget \<Rightarrow> f64 \<Rightarrow> budgetDumpRow" where
  "budget_row b usage = \<lparr>bd_ID = ID b, bd_CurrentUsage = usage, bd_LastReset = LastReset b,
     bd_OverrideAmount = OverrideAmount b, bd_OverrideMode = OverrideMode b,
     bd_OverrideCyclesRemaining = OverrideCyclesRemaining b, bd_OverrideCyclesTotal = OverrideCyclesTotal b,
     bd_OverrideAnchorReset = OverrideAnchorReset b\<rparr>"

definition snapshotBudgetRows ::
    "LocalGovernanceStore \<Rightarrow> (string, f64) gomap \<Rightarrow> budgetDumpRow list \<times> (string, nat) gomap" where
  "snapshotBudgetRows gs baselines =
     (sort_by (\<lambda>a b. str_lt (bd_ID a) (bd_ID b))
        (map (\<lambda>(_, b). budget_row b (case gm_get baselines (ID b) of None \<Rightarrow> CurrentUsage b
                                     | Some base \<Rightarrow> f64_add (CurrentUsage b) base)) (budgets gs)),
      budgetResetGensSnapshot gs)"

definition keepUnresetRows ::
    "LocalGovernanceStore \<Rightarrow> budgetDumpRow list \<Rightarrow> (string, nat) gomap \<Rightarrow> budgetDumpRow list" where
  "keepUnresetRows gs batch snapshot =
     filter (\<lambda>row. gm_get0 0 (budgetResetGens gs) (bd_ID row) = gm_get0 0 snapshot (bd_ID row)) batch"

type_synonym budget_table = "(string, TableBudget) gomap"

fun write_chunks ::
    "bool \<Rightarrow> (nat \<Rightarrow> err option) \<Rightarrow> (nat \<Rightarrow> LocalGovernanceStore) \<Rightarrow> (nat \<Rightarrow> budget_table \<Rightarrow> budget_table) \<Rightarrow> (string, nat) gomap
      \<Rightarrow> nat \<Rightarrow> budgetDumpRow list list \<Rightarrow> budget_table \<Rightarrow> err option \<times> budget_table" where
  "write_chunks postgres outcome gsAt others gens i [] tbl = (None, tbl)"
| "write_chunks postgres outcome gsAt others gens i (c # cs) tbl =
     (let batch = keepUnresetRows (gsAt i) c gens;
          tbl1 = others i tbl in
      if batch = [] then write_chunks postgres outcome gsAt others gens (Suc i) cs tbl1
      else case outcome i of
        None \<Rightarrow> write_chunks postgres outcome gsAt others gens (Suc i) cs (writeBudgetBatch postgres False batch tbl1)
      | Some e \<Rightarrow>
          if isDumpDeadlock e then write_chunks postgres outcome gsAt others gens (Suc i) cs tbl1
          else (Some (Err (''failed to dump budgets to database: '' @ (case e of Err s \<Rightarrow> s))), tbl1))"

definition writeBudgetRows ::
    "bool \<Rightarrow> bool \<Rightarrow> (nat \<Rightarrow> err option) \<Rightarrow> (nat \<Rightarrow> LocalGovernanceStore) \<Rightarrow> (nat \<Rightarrow> budget_table \<Rightarrow> budget_table)
      \<Rightarrow> budgetDumpRow list \<Rightarrow> (string, nat) gomap \<Rightarrow> ConfigDB \<Rightarrow> err option \<times> ConfigDB" where
  "writeBudgetRows configured postgres outcome gsAt others rows gens db =
     (if \<not> configured then (None, db)
      else case write_chunks postgres outcome gsAt others gens 0 (chunks dumpBatchSize rows) (db_budgets db) of
        (e, tbl) \<Rightarrow> (e, db\<lparr>db_budgets := tbl\<rparr>))"

definition DumpBudgets ::
    "bool \<Rightarrow> bool \<Rightarrow> (nat \<Rightarrow> err option) \<Rightarrow> LocalGovernanceStore \<Rightarrow> (nat \<Rightarrow> LocalGovernanceStore)
      \<Rightarrow> (nat \<Rightarrow> budget_table \<Rightarrow> budget_table) \<Rightarrow> (string, f64) gomap \<Rightarrow> ConfigDB \<Rightarrow> err option \<times> ConfigDB" where
  "DumpBudgets configured postgres outcome gs gsAt others baselines db =
     (if \<not> configured then (None, db)
      else case snapshotBudgetRows gs baselines of
        (rows, gens) \<Rightarrow> writeBudgetRows configured postgres outcome gsAt others rows gens db)"

text \<open>A dump nobody writes the table beside.\<close>

abbreviation alone :: "nat \<Rightarrow> budget_table \<Rightarrow> budget_table" where
  "alone \<equiv> \<lambda>_ tbl. tbl"

section \<open>Persisting resets\<close>

fun commit_chunks ::
    "('c \<Rightarrow> 't \<Rightarrow> 't) \<Rightarrow> string \<Rightarrow> (nat \<Rightarrow> err option) \<Rightarrow> nat \<Rightarrow> 'c list \<Rightarrow> 't \<Rightarrow> err option \<times> 't" where
  "commit_chunks write message outcome i [] tbl = (None, tbl)"
| "commit_chunks write message outcome i (c # cs) tbl =
     (case outcome i of
        None \<Rightarrow> commit_chunks write message outcome (Suc i) cs (write c tbl)
      | Some (Err s) \<Rightarrow> (Some (Err (message @ s)), tbl))"

definition ResetExpiredBudgets ::
    "bool \<Rightarrow> bool \<Rightarrow> (nat \<Rightarrow> err option) \<Rightarrow> TableBudget list \<Rightarrow> ConfigDB \<Rightarrow> err option \<times> ConfigDB" where
  "ResetExpiredBudgets configured postgres outcome resetBudgets db =
     (if \<not> configured then (None, db)
      else let rows = sort_by (\<lambda>a b. str_lt (bd_ID a) (bd_ID b)) (map (\<lambda>b. budget_row b (CurrentUsage b)) resetBudgets)
        in case commit_chunks (writeBudgetBatch postgres True) ''failed to persist budget resets to database: '' outcome 0
                  (chunks dumpBatchSize rows) (db_budgets db) of
          (e, tbl) \<Rightarrow> (e, db\<lparr>db_budgets := tbl\<rparr>))"

definition boundary_rows :: "bool \<Rightarrow> TableRateLimit list \<Rightarrow> rateLimitBoundaryRow list" where
  "boundary_rows tokens rls =
     sort_by (\<lambda>a b. str_lt (rb_ID a) (rb_ID b))
       (map (\<lambda>rl. \<lparr>rb_ID = rl_ID rl, Boundary = boundary_of tokens rl\<rparr>)
          (filter (\<lambda>rl. (if tokens then TokenResetDuration rl else RequestResetDuration rl) \<noteq> None) rls))"

definition ResetExpiredRateLimits ::
    "bool \<Rightarrow> bool \<Rightarrow> (nat \<Rightarrow> err option) \<Rightarrow> TableRateLimit list \<Rightarrow> ConfigDB \<Rightarrow> err option \<times> ConfigDB" where
  "ResetExpiredRateLimits configured postgres outcome resetRateLimits db =
     (if \<not> configured then (None, db)
      else let batches = map (Pair True) (chunks dumpBatchSize (boundary_rows True resetRateLimits))
                 @ map (Pair False) (chunks dumpBatchSize (boundary_rows False resetRateLimits))
        in case commit_chunks (\<lambda>(tokens, batch). resetRateLimitDimensionBatch postgres tokens batch)
                  ''failed to persist rate limit resets to database: '' outcome 0 batches (db_rateLimits db) of
          (e, tbl) \<Rightarrow> (e, db\<lparr>db_rateLimits := tbl\<rparr>))"

section \<open>Dumping rate limits\<close>

definition rate_limit_row :: "(string, int) gomap \<Rightarrow> (string, int) gomap \<Rightarrow> TableRateLimit \<Rightarrow> rateLimitDumpRow" where
  "rate_limit_row tokenBaselines requestBaselines rl =
     \<lparr>rd_ID = rl_ID rl,
      rd_TokenCurrentUsage = (case gm_get tokenBaselines (rl_ID rl) of None \<Rightarrow> TokenCurrentUsage rl
        | Some n \<Rightarrow> wrap64 (TokenCurrentUsage rl + n)),
      rd_TokenLastReset = TokenLastReset rl,
      rd_RequestCurrentUsage = (case gm_get requestBaselines (rl_ID rl) of None \<Rightarrow> RequestCurrentUsage rl
        | Some n \<Rightarrow> wrap64 (RequestCurrentUsage rl + n)),
      rd_RequestLastReset = RequestLastReset rl\<rparr>"

fun dump_rl_chunks ::
    "bool \<Rightarrow> (nat \<Rightarrow> err option) \<Rightarrow> nat \<Rightarrow> rateLimitDumpRow list list \<Rightarrow> (string, TableRateLimit) gomap
      \<Rightarrow> err option \<times> (string, TableRateLimit) gomap" where
  "dump_rl_chunks postgres outcome i [] tbl = (None, tbl)"
| "dump_rl_chunks postgres outcome i (c # cs) tbl =
     (case outcome i of
        None \<Rightarrow> dump_rl_chunks postgres outcome (Suc i) cs (dumpRateLimitBatch postgres c tbl)
      | Some e \<Rightarrow>
          if isDumpDeadlock e then dump_rl_chunks postgres outcome (Suc i) cs tbl
          else (Some (Err (''failed to dump rate limits to database: '' @ (case e of Err s \<Rightarrow> s))), tbl))"

definition DumpRateLimits ::
    "bool \<Rightarrow> bool \<Rightarrow> (nat \<Rightarrow> err option) \<Rightarrow> LocalGovernanceStore \<Rightarrow> (string, int) gomap \<Rightarrow> (string, int) gomap
      \<Rightarrow> ConfigDB \<Rightarrow> err option \<times> ConfigDB" where
  "DumpRateLimits configured postgres outcome gs tokenBaselines requestBaselines db =
     (if \<not> configured then (None, db)
      else let rows = sort_by (\<lambda>a b. str_lt (rd_ID a) (rd_ID b))
                 (map (\<lambda>(_, rl). rate_limit_row tokenBaselines requestBaselines rl) (rateLimits gs))
        in case dump_rl_chunks postgres outcome 0 (chunks dumpBatchSize rows) (db_rateLimits db) of
          (e, tbl) \<Rightarrow> (e, db\<lparr>db_rateLimits := tbl\<rparr>))"

end
