(* ===== verification/Persistence_Properties.thy ===== *)
theory Persistence_Properties
  imports Persistence
begin

text \<open>
  What the writes to the database guarantee: the two dialects do the same, a dump of budgets
  never moves a persisted window back nor touches a column of the configuration, an operator's
  reset that lands while a dump is under way is not undone by it, and a dump whose
  transactions commit leaves the database with the counters of the node. Rate limits are
  dumped without the guard that budgets have, and a stale node reopens their windows.

  The locale \<open>table_writer\<close> is the contract of a batch write: the multi-row and the per-row form
  described by the effect of one value on the row it names. The budget writes, the rate-limit
  dump and the rate-limit resets are its instances.
\<close>

section \<open>Batch writes\<close>

lemma gm_get_mapk: "gm_get (map (\<lambda>(k, r). (k, f k r)) tbl) k = map_option (f k) (gm_get tbl k)"
  by (induction tbl) auto

lemma fold_map_entries: "fold (\<lambda>v t. map (h v) t) vs tbl = map (\<lambda>e. fold h vs e) tbl"
  by (induction vs arbitrary: tbl) (simp_all add: comp_def)

lemma concat_chunks: "concat (chunks n xs) = xs"
  by (induction n xs rule: chunks.induct) simp_all

lemma chunks_mem: "c \<in> set (chunks n xs) \<Longrightarrow> set c \<subseteq> set xs"
  using concat_chunks [of n xs] by (metis UN_upper set_concat)

lemma find_key: "v \<in> set vs \<Longrightarrow> distinct (map key vs) \<Longrightarrow> find (\<lambda>w. key w = key v) vs = Some v"
  by (induction vs) auto

locale table_writer =
  fixes key :: "'v \<Rightarrow> string"
    and effect :: "'v \<Rightarrow> 'r \<Rightarrow> 'r"
    and store_batch :: "bool \<Rightarrow> 'v list \<Rightarrow> (string, 'r) gomap \<Rightarrow> (string, 'r) gomap"
  assumes batched: "store_batch True vs tbl =
      map (\<lambda>(k, r). (k, case find (\<lambda>v. key v = k) vs of None \<Rightarrow> r | Some v \<Rightarrow> effect v r)) tbl"
    and single: "store_batch False vs tbl = fold (\<lambda>v t. map (\<lambda>(k, r). (k, if k = key v then effect v r else r)) t) vs tbl"
begin

lemma single_rows:
  "store_batch False vs tbl = map (\<lambda>(k, r). (k, fold (\<lambda>v r. if k = key v then effect v r else r) vs r)) tbl"
proof -
  have "fold (\<lambda>v (k, r). (k, if k = key v then effect v r else r)) vs (k, r)
      = (k, fold (\<lambda>v r. if k = key v then effect v r else r) vs r)" for k r
    by (induction vs arbitrary: r) simp_all
  then show ?thesis unfolding single fold_map_entries by (auto intro: map_cong)
qed

lemma fold_find:
  "distinct (map key vs) \<Longrightarrow> fold (\<lambda>v r. if k = key v then effect v r else r) vs r
    = (case find (\<lambda>v. key v = k) vs of None \<Rightarrow> r | Some v \<Rightarrow> effect v r)"
proof (induction vs arbitrary: r)
  case (Cons v vs)
  have "find (\<lambda>w. key w = key v) vs = None"
    using Cons.prems by (simp add: find_None_iff) (metis image_eqI)
  then show ?case using Cons by (cases "k = key v") (auto split: option.split)
qed simp

lemma dialects_agree: "distinct (map key vs) \<Longrightarrow> store_batch True vs tbl = store_batch False vs tbl"
  by (simp add: batched single_rows fold_find)

lemma lookup:
  assumes "distinct (map key vs)"
  shows "gm_get (store_batch pg vs tbl) k
    = map_option (\<lambda>r. case find (\<lambda>v. key v = k) vs of None \<Rightarrow> r | Some v \<Rightarrow> effect v r) (gm_get tbl k)"
proof -
  have "store_batch pg vs tbl = store_batch True vs tbl" using dialects_agree [OF assms] by (cases pg) simp_all
  then show ?thesis by (simp add: batched gm_get_mapk)
qed

lemma untouched:
  assumes "k \<notin> key ` set vs"
  shows "gm_get (store_batch pg vs tbl) k = gm_get tbl k"
proof -
  have "find (\<lambda>v. key v = k) vs = None" using assms by (auto simp: find_None_iff)
  moreover have "fold (\<lambda>v r. if k = key v then effect v r else r) vs r = r" for r
    using assms by (induction vs arbitrary: r) auto
  ultimately show ?thesis by (cases pg) (simp_all add: batched single_rows gm_get_mapk option.map_id0 [unfolded id_def] map_option.identity)
qed

lemma related:
  assumes "\<And>r. R r r" "\<And>a b c. R a b \<Longrightarrow> R b c \<Longrightarrow> R a c" "\<And>v r. v \<in> set vs \<Longrightarrow> key v = k \<Longrightarrow> R r (effect v r)"
    and "gm_get tbl k = Some r"
  shows "\<exists>r'. gm_get (store_batch pg vs tbl) k = Some r' \<and> R r r'"
proof -
  have "R r (case find (\<lambda>v. key v = k) vs of None \<Rightarrow> r | Some v \<Rightarrow> effect v r)"
    using assms(1,3) by (auto simp: find_Some_iff split: option.split)
  moreover have "R r (fold (\<lambda>v r. if k = key v then effect v r else r) vs r)"
  proof (rule fold_inv)
    show "R r r" by (rule assms(1))
    show "R r (if k = key v then effect v s else s)" if "v \<in> set vs" "R r s" for v s
      using that assms(2) [OF that(2) assms(3) [OF that(1)]] by auto
  qed
  ultimately show ?thesis using assms(4) by (cases pg) (simp_all add: batched single_rows gm_get_mapk)
qed

lemma all_chunks:
  assumes "distinct (map key vs)"
  shows "fold (store_batch pg) (chunks n vs) tbl = store_batch False vs tbl"
proof -
  have one: "distinct (map key c) \<Longrightarrow> store_batch pg c t = store_batch False c t" for c t
    using dialects_agree by (cases pg) simp_all
  have "distinct (map key (concat cs)) \<Longrightarrow> fold (store_batch pg) cs t = store_batch False (concat cs) t" for cs t
  proof (induction cs arbitrary: t)
    case (Cons c cs)
    have "distinct (map key c)" "distinct (map key (concat cs))" using Cons.prems by simp_all
    then show ?case using Cons.IH one by (simp add: single)
  qed (simp add: single)
  then show ?thesis using assms concat_chunks [of n vs] by metis
qed

end

definition budget_effect :: "bool \<Rightarrow> budgetDumpRow \<Rightarrow> TableBudget \<Rightarrow> TableBudget" where
  "budget_effect strict row b =
     (let b1 = (if override_guard row b then put_override row b else b)
      in if usage_guard strict row b1 then put_usage row b1 else b1)"

interpretation budget_writer: table_writer bd_ID "budget_effect strict" "\<lambda>pg. writeBudgetBatch pg strict" for strict
proof
  fix vs tbl
  show "writeBudgetBatch True strict vs tbl =
      map (\<lambda>(k, r). (k, case find (\<lambda>v. bd_ID v = k) vs of None \<Rightarrow> r | Some v \<Rightarrow> budget_effect strict v r)) tbl"
    unfolding writeBudgetBatch_def update_from_def budget_effect_def
    by (auto simp: Let_def comp_def split: option.split)
  show "writeBudgetBatch False strict vs tbl =
      fold (\<lambda>v t. map (\<lambda>(k, r). (k, if k = bd_ID v then budget_effect strict v r else r)) t) vs tbl"
    unfolding writeBudgetBatch_def update_row_def budget_effect_def if_False
    by (intro fold_cong refl ext list.map_cong0) (auto simp: Let_def)
qed

interpretation rl_writer: table_writer rd_ID put_rl dumpRateLimitBatch
proof
  fix vs tbl
  show "dumpRateLimitBatch True vs tbl =
      map (\<lambda>(k, r). (k, case find (\<lambda>v. rd_ID v = k) vs of None \<Rightarrow> r | Some v \<Rightarrow> put_rl v r)) tbl"
    by (auto simp: dumpRateLimitBatch_def update_from_def split: option.split)
  show "dumpRateLimitBatch False vs tbl =
      fold (\<lambda>v t. map (\<lambda>(k, r). (k, if k = rd_ID v then put_rl v r else r)) t) vs tbl"
    unfolding dumpRateLimitBatch_def update_row_def by (simp del: fold_map_entries)
qed

definition boundary_effect :: "bool \<Rightarrow> rateLimitBoundaryRow \<Rightarrow> TableRateLimit \<Rightarrow> TableRateLimit" where
  "boundary_effect tokens row rl = (if boundary_of tokens rl < Boundary row then zero_counter tokens row rl else rl)"

interpretation boundary_writer: table_writer rb_ID "boundary_effect tokens" "\<lambda>pg. resetRateLimitDimensionBatch pg tokens" for tokens
proof
  fix vs tbl
  show "resetRateLimitDimensionBatch True tokens vs tbl =
      map (\<lambda>(k, r). (k, case find (\<lambda>v. rb_ID v = k) vs of None \<Rightarrow> r | Some v \<Rightarrow> boundary_effect tokens v r)) tbl"
    by (auto simp: resetRateLimitDimensionBatch_def update_from_def boundary_effect_def split: option.split)
  show "resetRateLimitDimensionBatch False tokens vs tbl =
      fold (\<lambda>v t. map (\<lambda>(k, r). (k, if k = rb_ID v then boundary_effect tokens v r else r)) t) vs tbl"
    unfolding resetRateLimitDimensionBatch_def update_row_def boundary_effect_def if_False
    by (intro fold_cong refl ext list.map_cong0) auto
qed

section \<open>What a budget write keeps\<close>

definition advanced :: "TableBudget \<Rightarrow> TableBudget \<Rightarrow> bool" where
  "advanced b b' \<longleftrightarrow> LastReset b \<le> LastReset b'
     \<and> b'\<lparr>CurrentUsage := CurrentUsage b, LastReset := LastReset b, OverrideAmount := OverrideAmount b,
          OverrideMode := OverrideMode b, OverrideCyclesRemaining := OverrideCyclesRemaining b,
          OverrideCyclesTotal := OverrideCyclesTotal b, OverrideAnchorReset := OverrideAnchorReset b\<rparr> = b"

lemma advanced_refl: "advanced b b"
  by (simp add: advanced_def)

lemma advanced_trans: "advanced a b \<Longrightarrow> advanced b c \<Longrightarrow> advanced a c"
  by (cases a; cases b; cases c) (auto simp: advanced_def)

lemma advanced_effect: "advanced b (budget_effect strict row b)"
  by (cases b) (auto simp: advanced_def budget_effect_def put_usage_def put_override_def usage_guard_def
      override_guard_def Let_def)

lemma writeBudgetBatch_advances:
  "gm_get tbl k = Some b \<Longrightarrow> \<exists>b'. gm_get (writeBudgetBatch pg strict batch tbl) k = Some b' \<and> advanced b b'"
  by (rule budget_writer.related [where R = advanced]) (blast intro: advanced_refl advanced_trans advanced_effect)+

lemma write_chunks_advances:
  "gm_get tbl k = Some b \<Longrightarrow> \<exists>b'. gm_get (snd (write_chunks pg outcome gsAt alone gens i cs tbl)) k = Some b' \<and> advanced b b'"
proof (induction cs arbitrary: i tbl b)
  case (Cons c cs)
  have "\<exists>b'. gm_get (writeBudgetBatch pg False (keepUnresetRows (gsAt i) c gens) tbl) k = Some b' \<and> advanced b b'"
    by (rule writeBudgetBatch_advances [OF Cons.prems])
  then obtain b1 where b1: "gm_get (writeBudgetBatch pg False (keepUnresetRows (gsAt i) c gens) tbl) k = Some b1" "advanced b b1"
    by blast
  show ?case
    using Cons.IH [OF Cons.prems] Cons.IH [OF b1(1)] b1(2) Cons.prems advanced_refl
    by (auto simp: Let_def split: option.split intro: advanced_trans) (blast intro: advanced_trans)+
qed (auto intro: advanced_refl)

lemma commit_chunks_advances:
  "gm_get tbl k = Some b
    \<Longrightarrow> \<exists>b'. gm_get (snd (commit_chunks (writeBudgetBatch pg strict) message outcome i cs tbl)) k = Some b' \<and> advanced b b'"
proof (induction cs arbitrary: i tbl b)
  case (Cons c cs)
  obtain b1 where b1: "gm_get (writeBudgetBatch pg strict c tbl) k = Some b1" "advanced b b1"
    using writeBudgetBatch_advances [OF Cons.prems] by blast
  show ?case
    using Cons.IH [OF b1(1)] b1(2) Cons.prems advanced_refl
    by (auto split: option.split err.split intro: advanced_trans) (blast intro: advanced_trans)+
qed (auto intro: advanced_refl)

text \<open>What the others write to a row depends on that row alone.\<close>

definition rowwise :: "string \<Rightarrow> (nat \<Rightarrow> budget_table \<Rightarrow> budget_table) \<Rightarrow> bool" where
  "rowwise k others \<longleftrightarrow> (\<forall>i tbl tbl'. gm_get tbl k = gm_get tbl' k \<longrightarrow> gm_get (others i tbl) k = gm_get (others i tbl') k)"

lemma rowwise_fold:
  "rowwise k others \<Longrightarrow> gm_get tbl k = gm_get tbl' k \<Longrightarrow> gm_get (fold others is tbl) k = gm_get (fold others is tbl') k"
proof (induction "is" arbitrary: tbl tbl')
  case (Cons i "is")
  have "gm_get (others i tbl) k = gm_get (others i tbl') k" using Cons.prems unfolding rowwise_def by blast
  from Cons.IH [OF Cons.prems(1) this] show ?case by simp
qed simp

lemma write_chunks_skips:
  assumes "rowwise k others"
    and "\<And>j. j < length cs \<Longrightarrow> k \<in> bd_ID ` set (cs ! j) \<Longrightarrow> gm_get0 0 (budgetResetGens (gsAt (i + j))) k \<noteq> gm_get0 0 gens k"
  shows "\<exists>n. gm_get (snd (write_chunks pg outcome gsAt others gens i cs tbl)) k = gm_get (fold others [i..<i + n] tbl) k"
  using assms(2)
proof (induction cs arbitrary: i tbl)
  case (Cons c cs)
  let ?batch = "keepUnresetRows (gsAt i) c gens"
  have "k \<notin> bd_ID ` set ?batch" using Cons.prems [of 0] by (auto simp: keepUnresetRows_def)
  then have w: "gm_get (writeBudgetBatch pg False ?batch (others i tbl)) k = gm_get (others i tbl) k"
    by (rule budget_writer.untouched)
  have later: "\<exists>n. gm_get (snd (write_chunks pg outcome gsAt others gens (Suc i) cs t)) k = gm_get (fold others [i..<i + n] tbl) k"
    if "gm_get t k = gm_get (others i tbl) k" for t
  proof -
    have "\<exists>n. gm_get (snd (write_chunks pg outcome gsAt others gens (Suc i) cs t)) k = gm_get (fold others [Suc i..<Suc i + n] t) k"
      using Cons.prems [of "Suc _"] by (intro Cons.IH) auto
    then obtain n where "gm_get (snd (write_chunks pg outcome gsAt others gens (Suc i) cs t)) k = gm_get (fold others [Suc i..<Suc i + n] t) k"
      by blast
    then have "gm_get (snd (write_chunks pg outcome gsAt others gens (Suc i) cs t)) k = gm_get (fold others [i..<i + Suc n] tbl) k"
      using rowwise_fold [OF assms(1) that, of "[Suc i..<Suc i + n]"] by (simp add: upt_rec [of i] del: upt_Suc)
    then show ?thesis by blast
  qed
  have "\<exists>n. gm_get (others i tbl) k = gm_get (fold others [i..<i + n] tbl) k"
    by (rule exI [of _ "Suc 0"]) (simp only: add_Suc_right add_0_right upt_Suc_append le_refl upt_eq_Nil_conv append_Nil, simp)
  note steps = this later [OF refl] later [OF w]
  show ?case
  proof (cases "?batch = []")
    case True
    then show ?thesis using steps(2) by (simp add: Let_def)
  next
    case False
    then show ?thesis using steps by (cases "outcome i") (simp_all add: Let_def)
  qed
qed (simp, rule exI [of _ 0], simp)

lemma write_chunks_commits:
  assumes "\<And>i. outcome i = None" "\<And>i k. gm_get0 0 (budgetResetGens (gsAt i)) k = gm_get0 0 gens k"
  shows "write_chunks pg outcome gsAt alone gens i cs tbl = (None, fold (\<lambda>c t. writeBudgetBatch pg False c t) cs tbl)"
proof (induction cs arbitrary: i tbl)
  case (Cons c cs)
  have keep: "keepUnresetRows (gsAt i) c gens = c" using assms(2) by (simp add: keepUnresetRows_def)
  have "writeBudgetBatch pg False [] tbl = tbl"
    using budget_writer.untouched [of _ "[]"] by (cases pg) (simp_all add: writeBudgetBatch_def update_from_def case_prod_eta)
  then show ?case using Cons.IH keep by (auto simp: assms(1) Let_def)
qed simp

lemma next_generation: "(g + 1) mod 2 ^ 64 \<noteq> (g :: nat)"
proof (cases "g + 1 < 2 ^ 64")
  case False
  have "(g + 1) mod 2 ^ 64 < 2 ^ 64" by (rule mod_less_divisor) simp
  then show ?thesis using False by (cases "g + 1 = 2 ^ 64") auto
qed simp

lemma dumped_table:
  "db_budgets (snd (DumpBudgets configured pg outcome gs gsAt others baselines db)) =
     (if configured then snd (write_chunks pg outcome gsAt others (budgetResetGensSnapshot gs) 0
        (chunks dumpBatchSize (fst (snapshotBudgetRows gs baselines))) (db_budgets db)) else db_budgets db)"
  by (simp add: DumpBudgets_def writeBudgetRows_def snapshotBudgetRows_def case_prod_beta)

lemma reset_table:
  "db_budgets (snd (ResetExpiredBudgets configured pg outcome resets db)) =
     (if configured then snd (commit_chunks (writeBudgetBatch pg True) ''failed to persist budget resets to database: ''
        outcome 0 (chunks dumpBatchSize (sort_by (\<lambda>a b. str_lt (bd_ID a) (bd_ID b)) (map (\<lambda>b. budget_row b (CurrentUsage b)) resets)))
        (db_budgets db)) else db_budgets db)"
  by (simp add: ResetExpiredBudgets_def Let_def case_prod_beta)

section \<open>Snapshots\<close>

lemma snapshot_ids:
  assumes "rows_ok gs"
  shows "distinct (map bd_ID (fst (snapshotBudgetRows gs baselines)))"
proof -
  have "map (\<lambda>e. ID (snd e)) (budgets gs) = map fst (budgets gs)"
    using assms by (auto simp: rows_ok_def map_of_eq_Some_iff intro!: map_cong)
  moreover have "gm_ok (budgets gs)" using assms by (simp add: rows_ok_def)
  ultimately have "distinct (map (\<lambda>e. ID (snd e)) (budgets gs))" by metis
  then show ?thesis
    unfolding snapshotBudgetRows_def fst_conv
    by (intro sort_by_distinct) (simp add: comp_def case_prod_beta budget_row_def)
qed

lemma snapshot_row:
  assumes "rows_ok gs" "LoadBudget gs k = Some b"
  shows "find (\<lambda>row. bd_ID row = k) (fst (snapshotBudgetRows gs baselines)) =
     Some (budget_row b (case gm_get baselines k of None \<Rightarrow> CurrentUsage b | Some base \<Rightarrow> f64_add (CurrentUsage b) base))"
proof -
  let ?row = "budget_row b (case gm_get baselines k of None \<Rightarrow> CurrentUsage b | Some base \<Rightarrow> f64_add (CurrentUsage b) base)"
  have "ID b = k" using rows_okD(1) [OF assms(1)] assms(2) by (simp add: LoadBudget_def)
  moreover have "(k, b) \<in> set (budgets gs)" using assms(2) by (simp add: LoadBudget_def map_of_SomeD)
  ultimately have "?row \<in> set (fst (snapshotBudgetRows gs baselines))" "bd_ID ?row = k"
    by (auto simp: snapshotBudgetRows_def budget_row_def image_iff intro!: bexI [of _ "(k, b)"])
  then show ?thesis using find_key [OF _ snapshot_ids [OF assms(1)]] by metis
qed

lemma rl_snapshot:
  fixes tb rb :: "(string, int) gomap"
  assumes "rows_ok gs" "LoadRateLimit gs k = Some rl"
  defines "rows \<equiv> sort_by (\<lambda>a b. str_lt (rd_ID a) (rd_ID b)) (map (\<lambda>(_, rl). rate_limit_row tb rb rl) (rateLimits gs))"
  shows "distinct (map rd_ID rows)" "find (\<lambda>row. rd_ID row = k) rows = Some (rate_limit_row tb rb rl)"
proof -
  have "map (\<lambda>e. rl_ID (snd e)) (rateLimits gs) = map fst (rateLimits gs)"
    using assms by (auto simp: rows_ok_def map_of_eq_Some_iff intro!: map_cong)
  moreover have "gm_ok (rateLimits gs)" using assms by (simp add: rows_ok_def)
  ultimately have "distinct (map (\<lambda>e. rl_ID (snd e)) (rateLimits gs))" by metis
  then show d: "distinct (map rd_ID rows)"
    unfolding rows_def by (intro sort_by_distinct) (simp add: comp_def case_prod_beta rate_limit_row_def)
  have "rl_ID rl = k" using rows_okD(3) [OF assms(1)] assms(2) by (simp add: LoadRateLimit_def)
  moreover have "(k, rl) \<in> set (rateLimits gs)" using assms(2) by (simp add: LoadRateLimit_def map_of_SomeD)
  ultimately have "rate_limit_row tb rb rl \<in> set rows" "rd_ID (rate_limit_row tb rb rl) = k"
    by (auto simp: rows_def rate_limit_row_def image_iff intro!: bexI [of _ "(k, rl)"])
  then show "find (\<lambda>row. rd_ID row = k) rows = Some (rate_limit_row tb rb rl)" using find_key [OF _ d] by metis
qed

lemma dump_commits:
  assumes "rows_ok gs" "LoadBudget gs k = Some b" "gm_get (db_budgets db) k = Some d"
  shows "\<exists>db'. DumpBudgets True pg (\<lambda>_. None) gs (\<lambda>_. gs) alone baselines db = (None, db')
    \<and> gm_get (db_budgets db') k = Some (budget_effect False (budget_row b
        (case gm_get baselines k of None \<Rightarrow> CurrentUsage b | Some base \<Rightarrow> f64_add (CurrentUsage b) base)) d)"
proof -
  let ?rows = "fst (snapshotBudgetRows gs baselines)"
  have "DumpBudgets True pg (\<lambda>_. None) gs (\<lambda>_. gs) alone baselines db
      = (None, db\<lparr>db_budgets := writeBudgetBatch False False ?rows (db_budgets db)\<rparr>)"
    by (simp add: DumpBudgets_def writeBudgetRows_def write_chunks_commits snapshotBudgetRows_def budgetResetGensSnapshot_def
        budget_writer.all_chunks [OF snapshot_ids [OF assms(1)], unfolded snapshotBudgetRows_def fst_conv])
  then show ?thesis
    using budget_writer.lookup [OF snapshot_ids [OF assms(1)], of False False baselines "db_budgets db" k]
      snapshot_row [OF assms(1,2), of baselines] assms(3) by simp
qed

lemma rate_limit_dump_commits:
  assumes "rows_ok gs" "LoadRateLimit gs k = Some rl" "gm_get (db_rateLimits db) k = Some d"
  shows "\<exists>db'. DumpRateLimits True pg (\<lambda>_. None) gs tb rb db = (None, db')
    \<and> gm_get (db_rateLimits db') k = Some (put_rl (rate_limit_row tb rb rl) d)"
proof -
  let ?rows = "sort_by (\<lambda>a b. str_lt (rd_ID a) (rd_ID b)) (map (\<lambda>(_, rl). rate_limit_row tb rb rl) (rateLimits gs))"
  note snap = rl_snapshot [OF assms(1,2), of tb rb]
  have commits: "dump_rl_chunks pg (\<lambda>_. None) i cs tbl = (None, fold (dumpRateLimitBatch pg) cs tbl)" for i cs tbl
    by (induction cs arbitrary: i tbl) simp_all
  have "gm_get (dumpRateLimitBatch False ?rows (db_rateLimits db)) k = Some (put_rl (rate_limit_row tb rb rl) d)"
    using rl_writer.lookup [OF snap(1), of False "db_rateLimits db" k] snap(2) assms(3) by simp
  then show ?thesis by (auto simp: DumpRateLimits_def commits rl_writer.all_chunks [OF snap(1)])
qed

lemma budget_effect_row:
  assumes "LastReset d \<le> LastReset b"
  shows "LastReset (budget_effect False (budget_row b u) d) = LastReset b" "CurrentUsage (budget_effect False (budget_row b u) d) = u"
    "OverrideCyclesRemaining (budget_effect False (budget_row b u) d) = OverrideCyclesRemaining (if LastReset d < LastReset b then b else d)"
    "OverrideAmount (budget_effect False (budget_row b u) d) = OverrideAmount (if LastReset d < LastReset b then b else d)"
    "MaxLimit (budget_effect False (budget_row b u) d) = MaxLimit d"
  using assms by (simp_all add: budget_effect_def budget_row_def usage_guard_def override_guard_def put_usage_def put_override_def Let_def)

section \<open>Properties\<close>

definition sample_db :: ConfigDB where
  "sample_db = \<lparr>db_budgets = [(''b1'', plain_budget\<lparr>CurrentUsage := Fin 0\<rparr>)],
     db_rateLimits = [(''r1'', sample_rl\<lparr>RequestCurrentUsage := 0, RequestLastReset := 63900000000000000000\<rparr>)]\<rparr>"

text \<open>
  The multi-row statement for PostgreSQL and the per-row statements for the other dialects
  leave the same budget table, for either guard, when no budget occurs twice in the batch.
\<close>

theorem writeBudgetBatch_dialects_agree:
  assumes "distinct (map bd_ID batch)"
  shows "writeBudgetBatch True strict batch tbl = writeBudgetBatch False strict batch tbl"
  using assms by (rule budget_writer.dialects_agree)

theorem writeBudgetBatch_dialects_agree_witness:
  "writeBudgetBatch True False [budget_row plain_budget (Fin 9)] (db_budgets sample_db)
    = writeBudgetBatch False False [budget_row plain_budget (Fin 9)] (db_budgets sample_db)"
  by (rule writeBudgetBatch_dialects_agree) simp

text \<open>
  C8: Whatever the outcome of the transactions, the dialect and the resets that happen in
  between, dumping the budgets and persisting resets never move the persisted start of a
  window back, and never change a column of the budget's configuration.
\<close>

theorem persisted_window_never_moves_back:
  assumes "gm_get (db_budgets db) k = Some b"
    and "db' = snd (DumpBudgets configured pg outcome gs gsAt alone baselines db)
      \<or> db' = snd (ResetExpiredBudgets configured pg outcome resets db)"
  shows "\<exists>b'. gm_get (db_budgets db') k = Some b' \<and> LastReset b \<le> LastReset b'
    \<and> b'\<lparr>CurrentUsage := CurrentUsage b, LastReset := LastReset b, OverrideAmount := OverrideAmount b,
         OverrideMode := OverrideMode b, OverrideCyclesRemaining := OverrideCyclesRemaining b,
         OverrideCyclesTotal := OverrideCyclesTotal b, OverrideAnchorReset := OverrideAnchorReset b\<rparr> = b"
proof -
  have "\<exists>b'. gm_get (db_budgets db') k = Some b' \<and> advanced b b'"
    using assms(2)
  proof
    assume "db' = snd (DumpBudgets configured pg outcome gs gsAt alone baselines db)"
    then show ?thesis
      using assms(1) advanced_refl write_chunks_advances [OF assms(1), of pg outcome gsAt _ 0]
      by (auto simp: dumped_table)
  next
    assume "db' = snd (ResetExpiredBudgets configured pg outcome resets db)"
    then show ?thesis
      using assms(1) advanced_refl commit_chunks_advances [OF assms(1), of pg True _ outcome 0]
      by (auto simp: reset_table)
  qed
  then show ?thesis by (simp add: advanced_def)
qed

theorem persisted_window_never_moves_back_witness:
  "\<exists>b'. gm_get (db_budgets (snd (DumpBudgets True True (\<lambda>_. None) team_store (\<lambda>_. team_store) alone [] sample_db))) ''b1'' = Some b'
     \<and> LastReset plain_budget \<le> LastReset b'"
  using persisted_window_never_moves_back [of sample_db "''b1''" "plain_budget\<lparr>CurrentUsage := Fin 0\<rparr>", OF _ disjI1 [OF refl],
      of True True "\<lambda>_. None" team_store "\<lambda>_. team_store" "[]"]
  by (auto simp: sample_db_def)

text \<open>
  The two ways a budget is reset: by an operator, and by a sweep that finds its window over. Either bumps its
  generation. \<open>reset_since\<close>: since the store \<open>gs\<close> the budget was reset, and after that anything may have happened to the
  store, with fewer than \<open>2 ^ 64 - 1\<close> more resets of the budget.
\<close>

inductive reset_step :: "string \<Rightarrow> LocalGovernanceStore \<Rightarrow> LocalGovernanceStore \<Rightarrow> bool" for k where
  operator: "ResetBudgetUsageInMemory gs k = (gs', Some b) \<Longrightarrow> reset_step k gs gs'"
| window_over: "resetExpiredBudgetFromSnapshot gs b now = (gs', Some r) \<Longrightarrow> ID r = k \<Longrightarrow> reset_step k gs gs'"

definition generation :: "LocalGovernanceStore \<Rightarrow> string \<Rightarrow> nat" where
  "generation gs k = gm_get0 0 (budgetResetGens gs) k"

lemma reset_step_generation: "reset_step k gs gs' \<Longrightarrow> generation gs' k = (generation gs k + 1) mod 2 ^ 64"
  by (cases rule: reset_step.cases)
    (auto simp: generation_def ResetBudgetUsageInMemory_def RebaseBudget_def resetExpiredBudgetFromSnapshot_def ResetBudgetAt_def
      clearBudgetBaseline_def markBudgetResetLocked_def Let_def split: option.splits prod.splits if_splits)

definition reset_since :: "LocalGovernanceStore \<Rightarrow> string \<Rightarrow> LocalGovernanceStore \<Rightarrow> bool" where
  "reset_since gs k gs' \<longleftrightarrow> (\<exists>mid after m. generation mid k = generation gs k \<and> reset_step k mid after
     \<and> generation gs' k = (generation after k + m) mod 2 ^ 64 \<and> m < 2 ^ 64 - 1)"

lemma shifted_generation: "(g + Suc m) mod 2 ^ 64 \<noteq> (g :: nat)" if "m < 2 ^ 64 - 1"
proof
  assume e: "(g + Suc m) mod 2 ^ 64 = g"
  then have "g < 2 ^ 64" using mod_less_divisor [of "2 ^ 64" "g + Suc m"] by simp
  then have "(g + Suc m) mod 2 ^ 64 = (if g + Suc m < 2 ^ 64 then g + Suc m else g + Suc m - 2 ^ 64)"
    using that by (auto simp: mod_if)
  then show False using e that \<open>g < 2 ^ 64\<close> by (auto split: if_splits)
qed

lemma reset_since_generation:
  assumes "reset_since gs k gs'"
  shows "generation gs' k \<noteq> generation gs k"
proof -
  obtain mid m where m: "generation mid k = generation gs k" "m < 2 ^ 64 - 1"
      "generation gs' k = ((generation mid k + 1) mod 2 ^ 64 + m) mod 2 ^ 64"
    using assms reset_step_generation by (force simp: reset_since_def)
  then have "generation gs' k = (generation gs k + Suc m) mod 2 ^ 64" by (simp add: mod_add_left_eq)
  then show ?thesis using shifted_generation [OF m(2)] by simp
qed

text \<open>
  C9: A budget reset that lands while a dump is under way is not undone by the dump, provided it lands before
  the dump checks the batch that holds the budget's row: the row read before the reset is then not written, whatever the store is
  at the checks of the other batches, and the persisted row is what the transactions of the others make of it. The reset
  is an operator's or that of a window that is over. The others write the row without regard to other rows.
\<close>

theorem reset_survives_dump:
  assumes "rowwise k others"
    and "\<And>i. i < length (chunks dumpBatchSize (fst (snapshotBudgetRows gs baselines)))
      \<Longrightarrow> k \<in> bd_ID ` set (chunks dumpBatchSize (fst (snapshotBudgetRows gs baselines)) ! i) \<Longrightarrow> reset_since gs k (gsAt i)"
  shows "\<exists>n. gm_get (db_budgets (snd (DumpBudgets configured pg outcome gs gsAt others baselines db))) k
    = gm_get (fold others [0..<n] (db_budgets db)) k"
proof (cases configured)
  case False
  then show ?thesis by (auto simp: DumpBudgets_def intro: exI [of _ 0])
next
  case True
  let ?cs = "chunks dumpBatchSize (fst (snapshotBudgetRows gs baselines))"
  have "gm_get0 0 (budgetResetGens (gsAt (0 + j))) k \<noteq> gm_get0 0 (budgetResetGensSnapshot gs) k"
    if "j < length ?cs" "k \<in> bd_ID ` set (?cs ! j)" for j
    using reset_since_generation [OF assms(2) [OF that]] by (simp add: generation_def budgetResetGensSnapshot_def)
  from write_chunks_skips [where cs = ?cs and gsAt = gsAt and i = 0, OF assms(1) this] True show ?thesis unfolding dumped_table by simp
qed

text \<open>A row that another transaction sets to a usage of one while the dump is under way.\<close>

definition set_usage :: "f64 \<Rightarrow> nat \<Rightarrow> budget_table \<Rightarrow> budget_table" where
  "set_usage u i tbl = (if i = 0 then update_row ''b1'' (\<lambda>_. True) (\<lambda>b. b\<lparr>CurrentUsage := u\<rparr>) tbl else tbl)"

lemma set_usage_rowwise: "rowwise ''b1'' (set_usage u)"
  by (simp add: rowwise_def set_usage_def update_row_def gm_get_mapk)

lemma operator_reset_since: "LoadBudget gs k \<noteq> None \<Longrightarrow> reset_since gs k (fst (ResetBudgetUsageInMemory gs k))"
proof -
  assume l: "LoadBudget gs k \<noteq> None"
  obtain gs' r where r: "ResetBudgetUsageInMemory gs k = (gs', r)" by fastforce
  then have "r \<noteq> None" using l by (auto simp: ResetBudgetUsageInMemory_def RebaseBudget_def LoadBudget_def Let_def split: option.splits)
  then have s: "reset_step k gs gs'" using r by (auto intro: reset_step.operator)
  have "generation gs' k = (generation gs' k + 0) mod 2 ^ 64" using reset_step_generation [OF s] by simp
  then have "reset_since gs k gs'" unfolding reset_since_def
    using s by (intro exI [of _ gs] exI [of _ gs'] exI [of _ 0]) simp
  then show ?thesis using r by simp
qed

theorem reset_survives_dump_witness:
  "\<exists>n. gm_get (db_budgets (snd (DumpBudgets True True (\<lambda>_. None) team_store (\<lambda>i. fst (ResetBudgetUsageInMemory team_store ''b1''))
      (set_usage (Fin 1)) [] sample_db))) ''b1''
    = gm_get (fold (set_usage (Fin 1)) [0..<n] (db_budgets sample_db)) ''b1''"
  using operator_reset_since [of team_store "''b1''"]
  by (intro reset_survives_dump [OF set_usage_rowwise]) (simp add: team_store_rows)

text \<open>
  The check and the transaction are not one step. When the reset lands between them, in memory and in the database, the
  usage from before the reset is written back over it, and stands in the database until the next dump.
\<close>

theorem reset_after_check_undone:
  "map_option CurrentUsage (gm_get (db_budgets (snd (DumpBudgets True True (\<lambda>_. None) team_store (\<lambda>_. team_store)
      (set_usage (Fin 0)) [] sample_db))) ''b1'') = Some (Fin 7)"
  by code_simp

text \<open>
  A dump whose transactions commit brings the database up to the node. For every live budget
  whose persisted window is not newer, the persisted usage is afterwards the usage of the
  node plus the usage of the rest of the cluster, the window is that of the node, and the
  override columns are those of the node exactly when the window moved on.
\<close>

theorem DumpBudgets_persists_counters:
  assumes "rows_ok gs" "LoadBudget gs k = Some b" "gm_get (db_budgets db) k = Some d" "LastReset d \<le> LastReset b"
  shows "\<exists>db' d'. DumpBudgets True pg (\<lambda>_. None) gs (\<lambda>_. gs) alone baselines db = (None, db')
    \<and> gm_get (db_budgets db') k = Some d' \<and> LastReset d' = LastReset b
    \<and> CurrentUsage d' = (case gm_get baselines k of None \<Rightarrow> CurrentUsage b | Some base \<Rightarrow> f64_add (CurrentUsage b) base)
    \<and> OverrideCyclesRemaining d' = OverrideCyclesRemaining (if LastReset d < LastReset b then b else d)
    \<and> OverrideAmount d' = OverrideAmount (if LastReset d < LastReset b then b else d) \<and> MaxLimit d' = MaxLimit d"
  using dump_commits [OF assms(1-3), of pg baselines] budget_effect_row [OF assms(4)] by auto

theorem DumpBudgets_persists_counters_witness:
  "\<exists>db' d'. DumpBudgets True True (\<lambda>_. None) team_store (\<lambda>_. team_store) alone [] sample_db = (None, db')
     \<and> gm_get (db_budgets db') ''b1'' = Some d' \<and> CurrentUsage d' = Fin 7"
  using DumpBudgets_persists_counters [OF team_store_rows(1), of "''b1''" plain_budget sample_db
      "plain_budget\<lparr>CurrentUsage := Fin 0\<rparr>" True "[]"]
  by (auto simp: team_store_rows plain_budget_fields sample_db_def)

text \<open>
  Dumping rate limits has no such guard. A node whose window of a rate limit is older than
  the persisted one writes its own window and its own count back over it, in either dialect.
\<close>

theorem stale_dump_reopens_rate_limit:
  assumes "rows_ok gs" "LoadRateLimit gs k = Some rl" "gm_get (db_rateLimits db) k = Some d"
    and "RequestLastReset rl < RequestLastReset d"
  shows "\<exists>db' d'. DumpRateLimits True pg (\<lambda>_. None) gs [] [] db = (None, db') \<and> gm_get (db_rateLimits db') k = Some d'
    \<and> RequestLastReset d' < RequestLastReset d \<and> RequestCurrentUsage d' = RequestCurrentUsage rl"
  using rate_limit_dump_commits [OF assms(1-3), of pg "[]" "[]"] assms(4) by (auto simp: put_rl_def rate_limit_row_def)

theorem stale_dump_reopens_rate_limit_witness:
  "\<exists>db' d'. DumpRateLimits True False (\<lambda>_. None) tracked_store [] [] sample_db = (None, db')
     \<and> gm_get (db_rateLimits db') ''r1'' = Some d' \<and> RequestCurrentUsage d' = 2"
  using stale_dump_reopens_rate_limit [OF tracked_store_rows(1,2), of sample_db
      "sample_rl\<lparr>RequestCurrentUsage := 0, RequestLastReset := 63900000000000000000\<rparr>" False]
  by (auto simp: sample_db_def sample_rl_def)

end
