(* ===== verification/Reset_Worker.thy ===== *)
theory Reset_Worker
  imports Persistence_Properties
begin

text \<open>
  One pass of the background worker, the resets at start-up and the final flush:
  \<open>resetExpiredCounters\<close>, \<open>PerformStartupResets\<close>, \<open>validateStartupResetDurations\<close> and \<open>Cleanup\<close> of
  plugins/governance/tracker.go. The tracker's store is the local store, its config store is the
  database of \<open>Persistence\<close>. \<open>outcomes j\<close> are the outcomes of the transactions of the \<open>j\<close>-th write of
  the pass; the clock readings of a pass are its three arguments. The goroutine that calls
  the pass on every tick and the log messages are not modelled.
\<close>

definition resetExpiredCounters ::
    "bool \<Rightarrow> bool \<Rightarrow> (nat \<Rightarrow> nat \<Rightarrow> err option) \<Rightarrow> time \<Rightarrow> time \<Rightarrow> time \<Rightarrow> UsageTracker \<Rightarrow> ConfigDB \<Rightarrow> UsageTracker \<times> ConfigDB" where
  "resetExpiredCounters configured postgres outcomes n1 n2 n3 t db =
     (let (gs1, resetRateLimits) = ResetExpiredRateLimitsInMemory (t_store t) n1 True [];
          db1 = snd (ResetExpiredRateLimits configured postgres (outcomes 0) resetRateLimits db);
          (gs2, resetBudgets) = ResetExpiredBudgetsInMemory gs1 n2 True [];
          db2 = snd (ResetExpiredBudgets configured postgres (outcomes 1) resetBudgets db1);
          db3 = snd (DumpRateLimits configured postgres (outcomes 2) gs2 [] [] db2);
          db4 = snd (DumpBudgets configured postgres (outcomes 3) gs2 (\<lambda>_. gs2) alone [] db3)
      in (sweepBilled (t\<lparr>t_store := gs2\<rparr>) n3, db4))"

definition duration_error :: "string \<Rightarrow> string option \<Rightarrow> string list" where
  "duration_error message d =
     (case d of None \<Rightarrow> []
      | Some s \<Rightarrow> (case ParseDuration s of Inl (Err e) \<Rightarrow> [message @ '': '' @ e] | Inr _ \<Rightarrow> []))"

definition validateStartupResetDurations :: "LocalGovernanceStore \<Rightarrow> string list" where
  "validateStartupResetDurations gs =
     concat (map (\<lambda>(_, b). if ResetDuration b = [] \<or> IsCalendarAligned b then []
               else duration_error (''invalid budget reset duration for budget '' @ ID b) (Some (ResetDuration b))) (budgets gs))
     @ concat (map (\<lambda>(_, rl). if rl_IsCalendarAligned rl then []
               else duration_error (''invalid token reset duration for rate limit '' @ rl_ID rl) (TokenResetDuration rl)
                  @ duration_error (''invalid request reset duration for rate limit '' @ rl_ID rl) (RequestResetDuration rl))
          (rateLimits gs))"

definition error_text :: "string \<Rightarrow> err option \<Rightarrow> string list" where
  "error_text message e = (case e of None \<Rightarrow> [] | Some (Err s) \<Rightarrow> [message @ '': '' @ s])"

definition PerformStartupResets ::
    "bool \<Rightarrow> bool \<Rightarrow> (nat \<Rightarrow> nat \<Rightarrow> err option) \<Rightarrow> time \<Rightarrow> time \<Rightarrow> UsageTracker \<Rightarrow> ConfigDB
      \<Rightarrow> err option \<times> UsageTracker \<times> ConfigDB" where
  "PerformStartupResets configured postgres outcomes n1 n2 t db =
     (if \<not> configured then (None, t, db)
      else let errs0 = validateStartupResetDurations (t_store t);
               (gs1, resetRateLimits) = ResetExpiredRateLimitsInMemory (t_store t) n1 True [];
               (e1, db1) = ResetExpiredRateLimits configured postgres (outcomes 0) resetRateLimits db;
               (gs2, resetBudgets) = ResetExpiredBudgetsInMemory gs1 n2 True [];
               (e2, db2) = ResetExpiredBudgets configured postgres (outcomes 1) resetBudgets db1;
               errs = errs0 @ error_text ''failed to reset expired rate limits'' e1 @ error_text ''failed to reset expired budgets'' e2
        in (if errs = [] then None
            else Some (Err (''startup reset completed with '' @ dec_int (int (length errs)) @ '' errors'')),
            t\<lparr>t_store := gs2\<rparr>, db2))"

definition Cleanup ::
    "bool \<Rightarrow> bool \<Rightarrow> (nat \<Rightarrow> nat \<Rightarrow> err option) \<Rightarrow> UsageTracker \<Rightarrow> ConfigDB \<Rightarrow> ConfigDB" where
  "Cleanup configured postgres outcomes t db =
     (let db1 = snd (DumpBudgets configured postgres (outcomes 0) (t_store t) (\<lambda>_. t_store t) alone [] db)
      in snd (DumpRateLimits configured postgres (outcomes 1) (t_store t) [] [] db1))"

section \<open>Frames of a pass\<close>

lemma sweep_rate_limit_budgets: "budgets (fst (sweep_rate_limit now k acc)) = budgets (fst acc)"
  by (cases acc) (auto simp: sweep_rate_limit_def resetExpiredRateLimitFromSnapshot_def ResetRateLimitAt_def Let_def
      split: option.splits prod.splits if_splits)

lemma rate_limit_sweep_keeps_budgets: "budgets (fst (ResetExpiredRateLimitsInMemory gs now refresh ids)) = budgets gs"
proof -
  have "budgets (fst (fold (sweep_rate_limit now) is (gs, []))) = budgets gs" for "is"
    using fold_keeps [of "\<lambda>acc. budgets (fst acc)" "sweep_rate_limit now" "is" "(gs, [])"] by (simp add: sweep_rate_limit_budgets)
  then show ?thesis
    by (auto simp: ResetExpiredRateLimitsInMemory_def Let_def updateRateLimitReferences_frame split: prod.splits) (metis fst_conv)+
qed

lemma rate_limit_writes_keep_budgets:
  "db_budgets (snd (ResetExpiredRateLimits configured pg outcome rls db)) = db_budgets db"
  "db_budgets (snd (DumpRateLimits configured pg outcome gs tb rb db)) = db_budgets db"
  by (simp_all add: ResetExpiredRateLimits_def DumpRateLimits_def Let_def split: prod.split)

text \<open>The rate limits after a sweep over all of them, which the sweep of the budgets leaves alone.\<close>

lemma rl_reset_idle: "\<not> rl_due rl now \<Longrightarrow> rl_reset rl now = rl"
  by (cases "rateLimitResetTargets rl now") (simp add: rl_due_def rl_reset_def Let_def)

lemma sweep_rate_limit_fold:
  assumes "distinct ks" "\<And>k rl. gm_get (rateLimits gs) k = Some rl \<Longrightarrow> rl_ID rl = k"
  shows "gm_get (rateLimits (fst (fold (sweep_rate_limit now) ks (gs, acc)))) k
    = (if k \<in> set ks then map_option (\<lambda>rl. rl_reset rl now) (gm_get (rateLimits gs) k) else gm_get (rateLimits gs) k)"
  using assms
proof (induction ks arbitrary: gs acc)
  case (Cons j ks)
  show ?case
  proof (cases "gm_get (rateLimits gs) j")
    case None
    then have "sweep_rate_limit now j (gs, acc) = (gs, acc)" by (simp add: sweep_rate_limit_def)
    then show ?thesis using Cons None by auto
  next
    case (Some rl)
    obtain gs' acc' where s: "sweep_rate_limit now j (gs, acc) = (gs', acc')"
      "rateLimits gs' = (if rl_due rl now then gm_put j (rl_reset rl now) (rateLimits gs) else rateLimits gs)"
      using sweep_rate_limit_step [OF Some Cons.prems(2) [OF Some], of now acc] by auto
    have g: "gm_get (rateLimits gs') i = (if i = j then Some (rl_reset rl now) else gm_get (rateLimits gs) i)" for i
      using s(2) Some by (simp add: rl_reset_idle)
    have ids: "rl_ID r = i" if "gm_get (rateLimits gs') i = Some r" for i r
      using that Cons.prems(2) [OF Some] Cons.prems(2) [of i r] by (auto simp: g split: if_splits)
    have "gm_get (rateLimits (fst (fold (sweep_rate_limit now) ks (gs', acc')))) k
        = (if k \<in> set ks then map_option (\<lambda>rl. rl_reset rl now) (gm_get (rateLimits gs') k) else gm_get (rateLimits gs') k)"
      using Cons.IH [where gs = gs' and acc = acc', OF _ ids] Cons.prems(1) by simp
    then show ?thesis using Cons.prems(1) Some by (auto simp: s(1) g)
  qed
qed simp

lemma sweep_all_rate_limits:
  assumes "rows_ok gs"
  shows "LoadRateLimit (fst (ResetExpiredRateLimitsInMemory gs now refresh [])) k = map_option (\<lambda>rl. rl_reset rl now) (LoadRateLimit gs k)"
proof -
  have d: "distinct (map fst (rateLimits gs))" using assms by (simp add: rows_ok_def)
  have m: "k \<notin> set (map fst (rateLimits gs)) \<Longrightarrow> gm_get (rateLimits gs) k = None"
    by (simp add: map_of_eq_None_iff)
  have "rateLimits (fst (ResetExpiredRateLimitsInMemory gs now refresh []))
      = rateLimits (fst (fold (sweep_rate_limit now) (map fst (rateLimits gs)) (gs, [])))"
    by (auto simp: ResetExpiredRateLimitsInMemory_def Let_def updateRateLimitReferences_frame split: prod.split)
  then show ?thesis
    using sweep_rate_limit_fold [where now = now and acc = "[]" and k = k, OF d rows_okD(3) [OF assms]] m by (auto simp: LoadRateLimit_def)
qed

lemma budget_sweep_keeps_rate_limits: "rateLimits (fst (ResetExpiredBudgetsInMemory gs now refresh ids)) = rateLimits gs"
proof -
  have "rateLimits (fst (sweep_budget now k acc)) = rateLimits (fst acc)" for k acc
    by (cases acc) (auto simp: sweep_budget_def resetExpiredBudgetFromSnapshot_def ResetBudgetAt_def Let_def
        split: option.splits prod.splits if_splits)
  then have "rateLimits (fst (fold (sweep_budget now) is (gs, []))) = rateLimits gs" for "is"
    using fold_keeps [of "\<lambda>acc. rateLimits (fst acc)" "sweep_budget now" "is" "(gs, [])"] by simp
  then show ?thesis
    by (auto simp: ResetExpiredBudgetsInMemory_def Let_def split: prod.splits) (metis fst_conv)+
qed

lemma budget_writes_keep_rate_limits:
  "db_rateLimits (snd (ResetExpiredBudgets configured pg outcome bs db)) = db_rateLimits db"
  "db_rateLimits (snd (DumpBudgets configured pg outcome gs gsAt others base db)) = db_rateLimits db"
  by (simp_all add: ResetExpiredBudgets_def DumpBudgets_def writeBudgetRows_def Let_def split: prod.split)

lemma rate_limit_resets_keep_row:
  assumes "gm_get tbl k = Some d"
  shows "\<exists>d'. gm_get (snd (commit_chunks (\<lambda>(tokens, batch). resetRateLimitDimensionBatch pg tokens batch) message outcome i cs tbl)) k = Some d'"
  using assms
proof (induction cs arbitrary: i tbl d)
  case (Cons c cs)
  obtain tokens batch where c: "c = (tokens, batch)" by (cases c)
  have "\<exists>d'. gm_get (resetRateLimitDimensionBatch pg tokens batch tbl) k = Some d' \<and> True"
    by (rule boundary_writer.related [where R = "\<lambda>_ _. True"]) (use Cons.prems in auto)
  then obtain d1 where "gm_get (resetRateLimitDimensionBatch pg tokens batch tbl) k = Some d1" by blast
  from Cons.IH [OF this] show ?case using Cons.prems by (auto simp: c split: option.split err.split)
qed simp

lemma LastReset_budget_reset: "LastReset b \<le> LastReset (budget_reset b now)"
  using budgetResetTarget_after [of b now] by (auto simp: budget_reset_def split: option.split)

lemma commit_chunks_bounded:
  assumes "\<And>c row. c \<in> set cs \<Longrightarrow> row \<in> set c \<Longrightarrow> bd_ID row = k \<Longrightarrow> bd_LastReset row \<le> L"
    and "gm_get tbl k = Some d" "LastReset d \<le> L"
  shows "\<exists>d'. gm_get (snd (commit_chunks (writeBudgetBatch pg True) message outcome i cs tbl)) k = Some d' \<and> LastReset d' \<le> L"
  using assms
proof (induction cs arbitrary: i tbl d)
  case (Cons c cs)
  have "\<exists>d'. gm_get (writeBudgetBatch pg True c tbl) k = Some d' \<and> (LastReset d \<le> L \<longrightarrow> LastReset d' \<le> L)"
  proof (rule budget_writer.related [where R = "\<lambda>a b. LastReset a \<le> L \<longrightarrow> LastReset b \<le> L"])
    fix row r
    assume "row \<in> set c" "bd_ID row = k"
    then have "bd_LastReset row \<le> L" using Cons.prems(1) [of c row] by simp
    then show "LastReset r \<le> L \<longrightarrow> LastReset (budget_effect True row r) \<le> L"
      by (simp add: budget_effect_def put_usage_def put_override_def Let_def)
  qed (use Cons.prems in auto)
  then obtain d1 where d1: "gm_get (writeBudgetBatch pg True c tbl) k = Some d1" "LastReset d1 \<le> L"
    using Cons.prems(3) by blast
  have "\<exists>d'. gm_get (snd (commit_chunks (writeBudgetBatch pg True) message outcome (Suc i) cs (writeBudgetBatch pg True c tbl))) k = Some d'
      \<and> LastReset d' \<le> L"
    using Cons.prems(1) by (intro Cons.IH [OF _ d1]) auto
  then show ?case using Cons.prems(2,3) by (simp split: option.split err.split)
qed simp

lemma reset_rows_bounded:
  assumes "rows_ok gs" "LoadBudget gs k = Some b" "ResetExpiredBudgetsInMemory gs now refresh [] = (gs', resets)"
    and "r \<in> set resets" "ID r = k"
  shows "LastReset r = LastReset (budget_reset b now)"
proof -
  have ok: "gm_ok (budgets gs)" "\<And>k b. gm_get (budgets gs) k = Some b \<Longrightarrow> ID b = k"
    using assms(1) rows_okD(1) [OF assms(1)] by (simp_all only: rows_ok_def)
  obtain j c where c: "gm_get (budgets gs) j = Some c" "r = budget_reset c now"
  proof -
    have "set resets = {budget_reset b now |j b. gm_get (budgets gs) j = Some b \<and> budget_due b now}"
      by (rule sweep_all_budgets(2) [OF ok(1) _ assms(3)]) (rule ok(2))
    then show thesis using assms(4) that by blast
  qed
  then have "j = k" using ok(2) [OF c(1)] assms(5) by simp
  then show ?thesis using c assms(2) by (simp add: LoadBudget_def)
qed

lemma pass_persists_budget:
  assumes "rows_ok gs" "LoadBudget gs k = Some b" "gm_get (db_budgets db) k = Some d"
    and "LastReset d \<le> LastReset b" "ResetExpiredBudgetsInMemory gs now True [] = (gs2, bs)"
    and "db2 = snd (ResetExpiredBudgets True pg outcome bs db)" "db_budgets db3 = db_budgets db2"
  shows "\<exists>d'. gm_get (db_budgets (snd (DumpBudgets True pg (\<lambda>_. None) gs2 (\<lambda>_. gs2) alone [] db3))) k = Some d'
    \<and> LastReset d' = LastReset (budget_reset b now) \<and> CurrentUsage d' = CurrentUsage (budget_reset b now)"
proof -
  let ?L = "LastReset (budget_reset b now)"
  have ok2: "rows_ok gs2" using rows_ok_ResetExpiredBudgets [OF assms(1), of now True "[]"] by (simp add: assms(5))
  have b2: "LoadBudget gs2 k = Some (budget_reset b now)"
    using sweep_all_budgets(1) [OF _ _ assms(5), of k] assms(1,2) by (auto simp: rows_ok_def LoadBudget_def)
  have "\<exists>d2. gm_get (db_budgets db2) k = Some d2 \<and> LastReset d2 \<le> ?L"
    unfolding assms(6) reset_table if_True
  proof (rule commit_chunks_bounded)
    show "gm_get (db_budgets db) k = Some d" by (rule assms(3))
    show "LastReset d \<le> ?L" using assms(4) LastReset_budget_reset [of b now] by simp
    show "bd_LastReset row \<le> ?L" if c: "c \<in> set (chunks dumpBatchSize (sort_by (\<lambda>a b. str_lt (bd_ID a) (bd_ID b))
        (map (\<lambda>b. budget_row b (CurrentUsage b)) bs)))" and "row \<in> set c" "bd_ID row = k" for c row
    proof -
      have "row \<in> (\<lambda>b. budget_row b (CurrentUsage b)) ` set bs" using chunks_mem [OF c] that(2) by auto
      then obtain r where "r \<in> set bs" "row = budget_row r (CurrentUsage r)" by blast
      then show ?thesis using reset_rows_bounded [OF assms(1,2,5), of r] that(3) by (simp add: budget_row_def)
    qed
  qed
  then obtain d2 where d2: "gm_get (db_budgets db3) k = Some d2" "LastReset d2 \<le> ?L" by (auto simp: assms(7))
  from dump_commits [OF ok2 b2 d2(1), of pg "[]"] show ?thesis using budget_effect_row(1,2) [OF d2(2)] b2 by auto
qed

text \<open>
  C15: A pass of the worker persists every window it closes. It closes in memory the window of every live budget and
  both windows of every live rate limit that are due, and when the two dumps that end the pass commit, with no other
  transaction between their batches, the persisted windows and usages are those in memory, even when the writes before the
  dumps fail: for every live rate limit with a row, and for every live budget with a row whose persisted window is not
  newer than the node's.
\<close>

theorem worker_pass_persists_windows:
  assumes "rows_ok (t_store t)" "outcomes 2 = (\<lambda>_. None)" "outcomes 3 = (\<lambda>_. None)"
    and "resetExpiredCounters True pg outcomes n1 n2 n3 t db = (t', db')"
  shows "(\<forall>k b. LoadBudget (t_store t) k = Some b \<longrightarrow>
      LoadBudget (t_store t') k = Some (budget_reset b n2)
      \<and> (\<forall>d. gm_get (db_budgets db) k = Some d \<and> LastReset d \<le> LastReset b \<longrightarrow>
          (\<exists>d'. gm_get (db_budgets db') k = Some d' \<and> LastReset d' = LastReset (budget_reset b n2)
            \<and> CurrentUsage d' = CurrentUsage (budget_reset b n2))))
    \<and> (\<forall>k rl. LoadRateLimit (t_store t) k = Some rl \<longrightarrow>
      LoadRateLimit (t_store t') k = Some (rl_reset rl n1)
      \<and> (\<forall>d. gm_get (db_rateLimits db) k = Some d \<longrightarrow>
          (\<exists>d'. gm_get (db_rateLimits db') k = Some d'
            \<and> TokenLastReset d' = TokenLastReset (rl_reset rl n1) \<and> RequestLastReset d' = RequestLastReset (rl_reset rl n1)
            \<and> TokenCurrentUsage d' = TokenCurrentUsage (rl_reset rl n1)
            \<and> RequestCurrentUsage d' = RequestCurrentUsage (rl_reset rl n1))))"
proof -
  obtain gs1 rls where s1: "ResetExpiredRateLimitsInMemory (t_store t) n1 True [] = (gs1, rls)" by fastforce
  obtain gs2 bs where s2: "ResetExpiredBudgetsInMemory gs1 n2 True [] = (gs2, bs)" by fastforce
  define db1 where "db1 = snd (ResetExpiredRateLimits True pg (outcomes 0) rls db)"
  define db2 where "db2 = snd (ResetExpiredBudgets True pg (outcomes 1) bs db1)"
  define db3 where "db3 = snd (DumpRateLimits True pg (\<lambda>_. None) gs2 [] [] db2)"
  have out: "t_store t' = gs2" "db' = snd (DumpBudgets True pg (\<lambda>_. None) gs2 (\<lambda>_. gs2) alone [] db3)"
    using assms(2-4) by (auto simp: resetExpiredCounters_def s1 s2 sweepBilled_def Let_def db1_def db2_def db3_def)
  have ok1: "rows_ok gs1" using rows_ok_ResetExpiredRateLimits [OF assms(1), of n1 True "[]"] by (simp add: s1)
  have ok2: "rows_ok gs2" using rows_ok_ResetExpiredBudgets [OF ok1, of n2 True "[]"] by (simp add: s2)
  have same: "LoadBudget gs1 k = LoadBudget (t_store t) k" for k
    using rate_limit_sweep_keeps_budgets [of "t_store t" n1 True "[]"] by (simp add: s1 LoadBudget_def)
  have rl2: "LoadRateLimit gs2 k = map_option (\<lambda>rl. rl_reset rl n1) (LoadRateLimit (t_store t) k)" for k
    using sweep_all_rate_limits [OF assms(1), of n1 True k] budget_sweep_keeps_rate_limits [of gs1 n2 True "[]"]
    by (simp add: s1 s2 LoadRateLimit_def)
  have budget: "LoadBudget gs2 k = Some (budget_reset b n2)" if "LoadBudget (t_store t) k = Some b" for k b
    using sweep_all_budgets(1) [OF _ _ s2, of k] ok1 that same [of k] by (auto simp: rows_ok_def LoadBudget_def)
  have budget_row: "\<exists>d'. gm_get (db_budgets db') k = Some d' \<and> LastReset d' = LastReset (budget_reset b n2)
      \<and> CurrentUsage d' = CurrentUsage (budget_reset b n2)"
    if "LoadBudget (t_store t) k = Some b" "gm_get (db_budgets db) k = Some d" "LastReset d \<le> LastReset b" for k b d
    unfolding out(2)
  proof (rule pass_persists_budget [OF ok1 _ _ that(3) s2 db2_def])
    show "LoadBudget gs1 k = Some b" "gm_get (db_budgets db1) k = Some d"
      using that by (simp_all add: same db1_def rate_limit_writes_keep_budgets)
  qed (simp add: db3_def rate_limit_writes_keep_budgets)
  have limit_row: "\<exists>d'. gm_get (db_rateLimits db') k = Some d'
      \<and> TokenLastReset d' = TokenLastReset (rl_reset rl n1) \<and> RequestLastReset d' = RequestLastReset (rl_reset rl n1)
      \<and> TokenCurrentUsage d' = TokenCurrentUsage (rl_reset rl n1) \<and> RequestCurrentUsage d' = RequestCurrentUsage (rl_reset rl n1)"
    if "LoadRateLimit (t_store t) k = Some rl" "gm_get (db_rateLimits db) k = Some d" for k rl d
  proof -
    have "\<exists>d1. gm_get (db_rateLimits db1) k = Some d1"
      using rate_limit_resets_keep_row [OF that(2)] by (simp add: db1_def ResetExpiredRateLimits_def Let_def split: prod.split) (metis snd_conv)
    then obtain d1 where d1: "gm_get (db_rateLimits db2) k = Some d1" by (auto simp: db2_def budget_writes_keep_rate_limits)
    have "LoadRateLimit gs2 k = Some (rl_reset rl n1)" using that(1) by (simp add: rl2)
    from rate_limit_dump_commits [OF ok2 this d1, of pg "[]" "[]"] show ?thesis
      by (auto simp: out(2) budget_writes_keep_rate_limits db3_def put_rl_def rate_limit_row_def)
  qed
  show ?thesis using budget budget_row rl2 limit_row by (simp add: out(1))
qed

theorem worker_pass_persists_windows_witness:
  "(\<exists>d'. gm_get (db_budgets (snd (resetExpiredCounters True True (\<lambda>_ _. None) 63900003600000000000 63900003600000000000
      63900003600000000000 \<lparr>t_store = tracked_store, billed = []\<rparr> sample_db))) ''b1'' = Some d'
     \<and> LastReset d' = LastReset (budget_reset plain_budget 63900003600000000000))
   \<and> (\<exists>d'. gm_get (db_rateLimits (snd (resetExpiredCounters True True (\<lambda>_ _. None) 63900003600000000000 63900003600000000000
      63900003600000000000 \<lparr>t_store = tracked_store, billed = []\<rparr> sample_db))) ''r1'' = Some d'
     \<and> TokenLastReset d' = TokenLastReset (rl_reset sample_rl 63900003600000000000))"
proof -
  let ?n = "63900003600000000000 :: int"
  obtain t' db' where p: "resetExpiredCounters True True (\<lambda>_ _. None) ?n ?n ?n \<lparr>t_store = tracked_store, billed = []\<rparr> sample_db = (t', db')"
    by fastforce
  have d: "gm_get (db_budgets sample_db) ''b1'' = Some (plain_budget\<lparr>CurrentUsage := Fin 0\<rparr>)"
    "gm_get (db_rateLimits sample_db) ''r1'' = Some (sample_rl\<lparr>RequestCurrentUsage := 0, RequestLastReset := 63900000000000000000\<rparr>)"
    by (simp_all add: sample_db_def)
  have "rows_ok (t_store \<lparr>t_store = tracked_store, billed = []\<rparr>)" by (simp add: tracked_store_rows)
  note pass = worker_pass_persists_windows [OF this refl refl p]
  show ?thesis
    using conjunct1 [OF pass, rule_format, of "''b1''" plain_budget] conjunct2 [OF pass, rule_format, of "''r1''" sample_rl] d
    by (auto simp: p tracked_store_rows)
qed

end
