(* ===== verification/KV_Store.thy ===== *)
theory KV_Store
  imports Gateway_Prelude
begin

text \<open>
  The in-memory key-value store with expiry and replication: framework/kvstore/kvstore.go.

  The record \<open>kv_store\<close> is the struct \<open>Store\<close>; an operation maps a store to the next one, paired
  with what the Go method returns. Every clock reading is an argument, in Unix nanoseconds; an
  operation that reads the clock twice takes both readings. The delegate is a callback of the
  cluster layer: the field is \<open>None\<close> when none is set, and otherwise collects its calls,
  latest first. A stored value is a Go value or the bytes a node received and found no decoder
  for; \<open>marshal\<close> is the third-party JSON encoder. The lock makes each map access atomic and has
  no counterpart; the cleanup goroutine is the operation \<open>cleanupExpired\<close>, which may run between
  any two others.
\<close>

datatype 'v kv_value = Any 'v | Bytes string

datatype kv_error = ErrClosed | ErrEmptyKey | ErrNotFound | ErrInvalidTTL | ErrMarshal err

record 'v entry =
  entry_value :: "'v kv_value"
  writtenAt :: int
  expiresAt :: int

datatype kv_event = OnSet string string int int | OnDelete string int

record 'v kv_store =
  kv_data :: "(string, 'v entry) gomap"
  defaultTTL :: int
  kv_closed :: bool
  kv_delegate :: "kv_event list option"
  kv_decoders :: "(string, string \<Rightarrow> 'v option) gomap"

definition kv_New :: "int \<Rightarrow> kv_error + 'v kv_store" where
  "kv_New ttl =
     (if ttl < 0 then Inl ErrInvalidTTL
      else Inr \<lparr>kv_data = [], defaultTTL = ttl, kv_closed = False, kv_delegate = None, kv_decoders = []\<rparr>)"

definition RegisterDecoder :: "'v kv_store \<Rightarrow> string \<Rightarrow> (string \<Rightarrow> 'v option) \<Rightarrow> 'v kv_store" where
  "RegisterDecoder s keyPrefix decoder = s\<lparr>kv_decoders := gm_put keyPrefix decoder (kv_decoders s)\<rparr>"

definition SetDelegate :: "'v kv_store \<Rightarrow> 'v kv_store" where
  "SetDelegate s = s\<lparr>kv_delegate := Some []\<rparr>"

definition isExpired :: "'v entry \<Rightarrow> int \<Rightarrow> bool" where
  "isExpired e now \<longleftrightarrow> expiresAt e \<noteq> 0 \<and> expiresAt e \<le> now"

definition validateMutable :: "'v kv_store \<Rightarrow> string \<Rightarrow> int \<Rightarrow> kv_error option" where
  "validateMutable s key ttl =
     (if key = [] then Some ErrEmptyKey
      else if ttl < 0 then Some ErrInvalidTTL
      else if kv_closed s then Some ErrClosed else None)"

definition expiry :: "int \<Rightarrow> int \<Rightarrow> int" where
  "expiry now ttl = (if ttl > 0 then wrap64 (now + ttl) else 0)"

definition notify :: "kv_event \<Rightarrow> 'v kv_store \<Rightarrow> 'v kv_store" where
  "notify ev s = s\<lparr>kv_delegate := map_option (Cons ev) (kv_delegate s)\<rparr>"

text \<open>The encoding of a value, computed only when a delegate will be told of it.\<close>

definition value_json :: "('v kv_value \<Rightarrow> err + string) \<Rightarrow> 'v kv_store \<Rightarrow> 'v kv_value \<Rightarrow> kv_error + string" where
  "value_json marshal s v =
     (if kv_delegate s = None then Inr []
      else case marshal v of Inl e \<Rightarrow> Inl (ErrMarshal e) | Inr json \<Rightarrow> Inr json)"

section \<open>Local operations\<close>

definition SetWithTTL ::
    "('v kv_value \<Rightarrow> err + string) \<Rightarrow> int \<Rightarrow> string \<Rightarrow> 'v kv_value \<Rightarrow> int \<Rightarrow> 'v kv_store \<Rightarrow> 'v kv_store \<times> kv_error option" where
  "SetWithTTL marshal now key v ttl s =
     (case validateMutable s key ttl of Some e \<Rightarrow> (s, Some e)
      | None \<Rightarrow>
        (case value_json marshal s v of Inl e \<Rightarrow> (s, Some e)
         | Inr json \<Rightarrow>
             let ex = expiry now ttl in
             (notify (OnSet key json now ex)
                (s\<lparr>kv_data := gm_put key \<lparr>entry_value = v, writtenAt = now, expiresAt = ex\<rparr> (kv_data s)\<rparr>), None)))"

definition kv_Set ::
    "('v kv_value \<Rightarrow> err + string) \<Rightarrow> int \<Rightarrow> string \<Rightarrow> 'v kv_value \<Rightarrow> 'v kv_store \<Rightarrow> 'v kv_store \<times> kv_error option" where
  "kv_Set marshal now key v s = SetWithTTL marshal now key v (defaultTTL s) s"

definition SetNXWithTTL ::
    "('v kv_value \<Rightarrow> err + string) \<Rightarrow> int \<Rightarrow> string \<Rightarrow> 'v kv_value \<Rightarrow> int \<Rightarrow> 'v kv_store
      \<Rightarrow> 'v kv_store \<times> (kv_error + bool)" where
  "SetNXWithTTL marshal now key v ttl s =
     (case validateMutable s key ttl of Some e \<Rightarrow> (s, Inl e)
      | None \<Rightarrow>
        (case value_json marshal s v of Inl e \<Rightarrow> (s, Inl e)
         | Inr json \<Rightarrow>
             let ex = expiry now ttl;
                 put = notify (OnSet key json now ex)
                   (s\<lparr>kv_data := gm_put key \<lparr>entry_value = v, writtenAt = now, expiresAt = ex\<rparr> (kv_data s)\<rparr>)
             in case gm_get (kv_data s) key of
                  None \<Rightarrow> (put, Inr True)
                | Some existing \<Rightarrow> if \<not> isExpired existing now then (s, Inr False) else (put, Inr True)))"

text \<open>
  \<open>kv_Get\<close> is two critical sections: the read, and, when the entry it found has expired, the
  removal of what is then under the key if that has expired by the second clock reading.
\<close>

definition kv_lookup :: "int \<Rightarrow> string \<Rightarrow> 'v kv_store \<Rightarrow> (kv_error + 'v kv_value) \<times> bool" where
  "kv_lookup now key s =
     (if key = [] then (Inl ErrEmptyKey, False)
      else if kv_closed s then (Inl ErrClosed, False)
      else case gm_get (kv_data s) key of
        None \<Rightarrow> (Inl ErrNotFound, False)
      | Some e \<Rightarrow> if isExpired e now then (Inl ErrNotFound, True) else (Inr (entry_value e), False))"

definition kv_evict :: "int \<Rightarrow> string \<Rightarrow> 'v kv_store \<Rightarrow> 'v kv_store" where
  "kv_evict now key s =
     (case gm_get (kv_data s) key of
        None \<Rightarrow> s
      | Some latest \<Rightarrow> if isExpired latest now then s\<lparr>kv_data := gm_del key (kv_data s)\<rparr> else s)"

definition kv_Get :: "int \<Rightarrow> int \<Rightarrow> string \<Rightarrow> 'v kv_store \<Rightarrow> 'v kv_store \<times> (kv_error + 'v kv_value)" where
  "kv_Get now now' key s =
     (let (r, expired) = kv_lookup now key s in (if expired then kv_evict now' key s else s, r))"

definition GetAndDelete :: "int \<Rightarrow> string \<Rightarrow> 'v kv_store \<Rightarrow> 'v kv_store \<times> (kv_error + 'v kv_value)" where
  "GetAndDelete now key s =
     (if key = [] then (s, Inl ErrEmptyKey)
      else if kv_closed s then (s, Inl ErrClosed)
      else case gm_get (kv_data s) key of
        None \<Rightarrow> (s, Inl ErrNotFound)
      | Some e \<Rightarrow>
          let s' = s\<lparr>kv_data := gm_del key (kv_data s)\<rparr> in
          if isExpired e now then (s', Inl ErrNotFound)
          else (notify (OnDelete key now) s', Inr (entry_value e)))"

definition kv_Delete :: "int \<Rightarrow> string \<Rightarrow> 'v kv_store \<Rightarrow> 'v kv_store \<times> (kv_error + bool)" where
  "kv_Delete now key s =
     (if key = [] then (s, Inl ErrEmptyKey)
      else if kv_closed s then (s, Inl ErrClosed)
      else case gm_get (kv_data s) key of
        None \<Rightarrow> (s, Inr False)
      | Some e \<Rightarrow> (notify (OnDelete key now) (s\<lparr>kv_data := gm_del key (kv_data s)\<rparr>), Inr True))"

definition kv_Len :: "int \<Rightarrow> 'v kv_store \<Rightarrow> nat" where
  "kv_Len now s = (if kv_closed s then 0 else length (filter (\<lambda>(_, e). \<not> isExpired e now) (kv_data s)))"

definition kv_Close :: "'v kv_store \<Rightarrow> 'v kv_store" where
  "kv_Close s = s\<lparr>kv_closed := True\<rparr>"

definition cleanupExpired :: "int \<Rightarrow> 'v kv_store \<Rightarrow> 'v kv_store" where
  "cleanupExpired now s = s\<lparr>kv_data := filter (\<lambda>(_, e). \<not> isExpired e now) (kv_data s)\<rparr>"

section \<open>Replication\<close>

text \<open>
  The decoder with the longest prefix of the key; the loop starts from the empty prefix and
  replaces it only by a longer one.
\<close>

definition best_decoder :: "string \<Rightarrow> (string, string \<Rightarrow> 'v option) gomap \<Rightarrow> string \<times> (string \<Rightarrow> 'v option) option" where
  "best_decoder key decoders =
     fold (\<lambda>(p, decode) (bestPrefix, best).
        if hasPrefix key p \<and> length bestPrefix < length p then (p, Some decode) else (bestPrefix, best))
       decoders ([], None)"

definition decodeValue :: "'v kv_store \<Rightarrow> string \<Rightarrow> string \<Rightarrow> 'v kv_value" where
  "decodeValue s key valueJSON =
     (case snd (best_decoder key (kv_decoders s)) of
        None \<Rightarrow> Bytes valueJSON
      | Some decode \<Rightarrow> (case decode valueJSON of Some v \<Rightarrow> Any v | None \<Rightarrow> Bytes valueJSON))"

definition SetRemote :: "string \<Rightarrow> string \<Rightarrow> int \<Rightarrow> int \<Rightarrow> 'v kv_store \<Rightarrow> 'v kv_store \<times> kv_error option" where
  "SetRemote key valueJSON written ex s =
     (if key = [] then (s, Some ErrEmptyKey)
      else if kv_closed s then (s, Some ErrClosed)
      else let put = s\<lparr>kv_data := gm_put key
               \<lparr>entry_value = decodeValue s key valueJSON, writtenAt = written, expiresAt = ex\<rparr> (kv_data s)\<rparr>
        in case gm_get (kv_data s) key of
             None \<Rightarrow> (put, None)
           | Some existing \<Rightarrow> if written < writtenAt existing then (s, None) else (put, None))"

definition DeleteRemote :: "string \<Rightarrow> int \<Rightarrow> 'v kv_store \<Rightarrow> 'v kv_store \<times> kv_error option" where
  "DeleteRemote key deletedAt s =
     (if key = [] then (s, Some ErrEmptyKey)
      else if kv_closed s then (s, Some ErrClosed)
      else case gm_get (kv_data s) key of
        None \<Rightarrow> (s, None)
      | Some existing \<Rightarrow>
          if deletedAt < writtenAt existing then (s, None)
          else (s\<lparr>kv_data := gm_del key (kv_data s)\<rparr>, None))"

end
