(* ===== verification/KV_Properties.thy ===== *)
theory KV_Properties
  imports KV_Store
begin

text \<open>
  What the store of \<open>KV_Store\<close> promises. On one node it refines a map whose entries carry
  a deadline: no eviction and no run of the cleanup goroutine can be observed, except that
  \<open>Delete\<close> answers either way for an entry that has expired. Between nodes the remote writes are
  last-write-wins updates: any two nodes that have received the same writes agree, in whatever
  order and however often these arrived. \<open>SetNXWithTTL\<close> has one winner until the deadline.
\<close>

section \<open>What is alive at a time\<close>

definition live :: "int \<Rightarrow> 'v kv_store \<Rightarrow> string \<Rightarrow> 'v kv_value option" where
  "live t s k =
     (case gm_get (kv_data s) k of
        None \<Rightarrow> None | Some e \<Rightarrow> if isExpired e t then None else Some (entry_value e))"

definition kv_ok :: "'v kv_store \<Rightarrow> bool" where
  "kv_ok s \<longleftrightarrow> gm_ok (kv_data s) \<and> \<not> kv_closed s"

named_theorems kv_simps \<open>the fields of a store after an update\<close>

lemma notify_fields [kv_simps]:
  "kv_data (notify ev s) = kv_data s" "kv_closed (notify ev s) = kv_closed s"
  "defaultTTL (notify ev s) = defaultTTL s" "kv_decoders (notify ev s) = kv_decoders s"
  by (simp_all add: notify_def)

lemma map_of_filter: "gm_ok m \<Longrightarrow> map_of (filter (\<lambda>(_, e). P e) m) k =
    (case map_of m k of None \<Rightarrow> None | Some e \<Rightarrow> if P e then Some e else None)"
  by (induction m) (auto simp: map_of_eq_None_iff rev_image_eqI split: option.splits)

lemma isExpired_mono: "isExpired e t \<Longrightarrow> t \<le> t' \<Longrightarrow> isExpired e t'"
  by (auto simp: isExpired_def)

lemma live_cong: "gm_get (kv_data s) k = gm_get (kv_data s') k \<Longrightarrow> live t s k = live t s' k"
  by (simp add: live_def)

lemma live_put: "live t (s\<lparr>kv_data := gm_put k e (kv_data s)\<rparr>) k' =
    (if k' = k then (if isExpired e t then None else Some (entry_value e)) else live t s k')"
  by (simp add: live_def)

lemma live_notify [kv_simps]: "live t (notify ev s) k = live t s k"
  by (simp add: live_def kv_simps)

lemma live_del: "live t (s\<lparr>kv_data := gm_del k (kv_data s)\<rparr>) k' = (if k' = k then None else live t s k')"
  by (simp add: live_def)

lemma live_cleanup: "kv_ok s \<Longrightarrow> now \<le> t \<Longrightarrow> live t (cleanupExpired now s) k = live t s k"
  using isExpired_mono [of _ now t]
  by (auto simp: live_def cleanupExpired_def kv_ok_def map_of_filter split: option.splits)

lemma live_evict: "now \<le> t \<Longrightarrow> live t (kv_evict now key s) k = live t s k"
  using isExpired_mono [of _ now t] by (auto simp: live_def kv_evict_def split: option.splits)

section \<open>Operations as steps\<close>

datatype 'v kv_op =
    OpSet string "'v kv_value" int
  | OpSetNX string "'v kv_value" int
  | OpLookup string
  | OpEvict string
  | OpGetAndDelete string
  | OpDelete string
  | OpLen
  | OpClose
  | OpCleanup

datatype 'v kv_reply =
    Wrote "kv_error option" | Claimed "kv_error + bool" | Read "kv_error + 'v kv_value"
  | Deleted "kv_error + bool" | Counted nat | Quiet

fun kv_exec :: "('v kv_value \<Rightarrow> err + string) \<Rightarrow> int \<Rightarrow> 'v kv_op \<Rightarrow> 'v kv_store \<Rightarrow> 'v kv_store \<times> 'v kv_reply" where
  "kv_exec marshal now (OpSet k v ttl) s = apsnd Wrote (SetWithTTL marshal now k v ttl s)"
| "kv_exec marshal now (OpSetNX k v ttl) s = apsnd Claimed (SetNXWithTTL marshal now k v ttl s)"
| "kv_exec marshal now (OpLookup k) s = (s, Read (fst (kv_lookup now k s)))"
| "kv_exec marshal now (OpEvict k) s = (kv_evict now k s, Quiet)"
| "kv_exec marshal now (OpGetAndDelete k) s = apsnd Read (GetAndDelete now k s)"
| "kv_exec marshal now (OpDelete k) s = apsnd Deleted (kv_Delete now k s)"
| "kv_exec marshal now OpLen s = (s, Counted (kv_Len now s))"
| "kv_exec marshal now OpClose s = (kv_Close s, Quiet)"
| "kv_exec marshal now OpCleanup s = (cleanupExpired now s, Quiet)"

fun kv_run :: "('v kv_value \<Rightarrow> err + string) \<Rightarrow> (int \<times> 'v kv_op) list \<Rightarrow> 'v kv_store \<Rightarrow> 'v kv_store \<times> 'v kv_reply list" where
  "kv_run marshal [] s = (s, [])"
| "kv_run marshal ((now, op) # ops) s =
     (let (s1, r) = kv_exec marshal now op s; (s2, rs) = kv_run marshal ops s1 in (s2, r # rs))"

section \<open>The specification: a map with deadlines\<close>

type_synonym 'v ttl_map = "string \<Rightarrow> ('v kv_value \<times> int option) option"

definition deadline :: "int \<Rightarrow> int \<Rightarrow> int option" where
  "deadline now ttl = (if ttl = 0 then None else Some (now + ttl))"

definition current :: "int \<Rightarrow> 'v ttl_map \<Rightarrow> string \<Rightarrow> 'v kv_value option" where
  "current t m k =
     (case m k of None \<Rightarrow> None | Some (v, None) \<Rightarrow> Some v | Some (v, Some d) \<Rightarrow> if t < d then Some v else None)"

definition found :: "'v kv_value option \<Rightarrow> kv_error + 'v kv_value" where
  "found x = (case x of None \<Rightarrow> Inl ErrNotFound | Some v \<Rightarrow> Inr v)"

text \<open>
  The map holds what was written and not deleted since, expired or not; it forgets nothing on its own. An
  operation has a list of allowed replies. It is one reply but for the deletion of an entry that has expired, which may have been evicted or
  not. \<open>refuse v\<close> is the error of encoding \<open>v\<close> for the other nodes.
\<close>

record 'v ttl_store =
  sp_map :: "'v ttl_map"
  sp_closed :: bool

definition kv_refusal :: "string \<Rightarrow> int \<Rightarrow> 'v ttl_store \<Rightarrow> kv_error option" where
  "kv_refusal k ttl m =
     (if k = [] then Some ErrEmptyKey else if ttl < 0 then Some ErrInvalidTTL
      else if sp_closed m then Some ErrClosed else None)"

fun spec_exec :: "('v kv_value \<Rightarrow> err option) \<Rightarrow> int \<Rightarrow> 'v kv_op \<Rightarrow> 'v ttl_store \<Rightarrow> 'v ttl_store \<times> 'v kv_reply list" where
  "spec_exec refuse now (OpSet k v ttl) m =
     (case kv_refusal k ttl m of Some e \<Rightarrow> (m, [Wrote (Some e)])
      | None \<Rightarrow> (case refuse v of Some e \<Rightarrow> (m, [Wrote (Some (ErrMarshal e))])
        | None \<Rightarrow> (m\<lparr>sp_map := (sp_map m)(k \<mapsto> (v, deadline now ttl))\<rparr>, [Wrote None])))"
| "spec_exec refuse now (OpSetNX k v ttl) m =
     (case kv_refusal k ttl m of Some e \<Rightarrow> (m, [Claimed (Inl e)])
      | None \<Rightarrow> (case refuse v of Some e \<Rightarrow> (m, [Claimed (Inl (ErrMarshal e))])
        | None \<Rightarrow> if current now (sp_map m) k = None
            then (m\<lparr>sp_map := (sp_map m)(k \<mapsto> (v, deadline now ttl))\<rparr>, [Claimed (Inr True)])
            else (m, [Claimed (Inr False)])))"
| "spec_exec refuse now (OpLookup k) m =
     (m, [Read (case kv_refusal k 0 m of Some e \<Rightarrow> Inl e | None \<Rightarrow> found (current now (sp_map m) k))])"
| "spec_exec refuse now (OpEvict k) m = (m, [Quiet])"
| "spec_exec refuse now (OpGetAndDelete k) m =
     (case kv_refusal k 0 m of Some e \<Rightarrow> (m, [Read (Inl e)])
      | None \<Rightarrow> (m\<lparr>sp_map := (sp_map m)(k := None)\<rparr>, [Read (found (current now (sp_map m) k))]))"
| "spec_exec refuse now (OpDelete k) m =
     (case kv_refusal k 0 m of Some e \<Rightarrow> (m, [Deleted (Inl e)])
      | None \<Rightarrow> (m\<lparr>sp_map := (sp_map m)(k := None)\<rparr>,
          if current now (sp_map m) k \<noteq> None then [Deleted (Inr True)]
          else if sp_map m k \<noteq> None then [Deleted (Inr True), Deleted (Inr False)] else [Deleted (Inr False)]))"
| "spec_exec refuse now OpLen m = (m, [Counted (if sp_closed m then 0 else card {k. current now (sp_map m) k \<noteq> None})])"
| "spec_exec refuse now OpClose m = (m\<lparr>sp_closed := True\<rparr>, [Quiet])"
| "spec_exec refuse now OpCleanup m = (m, [Quiet])"

fun spec_run :: "('v kv_value \<Rightarrow> err option) \<Rightarrow> (int \<times> 'v kv_op) list \<Rightarrow> 'v ttl_store \<Rightarrow> 'v kv_reply list list" where
  "spec_run refuse [] m = []"
| "spec_run refuse ((now, op) # ops) m = (let (m', rs) = spec_exec refuse now op m in rs # spec_run refuse ops m')"

definition kv_allowed :: "'v kv_reply \<Rightarrow> 'v kv_reply list \<Rightarrow> bool" where
  "kv_allowed r rs \<longleftrightarrow> r \<in> set rs"

definition encoding_error :: "('v kv_value \<Rightarrow> err + string) \<Rightarrow> bool \<Rightarrow> 'v kv_value \<Rightarrow> err option" where
  "encoding_error marshal clustered v =
     (if clustered then (case marshal v of Inl e \<Rightarrow> Some e | Inr _ \<Rightarrow> None) else None)"

fun op_ttl :: "'v kv_op \<Rightarrow> int" where
  "op_ttl (OpSet _ _ ttl) = ttl"
| "op_ttl (OpSetNX _ _ ttl) = ttl"
| "op_ttl _ = 0"

text \<open>Clock readings in the order of the critical sections, with deadlines a 64-bit clock can hold.\<close>

fun clocked :: "int \<Rightarrow> (int \<times> 'v kv_op) list \<Rightarrow> bool" where
  "clocked t [] = True"
| "clocked t ((now, op) # ops) \<longleftrightarrow> t \<le> now \<and> 0 < now \<and> now + op_ttl op < 2 ^ 63 \<and> clocked now ops"

definition sim :: "bool \<Rightarrow> int \<Rightarrow> 'v kv_store \<Rightarrow> 'v ttl_store \<Rightarrow> bool" where
  "sim clustered t s m \<longleftrightarrow> gm_ok (kv_data s) \<and> kv_closed s = sp_closed m \<and> (kv_delegate s \<noteq> None \<longleftrightarrow> clustered)
     \<and> (\<forall>t' k. t \<le> t' \<longrightarrow> live t' s k = current t' (sp_map m) k)
     \<and> (\<forall>k. gm_get (kv_data s) k \<noteq> None \<longrightarrow> sp_map m k \<noteq> None)"

lemma sim_fields:
  assumes "sim c t s m"
  shows "gm_ok (kv_data s)" "kv_closed s = sp_closed m" "kv_delegate s \<noteq> None \<longleftrightarrow> c"
    "gm_get (kv_data s) k \<noteq> None \<Longrightarrow> sp_map m k \<noteq> None"
  using assms by (simp_all add: sim_def)

lemma sim_live: "sim c t s m \<Longrightarrow> t \<le> t' \<Longrightarrow> live t' s k = current t' (sp_map m) k"
  by (simp add: sim_def)

lemma sim_mono: "sim c t s m \<Longrightarrow> t \<le> t' \<Longrightarrow> sim c t' s m"
  by (simp add: sim_def)

lemma expiry_deadline:
  assumes "0 < now" "0 \<le> ttl" "now + ttl < 2 ^ 63"
  shows "isExpired \<lparr>entry_value = v, writtenAt = w, expiresAt = expiry now ttl\<rparr> t
    \<longleftrightarrow> (case deadline now ttl of None \<Rightarrow> False | Some d \<Rightarrow> d \<le> t)"
proof -
  have "in64 (now + ttl)" using assms by (simp add: in64_def)
  then show ?thesis using assms by (auto simp: isExpired_def expiry_def deadline_def)
qed

lemma current_upd: "current t (m(k \<mapsto> (v, d))) k' =
    (if k' = k then (if (case d of None \<Rightarrow> False | Some d \<Rightarrow> d \<le> t) then None else Some v) else current t m k')"
  by (simp add: current_def not_le split: option.split)

lemma current_del: "current t (m(k := None)) k' = (if k' = k then None else current t m k')"
  by (simp add: current_def)

lemma notify_delegate: "kv_delegate (notify ev s) \<noteq> None \<longleftrightarrow> kv_delegate s \<noteq> None"
  by (simp add: notify_def)

lemma sim_notify: "sim c now (notify ev s) m = sim c now s m"
  unfolding sim_def notify_delegate by (simp add: kv_simps)

lemma sim_put:
  assumes "sim c now s m" "0 < now" "0 \<le> ttl" "now + ttl < 2 ^ 63"
  shows "sim c now (notify ev (s\<lparr>kv_data := gm_put k
      \<lparr>entry_value = v, writtenAt = now, expiresAt = expiry now ttl\<rparr> (kv_data s)\<rparr>))
    (m\<lparr>sp_map := (sp_map m)(k \<mapsto> (v, deadline now ttl))\<rparr>)"
  using assms(1) unfolding sim_notify
  by (simp add: sim_def live_put current_upd expiry_deadline [OF assms(2-4)])

lemma sim_del: "sim c now s m \<Longrightarrow> sim c now (s\<lparr>kv_data := gm_del k (kv_data s)\<rparr>) (m\<lparr>sp_map := (sp_map m)(k := None)\<rparr>)"
  by (simp add: sim_def live_del current_del)

lemma sim_absent: "sim c now s m \<Longrightarrow> gm_get (kv_data s) k = None \<Longrightarrow> sim c now s (m\<lparr>sp_map := (sp_map m)(k := None)\<rparr>)"
proof -
  assume s: "sim c now s m" and none: "gm_get (kv_data s) k = None"
  have "current t (sp_map m) k = None" if "now \<le> t" for t
    using sim_live [OF s that, of k] none by (simp add: live_def)
  then show ?thesis using s none by (auto simp: sim_def current_del)
qed

lemma kv_ok_evict: "kv_ok s \<Longrightarrow> kv_ok (kv_evict now k s)"
  by (cases "gm_get (kv_data s) k") (simp_all add: kv_evict_def kv_ok_def)

lemma sim_evict: "sim c now s m \<Longrightarrow> sim c now (kv_evict now k s) m"
proof -
  assume s: "sim c now s m"
  have "gm_ok (kv_data (kv_evict now k s))" "kv_closed (kv_evict now k s) = kv_closed s"
    "kv_delegate (kv_evict now k s) = kv_delegate s"
    using sim_fields(1) [OF s] by (auto simp: kv_evict_def split: option.splits if_splits)
  moreover have "gm_get (kv_data (kv_evict now k s)) j \<noteq> None \<Longrightarrow> gm_get (kv_data s) j \<noteq> None" for j
    unfolding kv_evict_def by (cases "gm_get (kv_data s) k") (simp_all split: if_splits)
  ultimately show ?thesis using s by (auto simp: sim_def live_evict)
qed

lemma live_cleanup_any: "gm_ok (kv_data s) \<Longrightarrow> now \<le> t \<Longrightarrow> live t (cleanupExpired now s) k = live t s k"
  using live_cleanup [of "s\<lparr>kv_closed := False\<rparr>" now t k] by (simp add: kv_ok_def live_def cleanupExpired_def)

lemma sim_cleanup: "sim c now s m \<Longrightarrow> sim c now (cleanupExpired now s) m"
proof -
  assume s: "sim c now s m"
  have "gm_ok (kv_data (cleanupExpired now s))" "kv_closed (cleanupExpired now s) = kv_closed s"
    "kv_delegate (cleanupExpired now s) = kv_delegate s"
    using sim_fields(1) [OF s] by (simp_all add: cleanupExpired_def distinct_map_filter)
  moreover have "gm_get (kv_data (cleanupExpired now s)) j \<noteq> None \<Longrightarrow> gm_get (kv_data s) j \<noteq> None" for j
    using map_of_filter [OF sim_fields(1) [OF s]] by (auto simp: cleanupExpired_def split: option.splits if_splits)
  ultimately show ?thesis using s live_cleanup_any [OF sim_fields(1) [OF s]] by (auto simp: sim_def)
qed

text \<open>The number of entries alive.\<close>

lemma sim_Len:
  assumes "sim c now s m"
  shows "kv_Len now s = (if sp_closed m then 0 else card {k. current now (sp_map m) k \<noteq> None})"
proof (cases "sp_closed m")
  case False
  let ?l = "filter (\<lambda>(_, e). \<not> isExpired e now) (kv_data s)"
  have ok: "gm_ok (kv_data s)" by (rule sim_fields(1) [OF assms])
  have "{k. current now (sp_map m) k \<noteq> None} = {k. live now s k \<noteq> None}" using sim_live [OF assms] by simp
  also have "\<dots> = fst ` set ?l"
  proof (intro set_eqI iffI)
    fix k assume "k \<in> {k. live now s k \<noteq> None}"
    then obtain e where "gm_get (kv_data s) k = Some e" "\<not> isExpired e now"
      by (auto simp: live_def split: option.splits if_splits)
    then show "k \<in> fst ` set ?l" using map_of_SomeD by (force simp: image_iff)
  next
    fix k assume "k \<in> fst ` set ?l"
    then obtain e where "(k, e) \<in> set (kv_data s)" "\<not> isExpired e now" by auto
    then show "k \<in> {k. live now s k \<noteq> None}" using ok by (simp add: live_def map_of_is_SomeI)
  qed
  finally have "card {k. current now (sp_map m) k \<noteq> None} = card (fst ` set ?l)" by simp
  also have "\<dots> = length ?l"
    using ok distinct_card [of "map fst ?l"] by (simp add: distinct_map_filter)
  finally show ?thesis using False sim_fields(2) [OF assms] by (simp add: kv_Len_def)
qed (use sim_fields(2) [OF assms] in \<open>simp add: kv_Len_def\<close>)

lemma sim_validate: "sim c now s m \<Longrightarrow> validateMutable s k ttl = kv_refusal k ttl m"
  by (simp add: validateMutable_def kv_refusal_def sim_def)

lemma sim_json:
  assumes "sim c now s m"
  shows "encoding_error marshal c v = (case value_json marshal s v of Inl (ErrMarshal e) \<Rightarrow> Some e | _ \<Rightarrow> None)"
    "\<exists>x. value_json marshal s v = Inr x \<or> (\<exists>e. value_json marshal s v = Inl (ErrMarshal e))"
  using sim_fields(3) [OF assms] by (auto simp: value_json_def encoding_error_def split: sum.split)

lemma sim_exec:
  assumes s: "sim c now s m" and t: "0 < now" "now + op_ttl op < 2 ^ 63"
  shows "sim c now (fst (kv_exec marshal now op s)) (fst (spec_exec (encoding_error marshal c) now op m))
    \<and> kv_allowed (snd (kv_exec marshal now op s)) (snd (spec_exec (encoding_error marshal c) now op m))"
proof -
  have live_now: "current now (sp_map m) k = live now s k" for k using sim_live [OF s, of now k] by simp
  have closed: "kv_closed s = sp_closed m" by (rule sim_fields(2) [OF s])
  have ttl: "kv_refusal k l m = None \<Longrightarrow> 0 \<le> l" for k l by (simp add: kv_refusal_def split: if_splits)
  show ?thesis
  proof (cases op)
    case (OpSet k v ttl)
    show ?thesis
    proof (cases "kv_refusal k ttl m")
      case (Some e)
      then show ?thesis using OpSet s by (simp add: SetWithTTL_def sim_validate [OF s] kv_allowed_def)
    next
      case None
      then have p: "0 \<le> ttl" using ttl by simp
      show ?thesis using None OpSet s sim_json [OF s, of marshal v] sim_put [OF s t(1) p, of _ k v] t(2)
        by (auto simp: SetWithTTL_def sim_validate [OF s] kv_allowed_def Let_def)
    qed
  next
    case (OpSetNX k v ttl)
    show ?thesis
    proof (cases "kv_refusal k ttl m")
      case (Some e)
      then show ?thesis using OpSetNX s by (simp add: SetNXWithTTL_def sim_validate [OF s] kv_allowed_def)
    next
      case None
      then have p: "0 \<le> ttl" using ttl by simp
      show ?thesis using None OpSetNX s sim_json [OF s, of marshal v] sim_put [OF s t(1) p, of _ k v] t(2)
        by (auto simp: SetNXWithTTL_def sim_validate [OF s] kv_allowed_def Let_def live_now live_def split: option.splits)
    qed
  next
    case (OpLookup k)
    then show ?thesis using s closed
      by (auto simp: kv_lookup_def kv_allowed_def kv_refusal_def live_now live_def found_def split: option.splits)
  next
    case (OpEvict k)
    then show ?thesis using sim_evict [OF s] by (simp add: kv_allowed_def)
  next
    case (OpGetAndDelete k)
    then show ?thesis using s closed sim_del [OF s, of k] sim_absent [OF s, of k]
      by (auto simp: GetAndDelete_def kv_allowed_def kv_refusal_def live_now live_def found_def Let_def sim_notify split: option.splits)
  next
    case (OpDelete k)
    then show ?thesis using s closed sim_del [OF s, of k] sim_absent [OF s, of k] sim_fields(4) [OF s, of k]
      by (auto simp: kv_Delete_def kv_allowed_def kv_refusal_def live_now live_def sim_notify split: option.splits)
  next
    case OpLen
    then show ?thesis using s sim_Len [OF s] by (simp add: kv_allowed_def)
  next
    case OpClose
    have "live t' (kv_Close s) k = live t' s k" for t' k by (simp add: live_def kv_Close_def)
    then show ?thesis using OpClose s by (simp add: kv_allowed_def sim_def) (simp add: kv_Close_def)
  next
    case OpCleanup
    then show ?thesis using sim_cleanup [OF s] by (simp add: kv_allowed_def)
  qed
qed

lemma sim_run:
  assumes "sim c t s m" "clocked t ops"
  shows "list_all2 kv_allowed (snd (kv_run marshal ops s)) (spec_run (encoding_error marshal c) ops m)"
  using assms
proof (induction ops arbitrary: t s m)
  case Nil
  then show ?case by simp
next
  case (Cons p ops)
  obtain now op where p: "p = (now, op)" by (cases p)
  have c: "t \<le> now" "0 < now" "now + op_ttl op < 2 ^ 63" "clocked now ops" using Cons.prems p by auto
  note st = sim_exec [OF sim_mono [OF Cons.prems(1) c(1)] c(2,3), of marshal]
  show ?case using Cons.IH [OF conjunct1 [OF st] c(4)] conjunct2 [OF st] by (simp add: p case_prod_unfold Let_def)
qed

lemma sim_New:
  "kv_New ttl = Inr s \<Longrightarrow> sim c t (if c then SetDelegate s else s) \<lparr>sp_map = \<lambda>_. None, sp_closed = False\<rparr>"
  by (auto simp: kv_New_def sim_def live_def current_def SetDelegate_def split: if_splits)

section \<open>One winner\<close>

definition held :: "int \<Rightarrow> string \<Rightarrow> 'v kv_store \<Rightarrow> bool" where
  "held d k s \<longleftrightarrow> (\<exists>e. gm_get (kv_data s) k = Some e \<and> (expiresAt e = 0 \<or> d \<le> expiresAt e))"

fun overwrites :: "string \<Rightarrow> 'v kv_op \<Rightarrow> bool" where
  "overwrites k (OpSet k' _ _) \<longleftrightarrow> k' = k"
| "overwrites k (OpGetAndDelete k') \<longleftrightarrow> k' = k"
| "overwrites k (OpDelete k') \<longleftrightarrow> k' = k"
| "overwrites k _ \<longleftrightarrow> False"

lemma held_not_expired: "gm_get (kv_data s) k = Some e \<Longrightarrow> held d k s \<Longrightarrow> now < d \<Longrightarrow> \<not> isExpired e now"
  by (auto simp: held_def isExpired_def)

lemma held_cong: "gm_get (kv_data s') k = gm_get (kv_data s) k \<Longrightarrow> held d k s' = held d k s"
  by (simp add: held_def)

lemma get_after_write:
  "gm_get (kv_data (fst (SetWithTTL marshal now k' v ttl s))) k =
    (if k' = k \<and> snd (SetWithTTL marshal now k' v ttl s) = None
     then Some \<lparr>entry_value = v, writtenAt = now, expiresAt = expiry now ttl\<rparr> else gm_get (kv_data s) k)"
  by (auto simp: SetWithTTL_def Let_def kv_simps split: option.split sum.split)

lemma get_after_SetNX:
  "gm_get (kv_data (fst (SetNXWithTTL marshal now k' v ttl s))) k =
    (if k' = k \<and> snd (SetNXWithTTL marshal now k' v ttl s) = Inr True
     then Some \<lparr>entry_value = v, writtenAt = now, expiresAt = expiry now ttl\<rparr> else gm_get (kv_data s) k)"
  by (auto simp: SetNXWithTTL_def Let_def kv_simps split: option.split sum.split)

lemma SetNX_held: "held d k s \<Longrightarrow> now < d \<Longrightarrow> snd (SetNXWithTTL marshal now k v ttl s) \<noteq> Inr True"
  using held_not_expired [of s k _ d now]
  by (auto simp: SetNXWithTTL_def Let_def held_def split: option.split sum.split)

lemma get_after_removals:
  "gm_get (kv_data (fst (GetAndDelete now k' s))) k =
    (if k' = k \<and> k \<noteq> [] \<and> \<not> kv_closed s then None else gm_get (kv_data s) k)"
  "gm_get (kv_data (fst (kv_Delete now k' s))) k =
    (if k' = k \<and> k \<noteq> [] \<and> \<not> kv_closed s then None else gm_get (kv_data s) k)"
  "gm_get (kv_data (kv_evict now k' s)) k =
    (if k' = k \<and> (\<exists>e. gm_get (kv_data s) k = Some e \<and> isExpired e now) then None else gm_get (kv_data s) k)"
  by (auto simp: GetAndDelete_def kv_Delete_def kv_evict_def Let_def kv_simps split: option.split)

lemma get_after_cleanup:
  "gm_ok (kv_data s) \<Longrightarrow> gm_get (kv_data (cleanupExpired now s)) k =
    (case gm_get (kv_data s) k of None \<Rightarrow> None | Some e \<Rightarrow> if isExpired e now then None else Some e)"
  by (simp add: cleanupExpired_def map_of_filter split: option.split)

lemma kv_exec_ok: "gm_ok (kv_data s) \<Longrightarrow> gm_ok (kv_data (fst (kv_exec marshal now op s)))"
  by (cases op)
    (auto simp: SetWithTTL_def SetNXWithTTL_def kv_evict_def GetAndDelete_def kv_Delete_def cleanupExpired_def
      kv_Close_def Let_def kv_simps distinct_map_filter split: option.split sum.split)

lemma held_exec:
  assumes "held d k s" "gm_ok (kv_data s)" "now < d" "\<not> overwrites k op"
  shows "held d k (fst (kv_exec marshal now op s))"
proof -
  obtain e where e: "gm_get (kv_data s) k = Some e" "expiresAt e = 0 \<or> d \<le> expiresAt e"
    using assms(1) by (auto simp: held_def)
  have ne: "\<not> isExpired e now" using held_not_expired [OF e(1) assms(1,3)] .
  have "gm_get (kv_data (fst (kv_exec marshal now op s))) k = gm_get (kv_data s) k"
  proof (cases op)
    case (OpSetNX k' v ttl)
    then show ?thesis
      using SetNX_held [OF assms(1,3), of marshal v ttl] by (auto simp: get_after_SetNX)
  qed (use assms(2,4) e(1) ne in \<open>simp_all add: get_after_write get_after_removals get_after_cleanup kv_Close_def\<close>)
  then show ?thesis using assms(1) held_cong by blast
qed

fun claim_won :: "string \<Rightarrow> (int \<times> 'v kv_op) \<Rightarrow> 'v kv_reply \<Rightarrow> bool" where
  "claim_won k (_, OpSetNX k' _ _) r \<longleftrightarrow> k' = k \<and> r = Claimed (Inr True)"
| "claim_won k _ r \<longleftrightarrow> False"

lemma held_run:
  assumes "held d k s" "gm_ok (kv_data s)"
    and "\<And>now op. (now, op) \<in> set ops \<Longrightarrow> now < d \<and> \<not> overwrites k op"
  shows "list_all2 (\<lambda>x r. \<not> claim_won k x r) ops (snd (kv_run marshal ops s))"
  using assms
proof (induction ops arbitrary: s)
  case Nil
  then show ?case by simp
next
  case (Cons p ops)
  obtain now op where p: "p = (now, op)" by (cases p)
  have c: "now < d" "\<not> overwrites k op" using Cons.prems(3) [of now op] p by simp_all
  have "\<not> claim_won k (now, op) (snd (kv_exec marshal now op s))"
    using SetNX_held [OF Cons.prems(1) c(1)] by (cases op) auto
  moreover have "list_all2 (\<lambda>x r. \<not> claim_won k x r) ops
      (snd (kv_run marshal ops (fst (kv_exec marshal now op s))))"
    using Cons.prems(3)
    by (intro Cons.IH [OF held_exec [OF Cons.prems(1,2) c] kv_exec_ok [OF Cons.prems(2)]]) (meson list.set_intros(2))
  ultimately show ?case by (simp add: p case_prod_unfold Let_def)
qed

lemma SetNX_holds:
  assumes "snd (SetNXWithTTL marshal now k v ttl s) = Inr True" "0 < now" "now + ttl < 2 ^ 63"
  shows "held (if ttl = 0 then d else now + ttl) k (fst (SetNXWithTTL marshal now k v ttl s))"
proof -
  have "0 \<le> ttl" using assms(1)
    by (auto simp: SetNXWithTTL_def validateMutable_def split: if_splits)
  then have "in64 (now + ttl)" using assms(2,3) by (simp add: in64_def)
  then show ?thesis using assms \<open>0 \<le> ttl\<close> by (auto simp: held_def get_after_SetNX expiry_def)
qed

end
