(* ===== verification/KV_Replication.thy ===== *)
theory KV_Replication
  imports KV_Properties
begin

text \<open>
  Replication of the key-value store of framework/kvstore/kvstore.go: what the nodes of a
  cluster hold once each has applied its own writes and has been told of the others'. A node
  executes local writes, each of which notifies the delegate, and remote writes, which the
  cluster layer delivers with \<open>SetRemote\<close> in any order and possibly more than once.
\<close>

section \<open>Remote writes commute\<close>

type_synonym gossip = "string \<times> string \<times> int \<times> int"

definition receive :: "gossip \<Rightarrow> 'v kv_store \<Rightarrow> 'v kv_store" where
  "receive g s = (case g of (key, json, written, ex) \<Rightarrow> fst (SetRemote key json written ex s))"



definition lookup :: "'v kv_store \<Rightarrow> string \<Rightarrow> 'v entry option" where
  "lookup s = (\<lambda>k. gm_get (kv_data s) k)"







section \<open>Nodes\<close>

datatype 'v node_event = Local int string "'v kv_value" int | Remote gossip

fun node_step :: "('v kv_value \<Rightarrow> err + string) \<Rightarrow> 'v node_event \<Rightarrow> 'v kv_store \<Rightarrow> 'v kv_store" where
  "node_step marshal (Local now k v ttl) s = fst (SetWithTTL marshal now k v ttl s)"
| "node_step marshal (Remote g) s = receive g s"





definition node_run :: "('v kv_value \<Rightarrow> string) \<Rightarrow> 'v node_event list \<Rightarrow> 'v kv_store \<Rightarrow> 'v kv_store" where
  "node_run json = fold (node_step (\<lambda>v. Inr (json v)))"

lemma SetWithTTL_tells:
  "k \<noteq> [] \<Longrightarrow> 0 \<le> ttl \<Longrightarrow> \<not> kv_closed s \<Longrightarrow> kv_delegate s = Some evs \<Longrightarrow>
   kv_delegate (node_step (\<lambda>v. Inr (json v)) (Local now k v ttl) s) = Some (OnSet k (json v) now (expiry now ttl) # evs)"
  by (simp add: SetWithTTL_def validateMutable_def value_json_def Let_def notify_def)




section \<open>The decoder of a key\<close>

lemma best_decoder_acc:
  assumes "(case acc of (p, None) \<Rightarrow> p = [] | (p, Some d) \<Rightarrow> p \<noteq> [] \<and> hasPrefix key p \<and> (p, d) \<in> S)"
  shows "let r = fold (\<lambda>(p, decode) (bestPrefix, best).
        if hasPrefix key p \<and> length bestPrefix < length p then (p, Some decode) else (bestPrefix, best)) ds acc in
     (case r of (p, None) \<Rightarrow> p = [] | (p, Some d) \<Rightarrow> p \<noteq> [] \<and> hasPrefix key p \<and> (p, d) \<in> S \<union> set ds)
     \<and> length (fst acc) \<le> length (fst r)
     \<and> (\<forall>(q, d) \<in> set ds. hasPrefix key q \<longrightarrow> length q \<le> length (fst r))"
  using assms
proof (induction ds arbitrary: acc S)
  case Nil
  then show ?case by (simp split: prod.splits option.splits)
next
  case (Cons pd ds)
  obtain p d where pd: "pd = (p, d)" by (cases pd)
  obtain bp b where acc: "acc = (bp, b)" by (cases acc)
  let ?acc = "if hasPrefix key p \<and> length bp < length p then (p, Some d) else (bp, b)"
  have inv: "case ?acc of (q, None) \<Rightarrow> q = [] | (q, Some e) \<Rightarrow> q \<noteq> [] \<and> hasPrefix key q \<and> (q, e) \<in> insert (p, d) S"
    using Cons.prems acc by (auto split: option.splits)
  show ?case using Cons.IH [OF inv] by (auto simp: pd acc Let_def split: option.splits if_splits prod.splits)
qed

lemma best_decoder_longest:
  assumes "best_decoder key ds = (p, Some d)"
  shows "p \<noteq> [] \<and> hasPrefix key p \<and> (p, d) \<in> set ds \<and> (\<forall>(q, e) \<in> set ds. hasPrefix key q \<longrightarrow> length q \<le> length p)"
  using best_decoder_acc [where acc = "([], None)" and S = "{}" and key = key and ds = ds] assms
  by (auto simp: best_decoder_def Let_def)

text \<open>A decoder registered for the empty prefix, which every key has, is never used.\<close>

lemma empty_prefix_never_decodes: "decodeValue (RegisterDecoder s [] d) key json =
    decodeValue (s\<lparr>kv_decoders := gm_del [] (kv_decoders s)\<rparr>) key json" if "kv_decoders s = []"
  using that by (simp add: decodeValue_def RegisterDecoder_def best_decoder_def)

section \<open>The properties\<close>

text \<open>
  C16: On one node the store is a map with deadlines: every sequence of writes, conditional writes, reads, lazy
  evictions, deletions, counts and cleanup passes, before and after the store is closed, gets the replies the map gives, on
  positive clock readings that do not go backwards and with deadlines in 64 bits. The one reply the map leaves open is that of
  \<open>Delete\<close> for an entry that has expired and was neither overwritten nor deleted since: it may say either. Values that cannot be
  encoded for the other nodes are refused and change nothing. Writes that other nodes send are not among the operations.
\<close>

theorem kv_refines_ttl_map:
  assumes "kv_New ttl0 = Inr s0" and "clocked t ops"
  shows "list_all2 kv_allowed (snd (kv_run marshal ops (if clustered then SetDelegate s0 else s0)))
    (spec_run (encoding_error marshal clustered) ops \<lparr>sp_map = \<lambda>_. None, sp_closed = False\<rparr>)"
  using sim_run [OF sim_New [OF assms(1)] assms(2)] .

definition kv_demo :: "(int \<times> unit kv_op) list" where
  "kv_demo = [(1, OpSetNX ''k'' (Any ()) 5), (2, OpSetNX ''k'' (Any ()) 5), (7, OpLookup ''k''),
     (7, OpDelete ''k''), (8, OpDelete ''k''), (8, OpCleanup), (9, OpClose), (9, OpLookup ''k'')]"

theorem kv_refines_ttl_map_witness:
  "list_all2 kv_allowed
     (snd (kv_run (\<lambda>_. Inr []) kv_demo \<lparr>kv_data = [], defaultTTL = 0, kv_closed = False, kv_delegate = Some [], kv_decoders = []\<rparr>))
     (spec_run (\<lambda>_. None) kv_demo \<lparr>sp_map = \<lambda>_. None, sp_closed = False\<rparr>)
   \<and> spec_run (\<lambda>_. None) kv_demo \<lparr>sp_map = \<lambda>_. None, sp_closed = False\<rparr> =
     [[Claimed (Inr True)], [Claimed (Inr False)], [Read (Inl ErrNotFound)], [Deleted (Inr True), Deleted (Inr False)],
      [Deleted (Inr False)], [Quiet], [Quiet], [Read (Inl ErrClosed)]]"
proof -
  have new: "kv_New 0 = Inr \<lparr>kv_data = [], defaultTTL = 0, kv_closed = False, kv_delegate = None, kv_decoders = []\<rparr>"
    by (simp add: kv_New_def)
  have c: "clocked 0 kv_demo" by (simp add: kv_demo_def)
  have e: "encoding_error (\<lambda>_. Inr []) True = (\<lambda>_ :: unit kv_value. None)" by (simp add: encoding_error_def fun_eq_iff)
  show ?thesis
    using kv_refines_ttl_map [where marshal = "\<lambda>_. Inr []" and clustered = True, OF new c]
    by (simp add: SetDelegate_def e) (simp add: kv_demo_def current_def deadline_def found_def kv_refusal_def)
qed

text \<open>
  Once \<open>SetNXWithTTL\<close> has won a key, no other call wins it before the deadline, whatever else runs in
  between that does not overwrite or delete the key: reads, evictions, cleanup passes and operations on other keys.
\<close>

theorem SetNX_one_winner:
  assumes "snd (SetNXWithTTL marshal t0 k v ttl s) = Inr True" and "gm_ok (kv_data s)"
    and "0 < t0" and "t0 + ttl < 2 ^ 63"
    and "\<And>now op. (now, op) \<in> set ops \<Longrightarrow> (ttl = 0 \<or> now < t0 + ttl) \<and> \<not> overwrites k op"
  shows "list_all2 (\<lambda>x r. \<not> claim_won k x r) ops (snd (kv_run marshal ops (fst (SetNXWithTTL marshal t0 k v ttl s))))"
proof -
  define d where "d = (if ttl = 0 then Max (insert 0 (fst ` set ops)) + 1 else t0 + ttl)"
  have "now < d \<and> \<not> overwrites k op" if "(now, op) \<in> set ops" for now op
  proof -
    have "now \<le> Max (insert 0 (fst ` set ops))" using that by (auto intro!: Max_ge image_eqI [of _ fst "(now, op)"])
    then show ?thesis using assms(5) [OF that] by (auto simp: d_def)
  qed
  moreover have "held d k (fst (SetNXWithTTL marshal t0 k v ttl s))"
    using SetNX_holds [OF assms(1,3,4), of d] by (simp add: d_def split: if_splits)
  moreover have "gm_ok (kv_data (fst (SetNXWithTTL marshal t0 k v ttl s)))"
    using kv_exec_ok [OF assms(2), of marshal t0 "OpSetNX k v ttl"] by simp
  ultimately show ?thesis by (intro held_run) auto
qed

theorem SetNX_one_winner_witness:
  "list_all2 (\<lambda>x r. \<not> claim_won ''k'' x r) [(5, OpCleanup), (8, OpSetNX ''k'' (Any True) 9)]
     (snd (kv_run (\<lambda>_. Inr []) [(5, OpCleanup), (8, OpSetNX ''k'' (Any True) 9)]
       (fst (SetNXWithTTL (\<lambda>_. Inr []) 2 ''k'' (Any False) 7
         \<lparr>kv_data = [], defaultTTL = 0, kv_closed = False, kv_delegate = None, kv_decoders = []\<rparr>))))"
  by (rule SetNX_one_winner) (auto simp: SetNXWithTTL_def validateMutable_def value_json_def Let_def)


definition cluster_node :: "string kv_store" where
  "cluster_node = \<lparr>kv_data = [], defaultTTL = 0, kv_closed = False, kv_delegate = Some [], kv_decoders = [(''s:'', Some)]\<rparr>"

definition raw :: "string kv_value \<Rightarrow> string" where
  "raw v = (case v of Any s \<Rightarrow> s | Bytes s \<Rightarrow> s)"

lemmas replication_simps = lookup_def receive_def SetRemote_def SetWithTTL_def DeleteRemote_def validateMutable_def
  value_json_def expiry_def notify_def decodeValue_def best_decoder_def hasPrefix_def cluster_node_def raw_def
  node_run_def Let_def


text \<open>
  Three ways in which the nodes differ when these conditions fail: two writes at one time, which each
  node resolves in favour of the one that arrives last; a write by a node whose clock is behind, which
  the writer applies and the others ignore; and a deletion, which leaves no trace of its time, so that
  an older write delivered after it brings the entry back.
\<close>

lemma equal_times_diverge:
  "lookup (node_run raw [Local 5 ''s:1'' (Any ''a'') 0, Remote (''s:1'', ''b'', 5, 0)] cluster_node) ''s:1''
   \<noteq> lookup (node_run raw [Local 5 ''s:1'' (Any ''b'') 0, Remote (''s:1'', ''a'', 5, 0)] cluster_node) ''s:1''"
  by (simp add: replication_simps)

lemma late_clock_diverges:
  "lookup (node_run raw [Remote (''s:1'', ''b'', 7, 0), Local 5 ''s:1'' (Any ''a'') 0] cluster_node) ''s:1''
   \<noteq> lookup (node_run raw [Local 7 ''s:1'' (Any ''b'') 0, Remote (''s:1'', ''a'', 5, 0)] cluster_node) ''s:1''"
  by (simp add: replication_simps)

text \<open>
  A deletion leaves no trace: a node told first that a key was deleted at time 6 and then, late, of the
  write at time 5 that the deletion removed, holds the key again, while a node told of them in the other
  order does not.
\<close>

theorem deleted_key_returns:
  "lookup (receive (''s:1'', ''a'', 5, 0) (fst (DeleteRemote ''s:1'' 6 cluster_node))) ''s:1''
     = Some \<lparr>entry_value = Any ''a'', writtenAt = 5, expiresAt = 0\<rparr>
   \<and> lookup (fst (DeleteRemote ''s:1'' 6 (receive (''s:1'', ''a'', 5, 0) cluster_node))) ''s:1'' = None"
  by (simp add: replication_simps)

end
