(* ===== verification/Key_Selection.thy ===== *)
theory Key_Selection
  imports Resolver KV_Properties
begin

text \<open>
  Which provider key a call uses: the key selection of core/bifrost.go with its helpers in
  core/utils.go, the weighted selector of core/keyselectors/weightedrandom.go and the account
  of transports/bifrost-http/lib/account.go.

  The values of the request context that the engine reads are the fields of \<open>CallContext\<close>,
  \<open>None\<close> for a key that is not set. The operations of the Go interface \<^verbatim>\<open>schemas.KVStore\<close> are
  the fields of the record \<open>KVStore\<close>; every call gets its clock reading, the \<open>i\<close>-th one of a
  selection from \<open>clock i\<close>, and before the \<open>i\<close>-th call other requests may change the store by
  \<open>others i\<close>. SHA-256 and the JSON decoder of strings are the arguments \<open>sha\<close> and \<open>unquote\<close>, the key
  selector the argument \<open>selector\<close>. Log lines have no counterpart.
\<close>

section \<open>Keys\<close>

record VLLMKeyConfig =
  vllm_URL :: string
  vllm_ModelName :: string

record Key =
  key_ID :: string
  key_Name :: string
  key_Value :: string
  key_Models :: "string list"
  key_BlacklistedModels :: "string list"
  key_Weight :: f64
  key_AzureEndpoint :: "string option"
  key_VertexKeyConfig :: bool
  key_BedrockKeyConfig :: bool
  key_BedrockMantleKeyConfig :: bool
  key_VLLMKeyConfig :: "VLLMKeyConfig option"
  key_OllamaURL :: "string option"
  key_SGLURL :: "string option"
  key_Enabled :: "bool option"
  key_UseForBatchAPI :: "bool option"

record CallContext =
  cc_DirectKey :: "Key option"
  cc_SkipKeySelection :: bool
  cc_APIKeyID :: "string option"
  cc_APIKeyName :: "string option"
  cc_IncludeOnlyKeys :: "string list option"
  cc_SessionID :: "string option"
  cc_SessionTTL :: "int option"
  cc_FallbackIndex :: "int option"
  cc_FallbackRequestID :: "string option"
  cc_RequestID :: "string option"
  cc_SkipPluginPipeline :: bool
  cc_RoutingPinnedAPIKeyID :: "string option"

definition url_error :: "string option \<Rightarrow> string \<Rightarrow> string \<Rightarrow> err option" where
  "url_error cfg name fieldname =
     (case cfg of None \<Rightarrow> Some (Err (name @ '' is required''))
      | Some u \<Rightarrow> if u = [] then Some (Err (name @ ''.'' @ fieldname @ '' is required'')) else None)"

text \<open>The check may fill in an empty provider config, as the Go code does through the pointer.\<close>

definition validateKey :: "string \<Rightarrow> Key \<Rightarrow> err option \<times> Key" where
  "validateKey provider key =
     (if provider = ''azure'' then (url_error (key_AzureEndpoint key) ''azure_key_config'' ''endpoint'', key)
      else if provider = ''bedrock'' then (None, key\<lparr>key_BedrockKeyConfig := True\<rparr>)
      else if provider = ''bedrock_mantle'' then (None, key\<lparr>key_BedrockMantleKeyConfig := True\<rparr>)
      else if provider = ''vertex'' then
        (if \<not> key_VertexKeyConfig key then Some (Err ''vertex_key_config is required'') else None, key)
      else if provider = ''vllm'' then
        (url_error (map_option vllm_URL (key_VLLMKeyConfig key)) ''vllm_key_config'' ''url'', key)
      else if provider = ''ollama'' then (url_error (key_OllamaURL key) ''ollama_key_config'' ''url'', key)
      else if provider = ''sgl'' then (url_error (key_SGLURL key) ''sgl_key_config'' ''url'', key)
      else (None, key))"

definition CanProviderKeyValueBeEmpty :: "string \<Rightarrow> bool" where
  "CanProviderKeyValueBeEmpty provider \<longleftrightarrow>
     provider \<in> {''vertex'', ''bedrock'', ''bedrock_mantle'', ''vllm'', ''azure'', ''ollama'', ''sgl''}"

definition isKeySkippingAllowed :: "string \<Rightarrow> bool" where
  "isKeySkippingAllowed provider \<longleftrightarrow> provider \<notin> {''azure'', ''bedrock'', ''bedrock_mantle'', ''vertex''}"

definition hasValue :: "string \<Rightarrow> Key \<Rightarrow> bool" where
  "hasValue baseProvider key \<longleftrightarrow> trimSpace (key_Value key) \<noteq> [] \<or> CanProviderKeyValueBeEmpty baseProvider"

text \<open>A key that is not disabled and passes the check, as the loops over keys go on with it.\<close>

definition usable :: "string \<Rightarrow> Key \<Rightarrow> Key option" where
  "usable baseProvider key =
     (if key_Enabled key = Some False then None
      else case validateKey baseProvider key of (Some e, _) \<Rightarrow> None | (None, k) \<Rightarrow> Some k)"

definition keep_if :: "('a \<Rightarrow> bool) \<Rightarrow> 'a option \<Rightarrow> 'a option" where
  "keep_if P x = (case x of Some k \<Rightarrow> if P k then Some k else None | None \<Rightarrow> None)"

section \<open>Request types\<close>

definition isBatchRequestType :: "string \<Rightarrow> bool" where
  "isBatchRequestType t \<longleftrightarrow> t \<in> {''batch_create'', ''batch_list'', ''batch_retrieve'', ''batch_cancel'', ''batch_delete'', ''batch_results''}"

definition isFileRequestType :: "string \<Rightarrow> bool" where
  "isFileRequestType t \<longleftrightarrow> t \<in> {''file_upload'', ''file_list'', ''file_retrieve'', ''file_delete'', ''file_content''}"

definition isCachedContentRequestType :: "string \<Rightarrow> bool" where
  "isCachedContentRequestType t \<longleftrightarrow> t \<in> {''cached_content_create'', ''cached_content_list'', ''cached_content_retrieve'',
     ''cached_content_update'', ''cached_content_delete''}"

definition isContainerRequestType :: "string \<Rightarrow> bool" where
  "isContainerRequestType t \<longleftrightarrow> t \<in> {''container_create'', ''container_list'', ''container_retrieve'', ''container_delete'',
     ''container_file_create'', ''container_file_list'', ''container_file_retrieve'', ''container_file_content'', ''container_file_delete''}"

definition isModellessVideoRequestType :: "string \<Rightarrow> bool" where
  "isModellessVideoRequestType t \<longleftrightarrow> t \<in> {''video_retrieve'', ''video_download'', ''video_list'', ''video_delete'', ''video_remix''}"

definition isPassthroughRequestType :: "string \<Rightarrow> bool" where
  "isPassthroughRequestType t \<longleftrightarrow> t \<in> {''passthrough'', ''passthrough_stream''}"

definition isResponsesLifecycleRequestType :: "string \<Rightarrow> bool" where
  "isResponsesLifecycleRequestType t \<longleftrightarrow> t \<in> {''responses_retrieve'', ''responses_retrieve_stream'', ''responses_delete'',
     ''responses_cancel'', ''responses_input_items''}"

definition skipModelCheck :: "string \<Rightarrow> string \<Rightarrow> bool" where
  "skipModelCheck requestType model \<longleftrightarrow>
     (model = [] \<and> (isFileRequestType requestType \<or> isBatchRequestType requestType \<or> isContainerRequestType requestType
        \<or> isCachedContentRequestType requestType \<or> isModellessVideoRequestType requestType
        \<or> isPassthroughRequestType requestType))
     \<or> requestType = ''list_models'' \<or> isResponsesLifecycleRequestType requestType"

section \<open>The keys of a provider\<close>

text \<open>The configuration of the providers is data: \<open>config p\<close> is \<open>GetProviderConfigRaw\<close> down to its keys.\<close>

type_synonym account = "string \<Rightarrow> err + Key list"

definition GetKeysForProvider :: "account \<Rightarrow> 'c CallContext_scheme \<Rightarrow> string \<Rightarrow> err + Key list" where
  "GetKeysForProvider config ctx provider =
     (case config provider of Inl e \<Rightarrow> Inl e
      | Inr ks \<Rightarrow> Inr (case cc_IncludeOnlyKeys ctx of None \<Rightarrow> ks
          | Some ids \<Rightarrow> if ids = [] then [] else filter (\<lambda>k. key_ID k \<in> set ids) ks))"

definition filterKeysByID :: "Key list \<Rightarrow> string \<Rightarrow> Key list" where
  "filterKeysByID ks target = filter (\<lambda>k. key_ID k = target) ks"

definition getAllSupportedKeys :: "account \<Rightarrow> 'c CallContext_scheme \<Rightarrow> string \<Rightarrow> string \<Rightarrow> err + Key list" where
  "getAllSupportedKeys config ctx provider baseProvider =
     (case cc_DirectKey ctx of Some k \<Rightarrow> Inr [k]
      | None \<Rightarrow>
        (case GetKeysForProvider config ctx provider of Inl e \<Rightarrow> Inl e
         | Inr ks \<Rightarrow>
             let supportedKeys = List.map_filter (\<lambda>k. keep_if (hasValue baseProvider) (usable baseProvider k)) ks in
             if ks = [] then Inl (Err (''no keys found for provider: '' @ provider))
             else if supportedKeys = [] then Inl (Err (''no valid keys found for provider: '' @ provider))
             else Inr supportedKeys))"

definition getKeysForBatchAndFileOps ::
    "account \<Rightarrow> 'c CallContext_scheme \<Rightarrow> string \<Rightarrow> string \<Rightarrow> string option \<Rightarrow> bool \<Rightarrow> err + Key list" where
  "getKeysForBatchAndFileOps config ctx provider baseProvider model isBatchOp =
     (case cc_DirectKey ctx of Some k \<Rightarrow> Inr [k]
      | None \<Rightarrow>
        (case GetKeysForProvider config ctx provider of Inl e \<Rightarrow> Inl e
         | Inr ks \<Rightarrow>
             let batch_ok = (\<lambda>k. \<not> isBatchOp \<or> key_UseForBatchAPI k = Some True);
                 model_ok = (\<lambda>k. case model of None \<Rightarrow> True
                   | Some m \<Rightarrow> m = [] \<or> (\<not> bl_IsBlocked (key_BlacklistedModels k) m \<and> wl_IsAllowed (key_Models k) m));
                 filteredKeys = List.map_filter
                   (\<lambda>k. keep_if (\<lambda>k. model_ok k \<and> hasValue baseProvider k)
                     (if batch_ok k then usable baseProvider k else None)) ks;
                 modelStr = (case model of None \<Rightarrow> [] | Some m \<Rightarrow> m)
             in if ks = [] then Inl (Err (''no keys found for provider: '' @ provider))
                else if filteredKeys = [] then
                  Inl (Err ((if isBatchOp then ''no batch-enabled keys found for provider: '' else ''no keys found for provider: '')
                    @ provider @ '' and model: '' @ modelStr))
                else Inr (sort_by (\<lambda>i j. str_lt (key_ID i) (key_ID j)) filteredKeys)))"

section \<open>The key-value store behind its interface\<close>

record 's KVStore =
  kvs_Get :: "int \<Rightarrow> string \<Rightarrow> 's \<Rightarrow> 's \<times> (kv_error + string kv_value)"
  kvs_SetWithTTL :: "int \<Rightarrow> string \<Rightarrow> string kv_value \<Rightarrow> int \<Rightarrow> 's \<Rightarrow> 's \<times> kv_error option"
  kvs_SetNXWithTTL :: "int \<Rightarrow> string \<Rightarrow> string kv_value \<Rightarrow> int \<Rightarrow> 's \<Rightarrow> 's \<times> (kv_error + bool)"
  kvs_Delete :: "int \<Rightarrow> string \<Rightarrow> 's \<Rightarrow> 's \<times> (kv_error + bool)"

definition DefaultSessionStickyTTL :: int where
  "DefaultSessionStickyTTL = 3600 * 10 ^ 9"

definition buildSessionKey :: "(string \<Rightarrow> string) \<Rightarrow> string \<Rightarrow> string \<Rightarrow> string \<Rightarrow> string" where
  "buildSessionKey sha provider sessionID model =
     ''session:'' @ provider @ '':'' @ sha sessionID @ '':'' @ sha (if model = [] then ''__modelless__'' else model)"

datatype cached = Found Key | Stale | Missing

definition cached_id :: "(string \<Rightarrow> string option) \<Rightarrow> string kv_value \<Rightarrow> string" where
  "cached_id unquote raw =
     (case raw of Any s \<Rightarrow> s | Bytes b \<Rightarrow> (case unquote b of Some s \<Rightarrow> s | None \<Rightarrow> b))"

definition getCachedKeyFromStore ::
    "'s KVStore \<Rightarrow> (string \<Rightarrow> string option) \<Rightarrow> int \<Rightarrow> string \<Rightarrow> Key list \<Rightarrow> 's \<Rightarrow> 's \<times> cached" where
  "getCachedKeyFromStore kv unquote now kvKey supportedKeys s =
     (case kvs_Get kv now kvKey s of
        (s', Inl e) \<Rightarrow> (s', Missing)
      | (s', Inr raw) \<Rightarrow>
          let cachedKeyID = cached_id unquote raw in
          (s', if cachedKeyID = [] then Missing
               else case find (\<lambda>k. key_ID k = cachedKeyID) supportedKeys of Some k \<Rightarrow> Found k | None \<Rightarrow> Stale))"

section \<open>The pool of a call\<close>

definition batch_keys :: "string \<Rightarrow> string \<Rightarrow> Key list \<Rightarrow> err + Key list" where
  "batch_keys requestType provider ks =
     (if isBatchRequestType requestType \<or> isFileRequestType requestType then
        let enabled = filter (\<lambda>k. key_UseForBatchAPI k = Some True) ks in
        if enabled = [] then Inl (Err (''no config found for batch apis; enable '' @ [CHR 0x27] @ ''Use for Batch APIs'' @ [CHR 0x27]
          @ '' on at least one key for provider: '' @ provider)) else Inr enabled
      else Inr ks)"

definition supported_keys :: "string \<Rightarrow> string \<Rightarrow> string \<Rightarrow> Key list \<Rightarrow> Key list" where
  "supported_keys baseProvider requestType model ks =
     (if skipModelCheck requestType model
      then List.map_filter (\<lambda>k. keep_if (hasValue baseProvider) (usable baseProvider k)) ks
      else List.map_filter (\<lambda>k. keep_if
        (\<lambda>k. hasValue baseProvider k \<and> wl_IsAllowed (key_Models k) model \<and> \<not> bl_IsBlocked (key_BlacklistedModels k) model
          \<and> (if baseProvider = ''vllm'' then
               (case key_VLLMKeyConfig k of None \<Rightarrow> True | Some c \<Rightarrow> vllm_ModelName c = [] \<or> vllm_ModelName c = model)
             else True)) (usable baseProvider k)) ks)"

text \<open>
  A key the caller asked for by ID or, failing that, by name; \<open>quoted\<close> is the verb \<^verbatim>\<open>%q\<close> on printable
  characters.
\<close>

definition quoted :: "string \<Rightarrow> string" where
  "quoted s = [CHR 0x22] @ concat (map (\<lambda>c. if c = CHR 0x22 \<or> c = CHR 0x5C then [CHR 0x5C, c] else [c]) s) @ [CHR 0x22]"

definition pinned_key :: "string \<Rightarrow> string \<Rightarrow> 'c CallContext_scheme \<Rightarrow> Key list \<Rightarrow> (err + Key) option" where
  "pinned_key provider model ctx supportedKeys =
     (let by = (\<lambda>f w msg. case w of None \<Rightarrow> None
        | Some v \<Rightarrow> if trimSpace v = [] then None
            else Some (case find (\<lambda>k. f k = trimSpace v) supportedKeys of Some k \<Rightarrow> Inr k | None \<Rightarrow> Inl (Err (msg @ quoted (trimSpace v)
                @ '' for provider: '' @ provider @ '' and model: '' @ model))))
      in case by key_ID (cc_APIKeyID ctx) ''no supported key found with id '' of
           Some r \<Rightarrow> Some r | None \<Rightarrow> by key_Name (cc_APIKeyName ctx) ''no supported key found with name '')"

definition session_ttl :: "'c CallContext_scheme \<Rightarrow> int" where
  "session_ttl ctx =
     (case cc_SessionTTL ctx of None \<Rightarrow> DefaultSessionStickyTTL
      | Some t \<Rightarrow> if t \<le> 0 then DefaultSessionStickyTTL else t)"

text \<open>Session stickiness: the store calls of one selection, numbered by their position.\<close>

definition sticky_key ::
    "'s KVStore \<Rightarrow> (string \<Rightarrow> string option) \<Rightarrow> (Key list \<Rightarrow> err + Key) \<Rightarrow> (nat \<Rightarrow> int) \<Rightarrow> (nat \<Rightarrow> 's \<Rightarrow> 's)
      \<Rightarrow> string \<Rightarrow> int \<Rightarrow> Key list \<Rightarrow> 's \<Rightarrow> 's \<times> (err + Key)" where
  "sticky_key kv unquote selector clock others kvKey ttl supportedKeys s0 =
     (let (s1, c) = getCachedKeyFromStore kv unquote (clock 0) kvKey supportedKeys (others 0 s0) in
      case c of
        Found k \<Rightarrow> (fst (kvs_SetWithTTL kv (clock 1) kvKey (Any (key_ID k)) ttl (others 1 s1)), Inr k)
      | _ \<Rightarrow>
        let s2 = (if c = Stale then fst (kvs_Delete kv (clock 1) kvKey (others 1 s1)) else s1) in
        (case selector supportedKeys of Inl e \<Rightarrow> (s2, Inl e)
         | Inr k \<Rightarrow>
           (case kvs_SetNXWithTTL kv (clock 2) kvKey (Any (key_ID k)) ttl (others 2 s2) of
              (s3, Inl e) \<Rightarrow> (s3, Inr k)
            | (s3, Inr True) \<Rightarrow> (s3, Inr k)
            | (s3, Inr False) \<Rightarrow>
              (case getCachedKeyFromStore kv unquote (clock 3) kvKey supportedKeys (others 3 s3) of
                 (s4, Found k') \<Rightarrow> (s4, Inr k')
               | (s4, Stale) \<Rightarrow> (fst (kvs_Delete kv (clock 4) kvKey (others 4 s4)), Inr k)
               | (s4, Missing) \<Rightarrow> (s4, Inr k)))))"

definition session_of :: "'c CallContext_scheme \<Rightarrow> string" where
  "session_of ctx = (case cc_SessionID ctx of None \<Rightarrow> [] | Some i \<Rightarrow> i)"

definition fallback_index :: "'c CallContext_scheme \<Rightarrow> int" where
  "fallback_index ctx = (case cc_FallbackIndex ctx of None \<Rightarrow> 0 | Some i \<Rightarrow> i)"

record 's engine =
  eng_account :: account
  eng_kvStore :: "'s KVStore option"
  eng_sha :: "string \<Rightarrow> string"
  eng_unquote :: "string \<Rightarrow> string option"

definition selectKeyFromProviderForModelWithPool ::
    "'s engine \<Rightarrow> (Key list \<Rightarrow> err + Key) \<Rightarrow> (nat \<Rightarrow> int) \<Rightarrow> (nat \<Rightarrow> 's \<Rightarrow> 's) \<Rightarrow> 'c CallContext_scheme
      \<Rightarrow> string \<Rightarrow> string \<Rightarrow> string \<Rightarrow> string \<Rightarrow> 's \<Rightarrow> 's \<times> (err + Key list \<times> bool)" where
  "selectKeyFromProviderForModelWithPool eng selector clock others ctx requestType provider model baseProvider s =
     (case cc_DirectKey ctx of Some k \<Rightarrow> (s, Inr ([k], False))
      | None \<Rightarrow>
     if cc_SkipKeySelection ctx \<and> isKeySkippingAllowed provider then (s, Inr ([], False))
     else case GetKeysForProvider (eng_account eng) ctx provider of Inl e \<Rightarrow> (s, Inl e)
      | Inr ks \<Rightarrow>
     if ks = [] then (s, Inl (Err (''no keys found for provider: '' @ provider @ '' and model: '' @ model)))
     else case batch_keys requestType provider ks of Inl e \<Rightarrow> (s, Inl e)
      | Inr ks \<Rightarrow>
     let supportedKeys = supported_keys baseProvider requestType model ks in
     if supportedKeys = [] then (s, Inl (Err (''no keys found that support model: '' @ model)))
     else case pinned_key provider model ctx supportedKeys of
        Some (Inr k) \<Rightarrow> (s, Inr ([k], False))
      | Some (Inl e) \<Rightarrow> (s, Inl e)
      | None \<Rightarrow>
     if length supportedKeys = 1 then (s, Inr (supportedKeys, False))
     else case (eng_kvStore eng, session_of ctx \<noteq> [] \<and> fallback_index ctx = 0) of
        (Some kv, True) \<Rightarrow>
          (case sticky_key kv (eng_unquote eng) selector clock others
             (buildSessionKey (eng_sha eng) provider (session_of ctx) model) (session_ttl ctx) supportedKeys s of
             (s', Inl e) \<Rightarrow> (s', Inl e) | (s', Inr k) \<Rightarrow> (s', Inr ([k], False)))
      | _ \<Rightarrow> (s, Inr (supportedKeys, True)))"

section \<open>The weighted selector\<close>

text \<open>
  \<open>scaled\<close> is Go's conversion \<^verbatim>\<open>int(w * 100)\<close> of a weight and \<open>rand n\<close> the number drawn below \<open>n\<close>;
  drawing below a number that is not positive, and indexing an empty slice, panic: \<open>None\<close>.
\<close>

definition intn :: "(int \<Rightarrow> int) \<Rightarrow> int \<Rightarrow> int option" where
  "intn rand n = (if 0 < n then Some (rand n) else None)"

fun pick :: "(f64 \<Rightarrow> int) \<Rightarrow> int \<Rightarrow> int \<Rightarrow> Key list \<Rightarrow> Key option" where
  "pick scaled r acc [] = None"
| "pick scaled r acc (k # ks) =
     (let acc' = wrap64 (acc + scaled (key_Weight k)) in
      if r < acc' then Some k else pick scaled r acc' ks)"

definition total_weight :: "(f64 \<Rightarrow> int) \<Rightarrow> Key list \<Rightarrow> int" where
  "total_weight scaled ks = fold (\<lambda>k n. wrap64 (n + scaled (key_Weight k))) ks 0"

definition WeightedRandom :: "(f64 \<Rightarrow> int) \<Rightarrow> (int \<Rightarrow> int) \<Rightarrow> Key list \<Rightarrow> Key option" where
  "WeightedRandom scaled rand ks =
     (let totalWeight = total_weight scaled ks in
      if totalWeight = 0 then
        map_option (\<lambda>i. ks ! nat i) (intn rand (int (length ks)))
      else case intn rand totalWeight of None \<Rightarrow> None
        | Some r \<Rightarrow> (case pick scaled r 0 ks of Some k \<Rightarrow> Some k
            | None \<Rightarrow> (case ks of [] \<Rightarrow> None | k # _ \<Rightarrow> Some k)))"

end
