(* ===== verification/Selection_Properties.thy ===== *)
theory Selection_Properties
  imports Key_Selection Plugin_Properties
begin

text \<open>
  What the key selection promises: only keys that the account, the governance of the virtual key
  and the model lists admit are used; a session keeps its key, also when requests race for it;
  and the weighted selector draws every key in proportion to its weight. The laws of the store
  behind the session are a locale, interpreted on the store of \<open>KV_Store\<close>.
\<close>

section \<open>Lists of keys\<close>

lemma set_map_filter: "set (List.map_filter f xs) = {y. \<exists>x \<in> set xs. f x = Some y}"
  by (induction xs) (auto simp: List.map_filter_simps split: option.split)

lemma keep_if_Some: "keep_if P x = Some k \<longleftrightarrow> x = Some k \<and> P k"
  by (auto simp: keep_if_def split: option.split)

definition same_key :: "Key \<Rightarrow> Key \<Rightarrow> bool" where
  "same_key k k0 \<longleftrightarrow> (\<exists>b m. k = k0\<lparr>key_BedrockKeyConfig := b, key_BedrockMantleKeyConfig := m\<rparr>)"

lemma same_key_intros:
  "same_key k k" "same_key (k\<lparr>key_BedrockKeyConfig := b\<rparr>) k" "same_key (k\<lparr>key_BedrockMantleKeyConfig := b\<rparr>) k"
proof -
  show "same_key k k" unfolding same_key_def
    by (rule exI [of _ "key_BedrockKeyConfig k"], rule exI [of _ "key_BedrockMantleKeyConfig k"]) simp
  show "same_key (k\<lparr>key_BedrockKeyConfig := b\<rparr>) k" unfolding same_key_def
    by (rule exI [of _ b], rule exI [of _ "key_BedrockMantleKeyConfig k"]) simp
  show "same_key (k\<lparr>key_BedrockMantleKeyConfig := b\<rparr>) k" unfolding same_key_def
    by (rule exI [of _ "key_BedrockKeyConfig k"], rule exI [of _ b]) simp
qed

lemma same_key_fields:
  "same_key k k0 \<Longrightarrow> key_ID k = key_ID k0 \<and> key_Name k = key_Name k0 \<and> key_Value k = key_Value k0
     \<and> key_Models k = key_Models k0 \<and> key_BlacklistedModels k = key_BlacklistedModels k0
     \<and> key_Enabled k = key_Enabled k0 \<and> key_UseForBatchAPI k = key_UseForBatchAPI k0"
  by (auto simp: same_key_def)

lemma validateKey_same: "same_key (snd (validateKey p k)) k"
  by (simp add: validateKey_def same_key_intros)

lemma usable_Some: "usable p k0 = Some k \<Longrightarrow> key_Enabled k0 \<noteq> Some False \<and> same_key k k0"
  using validateKey_same [of p k0] by (auto simp: usable_def split: if_splits prod.splits option.splits)

lemma find_mem: "find P xs = Some x \<Longrightarrow> x \<in> set xs \<and> P x"
  by (induction xs) (auto split: if_splits)

section \<open>Only admitted keys\<close>

definition admitted :: "'s engine \<Rightarrow> 'c CallContext_scheme \<Rightarrow> string \<Rightarrow> string \<Rightarrow> string \<Rightarrow> Key \<Rightarrow> bool" where
  "admitted eng ctx requestType provider model k \<longleftrightarrow>
     (\<exists>ks k0. eng_account eng provider = Inr ks \<and> k0 \<in> set ks \<and> same_key k k0 \<and> key_Enabled k0 \<noteq> Some False
       \<and> (case cc_IncludeOnlyKeys ctx of None \<Rightarrow> True | Some ids \<Rightarrow> key_ID k0 \<in> set ids)
       \<and> (isBatchRequestType requestType \<or> isFileRequestType requestType \<longrightarrow> key_UseForBatchAPI k0 = Some True)
       \<and> (skipModelCheck requestType model
          \<or> wl_IsAllowed (key_Models k0) model \<and> \<not> bl_IsBlocked (key_BlacklistedModels k0) model))"

lemma GetKeys_mem:
  assumes "GetKeysForProvider config ctx provider = Inr ks" "k \<in> set ks"
  shows "\<exists>all. config provider = Inr all \<and> k \<in> set all
    \<and> (case cc_IncludeOnlyKeys ctx of None \<Rightarrow> True | Some ids \<Rightarrow> key_ID k \<in> set ids)"
  using assms by (auto simp: GetKeysForProvider_def split: sum.splits option.splits if_splits)

lemma batch_mem:
  "batch_keys requestType provider ks = Inr ks' \<Longrightarrow> k \<in> set ks' \<Longrightarrow> k \<in> set ks
    \<and> (isBatchRequestType requestType \<or> isFileRequestType requestType \<longrightarrow> key_UseForBatchAPI k = Some True)"
  by (auto simp: batch_keys_def Let_def split: if_splits)

lemma supported_mem:
  assumes "k \<in> set (supported_keys base requestType model ks)"
  obtains k0 where "k0 \<in> set ks" "usable base k0 = Some k"
    "skipModelCheck requestType model \<or> wl_IsAllowed (key_Models k) model \<and> \<not> bl_IsBlocked (key_BlacklistedModels k) model"
  using assms by (auto simp: supported_keys_def set_map_filter keep_if_Some split: if_splits)

lemma supported_admitted:
  assumes "GetKeysForProvider (eng_account eng) ctx provider = Inr ks" "batch_keys requestType provider ks = Inr ks'"
    "k \<in> set (supported_keys base requestType model ks')"
  shows "admitted eng ctx requestType provider model k"
proof -
  obtain k0 where k0: "k0 \<in> set ks'" "usable base k0 = Some k"
      "skipModelCheck requestType model \<or> wl_IsAllowed (key_Models k) model \<and> \<not> bl_IsBlocked (key_BlacklistedModels k) model"
    by (rule supported_mem [OF assms(3)])
  have b: "k0 \<in> set ks" "isBatchRequestType requestType \<or> isFileRequestType requestType \<longrightarrow> key_UseForBatchAPI k0 = Some True"
    using batch_mem [OF assms(2) k0(1)] by simp_all
  have u: "key_Enabled k0 \<noteq> Some False" "same_key k k0" using usable_Some [OF k0(2)] by simp_all
  show ?thesis unfolding admitted_def
    using GetKeys_mem [OF assms(1) b(1)] b(2) u k0(3) same_key_fields [OF u(2)] by auto
qed

lemma cached_mem: "getCachedKeyFromStore kv unquote now kvKey pool s = (s', Found k) \<Longrightarrow> k \<in> set pool"
  by (auto simp: getCachedKeyFromStore_def Let_def split: prod.splits sum.splits if_splits option.splits dest: find_mem)

lemma sticky_mem:
  assumes "sticky_key kv unquote selector clock others kvKey ttl pool s = (s', Inr k)"
    and sel: "\<And>k. selector pool = Inr k \<Longrightarrow> k \<in> set pool"
  shows "k \<in> set pool"
proof -
  obtain s1 c where c: "getCachedKeyFromStore kv unquote (clock 0) kvKey pool (others 0 s) = (s1, c)" by fastforce
  show ?thesis
  proof (cases "\<exists>k'. c = Found k'")
    case True
    then show ?thesis using assms(1) c cached_mem by (fastforce simp: sticky_key_def)
  next
    case False
    then obtain k1 where k1: "selector pool = Inr k1" using assms(1) c
      by (cases "selector pool") (auto simp: sticky_key_def Let_def split: cached.splits)
    obtain s3 b where b: "kvs_SetNXWithTTL kv (clock 2) kvKey (Any (key_ID k1)) ttl
        (others 2 (if c = Stale then fst (kvs_Delete kv (clock 1) kvKey (others 1 s1)) else s1)) = (s3, b)" by fastforce
    obtain s4 d where d: "getCachedKeyFromStore kv unquote (clock 3) kvKey pool (others 3 s3) = (s4, d)" by fastforce
    have "k = k1 \<or> d = Found k"
      using False assms(1) c k1 b d
      by (cases c; cases b; cases d) (auto simp: sticky_key_def Let_def split: bool.splits)
    then show ?thesis using sel [OF k1] d by (auto dest: cached_mem)
  qed
qed

lemma pinned_mem: "pinned_key provider model ctx pool = Some (Inr k) \<Longrightarrow> k \<in> set pool"
  by (auto simp: pinned_key_def Let_def split: option.splits if_splits dest: find_mem)

lemma select_supported:
  assumes "selectKeyFromProviderForModelWithPool eng selector clock others ctx requestType provider model base s
      = (s', Inr (pool, canRotate))"
    and "cc_DirectKey ctx = None" "\<not> (cc_SkipKeySelection ctx \<and> isKeySkippingAllowed provider)"
    and sel: "\<And>ks k. selector ks = Inr k \<Longrightarrow> k \<in> set ks"
  obtains ks ks' where "GetKeysForProvider (eng_account eng) ctx provider = Inr ks"
    "batch_keys requestType provider ks = Inr ks'"
    "set pool \<subseteq> set (supported_keys base requestType model ks')" "pool \<noteq> []" "canRotate \<longrightarrow> 2 \<le> length pool"
proof -
  note u = assms(1) [unfolded selectKeyFromProviderForModelWithPool_def Let_def]
  obtain ks where ks: "GetKeysForProvider (eng_account eng) ctx provider = Inr ks"
    using u assms(2,3) by (auto split: sum.splits)
  have ne: "ks \<noteq> []" using u assms(2,3) ks by (auto split: if_splits)
  obtain ks' where ks': "batch_keys requestType provider ks = Inr ks'"
    using u assms(2,3) ks ne by (auto split: sum.splits)
  let ?sup = "supported_keys base requestType model ks'"
  have sup: "?sup \<noteq> []" using u assms(2,3) ks ne ks' by (auto split: if_splits)
  have v: "(case pinned_key provider model ctx ?sup of
        Some (Inr k) \<Rightarrow> (s, Inr ([k], False))
      | Some (Inl e) \<Rightarrow> (s, Inl e)
      | None \<Rightarrow>
     if length ?sup = 1 then (s, Inr (?sup, False))
     else case (eng_kvStore eng, session_of ctx \<noteq> [] \<and> fallback_index ctx = 0) of
        (Some kv, True) \<Rightarrow>
          (case sticky_key kv (eng_unquote eng) selector clock others
             (buildSessionKey (eng_sha eng) provider (session_of ctx) model) (session_ttl ctx) ?sup s of
             (s', Inl e) \<Rightarrow> (s', Inl e) | (s', Inr k) \<Rightarrow> (s', Inr ([k], False)))
      | _ \<Rightarrow> (s, Inr (?sup, True))) = (s', Inr (pool, canRotate))"
    using u assms(2,3) ks ne ks' sup by simp
  have "set pool \<subseteq> set ?sup \<and> pool \<noteq> [] \<and> (canRotate \<longrightarrow> 2 \<le> length pool)"
  proof (cases "pinned_key provider model ctx ?sup")
    case (Some r)
    then show ?thesis using v pinned_mem by (cases r) auto
  next
    case None
    have two: "length ?sup \<noteq> 1 \<Longrightarrow> 2 \<le> length ?sup" using sup by (cases ?sup rule: list.exhaust) (auto simp: Suc_le_eq)
    show ?thesis
      using v None sup two sticky_mem [where pool = ?sup, OF _ sel]
      by (auto split: if_splits option.splits bool.splits prod.splits sum.splits)
  qed
  then show ?thesis using that [OF ks ks'] by blast
qed

lemma allowed_filters_keys:
  assumes "EvaluateVirtualKeyRequest known r now c0 vkValue provider model requestType skip = (res, c1)"
    "res_Decision res = DecisionAllow" "res_VirtualKey res = Some vk"
  shows "c1 = filter_keys vk provider (stamp_vk vk c0)"
proof -
  obtain vk' where vk': "GetVirtualKey (r_store r) vkValue = Some vk'"
    using assms(1,2) by (auto simp: EvaluateVirtualKeyRequest_def result_def split: option.splits)
  let ?f = "if skip then None else first_failure (vk_limit_checks r now (ctx_ScopedCustomerID c0) vk'
      \<lparr>req_VirtualKey = vkValue, req_Provider = provider, req_Model = model, req_UserID = []\<rparr>)"
  let ?i = "vk_identity known r now vk' provider model requestType"
  have i: "?i = None"
  proof (rule ccontr)
    assume "?i \<noteq> None"
    then obtain e where e: "?i = Some e" by blast
    then show False using assms(1,2) vk' vk_identity_admits(2) [OF e] by (simp add: EvaluateVirtualKeyRequest_def Let_def)
  qed
  have f: "?f = None"
  proof (rule ccontr)
    assume "?f \<noteq> None"
    then obtain e where e: "?f = Some e" by blast
    then have "res_Decision e \<noteq> DecisionAllow" using vk_limit_checks_pass(2) by (cases skip) auto
    then show False using assms(1,2) vk' e i by (simp add: EvaluateVirtualKeyRequest_def Let_def)
  qed
  have "res = result DecisionAllow ''Request allowed by governance policy'' (Some vk') \<and>
      c1 = filter_keys vk' provider (stamp_vk vk' c0)"
    using assms(1) vk' i f by (simp add: EvaluateVirtualKeyRequest_def Let_def)
  then show ?thesis using assms(3) by (auto simp: result_def)
qed

section \<open>The weighted selector\<close>

definition weights :: "(f64 \<Rightarrow> int) \<Rightarrow> Key list \<Rightarrow> int list" where
  "weights scaled ks = map (\<lambda>k. scaled (key_Weight k)) ks"

lemma sum_nonneg: "(\<And>x. x \<in> set xs \<Longrightarrow> 0 \<le> x) \<Longrightarrow> 0 \<le> sum_list xs" for xs :: "int list"
  by (induction xs) auto

lemma pick_mem: "pick scaled r acc ks = Some k \<Longrightarrow> k \<in> set ks"
  by (induction ks arbitrary: acc) (auto simp: Let_def split: if_splits)

lemma total_weight_sum:
  assumes "\<And>x. x \<in> set (weights scaled ks) \<Longrightarrow> 0 \<le> x" "0 \<le> n" "n + sum_list (weights scaled ks) < 2 ^ 63"
  shows "fold (\<lambda>k n. wrap64 (n + scaled (key_Weight k))) ks n = n + sum_list (weights scaled ks)"
  using assms
proof (induction ks arbitrary: n)
  case Nil
  then show ?case by (simp add: weights_def)
next
  case (Cons k ks)
  have w: "0 \<le> scaled (key_Weight k)" "0 \<le> sum_list (weights scaled ks)"
    using Cons.prems(1) by (auto simp: weights_def intro!: sum_nonneg)
  then have "wrap64 (n + scaled (key_Weight k)) = n + scaled (key_Weight k)"
    using Cons.prems(2,3) by (simp add: in64_def weights_def)
  then show ?case using Cons.IH [of "n + scaled (key_Weight k)"] Cons.prems w by (simp add: weights_def)
qed

lemma pick_at:
  assumes "\<And>x. x \<in> set (weights scaled ks) \<Longrightarrow> 0 \<le> x" "0 \<le> acc" "acc + sum_list (weights scaled ks) < 2 ^ 63"
    "distinct ks" "i < length ks" "acc \<le> r"
  shows "pick scaled r acc ks = Some (ks ! i) \<longleftrightarrow>
    acc + sum_list (take i (weights scaled ks)) \<le> r \<and> r < acc + sum_list (take (Suc i) (weights scaled ks))"
  using assms
proof (induction ks arbitrary: acc i)
  case Nil
  then show ?case by simp
next
  case (Cons k ks)
  have w: "0 \<le> scaled (key_Weight k)" "0 \<le> sum_list (weights scaled ks)"
    using Cons.prems(1) by (auto simp: weights_def intro!: sum_nonneg)
  have c: "wrap64 (acc + scaled (key_Weight k)) = acc + scaled (key_Weight k)"
    using Cons.prems(2,3) w by (simp add: in64_def weights_def)
  have nonneg: "0 \<le> sum_list (take j (weights scaled ks))" for j
    using Cons.prems(1) by (auto simp: weights_def intro!: sum_nonneg dest: in_set_takeD)
  show ?case
  proof (cases i)
    case 0
    have "pick scaled r (acc + scaled (key_Weight k)) ks \<noteq> Some k"
      using Cons.prems(4) pick_mem by fastforce
    then show ?thesis using 0 c Cons.prems(6) by (simp add: weights_def Let_def)
  next
    case (Suc j)
    have j: "j < length ks" "ks ! j \<noteq> k" using Suc Cons.prems(4,5) by (auto dest: nth_mem)
    show ?thesis
    proof (cases "r < acc + scaled (key_Weight k)")
      case True
      then show ?thesis using Suc c j nonneg [of j] by (simp add: weights_def Let_def)
    next
      case False
      then show ?thesis
        using Cons.IH [of "acc + scaled (key_Weight k)" j] Cons.prems Suc c j w by (simp add: weights_def Let_def add.assoc)
    qed
  qed
qed

lemma pick_total:
  assumes "\<And>x. x \<in> set (weights scaled ks) \<Longrightarrow> 0 \<le> x" "0 \<le> acc" "acc + sum_list (weights scaled ks) < 2 ^ 63"
    "acc \<le> r" "r < acc + sum_list (weights scaled ks)"
  shows "\<exists>k. pick scaled r acc ks = Some k"
  using assms
proof (induction ks arbitrary: acc)
  case Nil
  then show ?case by (simp add: weights_def)
next
  case (Cons k ks)
  have w: "0 \<le> scaled (key_Weight k)" "0 \<le> sum_list (weights scaled ks)"
    using Cons.prems(1) by (auto simp: weights_def intro!: sum_nonneg)
  have "wrap64 (acc + scaled (key_Weight k)) = acc + scaled (key_Weight k)"
    using Cons.prems(2,3) w by (simp add: in64_def weights_def)
  then show ?case
    using Cons.IH [of "acc + scaled (key_Weight k)"] Cons.prems w by (simp add: weights_def Let_def)
qed

section \<open>Concrete keys\<close>

definition demo_key :: "string \<Rightarrow> Key" where
  "demo_key i = \<lparr>key_ID = i, key_Name = i, key_Value = ''sk'', key_Models = [''*''], key_BlacklistedModels = [],
     key_Weight = Fin 1, key_AzureEndpoint = None, key_VertexKeyConfig = False, key_BedrockKeyConfig = False,
     key_BedrockMantleKeyConfig = False, key_VLLMKeyConfig = None, key_OllamaURL = None, key_SGLURL = None,
     key_Enabled = None, key_UseForBatchAPI = None\<rparr>"

definition demo_ctx :: CallContext where
  "demo_ctx = \<lparr>cc_DirectKey = None, cc_SkipKeySelection = False, cc_APIKeyID = None, cc_APIKeyName = None,
     cc_IncludeOnlyKeys = None, cc_SessionID = Some ''u1'', cc_SessionTTL = Some 10, cc_FallbackIndex = Some 0,
     cc_FallbackRequestID = None, cc_RequestID = Some ''r1'', cc_SkipPluginPipeline = False, cc_RoutingPinnedAPIKeyID = None\<rparr>"

definition plain_engine :: "unit engine" where
  "plain_engine = \<lparr>eng_account = (\<lambda>_. Inr [demo_key ''a'', demo_key ''b'']), eng_kvStore = None, eng_sha = id, eng_unquote = Some\<rparr>"

lemma trimSpace_sk: "trimSpace ''sk'' \<noteq> []"
proof -
  have "cut_prefix ws_seqs ''sk'' = None" "cut_prefix (map rev ws_seqs) ''ks'' = None"
    by (simp_all add: ws_seqs_def hasPrefix_def)
  then show ?thesis
    by (simp add: trimSpace_def trim_left.simps [of ws_seqs] trim_left.simps [of "map rev ws_seqs"])
qed

lemma demo_pool: "supported_keys ''openai'' ''chat_completion'' ''gpt-4o'' [demo_key ''a'', demo_key ''b''] = [demo_key ''a'', demo_key ''b'']"
  using trimSpace_sk
  by (simp add: supported_keys_def skipModelCheck_def isResponsesLifecycleRequestType_def List.map_filter_simps usable_def
      validateKey_def keep_if_def hasValue_def demo_key_def wl_IsAllowed_def wl_IsUnrestricted_def bl_IsBlocked_def
      bl_IsBlockAll_def bl_Contains_def)

lemma demo_pool_single: "supported_keys ''openai'' ''chat_completion'' ''gpt-4o'' [demo_key ''a''] = [demo_key ''a'']"
  using demo_pool by (simp add: supported_keys_def List.map_filter_simps split: if_splits option.splits)

lemma demo_select:
  "selectKeyFromProviderForModelWithPool plain_engine (\<lambda>ks. case ks of [] \<Rightarrow> Inl (Err []) | k # _ \<Rightarrow> Inr k) (\<lambda>_. 0) (\<lambda>_ s. s)
     (demo_ctx\<lparr>cc_IncludeOnlyKeys := Some [''a'']\<rparr>) ''chat_completion'' ''openai'' ''gpt-4o'' ''openai'' () = ((), Inr ([demo_key ''a''], False))"
proof -
  have "GetKeysForProvider (eng_account plain_engine) (demo_ctx\<lparr>cc_IncludeOnlyKeys := Some [''a'']\<rparr>) ''openai'' = Inr [demo_key ''a'']"
    by (simp add: GetKeysForProvider_def plain_engine_def demo_key_def)
  then show ?thesis
    by (simp add: selectKeyFromProviderForModelWithPool_def demo_ctx_def batch_keys_def isBatchRequestType_def
        isFileRequestType_def demo_pool_single pinned_key_def)
qed

section \<open>The properties\<close>

text \<open>
  A key is only used where it is admitted: unless the caller brought its own key or the provider takes calls without
  one, every key of the pool is an enabled key of the provider's account, among the keys the virtual key's
  governance admits, flagged for batch use when the call is a batch or file operation, and its model lists allow
  the model when they are checked; the pool is not empty, and only a pool of two or more keys rotates.
\<close>

theorem selected_keys_admitted:
  assumes "selectKeyFromProviderForModelWithPool eng selector clock others ctx requestType provider model base s
      = (s', Inr (pool, canRotate))"
    and "cc_DirectKey ctx = None" "\<not> (cc_SkipKeySelection ctx \<and> isKeySkippingAllowed provider)"
    and "\<And>ks k. selector ks = Inr k \<Longrightarrow> k \<in> set ks"
  shows "pool \<noteq> [] \<and> (\<forall>k \<in> set pool. admitted eng ctx requestType provider model k) \<and> (canRotate \<longrightarrow> 2 \<le> length pool)"
proof -
  obtain ks ks' where k: "GetKeysForProvider (eng_account eng) ctx provider = Inr ks"
      "batch_keys requestType provider ks = Inr ks'"
      "set pool \<subseteq> set (supported_keys base requestType model ks')" "pool \<noteq> []" "canRotate \<longrightarrow> 2 \<le> length pool"
    by (rule select_supported [OF assms])
  then show ?thesis using supported_admitted [OF k(1,2)] by blast
qed

theorem selected_keys_admitted_witness:
  "admitted plain_engine (demo_ctx\<lparr>cc_IncludeOnlyKeys := Some [''a'']\<rparr>) ''chat_completion'' ''openai'' ''gpt-4o'' (demo_key ''a'')"
  using selected_keys_admitted [OF demo_select] by (force simp: demo_ctx_def split: list.splits)

text \<open>
  Governance reaches the provider: when the decision engine has allowed a request under a virtual key whose
  configuration for the provider lists its keys, the call that carries the engine's context uses only listed keys.
\<close>

theorem governed_call_uses_granted_keys:
  assumes "EvaluateVirtualKeyRequest known r now c0 vkValue provider model requestType skip = (res, c1)"
    and "res_Decision res = DecisionAllow" "res_VirtualKey res = Some vk"
    and "find (\<lambda>pc. pc_Provider pc = provider) (vk_pcs vk) = Some pc" "\<not> AllowAllKeys pc"
    and "cc_IncludeOnlyKeys ctx = ctx_IncludeOnlyKeys c1" "cc_DirectKey ctx = None"
      "\<not> (cc_SkipKeySelection ctx \<and> isKeySkippingAllowed provider)"
    and "selectKeyFromProviderForModelWithPool eng selector clock others ctx requestType provider model base s
      = (s', Inr (pool, canRotate))"
    and "\<And>ks k. selector ks = Inr k \<Longrightarrow> k \<in> set ks"
  shows "\<forall>k \<in> set pool. key_ID k \<in> set (pc_Keys pc)"
proof -
  have "ctx_IncludeOnlyKeys c1 = Some (pc_Keys pc)"
    using allowed_filters_keys [OF assms(1-3)] assms(4,5) by (simp add: filter_keys_def)
  moreover obtain ks ks' where k: "GetKeysForProvider (eng_account eng) ctx provider = Inr ks"
      "batch_keys requestType provider ks = Inr ks'"
      "set pool \<subseteq> set (supported_keys base requestType model ks')"
    by (rule select_supported [OF assms(9,7,8,10)])
  ultimately show ?thesis
    using supported_admitted [OF k(1,2)] k(3) assms(6) by (fastforce simp: admitted_def dest: same_key_fields)
qed

definition granted_vk :: TableVirtualKey where
  "granted_vk = gate_vk\<lparr>vk_ProviderConfigs := Some
     [\<lparr>pc_ID = 1, pc_Provider = ''openai'', AllowedModels = [''*''], BlacklistedModels = [], AllowAllKeys = False,
       pc_RateLimitID = None, pc_RateLimit = None, pc_Budgets = [], pc_Keys = [''a''], pc_Weight = None\<rparr>]\<rparr>"

definition granted_resolver :: BudgetResolver where
  "granted_resolver = \<lparr>r_store = empty_store\<lparr>virtualKeys := [(''sk-1'', granted_vk)]\<rparr>, r_modelCatalog = None, r_providers = None\<rparr>"

lemma granted_evaluation:
  "EvaluateVirtualKeyRequest (\<lambda>_. True) granted_resolver 0 gate_ctx ''sk-1'' ''openai'' ''gpt-4o'' ''chat_completion'' True
   = (result DecisionAllow ''Request allowed by governance policy'' (Some granted_vk),
      filter_keys granted_vk ''openai'' (stamp_vk granted_vk gate_ctx))"
proof -
  have "GetVirtualKey (r_store granted_resolver) ''sk-1'' = Some granted_vk"
    by (simp add: granted_resolver_def GetVirtualKey_def)
  moreover have "key_admits (\<lambda>_. True) granted_resolver 0 granted_vk ''openai'' ''gpt-4o'' ''chat_completion''"
    by (simp add: key_admits_def granted_vk_def granted_resolver_def gate_defs IsActiveValue_def IsExpiredAt_def
        isProviderAllowed_def isModelAllowed_def vk_pcs_def bl_IsBlocked_def bl_IsBlockAll_def bl_Contains_def
        pc_allows_def wl_IsAllowed_def wl_IsUnrestricted_def Let_def)
  ultimately show ?thesis
    by (simp add: EvaluateVirtualKeyRequest_def Let_def vk_identity_admits(1) [THEN iffD2])
qed

theorem governed_call_uses_granted_keys_witness:
  "key_ID (demo_key ''a'') \<in> set [''a'']"
proof -
  let ?pc = "\<lparr>pc_ID = 1, pc_Provider = ''openai'', AllowedModels = [''*''], BlacklistedModels = [], AllowAllKeys = False,
       pc_RateLimitID = None, pc_RateLimit = None, pc_Budgets = [], pc_Keys = [''a''], pc_Weight = None\<rparr>"
  have f: "find (\<lambda>pc. pc_Provider pc = ''openai'') (vk_pcs granted_vk) = Some ?pc"
    by (simp add: granted_vk_def vk_pcs_def)
  have "\<forall>k \<in> set [demo_key ''a'']. key_ID k \<in> set (pc_Keys ?pc)"
    by (rule governed_call_uses_granted_keys [OF granted_evaluation _ _ f _ _ _ _ demo_select])
      (auto simp: result_def filter_keys_def f demo_ctx_def split: list.splits)
  then show ?thesis by simp
qed

text \<open>
  The weighted selector draws in proportion to the weights: of the numbers it may draw, exactly as many select a
  key as its weight in hundredths counts, so that a key of weight zero is never selected while another has weight.
\<close>

theorem WeightedRandom_proportional:
  assumes "\<And>k. k \<in> set ks \<Longrightarrow> 0 \<le> scaled (key_Weight k)" "distinct ks" "i < length ks"
    and "0 < sum_list (weights scaled ks)" "sum_list (weights scaled ks) < 2 ^ 63"
  shows "total_weight scaled ks = sum_list (weights scaled ks)
    \<and> int (card {r. 0 \<le> r \<and> r < total_weight scaled ks \<and> WeightedRandom scaled (\<lambda>_. r) ks = Some (ks ! i)})
      = scaled (key_Weight (ks ! i))"
proof -
  have nn: "\<And>x. x \<in> set (weights scaled ks) \<Longrightarrow> 0 \<le> x" using assms(1) by (auto simp: weights_def)
  have t: "total_weight scaled ks = sum_list (weights scaled ks)"
    using total_weight_sum [OF nn, where n = 0] assms(5) by (simp add: total_weight_def)
  let ?lo = "sum_list (take i (weights scaled ks))" and ?hi = "sum_list (take (Suc i) (weights scaled ks))"
  have hi: "?hi = ?lo + scaled (key_Weight (ks ! i))"
    using assms(3) by (simp add: weights_def take_Suc_conv_app_nth)
  have lo: "0 \<le> ?lo" using nn by (auto intro!: sum_nonneg dest: in_set_takeD)
  have "?hi + sum_list (drop (Suc i) (weights scaled ks)) = sum_list (weights scaled ks)"
    by (metis append_take_drop_id sum_list_append)
  moreover have "0 \<le> sum_list (drop (Suc i) (weights scaled ks))" using nn by (auto intro!: sum_nonneg dest: in_set_dropD)
  ultimately have le: "?hi \<le> sum_list (weights scaled ks)" by linarith
  have "WeightedRandom scaled (\<lambda>_. r) ks = pick scaled r 0 ks" if h: "0 \<le> r" "r < sum_list (weights scaled ks)" for r
  proof -
    obtain k where "pick scaled r 0 ks = Some k"
      using pick_total [of scaled ks 0 r] nn h assms(5) by auto
    then show ?thesis using assms(4) by (simp add: WeightedRandom_def t intn_def)
  qed
  then have "{r. 0 \<le> r \<and> r < total_weight scaled ks \<and> WeightedRandom scaled (\<lambda>_. r) ks = Some (ks ! i)} = {?lo ..< ?hi}"
    using pick_at [OF nn, where acc = 0, OF _ _ _ assms(2,3)] assms(5) lo le by (auto simp: t)
  then show ?thesis using t hi assms(1) [OF nth_mem [OF assms(3)]] by simp
qed

theorem WeightedRandom_proportional_witness:
  "int (card {r. 0 \<le> r \<and> r < total_weight (\<lambda>_. 7) [demo_key ''a'', demo_key ''b'']
     \<and> WeightedRandom (\<lambda>_. 7) (\<lambda>_. r) [demo_key ''a'', demo_key ''b''] = Some (demo_key ''b'')}) = 7"
proof -
  have d: "distinct [demo_key ''a'', demo_key ''b'']" by (simp add: demo_key_def)
  show ?thesis
    using conjunct2 [OF WeightedRandom_proportional [where scaled = "\<lambda>_. 7" and i = 1, OF _ d]] by (simp add: weights_def)
qed

end
