(* ===== verification/Session_Keys.thy ===== *)
theory Session_Keys
  imports Selection_Properties
begin

text \<open>
  Session stickiness. The locale \<open>session_kv\<close> states what the key selection of core/bifrost.go
  relies on of the store behind \<^verbatim>\<open>schemas.KVStore\<close>, in terms of the value alive under a key at a
  time; the store of framework/kvstore satisfies it. Between two calls of a selection, and
  between selections, other requests may do to the store whatever leaves the session's own entry
  alone; a race for that entry has its own lemma.
\<close>

section \<open>The contract of the store\<close>

definition undisturbed :: "('s \<Rightarrow> bool) \<Rightarrow> (int \<Rightarrow> 's \<Rightarrow> string \<Rightarrow> string kv_value option) \<Rightarrow> string \<Rightarrow> (nat \<Rightarrow> 's \<Rightarrow> 's) \<Rightarrow> bool" where
  "undisturbed ok alive k others \<longleftrightarrow>
     (\<forall>i s. ok s \<longrightarrow> ok (others i s) \<and> (\<forall>t. alive t (others i s) k = alive t s k))"

definition bound_until :: "(int \<Rightarrow> 's \<Rightarrow> string \<Rightarrow> string kv_value option) \<Rightarrow> int \<Rightarrow> 's \<Rightarrow> string \<Rightarrow> string \<Rightarrow> int \<Rightarrow> bool" where
  "bound_until alive now s k i d \<longleftrightarrow> (\<forall>t \<ge> now. alive t s k = (if t < d then Some (Any i) else None))"

locale session_kv =
  fixes kv :: "'s KVStore" and ok :: "'s \<Rightarrow> bool" and alive :: "int \<Rightarrow> 's \<Rightarrow> string \<Rightarrow> string kv_value option"
  assumes get_ok: "ok s \<Longrightarrow> ok (fst (kvs_Get kv t k s))"
    and get_reply: "ok s \<Longrightarrow> k \<noteq> [] \<Longrightarrow> snd (kvs_Get kv t k s) = found (alive t s k)"
    and get_alive: "ok s \<Longrightarrow> t \<le> t' \<Longrightarrow> alive t' (fst (kvs_Get kv t k s)) k' = alive t' s k'"
    and set_ok: "ok s \<Longrightarrow> ok (fst (kvs_SetWithTTL kv t k v ttl s))"
    and set_alive: "ok s \<Longrightarrow> k \<noteq> [] \<Longrightarrow> 0 < ttl \<Longrightarrow> 0 < t \<Longrightarrow> t + ttl < 2 ^ 63 \<Longrightarrow>
      alive t' (fst (kvs_SetWithTTL kv t k v ttl s)) k = (if t' < t + ttl then Some v else None)"
    and setnx_ok: "ok s \<Longrightarrow> ok (fst (kvs_SetNXWithTTL kv t k v ttl s))"
    and setnx_reply: "ok s \<Longrightarrow> k \<noteq> [] \<Longrightarrow> 0 < ttl \<Longrightarrow>
      snd (kvs_SetNXWithTTL kv t k v ttl s) = Inr (alive t s k = None)"
    and setnx_alive: "ok s \<Longrightarrow> k \<noteq> [] \<Longrightarrow> 0 < ttl \<Longrightarrow> 0 < t \<Longrightarrow> t + ttl < 2 ^ 63 \<Longrightarrow>
      alive t' (fst (kvs_SetNXWithTTL kv t k v ttl s)) k =
        (if alive t s k = None then (if t' < t + ttl then Some v else None) else alive t' s k)"
    and delete_ok: "ok s \<Longrightarrow> ok (fst (kvs_Delete kv t k s))"
    and delete_alive: "ok s \<Longrightarrow> k \<noteq> [] \<Longrightarrow> alive t' (fst (kvs_Delete kv t k s)) k = None"
    and stays_dead: "alive t s k = None \<Longrightarrow> t \<le> t' \<Longrightarrow> alive t' s k = None"
begin

lemma cached_reply:
  assumes "ok s" "k \<noteq> []"
  shows "snd (getCachedKeyFromStore kv unquote t k pool s) =
    (case alive t s k of None \<Rightarrow> Missing
     | Some raw \<Rightarrow> if cached_id unquote raw = [] then Missing
         else case find (\<lambda>x. key_ID x = cached_id unquote raw) pool of Some x \<Rightarrow> Found x | None \<Rightarrow> Stale)"
    "fst (getCachedKeyFromStore kv unquote t k pool s) = fst (kvs_Get kv t k s)"
  using get_reply [OF assms, of t]
  by (cases "kvs_Get kv t k s", simp add: getCachedKeyFromStore_def found_def Let_def split: option.split sum.split)+

text \<open>A request that finds its session's key keeps it and renews the binding.\<close>

lemma sticky_found:
  assumes "ok s" "kvKey \<noteq> []" "0 < ttl" "0 < clock 1" "clock 1 + ttl < 2 ^ 63"
    and quiet: "undisturbed ok alive kvKey others"
    and bound: "alive (clock 0) s kvKey = Some (Any (key_ID k))" "key_ID k \<noteq> []"
    and pool: "find (\<lambda>x. key_ID x = key_ID k) pool = Some k"
  shows "\<exists>s'. sticky_key kv unquote selector clock others kvKey ttl pool s = (s', Inr k)
    \<and> ok s' \<and> bound_until alive (clock 1) s' kvKey (key_ID k) (clock 1 + ttl)"
proof -
  let ?g = "getCachedKeyFromStore kv unquote (clock 0) kvKey pool (others 0 s)"
  have q: "ok (others 0 s)" "alive (clock 0) (others 0 s) kvKey = Some (Any (key_ID k))"
    using quiet assms(1) bound(1) by (simp_all add: undisturbed_def)
  have g: "snd ?g = Found k" "fst ?g = fst (kvs_Get kv (clock 0) kvKey (others 0 s))"
    using cached_reply [OF q(1) assms(2)] q(2) bound(2) pool by (simp_all add: cached_id_def)
  have ok1: "ok (others 1 (fst ?g))" using quiet get_ok [OF q(1)] by (simp add: g(2) undisturbed_def)
  have "sticky_key kv unquote selector clock others kvKey ttl pool s
      = (fst (kvs_SetWithTTL kv (clock 1) kvKey (Any (key_ID k)) ttl (others 1 (fst ?g))), Inr k)"
    using g(1) by (simp add: sticky_key_def Let_def case_prod_unfold)
  then show ?thesis
    using set_ok [OF ok1] set_alive [OF ok1 assms(2-5)] by (simp add: bound_until_def)
qed

text \<open>A request that finds no key, or one no longer in the pool, binds the key it selects.\<close>

lemma sticky_binds:
  assumes "ok s" "kvKey \<noteq> []" "0 < ttl" "0 < clock 2" "clock 2 + ttl < 2 ^ 63" "clock 0 \<le> clock 2"
    and quiet: "undisturbed ok alive kvKey others"
    and free: "alive (clock 0) s kvKey = None
      \<or> (\<exists>raw. alive (clock 0) s kvKey = Some raw \<and> cached_id unquote raw \<noteq> []
          \<and> find (\<lambda>x. key_ID x = cached_id unquote raw) pool = None)"
    and sel: "selector pool = Inr k"
  shows "\<exists>s'. sticky_key kv unquote selector clock others kvKey ttl pool s = (s', Inr k)
    \<and> ok s' \<and> bound_until alive (clock 2) s' kvKey (key_ID k) (clock 2 + ttl)"
proof -
  define g where "g = getCachedKeyFromStore kv unquote (clock 0) kvKey pool (others 0 s)"
  define s2 where "s2 = (if snd g = Stale then fst (kvs_Delete kv (clock 1) kvKey (others 1 (fst g))) else fst g)"
  have oth: "ok s \<Longrightarrow> ok (others i s)" "ok s \<Longrightarrow> alive t (others i s) kvKey = alive t s kvKey" for i s t
    using quiet by (simp_all add: undisturbed_def)
  have f: "fst g = fst (kvs_Get kv (clock 0) kvKey (others 0 s))"
    unfolding g_def using cached_reply(2) [OF oth(1) [OF assms(1)] assms(2)] by simp
  have okg: "ok (fst g)" using get_ok oth(1) assms(1) by (simp add: f)
  have c: "(snd g = Missing \<and> alive (clock 0) s kvKey = None) \<or> snd g = Stale"
    unfolding g_def using cached_reply(1) [OF oth(1) [OF assms(1)] assms(2)] free oth(2) [OF assms(1)] by auto
  have ok2: "ok s2" using okg delete_ok oth(1) by (simp add: s2_def)
  have dead: "alive (clock 2) s2 kvKey = None"
  proof (cases "snd g = Stale")
    case True
    then show ?thesis using delete_alive [OF oth(1) [OF okg] assms(2)] by (simp add: s2_def)
  next
    case False
    then have "alive (clock 0) s kvKey = None" using c by simp
    then have "alive (clock 2) s kvKey = None" using stays_dead assms(6) by blast
    then show ?thesis
      using False get_alive [OF oth(1) [OF assms(1)] assms(6)] oth(2) [OF assms(1)] by (simp add: s2_def f)
  qed
  let ?n = "kvs_SetNXWithTTL kv (clock 2) kvKey (Any (key_ID k)) ttl (others 2 s2)"
  have n: "snd ?n = Inr True"
    using setnx_reply [OF oth(1) [OF ok2] assms(2,3)] oth(2) [OF ok2] dead by simp
  obtain cs cc where gg: "g = (cs, cc)" by (cases g)
  have "sticky_key kv unquote selector clock others kvKey ttl pool s = (fst ?n, Inr k)"
    using c n sel gg
    by (cases "?n") (auto simp: sticky_key_def Let_def s2_def simp flip: g_def split: cached.split)
  then show ?thesis
    using setnx_ok [OF oth(1) [OF ok2]] setnx_alive [OF oth(1) [OF ok2] assms(2-5)] oth(2) [OF ok2] dead
    by (simp add: bound_until_def)
qed

text \<open>A request that loses the race for the session's entry takes the winner's key.\<close>

lemma sticky_race:
  assumes "ok s" "kvKey \<noteq> []" "0 < ttl" "clock 0 \<le> clock 2"
    and "\<And>i s. ok s \<Longrightarrow> ok (others i s)"
    and free: "alive (clock 0) (others 0 s) kvKey = None"
    and won: "\<And>s. ok s \<Longrightarrow> alive (clock 2) (others 2 s) kvKey = Some (Any (key_ID w))"
    and still: "\<And>s. ok s \<Longrightarrow> alive (clock 3) (others 3 s) kvKey = Some (Any (key_ID w))"
    and w: "key_ID w \<noteq> []" "find (\<lambda>x. key_ID x = key_ID w) pool = Some w"
    and sel: "selector pool = Inr k"
  shows "snd (sticky_key kv unquote selector clock others kvKey ttl pool s) = Inr w"
proof -
  define g where "g = getCachedKeyFromStore kv unquote (clock 0) kvKey pool (others 0 s)"
  have g: "snd g = Missing" "fst g = fst (kvs_Get kv (clock 0) kvKey (others 0 s))"
    unfolding g_def using cached_reply [OF assms(5) [OF assms(1)] assms(2)] free by simp_all
  have ok1: "ok (fst g)" using get_ok assms(5) assms(1) by (simp add: g(2))
  let ?n = "kvs_SetNXWithTTL kv (clock 2) kvKey (Any (key_ID k)) ttl (others 2 (fst g))"
  have n: "snd ?n = Inr False" "ok (fst ?n)"
    using setnx_reply [OF assms(5) [OF ok1] assms(2,3)] won [OF ok1] setnx_ok assms(5) [OF ok1] by simp_all
  have r: "snd (getCachedKeyFromStore kv unquote (clock 3) kvKey pool (others 3 (fst ?n))) = Found w"
    using cached_reply(1) [OF assms(5) [OF n(2)] assms(2)] still [OF n(2)] w by (simp add: cached_id_def)
  obtain cs cc where gg: "g = (cs, cc)" by (cases g)
  obtain ns nb where nn: "?n = (ns, nb)" by (cases ?n)
  obtain rs rc where rr: "getCachedKeyFromStore kv unquote (clock 3) kvKey pool (others 3 (fst ?n)) = (rs, rc)" by fastforce
  show ?thesis using g(1) gg n(1) nn r rr sel by (simp add: sticky_key_def flip: g_def)
qed

end

section \<open>The store in memory\<close>

definition memory_kv :: "(string kv_value \<Rightarrow> string) \<Rightarrow> string kv_store KVStore" where
  "memory_kv json = \<lparr>kvs_Get = (\<lambda>t. kv_Get t t), kvs_SetWithTTL = SetWithTTL (\<lambda>v. Inr (json v)),
     kvs_SetNXWithTTL = SetNXWithTTL (\<lambda>v. Inr (json v)), kvs_Delete = kv_Delete\<rparr>"

lemma live_of_get: "gm_get (kv_data s) k = e \<Longrightarrow>
    live t s k = (case e of None \<Rightarrow> None | Some x \<Rightarrow> if isExpired x t then None else Some (entry_value x))"
  by (simp add: live_def)

lemma kv_Get_state: "fst (kv_Get t t k s) = s \<or> fst (kv_Get t t k s) = kv_evict t k s"
  by (auto simp: kv_Get_def split: prod.split)

lemma closed_exec: "op \<noteq> OpClose \<Longrightarrow> kv_closed (fst (kv_exec marshal now op s)) = kv_closed s"
  by (cases op) (auto simp: SetWithTTL_def SetNXWithTTL_def kv_evict_def GetAndDelete_def kv_Delete_def cleanupExpired_def
      Let_def kv_simps split: option.split sum.split)

lemma kv_ok_exec: "kv_ok s \<Longrightarrow> op \<noteq> OpClose \<Longrightarrow> kv_ok (fst (kv_exec marshal now op s))"
  by (simp add: kv_ok_def kv_exec_ok closed_exec)

lemma written_live:
  assumes "0 < ttl" "0 < t" "t + ttl < 2 ^ 63"
    and "gm_get (kv_data s) k = Some \<lparr>entry_value = v, writtenAt = t, expiresAt = expiry t ttl\<rparr>"
  shows "live t' s k = (if t' < t + ttl then Some v else None)"
  using live_of_get [OF assms(4), of t'] expiry_deadline [OF assms(2) _ assms(3), of v t t'] assms(1)
  by (simp add: deadline_def not_less)

interpretation memory: session_kv "memory_kv json" kv_ok live for json
proof
  fix s :: "string kv_store" and t t' ttl :: int and k k' :: string and v :: "string kv_value"
  show "kv_ok s \<Longrightarrow> kv_ok (fst (kvs_Get (memory_kv json) t k s))"
    using kv_Get_state [of t k s] kv_ok_evict by (auto simp: memory_kv_def)
  show "kv_ok s \<Longrightarrow> k \<noteq> [] \<Longrightarrow> snd (kvs_Get (memory_kv json) t k s) = found (live t s k)"
    by (simp add: memory_kv_def kv_Get_def kv_lookup_def kv_ok_def found_def live_def split: option.split)
  show "kv_ok s \<Longrightarrow> t \<le> t' \<Longrightarrow> live t' (fst (kvs_Get (memory_kv json) t k s)) k' = live t' s k'"
    using kv_Get_state [of t k s] live_evict by (auto simp: memory_kv_def)
  show "kv_ok s \<Longrightarrow> kv_ok (fst (kvs_SetWithTTL (memory_kv json) t k v ttl s))"
    using kv_ok_exec [where s = s and now = t and op = "OpSet k v ttl"] by (simp add: memory_kv_def)
  show "kv_ok s \<Longrightarrow> kv_ok (fst (kvs_SetNXWithTTL (memory_kv json) t k v ttl s))"
    using kv_ok_exec [where s = s and now = t and op = "OpSetNX k v ttl"] by (simp add: memory_kv_def)
  show "kv_ok s \<Longrightarrow> kv_ok (fst (kvs_Delete (memory_kv json) t k s))"
    using kv_ok_exec [where s = s and now = t and op = "OpDelete k"] by (simp add: memory_kv_def)
  show "kv_ok s \<Longrightarrow> k \<noteq> [] \<Longrightarrow> live t' (fst (kvs_Delete (memory_kv json) t k s)) k = None"
    by (simp add: memory_kv_def live_of_get [OF get_after_removals(2)] kv_ok_def)
  show "live t s k = None \<Longrightarrow> t \<le> t' \<Longrightarrow> live t' s k = None"
    using isExpired_mono [of _ t t'] by (auto simp: live_def split: option.splits if_splits)
  assume ok: "kv_ok s" and k: "k \<noteq> []" and ttl: "0 < ttl"
  have valid: "snd (SetWithTTL (\<lambda>v. Inr (json v)) t k v ttl s) = None"
    using ok k ttl by (simp add: SetWithTTL_def validateMutable_def value_json_def kv_ok_def Let_def)
  show nx: "snd (kvs_SetNXWithTTL (memory_kv json) t k v ttl s) = Inr (live t s k = None)"
    using ok k ttl
    by (auto simp: memory_kv_def SetNXWithTTL_def validateMutable_def value_json_def kv_ok_def live_def Let_def
        split: option.split)
  assume c: "0 < t" "t + ttl < 2 ^ 63"
  show "live t' (fst (kvs_SetWithTTL (memory_kv json) t k v ttl s)) k = (if t' < t + ttl then Some v else None)"
    using valid get_after_write [of "\<lambda>v. Inr (json v)" t k v ttl s k]
    by (intro written_live [OF ttl c]) (simp add: memory_kv_def)
  show "live t' (fst (kvs_SetNXWithTTL (memory_kv json) t k v ttl s)) k =
      (if live t s k = None then (if t' < t + ttl then Some v else None) else live t' s k)"
  proof (cases "live t s k = None")
    case True
    then have "gm_get (kv_data (fst (kvs_SetNXWithTTL (memory_kv json) t k v ttl s))) k
        = Some \<lparr>entry_value = v, writtenAt = t, expiresAt = expiry t ttl\<rparr>"
      using nx by (simp add: memory_kv_def get_after_SetNX)
    from written_live [OF ttl c this] show ?thesis using True by simp
  next
    case False
    then have "gm_get (kv_data (fst (kvs_SetNXWithTTL (memory_kv json) t k v ttl s))) k = gm_get (kv_data s) k"
      using nx by (auto simp: memory_kv_def get_after_SetNX)
    from live_cong [OF this, of t'] show ?thesis using False by auto
  qed
qed

section \<open>The calls of a session\<close>

text \<open>A call whose key is chosen by the session: nothing pins the key and the pool has several.\<close>

definition session_call ::
    "string kv_store engine \<Rightarrow> (string kv_value \<Rightarrow> string) \<Rightarrow> 'c CallContext_scheme \<Rightarrow> string \<Rightarrow> string \<Rightarrow> string \<Rightarrow> string \<Rightarrow> Key list \<Rightarrow> bool" where
  "session_call eng json ctx requestType provider model base pool \<longleftrightarrow>
     eng_kvStore eng = Some (memory_kv json) \<and> cc_DirectKey ctx = None
     \<and> \<not> (cc_SkipKeySelection ctx \<and> isKeySkippingAllowed provider)
     \<and> (\<exists>ks ks'. GetKeysForProvider (eng_account eng) ctx provider = Inr ks \<and> ks \<noteq> []
          \<and> batch_keys requestType provider ks = Inr ks' \<and> pool = supported_keys base requestType model ks')
     \<and> 2 \<le> length pool \<and> pinned_key provider model ctx pool = None \<and> session_of ctx \<noteq> [] \<and> fallback_index ctx = 0"

definition session_kvKey :: "'s engine \<Rightarrow> 'c CallContext_scheme \<Rightarrow> string \<Rightarrow> string \<Rightarrow> string" where
  "session_kvKey eng ctx provider model = buildSessionKey (eng_sha eng) provider (session_of ctx) model"

type_synonym 's call = "(Key list \<Rightarrow> err + Key) \<times> (nat \<Rightarrow> int) \<times> (nat \<Rightarrow> 's \<Rightarrow> 's)"

fun session_run ::
    "'s engine \<Rightarrow> 'c CallContext_scheme \<Rightarrow> string \<Rightarrow> string \<Rightarrow> string \<Rightarrow> string \<Rightarrow> 's call list \<Rightarrow> 's \<Rightarrow> (err + Key list \<times> bool) list" where
  "session_run eng ctx requestType provider model base [] s = []"
| "session_run eng ctx requestType provider model base ((selector, clock, others) # calls) s =
     (let (s', r) = selectKeyFromProviderForModelWithPool eng selector clock others ctx requestType provider model base s
      in r # session_run eng ctx requestType provider model base calls s')"

text \<open>The calls come one after the other, each before the binding the previous one made has expired.\<close>

fun paced :: "int \<Rightarrow> 's call list \<Rightarrow> bool" where
  "paced ttl [] \<longleftrightarrow> True"
| "paced ttl ((_, c, _) # calls) \<longleftrightarrow> 0 < c 0 \<and> c 0 \<le> c 1 \<and> c 1 \<le> c 2 \<and> c 2 + ttl < 2 ^ 63
     \<and> (case calls of [] \<Rightarrow> True | (_, c', _) # _ \<Rightarrow> c 2 \<le> c' 0 \<and> c' 0 < c 1 + ttl) \<and> paced ttl calls"

lemma session_ttl_pos: "0 < session_ttl ctx"
  by (simp add: session_ttl_def DefaultSessionStickyTTL_def split: option.split)

lemma session_kvKey_nonempty: "session_kvKey eng ctx provider model \<noteq> []"
  by (simp add: session_kvKey_def buildSessionKey_def)

lemma session_call_select:
  assumes "session_call eng json ctx requestType provider model base pool"
    and "sticky_key (memory_kv json) (eng_unquote eng) selector clock others (session_kvKey eng ctx provider model)
      (session_ttl ctx) pool s = (s', Inr k)"
  shows "selectKeyFromProviderForModelWithPool eng selector clock others ctx requestType provider model base s
    = (s', Inr ([k], False))"
proof -
  obtain ks ks' where k: "GetKeysForProvider (eng_account eng) ctx provider = Inr ks" "ks \<noteq> []"
      "batch_keys requestType provider ks = Inr ks'" "pool = supported_keys base requestType model ks'"
    using assms(1) by (auto simp: session_call_def)
  have c: "eng_kvStore eng = Some (memory_kv json)" "cc_DirectKey ctx = None"
      "\<not> (cc_SkipKeySelection ctx \<and> isKeySkippingAllowed provider)" "supported_keys base requestType model ks' \<noteq> []"
      "length (supported_keys base requestType model ks') \<noteq> 1" "pinned_key provider model ctx (supported_keys base requestType model ks') = None"
      "session_of ctx \<noteq> []" "fallback_index ctx = 0"
    using assms(1) k(4) by (auto simp: session_call_def)
  show ?thesis using k c assms(2)
    by (simp add: selectKeyFromProviderForModelWithPool_def session_kvKey_def Let_def)
qed

lemma find_by_ID: "distinct (map key_ID pool) \<Longrightarrow> k \<in> set pool \<Longrightarrow> find (\<lambda>x. key_ID x = key_ID k) pool = Some k"
  by (induction pool) force+

lemma session_run_bound:
  assumes "session_call eng json ctx requestType provider model base pool"
    and "kv_ok s" "distinct (map key_ID pool)" "k \<in> set pool" "key_ID k \<noteq> []"
    and "paced (session_ttl ctx) calls"
    and "\<And>c. c \<in> set calls \<Longrightarrow> undisturbed kv_ok live (session_kvKey eng ctx provider model) (snd (snd c))"
    and "bound_until live now s (session_kvKey eng ctx provider model) (key_ID k) d"
    and "case calls of [] \<Rightarrow> True | (_, c, _) # _ \<Rightarrow> now \<le> c 0 \<and> c 0 < d"
  shows "set (session_run eng ctx requestType provider model base calls s) \<subseteq> {Inr ([k], False)}"
  using assms(2,6-)
proof (induction calls arbitrary: s now d)
  case Nil
  then show ?case by simp
next
  case (Cons cl calls)
  obtain selector clock others where cl: "cl = (selector, clock, others)" by (cases cl)
  let ?K = "session_kvKey eng ctx provider model"
  have p: "0 < clock 0" "clock 0 \<le> clock 1" "clock 1 \<le> clock 2" "clock 2 + session_ttl ctx < 2 ^ 63"
      "case calls of [] \<Rightarrow> True | (_, c', _) # _ \<Rightarrow> clock 2 \<le> c' 0 \<and> c' 0 < clock 1 + session_ttl ctx"
      "paced (session_ttl ctx) calls"
    using Cons.prems(2) by (simp_all add: cl)
  have a: "live (clock 0) s ?K = Some (Any (key_ID k))"
    using Cons.prems(4,5) by (simp add: cl bound_until_def)
  have o: "undisturbed kv_ok live ?K others" using Cons.prems(3) [of cl] by (simp add: cl)
  have c1: "0 < clock 1" "clock 1 + session_ttl ctx < 2 ^ 63" using p(1-4) by simp_all
  obtain s' where s': "sticky_key (memory_kv json) (eng_unquote eng) selector clock others ?K (session_ttl ctx) pool s = (s', Inr k)"
      "kv_ok s'" "bound_until live (clock 1) s' ?K (key_ID k) (clock 1 + session_ttl ctx)"
    using memory.sticky_found [where clock = clock, OF Cons.prems(1) session_kvKey_nonempty session_ttl_pos c1 o a assms(5)
        find_by_ID [OF assms(3,4)]] by blast
  have n: "case calls of [] \<Rightarrow> True | (_, c', _) # _ \<Rightarrow> clock 1 \<le> c' 0 \<and> c' 0 < clock 1 + session_ttl ctx"
    using p(3,5) by (auto split: list.split)
  have q: "c \<in> set calls \<Longrightarrow> undisturbed kv_ok live ?K (snd (snd c))" for c using Cons.prems(3) by simp
  show ?case
    using Cons.IH [OF s'(2) p(6) q s'(3) n] session_call_select [OF assms(1) s'(1)] by (simp add: cl)
qed

section \<open>The properties\<close>

text \<open>
  A session keeps its key: from the first call that finds no binding on, every call of the session that
  comes before the previous call's binding expires uses the one key the first call bound, whatever the
  selector would choose and whatever other sessions do to the store in between.
\<close>

theorem session_keeps_key:
  assumes call: "session_call eng json ctx requestType provider model base pool"
    and pool: "distinct (map key_ID pool)" "k \<in> set pool" "key_ID k \<noteq> []" "selector pool = Inr k"
    and ok: "kv_ok s" "live (clock 0) s (session_kvKey eng ctx provider model) = None"
    and pace: "paced (session_ttl ctx) ((selector, clock, others) # calls)"
    and quiet: "\<And>c. c \<in> set ((selector, clock, others) # calls) \<Longrightarrow>
      undisturbed kv_ok live (session_kvKey eng ctx provider model) (snd (snd c))"
  shows "set (session_run eng ctx requestType provider model base ((selector, clock, others) # calls) s)
    = {Inr ([k], False)}"
proof -
  let ?K = "session_kvKey eng ctx provider model"
  have p: "0 < clock 2" "clock 2 + session_ttl ctx < 2 ^ 63" "clock 0 \<le> clock 2" using pace by simp_all
  have o: "undisturbed kv_ok live ?K others" using quiet [of "(selector, clock, others)"] by simp
  have free: "live (clock 0) s ?K = None \<or> (\<exists>raw. live (clock 0) s ?K = Some raw \<and> cached_id (eng_unquote eng) raw \<noteq> []
      \<and> find (\<lambda>x. key_ID x = cached_id (eng_unquote eng) raw) pool = None)" using ok(2) by simp
  obtain s' where s': "sticky_key (memory_kv json) (eng_unquote eng) selector clock others ?K (session_ttl ctx) pool s = (s', Inr k)"
      "kv_ok s'" "bound_until live (clock 2) s' ?K (key_ID k) (clock 2 + session_ttl ctx)"
    using memory.sticky_binds [where clock = clock and selector = selector and pool = pool and k = k, OF ok(1) session_kvKey_nonempty session_ttl_pos p o free pool(4)] by blast
  have n: "case calls of [] \<Rightarrow> True | (_, c', _) # _ \<Rightarrow> clock 2 \<le> c' 0 \<and> c' 0 < clock 2 + session_ttl ctx"
    using pace by (auto split: list.splits)
  have "set (session_run eng ctx requestType provider model base calls s') \<subseteq> {Inr ([k], False)}"
    by (rule session_run_bound [OF call s'(2) pool(1-3) _ _ s'(3) n]) (use pace quiet in auto)
  then show ?thesis using session_call_select [OF call s'(1)] by auto
qed

definition demo_engine :: "string kv_store engine" where
  "demo_engine = \<lparr>eng_account = (\<lambda>_. Inr [demo_key ''a'', demo_key ''b'']), eng_kvStore = Some (memory_kv (\<lambda>_. [])),
     eng_sha = id, eng_unquote = Some\<rparr>"

lemma demo_call: "session_call demo_engine (\<lambda>_. []) demo_ctx ''chat_completion'' ''openai'' ''gpt-4o'' ''openai'' [demo_key ''a'', demo_key ''b'']"
  unfolding session_call_def
  by (simp add: demo_engine_def demo_ctx_def GetKeysForProvider_def batch_keys_def isBatchRequestType_def isFileRequestType_def
      demo_pool pinned_key_def session_of_def fallback_index_def)

theorem session_keeps_key_witness:
  "set (session_run demo_engine demo_ctx ''chat_completion'' ''openai'' ''gpt-4o'' ''openai''
     [(\<lambda>ks. Inr (ks ! 0), \<lambda>i. 5, \<lambda>_ s. s), (\<lambda>ks. Inr (ks ! 1), \<lambda>i. 9, \<lambda>_ s. s)]
     \<lparr>kv_data = [], defaultTTL = 0, kv_closed = False, kv_delegate = None, kv_decoders = []\<rparr>)
   = {Inr ([demo_key ''a''], False)}"
proof (rule session_keeps_key [OF demo_call])
  show "distinct (map key_ID [demo_key ''a'', demo_key ''b''])" "key_ID (demo_key ''a'') \<noteq> []"
    by (simp_all add: demo_key_def)
  show "paced (session_ttl demo_ctx) [(\<lambda>ks. Inr (ks ! 0), \<lambda>i. 5, \<lambda>_ s. s), (\<lambda>ks. Inr (ks ! 1), \<lambda>i. 9, \<lambda>_ s. s)]"
    by (simp add: session_ttl_def demo_ctx_def)
qed (auto simp: kv_ok_def live_def undisturbed_def)

text \<open>
  Requests that race for a new session agree: a call that found no binding, but whose conditional write finds
  that another request has bound the session to a key of the pool in the meantime, uses that request's key.
\<close>

theorem racing_requests_agree:
  assumes call: "session_call eng json ctx requestType provider model base pool"
    and "kv_ok s" "clock 0 \<le> clock 2" "\<And>i s. kv_ok s \<Longrightarrow> kv_ok (others i s)"
    and "live (clock 0) (others 0 s) (session_kvKey eng ctx provider model) = None"
    and "\<And>s. kv_ok s \<Longrightarrow> live (clock 2) (others 2 s) (session_kvKey eng ctx provider model) = Some (Any (key_ID w))"
    and "\<And>s. kv_ok s \<Longrightarrow> live (clock 3) (others 3 s) (session_kvKey eng ctx provider model) = Some (Any (key_ID w))"
    and "distinct (map key_ID pool)" "w \<in> set pool" "key_ID w \<noteq> []" "selector pool = Inr k"
  shows "snd (selectKeyFromProviderForModelWithPool eng selector clock others ctx requestType provider model base s)
    = Inr ([w], False)"
proof -
  let ?K = "session_kvKey eng ctx provider model"
  obtain s' r where sr: "sticky_key (memory_kv json) (eng_unquote eng) selector clock others ?K (session_ttl ctx) pool s = (s', r)"
    by fastforce
  have "r = Inr w"
    using memory.sticky_race [where clock = clock and others = others and selector = selector and pool = pool and k = k and w = w and ttl = "session_ttl ctx", OF assms(2) session_kvKey_nonempty session_ttl_pos assms(3,4,5,6,7)
        assms(10) find_by_ID [OF assms(8,9)] assms(11), of json "eng_unquote eng"] sr by simp
  then show ?thesis using session_call_select [OF call] sr by simp
qed

definition rival :: "nat \<Rightarrow> string kv_store \<Rightarrow> string kv_store" where
  "rival i s = (if i < 2 then s else s\<lparr>kv_data := gm_put (session_kvKey demo_engine demo_ctx ''openai'' ''gpt-4o'')
     \<lparr>entry_value = Any ''b'', writtenAt = 6, expiresAt = 0\<rparr> (kv_data s)\<rparr>)"

theorem racing_requests_agree_witness:
  "snd (selectKeyFromProviderForModelWithPool demo_engine (\<lambda>ks. Inr (ks ! 0)) (\<lambda>i. 5 + int i) rival demo_ctx
     ''chat_completion'' ''openai'' ''gpt-4o'' ''openai''
     \<lparr>kv_data = [], defaultTTL = 0, kv_closed = False, kv_delegate = None, kv_decoders = []\<rparr>) = Inr ([demo_key ''b''], False)"
  by (rule racing_requests_agree [OF demo_call]) (auto simp: kv_ok_def live_def rival_def isExpired_def demo_key_def)

end
