(* ===== verification/Request_Retries.thy ===== *)
theory Request_Retries
  imports Key_Selection
begin

text \<open>
  One provider attempt of a call with its retries: \<open>executeRequestWithRetries\<close> of
  core/bifrost.go, the key providers \<open>requestWorker\<close> builds for it, and the classification of
  errors and the backoff of core/utils.go and core/encryptedreasoning.go.

  The request handler is the argument \<open>env_handler\<close>: what the provider answers to an attempt,
  given its number, whether the encrypted reasoning has been stripped from the request, and the
  key. A stream whose first chunk is an error is a failure, as
  \<^verbatim>\<open>CheckFirstStreamChunkForError\<close> reports it. The jitter of the backoff, the key selector and the
  optional filter of the key pool are arguments too, given the number of the attempt since they
  may draw random numbers. Spans, log lines and routing log entries have no counterpart. What the
  attempt does to the outside is the list \<open>l_log\<close>, oldest first: the pauses and the calls of
  the handler with the key used and the error that came back.
\<close>

section \<open>Errors\<close>

record ErrorField =
  ef_Type :: "string option"
  ef_Code :: "string option"
  ef_Message :: string
  ef_Error :: "err option"

record call_error =
  ce_Type :: "string option"
  ce_IsBifrostError :: bool
  ce_StatusCode :: "int option"
  ce_Error :: "ErrorField option"
  ce_AllowFallbacks :: "bool option"

definition newBifrostErrorFromMsg :: "string \<Rightarrow> call_error" where
  "newBifrostErrorFromMsg message = \<lparr>ce_Type = None, ce_IsBifrostError = False, ce_StatusCode = None,
     ce_Error = Some \<lparr>ef_Type = None, ef_Code = None, ef_Message = message, ef_Error = None\<rparr>, ce_AllowFallbacks = None\<rparr>"

definition newBifrostQueueFullError :: call_error where
  "newBifrostQueueFullError = \<lparr>ce_Type = None, ce_IsBifrostError = True, ce_StatusCode = Some 503,
     ce_Error = Some \<lparr>ef_Type = Some ''request_dropped'', ef_Code = None, ef_Message = ''request dropped: queue is full'', ef_Error = None\<rparr>,
     ce_AllowFallbacks = None\<rparr>"

definition newBifrostCtxDoneError :: "bool \<Rightarrow> string \<Rightarrow> call_error" where
  "newBifrostCtxDoneError deadlineExceeded stage =
     (let ctx_err = (if deadlineExceeded then ''context deadline exceeded'' else ''context canceled'') in
      \<lparr>ce_Type = None, ce_IsBifrostError = True, ce_StatusCode = Some (if deadlineExceeded then 504 else 499),
      ce_Error = Some \<lparr>ef_Type = Some (if deadlineExceeded then ''request_timed_out'' else ''request_cancelled''), ef_Code = None,
        ef_Message = (if deadlineExceeded then ''request timed out '' else ''request cancelled '') @ stage @ '': '' @ ctx_err,
        ef_Error = Some (Err ctx_err)\<rparr>,
      ce_AllowFallbacks = Some False\<rparr>)"

definition rateLimitPatterns :: "string list" where
  "rateLimitPatterns = [''rate limit'', ''rate_limit'', ''ratelimit'', ''too many requests'', ''quota exceeded'',
     ''quota_exceeded'', ''request limit'', ''throttled'', ''throttling'', ''rate exceeded'', ''limit exceeded'',
     ''requests per'', ''rpm exceeded'', ''tpm exceeded'', ''tokens per minute'', ''requests per minute'',
     ''requests per second'', ''api rate limit'', ''usage limit'', ''concurrent requests limit'', ''burst_rate'',
     ''rate increased'']"

definition IsRateLimitErrorMessage :: "string \<Rightarrow> bool" where
  "IsRateLimitErrorMessage errorMessage \<longleftrightarrow>
     errorMessage \<noteq> [] \<and> list_ex (contains (toLower errorMessage)) rateLimitPatterns"

definition transientServerStatusCodes :: "int list" where
  "transientServerStatusCodes = [500, 502, 503, 504, 529]"

definition perKeyFailureStatusCodes :: "int list" where
  "perKeyFailureStatusCodes = [401, 402, 403, 429]"

definition status_in :: "call_error \<Rightarrow> int list \<Rightarrow> bool" where
  "status_in e codes = (case ce_StatusCode e of None \<Rightarrow> False | Some c \<Rightarrow> c \<in> set codes)"

definition isPerKeyFailure :: "call_error \<Rightarrow> bool" where
  "isPerKeyFailure e \<longleftrightarrow> status_in e perKeyFailureStatusCodes
     \<or> (case ce_Error e of None \<Rightarrow> False
        | Some f \<Rightarrow> IsRateLimitErrorMessage (ef_Message f)
          \<or> (case ef_Type f of None \<Rightarrow> False | Some t \<Rightarrow> IsRateLimitErrorMessage t)
          \<or> (case ef_Code f of None \<Rightarrow> False | Some c \<Rightarrow> IsRateLimitErrorMessage c))"

definition isPermanentKeyFailure :: "call_error \<Rightarrow> bool" where
  "isPermanentKeyFailure e \<longleftrightarrow> isPerKeyFailure e \<and> status_in e [401, 402, 403]"

definition ErrProviderDoRequest :: string where
  "ErrProviderDoRequest = ''failed to execute HTTP request to provider API''"

definition ErrProviderNetworkError :: string where
  "ErrProviderNetworkError = ''network error occurred while connecting to provider API (DNS lookup, connection refused, etc.)''"

definition retryable :: "call_error \<Rightarrow> bool" where
  "retryable e \<longleftrightarrow>
     (case ce_Error e of None \<Rightarrow> False | Some f \<Rightarrow> ef_Message f \<in> {ErrProviderDoRequest, ErrProviderNetworkError})
     \<or> status_in e transientServerStatusCodes \<or> isPerKeyFailure e"

definition isCancelled :: "call_error \<Rightarrow> bool" where
  "isCancelled e \<longleftrightarrow> (case ce_Error e of None \<Rightarrow> False | Some f \<Rightarrow> ef_Type f = Some ''request_cancelled'')"

definition failReason :: "call_error \<Rightarrow> string" where
  "failReason e =
     (if status_in e [429] then ''rate_limit_error''
      else if status_in e [401, 403] then ''authentication_error''
      else if status_in e [402] then ''billing_error''
      else case ce_Error e of None \<Rightarrow> ''unknown''
        | Some f \<Rightarrow> (case ef_Type f of None \<Rightarrow> ''unknown'' | Some t \<Rightarrow> if t = [] then ''unknown'' else t))"

subsection \<open>Refused reasoning\<close>

definition encryptedReasoningFieldMarkers :: "string list" where
  "encryptedReasoningFieldMarkers = [''encrypted_content'', ''encrypted content'', ''redacted_thinking'',
     ''thought_signature'', ''thoughtsignature'', ''reasoningcontent'']"

definition unverifiablePayloadMarkers :: "string list" where
  "unverifiablePayloadMarkers = [''invalid'', ''could not be verified'', ''cannot be verified'', ''could not be decrypted'',
     ''failed to verify'', ''malformed'', ''missing recognized prefix'', ''unrecognized prefix'']"

definition containsAnyMarker :: "string \<Rightarrow> string list \<Rightarrow> bool" where
  "containsAnyMarker message markers = list_ex (contains message) markers"

definition namesEncryptedReasoningField :: "string \<Rightarrow> bool" where
  "namesEncryptedReasoningField message \<longleftrightarrow> containsAnyMarker message encryptedReasoningFieldMarkers
     \<or> (contains message ''signature''
        \<and> (contains message ''reasoning'' \<or> contains message ''thinking'' \<or> contains message ''thought''))"

definition isEncryptedReasoningRejection :: "call_error \<Rightarrow> bool" where
  "isEncryptedReasoningRejection e =
     (case ce_Error e of None \<Rightarrow> False
      | Some f \<Rightarrow>
          if ce_StatusCode e \<noteq> Some 400 then False
          else if (case ef_Code f of None \<Rightarrow> False | Some c \<Rightarrow> contains c ''invalid_encrypted_content'') then True
          else let message = toLower (ef_Message f) in
            if contains message ''invalid_encrypted_content''
              \<or> (contains message ''encrypted content'' \<and> contains message ''could not be verified'') then True
            else if contains message ''cannot be modified'' then False
            else namesEncryptedReasoningField message \<and> containsAnyMarker message unverifiablePayloadMarkers)"

section \<open>Key providers\<close>

text \<open>The errors carry their message.\<close>

datatype provider_error = AllKeysDead string | AllKeysFiltered string | SelectorError string

definition errAllKeysDead :: string where
  "errAllKeysDead = ''all configured keys returned permanent per-key errors (401/402/403)''"

definition errAllKeysFiltered :: string where
  "errAllKeysFiltered = ''all eligible keys are temporarily suppressed by the key pool filter''"

text \<open>
  A key provider gets the number of the attempt and the IDs of the used and of the dead keys; it
  may forget the used ones.
\<close>

type_synonym key_provider = "nat \<Rightarrow> string list \<Rightarrow> string list \<Rightarrow> string list \<times> (provider_error + Key)"

definition fixed_provider :: "Key \<Rightarrow> key_provider" where
  "fixed_provider fixedKey a used dead =
     (used, if key_ID fixedKey \<in> set dead then Inl (AllKeysDead errAllKeysDead) else Inr fixedKey)"

text \<open>
  The filter of the pool is called once for the keys left in this round and once more for the next
  round; when it fails its input is used unfiltered.
\<close>

definition filtered :: "(Key list \<Rightarrow> err + Key list) option \<Rightarrow> Key list \<Rightarrow> Key list" where
  "filtered keyPoolFilter available =
     (case keyPoolFilter of None \<Rightarrow> available
      | Some f \<Rightarrow> (case f available of Inl e \<Rightarrow> available | Inr ks \<Rightarrow> ks))"

definition rotating_provider ::
    "string \<Rightarrow> Key list \<Rightarrow> (nat \<Rightarrow> bool \<Rightarrow> (Key list \<Rightarrow> err + Key list) option) \<Rightarrow> (nat \<Rightarrow> Key list \<Rightarrow> err + Key) \<Rightarrow> key_provider" where
  "rotating_provider provKey pool keyPoolFilter selector a used dead =
     (let select = (\<lambda>ks. case selector a ks of Inl (Err m) \<Rightarrow> Inl (SelectorError m) | Inr k \<Rightarrow> Inr k);
          available = filtered (keyPoolFilter a False)
            (filter (\<lambda>k. key_ID k \<notin> set dead \<and> key_ID k \<notin> set used) pool)
      in if available \<noteq> [] then (used, select available)
         else
           let alive = filter (\<lambda>k. key_ID k \<notin> set dead) pool;
               again = filtered (keyPoolFilter a True) alive
           in if again = [] then (used, Inl (if alive \<noteq> [] then AllKeysFiltered (errAllKeysFiltered @ '': provider '' @ provKey)
                else AllKeysDead (errAllKeysDead @ '': provider '' @ provKey)))
              else ([], select again))"

definition provider_failure :: "provider_error \<Rightarrow> call_error" where
  "provider_failure e =
     (let synthetic = (\<lambda>code t m. \<lparr>ce_Type = Some t, ce_IsBifrostError = False, ce_StatusCode = Some code,
            ce_Error = Some \<lparr>ef_Type = Some t, ef_Code = None, ef_Message = m, ef_Error = None\<rparr>, ce_AllowFallbacks = None\<rparr>)
      in case e of AllKeysFiltered m \<Rightarrow> synthetic 503 ''no_eligible_keys'' m
         | AllKeysDead m \<Rightarrow> synthetic 502 ''upstream_credentials_exhausted'' m
         | SelectorError m \<Rightarrow> newBifrostErrorFromMsg m)"

section \<open>The loop\<close>

record KeyAttemptRecord =
  ka_Attempt :: nat
  ka_KeyID :: string
  ka_KeyName :: string
  ka_FailReason :: "string option"
  ka_TriggeredRotation :: bool

datatype 'r reply = Failed call_error | Answered 'r | Streamed "call_error option" 'r

fun settled :: "'r reply \<Rightarrow> 'r option \<times> call_error option" where
  "settled (Failed e) = (None, Some e)"
| "settled (Answered r) = (Some r, None)"
| "settled (Streamed firstChunkErr r) = (Some r, firstChunkErr)"

datatype retry_event = Slept int | Called Key "call_error option"

record 'r retry_env =
  env_MaxRetries :: int
  env_RetryBackoffInitial :: int
  env_RetryBackoffMax :: int
  env_keyProvider :: "key_provider option"
  env_handler :: "nat \<Rightarrow> bool \<Rightarrow> Key \<Rightarrow> 'r reply"
  env_jitter :: "nat \<Rightarrow> int \<Rightarrow> int"
  env_carriesReasoning :: bool
  env_tracer :: bool

record 'r loop =
  l_attempts :: nat
  l_key :: Key
  l_used :: "string list"
  l_dead :: "string list"
  l_lastWasPerKeyFailure :: bool
  l_lastWasPermanentKeyFailure :: bool
  l_previousKeyID :: string
  l_pendingRotation :: "nat option"
  l_extraAttempts :: int
  l_stripped :: bool
  l_lastWasStrip :: bool
  l_result :: "'r option"
  l_error :: "call_error option"
  l_NumberOfRetries :: "nat option"
  l_trail :: "KeyAttemptRecord list"
  l_SelectedKey :: "(string \<times> string) option"
  l_log :: "retry_event list"

definition zero_key :: Key where
  "zero_key = \<lparr>key_ID = [], key_Name = [], key_Value = [], key_Models = [], key_BlacklistedModels = [],
     key_Weight = Fin 0, key_AzureEndpoint = None, key_VertexKeyConfig = False, key_BedrockKeyConfig = False,
     key_BedrockMantleKeyConfig = False, key_VLLMKeyConfig = None, key_OllamaURL = None, key_SGLURL = None,
     key_Enabled = None, key_UseForBatchAPI = None\<rparr>"

text \<open>
  \<open>jitter b\<close> is the conversion to an integer of \<open>b\<close> times a random factor of 0.8 to 1.2.
\<close>

definition calculateBackoff :: "(int \<Rightarrow> int) \<Rightarrow> nat \<Rightarrow> int \<Rightarrow> int \<Rightarrow> int" where
  "calculateBackoff jitter attempt initial maximum =
     (let backoff = min (wrap64 (initial * wrap64 (2 ^ attempt))) maximum in min (jitter backoff) maximum)"

definition resolve_rotation :: "Key \<Rightarrow> 'r loop \<Rightarrow> 'r loop" where
  "resolve_rotation key st =
     (case l_pendingRotation st of None \<Rightarrow> st
      | Some i \<Rightarrow>
          (if i < length (l_trail st) \<and> ka_KeyID (l_trail st ! i) \<noteq> key_ID key
           then st\<lparr>l_trail := (l_trail st)[i := (l_trail st ! i)\<lparr>ka_TriggeredRotation := True\<rparr>]\<rparr> else st)\<lparr>l_pendingRotation := None\<rparr>)"

definition start_attempt :: "'r retry_env \<Rightarrow> 'r loop \<Rightarrow> 'r loop" where
  "start_attempt env st =
     (let st1 = st\<lparr>l_NumberOfRetries := Some (l_attempts st)\<rparr>
      in if env_keyProvider env \<noteq> None \<and> l_attempts st = 0 then st1\<lparr>l_trail := []\<rparr> else st1)"

definition select_key :: "'r retry_env \<Rightarrow> 'r loop \<Rightarrow> bool \<times> 'r loop" where
  "select_key env st =
     (case env_keyProvider env of None \<Rightarrow> (True, st)
      | Some keyProvider \<Rightarrow>
          if \<not> (l_attempts st = 0 \<or> l_lastWasPerKeyFailure st) then (True, st)
          else case keyProvider (l_attempts st) (l_used st) (l_dead st) of
            (used, Inl e) \<Rightarrow>
              (False, st\<lparr>l_used := used, l_SelectedKey := None, l_result := None, l_error := Some (provider_failure e)\<rparr>)
          | (used, Inr key) \<Rightarrow>
              (True, resolve_rotation key
                 (st\<lparr>l_used := used, l_key := key, l_SelectedKey := Some (key_ID key, key_Name key)\<rparr>)))"

definition record_attempt :: "'r retry_env \<Rightarrow> 'r loop \<Rightarrow> 'r loop" where
  "record_attempt env st =
     (if env_keyProvider env = None then st
      else st\<lparr>l_trail := l_trail st @ [\<lparr>ka_Attempt = l_attempts st, ka_KeyID = key_ID (l_key st),
         ka_KeyName = key_Name (l_key st), ka_FailReason = None, ka_TriggeredRotation = False\<rparr>]\<rparr>)"

definition pause :: "'r retry_env \<Rightarrow> 'r loop \<Rightarrow> 'r loop" where
  "pause env st =
     (let keyChanged = (env_keyProvider env \<noteq> None \<and> key_ID (l_key st) \<noteq> l_previousKeyID st)
      in if 0 < l_attempts st \<and> \<not> ((l_lastWasPermanentKeyFailure st \<and> keyChanged) \<or> l_lastWasStrip st)
         then st\<lparr>l_log := l_log st @ [Slept (calculateBackoff (env_jitter env (l_attempts st)) (l_attempts st - 1)
           (env_RetryBackoffInitial env) (env_RetryBackoffMax env))]\<rparr>
         else st)"

definition call_handler :: "'r retry_env \<Rightarrow> 'r loop \<Rightarrow> 'r loop" where
  "call_handler env st =
     (let (result, bifrostError) = settled (env_handler env (l_attempts st) (l_stripped st) (l_key st))
      in st\<lparr>l_result := result, l_error := bifrostError, l_log := l_log st @ [Called (l_key st) bifrostError]\<rparr>)"

definition fill_reason :: "call_error \<Rightarrow> 'r loop \<Rightarrow> 'r loop" where
  "fill_reason e st =
     (if l_trail st = [] then st
      else st\<lparr>l_trail := (l_trail st)[length (l_trail st) - 1 := (last (l_trail st))\<lparr>ka_FailReason := Some (failReason e)\<rparr>]\<rparr>)"

definition strip_reasoning :: "'r retry_env \<Rightarrow> call_error \<Rightarrow> 'r loop \<Rightarrow> 'r loop" where
  "strip_reasoning env e st =
     (if \<not> retryable e \<and> \<not> l_stripped st \<and> isEncryptedReasoningRejection e \<and> env_carriesReasoning env
      then st\<lparr>l_stripped := True, l_lastWasStrip := True, l_extraAttempts := l_extraAttempts st + 1\<rparr>
      else st\<lparr>l_lastWasStrip := False\<rparr>)"

definition mark_key :: "'r retry_env \<Rightarrow> call_error \<Rightarrow> 'r loop \<Rightarrow> 'r loop" where
  "mark_key env e st =
     (let st1 = (if isPerKeyFailure e \<and> env_keyProvider env \<noteq> None then
                   (if isPermanentKeyFailure e then st\<lparr>l_dead := key_ID (l_key st) # l_dead st\<rparr>
                    else st\<lparr>l_used := key_ID (l_key st) # l_used st\<rparr>) else st);
          st2 = st1\<lparr>l_lastWasPerKeyFailure := isPerKeyFailure e,
            l_lastWasPermanentKeyFailure := (isPermanentKeyFailure e \<and> env_keyProvider env \<noteq> None),
            l_previousKeyID := key_ID (l_key st)\<rparr>
      in if isPerKeyFailure e \<and> env_keyProvider env \<noteq> None
           \<and> int (l_attempts st) < env_MaxRetries env + l_extraAttempts st \<and> l_trail st \<noteq> []
         then st2\<lparr>l_pendingRotation := Some (length (l_trail st) - 1)\<rparr> else st2)"

datatype attempt_end = Abort | Stop | Again

definition after_call :: "'r retry_env \<Rightarrow> 'r loop \<Rightarrow> attempt_end \<times> 'r loop" where
  "after_call env st =
     (case l_error st of None \<Rightarrow> (Stop, st)
      | Some e \<Rightarrow>
          if ce_IsBifrostError e \<or> isCancelled e then (Stop, st)
          else let st1 = strip_reasoning env e (fill_reason e st) in
            if \<not> retryable e \<and> \<not> l_lastWasStrip st1 then (Stop, st1) else (Again, mark_key env e st1))"

definition attempt :: "'r retry_env \<Rightarrow> 'r loop \<Rightarrow> attempt_end \<times> 'r loop" where
  "attempt env st =
     (case select_key env (start_attempt env st) of
        (False, st1) \<Rightarrow> (Abort, st1)
      | (True, st1) \<Rightarrow>
          let st2 = pause env (record_attempt env st1) in
          if \<not> env_tracer env then (Abort, st2\<lparr>l_error := Some (newBifrostErrorFromMsg ''tracer not found in context'')\<rparr>)
          else after_call env (call_handler env st2))"

definition finish_retries :: "'r retry_env \<Rightarrow> 'r loop \<Rightarrow> 'r loop" where
  "finish_retries env st =
     (if l_error st \<noteq> None \<and> env_keyProvider env \<noteq> None then st\<lparr>l_SelectedKey := None\<rparr> else st)"

text \<open>
  Which round fields an attempt can change: it keeps its number, and grants an extra attempt only
  when it strips the reasoning, once.
\<close>

definition budget_of :: "'r loop \<Rightarrow> nat \<times> int \<times> bool" where
  "budget_of st = (l_attempts st, l_extraAttempts st, l_stripped st)"

lemma budget_frames:
  "budget_of (start_attempt env st) = budget_of st"
  "budget_of (snd (select_key env st)) = budget_of st"
  "budget_of (record_attempt env st) = budget_of st"
  "budget_of (pause env st) = budget_of st"
  "budget_of (call_handler env st) = budget_of st"
  "budget_of (fill_reason e st) = budget_of st"
  "budget_of (mark_key env e st) = budget_of st"
  by (simp_all add: budget_of_def start_attempt_def select_key_def resolve_rotation_def record_attempt_def pause_def
      call_handler_def fill_reason_def mark_key_def Let_def case_prod_unfold split: option.split sum.split prod.split)

lemma strip_budget:
  "budget_of (strip_reasoning env e st) = budget_of st
   \<or> (\<not> l_stripped st \<and> budget_of (strip_reasoning env e st) = (l_attempts st, l_extraAttempts st + 1, True))"
  by (simp add: strip_reasoning_def budget_of_def)

lemma attempt_budget:
  assumes "attempt env st = (v, st')"
  shows "budget_of st' = budget_of st
    \<or> (\<not> l_stripped st \<and> budget_of st' = (l_attempts st, l_extraAttempts st + 1, True))"
proof -
  obtain b st1 where s: "select_key env (start_attempt env st) = (b, st1)" by fastforce
  have b1: "budget_of st1 = budget_of st" using budget_frames(1) [of env st] budget_frames(2) [of env "start_attempt env st"] s by simp
  define st3 where "st3 = call_handler env (pause env (record_attempt env st1))"
  have b3: "budget_of st3 = budget_of st" by (simp add: st3_def budget_frames b1)
  show ?thesis
  proof (cases b)
    case False
    then show ?thesis using assms s b1 by (simp add: attempt_def)
  next
    case True
    show ?thesis
    proof (cases "env_tracer env")
      case False
      then have "budget_of st' = budget_of (pause env (record_attempt env st1))"
        using assms s True by (auto simp: attempt_def Let_def budget_of_def)
      then show ?thesis by (simp add: budget_frames b1)
    next
      case tr: True
      then have a: "after_call env st3 = (v, st')" using assms s True by (simp add: attempt_def Let_def st3_def)
      have sub: "budget_of st' = budget_of (strip_reasoning env e (fill_reason e st3))" if "l_error st3 = Some e"
          "\<not> (ce_IsBifrostError e \<or> isCancelled e)" for e
        using a that by (auto simp: after_call_def Let_def budget_frames split: if_splits)
      have st3: "l_stripped st3 = l_stripped st" "l_attempts st3 = l_attempts st" "l_extraAttempts st3 = l_extraAttempts st"
        using b3 by (simp_all add: budget_of_def)
      show ?thesis
      proof (cases "\<exists>e. l_error st3 = Some e \<and> \<not> (ce_IsBifrostError e \<or> isCancelled e)")
        case True
        then obtain e where e: "l_error st3 = Some e" "\<not> (ce_IsBifrostError e \<or> isCancelled e)" by blast
        have f: "budget_of (fill_reason e st3) = budget_of st3" by (rule budget_frames)
        show ?thesis using strip_budget [of env e "fill_reason e st3"] sub [OF e] f b3
          by (auto simp: budget_of_def)
      next
        case False
        then have "st' = st3" using a by (auto simp: after_call_def split: option.splits if_splits)
        then show ?thesis using b3 by simp
      qed
    qed
  qed
qed

definition rounds_to_go :: "'r retry_env \<Rightarrow> 'r loop \<Rightarrow> nat" where
  "rounds_to_go env st = nat (env_MaxRetries env + l_extraAttempts st + 1 - int (l_attempts st)) + (if l_stripped st then 0 else 1)"

lemma attempt_decreases:
  assumes "(v, st') = attempt env st" "int (l_attempts st) \<le> env_MaxRetries env + l_extraAttempts st"
  shows "rounds_to_go env (st'\<lparr>l_attempts := Suc (l_attempts st')\<rparr>) < rounds_to_go env st"
  using attempt_budget [OF assms(1) [symmetric]] assms(2) by (auto simp: budget_of_def rounds_to_go_def)

function retry_loop :: "'r retry_env \<Rightarrow> 'r loop \<Rightarrow> 'r loop" where
  "retry_loop env st =
     (if int (l_attempts st) \<le> env_MaxRetries env + l_extraAttempts st then
        (case attempt env st of
           (Again, st') \<Rightarrow> retry_loop env (st'\<lparr>l_attempts := Suc (l_attempts st')\<rparr>)
         | (Stop, st') \<Rightarrow> finish_retries env st'
         | (Abort, st') \<Rightarrow> st')
      else finish_retries env st)"
  by pat_completeness auto
termination
  by (relation "measure (\<lambda>(env, st). rounds_to_go env st)") (simp_all add: attempt_decreases)

declare retry_loop.simps [simp del]

definition executeRequestWithRetries :: "'r retry_env \<Rightarrow> KeyAttemptRecord list \<Rightarrow> (string \<times> string) option \<Rightarrow> 'r loop" where
  "executeRequestWithRetries env trail selected =
     retry_loop env \<lparr>l_attempts = 0, l_key = zero_key, l_used = [], l_dead = [], l_lastWasPerKeyFailure = False,
       l_lastWasPermanentKeyFailure = False, l_previousKeyID = [], l_pendingRotation = None, l_extraAttempts = 0,
       l_stripped = False, l_lastWasStrip = False, l_result = None, l_error = None, l_NumberOfRetries = None,
       l_trail = trail, l_SelectedKey = selected, l_log = []\<rparr>"

end
