(* ===== verification/Fallback_Chain.thy ===== *)
theory Fallback_Chain
  imports Request_Retries
begin

text \<open>
  The fallbacks of a request: \<open>handleRequest\<close> and \<open>handleStreamRequest\<close> of core/bifrost.go with
  \<open>shouldTryFallbacks\<close>, \<open>prepareFallbackRequest\<close> and \<open>shouldContinueWithFallbacks\<close>, the fields of a
  request of core/schemas/bifrost.go and the checks of core/utils.go.

  A request is the one sub-request that is set, of which the model keeps the provider, the model
  and the fallbacks. One try of a provider, \<open>tryRequest\<close> or \<open>tryStreamRequest\<close>, is the argument
  \<open>ask\<close>: it is given its position among the tries, the context and the request, and returns the
  context it leaves, the response and the error. The hooks that run before the first try are the
  argument \<open>preRequest\<close>, the IDs drawn for the request and for fallback \<open>i\<close> are \<open>uuid 0\<close> and
  \<open>uuid i\<close>. Spans, log entries and the routing information stamped on responses have no
  counterpart, nor do the keys of the context that concern one attempt's stream and trail.
\<close>

datatype (plugins only: code) request_kind =
    ReqListModels | ReqTextCompletion | ReqChat | ReqResponses | ReqResponsesRetrieve | ReqResponsesDelete
  | ReqResponsesCancel | ReqResponsesInputItems | ReqCountTokens | ReqCompaction | ReqEmbedding | ReqRerank | ReqOCR
  | ReqSpeech | ReqTranscription | ReqImageGeneration | ReqImageEdit | ReqImageVariation | ReqVideoGeneration
  | ReqVideoRetrieve | ReqVideoDownload | ReqVideoList | ReqVideoDelete | ReqVideoRemix
  | ReqFileUpload | ReqFileList | ReqFileRetrieve | ReqFileDelete | ReqFileContent
  | ReqCachedContentCreate | ReqCachedContentList | ReqCachedContentRetrieve | ReqCachedContentUpdate
  | ReqCachedContentDelete | ReqBatchCreate | ReqBatchList | ReqBatchRetrieve | ReqBatchCancel | ReqBatchResults
  | ReqBatchDelete | ReqContainerCreate | ReqContainerList | ReqContainerRetrieve | ReqContainerDelete
  | ReqContainerFileCreate | ReqContainerFileList | ReqContainerFileRetrieve | ReqContainerFileContent
  | ReqContainerFileDelete | ReqPassthrough

type_synonym fallback = "string \<times> string"

record request_body =
  rb_Provider :: string
  rb_Model :: "string option"
  rb_Fallbacks :: "fallback list"

record BifrostRequest =
  brq_RequestType :: string
  brq_payload :: "(request_kind \<times> request_body) option"

text \<open>The kinds whose model is read, and those whose fallbacks are read as well.\<close>

definition with_fallbacks :: "request_kind \<Rightarrow> bool" where
  "with_fallbacks k \<longleftrightarrow> k \<in> {ReqTextCompletion, ReqChat, ReqResponses, ReqCountTokens, ReqCompaction, ReqEmbedding, ReqRerank,
     ReqOCR, ReqSpeech, ReqTranscription, ReqImageGeneration, ReqImageEdit, ReqImageVariation, ReqVideoGeneration}"

definition with_model :: "request_kind \<Rightarrow> bool" where
  "with_model k \<longleftrightarrow> with_fallbacks k \<or> k \<in> {ReqFileUpload, ReqFileList, ReqFileRetrieve, ReqFileDelete, ReqFileContent,
     ReqCachedContentCreate, ReqCachedContentList, ReqCachedContentRetrieve, ReqCachedContentUpdate, ReqCachedContentDelete,
     ReqBatchCreate, ReqBatchList, ReqBatchRetrieve, ReqBatchCancel, ReqBatchResults, ReqBatchDelete, ReqPassthrough}"

definition GetRequestFields :: "BifrostRequest \<Rightarrow> string \<times> string \<times> fallback list" where
  "GetRequestFields req =
     (case brq_payload req of None \<Rightarrow> ([], [], [])
      | Some (k, b) \<Rightarrow>
          (rb_Provider b,
           if with_model k then (case rb_Model b of None \<Rightarrow> [] | Some m \<Rightarrow> m) else [],
           if with_fallbacks k then rb_Fallbacks b else []))"

definition isModelRequired :: "string \<Rightarrow> bool" where
  "isModelRequired t \<longleftrightarrow> t \<in> {''text_completion'', ''text_completion_stream'', ''chat_completion'', ''chat_completion_stream'',
     ''responses'', ''responses_stream'', ''speech'', ''speech_stream'', ''transcription'', ''transcription_stream'',
     ''embedding'', ''image_generation'', ''image_generation_stream'', ''video_generation''}"

definition validateRequestAfterPreRequestHooks :: "BifrostRequest \<Rightarrow> call_error option" where
  "validateRequestAfterPreRequestHooks req =
     (case GetRequestFields req of (provider, model, _) \<Rightarrow>
        if provider = [] then Some (newBifrostErrorFromMsg
          ''could not auto resolve a provider for the request, please specify a provider explicitly'')
        else if isModelRequired (brq_RequestType req) \<and> model = [] then Some (newBifrostErrorFromMsg
          ''could not auto resolve a model for the request, please specify a model explicitly'')
        else None)"

definition shouldTryFallbacks :: "BifrostRequest \<Rightarrow> call_error option \<Rightarrow> bool" where
  "shouldTryFallbacks req primaryErr =
     (case primaryErr of None \<Rightarrow> False
      | Some e \<Rightarrow> \<not> isCancelled e \<and> ce_AllowFallbacks e \<noteq> Some False \<and> snd (snd (GetRequestFields req)) \<noteq> [])"

text \<open>The kinds whose provider and model a fallback replaces.\<close>

definition switched :: "request_kind \<Rightarrow> bool" where
  "switched k \<longleftrightarrow> k \<in> {ReqTextCompletion, ReqChat, ReqResponses, ReqCountTokens, ReqCompaction, ReqEmbedding, ReqRerank,
     ReqOCR, ReqSpeech, ReqTranscription, ReqImageGeneration, ReqVideoGeneration}"

definition prepareFallbackRequest :: "(string \<Rightarrow> bool) \<Rightarrow> BifrostRequest \<Rightarrow> fallback \<Rightarrow> BifrostRequest option" where
  "prepareFallbackRequest configured req fb =
     (if \<not> configured (fst fb) then None
      else Some (req\<lparr>brq_payload := map_option
        (\<lambda>(k, b). (k, if switched k then b\<lparr>rb_Provider := fst fb, rb_Model := Some (snd fb)\<rparr> else b)) (brq_payload req)\<rparr>))"

text \<open>The error is dereferenced first: an error without a body panics, \<open>None\<close>.\<close>

definition shouldContinueWithFallbacks :: "call_error \<Rightarrow> bool option" where
  "shouldContinueWithFallbacks e =
     (case ce_Error e of None \<Rightarrow> None
      | Some f \<Rightarrow> Some (ef_Type f \<noteq> Some ''request_cancelled'' \<and> ce_AllowFallbacks e \<noteq> Some False))"

definition clearCtxForFallback :: "'c CallContext_scheme \<Rightarrow> 'c CallContext_scheme" where
  "clearCtxForFallback ctx = ctx\<lparr>cc_APIKeyID := None, cc_APIKeyName := None, cc_IncludeOnlyKeys := None\<rparr>"

definition fallback_ctx :: "string \<Rightarrow> nat \<Rightarrow> 'c CallContext_scheme \<Rightarrow> 'c CallContext_scheme" where
  "fallback_ctx u i ctx =
     clearCtxForFallback (ctx\<lparr>cc_FallbackIndex := Some (int i), cc_FallbackRequestID := Some u\<rparr>)"

definition primary_ctx :: "string \<Rightarrow> 'c CallContext_scheme \<Rightarrow> 'c CallContext_scheme" where
  "primary_ctx u ctx =
     (let ctx1 = ctx\<lparr>cc_FallbackIndex := Some 0\<rparr>
      in case cc_RequestID ctx1 of None \<Rightarrow> ctx1\<lparr>cc_RequestID := Some u\<rparr> | Some _ \<Rightarrow> ctx1)"

datatype 'r outcome = Returned "'r option" "call_error option" | Panicked

type_synonym ('c, 'r) provider_try = "nat \<Rightarrow> 'c CallContext_scheme \<Rightarrow> BifrostRequest \<Rightarrow> 'c CallContext_scheme \<times> 'r option \<times> call_error option"

fun try_fallbacks ::
    "(string \<Rightarrow> bool) \<Rightarrow> (nat \<Rightarrow> string) \<Rightarrow> ('c, 'r) provider_try \<Rightarrow> BifrostRequest \<Rightarrow> call_error option
      \<Rightarrow> nat \<Rightarrow> fallback list \<Rightarrow> 'c CallContext_scheme \<Rightarrow> ('c CallContext_scheme \<times> BifrostRequest) list
      \<Rightarrow> 'r outcome \<times> ('c CallContext_scheme \<times> BifrostRequest) list" where
  "try_fallbacks configured uuid ask req primaryErr i [] ctx tried = (Returned None primaryErr, tried)"
| "try_fallbacks configured uuid ask req primaryErr i (fb # fbs) ctx tried =
     (let ctx1 = fallback_ctx (uuid (i + 1)) (i + 1) ctx in
      case prepareFallbackRequest configured req fb of
        None \<Rightarrow> try_fallbacks configured uuid ask req primaryErr (i + 1) fbs ctx1 tried
      | Some fallbackReq \<Rightarrow>
          let (ctx2, result, fallbackErr) = ask (length tried) ctx1 fallbackReq;
              tried' = tried @ [(ctx1, fallbackReq)]
          in case fallbackErr of
               None \<Rightarrow> (Returned result None, tried')
             | Some e \<Rightarrow>
                 (case shouldContinueWithFallbacks e of
                    None \<Rightarrow> (Panicked, tried')
                  | Some False \<Rightarrow> (Returned None (Some e), tried')
                  | Some True \<Rightarrow> try_fallbacks configured uuid ask req primaryErr (i + 1) fbs ctx2 tried'))"

definition handleRequest ::
    "(string \<Rightarrow> bool) \<Rightarrow> (nat \<Rightarrow> string) \<Rightarrow> ('c CallContext_scheme \<Rightarrow> BifrostRequest \<Rightarrow> 'c CallContext_scheme \<times> BifrostRequest)
      \<Rightarrow> ('c, 'r) provider_try \<Rightarrow> 'c CallContext_scheme \<Rightarrow> BifrostRequest \<Rightarrow> 'r outcome \<times> ('c CallContext_scheme \<times> BifrostRequest) list" where
  "handleRequest configured uuid preRequest ask ctx0 req0 =
     (let (ctx, req) = preRequest (primary_ctx (uuid 0) ctx0) req0
      in case validateRequestAfterPreRequestHooks req of
           Some e \<Rightarrow> (Returned None (Some e), [])
         | None \<Rightarrow>
             let (ctx', primaryResult, primaryErr) = ask 0 ctx req
             in if \<not> shouldTryFallbacks req primaryErr then (Returned primaryResult primaryErr, [(ctx, req)])
                else try_fallbacks configured uuid ask req primaryErr 0 (snd (snd (GetRequestFields req))) ctx' [(ctx, req)])"

text \<open>The streaming wrapper is the same with the try that sets up a stream.\<close>

definition handleStreamRequest ::
    "(string \<Rightarrow> bool) \<Rightarrow> (nat \<Rightarrow> string) \<Rightarrow> ('c CallContext_scheme \<Rightarrow> BifrostRequest \<Rightarrow> 'c CallContext_scheme \<times> BifrostRequest)
      \<Rightarrow> ('c, 'ch) provider_try \<Rightarrow> 'c CallContext_scheme \<Rightarrow> BifrostRequest \<Rightarrow> 'ch outcome \<times> ('c CallContext_scheme \<times> BifrostRequest) list" where
  "handleStreamRequest configured uuid preRequest tryStream ctx0 req0 =
     handleRequest configured uuid preRequest tryStream ctx0 req0"

end
