(* ===== verification/Plugin_Pipeline.thy ===== *)
theory Plugin_Pipeline
  imports Fallback_Chain
begin

text \<open>
  One try of a provider: the plugin pipeline of core/bifrost.go with its hooks before and after
  LLM calls, tool calls and tool connections, the queue in front of the workers, and the choice of
  keys by the worker, in \<open>tryRequest\<close>, \<open>tryStreamRequest\<close> and \<open>requestWorker\<close>.

  The values of the context that the engine reads are the fields of \<open>CallContext\<close>; everything
  else a hook can read or change, its plugin's own state included, is in the extension of that
  record. A hook gets the context and returns it. Of the pipeline object only the counters and
  error lists are kept, with the list \<open>pp_ran\<close> of the hooks that ran, oldest first; spans,
  timings and log lines have no counterpart, and neither have the fields of responses and errors
  that only describe the call. How the queue takes a request, and what comes back from the
  worker, are arguments.
\<close>

section \<open>Hooks\<close>

text \<open>While hooks run, writes to the reserved keys of the context are dropped.\<close>

definition restricted :: "'c CallContext_scheme \<Rightarrow> 'c CallContext_scheme \<Rightarrow> 'c CallContext_scheme" where
  "restricted before after = after\<lparr>cc_DirectKey := cc_DirectKey before, cc_SkipKeySelection := cc_SkipKeySelection before,
     cc_APIKeyID := cc_APIKeyID before, cc_APIKeyName := cc_APIKeyName before, cc_FallbackIndex := cc_FallbackIndex before,
     cc_FallbackRequestID := cc_FallbackRequestID before, cc_RequestID := cc_RequestID before\<rparr>"

record ('c, 'q, 'sc, 'r) hooks =
  hk_Pre :: "'c CallContext_scheme \<Rightarrow> 'q option \<Rightarrow> 'c CallContext_scheme \<times> 'q option \<times> 'sc option \<times> err option"
  hk_Post :: "'c CallContext_scheme \<Rightarrow> 'r option \<Rightarrow> call_error option
    \<Rightarrow> 'c CallContext_scheme \<times> 'r option \<times> call_error option \<times> err option"

record ('c, 'q, 'sc, 'r) LLMPlugin = "('c, 'q, 'sc, 'r) hooks" +
  hk_PreRequest :: "'c CallContext_scheme \<Rightarrow> 'q \<Rightarrow> 'c CallContext_scheme \<times> 'q \<times> err option"

datatype hook_event = PreRan nat | PostRan nat

record PluginPipeline =
  executedPreHooks :: nat
  preHookErrors :: "err list"
  postHookErrors :: "err list"
  pp_ran :: "hook_event list"

definition resetPluginPipeline :: PluginPipeline where
  "resetPluginPipeline = \<lparr>executedPreHooks = 0, preHookErrors = [], postHookErrors = [], pp_ran = []\<rparr>"

definition pre_ran :: "nat \<Rightarrow> err option \<Rightarrow> PluginPipeline \<Rightarrow> PluginPipeline" where
  "pre_ran i e p = p\<lparr>executedPreHooks := i + 1, pp_ran := pp_ran p @ [PreRan i],
     preHookErrors := (case e of None \<Rightarrow> preHookErrors p | Some x \<Rightarrow> preHookErrors p @ [x])\<rparr>"

definition post_ran :: "nat \<Rightarrow> err option \<Rightarrow> PluginPipeline \<Rightarrow> PluginPipeline" where
  "post_ran i e p = p\<lparr>pp_ran := pp_ran p @ [PostRan i],
     postHookErrors := (case e of None \<Rightarrow> postHookErrors p | Some x \<Rightarrow> postHookErrors p @ [x])\<rparr>"

text \<open>
  The loops over the plugins, \<open>i\<close> the index of the first. \<open>None\<close> stands for a plugin without the
  hooks in question: it is counted and passed over.
\<close>

fun pre_hooks ::
    "nat \<Rightarrow> ('c, 'q, 'sc, 'r, 'x) hooks_scheme option list \<Rightarrow> PluginPipeline \<Rightarrow> 'c CallContext_scheme \<Rightarrow> 'q option
      \<Rightarrow> PluginPipeline \<times> 'c CallContext_scheme \<times> 'q option \<times> 'sc option" where
  "pre_hooks i [] p ctx req = (p, ctx, req, None)"
| "pre_hooks i (None # pls) p ctx req = pre_hooks (i + 1) pls (p\<lparr>executedPreHooks := i + 1\<rparr>) ctx req"
| "pre_hooks i (Some pl # pls) p ctx req =
     (let (ctx', req', shortCircuit, e) = hk_Pre pl ctx req; ctx1 = restricted ctx ctx'; p1 = pre_ran i e p
      in if shortCircuit \<noteq> None then (p1, ctx1, req', shortCircuit) else pre_hooks (i + 1) pls p1 ctx1 req')"

fun post_hooks ::
    "(nat \<times> ('c, 'q, 'sc, 'r, 'x) hooks_scheme option) list \<Rightarrow> PluginPipeline \<Rightarrow> 'c CallContext_scheme \<Rightarrow> 'r option
      \<Rightarrow> call_error option \<Rightarrow> PluginPipeline \<times> 'c CallContext_scheme \<times> 'r option \<times> call_error option" where
  "post_hooks [] p ctx resp e = (p, ctx, resp, e)"
| "post_hooks ((i, None) # pls) p ctx resp e = post_hooks pls p ctx resp e"
| "post_hooks ((i, Some pl) # pls) p ctx resp e =
     (let (ctx', resp', e', err) = hk_Post pl ctx resp e
      in post_hooks pls (post_ran i err p) (restricted ctx ctx') resp' e')"

text \<open>An error without content counts as a recovery when there is a response.\<close>

definition empty_error :: "call_error \<Rightarrow> bool" where
  "empty_error e \<longleftrightarrow> ce_StatusCode e = None
     \<and> (case ce_Error e of None \<Rightarrow> False | Some f \<Rightarrow> ef_Type f = None \<and> ef_Message f = [] \<and> ef_Error f = None)"

definition final_reply :: "'r option \<Rightarrow> call_error option \<Rightarrow> 'r option \<times> call_error option" where
  "final_reply resp e =
     (case e of None \<Rightarrow> (resp, None)
      | Some x \<Rightarrow> if resp \<noteq> None \<and> empty_error x then (resp, None) else (resp, Some x))"

definition clamp :: "int \<Rightarrow> nat \<Rightarrow> nat" where
  "clamp runFrom n = nat (if runFrom < 0 then 0 else if runFrom > int n then int n else runFrom)"

definition run_pre ::
    "('c, 'q, 'sc, 'r, 'x) hooks_scheme option list \<Rightarrow> PluginPipeline \<Rightarrow> 'c CallContext_scheme \<Rightarrow> 'q option
      \<Rightarrow> PluginPipeline \<times> 'c CallContext_scheme \<times> 'q option \<times> 'sc option \<times> nat" where
  "run_pre pls p ctx req =
     (if cc_SkipPluginPipeline ctx then (p, ctx, req, None, 0)
      else case pre_hooks 0 pls p ctx req of (p', ctx', req', sc) \<Rightarrow> (p', ctx', req', sc, executedPreHooks p'))"

definition run_post ::
    "('c, 'q, 'sc, 'r, 'x) hooks_scheme option list \<Rightarrow> PluginPipeline \<Rightarrow> 'c CallContext_scheme \<Rightarrow> 'r option \<Rightarrow> call_error option
      \<Rightarrow> int \<Rightarrow> PluginPipeline \<times> 'c CallContext_scheme \<times> 'r option \<times> call_error option" where
  "run_post pls p ctx resp e runFrom =
     (if cc_SkipPluginPipeline ctx then (p, ctx, resp, e)
      else case post_hooks (rev (take (clamp runFrom (length pls)) (enumerate 0 pls))) p ctx resp e of
        (p', ctx', resp', e') \<Rightarrow> (p', ctx', final_reply resp' e'))"

definition RunLLMPreHooks where
  "RunLLMPreHooks plugins p ctx req = run_pre (map Some plugins) p ctx req"

definition RunPostLLMHooks where
  "RunPostLLMHooks plugins p ctx resp e runFrom = run_post (map Some plugins) p ctx resp e runFrom"

definition RunMCPPreHooks where
  "RunMCPPreHooks plugins p ctx req = run_pre (map Some plugins) p ctx req"

definition RunMCPPostHooks where
  "RunMCPPostHooks plugins p ctx resp e runFrom = run_post (map Some plugins) p ctx resp e runFrom"

definition RunMCPPreConnectionHooks where
  "RunMCPPreConnectionHooks pls p ctx req = run_pre pls p ctx req"

definition RunMCPPostConnectionHooks where
  "RunMCPPostConnectionHooks pls p ctx resp e runFrom = run_post pls p ctx resp e runFrom"

text \<open>The phase before the request; afterwards the key pinned by a routing rule becomes the request's pin.\<close>

definition commit_pin :: "'c CallContext_scheme \<Rightarrow> 'c CallContext_scheme" where
  "commit_pin ctx =
     (case cc_RoutingPinnedAPIKeyID ctx of None \<Rightarrow> ctx
      | Some pin \<Rightarrow> if trimSpace pin \<noteq> [] then ctx\<lparr>cc_APIKeyID := Some (trimSpace pin)\<rparr> else ctx)"

definition pre_request :: "('c, 'q, 'sc, 'r) LLMPlugin \<Rightarrow> 'c CallContext_scheme \<times> 'q \<times> err list \<Rightarrow> 'c CallContext_scheme \<times> 'q \<times> err list" where
  "pre_request pl = (\<lambda>(ctx, req, es).
     case hk_PreRequest pl ctx req of (ctx', req', e) \<Rightarrow>
       (restricted ctx ctx', req', case e of None \<Rightarrow> es | Some x \<Rightarrow> es @ [x]))"

definition RunPreRequestHooks ::
    "('c, 'q, 'sc, 'r) LLMPlugin list \<Rightarrow> PluginPipeline \<Rightarrow> 'c CallContext_scheme \<Rightarrow> 'q \<Rightarrow> PluginPipeline \<times> 'c CallContext_scheme \<times> 'q" where
  "RunPreRequestHooks plugins p ctx req =
     (if cc_SkipPluginPipeline ctx then (p, ctx, req)
      else case fold pre_request plugins (ctx, req, preHookErrors p) of
        (ctx', req', es) \<Rightarrow> (p\<lparr>preHookErrors := es\<rparr>, commit_pin ctx', req'))"

section \<open>The queue\<close>

text \<open>
  What the request meets at the queue of its provider: whether there is one, whether it is closing
  and another has taken its place, and which case of each \<^verbatim>\<open>select\<close> is taken, \<open>None\<close> for the default.
  A cancelled context says whether its deadline has passed.
\<close>

datatype send = Enqueued | QueueDone | CtxDone bool

record queue_env =
  q_error :: "err option"
  q_closing :: bool
  q_rerouted :: bool
  q_send :: "send option"
  q_dropExcessRequests :: bool
  q_closing_again :: bool
  q_blocking_send :: send

definition newBifrostError :: "err \<Rightarrow> call_error" where
  "newBifrostError e = \<lparr>ce_Type = None, ce_IsBifrostError = False, ce_StatusCode = None,
     ce_Error = Some \<lparr>ef_Type = None, ef_Code = None, ef_Message = (case e of Err m \<Rightarrow> m), ef_Error = Some e\<rparr>,
     ce_AllowFallbacks = None\<rparr>"

definition send_failure :: "send \<Rightarrow> call_error option" where
  "send_failure x =
     (case x of Enqueued \<Rightarrow> None
      | QueueDone \<Rightarrow> Some (newBifrostErrorFromMsg ''provider is shutting down'')
      | CtxDone d \<Rightarrow> Some (newBifrostCtxDoneError d ''while waiting for queue space''))"

definition enqueue_failure :: "queue_env \<Rightarrow> call_error option" where
  "enqueue_failure q =
     (if q_closing q \<and> \<not> q_rerouted q then Some (newBifrostErrorFromMsg ''provider is shutting down'')
      else case q_send q of Some x \<Rightarrow> send_failure x
        | None \<Rightarrow>
            if q_dropExcessRequests q then Some newBifrostQueueFullError
            else if q_closing_again q then Some (newBifrostErrorFromMsg ''provider is shutting down'')
            else send_failure (q_blocking_send q))"

section \<open>One try\<close>

record 'r LLMPluginShortCircuit =
  sc_Response :: "'r option"
  sc_Stream :: "('r \<times> call_error option) option list option"
  sc_Error :: "call_error option"

text \<open>What the request receives from the worker, or that its context was done first.\<close>

datatype 'r awaited = GotResponse "'r option" | GotError call_error | GotDone bool

type_synonym ('c, 'r) llm_plugins = "('c, BifrostRequest, 'r LLMPluginShortCircuit, 'r) LLMPlugin list"

type_synonym ('c, 'r) worker = "'c CallContext_scheme \<Rightarrow> BifrostRequest \<Rightarrow> 'c CallContext_scheme \<times> 'r awaited"

definition client_reply :: "'r option \<times> call_error option \<Rightarrow> 'r option \<times> call_error option" where
  "client_reply = (\<lambda>(resp, e). if e \<noteq> None then (None, e) else (resp, None))"

definition short_reply :: "'r LLMPluginShortCircuit option \<Rightarrow> ('r option \<times> call_error option) option" where
  "short_reply sc =
     (case sc of None \<Rightarrow> None
      | Some s \<Rightarrow> (case sc_Response s of Some r \<Rightarrow> Some (Some r, None)
          | None \<Rightarrow> (case sc_Error s of Some e \<Rightarrow> Some (None, Some e) | None \<Rightarrow> None)))"

definition finish_try ::
    "('c, 'r) llm_plugins \<Rightarrow> PluginPipeline \<Rightarrow> 'c CallContext_scheme \<Rightarrow> 'r option \<Rightarrow> call_error option \<Rightarrow> int
      \<Rightarrow> PluginPipeline \<times> 'c CallContext_scheme \<times> 'r option \<times> call_error option" where
  "finish_try plugins p ctx resp e runFrom =
     (case RunPostLLMHooks plugins p ctx resp e runFrom of (p', ctx', reply) \<Rightarrow> (p', ctx', client_reply reply))"

text \<open>
  \<open>addTools\<close> is \<^verbatim>\<open>MCPManager.AddToolsToRequest\<close>, the identity when there is no tool manager;
  \<open>pluginCount\<close> is the number of plugins loaded when the reply arrives, while the hooks that run are
  those of the pipeline.
\<close>

definition tryRequest ::
    "queue_env \<Rightarrow> ('c CallContext_scheme \<Rightarrow> BifrostRequest \<Rightarrow> 'c CallContext_scheme \<times> BifrostRequest) \<Rightarrow> bool
      \<Rightarrow> ('c, 'r) llm_plugins \<Rightarrow> nat \<Rightarrow> ('c, 'r) worker \<Rightarrow> 'c CallContext_scheme \<Rightarrow> BifrostRequest
      \<Rightarrow> PluginPipeline \<times> 'c CallContext_scheme \<times> 'r option \<times> call_error option" where
  "tryRequest q addTools tracer plugins pluginCount work ctx0 req0 =
     (case q_error q of Some e \<Rightarrow> (resetPluginPipeline, ctx0, None, Some (newBifrostError e))
      | None \<Rightarrow>
     let (ctx1, req) = addTools ctx0 req0 in
     if \<not> tracer then (resetPluginPipeline, ctx1, None, Some (newBifrostErrorFromMsg ''tracer not found in context''))
     else let (p, ctx2, preReq, shortCircuit, preCount) = RunLLMPreHooks plugins resetPluginPipeline ctx1 (Some req) in
     case short_reply shortCircuit of Some (resp, e) \<Rightarrow> finish_try plugins p ctx2 resp e (int preCount)
      | None \<Rightarrow>
     case preReq of
       None \<Rightarrow> (p, ctx2, None, Some (newBifrostErrorFromMsg ''meridian request after plugin hooks cannot be nil''))
     | Some r \<Rightarrow>
     case enqueue_failure q of Some e \<Rightarrow> (p, ctx2, None, Some e)
      | None \<Rightarrow>
     case work ctx2 r of
        (ctx3, GotResponse res) \<Rightarrow> finish_try plugins p ctx3 res None (int pluginCount)
      | (ctx3, GotError e) \<Rightarrow> finish_try plugins p ctx3 None (Some e) (int pluginCount)
      | (ctx3, GotDone d) \<Rightarrow> (p, ctx3, None, Some (newBifrostCtxDoneError d ''waiting for provider response'')))"

text \<open>
  The streaming try. A plugin may answer with a stream of its own; relaying its messages through
  the hooks is done by a goroutine and is the function \<open>relay\<close>. A response of a plugin becomes a
  stream of one message, whose sender dereferences the response: \<open>None\<close> there is a panic.
\<close>

datatype ('r, 'ch) stream = Upstream "'ch option" | OneMessage "'r option" | PluginStream "('r \<times> call_error option) option list"

type_synonym ('c, 'ch) stream_worker = "'c CallContext_scheme \<Rightarrow> BifrostRequest \<Rightarrow> 'c CallContext_scheme \<times> 'ch awaited"

definition stream_reply :: "'r option \<times> call_error option \<Rightarrow> ('r, 'ch) stream option \<times> call_error option" where
  "stream_reply = (\<lambda>(resp, e). if e \<noteq> None then (None, e) else (Some (OneMessage resp), None))"

definition finish_stream ::
    "('c, 'r) llm_plugins \<Rightarrow> PluginPipeline \<Rightarrow> 'c CallContext_scheme \<Rightarrow> 'r option \<Rightarrow> call_error option \<Rightarrow> int
      \<Rightarrow> PluginPipeline \<times> 'c CallContext_scheme \<times> ('r, 'ch) stream option \<times> call_error option" where
  "finish_stream plugins p ctx resp e runFrom =
     (case RunPostLLMHooks plugins p ctx resp e runFrom of (p', ctx', reply) \<Rightarrow> (p', ctx', stream_reply reply))"

definition short_stream ::
    "('c, 'r) llm_plugins \<Rightarrow> PluginPipeline \<Rightarrow> 'c CallContext_scheme \<Rightarrow> nat \<Rightarrow> 'r LLMPluginShortCircuit option
      \<Rightarrow> (PluginPipeline \<times> 'c CallContext_scheme \<times> ('r, 'ch) stream option \<times> call_error option) option" where
  "short_stream plugins p ctx preCount sc =
     (case sc of None \<Rightarrow> None
      | Some s \<Rightarrow> (case sc_Response s of Some r \<Rightarrow> Some (finish_stream plugins p ctx (Some r) None (int preCount))
        | None \<Rightarrow> (case sc_Stream s of Some chunks \<Rightarrow> Some (p, ctx, Some (PluginStream chunks), None)
          | None \<Rightarrow> (case sc_Error s of Some e \<Rightarrow> Some (finish_stream plugins p ctx None (Some e) (int preCount)) | None \<Rightarrow> None))))"

text \<open>When the hooks after an error leave neither an error nor a response, the error is returned.\<close>

definition recover_stream ::
    "('c, 'r) llm_plugins \<Rightarrow> nat \<Rightarrow> PluginPipeline \<Rightarrow> 'c CallContext_scheme \<Rightarrow> call_error
      \<Rightarrow> PluginPipeline \<times> 'c CallContext_scheme \<times> ('r, 'ch) stream option \<times> call_error option" where
  "recover_stream plugins pluginCount p ctx e =
     (case RunPostLLMHooks plugins p ctx None (Some e) (int pluginCount) of
        (p', ctx', resp', Some e') \<Rightarrow> (p', ctx', None, Some e')
      | (p', ctx', Some resp, None) \<Rightarrow> (p', ctx', Some (OneMessage (Some resp)), None)
      | (p', ctx', None, None) \<Rightarrow> (p', ctx', None, Some e))"

definition tryStreamRequest ::
    "queue_env \<Rightarrow> ('c CallContext_scheme \<Rightarrow> BifrostRequest \<Rightarrow> 'c CallContext_scheme \<times> BifrostRequest) \<Rightarrow> bool
      \<Rightarrow> ('c, 'r) llm_plugins \<Rightarrow> nat \<Rightarrow> ('c, 'ch) stream_worker \<Rightarrow> 'c CallContext_scheme \<Rightarrow> BifrostRequest
      \<Rightarrow> PluginPipeline \<times> 'c CallContext_scheme \<times> ('r, 'ch) stream option \<times> call_error option" where
  "tryStreamRequest q addTools tracer plugins pluginCount work ctx0 req0 =
     (case q_error q of Some e \<Rightarrow> (resetPluginPipeline, ctx0, None, Some (newBifrostError e))
      | None \<Rightarrow>
     let (ctx1, req) = (if brq_RequestType req0 \<in> {''speech_stream'', ''transcription_stream''} then (ctx0, req0) else addTools ctx0 req0) in
     if \<not> tracer then (resetPluginPipeline, ctx1, None, Some (newBifrostErrorFromMsg ''tracer not found in context''))
     else let (p, ctx2, preReq, shortCircuit, preCount) = RunLLMPreHooks plugins resetPluginPipeline ctx1 (Some req) in
     case short_stream plugins p ctx2 preCount shortCircuit of Some answered \<Rightarrow> answered
      | None \<Rightarrow>
     case preReq of
       None \<Rightarrow> (p, ctx2, None, Some (newBifrostErrorFromMsg ''meridian request after plugin hooks cannot be nil''))
     | Some r \<Rightarrow>
     case enqueue_failure q of Some e \<Rightarrow> (p, ctx2, None, Some e)
      | None \<Rightarrow>
     case work ctx2 r of
        (ctx3, GotResponse st) \<Rightarrow> (p, ctx3, Some (Upstream st), None)
      | (ctx3, GotError e) \<Rightarrow> recover_stream plugins pluginCount p ctx3 e
      | (ctx3, GotDone d) \<Rightarrow> (p, ctx3, None, Some (newBifrostCtxDoneError d ''while waiting for stream response'')))"

text \<open>\<open>accepts i\<close> tells whether the consumer takes the message number \<open>i\<close>; when it does not, the rest is dropped.\<close>

fun relay ::
    "('c, 'r) llm_plugins \<Rightarrow> nat \<Rightarrow> (nat \<Rightarrow> bool) \<Rightarrow> nat \<Rightarrow> ('r \<times> call_error option) option list \<Rightarrow> PluginPipeline
      \<Rightarrow> 'c CallContext_scheme \<Rightarrow> PluginPipeline \<times> 'c CallContext_scheme \<times> ('r option \<times> call_error option) list" where
  "relay plugins preCount accepts i [] p ctx = (p, ctx, [])"
| "relay plugins preCount accepts i (None # msgs) p ctx = relay plugins preCount accepts i msgs p ctx"
| "relay plugins preCount accepts i (Some (resp, e) # msgs) p ctx =
     (case finish_try plugins p ctx (Some resp) e (int preCount) of
        (p', ctx', reply) \<Rightarrow>
          if accepts i
          then (case relay plugins preCount accepts (i + 1) msgs p' ctx' of (p'', ctx'', out) \<Rightarrow> (p'', ctx'', reply # out))
          else (p', ctx', []))"

section \<open>The worker\<close>

record WorkerConfig =
  wc_ProviderKey :: string
  wc_CustomProviderConfig :: "(bool \<times> string) option"
  wc_SendBackRawRequest :: bool
  wc_SendBackRawResponse :: bool
  wc_StoreRawRequestResponse :: bool

definition providerRequiresKey :: "(bool \<times> string) option \<Rightarrow> bool" where
  "providerRequiresKey customConfig =
     (case customConfig of None \<Rightarrow> True
      | Some (isKeyLess, baseProviderType) \<Rightarrow> \<not> (isKeyLess \<and> baseProviderType \<noteq> ''bedrock''))"

definition base_provider :: "WorkerConfig \<Rightarrow> string" where
  "base_provider cfg =
     (case wc_CustomProviderConfig cfg of
        Some (_, b) \<Rightarrow> if b \<noteq> [] then b else wc_ProviderKey cfg
      | None \<Rightarrow> wc_ProviderKey cfg)"

text \<open>
  Which raw payloads an attempt captures, and which of them are cut from what the client gets.
  The overrides of the request are \<open>None\<close> when they are not set.
\<close>

record raw_overrides =
  ro_AllowRaw :: bool
  ro_PassthroughPresent :: bool
  ro_AllowStorage :: bool
  ro_SendBackRawRequest :: "bool option"
  ro_SendBackRawResponse :: "bool option"
  ro_StoreRawRequestResponse :: "bool option"

record raw_signals =
  CaptureRawRequest :: bool
  CaptureRawResponse :: bool
  DropRawRequestFromClient :: bool
  DropRawResponseFromClient :: bool
  ShouldStoreRawInLogs :: bool

definition overridden :: "bool \<Rightarrow> bool option \<Rightarrow> bool \<Rightarrow> bool" where
  "overridden allowed override setting = (case override of Some b \<Rightarrow> if allowed then b else setting | None \<Rightarrow> setting)"

definition raw_capture :: "WorkerConfig \<Rightarrow> raw_overrides \<Rightarrow> raw_signals" where
  "raw_capture cfg ov =
     (let allowed = (ro_AllowRaw ov \<or> ro_PassthroughPresent ov);
          effectiveSendBackReq = overridden allowed (ro_SendBackRawRequest ov) (wc_SendBackRawRequest cfg);
          effectiveSendBackResp = overridden allowed (ro_SendBackRawResponse ov) (wc_SendBackRawResponse cfg);
          effectiveStore = overridden (ro_AllowStorage ov) (ro_StoreRawRequestResponse ov) (wc_StoreRawRequestResponse cfg)
      in \<lparr>CaptureRawRequest = (effectiveSendBackReq \<or> effectiveStore), CaptureRawResponse = (effectiveSendBackResp \<or> effectiveStore),
          DropRawRequestFromClient = (effectiveStore \<and> \<not> effectiveSendBackReq),
          DropRawResponseFromClient = (effectiveStore \<and> \<not> effectiveSendBackResp), ShouldStoreRawInLogs = effectiveStore\<rparr>)"

text \<open>
  The keys of a request: a provider of keys for the attempts, or the list of keys an operation
  that spans several keys gets at once. \<open>select0\<close> is the selector at the time the pool is built,
  \<open>select\<close> the one the attempts use.
\<close>

definition multi_key_batch_op :: "string \<Rightarrow> bool" where
  "multi_key_batch_op t \<longleftrightarrow> isBatchRequestType t \<and> t \<noteq> ''batch_create''"

definition multi_key_op :: "string \<Rightarrow> bool" where
  "multi_key_op t \<longleftrightarrow> multi_key_batch_op t \<or> (isFileRequestType t \<and> t \<noteq> ''file_upload'')
     \<or> (isContainerRequestType t \<and> t \<notin> {''container_create'', ''container_file_create''})
     \<or> (isCachedContentRequestType t \<and> t \<noteq> ''cached_content_create'')"

definition worker_keys ::
    "'s engine \<Rightarrow> (Key list \<Rightarrow> err + Key) \<Rightarrow> (nat \<Rightarrow> int) \<Rightarrow> (nat \<Rightarrow> 's \<Rightarrow> 's)
      \<Rightarrow> (nat \<Rightarrow> bool \<Rightarrow> (Key list \<Rightarrow> err + Key list) option) \<Rightarrow> (nat \<Rightarrow> Key list \<Rightarrow> err + Key) \<Rightarrow> WorkerConfig
      \<Rightarrow> 'c CallContext_scheme \<Rightarrow> string \<Rightarrow> string \<Rightarrow> string option \<Rightarrow> 's \<Rightarrow> 's \<times> (call_error + key_provider option \<times> Key list)" where
  "worker_keys eng select0 clock others keyPoolFilter select cfg ctx requestType model listKeyID s =
     (let provider = wc_ProviderKey cfg; base = base_provider cfg in
      if \<not> providerRequiresKey (wc_CustomProviderConfig cfg) then (s, Inr (None, []))
      else if requestType = ''list_models'' then
        (s, case getAllSupportedKeys (eng_account eng) ctx provider base of Inl e \<Rightarrow> Inl (newBifrostError e)
            | Inr ks \<Rightarrow> (case listKeyID of None \<Rightarrow> Inr (None, ks)
                | Some target \<Rightarrow> let ks' = filterKeysByID ks target in
                    if ks' = [] then Inl (newBifrostErrorFromMsg (''no key found with id '' @ quoted target @ '' for provider '' @ provider))
                    else Inr (None, ks')))
      else if multi_key_op requestType then
        (s, case getKeysForBatchAndFileOps (eng_account eng) ctx provider base (if model = [] then None else Some model)
              (multi_key_batch_op requestType) of Inl e \<Rightarrow> Inl (newBifrostError e) | Inr ks \<Rightarrow> Inr (None, ks))
      else case selectKeyFromProviderForModelWithPool eng select0 clock others ctx requestType provider model base s of
          (s', Inl e) \<Rightarrow> (s', Inl (newBifrostError e))
        | (s', Inr (supportedKeys, canRotate)) \<Rightarrow>
            (s', Inr (case supportedKeys of [] \<Rightarrow> None
               | fixedKey # _ \<Rightarrow> Some (if canRotate then rotating_provider provider supportedKeys keyPoolFilter select
                   else fixed_provider fixedKey), [])))"

text \<open>What the worker sends back: the error of the key selection, or the outcome of the attempts.\<close>

definition requestWorker ::
    "(call_error + key_provider option \<times> Key list) \<Rightarrow> (Key list \<Rightarrow> 'r retry_env) \<Rightarrow> KeyAttemptRecord list \<Rightarrow> (string \<times> string) option
      \<Rightarrow> 'r awaited \<times> 'r loop option" where
  "requestWorker keyPlan env trail selected =
     (case keyPlan of Inl e \<Rightarrow> (GotError e, None)
      | Inr (keyProvider, ks) \<Rightarrow>
          let st = executeRequestWithRetries ((env ks)\<lparr>env_keyProvider := keyProvider\<rparr>) trail selected
          in (case l_error st of Some e \<Rightarrow> GotError e | None \<Rightarrow> GotResponse (l_result st), Some st))"

end
