(* ===== verification/Retry_Properties.thy ===== *)
theory Retry_Properties
  imports Request_Retries Selection_Properties
begin

text \<open>
  What the retry loop of core/bifrost.go promises: a bounded number of attempts, an attempt trail
  that matches the calls, a selected key exactly on success, no second use of a key that failed
  permanently, and pauses within the configured bounds. The locale \<open>key_provider\<close> is the contract
  between the loop and the closure that selects its keys.
\<close>

section \<open>Rules for the loop\<close>

definition may_go :: "'r retry_env \<Rightarrow> 'r loop \<Rightarrow> bool" where
  "may_go env st \<longleftrightarrow> int (l_attempts st) \<le> env_MaxRetries env + l_extraAttempts st"

lemma retry_rule:
  assumes "I st"
    and "\<And>st st'. I st \<Longrightarrow> may_go env st \<Longrightarrow> attempt env st = (Again, st') \<Longrightarrow> I (st'\<lparr>l_attempts := Suc (l_attempts st')\<rparr>)"
    and "\<And>st st'. I st \<Longrightarrow> may_go env st \<Longrightarrow> attempt env st = (Stop, st') \<Longrightarrow> Q (finish_retries env st')"
    and "\<And>st st'. I st \<Longrightarrow> may_go env st \<Longrightarrow> attempt env st = (Abort, st') \<Longrightarrow> Q st'"
    and "\<And>st. I st \<Longrightarrow> \<not> may_go env st \<Longrightarrow> Q (finish_retries env st)"
  shows "Q (retry_loop env st)"
proof -
  have "I st \<Longrightarrow> Q (retry_loop env st)" for st
  proof (induction "rounds_to_go env st" arbitrary: st rule: less_induct)
    case less
    obtain v st' where a: "attempt env st = (v, st')" by fastforce
    show ?case
    proof (cases "may_go env st")
      case False
      then show ?thesis using assms(5) [OF less.prems] by (simp add: retry_loop.simps [of env st] may_go_def)
    next
      case True
      have go: "retry_loop env st = (case v of Again \<Rightarrow> retry_loop env (st'\<lparr>l_attempts := Suc (l_attempts st')\<rparr>)
          | Stop \<Rightarrow> finish_retries env st' | Abort \<Rightarrow> st')"
        using True a by (simp add: retry_loop.simps [of env st] may_go_def)
      show ?thesis
      proof (cases v)
        case Again
        then have i: "I (st'\<lparr>l_attempts := Suc (l_attempts st')\<rparr>)" using assms(2) less.prems True a by simp
        have "rounds_to_go env (st'\<lparr>l_attempts := Suc (l_attempts st')\<rparr>) < rounds_to_go env st"
          using attempt_decreases [OF a [symmetric]] True by (simp add: may_go_def)
        then show ?thesis using less.hyps i go Again by simp
      qed (use assms(3,4) less.prems True a go in auto)
    qed
  qed
  then show ?thesis using assms(1) by simp
qed

text \<open>An attempt either ends in the selection of a key, or lacks its tracer, or calls the handler.\<close>

definition called_state :: "'r retry_env \<Rightarrow> 'r loop \<Rightarrow> 'r loop" where
  "called_state env st = call_handler env (pause env (record_attempt env (snd (select_key env (start_attempt env st)))))"

lemma attempt_cases:
  assumes "attempt env st = (v, st')" "env_tracer env"
  obtains (no_key) "fst (select_key env (start_attempt env st)) = False" "v = Abort"
      "st' = snd (select_key env (start_attempt env st))"
  | (called) "fst (select_key env (start_attempt env st))" "after_call env (called_state env st) = (v, st')"
  using assms by (auto simp: attempt_def called_state_def Let_def split: prod.splits bool.splits)

section \<open>Frames\<close>

definition calls :: "'r loop \<Rightarrow> (Key \<times> call_error option) list" where
  "calls st = List.map_filter (\<lambda>ev. case ev of Called k e \<Rightarrow> Some (k, e) | Slept d \<Rightarrow> None) (l_log st)"

lemma map_filter_append: "List.map_filter f (xs @ ys) = List.map_filter f xs @ List.map_filter f ys"
  by (simp add: List.map_filter_def)

lemma calls_log: "l_log st' = l_log st \<Longrightarrow> calls st' = calls st"
  by (simp add: calls_def)

lemma log_frames:
  "l_log (start_attempt env st) = l_log st" "l_log (resolve_rotation k st) = l_log st"
  "l_log (record_attempt env st) = l_log st" "l_log (fill_reason e st) = l_log st"
  "l_log (strip_reasoning env e st) = l_log st" "l_log (finish_retries env st) = l_log st"
  by (simp add: start_attempt_def Let_def, simp add: resolve_rotation_def split: option.split, simp add: record_attempt_def,
      simp add: fill_reason_def, simp add: strip_reasoning_def, simp add: finish_retries_def)

lemma log_select: "l_log (snd (select_key env st)) = l_log st"
  by (simp add: select_key_def log_frames split: option.split prod.split sum.split)

lemma log_mark: "l_log (mark_key env e st) = l_log st"
  by (simp add: mark_key_def Let_def)

lemma calls_pause: "calls (pause env st) = calls st"
  by (simp add: pause_def Let_def calls_def map_filter_append List.map_filter_simps)

lemma calls_frames:
  "calls (start_attempt env st) = calls st" "calls (snd (select_key env st)) = calls st"
  "calls (record_attempt env st) = calls st" "calls (pause env st) = calls st"
  "calls (fill_reason e st) = calls st" "calls (strip_reasoning env e st) = calls st"
  "calls (mark_key env e st) = calls st" "calls (finish_retries env st) = calls st"
  "calls (st\<lparr>l_attempts := n\<rparr>) = calls st"
  by ((rule calls_log, simp add: log_frames log_select log_mark) | rule calls_pause)+

lemma calls_called: "calls (call_handler env st) =
    calls st @ [(l_key st, snd (settled (env_handler env (l_attempts st) (l_stripped st) (l_key st))))]"
  by (simp add: calls_def call_handler_def case_prod_unfold Let_def map_filter_append List.map_filter_simps)

lemma after_call_calls: "calls (snd (after_call env st)) = calls st"
  by (simp add: after_call_def Let_def calls_frames split: option.split)

lemma error_frames:
  "l_error (fill_reason e st) = l_error st" "l_error (strip_reasoning env e st) = l_error st"
  "l_error (mark_key env e st) = l_error st" "l_error (finish_retries env st) = l_error st"
  by (simp add: fill_reason_def, simp add: strip_reasoning_def, simp add: mark_key_def Let_def, simp add: finish_retries_def)

definition key_of :: "'r retry_env \<Rightarrow> 'r loop \<Rightarrow> Key" where
  "key_of env st = l_key (snd (select_key env (start_attempt env st)))"

lemma key_mark: "l_key (mark_key env e st) = l_key st"
  by (simp add: mark_key_def Let_def)

lemma key_stage_frames:
  "l_key (record_attempt env st) = l_key st" "l_key (pause env st) = l_key st" "l_key (call_handler env st) = l_key st"
  "l_key (fill_reason e st) = l_key st" "l_key (strip_reasoning env e st) = l_key st"
  by (simp add: record_attempt_def, simp add: pause_def Let_def, simp add: call_handler_def case_prod_unfold Let_def,
      simp add: fill_reason_def, simp add: strip_reasoning_def)

lemma key_after: "l_key (snd (after_call env st)) = l_key st"
  by (simp add: after_call_def Let_def key_mark key_stage_frames split: option.split)

lemmas key_frames = key_stage_frames key_mark key_after

lemma called_calls: "calls (called_state env st) = calls st @ [(key_of env st, l_error (called_state env st))]"
  by (simp add: called_state_def calls_called calls_frames key_frames key_of_def)
    (simp add: call_handler_def case_prod_unfold Let_def key_frames)

section \<open>What a failure allows\<close>

text \<open>
  \<open>refused\<close>: some call was refused for the replayed reasoning of a request that carries some. \<open>may_retry\<close>: after the
  given calls, this error leaves something to try.
\<close>

definition refusal :: "call_error \<Rightarrow> bool" where
  "refusal e \<longleftrightarrow> isEncryptedReasoningRejection e \<and> \<not> retryable e"

definition refused :: "'r retry_env \<Rightarrow> retry_event list \<Rightarrow> bool" where
  "refused env evs \<longleftrightarrow> env_carriesReasoning env
     \<and> list_ex (\<lambda>ev. case ev of Called k (Some e) \<Rightarrow> refusal e | _ \<Rightarrow> False) evs"

definition may_retry :: "'r retry_env \<Rightarrow> retry_event list \<Rightarrow> call_error \<Rightarrow> bool" where
  "may_retry env evs e \<longleftrightarrow> \<not> ce_IsBifrostError e \<and> \<not> isCancelled e
     \<and> (retryable e \<or> (refusal e \<and> env_carriesReasoning env \<and> \<not> refused env evs))"

text \<open>Each error of the log but the last one allowed a retry.\<close>

fun retries_allowed :: "'r retry_env \<Rightarrow> retry_event list \<Rightarrow> retry_event list \<Rightarrow> bool" where
  "retries_allowed env seen [] = True"
| "retries_allowed env seen (Called k (Some e) # evs) = (may_retry env seen e \<and> retries_allowed env (seen @ [Called k (Some e)]) evs)"
| "retries_allowed env seen (ev # evs) = retries_allowed env (seen @ [ev]) evs"

lemma retries_allowed_append:
  "retries_allowed env seen (evs @ evs') \<longleftrightarrow> retries_allowed env seen evs \<and> retries_allowed env (seen @ evs) evs'"
  by (induction env seen evs rule: retries_allowed.induct) auto

lemma refused_append: "refused env (evs @ evs') \<longleftrightarrow> refused env evs \<or> refused env evs'"
  by (auto simp: refused_def)

lemma pause_log: "\<exists>ps. l_log (pause env st) = l_log st @ ps \<and> (ps = [] \<or> (\<exists>d. ps = [Slept d]))"
  by (simp add: pause_def Let_def)

lemma slept_allowed:
  assumes "ps = [] \<or> (\<exists>d. ps = [Slept d])"
  shows "retries_allowed env seen ps" "\<not> refused env ps"
  using assms by (auto simp: refused_def)

lemma called_log:
  "\<exists>ps. l_log (called_state env st) = l_log st @ ps @ [Called (key_of env st) (l_error (called_state env st))]
      \<and> (ps = [] \<or> (\<exists>d. ps = [Slept d]))"
proof -
  obtain ps where "l_log (pause env (record_attempt env (snd (select_key env (start_attempt env st))))) = l_log st @ ps"
    "ps = [] \<or> (\<exists>d. ps = [Slept d])"
    using pause_log [of env "record_attempt env (snd (select_key env (start_attempt env st)))"] by (auto simp: log_frames log_select)
  then show ?thesis
    by (intro exI [of _ ps]) (simp add: called_state_def call_handler_def case_prod_unfold Let_def key_frames key_of_def)
qed

lemma called_budget: "budget_of (called_state env st) = budget_of st"
  by (simp add: called_state_def budget_frames)

text \<open>An attempt that calls the provider: what it appends to the log, and when it goes on.\<close>

lemma after_call_end:
  assumes "after_call env c = (v, st')"
  shows "l_log st' = l_log c"
    and "v = Again \<longleftrightarrow> (\<exists>e. l_error c = Some e \<and> \<not> ce_IsBifrostError e \<and> \<not> isCancelled e
      \<and> (retryable e \<or> (refusal e \<and> env_carriesReasoning env \<and> \<not> l_stripped c)))"
    and "l_stripped st' \<longleftrightarrow> l_stripped c \<or> (\<exists>e. l_error c = Some e \<and> \<not> ce_IsBifrostError e \<and> \<not> isCancelled e
      \<and> refusal e \<and> env_carriesReasoning env)"
    and "v \<noteq> Abort" and "l_error st' = l_error c"
proof -
  have f: "l_stripped (fill_reason e s) = l_stripped s" for e and s :: "'a loop" by (simp add: fill_reason_def)
  show "v = Again \<longleftrightarrow> (\<exists>e. l_error c = Some e \<and> \<not> ce_IsBifrostError e \<and> \<not> isCancelled e
      \<and> (retryable e \<or> (refusal e \<and> env_carriesReasoning env \<and> \<not> l_stripped c)))"
    using assms by (auto simp: after_call_def Let_def strip_reasoning_def f refusal_def split: option.splits if_splits)
  show "l_stripped st' \<longleftrightarrow> l_stripped c \<or> (\<exists>e. l_error c = Some e \<and> \<not> ce_IsBifrostError e \<and> \<not> isCancelled e
      \<and> refusal e \<and> env_carriesReasoning env)"
    using assms by (auto simp: after_call_def Let_def strip_reasoning_def f mark_key_def refusal_def split: option.splits if_splits)
  show "l_log st' = l_log c" "v \<noteq> Abort" "l_error st' = l_error c"
    using assms by (auto simp: after_call_def Let_def log_frames log_mark error_frames split: option.splits if_splits)
qed

definition retry_inv :: "'r retry_env \<Rightarrow> 'r loop \<Rightarrow> bool" where
  "retry_inv env st \<longleftrightarrow> retries_allowed env [] (l_log st) \<and> (l_stripped st \<longleftrightarrow> refused env (l_log st))"

text \<open>
  One attempt keeps the invariant when it goes on; when it ends the loop, the errors before its own allowed a retry,
  and its own is the error of the request.
\<close>

definition ends_well :: "'r retry_env \<Rightarrow> 'r loop \<Rightarrow> bool" where
  "ends_well env st \<longleftrightarrow> retries_allowed env [] (l_log st)
     \<or> (\<exists>evs k e. l_log st = evs @ [Called k (Some e)] \<and> retries_allowed env [] evs \<and> l_error st = Some e)"

lemma ends_well_finish: "ends_well env (finish_retries env st) = ends_well env st"
  by (simp add: ends_well_def log_frames error_frames)

lemma attempt_retry_inv:
  assumes "attempt env st = (v, st')" "env_tracer env" "retry_inv env st"
  shows "(v = Again \<longrightarrow> retry_inv env st') \<and> ends_well env st' \<and> (l_stripped st' \<longrightarrow> refused env (l_log st'))"
  using assms(1,2)
proof (cases rule: attempt_cases)
  case no_key
  then have "l_log st' = l_log st" "l_stripped st' = l_stripped st"
    using budget_frames(1) [of env st] budget_frames(2) [of env "start_attempt env st"]
    by (simp_all add: log_select log_frames budget_of_def)
  then show ?thesis using assms(3) no_key(2) by (simp add: retry_inv_def ends_well_def)
next
  case called
  let ?c = "called_state env st"
  note ac = after_call_end [OF called(2)]
  obtain ps where l: "l_log ?c = l_log st @ ps @ [Called (key_of env st) (l_error ?c)]" "ps = [] \<or> (\<exists>d. ps = [Slept d])"
    using called_log [of env st] by blast
  have s: "l_stripped ?c = refused env (l_log st)"
    using called_budget [of env st] assms(3) by (simp add: retry_inv_def budget_of_def)
  have pre: "retries_allowed env [] (l_log st @ ps)" "refused env (l_log st @ ps) = refused env (l_log st)"
    using assms(3) by (simp_all add: retry_inv_def retries_allowed_append refused_append slept_allowed [OF l(2)])
  show ?thesis
  proof (cases "l_error ?c")
    case None
    have "retries_allowed env [] (l_log st')" using pre None by (simp add: ac(1) l(1) retries_allowed_append)
    moreover have "v \<noteq> Again" "l_stripped st' \<longrightarrow> refused env (l_log st')" using ac None s by (simp_all add: l(1) refused_append)
    ultimately show ?thesis by (simp add: ends_well_def)
  next
    case (Some e)
    have "l_log st' = (l_log st @ ps) @ [Called (key_of env st) (Some e)]" "l_error st' = Some e" using Some by (simp_all add: ac l(1))
    then have "ends_well env st'" using pre(1) unfolding ends_well_def by blast
    moreover have "refused env (l_log st') \<longleftrightarrow> refused env (l_log st) \<or> (env_carriesReasoning env \<and> refusal e)"
      using Some by (simp add: ac(1) l(1) refused_append slept_allowed [OF l(2)]) (auto simp: refused_def)
    moreover have "retries_allowed env [] (l_log st') \<longleftrightarrow> may_retry env (l_log st @ ps) e"
      using Some pre by (simp add: ac(1) l(1) retries_allowed_append)
    ultimately show ?thesis using ac(2,3) Some s pre(2) by (auto simp: retry_inv_def may_retry_def)
  qed
qed

section \<open>The number of attempts\<close>

lemma attempts_inv:
  assumes "attempt env st = (v, st')" "env_tracer env"
    and "length (calls st) = l_attempts st" "l_extraAttempts st = (if l_stripped st then 1 else 0)"
  shows "length (calls st') \<le> Suc (l_attempts st) \<and> (v \<noteq> Abort \<longrightarrow> length (calls st') = Suc (l_attempts st))
    \<and> l_attempts st' = l_attempts st \<and> l_extraAttempts st' = (if l_stripped st' then 1 else 0)"
proof -
  have b: "l_attempts st' = l_attempts st \<and> l_extraAttempts st' = (if l_stripped st' then 1 else 0)"
    using attempt_budget [OF assms(1)] assms(4) by (auto simp: budget_of_def)
  from assms(1,2) show ?thesis
  proof (cases rule: attempt_cases)
    case no_key
    then show ?thesis using b assms(3) by (simp add: calls_frames)
  next
    case called
    have "calls st' = calls (called_state env st)" using after_call_calls [of env "called_state env st"] called(2) by simp
    then show ?thesis using b assms(3) by (simp add: called_calls)
  qed
qed

lemma attempt_growth: "attempt env st = (v, st') \<Longrightarrow> env_tracer env \<Longrightarrow> refused env (l_log st) \<Longrightarrow> refused env (l_log st')"
proof (erule attempt_cases)
  show "env_tracer env \<Longrightarrow> refused env (l_log st) \<Longrightarrow> env_tracer env" .
qed (use called_log [of env st] in \<open>auto simp: refused_append log_select log_frames dest: after_call_end(1)\<close>)

section \<open>The trail of attempts\<close>

definition reason_of :: "call_error option \<Rightarrow> string option" where
  "reason_of err = (case err of None \<Rightarrow> None
     | Some e \<Rightarrow> if ce_IsBifrostError e \<or> isCancelled e then None else Some (failReason e))"

definition trail_matches :: "KeyAttemptRecord list \<Rightarrow> (Key \<times> call_error option) list \<Rightarrow> bool" where
  "trail_matches = list_all2 (\<lambda>r (k, e). ka_KeyID r = key_ID k \<and> ka_FailReason r = reason_of e)"

lemma trail_matches_update:
  assumes "trail_matches t cs"
  shows "trail_matches (t[i := (t ! i)\<lparr>ka_TriggeredRotation := b\<rparr>]) cs"
proof (cases "i < length t")
  case True
  have "case cs ! i of (k, e) \<Rightarrow> ka_KeyID (t ! i) = key_ID k \<and> ka_FailReason (t ! i) = reason_of e"
    using list_all2_nthD [OF assms [unfolded trail_matches_def] True] .
  then have "trail_matches (t[i := (t ! i)\<lparr>ka_TriggeredRotation := b\<rparr>]) (cs[i := cs ! i])"
    using assms unfolding trail_matches_def by (intro list_all2_update_cong) (auto split: prod.splits)
  then show ?thesis by simp
next
  case False
  then show ?thesis using assms by (simp add: list_update_beyond)
qed

lemma trail_matches_snoc: "trail_matches (t @ [r]) (cs @ [(k, e)]) \<longleftrightarrow>
    trail_matches t cs \<and> ka_KeyID r = key_ID k \<and> ka_FailReason r = reason_of e"
proof (cases "length t = length cs")
  case False
  then show ?thesis by (auto simp: trail_matches_def dest!: list_all2_lengthD)
qed (simp add: trail_matches_def list_all2_append)

lemma trail_mark: "l_trail (mark_key env e st) = l_trail st"
  by (simp add: mark_key_def Let_def)

lemma trail_stage_frames:
  "l_trail (pause env st) = l_trail st" "l_trail (call_handler env st) = l_trail st"
  "l_trail (strip_reasoning env e st) = l_trail st" "l_trail (finish_retries env st) = l_trail st"
  by (simp add: pause_def Let_def, simp add: call_handler_def Let_def case_prod_unfold,
      simp add: strip_reasoning_def, simp add: finish_retries_def)

lemmas trail_frames = trail_mark trail_stage_frames

lemma select_trail: "trail_matches (l_trail st) cs \<Longrightarrow> trail_matches (l_trail (snd (select_key env st))) cs"
  by (auto simp: select_key_def resolve_rotation_def trail_matches_update split: option.split prod.split sum.split)

lemma attempt_trail:
  assumes "attempt env st = (v, st')" "env_tracer env" "env_keyProvider env = Some p"
    and "if l_attempts st = 0 then calls st = [] else trail_matches (l_trail st) (calls st)"
  shows "trail_matches (l_trail st') (calls st')"
proof -
  let ?s = "snd (select_key env (start_attempt env st))"
  have "trail_matches (l_trail (start_attempt env st)) (calls st)"
    using assms(3,4) by (simp add: start_attempt_def Let_def trail_matches_def split: if_splits)
  then have m: "trail_matches (l_trail ?s) (calls st)" by (rule select_trail)
  from assms(1,2) show ?thesis
  proof (cases rule: attempt_cases)
    case no_key
    then show ?thesis using m by (simp add: calls_frames)
  next
    case called
    let ?c = "called_state env st"
    obtain r where r: "l_trail ?c = l_trail ?s @ [r]" "ka_KeyID r = key_ID (key_of env st)" "ka_FailReason r = None"
      using assms(3) by (auto simp: called_state_def trail_frames record_attempt_def key_of_def)
    have c: "calls st' = calls st @ [(key_of env st, l_error ?c)]"
      using after_call_calls [of env ?c] called(2) by (simp add: called_calls)
    have "\<exists>r'. l_trail st' = l_trail ?s @ [r'] \<and> ka_KeyID r' = ka_KeyID r \<and> ka_FailReason r' = reason_of (l_error ?c)"
      using called(2) r
      by (auto simp: after_call_def reason_of_def Let_def trail_frames fill_reason_def split: option.splits if_splits)
    then show ?thesis using m r(2) by (auto simp: c trail_matches_snoc)
  qed
qed

section \<open>The selected key\<close>

definition id_name :: "Key \<Rightarrow> string \<times> string" where
  "id_name k = (key_ID k, key_Name k)"

lemma selected_stage_frames:
  "l_SelectedKey (record_attempt env st) = l_SelectedKey st" "l_SelectedKey (pause env st) = l_SelectedKey st"
  "l_SelectedKey (call_handler env st) = l_SelectedKey st" "l_SelectedKey (start_attempt env st) = l_SelectedKey st"
  "l_SelectedKey (fill_reason e st) = l_SelectedKey st" "l_SelectedKey (strip_reasoning env e st) = l_SelectedKey st"
  "l_SelectedKey (mark_key env e st) = l_SelectedKey st"
  by (simp add: record_attempt_def, simp add: pause_def Let_def, simp add: call_handler_def case_prod_unfold Let_def,
      simp add: start_attempt_def Let_def, simp add: fill_reason_def, simp add: strip_reasoning_def, simp add: mark_key_def Let_def)

lemma after_call_frames:
  "l_SelectedKey (snd (after_call env st)) = l_SelectedKey st" "l_error (snd (after_call env st)) = l_error st"
  by (simp_all add: after_call_def Let_def selected_stage_frames error_frames split: option.split)

lemma select_key_selected:
  assumes "env_keyProvider env = Some p" "fst (select_key env st)"
    and "l_attempts st = 0 \<or> l_SelectedKey st = Some (id_name (l_key st))"
  shows "l_SelectedKey (snd (select_key env st)) = Some (id_name (l_key (snd (select_key env st))))"
proof -
  obtain used r where r: "p (l_attempts st) (l_used st) (l_dead st) = (used, r)" by fastforce
  show ?thesis
  proof (cases "l_attempts st = 0 \<or> l_lastWasPerKeyFailure st")
    case True
    then obtain k where "r = Inr k" using assms(1,2) r by (cases r) (auto simp: select_key_def)
    then show ?thesis using True assms(1) r by (simp add: select_key_def resolve_rotation_def id_name_def split: option.split)
  next
    case False
    then show ?thesis using assms(1,3) by (simp add: select_key_def)
  qed
qed

lemma attempt_selected:
  assumes "attempt env st = (v, st')" "env_tracer env" "env_keyProvider env = Some p"
    and "l_attempts st = 0 \<or> l_SelectedKey st = Some (id_name (l_key st))"
  shows "(v = Abort \<longrightarrow> l_SelectedKey st' = None \<and> l_error st' \<noteq> None)
    \<and> (v \<noteq> Abort \<longrightarrow> l_SelectedKey st' = Some (id_name (l_key st')) \<and> calls st' \<noteq> []
        \<and> last (calls st') = (l_key st', l_error st') \<and> (v = Again \<longrightarrow> l_error st' \<noteq> None))"
proof -
  have s: "l_attempts (start_attempt env st) = l_attempts st" "l_key (start_attempt env st) = l_key st"
      "l_SelectedKey (start_attempt env st) = l_SelectedKey st"
    by (simp_all add: start_attempt_def Let_def)
  from assms(1,2) show ?thesis
  proof (cases rule: attempt_cases)
    case no_key
    then show ?thesis
      using assms(3) by (auto simp: select_key_def split: prod.splits sum.splits if_splits)
  next
    case called
    let ?c = "called_state env st"
    have "l_SelectedKey ?c = Some (id_name (key_of env st))"
      using select_key_selected [OF assms(3) called(1)] assms(4) by (simp add: called_state_def selected_stage_frames key_of_def s)
    moreover have "l_key ?c = key_of env st" by (simp add: called_state_def key_frames key_of_def)
    then have "l_key st' = key_of env st" using key_frames(7) [of env ?c] called(2) by simp
    moreover have "l_error st' = l_error ?c" "l_SelectedKey st' = l_SelectedKey ?c" "calls st' = calls ?c"
      using after_call_frames [of env ?c] after_call_calls [of env ?c] called(2) by simp_all
    moreover have "v \<noteq> Abort" "v = Again \<longrightarrow> l_error ?c \<noteq> None"
      using called(2) by (auto simp: after_call_def Let_def split: option.splits if_splits)
    ultimately show ?thesis by (simp add: called_calls)
  qed
qed

section \<open>Keys that failed for good\<close>

definition spares_dead :: "(Key \<times> call_error option) list \<Rightarrow> bool" where
  "spares_dead = sorted_wrt (\<lambda>(k, e) (k', _). (case e of None \<Rightarrow> False | Some x \<Rightarrow> isPermanentKeyFailure x) \<longrightarrow> key_ID k' \<noteq> key_ID k)"

definition dead_inv :: "'r loop \<Rightarrow> bool" where
  "dead_inv st \<longleftrightarrow> spares_dead (calls st)
     \<and> (\<forall>(k, e) \<in> set (calls st). (case e of None \<Rightarrow> False | Some x \<Rightarrow> isPermanentKeyFailure x) \<longrightarrow> key_ID k \<in> set (l_dead st))
     \<and> (0 < l_attempts st \<longrightarrow> \<not> l_lastWasPerKeyFailure st \<longrightarrow> key_ID (l_key st) \<notin> set (l_dead st))"

lemma dead_select: "l_dead (snd (select_key env st)) = l_dead st"
  by (simp add: select_key_def resolve_rotation_def split: option.split prod.split sum.split)

lemma dead_stage_frames:
  "l_dead (start_attempt env st) = l_dead st" "l_dead (record_attempt env st) = l_dead st"
  "l_dead (pause env st) = l_dead st" "l_dead (call_handler env st) = l_dead st"
  "l_dead (fill_reason e st) = l_dead st" "l_dead (strip_reasoning env e st) = l_dead st"
  by (simp add: start_attempt_def Let_def, simp add: record_attempt_def, simp add: pause_def Let_def,
      simp add: call_handler_def Let_def case_prod_unfold, simp add: fill_reason_def, simp add: strip_reasoning_def)

lemmas dead_frames = dead_select dead_stage_frames

text \<open>The contract of a key provider: its keys come from its pool, and it never returns a dead one.\<close>

locale key_provider =
  fixes provider :: key_provider and pool :: "Key list"
  assumes from_pool: "snd (provider a used dead) = Inr k \<Longrightarrow> k \<in> set pool"
    and not_dead: "snd (provider a used dead) = Inr k \<Longrightarrow> key_ID k \<notin> set dead"
begin

lemma key_not_dead:
  assumes "env_keyProvider env = Some provider" "dead_inv st" "fst (select_key env (start_attempt env st))"
  shows "key_ID (key_of env st) \<notin> set (l_dead st)"
proof -
  have s: "l_attempts (start_attempt env st) = l_attempts st" "l_key (start_attempt env st) = l_key st"
      "l_lastWasPerKeyFailure (start_attempt env st) = l_lastWasPerKeyFailure st" "l_dead (start_attempt env st) = l_dead st"
    by (simp_all add: start_attempt_def Let_def)
  show ?thesis
  proof (cases "l_attempts st = 0 \<or> l_lastWasPerKeyFailure st")
    case False
    then show ?thesis using assms(1,2) by (simp add: key_of_def select_key_def s dead_inv_def)
  next
    case True
    obtain used r where r: "provider (l_attempts st) (l_used (start_attempt env st)) (l_dead st) = (used, r)" by fastforce
    then obtain k where k: "r = Inr k" using assms(1,3) True by (cases r) (auto simp: select_key_def s)
    have "key_of env st = k" using assms(1) True r k by (auto simp: key_of_def select_key_def s resolve_rotation_def split: option.split)
    then show ?thesis using not_dead [of "l_attempts st" "l_used (start_attempt env st)" "l_dead st" k] r k by simp
  qed
qed

lemma attempt_dead:
  assumes "attempt env st = (v, st')" "env_tracer env" "env_keyProvider env = Some provider" "dead_inv st"
  shows "spares_dead (calls st') \<and> (v = Again \<longrightarrow> dead_inv (st'\<lparr>l_attempts := n\<rparr>))"
  using assms(1,2)
proof (cases rule: attempt_cases)
  case no_key
  then show ?thesis using assms(4) by (simp add: calls_frames dead_inv_def)
next
  case called
  let ?c = "called_state env st" and ?k = "key_of env st"
  have c: "calls st' = calls st @ [(?k, l_error ?c)]"
    using after_call_calls [of env ?c] called(2) by (simp add: called_calls)
  have d: "l_dead ?c = l_dead st" "l_key ?c = ?k" by (simp_all add: called_state_def dead_frames key_frames key_of_def)
  have nd: "key_ID ?k \<notin> set (l_dead st)" by (rule key_not_dead [OF assms(3,4) called(1)])
  have sp: "spares_dead (calls st')"
    using assms(4) nd by (fastforce simp: c spares_dead_def dead_inv_def sorted_wrt_append)
  have "dead_inv (st'\<lparr>l_attempts := n\<rparr>)" if ag: "v = Again"
  proof -
    obtain e where e: "l_error ?c = Some e" "st' = mark_key env e (strip_reasoning env e (fill_reason e ?c))"
      using called(2) ag by (auto simp: after_call_def Let_def split: option.splits if_splits)
    have m: "l_dead st' = (if isPermanentKeyFailure e then key_ID ?k # l_dead st else l_dead st)"
        "l_lastWasPerKeyFailure st' = isPerKeyFailure e" "l_key st' = ?k"
      using assms(3) by (auto simp: e(2) mark_key_def Let_def dead_frames d key_frames isPermanentKeyFailure_def)
    have "\<forall>(k, x) \<in> set (calls st'). (case x of None \<Rightarrow> False | Some y \<Rightarrow> isPermanentKeyFailure y) \<longrightarrow> key_ID k \<in> set (l_dead st')"
      using assms(4) by (auto simp: c m(1) e(1) dead_inv_def)
    moreover have "\<not> l_lastWasPerKeyFailure st' \<longrightarrow> key_ID (l_key st') \<notin> set (l_dead st')"
      using nd by (auto simp: m isPermanentKeyFailure_def)
    ultimately show ?thesis using sp by (simp add: dead_inv_def calls_frames)
  qed
  then show ?thesis using sp by simp
qed

lemma dead_keys_spared:
  assumes "env_tracer env" "env_keyProvider env = Some provider" "dead_inv st"
  shows "spares_dead (calls (retry_loop env st))"
proof (rule retry_rule [where I = dead_inv and Q = "\<lambda>st. spares_dead (calls st)"])
  note step = attempt_dead [OF _ assms(1,2)]
  show "dead_inv st" by (rule assms(3))
  show "dead_inv (s'\<lparr>l_attempts := Suc (l_attempts s')\<rparr>)" if "dead_inv s" "may_go env s" "attempt env s = (Again, s')" for s s'
    using step [OF that(3,1)] by simp
  show "spares_dead (calls (finish_retries env s'))" if "dead_inv s" "may_go env s" "attempt env s = (Stop, s')" for s s'
    using step [OF that(3,1)] by (simp add: calls_frames)
  show "spares_dead (calls s')" if "dead_inv s" "may_go env s" "attempt env s = (Abort, s')" for s s'
    using step [OF that(3,1)] by simp
  show "spares_dead (calls (finish_retries env s))" if "dead_inv s" "\<not> may_go env s" for s
    using that by (simp add: calls_frames dead_inv_def)
qed

lemma attempt_from_pool:
  assumes "attempt env st = (v, st')" "env_tracer env" "env_keyProvider env = Some provider"
    and "fst ` set (calls st) \<subseteq> set pool" "0 < l_attempts st \<longrightarrow> l_key st \<in> set pool"
  shows "fst ` set (calls st') \<subseteq> set pool \<and> (v \<noteq> Abort \<longrightarrow> l_key st' \<in> set pool)"
  using assms(1,2)
proof (cases rule: attempt_cases)
  case no_key
  then show ?thesis using assms(4) by (simp add: calls_frames)
next
  case called
  have s: "l_attempts (start_attempt env st) = l_attempts st" "l_key (start_attempt env st) = l_key st"
      "l_lastWasPerKeyFailure (start_attempt env st) = l_lastWasPerKeyFailure st" "l_dead (start_attempt env st) = l_dead st"
    by (simp_all add: start_attempt_def Let_def)
  have k: "key_of env st \<in> set pool"
  proof (cases "l_attempts st = 0 \<or> l_lastWasPerKeyFailure st")
    case False
    then show ?thesis using assms(3,5) by (simp add: key_of_def select_key_def s)
  next
    case True
    obtain used r where r: "provider (l_attempts st) (l_used (start_attempt env st)) (l_dead st) = (used, r)" by fastforce
    then obtain k where k: "r = Inr k" using assms(3) called(1) True by (cases r) (auto simp: select_key_def s)
    have "key_of env st = k" using assms(3) True r k by (auto simp: key_of_def select_key_def s resolve_rotation_def split: option.split)
    then show ?thesis using from_pool [of "l_attempts st" "l_used (start_attempt env st)" "l_dead st" k] r k by simp
  qed
  have "calls st' = calls st @ [(key_of env st, l_error (called_state env st))]" "l_key st' = key_of env st"
    using after_call_calls [of env "called_state env st"] key_after [of env "called_state env st"] called(2)
    by (simp_all add: called_calls) (simp add: called_state_def key_frames key_of_def)
  then show ?thesis using assms(4) k by auto
qed

lemma calls_from_pool:
  assumes "env_tracer env" "env_keyProvider env = Some provider"
    and "fst ` set (calls st) \<subseteq> set pool" "0 < l_attempts st \<longrightarrow> l_key st \<in> set pool"
  shows "fst ` set (calls (retry_loop env st)) \<subseteq> set pool"
proof (rule retry_rule [where I = "\<lambda>st. fst ` set (calls st) \<subseteq> set pool \<and> (0 < l_attempts st \<longrightarrow> l_key st \<in> set pool)"
      and Q = "\<lambda>st. fst ` set (calls st) \<subseteq> set pool"])
  note step = attempt_from_pool [OF _ assms(1,2)]
  let ?I = "\<lambda>st. fst ` set (calls st) \<subseteq> set pool \<and> (0 < l_attempts st \<longrightarrow> l_key st \<in> set pool)"
  show "?I st" using assms(3,4) by blast
  show "?I (s'\<lparr>l_attempts := Suc (l_attempts s')\<rparr>)" if "?I s" "may_go env s" "attempt env s = (Again, s')" for s s'
    using step [OF that(3)] that(1) by (simp add: calls_frames)
  show "fst ` set (calls (finish_retries env s')) \<subseteq> set pool" if "?I s" "may_go env s" "attempt env s = (Stop, s')" for s s'
    using step [OF that(3)] that(1) by (simp add: calls_frames)
  show "fst ` set (calls s') \<subseteq> set pool" if "?I s" "may_go env s" "attempt env s = (Abort, s')" for s s'
    using step [OF that(3)] that(1) by simp
  show "fst ` set (calls (finish_retries env s)) \<subseteq> set pool" if "?I s" "\<not> may_go env s" for s
    using that by (simp add: calls_frames)
qed

end

text \<open>The closures of \<open>requestWorker\<close> keep the contract.\<close>

interpretation fixed: key_provider "fixed_provider k" "[k]" for k
  by unfold_locales (auto simp: fixed_provider_def split: if_splits)

lemma rotating_contract:
  assumes sel: "\<And>a ks k. selector a ks = Inr k \<Longrightarrow> k \<in> set ks"
    and hook: "\<And>a b f ks ks'. hook a b = Some f \<Longrightarrow> f ks = Inr ks' \<Longrightarrow> set ks' \<subseteq> set ks"
  shows "key_provider (rotating_provider provKey pool hook selector) pool"
proof -
  have sub: "set (filtered (hook a b) ks) \<subseteq> set ks" for a b ks
    by (cases "hook a b") (auto simp: filtered_def dest: hook split: sum.splits)
  have "k \<in> set pool \<and> key_ID k \<notin> set dead" if "snd (rotating_provider provKey pool hook selector a used dead) = Inr k" for a used dead k
  proof -
    have "\<exists>ks. selector a ks = Inr k \<and> set ks \<subseteq> {k \<in> set pool. key_ID k \<notin> set dead}"
      using that sub [of a False "filter (\<lambda>k. key_ID k \<notin> set dead \<and> key_ID k \<notin> set used) pool"]
        sub [of a True "filter (\<lambda>k. key_ID k \<notin> set dead) pool"]
      by (auto simp: rotating_provider_def Let_def split: if_splits sum.splits err.splits)
    then show ?thesis using sel by blast
  qed
  then show ?thesis by unfold_locales auto
qed

text \<open>The selector of the code: a weighted draw, where \<open>draw a n\<close> is the number drawn below \<open>n\<close>.\<close>

definition weighted_selector :: "(f64 \<Rightarrow> int) \<Rightarrow> (nat \<Rightarrow> int) \<Rightarrow> nat \<Rightarrow> Key list \<Rightarrow> err + Key" where
  "weighted_selector scaled draw a ks =
     (case WeightedRandom scaled (\<lambda>n. draw a mod n) ks of Some k \<Rightarrow> Inr k | None \<Rightarrow> Inl (Err ''no key drawn''))"

lemma WeightedRandom_mem: "WeightedRandom scaled (\<lambda>n. d mod n) ks = Some k \<Longrightarrow> k \<in> set ks"
proof -
  assume w: "WeightedRandom scaled (\<lambda>n. d mod n) ks = Some k"
  have "ks ! nat (d mod int (length ks)) \<in> set ks" if "ks \<noteq> []"
    using that by (intro nth_mem) (simp add: nat_less_iff)
  then show ?thesis using w pick_mem
    by (auto simp: WeightedRandom_def Let_def intn_def split: if_splits option.splits list.splits)
qed

interpretation weighted: key_provider "rotating_provider provKey pool (\<lambda>_ _. None) (weighted_selector scaled draw)" pool
  for provKey pool scaled draw
  by (rule rotating_contract) (auto simp: weighted_selector_def dest: WeightedRandom_mem split: option.splits)

section \<open>The properties\<close>

text \<open>
  C12: The provider is called at most once more than the configured number of retries, and once again only
  when a call of this request was refused for the replayed reasoning the request carries, which could be stripped.
\<close>

theorem attempts_bounded:
  assumes "0 \<le> env_MaxRetries env" "env_tracer env" "executeRequestWithRetries env trail selected = res"
  shows "int (length (calls res)) \<le> env_MaxRetries env + 1 + (if refused env (l_log res) then 1 else 0)"
proof -
  let ?B = "\<lambda>st. env_MaxRetries env + 1 + (if refused env (l_log st) then 1 else 0)"
  let ?I = "\<lambda>st. retry_inv env st \<and> length (calls st) = l_attempts st \<and> l_extraAttempts st = (if l_stripped st then 1 else 0)
    \<and> int (l_attempts st) \<le> ?B st"
  let ?Q = "\<lambda>st. int (length (calls st)) \<le> ?B st"
  have step: "int (length (calls s')) \<le> ?B s' \<and> (v = Again \<longrightarrow> ?I (s'\<lparr>l_attempts := Suc (l_attempts s')\<rparr>))"
    if i: "?I s" and g: "may_go env s" and a: "attempt env s = (v, s')" for s v s'
  proof -
    have r: "retry_inv env s" and l: "length (calls s) = l_attempts s" and x: "l_extraAttempts s = (if l_stripped s then 1 else 0)"
      using i by blast+
    have "int (Suc (l_attempts s)) \<le> env_MaxRetries env + 1 + (if refused env (l_log s) then 1 else 0)"
      using g x r by (auto simp: may_go_def retry_inv_def)
    then have b: "int (Suc (l_attempts s)) \<le> ?B s'" using attempt_growth [OF a assms(2)] by (auto split: if_splits)
    have frame: "retry_inv env (t\<lparr>l_attempts := n\<rparr>) = retry_inv env t" for t :: "'a loop" and n by (simp add: retry_inv_def)
    show ?thesis using attempts_inv [OF a assms(2) l x] attempt_retry_inv [OF a assms(2) r] b by (auto simp: calls_frames frame)
  qed
  show ?thesis unfolding assms(3) [symmetric] executeRequestWithRetries_def
  proof (rule retry_rule [where I = ?I and Q = ?Q])
    show "?I (s'\<lparr>l_attempts := Suc (l_attempts s')\<rparr>)" if "?I s" "may_go env s" "attempt env s = (Again, s')" for s s'
      using step [OF that] by blast
    show "?Q (finish_retries env s')" if "?I s" "may_go env s" "attempt env s = (Stop, s')" for s s'
      using step [OF that] by (simp add: calls_frames log_frames)
    show "?Q s'" if "?I s" "may_go env s" "attempt env s = (Abort, s')" for s s' using step [OF that] by blast
    show "?Q (finish_retries env s)" if "?I s" "\<not> may_go env s" for s using that by (simp add: calls_frames log_frames)
  qed (use assms(1) in \<open>simp add: calls_def List.map_filter_simps retry_inv_def refused_def\<close>)
qed

text \<open>
  The audit trail is the truth: it has one record for each call of the provider, in order, with the
  key used and, when the call failed for a reason other than the gateway's own or the caller's, why it failed.
\<close>

theorem trail_records_calls:
  assumes "0 \<le> env_MaxRetries env" "env_tracer env" "env_keyProvider env = Some p"
  shows "trail_matches (l_trail (executeRequestWithRetries env trail selected))
    (calls (executeRequestWithRetries env trail selected))"
proof -
  let ?I = "\<lambda>st. (if l_attempts st = 0 then calls st = [] else trail_matches (l_trail st) (calls st)) \<and> 0 \<le> l_extraAttempts st"
  let ?Q = "\<lambda>st. trail_matches (l_trail st) (calls st)"
  show ?thesis unfolding executeRequestWithRetries_def
  proof (rule retry_rule [where I = ?I and Q = ?Q])
    show "?I (s'\<lparr>l_attempts := Suc (l_attempts s')\<rparr>)" if "?I s" "may_go env s" "attempt env s = (Again, s')" for s s'
      using attempt_trail [OF that(3) assms(2,3)] attempt_budget [OF that(3)] that(1)
      by (auto simp: calls_frames budget_of_def)
    show "?Q (finish_retries env s')" if "?I s" "may_go env s" "attempt env s = (Stop, s')" for s s'
      using attempt_trail [OF that(3) assms(2,3)] that(1) by (simp add: calls_frames trail_frames)
    show "?Q s'" if "?I s" "may_go env s" "attempt env s = (Abort, s')" for s s'
      using attempt_trail [OF that(3) assms(2,3)] that(1) by simp
    show "?Q (finish_retries env s)" if "?I s" "\<not> may_go env s" for s
      using that assms(1) by (cases "l_attempts s = 0") (auto simp: calls_frames trail_frames may_go_def)
  qed (simp add: calls_def List.map_filter_simps)
qed

text \<open>
  A selected key is reported exactly when a call succeeded, and then it is the key of that call, the last one.
\<close>

theorem selected_key_iff_success:
  fixes env :: "'r retry_env"
  assumes "0 \<le> env_MaxRetries env" "env_tracer env" "env_keyProvider env = Some p"
    and res: "executeRequestWithRetries env trail selected = res"
  shows "(l_error res = None \<longleftrightarrow> l_SelectedKey res \<noteq> None)
    \<and> (l_error res = None \<longrightarrow> (\<exists>k. calls res \<noteq> [] \<and> last (calls res) = (k, None) \<and> l_SelectedKey res = Some (key_ID k, key_Name k)))"
proof -
  let ?I = "\<lambda>st :: 'r loop. 0 \<le> l_extraAttempts st
    \<and> (0 < l_attempts st \<longrightarrow> l_SelectedKey st = Some (id_name (l_key st)) \<and> l_error st \<noteq> None)"
  let ?Q = "\<lambda>st :: 'r loop. (l_error st = None \<longleftrightarrow> l_SelectedKey st \<noteq> None)
    \<and> (l_error st = None \<longrightarrow> (\<exists>k. calls st \<noteq> [] \<and> last (calls st) = (k, None) \<and> l_SelectedKey st = Some (key_ID k, key_Name k)))"
  have sel: "l_attempts s = 0 \<or> l_SelectedKey s = Some (id_name (l_key s))" if "?I s" for s using that by auto
  have fin: "l_SelectedKey (finish_retries env s) = (if l_error s = None then l_SelectedKey s else None)"
    "l_error (finish_retries env s) = l_error s" for s
    using assms(3) by (simp_all add: finish_retries_def)
  show ?thesis unfolding res [symmetric] executeRequestWithRetries_def
  proof (rule retry_rule [where I = ?I and Q = ?Q])
    show "?I (s'\<lparr>l_attempts := Suc (l_attempts s')\<rparr>)" if "?I s" "may_go env s" "attempt env s = (Again, s')" for s s'
      using attempt_selected [OF that(3) assms(2,3) sel [OF that(1)]] attempt_budget [OF that(3)] that(1)
      by (auto simp: budget_of_def)
    show "?Q (finish_retries env s')" if "?I s" "may_go env s" "attempt env s = (Stop, s')" for s s'
      using attempt_selected [OF that(3) assms(2,3) sel [OF that(1)]] by (simp add: fin calls_frames id_name_def)
    show "?Q s'" if "?I s" "may_go env s" "attempt env s = (Abort, s')" for s s'
      using attempt_selected [OF that(3) assms(2,3) sel [OF that(1)]] by simp
    show "?Q (finish_retries env s)" if "?I s" "\<not> may_go env s" for s
      using that assms(1) by (cases "l_attempts s = 0") (auto simp: fin may_go_def)
  qed simp
qed

text \<open>
  C11: A key that failed for good -- with status 401, 402 or 403 -- is not used again by the request, with any
  selector that selects from what it is given and any filter of the pool that only removes keys.
\<close>

theorem failed_key_not_reused:
  assumes "env_tracer env" "env_keyProvider env = Some (rotating_provider provKey pool hook selector)"
    and "\<And>a ks k. selector a ks = Inr k \<Longrightarrow> k \<in> set ks"
    and "\<And>a b f ks ks'. hook a b = Some f \<Longrightarrow> f ks = Inr ks' \<Longrightarrow> set ks' \<subseteq> set ks"
    and "calls (executeRequestWithRetries env trail selected) = cs"
    and "i < j" "j < length cs" "snd (cs ! i) = Some e" "isPermanentKeyFailure e"
  shows "key_ID (fst (cs ! j)) \<noteq> key_ID (fst (cs ! i))"
proof -
  have "key_provider (rotating_provider provKey pool hook selector) pool"
    using rotating_contract [of selector hook provKey pool] assms(3,4) by simp
  then have "spares_dead cs"
    unfolding assms(5) [symmetric] executeRequestWithRetries_def
    by (rule key_provider.dead_keys_spared [OF _ assms(1,2)])
      (simp_all add: dead_inv_def calls_def List.map_filter_simps spares_dead_def)
  from sorted_wrt_nth_less [OF this [unfolded spares_dead_def] assms(6,7)] show ?thesis
    using assms(8,9) by (simp add: case_prod_unfold)
qed

text \<open>
  A rate-limited key rests while others are left: without a filter, the provider of a rotating pool returns a key
  that has neither failed for good nor been rate-limited in this round while there is one; when there is none it starts
  a new round among the keys that have not failed for good, and it gives up exactly when all have.
\<close>

theorem limited_keys_rest:
  assumes "\<And>ks k. selector a ks = Inr k \<Longrightarrow> k \<in> set ks" "\<And>ks. ks \<noteq> [] \<Longrightarrow> \<exists>k. selector a ks = Inr k"
  shows "case rotating_provider provKey pool (\<lambda>_ _. None) selector a used dead of (used', r) \<Rightarrow>
     if \<exists>k \<in> set pool. key_ID k \<notin> set dead \<and> key_ID k \<notin> set used
     then used' = used \<and> (\<exists>k \<in> set pool. r = Inr k \<and> key_ID k \<notin> set dead \<and> key_ID k \<notin> set used)
     else if \<exists>k \<in> set pool. key_ID k \<notin> set dead
     then used' = [] \<and> (\<exists>k \<in> set pool. r = Inr k \<and> key_ID k \<notin> set dead)
     else used' = used \<and> r = Inl (AllKeysDead (errAllKeysDead @ '': provider '' @ provKey))"
proof -
  let ?av = "filter (\<lambda>k. key_ID k \<notin> set dead \<and> key_ID k \<notin> set used) pool"
  let ?al = "filter (\<lambda>k. key_ID k \<notin> set dead) pool"
  have pick: "\<exists>k \<in> set ks. (case selector a ks of Inl (Err m) \<Rightarrow> Inl (SelectorError m) | Inr k \<Rightarrow> Inr k) = Inr k" if "ks \<noteq> []" for ks
    using assms that by fastforce
  have ne: "?av \<noteq> [] \<longleftrightarrow> (\<exists>k \<in> set pool. key_ID k \<notin> set dead \<and> key_ID k \<notin> set used)"
    "?al \<noteq> [] \<longleftrightarrow> (\<exists>k \<in> set pool. key_ID k \<notin> set dead)"
    by (auto simp: filter_empty_conv)
  show ?thesis
    using pick [of ?av] pick [of ?al] unfolding ne [symmetric]
    by (auto simp: rotating_provider_def filtered_def Let_def)
qed

text \<open>
  The pause before a retry is exponential with jitter and capped: it never exceeds the configured maximum, and when
  the exponential stays in 64 bits it is at least four fifths of the smaller of the exponential and the maximum.
\<close>

theorem calculateBackoff_bounds:
  assumes "0 \<le> initial" "0 \<le> maximum" "n < 63" "initial * 2 ^ n < 2 ^ 63"
    and "\<And>b. 0 \<le> b \<Longrightarrow> 4 * b \<le> 5 * jitter b"
  shows "calculateBackoff jitter n initial maximum \<le> maximum
    \<and> 4 * min (initial * 2 ^ n) maximum \<le> 5 * calculateBackoff jitter n initial maximum"
proof -
  have small: "wrap64 x = x" if "0 \<le> x" "x < 2 ^ 63" for x using that by (simp add: wrap64_def)
  have "(2::int) ^ n < 2 ^ 63" using assms(3) by (intro power_strict_increasing) simp_all
  then have p: "wrap64 (2 ^ n) = 2 ^ n" by (intro small) simp_all
  have w: "wrap64 (initial * 2 ^ n) = initial * 2 ^ n" using assms(1,4) by (intro small) simp_all
  define b where "b = min (initial * 2 ^ n) maximum"
  have "4 * b \<le> 5 * jitter b" "b \<le> maximum" "0 \<le> maximum" using assms(1,2,5) by (simp_all add: b_def)
  then show ?thesis by (simp add: calculateBackoff_def p w Let_def flip: b_def)
qed

theorem calculateBackoff_bounds_witness:
  "calculateBackoff (\<lambda>b. b) 3 500 5000 \<le> 5000 \<and> 4 * min (500 * 2 ^ 3) 5000 \<le> 5 * calculateBackoff (\<lambda>b. b) 3 500 5000"
  using calculateBackoff_bounds [of 500 5000 3 "\<lambda>b. b"] by simp

text \<open>
  The cap does not hold the other way: with the default initial backoff of half a second the exponential leaves the
  64 bits of a duration at the thirty-sixth retry, the capped value is negative, and the loop does not pause at all.
\<close>

theorem backoff_overflows:
  "calculateBackoff (\<lambda>b. b) 35 (500 * 10 ^ 6) (5 * 10 ^ 9) < 0 \<and> 0 < calculateBackoff (\<lambda>b. b) 34 (500 * 10 ^ 6) (5 * 10 ^ 9)"
  by (simp add: calculateBackoff_def wrap64_def)

text \<open>
  A negative number of retries answers nothing: the provider is not called, and the caller gets neither a response
  nor an error.
\<close>

theorem negative_retries_answer_nothing:
  assumes "env_MaxRetries env < 0"
  shows "l_log (executeRequestWithRetries env trail selected) = []
    \<and> l_result (executeRequestWithRetries env trail selected) = None
    \<and> l_error (executeRequestWithRetries env trail selected) = None"
  using assms by (simp add: executeRequestWithRetries_def retry_loop.simps finish_retries_def)

lemma ends_well_retries:
  assumes "env_tracer env"
  shows "ends_well env (executeRequestWithRetries env trail selected)"
  unfolding executeRequestWithRetries_def
proof (rule retry_rule [where I = "retry_inv env" and Q = "ends_well env"])
  note step = attempt_retry_inv [OF _ assms]
  show "retry_inv env (s'\<lparr>l_attempts := Suc (l_attempts s')\<rparr>)" if "retry_inv env s" "may_go env s" "attempt env s = (Again, s')" for s s'
    using step [OF that(3,1)] by (simp add: retry_inv_def)
  show "ends_well env (finish_retries env s')" if "retry_inv env s" "may_go env s" "attempt env s = (Stop, s')" for s s'
    using step [OF that(3,1)] by (simp add: ends_well_finish)
  show "ends_well env s'" if "retry_inv env s" "may_go env s" "attempt env s = (Abort, s')" for s s'
    using step [OF that(3,1)] by simp
  show "ends_well env (finish_retries env s)" if "retry_inv env s" "\<not> may_go env s" for s
    using that(1) by (simp only: ends_well_finish) (simp add: ends_well_def retry_inv_def)
qed (simp add: retry_inv_def refused_def)

text \<open>
  C13: A failure that no retry can cure is not retried, at whichever attempt it comes and with whatever key: when a call
  fails with an error of the gateway or of the caller, or with one that is neither transient nor the key's own nor a first
  refusal of replayed reasoning that could be stripped, then it is the last call, nothing is paused for after it, and its error is
  the error of the request.
\<close>

theorem hopeless_errors_not_retried:
  assumes "env_tracer env" "executeRequestWithRetries env trail selected = res"
    and "l_log res = before @ Called key (Some e) # later"
    and "ce_IsBifrostError e \<or> isCancelled e
      \<or> (\<not> retryable e \<and> (isEncryptedReasoningRejection e \<and> env_carriesReasoning env \<longrightarrow> refused env before))"
  shows "later = [] \<and> l_error res = Some e"
proof -
  have bad: "\<not> retries_allowed env [] (before @ Called key (Some e) # evs)" for evs
    using assms(4) by (auto simp: retries_allowed_append may_retry_def refusal_def)
  obtain evs k x where r: "l_log res = evs @ [Called k (Some x)]" "retries_allowed env [] evs" "l_error res = Some x"
    using ends_well_retries [OF assms(1), of trail selected] bad [of later] unfolding assms(2) ends_well_def assms(3) [symmetric] by blast
  show ?thesis
  proof (cases later rule: rev_cases)
    case Nil
    then show ?thesis using r(1,3) assms(3) by simp
  next
    case (snoc ls l)
    then have "evs = before @ Called key (Some e) # ls" using r(1) assms(3) by simp
    then show ?thesis using r(2) bad by blast
  qed
qed

section \<open>A concrete attempt\<close>

definition http_error :: "int \<Rightarrow> call_error" where
  "http_error code = \<lparr>ce_Type = None, ce_IsBifrostError = False, ce_StatusCode = Some code, ce_Error = None, ce_AllowFallbacks = None\<rparr>"

definition first_key :: "nat \<Rightarrow> Key list \<Rightarrow> err + Key" where
  "first_key a ks = (case ks of [] \<Rightarrow> Inl (Err []) | k # _ \<Rightarrow> Inr k)"

definition demo_env :: "string retry_env" where
  "demo_env = \<lparr>env_MaxRetries = 2, env_RetryBackoffInitial = 500, env_RetryBackoffMax = 5000,
     env_keyProvider = Some (rotating_provider ''openai'' [demo_key ''a'', demo_key ''b''] (\<lambda>_ _. None) first_key),
     env_handler = (\<lambda>a stripped k. if key_ID k = ''a'' then Failed (http_error 401)
        else if a < 2 then Failed (http_error 503) else Answered ''ok''),
     env_jitter = (\<lambda>_ b. b), env_carriesReasoning = False, env_tracer = True\<rparr>"

lemma demo_run: "l_log (executeRequestWithRetries demo_env [] None) =
   [Called (demo_key ''a'') (Some (http_error 401)), Called (demo_key ''b'') (Some (http_error 503)), Slept 1000,
    Called (demo_key ''b'') None]"
  by code_simp

lemma demo_calls: "calls (executeRequestWithRetries demo_env [] None) =
   [(demo_key ''a'', Some (http_error 401)), (demo_key ''b'', Some (http_error 503)), (demo_key ''b'', None)]"
  by (simp add: calls_def demo_run List.map_filter_simps)

lemma demo_env_fields:
  "env_MaxRetries demo_env = 2" "env_tracer demo_env" "\<not> env_carriesReasoning demo_env"
  "env_keyProvider demo_env = Some (rotating_provider ''openai'' [demo_key ''a'', demo_key ''b''] (\<lambda>_ _. None) first_key)"
  by (simp_all add: demo_env_def)

theorem attempts_bounded_witness: "int (length (calls (executeRequestWithRetries demo_env [] None))) \<le> 3"
  using attempts_bounded [OF _ demo_env_fields(2) refl, of "[]" None] by (simp add: demo_env_fields refused_def)

theorem trail_records_calls_witness:
  "trail_matches (l_trail (executeRequestWithRetries demo_env [] None))
     [(demo_key ''a'', Some (http_error 401)), (demo_key ''b'', Some (http_error 503)), (demo_key ''b'', None)]"
  using trail_records_calls [OF _ demo_env_fields(2,4), of "[]" None] by (simp add: demo_env_fields demo_calls)

theorem selected_key_iff_success_witness:
  "(l_error (executeRequestWithRetries demo_env [] None) = None) = (l_SelectedKey (executeRequestWithRetries demo_env [] None) \<noteq> None)"
  using selected_key_iff_success [OF _ demo_env_fields(2,4), of "[]" None] by (simp add: demo_env_fields)

lemma first_key_mem: "first_key a ks = Inr k \<Longrightarrow> k \<in> set ks"
  by (simp add: first_key_def split: list.splits)

lemma first_key_some: "ks \<noteq> [] \<Longrightarrow> \<exists>k. first_key a ks = Inr k"
  by (cases ks) (simp_all add: first_key_def)

lemma demo_key_ID: "key_ID (demo_key i) = i"
  by (simp add: demo_key_def)

theorem failed_key_not_reused_witness: "key_ID (demo_key ''b'') \<noteq> key_ID (demo_key ''a'')"
  using failed_key_not_reused [where i = 0 and j = 2, OF demo_env_fields(2,4) first_key_mem _ demo_calls]
  by (simp add: isPermanentKeyFailure_def isPerKeyFailure_def status_in_def http_error_def perKeyFailureStatusCodes_def)

theorem limited_keys_rest_witness:
  "rotating_provider ''openai'' [demo_key ''a'', demo_key ''b''] (\<lambda>_ _. None) first_key 0 [''a''] [] = ([''a''], Inr (demo_key ''b''))
   \<and> rotating_provider ''openai'' [demo_key ''a'', demo_key ''b''] (\<lambda>_ _. None) first_key 0 [] [''a'', ''b''] = ([], Inl (AllKeysDead (errAllKeysDead @ '': provider '' @ ''openai'')))"
proof
  show "rotating_provider ''openai'' [demo_key ''a'', demo_key ''b''] (\<lambda>_ _. None) first_key 0 [''a''] [] = ([''a''], Inr (demo_key ''b''))"
    using limited_keys_rest [where provKey = "''openai''" and selector = first_key and a = 0 and pool = "[demo_key ''a'', demo_key ''b'']" and used = "[''a'']" and dead = "[]",
      OF first_key_mem [of 0] first_key_some]
    by (cases "rotating_provider ''openai'' [demo_key ''a'', demo_key ''b''] (\<lambda>_ _. None) first_key 0 [''a''] []") (auto simp: demo_key_ID)
  show "rotating_provider ''openai'' [demo_key ''a'', demo_key ''b''] (\<lambda>_ _. None) first_key 0 [] [''a'', ''b''] = ([], Inl (AllKeysDead (errAllKeysDead @ '': provider '' @ ''openai'')))"
    by (simp add: rotating_provider_def filtered_def demo_key_def Let_def)
qed

theorem negative_retries_answer_nothing_witness:
  "l_error (executeRequestWithRetries (demo_env\<lparr>env_MaxRetries := - 1\<rparr>) [] None) = None"
  using negative_retries_answer_nothing [of "demo_env\<lparr>env_MaxRetries := - 1\<rparr>"] by simp

text \<open>A rate limit, then a request the other key cannot serve.\<close>

definition hopeless_env :: "string retry_env" where
  "hopeless_env = demo_env\<lparr>env_handler := \<lambda>a stripped k. if a = 0 then Failed (http_error 429) else Failed (http_error 400)\<rparr>"

lemma hopeless_run: "l_log (executeRequestWithRetries hopeless_env [] None) =
   [Called (demo_key ''a'') (Some (http_error 429)), Slept 500, Called (demo_key ''b'') (Some (http_error 400))]"
  by code_simp

theorem hopeless_errors_not_retried_witness:
  "l_error (executeRequestWithRetries hopeless_env [] None) = Some (http_error 400)"
  using hopeless_errors_not_retried [where env = hopeless_env and before = "[Called (demo_key ''a'') (Some (http_error 429)), Slept 500]",
      OF _ refl, of "[]" None "demo_key ''b''" "http_error 400" "[]"]
  by (simp add: hopeless_run) (simp add: hopeless_env_def demo_env_fields http_error_def retryable_def isPerKeyFailure_def status_in_def
      perKeyFailureStatusCodes_def transientServerStatusCodes_def isEncryptedReasoningRejection_def)

end
