(* ===== verification/Fallback_Properties.thy ===== *)
theory Fallback_Properties
  imports Fallback_Chain Retry_Properties Tracker_Properties
begin

text \<open>
  What the fallback chain of core/bifrost.go promises: the fallbacks with a configured provider are
  tried in order until one decides the request, and the primary's error is returned when none
  does; each runs in a context without the pins of the primary. The last part is about what goes
  wrong across the chain: requests whose provider is not switched, the caller's own key, and the
  billing of a fallback's success.
\<close>

section \<open>The chain\<close>

definition reply_of :: "('c, 'r) provider_try \<Rightarrow> ('c CallContext_scheme \<times> BifrostRequest) list \<Rightarrow> nat \<Rightarrow> 'r option \<times> call_error option" where
  "reply_of ask tried j = snd (ask j (fst (tried ! j)) (snd (tried ! j)))"

text \<open>What a fallback's reply decides, if it decides the request at all.\<close>

definition decided :: "'r option \<times> call_error option \<Rightarrow> 'r outcome option" where
  "decided r = (case r of (res, None) \<Rightarrow> Some (Returned res None)
     | (_, Some e) \<Rightarrow> (case ce_Error e of None \<Rightarrow> Some Panicked
         | Some f \<Rightarrow> if ef_Type f = Some ''request_cancelled'' \<or> ce_AllowFallbacks e = Some False
             then Some (Returned None (Some e)) else None))"

definition redirected :: "BifrostRequest \<Rightarrow> fallback \<Rightarrow> BifrostRequest" where
  "redirected req fb = req\<lparr>brq_payload := map_option
     (\<lambda>(k, b). (k, if switched k then b\<lparr>rb_Provider := fst fb, rb_Model := Some (snd fb)\<rparr> else b)) (brq_payload req)\<rparr>"

lemma prepare_redirects:
  "prepareFallbackRequest configured req fb = (if configured (fst fb) then Some (redirected req fb) else None)"
  by (simp add: prepareFallbackRequest_def redirected_def)

lemma try_fallbacks_unskipped:
  assumes "configured (fst fb)"
    and "ask (length tried) (fallback_ctx (uuid (i + 1)) (i + 1) ctx) (redirected req fb) = (ctx2, res, err)"
  shows "try_fallbacks configured uuid ask req primaryErr i (fb # fbs) ctx tried =
    (case decided (res, err) of
       Some out \<Rightarrow> (out, tried @ [(fallback_ctx (uuid (i + 1)) (i + 1) ctx, redirected req fb)])
     | None \<Rightarrow> try_fallbacks configured uuid ask req primaryErr (i + 1) fbs ctx2
         (tried @ [(fallback_ctx (uuid (i + 1)) (i + 1) ctx, redirected req fb)]))"
  using assms by (simp add: prepare_redirects decided_def shouldContinueWithFallbacks_def Let_def split: option.split bool.split)

lemma try_fallbacks_skipped:
  "\<not> configured (fst fb) \<Longrightarrow> try_fallbacks configured uuid ask req primaryErr i (fb # fbs) ctx tried =
     try_fallbacks configured uuid ask req primaryErr (i + 1) fbs (fallback_ctx (uuid (i + 1)) (i + 1) ctx) tried"
  by (simp add: prepare_redirects Let_def)

declare try_fallbacks.simps(2) [simp del]

definition chain_spec ::
    "('c, 'r) provider_try \<Rightarrow> BifrostRequest \<Rightarrow> call_error option \<Rightarrow> fallback list \<Rightarrow> ('c CallContext_scheme \<times> BifrostRequest) list
      \<Rightarrow> 'r outcome \<Rightarrow> ('c CallContext_scheme \<times> BifrostRequest) list \<Rightarrow> bool" where
  "chain_spec ask req primaryErr fbs tried out tried' \<longleftrightarrow>
     (\<exists>n \<le> length fbs. \<exists>new. tried' = tried @ new \<and> map snd new = map (redirected req) (take n fbs)
       \<and> (\<forall>j. length tried \<le> j \<longrightarrow> Suc j < length tried' \<longrightarrow> decided (reply_of ask tried' j) = None)
       \<and> (case if n = 0 then None else decided (reply_of ask tried' (length tried' - 1)) of
            Some o' \<Rightarrow> out = o' | None \<Rightarrow> n = length fbs \<and> out = Returned None primaryErr))"

lemma try_fallbacks_spec:
  "try_fallbacks configured uuid ask req primaryErr i fbs ctx tried = (out, tried')
    \<Longrightarrow> chain_spec ask req primaryErr (filter (\<lambda>fb. configured (fst fb)) fbs) tried out tried'"
proof (induction fbs arbitrary: i ctx tried)
  case Nil
  then show ?case by (auto simp: chain_spec_def)
next
  case (Cons fb fbs)
  show ?case
  proof (cases "configured (fst fb)")
    case False
    then show ?thesis using Cons.IH Cons.prems by (simp add: try_fallbacks_skipped)
  next
    case True
    let ?ctx = "fallback_ctx (uuid (i + 1)) (i + 1) ctx" and ?cf = "filter (\<lambda>fb. configured (fst fb)) fbs"
    let ?tried = "tried @ [(?ctx, redirected req fb)]"
    obtain ctx2 res err where t: "ask (length tried) ?ctx (redirected req fb) = (ctx2, res, err)" by (cases "ask (length tried) ?ctx (redirected req fb)")
    note step = try_fallbacks_unskipped [where configured = configured and uuid = uuid and ask = ask and tried = tried and i = i and ctx = ctx, OF True t, of primaryErr fbs]
    have r: "reply_of ask (?tried @ new) (length tried) = (res, err)" for new
      using t by (simp add: reply_of_def nth_append)
    show ?thesis
    proof (cases "decided (res, err)")
      case (Some out')
      then have "out = out'" "tried' = ?tried" using Cons.prems step by simp_all
      then show ?thesis using Some r [of "[]"] True
        by (auto simp: chain_spec_def intro!: exI [of _ 1])
    next
      case None
      then have "chain_spec ask req primaryErr ?cf ?tried out tried'" using Cons.IH Cons.prems step by simp
      then obtain n new where n: "n \<le> length ?cf" "tried' = ?tried @ new" "map snd new = map (redirected req) (take n ?cf)"
          "\<forall>j. Suc (length tried) \<le> j \<longrightarrow> Suc j < length tried' \<longrightarrow> decided (reply_of ask tried' j) = None"
          "case if n = 0 then None else decided (reply_of ask tried' (length tried' - 1)) of
            Some o' \<Rightarrow> out = o' | None \<Rightarrow> n = length ?cf \<and> out = Returned None primaryErr"
        by (auto simp: chain_spec_def)
      have first: "decided (reply_of ask tried' (length tried)) = None" using None r [of new] n(2) by simp
      have all: "\<forall>j. length tried \<le> j \<longrightarrow> Suc j < length tried' \<longrightarrow> decided (reply_of ask tried' j) = None"
        using n(4) first by (metis Suc_leI le_neq_implies_less)
      have last: "case decided (reply_of ask tried' (length tried' - 1)) of
            Some o' \<Rightarrow> out = o' | None \<Rightarrow> Suc n = length (fb # ?cf) \<and> out = Returned None primaryErr"
      proof (cases "n = 0")
        case True
        then have "length tried' - 1 = length tried" using n(2,3) by simp
        then show ?thesis using first n(5) True by simp
      next
        case False
        then show ?thesis using n(5) by (simp split: option.splits)
      qed
      show ?thesis unfolding chain_spec_def
      proof (intro exI conjI)
        show "Suc n \<le> length (filter (\<lambda>fb. configured (fst fb)) (fb # fbs))" using True n(1) by simp
        show "tried' = tried @ ((?ctx, redirected req fb) # new)" using n(2) by simp
        show "map snd ((?ctx, redirected req fb) # new) = map (redirected req) (take (Suc n) (filter (\<lambda>fb. configured (fst fb)) (fb # fbs)))"
          using True n(3) by simp
        show "\<forall>j. length tried \<le> j \<longrightarrow> Suc j < length tried' \<longrightarrow> decided (reply_of ask tried' j) = None" by (rule all)
        show "case if Suc n = 0 then None else decided (reply_of ask tried' (length tried' - 1)) of
            Some o' \<Rightarrow> out = o'
          | None \<Rightarrow> Suc n = length (filter (\<lambda>fb. configured (fst fb)) (fb # fbs)) \<and> out = Returned None primaryErr"
          using last True by (simp split: option.splits)
      qed
    qed
  qed
qed

section \<open>Contexts\<close>

definition keeps :: "('c CallContext_scheme \<Rightarrow> 'x) \<Rightarrow> ('c, 'r) provider_try \<Rightarrow> bool" where
  "keeps f ask \<longleftrightarrow> (\<forall>j ctx req. f (fst (ask j ctx req)) = f ctx)"

lemma fallback_ctx_fields:
  "cc_DirectKey (fallback_ctx u i ctx) = cc_DirectKey ctx" "cc_RequestID (fallback_ctx u i ctx) = cc_RequestID ctx"
  "cc_APIKeyID (fallback_ctx u i ctx) = None" "cc_APIKeyName (fallback_ctx u i ctx) = None"
  "cc_IncludeOnlyKeys (fallback_ctx u i ctx) = None" "fallback_index (fallback_ctx u i ctx) = int i"
  "cc_FallbackRequestID (fallback_ctx u i ctx) = Some u"
  by (simp_all add: fallback_ctx_def clearCtxForFallback_def fallback_index_def)

definition unpinned :: "'c CallContext_scheme \<Rightarrow> bool" where
  "unpinned ctx \<longleftrightarrow> cc_APIKeyID ctx = None \<and> cc_APIKeyName ctx = None \<and> cc_IncludeOnlyKeys ctx = None \<and> 0 < fallback_index ctx"

lemma try_fallbacks_ctx:
  assumes "try_fallbacks configured uuid ask req primaryErr i fbs ctx tried = (out, tried')"
    and "keeps f ask" "\<And>u i c. f (fallback_ctx u i c) = f c"
  shows "\<exists>new. tried' = tried @ new \<and> (\<forall>(c, r) \<in> set new. unpinned c \<and> f c = f ctx)"
  using assms(1)
proof (induction fbs arbitrary: i ctx tried)
  case Nil
  then show ?case by simp
next
  case (Cons fb fbs)
  let ?ctx = "fallback_ctx (uuid (i + 1)) (i + 1) ctx"
  show ?case
  proof (cases "configured (fst fb)")
    case False
    then show ?thesis using Cons.IH [of "i + 1" ?ctx tried] Cons.prems assms(3) by (simp add: try_fallbacks_skipped)
  next
    case True
    obtain ctx2 res err where t: "ask (length tried) ?ctx (redirected req fb) = (ctx2, res, err)" by (cases "ask (length tried) ?ctx (redirected req fb)")
    have u: "unpinned ?ctx" "f ?ctx = f ctx" using assms(3) by (simp_all add: unpinned_def fallback_ctx_fields)
    have f2: "f ctx2 = f ctx" using assms(2,3) t unfolding keeps_def by (metis fst_conv)
    show ?thesis
    proof (cases "decided (res, err)")
      case (Some out')
      then have "tried' = tried @ [(?ctx, redirected req fb)]"
        using Cons.prems try_fallbacks_unskipped [where configured = configured and uuid = uuid and ask = ask and tried = tried and i = i and ctx = ctx, OF True t, of primaryErr fbs] by simp
      then show ?thesis using u by (intro exI [of _ "[(?ctx, redirected req fb)]"]) simp
    next
      case None
      then obtain new where "tried' = (tried @ [(?ctx, redirected req fb)]) @ new"
          "\<forall>(c, r) \<in> set new. unpinned c \<and> f c = f ctx2"
        using Cons.IH [of "i + 1" ctx2 "tried @ [(?ctx, redirected req fb)]"] Cons.prems
          try_fallbacks_unskipped [where configured = configured and uuid = uuid and ask = ask and tried = tried and i = i and ctx = ctx, OF True t, of primaryErr fbs] by auto
      then show ?thesis using u f2 by (intro exI [of _ "(?ctx, redirected req fb) # new"]) auto
    qed
  qed
qed

lemma handleRequest_tries:
  assumes "handleRequest configured uuid preRequest ask ctx0 req0 = (out, tried)" "tried \<noteq> []"
  shows "\<exists>ctx req res err. tried ! 0 = (ctx, req) \<and> reply_of ask tried 0 = (res, err)
    \<and> (if shouldTryFallbacks req err
       then try_fallbacks configured uuid ask req err 0 (snd (snd (GetRequestFields req))) (fst (ask 0 ctx req)) [(ctx, req)]
              = (out, tried)
       else tried = [(ctx, req)] \<and> out = Returned res err)"
proof -
  obtain ctx req where p: "preRequest (primary_ctx (uuid 0) ctx0) req0 = (ctx, req)" by fastforce
  obtain ctx' res err where a: "ask 0 ctx req = (ctx', res, err)" by (cases "ask 0 ctx req")
  have v: "validateRequestAfterPreRequestHooks req = None"
    using assms p by (auto simp: handleRequest_def split: option.splits)
  have h: "(if \<not> shouldTryFallbacks req err then (Returned res err, [(ctx, req)])
      else try_fallbacks configured uuid ask req err 0 (snd (snd (GetRequestFields req))) ctx' [(ctx, req)]) = (out, tried)"
    using assms(1) p a v by (simp add: handleRequest_def Let_def)
  have head: "tried ! 0 = (ctx, req)"
  proof (cases "shouldTryFallbacks req err")
    case True
    then have "chain_spec ask req err (filter (\<lambda>fb. configured (fst fb)) (snd (snd (GetRequestFields req)))) [(ctx, req)] out tried"
      using try_fallbacks_spec h by auto
    then show ?thesis by (auto simp: chain_spec_def)
  qed (use h in auto)
  then have r: "reply_of ask tried 0 = (res, err)" using a by (simp add: reply_of_def)
  have "if shouldTryFallbacks req err
       then try_fallbacks configured uuid ask req err 0 (snd (snd (GetRequestFields req))) (fst (ask 0 ctx req)) [(ctx, req)]
              = (out, tried)
       else tried = [(ctx, req)] \<and> out = Returned res err" using h a by auto
  then show ?thesis using head r by blast
qed

lemma handleRequest_chain:
  assumes "handleRequest configured uuid preRequest ask ctx0 req0 = (out, tried)" "tried \<noteq> []"
  shows "\<exists>ctx req res err. tried ! 0 = (ctx, req) \<and> reply_of ask tried 0 = (res, err)
    \<and> (if shouldTryFallbacks req err
       then chain_spec ask req err (filter (\<lambda>fb. configured (fst fb)) (snd (snd (GetRequestFields req)))) [(ctx, req)] out tried
       else tried = [(ctx, req)] \<and> out = Returned res err)"
proof -
  obtain ctx req res err where h: "tried ! 0 = (ctx, req)" "reply_of ask tried 0 = (res, err)"
     "if shouldTryFallbacks req err
       then try_fallbacks configured uuid ask req err 0 (snd (snd (GetRequestFields req))) (fst (ask 0 ctx req)) [(ctx, req)]
              = (out, tried)
       else tried = [(ctx, req)] \<and> out = Returned res err"
    using handleRequest_tries [OF assms] by blast
  have "if shouldTryFallbacks req err
       then chain_spec ask req err (filter (\<lambda>fb. configured (fst fb)) (snd (snd (GetRequestFields req)))) [(ctx, req)] out tried
       else tried = [(ctx, req)] \<and> out = Returned res err"
    using h(3) try_fallbacks_spec by (auto split: if_splits)
  then show ?thesis using h(1,2) by blast
qed

section \<open>The properties\<close>

text \<open>
  The provider and model a request asks for, as the providers read them, and the two kinds of request whose target
  no fallback changes.
\<close>

definition asked_target :: "BifrostRequest \<Rightarrow> fallback" where
  "asked_target req = (fst (GetRequestFields req), fst (snd (GetRequestFields req)))"

definition image_request :: "BifrostRequest \<Rightarrow> bool" where
  "image_request req \<longleftrightarrow> (case brq_payload req of None \<Rightarrow> False | Some (k, b) \<Rightarrow> k = ReqImageEdit \<or> k = ReqImageVariation)"

lemma target_redirected:
  assumes "snd (snd (GetRequestFields req)) \<noteq> []" "\<not> image_request req"
  shows "asked_target (redirected req fb) = fb"
proof -
  obtain k b where p: "brq_payload req = Some (k, b)" "with_fallbacks k"
    using assms(1) by (auto simp: GetRequestFields_def split: option.splits if_splits)
  then have "switched k" using assms(2) by (auto simp: image_request_def with_fallbacks_def switched_def)
  then show ?thesis using p by (simp add: asked_target_def redirected_def GetRequestFields_def with_model_def)
qed

text \<open>
  The tries after the primary: an initial part of the configured fallbacks, each asked for its own provider and model and
  reached because the one before it decided nothing; the last one decides, or there is none left and the primary's error is returned.
\<close>

definition fallbacks_decide ::
    "(string \<Rightarrow> bool) \<Rightarrow> ('c, 'r) provider_try \<Rightarrow> BifrostRequest \<Rightarrow> call_error option \<Rightarrow> 'r outcome
      \<Rightarrow> ('c CallContext_scheme \<times> BifrostRequest) list \<Rightarrow> bool" where
  "fallbacks_decide configured ask req primaryErr out tried \<longleftrightarrow>
     (let fbs = filter (\<lambda>fb. configured (fst fb)) (snd (snd (GetRequestFields req))); n = length tried - 1
      in n \<le> length fbs \<and> (image_request req \<or> map (\<lambda>(c, r). asked_target r) (tl tried) = take n fbs)
       \<and> list_all (\<lambda>j. decided (reply_of ask tried j) = None) [1..<n]
       \<and> (case if n = 0 then None else decided (reply_of ask tried n) of
            Some o' \<Rightarrow> out = o' | None \<Rightarrow> n = length fbs \<and> out = Returned None primaryErr))"

lemma chain_decides:
  assumes "chain_spec ask req err (filter (\<lambda>fb. configured (fst fb)) (snd (snd (GetRequestFields req)))) [(ctx, req)] out tried"
    and "snd (snd (GetRequestFields req)) \<noteq> []"
  shows "fallbacks_decide configured ask req err out tried"
proof -
  let ?fbs = "filter (\<lambda>fb. configured (fst fb)) (snd (snd (GetRequestFields req)))"
  obtain n new where n: "n \<le> length ?fbs" "tried = (ctx, req) # new" "map snd new = map (redirected req) (take n ?fbs)"
      "\<forall>j. 1 \<le> j \<longrightarrow> Suc j < length tried \<longrightarrow> decided (reply_of ask tried j) = None"
      "case if n = 0 then None else decided (reply_of ask tried (length tried - 1)) of
            Some o' \<Rightarrow> out = o' | None \<Rightarrow> n = length ?fbs \<and> out = Returned None err"
    using assms(1) unfolding chain_spec_def by auto
  have l: "length tried = Suc n" using arg_cong [OF n(3), of length] n(1,2) by simp
  have "map (\<lambda>(c, r). asked_target r) new = map asked_target (map snd new)" by (simp add: case_prod_unfold)
  then have "image_request req \<or> map (\<lambda>(c, r). asked_target r) new = take n ?fbs"
    unfolding n(3) using target_redirected [OF assms(2)] by (cases "image_request req") (simp_all add: map_idI)
  moreover have "list_all (\<lambda>j. decided (reply_of ask tried j) = None) [1..<n]" using n(4) l by (simp add: list_all_iff)
  moreover have t: "tl tried = new" "length tried - 1 = n" using n(2) l by simp_all
  moreover note n(5) [unfolded t(2)]
  ultimately show ?thesis using n(1) unfolding fallbacks_decide_def Let_def t by simp
qed

text \<open>
  C14: The fallbacks are tried in order: of the fallbacks whose provider is configured an initial part is tried, each
  asked for its own provider and model (image edits and variations excepted, see \<open>image_fallbacks_resend\<close>), and each only
  after the one before it failed with an error that has a body, is no cancellation and does not forbid fallbacks. The first reply
  that does not fail so is the answer; when every one does, the answer is the primary's error. When the primary
  succeeds, is cancelled, forbids fallbacks or has none, its own reply is the answer. A fallback's error without a
  body panics (\<open>fallback_without_body_panics\<close>).
\<close>

theorem fallbacks_in_order:
  assumes "handleRequest configured uuid preRequest ask ctx0 req0 = (out, tried)" "tried \<noteq> []"
  shows "\<exists>ctx req res err. tried ! 0 = (ctx, req) \<and> reply_of ask tried 0 = (res, err)
    \<and> (if shouldTryFallbacks req err then fallbacks_decide configured ask req err out tried
       else tried = [(ctx, req)] \<and> out = Returned res err)"
proof -
  obtain ctx req res err where h: "tried ! 0 = (ctx, req)" "reply_of ask tried 0 = (res, err)"
    "if shouldTryFallbacks req err
       then chain_spec ask req err (filter (\<lambda>fb. configured (fst fb)) (snd (snd (GetRequestFields req)))) [(ctx, req)] out tried
       else tried = [(ctx, req)] \<and> out = Returned res err"
    using handleRequest_chain [OF assms] by blast
  have "snd (snd (GetRequestFields req)) \<noteq> []" if "shouldTryFallbacks req err"
    using that by (simp add: shouldTryFallbacks_def split: option.splits)
  then have "if shouldTryFallbacks req err then fallbacks_decide configured ask req err out tried
       else tried = [(ctx, req)] \<and> out = Returned res err"
    using h(3) chain_decides [of ask req err configured ctx out tried] by (auto split: if_splits)
  then show ?thesis using h(1,2) by blast
qed

definition upstream_error :: call_error where
  "upstream_error = \<lparr>ce_Type = None, ce_IsBifrostError = False, ce_StatusCode = Some 500,
     ce_Error = Some \<lparr>ef_Type = None, ef_Code = None, ef_Message = ''overloaded'', ef_Error = None\<rparr>, ce_AllowFallbacks = None\<rparr>"

definition demo_request :: "request_kind \<Rightarrow> BifrostRequest" where
  "demo_request k = \<lparr>brq_RequestType = ''image_edit'', brq_payload = Some (k, \<lparr>rb_Provider = ''openai'', rb_Model = Some ''m0'',
     rb_Fallbacks = [(''gone'', ''m1''), (''groq'', ''m2''), (''vertex'', ''m3'')]\<rparr>)\<rparr>"

definition demo_ask :: "(unit, string) provider_try" where
  "demo_ask j ctx req = (ctx, if j < 2 then (None, Some upstream_error) else (Some ''ok'', None))"

lemmas chain_simps = handleRequest_def primary_ctx_def demo_ask_def validateRequestAfterPreRequestHooks_def GetRequestFields_def
  demo_request_def with_model_def with_fallbacks_def shouldTryFallbacks_def isCancelled_def upstream_error_def
  isModelRequired_def try_fallbacks.simps prepareFallbackRequest_def switched_def shouldContinueWithFallbacks_def Let_def

definition demo_chain :: "request_kind \<Rightarrow> CallContext \<Rightarrow> string outcome \<times> (CallContext \<times> BifrostRequest) list" where
  "demo_chain k ctx = handleRequest (\<lambda>p. p \<noteq> ''gone'') (\<lambda>i. replicate i CHR ''u'') Pair demo_ask ctx (demo_request k)"

lemma demo_chain_outcome: "fst (demo_chain ReqChat demo_ctx) = Returned (Some ''ok'') None \<and>
    map (\<lambda>(c, r). fst (GetRequestFields r)) (snd (demo_chain ReqChat demo_ctx)) = [''openai'', ''groq'', ''vertex'']"
  by (simp add: demo_chain_def demo_ctx_def chain_simps)

theorem fallbacks_in_order_witness:
  "\<exists>ctx req res err. snd (demo_chain ReqChat demo_ctx) ! 0 = (ctx, req) \<and> shouldTryFallbacks req err
    \<and> fallbacks_decide (\<lambda>p. p \<noteq> ''gone'') demo_ask req err (Returned (Some ''ok'') None) (snd (demo_chain ReqChat demo_ctx))"
proof -
  have ne: "snd (demo_chain ReqChat demo_ctx) \<noteq> []" using demo_chain_outcome by auto
  have e: "handleRequest (\<lambda>p. p \<noteq> ''gone'') (\<lambda>i. replicate i CHR ''u'') Pair demo_ask demo_ctx (demo_request ReqChat) =
      (fst (demo_chain ReqChat demo_ctx), snd (demo_chain ReqChat demo_ctx))" by (simp add: demo_chain_def)
  obtain ctx req res err where h: "snd (demo_chain ReqChat demo_ctx) ! 0 = (ctx, req)" "reply_of demo_ask (snd (demo_chain ReqChat demo_ctx)) 0 = (res, err)"
    "if shouldTryFallbacks req err
       then fallbacks_decide (\<lambda>p. p \<noteq> ''gone'') demo_ask req err (fst (demo_chain ReqChat demo_ctx)) (snd (demo_chain ReqChat demo_ctx))
       else snd (demo_chain ReqChat demo_ctx) = [(ctx, req)] \<and> fst (demo_chain ReqChat demo_ctx) = Returned res err"
    using fallbacks_in_order [OF e ne] by blast
  have r: "req = demo_request ReqChat" using h(1) by (simp add: demo_chain_def demo_ctx_def chain_simps)
  have "err = Some upstream_error" using h(2) by (simp add: reply_of_def demo_ask_def)
  then have "shouldTryFallbacks req err" by (simp add: r chain_simps)
  then show ?thesis using h demo_chain_outcome by auto
qed

lemma later_ctx:
  assumes "handleRequest configured uuid preRequest ask ctx0 req0 = (out, tried)"
    and "keeps f ask" "\<And>u i c. f (fallback_ctx u i c) = f c" "j < length tried"
  shows "(0 < j \<longrightarrow> unpinned (fst (tried ! j))) \<and> f (fst (tried ! j)) = f (fst (tried ! 0))"
proof -
  have ne: "tried \<noteq> []" using assms(4) by auto
  obtain ctx req res err where h: "tried ! 0 = (ctx, req)" "reply_of ask tried 0 = (res, err)"
     "if shouldTryFallbacks req err
       then try_fallbacks configured uuid ask req err 0 (snd (snd (GetRequestFields req))) (fst (ask 0 ctx req)) [(ctx, req)]
              = (out, tried)
       else tried = [(ctx, req)] \<and> out = Returned res err"
    using handleRequest_tries [OF assms(1) ne] by blast
  show ?thesis
  proof (cases "shouldTryFallbacks req err")
    case False
    then show ?thesis using h(3) assms(4) by simp
  next
    case True
    then have t: "try_fallbacks configured uuid ask req err 0 (snd (snd (GetRequestFields req))) (fst (ask 0 ctx req)) [(ctx, req)]
        = (out, tried)" using h(3) by simp
    obtain new where n: "tried = [(ctx, req)] @ new" "\<forall>(c, r) \<in> set new. unpinned c \<and> f c = f (fst (ask 0 ctx req))"
      using try_fallbacks_ctx [OF t assms(2,3)] by blast
    have c: "f (fst (ask 0 ctx req)) = f ctx" using assms(2) by (simp add: keeps_def)
    have "unpinned (fst x) \<and> f (fst x) = f ctx" if "x \<in> set new" for x using n(2) that c by (cases x) auto
    then show ?thesis using n(1) assms(4) by (cases j) simp_all
  qed
qed

text \<open>
  A fallback starts clean: it runs without the key pins and the key filter of the primary, under the same request
  ID and with a fallback index that keeps it from the session's key.
\<close>

theorem fallback_starts_clean:
  assumes "handleRequest configured uuid preRequest ask ctx0 req0 = (out, tried)"
    and "keeps cc_RequestID ask" "0 < j" "j < length tried"
  shows "unpinned (fst (tried ! j)) \<and> cc_RequestID (fst (tried ! j)) = cc_RequestID (fst (tried ! 0))"
  using later_ctx [OF assms(1,2) _ assms(4)] assms(3) by (simp add: fallback_ctx_fields)

theorem fallback_starts_clean_witness: "unpinned (fst (snd (demo_chain ReqChat demo_ctx) ! 2))"
proof -
  have e: "handleRequest (\<lambda>p. p \<noteq> ''gone'') (\<lambda>i. replicate i CHR ''u'') Pair demo_ask demo_ctx (demo_request ReqChat) =
      (fst (demo_chain ReqChat demo_ctx), snd (demo_chain ReqChat demo_ctx))" by (simp add: demo_chain_def)
  have l: "length (snd (demo_chain ReqChat demo_ctx)) = 3" using arg_cong [where f = length, OF conjunct2 [OF demo_chain_outcome]] by simp
  show ?thesis using fallback_starts_clean [OF e, of 2] l by (simp add: keeps_def demo_ask_def)
qed

text \<open>
  The caller's own key goes wherever the request goes: a key supplied with the request is the one key of every try,
  of the fallbacks to other providers as well.
\<close>

theorem direct_key_follows_fallbacks:
  assumes "handleRequest configured uuid preRequest ask ctx0 req0 = (out, tried)"
    and "keeps cc_DirectKey ask" "cc_DirectKey (fst (tried ! 0)) = Some key" "j < length tried"
  shows "selectKeyFromProviderForModelWithPool eng selector clock others (fst (tried ! j)) requestType provider model base s
    = (s, Inr ([key], False))"
  using later_ctx [OF assms(1,2) _ assms(4)] assms(3)
  by (simp add: fallback_ctx_fields selectKeyFromProviderForModelWithPool_def)

theorem direct_key_follows_fallbacks_witness:
  "selectKeyFromProviderForModelWithPool plain_engine (\<lambda>_. Inl (Err [])) (\<lambda>_. 0) (\<lambda>_ s. s)
     (fst (snd (demo_chain ReqChat (demo_ctx\<lparr>cc_DirectKey := Some (demo_key ''mine'')\<rparr>)) ! 2))
     ''chat_completion'' ''vertex'' ''m3'' ''vertex'' () = ((), Inr ([demo_key ''mine''], False))"
proof -
  let ?ctx = "demo_ctx\<lparr>cc_DirectKey := Some (demo_key ''mine'')\<rparr>"
  have e: "handleRequest (\<lambda>p. p \<noteq> ''gone'') (\<lambda>i. replicate i CHR ''u'') Pair demo_ask ?ctx (demo_request ReqChat) =
      (fst (demo_chain ReqChat ?ctx), snd (demo_chain ReqChat ?ctx))" by (simp add: demo_chain_def)
  show ?thesis
    by (rule direct_key_follows_fallbacks [OF e]) (simp_all add: keeps_def demo_chain_def demo_ctx_def chain_simps)
qed

text \<open>
  An image edit or variation never leaves its provider: its fallbacks are configured and read, but every fallback
  sends the primary's request again, to the primary's provider and model.
\<close>

theorem image_fallbacks_resend:
  assumes "handleRequest configured uuid preRequest ask ctx0 req0 = (out, tried)" "j < length tried"
    and "brq_payload (snd (tried ! 0)) = Some (k, b)" "k = ReqImageEdit \<or> k = ReqImageVariation"
  shows "snd (tried ! j) = snd (tried ! 0)
    \<and> snd (snd (GetRequestFields (snd (tried ! 0)))) = rb_Fallbacks b"
proof -
  have ne: "tried \<noteq> []" using assms(2) by auto
  obtain ctx req res err where h: "tried ! 0 = (ctx, req)" "reply_of ask tried 0 = (res, err)"
     "if shouldTryFallbacks req err
       then chain_spec ask req err (filter (\<lambda>fb. configured (fst fb)) (snd (snd (GetRequestFields req)))) [(ctx, req)] out tried
       else tried = [(ctx, req)] \<and> out = Returned res err"
    using handleRequest_chain [OF assms(1) ne] by blast
  have p: "brq_payload req = Some (k, b)" using assms(3) h(1) by simp
  have same: "redirected req fb = req" for fb
    using p assms(4) by (cases req) (auto simp: redirected_def switched_def)
  have "\<exists>new. tried = [(ctx, req)] @ new \<and> (\<forall>x \<in> set new. snd x = req)"
  proof (cases "shouldTryFallbacks req err")
    case True
    then obtain n new where n: "tried = [(ctx, req)] @ new"
        "map snd new = map (redirected req) (take n (filter (\<lambda>fb. configured (fst fb)) (snd (snd (GetRequestFields req)))))"
      using h(3) by (auto simp: chain_spec_def)
    have "snd x = req" if "x \<in> set new" for x
    proof -
      have "snd x \<in> set (map snd new)" using that by simp
      then show ?thesis unfolding n(2) using same by auto
    qed
    then show ?thesis using n(1) by blast
  next
    case False
    then show ?thesis using h(3) by simp
  qed
  then obtain new where n: "tried = [(ctx, req)] @ new" "\<forall>x \<in> set new. snd x = req" by blast
  have "snd (tried ! j) = req" using n assms(2) by (cases j) simp_all
  then show ?thesis using assms(4) h(1) p by (auto simp: GetRequestFields_def with_fallbacks_def)
qed

theorem image_fallbacks_resend_witness:
  "snd (snd (demo_chain ReqImageEdit demo_ctx) ! 2) = demo_request ReqImageEdit"
proof -
  have e: "handleRequest (\<lambda>p. p \<noteq> ''gone'') (\<lambda>i. replicate i CHR ''u'') Pair demo_ask demo_ctx (demo_request ReqImageEdit) =
      (fst (demo_chain ReqImageEdit demo_ctx), snd (demo_chain ReqImageEdit demo_ctx))" by (simp add: demo_chain_def)
  have l: "length (snd (demo_chain ReqImageEdit demo_ctx)) = 3" and r: "snd (snd (demo_chain ReqImageEdit demo_ctx) ! 0) = demo_request ReqImageEdit"
    by (simp_all add: demo_chain_def demo_ctx_def chain_simps)
  show ?thesis
    using image_fallbacks_resend [OF e, where j = 2 and k = ReqImageEdit] l r by (simp add: demo_request_def)
qed

text \<open>
  A fallback's success can go unbilled: the tries of one request share its ID and each numbers its attempts from
  zero, so when a failed try has been billed for what it consumed, the success of a later try that took as many
  attempts is taken for the same provider call and leaves the tracker and the store as they are.
\<close>

theorem fallback_success_unbilled:
  assumes "handleRequest configured uuid preRequest ask ctx0 req0 = (out, tried)" "keeps cc_RequestID ask" "i < j" "j < length tried"
    and "cc_RequestID (fst (tried ! i)) = Some (RequestID u)" "cc_RequestID (fst (tried ! j)) = Some (RequestID u')"
    and "has_usage u" "is_terminal u" "RequestID u \<noteq> []" "Success u'" "is_terminal u'" "AttemptNumber u' = AttemptNumber u"
  shows "UpdateUsage clocks' now' scoped' u' (UpdateUsage clocks now scoped u t) = UpdateUsage clocks now scoped u t"
proof -
  have "cc_RequestID (fst (tried ! i)) = cc_RequestID (fst (tried ! j))"
    using later_ctx [OF assms(1,2) _ assms(4)] later_ctx [OF assms(1,2), of i] assms(3,4) by (simp add: fallback_ctx_fields)
  then have id: "RequestID u' = RequestID u" using assms(5,6) by simp
  then have k: "billing_key u' = billing_key u" using assms(12) by (simp add: billing_key_def)
  have "\<exists>c. gm_get (billed (UpdateUsage clocks now scoped u t)) (billing_key u) = Some c"
    using assms(7-9) by (cases "gm_get (billed t) (billing_key u)") (simp_all add: billed_UpdateUsage)
  then show ?thesis using UpdateUsage_claimed assms(9,11) id k by metis
qed

theorem fallback_success_unbilled_witness:
  "UpdateUsage (\<lambda>_ _ _. 200) 200 [] (sample_update\<lparr>RequestID := ''r1'', Success := True, Cost := Fin 7\<rparr>)
     (UpdateUsage (\<lambda>_ _ _. 100) 100 [] (sample_update\<lparr>RequestID := ''r1''\<rparr>) sample_tracker)
   = UpdateUsage (\<lambda>_ _ _. 100) 100 [] (sample_update\<lparr>RequestID := ''r1''\<rparr>) sample_tracker"
proof -
  have e: "handleRequest (\<lambda>p. p \<noteq> ''gone'') (\<lambda>i. replicate i CHR ''u'') Pair demo_ask demo_ctx (demo_request ReqChat) =
      (fst (demo_chain ReqChat demo_ctx), snd (demo_chain ReqChat demo_ctx))" by (simp add: demo_chain_def)
  have l: "length (snd (demo_chain ReqChat demo_ctx)) = 3"
    "cc_RequestID (fst (snd (demo_chain ReqChat demo_ctx) ! 0)) = Some ''r1''"
    "cc_RequestID (fst (snd (demo_chain ReqChat demo_ctx) ! 2)) = Some ''r1''"
    by (simp_all add: demo_chain_def demo_ctx_def chain_simps fallback_ctx_def clearCtxForFallback_def)
  show ?thesis
    by (rule fallback_success_unbilled [OF e, where i = 0 and j = 2])
      (simp_all add: l keeps_def demo_ask_def sample_update_def has_usage_def is_terminal_def)
qed

text \<open>
  A fallback that fails without an error body brings the request down: the primary's error may lack one, but
  the test whether to go on with the fallbacks dereferences it.
\<close>

theorem fallback_without_body_panics:
  "fst (handleRequest (\<lambda>_. True) (\<lambda>i. []) Pair (\<lambda>j ctx req. (ctx, None :: string option, Some (http_error 500))) demo_ctx (demo_request ReqChat)) = Panicked
   \<and> fst (handleRequest (\<lambda>p. p = ''openai'') (\<lambda>i. []) Pair (\<lambda>j ctx req. (ctx, None :: string option, Some (http_error 500))) demo_ctx (demo_request ReqChat))
     = Returned None (Some (http_error 500))"
  by (simp add: demo_ctx_def chain_simps http_error_def)

end
