(* ===== verification/Pipeline_Properties.thy ===== *)
theory Pipeline_Properties
  imports Plugin_Pipeline Fallback_Properties
begin

text \<open>
  What the plugin pipeline guarantees: hooks run in order and in pairs, they cannot touch the
  reserved keys of the context, a request that governance denies reaches no provider, and the
  worker calls a provider only with keys governance admits. And where it does not: a try that
  ends at the queue leaves hooks unpaired, and a short circuit without content goes on to the
  provider past the hooks that come after it.
\<close>

section \<open>Reserved keys\<close>

definition reserved where
  "reserved ctx = (cc_DirectKey ctx, cc_SkipKeySelection ctx, cc_APIKeyID ctx, cc_APIKeyName ctx, cc_FallbackIndex ctx,
     cc_FallbackRequestID ctx, cc_RequestID ctx)"

lemma reserved_restricted [simp]: "reserved (restricted a b) = reserved a"
  by (simp add: reserved_def restricted_def)

lemma skip_restricted [simp]: "cc_SkipPluginPipeline (restricted a b) = cc_SkipPluginPipeline b"
  by (simp add: restricted_def)

lemma pre_hooks_reserved: "pre_hooks i pls p ctx req = (p', ctx', req', sc) \<Longrightarrow> reserved ctx' = reserved ctx"
  by (induction i pls p ctx req rule: pre_hooks.induct) (auto simp: Let_def split: prod.splits if_splits)

lemma post_hooks_reserved: "post_hooks pls p ctx resp e = (p', ctx', resp', e') \<Longrightarrow> reserved ctx' = reserved ctx"
  by (induction pls p ctx resp e rule: post_hooks.induct) (auto simp: Let_def split: prod.splits)

lemma run_pre_reserved: "run_pre pls p ctx req = (p', ctx', req', sc, n) \<Longrightarrow> reserved ctx' = reserved ctx"
  using pre_hooks_reserved by (auto simp: run_pre_def split: if_splits prod.splits)

lemma run_post_reserved: "run_post pls p ctx resp e n = (p', ctx', reply) \<Longrightarrow> reserved ctx' = reserved ctx"
  using post_hooks_reserved by (fastforce simp: run_post_def split: if_splits prod.splits)

lemma finish_try_reserved: "finish_try plugins p ctx resp e n = (p', ctx', reply) \<Longrightarrow> reserved ctx' = reserved ctx"
  using run_post_reserved by (fastforce simp: finish_try_def RunPostLLMHooks_def split: prod.splits)

section \<open>Traces\<close>

lemma pre_hooks_trace:
  assumes "pre_hooks i (map Some pls) p ctx req = (p', ctx', req', sc)"
  shows "\<exists>n \<le> length pls. pp_ran p' = pp_ran p @ map PreRan [i..<i + n] \<and> (sc = None \<longrightarrow> n = length pls)
    \<and> executedPreHooks p' = (if n = 0 then executedPreHooks p else i + n)"
  using assms
proof (induction pls arbitrary: i p ctx req)
  case (Cons pl pls)
  obtain c r s e where h: "hk_Pre pl ctx req = (c, r, s, e)" by (metis prod_cases4)
  show ?case
  proof (cases s)
    case None
    then have "pre_hooks (i + 1) (map Some pls) (pre_ran i e p) (restricted ctx c) r = (p', ctx', req', sc)"
      using Cons.prems h by (simp add: Let_def)
    from Cons.IH [OF this] obtain n where n: "n \<le> length pls" "pp_ran p' = pp_ran (pre_ran i e p) @ map PreRan [i + 1..<i + 1 + n]"
      "sc = None \<longrightarrow> n = length pls" "executedPreHooks p' = (if n = 0 then executedPreHooks (pre_ran i e p) else i + 1 + n)"
      by blast
    have "[i..<i + Suc n] = i # [i + 1..<i + 1 + n]" by (simp add: upt_conv_Cons del: upt_Suc)
    then have "pp_ran p' = pp_ran p @ map PreRan [i..<i + Suc n]"
      using n(2) by (simp add: pre_ran_def del: upt_Suc)
    then show ?thesis using n by (intro exI [of _ "Suc n"]) (auto simp: pre_ran_def simp del: upt_Suc)
  next
    case (Some x)
    then show ?thesis using Cons.prems h by (intro exI [of _ 1]) (auto simp: Let_def pre_ran_def)
  qed
qed auto

lemma post_hooks_trace:
  assumes "post_hooks (map (\<lambda>(i, pl). (i, Some pl)) pls) p ctx resp e = (p', ctx', reply)"
  shows "pp_ran p' = pp_ran p @ map (PostRan \<circ> fst) pls"
  using assms
proof (induction pls arbitrary: p ctx resp e)
  case (Cons x pls)
  obtain i pl where x: "x = (i, pl)" by fastforce
  obtain c r s err where h: "hk_Post pl ctx resp e = (c, r, s, err)" by (metis prod_cases4)
  then show ?case using Cons.prems Cons.IH [of "post_ran i err p" "restricted ctx c" r s] x
    by (simp add: Let_def post_ran_def)
qed simp

lemma executed_run:
  "rev (take n (enumerate 0 (map Some pls))) = map (\<lambda>(i, pl). (i, Some pl)) (rev (take n (enumerate 0 pls)))"
  by (simp add: enumerate_eq_zip zip_map2 take_map rev_map)

lemma run_post_trace:
  assumes "run_post (map Some pls) p ctx resp e n = (p', ctx', reply)"
  shows "pp_ran p' = pp_ran p @ (if cc_SkipPluginPipeline ctx then [] else map PostRan (rev [0..<clamp n (length pls)]))"
proof (cases "cc_SkipPluginPipeline ctx")
  case False
  let ?m = "clamp n (length pls)"
  have le: "?m \<le> length pls" by (auto simp: clamp_def nat_le_iff)
  have "map (PostRan \<circ> fst) (rev (take ?m (enumerate 0 pls))) = map PostRan (rev [0..<?m])"
    using le by (simp add: enumerate_eq_zip take_zip rev_map [symmetric] map_map [symmetric] take_upt min_def del: map_map)
  then show ?thesis
    using assms False post_hooks_trace [where pls = "rev (take ?m (enumerate 0 pls))" and p = p and ctx = ctx and resp = resp and e = e]
    by (auto simp: run_post_def executed_run split: prod.splits)
qed (use assms in \<open>simp add: run_post_def\<close>)

section \<open>What a try does\<close>

text \<open>What a try hands over to the worker, if it gets that far; the reply it ends with otherwise.\<close>

definition to_worker ::
    "queue_env \<Rightarrow> ('c CallContext_scheme \<Rightarrow> BifrostRequest \<Rightarrow> 'c CallContext_scheme \<times> BifrostRequest) \<Rightarrow> bool
      \<Rightarrow> ('c, 'r) llm_plugins \<Rightarrow> 'c CallContext_scheme \<Rightarrow> BifrostRequest
      \<Rightarrow> (PluginPipeline \<times> 'c CallContext_scheme \<times> BifrostRequest) option" where
  "to_worker q addTools tracer plugins ctx0 req0 =
     (let (ctx1, req) = addTools ctx0 req0; (p, ctx2, preReq, sc, preCount) = RunLLMPreHooks plugins resetPluginPipeline ctx1 (Some req)
      in case preReq of None \<Rightarrow> None
         | Some r \<Rightarrow> if q_error q = None \<and> tracer \<and> short_reply sc = None \<and> enqueue_failure q = None then Some (p, ctx2, r) else None)"

definition worker_reply ::
    "('c, 'r) llm_plugins \<Rightarrow> nat \<Rightarrow> PluginPipeline \<Rightarrow> 'c CallContext_scheme \<times> 'r awaited
      \<Rightarrow> PluginPipeline \<times> 'c CallContext_scheme \<times> 'r option \<times> call_error option" where
  "worker_reply plugins pluginCount p = (\<lambda>(ctx, a). case a of
     GotResponse res \<Rightarrow> finish_try plugins p ctx res None (int pluginCount)
   | GotError e \<Rightarrow> finish_try plugins p ctx None (Some e) (int pluginCount)
   | GotDone d \<Rightarrow> (p, ctx, None, Some (newBifrostCtxDoneError d ''waiting for provider response'')))"

definition pre_stage ::
    "('c, 'r) llm_plugins \<Rightarrow> ('c CallContext_scheme \<Rightarrow> BifrostRequest \<Rightarrow> 'c CallContext_scheme \<times> BifrostRequest)
      \<Rightarrow> 'c CallContext_scheme \<Rightarrow> BifrostRequest
      \<Rightarrow> PluginPipeline \<times> 'c CallContext_scheme \<times> BifrostRequest option \<times> 'r LLMPluginShortCircuit option \<times> nat" where
  "pre_stage plugins addTools ctx req =
     RunLLMPreHooks plugins resetPluginPipeline (fst (addTools ctx req)) (Some (snd (addTools ctx req)))"

lemma to_worker_eq:
  assumes "pre_stage plugins addTools ctx req = (p, ctx2, pre, sc, n)"
  shows "to_worker q addTools tracer plugins ctx req = (case pre of None \<Rightarrow> None
       | Some r \<Rightarrow> if q_error q = None \<and> tracer \<and> short_reply sc = None \<and> enqueue_failure q = None then Some (p, ctx2, r) else None)"
  by (cases "addTools ctx req") (use assms in \<open>simp add: to_worker_def pre_stage_def\<close>)

lemma tryRequest_eq:
  assumes "pre_stage plugins addTools ctx req = (p, ctx2, pre, sc, n)"
    and "q_error q = None" "tracer"
  shows "tryRequest q addTools tracer plugins pluginCount work ctx req =
       (case short_reply sc of Some (resp, e) \<Rightarrow> finish_try plugins p ctx2 resp e (int n)
        | None \<Rightarrow> (case pre of
            None \<Rightarrow> (p, ctx2, None, Some (newBifrostErrorFromMsg ''meridian request after plugin hooks cannot be nil''))
          | Some r \<Rightarrow> (case enqueue_failure q of Some e \<Rightarrow> (p, ctx2, None, Some e)
              | None \<Rightarrow> worker_reply plugins pluginCount p (work ctx2 r))))"
  by (cases "addTools ctx req") (use assms in \<open>simp add: tryRequest_def worker_reply_def pre_stage_def split: option.split\<close>)


lemma run_pre_cases:
  obtains p ctx2 pre sc n where "pre_stage plugins addTools ctx req = (p, ctx2, pre, sc, n)"
  by (metis prod_cases5)

lemma try_reaches_worker:
  assumes "to_worker q addTools tracer plugins ctx req = Some (p, ctx2, r)"
  shows "tryRequest q addTools tracer plugins pluginCount work ctx req = worker_reply plugins pluginCount p (work ctx2 r)"
proof -
  obtain p' ctx' pre sc n where
    b: "pre_stage plugins addTools ctx req = (p', ctx', pre, sc, n)"
    by (rule run_pre_cases)
  have "pre = Some r" "q_error q = None" "tracer" "short_reply sc = None" "enqueue_failure q = None" "p' = p" "ctx' = ctx2"
    using assms to_worker_eq [OF b, of q tracer] by (simp_all split: option.splits if_splits)
  then show ?thesis using tryRequest_eq [OF b, of q tracer pluginCount work] by simp
qed

text \<open>A plugin that lets the request pass, and one that keeps to the contract of short circuits.\<close>

definition passes :: "('c, 'q, 'sc, 'r, 'x) hooks_scheme \<Rightarrow> bool" where
  "passes pl \<longleftrightarrow> (\<forall>ctx req c r s e. hk_Pre pl ctx (Some req) = (c, r, s, e) \<longrightarrow>
     cc_SkipPluginPipeline c = cc_SkipPluginPipeline ctx \<and> r \<noteq> None \<and> s = None)"

definition tame :: "('c, BifrostRequest, 'r LLMPluginShortCircuit, 'r, 'x) hooks_scheme \<Rightarrow> bool" where
  "tame pl \<longleftrightarrow> (\<forall>ctx req c r s e. hk_Pre pl ctx (Some req) = (c, r, s, e) \<longrightarrow>
     cc_SkipPluginPipeline c = cc_SkipPluginPipeline ctx \<and> r \<noteq> None \<and> (s \<noteq> None \<longrightarrow> short_reply s \<noteq> None))"


lemma passing_pre:
  assumes "pre_hooks i (map Some pls) p ctx (Some req) = (p', ctx', req', sc)" "\<forall>pl \<in> set pls. passes pl"
  shows "cc_SkipPluginPipeline ctx' = cc_SkipPluginPipeline ctx \<and> req' \<noteq> None \<and> sc = None"
  using assms
proof (induction pls arbitrary: i p ctx req)
  case (Cons pl pls)
  obtain c r s e where h: "hk_Pre pl ctx (Some req) = (c, r, s, e)" by (metis prod_cases4)
  have "passes pl" using Cons.prems(2) by simp
  then have "cc_SkipPluginPipeline c = cc_SkipPluginPipeline ctx \<and> r \<noteq> None \<and> s = None"
    using h unfolding passes_def by blast
  then obtain r' where "cc_SkipPluginPipeline c = cc_SkipPluginPipeline ctx" "r = Some r'" "s = None" by blast
  then show ?case using Cons.IH [of "i + 1" "pre_ran i e p" "restricted ctx c" r'] Cons.prems h by (simp add: Let_def)
qed auto

section \<open>Hooks in pairs\<close>

lemma finish_try_trace:
  assumes "finish_try plugins p ctx resp e n = (p', ctx', reply)"
  shows "pp_ran p' = pp_ran p @ (if cc_SkipPluginPipeline ctx then [] else map PostRan (rev [0..<clamp n (length plugins)]))"
  using assms run_post_trace [of plugins p ctx resp e n] by (auto simp: finish_try_def RunPostLLMHooks_def split: prod.splits)

lemma clamp_self [simp]: "clamp (int n) n = n" and clamp_int: "clamp (int m) n = min m n"
  by (auto simp: clamp_def)

lemma worker_reply_trace:
  assumes "worker_reply plugins (length plugins) p (ctx, a) = (p', ctx', reply)" "\<And>d. a \<noteq> GotDone d"
  shows "pp_ran p' = pp_ran p @ (if cc_SkipPluginPipeline ctx then [] else map PostRan (rev [0..<length plugins]))"
  using assms finish_try_trace by (cases a) (fastforce simp: worker_reply_def)+



text \<open>
  The pairing ends at the queue: a request whose hooks ran and that is not taken into the queue, because it is
  full, closing, or the context is done, returns the error of the queue without any hook after the call, so a plugin
  that opens something before a call is not told to close it.
\<close>

theorem undelivered_try_skips_post_hooks:
  assumes "tryRequest q addTools tracer plugins pluginCount work ctx req = (p, ctx', resp, e)"
    and "q_error q = None" "tracer" "enqueue_failure q = Some x"
    and "\<not> cc_SkipPluginPipeline (fst (addTools ctx req))" "\<forall>pl \<in> set plugins. passes pl"
  shows "pp_ran p = map PreRan [0..<length plugins] \<and> resp = None \<and> e = Some x"
proof -
  obtain p1 ctx2 pre sc n where b: "pre_stage plugins addTools ctx req = (p1, ctx2, pre, sc, n)" by (rule run_pre_cases)
  have pre: "pre_hooks 0 (map Some plugins) resetPluginPipeline (fst (addTools ctx req)) (Some (snd (addTools ctx req))) = (p1, ctx2, pre, sc)"
    using b assms(5) by (auto simp: pre_stage_def RunLLMPreHooks_def run_pre_def split: prod.splits)
  have k: "pre \<noteq> None" "sc = None" using passing_pre [OF pre assms(6)] by simp_all
  have "pp_ran p1 = map PreRan [0..<length plugins]" using pre_hooks_trace [OF pre] k(2) by (auto simp: resetPluginPipeline_def)
  moreover have "(p, ctx', resp, e) = (p1, ctx2, None, Some x)"
    using tryRequest_eq [OF b, of q tracer pluginCount work] assms(1-4) k by (auto simp: short_reply_def)
  ultimately show ?thesis by simp
qed

text \<open>
  A short circuit that carries neither a response nor an error, or only a stream, in a request that is not
  streamed: the hooks of the plugins behind it do not run before the call, yet the provider is called and the hooks
  after the call run for all plugins. A check placed behind such a plugin, as governance may be, is passed by.
\<close>

theorem empty_short_circuit_passes_checks_by:
  assumes "tryRequest q addTools tracer (pl # rest) (Suc (length rest)) work ctx req = (p, ctx', reply)"
    and "q_error q = None" "tracer" "enqueue_failure q = None"
    and "\<not> cc_SkipPluginPipeline (fst (addTools ctx req))" "\<not> cc_SkipPluginPipeline c"
    and "hk_Pre pl (fst (addTools ctx req)) (Some (snd (addTools ctx req))) = (c, Some r, Some sc, err)"
    and "sc_Response sc = None" "sc_Error sc = None"
    and "work (restricted (fst (addTools ctx req)) c) r = (ctx3, GotResponse res)" "\<not> cc_SkipPluginPipeline ctx3"
  shows "pp_ran p = PreRan 0 # map PostRan (rev [0..<Suc (length rest)])"
proof -
  let ?c = "restricted (fst (addTools ctx req)) c"
  have b: "pre_stage (pl # rest) addTools ctx req = (pre_ran 0 err resetPluginPipeline, ?c, Some r, Some sc, 1)"
    using assms(5,7) by (simp add: pre_stage_def RunLLMPreHooks_def run_pre_def Let_def pre_ran_def)
  have "(p, ctx', reply) = worker_reply (pl # rest) (Suc (length rest)) (pre_ran 0 err resetPluginPipeline) (work ?c r)"
    using tryRequest_eq [OF b, of q tracer "Suc (length rest)" work] assms(1-4,8,9) by (simp add: short_reply_def)
  then show ?thesis
    using worker_reply_trace [of "pl # rest" "pre_ran 0 err resetPluginPipeline" ctx3 "GotResponse res" p ctx' reply] assms(10,11)
    by (simp add: pre_ran_def resetPluginPipeline_def)
qed

text \<open>
  An error of a plugin that the hooks after it take away without giving a response: the streaming try turns the
  missing response into a stream of one message, whose sender dereferences it; the path for errors of the worker returns
  the error instead.
\<close>

theorem swallowed_error_streams_nil:
  assumes "RunPostLLMHooks plugins p ctx None (Some e) (int n) = (p', ctx', None, None)"
    and "sc_Response sc = None" "sc_Stream sc = None" "sc_Error sc = Some e"
  shows "short_stream plugins p ctx n (Some sc) = Some (p', ctx', Some (OneMessage None), None)
    \<and> recover_stream plugins n p ctx e = (p', ctx', None, Some e)"
  using assms by (simp add: short_stream_def finish_stream_def stream_reply_def recover_stream_def)

section \<open>Reserved keys across a try\<close>

text \<open>
  Hooks cannot change the reserved keys of a request: whatever the plugins do, a try leaves the request's identity,
  its pinned and direct keys and its place in the fallback chain as they were, if the tool manager and the worker do.
\<close>

theorem tries_keep_reserved_keys:
  assumes "\<And>c r. reserved (fst (addTools c r)) = reserved c" "\<And>c r. reserved (fst (work c r)) = reserved c"
  shows "reserved (fst (snd (tryRequest q addTools tracer plugins pluginCount work ctx req))) = reserved ctx"
proof (cases "q_error q = None \<and> tracer")
  case False
  then show ?thesis using assms(1) [of ctx req]
    by (cases "addTools ctx req") (auto simp: tryRequest_def split: option.split)
next
  case True
  obtain p1 ctx2 pre sc n where b: "pre_stage plugins addTools ctx req = (p1, ctx2, pre, sc, n)" by (rule run_pre_cases)
  then have c: "reserved ctx2 = reserved ctx"
    using assms(1) [of ctx req] run_pre_reserved by (fastforce simp: pre_stage_def RunLLMPreHooks_def)
  have f: "reserved (fst (snd (finish_try plugins p c resp e n))) = reserved c" for p c resp e n
    using finish_try_reserved by (metis prod.collapse)
  have "reserved (fst (snd (worker_reply plugins pluginCount p1 (work ctx2 r)))) = reserved ctx2" for r
    using f assms(2) [of ctx2 r] by (cases "work ctx2 r") (simp add: worker_reply_def split: awaited.split)
  then show ?thesis using f c True
    by (simp add: tryRequest_eq [OF b] split: option.split prod.split)
qed

section \<open>Witnesses\<close>

definition quiet_plugin :: "(unit, BifrostRequest, nat LLMPluginShortCircuit, nat) LLMPlugin" where
  "quiet_plugin = \<lparr>hk_Pre = (\<lambda>ctx req. (ctx, req, None, None)), hk_Post = (\<lambda>ctx resp e. (ctx, resp, e, None)),
     hk_PreRequest = (\<lambda>ctx req. (ctx, req, None))\<rparr>"

definition open_queue :: queue_env where
  "open_queue = \<lparr>q_error = None, q_closing = False, q_rerouted = False, q_send = Some Enqueued, q_dropExcessRequests = False,
     q_closing_again = False, q_blocking_send = Enqueued\<rparr>"

definition empty_request :: BifrostRequest where
  "empty_request = \<lparr>brq_RequestType = ''chat_completion'', brq_payload = None\<rparr>"

lemma quiet_plugin: "tame quiet_plugin" "passes quiet_plugin"
  by (simp_all add: tame_def passes_def quiet_plugin_def)

lemmas queue_simps = open_queue_def enqueue_failure_def send_failure_def


theorem undelivered_try_skips_post_hooks_witness:
  "pp_ran (fst (tryRequest (open_queue\<lparr>q_send := None, q_dropExcessRequests := True\<rparr>) Pair True [quiet_plugin, quiet_plugin] 2
     (\<lambda>c r. (c, GotResponse (Some 7))) demo_ctx empty_request)) = [PreRan 0, PreRan 1]"
proof -
  obtain p c resp e where t: "tryRequest (open_queue\<lparr>q_send := None, q_dropExcessRequests := True\<rparr>) Pair True
      [quiet_plugin, quiet_plugin] 2 (\<lambda>c r. (c, GotResponse (Some 7))) demo_ctx empty_request = (p, c, resp, e)" by (metis prod_cases4)
  show ?thesis using undelivered_try_skips_post_hooks [OF t, of newBifrostQueueFullError] t
    by (simp add: quiet_plugin queue_simps demo_ctx_def)
qed

theorem empty_short_circuit_passes_checks_by_witness:
  "pp_ran (fst (tryRequest open_queue Pair True [quiet_plugin\<lparr>hk_Pre := (\<lambda>ctx req. (ctx, req,
      Some \<lparr>sc_Response = None, sc_Stream = Some [], sc_Error = None\<rparr>, None))\<rparr>, quiet_plugin] 2
     (\<lambda>c r. (c, GotResponse (Some 7))) demo_ctx empty_request)) = [PreRan 0, PostRan 1, PostRan 0]"
proof -
  let ?pl = "quiet_plugin\<lparr>hk_Pre := (\<lambda>ctx req. (ctx, req, Some \<lparr>sc_Response = None, sc_Stream = Some [], sc_Error = None\<rparr>, None))\<rparr>"
  obtain p c reply where t: "tryRequest open_queue Pair True [?pl, quiet_plugin] (Suc (length [quiet_plugin]))
      (\<lambda>c r. (c, GotResponse (Some 7))) demo_ctx empty_request = (p, c, reply)" by (metis prod_cases3)
  show ?thesis
    using empty_short_circuit_passes_checks_by [OF t, of demo_ctx empty_request "\<lparr>sc_Response = None, sc_Stream = Some [], sc_Error = None\<rparr>"
        None "restricted demo_ctx demo_ctx" "Some 7"] t
    by (simp add: queue_simps demo_ctx_def quiet_plugin_def numeral_2_eq_2)
qed

theorem swallowed_error_streams_nil_witness:
  "\<exists>p c. short_stream [quiet_plugin\<lparr>hk_Post := (\<lambda>ctx resp e. (ctx, None, None, None))\<rparr>] resetPluginPipeline demo_ctx 1
     (Some \<lparr>sc_Response = None, sc_Stream = None, sc_Error = Some newBifrostQueueFullError\<rparr>)
   = Some (p, c, Some (OneMessage None) :: (nat, nat) stream option, None)"
proof -
  let ?pls = "[quiet_plugin\<lparr>hk_Post := (\<lambda>ctx resp e. (ctx, None, None, None))\<rparr>]"
  obtain p c resp e where t: "RunPostLLMHooks ?pls resetPluginPipeline demo_ctx None (Some newBifrostQueueFullError) (int 1) = (p, c, resp, e)"
    by (metis prod_cases4)
  then have "resp = None" "e = None"
    by (auto simp: RunPostLLMHooks_def run_post_def demo_ctx_def clamp_def quiet_plugin_def Let_def final_reply_def)
  then show ?thesis
    using swallowed_error_streams_nil [where plugins = ?pls and p = resetPluginPipeline and ctx = demo_ctx and n = 1
        and sc = "\<lparr>sc_Response = None, sc_Stream = None, sc_Error = Some newBifrostQueueFullError\<rparr>"] t by fastforce
qed

theorem tries_keep_reserved_keys_witness:
  "reserved (fst (snd (tryRequest open_queue Pair True [quiet_plugin\<lparr>hk_Pre := (\<lambda>ctx req. (ctx\<lparr>cc_APIKeyID := Some ''b''\<rparr>, req, None, None))\<rparr>] 1
     (\<lambda>c r. (c, GotResponse (Some 7))) demo_ctx empty_request))) = reserved demo_ctx"
  by (rule tries_keep_reserved_keys) simp_all

end
