(* ===== verification/Governed_Call.thy ===== *)
theory Governed_Call
  imports Pipeline_Properties
begin

text \<open>
  Governance inside the engine: the governance plugin as one of the plugins of a try, and what this
  gives from the virtual key to the provider's key. A request that governance denies reaches no
  provider, and one that it allows is called only with keys the virtual key grants.

  The context of a request is one object in Go; here the values governance reads and writes are the
  record \<open>gc_Governance\<close> in the extension of \<open>CallContext\<close>, and the two values that the engine reads
  as well, the granted keys and the pinned key, are kept in \<open>CallContext\<close> only.
\<close>

section \<open>The governance plugin\<close>

record GovernedContext = CallContext +
  gc_Governance :: BifrostContext
  gc_VirtualKey :: string
  gc_UserID :: string

definition governance_view :: "GovernedContext \<Rightarrow> BifrostContext" where
  "governance_view ctx = (gc_Governance ctx)\<lparr>ctx_IncludeOnlyKeys := cc_IncludeOnlyKeys ctx,
     ctx_RoutingPinnedAPIKeyID := cc_RoutingPinnedAPIKeyID ctx\<rparr>"

definition governance_put :: "BifrostContext \<Rightarrow> GovernedContext \<Rightarrow> GovernedContext" where
  "governance_put g ctx = ctx\<lparr>gc_Governance := g, cc_IncludeOnlyKeys := ctx_IncludeOnlyKeys g,
     cc_RoutingPinnedAPIKeyID := ctx_RoutingPinnedAPIKeyID g\<rparr>"

definition evaluation_request :: "GovernedContext \<Rightarrow> BifrostRequest \<Rightarrow> EvaluationRequest" where
  "evaluation_request ctx req =
     (case GetRequestFields req of (provider, model, _) \<Rightarrow>
        \<lparr>req_VirtualKey = gc_VirtualKey ctx, req_Provider = provider, req_Model = model, req_UserID = gc_UserID ctx\<rparr>)"

text \<open>The errors of governance as the engine sees them: they leave it open whether fallbacks are tried.\<close>

definition governance_error :: "BifrostError \<Rightarrow> call_error" where
  "governance_error e = \<lparr>ce_Type = Some (be_Type e), ce_IsBifrostError = False, ce_StatusCode = Some (be_StatusCode e),
     ce_Error = Some \<lparr>ef_Type = None, ef_Code = None, ef_Message = be_Message e, ef_Error = None\<rparr>, ce_AllowFallbacks = None\<rparr>"

definition governance_pre ::
    "(string \<Rightarrow> bool) \<Rightarrow> GovernancePlugin \<Rightarrow> time \<Rightarrow> GovernedContext \<Rightarrow> BifrostRequest
      \<Rightarrow> GovernedContext \<times> BifrostRequest option \<times> 'r LLMPluginShortCircuit option \<times> err option" where
  "governance_pre known p now ctx req =
     (case PreLLMHook known p now (governance_view ctx) (evaluation_request ctx req) (brq_RequestType req) of (e, g) \<Rightarrow>
        (governance_put g ctx, Some req,
         case e of None \<Rightarrow> None
         | Some b \<Rightarrow> Some \<lparr>sc_Response = None, sc_Stream = None, sc_Error = Some (governance_error b)\<rparr>, None))"

section \<open>The worker's keys\<close>

lemma all_supported_mem:
  assumes "getAllSupportedKeys config ctx provider base = Inr ks" "cc_DirectKey ctx = None" "cc_IncludeOnlyKeys ctx = Some ids"
  shows "\<forall>k \<in> set ks. key_ID k \<in> set ids"
proof -
  obtain all where a: "GetKeysForProvider config ctx provider = Inr all"
    using assms(1,2) by (auto simp: getAllSupportedKeys_def split: sum.splits)
  have g: "k \<in> set all \<Longrightarrow> key_ID k \<in> set ids" for k using GetKeys_mem [OF a, of k] assms(3) by auto
  show ?thesis
    using assms a by (auto simp: getAllSupportedKeys_def Let_def set_map_filter keep_if_Some split: if_splits
        dest!: usable_Some same_key_fields g)
qed

lemma multi_keys_mem:
  assumes "getKeysForBatchAndFileOps config ctx provider base model isBatchOp = Inr ks" "cc_DirectKey ctx = None"
    "cc_IncludeOnlyKeys ctx = Some ids"
  shows "\<forall>k \<in> set ks. key_ID k \<in> set ids"
proof -
  obtain all where a: "GetKeysForProvider config ctx provider = Inr all"
    using assms(1,2) by (auto simp: getKeysForBatchAndFileOps_def split: sum.splits)
  have g: "k \<in> set all \<Longrightarrow> key_ID k \<in> set ids" for k using GetKeys_mem [OF a, of k] assms(3) by auto
  show ?thesis
    using assms a by (auto simp: getKeysForBatchAndFileOps_def Let_def set_map_filter keep_if_Some split: if_splits
        dest!: usable_Some same_key_fields g)
qed

lemma pool_mem:
  assumes "selectKeyFromProviderForModelWithPool eng selector clock others ctx requestType provider model base s
      = (s', Inr (pool, canRotate))"
    and "cc_DirectKey ctx = None" "\<not> (cc_SkipKeySelection ctx \<and> isKeySkippingAllowed provider)" "cc_IncludeOnlyKeys ctx = Some ids"
    and "\<And>ks k. selector ks = Inr k \<Longrightarrow> k \<in> set ks"
  shows "\<forall>k \<in> set pool. key_ID k \<in> set ids"
proof -
  obtain ks ks' where k: "GetKeysForProvider (eng_account eng) ctx provider = Inr ks" "batch_keys requestType provider ks = Inr ks'"
      "set pool \<subseteq> set (supported_keys base requestType model ks')"
    by (rule select_supported [OF assms(1,2,3,5)])
  then show ?thesis
    using supported_admitted [OF k(1,2)] k(3) assms(4) by (fastforce simp: admitted_def dest: same_key_fields)
qed

lemma calls_of_provider:
  assumes "key_provider kp pool" "env_tracer env"
  shows "fst ` set (calls (executeRequestWithRetries (env\<lparr>env_keyProvider := Some kp\<rparr>) trail selected)) \<subseteq> set pool"
  unfolding executeRequestWithRetries_def
  by (rule key_provider.calls_from_pool [OF assms(1)]) (use assms(2) in \<open>simp_all add: calls_def List.map_filter_simps\<close>)

text \<open>What the worker can call a provider with, given the plan it made of the keys.\<close>

definition plan_keys :: "(call_error + key_provider option \<times> Key list) \<Rightarrow> Key set \<Rightarrow> bool" where
  "plan_keys plan K \<longleftrightarrow> (case plan of Inl e \<Rightarrow> True
     | Inr (kp, ks) \<Rightarrow> set ks \<subseteq> K \<and> (case kp of None \<Rightarrow> True | Some f \<Rightarrow> \<exists>pool. key_provider f pool \<and> set pool \<subseteq> K))"

lemma worker_plan:
  assumes "cc_DirectKey ctx = None" "\<not> (cc_SkipKeySelection ctx \<and> isKeySkippingAllowed (wc_ProviderKey cfg))" "cc_IncludeOnlyKeys ctx = Some ids"
    and sel0: "\<And>ks k. select0 ks = Inr k \<Longrightarrow> k \<in> set ks" and sel: "\<And>a ks k. select a ks = Inr k \<Longrightarrow> k \<in> set ks"
    and hook: "\<And>a b f ks ks'. hook a b = Some f \<Longrightarrow> f ks = Inr ks' \<Longrightarrow> set ks' \<subseteq> set ks"
    and w: "worker_keys eng select0 clock others hook select cfg ctx requestType model listKeyID s = (s', plan)"
  shows "plan_keys plan {k. key_ID k \<in> set ids}"
proof -
  let ?p = "wc_ProviderKey cfg" and ?b = "base_provider cfg" and ?K = "{k. key_ID k \<in> set ids}"
  note all = all_supported_mem [OF _ assms(1,3), of "eng_account eng" ?p ?b]
  note multi = multi_keys_mem [OF _ assms(1,3), of "eng_account eng" ?p ?b]
  consider (none) "\<not> providerRequiresKey (wc_CustomProviderConfig cfg)"
    | (list) "providerRequiresKey (wc_CustomProviderConfig cfg)" "requestType = ''list_models''"
    | (multi) "providerRequiresKey (wc_CustomProviderConfig cfg)" "requestType \<noteq> ''list_models''" "multi_key_op requestType"
    | (pool) "providerRequiresKey (wc_CustomProviderConfig cfg)" "requestType \<noteq> ''list_models''" "\<not> multi_key_op requestType"
    by blast
  then show ?thesis
  proof cases
    case none
    then show ?thesis using w by (auto simp: worker_keys_def Let_def plan_keys_def)
  next
    case list
    then show ?thesis using w all
      by (cases "getAllSupportedKeys (eng_account eng) ctx ?p ?b")
        (auto simp: worker_keys_def Let_def plan_keys_def filterKeysByID_def split: option.splits if_splits)
  next
    case multi
    then show ?thesis using w multi_keys_mem [OF _ assms(1,3)]
      by (cases "getKeysForBatchAndFileOps (eng_account eng) ctx ?p ?b (if model = [] then None else Some model) (multi_key_batch_op requestType)")
        (fastforce simp: worker_keys_def Let_def plan_keys_def)+
  next
    case pool
    obtain s1 x where x: "selectKeyFromProviderForModelWithPool eng select0 clock others ctx requestType ?p model ?b s = (s1, x)" by fastforce
    show ?thesis
    proof (cases x)
      case (Inl e)
      then show ?thesis using w pool x by (auto simp: worker_keys_def Let_def plan_keys_def)
    next
      case (Inr pr)
      obtain ks canRotate where pr: "pr = (ks, canRotate)" by fastforce
      have mem: "\<forall>k \<in> set ks. key_ID k \<in> set ids"
        by (rule pool_mem [OF x [unfolded Inr pr] assms(1,2,3) sel0])
      have rot: "key_provider (rotating_provider ?p ks hook select) ks" by (rule rotating_contract [OF sel hook])
      have "plan = Inr (case ks of [] \<Rightarrow> None | k # _ \<Rightarrow> Some (if canRotate then rotating_provider ?p ks hook select else fixed_provider k), [])"
        using w pool x Inr pr by (simp add: worker_keys_def Let_def)
      moreover have "\<exists>pool. key_provider (if canRotate then rotating_provider ?p ks hook select else fixed_provider k) pool \<and> set pool \<subseteq> ?K"
        if "ks = k # r" for k r
        using rot mem that fixed.key_provider_axioms [of k] by (cases canRotate) (force, intro exI [of _ "[k]"], simp)
      ultimately show ?thesis by (auto simp: plan_keys_def split: list.split)
    qed
  qed
qed

lemma requestWorker_calls:
  assumes "plan_keys (Inr (kp, ks)) K" "kp \<noteq> None" "env_tracer (env ks)"
    and "requestWorker (Inr (kp, ks)) env trail selected = (reply, Some st)"
  shows "fst ` set (calls st) \<subseteq> K"
proof -
  obtain f pool where f: "kp = Some f" "key_provider f pool" "set pool \<subseteq> K" using assms(1,2) by (auto simp: plan_keys_def)
  have "st = executeRequestWithRetries ((env ks)\<lparr>env_keyProvider := Some f\<rparr>) trail selected"
    using assms(4) by (simp add: requestWorker_def Let_def f(1))
  then show ?thesis using calls_of_provider [OF f(2), of "env ks" trail selected] assms(3) f(3) by blast
qed

section \<open>What governance leaves in the context\<close>

lemma stamp_keeps_keys: "ctx_IncludeOnlyKeys (stamp_vk vk c) = ctx_IncludeOnlyKeys c"
  by (simp add: stamp_vk_def Let_def split: option.split)

lemma allowed_context:
  assumes "EvaluateGovernanceRequest known p now ctx q rt = (res, None, ctx')" "req_VirtualKey q \<noteq> []"
    "GetVirtualKey (r_store (p_resolver p)) (req_VirtualKey q) = Some vk"
  shows "ctx_IncludeOnlyKeys ctx' = ctx_IncludeOnlyKeys (filter_keys vk (req_Provider q) ctx)"
proof -
  let ?r = "p_resolver p" and ?skip = "req_UserID q \<noteq> [] \<or> ctx_SkipBudgetAndRateLimits ctx"
  obtain r1 c where e: "EvaluateVirtualKeyRequest known ?r now ctx (req_VirtualKey q) (req_Provider q) (req_Model q) rt ?skip = (r1, c)"
    by fastforce
  have allow: "res_Decision r1 = DecisionAllow" using evaluation_stages(5) [OF assms(1) refl assms(2,3)] e by simp
  have "res_VirtualKey r1 = Some vk"
    using e allow assms(3) by (auto simp: EvaluateVirtualKeyRequest_def Let_def result_def split: option.splits if_splits
        dest: vk_identity_admits(2) vk_limit_checks_pass(2))
  then have c: "c = filter_keys vk (req_Provider q) (stamp_vk vk ctx)" by (rule allowed_filters_keys [OF e allow])
  have "ctx_IncludeOnlyKeys ctx' = ctx_IncludeOnlyKeys c"
    using assms evaluation_stages(3) [OF assms(1) refl] e
    by (auto simp: EvaluateGovernanceRequest_def Let_def decide_def split: if_splits)
  then show ?thesis by (simp add: c filter_keys_def stamp_keeps_keys split: option.split)
qed

section \<open>Properties\<close>

lemma pre_hooks_append:
  "pre_hooks i (xs @ ys) p ctx req =
     (case pre_hooks i xs p ctx req of (p', ctx', req', sc) \<Rightarrow>
        if sc = None then pre_hooks (i + length xs) ys p' ctx' req' else (p', ctx', req', sc))"
  by (induction i xs p ctx req rule: pre_hooks.induct) (auto simp: Let_def split: prod.splits)

lemma pre_hooks_kept:
  assumes "\<forall>pl \<in> set pls. \<forall>c r. f (fst (hk_Pre pl c r)) = f c" "\<And>a b. f (restricted a b) = f b"
    and "pre_hooks i (map Some pls) p ctx req = (p', ctx', req', sc)"
  shows "f ctx' = f ctx"
  using assms(1,3)
proof (induction pls arbitrary: i p ctx req)
  case (Cons pl pls)
  obtain c r s e where h: "hk_Pre pl ctx req = (c, r, s, e)" by (metis prod_cases4)
  have "f c = f ctx" using Cons.prems(1) h by (metis fst_conv list.set_intros(1))
  then show ?case
    using Cons.IH [of "i + 1" "pre_ran i e p" "restricted ctx c" r] Cons.prems h assms(2)
    by (cases s) (auto simp: Let_def)
qed simp

text \<open>
  C22: A request that governance denies reaches no provider: when the try comes to the governance plugin and it
  denies, the reply does not depend on the worker, the plugins behind governance are not run, and the plugins up to it
  run their hooks in pairs, on the error of governance.
\<close>

theorem denied_request_reaches_no_provider:
  fixes plugins :: "(unit GovernedContext_ext, 'r) llm_plugins"
  assumes "plugins = pre @ gov # post" "hk_Pre gov = (\<lambda>c r. case r of None \<Rightarrow> (c, None, None, None) | Some q \<Rightarrow> governance_pre known p now c q)"
    and "q_error q = None" "tracer" "\<not> cc_SkipPluginPipeline (fst (addTools ctx req))"
    and "pre_hooks 0 (map Some pre) resetPluginPipeline (fst (addTools ctx req)) (Some (snd (addTools ctx req))) = (p1, c1, Some r1, None)"
    and "fst (PreLLMHook known p now (governance_view c1) (evaluation_request c1 r1) (brq_RequestType r1)) = Some denial"
    and "\<not> cc_SkipPluginPipeline c1"
  shows "tryRequest q addTools tracer plugins n work ctx req = tryRequest q addTools tracer plugins n' work' ctx req
    \<and> pp_ran (fst (tryRequest q addTools tracer plugins n work ctx req))
        = map PreRan [0..<Suc (length pre)] @ map PostRan (rev [0..<Suc (length pre)])"
proof -
  obtain g where g: "PreLLMHook known p now (governance_view c1) (evaluation_request c1 r1) (brq_RequestType r1) = (Some denial, g)"
    using assms(7) by (metis prod.collapse)
  let ?p = "pre_ran (length pre) None p1" and ?c = "restricted c1 (governance_put g c1)"
  let ?sc = "\<lparr>sc_Response = None, sc_Stream = None, sc_Error = Some (governance_error denial)\<rparr> :: 'r LLMPluginShortCircuit"
  have "pre_hooks 0 (map Some plugins) resetPluginPipeline (fst (addTools ctx req)) (Some (snd (addTools ctx req))) = (?p, ?c, Some r1, Some ?sc)"
    by (simp add: assms(1,2,6) pre_hooks_append governance_pre_def g Let_def)
  then have b: "pre_stage plugins addTools ctx req = (?p, ?c, Some r1, Some ?sc, Suc (length pre))"
    using assms(5) by (simp add: pre_stage_def RunLLMPreHooks_def run_pre_def pre_ran_def)
  have t: "tryRequest q addTools tracer plugins n work ctx req
      = finish_try plugins ?p ?c None (Some (governance_error denial)) (int (Suc (length pre)))" for n work
    using tryRequest_eq [OF b assms(3,4), of n work] by (simp add: short_reply_def)
  obtain p' c' reply where f: "finish_try plugins ?p ?c None (Some (governance_error denial)) (int (Suc (length pre))) = (p', c', reply)"
    by (metis prod_cases3)
  have "pp_ran p1 = map PreRan [0..<length pre]" using pre_hooks_trace [OF assms(6)] by (auto simp: resetPluginPipeline_def)
  then have "pp_ran p' = map PreRan [0..<Suc (length pre)] @ map PostRan (rev [0..<Suc (length pre)])"
    using finish_try_trace [OF f] assms(1,8) by (simp add: pre_ran_def governance_put_def clamp_int min_absorb1 del: of_nat_Suc)
  then show ?thesis unfolding t f by simp
qed

lemma governance_pre_allows:
  assumes "governance_pre known p now c1 r1 = (c, r, None, err)" "gc_VirtualKey c1 \<noteq> []"
    "GetVirtualKey (r_store (p_resolver p)) (gc_VirtualKey c1) = Some vk"
    "find (\<lambda>pc. pc_Provider pc = fst (GetRequestFields r1)) (vk_pcs vk) = Some pc" "\<not> AllowAllKeys pc"
  shows "cc_IncludeOnlyKeys c = Some (pc_Keys pc)"
proof -
  let ?q = "evaluation_request c1 r1"
  have q: "req_VirtualKey ?q = gc_VirtualKey c1" "req_Provider ?q = fst (GetRequestFields r1)"
    by (simp_all add: evaluation_request_def split: prod.split)
  obtain e g where h: "PreLLMHook known p now (governance_view c1) ?q (brq_RequestType r1) = (e, g)" by fastforce
  then have e: "e = None" "c = governance_put g c1" using assms(1) by (auto simp: governance_pre_def split: option.splits)
  obtain res where "EvaluateGovernanceRequest known p now (governance_view c1) ?q (brq_RequestType r1) = (res, None, g)"
    using h e(1) by (auto simp: PreLLMHook_def split: option.splits) (metis prod.collapse snd_conv)
  from allowed_context [OF this, of vk] show ?thesis
    using assms(2-5) by (simp add: q e(2) governance_put_def filter_keys_def)
qed

text \<open>
  C10: From the virtual key to the provider's key: when a try that runs the governance plugin reaches the worker, and
  the request's virtual key lists the keys of its provider (a key that admits all keys of the provider lists none), then every key with which the worker's attempts call the
  provider is one of them, retries and rotation included, and so is every key handed to an operation over several keys.
  The conditions: the context carries no direct key, which bypasses the choice of keys by design, and does not skip
  key selection; the plugins behind governance leave the list of admitted keys in the context as it is, which any plugin
  may write; selectors choose from the keys they are given and a filter of the pool only removes keys.
\<close>

theorem governed_try_calls_granted_keys:
  fixes plugins :: "(unit GovernedContext_ext, 'r) llm_plugins"
  assumes "plugins = pre @ gov # post" "hk_Pre gov = (\<lambda>c r. case r of None \<Rightarrow> (c, None, None, None) | Some q \<Rightarrow> governance_pre known p now c q)"
    and "\<forall>pl \<in> set post. \<forall>c r. cc_IncludeOnlyKeys (fst (hk_Pre pl c r)) = cc_IncludeOnlyKeys c"
    and "pre_hooks 0 (map Some pre) resetPluginPipeline (fst (addTools ctx req)) (Some (snd (addTools ctx req))) = (p1, c1, Some r1, None)"
    and "\<not> cc_SkipPluginPipeline (fst (addTools ctx req))" "gc_VirtualKey c1 \<noteq> []"
    and "GetVirtualKey (r_store (p_resolver p)) (gc_VirtualKey c1) = Some vk"
    and "find (\<lambda>pc. pc_Provider pc = fst (GetRequestFields r1)) (vk_pcs vk) = Some pc" "\<not> AllowAllKeys pc"
    and "to_worker q addTools tracer plugins ctx req = Some (p2, c2, r2)" "cc_DirectKey c2 = None"
    and "\<not> (cc_SkipKeySelection c2 \<and> isKeySkippingAllowed (wc_ProviderKey cfg))"
    and "worker_keys eng select0 clock others hook select cfg c2 requestType model listKeyID s = (s', Inr (kp, ks))"
    and "\<And>ks k. select0 ks = Inr k \<Longrightarrow> k \<in> set ks" "\<And>a ks k. select a ks = Inr k \<Longrightarrow> k \<in> set ks"
    and "\<And>a b f ks ks'. hook a b = Some f \<Longrightarrow> f ks = Inr ks' \<Longrightarrow> set ks' \<subseteq> set ks"
    and "env_tracer (env ks)" "requestWorker (Inr (kp, ks)) env trail selected = (reply, Some st)"
  shows "key_ID ` set ks \<subseteq> set (pc_Keys pc) \<and> (kp \<noteq> None \<longrightarrow> key_ID ` fst ` set (calls st) \<subseteq> set (pc_Keys pc))"
proof -
  obtain pp c2' pr sc m where b: "pre_stage plugins addTools ctx req = (pp, c2', pr, sc, m)" by (rule run_pre_cases)
  have "c2' = c2" "short_reply sc = None"
    using assms(10) to_worker_eq [OF b, of q tracer] by (simp_all split: option.splits if_splits)
  then have run: "pre_hooks 0 (map Some plugins) resetPluginPipeline (fst (addTools ctx req)) (Some (snd (addTools ctx req))) = (pp, c2, pr, sc)"
    using b assms(5) by (auto simp: pre_stage_def RunLLMPreHooks_def run_pre_def split: prod.splits)
  obtain c r s' e where g: "governance_pre known p now c1 r1 = (c, r, s' :: 'r LLMPluginShortCircuit option, e)" by (metis prod_cases4)
  have s': "s' = None"
  proof (rule ccontr)
    assume n: "s' \<noteq> None"
    then have "sc = s'" using run g by (simp add: assms(1,2,4) pre_hooks_append Let_def)
    moreover have "short_reply s' \<noteq> None"
      using n g by (auto simp: governance_pre_def short_reply_def split: prod.splits option.splits)
    ultimately show False using \<open>short_reply sc = None\<close> by simp
  qed
  then have "pre_hooks (Suc (length pre)) (map Some post) (pre_ran (length pre) e p1) (restricted c1 c) r = (pp, c2, pr, sc)"
    using run g by (simp add: assms(1,2,4) pre_hooks_append Let_def)
  then have "cc_IncludeOnlyKeys c2 = cc_IncludeOnlyKeys (restricted c1 c)"
    by (rule pre_hooks_kept [OF assms(3), rotated]) (simp add: restricted_def)
  also have "\<dots> = Some (pc_Keys pc)"
    using governance_pre_allows [OF g [unfolded s'] assms(6-9)] by (simp add: restricted_def)
  finally have "plan_keys (Inr (kp, ks)) {k. key_ID k \<in> set (pc_Keys pc)}"
    by (intro worker_plan [OF assms(11,12) _ assms(14,15,16,13)])
  then show ?thesis
    using requestWorker_calls [OF _ _ assms(17,18), of "{k. key_ID k \<in> set (pc_Keys pc)}"]
    by (auto simp: plan_keys_def)
qed

section \<open>Witnesses\<close>

definition granted_plugin :: GovernancePlugin where
  "granted_plugin = gate_plugin\<lparr>p_resolver := granted_resolver\<rparr>"

definition governed_ctx :: GovernedContext where
  "governed_ctx = CallContext.extend demo_ctx \<lparr>gc_Governance = gate_ctx, gc_VirtualKey = ''sk-1'', gc_UserID = []\<rparr>"

definition chat_request :: BifrostRequest where
  "chat_request = \<lparr>brq_RequestType = ''chat_completion'',
     brq_payload = Some (ReqChat, \<lparr>rb_Provider = ''openai'', rb_Model = Some ''gpt-4o'', rb_Fallbacks = []\<rparr>)\<rparr>"

definition governance_plugin :: "(unit GovernedContext_ext, BifrostRequest, nat LLMPluginShortCircuit, nat) LLMPlugin" where
  "governance_plugin = \<lparr>hk_Pre = (\<lambda>c r. case r of None \<Rightarrow> (c, None, None, None) | Some q \<Rightarrow> governance_pre (\<lambda>_. True) granted_plugin 0 c q),
     hk_Post = (\<lambda>c resp e. (c, resp, e, None)), hk_PreRequest = (\<lambda>c r. (c, r, None))\<rparr>"

lemma granted_allows:
  "fst (PreLLMHook (\<lambda>_. True) granted_plugin 0 (governance_view governed_ctx) (evaluation_request governed_ctx chat_request)
     ''chat_completion'') = None"
  unfolding granted_plugin_def granted_resolver_def granted_vk_def gate_vk_def sample_vk_def gate_plugin_def governed_ctx_def
    gate_ctx_def demo_ctx_def chat_request_def empty_store_def
  by code_simp

lemma keyless_denied:
  "fst (PreLLMHook (\<lambda>_. True) granted_plugin 0 (governance_view (governed_ctx\<lparr>gc_VirtualKey := []\<rparr>))
     (evaluation_request (governed_ctx\<lparr>gc_VirtualKey := []\<rparr>) chat_request) ''chat_completion'')
   = Some \<lparr>be_Type = ''virtual_key_required'', be_StatusCode = 401,
       be_Message = ''virtual key is required. Provide a virtual key via the x-bf-vk header.''\<rparr>"
  by (simp add: PreLLMHook_def validateRequiredHeaders_def granted_plugin_def gate_plugin_def EvaluateGovernanceRequest_def Let_def
      evaluation_request_def governed_ctx_def CallContext.defs split: prod.split)

theorem denied_request_reaches_no_provider_witness:
  "pp_ran (fst (tryRequest open_queue Pair True [governance_plugin] 1 (\<lambda>c r. (c, GotResponse (Some 7)))
     (governed_ctx\<lparr>gc_VirtualKey := []\<rparr>) chat_request)) = [PreRan 0, PostRan 0]"
proof -
  let ?c = "governed_ctx\<lparr>gc_VirtualKey := []\<rparr>"
  let ?none = "[] :: (unit GovernedContext_ext, nat) llm_plugins"
  let ?run = "tryRequest open_queue Pair True [governance_plugin] 1 (\<lambda>c r. (c, GotResponse (Some 7))) ?c chat_request"
  have s: "\<not> cc_SkipPluginPipeline ?c" by (simp add: governed_ctx_def CallContext.defs demo_ctx_def)
  have r: "brq_RequestType chat_request = ''chat_completion''" by (simp add: chat_request_def)
  have "?run = ?run \<and> pp_ran (fst ?run) = map PreRan [0..<Suc (length ?none)] @ map PostRan (rev [0..<Suc (length ?none)])"
    by (rule denied_request_reaches_no_provider [where pre = ?none and post = ?none and gov = governance_plugin and p = granted_plugin
        and known = "\<lambda>_. True" and now = 0 and ?c1.0 = ?c and ?r1.0 = chat_request and ?p1.0 = resetPluginPipeline,
        OF _ _ _ _ _ _ keyless_denied [folded r]])
      (use s in \<open>simp_all add: governance_plugin_def open_queue_def\<close>)
  then show ?thesis by simp
qed

definition one_key_config :: WorkerConfig where
  "one_key_config = \<lparr>wc_ProviderKey = ''openai'', wc_CustomProviderConfig = None, wc_SendBackRawRequest = False,
     wc_SendBackRawResponse = False, wc_StoreRawRequestResponse = False\<rparr>"

lemma demo_worker_keys:
  assumes "cc_DirectKey c = None" "cc_SkipKeySelection c = False" "cc_IncludeOnlyKeys c = Some [''a'']"
    "cc_APIKeyID c = None" "cc_APIKeyName c = None"
  shows "worker_keys plain_engine (first_key 0) (\<lambda>_. 0) (\<lambda>_ s. s) (\<lambda>_ _. None) first_key one_key_config c ''chat_completion'' ''gpt-4o'' None ()
    = ((), Inr (Some (fixed_provider (demo_key ''a'')), []))"
proof -
  have g: "GetKeysForProvider (eng_account plain_engine) c ''openai'' = Inr [demo_key ''a'']"
    using assms(3) by (simp add: GetKeysForProvider_def plain_engine_def demo_key_def)
  have "selectKeyFromProviderForModelWithPool plain_engine (first_key 0) (\<lambda>_. 0) (\<lambda>_ s. s) c ''chat_completion'' ''openai'' ''gpt-4o'' ''openai'' ()
      = ((), Inr ([demo_key ''a''], False))"
    using assms g by (simp add: selectKeyFromProviderForModelWithPool_def batch_keys_def isBatchRequestType_def
        isFileRequestType_def demo_pool_single pinned_key_def)
  then show ?thesis
    by (simp add: worker_keys_def Let_def one_key_config_def base_provider_def providerRequiresKey_def multi_key_op_def
        multi_key_batch_op_def isBatchRequestType_def isFileRequestType_def isContainerRequestType_def isCachedContentRequestType_def)
qed

theorem governed_try_calls_granted_keys_witness:
  "key_ID ` fst ` set (calls (the (snd (requestWorker (Inr (Some (fixed_provider (demo_key ''a'')), [])) (\<lambda>_. demo_env) [] None)))) \<subseteq> {''a''}"
proof -
  let ?pc = "\<lparr>pc_ID = 1, pc_Provider = ''openai'', AllowedModels = [''*''], BlacklistedModels = [], AllowAllKeys = False,
       pc_RateLimitID = None, pc_RateLimit = None, pc_Budgets = [], pc_Keys = [''a''], pc_Weight = None\<rparr>"
  have v: "GetVirtualKey (r_store (p_resolver granted_plugin)) (gc_VirtualKey governed_ctx) = Some granted_vk"
    by (simp add: granted_plugin_def granted_resolver_def GetVirtualKey_def governed_ctx_def CallContext.defs)
  have f: "find (\<lambda>pc. pc_Provider pc = fst (GetRequestFields chat_request)) (vk_pcs granted_vk) = Some ?pc"
    by (simp add: granted_vk_def vk_pcs_def GetRequestFields_def chat_request_def)
  have c: "gc_VirtualKey governed_ctx \<noteq> []" "\<not> cc_SkipPluginPipeline governed_ctx"
    by (simp_all add: governed_ctx_def CallContext.defs demo_ctx_def)
  obtain g where g: "PreLLMHook (\<lambda>_. True) granted_plugin 0 (governance_view governed_ctx) (evaluation_request governed_ctx chat_request)
      ''chat_completion'' = (None, g)" using granted_allows by (metis prod.collapse)
  let ?c2 = "restricted governed_ctx (governance_put g governed_ctx)"
  have pre: "governance_pre (\<lambda>_. True) granted_plugin 0 governed_ctx chat_request
      = (governance_put g governed_ctx, Some chat_request, None :: nat LLMPluginShortCircuit option, None)"
    using g by (simp add: governance_pre_def chat_request_def)
  have t: "to_worker open_queue Pair True [governance_plugin] governed_ctx chat_request = Some (pre_ran 0 None resetPluginPipeline, ?c2, chat_request)"
    using c(2) by (simp add: to_worker_def RunLLMPreHooks_def run_pre_def Let_def pre governance_plugin_def short_reply_def queue_simps)
  have i: "cc_IncludeOnlyKeys ?c2 = Some [''a'']"
    using governance_pre_allows [OF pre c(1) v f] by (simp add: restricted_def)
  have k: "cc_DirectKey ?c2 = None" "cc_SkipKeySelection ?c2 = False" "cc_APIKeyID ?c2 = None" "cc_APIKeyName ?c2 = None"
    by (simp_all add: restricted_def governed_ctx_def CallContext.defs demo_ctx_def)
  obtain reply st where w: "requestWorker (Inr (Some (fixed_provider (demo_key ''a'')), [])) (\<lambda>_. demo_env) [] None = (reply, Some st)"
    by (simp add: requestWorker_def Let_def)
  have sel: "first_key a ks = Inr k \<Longrightarrow> k \<in> set ks" for a ks k by (auto simp: first_key_def split: list.splits)
  have "key_ID ` set ([] :: Key list) \<subseteq> set (pc_Keys ?pc) \<and>
      (Some (fixed_provider (demo_key ''a'')) \<noteq> None \<longrightarrow> key_ID ` fst ` set (calls st) \<subseteq> set (pc_Keys ?pc))"
    by (rule governed_try_calls_granted_keys [where pre = "[]" and post = "[]" and gov = governance_plugin and plugins = "[governance_plugin]"
        and addTools = Pair and ctx = governed_ctx and req = chat_request, OF _ _ _ _ _ c(1) v f _ t k(1) _ demo_worker_keys [OF k(1,2) i k(3,4)] _ _ _ _ w])
      (use c(2) k(2) sel in \<open>simp_all add: governance_plugin_def demo_env_def\<close>)
  then show ?thesis using w by simp
qed

end
