(* ===== verification/Reply_Handoff.thy ===== *)
theory Reply_Handoff
  imports Gateway_Prelude
begin

text \<open>
  How a reply gets from the worker that called the provider to the request that waits for it:
  the last \<^verbatim>\<open>select\<close> of \<open>tryRequest\<close>, the sends at the end of \<open>requestWorker\<close>, and
  \<open>billAbandonedTerminal\<close>, all of core/bifrost.go.

  The request waits for the channel of replies or for its context; the worker sends on the channel,
  or sees the context done and runs the terminal hooks itself, or gives up after five seconds.
  Settling a reply, that is running the terminal hooks on it, is recorded in \<open>h_settled\<close>. The
  capacity of the channel is a parameter of the steps: the code's channels have room for one reply,
  a channel without room hands a reply over only while the request waits. The model concerns
  requests that are not streamed; a streamed one is settled by the goroutine of its stream.
\<close>

datatype waiter = Waiting | Settled | Left

datatype worker = Working | Sent | Abandoned | TimedOut

record 'r handoff =
  h_waiter :: waiter
  h_worker :: worker
  h_channel :: "'r list"
  h_cancelled :: bool
  h_settled :: "'r list"

definition handoff_start :: "'r handoff" where
  "handoff_start = \<lparr>h_waiter = Waiting, h_worker = Working, h_channel = [], h_cancelled = False, h_settled = []\<rparr>"

definition responseChannelCapacity :: nat where
  "responseChannelCapacity = 1"

text \<open>A send is ready when the channel has room or the request is there to receive.\<close>

definition send_ready :: "nat \<Rightarrow> 'r handoff \<Rightarrow> bool" where
  "send_ready capacity s \<longleftrightarrow> length (h_channel s) < capacity \<or> (h_waiter s = Waiting \<and> h_channel s = [])"

definition settle_reply :: "'r \<Rightarrow> 'r handoff \<Rightarrow> 'r handoff" where
  "settle_reply x s = s\<lparr>h_waiter := Settled, h_settled := h_settled s @ [x]\<rparr>"

definition leave_request :: "'r handoff \<Rightarrow> 'r handoff" where
  "leave_request s = s\<lparr>h_waiter := Left\<rparr>"

definition billAbandonedTerminal :: "'r \<Rightarrow> 'r handoff \<Rightarrow> 'r handoff" where
  "billAbandonedTerminal x s = s\<lparr>h_settled := h_settled s @ [x]\<rparr>"

text \<open>
  The reply \<open>r\<close> is what the provider answered. A \<^verbatim>\<open>select\<close> with several ready cases takes any of
  them; the timer of the worker can only win when no other case was ready for its five seconds.
\<close>

inductive handoff_step :: "nat \<Rightarrow> 'r \<Rightarrow> 'r handoff \<Rightarrow> 'r handoff \<Rightarrow> bool" for capacity r where
  cancel: "\<not> h_cancelled s \<Longrightarrow> handoff_step capacity r s (s\<lparr>h_cancelled := True\<rparr>)"
| send: "h_worker s = Working \<Longrightarrow> length (h_channel s) < capacity
    \<Longrightarrow> handoff_step capacity r s (s\<lparr>h_worker := Sent, h_channel := h_channel s @ [r]\<rparr>)"
| meet: "h_worker s = Working \<Longrightarrow> h_waiter s = Waiting \<Longrightarrow> h_channel s = []
    \<Longrightarrow> handoff_step capacity r s ((settle_reply r s)\<lparr>h_worker := Sent\<rparr>)"
| receive: "h_waiter s = Waiting \<Longrightarrow> h_channel s = x # xs
    \<Longrightarrow> handoff_step capacity r s ((settle_reply x s)\<lparr>h_channel := xs\<rparr>)"
| leave: "h_waiter s = Waiting \<Longrightarrow> h_cancelled s \<Longrightarrow> handoff_step capacity r s (leave_request s)"
| abandon: "h_worker s = Working \<Longrightarrow> h_cancelled s
    \<Longrightarrow> handoff_step capacity r s ((billAbandonedTerminal r s)\<lparr>h_worker := Abandoned\<rparr>)"
| timeout: "h_worker s = Working \<Longrightarrow> \<not> send_ready capacity s \<Longrightarrow> \<not> h_cancelled s
    \<Longrightarrow> handoff_step capacity r s (s\<lparr>h_worker := TimedOut\<rparr>)"

inductive handoff_reachable :: "nat \<Rightarrow> 'r \<Rightarrow> 'r handoff \<Rightarrow> bool" for capacity r where
  start: "handoff_reachable capacity r handoff_start"
| step: "handoff_reachable capacity r s \<Longrightarrow> handoff_step capacity r s s' \<Longrightarrow> handoff_reachable capacity r s'"

text \<open>A run is over when neither the request nor the worker has anything left to do.\<close>

definition over :: "'r handoff \<Rightarrow> bool" where
  "over s \<longleftrightarrow> h_waiter s \<noteq> Waiting \<and> h_worker s \<noteq> Working"

lemmas handoff_defs = settle_reply_def leave_request_def billAbandonedTerminal_def

section \<open>Invariant\<close>

text \<open>
  Where the reply is: with the worker, in the channel, or settled; it is never in two places, and
  it is lost only when it was put into the channel of a request that has left.
\<close>

definition handoff_inv :: "'r \<Rightarrow> 'r handoff \<Rightarrow> bool" where
  "handoff_inv r s \<longleftrightarrow>
     (h_waiter s = Left \<longrightarrow> h_cancelled s) \<and> h_worker s \<noteq> TimedOut
     \<and> (case h_worker s of
          Working \<Rightarrow> h_channel s = [] \<and> h_settled s = [] \<and> h_waiter s \<noteq> Settled
        | Sent \<Rightarrow> (if h_waiter s = Settled then h_channel s = [] \<and> h_settled s = [r] else h_channel s = [r] \<and> h_settled s = [])
        | Abandoned \<Rightarrow> h_channel s = [] \<and> h_settled s = [r] \<and> h_waiter s \<noteq> Settled \<and> h_cancelled s
        | TimedOut \<Rightarrow> False)"

lemma waiter_neq: "h_waiter s \<noteq> Waiting \<Longrightarrow> h_waiter s \<noteq> Left \<Longrightarrow> h_waiter s = Settled"
  by (cases "h_waiter s") simp_all

lemma handoff_inv_step: "handoff_step capacity r s s' \<Longrightarrow> handoff_inv r s \<Longrightarrow> handoff_inv r s'"
  by (induction rule: handoff_step.induct)
    (auto simp: handoff_inv_def send_ready_def handoff_defs dest: waiter_neq split: worker.splits waiter.splits if_splits)

lemma handoff_inv_reachable: "handoff_reachable capacity r s \<Longrightarrow> handoff_inv r s"
  by (induction rule: handoff_reachable.induct)
    (auto simp: handoff_inv_step, simp add: handoff_inv_def handoff_start_def)

section \<open>Properties\<close>

text \<open>
  C19: A reply is settled at most once: in every schedule of the request, the worker and the cancellation, with
  channels of any capacity, the terminal hooks run for the reply once or not at all; and while the request has not been
  cancelled, the run cannot be over without the request having received and settled the reply.
\<close>

theorem reply_settled_at_most_once:
  assumes "handoff_reachable capacity r s"
  shows "(h_settled s = [] \<or> h_settled s = [r]) \<and> (over s \<longrightarrow> h_cancelled s \<or> (h_waiter s = Settled \<and> h_settled s = [r]))"
  using handoff_inv_reachable [OF assms]
  by (cases "h_worker s") (auto simp: handoff_inv_def over_def split: if_splits waiter.splits, (cases "h_waiter s"; simp)+)

lemma handoff_capacity: "handoff_reachable capacity r s \<Longrightarrow> length (h_channel s) \<le> capacity"
proof (induction rule: handoff_reachable.induct)
  case (step s s')
  from step.hyps(2) step.IH show ?case by (cases rule: handoff_step.cases) (simp_all add: handoff_defs)
qed (simp add: handoff_start_def)

text \<open>
  With channels that have no room a produced reply is always settled, cancelled or not: this is the guarantee
  the comment of \<^verbatim>\<open>billAbandonedTerminal\<close> claims.
\<close>

theorem rendezvous_settles:
  assumes "handoff_reachable 0 r s" "over s"
  shows "h_settled s = [r]"
  using handoff_inv_reachable [OF assms(1)] handoff_capacity [OF assms(1)] assms(2)
  by (cases "h_worker s") (auto simp: handoff_inv_def over_def split: if_splits)

lemma lost_reply:
  "handoff_reachable responseChannelCapacity r
     \<lparr>h_waiter = Left, h_worker = Sent, h_channel = [r], h_cancelled = True, h_settled = []\<rparr>"
proof -
  have 1: "handoff_reachable responseChannelCapacity r (handoff_start\<lparr>h_cancelled := True\<rparr>)"
    by (rule handoff_reachable.step [OF handoff_reachable.start handoff_step.cancel]) (simp add: handoff_start_def)
  have 2: "handoff_reachable responseChannelCapacity r (handoff_start\<lparr>h_cancelled := True, h_waiter := Left\<rparr>)"
    using handoff_reachable.step [OF 1 handoff_step.leave] by (simp add: handoff_start_def handoff_defs)
  show ?thesis
    using handoff_reachable.step [OF 2 handoff_step.send] by (simp add: handoff_start_def responseChannelCapacity_def)
qed

text \<open>
  With the code's channels a reply can be lost: when the request has been cancelled and has left, the worker may
  still put the reply into the channel, where nobody receives it; the run is over and the reply is not settled, so what
  the provider charged for it is billed to nobody.
\<close>

theorem abandoned_reply_lost:
  "\<exists>s. handoff_reachable responseChannelCapacity (r :: 'r) s \<and> over s \<and> h_settled s = []"
  using lost_reply [of r] by (force simp: over_def)

definition left_to_do :: "'r handoff \<Rightarrow> nat" where
  "left_to_do s = (if h_waiter s = Waiting then 1 else 0) + (if h_worker s = Working then 1 else 0)"

text \<open>
  Nobody waits for ever: while the run is not over, a step other than the cancellation is possible, or the request
  waits for the worker, which can then send; and every such step brings the end of the run nearer.
\<close>

theorem handoff_progresses:
  assumes "handoff_reachable responseChannelCapacity r s" "\<not> over s"
  shows "\<exists>s'. handoff_step responseChannelCapacity r s s' \<and> left_to_do s' < left_to_do s"
proof (cases "h_worker s")
  case Working
  then have "h_channel s = []" using handoff_inv_reachable [OF assms(1)] by (simp add: handoff_inv_def)
  then have "handoff_step responseChannelCapacity r s (s\<lparr>h_worker := Sent, h_channel := h_channel s @ [r]\<rparr>)"
    using Working by (intro handoff_step.send) (simp_all add: responseChannelCapacity_def)
  then show ?thesis using Working by (intro exI conjI) (auto simp: left_to_do_def handoff_defs)
next
  case Sent
  then have w: "h_waiter s = Waiting" "h_channel s = [r]"
    using assms(2) handoff_inv_reachable [OF assms(1)] by (auto simp: over_def handoff_inv_def split: if_splits)
  then show ?thesis using handoff_step.receive [of s r "[]" responseChannelCapacity r] Sent
    by (intro exI conjI) (auto simp: left_to_do_def handoff_defs)
next
  case Abandoned
  then have w: "h_waiter s = Waiting" "h_cancelled s"
    using assms(2) handoff_inv_reachable [OF assms(1)] by (auto simp: over_def handoff_inv_def)
  then show ?thesis using handoff_step.leave [of s responseChannelCapacity r] Abandoned
    by (intro exI conjI) (auto simp: left_to_do_def handoff_defs)
next
  case TimedOut
  then show ?thesis using handoff_inv_reachable [OF assms(1)] by (simp add: handoff_inv_def)
qed

text \<open>Witnesses: the lost reply, and a run without a cancellation.\<close>

theorem reply_settled_at_most_once_witness:
  "h_settled \<lparr>h_waiter = Left, h_worker = Sent, h_channel = [7], h_cancelled = True, h_settled = []\<rparr> \<noteq> [7, 7 :: nat]"
  using reply_settled_at_most_once [OF lost_reply [of "7 :: nat"]] by simp

lemma plain_run: "handoff_reachable c r (handoff_start\<lparr>h_worker := Sent, h_waiter := Settled, h_settled := [r]\<rparr>)"
  using handoff_reachable.step [OF handoff_reachable.start handoff_step.meet, where capacity = c and r = r] by (simp add: handoff_start_def handoff_defs)

theorem rendezvous_settles_witness:
  "h_settled (handoff_start\<lparr>h_worker := Sent, h_waiter := Settled, h_settled := [7 :: nat]\<rparr>) = [7]"
  using rendezvous_settles [OF plain_run [where r = "7 :: nat"]] by (simp add: over_def handoff_start_def)

theorem handoff_progresses_witness:
  "\<exists>s'. handoff_step responseChannelCapacity (7 :: nat) handoff_start s' \<and> left_to_do s' < left_to_do (handoff_start :: nat handoff)"
  using handoff_progresses [OF handoff_reachable.start, of "7 :: nat"] by (simp add: over_def handoff_start_def)

end
