(* ===== verification/Go_Strings.thy ===== *)
theory Go_Strings
  imports Gateway_Prelude "HOL-Library.Sublist"
begin

text \<open>Searching in Go strings, for the components that look for parts of names and messages.\<close>

definition strContains :: "string \<Rightarrow> string \<Rightarrow> bool" where
  "strContains s sub = sublist sub s"

definition hasSuffix :: "string \<Rightarrow> string \<Rightarrow> bool" where
  "hasSuffix s x = hasPrefix (rev s) (rev x)"

end
