(* ===== verification/Tool_Access.thy ===== *)
theory Tool_Access
  imports Tool_Grants Go_Strings
begin

text \<open>
  Access to the tools of MCP clients, after core/mcp/utils.go, core/mcp/exec.go and the shared
  connections of core/mcp/clientmanager.go: the filters on clients and tools, the tools offered
  to a request, the checks before a tool call, and the names a listing gives to tools. A client
  map is an association list, whose order stands for Go's iteration order.
\<close>

section \<open>Clients and tools\<close>

text \<open>
  Of a client's configuration the model keeps the fields the access code and the client manager
  read; the connection string is the value behind the secret, \<^verbatim>\<open>None\<close> for a nil pointer. A nil
  list of tools differs from an empty one in Go, so the lists are optional.
\<close>

record MCPClientConfig =
  cl_ID :: string
  cl_Name :: string
  cl_IsCodeModeClient :: bool
  cl_ConnectionType :: string
  cl_ConnectionString :: "string option"
  cl_AuthType :: string
  cl_ToolsToExecute :: "string list option"
  cl_ToolsToAutoExecute :: "string list option"
  cl_Disabled :: bool

text \<open>Of a tool only the name and the description of its function are kept; \<^verbatim>\<open>None\<close> is a nil function.\<close>

record ChatTool =
  tl_Function :: "(string \<times> string) option"

abbreviation tool_name :: "ChatTool \<Rightarrow> string option" where
  "tool_name t \<equiv> map_option fst (tl_Function t)"

record MCPClientState =
  cs_Name :: string
  cs_Conn :: "nat option"
  cs_ExecutionConfig :: MCPClientConfig
  cs_ToolMap :: "(string, ChatTool) gomap"
  cs_ToolNameMapping :: "(string, string) gomap"
  cs_State :: string

definition StateConnected :: string where "StateConnected = ''connected''"
definition StateDisconnected :: string where "StateDisconnected = ''disconnected''"
definition StatePendingTools :: string where "StatePendingTools = ''pending_tools''"
definition StateDisabled :: string where "StateDisabled = ''disabled''"

lemma state_neq [simp]:
  "StateConnected \<noteq> StateDisabled" "StateDisconnected \<noteq> StateDisabled" "StatePendingTools \<noteq> StateDisabled"
  "StateDisabled \<noteq> StateConnected" "StateDisabled \<noteq> StateDisconnected" "StateDisabled \<noteq> StatePendingTools"
  by (simp_all add: StateConnected_def StateDisconnected_def StatePendingTools_def StateDisabled_def)

type_synonym client_map = "(string, MCPClientState) gomap"

text \<open>The values of the request context the access code reads.\<close>

record ToolContext =
  tc_IncludeClients :: "string list option"
  tc_IncludeTools :: "string list option"
  tc_UserAgent :: "string option"
  tc_AddedTools :: "string list"

abbreviation name_of :: "MCPClientState \<Rightarrow> string" where
  "name_of c \<equiv> cl_Name (cs_ExecutionConfig c)"

section \<open>Filters\<close>

definition shouldIncludeClient :: "string \<Rightarrow> string list option \<Rightarrow> bool" where
  "shouldIncludeClient clientName includeClients =
     (case includeClients of None \<Rightarrow> True
      | Some cs \<Rightarrow> if cs = [] then False else if ''*'' \<in> set cs then True else clientName \<in> set cs)"

definition stripClientPrefix :: "string \<Rightarrow> string \<Rightarrow> string" where
  "stripClientPrefix prefixedToolName clientName =
     (let p = clientName @ ''-'' in
      if hasPrefix prefixedToolName p then drop (length p) prefixedToolName else prefixedToolName)"

definition shouldSkipToolForConfig :: "string \<Rightarrow> MCPClientConfig \<Rightarrow> bool" where
  "shouldSkipToolForConfig toolName config =
     (case cl_ToolsToExecute config of None \<Rightarrow> True
      | Some wl \<Rightarrow> if wl = [] then True else if wl_IsUnrestricted wl then False
          else \<not> wl_Contains wl (stripClientPrefix toolName (cl_Name config)))"

definition canAutoExecuteTool :: "string \<Rightarrow> MCPClientConfig \<Rightarrow> bool" where
  "canAutoExecuteTool toolName config =
     (if shouldSkipToolForConfig toolName config then False
      else case cl_ToolsToAutoExecute config of None \<Rightarrow> False
      | Some wl \<Rightarrow> if wl = [] then False else if wl_IsUnrestricted wl then True
          else wl_Contains wl (stripClientPrefix toolName (cl_Name config)))"

definition shouldSkipToolForRequest :: "ToolContext \<Rightarrow> string \<Rightarrow> string \<Rightarrow> bool" where
  "shouldSkipToolForRequest ctx clientName toolName =
     (case tc_IncludeTools ctx of None \<Rightarrow> False
      | Some ts \<Rightarrow> if ts = [] then True
          else if clientName @ ''-*'' \<in> set ts then False
          else if toolName \<in> set ts then False
          else True)"

section \<open>Looking clients and tools up\<close>

definition GetClientForTool :: "client_map \<Rightarrow> string \<Rightarrow> MCPClientState option" where
  "GetClientForTool m toolName =
     map_option snd (find (\<lambda>e. gm_get (cs_ToolMap (snd e)) toolName \<noteq> None) m)"

definition GetClientByName :: "client_map \<Rightarrow> string \<Rightarrow> MCPClientState option" where
  "GetClientByName m clientName = map_option snd (find (\<lambda>e. name_of (snd e) = clientName) m)"

text \<open>
  The tools of one client that pass both filters, in the order of their names, and the tools
  of all clients by client name. A name is looked up in the map by name, so of two clients of
  one name the one that was read last stands for both.
\<close>

definition client_tools :: "ToolContext \<Rightarrow> MCPClientState \<Rightarrow> ChatTool list" where
  "client_tools ctx c =
     map (\<lambda>t. the (gm_get (cs_ToolMap c) t))
       (filter (\<lambda>t. \<not> shouldSkipToolForConfig t (cs_ExecutionConfig c) \<and> \<not> shouldSkipToolForRequest ctx (name_of c) t)
         (sort_by str_lt (map fst (cs_ToolMap c))))"

definition add_client_tools :: "ToolContext \<Rightarrow> client_map \<Rightarrow> string \<Rightarrow> (string, ChatTool list) gomap \<Rightarrow>
    (string, ChatTool list) gomap" where
  "add_client_tools ctx byName clientName tools =
     (case gm_get byName clientName of None \<Rightarrow> tools
      | Some c \<Rightarrow>
          if cs_State c = StateDisabled then tools
          else if \<not> shouldIncludeClient clientName (tc_IncludeClients ctx) then tools
          else if client_tools ctx c = [] then tools
          else gm_put clientName (gm_get0 [] tools clientName @ client_tools ctx c) tools)"

definition GetToolPerClient :: "client_map \<Rightarrow> ToolContext \<Rightarrow> (string, ChatTool list) gomap" where
  "GetToolPerClient m ctx =
     (let clientNames = map (\<lambda>e. name_of (snd e)) m;
          clientsByName = fold (\<lambda>e. gm_put (name_of (snd e)) (snd e)) m []
      in fold (add_client_tools ctx clientsByName) (sort_by str_lt clientNames) [])"

section \<open>Connections\<close>

text \<open>
  Which kinds of authentication open a connection for every call, as the resolvers of
  core/mcp/credstore answer.
\<close>

definition RequiresPerCallConnection :: "MCPClientConfig \<Rightarrow> bool" where
  "RequiresPerCallConnection config = (cl_AuthType config \<in> {''per_user_oauth'', ''per_user_headers''})"

text \<open>
  A shared connection is the client's own. A connection for one call is opened by the parameter
  \<open>dial\<close>: the hooks around a connection, the transport and the handshake are not modelled.
\<close>

definition AcquireClientConn :: "(MCPClientConfig \<Rightarrow> err + nat) \<Rightarrow> MCPClientState \<Rightarrow> err + nat" where
  "AcquireClientConn dial c =
     (let config = cs_ExecutionConfig c in
      if \<not> RequiresPerCallConnection config then
        (case cs_Conn c of
           None \<Rightarrow> Inl (Err (''MCP client '' @ cl_Name config @ '' has no active connection''))
         | Some conn \<Rightarrow> Inr conn)
      else if cl_ConnectionString config = None \<or> cl_ConnectionString config = Some [] then
        Inl (Err ''connection URL is required for ephemeral MCP execution'')
      else dial config)"

section \<open>The checks before a tool call\<close>

text \<open>
  The refusals of a call that the client or its configuration or the request does not allow,
  \<^verbatim>\<open>None\<close> when it may go on.
\<close>

definition quote :: "string \<Rightarrow> string" where
  "quote s = [CHR 0x27] @ s @ [CHR 0x27]"

definition tool_refusal :: "ToolContext \<Rightarrow> MCPClientState \<Rightarrow> string \<Rightarrow> err option" where
  "tool_refusal ctx c toolName =
     (if cs_State c = StateDisabled then
        Some (Err (''tool '' @ quote toolName @ '' is not permitted (client '' @ name_of c @ '' is disabled)''))
      else if \<not> shouldIncludeClient (name_of c) (tc_IncludeClients ctx) then
        Some (Err (''tool '' @ quote toolName @ '' is not permitted (client '' @ name_of c @ '' is not in request-context include list)''))
      else if shouldSkipToolForConfig toolName (cs_ExecutionConfig c) then
        Some (Err (''tool '' @ quote toolName @ '' is not permitted (not in client'' @ [CHR 0x27] @ ''s ToolsToExecute allow-list)''))
      else if shouldSkipToolForRequest ctx (name_of c) toolName then
        Some (Err (''tool '' @ quote toolName @ '' is not permitted (filtered by request context)''))
      else None)"

text \<open>
  A call of a code mode tool needs no client; any other call gets the client that has the
  tool together with a connection to it.
\<close>

definition prepareToolExecution ::
    "bool \<Rightarrow> (MCPClientConfig \<Rightarrow> err + nat) \<Rightarrow> client_map \<Rightarrow> ToolContext \<Rightarrow> string \<Rightarrow> err + (MCPClientState \<times> nat) option" where
  "prepareToolExecution codeMode dial m ctx toolName =
     (if toolName = [] then Inl (Err ''tool call missing function name'')
      else if codeMode \<and> IsCodeModeTool toolName then Inr None
      else case GetClientForTool m toolName of
        None \<Rightarrow> Inl (Err (''tool '' @ quote toolName @ '' is not available or not permitted''))
      | Some c \<Rightarrow>
          (case tool_refusal ctx c toolName of
             Some e \<Rightarrow> Inl e
           | None \<Rightarrow> (case AcquireClientConn dial c of Inl e \<Rightarrow> Inl e | Inr conn \<Rightarrow> Inr (Some (c, conn)))))"

section \<open>The names of listed tools\<close>

record MCPTool =
  mt_Name :: string
  mt_Description :: string

definition replace_hyphens :: "string \<Rightarrow> string" where
  "replace_hyphens s = map (\<lambda>c. if c = CHR ''-'' then CHR ''_'' else c) s"

definition validateNormalizedToolName :: "string \<Rightarrow> err option" where
  "validateNormalizedToolName n =
     (if n = [] then Some (Err ''tool name cannot be empty after normalization'')
      else if CHR ''/'' \<in> set n then
        Some (Err (''tool name cannot contain '' @ quote ''/'' @ '' (path separator) after normalization: '' @ n))
      else if strContains n ''..'' then
        Some (Err (''tool name cannot contain '' @ quote ''..'' @ '' (path traversal) after normalization: '' @ n))
      else None)"

text \<open>Of the conversion of a tool the model keeps its name and description; the schema is left out.\<close>

definition convertMCPToolToBifrostSchema :: "MCPTool \<Rightarrow> ChatTool" where
  "convertMCPToolToBifrostSchema t = \<lparr>tl_Function = Some (mt_Name t, mt_Description t)\<rparr>"

record listToolsResult =
  lt_tools :: "(string, ChatTool) gomap"
  lt_toolNameMapping :: "(string, string) gomap"
  lt_rawCount :: nat
  lt_skipped :: "(string \<times> err) list"

definition list_tool :: "string \<Rightarrow> MCPTool \<Rightarrow> listToolsResult \<Rightarrow> listToolsResult" where
  "list_tool clientName t r =
     (case validateNormalizedToolName (replace_hyphens (mt_Name t)) of
        Some e \<Rightarrow> r\<lparr>lt_skipped := lt_skipped r @ [(mt_Name t, e)]\<rparr>
      | None \<Rightarrow>
          let prefixed = clientName @ ''-'' @ mt_Name t;
              tool = (convertMCPToolToBifrostSchema t)\<lparr>tl_Function := Some (prefixed, mt_Description t)\<rparr>
          in r\<lparr>lt_tools := gm_put prefixed tool (lt_tools r),
               lt_toolNameMapping := gm_put (replace_hyphens (mt_Name t)) (mt_Name t) (lt_toolNameMapping r)\<rparr>)"

text \<open>
  The listing of a client out of the answer of its server, \<^verbatim>\<open>None\<close> for a nil answer; the call
  to the server and its retries are the subject of \<open>ExecuteWithRetry\<close>.
\<close>

definition retrieveExternalTools :: "string \<Rightarrow> MCPTool list option \<Rightarrow> listToolsResult" where
  "retrieveExternalTools clientName response =
     (let empty = \<lparr>lt_tools = [], lt_toolNameMapping = [], lt_rawCount = 0, lt_skipped = []\<rparr>
      in case response of None \<Rightarrow> empty
         | Some ts \<Rightarrow> (fold (list_tool clientName) ts empty)\<lparr>lt_rawCount := length ts\<rparr>)"

definition getOriginalToolName :: "string \<Rightarrow> (string, string) gomap \<Rightarrow> string" where
  "getOriginalToolName sanitizedToolName mapping =
     (case gm_get mapping sanitizedToolName of Some original \<Rightarrow> original | None \<Rightarrow> sanitizedToolName)"

text \<open>The name \<^verbatim>\<open>executeToolInternal\<close> sends to the server for a call of a tool of a client.\<close>

definition sent_name :: "MCPClientState \<Rightarrow> string \<Rightarrow> string" where
  "sent_name c toolName = getOriginalToolName (stripClientPrefix toolName (name_of c)) (cs_ToolNameMapping c)"

section \<open>Well-formed registries\<close>

text \<open>
  Every tool of a client is stored under its own function name, which starts with the client's
  name; clients have distinct names without hyphens and are stored under their IDs.
\<close>

definition tools_keyed :: "MCPClientState \<Rightarrow> bool" where
  "tools_keyed c \<longleftrightarrow> gm_ok (cs_ToolMap c)
     \<and> list_all (\<lambda>(k, t). hasPrefix k (name_of c @ ''-'') \<and> tool_name t = Some k) (cs_ToolMap c)"

definition clients_keyed :: "client_map \<Rightarrow> bool" where
  "clients_keyed m \<longleftrightarrow> gm_ok m
     \<and> list_all (\<lambda>(i, c). cl_ID (cs_ExecutionConfig c) = i \<and> CHR ''-'' \<notin> set (name_of c) \<and> tools_keyed c) m
     \<and> distinct (map (\<lambda>e. name_of (snd e)) m)"

lemma tools_keyedD:
  assumes "tools_keyed c" "gm_get (cs_ToolMap c) k = Some t"
  shows "takeWhile (\<lambda>x. x \<noteq> CHR ''-'') k = takeWhile (\<lambda>x. x \<noteq> CHR ''-'') (name_of c @ ''-'')" "tool_name t = Some k"
proof -
  have "(k, t) \<in> set (cs_ToolMap c)" using assms(2) by (rule map_of_SomeD)
  then have "hasPrefix k (name_of c @ ''-'') \<and> tool_name t = Some k"
    using assms(1) unfolding tools_keyed_def list_all_iff by blast
  then obtain u where "k = name_of c @ CHR ''-'' # u" "tool_name t = Some k" unfolding hasPrefix_iff by fastforce
  then show "takeWhile (\<lambda>x. x \<noteq> CHR ''-'') k = takeWhile (\<lambda>x. x \<noteq> CHR ''-'') (name_of c @ ''-'')" "tool_name t = Some k"
    by (auto simp: takeWhile_append)
qed

lemma clients_keyedD:
  assumes "clients_keyed m" "(i, c) \<in> set m"
  shows "cl_ID (cs_ExecutionConfig c) = i" "CHR ''-'' \<notin> set (name_of c)" "tools_keyed c"
  using assms by (auto simp: clients_keyed_def list_all_iff)

lemma client_name_unique:
  assumes "clients_keyed m" "(i, c) \<in> set m" "(j, d) \<in> set m" "name_of c = name_of d"
  shows "i = j \<and> c = d"
proof -
  have "inj_on (\<lambda>e. name_of (snd e)) (set m)" using assms(1) by (simp add: clients_keyed_def distinct_map)
  from inj_onD [OF this, of "(i, c)" "(j, d)"] show ?thesis using assms by simp
qed

lemma tool_name_client:
  assumes "clients_keyed m" "(i, c) \<in> set m" "gm_get (cs_ToolMap c) k = Some t"
  shows "takeWhile (\<lambda>x. x \<noteq> CHR ''-'') k = name_of c"
  using clients_keyedD [OF assms(1,2)] tools_keyedD(1) [OF _ assms(3)] by (simp add: takeWhile_append)

lemma find_SomeD: "find P xs = Some x \<Longrightarrow> x \<in> set xs \<and> P x"
  by (induction xs) (auto split: if_splits)

lemma find_unique:
  assumes "x \<in> set xs" "P x" "\<And>y. y \<in> set xs \<Longrightarrow> P y \<Longrightarrow> y = x"
  shows "find P xs = Some x"
proof (cases "find P xs")
  case None
  then show ?thesis using assms(1,2) by (simp add: find_None_iff)
next
  case (Some y)
  then show ?thesis using find_SomeD [OF Some] assms(3) by simp
qed

lemma GetClientByName_unique:
  assumes "clients_keyed m" "(i, c) \<in> set m"
  shows "GetClientByName m (name_of c) = Some c"
proof -
  have "find (\<lambda>e. name_of (snd e) = name_of c) m = Some (i, c)"
  proof (rule find_unique)
    fix y assume y: "y \<in> set m" "name_of (snd y) = name_of c"
    obtain j d where "y = (j, d)" by (cases y)
    then show "y = (i, c)" using client_name_unique [OF assms, of j d] y by simp
  qed (use assms(2) in simp_all)
  then show ?thesis by (simp add: GetClientByName_def)
qed

lemma GetClientForTool_unique:
  assumes "clients_keyed m" "(i, c) \<in> set m" "gm_get (cs_ToolMap c) k \<noteq> None"
  shows "GetClientForTool m k = Some c"
proof -
  have "find (\<lambda>e. gm_get (cs_ToolMap (snd e)) k \<noteq> None) m = Some (i, c)"
  proof (rule find_unique)
    fix y assume y: "y \<in> set m" "gm_get (cs_ToolMap (snd y)) k \<noteq> None"
    obtain j d where p: "y = (j, d)" by (cases y)
    obtain t u where t: "gm_get (cs_ToolMap d) k = Some t" "gm_get (cs_ToolMap c) k = Some u" using y p assms(3) by auto
    have "name_of d = name_of c"
      using tool_name_client [OF assms(1) _ t(1), of j] tool_name_client [OF assms(1,2) t(2)] y(1) p by simp
    then show "y = (i, c)" using client_name_unique [OF assms(1) _ assms(2), of j d] y(1) p by simp
  qed (use assms in simp_all)
  then show ?thesis by (simp add: GetClientForTool_def)
qed

lemma GetClientForTool_SomeD:
  assumes "GetClientForTool m k = Some c"
  obtains i where "(i, c) \<in> set m" "gm_get (cs_ToolMap c) k \<noteq> None"
proof -
  obtain e where e: "find (\<lambda>e. gm_get (cs_ToolMap (snd e)) k \<noteq> None) m = Some e" "c = snd e"
    using assms by (auto simp: GetClientForTool_def)
  have "(fst e, c) \<in> set m" "gm_get (cs_ToolMap c) k \<noteq> None" using find_SomeD [OF e(1)] e(2) by simp_all
  then show thesis by (rule that)
qed

lemma GetClientByName_SomeD:
  assumes "GetClientByName m n = Some c"
  obtains i where "(i, c) \<in> set m" "name_of c = n"
proof -
  obtain e where e: "find (\<lambda>e. name_of (snd e) = n) m = Some e" "c = snd e"
    using assms by (auto simp: GetClientByName_def)
  have "(fst e, c) \<in> set m" "name_of c = n" using find_SomeD [OF e(1)] e(2) by simp_all
  then show thesis by (rule that)
qed

section \<open>Tools offered\<close>

lemma clients_by_name:
  assumes "distinct (map (\<lambda>e. name_of (snd e)) m)"
  shows "gm_get (fold (\<lambda>e. gm_put (name_of (snd e)) (snd e)) m acc) n =
    (case GetClientByName m n of Some c \<Rightarrow> Some c | None \<Rightarrow> gm_get acc n)"
  using assms
proof (induction m arbitrary: acc)
  case (Cons e m)
  obtain i c where e: "e = (i, c)" by (cases e)
  show ?case
  proof (cases "name_of c = n")
    case True
    then have "find (\<lambda>e. name_of (snd e) = n) m = None" using Cons.prems e by (force simp: find_None_iff)
    then show ?thesis using True Cons e by (simp add: GetClientByName_def)
  next
    case False
    then show ?thesis using Cons e by (simp add: GetClientByName_def split: option.splits)
  qed
qed (simp add: GetClientByName_def)

definition client_passes :: "ToolContext \<Rightarrow> MCPClientState \<Rightarrow> bool" where
  "client_passes ctx c \<longleftrightarrow> cs_State c \<noteq> StateDisabled \<and> shouldIncludeClient (name_of c) (tc_IncludeClients ctx)"

lemma add_client_tools_get:
  assumes "\<And>c. gm_get byName n = Some c \<Longrightarrow> name_of c = n"
  shows "gm_get (add_client_tools ctx byName n acc) k =
    (if k = n then
       (case gm_get byName n of None \<Rightarrow> gm_get acc n
        | Some c \<Rightarrow> if client_passes ctx c \<and> client_tools ctx c \<noteq> [] then Some (gm_get0 [] acc n @ client_tools ctx c) else gm_get acc n)
     else gm_get acc k)"
proof (cases "gm_get byName n")
  case (Some c)
  then show ?thesis using assms [of c] by (simp add: add_client_tools_def client_passes_def)
qed (simp add: add_client_tools_def)

lemma fold_client_tools_get:
  assumes "\<forall>n c. gm_get byName n = Some c \<longrightarrow> name_of c = n" "distinct ns"
  shows "gm_get (fold (add_client_tools ctx byName) ns acc) k =
    (if k \<in> set ns then
       (case gm_get byName k of None \<Rightarrow> gm_get acc k
        | Some c \<Rightarrow> if client_passes ctx c \<and> client_tools ctx c \<noteq> [] then Some (gm_get0 [] acc k @ client_tools ctx c) else gm_get acc k)
     else gm_get acc k)"
proof -
  have nm: "gm_get byName n = Some c \<Longrightarrow> name_of c = n" for n c using assms(1) by blast
  show ?thesis using assms(2)
    by (induction ns arbitrary: acc) (auto simp: add_client_tools_get [OF nm] gm_get0_def split: option.splits)
qed

lemma GetToolPerClient_get:
  assumes "clients_keyed m"
  shows "gm_get (GetToolPerClient m ctx) n =
    (case GetClientByName m n of None \<Rightarrow> None
     | Some c \<Rightarrow> if client_passes ctx c \<and> client_tools ctx c \<noteq> [] then Some (client_tools ctx c) else None)"
proof -
  let ?b = "fold (\<lambda>e. gm_put (name_of (snd e)) (snd e)) m []"
  have d: "distinct (map (\<lambda>e. name_of (snd e)) m)" using assms by (simp add: clients_keyed_def)
  have b: "gm_get ?b k = GetClientByName m k" for k using clients_by_name [OF d, of "[]"] by (simp split: option.split)
  have nm: "\<forall>k c. gm_get ?b k = Some c \<longrightarrow> name_of c = k"
    unfolding b by (auto elim: GetClientByName_SomeD)
  have ds: "distinct (sort_by str_lt (map (\<lambda>e. name_of (snd e)) m))"
    using sort_by_distinct [where g = id and lt = str_lt] d by simp
  have none: "GetClientByName m n = None" if "n \<notin> (\<lambda>e. name_of (snd e)) ` set m"
    using that by (force simp: GetClientByName_def find_None_iff)
  show ?thesis
    using fold_client_tools_get [OF nm ds, where ctx = ctx and acc = "[]" and k = n] none
    by (cases "n \<in> (\<lambda>e. name_of (snd e)) ` set m") (simp_all add: GetToolPerClient_def b split: option.split)
qed

definition offered :: "client_map \<Rightarrow> ToolContext \<Rightarrow> string \<Rightarrow> bool" where
  "offered m ctx t \<longleftrightarrow> (\<exists>n ts tool. gm_get (GetToolPerClient m ctx) n = Some ts \<and> tool \<in> set ts \<and> tool_name tool = Some t)"

lemma client_tools_named:
  assumes "tools_keyed c"
  shows "(\<exists>tool \<in> set (client_tools ctx c). tool_name tool = Some t) \<longleftrightarrow>
    gm_get (cs_ToolMap c) t \<noteq> None \<and> \<not> shouldSkipToolForConfig t (cs_ExecutionConfig c) \<and> \<not> shouldSkipToolForRequest ctx (name_of c) t"
proof -
  let ?ok = "\<lambda>k. \<not> shouldSkipToolForConfig k (cs_ExecutionConfig c) \<and> \<not> shouldSkipToolForRequest ctx (name_of c) k"
  have "tool_name (the (gm_get (cs_ToolMap c) k)) = Some k" if "k \<in> fst ` set (cs_ToolMap c)" for k
    using that tools_keyedD(2) [OF assms, of k] by (cases "gm_get (cs_ToolMap c) k") (simp_all add: map_of_eq_None_iff)
  then have "(\<exists>k \<in> fst ` set (cs_ToolMap c). ?ok k \<and> tool_name (the (gm_get (cs_ToolMap c) k)) = Some t)
    \<longleftrightarrow> t \<in> fst ` set (cs_ToolMap c) \<and> ?ok t" by (metis option.inject)
  then show ?thesis unfolding client_tools_def by (simp add: map_of_eq_None_iff Bex_def)
qed

lemma sublist_singleton: "sublist [x] xs \<longleftrightarrow> x \<in> set xs"
  by (auto simp: sublist_def in_set_conv_decomp)

text \<open>
  C24: Offered means callable: with a well-formed registry, a tool is among the tools offered to
  a request exactly when some client has it and the checks before a call of that tool, in the
  same context, refuse nothing. A caller cannot run by name a tool that was hidden from it, and
  is not shown a tool it may not run.
\<close>

theorem offered_iff_not_refused:
  assumes "clients_keyed m"
  shows "offered m ctx t \<longleftrightarrow> (\<exists>c. GetClientForTool m t = Some c \<and> tool_refusal ctx c t = None)"
proof -
  have per_client: "(\<exists>n ts tool. gm_get (GetToolPerClient m ctx) n = Some ts \<and> tool \<in> set ts \<and> tool_name tool = Some t)
    \<longleftrightarrow> (\<exists>(i, c) \<in> set m. client_passes ctx c \<and> (\<exists>tool \<in> set (client_tools ctx c). tool_name tool = Some t))" (is "?l \<longleftrightarrow> ?r")
  proof
    assume ?l
    then obtain n ts tool where o: "gm_get (GetToolPerClient m ctx) n = Some ts" "tool \<in> set ts" "tool_name tool = Some t" by blast
    then obtain c where c: "GetClientByName m n = Some c" "client_passes ctx c" "ts = client_tools ctx c"
      by (auto simp: GetToolPerClient_get [OF assms] split: option.splits if_splits)
    from c(1) obtain i where "(i, c) \<in> set m" by (rule GetClientByName_SomeD)
    then show ?r using o c by blast
  next
    assume ?r
    then obtain i c tool where c: "(i, c) \<in> set m" "client_passes ctx c" "tool \<in> set (client_tools ctx c)" "tool_name tool = Some t"
      by blast
    then have "gm_get (GetToolPerClient m ctx) (name_of c) = Some (client_tools ctx c)"
      by (auto simp: GetToolPerClient_get [OF assms] GetClientByName_unique [OF assms c(1)])
    then show ?l using c by blast
  qed
  have refusal: "tool_refusal ctx c t = None \<longleftrightarrow>
      client_passes ctx c \<and> \<not> shouldSkipToolForConfig t (cs_ExecutionConfig c) \<and> \<not> shouldSkipToolForRequest ctx (name_of c) t" for c
    by (simp add: tool_refusal_def client_passes_def)
  have "?r \<longleftrightarrow> (\<exists>c. GetClientForTool m t = Some c \<and> tool_refusal ctx c t = None)"
  proof
    assume ?r
    then obtain i c where c: "(i, c) \<in> set m" "client_passes ctx c" "\<exists>tool \<in> set (client_tools ctx c). tool_name tool = Some t"
      by blast
    then show "\<exists>c. GetClientForTool m t = Some c \<and> tool_refusal ctx c t = None"
      using client_tools_named [OF clients_keyedD(3) [OF assms c(1)], of ctx t] GetClientForTool_unique [OF assms c(1), of t] refusal [of c]
      by blast
  next
    assume "\<exists>c. GetClientForTool m t = Some c \<and> tool_refusal ctx c t = None"
    then obtain c where c: "GetClientForTool m t = Some c" "tool_refusal ctx c t = None" by blast
    from c(1) obtain i where i: "(i, c) \<in> set m" "gm_get (cs_ToolMap c) t \<noteq> None" by (rule GetClientForTool_SomeD)
    then show ?r
      using client_tools_named [OF clients_keyedD(3) [OF assms i(1)], of ctx t] refusal [of c] c(2) by blast
  qed
  then show ?thesis unfolding offered_def per_client .
qed

section \<open>Original names\<close>

lemma strip_prefixed [simp]: "stripClientPrefix (n @ ''-'' @ t) n = t"
  by (simp add: stripClientPrefix_def hasPrefix_iff)

lemma replace_hyphens_id: "CHR ''-'' \<notin> set s \<Longrightarrow> replace_hyphens s = s"
  unfolding replace_hyphens_def by (induction s) auto

lemma no_hyphen_replaced: "CHR ''-'' \<notin> set (replace_hyphens s)"
  by (auto simp: replace_hyphens_def split: if_splits)

definition listable :: "MCPTool \<Rightarrow> bool" where
  "listable t \<longleftrightarrow> validateNormalizedToolName (replace_hyphens (mt_Name t)) = None"

lemma list_tool_mapping:
  "gm_get (lt_toolNameMapping (list_tool n t r)) k =
    (if listable t \<and> k = replace_hyphens (mt_Name t) then Some (mt_Name t) else gm_get (lt_toolNameMapping r) k)"
  by (auto simp: list_tool_def listable_def Let_def split: option.splits)

lemma list_tools_mapping_other:
  "\<forall>t \<in> set ts. listable t \<longrightarrow> replace_hyphens (mt_Name t) \<noteq> k \<Longrightarrow>
    gm_get (lt_toolNameMapping (fold (list_tool n) ts r)) k = gm_get (lt_toolNameMapping r) k"
  by (induction ts arbitrary: r) (auto simp: list_tool_mapping)

lemma list_tools_mapping:
  assumes "t \<in> set ts" "listable t"
    and "\<forall>u \<in> set ts. listable u \<longrightarrow> replace_hyphens (mt_Name u) = replace_hyphens (mt_Name t) \<longrightarrow> mt_Name u = mt_Name t"
  shows "gm_get (lt_toolNameMapping (fold (list_tool n) ts r)) (replace_hyphens (mt_Name t)) = Some (mt_Name t)"
  using assms
proof (induction ts rule: rev_induct)
  case (snoc u ts)
  then show ?case
    by (cases "listable u \<and> replace_hyphens (mt_Name u) = replace_hyphens (mt_Name t)") (auto simp: list_tool_mapping)
qed simp

lemma mapping_keys:
  assumes "CHR ''-'' \<in> set k" "gm_get (lt_toolNameMapping r) k = None"
  shows "gm_get (lt_toolNameMapping (fold (list_tool n) ts r)) k = None"
proof -
  have "\<forall>t \<in> set ts. listable t \<longrightarrow> replace_hyphens (mt_Name t) \<noteq> k" using no_hyphen_replaced assms(1) by auto
  then show ?thesis using list_tools_mapping_other assms(2) by metis
qed

lemma list_tool_entry:
  "gm_get (lt_tools (list_tool n t r)) k =
    (if listable t \<and> k = n @ ''-'' @ mt_Name t
     then Some ((convertMCPToolToBifrostSchema t)\<lparr>tl_Function := Some (n @ ''-'' @ mt_Name t, mt_Description t)\<rparr>)
     else gm_get (lt_tools r) k)"
  by (auto simp: list_tool_def listable_def Let_def split: option.splits)

lemma listed_entry:
  "gm_get (lt_tools (fold (list_tool n) ts r)) k = Some tool \<Longrightarrow> gm_get (lt_tools r) k = None \<Longrightarrow>
    \<exists>t \<in> set ts. listable t \<and> k = n @ ''-'' @ mt_Name t \<and> tool_name tool = Some k"
proof (induction ts rule: rev_induct)
  case (snoc t ts)
  then show ?case by (cases "listable t \<and> k = n @ ''-'' @ mt_Name t") (auto simp: list_tool_entry)
qed simp

lemma listable_listed:
  "t \<in> set ts \<Longrightarrow> listable t \<Longrightarrow> gm_get (lt_tools (fold (list_tool n) ts r)) (n @ ''-'' @ mt_Name t) \<noteq> None"
  by (induction ts rule: rev_induct) (auto simp: list_tool_entry)

text \<open>
  C40: Names survive the round trip through a listing without collisions: when no two listed tools of a server
  have names that differ in hyphens and underscores only, every entry of the listing is stored under the name
  its function carries, a call by that name is sent to the server as the name of a tool the server gave, and
  every tool of the server with a valid name has such an entry. The form with underscores that code mode shows is
  sent as the same name.
\<close>

theorem listed_name_reaches_tool:
  assumes "\<forall>t \<in> set ts. \<forall>u \<in> set ts. listable t \<longrightarrow> listable u \<longrightarrow>
      replace_hyphens (mt_Name u) = replace_hyphens (mt_Name t) \<longrightarrow> mt_Name u = mt_Name t"
    and "r = retrieveExternalTools (name_of c) (Some ts)" "cs_ToolNameMapping c = lt_toolNameMapping r"
  shows "(\<forall>k tool. gm_get (lt_tools r) k = Some tool \<longrightarrow> tool_name tool = Some k \<and> sent_name c k \<in> mt_Name ` {t \<in> set ts. listable t})
    \<and> (\<forall>t \<in> set ts. listable t \<longrightarrow> (\<exists>k tool. gm_get (lt_tools r) k = Some tool \<and> sent_name c k = mt_Name t)
        \<and> sent_name c (name_of c @ ''-'' @ replace_hyphens (mt_Name t)) = mt_Name t)"
proof -
  let ?r = "\<lparr>lt_tools = [], lt_toolNameMapping = [], lt_rawCount = 0, lt_skipped = []\<rparr>"
  let ?f = "fold (list_tool (name_of c)) ts ?r"
  have r: "lt_tools r = lt_tools ?f" "cs_ToolNameMapping c = lt_toolNameMapping ?f"
    using assms(2,3) by (simp_all add: retrieveExternalTools_def)
  have sent: "sent_name c (name_of c @ ''-'' @ mt_Name t) = mt_Name t
      \<and> sent_name c (name_of c @ ''-'' @ replace_hyphens (mt_Name t)) = mt_Name t" if t: "t \<in> set ts" "listable t" for t
  proof -
    have s: "gm_get (cs_ToolNameMapping c) (replace_hyphens (mt_Name t)) = Some (mt_Name t)"
      unfolding r(2) using assms(1) t by (intro list_tools_mapping) auto
    have "getOriginalToolName (mt_Name t) (cs_ToolNameMapping c) = mt_Name t"
    proof (cases "CHR ''-'' \<in> set (mt_Name t)")
      case True
      then have "gm_get (cs_ToolNameMapping c) (mt_Name t) = None" unfolding r(2) by (rule mapping_keys) simp
      then show ?thesis by (simp add: getOriginalToolName_def)
    next
      case False
      then show ?thesis using s by (simp add: getOriginalToolName_def replace_hyphens_id)
    qed
    then show ?thesis using s unfolding sent_name_def strip_prefixed by (simp add: getOriginalToolName_def)
  qed
  have "tool_name tool = Some k \<and> sent_name c k \<in> mt_Name ` {t \<in> set ts. listable t}" if listed: "gm_get (lt_tools r) k = Some tool" for k tool
  proof -
    obtain t where "t \<in> set ts" "listable t" "k = name_of c @ ''-'' @ mt_Name t" "tool_name tool = Some k"
      using listed_entry [OF listed [unfolded r(1)]] by auto
    then show ?thesis using sent by auto
  qed
  moreover have "\<exists>k tool. gm_get (lt_tools r) k = Some tool \<and> sent_name c k = mt_Name t" if "t \<in> set ts" "listable t" for t
    using listable_listed [OF that, of "name_of c" ?r] sent [OF that] unfolding r(1) by blast
  ultimately show ?thesis using sent by blast
qed

definition notes_client :: MCPClientState where
  "notes_client = \<lparr>cs_Name = ''notes'', cs_Conn = Some 1,
     cs_ExecutionConfig = \<lparr>cl_ID = ''c1'', cl_Name = ''notes'', cl_IsCodeModeClient = False, cl_ConnectionType = ''http'',
       cl_ConnectionString = Some ''u'', cl_AuthType = ''none'', cl_ToolsToExecute = Some [''*''],
       cl_ToolsToAutoExecute = Some [''get_user''], cl_Disabled = False\<rparr>,
     cs_ToolMap = [], cs_ToolNameMapping = [], cs_State = StateConnected\<rparr>"

definition with_tools :: "MCPTool list \<Rightarrow> MCPClientState \<Rightarrow> MCPClientState" where
  "with_tools ts c = (let r = retrieveExternalTools (name_of c) (Some ts)
     in c\<lparr>cs_ToolMap := lt_tools r, cs_ToolNameMapping := lt_toolNameMapping r\<rparr>)"

abbreviation plain_tool :: "string \<Rightarrow> MCPTool" where
  "plain_tool n \<equiv> \<lparr>mt_Name = n, mt_Description = []\<rparr>"

definition two_tools :: "MCPTool list" where
  "two_tools = [plain_tool ''notion-search'', plain_tool ''list'']"

theorem listed_name_reaches_tool_witness:
  "(\<exists>k tool. gm_get (lt_tools (retrieveExternalTools ''notes'' (Some two_tools))) k = Some tool
      \<and> sent_name (with_tools two_tools notes_client) k = ''notion-search'')
    \<and> sent_name (with_tools two_tools notes_client) ''notes-notion_search'' = ''notion-search''"
proof -
  let ?c = "with_tools two_tools notes_client"
  have v: "listable (plain_tool ''notion-search'')"
    by (simp add: listable_def replace_hyphens_def validateNormalizedToolName_def strContains_def sublist_Cons_right)
  have n: "name_of ?c = ''notes''" by (simp add: with_tools_def notes_client_def Let_def)
  have d: "\<forall>t \<in> set two_tools. \<forall>u \<in> set two_tools. listable t \<longrightarrow> listable u \<longrightarrow>
      replace_hyphens (mt_Name u) = replace_hyphens (mt_Name t) \<longrightarrow> mt_Name u = mt_Name t"
    by (simp add: two_tools_def replace_hyphens_def)
  have "cs_ToolNameMapping ?c = lt_toolNameMapping (retrieveExternalTools (name_of ?c) (Some two_tools))"
    unfolding n by (simp add: with_tools_def notes_client_def Let_def)
  from listed_name_reaches_tool [OF d refl this] v show ?thesis unfolding n by (simp add: two_tools_def replace_hyphens_def)
qed

text \<open>
  Two tools of a server whose names differ only in hyphens and underscores share an entry of
  the mapping, and the one listed last takes it: the call of the tool \<^verbatim>\<open>get_user\<close> is sent to the
  server as a call of \<^verbatim>\<open>get-user\<close>, with the permissions of \<^verbatim>\<open>get_user\<close>.
\<close>

theorem colliding_name_calls_other_tool:
  "let c = with_tools [plain_tool ''get_user'', plain_tool ''get-user''] notes_client
   in canAutoExecuteTool ''notes-get_user'' (cs_ExecutionConfig c)
    \<and> \<not> canAutoExecuteTool ''notes-get-user'' (cs_ExecutionConfig c)
    \<and> sent_name c ''notes-get_user'' = ''get-user''"
  unfolding with_tools_def notes_client_def by code_simp

text \<open>The witness of the equivalence: one offered tool, one hidden by the request.\<close>

theorem offered_iff_not_refused_witness:
  "let c = with_tools [plain_tool ''list'', plain_tool ''drop''] notes_client;
       ctx = \<lparr>tc_IncludeClients = None, tc_IncludeTools = Some [''notes-list''], tc_UserAgent = None, tc_AddedTools = []\<rparr>
   in offered [(''c1'', c)] ctx ''notes-list'' \<and> \<not> offered [(''c1'', c)] ctx ''notes-drop''
    \<and> tool_refusal ctx c ''notes-drop'' \<noteq> None"
proof -
  let ?c = "with_tools [plain_tool ''list'', plain_tool ''drop''] notes_client"
  let ?ctx = "\<lparr>tc_IncludeClients = None, tc_IncludeTools = Some [''notes-list''], tc_UserAgent = None, tc_AddedTools = []\<rparr>"
  have k: "clients_keyed [(''c1'', ?c)]" unfolding with_tools_def notes_client_def by code_simp
  have c: "GetClientForTool [(''c1'', ?c)] ''notes-list'' = Some ?c" "GetClientForTool [(''c1'', ?c)] ''notes-drop'' = Some ?c"
    unfolding with_tools_def notes_client_def by code_simp+
  have r: "tool_refusal ?ctx ?c ''notes-list'' = None" "tool_refusal ?ctx ?c ''notes-drop'' \<noteq> None"
    unfolding with_tools_def notes_client_def by code_simp+
  show ?thesis
    using offered_iff_not_refused [OF k, of ?ctx "''notes-list''"] offered_iff_not_refused [OF k, of ?ctx "''notes-drop''"] c r by simp
qed

end
