(* ===== verification/MCP_Retry.thy ===== *)
theory MCP_Retry
  imports Tool_Access
begin

text \<open>
  Retries of operations on MCP servers, after \<^verbatim>\<open>isTransientError\<close> and \<^verbatim>\<open>ExecuteWithRetry\<close> of
  core/mcp/utils.go. What each attempt answers and when the context ends are parameters; the
  pauses and the calls are part of the result.
\<close>

section \<open>Transient errors\<close>

text \<open>
  Of an error the code looks at its text, whether it is an error of a context, and whether it is
  a timeout of the network.
\<close>

record op_error =
  oe_Message :: string
  oe_IsContextError :: bool
  oe_NetTimeout :: bool

definition permanentErrors :: "string list" where
  "permanentErrors =
     [''401'', ''403'', ''unauthorized'', ''forbidden'', ''invalid auth'', ''invalid credential'',
      ''400'', ''405'', ''422'', ''bad request'', ''method not allowed'',
      ''command not found'', ''no such file'', ''not found'', ''permission denied'',
      ''invalid config'',
      ''executable file not found'', ''permission denied'', ''command failed'',
      ''timeout'', ''deadline exceeded'', ''waiting for endpoint'']"

definition transientErrors :: "string list" where
  "transientErrors =
     [''connection refused'', ''connection reset'', ''broken pipe'',
      ''network is unreachable'', ''no route to host'',
      ''timeout'', ''deadline exceeded'', ''i/o timeout'',
      ''no such host'', ''name resolution failed'',
      ''503'', ''502'', ''504'', ''429'', ''500'',
      ''connection error'', ''connection lost'', ''connection failed'',
      ''i/o error'', ''read error'', ''write error'',
      ''temporary failure'', ''try again'']"

definition isTransientError :: "op_error option \<Rightarrow> bool" where
  "isTransientError err =
     (case err of None \<Rightarrow> False
      | Some e \<Rightarrow>
          if oe_IsContextError e then False
          else if strContains (oe_Message e) ''context canceled'' \<or> strContains (oe_Message e) ''context deadline exceeded'' then False
          else if list_ex (strContains (toLower (oe_Message e))) permanentErrors then False
          else if list_ex (strContains (toLower (oe_Message e))) transientErrors then True
          else if oe_NetTimeout e then True
          else True)"

section \<open>The loop\<close>

record RetryConfig =
  rc_MaxRetries :: int
  rc_InitialBackoff :: int
  rc_MaxBackoff :: int

definition DefaultRetryConfig :: RetryConfig where
  "DefaultRetryConfig = \<lparr>rc_MaxRetries = 5, rc_InitialBackoff = 1000000000, rc_MaxBackoff = 30000000000\<rparr>"

text \<open>
  The world of the loop by the number of the attempt: the error of a context that is done before the
  attempt, what the function answers, and the error of a context that ends during the pause.
\<close>

record retry_world =
  rw_doneBefore :: "nat \<Rightarrow> string option"
  rw_fn :: "nat \<Rightarrow> op_error option"
  rw_doneWhile :: "nat \<Rightarrow> string option"

datatype retry_end = RetryOk | RetryCancelled string | RetryFailed op_error

text \<open>
  The rounds left are \<^verbatim>\<open>MaxRetries - attempt + 1\<close>. The result has the pauses asked for, in order, and
  the number of calls. A pause is doubled through a float64, which is exact below \<open>2 ^ 53\<close> nanoseconds.
\<close>

fun operation_loop :: "retry_world \<Rightarrow> RetryConfig \<Rightarrow> nat \<Rightarrow> nat \<Rightarrow> int \<Rightarrow> op_error option \<Rightarrow> retry_end \<times> int list \<times> nat" where
  "operation_loop rw cfg 0 attempt backoff lastErr =
     (case lastErr of None \<Rightarrow> RetryOk | Some e \<Rightarrow> RetryFailed e, [], 0)"
| "operation_loop rw cfg (Suc n) attempt backoff lastErr =
     (case rw_doneBefore rw attempt of Some e \<Rightarrow> (RetryCancelled e, [], 0)
      | None \<Rightarrow>
      (case rw_fn rw attempt of None \<Rightarrow> (RetryOk, [], 1)
       | Some err \<Rightarrow>
          if \<not> isTransientError (Some err) then (RetryFailed err, [], 1)
          else if int attempt = rc_MaxRetries cfg then (RetryFailed err, [], 1)
          else (case rw_doneWhile rw attempt of Some e \<Rightarrow> (RetryCancelled e, [backoff], 1)
            | None \<Rightarrow>
              let doubled = backoff * 2;
                  next_backoff = (if doubled > rc_MaxBackoff cfg then rc_MaxBackoff cfg else doubled)
              in case operation_loop rw cfg n (attempt + 1) next_backoff (Some err) of
                   (r, pauses, calls) \<Rightarrow> (r, backoff # pauses, calls + 1))))"

definition ExecuteWithRetry :: "retry_world \<Rightarrow> RetryConfig \<Rightarrow> retry_end \<times> int list \<times> nat" where
  "ExecuteWithRetry rw cfg = operation_loop rw cfg (nat (rc_MaxRetries cfg + 1)) 0 (rc_InitialBackoff cfg) None"

section \<open>Bounds\<close>

text \<open>The pauses the loop would ask for if every attempt failed.\<close>

fun backoffs :: "RetryConfig \<Rightarrow> nat \<Rightarrow> int \<Rightarrow> int list" where
  "backoffs cfg 0 b = []"
| "backoffs cfg (Suc n) b = b # backoffs cfg n (min (rc_MaxBackoff cfg) (b * 2))"

lemma operation_loop_trace:
  assumes "operation_loop rw cfg n attempt b prev = (r, pauses, calls)" "int attempt + int n = rc_MaxRetries cfg + 1"
  shows "calls \<le> n \<and> length pauses \<le> n - 1 \<and> pauses = take (length pauses) (backoffs cfg (n - 1) b)"
  using assms
proof (induction n arbitrary: attempt b prev r pauses calls)
  case (Suc n)
  show ?case
  proof (cases "rw_doneBefore rw attempt = None \<and> (\<exists>err. rw_fn rw attempt = Some err \<and> isTransientError (Some err)
      \<and> int attempt \<noteq> rc_MaxRetries cfg)")
    case True
    then obtain err where e: "rw_doneBefore rw attempt = None" "rw_fn rw attempt = Some err" "isTransientError (Some err)"
      "int attempt \<noteq> rc_MaxRetries cfg" by blast
    have "n \<noteq> 0" using Suc.prems(2) e(4) by auto
    then obtain k where n: "n = Suc k" by (cases n) auto
    show ?thesis
    proof (cases "rw_doneWhile rw attempt")
      case (Some x)
      then show ?thesis using Suc.prems e n by auto
    next
      case None
      let ?b = "if b * 2 > rc_MaxBackoff cfg then rc_MaxBackoff cfg else b * 2"
      obtain r' ps cs where loop: "operation_loop rw cfg n (attempt + 1) ?b (Some err) = (r', ps, cs)" by (metis prod_cases3)
      have m: "?b = min (rc_MaxBackoff cfg) (b * 2)" by simp
      have p: "pauses = b # ps" "calls = cs + 1" using Suc.prems(1) e None loop by (simp_all add: Let_def)
      have ih: "cs \<le> n \<and> length ps \<le> n - 1 \<and> ps = take (length ps) (backoffs cfg (n - 1) ?b)"
        by (rule Suc.IH [OF loop]) (use Suc.prems(2) in simp)
      show ?thesis using ih unfolding p m n by simp
    qed
  next
    case False
    then show ?thesis using Suc.prems by (auto simp: Let_def split: option.splits if_splits)
  qed
qed (simp split: option.splits)

text \<open>
  Retries are bounded: with the default configuration an operation is tried at most six times,
  and the pauses asked for are the first of one, two, four, eight and sixteen seconds.
\<close>

theorem default_retry_bounds:
  assumes "ExecuteWithRetry rw DefaultRetryConfig = (r, pauses, calls)"
  shows "calls \<le> 6 \<and> pauses = take (length pauses) (map (\<lambda>i. 2 ^ i * 1000000000) [0..<5])"
proof -
  have b: "backoffs DefaultRetryConfig 5 1000000000 = map (\<lambda>i. 2 ^ i * 1000000000) [0..<5]"
    by (simp add: DefaultRetryConfig_def numeral_eq_Suc)
  show ?thesis
    using operation_loop_trace [of rw DefaultRetryConfig 6 0 1000000000 None r pauses calls] assms b
    by (simp add: ExecuteWithRetry_def DefaultRetryConfig_def)
qed

definition failing_world :: retry_world where
  "failing_world = \<lparr>rw_doneBefore = (\<lambda>_. None),
     rw_fn = (\<lambda>k. if k < 3 then Some \<lparr>oe_Message = ''connection refused'', oe_IsContextError = False, oe_NetTimeout = False\<rparr> else None),
     rw_doneWhile = (\<lambda>_. None)\<rparr>"

lemma refused_transient: "isTransientError (Some \<lparr>oe_Message = ''connection refused'', oe_IsContextError = False, oe_NetTimeout = False\<rparr>)"
  by code_simp

lemma failing_run: "ExecuteWithRetry failing_world DefaultRetryConfig = (RetryOk, [1000000000, 2000000000, 4000000000], 4)"
  using refused_transient
  by (simp add: ExecuteWithRetry_def DefaultRetryConfig_def failing_world_def numeral_eq_Suc Let_def)

theorem default_retry_bounds_witness:
  "fst (ExecuteWithRetry failing_world DefaultRetryConfig) = RetryOk
   \<and> snd (snd (ExecuteWithRetry failing_world DefaultRetryConfig)) \<le> 6
   \<and> fst (snd (ExecuteWithRetry failing_world DefaultRetryConfig)) = take 3 (map (\<lambda>i. 2 ^ i * 1000000000) [0..<5])"
  using default_retry_bounds [OF failing_run] by (simp add: failing_run numeral_3_eq_3)

section \<open>What is retried\<close>

lemma isTransientError_iff:
  "isTransientError (Some e) \<longleftrightarrow> \<not> oe_IsContextError e \<and> \<not> strContains (oe_Message e) ''context canceled''
    \<and> \<not> strContains (oe_Message e) ''context deadline exceeded''
    \<and> \<not> list_ex (strContains (toLower (oe_Message e))) permanentErrors"
  by (simp add: isTransientError_def)

text \<open>
  The list of transient errors decides nothing: an error without a permanent text is retried whether
  it is in the list or not, and its three texts of timeouts cannot be reached, since every text with
  one of them is permanent. Timeouts of the network are never retried, although the list, the check of
  network errors and the comment on the function all mean them to be.
\<close>

theorem timeouts_never_retried:
  "filter (\<lambda>t. isTransientError (Some \<lparr>oe_Message = t, oe_IsContextError = False, oe_NetTimeout = True\<rparr>)) transientErrors
    = filter (\<lambda>t. t \<notin> {''timeout'', ''deadline exceeded'', ''i/o timeout''}) transientErrors
   \<and> \<not> isTransientError (Some \<lparr>oe_Message = ''read tcp 10.0.0.7:443: i/o timeout'', oe_IsContextError = False, oe_NetTimeout = True\<rparr>)"
  by code_simp

text \<open>
  Status codes are looked for anywhere in the text: a refused connection to a port whose number contains
  one of the codes of the permanent list is not retried, while one to another port is.
\<close>

theorem port_number_makes_error_permanent:
  "isTransientError (Some \<lparr>oe_Message = ''dial tcp 10.0.0.7:8080: connect: connection refused'', oe_IsContextError = False, oe_NetTimeout = False\<rparr>)
   \<and> \<not> isTransientError (Some \<lparr>oe_Message = ''dial tcp 10.0.0.7:4010: connect: connection refused'', oe_IsContextError = False, oe_NetTimeout = False\<rparr>)"
  by code_simp

end
