(* ===== verification/MCP_Gate.thy ===== *)
theory MCP_Gate
  imports Tool_Access Governed_Call Post_Hooks
begin

text \<open>
  One call of an MCP operation through the plugins, after core/mcp/pluginpipeline.go, the
  execution of a tool call in core/mcp/toolmanager.go and core/mcp/exec.go, and the retries of
  operations on an MCP server in core/mcp/utils.go. The call to the server itself, the code mode
  interpreter and the parsing of a call's arguments are parameters.
\<close>

section \<open>Calls and messages\<close>

record ToolCall =
  tcl_ID :: "string option"
  tcl_Name :: "string option"
  tcl_Arguments :: string

text \<open>
  The content of a message is a string or blocks, of which type and text are kept; a tool message
  carries the ID of its call and the error mark, an assistant message its tool calls.
\<close>

type_synonym content_block = "string \<times> string option"

record ChatMessage =
  cm_Role :: string
  cm_Content :: "(string option \<times> content_block list option) option"
  cm_ToolMessage :: "(string option \<times> bool option) option"
  cm_ToolCalls :: "ToolCall list option"

record ResponsesToolMessage =
  rt_CallID :: "string option"
  rt_Name :: "string option"
  rt_Arguments :: "string option"
  rt_Output :: "(string + content_block list) option"

record ResponsesMessage =
  rm_Type :: "string option"
  rm_Status :: "string option"
  rm_ToolMessage :: "ResponsesToolMessage option"

definition ToChatAssistantMessageToolCall :: "ResponsesToolMessage \<Rightarrow> ToolCall" where
  "ToChatAssistantMessageToolCall rtm = \<lparr>tcl_ID = rt_CallID rtm, tcl_Name = rt_Name rtm,
     tcl_Arguments = (case rt_Arguments rtm of None \<Rightarrow> ''{}'' | Some a \<Rightarrow> a)\<rparr>"

definition ToResponsesToolMessage :: "ChatMessage \<Rightarrow> ResponsesMessage option" where
  "ToResponsesToolMessage cm =
     (case cm_ToolMessage cm of None \<Rightarrow> None
      | Some (callID, _) \<Rightarrow>
          Some \<lparr>rm_Type = Some ''function_call_output'', rm_Status = None,
            rm_ToolMessage = Some \<lparr>rt_CallID = callID, rt_Name = None, rt_Arguments = None,
              rt_Output = (case cm_Content cm of None \<Rightarrow> None
                 | Some (Some s, _) \<Rightarrow> Some (Inl s)
                 | Some (None, Some bs) \<Rightarrow> if bs \<noteq> [] then Some (Inr bs) else None
                 | Some (None, None) \<Rightarrow> None)\<rparr>\<rparr>)"

record BifrostMCPRequest =
  mq_RequestType :: string
  mq_ClientName :: string
  mq_ChatToolCall :: "ToolCall option"
  mq_ResponsesTool :: "ResponsesToolMessage option"

definition MCPRequestTypeChatToolCall :: string where "MCPRequestTypeChatToolCall = ''chat_tool_call''"
definition MCPRequestTypeResponsesToolCall :: string where "MCPRequestTypeResponsesToolCall = ''responses_tool_call''"

definition GetToolName :: "BifrostMCPRequest \<Rightarrow> string" where
  "GetToolName r =
     (case map_option tcl_Name (mq_ChatToolCall r) of Some (Some n) \<Rightarrow> n
      | _ \<Rightarrow> (case map_option rt_Name (mq_ResponsesTool r) of Some (Some n) \<Rightarrow> n | _ \<Rightarrow> []))"

record BifrostMCPResponse =
  mp_ChatMessage :: "ChatMessage option"
  mp_ResponsesMessage :: "ResponsesMessage option"
  mp_MCPRequestType :: string
  mp_ClientName :: string
  mp_ToolName :: string

definition PopulateExtraFields :: "string \<Rightarrow> string \<Rightarrow> string \<Rightarrow> BifrostMCPResponse \<Rightarrow> BifrostMCPResponse" where
  "PopulateExtraFields requestType clientName toolName r =
     r\<lparr>mp_MCPRequestType := (if mp_MCPRequestType r = [] then requestType else mp_MCPRequestType r),
       mp_ClientName := (if mp_ClientName r = [] then clientName else mp_ClientName r),
       mp_ToolName := (if mp_ToolName r = [] then toolName else mp_ToolName r)\<rparr>"

section \<open>The gate\<close>

record MCPPluginShortCircuit =
  msc_Response :: "BifrostMCPResponse option"
  msc_Error :: "call_error option"

type_synonym 'c mcp_plugins = "('c, BifrostMCPRequest, MCPPluginShortCircuit, BifrostMCPResponse) hooks list"

text \<open>
  The wire operation gets the context that the hooks left and answers with a response, an error or both. Beside the outcome the gate's
  result has the pipeline and the request that the operation was called with, \<^verbatim>\<open>None\<close> when it was
  not called; spans and log lines have no counterpart.
\<close>

type_synonym 'c mcp_op = "'c CallContext_scheme \<Rightarrow> BifrostMCPRequest \<Rightarrow> BifrostMCPResponse option \<times> err option"

record 'c gate_run =
  gr_pipeline :: PluginPipeline
  gr_ctx :: "'c CallContext_scheme"
  gr_called :: "BifrostMCPRequest option"
  gr_response :: "BifrostMCPResponse option"
  gr_error :: "call_error option"

definition ensure_request_id :: "string \<Rightarrow> 'c CallContext_scheme \<Rightarrow> 'c CallContext_scheme" where
  "ensure_request_id u ctx = (if cc_RequestID ctx = None then ctx\<lparr>cc_RequestID := Some u\<rparr> else ctx)"

definition short_response where
  "short_response plugins p ctx preCount r =
     (case RunMCPPostHooks plugins p ctx (Some r) None (int preCount) of (p', ctx', resp, e) \<Rightarrow>
        \<lparr>gr_pipeline = p', gr_ctx = ctx', gr_called = None,
          gr_response = (if e \<noteq> None then None else resp), gr_error = e\<rparr>)"

definition short_error where
  "short_error plugins p ctx preCount populate e0 =
     (case RunMCPPostHooks plugins p ctx None (Some e0) (int preCount) of (p', ctx', resp, e) \<Rightarrow>
        \<lparr>gr_pipeline = p', gr_ctx = ctx', gr_called = None,
          gr_response = (if e \<noteq> None then None else map_option populate resp),
          gr_error = (if e \<noteq> None then e else if resp \<noteq> None then None else Some e0)\<rparr>)"

definition run_op where
  "run_op plugins p ctx preCount populate op r =
     (case op ctx r of (resp, e) \<Rightarrow>
      case RunMCPPostHooks plugins p ctx (map_option populate resp) (map_option newBifrostError e) (int preCount) of
        (p', ctx', resp', e') \<Rightarrow>
          \<lparr>gr_pipeline = p', gr_ctx = ctx', gr_called = Some r, gr_response = resp', gr_error = e'\<rparr>)"

definition RunWithPluginPipeline ::
    "'c mcp_plugins option \<Rightarrow> string \<Rightarrow> 'c CallContext_scheme \<Rightarrow> BifrostMCPRequest \<Rightarrow> 'c mcp_op \<Rightarrow> 'c gate_run" where
  "RunWithPluginPipeline pipeline newID ctx0 req op =
     (let ctx = ensure_request_id newID ctx0 in
      case pipeline of
        None \<Rightarrow> (case op ctx req of (resp, e) \<Rightarrow>
          \<lparr>gr_pipeline = resetPluginPipeline, gr_ctx = ctx, gr_called = Some req, gr_response = resp,
            gr_error = map_option newBifrostError e\<rparr>)
      | Some plugins \<Rightarrow>
          let (p, ctx1, preReq, sc, preCount) = RunMCPPreHooks plugins resetPluginPipeline ctx (Some req);
              named = (case preReq of Some r \<Rightarrow> r | None \<Rightarrow> req);
              populate = PopulateExtraFields (mq_RequestType req) (mq_ClientName named) (GetToolName named)
          in case map_option msc_Response sc of
               Some (Some r) \<Rightarrow> short_response plugins p ctx1 preCount (populate r)
             | _ \<Rightarrow>
             (case map_option msc_Error sc of
               Some (Some e) \<Rightarrow> short_error plugins p ctx1 preCount populate e
             | _ \<Rightarrow>
             (case preReq of
               None \<Rightarrow> \<lparr>gr_pipeline = p, gr_ctx = ctx1, gr_called = None, gr_response = None,
                 gr_error = Some (newBifrostErrorFromMsg ''MCP request after plugin hooks cannot be nil'')\<rparr>
             | Some r \<Rightarrow> run_op plugins p ctx1 preCount populate op r)))"

section \<open>The answer of a server\<close>

text \<open>
  The content blocks of an answer by their Go type. \<open>OtherContent\<close> carries what the fallback finds:
  a \<^verbatim>\<open>text\<close> field, or the block as JSON.
\<close>

datatype mcp_content = TextContent string | ImageContent string string | AudioContent string string
  | EmbeddedResource string | OtherContent "string + string"

record CallToolResult =
  ct_Content :: "mcp_content list"
  ct_IsError :: bool

fun content_text :: "mcp_content \<Rightarrow> string" where
  "content_text (TextContent t) = t"
| "content_text (ImageContent d m) = ''[Image Response: '' @ d @ '', MIME: '' @ m @ '']'' @ [CHR 0x0A]"
| "content_text (AudioContent d m) = ''[Audio Response: '' @ d @ '', MIME: '' @ m @ '']'' @ [CHR 0x0A]"
| "content_text (EmbeddedResource t) = ''[Embedded Resource Response: '' @ t @ '']'' @ [CHR 0x0A]"
| "content_text (OtherContent (Inl t)) = ''[Text Response: '' @ t @ '']'' @ [CHR 0x0A]"
| "content_text (OtherContent (Inr j)) = j"

definition extractTextFromMCPResponse :: "CallToolResult option \<Rightarrow> string \<Rightarrow> string" where
  "extractTextFromMCPResponse response toolName =
     (let done = ''MCP tool '' @ quote toolName @ '' executed successfully'' in
      case response of None \<Rightarrow> done
      | Some r \<Rightarrow> let text = concat (map content_text (ct_Content r)) in
          if text \<noteq> [] then trimSpace text else done)"

definition createToolResponseMessage :: "ToolCall \<Rightarrow> string \<Rightarrow> bool \<Rightarrow> ChatMessage" where
  "createToolResponseMessage toolCall responseText isError =
     \<lparr>cm_Role = ''tool'', cm_Content = Some (Some responseText, None),
      cm_ToolMessage = Some (tcl_ID toolCall, if isError then Some True else None), cm_ToolCalls = None\<rparr>"

section \<open>Executing a tool call\<close>

text \<open>
  What a tool call meets outside: whether there is a code mode and what it answers, how arguments
  parse, and what the server answers to a call of a name on a connection, \<^verbatim>\<open>Inl\<close> a failed call with
  whether its time was up.
\<close>

record 'a tool_world =
  tw_codeMode :: "(ToolContext \<Rightarrow> ToolCall \<Rightarrow> err + ChatMessage) option"
  tw_parse :: "string \<Rightarrow> err + 'a"
  tw_noArguments :: 'a
  tw_callTool :: "nat \<Rightarrow> string \<Rightarrow> 'a \<Rightarrow> (err \<times> bool) + CallToolResult option"
  tw_dial :: "MCPClientConfig \<Rightarrow> err + nat"
  tw_isAuthRequired :: "err \<Rightarrow> bool"

definition is_code_mode :: "'a tool_world \<Rightarrow> string \<Rightarrow> bool" where
  "is_code_mode w toolName \<longleftrightarrow> tw_codeMode w \<noteq> None \<and> IsCodeModeTool toolName"

text \<open>
  A call that was prepared for code mode has no client; when a hook renames it to another tool the
  code dereferences the missing client's configuration, a panic, here the error below.
\<close>

definition executeToolInternal ::
    "'a tool_world \<Rightarrow> ToolContext \<Rightarrow> ToolCall \<Rightarrow> string \<Rightarrow> (MCPClientState \<times> nat) option \<Rightarrow> err + ChatMessage \<times> string \<times> string" where
  "executeToolInternal w ctx call toolName target =
     (case (if IsCodeModeTool toolName then tw_codeMode w else None) of
        Some run \<Rightarrow> (case run ctx call of Inl e \<Rightarrow> Inl e | Inr msg \<Rightarrow> Inr (msg, [], toolName))
      | None \<Rightarrow>
          (case (if trimSpace (tcl_Arguments call) = [] then Inr (tw_noArguments w) else tw_parse w (tcl_Arguments call)) of
             Inl e \<Rightarrow> Inl (Err (''failed to parse tool arguments for '' @ quote toolName))
           | Inr args \<Rightarrow>
               (case target of
                  None \<Rightarrow> Inl (Err ''nil pointer dereference'')
                | Some (c, conn) \<Rightarrow>
                    (case tw_callTool w conn (sent_name c toolName) args of
                       Inl (e, True) \<Rightarrow> Inl (Err (''MCP tool call timed out: '' @ toolName))
                     | Inl (e, False) \<Rightarrow> Inl (Err (''MCP tool call failed for '' @ toolName))
                     | Inr r \<Rightarrow>
                         Inr (createToolResponseMessage call (extractTextFromMCPResponse r toolName)
                                (case r of None \<Rightarrow> False | Some x \<Rightarrow> ct_IsError x),
                              name_of c, stripClientPrefix toolName (name_of c))))))"

definition requested_call :: "BifrostMCPRequest \<Rightarrow> err + ToolCall" where
  "requested_call r =
     (if mq_RequestType r = MCPRequestTypeChatToolCall then
        (case mq_ChatToolCall r of None \<Rightarrow> Inl (Err ''tool call cannot be nil'') | Some c \<Rightarrow> Inr c)
      else if mq_RequestType r = MCPRequestTypeResponsesToolCall then
        (case mq_ResponsesTool r of
           None \<Rightarrow> Inl (Err ''ResponsesToolMessage cannot be nil for ResponsesToolCall request type'')
         | Some t \<Rightarrow> Inr (ToChatAssistantMessageToolCall t))
      else Inl (Err (''invalid request type: '' @ mq_RequestType r)))"

definition ExecuteTool ::
    "'a tool_world \<Rightarrow> ToolContext \<Rightarrow> (MCPClientState \<times> nat) option \<Rightarrow> BifrostMCPRequest \<Rightarrow> err + BifrostMCPResponse" where
  "ExecuteTool w ctx target r =
     (case requested_call r of Inl e \<Rightarrow> Inl e
      | Inr call \<Rightarrow>
      (case tcl_Name call of None \<Rightarrow> Inl (Err ''tool call missing function name'')
       | Some toolName \<Rightarrow>
       (case executeToolInternal w ctx call toolName target of Inl e \<Rightarrow> Inl e
        | Inr (msg, clientName, original) \<Rightarrow>
          let reply = \<lparr>mp_ChatMessage = None, mp_ResponsesMessage = None, mp_MCPRequestType = [],
                 mp_ClientName = clientName, mp_ToolName = original\<rparr> in
          if mq_RequestType r = MCPRequestTypeChatToolCall then Inr (reply\<lparr>mp_ChatMessage := Some msg\<rparr>)
          else (case ToResponsesToolMessage msg of
                  None \<Rightarrow> Inl (Err ''failed to convert tool result to Responses format'')
                | Some m \<Rightarrow> Inr (reply\<lparr>mp_ResponsesMessage := Some m\<rparr>)))))"

section \<open>The entry points\<close>

definition client_of_tool :: "string \<Rightarrow> string" where
  "client_of_tool toolName =
     (let c = takeWhile (\<lambda>x. x \<noteq> CHR ''-'') toolName in if length c < length toolName \<and> c \<noteq> [] then c else [])"

definition fill_client :: "BifrostMCPRequest \<Rightarrow> BifrostMCPRequest" where
  "fill_client r = (if mq_ClientName r = [] then r\<lparr>mq_ClientName := client_of_tool (GetToolName r)\<rparr> else r)"

text \<open>
  The call is prepared before the hooks run, on the request as it came; the operation runs on the
  request that the hooks left. \<open>toolsOf\<close> reads the tool lists in the context. The second component
  is the error of a client that needs the user to log in first.
\<close>

definition executeToolWithHooks ::
    "'a tool_world \<Rightarrow> ('c CallContext_scheme \<Rightarrow> ToolContext) \<Rightarrow> client_map \<Rightarrow> 'c mcp_plugins option \<Rightarrow> string
      \<Rightarrow> 'c CallContext_scheme \<Rightarrow> BifrostMCPRequest \<Rightarrow> 'c gate_run \<times> err option" where
  "executeToolWithHooks w toolsOf m pipeline newID ctx request0 =
     (let request = fill_client request0 in
      case prepareToolExecution (tw_codeMode w \<noteq> None) (tw_dial w) m (toolsOf ctx) (GetToolName request) of
        Inl e \<Rightarrow>
          (\<lparr>gr_pipeline = resetPluginPipeline, gr_ctx = ctx, gr_called = None, gr_response = None,
             gr_error = Some (newBifrostErrorFromMsg (case e of Err msg \<Rightarrow> msg))\<rparr>,
           if tw_isAuthRequired w e then Some e else None)
      | Inr target \<Rightarrow>
          let g = RunWithPluginPipeline pipeline newID ctx request
                (\<lambda>c r. case ExecuteTool w (toolsOf c) target r of Inl e \<Rightarrow> (None, Some e) | Inr resp \<Rightarrow> (Some resp, None))
          in (g\<lparr>gr_response := (if gr_error g \<noteq> None then None else gr_response g)\<rparr>, None))"

fun status_text :: "int \<Rightarrow> string option" where
  "status_text c =
     map_of [(401, ''unauthorized''), (403, ''forbidden''), (404, ''endpoint not found''), (405, ''method not allowed''),
       (429, ''rate limit exceeded''), (500, ''internal server error''), (502, ''bad gateway''),
       (503, ''service unavailable''), (504, ''gateway timeout'')] c"

definition GetErrorString :: "call_error \<Rightarrow> string" where
  "GetErrorString e =
     (case map_option ef_Message (ce_Error e) of
        Some (x # xs) \<Rightarrow> x # xs
      | _ \<Rightarrow> (case ce_StatusCode e of
          Some c \<Rightarrow> (case status_text c of Some t \<Rightarrow> t | None \<Rightarrow> ''HTTP '' @ dec_int c @ '' error'')
        | None \<Rightarrow> (case ce_Type e of Some t \<Rightarrow> t | None \<Rightarrow> ''unknown error'')))"

text \<open>What the agent sees of a tool call: a response with its message, if any, a failure, or a missing login.\<close>

datatype tool_outcome = ToolAnswer "ChatMessage option" | ToolFailed string | ToolAuthRequired err

definition executeToolForAgent ::
    "'a tool_world \<Rightarrow> ('c CallContext_scheme \<Rightarrow> ToolContext) \<Rightarrow> client_map \<Rightarrow> 'c mcp_plugins option \<Rightarrow> string
      \<Rightarrow> 'c CallContext_scheme \<Rightarrow> BifrostMCPRequest \<Rightarrow> tool_outcome" where
  "executeToolForAgent w toolsOf m pipeline newID ctx request =
     (if mq_RequestType request \<noteq> MCPRequestTypeChatToolCall \<and> mq_RequestType request \<noteq> MCPRequestTypeResponsesToolCall
      then ToolFailed (''unsupported MCP request type for agent: '' @ mq_RequestType request)
      else case executeToolWithHooks w toolsOf m pipeline newID ctx request of
        (g, auth) \<Rightarrow>
          (case gr_error g of
             Some e \<Rightarrow> (case auth of Some a \<Rightarrow> ToolAuthRequired a | None \<Rightarrow> ToolFailed (''tool execution failed: '' @ GetErrorString e))
           | None \<Rightarrow> ToolAnswer (case gr_response g of None \<Rightarrow> None | Some r \<Rightarrow> mp_ChatMessage r)))"

definition chat_tool_request :: "ToolCall \<Rightarrow> BifrostMCPRequest" where
  "chat_tool_request call = \<lparr>mq_RequestType = MCPRequestTypeChatToolCall, mq_ClientName = [],
     mq_ChatToolCall = Some call, mq_ResponsesTool = None\<rparr>"

definition responses_tool_request :: "ResponsesToolMessage \<Rightarrow> BifrostMCPRequest" where
  "responses_tool_request t = \<lparr>mq_RequestType = MCPRequestTypeResponsesToolCall, mq_ClientName = [],
     mq_ChatToolCall = None, mq_ResponsesTool = Some t\<rparr>"

definition ExecuteChatTool where
  "ExecuteChatTool w toolsOf m pipeline newID ctx toolCall =
     (case toolCall of None \<Rightarrow> Inl (newBifrostErrorFromMsg ''toolCall cannot be nil'')
      | Some call \<Rightarrow>
        (let g = fst (executeToolWithHooks w toolsOf m pipeline newID ctx (chat_tool_request call)) in
         case gr_error g of Some e \<Rightarrow> Inl e
         | None \<Rightarrow> (case gr_response g of
             None \<Rightarrow> Inl (newBifrostErrorFromMsg ''MCP tool execution returned nil chat message'')
           | Some r \<Rightarrow> (case mp_ChatMessage r of
               None \<Rightarrow> Inl (newBifrostErrorFromMsg ''MCP tool execution returned nil chat message'')
             | Some msg \<Rightarrow> Inr msg))))"

definition ExecuteResponsesTool where
  "ExecuteResponsesTool w toolsOf m pipeline newID ctx toolCall =
     (case toolCall of None \<Rightarrow> Inl (newBifrostErrorFromMsg ''toolCall cannot be nil'')
      | Some t \<Rightarrow>
        (let g = fst (executeToolWithHooks w toolsOf m pipeline newID ctx (responses_tool_request t)) in
         case gr_error g of Some e \<Rightarrow> Inl e
         | None \<Rightarrow> (case gr_response g of
             None \<Rightarrow> Inl (newBifrostErrorFromMsg ''MCP tool execution returned nil responses message'')
           | Some r \<Rightarrow> (case mp_ResponsesMessage r of
               None \<Rightarrow> Inl (newBifrostErrorFromMsg ''MCP tool execution returned nil responses message'')
             | Some msg \<Rightarrow> Inr msg))))"

section \<open>What reaches a server\<close>

lemma run_op_called [simp]: "gr_called (run_op plugins p ctx n populate op r) = Some r"
  and short_response_called [simp]: "gr_called (short_response plugins p ctx n resp) = None"
  and short_error_called [simp]: "gr_called (short_error plugins p ctx n populate e) = None"
  by (simp_all add: run_op_def short_response_def short_error_def split: prod.split)

definition answers :: "MCPPluginShortCircuit option \<Rightarrow> bool" where
  "answers sc \<longleftrightarrow> (\<exists>s. sc = Some s \<and> (msc_Response s \<noteq> None \<or> msc_Error s \<noteq> None))"

lemma gate_called:
  assumes "gr_called (RunWithPluginPipeline (Some plugins) u ctx req op) = Some r"
  obtains p ctx1 sc n where
    "RunMCPPreHooks plugins resetPluginPipeline (ensure_request_id u ctx) (Some req) = (p, ctx1, Some r, sc, n)" "\<not> answers sc"
proof -
  obtain p ctx1 pre sc n where b: "RunMCPPreHooks plugins resetPluginPipeline (ensure_request_id u ctx) (Some req) = (p, ctx1, pre, sc, n)"
    by (metis prod_cases5)
  show thesis
    using assms b that [of p ctx1 sc n]
    by (cases sc) (auto simp: RunWithPluginPipeline_def Let_def answers_def split: option.splits)
qed

end
