(* ===== verification/Token_Usage.thy ===== *)
theory Token_Usage
  imports Gateway_Prelude
begin

text \<open>
  The usage of tokens that a response reports, after core/schemas/chatcompletions.go, and how agent mode
  adds up the usage of its rounds (\<^verbatim>\<open>mergeUsage\<close> of core/mcp/agent.go).
\<close>

record PromptTokensDetails =
  pd_TextTokens :: int
  pd_AudioTokens :: int
  pd_ImageTokens :: int
  pd_CachedReadTokens :: int
  pd_CachedWriteTokens :: int
  pd_CachedWriteTokenDetails :: "(int \<times> int) option"

record CompletionTokensDetails =
  cd_TextTokens :: int
  cd_AcceptedPredictionTokens :: int
  cd_AudioTokens :: int
  cd_CitationTokens :: "int option"
  cd_NumSearchQueries :: "int option"
  cd_ReasoningTokens :: int
  cd_ImageTokens :: "int option"
  cd_RejectedPredictionTokens :: int

record BifrostCost =
  co_InputTokensCost :: f64
  co_OutputTokensCost :: f64
  co_ReasoningTokensCost :: f64
  co_CitationTokensCost :: f64
  co_SearchQueriesCost :: f64
  co_RequestCost :: f64
  co_TotalCost :: f64

record BifrostLLMUsage =
  us_PromptTokens :: int
  us_PromptTokensDetails :: "PromptTokensDetails option"
  us_CompletionTokens :: int
  us_CompletionTokensDetails :: "CompletionTokensDetails option"
  us_TotalTokens :: int
  us_Cost :: "BifrostCost option"
  us_Speed :: "string option"
  us_InferenceGeo :: "string option"
  us_ServerSideFallbackModel :: "string option"

definition add64 :: "int \<Rightarrow> int \<Rightarrow> int" where
  "add64 a b = wrap64 (a + b)"

definition no_prompt_details :: PromptTokensDetails where
  "no_prompt_details = \<lparr>pd_TextTokens = 0, pd_AudioTokens = 0, pd_ImageTokens = 0, pd_CachedReadTokens = 0,
     pd_CachedWriteTokens = 0, pd_CachedWriteTokenDetails = None\<rparr>"

definition no_completion_details :: CompletionTokensDetails where
  "no_completion_details = \<lparr>cd_TextTokens = 0, cd_AcceptedPredictionTokens = 0, cd_AudioTokens = 0, cd_CitationTokens = None,
     cd_NumSearchQueries = None, cd_ReasoningTokens = 0, cd_ImageTokens = None, cd_RejectedPredictionTokens = 0\<rparr>"

definition no_cost :: BifrostCost where
  "no_cost = \<lparr>co_InputTokensCost = Fin 0, co_OutputTokensCost = Fin 0, co_ReasoningTokensCost = Fin 0,
     co_CitationTokensCost = Fin 0, co_SearchQueriesCost = Fin 0, co_RequestCost = Fin 0, co_TotalCost = Fin 0\<rparr>"

text \<open>Two optional parts are merged when one is there, the missing one counting as its zero value.\<close>

definition merge_opt :: "'a \<Rightarrow> ('a \<Rightarrow> 'a \<Rightarrow> 'a) \<Rightarrow> 'a option \<Rightarrow> 'a option \<Rightarrow> 'a option" where
  "merge_opt z f a b =
     (if a \<noteq> None \<or> b \<noteq> None then Some (f (case a of None \<Rightarrow> z | Some x \<Rightarrow> x) (case b of None \<Rightarrow> z | Some x \<Rightarrow> x)) else None)"

definition merge_prompt :: "PromptTokensDetails \<Rightarrow> PromptTokensDetails \<Rightarrow> PromptTokensDetails" where
  "merge_prompt b a = \<lparr>pd_TextTokens = add64 (pd_TextTokens b) (pd_TextTokens a),
     pd_AudioTokens = add64 (pd_AudioTokens b) (pd_AudioTokens a),
     pd_ImageTokens = add64 (pd_ImageTokens b) (pd_ImageTokens a),
     pd_CachedReadTokens = add64 (pd_CachedReadTokens b) (pd_CachedReadTokens a),
     pd_CachedWriteTokens = add64 (pd_CachedWriteTokens b) (pd_CachedWriteTokens a),
     pd_CachedWriteTokenDetails = None\<rparr>"

definition merge_completion :: "CompletionTokensDetails \<Rightarrow> CompletionTokensDetails \<Rightarrow> CompletionTokensDetails" where
  "merge_completion b a = \<lparr>cd_TextTokens = add64 (cd_TextTokens b) (cd_TextTokens a),
     cd_AcceptedPredictionTokens = add64 (cd_AcceptedPredictionTokens b) (cd_AcceptedPredictionTokens a),
     cd_AudioTokens = add64 (cd_AudioTokens b) (cd_AudioTokens a),
     cd_CitationTokens = merge_opt 0 add64 (cd_CitationTokens b) (cd_CitationTokens a),
     cd_NumSearchQueries = merge_opt 0 add64 (cd_NumSearchQueries b) (cd_NumSearchQueries a),
     cd_ReasoningTokens = add64 (cd_ReasoningTokens b) (cd_ReasoningTokens a),
     cd_ImageTokens = merge_opt 0 add64 (cd_ImageTokens b) (cd_ImageTokens a),
     cd_RejectedPredictionTokens = add64 (cd_RejectedPredictionTokens b) (cd_RejectedPredictionTokens a)\<rparr>"

definition merge_cost :: "BifrostCost \<Rightarrow> BifrostCost \<Rightarrow> BifrostCost" where
  "merge_cost b a = \<lparr>co_InputTokensCost = f64_add (co_InputTokensCost b) (co_InputTokensCost a),
     co_OutputTokensCost = f64_add (co_OutputTokensCost b) (co_OutputTokensCost a),
     co_ReasoningTokensCost = f64_add (co_ReasoningTokensCost b) (co_ReasoningTokensCost a),
     co_CitationTokensCost = f64_add (co_CitationTokensCost b) (co_CitationTokensCost a),
     co_SearchQueriesCost = f64_add (co_SearchQueriesCost b) (co_SearchQueriesCost a),
     co_RequestCost = f64_add (co_RequestCost b) (co_RequestCost a),
     co_TotalCost = f64_add (co_TotalCost b) (co_TotalCost a)\<rparr>"

definition mergeUsage :: "BifrostLLMUsage option \<Rightarrow> BifrostLLMUsage option \<Rightarrow> BifrostLLMUsage option" where
  "mergeUsage base add =
     (case add of None \<Rightarrow> base
      | Some a \<Rightarrow> (case base of None \<Rightarrow> Some a
          | Some b \<Rightarrow> Some \<lparr>us_PromptTokens = add64 (us_PromptTokens b) (us_PromptTokens a),
              us_PromptTokensDetails = merge_opt no_prompt_details merge_prompt (us_PromptTokensDetails b) (us_PromptTokensDetails a),
              us_CompletionTokens = add64 (us_CompletionTokens b) (us_CompletionTokens a),
              us_CompletionTokensDetails =
                merge_opt no_completion_details merge_completion (us_CompletionTokensDetails b) (us_CompletionTokensDetails a),
              us_TotalTokens = add64 (us_TotalTokens b) (us_TotalTokens a),
              us_Cost = merge_opt no_cost merge_cost (us_Cost b) (us_Cost a),
              us_Speed = None, us_InferenceGeo = None, us_ServerSideFallbackModel = None\<rparr>))"

end
