(* ===== verification/Agent_Mode.thy ===== *)
theory Agent_Mode
  imports MCP_Gate Token_Usage
begin

text \<open>
  Agent mode, after core/mcp/agent.go, the chat adapter of core/mcp/agentadaptors.go and the code
  mode checks of core/mcp/utils.go: the model's tool calls are sorted into those that may run on their
  own and those left to the caller, the former are run together, their results are sent back to the
  model, and so on up to a number of rounds. The model, the tools and the state of the client map in
  each round are parameters, and so is the order in which the tool calls of a round finish.
\<close>

section \<open>Code mode checks\<close>

text \<open>
  The scanner finds what the regular expression of the source matches: an optional \<^verbatim>\<open>await\<close>, an
  identifier, a dot, an identifier and an opening parenthesis, with white space between them, from
  left to right without overlaps. An identifier is taken as long as it goes, since a shorter one is
  followed by neither white space nor a dot.
\<close>

definition ident_start :: "char \<Rightarrow> bool" where
  "ident_start c = (let n = of_char c :: nat in (97 \<le> n \<and> n \<le> 122) \<or> (65 \<le> n \<and> n \<le> 90) \<or> n = 95 \<or> n = 36)"

definition ident_char :: "char \<Rightarrow> bool" where
  "ident_char c = (ident_start c \<or> (let n = of_char c :: nat in 48 \<le> n \<and> n \<le> 57))"

definition re_space :: "char \<Rightarrow> bool" where
  "re_space c = (of_char c \<in> {9, 10, 12, 13, 32 :: nat})"

definition scan_ident :: "string \<Rightarrow> (string \<times> string) option" where
  "scan_ident s = (case s of [] \<Rightarrow> None
     | c # _ \<Rightarrow> if ident_start c then Some (takeWhile ident_char s, dropWhile ident_char s) else None)"

definition scan_char :: "char \<Rightarrow> string \<Rightarrow> string option" where
  "scan_char c s = (case dropWhile re_space s of [] \<Rightarrow> None | d # r \<Rightarrow> if d = c then Some r else None)"

definition match_plain :: "string \<Rightarrow> ((string \<times> string) \<times> string) option" where
  "match_plain s =
     (case scan_ident s of None \<Rightarrow> None
      | Some (server, r1) \<Rightarrow>
      (case scan_char (CHR ''.'') r1 of None \<Rightarrow> None
       | Some r2 \<Rightarrow>
       (case scan_ident (dropWhile re_space r2) of None \<Rightarrow> None
        | Some (tool, r3) \<Rightarrow>
        (case scan_char (CHR ''('') r3 of None \<Rightarrow> None | Some r4 \<Rightarrow> Some ((server, tool), r4)))))"

definition match_call :: "string \<Rightarrow> ((string \<times> string) \<times> string) option" where
  "match_call s =
     (let r = drop 5 s in
      if hasPrefix s ''await'' \<and> r \<noteq> [] \<and> re_space (hd r) then
        (case match_plain (dropWhile re_space r) of Some x \<Rightarrow> Some x | None \<Rightarrow> match_plain s)
      else match_plain s)"

lemma scan_ident_shorter: "scan_ident s = Some (i, r) \<Longrightarrow> length r < length s"
  by (cases s) (auto simp: scan_ident_def ident_char_def less_Suc_eq_le length_dropWhile_le split: if_splits)

lemma scan_char_shorter: "scan_char c s = Some r \<Longrightarrow> length r < length s"
  using length_dropWhile_le [of re_space s]
  by (cases "dropWhile re_space s") (auto simp: scan_char_def split: if_splits)

lemma match_plain_shorter: "match_plain s = Some (x, r) \<Longrightarrow> length r < length s"
proof -
  assume "match_plain s = Some (x, r)"
  then obtain a r1 r2 b r3 where *: "scan_ident s = Some (a, r1)" "scan_char (CHR ''.'') r1 = Some r2"
    "scan_ident (dropWhile re_space r2) = Some (b, r3)" "scan_char (CHR ''('') r3 = Some r"
    by (auto simp: match_plain_def split: option.splits)
  show ?thesis
    using scan_ident_shorter [OF *(1)] scan_char_shorter [OF *(2)] scan_ident_shorter [OF *(3)] scan_char_shorter [OF *(4)]
      length_dropWhile_le [of re_space r2] by linarith
qed

lemma match_call_shorter: "match_call s = Some (x, r) \<Longrightarrow> length r < length s"
proof -
  assume m: "match_call s = Some (x, r)"
  have "length (dropWhile re_space (drop 5 s)) \<le> length s"
    using length_dropWhile_le [of re_space "drop 5 s"] by simp
  then show ?thesis
    using m match_plain_shorter [of s x r] match_plain_shorter [of "dropWhile re_space (drop 5 s)" x r]
    by (auto simp: match_call_def Let_def split: if_splits option.splits)
qed

function extractToolCallsFromCode :: "string \<Rightarrow> (string \<times> string) list" where
  "extractToolCallsFromCode code =
     (case code of [] \<Rightarrow> []
      | _ # rest \<Rightarrow> (case match_call code of
          Some (c, r) \<Rightarrow> c # extractToolCallsFromCode r
        | None \<Rightarrow> extractToolCallsFromCode rest))"
  by pat_completeness auto
termination
  by (relation "measure length") (auto dest: match_call_shorter)

declare extractToolCallsFromCode.simps [simp del]

definition isToolCallAllowedForCodeMode :: "string \<Rightarrow> string \<Rightarrow> string list \<Rightarrow> (string, string list) gomap \<Rightarrow> bool" where
  "isToolCallAllowedForCodeMode serverName toolName allClientNames allowed =
     (if serverName \<notin> set allClientNames then True
      else case gm_get allowed serverName of None \<Rightarrow> False
      | Some tools \<Rightarrow> if ''*'' \<in> set tools then True else if toolName \<in> set tools then True else False)"

text \<open>
  The form of a tool name as an identifier, for ASCII names: the code also keeps the letters and digits
  of other alphabets.
\<close>

definition is_letter :: "char \<Rightarrow> bool" where
  "is_letter c = (let n = of_char c :: nat in (97 \<le> n \<and> n \<le> 122) \<or> (65 \<le> n \<and> n \<le> 90))"

definition parse_rest :: "char \<Rightarrow> string \<Rightarrow> string" where
  "parse_rest r acc =
     (if is_letter r \<or> is_digit r \<or> r = CHR ''_'' \<or> r = CHR ''$'' then acc @ [ascii_lower r]
      else if (of_char r \<in> {9, 10, 11, 12, 13, 32 :: nat} \<or> r = CHR ''-'') \<and> acc \<noteq> [] \<and> last acc \<noteq> CHR ''_'' then acc @ ''_''
      else acc)"

definition parseToolName :: "string \<Rightarrow> string" where
  "parseToolName toolName =
     (case toolName of [] \<Rightarrow> []
      | first # rest \<Rightarrow>
          let start = (if is_letter first \<or> first = CHR ''_'' \<or> first = CHR ''$'' then [ascii_lower first]
                else if is_digit first then [CHR ''_'', first] else ''_'');
              parsed = rev (dropWhile (\<lambda>c. c = CHR ''_'') (rev (fold parse_rest rest start)))
          in if parsed = [] then ''tool'' else parsed)"

definition code_names :: "string list \<Rightarrow> string list" where
  "code_names wl = (if wl_IsUnrestricted wl then [''*''] else map (\<lambda>t. parseToolName (replace_hyphens t)) wl)"

definition add_allowed :: "client_map \<Rightarrow> string \<Rightarrow> string list \<times> (string, string list) gomap \<Rightarrow> string list \<times> (string, string list) gomap" where
  "add_allowed m clientName = (\<lambda>(names, allowed).
     case GetClientByName m clientName of None \<Rightarrow> (names, allowed)
     | Some c \<Rightarrow>
         (names @ [clientName],
          if \<not> cl_IsCodeModeClient (cs_ExecutionConfig c) then allowed
          else case cl_ToolsToAutoExecute (cs_ExecutionConfig c) of None \<Rightarrow> allowed
          | Some wl \<Rightarrow> if wl = [] then allowed else gm_put clientName (code_names wl) allowed))"

definition buildAllowedAutoExecutionTools :: "client_map \<Rightarrow> ToolContext \<Rightarrow> string list \<times> (string, string list) gomap" where
  "buildAllowedAutoExecutionTools m ctx = fold (add_allowed m) (map fst (GetToolPerClient m ctx)) ([], [])"

definition code_allowed :: "client_map \<Rightarrow> ToolContext \<Rightarrow> string \<Rightarrow> bool" where
  "code_allowed m ctx code =
     (let (allClientNames, allowed) = buildAllowedAutoExecutionTools m ctx; calls = extractToolCallsFromCode code
      in if calls \<noteq> [] then allowed \<noteq> [] \<and> list_all (\<lambda>(s, t). isToolCallAllowedForCodeMode s t allClientNames allowed) calls
         else True)"

text \<open>
  Which tool calls run on their own. \<open>codeArgument\<close> stands for the JSON parser: the string under \<^verbatim>\<open>code\<close>
  in the arguments of a call, if they parse to an object with one.
\<close>

definition auto_executable :: "(string \<Rightarrow> string option) \<Rightarrow> client_map \<Rightarrow> ToolContext \<Rightarrow> ToolCall \<Rightarrow> bool" where
  "auto_executable codeArgument m ctx call =
     (case tcl_Name call of None \<Rightarrow> False
      | Some toolName \<Rightarrow>
      (case GetClientForTool m toolName of
         Some c \<Rightarrow> canAutoExecuteTool toolName (cs_ExecutionConfig c)
       | None \<Rightarrow>
           if toolName \<in> {''listToolFiles'', ''readToolFile'', ''getToolDocs''} then True
           else if toolName = ''executeToolCode'' then
             (case codeArgument (tcl_Arguments call) of None \<Rightarrow> False
              | Some code \<Rightarrow> if code = [] then False else code_allowed m ctx code)
           else False))"

section \<open>Responses of the model\<close>

record ChatChoice =
  ch_FinishReason :: "string option"
  ch_Message :: "ChatMessage option"

record BifrostChatResponse =
  rp_ID :: string
  rp_Model :: string
  rp_Choices :: "ChatChoice list"
  rp_Speed :: "string option"
  rp_InferenceGeo :: "string option"
  rp_Usage :: "BifrostLLMUsage option"

record BifrostChatRequest =
  rq_Provider :: string
  rq_Model :: string
  rq_Input :: "ChatMessage list option"
  rq_Params :: "string option"
  rq_Fallbacks :: "(string \<times> string) list"
  rq_RawRequestBody :: string

definition message_tool_calls :: "ChatChoice \<Rightarrow> ToolCall list" where
  "message_tool_calls ch = (case ch_Message ch of None \<Rightarrow> [] | Some m \<Rightarrow> (case cm_ToolCalls m of None \<Rightarrow> [] | Some cs \<Rightarrow> cs))"

definition hasToolCallsForChatResponse :: "BifrostChatResponse \<Rightarrow> bool" where
  "hasToolCallsForChatResponse r =
     list_ex (\<lambda>ch. ch_FinishReason ch = Some ''tool_calls'' \<or> length (message_tool_calls ch) > 0) (rp_Choices r)"

definition extractToolCalls :: "BifrostChatResponse \<Rightarrow> ToolCall list" where
  "extractToolCalls r = (if \<not> hasToolCallsForChatResponse r then [] else concat (map message_tool_calls (rp_Choices r)))"

definition createToolResultMessage :: "ToolCall \<Rightarrow> string \<Rightarrow> string option \<Rightarrow> ChatMessage" where
  "createToolResultMessage call output err =
     (let content = (case err of
            Some e \<Rightarrow> ''Error executing tool '' @ (case tcl_Name call of Some n \<Rightarrow> n | None \<Rightarrow> ''unknown'') @ '': '' @ e
          | None \<Rightarrow> output)
      in \<lparr>cm_Role = ''tool'', cm_Content = Some (Some content, None),
           cm_ToolMessage = Some (tcl_ID call, if err \<noteq> None then Some True else None), cm_ToolCalls = None\<rparr>)"

section \<open>The adapter of an API\<close>

text \<open>
  The interface \<^verbatim>\<open>agentAPIAdapter\<close> as a record of its methods, over the requests, responses and messages
  of an API, and the adapter of the chat API. Its conversation holds chat messages only, so the conversion
  back from \<^verbatim>\<open>interface{}\<close> loses nothing.
\<close>

record ('q, 'r, 'm) agent_adapter =
  ad_history :: "'m list"
  ad_initial :: 'r
  ad_extractToolCalls :: "'r \<Rightarrow> ToolCall list"
  ad_addAssistantMessage :: "'m list \<Rightarrow> 'r \<Rightarrow> 'm list"
  ad_addToolResults :: "'m list \<Rightarrow> ChatMessage list \<Rightarrow> 'm list"
  ad_createNewRequest :: "'m list \<Rightarrow> 'q"
  ad_createResponse :: "'r \<Rightarrow> ChatMessage list \<Rightarrow> ToolCall list \<Rightarrow> ToolCall list \<Rightarrow> 'r"
  ad_extractUsage :: "'r \<Rightarrow> BifrostLLMUsage option"
  ad_applyUsage :: "'r \<Rightarrow> BifrostLLMUsage option \<Rightarrow> 'r"

text \<open>
  The summary of the executed tools: results by the name of their tool, where a later result of the same
  name takes the place of an earlier one. The names of a JSON object are printed in order. \<open>jsonString\<close> and
  \<open>jsonBlocks\<close> are the JSON encoder.
\<close>

record json_encoder =
  je_string :: "string \<Rightarrow> string"
  je_blocks :: "content_block list \<Rightarrow> string"

definition tool_names :: "ToolCall list \<Rightarrow> (string, string) gomap" where
  "tool_names called = fold (\<lambda>c m. case (tcl_ID c, tcl_Name c) of (Some i, Some n) \<Rightarrow> gm_put i n m | _ \<Rightarrow> m) called []"

definition result_name :: "(string, string) gomap \<Rightarrow> ChatMessage \<Rightarrow> string" where
  "result_name names msg =
     (case cm_ToolMessage msg of
        Some (Some i, _) \<Rightarrow> (case gm_get names i of Some n \<Rightarrow> n | None \<Rightarrow> i)
      | _ \<Rightarrow> ''unknown_tool'')"

definition result_output :: "json_encoder \<Rightarrow> ChatMessage \<Rightarrow> string" where
  "result_output je msg =
     (case cm_Content msg of Some (Some s, _) \<Rightarrow> je_string je s
      | Some (None, Some bs) \<Rightarrow> je_blocks je bs
      | _ \<Rightarrow> ''null'')"

definition results_map :: "json_encoder \<Rightarrow> ToolCall list \<Rightarrow> ChatMessage list \<Rightarrow> (string, string) gomap" where
  "results_map je called results =
     fold (\<lambda>msg m. gm_put (result_name (tool_names called) msg) (result_output je msg) m) results []"

fun json_members :: "json_encoder \<Rightarrow> (string \<times> string) list \<Rightarrow> string" where
  "json_members je [] = []"
| "json_members je [(k, v)] = je_string je k @ '':'' @ v"
| "json_members je ((k, v) # m) = je_string je k @ '':'' @ v @ '','' @ json_members je m"

definition json_object :: "json_encoder \<Rightarrow> (string, string) gomap \<Rightarrow> string" where
  "json_object je m = ''{'' @ json_members je (sort_by (\<lambda>a b. str_lt (fst a) (fst b)) m) @ ''}''"

definition summary_text :: "json_encoder \<Rightarrow> ToolCall list \<Rightarrow> ChatMessage list \<Rightarrow> string" where
  "summary_text je called results =
     (if results \<noteq> [] then ''The Output from allowed tools calls is - '' @ json_object je (results_map je called results)
        @ [CHR 0x0A, CHR 0x0A] @ ''Now I shall call these tools next...''
      else ''Now I shall call these tools next...'')"

definition createChatResponseWithExecutedTools ::
    "json_encoder \<Rightarrow> BifrostChatResponse \<Rightarrow> ChatMessage list \<Rightarrow> ToolCall list \<Rightarrow> ToolCall list \<Rightarrow> BifrostChatResponse" where
  "createChatResponseWithExecutedTools je original results called nonAuto =
     \<lparr>rp_ID = rp_ID original, rp_Model = rp_Model original,
       rp_Choices = [\<lparr>ch_FinishReason = Some ''stop'',
         ch_Message = Some \<lparr>cm_Role = ''assistant'', cm_Content = Some (Some (summary_text je called results), None),
           cm_ToolMessage = None, cm_ToolCalls = Some nonAuto\<rparr>\<rparr>],
       rp_Speed = None, rp_InferenceGeo = None, rp_Usage = rp_Usage original\<rparr>"

definition chatAPIAdapter ::
    "json_encoder \<Rightarrow> BifrostChatRequest \<Rightarrow> BifrostChatResponse \<Rightarrow> (BifrostChatRequest, BifrostChatResponse, ChatMessage) agent_adapter" where
  "chatAPIAdapter je originalReq initialResponse =
     \<lparr>ad_history = (case rq_Input originalReq of None \<Rightarrow> [] | Some ms \<Rightarrow> ms),
       ad_initial = initialResponse,
       ad_extractToolCalls = extractToolCalls,
       ad_addAssistantMessage = (\<lambda>conversation r. conversation @ List.map_filter ch_Message (rp_Choices r)),
       ad_addToolResults = (\<lambda>conversation results. conversation @ results),
       ad_createNewRequest = (\<lambda>conversation.
         \<lparr>rq_Provider = rq_Provider originalReq, rq_Model = rq_Model originalReq, rq_Input = Some conversation,
           rq_Params = rq_Params originalReq, rq_Fallbacks = rq_Fallbacks originalReq, rq_RawRequestBody = []\<rparr>),
       ad_createResponse = createChatResponseWithExecutedTools je,
       ad_extractUsage = rp_Usage,
       ad_applyUsage = (\<lambda>r u. r\<lparr>rp_Usage := u\<rparr>)\<rparr>"

section \<open>The loop\<close>

text \<open>
  The world of the loop by round, counted from one: the client map, the tool lists of the context, the
  parser of the argument \<^verbatim>\<open>code\<close>, what a tool call answers, the order in which the calls of the round
  finish, the next request ID, and what the model answers.
\<close>

record ('q, 'r) agent_world =
  aw_clients :: "nat \<Rightarrow> client_map"
  aw_tools :: ToolContext
  aw_codeArgument :: "string \<Rightarrow> string option"
  aw_execute :: "nat \<Rightarrow> ToolCall \<Rightarrow> tool_outcome"
  aw_finish :: "nat \<Rightarrow> (ToolCall \<times> tool_outcome) list \<Rightarrow> (ToolCall \<times> tool_outcome) list"
  aw_newRequestID :: "(nat \<Rightarrow> string) option"
  aw_model :: "nat \<Rightarrow> string option \<Rightarrow> 'q \<Rightarrow> call_error + 'r"

datatype 'q agent_event = RanTool nat ToolCall | AskedModel nat "string option" 'q

record ('r, 'm) agent_state =
  as_response :: 'r
  as_history :: "'m list"
  as_results :: "ChatMessage list"
  as_calls :: "ToolCall list"
  as_usage :: "BifrostLLMUsage option"
  as_requestID :: "string option"

definition outcome_message :: "ToolCall \<times> tool_outcome \<Rightarrow> ChatMessage" where
  "outcome_message = (\<lambda>(call, out).
     case out of
       ToolAuthRequired (Err e) \<Rightarrow> createToolResultMessage call [] (Some e)
     | ToolFailed e \<Rightarrow> createToolResultMessage call [] (Some e)
     | ToolAnswer (Some msg) \<Rightarrow> msg
     | ToolAnswer None \<Rightarrow> createToolResultMessage call [] None)"

definition first_auth :: "(ToolCall \<times> tool_outcome) list \<Rightarrow> err option" where
  "first_auth outs = (case find (\<lambda>(c, out). case out of ToolAuthRequired e \<Rightarrow> True | _ \<Rightarrow> False) outs of
     Some (c, ToolAuthRequired e) \<Rightarrow> Some e | _ \<Rightarrow> None)"

definition auth_required_error :: "err \<Rightarrow> call_error" where
  "auth_required_error e = \<lparr>ce_Type = None, ce_IsBifrostError = True, ce_StatusCode = Some 401,
     ce_Error = Some \<lparr>ef_Type = Some ''mcp_auth_required'', ef_Code = None, ef_Message = (case e of Err m \<Rightarrow> m), ef_Error = None\<rparr>,
     ce_AllowFallbacks = None\<rparr>"

text \<open>The tools of a round, run together: the new state, or the missing login.\<close>

definition run_tools ::
    "('q, 'r) agent_world \<Rightarrow> ('q, 'r, 'm) agent_adapter \<Rightarrow> nat \<Rightarrow> ToolCall list \<Rightarrow> ('r, 'm) agent_state \<Rightarrow> err + ('r, 'm) agent_state" where
  "run_tools w ad depth auto st =
     (if auto = [] then Inr st
      else let outs = aw_finish w depth (map (\<lambda>c. (c, aw_execute w depth c)) auto); results = map outcome_message outs;
               history = ad_addAssistantMessage ad (as_history st) (as_response st)
           in case first_auth outs of Some e \<Rightarrow> Inl e
              | None \<Rightarrow> Inr (st\<lparr>as_results := as_results st @ results, as_calls := as_calls st @ auto,
                   as_history := ad_addToolResults ad history results\<rparr>))"

definition next_request_id :: "('q, 'r) agent_world \<Rightarrow> nat \<Rightarrow> string option \<Rightarrow> string option" where
  "next_request_id w depth old =
     (case aw_newRequestID w of None \<Rightarrow> old | Some f \<Rightarrow> if f depth = [] then old else Some (f depth))"

text \<open>The tool calls of a response that run on their own in a round, and those that do not.\<close>

definition auto_calls :: "('q, 'r) agent_world \<Rightarrow> ('q, 'r, 'm) agent_adapter \<Rightarrow> nat \<Rightarrow> 'r \<Rightarrow> ToolCall list" where
  "auto_calls w ad depth r =
     filter (auto_executable (aw_codeArgument w) (aw_clients w depth) (aw_tools w)) (ad_extractToolCalls ad r)"

definition other_calls :: "('q, 'r) agent_world \<Rightarrow> ('q, 'r, 'm) agent_adapter \<Rightarrow> nat \<Rightarrow> 'r \<Rightarrow> ToolCall list" where
  "other_calls w ad depth r =
     filter (\<lambda>c. \<not> auto_executable (aw_codeArgument w) (aw_clients w depth) (aw_tools w) c) (ad_extractToolCalls ad r)"

definition pending_response :: "('q, 'r, 'm) agent_adapter \<Rightarrow> nat \<Rightarrow> ToolCall list \<Rightarrow> ('r, 'm) agent_state \<Rightarrow> 'r" where
  "pending_response ad depth nonAuto st =
     (if depth = 1 \<and> as_results st = [] then as_response st
      else ad_createResponse ad (ad_applyUsage ad (as_response st) (as_usage st)) (as_results st) (as_calls st) nonAuto)"

text \<open>The number in the recursion is that of the rounds left, \<^verbatim>\<open>maxAgentDepth - depth\<close>.\<close>

fun agent_loop ::
    "('q, 'r) agent_world \<Rightarrow> ('q, 'r, 'm) agent_adapter \<Rightarrow> nat \<Rightarrow> nat \<Rightarrow> ('r, 'm) agent_state \<Rightarrow> 'q agent_event list \<times> (call_error + 'r)" where
  "agent_loop w ad 0 depth0 st = ([], Inr (ad_applyUsage ad (as_response st) (as_usage st)))"
| "agent_loop w ad (Suc n) depth0 st =
     (let depth = depth0 + 1 in
      if ad_extractToolCalls ad (as_response st) = [] then ([], Inr (ad_applyUsage ad (as_response st) (as_usage st)))
      else
        let auto = auto_calls w ad depth (as_response st); nonAuto = other_calls w ad depth (as_response st);
            ran = map (RanTool depth) auto
        in case run_tools w ad depth auto st of
             Inl e \<Rightarrow> (ran, Inl (auth_required_error e))
           | Inr st1 \<Rightarrow>
             if nonAuto \<noteq> [] then (ran, Inr (pending_response ad depth nonAuto st1))
             else
               let newReq = ad_createNewRequest ad (as_history st1);
                   requestID = next_request_id w depth (as_requestID st1);
                   asked = ran @ [AskedModel depth requestID newReq]
               in case aw_model w depth requestID newReq of
                    Inl e \<Rightarrow> (asked, Inl e)
                  | Inr response \<Rightarrow>
                      (case agent_loop w ad n depth
                          (st1\<lparr>as_requestID := requestID, as_response := response,
                             as_usage := mergeUsage (as_usage st1) (ad_extractUsage ad response)\<rparr>) of
                         (events, out) \<Rightarrow> (asked @ events, out)))"

definition executeAgent ::
    "('q, 'r) agent_world \<Rightarrow> int \<Rightarrow> ('q, 'r, 'm) agent_adapter \<Rightarrow> string option \<Rightarrow> 'q agent_event list \<times> (call_error + 'r)" where
  "executeAgent w maxAgentDepth ad requestID =
     agent_loop w ad (nat maxAgentDepth) 0
       \<lparr>as_response = ad_initial ad, as_history = ad_history ad, as_results = [], as_calls = [],
         as_usage = ad_extractUsage ad (ad_initial ad), as_requestID = requestID\<rparr>"

definition ExecuteAgentForChatRequest where
  "ExecuteAgentForChatRequest w je maxAgentDepth originalReq initialResponse requestID =
     executeAgent w maxAgentDepth (chatAPIAdapter je originalReq initialResponse) requestID"

definition CheckAndExecuteAgentForChatRequest where
  "CheckAndExecuteAgentForChatRequest w je maxAgentDepth req response requestID =
     (if \<not> hasToolCallsForChatResponse response then ([], Inr response)
      else ExecuteAgentForChatRequest w je maxAgentDepth req response requestID)"

end
