(* ===== verification/MCP_Properties.thy ===== *)
theory MCP_Properties
  imports MCP_Gate
begin

text \<open>
  What the gate around MCP operations guarantees of tool calls: which calls reach a server, that
  governance decides before, and the form of the answer.
\<close>

section \<open>Calls that reach a server\<close>

lemma fill_client_keeps [simp]:
  "GetToolName (fill_client r) = GetToolName r" "mq_RequestType (fill_client r) = mq_RequestType r"
  "mq_ChatToolCall (fill_client r) = mq_ChatToolCall r" "mq_ResponsesTool (fill_client r) = mq_ResponsesTool r"
  by (simp_all add: fill_client_def GetToolName_def cong: option.case_cong)

lemma prepared:
  assumes "prepareToolExecution codeMode dial m ctx t = Inr target" "\<not> (codeMode \<and> IsCodeModeTool t)"
  obtains c conn where "target = Some (c, conn)" "GetClientForTool m t = Some c" "tool_refusal ctx c t = None"
    "AcquireClientConn dial c = Inr conn"
  using assms by (auto simp: prepareToolExecution_def split: if_splits option.splits sum.splits)

lemma called_prepared:
  assumes "gr_called (fst (executeToolWithHooks w toolsOf m pipeline u ctx req)) = Some r"
  obtains target where "prepareToolExecution (tw_codeMode w \<noteq> None) (tw_dial w) m (toolsOf ctx) (GetToolName req) = Inr target"
    "gr_called (RunWithPluginPipeline pipeline u ctx (fill_client req)
       (\<lambda>c r. case ExecuteTool w (toolsOf c) target r of Inl e \<Rightarrow> (None, Some e) | Inr resp \<Rightarrow> (Some resp, None))) = Some r"
  using assms by (auto simp: executeToolWithHooks_def Let_def split: sum.splits)

text \<open>
  Hooks that keep the name of the tool; a request a hook dropped stays dropped.
\<close>

definition keeps_tool_name :: "('c, BifrostMCPRequest, 'sc, 'r) hooks \<Rightarrow> bool" where
  "keeps_tool_name pl \<longleftrightarrow> (\<forall>ctx q c r s e. hk_Pre pl ctx q = (c, r, s, e) \<longrightarrow>
     (case (q, r) of (None, None) \<Rightarrow> True | (None, Some y) \<Rightarrow> False | (Some x, None) \<Rightarrow> True | (Some x, Some y) \<Rightarrow> GetToolName y = GetToolName x))"

lemma pre_hooks_tool_name:
  assumes "pre_hooks i (map Some pls) p ctx q = (p', ctx', Some r, sc)" "\<forall>pl \<in> set pls. keeps_tool_name pl"
  shows "\<exists>x. q = Some x \<and> GetToolName r = GetToolName x"
  using assms
proof (induction pls arbitrary: i p ctx q)
  case (Cons pl pls)
  obtain c r' s e where h: "hk_Pre pl ctx q = (c, r', s, e)" by (metis prod_cases4)
  have "keeps_tool_name pl" using Cons.prems(2) by simp
  then have k: "case (q, r') of (None, None) \<Rightarrow> True | (None, Some y) \<Rightarrow> False | (Some x, None) \<Rightarrow> True | (Some x, Some y) \<Rightarrow> GetToolName y = GetToolName x"
    using h unfolding keeps_tool_name_def by blast
  have "\<exists>x. r' = Some x \<and> GetToolName r = GetToolName x"
  proof (cases s)
    case None
    then show ?thesis using Cons h by (auto simp: Let_def)
  next
    case (Some y)
    then show ?thesis using Cons.prems h by (auto simp: Let_def)
  qed
  then show ?case using k by (cases q) auto
qed auto

lemma called_tool_name:
  assumes "gr_called (fst (executeToolWithHooks w toolsOf m (Some plugins) u ctx req)) = Some r"
    and "\<forall>pl \<in> set plugins. keeps_tool_name pl"
  shows "GetToolName r = GetToolName req"
proof -
  from assms(1) obtain target where
      "gr_called (RunWithPluginPipeline (Some plugins) u ctx (fill_client req)
         (\<lambda>c r. case ExecuteTool w (toolsOf c) target r of Inl e \<Rightarrow> (None, Some e) | Inr resp \<Rightarrow> (Some resp, None))) = Some r"
    by (rule called_prepared)
  then obtain p ctx1 sc n where
      "RunMCPPreHooks plugins resetPluginPipeline (ensure_request_id u ctx) (Some (fill_client req)) = (p, ctx1, Some r, sc, n)"
    by (rule gate_called)
  then show ?thesis
    using pre_hooks_tool_name [OF _ assms(2)]
    by (fastforce simp: RunMCPPreHooks_def run_pre_def split: if_splits prod.splits)
qed

text \<open>The server of a call that goes out is the one the check of the requested name chose.\<close>

lemma reached_tool_visible:
  assumes "gr_called (fst (executeToolWithHooks w toolsOf m (Some plugins) u ctx req)) = Some r"
    and "\<not> IsCodeModeTool (GetToolName req)"
  shows "\<exists>c conn. prepareToolExecution (tw_codeMode w \<noteq> None) (tw_dial w) m (toolsOf ctx) (GetToolName req) = Inr (Some (c, conn))
    \<and> GetClientForTool m (GetToolName req) = Some c \<and> cs_State c \<noteq> StateDisabled
    \<and> shouldIncludeClient (name_of c) (tc_IncludeClients (toolsOf ctx))
    \<and> \<not> shouldSkipToolForConfig (GetToolName req) (cs_ExecutionConfig c)
    \<and> \<not> shouldSkipToolForRequest (toolsOf ctx) (name_of c) (GetToolName req)"
proof -
  from assms(1) obtain target where t: "prepareToolExecution (tw_codeMode w \<noteq> None) (tw_dial w) m (toolsOf ctx) (GetToolName req) = Inr target"
    by (rule called_prepared)
  obtain c conn where "target = Some (c, conn)" "GetClientForTool m (GetToolName req) = Some c"
      "tool_refusal (toolsOf ctx) c (GetToolName req) = None"
    using prepared [OF t] assms(2) by blast
  then show ?thesis using t by (auto simp: tool_refusal_def split: if_splits)
qed

text \<open>
  C25: A hidden tool is not run by name: whenever a tool call goes out to a server, code mode tools
  apart, the tool named in the request belongs, by its name, to a client that is enabled and included in the request, both
  the client's configuration and the request's list of tools allow it, and the call goes to a connection of
  that client. The check is by the name in the request. The name sent on is that name when no hook changes it,
  and of two tools whose names collide the server may run the other one (\<open>colliding_name_calls_other_tool\<close>).
\<close>

theorem hidden_tool_not_called:
  assumes "gr_called (fst (executeToolWithHooks w toolsOf m (Some plugins) u ctx req)) = Some r"
    and "\<not> IsCodeModeTool (GetToolName req)"
  shows "(\<exists>c conn. prepareToolExecution (tw_codeMode w \<noteq> None) (tw_dial w) m (toolsOf ctx) (GetToolName req) = Inr (Some (c, conn))
      \<and> GetClientForTool m (GetToolName req) = Some c \<and> cs_State c \<noteq> StateDisabled
      \<and> shouldIncludeClient (name_of c) (tc_IncludeClients (toolsOf ctx))
      \<and> \<not> shouldSkipToolForConfig (GetToolName req) (cs_ExecutionConfig c)
      \<and> \<not> shouldSkipToolForRequest (toolsOf ctx) (name_of c) (GetToolName req))
    \<and> ((\<forall>pl \<in> set plugins. keeps_tool_name pl) \<longrightarrow> GetToolName r = GetToolName req)"
  using reached_tool_visible [OF assms] called_tool_name [OF assms(1)] by blast

text \<open>A world with one server, whose tools answer with their own names.\<close>

definition echo_world :: "unit tool_world" where
  "echo_world = \<lparr>tw_codeMode = None, tw_parse = (\<lambda>_. Inr ()), tw_noArguments = (),
     tw_callTool = (\<lambda>conn name args. Inr (Some \<lparr>ct_Content = [TextContent name], ct_IsError = name = ''broken''\<rparr>)),
     tw_dial = (\<lambda>_. Inl (Err ''unreachable'')), tw_isAuthRequired = (\<lambda>_. False)\<rparr>"

definition notes_map :: client_map where
  "notes_map = [(''c1'', with_tools [plain_tool ''list'', plain_tool ''drop'', plain_tool ''broken''] notes_client)]"

definition list_tools_only :: "GovernedContext \<Rightarrow> ToolContext" where
  "list_tools_only ctx = \<lparr>tc_IncludeClients = None, tc_IncludeTools = Some [''notes-list''], tc_UserAgent = None, tc_AddedTools = []\<rparr>"

definition call_of :: "string \<Rightarrow> ToolCall" where
  "call_of n = \<lparr>tcl_ID = Some ''call-1'', tcl_Name = Some n, tcl_Arguments = []\<rparr>"

lemma list_call:
  "gr_called (fst (executeToolWithHooks echo_world list_tools_only notes_map (Some []) ''u'' governed_ctx (chat_tool_request (call_of ''notes-list''))))
    = Some ((chat_tool_request (call_of ''notes-list''))\<lparr>mq_ClientName := ''notes''\<rparr>)"
  unfolding echo_world_def list_tools_only_def notes_map_def with_tools_def notes_client_def governed_ctx_def demo_ctx_def
    CallContext.defs gate_ctx_def
  by code_simp

theorem hidden_tool_not_called_witness:
  "\<exists>c. GetClientForTool notes_map ''notes-list'' = Some c \<and> cs_State c \<noteq> StateDisabled"
proof -
  have n: "GetToolName (chat_tool_request (call_of ''notes-list'')) = ''notes-list''"
    by (simp add: GetToolName_def chat_tool_request_def call_of_def)
  have "\<not> IsCodeModeTool ''notes-list''" by (simp add: IsCodeModeTool_def codeModeToolNames_def)
  then show ?thesis using hidden_tool_not_called [OF list_call] unfolding n by blast
qed

section \<open>Governance before the call\<close>

definition governance_mcp_pre ::
    "(string \<Rightarrow> bool) \<Rightarrow> GovernancePlugin \<Rightarrow> time \<Rightarrow> GovernedContext \<Rightarrow> BifrostMCPRequest
      \<Rightarrow> GovernedContext \<times> BifrostMCPRequest option \<times> MCPPluginShortCircuit option \<times> err option" where
  "governance_mcp_pre known p now ctx req =
     (case PreMCPHook known p now (governance_view ctx) (gc_VirtualKey ctx) (gc_UserID ctx) (IsExecuteTool (mq_RequestType req)) (GetToolName req) of
        (e, g) \<Rightarrow> (governance_put g ctx, Some req,
          case e of None \<Rightarrow> None | Some b \<Rightarrow> Some \<lparr>msc_Response = None, msc_Error = Some (governance_error b)\<rparr>, None))"

lemma mcp_hook_passed:
  assumes "PreMCPHook known p now ctx v userID True tool = (None, ctx')" "\<not> IsCodeModeTool tool" "v \<noteq> []"
  shows "\<exists>vk. GetVirtualKey (r_store (p_resolver p)) v = Some vk \<and> IsActiveValue (Some vk)
    \<and> \<not> IsExpiredAt (Some vk) now \<and> isMCPToolAllowedByVK p vk tool"
  using assms
  by (auto simp: PreMCPHook_def reject_def split: option.splits prod.splits if_splits)

lemma reached_tool_granted:
  assumes "gr_called (fst (executeToolWithHooks w toolsOf m (Some (gov # plugins)) u ctx req)) = Some r"
    and "\<And>c q. hk_Pre gov c (Some q) = governance_mcp_pre known p now c q"
    and "\<not> cc_SkipPluginPipeline ctx" "gc_VirtualKey ctx \<noteq> []"
    and "IsExecuteTool (mq_RequestType req)" "\<not> IsCodeModeTool (GetToolName req)"
  shows "(\<exists>vk. GetVirtualKey (r_store (p_resolver p)) (gc_VirtualKey ctx) = Some vk \<and> IsActiveValue (Some vk)
      \<and> \<not> IsExpiredAt (Some vk) now \<and> isMCPToolAllowedByVK p vk (GetToolName req))
    \<and> ((\<forall>pl \<in> set plugins. keeps_tool_name pl) \<longrightarrow> GetToolName r = GetToolName req)"
proof -
  from assms(1) obtain target where
      "gr_called (RunWithPluginPipeline (Some (gov # plugins)) u ctx (fill_client req)
         (\<lambda>c r. case ExecuteTool w (toolsOf c) target r of Inl e \<Rightarrow> (None, Some e) | Inr resp \<Rightarrow> (Some resp, None))) = Some r"
    by (rule called_prepared)
  then obtain pp ctx1 sc n where h:
      "RunMCPPreHooks (gov # plugins) resetPluginPipeline (ensure_request_id u ctx) (Some (fill_client req)) = (pp, ctx1, Some r, sc, n)"
      "\<not> answers sc"
    by (rule gate_called)
  have e: "\<not> cc_SkipPluginPipeline (ensure_request_id u ctx)" "gc_VirtualKey (ensure_request_id u ctx) = gc_VirtualKey ctx"
    using assms(3) by (simp_all add: ensure_request_id_def)
  obtain b g where hook: "PreMCPHook known p now (governance_view (ensure_request_id u ctx)) (gc_VirtualKey ctx)
      (gc_UserID (ensure_request_id u ctx)) True (GetToolName req) = (b, g)"
    by fastforce
  have b: "b = None"
    using h e hook assms(2,5) by (auto simp: RunMCPPreHooks_def run_pre_def governance_mcp_pre_def answers_def Let_def split: option.splits prod.splits)
  then have "\<exists>i p1 c1. pre_hooks i (map Some plugins) p1 c1 (Some (fill_client req)) = (pp, ctx1, Some r, sc)"
    using h e hook assms(2,5) by (auto simp: RunMCPPreHooks_def run_pre_def governance_mcp_pre_def Let_def split: prod.splits)
  then have "(\<forall>pl \<in> set plugins. keeps_tool_name pl) \<longrightarrow> GetToolName r = GetToolName req" using pre_hooks_tool_name by fastforce
  then show ?thesis using mcp_hook_passed [OF hook [unfolded b] assms(6,4)] by simp
qed

text \<open>
  C26: Governance decides before a server is called: with governance first among the plugins, and unless the
  context skips the plugins, a tool call made with a virtual key goes out to a server only if that key exists, is
  active and not expired, and grants the tool named in the request, code mode tools apart. The name sent on
  is that name when no later hook changes it.
\<close>

theorem governed_tool_call_granted:
  assumes "gr_called (fst (executeToolWithHooks w toolsOf m (Some (gov # plugins)) u ctx req)) = Some r"
    and "\<And>c q. hk_Pre gov c (Some q) = governance_mcp_pre known p now c q"
    and "\<not> cc_SkipPluginPipeline ctx" "gc_VirtualKey ctx \<noteq> []"
    and "IsExecuteTool (mq_RequestType req)" "\<not> IsCodeModeTool (GetToolName req)"
  shows "(\<exists>vk. GetVirtualKey (r_store (p_resolver p)) (gc_VirtualKey ctx) = Some vk \<and> IsActiveValue (Some vk)
      \<and> \<not> IsExpiredAt (Some vk) now \<and> isMCPToolAllowedByVK p vk (GetToolName req))
    \<and> ((\<forall>pl \<in> set plugins. keeps_tool_name pl) \<longrightarrow> GetToolName r = GetToolName req)"
  using reached_tool_granted [OF assms] .

definition files_client :: MCPClientState where
  "files_client = notes_client\<lparr>cs_ExecutionConfig := (cs_ExecutionConfig notes_client)\<lparr>cl_Name := ''fs''\<rparr>\<rparr>"

definition files_map :: client_map where
  "files_map = [(''c1'', with_tools [plain_tool ''read'', plain_tool ''delete''] files_client)]"

definition governance_mcp_plugin :: "(unit GovernedContext_ext, BifrostMCPRequest, MCPPluginShortCircuit, BifrostMCPResponse) hooks" where
  "governance_mcp_plugin = \<lparr>hk_Pre = (\<lambda>c r. case r of None \<Rightarrow> (c, None, None, None)
       | Some q \<Rightarrow> governance_mcp_pre (\<lambda>_. True) granted_plugin 0 c q),
     hk_Post = (\<lambda>c resp e. (c, resp, e, None))\<rparr>"

definition all_tools :: "GovernedContext \<Rightarrow> ToolContext" where
  "all_tools ctx = \<lparr>tc_IncludeClients = None, tc_IncludeTools = None, tc_UserAgent = None, tc_AddedTools = []\<rparr>"

lemma read_call:
  "gr_called (fst (executeToolWithHooks echo_world all_tools files_map (Some [governance_mcp_plugin]) ''u'' governed_ctx
      (chat_tool_request (call_of ''fs-read'')))) = Some ((chat_tool_request (call_of ''fs-read''))\<lparr>mq_ClientName := ''fs''\<rparr>)"
  unfolding echo_world_def all_tools_def files_map_def with_tools_def files_client_def notes_client_def governed_ctx_def demo_ctx_def
    CallContext.defs gate_ctx_def governance_mcp_plugin_def governance_mcp_pre_def governance_view_def governance_put_def
    granted_plugin_def granted_resolver_def granted_vk_def gate_vk_def sample_vk_def gate_plugin_def empty_store_def
  by code_simp

theorem governed_tool_call_granted_witness:
  "\<exists>vk. GetVirtualKey (r_store (p_resolver granted_plugin)) ''sk-1'' = Some vk \<and> isMCPToolAllowedByVK granted_plugin vk ''fs-read''"
proof -
  have n: "GetToolName (chat_tool_request (call_of ''fs-read'')) = ''fs-read''"
    by (simp add: GetToolName_def chat_tool_request_def call_of_def)
  have "\<not> IsCodeModeTool ''fs-read''" "IsExecuteTool (mq_RequestType (chat_tool_request (call_of ''fs-read'')))"
    by (simp_all add: IsCodeModeTool_def codeModeToolNames_def IsExecuteTool_def chat_tool_request_def MCPRequestTypeChatToolCall_def)
  moreover have "\<not> cc_SkipPluginPipeline governed_ctx" "gc_VirtualKey governed_ctx = ''sk-1''"
    by (simp_all add: governed_ctx_def CallContext.defs demo_ctx_def)
  ultimately show ?thesis
    using governed_tool_call_granted [OF read_call, of "\<lambda>_. True" granted_plugin 0] unfolding n
    by (auto simp: governance_mcp_plugin_def)
qed

section \<open>The form of the answer\<close>

lemma created_tool_message: "cm_ToolMessage (createToolResponseMessage call text b) = Some (tcl_ID call, if b then Some True else None)"
  by (simp add: createToolResponseMessage_def)

lemma ToResponses_tool_message:
  "cm_ToolMessage msg = Some (i, b) \<Longrightarrow> \<exists>m t. ToResponsesToolMessage msg = Some m \<and> rm_ToolMessage m = Some t \<and> rt_CallID t = i"
  by (simp add: ToResponsesToolMessage_def)

text \<open>
  C39: A tool call is answered in the form it was made: for a call of the chat API exactly a chat
  message, for one of the responses API exactly a responses message, and outside code mode the message
  answers the ID of that call.
\<close>

theorem tool_answer_has_request_form:
  assumes "ExecuteTool w ctx target r = Inr resp" "requested_call r = Inr call"
    and "\<not> (tw_codeMode w \<noteq> None \<and> IsCodeModeTool (GetToolName r))" "mq_RequestType r = MCPRequestTypeChatToolCall \<longrightarrow> mq_ResponsesTool r = None"
    and "mq_RequestType r = MCPRequestTypeResponsesToolCall \<longrightarrow> mq_ChatToolCall r = None"
  shows "if mq_RequestType r = MCPRequestTypeChatToolCall
    then mp_ResponsesMessage resp = None \<and> (\<exists>msg b. mp_ChatMessage resp = Some msg \<and> cm_ToolMessage msg = Some (tcl_ID call, b))
    else mq_RequestType r = MCPRequestTypeResponsesToolCall \<and> mp_ChatMessage resp = None
      \<and> (\<exists>m t. mp_ResponsesMessage resp = Some m \<and> rm_ToolMessage m = Some t \<and> rt_CallID t = tcl_ID call)"
proof -
  obtain toolName msg cn orig where x: "tcl_Name call = Some toolName" "executeToolInternal w ctx call toolName target = Inr (msg, cn, orig)"
    using assms(1,2) by (auto simp: ExecuteTool_def split: option.splits sum.splits)
  have "GetToolName r = toolName"
    using assms(2,4,5) x(1) by (auto simp: requested_call_def GetToolName_def ToChatAssistantMessageToolCall_def split: if_splits option.splits)
  then have "\<exists>b. cm_ToolMessage msg = Some (tcl_ID call, b)"
    using x(2) assms(3) by (auto simp: executeToolInternal_def created_tool_message split: if_splits option.splits sum.splits prod.splits bool.splits)
  then obtain b where msg: "cm_ToolMessage msg = Some (tcl_ID call, b)" by blast
  show ?thesis
    using assms(1,2) x msg ToResponses_tool_message [OF msg]
    by (auto simp: ExecuteTool_def Let_def requested_call_def split: option.splits if_splits)
qed

theorem tool_answer_has_request_form_witness:
  "\<exists>resp msg. ExecuteTool echo_world (all_tools governed_ctx) (Some (files_client, 1)) (chat_tool_request (call_of ''fs-read'')) = Inr resp
    \<and> mp_ResponsesMessage resp = None \<and> mp_ChatMessage resp = Some msg"
proof -
  let ?q = "chat_tool_request (call_of ''fs-read'')"
  have "\<exists>resp. ExecuteTool echo_world (all_tools governed_ctx) (Some (files_client, 1)) ?q = Inr resp"
    by (simp add: ExecuteTool_def requested_call_def chat_tool_request_def call_of_def executeToolInternal_def echo_world_def Let_def)
  then obtain resp where e: "ExecuteTool echo_world (all_tools governed_ctx) (Some (files_client, 1)) ?q = Inr resp" by blast
  have "requested_call ?q = Inr (call_of ''fs-read'')" by (simp add: requested_call_def chat_tool_request_def)
  from tool_answer_has_request_form [OF e this] e show ?thesis
    by (auto simp: echo_world_def chat_tool_request_def MCPRequestTypeChatToolCall_def MCPRequestTypeResponsesToolCall_def)
qed

text \<open>
  The mark of a failed execution is lost on the responses API: a call the server reports as failed
  comes back as a chat message with the mark, but as a responses message without error and without
  the status that the other conversion of such a message sets.
\<close>

theorem failed_tool_unmarked_in_responses:
  "let chat = ExecuteTool echo_world (all_tools governed_ctx) (Some (notes_client, 1)) (chat_tool_request (call_of ''notes-broken''));
       responses = ExecuteTool echo_world (all_tools governed_ctx) (Some (notes_client, 1))
         (responses_tool_request \<lparr>rt_CallID = Some ''call-1'', rt_Name = Some ''notes-broken'', rt_Arguments = None, rt_Output = None\<rparr>)
   in (case chat of Inl e \<Rightarrow> False
       | Inr r \<Rightarrow> map_option cm_ToolMessage (mp_ChatMessage r) = Some (Some (Some ''call-1'', Some True)))
    \<and> (case responses of Inl e \<Rightarrow> False
       | Inr r \<Rightarrow> map_option rm_Status (mp_ResponsesMessage r) = Some None
        \<and> map_option (\<lambda>m. map_option rt_Output (rm_ToolMessage m)) (mp_ResponsesMessage r) = Some (Some (Some (Inl ''broken''))))"
  unfolding echo_world_def all_tools_def notes_client_def by code_simp

end
