(* ===== verification/Agent_Properties.thy ===== *)
theory Agent_Properties
  imports Agent_Mode MCP_Properties "HOL-Library.Multiset"
begin

text \<open>
  Agent mode ends, runs only the tools it may run, sends conversations in which every tool call is
  answered, and adds up the tokens of all rounds.
\<close>

section \<open>One round\<close>

definition next_state where
  "next_state w ad depth st1 response = st1\<lparr>as_requestID := next_request_id w depth (as_requestID st1), as_response := response,
     as_usage := mergeUsage (as_usage st1) (ad_extractUsage ad response)\<rparr>"

definition asked where
  "asked w ad depth st1 = AskedModel depth (next_request_id w depth (as_requestID st1)) (ad_createNewRequest ad (as_history st1))"

lemma agent_loop_cases:
  assumes "agent_loop w ad (Suc n) d st = (events, out)"
  obtains (stop) "events = []" "out = Inr (ad_applyUsage ad (as_response st) (as_usage st))"
  | (login) e where "run_tools w ad (d + 1) (auto_calls w ad (d + 1) (as_response st)) st = Inl e"
      "events = map (RanTool (d + 1)) (auto_calls w ad (d + 1) (as_response st))" "out = Inl (auth_required_error e)"
  | (pending) st1 where "run_tools w ad (d + 1) (auto_calls w ad (d + 1) (as_response st)) st = Inr st1"
      "events = map (RanTool (d + 1)) (auto_calls w ad (d + 1) (as_response st))"
      "other_calls w ad (d + 1) (as_response st) \<noteq> []"
      "out = Inr (pending_response ad (d + 1) (other_calls w ad (d + 1) (as_response st)) st1)"
  | (failed) st1 e where "run_tools w ad (d + 1) (auto_calls w ad (d + 1) (as_response st)) st = Inr st1"
      "other_calls w ad (d + 1) (as_response st) = []"
      "aw_model w (d + 1) (next_request_id w (d + 1) (as_requestID st1)) (ad_createNewRequest ad (as_history st1)) = Inl e"
      "events = map (RanTool (d + 1)) (auto_calls w ad (d + 1) (as_response st)) @ [asked w ad (d + 1) st1]" "out = Inl e"
  | (more) st1 response events' where "run_tools w ad (d + 1) (auto_calls w ad (d + 1) (as_response st)) st = Inr st1"
      "other_calls w ad (d + 1) (as_response st) = []"
      "aw_model w (d + 1) (next_request_id w (d + 1) (as_requestID st1)) (ad_createNewRequest ad (as_history st1)) = Inr response"
      "agent_loop w ad n (d + 1) (next_state w ad (d + 1) st1 response) = (events', out)"
      "events = map (RanTool (d + 1)) (auto_calls w ad (d + 1) (as_response st)) @ [asked w ad (d + 1) st1] @ events'"
proof (cases "ad_extractToolCalls ad (as_response st) = []")
  case True
  then show thesis using assms stop by simp
next
  case calls: False
  show thesis
  proof (cases "run_tools w ad (d + 1) (auto_calls w ad (d + 1) (as_response st)) st")
    case (Inl e)
    then show thesis using assms calls login [OF Inl] by (simp add: Let_def)
  next
    case run: (Inr st1)
    show thesis
    proof (cases "other_calls w ad (d + 1) (as_response st) = []")
      case False
      then show thesis using assms calls run pending [OF run] by (simp add: Let_def)
    next
      case other: True
      show thesis
      proof (cases "aw_model w (d + 1) (next_request_id w (d + 1) (as_requestID st1)) (ad_createNewRequest ad (as_history st1))")
        case (Inl e)
        then show thesis using assms calls run other failed [OF run other Inl] by (simp add: Let_def asked_def)
      next
        case (Inr response)
        obtain events' out' where l: "agent_loop w ad n (d + 1) (next_state w ad (d + 1) st1 response) = (events', out')" by fastforce
        then show thesis
          using assms calls run other Inr more [OF run other Inr] by (simp add: Let_def asked_def next_state_def)
      qed
    qed
  qed
qed

section \<open>A run\<close>

text \<open>
  A client whose tool runs on its own, a model that asks for it once and then answers, and the
  conversation they have.
\<close>

definition called_usage :: BifrostLLMUsage where
  "called_usage = \<lparr>us_PromptTokens = 7, us_PromptTokensDetails = None, us_CompletionTokens = 3, us_CompletionTokensDetails = None,
     us_TotalTokens = 10, us_Cost = None, us_Speed = Some ''fast'', us_InferenceGeo = None, us_ServerSideFallbackModel = None\<rparr>"

definition model_says :: "ToolCall list \<Rightarrow> BifrostChatResponse" where
  "model_says cs = \<lparr>rp_ID = ''r'', rp_Model = ''m'', rp_Choices = [\<lparr>ch_FinishReason = None,
     ch_Message = Some \<lparr>cm_Role = ''assistant'', cm_Content = None, cm_ToolMessage = None, cm_ToolCalls = Some cs\<rparr>\<rparr>],
     rp_Speed = None, rp_InferenceGeo = None, rp_Usage = Some called_usage\<rparr>"

definition agent_request :: BifrostChatRequest where
  "agent_request = \<lparr>rq_Provider = ''p'', rq_Model = ''m'', rq_Input = None, rq_Params = None, rq_Fallbacks = [], rq_RawRequestBody = []\<rparr>"

definition plain_encoder :: json_encoder where
  "plain_encoder = \<lparr>je_string = (\<lambda>s. CHR 0x22 # s @ [CHR 0x22]), je_blocks = (\<lambda>bs. ''[]'')\<rparr>"

definition user_map :: client_map where
  "user_map = [(''c1'', with_tools [plain_tool ''get_user''] notes_client)]"

definition answers_at_once :: "(BifrostChatRequest, BifrostChatResponse) agent_world" where
  "answers_at_once = \<lparr>aw_clients = (\<lambda>k. user_map),
     aw_tools = \<lparr>tc_IncludeClients = None, tc_IncludeTools = None, tc_UserAgent = None, tc_AddedTools = []\<rparr>,
     aw_codeArgument = (\<lambda>a. None), aw_execute = (\<lambda>k c. ToolAnswer (Some (createToolResponseMessage c ''Ada'' False))),
     aw_finish = (\<lambda>k outs. outs), aw_newRequestID = None, aw_model = (\<lambda>k rid q. Inr (model_says []))\<rparr>"

abbreviation "user_call \<equiv> call_of ''notes-get_user''"

definition user_conversation :: "ChatMessage list" where
  "user_conversation = List.map_filter ch_Message (rp_Choices (model_says [user_call])) @ [createToolResponseMessage user_call ''Ada'' False]"

lemma user_run:
  "CheckAndExecuteAgentForChatRequest answers_at_once plain_encoder 5 agent_request (model_says [user_call]) None =
     ([RanTool 1 user_call, AskedModel 1 None (agent_request\<lparr>rq_Input := Some user_conversation\<rparr>)],
      Inr ((model_says [])\<lparr>rp_Usage := mergeUsage (Some called_usage) (Some called_usage)\<rparr>))"
  unfolding answers_at_once_def plain_encoder_def agent_request_def user_conversation_def user_map_def with_tools_def notes_client_def
    CheckAndExecuteAgentForChatRequest_def ExecuteAgentForChatRequest_def executeAgent_def
  by code_simp

section \<open>Bounds\<close>

fun asked_round :: "'q agent_event \<Rightarrow> nat option" where
  "asked_round (AskedModel k rid q) = Some k"
| "asked_round (RanTool k c) = None"

lemma asked_round_asked [simp]: "asked_round (asked w ad d st) = Some d"
  by (simp add: asked_def)

lemma no_rounds_of_tools [simp]: "List.map_filter asked_round (map (RanTool k) cs) = []"
  by (induction cs) (simp_all add: List.map_filter_simps)

lemma agent_loop_rounds:
  "agent_loop w ad n d st = (events, out) \<Longrightarrow> \<exists>k \<le> n. List.map_filter asked_round events = [d + 1..<d + 1 + k]"
proof (induction n arbitrary: d st events)
  case (Suc n)
  from Suc.prems show ?case
  proof (cases rule: agent_loop_cases)
    case failed
    then show ?thesis by (intro exI [of _ 1]) (simp add: map_filter_append List.map_filter_simps)
  next
    case (more st1 response events')
    then obtain k where k: "k \<le> n" "List.map_filter asked_round events' = [d + 1 + 1..<d + 1 + 1 + k]" using Suc.IH by blast
    then have "List.map_filter asked_round events = [d + 1..<d + 1 + Suc k]"
      using more by (simp add: map_filter_append List.map_filter_simps upt_conv_Cons del: upt_Suc)
    then show ?thesis using k(1) by (intro exI [of _ "Suc k"]) simp
  qed (auto simp: List.map_filter_simps)
qed (auto simp: List.map_filter_simps)

text \<open>
  Agent mode asks the model once per round, in the order of the rounds and at most as often as the
  configured depth allows, whatever the model and the tools answer; with a depth of zero or less not at all.
\<close>

theorem agent_rounds_bounded:
  assumes "executeAgent w maxAgentDepth ad requestID = (events, out)"
  shows "\<exists>k. int k \<le> max 0 maxAgentDepth \<and> List.map_filter asked_round events = [1..<Suc k]"
proof -
  obtain k where "k \<le> nat maxAgentDepth" "List.map_filter asked_round events = [0 + 1..<0 + 1 + k]"
    using agent_loop_rounds assms unfolding executeAgent_def by blast
  then show ?thesis by (intro exI [of _ k]) auto
qed

lemma user_agent:
  "executeAgent answers_at_once 5 (chatAPIAdapter plain_encoder agent_request (model_says [user_call])) None =
     ([RanTool 1 user_call, AskedModel 1 None (agent_request\<lparr>rq_Input := Some user_conversation\<rparr>)],
      Inr ((model_says [])\<lparr>rp_Usage := mergeUsage (Some called_usage) (Some called_usage)\<rparr>))"
  using user_run
  by (simp add: CheckAndExecuteAgentForChatRequest_def ExecuteAgentForChatRequest_def hasToolCallsForChatResponse_def model_says_def
      message_tool_calls_def)

theorem agent_rounds_bounded_witness:
  "\<exists>k. int k \<le> 5 \<and> List.map_filter asked_round
     [RanTool 1 user_call, AskedModel 1 None (agent_request\<lparr>rq_Input := Some user_conversation\<rparr>)] = [1..<Suc k]"
  using agent_rounds_bounded [OF user_agent] by simp

section \<open>Tools that run\<close>

lemma agent_loop_ran:
  "agent_loop w ad n d st = (events, out) \<Longrightarrow> RanTool k c \<in> set events \<Longrightarrow>
    d < k \<and> k \<le> d + n \<and> auto_executable (aw_codeArgument w) (aw_clients w k) (aw_tools w) c"
proof (induction n arbitrary: d st events)
  case (Suc n)
  have now: "auto_executable (aw_codeArgument w) (aw_clients w k) (aw_tools w) c \<and> k = d + 1"
    if "RanTool k c \<in> set (map (RanTool (d + 1)) (auto_calls w ad (d + 1) (as_response st)))"
    using that by (auto simp: auto_calls_def)
  from Suc.prems(1) show ?case
  proof (cases rule: agent_loop_cases)
    case (more st1 response events')
    then show ?thesis using Suc.prems(2) Suc.IH [OF more(4)] now by (auto simp: asked_def)
  qed (use Suc.prems(2) now in \<open>auto simp: asked_def\<close>)
qed simp

lemma agent_ran:
  assumes "executeAgent w depth ad rid = (events, out)" "RanTool k c \<in> set events"
  shows "1 \<le> k \<and> int k \<le> depth \<and> auto_executable (aw_codeArgument w) (aw_clients w k) (aw_tools w) c"
  using agent_loop_ran [OF assms(1) [unfolded executeAgent_def] assms(2)] by auto

text \<open>
  Agent mode on the gate of MCP operations: a tool call of a round goes through \<open>executeToolForAgent\<close>
  with the client map of that round. The requests that go out to a server are those the gate passes on.
\<close>

definition gated_agent ::
    "'a tool_world \<Rightarrow> ('c CallContext_scheme \<Rightarrow> ToolContext) \<Rightarrow> 'c mcp_plugins \<Rightarrow> (nat \<Rightarrow> ToolCall \<Rightarrow> string) \<Rightarrow> 'c CallContext_scheme
      \<Rightarrow> ('q, 'r) agent_world \<Rightarrow> ('q, 'r) agent_world" where
  "gated_agent tw toolsOf plugins newID ctx w =
     w\<lparr>aw_tools := toolsOf ctx,
       aw_execute := (\<lambda>k c. executeToolForAgent tw toolsOf (aw_clients w k) (Some plugins) (newID k c) ctx (chat_tool_request c))\<rparr>"

definition served ::
    "'a tool_world \<Rightarrow> ('c CallContext_scheme \<Rightarrow> ToolContext) \<Rightarrow> 'c mcp_plugins \<Rightarrow> (nat \<Rightarrow> ToolCall \<Rightarrow> string) \<Rightarrow> 'c CallContext_scheme
      \<Rightarrow> ('q, 'r) agent_world \<Rightarrow> 'q agent_event \<Rightarrow> (nat \<times> BifrostMCPRequest) option" where
  "served tw toolsOf plugins newID ctx w ev =
     (case ev of AskedModel k rid q \<Rightarrow> None
      | RanTool k c \<Rightarrow> map_option (Pair k)
          (gr_called (fst (executeToolWithHooks tw toolsOf (aw_clients w k) (Some plugins) (newID k c) ctx (chat_tool_request c)))))"

lemma GetToolName_chat [simp]: "GetToolName (chat_tool_request c) = (case tcl_Name c of Some n \<Rightarrow> n | None \<Rightarrow> [])"
  by (simp add: GetToolName_def chat_tool_request_def split: option.split)

lemma auto_executable_named: "auto_executable codeArgument m ctx c \<Longrightarrow> \<exists>n. tcl_Name c = Some n"
  by (cases "tcl_Name c") (simp_all add: auto_executable_def)

text \<open>
  C27: Agent mode of the chat API runs on its own only what it may: when a tool call of some round goes out to a server, code mode tools
  apart, the round is within the configured depth, and the tool named in the call belongs, by its name, to an
  enabled client that the request includes and whose configuration lists the tool both for execution and for execution
  without approval; the call goes to a connection of that client. The name sent on is that name when no
  hook changes it. Code blocks are checked by their text only (\<open>aliased_code_auto_executes\<close>), and tools whose names
  collide are not told apart (\<open>colliding_name_calls_other_tool\<close>).
\<close>

theorem agent_reaches_only_permitted_tools:
  assumes "CheckAndExecuteAgentForChatRequest (gated_agent tw toolsOf plugins newID ctx w) je depth req resp rid = (events, out)"
    and "RanTool k c \<in> set events" "served tw toolsOf plugins newID ctx w (RanTool k c) = Some (k', r)"
    and "GetToolName (chat_tool_request c) = n" "\<not> IsCodeModeTool n"
  shows "1 \<le> k \<and> int k \<le> depth
    \<and> (\<exists>cl conn. prepareToolExecution (tw_codeMode tw \<noteq> None) (tw_dial tw) (aw_clients w k) (toolsOf ctx) n = Inr (Some (cl, conn))
      \<and> GetClientForTool (aw_clients w k) n = Some cl \<and> cs_State cl \<noteq> StateDisabled
      \<and> shouldIncludeClient (name_of cl) (tc_IncludeClients (toolsOf ctx))
      \<and> \<not> shouldSkipToolForRequest (toolsOf ctx) (name_of cl) n
      \<and> canAutoExecuteTool n (cs_ExecutionConfig cl))
    \<and> ((\<forall>pl \<in> set plugins. keeps_tool_name pl) \<longrightarrow> GetToolName r = n)"
proof -
  let ?w = "gated_agent tw toolsOf plugins newID ctx w"
  have c: "gr_called (fst (executeToolWithHooks tw toolsOf (aw_clients w k) (Some plugins) (newID k c) ctx (chat_tool_request c))) = Some r"
    using assms(3) by (auto simp: served_def)
  have "1 \<le> k \<and> int k \<le> depth \<and> auto_executable (aw_codeArgument w) (aw_clients w k) (toolsOf ctx) c"
    using agent_ran [OF _ assms(2), of ?w depth] assms(1,2)
    by (auto simp: CheckAndExecuteAgentForChatRequest_def ExecuteAgentForChatRequest_def gated_agent_def split: if_splits)
  moreover have "(\<forall>pl \<in> set plugins. keeps_tool_name pl) \<longrightarrow> GetToolName r = n"
    using called_tool_name [OF c] assms(4) by simp
  moreover note reached_tool_visible [OF c, unfolded assms(4), OF assms(5)]
  ultimately show ?thesis using assms(4,5) auto_executable_named [of "aw_codeArgument w" "aw_clients w k" "toolsOf ctx" c]
    by (auto simp: auto_executable_def)
qed

lemma gated_run:
  "case CheckAndExecuteAgentForChatRequest (gated_agent echo_world all_tools [] (\<lambda>k c. ''u'') governed_ctx answers_at_once)
      plain_encoder 5 agent_request (model_says [user_call]) None of
    (events, out) \<Rightarrow> list_ex (\<lambda>ev. case ev of RanTool k c \<Rightarrow> k = 1 \<and> c = user_call | AskedModel k rid q \<Rightarrow> False) events"
  unfolding answers_at_once_def plain_encoder_def agent_request_def user_map_def with_tools_def notes_client_def
    CheckAndExecuteAgentForChatRequest_def ExecuteAgentForChatRequest_def executeAgent_def gated_agent_def
    echo_world_def all_tools_def governed_ctx_def demo_ctx_def CallContext.defs gate_ctx_def
  by code_simp

lemma served_run:
  "served echo_world all_tools [] (\<lambda>k c. ''u'') governed_ctx answers_at_once (RanTool 1 user_call)
    = Some (1, (chat_tool_request user_call)\<lparr>mq_ClientName := ''notes''\<rparr>)"
  unfolding answers_at_once_def user_map_def with_tools_def notes_client_def served_def
    echo_world_def all_tools_def governed_ctx_def demo_ctx_def CallContext.defs gate_ctx_def
  by code_simp

theorem agent_reaches_only_permitted_tools_witness:
  "\<exists>c. GetClientForTool (aw_clients answers_at_once 1) ''notes-get_user'' = Some c \<and> canAutoExecuteTool ''notes-get_user'' (cs_ExecutionConfig c)"
proof -
  obtain events out where run: "CheckAndExecuteAgentForChatRequest (gated_agent echo_world all_tools [] (\<lambda>k c. ''u'') governed_ctx answers_at_once)
      plain_encoder 5 agent_request (model_says [user_call]) None = (events, out)" by fastforce
  have ran: "RanTool 1 user_call \<in> set events"
  proof -
    have "list_ex (\<lambda>ev. case ev of RanTool k c \<Rightarrow> k = 1 \<and> c = user_call | AskedModel k rid q \<Rightarrow> False) events"
      using gated_run unfolding run prod.case .
    then obtain ev where "ev \<in> set events" "case ev of RanTool k c \<Rightarrow> k = 1 \<and> c = user_call | AskedModel k rid q \<Rightarrow> False"
      unfolding list_ex_iff by blast
    then show ?thesis by - (cases ev; auto)
  qed
  have name: "GetToolName (chat_tool_request user_call) = ''notes-get_user''" by (simp add: call_of_def)
  have "\<not> IsCodeModeTool ''notes-get_user''" by (simp add: IsCodeModeTool_def codeModeToolNames_def)
  from agent_reaches_only_permitted_tools [OF run ran served_run name this] show ?thesis by blast
qed

section \<open>Tokens of all rounds\<close>

definition tokens :: "(BifrostLLMUsage \<Rightarrow> int) \<Rightarrow> BifrostLLMUsage option \<Rightarrow> int" where
  "tokens f u = (case u of None \<Rightarrow> 0 | Some x \<Rightarrow> f x)"

definition model_answer :: "('q, 'r) agent_world \<Rightarrow> 'q agent_event \<Rightarrow> 'r option" where
  "model_answer w ev =
     (case ev of RanTool k c \<Rightarrow> None
      | AskedModel k rid q \<Rightarrow> (case aw_model w k rid q of Inl e \<Rightarrow> None | Inr r \<Rightarrow> Some r))"

definition answered_tokens where
  "answered_tokens w f events = sum_list (map (\<lambda>r. tokens f (rp_Usage r)) (List.map_filter (model_answer w) events))"

lemma answered_tokens_simps [simp]:
  "answered_tokens w f [] = 0"
  "answered_tokens w f (map (RanTool k) cs @ events) = answered_tokens w f events"
  "answered_tokens w f (map (RanTool k) cs) = 0"
  "answered_tokens w f (AskedModel k rid q # events) =
     (case aw_model w k rid q of Inl e \<Rightarrow> 0 | Inr r \<Rightarrow> tokens f (rp_Usage r)) + answered_tokens w f events"
proof -
  have "List.map_filter (model_answer w) (map (RanTool k) cs) = []"
    by (induction cs) (simp_all add: List.map_filter_simps model_answer_def)
  then show "answered_tokens w f (map (RanTool k) cs @ events) = answered_tokens w f events"
    "answered_tokens w f (map (RanTool k) cs) = 0"
    by (simp_all add: answered_tokens_def map_filter_append)
qed (simp_all add: answered_tokens_def List.map_filter_simps model_answer_def split: sum.split)

lemma wrap64_add_left: "wrap64 (wrap64 a + b) = wrap64 (a + b)"
proof -
  have "((a + 2 ^ 63) mod 2 ^ 64 + b) mod 2 ^ 64 = (a + 2 ^ 63 + b) mod 2 ^ 64" by (rule mod_add_left_eq)
  then show ?thesis by (simp add: wrap64_def ac_simps)
qed

definition counts_tokens :: "(BifrostLLMUsage \<Rightarrow> int) \<Rightarrow> bool" where
  "counts_tokens f \<longleftrightarrow> f = us_PromptTokens \<or> f = us_CompletionTokens \<or> f = us_TotalTokens"

lemma merged_tokens:
  "counts_tokens f \<Longrightarrow> wrap64 (tokens f (mergeUsage a b) + x) = wrap64 (tokens f a + (tokens f b + x))"
  by (auto simp: counts_tokens_def tokens_def mergeUsage_def add64_def wrap64_add_left add.assoc split: option.split)

lemma chatAPIAdapter_usage [simp]:
  "ad_extractUsage (chatAPIAdapter je req resp) r = rp_Usage r"
  "rp_Usage (ad_applyUsage (chatAPIAdapter je req resp) r u) = u"
  "rp_Usage (ad_createResponse (chatAPIAdapter je req resp) r results called nonAuto) = rp_Usage r"
  by (simp_all add: chatAPIAdapter_def createChatResponseWithExecutedTools_def)

lemma chatAPIAdapter_messages [simp]:
  "ad_addAssistantMessage (chatAPIAdapter je req resp) ms r = ms @ List.map_filter ch_Message (rp_Choices r)"
  "ad_addToolResults (chatAPIAdapter je req resp) ms results = ms @ results"
  "ad_extractToolCalls (chatAPIAdapter je req resp) r = extractToolCalls r"
  by (simp_all add: chatAPIAdapter_def)

lemma run_tools_keeps:
  "run_tools w ad k cs st = Inr st1 \<Longrightarrow> as_usage st1 = as_usage st \<and> as_response st1 = as_response st"
  by (auto simp: run_tools_def Let_def split: if_splits option.splits)

lemma agent_loop_tokens:
  assumes "counts_tokens f"
  shows "agent_loop w (chatAPIAdapter je req resp) n d st = (events, Inr final) \<Longrightarrow>
    (d = 0 \<longrightarrow> as_usage st = rp_Usage (as_response st)) \<Longrightarrow>
    wrap64 (tokens f (rp_Usage final)) = wrap64 (tokens f (as_usage st) + answered_tokens w f events)"
proof (induction n arbitrary: d st events)
  case (Suc n)
  from Suc.prems(1) show ?case
  proof (cases rule: agent_loop_cases)
    case (pending st1)
    then show ?thesis using run_tools_keeps [OF pending(1)] Suc.prems(2) by (auto simp: pending_response_def split: if_splits)
  next
    case (more st1 r events')
    have "wrap64 (tokens f (rp_Usage final)) = wrap64 (tokens f (mergeUsage (as_usage st) (rp_Usage r)) + answered_tokens w f events')"
      using Suc.IH [OF more(4)] run_tools_keeps [OF more(1)] by (simp add: next_state_def)
    then show ?thesis using more(3,5) assms by (simp add: merged_tokens asked_def)
  qed auto
qed auto

text \<open>
  The usage reported for an agent run is that of all its rounds: the prompt, completion and total
  tokens of the final response are the sums, as 64-bit integers, over the first response and every answer
  of the model, whether the run ends by itself, at the depth limit or with calls left to the caller.
\<close>

theorem agent_usage_counts_all_rounds:
  assumes "CheckAndExecuteAgentForChatRequest w je depth req resp rid = (events, Inr final)" "counts_tokens f"
  shows "wrap64 (tokens f (rp_Usage final)) = wrap64 (tokens f (rp_Usage resp) + answered_tokens w f events)"
proof (cases "hasToolCallsForChatResponse resp")
  case True
  then show ?thesis
    using assms(1) agent_loop_tokens [OF assms(2), of w je req resp "nat depth" 0]
    by (simp add: CheckAndExecuteAgentForChatRequest_def ExecuteAgentForChatRequest_def executeAgent_def)
      (simp add: chatAPIAdapter_def)
qed (use assms(1) in \<open>auto simp: CheckAndExecuteAgentForChatRequest_def\<close>)

theorem agent_usage_counts_all_rounds_witness:
  "wrap64 (tokens us_TotalTokens (mergeUsage (Some called_usage) (Some called_usage))) = 20"
  using agent_usage_counts_all_rounds [OF user_run, of us_TotalTokens]
  by (simp add: counts_tokens_def answered_tokens_def model_answer_def answers_at_once_def model_says_def List.map_filter_simps
      tokens_def called_usage_def wrap64_def)

section \<open>Conversations\<close>

definition asked_ids :: "ChatMessage list \<Rightarrow> string option list" where
  "asked_ids ms = concat (map (\<lambda>m. case cm_ToolCalls m of None \<Rightarrow> [] | Some cs \<Rightarrow> map tcl_ID cs) ms)"

definition answered_ids :: "ChatMessage list \<Rightarrow> string option list" where
  "answered_ids ms = List.map_filter (\<lambda>m. map_option fst (cm_ToolMessage m)) ms"

definition answers_call :: "ToolCall \<Rightarrow> ChatMessage \<Rightarrow> bool" where
  "answers_call c msg \<longleftrightarrow> cm_ToolCalls msg = None \<and> map_option fst (cm_ToolMessage msg) = Some (tcl_ID c)"


lemma ids_append [simp]:
  "asked_ids (xs @ ys) = asked_ids xs @ asked_ids ys" "answered_ids (xs @ ys) = answered_ids xs @ answered_ids ys"
  by (simp_all add: asked_ids_def answered_ids_def map_filter_append)




lemma created_answers [simp]: "answers_call c (createToolResultMessage c text e)"
  by (simp add: answers_call_def createToolResultMessage_def)














text \<open>Without plugins, and outside code mode, the gate answers a call with its ID.\<close>

lemma internal_answer:
  "executeToolInternal tw ctx c n conn = Inr (msg, cn, orig) \<Longrightarrow> \<not> IsCodeModeTool n \<Longrightarrow> answers_call c msg"
  by (auto simp: executeToolInternal_def answers_call_def createToolResponseMessage_def split: option.splits sum.splits prod.splits bool.splits)

lemma ungated_answer_has_call_id:
  assumes "executeToolForAgent tw toolsOf m None u ctx (chat_tool_request c) = ToolAnswer (Some msg)"
    and "\<not> IsCodeModeTool (GetToolName (chat_tool_request c))"
  shows "answers_call c msg"
proof -
  obtain conn ctx' resp where "ExecuteTool tw ctx' conn (fill_client (chat_tool_request c)) = Inr resp" "mp_ChatMessage resp = Some msg"
    using assms(1)
    by (auto simp: executeToolForAgent_def executeToolWithHooks_def RunWithPluginPipeline_def Let_def
        split: if_splits sum.splits option.splits prod.splits)
  then show ?thesis
    using assms(2) internal_answer [of tw ctx' c _ conn msg]
    by (auto simp: ExecuteTool_def requested_call_def chat_tool_request_def GetToolName_def Let_def
        split: option.splits sum.splits)
qed



section \<open>Where the code does not do what it means to\<close>

text \<open>
  The check of a code block looks for calls of the form server.tool(...). A block that first binds a tool
  to a variable has none, so it runs on its own whatever the server's lists say, while the direct call is
  left to the caller.
\<close>

definition code_map :: client_map where
  "code_map = [(''c1'', with_tools [plain_tool ''drop'']
     (notes_client\<lparr>cs_ExecutionConfig := (cs_ExecutionConfig notes_client)\<lparr>cl_IsCodeModeClient := True\<rparr>\<rparr>))]"

theorem aliased_code_auto_executes:
  "let ctx = \<lparr>tc_IncludeClients = None, tc_IncludeTools = None, tc_UserAgent = None, tc_AddedTools = []\<rparr>;
       executes = (\<lambda>code. auto_executable (\<lambda>a. Some a) code_map ctx \<lparr>tcl_ID = None, tcl_Name = Some ''executeToolCode'', tcl_Arguments = code\<rparr>)
   in \<not> executes ''notes.drop()'' \<and> executes (''f = notes.drop'' @ [CHR 0x0A] @ ''f()'')"
  unfolding code_map_def with_tools_def notes_client_def by code_simp

text \<open>
  Results are reported under the name of their tool: of two calls of one tool only the later result
  reaches the caller.
\<close>

theorem repeated_tool_results_lost:
  "let first = \<lparr>tcl_ID = Some ''1'', tcl_Name = Some ''notes-get_user'', tcl_Arguments = []\<rparr>;
       second = first\<lparr>tcl_ID := Some ''2''\<rparr>
   in results_map plain_encoder [first, second] [createToolResponseMessage first ''Ada'' False, createToolResponseMessage second ''Bob'' False]
     = [(''notes-get_user'', [CHR 0x22] @ ''Bob'' @ [CHR 0x22])]"
  unfolding plain_encoder_def by code_simp

text \<open>
  The response that leaves calls to the caller has the finish reason of an answer, so that the check for
  tool calls should not find any; it finds them by their number.
\<close>

theorem stop_still_has_tool_calls:
  "hasToolCallsForChatResponse (createChatResponseWithExecutedTools plain_encoder (model_says []) [] [] [user_call])
    \<and> map ch_FinishReason (rp_Choices (createChatResponseWithExecutedTools plain_encoder (model_says []) [] [] [user_call])) = [Some ''stop'']"
  by (simp add: hasToolCallsForChatResponse_def createChatResponseWithExecutedTools_def message_tool_calls_def)

text \<open>Merging the usage of two rounds keeps the tokens and loses the speed the provider reported.\<close>

theorem merged_usage_loses_speed:
  "map_option us_Speed (mergeUsage (Some called_usage) (Some called_usage)) = Some None
    \<and> map_option us_TotalTokens (mergeUsage (Some called_usage) (Some called_usage)) = Some 20"
  by (simp add: mergeUsage_def called_usage_def add64_def wrap64_def)

end
