(* ===== verification/Client_Registry.thy ===== *)
theory Client_Registry
  imports Tool_Access
begin

text \<open>
  The registry of MCP clients, after core/mcp/clientmanager.go, toolsync.go, healthmonitor.go and mcp.go:
  the map of clients with its configurations, the guard against reconnects in parallel, the workers and
  the open connections. The code holds the lock of the map for short sections and dials servers between
  them; a section is a function below and a call in progress a task, so that calls interleave as the lock
  lets them. What a server answers is part of the label of a step.
\<close>

section \<open>State\<close>

text \<open>Configurations with the fields the manager compares, copies or restores. Discovered tools are persisted.\<close>

record ClientConfig = MCPClientConfig +
  cl_StdioConfig :: "(string \<times> string list \<times> string list) option"
  cl_InProcessServer :: "nat option"
  cl_OauthConfigID :: "string option"
  cl_PerUserHeaderKeys :: "string list"
  cl_Headers :: "(string, string) gomap option"
  cl_ToolSyncInterval :: int
  cl_DiscoveredTools :: "(string, ChatTool) gomap"
  cl_DiscoveredToolNameMapping :: "(string, string) gomap"

text \<open>
  A registered client points to its configuration, which calls in progress share: disabling a client
  writes the flag of the configuration a dial holds. So configurations live at addresses.
\<close>

record registered =
  en_Name :: string
  en_Conn :: "nat option"
  en_ExecutionConfig :: nat
  en_ToolMap :: "(string, ChatTool) gomap"
  en_ToolNameMapping :: "(string, string) gomap"
  en_State :: string

record registry =
  rg_clientMap :: "(string, registered) gomap"
  rg_configs :: "nat \<Rightarrow> ClientConfig"
  rg_next :: nat
  rg_reconnecting :: "string list"
  rg_monitors :: "string list"
  rg_syncers :: "string list"
  rg_open :: "nat list"

abbreviation config_of :: "registry \<Rightarrow> registered \<Rightarrow> ClientConfig" where
  "config_of r e \<equiv> rg_configs r (en_ExecutionConfig e)"

abbreviation config_id :: "registry \<Rightarrow> nat \<Rightarrow> string" where
  "config_id r a \<equiv> cl_ID (rg_configs r a)"

text \<open>What the access to tools sees of the registry.\<close>

definition client_view :: "registry \<Rightarrow> registered \<Rightarrow> MCPClientState" where
  "client_view r e = \<lparr>cs_Name = en_Name e, cs_Conn = en_Conn e, cs_ExecutionConfig = MCPClientConfig.truncate (config_of r e),
     cs_ToolMap = en_ToolMap e, cs_ToolNameMapping = en_ToolNameMapping e, cs_State = en_State e\<rparr>"

definition registry_view :: "registry \<Rightarrow> client_map" where
  "registry_view r = map (\<lambda>(i, e). (i, client_view r e)) (rg_clientMap r)"

definition blank :: "ClientConfig \<Rightarrow> nat \<Rightarrow> string \<Rightarrow> registered" where
  "blank config a state = \<lparr>en_Name = cl_Name config, en_Conn = None, en_ExecutionConfig = a, en_ToolMap = [],
     en_ToolNameMapping = [], en_State = state\<rparr>"

definition set_flag :: "nat \<Rightarrow> bool \<Rightarrow> registry \<Rightarrow> registry" where
  "set_flag a b r = r\<lparr>rg_configs := (rg_configs r)(a := (rg_configs r a)\<lparr>cl_Disabled := b\<rparr>)\<rparr>"

definition put_client :: "string \<Rightarrow> registered \<Rightarrow> registry \<Rightarrow> registry" where
  "put_client i e r = r\<lparr>rg_clientMap := gm_put i e (rg_clientMap r)\<rparr>"

definition allocate :: "ClientConfig \<Rightarrow> registry \<Rightarrow> nat \<times> registry" where
  "allocate c r = (rg_next r, r\<lparr>rg_configs := (rg_configs r)(rg_next r := c), rg_next := rg_next r + 1\<rparr>)"

definition close_conn :: "nat option \<Rightarrow> registry \<Rightarrow> registry" where
  "close_conn c r = (case c of None \<Rightarrow> r | Some x \<Rightarrow> r\<lparr>rg_open := removeAll x (rg_open r)\<rparr>)"

definition add_tools :: "(string, ChatTool) gomap \<Rightarrow> (string, ChatTool) gomap \<Rightarrow> (string, ChatTool) gomap" where
  "add_tools tools m = fold (\<lambda>e. gm_put (fst e) (snd e)) tools m"

definition monitor :: "string \<Rightarrow> registry \<Rightarrow> registry" where
  "monitor i r = r\<lparr>rg_monitors := List.insert i (rg_monitors r)\<rparr>"

definition stop_workers :: "string \<Rightarrow> registry \<Rightarrow> registry" where
  "stop_workers i r = r\<lparr>rg_monitors := removeAll i (rg_monitors r), rg_syncers := removeAll i (rg_syncers r)\<rparr>"

section \<open>Adding a client\<close>

definition validateMCPClientConfig :: "ClientConfig \<Rightarrow> err option" where
  "validateMCPClientConfig config =
     (if trimSpace (cl_ID config) = [] then Some (Err ''id is required for MCP client config'')
      else case ValidateMCPClientName (cl_Name config) of
        Some (Err e) \<Rightarrow> Some (Err (''invalid name for MCP client: '' @ e))
      | None \<Rightarrow>
        if cl_ConnectionType config = [] then Some (Err ''connection type is required for MCP client config'')
        else if cl_ConnectionType config = ''http'' \<and> cl_ConnectionString config = None then
          Some (Err (''ConnectionString is required for HTTP connection type in client '' @ quote (cl_Name config)))
        else if cl_ConnectionType config = ''sse'' \<and> cl_ConnectionString config = None then
          Some (Err (''ConnectionString is required for SSE connection type in client '' @ quote (cl_Name config)))
        else if cl_ConnectionType config = ''stdio'' \<and> cl_StdioConfig config = None then
          Some (Err (''StdioConfig is required for STDIO connection type in client '' @ quote (cl_Name config)))
        else if cl_ConnectionType config \<notin> {''http'', ''sse'', ''stdio'', ''inprocess''} then
          Some (Err (''unknown connection type '' @ quote (cl_ConnectionType config) @ '' in client '' @ quote (cl_Name config)))
        else if cl_AuthType config = ''per_user_headers'' then
          (if cl_PerUserHeaderKeys config = [] then
             Some (Err (''per_user_header_keys is required (non-empty) for per_user_headers auth type in client '' @ quote (cl_Name config)))
           else if list_ex (\<lambda>k. trimSpace k = []) (cl_PerUserHeaderKeys config) then
             Some (Err (''per_user_header_keys['' @ dec_int (int (length (takeWhile (\<lambda>k. trimSpace k \<noteq> []) (cl_PerUserHeaderKeys config))))
               @ ''] is empty in client '' @ quote (cl_Name config)))
           else if cl_OauthConfigID config \<noteq> None \<and> cl_OauthConfigID config \<noteq> Some [] then
             Some (Err (''oauth_config_id must not be set for per_user_headers auth type in client '' @ quote (cl_Name config)))
           else None)
        else None)"

text \<open>The checks before the lock: the configuration and the name, under the read lock of \<open>GetClientByName\<close>.\<close>

definition add_check :: "registry \<Rightarrow> ClientConfig \<Rightarrow> err option" where
  "add_check r config =
     (case validateMCPClientConfig config of Some (Err e) \<Rightarrow> Some (Err (''invalid MCP client configuration: '' @ e))
      | None \<Rightarrow>
          (case GetClientByName (registry_view r) (cl_Name config) of
             Some c \<Rightarrow> Some (Err (''MCP client with name '' @ quote (cl_Name config) @ '' already exists''))
           | None \<Rightarrow> None))"

abbreviation per_call :: "ClientConfig \<Rightarrow> bool" where
  "per_call c \<equiv> RequiresPerCallConnection (MCPClientConfig.truncate c)"

definition restored :: "ClientConfig \<Rightarrow> registered \<Rightarrow> registered" where
  "restored config e = e\<lparr>en_ToolMap := add_tools (cl_DiscoveredTools config) (en_ToolMap e),
     en_ToolNameMapping := cl_DiscoveredToolNameMapping config\<rparr>"

definition add_place :: "registry \<Rightarrow> nat \<Rightarrow> err + registry" where
  "add_place r a =
     (let config = rg_configs r a in
      if gm_get (rg_clientMap r) (cl_ID config) \<noteq> None then Inl (Err (''client '' @ cl_Name config @ '' already exists''))
      else if cl_Disabled config then
        (let e = blank config a StateDisabled in
         Inr (put_client (cl_ID config) (if per_call config \<and> cl_DiscoveredTools config \<noteq> [] then restored config e else e) r))
      else Inr (put_client (cl_ID config) (blank config a []) r))"

definition add_restore :: "registry \<Rightarrow> nat \<Rightarrow> registry" where
  "add_restore r a =
     (let config = rg_configs r a in
      case gm_get (rg_clientMap r) (cl_ID config) of None \<Rightarrow> r
      | Some e \<Rightarrow>
          put_client (cl_ID config)
            (if cl_DiscoveredTools config \<noteq> [] then (restored config e)\<lparr>en_State := StateConnected\<rparr>
             else e\<lparr>en_State := StatePendingTools\<rparr>) r)"

definition add_failed :: "registry \<Rightarrow> nat \<Rightarrow> registry" where
  "add_failed r a = r\<lparr>rg_clientMap := gm_del (config_id r a) (rg_clientMap r)\<rparr>"

text \<open>A client of the boot configuration that failed to register is kept for the health monitor to recover.\<close>

definition boot_recover :: "registry \<Rightarrow> nat \<Rightarrow> registry" where
  "boot_recover r a =
     (let config = rg_configs r a in
      monitor (cl_ID config)
        (put_client (cl_ID config)
          (case gm_get (rg_clientMap r) (cl_ID config) of
             None \<Rightarrow> blank config a StateDisconnected
           | Some e \<Rightarrow> e\<lparr>en_State := StateDisconnected\<rparr>) r))"

section \<open>Dialling\<close>

text \<open>The first section of \<^verbatim>\<open>connectToMCPClient\<close>, and the second, which stores what the dial produced.\<close>

definition connect_begin :: "registry \<Rightarrow> nat \<Rightarrow> err + registry" where
  "connect_begin r a =
     (let config = rg_configs r a; existing = gm_get (rg_clientMap r) (cl_ID config) in
      if (case existing of None \<Rightarrow> False | Some e \<Rightarrow> en_State e = StateDisabled \<and> cl_Disabled config) then
        Inl (Err (''client '' @ cl_Name config @ '' is disabled''))
      else Inr (put_client (cl_ID config) (blank config a StateDisconnected)
             (case existing of None \<Rightarrow> r | Some e \<Rightarrow> close_conn (en_Conn e) r)))"

text \<open>
  A dial fails, or it ends with the tools of the server and its connection, or, when a plugin answers the
  connect itself, without a connection and without tools. A new connection is open from then on.
\<close>

datatype dial = DialFailed | DialOk "nat option" "(string, ChatTool) gomap" "(string, string) gomap"

definition open_conn :: "nat option \<Rightarrow> registry \<Rightarrow> registry" where
  "open_conn c r = (case c of None \<Rightarrow> r | Some x \<Rightarrow> r\<lparr>rg_open := List.insert x (rg_open r)\<rparr>)"

definition connect_end :: "registry \<Rightarrow> nat \<Rightarrow> nat option \<Rightarrow> (string, ChatTool) gomap \<Rightarrow> (string, string) gomap \<Rightarrow> err \<times> registry + registry" where
  "connect_end r a conn tools mapping =
     (let config = rg_configs r a; r1 = open_conn conn r in
      case gm_get (rg_clientMap r) (cl_ID config) of
        None \<Rightarrow> Inl (Err (''client '' @ cl_Name config @ '' was removed during connection setup''), close_conn conn r1)
      | Some e \<Rightarrow>
          if en_State e = StateDisabled then
            Inl (Err (''client '' @ cl_Name config @ '' was disabled during connection setup''), close_conn conn r1)
          else
            Inr (put_client (cl_ID config)
              (e\<lparr>en_Conn := conn, en_State := StateConnected, en_ToolMap := add_tools tools (en_ToolMap e), en_ToolNameMapping := mapping\<rparr>) r1))"

definition BifrostMCPClientKey :: string where "BifrostMCPClientKey = ''bifrostInternal''"

definition DefaultToolSyncInterval :: int where "DefaultToolSyncInterval = 600000000000"

definition ResolveToolSyncInterval :: "ClientConfig \<Rightarrow> int \<Rightarrow> int" where
  "ResolveToolSyncInterval config globalInterval =
     (if cl_ToolSyncInterval config < 0 then 0
      else if cl_ToolSyncInterval config > 0 then cl_ToolSyncInterval config
      else if globalInterval > 0 then globalInterval
      else DefaultToolSyncInterval)"

definition start_workers :: "int \<Rightarrow> registry \<Rightarrow> nat \<Rightarrow> registry" where
  "start_workers globalInterval r a =
     (let i = config_id r a; r1 = monitor i r in
      if i \<noteq> BifrostMCPClientKey \<and> ResolveToolSyncInterval (rg_configs r a) globalInterval > 0
      then r1\<lparr>rg_syncers := List.insert i (rg_syncers r1)\<rparr> else r1)"

section \<open>Operations on a registered client\<close>

definition SetClientTools :: "registry \<Rightarrow> string \<Rightarrow> (string, ChatTool) gomap \<Rightarrow> (string, string) gomap \<Rightarrow> registry" where
  "SetClientTools r clientID tools mapping =
     (case gm_get (rg_clientMap r) clientID of None \<Rightarrow> r
      | Some e \<Rightarrow> put_client clientID
          (e\<lparr>en_ToolMap := add_tools tools (en_ToolMap e), en_ToolNameMapping := mapping, en_State := StateConnected\<rparr>) r)"

definition RemoveClient :: "registry \<Rightarrow> string \<Rightarrow> err + registry" where
  "RemoveClient r i =
     (case gm_get (rg_clientMap r) i of None \<Rightarrow> Inl (Err (''client '' @ i @ '' not found''))
      | Some e \<Rightarrow> let r1 = close_conn (en_Conn e) (stop_workers i r)
          in Inr (r1\<lparr>rg_clientMap := gm_del i (rg_clientMap r1)\<rparr>))"

definition busy_error :: "string \<Rightarrow> err" where
  "busy_error i = Err (''reconnect or connection credential update already in progress for MCP client '' @ i)"

text \<open>The guard of a call that does not dial is taken and released within its section.\<close>

definition disabled_entry :: "bool \<Rightarrow> registered \<Rightarrow> registered" where
  "disabled_entry keep e = e\<lparr>en_Conn := None, en_ToolMap := (if keep then en_ToolMap e else []),
     en_ToolNameMapping := (if keep then en_ToolNameMapping e else []), en_State := StateDisabled\<rparr>"

definition DisableClient :: "registry \<Rightarrow> string \<Rightarrow> err + registry" where
  "DisableClient r i =
     (if i = BifrostMCPClientKey then Inl (Err ''cannot disable internal meridian client'')
      else if i \<in> set (rg_reconnecting r) then Inl (busy_error i)
      else case gm_get (rg_clientMap r) i of
        None \<Rightarrow> Inl (Err (''client '' @ i @ '' not found''))
      | Some e \<Rightarrow>
          if en_State e = StateDisabled then Inl (Err (''client '' @ cl_Name (config_of r e) @ '' is already disabled''))
          else Inr (set_flag (en_ExecutionConfig e) True
                 (put_client i (disabled_entry (per_call (config_of r e)) e) (close_conn (en_Conn e) (stop_workers i r)))))"

text \<open>
  Enabling: the section that finds the client, which clears the flag and hands its configuration on; the
  section of a client without a connection of its own; and the section after a dial that failed.
\<close>

definition enable_begin :: "registry \<Rightarrow> string \<Rightarrow> err + nat \<times> registry" where
  "enable_begin r i =
     (case gm_get (rg_clientMap r) i of None \<Rightarrow> Inl (Err (''client '' @ i @ '' not found''))
      | Some e \<Rightarrow>
          if en_State e \<noteq> StateDisabled then
            Inl (Err (''client '' @ cl_Name (config_of r e) @ '' is not disabled (current state: '' @ en_State e @ '')''))
          else Inr (en_ExecutionConfig e, set_flag (en_ExecutionConfig e) False r))"

definition enable_restore :: "registry \<Rightarrow> string \<Rightarrow> registry" where
  "enable_restore r i =
     (case gm_get (rg_clientMap r) i of None \<Rightarrow> r
      | Some e \<Rightarrow> put_client i (e\<lparr>en_State := (if en_ToolMap e \<noteq> [] then StateConnected else StatePendingTools)\<rparr>) r)"

definition enable_failed :: "registry \<Rightarrow> string \<Rightarrow> registry" where
  "enable_failed r i =
     (case gm_get (rg_clientMap r) i of None \<Rightarrow> monitor i r
      | Some e \<Rightarrow> if en_State e = StateDisabled then r else monitor i (put_client i (e\<lparr>en_State := StateDisconnected\<rparr>) r))"

definition reconnect_begin :: "registry \<Rightarrow> string \<Rightarrow> err + nat" where
  "reconnect_begin r i =
     (if i \<in> set (rg_reconnecting r) then Inl (Err ''reconnect already in progress for this client'')
      else case gm_get (rg_clientMap r) i of None \<Rightarrow> Inl (Err (''client '' @ i @ '' not found''))
      | Some e \<Rightarrow>
          if per_call (config_of r e) then
            Inl (Err ''per-user auth clients do not maintain a shared upstream connection (each user manages their own auth)'')
          else Inr (en_ExecutionConfig e))"

definition stdioConfigEqual :: "(string \<times> string list \<times> string list) option \<Rightarrow> (string \<times> string list \<times> string list) option \<Rightarrow> bool" where
  "stdioConfigEqual a b =
     (case (a, b) of
        (Some (ca, aa, ea), Some (cb, ab, eb)) \<Rightarrow> ca = cb \<and> aa = ab \<and> ea = eb
      | (None, None) \<Rightarrow> True
      | _ \<Rightarrow> False)"

definition auth_or_headers :: "string \<Rightarrow> string" where
  "auth_or_headers t = (if t = [] then ''headers'' else t)"

definition update_refusal :: "string \<Rightarrow> ClientConfig \<Rightarrow> ClientConfig \<Rightarrow> err option" where
  "update_refusal i old new =
     (case ValidateMCPClientName (cl_Name new) of
        Some (Err e) \<Rightarrow> Some (Err (''invalid MCP client configuration: '' @ e))
      | None \<Rightarrow>
        if cl_ConnectionType new \<noteq> [] \<and> cl_ConnectionType new \<noteq> cl_ConnectionType old then
          Some (Err (''connection type cannot be updated for client '' @ i))
        else if cl_ConnectionString new \<noteq> None \<and> cl_ConnectionString new \<noteq> cl_ConnectionString old then
          Some (Err (''connection string cannot be updated for client '' @ i))
        else if cl_StdioConfig new \<noteq> None \<and> \<not> stdioConfigEqual (cl_StdioConfig new) (cl_StdioConfig old) then
          Some (Err (''stdio config cannot be updated for client '' @ i))
        else if cl_InProcessServer new \<noteq> None \<and> cl_InProcessServer new \<noteq> cl_InProcessServer old then
          Some (Err (''in-process server cannot be updated for client '' @ i))
        else if auth_or_headers (cl_AuthType new) \<noteq> auth_or_headers (cl_AuthType old) then
          Some (Err (''auth_type cannot be updated for client '' @ i))
        else None)"

definition updated_config :: "ClientConfig \<Rightarrow> ClientConfig \<Rightarrow> ClientConfig" where
  "updated_config old new = old\<lparr>
     cl_OauthConfigID := (if cl_OauthConfigID new \<noteq> None then cl_OauthConfigID new else cl_OauthConfigID old),
     cl_Name := cl_Name new, cl_IsCodeModeClient := cl_IsCodeModeClient new, cl_Headers := cl_Headers new,
     cl_ToolsToExecute := cl_ToolsToExecute new, cl_ToolsToAutoExecute := cl_ToolsToAutoExecute new,
     cl_ToolSyncInterval := cl_ToolSyncInterval new, cl_Disabled := cl_Disabled new,
     cl_PerUserHeaderKeys := cl_PerUserHeaderKeys new, cl_DiscoveredTools := [], cl_DiscoveredToolNameMapping := []\<rparr>"

text \<open>A tool is rebound to the new name of its client: \<^verbatim>\<open>strings.Cut\<close> at the first hyphen.\<close>

definition rebound_name :: "string \<Rightarrow> string \<Rightarrow> string" where
  "rebound_name newPrefix old =
     (case dropWhile (\<lambda>c. c \<noteq> CHR ''-'') old of [] \<Rightarrow> old | _ # rest \<Rightarrow> newPrefix @ rest)"

definition rebind_tool :: "string \<Rightarrow> string \<times> ChatTool \<Rightarrow> (string, ChatTool) gomap \<Rightarrow> (string, ChatTool) gomap" where
  "rebind_tool newPrefix e m =
     (let n = rebound_name newPrefix (fst e)
      in gm_put n ((snd e)\<lparr>tl_Function := map_option (\<lambda>(_, d). (n, d)) (tl_Function (snd e))\<rparr>) m)"

definition rebind_tools :: "string \<Rightarrow> (string, ChatTool) gomap \<Rightarrow> (string, ChatTool) gomap" where
  "rebind_tools name tools = fold (rebind_tool (name @ ''-'')) tools []"

definition UpdateClient :: "registry \<Rightarrow> string \<Rightarrow> ClientConfig \<Rightarrow> err + registry" where
  "UpdateClient r i new =
     (if i \<in> set (rg_reconnecting r) then Inl (busy_error i)
      else case gm_get (rg_clientMap r) i of None \<Rightarrow> Inl (Err (''client '' @ i @ '' not found''))
      | Some e \<Rightarrow>
          (case update_refusal i (config_of r e) new of Some err \<Rightarrow> Inl err
           | None \<Rightarrow>
               let (a, r1) = allocate (updated_config (config_of r e) new) r
               in Inr (put_client i (e\<lparr>en_ExecutionConfig := a, en_ToolMap := rebind_tools (cl_Name new) (en_ToolMap e),
                    en_Name := cl_Name new\<rparr>) r1)))"

text \<open>New credentials: the section that reads the old configuration, and the one that restores it after a failed dial.\<close>

definition update_connection_begin ::
    "registry \<Rightarrow> string \<Rightarrow> (string, string) gomap option \<Rightarrow> string option \<Rightarrow> err + nat \<times> nat \<times> registry" where
  "update_connection_begin r i headers oauth =
     (if i \<in> set (rg_reconnecting r) then Inl (Err ''reconnect already in progress for this client'')
      else case gm_get (rg_clientMap r) i of None \<Rightarrow> Inl (Err (''client '' @ i @ '' not found''))
      | Some e \<Rightarrow>
          if per_call (config_of r e) then Inl (Err ''connection update is not supported for per-user auth clients'')
          else
            let c = config_of r e;
                merged = c\<lparr>cl_Headers := (if headers \<noteq> None then headers else cl_Headers c),
                  cl_OauthConfigID := (if oauth \<noteq> None then oauth else cl_OauthConfigID c)\<rparr>
            in case allocate merged r of (a, r1) \<Rightarrow> Inr (en_ExecutionConfig e, a, r1))"

definition update_connection_failed :: "registry \<Rightarrow> string \<Rightarrow> nat \<Rightarrow> registry" where
  "update_connection_failed r i old =
     (case gm_get (rg_clientMap r) i of None \<Rightarrow> r | Some e \<Rightarrow> put_client i (e\<lparr>en_ExecutionConfig := old\<rparr>) r)"

text \<open>The section of \<^verbatim>\<open>RegisterTool\<close> behind the set-up of the local server.\<close>

definition RegisterTool :: "registry \<Rightarrow> string \<Rightarrow> string \<Rightarrow> err + registry" where
  "RegisterTool r name description =
     (if trimSpace name = [] then Inl (Err ''tool name is required'')
      else if CHR ''-'' \<in> set name then Inl (Err ''tool name cannot contain hyphens'')
      else if CHR '' '' \<in> set name then Inl (Err ''tool name cannot contain spaces'')
      else if is_digit (hd name) then Inl (Err ''tool name cannot start with a number'')
      else case gm_get (rg_clientMap r) BifrostMCPClientKey of None \<Rightarrow> Inl (Err ''meridian client not found'')
      | Some e \<Rightarrow>
          let prefixed = BifrostMCPClientKey @ ''-'' @ name in
          if gm_get (en_ToolMap e) prefixed \<noteq> None then Inl (Err (''tool '' @ quote name @ '' is already registered''))
          else Inr (put_client BifrostMCPClientKey
                 (e\<lparr>en_ToolMap := gm_put prefixed \<lparr>tl_Function = Some (prefixed, description)\<rparr> (en_ToolMap e)\<rparr>) r))"

definition updateClientState :: "registry \<Rightarrow> string \<Rightarrow> string \<Rightarrow> registry" where
  "updateClientState r i state =
     (case gm_get (rg_clientMap r) i of None \<Rightarrow> r
      | Some e \<Rightarrow> if en_State e = StateDisabled then r else if en_State e \<noteq> state then put_client i (e\<lparr>en_State := state\<rparr>) r else r)"

text \<open>Tool sync: the section that picks the connection and the name, and the one that stores the listing.\<close>

definition sync_begin :: "registry \<Rightarrow> string \<Rightarrow> (nat \<times> string) option" where
  "sync_begin r i =
     (case gm_get (rg_clientMap r) i of None \<Rightarrow> None
      | Some e \<Rightarrow> (case en_Conn e of None \<Rightarrow> None | Some conn \<Rightarrow> Some (conn, cl_Name (config_of r e))))"

definition sync_end :: "registry \<Rightarrow> string \<Rightarrow> (string, ChatTool) gomap \<Rightarrow> (string, string) gomap \<Rightarrow> registry" where
  "sync_end r i tools mapping =
     (case gm_get (rg_clientMap r) i of None \<Rightarrow> r
      | Some e \<Rightarrow> put_client i (e\<lparr>en_ToolMap := tools, en_ToolNameMapping := mapping\<rparr>) r)"

definition mcp_Cleanup :: "registry \<Rightarrow> registry" where
  "mcp_Cleanup r =
     (let r1 = fold (\<lambda>i r. case RemoveClient r i of Inl e \<Rightarrow> r | Inr r' \<Rightarrow> r') (map fst (rg_clientMap r))
         (r\<lparr>rg_monitors := [], rg_syncers := []\<rparr>)
      in r1\<lparr>rg_clientMap := []\<rparr>)"

section \<open>Calls in progress\<close>

text \<open>
  A call that dials is a task between its sections. The origin of a dial says what happens when it
  fails and whether the call holds the guard of its client; a client of the boot configuration is
  recovered when adding it fails.
\<close>

datatype origin = ByAdd bool | ByReconnect | ByEnable | ByUpdate nat

datatype task =
    Place nat bool
  | Restore nat
  | AddFailed nat bool
  | Recover nat
  | EnableRestore string
  | EnableGuard string nat
  | EnableFailed string
  | UpdateFailed string nat
  | Begin origin nat
  | Dialling origin nat
  | Dialled origin nat
  | Sync string string

type_synonym tools_map = "(string, ChatTool) gomap \<times> (string, string) gomap"

datatype label =
    Add ClientConfig bool
  | Reconnect string
  | Disable string
  | Enable string
  | Update string ClientConfig
  | UpdateConnection string "(string, string) gomap option" "string option"
  | Remove string
  | SetTools string tools_map
  | Register string string
  | Health string bool
  | SyncTick string
  | CleanUp
  | Advance task
  | DialEnds origin nat dial
  | SyncEnds string string "tools_map option"

record system =
  sy_registry :: registry
  sy_tasks :: "task list"

definition guarded :: "origin \<Rightarrow> bool" where
  "guarded o1 = (case o1 of ByAdd b \<Rightarrow> False | _ \<Rightarrow> True)"

definition take_guard :: "string \<Rightarrow> registry \<Rightarrow> registry" where
  "take_guard i r = r\<lparr>rg_reconnecting := i # rg_reconnecting r\<rparr>"

definition release_guard :: "string \<Rightarrow> registry \<Rightarrow> registry" where
  "release_guard i r = r\<lparr>rg_reconnecting := removeAll i (rg_reconnecting r)\<rparr>"

text \<open>What follows a failed dial and a finished one.\<close>

definition after_failure :: "registry \<Rightarrow> origin \<Rightarrow> nat \<Rightarrow> registry \<times> task list" where
  "after_failure r o1 a =
     (case o1 of
        ByAdd boot \<Rightarrow> (r, [AddFailed a boot])
      | ByReconnect \<Rightarrow> (release_guard (config_id r a) r, [])
      | ByEnable \<Rightarrow> (r, [EnableFailed (config_id r a)])
      | ByUpdate old \<Rightarrow> (r, [UpdateFailed (config_id r a) old]))"

definition finished :: "registry \<Rightarrow> origin \<Rightarrow> nat \<Rightarrow> registry" where
  "finished r o1 a = (if guarded o1 then release_guard (config_id r a) r else r)"

definition boot_task :: "bool \<Rightarrow> nat \<Rightarrow> task list" where
  "boot_task boot a = (if boot then [Recover a] else [])"

text \<open>
  The next section of a task, but for the sections that need an answer from outside. \<^verbatim>\<open>None\<close> when the task waits for one.
\<close>

definition advance :: "int \<Rightarrow> registry \<Rightarrow> task \<Rightarrow> (registry \<times> task list) option" where
  "advance globalInterval r t =
     (case t of
        Place a boot \<Rightarrow>
          Some (case add_place r a of
             Inl e \<Rightarrow> (r, boot_task boot a)
           | Inr r1 \<Rightarrow> (r1, if cl_Disabled (rg_configs r a) then []
                else if per_call (rg_configs r a) then [Restore a] else [Begin (ByAdd boot) a]))
      | Restore a \<Rightarrow> Some (add_restore r a, [])
      | AddFailed a boot \<Rightarrow> Some (add_failed r a, boot_task boot a)
      | Recover a \<Rightarrow> Some (boot_recover r a, [])
      | EnableRestore i \<Rightarrow> Some (enable_restore r i, [])
      | EnableGuard i a \<Rightarrow> Some (if i \<in> set (rg_reconnecting r) then (r, []) else (take_guard i r, [Begin ByEnable a]))
      | EnableFailed i \<Rightarrow> Some (release_guard i (enable_failed r i), [])
      | UpdateFailed i old \<Rightarrow> Some (release_guard i (update_connection_failed r i old), [])
      | Begin o1 a \<Rightarrow> Some (case connect_begin r a of Inl e \<Rightarrow> after_failure r o1 a | Inr r1 \<Rightarrow> (r1, [Dialling o1 a]))
      | Dialling o1 a \<Rightarrow> None
      | Dialled o1 a \<Rightarrow> Some (finished (start_workers globalInterval r a) o1 a, [])
      | Sync i n \<Rightarrow> None)"

definition dial_ends :: "registry \<Rightarrow> origin \<Rightarrow> nat \<Rightarrow> dial \<Rightarrow> registry \<times> task list" where
  "dial_ends r o1 a d =
     (case d of DialFailed \<Rightarrow> after_failure r o1 a
      | DialOk conn tools mapping \<Rightarrow>
          (case connect_end r a conn tools mapping of
             Inl (e, r1) \<Rightarrow> after_failure r1 o1 a
           | Inr r1 \<Rightarrow> (r1, [Dialled o1 a])))"

text \<open>A call from outside: its first section and the task it leaves.\<close>

definition call :: "registry \<Rightarrow> label \<Rightarrow> registry \<times> task list" where
  "call r l =
     (case l of
        Add config boot \<Rightarrow>
          (case allocate config r of (a, r1) \<Rightarrow> (r1, if add_check r config = None then [Place a boot] else boot_task boot a))
      | Reconnect i \<Rightarrow> (case reconnect_begin r i of Inl e \<Rightarrow> (r, []) | Inr a \<Rightarrow> (take_guard i r, [Begin ByReconnect a]))
      | Disable i \<Rightarrow> (case DisableClient r i of Inl e \<Rightarrow> (r, []) | Inr r1 \<Rightarrow> (r1, []))
      | Enable i \<Rightarrow> (case enable_begin r i of Inl e \<Rightarrow> (r, [])
           | Inr (a, r1) \<Rightarrow> (r1, [if per_call (rg_configs r1 a) then EnableRestore i else EnableGuard i a]))
      | Update i new \<Rightarrow> (case UpdateClient r i new of Inl e \<Rightarrow> (r, []) | Inr r1 \<Rightarrow> (r1, []))
      | UpdateConnection i h oa \<Rightarrow> (case update_connection_begin r i h oa of Inl e \<Rightarrow> (r, [])
           | Inr (old, a, r1) \<Rightarrow> (take_guard i r1, [Begin (ByUpdate old) a]))
      | Remove i \<Rightarrow> (case RemoveClient r i of Inl e \<Rightarrow> (r, []) | Inr r1 \<Rightarrow> (r1, []))
      | SetTools i (tools, mapping) \<Rightarrow> (SetClientTools r i tools mapping, [])
      | Register n d \<Rightarrow> (case RegisterTool r n d of Inl e \<Rightarrow> (r, []) | Inr r1 \<Rightarrow> (r1, []))
      | Health i up \<Rightarrow> (updateClientState r i (if up then StateConnected else StateDisconnected), [])
      | SyncTick i \<Rightarrow> (r, case sync_begin r i of None \<Rightarrow> [] | Some (conn, n) \<Rightarrow> [Sync i n])
      | CleanUp \<Rightarrow> (mcp_Cleanup r, [])
      | _ \<Rightarrow> (r, []))"

definition with_tasks :: "task list \<Rightarrow> registry \<times> task list \<Rightarrow> system" where
  "with_tasks ts x = \<lparr>sy_registry = fst x, sy_tasks = snd x @ ts\<rparr>"

text \<open>
  A step of the system, \<^verbatim>\<open>None\<close> when the label does not apply. A new connection is one that is not open.
  A health check reports at any time, also one that was under way when its monitor was stopped; the loss of
  an SSE connection has the effect of a failed check.
\<close>

definition system_step :: "int \<Rightarrow> label \<Rightarrow> system \<Rightarrow> system option" where
  "system_step globalInterval l s =
     (let r = sy_registry s; ts = sy_tasks s in
      case l of
        Advance t \<Rightarrow>
          if t \<in> set ts then map_option (with_tasks (remove1 t ts)) (advance globalInterval r t) else None
      | DialEnds o1 a d \<Rightarrow>
          if Dialling o1 a \<in> set ts \<and> (case d of DialOk (Some x) _ _ \<Rightarrow> x \<notin> set (rg_open r) | _ \<Rightarrow> True)
          then Some (with_tasks (remove1 (Dialling o1 a) ts) (dial_ends r o1 a d)) else None
      | SyncEnds i n answer \<Rightarrow>
          if Sync i n \<in> set ts then
            Some (with_tasks (remove1 (Sync i n) ts)
              (case answer of None \<Rightarrow> r | Some (tools, mapping) \<Rightarrow> sync_end r i tools mapping, []))
          else None
      | _ \<Rightarrow> Some (with_tasks ts (call r l)))"

fun system_run :: "int \<Rightarrow> label list \<Rightarrow> system \<Rightarrow> system option" where
  "system_run g [] s = Some s"
| "system_run g (l # ls) s = (case system_step g l s of None \<Rightarrow> None | Some s' \<Rightarrow> system_run g ls s')"

end
