(* ===== verification/Registry_Properties.thy ===== *)
theory Registry_Properties
  imports Client_Registry
begin

text \<open>
  What the registry of MCP clients keeps under every interleaving of calls, dials, health checks and
  tool syncs: entries and tools under their own names, one guarded dial of a client at a time, every
  open connection registered, disabled clients disabled.
\<close>

section \<open>Entries\<close>

definition named_tools :: "(string, ChatTool) gomap \<Rightarrow> bool" where
  "named_tools m \<longleftrightarrow> gm_ok m \<and> (\<forall>k t. gm_get m k = Some t \<longrightarrow> tool_name t = Some k)"

definition entry_ok :: "registry \<Rightarrow> string \<Rightarrow> registered \<Rightarrow> bool" where
  "entry_ok r i e \<longleftrightarrow> config_id r (en_ExecutionConfig e) = i \<and> en_ExecutionConfig e < rg_next r \<and> named_tools (en_ToolMap e)"

definition registry_ok :: "registry \<Rightarrow> bool" where
  "registry_ok r \<longleftrightarrow> gm_ok (rg_clientMap r) \<and> (\<forall>i e. gm_get (rg_clientMap r) i = Some e \<longrightarrow> entry_ok r i e)
     \<and> (\<forall>a < rg_next r. named_tools (cl_DiscoveredTools (rg_configs r a)))"

text \<open>Configurations are only added, and but for the flag they are not written.\<close>

definition same_config :: "ClientConfig \<Rightarrow> ClientConfig \<Rightarrow> bool" where
  "same_config c c' \<longleftrightarrow> c'\<lparr>cl_Disabled := cl_Disabled c\<rparr> = c"

definition grows :: "registry \<Rightarrow> registry \<Rightarrow> bool" where
  "grows r r' \<longleftrightarrow> rg_next r \<le> rg_next r' \<and> (\<forall>a < rg_next r. same_config (rg_configs r a) (rg_configs r' a))"

lemma same_config_refl [simp]: "same_config c c"
  by (simp add: same_config_def)

lemma same_config_flag [simp]: "same_config c (c\<lparr>cl_Disabled := b\<rparr>)"
  by (simp add: same_config_def)

lemma same_config_trans: "same_config c c1 \<Longrightarrow> same_config c1 c2 \<Longrightarrow> same_config c c2"
proof -
  assume "same_config c c1" "same_config c1 c2"
  then have "c2\<lparr>cl_Disabled := cl_Disabled c1, cl_Disabled := cl_Disabled c\<rparr> = c" by (simp add: same_config_def)
  then show ?thesis by (simp add: same_config_def)
qed

lemma same_configD:
  assumes "same_config c c'"
  shows "cl_ID c' = cl_ID c" "cl_DiscoveredTools c' = cl_DiscoveredTools c" "cl_AuthType c' = cl_AuthType c"
  using arg_cong [OF assms [unfolded same_config_def], of cl_ID] arg_cong [OF assms [unfolded same_config_def], of cl_DiscoveredTools]
    arg_cong [OF assms [unfolded same_config_def], of cl_AuthType]
  by simp_all

lemma grows_refl [simp]: "grows r r"
  by (simp add: grows_def)

lemma grows_trans:
  assumes "grows r r1" "grows r1 r2"
  shows "grows r r2"
proof -
  have "same_config (rg_configs r a) (rg_configs r2 a)" if "a < rg_next r" for a
    using assms that same_config_trans [of "rg_configs r a" "rg_configs r1 a" "rg_configs r2 a"] by (simp add: grows_def)
  then show ?thesis using assms by (simp add: grows_def)
qed

lemma grows_id: "grows r r' \<Longrightarrow> a < rg_next r \<Longrightarrow> config_id r' a = config_id r a \<and> a < rg_next r'"
  by (simp add: grows_def same_configD order_less_le_trans)

lemma named_tools_Nil [simp]: "named_tools []"
  by (simp add: named_tools_def)

lemma named_tools_put: "named_tools m \<Longrightarrow> tool_name t = Some k \<Longrightarrow> named_tools (gm_put k t m)"
  by (simp add: named_tools_def)

lemma named_tools_fold:
  "named_tools m \<Longrightarrow> \<forall>(k, t) \<in> set es. tool_name t = Some k \<Longrightarrow> named_tools (fold (\<lambda>e. gm_put (fst e) (snd e)) es m)"
proof (induction es arbitrary: m)
  case (Cons e es)
  obtain k t where "e = (k, t)" by (cases e)
  then show ?case using Cons.prems Cons.IH [OF named_tools_put] by simp
qed simp

lemma named_tools_add: "named_tools m \<Longrightarrow> named_tools tools \<Longrightarrow> named_tools (add_tools tools m)"
  unfolding add_tools_def by (rule named_tools_fold) (auto simp: named_tools_def)

lemma named_tools_rebind: "named_tools m \<Longrightarrow> named_tools (rebind_tools name m)"
proof -
  assume m: "named_tools m"
  have "named_tools acc \<Longrightarrow> \<forall>(k, t) \<in> set es. tl_Function t \<noteq> None \<Longrightarrow> named_tools (fold (rebind_tool p) es acc)" for p es acc
  proof (induction es arbitrary: acc)
    case (Cons e es)
    then have "named_tools (rebind_tool p e acc)" by (cases e) (auto simp: rebind_tool_def Let_def intro!: named_tools_put)
    then show ?case using Cons by simp
  qed simp
  moreover have "\<forall>(k, t) \<in> set m. tl_Function t \<noteq> None" using m by (fastforce simp: named_tools_def)
  ultimately show ?thesis by (simp add: rebind_tools_def)
qed

lemma section_simps [simp]:
  "rg_clientMap (put_client i e r) = gm_put i e (rg_clientMap r)" "rg_configs (put_client i e r) = rg_configs r"
  "rg_next (put_client i e r) = rg_next r" "rg_open (put_client i e r) = rg_open r" "rg_reconnecting (put_client i e r) = rg_reconnecting r"
  "rg_clientMap (monitor i r) = rg_clientMap r" "rg_configs (monitor i r) = rg_configs r" "rg_next (monitor i r) = rg_next r"
  "rg_open (monitor i r) = rg_open r" "rg_reconnecting (monitor i r) = rg_reconnecting r"
  "rg_clientMap (stop_workers i r) = rg_clientMap r" "rg_configs (stop_workers i r) = rg_configs r" "rg_next (stop_workers i r) = rg_next r"
  "rg_open (stop_workers i r) = rg_open r" "rg_reconnecting (stop_workers i r) = rg_reconnecting r"
  "rg_clientMap (close_conn c r) = rg_clientMap r" "rg_configs (close_conn c r) = rg_configs r" "rg_next (close_conn c r) = rg_next r"
  "rg_reconnecting (close_conn c r) = rg_reconnecting r"
  "rg_clientMap (open_conn c r) = rg_clientMap r" "rg_configs (open_conn c r) = rg_configs r" "rg_next (open_conn c r) = rg_next r"
  "rg_reconnecting (open_conn c r) = rg_reconnecting r"
  "rg_clientMap (take_guard i r) = rg_clientMap r" "rg_configs (take_guard i r) = rg_configs r" "rg_next (take_guard i r) = rg_next r"
  "rg_open (take_guard i r) = rg_open r" "rg_reconnecting (take_guard i r) = i # rg_reconnecting r"
  "rg_clientMap (release_guard i r) = rg_clientMap r" "rg_configs (release_guard i r) = rg_configs r" "rg_next (release_guard i r) = rg_next r"
  "rg_open (release_guard i r) = rg_open r" "rg_reconnecting (release_guard i r) = removeAll i (rg_reconnecting r)"
  "rg_clientMap (set_flag a b r) = rg_clientMap r" "rg_next (set_flag a b r) = rg_next r" "rg_open (set_flag a b r) = rg_open r"
  "rg_reconnecting (set_flag a b r) = rg_reconnecting r"
  by (simp_all add: put_client_def monitor_def stop_workers_def close_conn_def open_conn_def take_guard_def release_guard_def set_flag_def
      split: option.split)

lemma start_workers_simps [simp]:
  "rg_clientMap (start_workers g r a) = rg_clientMap r" "rg_configs (start_workers g r a) = rg_configs r"
  "rg_next (start_workers g r a) = rg_next r" "rg_open (start_workers g r a) = rg_open r" "rg_reconnecting (start_workers g r a) = rg_reconnecting r"
  by (simp_all add: start_workers_def Let_def)

lemma set_flag_id [simp]: "config_id (set_flag a b r) x = config_id r x"
  "cl_DiscoveredTools (rg_configs (set_flag a b r) x) = cl_DiscoveredTools (rg_configs r x)"
  by (simp_all add: set_flag_def)

text \<open>A section leaves the registry well formed and its configurations in place.\<close>

definition section_keeps :: "registry \<Rightarrow> registry \<Rightarrow> bool" where
  "section_keeps r r' \<longleftrightarrow> (registry_ok r \<longrightarrow> registry_ok r') \<and> grows r r'"

lemma keeps_refl [simp]: "section_keeps r r"
  by (simp add: section_keeps_def)

lemma keeps_trans: "section_keeps r r1 \<Longrightarrow> section_keeps r1 r2 \<Longrightarrow> section_keeps r r2"
  unfolding section_keeps_def by (blast intro: grows_trans)

lemma keeps_same:
  assumes "rg_clientMap r' = rg_clientMap r" "rg_configs r' = rg_configs r" "rg_next r' = rg_next r"
  shows "section_keeps r r'"
  using assms by (auto simp: section_keeps_def registry_ok_def entry_ok_def grows_def)

lemma keeps_put:
  assumes "rg_clientMap r' = gm_put i e (rg_clientMap r)" "rg_configs r' = rg_configs r" "rg_next r' = rg_next r"
    and "registry_ok r \<Longrightarrow> entry_ok r i e"
  shows "section_keeps r r'"
  using assms by (auto simp: section_keeps_def registry_ok_def entry_ok_def grows_def)

lemma keeps_del:
  assumes "rg_clientMap r' = gm_del i (rg_clientMap r)" "rg_configs r' = rg_configs r" "rg_next r' = rg_next r"
  shows "section_keeps r r'"
  using assms by (auto simp: section_keeps_def registry_ok_def entry_ok_def grows_def)

lemma keeps_flag: "section_keeps r (set_flag a b r)"
  by (auto simp: section_keeps_def registry_ok_def entry_ok_def grows_def set_flag_def)

lemma keeps_allocate:
  assumes "allocate c r = (a, r')" "named_tools (cl_DiscoveredTools c)"
  shows "section_keeps r r'"
proof -
  have "entry_ok r' i e" if "entry_ok r i e" for i e
    using assms(1) that by (auto simp: entry_ok_def allocate_def)
  then show ?thesis using assms by (auto simp: section_keeps_def registry_ok_def grows_def allocate_def less_Suc_eq)
qed

section \<open>Sections\<close>

lemma entry_okD:
  "registry_ok r \<Longrightarrow> gm_get (rg_clientMap r) i = Some e \<Longrightarrow>
    config_id r (en_ExecutionConfig e) = i \<and> en_ExecutionConfig e < rg_next r \<and> named_tools (en_ToolMap e)"
  by (simp add: registry_ok_def entry_ok_def)

lemma blank_fields [simp]:
  "en_ExecutionConfig (blank c a s) = a" "en_ToolMap (blank c a s) = []" "en_Conn (blank c a s) = None" "en_State (blank c a s) = s"
  by (simp_all add: blank_def)

lemma restored_fields [simp]:
  "en_ExecutionConfig (restored c e) = en_ExecutionConfig e" "en_Conn (restored c e) = en_Conn e" "en_State (restored c e) = en_State e"
  "en_ToolMap (restored c e) = add_tools (cl_DiscoveredTools c) (en_ToolMap e)"
  by (simp_all add: restored_def)

lemma discovered_ok: "registry_ok r \<Longrightarrow> a < rg_next r \<Longrightarrow> named_tools (cl_DiscoveredTools (rg_configs r a))"
  by (simp add: registry_ok_def)

lemma add_place_keeps:
  assumes "add_place r a = Inr r'" "a < rg_next r"
  shows "section_keeps r r'"
proof -
  obtain e where "r' = put_client (config_id r a) e r" "registry_ok r \<Longrightarrow> entry_ok r (config_id r a) e"
    using assms discovered_ok [of r a]
    by (auto simp: add_place_def Let_def entry_ok_def named_tools_add split: if_splits)
  then show ?thesis by (intro keeps_put [of _ "config_id r a" e]) simp_all
qed

lemma put_client_keeps:
  assumes "gm_get (rg_clientMap r) i = Some e" "rg_clientMap r1 = rg_clientMap r" "rg_configs r1 = rg_configs r" "rg_next r1 = rg_next r"
    and "en_ExecutionConfig e' = en_ExecutionConfig e" "registry_ok r \<Longrightarrow> named_tools (en_ToolMap e) \<Longrightarrow> named_tools (en_ToolMap e')"
  shows "section_keeps r (put_client i e' r1)"
  using assms by (intro keeps_put [of _ i e']) (auto simp: entry_ok_def dest: entry_okD)

lemma monitor_keeps: "section_keeps r r1 \<Longrightarrow> section_keeps r (monitor i r1)"
  by (erule keeps_trans) (rule keeps_same, simp_all)

lemma add_restore_keeps:
  assumes "a < rg_next r"
  shows "section_keeps r (add_restore r a)"
proof (cases "gm_get (rg_clientMap r) (config_id r a)")
  case (Some e)
  then show ?thesis using discovered_ok [OF _ assms]
    by (auto simp: add_restore_def Let_def named_tools_add intro!: put_client_keeps [OF Some])
qed (simp add: add_restore_def Let_def)

lemma add_failed_keeps: "section_keeps r (add_failed r a)"
  by (rule keeps_del [of _ "config_id r a"]) (simp_all add: add_failed_def)

lemma boot_recover_keeps:
  assumes "a < rg_next r"
  shows "section_keeps r (boot_recover r a)"
proof (cases "gm_get (rg_clientMap r) (config_id r a)")
  case None
  then show ?thesis using assms
    by (intro keeps_put [of _ "config_id r a" "blank (rg_configs r a) a StateDisconnected"]) (simp_all add: boot_recover_def Let_def entry_ok_def)
next
  case (Some e)
  then show ?thesis by (auto simp: boot_recover_def Let_def intro!: monitor_keeps put_client_keeps [OF Some])
qed

lemma connect_begin_keeps:
  assumes "connect_begin r a = Inr r'" "a < rg_next r"
  shows "section_keeps r r'"
  using assms
  by (intro keeps_put [of _ "config_id r a" "blank (rg_configs r a) a StateDisconnected"])
    (auto simp: connect_begin_def Let_def entry_ok_def split: if_splits option.splits)

lemma connect_end_keeps:
  assumes "named_tools tools"
  shows "connect_end r a conn tools mapping = Inl (e, r') \<Longrightarrow> section_keeps r r'"
    and "connect_end r a conn tools mapping = Inr r' \<Longrightarrow> section_keeps r r'"
proof -
  show "connect_end r a conn tools mapping = Inl (e, r') \<Longrightarrow> section_keeps r r'"
    by (rule keeps_same) (auto simp: connect_end_def Let_def split: option.splits if_splits)
  assume "connect_end r a conn tools mapping = Inr r'"
  then obtain x where x: "gm_get (rg_clientMap r) (config_id r a) = Some x"
      "r' = put_client (config_id r a) (x\<lparr>en_Conn := conn, en_State := StateConnected, en_ToolMap := add_tools tools (en_ToolMap x),
         en_ToolNameMapping := mapping\<rparr>) (open_conn conn r)"
    by (auto simp: connect_end_def Let_def split: option.splits if_splits)
  show "section_keeps r r'"
    unfolding x(2) by (rule put_client_keeps [OF x(1)]) (simp_all add: named_tools_add assms)
qed

lemma SetClientTools_keeps: "named_tools tools \<Longrightarrow> section_keeps r (SetClientTools r i tools mapping)"
  unfolding SetClientTools_def
  by (auto split: option.split intro!: put_client_keeps simp: named_tools_add)

lemma RemoveClient_keeps: "RemoveClient r i = Inr r' \<Longrightarrow> section_keeps r r'"
  by (rule keeps_del [of _ i]) (auto simp: RemoveClient_def Let_def split: option.splits)

lemma disabled_entry_fields [simp]:
  "en_ExecutionConfig (disabled_entry k e) = en_ExecutionConfig e" "en_Conn (disabled_entry k e) = None"
  "en_State (disabled_entry k e) = StateDisabled" "en_ToolMap (disabled_entry k e) = (if k then en_ToolMap e else [])"
  by (simp_all add: disabled_entry_def)

lemma DisableClient_keeps: "DisableClient r i = Inr r' \<Longrightarrow> section_keeps r r'"
  by (auto simp: DisableClient_def split: if_splits option.splits
      intro!: keeps_trans [OF _ keeps_flag] put_client_keeps)

lemma enable_begin_keeps:
  "enable_begin r i = Inr (a, r') \<Longrightarrow> section_keeps r r' \<and> (registry_ok r \<longrightarrow> a < rg_next r' \<and> config_id r' a = i)"
  by (auto simp: enable_begin_def keeps_flag dest: entry_okD split: option.splits if_splits)

lemma enable_restore_keeps: "section_keeps r (enable_restore r i)"
  unfolding enable_restore_def by (auto split: option.split intro!: put_client_keeps)

lemma enable_failed_keeps: "section_keeps r (enable_failed r i)"
  unfolding enable_failed_def
  by (auto split: option.split intro!: monitor_keeps put_client_keeps)

lemma UpdateClient_keeps:
  assumes "UpdateClient r i new = Inr r'"
  shows "section_keeps r r'"
proof -
  obtain e where x: "gm_get (rg_clientMap r) i = Some e"
      "r' = put_client i (e\<lparr>en_ExecutionConfig := rg_next r, en_ToolMap := rebind_tools (cl_Name new) (en_ToolMap e), en_Name := cl_Name new\<rparr>)
         (snd (allocate (updated_config (config_of r e) new) r))"
    using assms by (auto simp: UpdateClient_def allocate_def split: if_splits option.splits)
  let ?r1 = "snd (allocate (updated_config (config_of r e) new) r)"
  have "named_tools (cl_DiscoveredTools (updated_config (config_of r e) new))" by (simp add: updated_config_def)
  then have 1: "section_keeps r ?r1" by (intro keeps_allocate [where a = "rg_next r"]) (simp_all add: allocate_def)
  have "registry_ok ?r1 \<Longrightarrow> registry_ok r'" if "registry_ok r"
    using keeps_put [where r = ?r1 and r' = r' and i = i
        and e = "e\<lparr>en_ExecutionConfig := rg_next r, en_ToolMap := rebind_tools (cl_Name new) (en_ToolMap e), en_Name := cl_Name new\<rparr>"]
      entry_okD [OF that x(1)]
    by (simp add: x(2) entry_ok_def allocate_def updated_config_def named_tools_rebind section_keeps_def)
  then show ?thesis using 1 by (auto simp: section_keeps_def grows_def x(2))
qed

lemma update_connection_begin_keeps:
  assumes "update_connection_begin r i h oa = Inr (old, a, r')"
  shows "section_keeps r r' \<and> (registry_ok r \<longrightarrow> a < rg_next r' \<and> config_id r' a = i \<and> old < rg_next r' \<and> config_id r' old = i)"
proof -
  obtain e c where x: "gm_get (rg_clientMap r) i = Some e" "allocate c r = (a, r')" "old = en_ExecutionConfig e"
      "cl_ID c = cl_ID (config_of r e)" "cl_DiscoveredTools c = cl_DiscoveredTools (config_of r e)"
    using assms
    by (auto simp: update_connection_begin_def Let_def split: if_splits option.splits prod.splits)
  have "registry_ok r' \<and> grows r r'" if "registry_ok r"
    using keeps_allocate [OF x(2)] discovered_ok [OF that] entry_okD [OF that x(1)] x(5) that by (simp add: section_keeps_def)
  moreover have "grows r r'" using x(2) by (auto simp: allocate_def grows_def)
  ultimately show ?thesis
    using x entry_okD [OF _ x(1)] by (auto simp: section_keeps_def allocate_def)
qed

lemma update_connection_failed_keeps:
  assumes "old < rg_next r" "config_id r old = i"
  shows "section_keeps r (update_connection_failed r i old)"
  unfolding update_connection_failed_def
  by (auto split: option.split intro!: keeps_put simp: entry_ok_def assms dest: entry_okD)

lemma RegisterTool_keeps: "RegisterTool r n d = Inr r' \<Longrightarrow> section_keeps r r'"
  by (auto simp: RegisterTool_def Let_def split: if_splits option.splits intro!: put_client_keeps named_tools_put)

lemma updateClientState_keeps: "section_keeps r (updateClientState r i s)"
  unfolding updateClientState_def by (auto split: option.split intro!: put_client_keeps)

lemma sync_end_keeps: "named_tools tools \<Longrightarrow> section_keeps r (sync_end r i tools mapping)"
  unfolding sync_end_def by (auto split: option.split intro!: put_client_keeps)

lemma Cleanup_keeps: "section_keeps r (mcp_Cleanup r)"
proof -
  have "section_keeps r r1 \<Longrightarrow> section_keeps r (fold (\<lambda>i r. case RemoveClient r i of Inl e \<Rightarrow> r | Inr r' \<Rightarrow> r') is r1)" for "is" r1
    by (induction "is" arbitrary: r1) (auto split: sum.split dest: RemoveClient_keeps keeps_trans)
  moreover have "section_keeps r (r\<lparr>rg_monitors := [], rg_syncers := []\<rparr>)" by (rule keeps_same) simp_all
  ultimately have "section_keeps r (fold (\<lambda>i r. case RemoveClient r i of Inl e \<Rightarrow> r | Inr r' \<Rightarrow> r') (map fst (rg_clientMap r))
      (r\<lparr>rg_monitors := [], rg_syncers := []\<rparr>))" by blast
  then show ?thesis by (rule keeps_trans) (simp add: mcp_Cleanup_def Let_def section_keeps_def registry_ok_def grows_def)
qed

section \<open>Tasks\<close>

fun task_id :: "registry \<Rightarrow> task \<Rightarrow> string" where
  "task_id r (Place a b) = config_id r a"
| "task_id r (Restore a) = config_id r a"
| "task_id r (AddFailed a b) = config_id r a"
| "task_id r (Recover a) = config_id r a"
| "task_id r (EnableRestore i) = i"
| "task_id r (EnableGuard i a) = i"
| "task_id r (EnableFailed i) = i"
| "task_id r (UpdateFailed i a) = i"
| "task_id r (Begin o1 a) = config_id r a"
| "task_id r (Dialling o1 a) = config_id r a"
| "task_id r (Dialled o1 a) = config_id r a"
| "task_id r (Sync i n) = i"

definition points :: "registry \<Rightarrow> nat \<Rightarrow> string \<Rightarrow> bool" where
  "points r a i \<longleftrightarrow> a < rg_next r \<and> config_id r a = i"

definition origin_ok :: "registry \<Rightarrow> origin \<Rightarrow> string \<Rightarrow> bool" where
  "origin_ok r o1 i \<longleftrightarrow> (case o1 of ByUpdate old \<Rightarrow> points r old i | _ \<Rightarrow> True)"

fun task_ok :: "registry \<Rightarrow> task \<Rightarrow> bool" where
  "task_ok r (Place a b) = points r a (config_id r a)"
| "task_ok r (Restore a) = points r a (config_id r a)"
| "task_ok r (AddFailed a b) = points r a (config_id r a)"
| "task_ok r (Recover a) = points r a (config_id r a)"
| "task_ok r (EnableRestore i) = True"
| "task_ok r (EnableGuard i a) = points r a i"
| "task_ok r (EnableFailed i) = True"
| "task_ok r (UpdateFailed i a) = points r a i"
| "task_ok r (Begin o1 a) = (points r a (config_id r a) \<and> origin_ok r o1 (config_id r a))"
| "task_ok r (Dialling o1 a) = (points r a (config_id r a) \<and> origin_ok r o1 (config_id r a))"
| "task_ok r (Dialled o1 a) = (points r a (config_id r a) \<and> origin_ok r o1 (config_id r a))"
| "task_ok r (Sync i n) = True"

lemma points_grows: "grows r r' \<Longrightarrow> points r a i \<Longrightarrow> points r' a i"
  by (auto simp: points_def dest: grows_id)

lemma origin_ok_grows: "grows r r' \<Longrightarrow> origin_ok r o1 i \<Longrightarrow> origin_ok r' o1 i"
  by (auto simp: origin_ok_def points_grows split: origin.splits)

lemma task_grows: "grows r r' \<Longrightarrow> task_ok r t \<Longrightarrow> task_ok r' t \<and> task_id r' t = task_id r t"
proof -
  assume g: "grows r r'" and t: "task_ok r t"
  have "a < rg_next r \<Longrightarrow> config_id r' a = config_id r a \<and> a < rg_next r'" for a using g by (rule grows_id)
  then show ?thesis using t origin_ok_grows [OF g] by (cases t) (auto simp: points_def)
qed

definition system_ok :: "system \<Rightarrow> bool" where
  "system_ok s \<longleftrightarrow> registry_ok (sy_registry s) \<and> (\<forall>t \<in> set (sy_tasks s). task_ok (sy_registry s) t)"

text \<open>What the world may feed in: tools under their own names.\<close>

fun label_ok :: "label \<Rightarrow> bool" where
  "label_ok (Add c b) = named_tools (cl_DiscoveredTools c)"
| "label_ok (SetTools i (tools, m)) = named_tools tools"
| "label_ok (DialEnds o1 a (DialOk c tools m)) = named_tools tools"
| "label_ok (SyncEnds i n (Some (tools, m))) = named_tools tools"
| "label_ok _ = True"

text \<open>The outcome of a section: the registry is kept and the tasks that follow are about the client of the task.\<close>

definition good :: "registry \<Rightarrow> string \<Rightarrow> registry \<times> task list \<Rightarrow> bool" where
  "good r i x \<longleftrightarrow> section_keeps r (fst x) \<and> (\<forall>t \<in> set (snd x). task_ok (fst x) t \<and> task_id (fst x) t = i)"

lemma after_failure_good:
  assumes "section_keeps r0 r" "points r a i" "origin_ok r o1 i"
  shows "good r0 i (after_failure r o1 a)"
proof -
  have "section_keeps r0 (release_guard j r)" for j using assms(1) by (rule keeps_trans) (rule keeps_same, simp_all)
  then show ?thesis using assms by (auto simp: good_def after_failure_def origin_ok_def points_def split: origin.splits)
qed

lemma dial_ends_good:
  assumes "task_ok r (Dialling o1 a)" "label_ok (DialEnds o1 a d)"
  shows "good r (config_id r a) (dial_ends r o1 a d)"
proof (cases d)
  case DialFailed
  then show ?thesis using assms by (auto simp: dial_ends_def intro!: after_failure_good)
next
  case (DialOk conn tools mapping)
  show ?thesis
  proof (cases "connect_end r a conn tools mapping")
    case (Inl x)
    then obtain e r1 where x: "connect_end r a conn tools mapping = Inl (e, r1)" by (cases x) auto
    have k: "section_keeps r r1" using connect_end_keeps(1) [OF _ x] assms DialOk by simp
    then have "grows r r1" by (simp add: section_keeps_def)
    then show ?thesis using assms k DialOk x
      by (auto simp: dial_ends_def intro!: after_failure_good intro: points_grows origin_ok_grows)
  next
    case (Inr r1)
    have k: "section_keeps r r1" using connect_end_keeps(2) [OF _ Inr] assms DialOk by simp
    then have g: "grows r r1" by (simp add: section_keeps_def)
    show ?thesis using task_grows [OF g assms(1)] k DialOk Inr by (auto simp: dial_ends_def good_def)
  qed
qed

lemma good_nil: "section_keeps r r' \<Longrightarrow> good r i (r', [])"
  by (simp add: good_def)

lemma good_guard:
  assumes "section_keeps r r1"
  shows "section_keeps r (take_guard i r1)" "section_keeps r (release_guard i r1)"
  using assms by (auto intro!: keeps_trans [OF assms] keeps_same)

lemma good_task: "section_keeps r r1 \<Longrightarrow> task_ok r1 t \<Longrightarrow> task_id r1 t = i \<Longrightarrow> good r i (r1, [t])"
  by (simp add: good_def)

lemma place_good:
  assumes "points r a (config_id r a)" "advance g r (Place a boot) = Some x"
  shows "good r (config_id r a) x"
proof (cases "add_place r a")
  case (Inl e)
  then show ?thesis using assms by (auto simp: advance_def boot_task_def good_def points_def)
next
  case (Inr r1)
  have k: "section_keeps r r1" using add_place_keeps [OF Inr] assms(1) by (simp add: points_def)
  then have "points r1 a (config_id r a)" using assms(1) by (auto simp: section_keeps_def intro: points_grows)
  then show ?thesis using assms(2) Inr k by (auto simp: advance_def points_def origin_ok_def intro!: good_nil good_task)
qed

lemma begin_good:
  assumes "task_ok r (Begin o1 a)" "advance g r (Begin o1 a) = Some x"
  shows "good r (config_id r a) x"
proof (cases "connect_begin r a")
  case (Inl e)
  then show ?thesis using assms by (auto simp: advance_def intro!: after_failure_good)
next
  case (Inr r1)
  have k: "section_keeps r r1" using connect_begin_keeps [OF Inr] assms(1) by (simp add: points_def)
  then have "grows r r1" by (simp add: section_keeps_def)
  from task_grows [OF this assms(1)] show ?thesis using assms(2) Inr k by (auto simp: advance_def intro!: good_task)
qed

lemma finished_keeps: "section_keeps r r1 \<Longrightarrow> section_keeps r (finished r1 o1 a)"
  by (simp add: finished_def good_guard)

lemma start_workers_keeps: "section_keeps r (start_workers g r a)"
  by (rule keeps_same) simp_all

lemma advance_good:
  assumes "task_ok r t" "advance g r t = Some x"
  shows "good r (task_id r t) x"
proof (cases t)
  case (Place a b)
  then show ?thesis using assms by (auto intro: place_good)
next
  case (Begin o1 a)
  then show ?thesis using begin_good assms by simp
next
  case (AddFailed a b)
  have k: "section_keeps r (add_failed r a)" by (rule add_failed_keeps)
  then have "points (add_failed r a) a (config_id r a)" using assms(1) AddFailed by (auto simp: section_keeps_def intro: points_grows)
  then show ?thesis using AddFailed assms(2) k by (auto simp: advance_def boot_task_def points_def intro!: good_nil good_task)
next
  case (EnableGuard i a)
  then show ?thesis using assms by (auto simp: advance_def points_def origin_ok_def intro!: good_nil good_task good_guard)
qed (use assms in \<open>auto simp: advance_def points_def intro!: good_nil add_restore_keeps boot_recover_keeps enable_restore_keeps
       good_guard enable_failed_keeps update_connection_failed_keeps finished_keeps start_workers_keeps\<close>)

lemma add_good:
  assumes "named_tools (cl_DiscoveredTools config)"
  shows "\<exists>i. good r i (call r (Add config boot))"
proof -
  obtain a r1 where x: "allocate config r = (a, r1)" by fastforce
  have k: "section_keeps r r1" using keeps_allocate [OF x assms] .
  have "points r1 a (cl_ID config)" using x by (auto simp: allocate_def points_def)
  then show ?thesis using x k
    by (intro exI [of _ "cl_ID config"]) (auto simp: call_def boot_task_def points_def intro!: good_nil good_task)
qed

lemma enable_good:
  assumes "registry_ok r"
  shows "good r i (call r (Enable i))"
proof (cases "enable_begin r i")
  case (Inr x)
  then obtain a r1 where x: "enable_begin r i = Inr (a, r1)" by (cases x) auto
  then show ?thesis using enable_begin_keeps [OF x] assms by (auto simp: call_def points_def intro!: good_task)
qed (simp add: call_def good_nil)

lemma update_connection_good:
  assumes "registry_ok r"
  shows "good r i (call r (UpdateConnection i h oa))"
proof (cases "update_connection_begin r i h oa")
  case (Inr x)
  then obtain old a r1 where x: "update_connection_begin r i h oa = Inr (old, a, r1)" by (cases x) auto
  then show ?thesis using update_connection_begin_keeps [OF x] assms
    by (auto simp: call_def points_def origin_ok_def intro!: good_task good_guard)
qed (simp add: call_def good_nil)

lemma reconnect_good:
  assumes "registry_ok r"
  shows "good r i (call r (Reconnect i))"
  using assms
  by (auto simp: call_def reconnect_begin_def points_def origin_ok_def split: if_splits option.splits sum.splits
      intro!: good_nil good_task good_guard dest: entry_okD)

lemma quiet_call: "section_keeps r r1 \<Longrightarrow> \<exists>i. good r i (r1, [])"
  by (auto intro: good_nil)

lemma call_good:
  assumes "registry_ok r" "label_ok l"
  shows "\<exists>i. good r i (call r l)"
proof (cases l)
  case (Add config boot)
  then show ?thesis using add_good assms by simp
next
  case (Reconnect i)
  then show ?thesis using reconnect_good [OF assms(1)] by blast
next
  case (Enable i)
  then show ?thesis using enable_good [OF assms(1)] by blast
next
  case (UpdateConnection i h oa)
  then show ?thesis using update_connection_good [OF assms(1)] by blast
next
  case (SetTools i tm)
  then show ?thesis using assms by (cases tm) (auto simp: call_def intro!: quiet_call SetClientTools_keeps)
next
  case (SyncTick i)
  then show ?thesis by (auto simp: call_def intro!: exI [of _ i] good_nil good_task split: option.split)
qed (auto simp: call_def split: sum.split intro!: quiet_call updateClientState_keeps Cleanup_keeps
      dest: DisableClient_keeps UpdateClient_keeps RemoveClient_keeps RegisterTool_keeps)

lemma with_tasks_ok:
  assumes "good r i x" "registry_ok r" "\<forall>t \<in> set ts. task_ok r t"
  shows "system_ok (with_tasks ts x) \<and> grows r (sy_registry (with_tasks ts x))"
  using assms task_grows by (auto simp: good_def with_tasks_def system_ok_def section_keeps_def)

lemma set_remove1_in: "\<forall>t \<in> set ts. P t \<Longrightarrow> \<forall>t \<in> set (remove1 x ts). P t"
  by (meson notin_set_remove1)

lemma system_step_ok:
  assumes "system_step g l s = Some s'" "system_ok s" "label_ok l"
  shows "system_ok s' \<and> grows (sy_registry s) (sy_registry s')"
proof -
  let ?r = "sy_registry s" and ?ts = "sy_tasks s"
  have ok: "registry_ok ?r" "\<forall>t \<in> set ?ts. task_ok ?r t" using assms(2) by (auto simp: system_ok_def)
  have call: "\<exists>x i. s' = with_tasks ?ts x \<and> good ?r i x" if "system_step g l s = Some (with_tasks ?ts (call ?r l))"
    using that assms(1) call_good [OF ok(1) assms(3)] by (intro exI [of _ "call ?r l"]) auto
  have "\<exists>ts x i. s' = with_tasks ts x \<and> good ?r i x \<and> (\<forall>t \<in> set ts. task_ok ?r t)"
  proof (cases l)
    case (Advance t)
    then obtain x where "t \<in> set ?ts" "advance g ?r t = Some x" "s' = with_tasks (remove1 t ?ts) x"
      using assms(1) by (auto simp: system_step_def Let_def split: if_splits)
    then show ?thesis using advance_good [of ?r t g x] ok(2) set_remove1_in [OF ok(2)] by blast
  next
    case (DialEnds o1 a d)
    then have "Dialling o1 a \<in> set ?ts" "s' = with_tasks (remove1 (Dialling o1 a) ?ts) (dial_ends ?r o1 a d)"
      using assms(1) by (auto simp: system_step_def Let_def split: if_splits)
    then show ?thesis using dial_ends_good [of ?r o1 a d] ok(2) assms(3) DialEnds set_remove1_in [OF ok(2)] by blast
  next
    case (SyncEnds i n answer)
    have "good ?r i (case answer of None \<Rightarrow> ?r | Some (tools, mapping) \<Rightarrow> sync_end ?r i tools mapping, [])"
      using assms(3) SyncEnds by (auto intro!: good_nil sync_end_keeps split: option.split)
    moreover have "s' = with_tasks (remove1 (Sync i n) ?ts)
        (case answer of None \<Rightarrow> ?r | Some (tools, mapping) \<Rightarrow> sync_end ?r i tools mapping, [])"
      using assms(1) SyncEnds by (simp add: system_step_def Let_def split: if_splits)
    ultimately show ?thesis using set_remove1_in [OF ok(2)] by blast
  qed (use call ok(2) in \<open>auto simp: system_step_def Let_def\<close>)
  then show ?thesis using with_tasks_ok [OF _ ok(1)] by blast
qed

lemma system_run_grows:
  "system_run g ls s = Some s' \<Longrightarrow> system_ok s \<Longrightarrow> \<forall>l \<in> set ls. label_ok l \<Longrightarrow>
    system_ok s' \<and> grows (sy_registry s) (sy_registry s')"
proof (induction ls arbitrary: s)
  case (Cons l ls)
  then obtain s1 where s1: "system_step g l s = Some s1" "system_run g ls s1 = Some s'" by (auto split: option.splits)
  then have "system_ok s1 \<and> grows (sy_registry s) (sy_registry s1)" using Cons system_step_ok by auto
  then show ?case using Cons s1 grows_trans by auto
qed simp

text \<open>
  C34: The registry stays well formed in every interleaving of calls, dials, checks and syncs: a client is
  stored under the ID of its configuration and a tool under its own name, no ID twice, and of the
  configurations calls share nothing but the flag of a disabled client is ever written.
\<close>

theorem registry_stays_well_formed:
  assumes "system_run g ls \<lparr>sy_registry = r0, sy_tasks = []\<rparr> = Some s" "registry_ok r0" "\<forall>l \<in> set ls. label_ok l"
  shows "gm_ok (rg_clientMap (sy_registry s)) \<and> grows r0 (sy_registry s)
    \<and> (\<forall>i e. gm_get (rg_clientMap (sy_registry s)) i = Some e \<longrightarrow> cl_ID (config_of (sy_registry s) e) = i
        \<and> (\<forall>k t. gm_get (en_ToolMap e) k = Some t \<longrightarrow> tool_name t = Some k))"
proof -
  have "system_ok \<lparr>sy_registry = r0, sy_tasks = []\<rparr>" using assms(2) by (simp add: system_ok_def)
  from system_run_grows [OF assms(1) this assms(3)] have "system_ok s" "grows r0 (sy_registry s)" by simp_all
  then show ?thesis by (auto simp: system_ok_def registry_ok_def entry_ok_def named_tools_def)
qed

section \<open>The guard of a client\<close>

fun guard_id :: "registry \<Rightarrow> task \<Rightarrow> string list" where
  "guard_id r (Begin o1 a) = (if guarded o1 then [config_id r a] else [])"
| "guard_id r (Dialling o1 a) = (if guarded o1 then [config_id r a] else [])"
| "guard_id r (Dialled o1 a) = (if guarded o1 then [config_id r a] else [])"
| "guard_id r (EnableFailed i) = [i]"
| "guard_id r (UpdateFailed i a) = [i]"
| "guard_id r _ = []"

definition guard_ids :: "registry \<Rightarrow> task list \<Rightarrow> string list" where
  "guard_ids r ts = concat (map (guard_id r) ts)"

definition guards_ok :: "system \<Rightarrow> bool" where
  "guards_ok s \<longleftrightarrow> distinct (rg_reconnecting (sy_registry s))
     \<and> mset (guard_ids (sy_registry s) (sy_tasks s)) = mset (rg_reconnecting (sy_registry s))"

lemma guard_ids_simps [simp]:
  "guard_ids r [] = []" "guard_ids r (t # ts) = guard_id r t @ guard_ids r ts" "guard_ids r (ts @ us) = guard_ids r ts @ guard_ids r us"
  by (simp_all add: guard_ids_def)

lemma guard_ids_remove1: "t \<in> set ts \<Longrightarrow> mset (guard_ids r (remove1 t ts)) + mset (guard_id r t) = mset (guard_ids r ts)"
  by (induction ts) auto

lemma guard_grows: "grows r r' \<Longrightarrow> task_ok r t \<Longrightarrow> guard_id r' t = guard_id r t"
  by (cases t) (auto simp: points_def dest: grows_id)

lemma guards_grow: "grows r r' \<Longrightarrow> \<forall>t \<in> set ts. task_ok r t \<Longrightarrow> guard_ids r' ts = guard_ids r ts"
  by (induction ts) (simp_all add: guard_grows)

text \<open>A section turns the guards \<open>gs\<close> of its task into those of the tasks that follow.\<close>

definition guard_step :: "registry \<Rightarrow> string list \<Rightarrow> registry \<times> task list \<Rightarrow> bool" where
  "guard_step r gs x \<longleftrightarrow> (distinct (rg_reconnecting r) \<longrightarrow> set gs \<subseteq> set (rg_reconnecting r) \<longrightarrow>
     distinct (rg_reconnecting (fst x))
     \<and> mset (rg_reconnecting (fst x)) + mset gs = mset (rg_reconnecting r) + mset (guard_ids (fst x) (snd x)))"

lemma guard_same: "rg_reconnecting r1 = rg_reconnecting r \<Longrightarrow> guard_ids r1 ts = gs \<Longrightarrow> guard_step r gs (r1, ts)"
  by (simp add: guard_step_def)

lemma guard_released: "rg_reconnecting r1 = rg_reconnecting r \<Longrightarrow> guard_step r [i] (release_guard i r1, [])"
  by (auto simp: guard_step_def distinct_removeAll simp flip: distinct_remove1_removeAll)

lemma guard_taken:
  "rg_reconnecting r1 = rg_reconnecting r \<Longrightarrow> i \<notin> set (rg_reconnecting r) \<Longrightarrow> guard_ids (take_guard i r1) ts = [i] \<Longrightarrow>
    guard_step r [] (take_guard i r1, ts)"
  by (simp add: guard_step_def)

lemma after_failure_guard:
  assumes "rg_reconnecting r1 = rg_reconnecting r" "config_id r1 a = config_id r a"
  shows "guard_step r (guard_id r (Begin o1 a)) (after_failure r1 o1 a)"
  using assms by (auto simp: after_failure_def guarded_def split: origin.split intro!: guard_same guard_released)

lemma connect_reconnecting:
  "connect_begin r a = Inr r1 \<Longrightarrow> rg_reconnecting r1 = rg_reconnecting r"
  "connect_end r a conn tools mapping = Inl (e, r1) \<Longrightarrow> rg_reconnecting r1 = rg_reconnecting r \<and> rg_configs r1 = rg_configs r"
  "connect_end r a conn tools mapping = Inr r1 \<Longrightarrow> rg_reconnecting r1 = rg_reconnecting r \<and> rg_configs r1 = rg_configs r"
  by (auto simp: connect_begin_def connect_end_def Let_def split: if_splits option.splits)

lemma dial_ends_guard: "guard_step r (guard_id r (Dialling o1 a)) (dial_ends r o1 a d)"
proof (cases d)
  case DialFailed
  then show ?thesis using after_failure_guard [of r r a o1] by (simp add: dial_ends_def)
next
  case (DialOk conn tools mapping)
  then show ?thesis using after_failure_guard [of _ r a o1]
    by (auto simp: dial_ends_def split: sum.split intro!: guard_same dest!: connect_reconnecting)
qed

lemma sections_reconnecting [simp]:
  "rg_reconnecting (add_restore r a) = rg_reconnecting r" "rg_reconnecting (add_failed r a) = rg_reconnecting r"
  "rg_reconnecting (boot_recover r a) = rg_reconnecting r" "rg_reconnecting (enable_restore r i) = rg_reconnecting r"
  "rg_reconnecting (enable_failed r i) = rg_reconnecting r" "rg_reconnecting (update_connection_failed r i old) = rg_reconnecting r"
  "rg_reconnecting (SetClientTools r i tools mapping) = rg_reconnecting r" "rg_reconnecting (updateClientState r i st) = rg_reconnecting r"
  "rg_reconnecting (sync_end r i tools mapping) = rg_reconnecting r"
  by (simp_all add: add_restore_def add_failed_def boot_recover_def enable_restore_def enable_failed_def update_connection_failed_def
      SetClientTools_def updateClientState_def sync_end_def Let_def split: option.split)

lemma partial_reconnecting:
  "add_place r a = Inr r1 \<Longrightarrow> rg_reconnecting r1 = rg_reconnecting r"
  "RemoveClient r i = Inr r1 \<Longrightarrow> rg_reconnecting r1 = rg_reconnecting r"
  "DisableClient r i = Inr r1 \<Longrightarrow> rg_reconnecting r1 = rg_reconnecting r"
  "enable_begin r i = Inr (a, r1) \<Longrightarrow> rg_reconnecting r1 = rg_reconnecting r"
  "UpdateClient r i new = Inr r1 \<Longrightarrow> rg_reconnecting r1 = rg_reconnecting r"
  "RegisterTool r n d = Inr r1 \<Longrightarrow> rg_reconnecting r1 = rg_reconnecting r"
  "allocate c r = (a, r1) \<Longrightarrow> rg_reconnecting r1 = rg_reconnecting r"
  by (auto simp: add_place_def RemoveClient_def DisableClient_def enable_begin_def UpdateClient_def RegisterTool_def allocate_def Let_def
      split: if_splits option.splits)

lemma Cleanup_reconnecting [simp]: "rg_reconnecting (mcp_Cleanup r) = rg_reconnecting r"
proof -
  have "rg_reconnecting (fold (\<lambda>i r. case RemoveClient r i of Inl e \<Rightarrow> r | Inr r' \<Rightarrow> r') is r1) = rg_reconnecting r1" for "is" r1
    by (induction "is" arbitrary: r1) (auto split: sum.split dest: partial_reconnecting)
  then show ?thesis by (simp add: mcp_Cleanup_def Let_def)
qed

lemma advance_guard:
  assumes "advance g r t = Some x" "task_ok r t"
  shows "guard_step r (guard_id r t) x"
proof (cases t)
  case (EnableGuard i a)
  then show ?thesis using assms
    by (cases "i \<in> set (rg_reconnecting r)") (auto simp: advance_def points_def guarded_def guard_same guard_taken)
next
  case (Begin o1 a)
  then show ?thesis using assms(1) after_failure_guard [of r r a o1]
    by (auto simp: advance_def connect_begin_def Let_def split: sum.splits if_splits option.splits intro!: guard_same)
next
  case (Dialled o1 a)
  then show ?thesis using assms(1) guard_released [of "start_workers g r a" r "config_id r a"]
    by (auto simp: advance_def finished_def intro: guard_same)
qed (use assms(1) in \<open>auto simp: advance_def boot_task_def guarded_def split: sum.splits if_splits
      intro!: guard_same guard_released dest: partial_reconnecting\<close>)

lemma call_guard:
  assumes "registry_ok r"
  shows "guard_step r [] (call r l)"
proof (cases l)
  case (Reconnect i)
  show ?thesis
  proof (cases "reconnect_begin r i")
    case (Inr a)
    then have "config_id r a = i" "i \<notin> set (rg_reconnecting r)"
      using assms by (auto simp: reconnect_begin_def split: if_splits option.splits dest: entry_okD)
    then show ?thesis using Reconnect Inr by (simp add: call_def guarded_def guard_taken)
  qed (use Reconnect in \<open>simp add: call_def guard_same\<close>)
next
  case (UpdateConnection i h oa)
  show ?thesis
  proof (cases "update_connection_begin r i h oa")
    case (Inr x)
    then obtain old a r1 where x: "update_connection_begin r i h oa = Inr (old, a, r1)" by (cases x) auto
    then have "rg_reconnecting r1 = rg_reconnecting r" "i \<notin> set (rg_reconnecting r)"
      by (auto simp: update_connection_begin_def Let_def split: if_splits option.splits prod.splits dest: partial_reconnecting)
    then show ?thesis using update_connection_begin_keeps [OF x] assms x UpdateConnection
      by (auto simp: call_def guarded_def intro!: guard_taken)
  qed (use UpdateConnection in \<open>simp add: call_def guard_same\<close>)
qed (auto simp: call_def boot_task_def split: sum.split prod.split option.split intro!: guard_same dest: partial_reconnecting)

lemma with_tasks_guards:
  assumes "guard_step r gs x" "good r i x" "registry_ok r" "\<forall>t \<in> set ts. task_ok r t"
    and "distinct (rg_reconnecting r)" "mset (guard_ids r ts) + mset gs = mset (rg_reconnecting r)"
  shows "guards_ok (with_tasks ts x)"
proof -
  have "set gs \<subseteq> set (rg_reconnecting r)" using arg_cong [OF assms(6), of set_mset] by auto
  then have *: "distinct (rg_reconnecting (fst x))"
    "mset (rg_reconnecting (fst x)) + mset gs = mset (rg_reconnecting r) + mset (guard_ids (fst x) (snd x))"
    using assms(1,5) by (simp_all add: guard_step_def)
  have "grows r (fst x)" using assms(2) by (simp add: good_def section_keeps_def)
  then have "guard_ids (fst x) ts = guard_ids r ts" using assms(4) by (rule guards_grow)
  moreover have "mset (rg_reconnecting (fst x)) + mset gs = mset (guard_ids r ts) + mset (guard_ids (fst x) (snd x)) + mset gs"
    using *(2) assms(6) by (metis add.commute add.left_commute)
  ultimately show ?thesis using *(1) by (simp add: guards_ok_def with_tasks_def add.commute)
qed

lemma system_step_guards:
  assumes "system_step g l s = Some s'" "system_ok s" "guards_ok s" "label_ok l"
  shows "guards_ok s'"
proof -
  let ?r = "sy_registry s" and ?ts = "sy_tasks s"
  have ok: "registry_ok ?r" "\<forall>t \<in> set ?ts. task_ok ?r t" using assms(2) by (auto simp: system_ok_def)
  have gs: "distinct (rg_reconnecting ?r)" "mset (guard_ids ?r ?ts) = mset (rg_reconnecting ?r)" using assms(3) by (auto simp: guards_ok_def)
  have removed: "mset (guard_ids ?r (remove1 t ?ts)) + mset (guard_id ?r t) = mset (rg_reconnecting ?r)" if "t \<in> set ?ts" for t
    using guard_ids_remove1 [OF that] gs(2) by simp
  have call: "guards_ok s'" if "system_step g l s = Some (with_tasks ?ts (call ?r l))"
    using that assms(1) call_good [OF ok(1) assms(4)] with_tasks_guards [OF call_guard [OF ok(1)] _ ok(1,2) gs(1)] gs(2) by auto
  show ?thesis
  proof (cases l)
    case (Advance t)
    then obtain x where x: "t \<in> set ?ts" "advance g ?r t = Some x" "s' = with_tasks (remove1 t ?ts) x"
      using assms(1) by (auto simp: system_step_def Let_def split: if_splits)
    then show ?thesis
      using with_tasks_guards [OF advance_guard [OF x(2)] advance_good [OF _ x(2)] ok(1) set_remove1_in [OF ok(2)] gs(1) removed] ok(2) by blast
  next
    case (DialEnds o1 a d)
    then have x: "Dialling o1 a \<in> set ?ts" "s' = with_tasks (remove1 (Dialling o1 a) ?ts) (dial_ends ?r o1 a d)"
      using assms(1) by (auto simp: system_step_def Let_def split: if_splits)
    then show ?thesis
      using with_tasks_guards [OF dial_ends_guard dial_ends_good ok(1) set_remove1_in [OF ok(2)] gs(1) removed [OF x(1)]]
        ok(2) assms(4) DialEnds by blast
  next
    case (SyncEnds i n answer)
    let ?x = "(case answer of None \<Rightarrow> ?r | Some (tools, mapping) \<Rightarrow> sync_end ?r i tools mapping, [])"
    have x: "Sync i n \<in> set ?ts" "s' = with_tasks (remove1 (Sync i n) ?ts) ?x"
      using assms(1) SyncEnds by (simp_all add: system_step_def Let_def split: if_splits)
    have "good ?r i ?x" using assms(4) SyncEnds by (auto intro!: good_nil sync_end_keeps split: option.split)
    moreover have "guard_step ?r (guard_id ?r (Sync i n)) ?x" by (auto intro!: guard_same split: option.split)
    ultimately show ?thesis unfolding x(2)
      using with_tasks_guards [OF _ _ ok(1) set_remove1_in [OF ok(2)] gs(1) removed [OF x(1)]] by blast
  qed (use call in \<open>simp_all add: system_step_def Let_def\<close>)
qed

lemma system_run_guards:
  "system_run g ls s = Some s' \<Longrightarrow> system_ok s \<Longrightarrow> guards_ok s \<Longrightarrow> \<forall>l \<in> set ls. label_ok l \<Longrightarrow> guards_ok s'"
proof (induction ls arbitrary: s)
  case (Cons l ls)
  then obtain s1 where s1: "system_step g l s = Some s1" "system_run g ls s1 = Some s'" by (auto split: option.splits)
  then show ?case using Cons system_step_ok [of g l s s1] system_step_guards [of g l s s1] by auto
qed simp

lemma guard_count: "count (mset (guard_ids r ts)) i = length (filter (\<lambda>t. i \<in> set (guard_id r t)) ts)"
proof (induction ts)
  case (Cons t ts)
  have "count (mset (guard_id r t)) i = (if i \<in> set (guard_id r t) then 1 else 0)" by (cases t) auto
  then show ?case using Cons by simp
qed simp

text \<open>
  C35: The guard of a client excludes: while a reconnect, a change of credentials or the connecting part of an enabling
  holds the guard of a client, no second of them does, and disabling or updating the client, reconnecting it or
  changing its credentials is refused and changes nothing. An enabling holds no guard between the section that clears
  the flag and the one that takes the guard (\<open>update_during_enabling_is_undone\<close>, \<open>two_enablings_pending\<close>), nor does
  the enabling of a client whose calls connect on their own, nor an add or a remove.
\<close>

theorem guarded_client_left_alone:
  assumes "system_run g ls \<lparr>sy_registry = r0, sy_tasks = []\<rparr> = Some s" "registry_ok r0" "rg_reconnecting r0 = []"
    and "\<forall>l \<in> set ls. label_ok l" "t \<in> set (sy_tasks s)" "i \<in> set (guard_id (sy_registry s) t)"
  shows "filter (\<lambda>t. i \<in> set (guard_id (sy_registry s) t)) (sy_tasks s) = [t]
    \<and> system_step g (Disable i) s = Some s \<and> system_step g (Update i new) s = Some s
    \<and> system_step g (Reconnect i) s = Some s \<and> system_step g (UpdateConnection i h oa) s = Some s"
proof -
  let ?r = "sy_registry s" and ?held = "filter (\<lambda>t. i \<in> set (guard_id (sy_registry s) t)) (sy_tasks s)"
  have "guards_ok s"
    using system_run_guards [OF assms(1) _ _ assms(4)] assms(2,3) by (simp add: system_ok_def guards_ok_def)
  then have gs: "distinct (rg_reconnecting ?r)" "mset (guard_ids ?r (sy_tasks s)) = mset (rg_reconnecting ?r)"
    by (auto simp: guards_ok_def)
  have "i \<in> set (guard_ids ?r (sy_tasks s))" using assms(5,6) by (auto simp: guard_ids_def)
  then have busy: "i \<in> set (rg_reconnecting ?r)" using mset_eq_setD [OF gs(2)] by simp
  have "count (mset (rg_reconnecting ?r)) i = 1" using busy gs(1) by (simp add: distinct_count_atmost_1)
  then have "length ?held = 1" using guard_count [of ?r "sy_tasks s" i] gs(2) by simp
  moreover have "t \<in> set ?held" using assms(5,6) by simp
  ultimately have "?held = [t]" by (cases ?held) auto
  moreover have "system_step g l s = Some s" if "call ?r l = (?r, [])" "\<forall>t o1 a d i n b. l \<noteq> Advance t \<and> l \<noteq> DialEnds o1 a d \<and> l \<noteq> SyncEnds i n b" for l
    using that by (cases l) (auto simp: system_step_def with_tasks_def Let_def)
  ultimately show ?thesis using busy
    by (simp add: call_def DisableClient_def UpdateClient_def reconnect_begin_def update_connection_begin_def)
qed

section \<open>Disabled clients\<close>

definition client_disabled :: "registry \<Rightarrow> string \<Rightarrow> bool" where
  "client_disabled r i \<longleftrightarrow>
     (\<exists>e. gm_get (rg_clientMap r) i = Some e \<and> en_State e = StateDisabled \<and> cl_Disabled (config_of r e))"

text \<open>
  The tasks about a disabled client that do no harm: those whose configurations have the flag, and those
  that touch neither its state nor its configuration.
\<close>

fun harmless :: "registry \<Rightarrow> task \<Rightarrow> bool" where
  "harmless r (Place a boot) = (\<not> boot)"
| "harmless r (Begin o1 a) = (cl_Disabled (rg_configs r a) \<and> guarded o1 \<and> (\<forall>old. o1 = ByUpdate old \<longrightarrow> cl_Disabled (rg_configs r old)))"
| "harmless r (Dialling o1 a) = (guarded o1 \<and> (\<forall>old. o1 = ByUpdate old \<longrightarrow> cl_Disabled (rg_configs r old)))"
| "harmless r (Dialled o1 a) = True"
| "harmless r (EnableFailed i) = True"
| "harmless r (UpdateFailed i old) = cl_Disabled (rg_configs r old)"
| "harmless r (Sync i n) = True"
| "harmless r _ = False"

definition settled_tasks :: "registry \<Rightarrow> string \<Rightarrow> task list \<Rightarrow> bool" where
  "settled_tasks r i ts \<longleftrightarrow> (\<forall>t \<in> set ts. task_id r t = i \<longrightarrow> harmless r t)"


definition firm :: "string \<Rightarrow> registry \<Rightarrow> registry \<Rightarrow> bool" where
  "firm i r r' \<longleftrightarrow> (client_disabled r i \<longrightarrow> client_disabled r' i)
     \<and> (\<forall>a < rg_next r. config_id r a = i \<longrightarrow> cl_Disabled (rg_configs r a) \<longrightarrow> cl_Disabled (rg_configs r' a))"

lemma firm_refl [simp]: "firm i r r"
  by (simp add: firm_def)

lemma firm_trans: "firm i r r1 \<Longrightarrow> grows r r1 \<Longrightarrow> firm i r1 r2 \<Longrightarrow> firm i r r2"
  unfolding firm_def by (metis grows_id)






definition calm :: "string \<Rightarrow> registry \<Rightarrow> registry \<times> task list \<Rightarrow> bool" where
  "calm i r x \<longleftrightarrow> firm i r (fst x) \<and> settled_tasks (fst x) i (snd x)"


lemma calm_nil [simp]: "calm i r (r1, []) = firm i r r1"
  by (simp add: calm_def settled_tasks_def)
















end
