(* ===== verification/Registry_Connections.thy ===== *)
theory Registry_Connections
  imports Registry_Properties
begin

text \<open>
  The connections of the client registry: what is open belongs to a registered client, in every run in
  which no client is dialled twice at a time.
\<close>

section \<open>Connections\<close>

definition conn_of :: "registry \<Rightarrow> string \<Rightarrow> nat option" where
  "conn_of r i = (case gm_get (rg_clientMap r) i of None \<Rightarrow> None | Some e \<Rightarrow> en_Conn e)"

text \<open>Open connections are those of registered clients, each of one client; a disabled client has none.\<close>

definition conns_ok :: "registry \<Rightarrow> bool" where
  "conns_ok r \<longleftrightarrow> (\<forall>x. x \<in> set (rg_open r) \<longleftrightarrow> (\<exists>i. conn_of r i = Some x))
     \<and> (\<forall>i j x. conn_of r i = Some x \<longrightarrow> conn_of r j = Some x \<longrightarrow> i = j)
     \<and> (\<forall>i e. gm_get (rg_clientMap r) i = Some e \<longrightarrow> en_State e = StateDisabled \<longrightarrow> en_Conn e = None)"

definition shrinks :: "registry \<Rightarrow> registry \<Rightarrow> bool" where
  "shrinks r r' \<longleftrightarrow> (conns_ok r \<longrightarrow> conns_ok r') \<and> (\<forall>i. conn_of r' i = None \<or> conn_of r' i = conn_of r i)"

lemma shrinks_refl [simp]: "shrinks r r"
  by (simp add: shrinks_def)

lemma shrinks_trans: "shrinks r r1 \<Longrightarrow> shrinks r1 r2 \<Longrightarrow> shrinks r r2"
  unfolding shrinks_def by metis

lemma shrinks_same: "rg_clientMap r' = rg_clientMap r \<Longrightarrow> set (rg_open r') = set (rg_open r) \<Longrightarrow> shrinks r r'"
  by (simp add: shrinks_def conns_ok_def conn_of_def)

lemma conns_ok_disabled: "conns_ok r \<Longrightarrow> gm_get (rg_clientMap r) i = Some e \<Longrightarrow> en_State e = StateDisabled \<Longrightarrow> en_Conn e = None"
  by (simp add: conns_ok_def)

lemma shrinks_keep:
  assumes "rg_clientMap r1 = rg_clientMap r" "set (rg_open r1) = set (rg_open r)" "en_Conn e = conn_of r i"
    and "conns_ok r \<Longrightarrow> en_State e = StateDisabled \<Longrightarrow> en_Conn e = None"
  shows "shrinks r (put_client i e r1)"
proof -
  have c: "conn_of (put_client i e r1) = conn_of r" using assms(1,3) by (auto simp: conn_of_def fun_eq_iff)
  then show ?thesis using assms by (auto simp: shrinks_def conns_ok_def)
qed

lemma shrinks_close:
  assumes "conn_of r' = (conn_of r)(i := None)" "set (rg_open r') = set (rg_open r) - {x. conn_of r i = Some x}"
    and "\<And>j e. conns_ok r \<Longrightarrow> gm_get (rg_clientMap r') j = Some e \<Longrightarrow> j \<noteq> i \<Longrightarrow> gm_get (rg_clientMap r) j = Some e"
  shows "shrinks r r'"
proof -
  have "en_Conn e = None" if "conns_ok r" "gm_get (rg_clientMap r') j = Some e" "en_State e = StateDisabled" for j e
  proof (cases "j = i")
    case True
    then have "conn_of r' j = None" using assms(1) by simp
    then show ?thesis using that(2) by (simp add: conn_of_def)
  next
    case False
    then show ?thesis using assms(3) [OF that(1,2)] that(1,3) by (auto dest: conns_ok_disabled)
  qed
  moreover have "x \<in> set (rg_open r') \<longleftrightarrow> (\<exists>j. conn_of r' j = Some x)" if "conns_ok r" for x
  proof -
    have "x \<in> set (rg_open r') \<longleftrightarrow> (\<exists>j. conn_of r j = Some x) \<and> conn_of r i \<noteq> Some x"
      using that assms(2) by (auto simp: conns_ok_def)
    also have "\<dots> \<longleftrightarrow> (\<exists>j. j \<noteq> i \<and> conn_of r j = Some x)" using that unfolding conns_ok_def by metis
    finally show ?thesis using assms(1) by auto
  qed
  moreover have "j = k" if "conns_ok r" "conn_of r' j = Some x" "conn_of r' k = Some x" for j k x
    using that assms(1) unfolding conns_ok_def by (metis fun_upd_apply option.distinct(1))
  ultimately have "conns_ok r \<Longrightarrow> conns_ok r'" unfolding conns_ok_def [of r'] by blast
  then show ?thesis using assms(1) by (simp add: shrinks_def)
qed

lemma close_conn_open [simp]: "set (rg_open (close_conn c r)) = set (rg_open r) - {x. c = Some x}"
  by (auto simp: close_conn_def split: option.split)

lemma shrinks_closing:
  assumes "rg_clientMap r1 = rg_clientMap r" "set (rg_open r1) = set (rg_open r)"
  shows "en_Conn e = None \<Longrightarrow> shrinks r (put_client i e (close_conn (conn_of r i) r1))"
    and "rg_clientMap r2 = gm_del i (rg_clientMap r) \<Longrightarrow> rg_open r2 = rg_open (close_conn (conn_of r i) r1) \<Longrightarrow> shrinks r r2"
proof -
  show "en_Conn e = None \<Longrightarrow> shrinks r (put_client i e (close_conn (conn_of r i) r1))"
    by (rule shrinks_close [where i = i]) (use assms in \<open>auto simp: conn_of_def fun_eq_iff\<close>)
  assume "rg_clientMap r2 = gm_del i (rg_clientMap r)" "rg_open r2 = rg_open (close_conn (conn_of r i) r1)"
  then show "shrinks r r2"
    by (intro shrinks_close [where i = i]) (use assms in \<open>auto simp: conn_of_def fun_eq_iff\<close>)
qed

lemma conn_of_entry [simp]: "gm_get (rg_clientMap r) i = Some e \<Longrightarrow> conn_of r i = en_Conn e"
  by (simp add: conn_of_def)

lemma shrinks_sections:
  "shrinks r (add_restore r a)" "shrinks r (enable_restore r i)" "shrinks r (enable_failed r i)"
  "shrinks r (SetClientTools r i tools mapping)" "st \<noteq> StateDisabled \<Longrightarrow> shrinks r (updateClientState r i st)"
  "shrinks r (sync_end r i tools mapping)" "shrinks r (update_connection_failed r i old)" "shrinks r (boot_recover r a)"
proof -
  have m: "shrinks r r1 \<Longrightarrow> shrinks r (monitor j r1)" for r1 j by (erule shrinks_trans) (rule shrinks_same, simp_all)
  have n: "gm_get (rg_clientMap r) j = None \<Longrightarrow> conn_of r j = None" for j by (simp add: conn_of_def)
  show "shrinks r (add_restore r a)" "shrinks r (enable_restore r i)" "shrinks r (enable_failed r i)"
    "shrinks r (SetClientTools r i tools mapping)" "st \<noteq> StateDisabled \<Longrightarrow> shrinks r (updateClientState r i st)"
    "shrinks r (sync_end r i tools mapping)" "shrinks r (update_connection_failed r i old)" "shrinks r (boot_recover r a)"
    by (auto simp: add_restore_def enable_restore_def enable_failed_def SetClientTools_def updateClientState_def sync_end_def
        update_connection_failed_def boot_recover_def Let_def n conns_ok_disabled split: option.split intro!: m shrinks_keep)
qed

lemma shrinks_partial:
  "add_place r a = Inr r1 \<Longrightarrow> shrinks r r1" "connect_begin r a = Inr r1 \<Longrightarrow> shrinks r r1"
  "RemoveClient r i = Inr r1 \<Longrightarrow> shrinks r r1" "DisableClient r i = Inr r1 \<Longrightarrow> shrinks r r1"
  "enable_begin r i = Inr (b, r1) \<Longrightarrow> shrinks r r1" "UpdateClient r i new = Inr r1 \<Longrightarrow> shrinks r r1"
  "RegisterTool r n d = Inr r1 \<Longrightarrow> shrinks r r1" "allocate c r = (b, r1) \<Longrightarrow> shrinks r r1"
proof -
  have flag: "shrinks r r2 \<Longrightarrow> shrinks r (set_flag b f r2)" for r2 b f by (erule shrinks_trans) (rule shrinks_same, simp_all)
  have none: "gm_get (rg_clientMap r) j = None \<Longrightarrow> conn_of r j = None" for j by (simp add: conn_of_def)
  show "add_place r a = Inr r1 \<Longrightarrow> shrinks r r1"
    by (auto simp: add_place_def Let_def none split: if_splits intro!: shrinks_keep)
  show "connect_begin r a = Inr r1 \<Longrightarrow> shrinks r r1"
  proof (cases "gm_get (rg_clientMap r) (config_id r a)")
    case None
    assume "connect_begin r a = Inr r1"
    then show ?thesis using None by (auto simp: connect_begin_def Let_def none intro!: shrinks_keep)
  next
    case (Some e)
    assume "connect_begin r a = Inr r1"
    then show ?thesis
      using Some shrinks_closing(1) [where r = r and ?r1.0 = r and i = "config_id r a" and e = "blank (rg_configs r a) a StateDisconnected"]
      by (auto simp: connect_begin_def Let_def split: if_splits)
  qed
  show "RemoveClient r i = Inr r1 \<Longrightarrow> shrinks r r1"
    using shrinks_closing(2) [where r = r and ?r1.0 = "stop_workers i r" and i = i]
    by (auto simp: RemoveClient_def Let_def split: option.splits)
  show "DisableClient r i = Inr r1 \<Longrightarrow> shrinks r r1"
    using shrinks_closing(1) [where r = r and ?r1.0 = "stop_workers i r" and i = i]
    by (auto simp: DisableClient_def split: option.splits if_splits intro!: flag)
  show "enable_begin r i = Inr (b, r1) \<Longrightarrow> shrinks r r1"
    by (auto simp: enable_begin_def split: option.splits if_splits intro!: flag)
  show "UpdateClient r i new = Inr r1 \<Longrightarrow> shrinks r r1"
    by (auto simp: UpdateClient_def allocate_def conns_ok_disabled split: option.splits if_splits intro!: shrinks_keep)
  show "RegisterTool r n d = Inr r1 \<Longrightarrow> shrinks r r1"
    by (auto simp: RegisterTool_def Let_def conns_ok_disabled split: option.splits if_splits intro!: shrinks_keep)
  show "allocate c r = (b, r1) \<Longrightarrow> shrinks r r1"
    by (rule shrinks_same) (auto simp: allocate_def)
qed

text \<open>What the dial of a task knows: its client has no connection until the dial stores one.\<close>

fun dial_id :: "registry \<Rightarrow> task \<Rightarrow> string list" where
  "dial_id r (Dialling o1 a) = [config_id r a]"
| "dial_id r (AddFailed a b) = [config_id r a]"
| "dial_id r _ = []"

definition dials_free :: "registry \<Rightarrow> task list \<Rightarrow> bool" where
  "dials_free r ts \<longleftrightarrow> (\<forall>t \<in> set ts. \<forall>i \<in> set (dial_id r t). conn_of r i = None)"

definition exclusive :: "system \<Rightarrow> bool" where
  "exclusive s \<longleftrightarrow> distinct (concat (map (dial_id (sy_registry s)) (sy_tasks s)))"

fun exclusive_run :: "int \<Rightarrow> label list \<Rightarrow> system \<Rightarrow> bool" where
  "exclusive_run g [] s = exclusive s"
| "exclusive_run g (l # ls) s =
     (exclusive s \<and> (case system_step g l s of None \<Rightarrow> True | Some s' \<Rightarrow> exclusive_run g ls s'))"

definition tidy :: "registry \<Rightarrow> registry \<times> task list \<Rightarrow> bool" where
  "tidy r x \<longleftrightarrow> shrinks r (fst x) \<and> dials_free (fst x) (snd x)"

lemma tidy_nil: "shrinks r r1 \<Longrightarrow> tidy r (r1, [])"
  by (simp add: tidy_def dials_free_def)

lemma tidy_task: "shrinks r r1 \<Longrightarrow> \<forall>i \<in> set (dial_id r1 t). conn_of r1 i = None \<Longrightarrow> tidy r (r1, [t])"
  by (simp add: tidy_def dials_free_def)

lemma shrinks_outer:
  assumes "shrinks r r1"
  shows "shrinks r (release_guard j r1)" "shrinks r (take_guard j r1)" "shrinks r (start_workers g r1 a)"
  using assms by (auto intro!: shrinks_trans [OF assms] shrinks_same)

lemma after_failure_tidy:
  assumes "shrinks r r1" "conn_of r1 (config_id r1 a) = None"
  shows "tidy r (after_failure r1 o1 a)"
  using assms by (auto simp: after_failure_def split: origin.split intro!: tidy_nil tidy_task shrinks_outer)

lemma connect_begin_conn:
  "connect_begin r a = Inr r1 \<Longrightarrow> conn_of r1 (config_id r1 a) = None \<and> rg_configs r1 = rg_configs r"
  by (auto simp: connect_begin_def conn_of_def Let_def split: if_splits option.splits)

lemma connect_begin_refused:
  "connect_begin r a = Inl e \<Longrightarrow> conns_ok r \<Longrightarrow> conn_of r (config_id r a) = None"
  by (auto simp: connect_begin_def conn_of_def Let_def split: if_splits option.splits dest: conns_ok_disabled)

lemma add_failed_shrinks:
  assumes "conn_of r (config_id r a) = None"
  shows "shrinks r (add_failed r a)"
  by (rule shrinks_close [where i = "config_id r a"]) (use assms in \<open>auto simp: add_failed_def conn_of_def fun_eq_iff split: if_splits\<close>)

lemma advance_tidy:
  assumes "advance g r t = Some x" "conns_ok r" "\<forall>i \<in> set (dial_id r t). conn_of r i = None"
  shows "tidy r x"
proof (cases t)
  case (Begin o1 a)
  then show ?thesis
    using assms connect_begin_refused [of r a] connect_begin_conn [of r a]
    by (cases "connect_begin r a") (auto simp: advance_def intro!: after_failure_tidy tidy_task dest: shrinks_partial(2))
next
  case (AddFailed a b)
  then show ?thesis using assms add_failed_shrinks [of r a]
    by (auto simp: advance_def boot_task_def intro!: tidy_nil tidy_task)
qed (use assms(1) in \<open>auto simp: advance_def boot_task_def finished_def split: sum.splits if_splits
       intro!: tidy_nil tidy_task shrinks_outer shrinks_sections dest: shrinks_partial\<close>)

lemma shrinks_none: "shrinks r r' \<Longrightarrow> conn_of r i = None \<Longrightarrow> conn_of r' i = None"
  unfolding shrinks_def by metis

lemma shrinks_wipe:
  assumes "shrinks r r1" "\<And>i. conn_of r1 i = None"
  shows "shrinks r (r1\<lparr>rg_clientMap := []\<rparr>) \<and> (conns_ok r \<longrightarrow> rg_open (r1\<lparr>rg_clientMap := []\<rparr>) = [])"
proof -
  have "conns_ok r \<Longrightarrow> rg_open r1 = []" using assms by (auto simp: shrinks_def conns_ok_def)
  then show ?thesis by (auto simp: shrinks_def conns_ok_def conn_of_def)
qed

lemma fold_shrinks:
  assumes one: "\<And>r i. shrinks r (f i r) \<and> conn_of (f i r) i = None"
  shows "shrinks r (fold f is r) \<and> (\<forall>i \<in> set is. conn_of (fold f is r) i = None)"
proof (induction "is" arbitrary: r)
  case (Cons i "is")
  from Cons [of "f i r"] have s: "shrinks (f i r) (fold f is (f i r))" by blast
  show ?case using shrinks_trans [OF _ s, of r] shrinks_none [OF s, of i] one [of r i] Cons [of "f i r"] by simp
qed simp

lemma mcp_Cleanup_shrinks: "shrinks r (mcp_Cleanup r) \<and> (conns_ok r \<longrightarrow> rg_open (mcp_Cleanup r) = [])"
proof -
  let ?rm = "\<lambda>i r. case RemoveClient r i of Inl e \<Rightarrow> r | Inr r' \<Rightarrow> r'"
  have one: "shrinks r1 (?rm i r1) \<and> conn_of (?rm i r1) i = None" for r1 i
  proof (cases "gm_get (rg_clientMap r1) i")
    case None
    then show ?thesis by (simp add: RemoveClient_def conn_of_def)
  next
    case (Some e)
    then obtain r2 where r2: "RemoveClient r1 i = Inr r2" "gm_get (rg_clientMap r2) i = None"
      by (simp add: RemoveClient_def Let_def)
    from shrinks_partial(3) [OF r2(1)] show ?thesis unfolding r2(1) conn_of_def by (simp add: r2(2))
  qed
  from fold_shrinks [of ?rm, OF one]
  have all: "shrinks r1 (fold ?rm is r1) \<and> (\<forall>i \<in> set is. conn_of (fold ?rm is r1) i = None)" for "is" r1 .
  let ?start = "r\<lparr>rg_monitors := [], rg_syncers := []\<rparr>" and ?ids = "map fst (rg_clientMap r)"
  let ?wiped = "fold ?rm ?ids ?start"
  have s: "shrinks r ?wiped" using all [of ?start ?ids] by (rule_tac shrinks_trans [of _ ?start]) (simp_all add: shrinks_same)
  have none: "conn_of ?wiped i = None" for i
  proof (cases "i \<in> set ?ids")
    case False
    then have "gm_get (rg_clientMap r) i = None" by (simp add: map_of_eq_None_iff)
    then have "conn_of r i = None" by (simp add: conn_of_def)
    then show ?thesis by (rule shrinks_none [OF s])
  qed (use all [of ?start ?ids] in blast)
  show ?thesis unfolding mcp_Cleanup_def Let_def by (rule shrinks_wipe [OF s none])
qed

lemma call_tidy: "tidy r (call r l)"
proof (cases l)
  case (SetTools i tm)
  then show ?thesis by (cases tm) (auto simp: call_def intro!: tidy_nil shrinks_sections)
next
  case (UpdateConnection i h oa)
  then show ?thesis
    by (auto simp: call_def update_connection_begin_def Let_def split: sum.splits if_splits option.splits prod.splits
        intro!: tidy_nil tidy_task shrinks_outer dest: shrinks_partial)
qed (use mcp_Cleanup_shrinks [of r] in \<open>auto simp: call_def boot_task_def StateConnected_def StateDisconnected_def StateDisabled_def
       split: sum.splits option.splits prod.splits intro!: tidy_nil tidy_task shrinks_outer shrinks_sections dest: shrinks_partial\<close>)

lemma failed_end_shrinks:
  assumes "connect_end r a conn tools mapping = Inl (e, r1)" "\<forall>x. conn = Some x \<longrightarrow> x \<notin> set (rg_open r)"
  shows "shrinks r r1 \<and> rg_configs r1 = rg_configs r \<and> conn_of r1 = conn_of r"
proof -
  have "rg_clientMap r1 = rg_clientMap r" "set (rg_open r1) = set (rg_open r)" "rg_configs r1 = rg_configs r"
    using assms by (auto simp: connect_end_def open_conn_def Let_def split: option.splits if_splits)
  then show ?thesis by (simp add: shrinks_same conn_of_def fun_eq_iff)
qed

lemma connect_end_opens:
  assumes "connect_end r a conn tools mapping = Inr r1" "\<forall>x. conn = Some x \<longrightarrow> x \<notin> set (rg_open r)"
    and "conns_ok r" "conn_of r (config_id r a) = None"
  shows "conns_ok r1" "conn_of r1 = (conn_of r)(config_id r a := conn)"
proof -
  let ?i = "config_id r a"
  obtain e where e: "gm_get (rg_clientMap r) ?i = Some e"
      "r1 = put_client ?i (e\<lparr>en_Conn := conn, en_State := StateConnected, en_ToolMap := add_tools tools (en_ToolMap e),
         en_ToolNameMapping := mapping\<rparr>) (open_conn conn r)"
    using assms(1) by (auto simp: connect_end_def Let_def split: option.splits if_splits)
  show c: "conn_of r1 = (conn_of r)(?i := conn)" using e by (auto simp: conn_of_def fun_eq_iff)
  have o: "set (rg_open r1) = set (rg_open r) \<union> {x. conn = Some x}" using e(2) by (auto simp: open_conn_def split: option.split)
  have d: "en_Conn x = None" if "gm_get (rg_clientMap r1) j = Some x" "en_State x = StateDisabled" for j x
    using that e(2) assms(3) by (auto simp: conns_ok_disabled split: if_splits)
  have "x \<in> set (rg_open r1) \<longleftrightarrow> (\<exists>j. conn_of r1 j = Some x)" for x
  proof -
    have "x \<in> set (rg_open r) \<longleftrightarrow> (\<exists>j. j \<noteq> ?i \<and> conn_of r j = Some x)"
      using assms(3,4) unfolding conns_ok_def by (metis option.distinct(1))
    then show ?thesis unfolding c o by auto
  qed
  moreover have "j = k" if "conn_of r1 j = Some x" "conn_of r1 k = Some x" for j k x
    using that assms(2,3) unfolding c conns_ok_def by (auto split: if_splits)
  ultimately show "conns_ok r1" using d unfolding conns_ok_def by blast
qed

lemma dials_free_grow:
  assumes "grows r r'" "\<forall>t \<in> set ts. task_ok r t" "dials_free r ts" "\<forall>t \<in> set ts. \<forall>i \<in> set (dial_id r t). conn_of r' i = None \<or> conn_of r' i = conn_of r i"
  shows "dials_free r' ts"
proof -
  have "dial_id r' t = dial_id r t" if "task_ok r t" for t
    using that grows_id [OF assms(1)] by (cases t) (auto simp: points_def)
  then show ?thesis using assms(2-4) by (force simp: dials_free_def)
qed

lemma with_tasks_tidy:
  assumes "tidy r x" "good r i x" "conns_ok r" "\<forall>t \<in> set ts. task_ok r t" "dials_free r ts"
  shows "conns_ok (sy_registry (with_tasks ts x)) \<and> dials_free (sy_registry (with_tasks ts x)) (sy_tasks (with_tasks ts x))"
proof -
  have "dials_free (fst x) ts"
    by (rule dials_free_grow [OF _ assms(4,5)]) (use assms(1,2) in \<open>auto simp: good_def section_keeps_def tidy_def shrinks_def\<close>)
  then show ?thesis using assms(1,3) by (auto simp: tidy_def shrinks_def dials_free_def with_tasks_def)
qed

lemma dial_ids_once:
  assumes "exclusive s" "Dialling o1 a \<in> set (sy_tasks s)" "t \<in> set (remove1 (Dialling o1 a) (sy_tasks s))"
  shows "config_id (sy_registry s) a \<notin> set (dial_id (sy_registry s) t)"
proof -
  let ?r = "sy_registry s"
  obtain xs ys where x: "sy_tasks s = xs @ Dialling o1 a # ys" "Dialling o1 a \<notin> set xs"
    using split_list_first [OF assms(2)] by blast
  then have "remove1 (Dialling o1 a) (sy_tasks s) = xs @ ys" by (simp add: remove1_append)
  then show ?thesis using assms(1,3) unfolding exclusive_def x(1) by auto
qed

lemma dial_ends_tidy:
  assumes "exclusive s" "Dialling o1 a \<in> set (sy_tasks s)" "system_ok s" "label_ok (DialEnds o1 a d)"
    and "conns_ok (sy_registry s)" "dials_free (sy_registry s) (sy_tasks s)"
    and "case d of DialOk (Some x) _ _ \<Rightarrow> x \<notin> set (rg_open (sy_registry s)) | _ \<Rightarrow> True"
  defines "s' \<equiv> with_tasks (remove1 (Dialling o1 a) (sy_tasks s)) (dial_ends (sy_registry s) o1 a d)"
  shows "conns_ok (sy_registry s') \<and> dials_free (sy_registry s') (sy_tasks s')"
proof -
  let ?r = "sy_registry s" and ?ts = "remove1 (Dialling o1 a) (sy_tasks s)"
  have ok: "\<forall>t \<in> set (sy_tasks s). task_ok ?r t" using assms(3) by (simp add: system_ok_def)
  have rest: "\<forall>t \<in> set ?ts. task_ok ?r t" "dials_free ?r ?ts"
    using set_remove1_in [OF ok] assms(6) by (auto simp: dials_free_def dest: notin_set_remove1)
  have none: "conn_of ?r (config_id ?r a) = None" using assms(2,6) by (auto simp: dials_free_def)
  have good: "good ?r (config_id ?r a) (dial_ends ?r o1 a d)" by (rule dial_ends_good) (use assms(2,4) ok in auto)
  show ?thesis
  proof (cases "\<exists>conn tools mapping r1. d = DialOk conn tools mapping \<and> connect_end ?r a conn tools mapping = Inr r1")
    case False
    have "tidy ?r (dial_ends ?r o1 a d)"
    proof (cases d)
      case DialFailed
      then show ?thesis using none by (simp add: dial_ends_def after_failure_tidy)
    next
      case (DialOk conn tools mapping)
      then obtain e r1 where x: "connect_end ?r a conn tools mapping = Inl (e, r1)"
        using False by (cases "connect_end ?r a conn tools mapping") auto
      have "shrinks ?r r1 \<and> rg_configs r1 = rg_configs ?r \<and> conn_of r1 = conn_of ?r"
        by (rule failed_end_shrinks [OF x]) (use assms(7) DialOk in auto)
      then show ?thesis using x DialOk none by (simp add: dial_ends_def after_failure_tidy)
    qed
    from with_tasks_tidy [OF this good assms(5) rest] show ?thesis unfolding s'_def .
  next
    case True
    then obtain conn tools mapping r1 where x: "d = DialOk conn tools mapping" "connect_end ?r a conn tools mapping = Inr r1" by blast
    have c: "conns_ok r1" "conn_of r1 = (conn_of ?r)(config_id ?r a := conn)"
      by (rule connect_end_opens [OF x(2) _ assms(5) none], use assms(7) x(1) in auto)+
    have "grows ?r r1" using good x by (simp add: dial_ends_def good_def section_keeps_def)
    then have "dials_free r1 ?ts"
      by (rule dials_free_grow [OF _ rest]) (use c(2) dial_ids_once [OF assms(1,2)] in auto)
    then show ?thesis using c(1) x by (simp add: s'_def with_tasks_def dial_ends_def dials_free_def)
  qed
qed

lemma system_step_tidy:
  assumes "system_step g l s = Some s'" "system_ok s" "label_ok l" "exclusive s"
    and "conns_ok (sy_registry s)" "dials_free (sy_registry s) (sy_tasks s)"
  shows "conns_ok (sy_registry s') \<and> dials_free (sy_registry s') (sy_tasks s')"
proof -
  let ?r = "sy_registry s" and ?ts = "sy_tasks s"
  have ok: "registry_ok ?r" "\<forall>t \<in> set ?ts. task_ok ?r t" using assms(2) by (auto simp: system_ok_def)
  have rest: "\<forall>t \<in> set (remove1 t ?ts). task_ok ?r t" "dials_free ?r (remove1 t ?ts)" for t
    using set_remove1_in [OF ok(2)] assms(6) by (auto simp: dials_free_def dest: notin_set_remove1)
  have call: ?thesis if "system_step g l s = Some (with_tasks ?ts (call ?r l))"
    using that assms(1) call_good [OF ok(1) assms(3)] with_tasks_tidy [OF call_tidy _ assms(5) ok(2) assms(6)] by auto
  show ?thesis
  proof (cases l)
    case (Advance t)
    then obtain x where x: "t \<in> set ?ts" "advance g ?r t = Some x" "s' = with_tasks (remove1 t ?ts) x"
      using assms(1) by (auto simp: system_step_def Let_def split: if_splits)
    have "\<forall>i \<in> set (dial_id ?r t). conn_of ?r i = None" "task_ok ?r t" using x(1) assms(6) ok(2) by (auto simp: dials_free_def)
    from with_tasks_tidy [OF advance_tidy [OF x(2) assms(5) this(1)] advance_good [OF this(2) x(2)] assms(5) rest]
    show ?thesis unfolding x(3) .
  next
    case (DialEnds o1 a d)
    then have x: "Dialling o1 a \<in> set ?ts" "s' = with_tasks (remove1 (Dialling o1 a) ?ts) (dial_ends ?r o1 a d)"
        "case d of DialOk (Some x) _ _ \<Rightarrow> x \<notin> set (rg_open ?r) | _ \<Rightarrow> True"
      using assms(1) by (auto simp: system_step_def Let_def split: if_splits)
    show ?thesis unfolding x(2)
      by (rule dial_ends_tidy [OF assms(4) x(1) assms(2) _ assms(5,6) x(3)]) (use assms(3) DialEnds in simp)
  next
    case (SyncEnds j n answer)
    let ?x = "(case answer of None \<Rightarrow> ?r | Some (tools, mapping) \<Rightarrow> sync_end ?r j tools mapping, [])"
    have x: "s' = with_tasks (remove1 (Sync j n) ?ts) ?x"
      using assms(1) SyncEnds by (simp add: system_step_def Let_def split: if_splits)
    have "good ?r j ?x" using assms(3) SyncEnds by (auto intro!: good_nil sync_end_keeps split: option.split)
    moreover have "tidy ?r ?x" by (auto intro!: tidy_nil shrinks_sections split: option.split)
    ultimately show ?thesis unfolding x using with_tasks_tidy assms(5) rest by blast
  qed (use call in \<open>simp_all add: system_step_def Let_def\<close>)
qed

lemma system_run_tidy:
  "system_run g ls s = Some s' \<Longrightarrow> system_ok s \<Longrightarrow> \<forall>l \<in> set ls. label_ok l \<Longrightarrow> exclusive_run g ls s \<Longrightarrow>
    conns_ok (sy_registry s) \<Longrightarrow> dials_free (sy_registry s) (sy_tasks s) \<Longrightarrow> conns_ok (sy_registry s')"
proof (induction ls arbitrary: s)
  case (Cons l ls)
  then obtain s1 where s1: "system_step g l s = Some s1" "system_run g ls s1 = Some s'" by (auto split: option.splits)
  then show ?case using Cons system_step_ok [of g l s s1] system_step_tidy [of g l s s1] by auto
qed simp

text \<open>
  C37: No connection leaks: in a run in which at no time two calls for one client are dialling it or have still to roll
  back its failed add, in whatever order calls,
  dials and checks interleave, the open connections are those of the registered clients, each of one
  client, and cleaning up closes them all. Without the condition connections leak, by two dials at once
  (\<open>adding_and_reconnecting_leaks\<close>) and by a rollback after another dial (\<open>rollback_drops_reconnected_client\<close>).
\<close>

theorem connections_accounted:
  assumes "system_run g ls \<lparr>sy_registry = r0, sy_tasks = []\<rparr> = Some s" "registry_ok r0" "conns_ok r0"
    and "\<forall>l \<in> set ls. label_ok l" "exclusive_run g ls \<lparr>sy_registry = r0, sy_tasks = []\<rparr>"
  shows "(\<forall>x. x \<in> set (rg_open (sy_registry s)) \<longleftrightarrow> (\<exists>i e. gm_get (rg_clientMap (sy_registry s)) i = Some e \<and> en_Conn e = Some x))
    \<and> (\<forall>i j e e' x. gm_get (rg_clientMap (sy_registry s)) i = Some e \<longrightarrow> gm_get (rg_clientMap (sy_registry s)) j = Some e' \<longrightarrow>
          en_Conn e = Some x \<longrightarrow> en_Conn e' = Some x \<longrightarrow> i = j)
    \<and> rg_open (mcp_Cleanup (sy_registry s)) = []"
proof -
  have c: "conns_ok (sy_registry s)"
    by (rule system_run_tidy [OF assms(1) _ assms(4,5)]) (simp_all add: assms(2,3) system_ok_def dials_free_def)
  have "conn_of (sy_registry s) i = Some x \<longleftrightarrow> (\<exists>e. gm_get (rg_clientMap (sy_registry s)) i = Some e \<and> en_Conn e = Some x)" for i x
    by (simp add: conn_of_def split: option.split)
  then show ?thesis using c mcp_Cleanup_shrinks [of "sy_registry s"] by (auto simp: conns_ok_def)
qed

end
