(* ===== verification/Health_Monitor.thy ===== *)
theory Health_Monitor
  imports Client_Registry
begin

text \<open>
  The health monitor of an MCP client, after core/mcp/healthmonitor.go: the checks of its loop, the
  reconnect it starts in the background, and what both do to the registry of clients. A check reads the
  registry, probes the server without the lock and writes the registry; its two registries differ by what
  happened in between.
\<close>

record health_monitor =
  hm_clientID :: string
  hm_maxConsecutiveFailures :: int
  hm_isMonitoring :: bool
  hm_consecutiveFailures :: int
  hm_isReconnecting :: bool

definition MaxConsecutiveFailures :: int where "MaxConsecutiveFailures = 5"

definition NewClientHealthMonitor :: "string \<Rightarrow> health_monitor" where
  "NewClientHealthMonitor clientID = \<lparr>hm_clientID = clientID, hm_maxConsecutiveFailures = MaxConsecutiveFailures,
     hm_isMonitoring = False, hm_consecutiveFailures = 0, hm_isReconnecting = False\<rparr>"

definition hm_Start :: "registry \<Rightarrow> health_monitor \<Rightarrow> health_monitor" where
  "hm_Start r m =
     (if hm_isMonitoring m then m
      else if gm_get (rg_clientMap r) (hm_clientID m) = None then m
      else m\<lparr>hm_isMonitoring := True\<rparr>)"

definition hm_Stop :: "health_monitor \<Rightarrow> health_monitor" where
  "hm_Stop m = m\<lparr>hm_isMonitoring := False\<rparr>"

definition incrementFailures :: "health_monitor \<Rightarrow> health_monitor" where
  "incrementFailures m = m\<lparr>hm_consecutiveFailures := hm_consecutiveFailures m + 1\<rparr>"

definition resetFailures :: "health_monitor \<Rightarrow> health_monitor" where
  "resetFailures m = m\<lparr>hm_consecutiveFailures := 0\<rparr>"

text \<open>
  The part of a check before the probe: \<^verbatim>\<open>Inl\<close> when it returns, with the monitor stopped for a client that
  is gone or disabled, \<^verbatim>\<open>Inr\<close> with the connection and the name to probe.
\<close>

definition check_begin :: "registry \<Rightarrow> health_monitor \<Rightarrow> health_monitor + nat option \<times> string" where
  "check_begin r m =
     (if hm_isReconnecting m then Inl m
      else case gm_get (rg_clientMap r) (hm_clientID m) of
        None \<Rightarrow> Inl (hm_Stop m)
      | Some e \<Rightarrow> if en_State e = StateDisabled then Inl (hm_Stop m) else Inr (en_Conn e, cl_Name (config_of r e)))"

text \<open>A client without a connection fails its check.\<close>

definition probe_ok :: "(nat \<Rightarrow> string \<Rightarrow> bool) \<Rightarrow> nat option \<times> string \<Rightarrow> bool" where
  "probe_ok probe x = (case fst x of None \<Rightarrow> False | Some conn \<Rightarrow> probe conn (snd x))"

text \<open>The part behind the probe, with the flag that says whether it starts a reconnect in the background.\<close>

definition check_end :: "registry \<Rightarrow> health_monitor \<Rightarrow> bool \<Rightarrow> registry \<times> health_monitor \<times> bool" where
  "check_end r m ok =
     (if ok then (updateClientState r (hm_clientID m) StateConnected, resetFailures m, False)
      else
        let m1 = incrementFailures m in
        if hm_consecutiveFailures m1 \<ge> hm_maxConsecutiveFailures m1 then
          (updateClientState r (hm_clientID m) StateDisconnected, m1\<lparr>hm_isReconnecting := True\<rparr>, \<not> hm_isReconnecting m1)
        else (r, m1, False))"

definition performHealthCheck ::
    "registry \<Rightarrow> (nat \<Rightarrow> string \<Rightarrow> bool) \<Rightarrow> registry \<Rightarrow> health_monitor \<Rightarrow> registry \<times> health_monitor \<times> bool" where
  "performHealthCheck r probe r' m =
     (case check_begin r m of Inl m1 \<Rightarrow> (r', m1, False) | Inr x \<Rightarrow> check_end r' m (probe_ok probe x))"

text \<open>
  The reconnect in the background: the call it makes, if any, and the monitor when it is through;
  \<^verbatim>\<open>None\<close> is the success of \<^verbatim>\<open>ReconnectClient\<close>.
\<close>

definition attempt_skipped :: "registry \<Rightarrow> health_monitor \<Rightarrow> bool" where
  "attempt_skipped r m =
     (case gm_get (rg_clientMap r) (hm_clientID m) of None \<Rightarrow> False | Some e \<Rightarrow> en_State e = StateDisabled)"

definition attempt_call :: "registry \<Rightarrow> health_monitor \<Rightarrow> label option" where
  "attempt_call r m = (if attempt_skipped r m then None else Some (Reconnect (hm_clientID m)))"

definition attemptReconnect :: "registry \<Rightarrow> err option \<Rightarrow> health_monitor \<Rightarrow> health_monitor" where
  "attemptReconnect r res m =
     (if \<not> attempt_skipped r m \<and> res = None then resetFailures m else m)\<lparr>hm_isReconnecting := False\<rparr>"

section \<open>The life of a monitor\<close>

text \<open>
  A monitor checks while it runs, one check after the other; a reconnect ends once it was started, also
  after the monitor was stopped. The history has the newest outcome first: a probe that was answered or a
  reconnect that succeeded, or a failed check.
\<close>

datatype monitor_event =
    Check registry "nat \<Rightarrow> string \<Rightarrow> bool" registry
  | AttemptEnds registry "err option"
  | StopCalled

definition check_outcome :: "registry \<Rightarrow> (nat \<Rightarrow> string \<Rightarrow> bool) \<Rightarrow> health_monitor \<Rightarrow> bool list" where
  "check_outcome r probe m = (case check_begin r m of Inl m1 \<Rightarrow> [] | Inr x \<Rightarrow> [probe_ok probe x])"

definition monitor_step :: "monitor_event \<Rightarrow> health_monitor \<times> bool list \<Rightarrow> (health_monitor \<times> bool list) option" where
  "monitor_step ev s =
     (case (ev, s) of
        (Check r probe r', m, h) \<Rightarrow>
          if hm_isMonitoring m then
            (case performHealthCheck r probe r' m of (r'', m', started) \<Rightarrow> Some (m', check_outcome r probe m @ h))
          else None
      | (AttemptEnds r res, m, h) \<Rightarrow>
          if hm_isReconnecting m then
            Some (attemptReconnect r res m, if attempt_skipped r m \<or> res \<noteq> None then h else True # h)
          else None
      | (StopCalled, m, h) \<Rightarrow> Some (hm_Stop m, h))"

fun monitor_run :: "monitor_event list \<Rightarrow> health_monitor \<times> bool list \<Rightarrow> (health_monitor \<times> bool list) option" where
  "monitor_run [] s = Some s"
| "monitor_run (ev # evs) s = (case monitor_step ev s of None \<Rightarrow> None | Some s' \<Rightarrow> monitor_run evs s')"

section \<open>Five failures in a row\<close>

definition counts_failures :: "health_monitor \<times> bool list \<Rightarrow> bool" where
  "counts_failures s \<longleftrightarrow> hm_maxConsecutiveFailures (fst s) = 5 \<and> hm_consecutiveFailures (fst s) = int (length (takeWhile Not (snd s)))"

lemma fresh_counts: "counts_failures (hm_Start r (NewClientHealthMonitor i), [])"
  by (simp add: counts_failures_def hm_Start_def NewClientHealthMonitor_def MaxConsecutiveFailures_def)

lemma check_begin_Inl: "check_begin r m = Inl m1 \<Longrightarrow> m1 = m \<or> m1 = hm_Stop m"
  by (auto simp: check_begin_def split: option.splits if_splits)

lemma monitor_step_counts:
  assumes "monitor_step ev s = Some s'" "counts_failures s"
  shows "counts_failures s' \<and> hm_clientID (fst s') = hm_clientID (fst s)"
proof -
  obtain m h where s: "s = (m, h)" by (cases s)
  show ?thesis
  proof (cases ev)
    case (Check r probe r')
    then show ?thesis using assms unfolding s
      by (cases "check_begin r m") (auto simp: monitor_step_def performHealthCheck_def check_outcome_def counts_failures_def
          check_end_def Let_def incrementFailures_def resetFailures_def hm_Stop_def dest!: check_begin_Inl split: if_splits)
  qed (use assms s in \<open>auto simp: monitor_step_def counts_failures_def attemptReconnect_def resetFailures_def hm_Stop_def
         split: if_splits\<close>)
qed

lemma monitor_run_counts:
  "monitor_run evs s = Some s' \<Longrightarrow> counts_failures s \<Longrightarrow> counts_failures s' \<and> hm_clientID (fst s') = hm_clientID (fst s)"
proof (induction evs arbitrary: s)
  case (Cons ev evs)
  then obtain s1 where "monitor_step ev s = Some s1" "monitor_run evs s1 = Some s'" by (auto split: option.splits)
  then show ?case using Cons monitor_step_counts by metis
qed simp

lemma failures_in_a_row: "length (takeWhile Not h) \<ge> n \<longleftrightarrow> take n h = replicate n False \<and> n \<le> length h"
proof (induction n arbitrary: h)
  case (Suc n)
  show ?case by (cases h) (auto simp: Suc)
qed simp

lemma updateClientState_call:
  "updateClientState r i (if up then StateConnected else StateDisconnected) = fst (call r (Health i up))"
  by (simp add: call_def)

text \<open>
  C38: Health: a check that probes the server starts a reconnect exactly when it and the four outcomes
  before it are failures, no reconnect of this monitor being under way; then and only then it marks the
  client disconnected. What a check does to the registry is a step of the registry.
\<close>

theorem monitor_reconnects_after_five_failures:
  assumes "monitor_run evs (hm_Start r0 (NewClientHealthMonitor i), []) = Some (m, h)" "check_begin r m = Inr x"
    and "performHealthCheck r probe r' m = (r'', m', started)"
  shows "(started \<longleftrightarrow> \<not> probe_ok probe x \<and> take 4 h = [False, False, False, False]) \<and> \<not> hm_isReconnecting m \<and> hm_isReconnecting m' = started
    \<and> (if probe_ok probe x \<or> started
       then system_step g (Health i (probe_ok probe x)) \<lparr>sy_registry = r', sy_tasks = ts\<rparr> = Some \<lparr>sy_registry = r'', sy_tasks = ts\<rparr>
       else r'' = r')"
proof -
  have c: "counts_failures (m, h)" "hm_clientID m = i"
    using monitor_run_counts [OF assms(1) fresh_counts] by (auto simp: hm_Start_def NewClientHealthMonitor_def)
  have free: "\<not> hm_isReconnecting m" using assms(2) by (auto simp: check_begin_def)
  have four: "take 4 h = replicate 4 False \<and> 4 \<le> length h \<longleftrightarrow> take 4 h = [False, False, False, False]"
    by (auto simp: eval_nat_numeral dest: arg_cong [of _ _ length])
  have "hm_consecutiveFailures m + 1 \<ge> hm_maxConsecutiveFailures m \<longleftrightarrow> take 4 h = [False, False, False, False]"
    using c(1) failures_in_a_row [of 4 h] four by (auto simp: counts_failures_def)
  moreover have "check_end r' m (probe_ok probe x) = (r'', m', started)"
    using assms(2,3) by (simp add: performHealthCheck_def)
  ultimately show ?thesis using free c(2)
    by (auto simp: check_end_def Let_def incrementFailures_def resetFailures_def system_step_def with_tasks_def call_def split: if_splits)
qed

end
