(* ===== verification/Registry_Runs.thy ===== *)
theory Registry_Runs
  imports Registry_Connections Health_Monitor
begin

text \<open>
  Concrete runs of the client registry: what the general properties say of them, and where the code does
  not do what it means to.
\<close>

section \<open>A server that is added, reconnected and disabled\<close>

definition notes_server :: ClientConfig where
  "notes_server = \<lparr>cl_ID = ''c1'', cl_Name = ''notes'', cl_IsCodeModeClient = False, cl_ConnectionType = ''http'',
     cl_ConnectionString = Some ''https://notes'', cl_AuthType = ''headers'', cl_ToolsToExecute = Some [''*''],
     cl_ToolsToAutoExecute = None, cl_Disabled = False, cl_StdioConfig = None, cl_InProcessServer = None,
     cl_OauthConfigID = None, cl_PerUserHeaderKeys = [], cl_Headers = None, cl_ToolSyncInterval = 0,
     cl_DiscoveredTools = [], cl_DiscoveredToolNameMapping = []\<rparr>"

definition notes_tools :: "(string, ChatTool) gomap" where
  "notes_tools = [(''notes-get_user'', \<lparr>tl_Function = Some (''notes-get_user'', ''reads a user'')\<rparr>)]"

definition no_clients :: registry where
  "no_clients = \<lparr>rg_clientMap = [], rg_configs = (\<lambda>_. notes_server), rg_next = 0, rg_reconnecting = [], rg_monitors = [],
     rg_syncers = [], rg_open = []\<rparr>"

definition adding :: "bool \<Rightarrow> label list" where
  "adding boot = [Add notes_server boot, Advance (Place 0 boot), Advance (Begin (ByAdd boot) 0)]"

definition added :: "label list" where
  "added = adding False @ [DialEnds (ByAdd False) 0 (DialOk (Some 1) notes_tools []), Advance (Dialled (ByAdd False) 0)]"

definition reconnecting :: "label list" where
  "reconnecting = added @ [Reconnect ''c1'', Advance (Begin ByReconnect 0)]"

text \<open>The state a run ends in, as a test on its registry and its tasks.\<close>

definition run_ends :: "label list \<Rightarrow> (registry \<Rightarrow> task list \<Rightarrow> bool) \<Rightarrow> bool" where
  "run_ends ls P = (case system_run 0 ls \<lparr>sy_registry = no_clients, sy_tasks = []\<rparr> of None \<Rightarrow> False
     | Some s \<Rightarrow> P (sy_registry s) (sy_tasks s))"

lemma run_endsE:
  assumes "run_ends ls P"
  obtains s where "system_run 0 ls \<lparr>sy_registry = no_clients, sy_tasks = []\<rparr> = Some s" "P (sy_registry s) (sy_tasks s)"
  using assms by (auto simp: run_ends_def split: option.splits)


lemma system_eta: "\<lparr>sy_registry = sy_registry s, sy_tasks = sy_tasks s\<rparr> = s"
  by simp

definition client_is :: "registry \<Rightarrow> string \<Rightarrow> (registered \<Rightarrow> bool) \<Rightarrow> bool" where
  "client_is r i P = (case gm_get (rg_clientMap r) i of None \<Rightarrow> False | Some e \<Rightarrow> P e)"



lemma no_clients_ok: "registry_ok no_clients" "rg_reconnecting no_clients = []" "conns_ok no_clients"
  by (simp_all add: registry_ok_def no_clients_def notes_server_def conns_ok_def conn_of_def)

lemma added_ok: "\<forall>l \<in> set added. label_ok l" "\<forall>l \<in> set reconnecting. label_ok l"
  by (auto simp: added_def reconnecting_def adding_def notes_server_def notes_tools_def named_tools_def)

theorem registry_stays_well_formed_witness:
  "run_ends added (\<lambda>r ts. \<exists>e. gm_get (rg_clientMap r) ''c1'' = Some e \<and> cl_ID (config_of r e) = ''c1'' \<and> en_ToolMap e \<noteq> [])"
proof -
  have "run_ends added (\<lambda>r ts. client_is r ''c1'' (\<lambda>e. en_ToolMap e \<noteq> []))" by code_simp
  then obtain s where s: "system_run 0 added \<lparr>sy_registry = no_clients, sy_tasks = []\<rparr> = Some s"
      "client_is (sy_registry s) ''c1'' (\<lambda>e. en_ToolMap e \<noteq> [])" by (rule run_endsE)
  from registry_stays_well_formed [OF s(1) no_clients_ok(1) added_ok(1)] s(2) show ?thesis
    by (simp add: run_ends_def s(1) client_is_def split: option.splits) blast
qed

theorem guarded_client_left_alone_witness:
  "run_ends reconnecting (\<lambda>r ts. ts \<noteq> [] \<and> system_step 0 (Disable ''c1'') \<lparr>sy_registry = r, sy_tasks = ts\<rparr> = Some \<lparr>sy_registry = r, sy_tasks = ts\<rparr>)"
proof -
  have "run_ends reconnecting (\<lambda>r ts. Dialling ByReconnect 0 \<in> set ts \<and> guard_id r (Dialling ByReconnect 0) = [''c1''])" by code_simp
  then obtain s where s: "system_run 0 reconnecting \<lparr>sy_registry = no_clients, sy_tasks = []\<rparr> = Some s"
      "Dialling ByReconnect 0 \<in> set (sy_tasks s)" "guard_id (sy_registry s) (Dialling ByReconnect 0) = [''c1'']"
    by (auto elim: run_endsE)
  have "''c1'' \<in> set (guard_id (sy_registry s) (Dialling ByReconnect 0))" unfolding s(3) by simp
  from guarded_client_left_alone [OF s(1) no_clients_ok(1,2) added_ok(2) s(2) this]
  have "system_step 0 (Disable ''c1'') s = Some s" by blast
  moreover have "sy_tasks s \<noteq> []" using s(2) by auto
  ultimately show ?thesis unfolding run_ends_def s(1) option.case system_eta by blast
qed


theorem connections_accounted_witness:
  "run_ends reconnecting (\<lambda>r ts. rg_open r = [] \<and> rg_open (mcp_Cleanup r) = [])"
proof -
  have "run_ends reconnecting (\<lambda>r ts. rg_open r = [])" by code_simp
  then obtain s where s: "system_run 0 reconnecting \<lparr>sy_registry = no_clients, sy_tasks = []\<rparr> = Some s" "rg_open (sy_registry s) = []"
    by (rule run_endsE)
  have "exclusive_run 0 reconnecting \<lparr>sy_registry = no_clients, sy_tasks = []\<rparr>" by code_simp
  from connections_accounted [OF s(1) no_clients_ok(1,3) added_ok(2) this] show ?thesis by (simp add: run_ends_def s)
qed

section \<open>A server that does not answer\<close>

definition unreachable :: registry where
  "unreachable = no_clients\<lparr>rg_clientMap := [(''c1'', (blank notes_server 0 StateConnected)\<lparr>en_Conn := Some 1\<rparr>)],
     rg_next := 1, rg_open := [1]\<rparr>"

definition failed_check :: monitor_event where
  "failed_check = Check unreachable (\<lambda>conn n. False) unreachable"

definition worried :: health_monitor where
  "worried = \<lparr>hm_clientID = ''c1'', hm_maxConsecutiveFailures = 5, hm_isMonitoring = True, hm_consecutiveFailures = 4,
     hm_isReconnecting = False\<rparr>"

theorem monitor_reconnects_after_five_failures_witness:
  "snd (snd (performHealthCheck unreachable (\<lambda>conn n. False) unreachable worried))"
proof -
  have run: "monitor_run [failed_check, failed_check, failed_check, failed_check]
      (hm_Start unreachable (NewClientHealthMonitor ''c1''), []) = Some (worried, [False, False, False, False])" by code_simp
  have b: "check_begin unreachable worried = Inr (Some 1, ''notes'')" by code_simp
  obtain r'' m' started where c: "performHealthCheck unreachable (\<lambda>conn n. False) unreachable worried = (r'', m', started)"
    by (cases "performHealthCheck unreachable (\<lambda>conn n. False) unreachable worried")
  from monitor_reconnects_after_five_failures [OF run b c] show ?thesis by (simp add: c probe_ok_def)
qed

section \<open>Where the code does not do what it means to\<close>

text \<open>
  Setting the tools of a disabled client, which the update of its OAuth credentials does, marks it
  connected: its tools are offered again while its configuration says disabled.
\<close>

lemma setting_tools_revives_disabled_client:
  "run_ends (added @ [Disable ''c1'', SetTools ''c1'' (notes_tools, [])]) (\<lambda>r ts.
     client_is r ''c1'' (\<lambda>e. en_State e = StateConnected \<and> cl_Disabled (config_of r e) \<and> en_ToolMap e = notes_tools) \<and> ts = [])"
  by code_simp

text \<open>
  A client that is disabled while it is being added is deleted: the dial is rolled back, as it should be,
  but the failure of the dial then removes the disabled entry.
\<close>

lemma disabling_during_add_deletes_client:
  "run_ends (adding False @ [Disable ''c1'', DialEnds (ByAdd False) 0 (DialOk (Some 1) notes_tools []), Advance (AddFailed 0 False)])
     (\<lambda>r ts. rg_clientMap r = [] \<and> rg_open r = [] \<and> ts = [])"
  by code_simp

text \<open>
  At boot it is worse: the recovery of failed clients registers the client again, as disconnected, and
  monitors it, so that the next reconnect brings the disabled client up.
\<close>

lemma disabling_during_boot_is_undone:
  "run_ends (adding True @ [Disable ''c1'', DialEnds (ByAdd True) 0 (DialOk (Some 1) notes_tools []), Advance (AddFailed 0 True),
       Advance (Recover 0), Reconnect ''c1'', Advance (Begin ByReconnect 0), DialEnds ByReconnect 0 (DialOk (Some 2) notes_tools [])])
     (\<lambda>r ts. client_is r ''c1'' (\<lambda>e. en_State e = StateConnected \<and> en_Conn e = Some 2 \<and> cl_Disabled (config_of r e)))"
  by code_simp

text \<open>
  Adding a client does not take its guard, so a reconnect can dial it at the same time; the connection
  stored first is overwritten without being closed, and no later clean-up reaches it.
\<close>

lemma adding_and_reconnecting_leaks:
  "run_ends (adding False @ [Reconnect ''c1'', Advance (Begin ByReconnect 0),
       DialEnds (ByAdd False) 0 (DialOk (Some 1) notes_tools []), DialEnds ByReconnect 0 (DialOk (Some 2) notes_tools [])])
     (\<lambda>r ts. client_is r ''c1'' (\<lambda>e. en_Conn e = Some 2) \<and> set (rg_open r) = {1, 2} \<and> rg_open (mcp_Cleanup r) = [1])"
  by code_simp

text \<open>
  A failed add is rolled back by a section of its own. A reconnect in between connects the client; the rollback drops its
  entry and leaves the connection open, where no clean-up finds it.
\<close>

lemma rollback_drops_reconnected_client:
  "run_ends (adding False @ [DialEnds (ByAdd False) 0 DialFailed, Reconnect ''c1'', Advance (Begin ByReconnect 0),
       DialEnds ByReconnect 0 (DialOk (Some 2) notes_tools []), Advance (AddFailed 0 False)])
     (\<lambda>r ts. rg_clientMap r = [] \<and> rg_open r = [2] \<and> rg_open (mcp_Cleanup r) = [2])"
  by code_simp

text \<open>
  Enabling clears the flag in one section and takes the guard in a later one. An update in between is accepted, and the
  dial then writes the configuration from before; two enablings can wait for the guard at once.
\<close>

definition enabling :: "label list" where
  "enabling = added @ [Disable ''c1'', Enable ''c1'']"

lemma update_during_enabling_is_undone:
  "let renamed = enabling @ [Update ''c1'' (notes_server\<lparr>cl_Name := ''mail''\<rparr>)] in
   run_ends renamed (\<lambda>r ts. client_is r ''c1'' (\<lambda>e. en_Name e = ''mail'' \<and> cl_Name (config_of r e) = ''mail''))
   \<and> run_ends (renamed @ [Advance (EnableGuard ''c1'' 0), Advance (Begin ByEnable 0), DialEnds ByEnable 0 (DialOk (Some 2) notes_tools [])])
       (\<lambda>r ts. client_is r ''c1'' (\<lambda>e. en_State e = StateConnected \<and> en_Name e = ''notes'' \<and> cl_Name (config_of r e) = ''notes''))"
  by code_simp

lemma two_enablings_pending:
  "run_ends (enabling @ [Enable ''c1'']) (\<lambda>r ts. ts = [EnableGuard ''c1'' 0, EnableGuard ''c1'' 0])"
  by code_simp

text \<open>
  Removing a client does not take the guard either: a reconnect that has read the configuration before
  registers and connects the client again after it was removed.
\<close>

lemma removed_client_comes_back:
  "run_ends (added @ [Reconnect ''c1'', Remove ''c1'', Advance (Begin ByReconnect 0),
       DialEnds ByReconnect 0 (DialOk (Some 2) notes_tools [])])
     (\<lambda>r ts. client_is r ''c1'' (\<lambda>e. en_State e = StateConnected \<and> en_Conn e = Some 2))"
  by code_simp

text \<open>
  A boot configuration that fails validation is registered and monitored all the same, here with the
  hyphen in its name that the validation refuses since tools are told apart by it.
\<close>

lemma invalid_boot_client_registered:
  "validateMCPClientConfig (notes_server\<lparr>cl_Name := ''my-notes''\<rparr>) \<noteq> None
   \<and> run_ends [Add (notes_server\<lparr>cl_Name := ''my-notes''\<rparr>) True, Advance (Recover 0)]
       (\<lambda>r ts. client_is r ''c1'' (\<lambda>e. en_Name e = ''my-notes'' \<and> en_State e = StateDisconnected) \<and> rg_monitors r = [''c1''])"
  by code_simp

text \<open>A listing that was asked for under the old name of a client is stored after the client was renamed.\<close>

lemma sync_stores_tools_of_old_name:
  "run_ends (added @ [SyncTick ''c1'', Update ''c1'' (notes_server\<lparr>cl_Name := ''mail''\<rparr>), SyncEnds ''c1'' ''notes'' (Some (notes_tools, []))])
     (\<lambda>r ts. client_is r ''c1'' (\<lambda>e. en_Name e = ''mail'' \<and> map fst (en_ToolMap e) = [''notes-get_user'']))"
  by code_simp

end
