(* ===== verification/Pricing_Rates.thy ===== *)
theory Pricing_Rates
  imports Governance_Tables
begin

text \<open>
  The rates of a model, after framework/modelcatalog/datasheet/cost.go and types.go with
  configstore/tables/modelpricing.go: which rate of a pricing row applies to a category of tokens, by the
  size of the prompt and by the service tier.

  A row has some seventy optional columns with prices. They are a map from the names of the Go fields, so
  that the code's tests for nil are lookups. Prices are exact rationals, as the finite values of \<open>f64\<close>
  are; the datasheet is JSON and has no others. Counts of tokens are integers and far from overflow.
\<close>

section \<open>Rows\<close>

type_synonym rates = "string \<Rightarrow> rat option"

record TableModelPricing =
  mp_MaxInputTokens :: "int option"
  mp_MaxOutputTokens :: "int option"
  mp_rates :: rates

definition no_rates :: rates where
  "no_rates = (\<lambda>_. None)"

definition zero_row :: TableModelPricing where
  "zero_row = \<lparr>mp_MaxInputTokens = None, mp_MaxOutputTokens = None, mp_rates = no_rates\<rparr>"

record serviceTier =
  isPriority :: bool
  isFlex :: bool
  isFast :: bool
  inferenceGeoUS :: bool

definition standardTier :: serviceTier where
  "standardTier = \<lparr>isPriority = False, isFlex = False, isFast = False, inferenceGeoUS = False\<rparr>"

definition tierFromResponse :: "string option \<Rightarrow> string option \<Rightarrow> string option \<Rightarrow> serviceTier" where
  "tierFromResponse s speed inferenceGeo =
     \<lparr>isPriority = (s = Some ''priority''), isFlex = (s = Some ''flex''), isFast = (speed = Some ''fast''),
      inferenceGeoUS = (case inferenceGeo of None \<Rightarrow> False | Some g \<Rightarrow> equalFold g ''us'')\<rparr>"

definition TokenTierAbove272K :: int where "TokenTierAbove272K = 272000"
definition TokenTierAbove200K :: int where "TokenTierAbove200K = 200000"
definition TokenTierAbove128K :: int where "TokenTierAbove128K = 128000"

section \<open>Choosing a rate\<close>

text \<open>
  The code chooses a rate by a cascade of tests, each for a condition and for the price of a column, that
  returns the price. \<open>cascade\<close> is such a cascade: the conditions and their columns in the order of the code.
\<close>

fun cascade :: "rates \<Rightarrow> (bool \<times> string) list \<Rightarrow> rat option" where
  "cascade m [] = None"
| "cascade m ((b, column) # steps) = (if b \<and> m column \<noteq> None then m column else cascade m steps)"

definition rate_or :: "rat \<Rightarrow> rat option \<Rightarrow> rat" where
  "rate_or d r = (case r of None \<Rightarrow> d | Some x \<Rightarrow> x)"

definition tieredInputRate :: "TableModelPricing \<Rightarrow> int \<Rightarrow> serviceTier \<Rightarrow> rat" where
  "tieredInputRate pricing totalTokens tier = rate_or 0 (cascade (mp_rates pricing)
     [(isFast tier, ''InputCostPerTokenFast''),
      (isFlex tier \<and> totalTokens > TokenTierAbove272K, ''InputCostPerTokenFlexAbove272kTokens''),
      (isFlex tier, ''InputCostPerTokenFlex''),
      (totalTokens > TokenTierAbove272K \<and> isPriority tier, ''InputCostPerTokenAbove272kTokensPriority''),
      (totalTokens > TokenTierAbove272K, ''InputCostPerTokenAbove272kTokens''),
      (totalTokens > TokenTierAbove200K \<and> isPriority tier, ''InputCostPerTokenAbove200kTokensPriority''),
      (totalTokens > TokenTierAbove200K, ''InputCostPerTokenAbove200kTokens''),
      (totalTokens > TokenTierAbove128K, ''InputCostPerTokenAbove128kTokens''),
      (isPriority tier, ''InputCostPerTokenPriority''),
      (True, ''InputCostPerToken'')])"

definition tieredOutputRate :: "TableModelPricing \<Rightarrow> int \<Rightarrow> serviceTier \<Rightarrow> rat" where
  "tieredOutputRate pricing totalTokens tier = rate_or 0 (cascade (mp_rates pricing)
     [(isFast tier, ''OutputCostPerTokenFast''),
      (isFlex tier \<and> totalTokens > TokenTierAbove272K, ''OutputCostPerTokenFlexAbove272kTokens''),
      (isFlex tier, ''OutputCostPerTokenFlex''),
      (totalTokens > TokenTierAbove272K \<and> isPriority tier, ''OutputCostPerTokenAbove272kTokensPriority''),
      (totalTokens > TokenTierAbove272K, ''OutputCostPerTokenAbove272kTokens''),
      (totalTokens > TokenTierAbove200K \<and> isPriority tier, ''OutputCostPerTokenAbove200kTokensPriority''),
      (totalTokens > TokenTierAbove200K, ''OutputCostPerTokenAbove200kTokens''),
      (totalTokens > TokenTierAbove128K, ''OutputCostPerTokenAbove128kTokens''),
      (isPriority tier, ''OutputCostPerTokenPriority''),
      (True, ''OutputCostPerToken'')])"

definition tieredImageInputRate :: "TableModelPricing \<Rightarrow> int \<Rightarrow> serviceTier \<Rightarrow> rat" where
  "tieredImageInputRate pricing totalTokens tier = rate_or (tieredInputRate pricing totalTokens tier) (cascade (mp_rates pricing)
     [(totalTokens > TokenTierAbove128K, ''InputCostPerImageAbove128kTokens''),
      (True, ''InputCostPerImageToken'')])"

definition tieredImageOutputRate :: "TableModelPricing \<Rightarrow> int \<Rightarrow> serviceTier \<Rightarrow> rat" where
  "tieredImageOutputRate pricing totalTokens tier =
     rate_or (tieredOutputRate pricing totalTokens tier) (cascade (mp_rates pricing) [(True, ''OutputCostPerImageToken'')])"

definition tieredAudioInputPerSecondRate :: "TableModelPricing \<Rightarrow> int \<Rightarrow> rat" where
  "tieredAudioInputPerSecondRate pricing totalTokens = rate_or 0 (cascade (mp_rates pricing)
     [(totalTokens > TokenTierAbove128K, ''InputCostPerAudioPerSecondAbove128kTokens''),
      (True, ''InputCostPerAudioPerSecond''),
      (True, ''InputCostPerSecond'')])"

definition tieredVideoInputPerSecondRate :: "TableModelPricing \<Rightarrow> int \<Rightarrow> rat" where
  "tieredVideoInputPerSecondRate pricing totalTokens = rate_or 0 (cascade (mp_rates pricing)
     [(totalTokens > TokenTierAbove128K, ''InputCostPerVideoPerSecondAbove128kTokens''),
      (True, ''InputCostPerVideoPerSecond'')])"

definition tieredAudioTokenInputRate :: "TableModelPricing \<Rightarrow> int \<Rightarrow> serviceTier \<Rightarrow> rat" where
  "tieredAudioTokenInputRate pricing totalTokens tier =
     rate_or (tieredInputRate pricing totalTokens tier) (cascade (mp_rates pricing) [(True, ''InputCostPerAudioToken'')])"

definition tieredAudioTokenOutputRate :: "TableModelPricing \<Rightarrow> int \<Rightarrow> serviceTier \<Rightarrow> rat" where
  "tieredAudioTokenOutputRate pricing totalTokens tier =
     rate_or (tieredOutputRate pricing totalTokens tier) (cascade (mp_rates pricing) [(True, ''OutputCostPerAudioToken'')])"

definition tieredCacheReadInputTokenRate :: "TableModelPricing \<Rightarrow> int \<Rightarrow> serviceTier \<Rightarrow> rat" where
  "tieredCacheReadInputTokenRate pricing totalTokens tier = rate_or (tieredInputRate pricing totalTokens tier) (cascade (mp_rates pricing)
     [(isFast tier, ''CacheReadInputTokenCostFast''),
      (isFlex tier \<and> totalTokens > TokenTierAbove272K, ''CacheReadInputTokenCostFlexAbove272kTokens''),
      (isFlex tier, ''CacheReadInputTokenCostFlex''),
      (totalTokens > TokenTierAbove272K \<and> isPriority tier, ''CacheReadInputTokenCostAbove272kTokensPriority''),
      (totalTokens > TokenTierAbove272K, ''CacheReadInputTokenCostAbove272kTokens''),
      (totalTokens > TokenTierAbove200K \<and> isPriority tier, ''CacheReadInputTokenCostAbove200kTokensPriority''),
      (totalTokens > TokenTierAbove200K, ''CacheReadInputTokenCostAbove200kTokens''),
      (isPriority tier, ''CacheReadInputTokenCostPriority''),
      (True, ''CacheReadInputTokenCost'')])"

definition tieredCacheCreationInputTokenRate :: "TableModelPricing \<Rightarrow> int \<Rightarrow> serviceTier \<Rightarrow> rat" where
  "tieredCacheCreationInputTokenRate pricing totalTokens tier = rate_or (tieredInputRate pricing totalTokens tier) (cascade (mp_rates pricing)
     [(isFast tier, ''CacheCreationInputTokenCostFast''),
      (isFlex tier \<and> totalTokens > TokenTierAbove272K, ''CacheCreationInputTokenCostFlexAbove272kTokens''),
      (isFlex tier, ''CacheCreationInputTokenCostFlex''),
      (isPriority tier, ''CacheCreationInputTokenCostPriority''),
      (totalTokens > TokenTierAbove272K, ''CacheCreationInputTokenCostAbove272kTokens''),
      (totalTokens > TokenTierAbove200K, ''CacheCreationInputTokenCostAbove200kTokens''),
      (True, ''CacheCreationInputTokenCost'')])"

definition tieredCacheCreationInputAbove1hrTokenRate :: "TableModelPricing \<Rightarrow> int \<Rightarrow> serviceTier \<Rightarrow> rat" where
  "tieredCacheCreationInputAbove1hrTokenRate pricing totalTokens tier =
     rate_or (tieredCacheCreationInputTokenRate pricing totalTokens tier) (cascade (mp_rates pricing)
     [(isFast tier, ''CacheCreationInputTokenCostAbove1hrFast''),
      (totalTokens > TokenTierAbove200K, ''CacheCreationInputTokenCostAbove1hrAbove200kTokens''),
      (True, ''CacheCreationInputTokenCostAbove1hr'')])"

section \<open>Facts about cascades\<close>

lemma cascade_Some: "cascade m steps = Some x \<Longrightarrow> \<exists>column. (True, column) \<in> set steps \<and> m column = Some x"
proof (induction steps)
  case (Cons step steps)
  then show ?case by (cases step) (auto split: if_splits)
qed simp

text \<open>A row whose prices are not negative has no negative rate.\<close>

definition priced_fairly :: "TableModelPricing \<Rightarrow> bool" where
  "priced_fairly pricing \<longleftrightarrow> (\<forall>column x. mp_rates pricing column = Some x \<longrightarrow> 0 \<le> x)"

lemma cascade_nonneg:
  assumes "priced_fairly pricing" "0 \<le> d"
  shows "0 \<le> rate_or d (cascade (mp_rates pricing) steps)"
  using assms cascade_Some [of "mp_rates pricing" steps]
  by (auto simp: rate_or_def priced_fairly_def split: option.split)

lemma rates_nonneg:
  assumes "priced_fairly pricing"
  shows "0 \<le> tieredInputRate pricing n tier" "0 \<le> tieredOutputRate pricing n tier"
    "0 \<le> tieredImageInputRate pricing n tier" "0 \<le> tieredImageOutputRate pricing n tier"
    "0 \<le> tieredAudioInputPerSecondRate pricing n" "0 \<le> tieredVideoInputPerSecondRate pricing n"
    "0 \<le> tieredAudioTokenInputRate pricing n tier" "0 \<le> tieredAudioTokenOutputRate pricing n tier"
    "0 \<le> tieredCacheReadInputTokenRate pricing n tier" "0 \<le> tieredCacheCreationInputTokenRate pricing n tier"
    "0 \<le> tieredCacheCreationInputAbove1hrTokenRate pricing n tier"
proof -
  note c = cascade_nonneg [OF assms]
  show i: "0 \<le> tieredInputRate pricing n tier" and o: "0 \<le> tieredOutputRate pricing n tier"
    unfolding tieredInputRate_def tieredOutputRate_def by (rule c, simp)+
  show "0 \<le> tieredImageInputRate pricing n tier" "0 \<le> tieredImageOutputRate pricing n tier"
    "0 \<le> tieredAudioTokenInputRate pricing n tier" "0 \<le> tieredAudioTokenOutputRate pricing n tier"
    "0 \<le> tieredCacheReadInputTokenRate pricing n tier"
    unfolding tieredImageInputRate_def tieredImageOutputRate_def tieredAudioTokenInputRate_def tieredAudioTokenOutputRate_def
      tieredCacheReadInputTokenRate_def
    by (rule c, rule i o)+
  show w: "0 \<le> tieredCacheCreationInputTokenRate pricing n tier"
    unfolding tieredCacheCreationInputTokenRate_def by (rule c [OF i])
  show "0 \<le> tieredCacheCreationInputAbove1hrTokenRate pricing n tier"
    unfolding tieredCacheCreationInputAbove1hrTokenRate_def by (rule c [OF w])
  show "0 \<le> tieredAudioInputPerSecondRate pricing n" "0 \<le> tieredVideoInputPerSecondRate pricing n"
    unfolding tieredAudioInputPerSecondRate_def tieredVideoInputPerSecondRate_def by (rule c, simp)+
qed

end
