(* ===== verification/Cost_Computation.thy ===== *)
theory Cost_Computation
  imports Pricing_Rates Token_Usage
begin

text \<open>
  What a response costs by its usage, after framework/modelcatalog/datasheet/cost.go: the usage the code
  reads from a response and the price of each kind of request by the rates of a row.
\<close>

section \<open>Usage\<close>

record ImageTokenDetails =
  id_NImages :: int
  id_ImageTokens :: int
  id_TextTokens :: int

record ImageUsage =
  iu_InputTokens :: int
  iu_InputTokensDetails :: "ImageTokenDetails option"
  iu_TotalTokens :: int
  iu_OutputTokens :: int
  iu_OutputTokensDetails :: "ImageTokenDetails option"
  iu_NumInputImages :: int

record AudioTokenDetails =
  ad_TextTokens :: int
  ad_AudioTokens :: int

record costInput =
  ci_usage :: "BifrostLLMUsage option"
  ci_audioTextInputChars :: int
  ci_audioSeconds :: "int option"
  ci_audioTokenDetails :: "AudioTokenDetails option"
  ci_imageUsage :: "ImageUsage option"
  ci_imageSize :: string
  ci_imageQuality :: string
  ci_videoSeconds :: "int option"
  ci_ocrProcessedPages :: "int option"
  ci_ocrIsAnnotated :: "bool option"
  ci_containerIdentifierString :: string
  ci_tier :: serviceTier

definition no_input :: costInput where
  "no_input = \<lparr>ci_usage = None, ci_audioTextInputChars = 0, ci_audioSeconds = None, ci_audioTokenDetails = None, ci_imageUsage = None,
     ci_imageSize = [], ci_imageQuality = [], ci_videoSeconds = None, ci_ocrProcessedPages = None, ci_ocrIsAnnotated = None,
     ci_containerIdentifierString = [], ci_tier = standardTier\<rparr>"

definition no_usage :: BifrostLLMUsage where
  "no_usage = \<lparr>us_PromptTokens = 0, us_PromptTokensDetails = None, us_CompletionTokens = 0, us_CompletionTokensDetails = None,
     us_TotalTokens = 0, us_Cost = None, us_Speed = None, us_InferenceGeo = None, us_ServerSideFallbackModel = None\<rparr>"

definition no_image_details :: ImageTokenDetails where
  "no_image_details = \<lparr>id_NImages = 0, id_ImageTokens = 0, id_TextTokens = 0\<rparr>"

definition no_image_usage :: ImageUsage where
  "no_image_usage = \<lparr>iu_InputTokens = 0, iu_InputTokensDetails = None, iu_TotalTokens = 0, iu_OutputTokens = 0,
     iu_OutputTokensDetails = None, iu_NumInputImages = 0\<rparr>"

section \<open>Text\<close>

abbreviation price :: "TableModelPricing \<Rightarrow> string \<Rightarrow> rat option" where
  "price pricing column \<equiv> mp_rates pricing column"

text \<open>The cached tokens of a prompt: read, written, and written for an hour, clamped to the prompt.\<close>

definition cached_counts :: "BifrostLLMUsage \<Rightarrow> int \<times> int \<times> int" where
  "cached_counts usage =
     (let promptTokens = us_PromptTokens usage;
          (read, written, written1h) =
            (case us_PromptTokensDetails usage of None \<Rightarrow> (0, 0, 0)
             | Some d \<Rightarrow> (pd_CachedReadTokens d, pd_CachedWriteTokens d,
                 case pd_CachedWriteTokenDetails d of None \<Rightarrow> 0 | Some (_, h) \<Rightarrow> h));
          read1 = (if read > promptTokens then promptTokens else read);
          written1 = (if written > promptTokens - read1 then promptTokens - read1 else written)
      in (read1, written1, if written1h > written1 then written1 else written1h))"

definition text_input_cost :: "TableModelPricing \<Rightarrow> BifrostLLMUsage \<Rightarrow> serviceTier \<Rightarrow> rat" where
  "text_input_cost pricing usage tier =
     (let promptTokens = us_PromptTokens usage;
          (read, written, written1h) = cached_counts usage;
          cost0 = of_int (promptTokens - read - written) * tieredInputRate pricing promptTokens tier;
          cost1 = (if read > 0 then cost0 + of_int read * tieredCacheReadInputTokenRate pricing promptTokens tier else cost0)
      in if written > 0 then
           (if written1h > 0 then cost1 + of_int written1h * tieredCacheCreationInputAbove1hrTokenRate pricing promptTokens tier else cost1)
           + of_int (written - written1h) * tieredCacheCreationInputTokenRate pricing promptTokens tier
         else cost1)"

definition clamped :: "int \<Rightarrow> int \<Rightarrow> int" where
  "clamped n limit = (if n < 0 then 0 else if n > limit then limit else n)"

definition audio_correction :: "TableModelPricing \<Rightarrow> BifrostLLMUsage \<Rightarrow> serviceTier \<Rightarrow> rat" where
  "audio_correction pricing usage tier =
     (let n = us_PromptTokens usage;
          inAudio = clamped (case us_PromptTokensDetails usage of None \<Rightarrow> 0 | Some d \<Rightarrow> pd_AudioTokens d) n;
          outAudio = clamped (case us_CompletionTokensDetails usage of None \<Rightarrow> 0 | Some d \<Rightarrow> cd_AudioTokens d) (us_CompletionTokens usage);
          c1 = (case price pricing ''InputCostPerAudioToken'' of
                  Some x \<Rightarrow> if inAudio > 0 then of_int inAudio * (x - tieredInputRate pricing n tier) else 0 | None \<Rightarrow> 0)
      in case price pricing ''OutputCostPerAudioToken'' of
           Some x \<Rightarrow> if outAudio > 0 then c1 + of_int outAudio * (x - tieredOutputRate pricing n tier) else c1
         | None \<Rightarrow> c1)"

definition search_cost :: "TableModelPricing \<Rightarrow> BifrostLLMUsage \<Rightarrow> rat" where
  "search_cost pricing usage =
     (case (price pricing ''SearchContextCostPerQuery'', us_CompletionTokensDetails usage) of
        (Some x, Some d) \<Rightarrow> (case cd_NumSearchQueries d of Some q \<Rightarrow> of_int q * x | None \<Rightarrow> 0)
      | _ \<Rightarrow> 0)"

definition computeTextCost :: "TableModelPricing \<Rightarrow> BifrostLLMUsage option \<Rightarrow> serviceTier \<Rightarrow> rat" where
  "computeTextCost pricing usage tier =
     (case usage of None \<Rightarrow> 0
      | Some u \<Rightarrow>
          let tokenCost = text_input_cost pricing u tier
                + of_int (us_CompletionTokens u) * tieredOutputRate pricing (us_PromptTokens u) tier
                + audio_correction pricing u tier;
              scaled = (case price pricing ''InferenceGeoUSMultiplier'' of
                  Some x \<Rightarrow> if inferenceGeoUS tier then tokenCost * x else tokenCost | None \<Rightarrow> tokenCost)
          in scaled + search_cost pricing u)"

definition computeEmbeddingCost :: "TableModelPricing \<Rightarrow> BifrostLLMUsage option \<Rightarrow> serviceTier \<Rightarrow> rat" where
  "computeEmbeddingCost pricing usage tier =
     (case usage of None \<Rightarrow> 0 | Some u \<Rightarrow> of_int (us_PromptTokens u) * tieredInputRate pricing (us_PromptTokens u) tier)"

definition computeRerankCost :: "TableModelPricing \<Rightarrow> BifrostLLMUsage option \<Rightarrow> serviceTier \<Rightarrow> rat" where
  "computeRerankCost pricing usage tier =
     (case usage of None \<Rightarrow> 0
      | Some u \<Rightarrow> of_int (us_PromptTokens u) * tieredInputRate pricing (us_PromptTokens u) tier
          + of_int (us_CompletionTokens u) * tieredOutputRate pricing (us_PromptTokens u) tier + search_cost pricing u)"

section \<open>Audio\<close>

definition inputTierTokens :: "BifrostLLMUsage option \<Rightarrow> int" where
  "inputTierTokens usage = (case usage of None \<Rightarrow> 0 | Some u \<Rightarrow> us_PromptTokens u)"

definition completion_tokens :: "BifrostLLMUsage option \<Rightarrow> int" where
  "completion_tokens usage = (case usage of None \<Rightarrow> 0 | Some u \<Rightarrow> us_CompletionTokens u)"

abbreviation positive :: "int option \<Rightarrow> int" where
  "positive n \<equiv> (case n of None \<Rightarrow> 0 | Some k \<Rightarrow> max 0 k)"

definition computeAudioOutputCost ::
    "TableModelPricing \<Rightarrow> BifrostLLMUsage option \<Rightarrow> int option \<Rightarrow> int \<Rightarrow> serviceTier \<Rightarrow> rat" where
  "computeAudioOutputCost pricing usage audioSeconds totalTokens tier =
     (if completion_tokens usage > 0 then of_int (completion_tokens usage) * tieredAudioTokenOutputRate pricing totalTokens tier
      else if positive audioSeconds > 0 then
        (case price pricing ''OutputCostPerSecond'' of Some x \<Rightarrow> of_int (positive audioSeconds) * x | None \<Rightarrow> 0)
      else 0)"

definition computeSpeechCost ::
    "TableModelPricing \<Rightarrow> BifrostLLMUsage option \<Rightarrow> int option \<Rightarrow> int \<Rightarrow> serviceTier \<Rightarrow> rat" where
  "computeSpeechCost pricing usage audioSeconds audioTextInputChars tier =
     (let tierTokens = inputTierTokens usage;
          inputCost =
            (if audioTextInputChars > 0 then
               (case price pricing ''InputCostPerCharacter'' of
                  Some x \<Rightarrow> of_int audioTextInputChars * x
                | None \<Rightarrow> of_int audioTextInputChars * tieredInputRate pricing tierTokens tier)
             else if inputTierTokens usage > 0 then of_int (inputTierTokens usage) * tieredInputRate pricing tierTokens tier
             else 0)
      in inputCost + computeAudioOutputCost pricing usage audioSeconds tierTokens tier)"

text \<open>The input of audio without a breakdown of its tokens: tokens first, then seconds.\<close>

definition generic_audio_input ::
    "TableModelPricing \<Rightarrow> BifrostLLMUsage option \<Rightarrow> int option \<Rightarrow> int \<Rightarrow> serviceTier \<Rightarrow> rat" where
  "generic_audio_input pricing usage audioSeconds totalTokens tier =
     (if inputTierTokens usage > 0 then of_int (inputTierTokens usage) * tieredInputRate pricing totalTokens tier
      else if positive audioSeconds > 0 \<and> tieredAudioInputPerSecondRate pricing totalTokens > 0 then
        of_int (positive audioSeconds) * tieredAudioInputPerSecondRate pricing totalTokens
      else 0)"

definition computeAudioInputCost ::
    "TableModelPricing \<Rightarrow> BifrostLLMUsage option \<Rightarrow> int option \<Rightarrow> AudioTokenDetails option \<Rightarrow> int \<Rightarrow> serviceTier \<Rightarrow> rat" where
  "computeAudioInputCost pricing usage audioSeconds audioTokenDetails totalTokens tier =
     (case audioTokenDetails of
        Some d \<Rightarrow>
          if ad_AudioTokens d > 0 \<or> ad_TextTokens d > 0 then
            of_int (ad_AudioTokens d) * tieredAudioTokenInputRate pricing totalTokens tier
            + of_int (ad_TextTokens d) * tieredInputRate pricing totalTokens tier
          else generic_audio_input pricing usage audioSeconds totalTokens tier
      | None \<Rightarrow> generic_audio_input pricing usage audioSeconds totalTokens tier)"

definition computeTranscriptionCost ::
    "TableModelPricing \<Rightarrow> BifrostLLMUsage option \<Rightarrow> int option \<Rightarrow> AudioTokenDetails option \<Rightarrow> serviceTier \<Rightarrow> rat" where
  "computeTranscriptionCost pricing usage audioSeconds audioTokenDetails tier =
     (let tierTokens = inputTierTokens usage in
      computeAudioInputCost pricing usage audioSeconds audioTokenDetails tierTokens tier
      + (if completion_tokens usage > 0 then of_int (completion_tokens usage) * tieredOutputRate pricing tierTokens tier else 0))"

section \<open>Images\<close>

definition imageOutputTokens :: "ImageUsage \<Rightarrow> int" where
  "imageOutputTokens usage =
     (case iu_OutputTokensDetails usage of Some d \<Rightarrow> id_TextTokens d + id_ImageTokens d | None \<Rightarrow> iu_OutputTokens usage)"

definition imageInputTierTokens :: "ImageUsage \<Rightarrow> int" where
  "imageInputTierTokens usage =
     (case iu_InputTokensDetails usage of
        Some d \<Rightarrow> id_TextTokens d + id_ImageTokens d
      | None \<Rightarrow>
          if iu_InputTokens usage > 0 then iu_InputTokens usage
          else if iu_TotalTokens usage > imageOutputTokens usage then iu_TotalTokens usage - imageOutputTokens usage
          else 0)"

text \<open>\<^verbatim>\<open>strconv.Atoi\<close>: an optional sign, digits, and a value of 64 bits.\<close>

definition digits_value :: "string \<Rightarrow> int" where
  "digits_value s = fold (\<lambda>c n. 10 * n + (of_char c - 48)) s 0"

definition Atoi :: "string \<Rightarrow> int option" where
  "Atoi s =
     (let (sign, ds) = (case s of [] \<Rightarrow> (1, []) | c # cs \<Rightarrow> if c = CHR ''-'' then (-1, cs) else if c = CHR ''+'' then (1, cs) else (1, s));
          n = sign * digits_value ds
      in if ds \<noteq> [] \<and> list_all (\<lambda>c. 48 \<le> (of_char c :: nat) \<and> (of_char c :: nat) \<le> 57) ds \<and> in64 n then Some n else None)"

text \<open>A size is a width and a height; its product is computed in 64 bits.\<close>

definition parseImagePixels :: "string \<Rightarrow> int" where
  "parseImagePixels sz =
     (let w = takeWhile (\<lambda>c. c \<noteq> CHR ''x'') sz in
      case dropWhile (\<lambda>c. c \<noteq> CHR ''x'') sz of [] \<Rightarrow> 0
      | _ # h \<Rightarrow>
          (case (Atoi w, Atoi h) of
             (Some a, Some b) \<Rightarrow> if a > 0 \<and> b > 0 then wrap64 (a * b) else 0
           | _ \<Rightarrow> 0))"

definition populateOutputImageCount :: "ImageUsage \<Rightarrow> int \<Rightarrow> ImageUsage" where
  "populateOutputImageCount imageUsage dataLen =
     (if dataLen = 0 then imageUsage
      else let d = (case iu_OutputTokensDetails imageUsage of None \<Rightarrow> no_image_details | Some d \<Rightarrow> d)
           in imageUsage\<lparr>iu_OutputTokensDetails := Some (if id_NImages d = 0 then d\<lparr>id_NImages := dataLen\<rparr> else d)\<rparr>)"

definition computeImageInputCost :: "TableModelPricing \<Rightarrow> ImageUsage \<Rightarrow> int \<Rightarrow> int \<Rightarrow> serviceTier \<Rightarrow> rat" where
  "computeImageInputCost pricing imageUsage totalTokens pixels tier =
     (let (text, image) = (case iu_InputTokensDetails imageUsage of
            Some d \<Rightarrow> (id_TextTokens d, id_ImageTokens d) | None \<Rightarrow> (iu_InputTokens imageUsage, 0));
          images = iu_NumInputImages imageUsage
      in if text > 0 \<or> image > 0 then
           of_int text * tieredInputRate pricing totalTokens tier + of_int image * tieredImageInputRate pricing totalTokens tier
         else if price pricing ''InputCostPerPixel'' \<noteq> None \<and> pixels > 0 \<and> images > 0 then
           of_int (wrap64 (pixels * images)) * rate_or 0 (price pricing ''InputCostPerPixel'')
         else if price pricing ''InputCostPerImage'' \<noteq> None \<and> images > 0 then
           of_int images * rate_or 0 (price pricing ''InputCostPerImage'')
         else 0)"

definition output_images :: "ImageUsage \<Rightarrow> int" where
  "output_images imageUsage =
     (case iu_OutputTokensDetails imageUsage of Some d \<Rightarrow> if id_NImages d > 0 then id_NImages d else 1 | None \<Rightarrow> 1)"

definition per_image_rate :: "TableModelPricing \<Rightarrow> int \<Rightarrow> string \<Rightarrow> rat option" where
  "per_image_rate pricing pixels imageQuality =
     (let q = (if imageQuality = [] then ''auto'' else imageQuality) in
      cascade (mp_rates pricing)
       [(q = ''low'', ''OutputCostPerImageLowQuality''),
        (q = ''medium'', ''OutputCostPerImageMediumQuality''),
        (q = ''high'', ''OutputCostPerImageHighQuality''),
        (q = ''auto'', ''OutputCostPerImageAutoQuality''),
        (pixels \<ge> 4096 * 4096, ''OutputCostPerImageAbove4096x4096Pixels''),
        (pixels \<ge> 2048 * 2048, ''OutputCostPerImageAbove2048x2048Pixels''),
        (pixels \<ge> 1024 * 1024, ''OutputCostPerImageAbove1024x1024Pixels''),
        (pixels \<ge> 512 * 512, ''OutputCostPerImageAbove512x512Pixels''),
        (True, ''OutputCostPerImage'')])"

definition computeImageOutputCost ::
    "TableModelPricing \<Rightarrow> ImageUsage \<Rightarrow> int \<Rightarrow> int \<Rightarrow> string \<Rightarrow> serviceTier \<Rightarrow> rat" where
  "computeImageOutputCost pricing imageUsage totalTokens pixels imageQuality tier =
     (let (text, image) = (case iu_OutputTokensDetails imageUsage of
            Some d \<Rightarrow> (id_TextTokens d, id_ImageTokens d) | None \<Rightarrow> (0, iu_OutputTokens imageUsage))
      in if text > 0 \<or> image > 0 then
           of_int text * tieredOutputRate pricing totalTokens tier + of_int image * tieredImageOutputRate pricing totalTokens tier
         else if price pricing ''OutputCostPerPixel'' \<noteq> None \<and> pixels > 0 then
           of_int (wrap64 (pixels * output_images imageUsage)) * rate_or 0 (price pricing ''OutputCostPerPixel'')
         else of_int (output_images imageUsage) * rate_or 0 (per_image_rate pricing pixels imageQuality))"

definition computeImageCost ::
    "TableModelPricing \<Rightarrow> ImageUsage option \<Rightarrow> string \<Rightarrow> string \<Rightarrow> serviceTier \<Rightarrow> rat" where
  "computeImageCost pricing imageUsage imageSize imageQuality tier =
     (case imageUsage of None \<Rightarrow> 0
      | Some u \<Rightarrow>
          let tierTokens = imageInputTierTokens u; pixels = parseImagePixels imageSize in
          computeImageInputCost pricing u tierTokens pixels tier
          + computeImageOutputCost pricing u tierTokens pixels imageQuality tier)"

section \<open>Videos, pages and containers\<close>

definition computeVideoCost :: "TableModelPricing \<Rightarrow> BifrostLLMUsage option \<Rightarrow> int option \<Rightarrow> serviceTier \<Rightarrow> rat" where
  "computeVideoCost pricing usage videoSeconds tier =
     (let tierTokens = inputTierTokens usage; seconds = positive videoSeconds;
          rate = tieredVideoInputPerSecondRate pricing tierTokens;
          inputCost =
            (if inputTierTokens usage > 0 then of_int (inputTierTokens usage) * tieredInputRate pricing tierTokens tier
             else if seconds > 0 \<and> rate > 0 then of_int seconds * rate else 0);
          outputCost =
            (if completion_tokens usage > 0 then of_int (completion_tokens usage) * tieredOutputRate pricing tierTokens tier
             else if seconds > 0 then
               of_int seconds * rate_or 0 (cascade (mp_rates pricing) [(True, ''OutputCostPerVideoPerSecond''), (True, ''OutputCostPerSecond'')])
             else 0)
      in inputCost + outputCost)"

definition computeOCRCost :: "TableModelPricing \<Rightarrow> int option \<Rightarrow> bool option \<Rightarrow> rat" where
  "computeOCRCost pricing ocrProcessedPages ocrIsAnnotated =
     (case ocrProcessedPages of None \<Rightarrow> 0
      | Some pages \<Rightarrow>
          of_int pages * rate_or 0 (price pricing ''OCRCostPerPage'')
          + (if ocrIsAnnotated = Some True then of_int pages * rate_or 0 (price pricing ''AnnotationCostPerPage'') else 0))"

definition computeContainerCreationCost :: "TableModelPricing \<Rightarrow> rat" where
  "computeContainerCreationCost pricing = rate_or 0 (price pricing ''CodeInterpreterCostPerSession'')"

end
