(* ===== verification/Pricing_Lookup.thy ===== *)
theory Pricing_Lookup
  imports Pricing_Rates Go_Strings
begin

text \<open>
  Which row prices a request, after framework/modelcatalog/datasheet/overrides.go, types.go and the lookup
  of cost.go: the catalog under the names of a model, the fallbacks of providers and modes, and the
  overrides by scope and pattern.
\<close>

section \<open>Request types and modes\<close>

definition normalizeRequestType :: "string \<Rightarrow> string" where
  "normalizeRequestType reqType =
     (if reqType \<in> {''text_completion'', ''text_completion_stream''} then ''completion''
      else if reqType \<in> {''chat_completion'', ''chat_completion_stream''} then ''chat''
      else if reqType \<in> {''responses'', ''responses_stream'', ''websocket_responses'', ''realtime'', ''compaction''} then ''responses''
      else if reqType = ''embedding'' then ''embedding''
      else if reqType = ''rerank'' then ''rerank''
      else if reqType \<in> {''speech'', ''speech_stream''} then ''audio_speech''
      else if reqType \<in> {''transcription'', ''transcription_stream''} then ''audio_transcription''
      else if reqType \<in> {''image_generation'', ''image_generation_stream'', ''image_variation''} then ''image_generation''
      else if reqType \<in> {''image_edit'', ''image_edit_stream''} then ''image_edit''
      else if reqType \<in> {''video_generation'', ''video_remix''} then ''video_generation''
      else if reqType = ''ocr'' then ''ocr''
      else if reqType = ''container_create'' then ''container_create''
      else ''unknown'')"

definition chatResponsesFallbackMode :: "string \<Rightarrow> string option" where
  "chatResponsesFallbackMode reqType =
     (if reqType \<in> {''responses'', ''responses_stream'', ''websocket_responses'', ''realtime'', ''compaction''} then Some ''chat''
      else if reqType \<in> {''chat_completion'', ''chat_completion_stream''} then Some ''responses''
      else None)"

definition normalizeStreamRequestType :: "string \<Rightarrow> string" where
  "normalizeStreamRequestType rt =
     (if rt = ''text_completion_stream'' then ''text_completion''
      else if rt = ''chat_completion_stream'' then ''chat_completion''
      else if rt = ''responses_stream'' \<or> rt = ''websocket_responses'' then ''responses''
      else if rt = ''speech_stream'' then ''speech''
      else if rt = ''transcription_stream'' then ''transcription''
      else if rt = ''image_generation_stream'' then ''image_generation''
      else if rt = ''image_edit_stream'' then ''image_edit''
      else rt)"

section \<open>Overrides\<close>

record Override =
  ov_ID :: string
  ov_ScopeKind :: string
  ov_UserID :: "string option"
  ov_VirtualKeyID :: "string option"
  ov_ProviderID :: "string option"
  ov_ProviderKeyID :: "string option"
  ov_MatchType :: string
  ov_Pattern :: string
  ov_RequestTypes :: "string list"
  ov_Options :: rates

record LookupScopes =
  sc_UserID :: string
  sc_VirtualKeyID :: string
  sc_SelectedKeyID :: string
  sc_Provider :: string

record customPricingEntry =
  en_id :: string
  en_scopeKind :: string
  en_userID :: string
  en_virtualKeyID :: string
  en_providerID :: string
  en_providerKeyID :: string
  en_pattern :: string
  en_requestModes :: "string list"
  en_options :: rates

record customPricingData =
  cp_exact :: "(string, customPricingEntry list) gomap"
  cp_wildcard :: "customPricingEntry list"

definition dquote :: "string \<Rightarrow> string" where
  "dquote s = [CHR 0x22] @ s @ [CHR 0x22]"

definition scope_identifiers :: "Override \<Rightarrow> bool \<times> bool \<times> bool \<times> bool" where
  "scope_identifiers ov = (ov_UserID ov \<noteq> None, ov_VirtualKeyID ov \<noteq> None, ov_ProviderID ov \<noteq> None, ov_ProviderKeyID ov \<noteq> None)"

definition validateScopeKind :: "Override \<Rightarrow> err option" where
  "validateScopeKind ov =
     (let (user, vk, provider, providerKey) = scope_identifiers ov; kind = ov_ScopeKind ov in
      if kind = ''global'' then
        (if user \<or> vk \<or> provider \<or> providerKey then Some (Err ''global scope_kind must not include scope identifiers'') else None)
      else if kind = ''user'' then
        (if \<not> user then Some (Err ''user_id is required for user scope_kind'')
         else if vk \<or> provider \<or> providerKey then Some (Err ''user scope_kind only supports user_id'') else None)
      else if kind = ''user_provider'' then
        (if \<not> user \<or> \<not> provider then Some (Err ''user_id and provider_id are required for user_provider scope_kind'')
         else if vk \<or> providerKey then
           Some (Err ''user_provider scope_kind does not support virtual_key_id or provider_key_id'') else None)
      else if kind = ''user_provider_key'' then
        (if \<not> user \<or> \<not> provider \<or> \<not> providerKey then
           Some (Err ''user_id, provider_id, and provider_key_id are required for user_provider_key scope_kind'')
         else if vk then Some (Err ''user_provider_key scope_kind does not support virtual_key_id'') else None)
      else if kind = ''provider'' then
        (if \<not> provider then Some (Err ''provider_id is required for provider scope_kind'')
         else if user \<or> vk \<or> providerKey then Some (Err ''provider scope_kind only supports provider_id'') else None)
      else if kind = ''provider_key'' then
        (if \<not> providerKey then Some (Err ''provider_key_id is required for provider_key scope_kind'')
         else if user \<or> vk \<or> provider then Some (Err ''provider_key scope_kind only supports provider_key_id'') else None)
      else if kind = ''virtual_key'' then
        (if \<not> vk then Some (Err ''virtual_key_id is required for virtual_key scope_kind'')
         else if user \<or> provider \<or> providerKey then Some (Err ''virtual_key scope_kind only supports virtual_key_id'') else None)
      else if kind = ''virtual_key_provider'' then
        (if \<not> vk \<or> \<not> provider then Some (Err ''virtual_key_id and provider_id are required for virtual_key_provider scope_kind'')
         else if user \<or> providerKey then
           Some (Err ''virtual_key_provider scope_kind does not support provider_key_id or user_id'') else None)
      else if kind = ''virtual_key_provider_key'' then
        (if \<not> vk \<or> \<not> provider \<or> \<not> providerKey then
           Some (Err ''virtual_key_id, provider_id, and provider_key_id are required for virtual_key_provider_key scope_kind'')
         else if user then Some (Err ''virtual_key_provider_key scope_kind does not support user_id'') else None)
      else Some (Err (''unsupported scope_kind '' @ dquote kind)))"

definition validatePattern :: "Override \<Rightarrow> err option" where
  "validatePattern ov =
     (let pattern = trimSpace (ov_Pattern ov); stars = length (filter (\<lambda>c. c = CHR ''*'') pattern) in
      if pattern = [] then Some (Err ''pattern is required'')
      else if ov_MatchType ov = ''exact'' then
        (if stars > 0 then Some (Err ''exact match pattern must not contain wildcards'') else None)
      else if ov_MatchType ov = ''wildcard'' then
        (if last pattern \<noteq> CHR ''*'' then Some (Err ''wildcard pattern must end with *'')
         else if stars \<noteq> 1 then Some (Err ''wildcard pattern must contain exactly one trailing *'') else None)
      else Some (Err (''unsupported match_type '' @ dquote (ov_MatchType ov))))"

definition request_type_error :: "string \<Rightarrow> err option" where
  "request_type_error rt =
     (if normalizeStreamRequestType rt \<noteq> rt then
        Some (Err (''unsupported request_type '' @ dquote rt @ '': use the base type (e.g. '' @ dquote (normalizeStreamRequestType rt) @
          '' covers both streaming and non-streaming)''))
      else if normalizeRequestType rt = ''unknown'' then Some (Err (''unsupported request_type '' @ dquote rt)) else None)"

definition validateRequestTypes :: "Override \<Rightarrow> err option" where
  "validateRequestTypes ov =
     (if ov_RequestTypes ov = [] then Some (Err ''request_types is required and must contain at least one value'')
      else case List.map_filter request_type_error (ov_RequestTypes ov) of [] \<Rightarrow> None | e # _ \<Rightarrow> Some e)"

definition IsValid :: "Override \<Rightarrow> err option" where
  "IsValid ov =
     (case validateScopeKind ov of Some e \<Rightarrow> Some e
      | None \<Rightarrow> (case validatePattern ov of Some e \<Rightarrow> Some e | None \<Rightarrow> validateRequestTypes ov))"

definition matchesScope :: "customPricingEntry \<Rightarrow> LookupScopes \<Rightarrow> bool" where
  "matchesScope e scopes =
     (let kind = en_scopeKind e; user = (en_userID e = sc_UserID scopes); vk = (en_virtualKeyID e = sc_VirtualKeyID scopes);
          provider = (en_providerID e = sc_Provider scopes); key = (en_providerKeyID e = sc_SelectedKeyID scopes)
      in if kind = ''global'' then True
         else if kind = ''user'' then user
         else if kind = ''user_provider'' then user \<and> provider
         else if kind = ''user_provider_key'' then user \<and> provider \<and> key
         else if kind = ''provider'' then provider
         else if kind = ''provider_key'' then key
         else if kind = ''virtual_key'' then vk
         else if kind = ''virtual_key_provider'' then vk \<and> provider
         else if kind = ''virtual_key_provider_key'' then vk \<and> provider \<and> key
         else False)"

definition matchesMode :: "customPricingEntry \<Rightarrow> string \<Rightarrow> bool" where
  "matchesMode e mode = (mode \<in> set (en_requestModes e))"

definition scopePriorityOrder :: "LookupScopes \<Rightarrow> string list" where
  "scopePriorityOrder scopes =
     (let vk = sc_VirtualKeyID scopes \<noteq> []; user = sc_UserID scopes \<noteq> []; provider = sc_Provider scopes \<noteq> [];
          key = sc_SelectedKeyID scopes \<noteq> []
      in map snd (filter fst
        [(vk \<and> provider \<and> key, ''virtual_key_provider_key''),
         (vk \<and> provider, ''virtual_key_provider''),
         (vk, ''virtual_key''),
         (user \<and> provider \<and> key, ''user_provider_key''),
         (user \<and> provider, ''user_provider''),
         (user, ''user''),
         (key, ''provider_key''),
         (provider, ''provider''),
         (True, ''global'')]))"

text \<open>The entries a lookup for a scope goes through: those of the model, then the wildcards that match.\<close>

definition candidates_of :: "customPricingData \<Rightarrow> string \<Rightarrow> customPricingEntry list" where
  "candidates_of c model = gm_get0 [] (cp_exact c) model @ filter (\<lambda>e. hasPrefix model (en_pattern e)) (cp_wildcard c)"

definition resolve_scope :: "customPricingData \<Rightarrow> string \<Rightarrow> string \<Rightarrow> LookupScopes \<Rightarrow> string \<Rightarrow> rates option" where
  "resolve_scope c model mode scopes kind =
     map_option en_options (find (\<lambda>e. en_scopeKind e = kind \<and> matchesScope e scopes \<and> matchesMode e mode) (candidates_of c model))"

fun first_hit :: "('a \<Rightarrow> 'b option) \<Rightarrow> 'a list \<Rightarrow> 'b option" where
  "first_hit f [] = None"
| "first_hit f (x # xs) = (case f x of Some y \<Rightarrow> Some y | None \<Rightarrow> first_hit f xs)"

definition resolve :: "customPricingData \<Rightarrow> string \<Rightarrow> string \<Rightarrow> LookupScopes \<Rightarrow> rates option" where
  "resolve c model mode scopes = first_hit (resolve_scope c model mode scopes) (scopePriorityOrder scopes)"

definition entry_of :: "Override \<Rightarrow> customPricingEntry" where
  "entry_of o1 =
     (let pattern = trimSpace (ov_Pattern o1); s = (\<lambda>x. case x of None \<Rightarrow> [] | Some v \<Rightarrow> v) in
      \<lparr>en_id = ov_ID o1, en_scopeKind = ov_ScopeKind o1, en_userID = s (ov_UserID o1), en_virtualKeyID = s (ov_VirtualKeyID o1),
       en_providerID = s (ov_ProviderID o1), en_providerKeyID = s (ov_ProviderKeyID o1),
       en_pattern = (if ov_MatchType o1 = ''wildcard'' \<and> pattern \<noteq> [] \<and> last pattern = CHR ''*'' then butlast pattern else pattern),
       en_requestModes = map normalizeRequestType (ov_RequestTypes o1), en_options = ov_Options o1\<rparr>)"

text \<open>
  \<^verbatim>\<open>sort.Slice\<close> sorts the wildcards by the length of their prefix; it is not stable, so the sort is an argument.
\<close>

type_synonym slice_sort = "customPricingEntry list \<Rightarrow> customPricingEntry list"

definition by_length :: slice_sort where
  "by_length = sort_by (\<lambda>a b. length (en_pattern a) > length (en_pattern b))"

definition buildCustomPricingData :: "slice_sort \<Rightarrow> Override list \<Rightarrow> customPricingData" where
  "buildCustomPricingData srt overrides =
     \<lparr>cp_exact = fold (\<lambda>o1 m. if ov_MatchType o1 = ''exact''
          then gm_put (en_pattern (entry_of o1)) (gm_get0 [] m (en_pattern (entry_of o1)) @ [entry_of o1]) m else m) overrides [],
      cp_wildcard = srt (map entry_of (filter (\<lambda>o1. ov_MatchType o1 = ''wildcard'') overrides))\<rparr>"

definition patchPricing :: "TableModelPricing \<Rightarrow> rates \<Rightarrow> TableModelPricing" where
  "patchPricing pricing override = pricing\<lparr>mp_rates := (\<lambda>column. case override column of None \<Rightarrow> mp_rates pricing column | Some x \<Rightarrow> Some x)\<rparr>"

section \<open>The store\<close>

record pricing_store =
  ps_pricingData :: "string \<Rightarrow> TableModelPricing option"
  ps_rawOverrides :: "Override list"
  ps_customPricing :: "customPricingData option"

text \<open>Rows of overrides are parsed from JSON outside; a row that does not parse is an error.\<close>

fun parsed_overrides :: "(err + Override) list \<Rightarrow> err + Override list" where
  "parsed_overrides [] = Inr []"
| "parsed_overrides (Inl e # rows) = Inl e"
| "parsed_overrides (Inr o1 # rows) = (case parsed_overrides rows of Inl e \<Rightarrow> Inl e | Inr os \<Rightarrow> Inr (o1 # os))"

text \<open>Of several overrides with one ID the last is kept, in the place of the first.\<close>

definition put_by_id :: "Override \<Rightarrow> Override list \<Rightarrow> Override list" where
  "put_by_id o1 os = (if ov_ID o1 \<in> set (map ov_ID os) then map (\<lambda>p. if ov_ID p = ov_ID o1 then o1 else p) os else os @ [o1])"

definition distinct_overrides :: "Override list \<Rightarrow> Override list" where
  "distinct_overrides os = fold put_by_id os []"

definition install :: "slice_sort \<Rightarrow> Override list \<Rightarrow> pricing_store \<Rightarrow> pricing_store" where
  "install srt os s = s\<lparr>ps_rawOverrides := os, ps_customPricing := Some (buildCustomPricingData srt os)\<rparr>"

definition SetOverrides :: "slice_sort \<Rightarrow> (err + Override) list \<Rightarrow> pricing_store \<Rightarrow> err + pricing_store" where
  "SetOverrides srt rows s =
     (case parsed_overrides rows of Inl e \<Rightarrow> Inl e | Inr os \<Rightarrow> Inr (install srt (distinct_overrides os) s))"

definition UpsertOverrides :: "slice_sort \<Rightarrow> (err + Override) list \<Rightarrow> pricing_store \<Rightarrow> err + pricing_store" where
  "UpsertOverrides srt rows s =
     (case parsed_overrides rows of Inl e \<Rightarrow> Inl e
      | Inr os \<Rightarrow> Inr (install srt
          (filter (\<lambda>p. ov_ID p \<notin> set (map ov_ID os)) (ps_rawOverrides s) @ distinct_overrides os) s))"

definition DeleteOverride :: "slice_sort \<Rightarrow> string \<Rightarrow> pricing_store \<Rightarrow> pricing_store" where
  "DeleteOverride srt i s = install srt (filter (\<lambda>p. ov_ID p \<noteq> i) (ps_rawOverrides s)) s"

definition applyPricingOverrides ::
    "pricing_store \<Rightarrow> string \<Rightarrow> string \<Rightarrow> TableModelPricing \<Rightarrow> LookupScopes \<Rightarrow> TableModelPricing \<times> bool" where
  "applyPricingOverrides s model requestType pricing scopes =
     (case ps_customPricing s of None \<Rightarrow> (pricing, False)
      | Some custom \<Rightarrow>
          let mode = normalizeRequestType requestType in
          if mode = ''unknown'' then (pricing, False)
          else (case resolve custom model mode scopes of
                  Some patch \<Rightarrow> (patchPricing pricing patch, True) | None \<Rightarrow> (pricing, False)))"

section \<open>The catalog\<close>

definition makeKey :: "string \<Rightarrow> string \<Rightarrow> string \<Rightarrow> string" where
  "makeKey model provider mode = model @ ''|'' @ provider @ ''|'' @ mode"

definition normalizeProvider :: "string \<Rightarrow> string" where
  "normalizeProvider p =
     (if p = ''together'' then ''together_ai''
      else if strContains p ''vertex_ai'' \<or> p = ''google-vertex'' then ''vertex''
      else if strContains p ''bedrock'' then ''bedrock''
      else if strContains p ''cohere'' then ''cohere''
      else if strContains p ''runwayml'' then ''runway''
      else if strContains p ''fireworks_ai'' then ''fireworks''
      else p)"

definition IsAnthropicModel :: "string \<Rightarrow> bool" where
  "IsAnthropicModel model = (strContains model ''anthropic.'' \<or> strContains model ''claude'')"

definition isOpenAIReasoningModel :: "string \<Rightarrow> bool" where
  "isOpenAIReasoningModel model =
     (case rev (takeWhile (\<lambda>c. c \<noteq> CHR ''/'' \<and> c \<noteq> CHR '':'') (rev model)) of
        c # d # rest \<Rightarrow> c = CHR ''o'' \<and> 48 \<le> (of_char d :: nat) \<and> (of_char d :: nat) \<le> 57
          \<and> (case rest of [] \<Rightarrow> True | e # _ \<Rightarrow> e = CHR ''-'')
      | _ \<Rightarrow> False)"

definition IsOpenAIModel :: "string \<Rightarrow> bool" where
  "IsOpenAIModel model = (strContains model ''gpt-'' \<or> strContains model ''text-embedding-'' \<or> isOpenAIReasoningModel model)"

definition vendorPrefix :: "string \<Rightarrow> string" where
  "vendorPrefix model =
     (if \<not> strContains model ''anthropic.'' \<and> IsAnthropicModel model then ''anthropic.''
      else if \<not> strContains model ''openai.'' \<and> IsOpenAIModel model then ''openai.''
      else if \<not> strContains model ''google.'' \<and> (strContains model ''gemma'' \<or> strContains model ''gemini'') then ''google.''
      else if \<not> strContains model ''xai.'' \<and> strContains model ''grok'' then ''xai.''
      else [])"

text \<open>
  The keys the catalog is asked for, in order: the code tries a key, returns its row when there is one
  and goes on to the next.
\<close>

definition lookup_keys :: "string \<Rightarrow> string \<Rightarrow> string \<Rightarrow> string list" where
  "lookup_keys model provider0 requestType =
     (let mode = normalizeRequestType requestType;
          provider = (if provider0 = ''bedrock_mantle'' then ''bedrock'' else provider0);
          modes = mode # (case chatResponsesFallbackMode requestType of None \<Rightarrow> [] | Some m \<Rightarrow> [m]);
          bare = tl (dropWhile (\<lambda>c. c \<noteq> CHR ''/'') model)
      in [makeKey model provider mode]
         @ (if provider = ''gemini'' then map (makeKey model ''vertex'') modes else [])
         @ (if provider = ''vertex'' \<and> CHR ''/'' \<in> set model then map (makeKey bare ''vertex'') modes else [])
         @ (if provider = ''bedrock'' \<and> vendorPrefix model \<noteq> [] then map (makeKey (vendorPrefix model @ model) provider) modes else [])
         @ map (makeKey model provider) (tl modes)
         @ (if requestType \<in> {''image_edit'', ''image_edit_stream'', ''image_variation''} then [makeKey model provider ''image_generation''] else [])
         @ (if requestType = ''container_create'' then
              makeKey model provider ''chat'' # (if model \<noteq> ''container'' then [makeKey ''container'' provider ''chat''] else [])
            else []))"

definition getBasePricing :: "pricing_store \<Rightarrow> string \<Rightarrow> string \<Rightarrow> string \<Rightarrow> TableModelPricing option" where
  "getBasePricing s model provider requestType = first_hit (ps_pricingData s) (lookup_keys model provider requestType)"

record RoutingInfo =
  ri_Provider :: string
  ri_Model :: string
  ri_ResolvedKeyAlias :: "(string \<times> string option) option"
  ri_ServerSideFallbackModel :: "string option"

definition routing_model :: "string \<Rightarrow> string \<Rightarrow> RoutingInfo" where
  "routing_model provider model =
     \<lparr>ri_Provider = provider, ri_Model = model, ri_ResolvedKeyAlias = None, ri_ServerSideFallbackModel = None\<rparr>"

abbreviation or_empty :: "string option \<Rightarrow> string" where
  "or_empty s \<equiv> (case s of None \<Rightarrow> [] | Some x \<Rightarrow> x)"

definition overrideKey :: "RoutingInfo \<Rightarrow> string" where
  "overrideKey ri =
     (let fallback = or_empty (ri_ServerSideFallbackModel ri); alias = or_empty (map_option fst (ri_ResolvedKeyAlias ri)) in
      if fallback \<noteq> [] then fallback else if alias \<noteq> [] then alias else ri_Model ri)"

definition model_names :: "RoutingInfo \<Rightarrow> string list" where
  "model_names ri = filter (\<lambda>m. m \<noteq> [])
     [or_empty (ri_ServerSideFallbackModel ri),
      or_empty (case ri_ResolvedKeyAlias ri of None \<Rightarrow> None | Some (_, n) \<Rightarrow> n),
      or_empty (map_option fst (ri_ResolvedKeyAlias ri)),
      ri_Model ri]"

definition resolvePricing :: "pricing_store \<Rightarrow> RoutingInfo \<Rightarrow> string \<Rightarrow> LookupScopes \<Rightarrow> TableModelPricing option" where
  "resolvePricing s ri requestType scopes0 =
     (let provider = ri_Provider ri;
          scopes = (if sc_Provider scopes0 = [] then scopes0\<lparr>sc_Provider := provider\<rparr> else scopes0)
      in case first_hit (\<lambda>m. getBasePricing s m (normalizeProvider provider) requestType) (model_names ri) of
           Some base \<Rightarrow> Some (fst (applyPricingOverrides s (overrideKey ri) requestType base scopes))
         | None \<Rightarrow>
             (case applyPricingOverrides s (overrideKey ri) requestType zero_row scopes of
                (r, applied) \<Rightarrow> if applied then Some r else None))"

end
