(* ===== verification/Cost_Calculation.thy ===== *)
theory Cost_Calculation
  imports Cost_Computation Pricing_Lookup
begin

text \<open>
  The cost of a response, after framework/modelcatalog/datasheet/cost.go: the usage is read from the
  response, its row looked up and its cost computed by the kind of the request; the semantic cache, the
  model router of Azure and the raw calls that pass the gateway through have rules of their own.
\<close>

section \<open>Responses\<close>

text \<open>
  A response is a struct of pointers of which one is set; the constructors are these, with the parts
  pricing reads.
\<close>

record tier_fields =
  tf_ServiceTier :: "string option"
  tf_Speed :: "string option"
  tf_InferenceGeo :: "string option"

record ResponsesUsage =
  ru_InputTokens :: int
  ru_InputTokensDetails :: "PromptTokensDetails option"
  ru_OutputTokens :: int
  ru_OutputTokensDetails :: "CompletionTokensDetails option"
  ru_TotalTokens :: int
  ru_Cost :: "BifrostCost option"

record SpeechUsage =
  su_InputTokens :: int
  su_InputChars :: int
  su_OutputTokens :: int
  su_TotalTokens :: int
  su_AudioSeconds :: int

record TranscriptionUsage =
  tu_InputTokens :: "int option"
  tu_InputTokenDetails :: "AudioTokenDetails option"
  tu_OutputTokens :: "int option"
  tu_TotalTokens :: "int option"
  tu_Seconds :: "rat option"

record BifrostPassthroughUsage =
  pu_LLMUsage :: "BifrostLLMUsage option"
  pu_tier :: tier_fields
  pu_ImageUsage :: "ImageUsage option"
  pu_ImageSize :: string
  pu_ImageQuality :: string
  pu_AudioInputChars :: int
  pu_AudioSeconds :: "int option"
  pu_AudioTokenDetails :: "AudioTokenDetails option"
  pu_VideoSeconds :: "int option"
  pu_ContainerIdentifier :: string

datatype response_body =
    PassthroughResponse "BifrostPassthroughUsage option"
  | TextCompletionResponse string "BifrostLLMUsage option"
  | ChatResponse string "BifrostLLMUsage option" tier_fields
  | ResponsesResponse string "ResponsesUsage option" tier_fields
  | CompactionResponse "ResponsesUsage option"
  | ResponsesStreamResponse "(string \<times> ResponsesUsage option \<times> tier_fields) option"
  | EmbeddingResponse "BifrostLLMUsage option"
  | RerankResponse "BifrostLLMUsage option"
  | SpeechResponse "SpeechUsage option"
  | SpeechStreamResponse "SpeechUsage option"
  | TranscriptionResponse "TranscriptionUsage option"
  | TranscriptionStreamResponse "TranscriptionUsage option"
  | ImageGenerationResponse "ImageUsage option" int "(string \<times> string) option"
  | ImageGenerationStreamResponse "ImageUsage option" string string
  | VideoGenerationResponse "string option"
  | OCRResponse int "int option" "string option"
  | ContainerCreateResponse string
  | OtherResponse

record BifrostCacheDebug =
  cd_CacheHit :: bool
  cd_HitType :: "string option"
  cd_ProviderUsed :: "string option"
  cd_ModelUsed :: "string option"
  cd_InputTokens :: "int option"

record ExtraFields =
  xf_RoutingInfo :: RoutingInfo
  xf_Provider :: string
  xf_OriginalModelRequested :: string
  xf_ResolvedModelUsed :: string
  xf_RequestType :: string
  xf_PassthroughPath :: string
  xf_CacheDebug :: "BifrostCacheDebug option"

record PricedResponse =
  rs_ExtraFields :: ExtraFields
  rs_body :: response_body

section \<open>Reading the usage\<close>

definition tier_of :: "tier_fields \<Rightarrow> serviceTier" where
  "tier_of t = tierFromResponse (tf_ServiceTier t) (tf_Speed t) (tf_InferenceGeo t)"

definition responsesUsageToBifrostUsage :: "ResponsesUsage \<Rightarrow> BifrostLLMUsage" where
  "responsesUsageToBifrostUsage u = no_usage\<lparr>us_PromptTokens := ru_InputTokens u, us_CompletionTokens := ru_OutputTokens u,
     us_TotalTokens := ru_TotalTokens u, us_Cost := ru_Cost u, us_PromptTokensDetails := ru_InputTokensDetails u,
     us_CompletionTokensDetails := map_option (\<lambda>d. no_completion_details\<lparr>cd_ReasoningTokens := cd_ReasoningTokens d,
       cd_AudioTokens := cd_AudioTokens d, cd_NumSearchQueries := cd_NumSearchQueries d\<rparr>) (ru_OutputTokensDetails u)\<rparr>"

definition speechUsageToBifrostUsage :: "SpeechUsage \<Rightarrow> BifrostLLMUsage" where
  "speechUsageToBifrostUsage u = no_usage\<lparr>us_PromptTokens := su_InputTokens u, us_CompletionTokens := su_OutputTokens u,
     us_TotalTokens := su_TotalTokens u\<rparr>"

text \<open>Seconds are cut to whole ones: \<^verbatim>\<open>int\<close> of a double rounds towards zero.\<close>

definition truncated :: "rat \<Rightarrow> int" where
  "truncated x = (if x < 0 then - \<lfloor>- x\<rfloor> else \<lfloor>x\<rfloor>)"

definition extractTranscriptionUsage ::
    "TranscriptionUsage \<Rightarrow> BifrostLLMUsage \<times> int option \<times> AudioTokenDetails option" where
  "extractTranscriptionUsage u =
     (let z = (\<lambda>n. case n of None \<Rightarrow> 0 | Some k \<Rightarrow> k); i = z (tu_InputTokens u); out = z (tu_OutputTokens u) in
      (no_usage\<lparr>us_PromptTokens := i, us_CompletionTokens := out,
         us_TotalTokens := (case tu_TotalTokens u of Some t \<Rightarrow> t | None \<Rightarrow> i + out)\<rparr>,
       map_option truncated (tu_Seconds u), tu_InputTokenDetails u))"

definition passthroughUsageToCostInput :: "BifrostPassthroughUsage \<Rightarrow> costInput" where
  "passthroughUsageToCostInput su = no_input\<lparr>ci_usage := pu_LLMUsage su, ci_tier := tier_of (pu_tier su),
     ci_imageUsage := pu_ImageUsage su,
     ci_imageSize := (if pu_ImageUsage su \<noteq> None then pu_ImageSize su else []),
     ci_imageQuality := (if pu_ImageUsage su \<noteq> None then pu_ImageQuality su else []),
     ci_audioTextInputChars := (if pu_AudioInputChars su > 0 then pu_AudioInputChars su else 0),
     ci_audioSeconds := pu_AudioSeconds su, ci_audioTokenDetails := pu_AudioTokenDetails su,
     ci_videoSeconds := pu_VideoSeconds su, ci_containerIdentifierString := pu_ContainerIdentifier su\<rparr>"

definition extractCostInput :: "response_body \<Rightarrow> costInput" where
  "extractCostInput b =
     (case b of
        PassthroughResponse (Some su) \<Rightarrow> passthroughUsageToCostInput su
      | TextCompletionResponse m (Some u) \<Rightarrow> no_input\<lparr>ci_usage := Some u\<rparr>
      | ChatResponse m (Some u) t \<Rightarrow> no_input\<lparr>ci_usage := Some u, ci_tier := tier_of t\<rparr>
      | ResponsesResponse m (Some u) t \<Rightarrow> no_input\<lparr>ci_usage := Some (responsesUsageToBifrostUsage u), ci_tier := tier_of t\<rparr>
      | CompactionResponse (Some u) \<Rightarrow> no_input\<lparr>ci_usage := Some (responsesUsageToBifrostUsage u)\<rparr>
      | ResponsesStreamResponse (Some (m, Some u, t)) \<Rightarrow>
          no_input\<lparr>ci_usage := Some (responsesUsageToBifrostUsage u), ci_tier := tier_of t\<rparr>
      | EmbeddingResponse (Some u) \<Rightarrow> no_input\<lparr>ci_usage := Some u\<rparr>
      | RerankResponse (Some u) \<Rightarrow> no_input\<lparr>ci_usage := Some u\<rparr>
      | SpeechResponse (Some u) \<Rightarrow>
          no_input\<lparr>ci_usage := Some (speechUsageToBifrostUsage u), ci_audioTextInputChars := su_InputChars u\<rparr>
      | SpeechStreamResponse (Some u) \<Rightarrow>
          no_input\<lparr>ci_usage := Some (speechUsageToBifrostUsage u), ci_audioTextInputChars := su_InputChars u\<rparr>
      | TranscriptionResponse (Some u) \<Rightarrow>
          (case extractTranscriptionUsage u of (us, secs, d) \<Rightarrow>
             no_input\<lparr>ci_usage := Some us, ci_audioSeconds := secs, ci_audioTokenDetails := d\<rparr>)
      | TranscriptionStreamResponse (Some u) \<Rightarrow>
          (case extractTranscriptionUsage u of (us, secs, d) \<Rightarrow>
             no_input\<lparr>ci_usage := Some us, ci_audioSeconds := secs, ci_audioTokenDetails := d\<rparr>)
      | ImageGenerationResponse u dataLen params \<Rightarrow>
          no_input\<lparr>ci_imageUsage := Some (populateOutputImageCount (case u of Some x \<Rightarrow> x | None \<Rightarrow> no_image_usage) dataLen),
            ci_imageSize := (case params of Some (sz, quality) \<Rightarrow> sz | None \<Rightarrow> []),
            ci_imageQuality := (case params of Some (sz, quality) \<Rightarrow> quality | None \<Rightarrow> [])\<rparr>
      | ImageGenerationStreamResponse u sz quality \<Rightarrow>
          no_input\<lparr>ci_imageUsage := Some (case u of Some x \<Rightarrow> x | None \<Rightarrow> no_image_usage), ci_imageSize := sz, ci_imageQuality := quality\<rparr>
      | VideoGenerationResponse (Some seconds) \<Rightarrow> no_input\<lparr>ci_videoSeconds := Atoi seconds\<rparr>
      | OCRResponse pages processed annotation \<Rightarrow>
          no_input\<lparr>ci_ocrProcessedPages := Some (case processed of Some n \<Rightarrow> if n > 0 then n else pages | None \<Rightarrow> pages),
            ci_ocrIsAnnotated := Some (annotation \<noteq> None \<and> annotation \<noteq> Some [])\<rparr>
      | ContainerCreateResponse memLimit \<Rightarrow>
          no_input\<lparr>ci_containerIdentifierString := (if memLimit \<noteq> [] then ''container-'' @ memLimit else ''container'')\<rparr>
      | _ \<Rightarrow> no_input)"

definition nothing_to_price :: "costInput \<Rightarrow> bool" where
  "nothing_to_price i \<longleftrightarrow> ci_usage i = None \<and> ci_audioSeconds i = None \<and> ci_audioTokenDetails i = None \<and> ci_imageUsage i = None
     \<and> ci_videoSeconds i = None \<and> ci_audioTextInputChars i = 0 \<and> ci_ocrProcessedPages i = None \<and> ci_containerIdentifierString i = []"

section \<open>Raw calls\<close>

definition stripped_path :: "string \<Rightarrow> string" where
  "stripped_path path = rev (dropWhile (\<lambda>c. c = CHR ''/'') (rev (takeWhile (\<lambda>c. c \<noteq> CHR ''?'') path)))"

definition detectPassthroughRequestType :: "string \<Rightarrow> string \<Rightarrow> string" where
  "detectPassthroughRequestType provider path0 =
     (let path = stripped_path path0; ends = hasSuffix path in
      if provider \<in> {''openai'', ''azure''} then
        (if ends ''/chat/completions'' then ''chat_completion''
         else if ends ''/completions'' then ''text_completion''
         else if ends ''/embeddings'' then ''embedding''
         else if ends ''/responses/compact'' then ''compaction''
         else if ends ''/responses'' then ''responses''
         else if ends ''/images/generations'' then ''image_generation''
         else if ends ''/images/edits'' then ''image_edit''
         else if ends ''/images/variations'' then ''image_variation''
         else if ends ''/audio/speech'' then ''speech''
         else if ends ''/audio/transcriptions'' \<or> ends ''/audio/translations'' then ''transcription''
         else if ends ''/containers'' then ''container_create''
         else if strContains path ''/video'' then ''video_generation''
         else ''chat_completion'')
      else if provider \<in> {''gemini'', ''vertex''} then
        (if strContains path ''/interactions'' then ''responses''
         else if CHR '':'' \<notin> set path then ''chat_completion''
         else
           let action = rev (takeWhile (\<lambda>c. c \<noteq> CHR '':'') (rev path)) in
           if action \<in> {''generateContent'', ''streamGenerateContent''} then ''responses''
           else if action \<in> {''embedContent'', ''batchEmbedContents''} then ''embedding''
           else if action = ''generateImages'' then ''image_generation''
           else if action = ''predict'' then ''embedding''
           else if action = ''predictLongRunning'' then ''video_generation''
           else ''chat_completion'')
      else if provider = ''anthropic'' then
        (if ends ''/messages'' then ''responses'' else if ends ''/complete'' then ''text_completion'' else ''responses'')
      else ''chat_completion'')"

definition inferPassthroughRequestType :: "string \<Rightarrow> string \<Rightarrow> BifrostPassthroughUsage option \<Rightarrow> string" where
  "inferPassthroughRequestType provider path su =
     (case su of None \<Rightarrow> detectPassthroughRequestType provider path
      | Some u \<Rightarrow>
          if pu_ContainerIdentifier u \<noteq> [] then ''container_create''
          else if pu_ImageUsage u \<noteq> None then ''image_generation''
          else if pu_AudioInputChars u > 0 then ''speech''
          else if pu_AudioTokenDetails u \<noteq> None \<or> pu_AudioSeconds u \<noteq> None then ''transcription''
          else if pu_VideoSeconds u \<noteq> None then ''video_generation''
          else detectPassthroughRequestType provider path)"

section \<open>The cost\<close>

text \<open>The price of a usage by the kind of the request, on the row found for it.\<close>

definition compute_cost :: "TableModelPricing \<Rightarrow> costInput \<Rightarrow> string \<Rightarrow> rat" where
  "compute_cost pricing i requestType =
     (if requestType \<in> {''chat_completion'', ''text_completion'', ''responses'', ''realtime'', ''compaction''} then
        computeTextCost pricing (ci_usage i) (ci_tier i)
      else if requestType = ''embedding'' then computeEmbeddingCost pricing (ci_usage i) (ci_tier i)
      else if requestType = ''rerank'' then computeRerankCost pricing (ci_usage i) (ci_tier i)
      else if requestType = ''speech'' then
        computeSpeechCost pricing (ci_usage i) (ci_audioSeconds i) (ci_audioTextInputChars i) (ci_tier i)
      else if requestType = ''transcription'' then
        computeTranscriptionCost pricing (ci_usage i) (ci_audioSeconds i) (ci_audioTokenDetails i) (ci_tier i)
      else if requestType \<in> {''image_generation'', ''image_edit'', ''image_variation''} then
        computeImageCost pricing (ci_imageUsage i) (ci_imageSize i) (ci_imageQuality i) (ci_tier i)
      else if requestType \<in> {''video_generation'', ''video_remix''} then
        computeVideoCost pricing (ci_usage i) (ci_videoSeconds i) (ci_tier i)
      else if requestType = ''ocr'' then computeOCRCost pricing (ci_ocrProcessedPages i) (ci_ocrIsAnnotated i)
      else if requestType = ''container_create'' then computeContainerCreationCost pricing
      else 0)"

definition computeCostFromInput :: "pricing_store \<Rightarrow> costInput \<Rightarrow> RoutingInfo \<Rightarrow> string \<Rightarrow> LookupScopes \<Rightarrow> rat" where
  "computeCostFromInput s i ri0 requestType scopes =
     (let ri = (if ci_containerIdentifierString i \<noteq> [] then routing_model (ri_Provider ri0) (ci_containerIdentifierString i) else ri0) in
      case resolvePricing s ri requestType scopes of None \<Rightarrow> 0 | Some pricing \<Rightarrow> compute_cost pricing i requestType)"

definition azureModelRouterServedModel :: "response_body \<Rightarrow> string" where
  "azureModelRouterServedModel b =
     (case b of ChatResponse m u t \<Rightarrow> m | ResponsesResponse m u t \<Rightarrow> m | ResponsesStreamResponse (Some (m, u, t)) \<Rightarrow> m
      | TextCompletionResponse m u \<Rightarrow> m | _ \<Rightarrow> [])"

definition calculateAzureModelRouterCost ::
    "pricing_store \<Rightarrow> response_body \<Rightarrow> costInput \<Rightarrow> RoutingInfo \<Rightarrow> string \<Rightarrow> LookupScopes \<Rightarrow> rat" where
  "calculateAzureModelRouterCost s b i ri requestType scopes =
     (let rt = (if requestType = ''text_completion'' then ''chat_completion'' else requestType);
          cost = computeCostFromInput s i ri rt scopes;
          served = azureModelRouterServedModel b
      in if served \<noteq> [] \<and> served \<noteq> ri_Model ri
         then cost + computeCostFromInput s i (routing_model (ri_Provider ri) served) rt scopes else cost)"

text \<open>Responses from before routing information existed carry it in the fields of old.\<close>

definition routing_of :: "ExtraFields \<Rightarrow> RoutingInfo" where
  "routing_of x =
     (let ri = xf_RoutingInfo x in
      if ri_Provider ri = [] \<and> ri_Model ri = [] \<and> ri_ResolvedKeyAlias ri = None then
        ri\<lparr>ri_Provider := xf_Provider x, ri_Model := xf_OriginalModelRequested x,
           ri_ResolvedKeyAlias := (if xf_ResolvedModelUsed x \<noteq> [] \<and> xf_ResolvedModelUsed x \<noteq> xf_OriginalModelRequested x
             then Some (xf_ResolvedModelUsed x, None) else None)\<rparr>
      else ri)"

definition own_cost :: "BifrostLLMUsage option \<Rightarrow> f64 option" where
  "own_cost usage =
     (case usage of None \<Rightarrow> None
      | Some u \<Rightarrow> (case us_Cost u of None \<Rightarrow> None
          | Some c \<Rightarrow> if f64_lt (Fin 0) (co_TotalCost c) then Some (co_TotalCost c) else None))"

definition calculateBaseCost :: "pricing_store \<Rightarrow> PricedResponse \<Rightarrow> LookupScopes \<Rightarrow> f64" where
  "calculateBaseCost s res scopes =
     (let x = rs_ExtraFields res; b = rs_body res; ri = routing_of x; i = extractCostInput b in
      case own_cost (ci_usage i) of Some c \<Rightarrow> c
      | None \<Rightarrow>
          if nothing_to_price i then Fin 0
          else (case b of
              PassthroughResponse su \<Rightarrow>
                Fin (computeCostFromInput s i ri (inferPassthroughRequestType (ri_Provider ri) (xf_PassthroughPath x) su) scopes)
            | _ \<Rightarrow>
                let rt = normalizeStreamRequestType (xf_RequestType x) in
                if ri_Provider ri = ''azure'' \<and> strContains (ri_Model ri) ''model-router''
                   \<and> rt \<in> {''text_completion'', ''chat_completion'', ''responses''}
                then Fin (calculateAzureModelRouterCost s b i ri rt scopes)
                else Fin (computeCostFromInput s i ri rt scopes)))"

definition computeCacheEmbeddingCost :: "pricing_store \<Rightarrow> BifrostCacheDebug \<Rightarrow> LookupScopes \<Rightarrow> rat" where
  "computeCacheEmbeddingCost s d scopes0 =
     (case (cd_ProviderUsed d, cd_ModelUsed d, cd_InputTokens d) of
        (Some provider, Some model, Some n) \<Rightarrow>
          let scopes = (if sc_Provider scopes0 = [] then scopes0\<lparr>sc_Provider := provider\<rparr> else scopes0) in
          (case resolvePricing s (routing_model provider model) ''embedding'' scopes of
             None \<Rightarrow> 0 | Some pricing \<Rightarrow> of_int n * tieredInputRate pricing n standardTier)
      | _ \<Rightarrow> 0)"

definition calculateCostWithCache :: "pricing_store \<Rightarrow> PricedResponse \<Rightarrow> BifrostCacheDebug \<Rightarrow> LookupScopes \<Rightarrow> f64" where
  "calculateCostWithCache s res d scopes =
     (if cd_CacheHit d then
        (if cd_HitType d = Some ''direct'' then Fin 0 else Fin (computeCacheEmbeddingCost s d scopes))
      else f64_add (calculateBaseCost s res scopes) (Fin (computeCacheEmbeddingCost s d scopes)))"

definition no_scopes :: LookupScopes where
  "no_scopes = \<lparr>sc_UserID = [], sc_VirtualKeyID = [], sc_SelectedKeyID = [], sc_Provider = []\<rparr>"

definition datasheet_CalculateCost :: "pricing_store \<Rightarrow> PricedResponse option \<Rightarrow> LookupScopes option \<Rightarrow> f64" where
  "datasheet_CalculateCost s res scopes =
     (case res of None \<Rightarrow> Fin 0
      | Some r \<Rightarrow>
          let sc = (case scopes of None \<Rightarrow> no_scopes | Some x \<Rightarrow> x) in
          (case xf_CacheDebug (rs_ExtraFields r) of
             Some d \<Rightarrow> calculateCostWithCache s r d sc | None \<Rightarrow> calculateBaseCost s r sc))"

definition datasheet_CalculateCostForUsage ::
    "pricing_store \<Rightarrow> BifrostLLMUsage option \<Rightarrow> string \<Rightarrow> string \<Rightarrow> string \<Rightarrow> LookupScopes option \<Rightarrow> f64" where
  "datasheet_CalculateCostForUsage s usage provider model requestType scopes =
     (case usage of None \<Rightarrow> Fin 0
      | Some u \<Rightarrow>
          (case own_cost usage of Some c \<Rightarrow> c
           | None \<Rightarrow>
               Fin (computeCostFromInput s
                 (no_input\<lparr>ci_usage := usage, ci_tier := tierFromResponse None (us_Speed u) (us_InferenceGeo u)\<rparr>)
                 ((routing_model provider model)\<lparr>ri_ServerSideFallbackModel := us_ServerSideFallbackModel u\<rparr>)
                 (normalizeStreamRequestType requestType)
                 (case scopes of None \<Rightarrow> no_scopes | Some x \<Rightarrow> x))))"

end
