(* ===== verification/Override_Properties.thy ===== *)
theory Override_Properties
  imports Pricing_Lookup "HOL-Library.Multiset"
begin

text \<open>
  Which override prices a request: the one of the most specific scope that matches it, an exact pattern
  before a wildcard and a longer wildcard before a shorter one.
\<close>

section \<open>First matches\<close>

lemma first_hit_Some: "first_hit f xs = Some y \<Longrightarrow> \<exists>a x b. xs = a @ x # b \<and> f x = Some y \<and> (\<forall>z \<in> set a. f z = None)"
proof (induction xs)
  case (Cons x xs)
  show ?case
  proof (cases "f x")
    case None
    then obtain a z b where "xs = a @ z # b" "f z = Some y" "\<forall>z \<in> set a. f z = None" using Cons by auto
    then show ?thesis using None by (intro exI [of _ "x # a"] exI [of _ z] exI [of _ b]) simp
  next
    case (Some z)
    then show ?thesis using Cons.prems by (intro exI [of _ "[]"] exI [of _ x] exI [of _ xs]) simp
  qed
qed simp

lemma first_hit_None: "first_hit f xs = None \<longleftrightarrow> (\<forall>x \<in> set xs. f x = None)"
  by (induction xs) (auto split: option.splits)

lemma find_split: "find P xs = Some x \<Longrightarrow> \<exists>a b. xs = a @ x # b \<and> P x \<and> (\<forall>z \<in> set a. \<not> P z)"
proof (induction xs)
  case (Cons y xs)
  show ?case
  proof (cases "P y")
    case False
    then obtain a b where "xs = a @ x # b" "P x" "\<forall>z \<in> set a. \<not> P z" using Cons by auto
    then show ?thesis using False by (intro exI [of _ "y # a"] exI [of _ b]) simp
  next
    case True
    then show ?thesis using Cons.prems by (intro exI [of _ "[]"] exI [of _ xs]) simp
  qed
qed simp

lemma find_in_set: "find P xs = Some x \<Longrightarrow> x \<in> set xs \<and> P x"
  using find_split by fastforce

lemma find_append_cases: "find P (xs @ ys) = (case find P xs of None \<Rightarrow> find P ys | Some x \<Rightarrow> Some x)"
  by (induction xs) auto

section \<open>Compiled overrides\<close>

text \<open>What \<^verbatim>\<open>sort.Slice\<close> does to the wildcards.\<close>

definition sorts_by_length :: "slice_sort \<Rightarrow> bool" where
  "sorts_by_length srt \<longleftrightarrow>
     (\<forall>xs. mset (srt xs) = mset xs \<and> sorted_wrt (\<lambda>a b. length (en_pattern a) \<ge> length (en_pattern b)) (srt xs))"

lemma mset_sort_by: "mset (sort_by lt xs) = mset xs"
proof -
  have "mset (insert_by lt x ys) = add_mset x (mset ys)" for x ys by (induction ys) auto
  then show ?thesis unfolding sort_by_def by (induction xs) simp_all
qed

lemma by_length_sorts: "sorts_by_length by_length"
proof -
  let ?key = "\<lambda>e. - int (length (en_pattern e))"
  have s: "sorted_wrt (\<lambda>a b. length (en_pattern a) \<ge> length (en_pattern b)) (by_length xs)" for xs
  proof -
  have b: "by_length = sort_by (\<lambda>a b. ?key a < ?key b)" unfolding by_length_def by simp
  have "sorted_wrt (\<lambda>a b. length (en_pattern a) \<ge> length (en_pattern b)) ys \<longleftrightarrow> sorted (map ?key ys)" for ys
    by (simp add: sorted_map)
  then show ?thesis unfolding b using sort_by_key_sorted [of ?key xs] by blast
  qed
  then show ?thesis by (simp add: sorts_by_length_def) (simp add: by_length_def mset_sort_by)
qed

lemma exact_entries:
  "gm_get0 [] (cp_exact (buildCustomPricingData srt overrides)) model =
     map entry_of (filter (\<lambda>o1. ov_MatchType o1 = ''exact'' \<and> en_pattern (entry_of o1) = model) overrides)"
proof -
  let ?f = "\<lambda>o1 m. if ov_MatchType o1 = ''exact''
    then gm_put (en_pattern (entry_of o1)) (gm_get0 [] m (en_pattern (entry_of o1)) @ [entry_of o1]) m else m"
  have "gm_get0 [] (fold ?f os m) model = gm_get0 [] m model @
      map entry_of (filter (\<lambda>o1. ov_MatchType o1 = ''exact'' \<and> en_pattern (entry_of o1) = model) os)" for os m
    by (induction os arbitrary: m) auto
  from this [of overrides "[]"] show ?thesis by (simp add: buildCustomPricingData_def)
qed

lemma wildcard_entries:
  assumes "sorts_by_length srt"
  shows "set (cp_wildcard (buildCustomPricingData srt overrides)) = entry_of ` {o1 \<in> set overrides. ov_MatchType o1 = ''wildcard''}"
    "sorted_wrt (\<lambda>a b. length (en_pattern a) \<ge> length (en_pattern b)) (cp_wildcard (buildCustomPricingData srt overrides))"
proof -
  have "mset (srt xs) = mset xs" for xs using assms by (simp add: sorts_by_length_def)
  from mset_eq_setD [OF this] show "set (cp_wildcard (buildCustomPricingData srt overrides)) = entry_of ` {o1 \<in> set overrides. ov_MatchType o1 = ''wildcard''}"
    by (auto simp: buildCustomPricingData_def)
  show "sorted_wrt (\<lambda>a b. length (en_pattern a) \<ge> length (en_pattern b)) (cp_wildcard (buildCustomPricingData srt overrides))"
    using assms by (simp add: sorts_by_length_def buildCustomPricingData_def)
qed

section \<open>Resolution\<close>

definition pattern_matches :: "Override \<Rightarrow> string \<Rightarrow> bool" where
  "pattern_matches o1 model \<longleftrightarrow>
     (if ov_MatchType o1 = ''exact'' then en_pattern (entry_of o1) = model
      else ov_MatchType o1 = ''wildcard'' \<and> hasPrefix model (en_pattern (entry_of o1)))"

definition override_matches :: "Override \<Rightarrow> string \<Rightarrow> string \<Rightarrow> LookupScopes \<Rightarrow> bool" where
  "override_matches o1 model mode scopes \<longleftrightarrow>
     pattern_matches o1 model \<and> matchesScope (entry_of o1) scopes \<and> matchesMode (entry_of o1) mode"

text \<open>One override is at least as close to the model as another: exact, or a wildcard that is not shorter.\<close>

definition as_close :: "Override \<Rightarrow> Override \<Rightarrow> bool" where
  "as_close o1 o2 \<longleftrightarrow> ov_MatchType o1 = ''exact''
     \<or> ov_MatchType o2 = ''wildcard'' \<and> length (en_pattern (entry_of o2)) \<le> length (en_pattern (entry_of o1))"

definition in_scope :: "Override list \<Rightarrow> string \<Rightarrow> string \<Rightarrow> LookupScopes \<Rightarrow> string \<Rightarrow> Override set" where
  "in_scope overrides model mode scopes kind =
     {o1 \<in> set overrides. override_matches o1 model mode scopes \<and> ov_ScopeKind o1 = kind}"

lemma entry_scope [simp]: "en_scopeKind (entry_of o1) = ov_ScopeKind o1" "en_options (entry_of o1) = ov_Options o1"
  by (simp_all add: entry_of_def Let_def)

lemma candidates_set:
  assumes "sorts_by_length srt"
  shows "set (candidates_of (buildCustomPricingData srt overrides) model) = entry_of ` {o1 \<in> set overrides. pattern_matches o1 model}"
  unfolding candidates_of_def set_append set_filter wildcard_entries(1) [OF assms] exact_entries
  by (auto simp: pattern_matches_def)

lemma resolve_scope_Some:
  assumes "sorts_by_length srt" "resolve_scope (buildCustomPricingData srt overrides) model mode scopes kind = Some opts"
  shows "\<exists>o1 \<in> in_scope overrides model mode scopes kind. opts = ov_Options o1
    \<and> (\<forall>o2 \<in> in_scope overrides model mode scopes kind. as_close o1 o2)"
proof -
  let ?d = "buildCustomPricingData srt overrides" and ?P = "\<lambda>e. en_scopeKind e = kind \<and> matchesScope e scopes \<and> matchesMode e mode"
  let ?exact = "filter (\<lambda>o1. ov_MatchType o1 = ''exact'' \<and> en_pattern (entry_of o1) = model) overrides"
  let ?W = "filter (\<lambda>e. hasPrefix model (en_pattern e)) (cp_wildcard ?d)"
  obtain e where e: "find ?P (candidates_of ?d model) = Some e" "opts = en_options e"
    using assms(2) by (auto simp: resolve_scope_def)
  have cands: "candidates_of ?d model = map entry_of ?exact @ ?W" by (simp add: candidates_of_def exact_entries)
  show ?thesis
  proof (cases "find ?P (map entry_of ?exact)")
    case (Some e1)
    then have "e1 = e" using e(1) unfolding cands by (simp add: find_append_cases)
    have "e \<in> set (map entry_of ?exact)" "?P e" using find_in_set [OF Some] unfolding \<open>e1 = e\<close> by blast+
    then obtain o1 where "o1 \<in> set ?exact" "e = entry_of o1" "?P e" by auto
    then show ?thesis using e(2)
      by (intro bexI [of _ o1]) (auto simp: in_scope_def override_matches_def pattern_matches_def as_close_def)
  next
    case None
    then have "find ?P ?W = Some e" using e(1) unfolding cands find_append_cases by simp
    from find_split [OF this] obtain a b where w: "?W = a @ e # b" "?P e" "\<forall>z \<in> set a. \<not> ?P z" by blast
    have "e \<in> set ?W" using w(1) by simp
    then obtain o1 where o1: "o1 \<in> set overrides" "ov_MatchType o1 = ''wildcard''" "e = entry_of o1" "hasPrefix model (en_pattern e)"
      using wildcard_entries(1) [OF assms(1), of overrides] by auto
    have "as_close o1 o2" if o2: "o2 \<in> in_scope overrides model mode scopes kind" for o2
    proof -
      have p: "?P (entry_of o2)" using o2 by (simp add: in_scope_def override_matches_def)
      have "\<not> (ov_MatchType o2 = ''exact'')"
        using None o2 p by (auto simp: find_None_iff in_scope_def override_matches_def pattern_matches_def)
      then have t: "ov_MatchType o2 = ''wildcard''" "hasPrefix model (en_pattern (entry_of o2))"
        using o2 by (auto simp: in_scope_def override_matches_def pattern_matches_def)
      then have "entry_of o2 \<in> set ?W"
        using wildcard_entries(1) [OF assms(1), of overrides] o2 by (auto simp: in_scope_def)
      then have "entry_of o2 = e \<or> entry_of o2 \<in> set b" using w p by auto
      moreover have "sorted_wrt (\<lambda>a b. length (en_pattern a) \<ge> length (en_pattern b)) (a @ e # b)"
        using sorted_wrt_filter [OF wildcard_entries(2) [OF assms(1)], of "\<lambda>e. hasPrefix model (en_pattern e)" overrides]
        unfolding w(1) .
      ultimately show ?thesis using t o1(3) by (auto simp: as_close_def sorted_wrt_append)
    qed
    moreover have "o1 \<in> in_scope overrides model mode scopes kind"
      using o1 w(2) by (simp add: in_scope_def override_matches_def pattern_matches_def)
    ultimately show ?thesis using e(2) o1(3) by (intro bexI [of _ o1]) auto
  qed
qed

lemma resolve_scope_None:
  assumes "sorts_by_length srt"
  shows "resolve_scope (buildCustomPricingData srt overrides) model mode scopes kind = None
     \<longleftrightarrow> in_scope overrides model mode scopes kind = {}"
  unfolding resolve_scope_def option.map_disc_iff find_None_iff candidates_set [OF assms] bex_simps
  by (auto simp: in_scope_def override_matches_def)

text \<open>
  C32: Overrides by specificity: the prices that patch a row are those of an override that matches the
  model, the mode and the identifiers of the request; no override of a more specific scope matches, and
  in its scope none is closer to the model. Without such prices no override of any scope matches.
\<close>

theorem most_specific_override_wins:
  assumes "sorts_by_length srt"
  shows "case resolve (buildCustomPricingData srt overrides) model mode scopes of
      Some opts \<Rightarrow> (\<exists>before kind after o1. scopePriorityOrder scopes = before @ kind # after
          \<and> o1 \<in> in_scope overrides model mode scopes kind \<and> opts = ov_Options o1
          \<and> (\<forall>k \<in> set before. in_scope overrides model mode scopes k = {})
          \<and> (\<forall>o2 \<in> in_scope overrides model mode scopes kind. as_close o1 o2))
    | None \<Rightarrow> (\<forall>k \<in> set (scopePriorityOrder scopes). in_scope overrides model mode scopes k = {})"
proof (cases "resolve (buildCustomPricingData srt overrides) model mode scopes")
  case None
  from this have "\<forall>k \<in> set (scopePriorityOrder scopes). in_scope overrides model mode scopes k = {}"
    unfolding resolve_def first_hit_None resolve_scope_None [OF assms] .
  then show ?thesis unfolding None option.case .
next
  case (Some opts)
  from first_hit_Some [OF this [unfolded resolve_def]] obtain a k b where
      k: "scopePriorityOrder scopes = a @ k # b"
        "resolve_scope (buildCustomPricingData srt overrides) model mode scopes k = Some opts"
        "\<forall>z \<in> set a. resolve_scope (buildCustomPricingData srt overrides) model mode scopes z = None"
    by (elim exE conjE)
  obtain o1 where o1: "o1 \<in> in_scope overrides model mode scopes k" "opts = ov_Options o1"
      "\<forall>o2 \<in> in_scope overrides model mode scopes k. as_close o1 o2"
    using resolve_scope_Some [OF assms k(2)] by blast
  have none: "\<forall>z \<in> set a. in_scope overrides model mode scopes z = {}"
    using k(3) unfolding resolve_scope_None [OF assms] .
  show ?thesis unfolding Some option.case
    by (rule exI [of _ a], rule exI [of _ k], rule exI [of _ b], rule exI [of _ o1]) (intro conjI k(1) o1 none)
qed

section \<open>A valid override takes effect\<close>

text \<open>A request carries the identifiers of an override, and these are not empty.\<close>

definition carries :: "LookupScopes \<Rightarrow> Override \<Rightarrow> bool" where
  "carries scopes o1 \<longleftrightarrow>
     (let meets = (\<lambda>i x. case i of None \<Rightarrow> True | Some v \<Rightarrow> v \<noteq> [] \<and> v = x) in
      meets (ov_UserID o1) (sc_UserID scopes) \<and> meets (ov_VirtualKeyID o1) (sc_VirtualKeyID scopes)
      \<and> meets (ov_ProviderID o1) (sc_Provider scopes) \<and> meets (ov_ProviderKeyID o1) (sc_SelectedKeyID scopes))"

lemma valid_scope:
  assumes "validateScopeKind o1 = None" "carries scopes o1"
  shows "ov_ScopeKind o1 \<in> set (scopePriorityOrder scopes)" "matchesScope (entry_of o1) scopes"
proof -
  have kinds: "ov_ScopeKind o1 \<in> {''global'', ''user'', ''user_provider'', ''user_provider_key'', ''provider'', ''provider_key'',
      ''virtual_key'', ''virtual_key_provider'', ''virtual_key_provider_key''}"
    using assms(1) by (auto simp: validateScopeKind_def Let_def scope_identifiers_def split: if_splits)
  show "ov_ScopeKind o1 \<in> set (scopePriorityOrder scopes)" "matchesScope (entry_of o1) scopes"
    using kinds assms
    by (auto simp: validateScopeKind_def scope_identifiers_def carries_def scopePriorityOrder_def matchesScope_def entry_of_def Let_def
        split: if_splits option.splits)
qed

lemma valid_pattern: "validatePattern o1 = None \<Longrightarrow> ov_MatchType o1 \<in> {''exact'', ''wildcard''}"
  by (auto simp: validatePattern_def Let_def split: if_splits)

text \<open>
  A valid override takes effect: when \<^verbatim>\<open>IsValid\<close> accepts the only override of a store, a request for a
  model of its pattern, in one of its modes and with its identifiers is priced by it.
\<close>

theorem valid_override_takes_effect:
  assumes "sorts_by_length srt" "IsValid o1 = None" "carries scopes o1"
    "if ov_MatchType o1 = ''exact'' then en_pattern (entry_of o1) = model else hasPrefix model (en_pattern (entry_of o1))"
    "mode \<in> set (map normalizeRequestType (ov_RequestTypes o1))"
  shows "resolve (buildCustomPricingData srt [o1]) model mode scopes = Some (ov_Options o1)"
proof -
  have v: "validateScopeKind o1 = None" "validatePattern o1 = None" using assms(2) by (auto simp: IsValid_def split: option.splits)
  have "matchesMode (entry_of o1) mode" using assms(5) by (simp add: matchesMode_def entry_of_def Let_def)
  then have m: "override_matches o1 model mode scopes"
    using valid_scope(2) [OF v(1) assms(3)] valid_pattern [OF v(2)] assms(4)
    by (auto simp: override_matches_def pattern_matches_def split: if_splits)
  then have i: "o1 \<in> in_scope [o1] model mode scopes (ov_ScopeKind o1)" by (simp add: in_scope_def)
  have "resolve (buildCustomPricingData srt [o1]) model mode scopes \<noteq> None"
    unfolding resolve_def first_hit_None resolve_scope_None [OF assms(1)] using i valid_scope(1) [OF v(1) assms(3)] by blast
  then obtain opts where o: "resolve (buildCustomPricingData srt [o1]) model mode scopes = Some opts" by blast
  then obtain k where "resolve_scope (buildCustomPricingData srt [o1]) model mode scopes k = Some opts"
    using first_hit_Some [OF o [unfolded resolve_def]] by blast
  from resolve_scope_Some [OF assms(1) this] o show ?thesis by (auto simp: in_scope_def)
qed

section \<open>The stored overrides\<close>

text \<open>The overrides of a store by their IDs, and what holds of a store after its first load.\<close>

definition stored :: "pricing_store \<Rightarrow> string \<Rightarrow> Override option" where
  "stored s i = find (\<lambda>p. ov_ID p = i) (ps_rawOverrides s)"

definition compiled :: "slice_sort \<Rightarrow> pricing_store \<Rightarrow> bool" where
  "compiled srt s \<longleftrightarrow> distinct (map ov_ID (ps_rawOverrides s))
     \<and> ps_customPricing s = Some (buildCustomPricingData srt (ps_rawOverrides s))"

definition by_id :: "Override list \<Rightarrow> string \<Rightarrow> Override option" where
  "by_id os = map_of (rev (map (\<lambda>p. (ov_ID p, p)) os))"

lemma ids_put_by_id: "map ov_ID (put_by_id o1 os) = (if ov_ID o1 \<in> set (map ov_ID os) then map ov_ID os else map ov_ID os @ [ov_ID o1])"
  by (simp add: put_by_id_def)

lemma find_put: "find (\<lambda>p. ov_ID p = i) (put_by_id o1 os) = (if i = ov_ID o1 then Some o1 else find (\<lambda>p. ov_ID p = i) os)"
proof -
  have "find (\<lambda>p. ov_ID p = i) (map (\<lambda>p. if ov_ID p = ov_ID o1 then o1 else p) os)
      = (if i = ov_ID o1 \<and> ov_ID o1 \<in> set (map ov_ID os) then Some o1 else find (\<lambda>p. ov_ID p = i) os)"
    by (induction os) auto
  moreover have "ov_ID o1 \<notin> set (map ov_ID os) \<Longrightarrow> find (\<lambda>p. ov_ID p = ov_ID o1) os = None"
    by (induction os) auto
  ultimately show ?thesis by (auto simp: put_by_id_def find_append_cases split: option.split)
qed

lemma distinct_overrides_spec:
  "distinct (map ov_ID (distinct_overrides os)) \<and> set (map ov_ID (distinct_overrides os)) = set (map ov_ID os)
   \<and> (\<forall>i. find (\<lambda>p. ov_ID p = i) (distinct_overrides os) = by_id os i)"
proof (induction os rule: rev_induct)
  case Nil
  then show ?case by (simp add: distinct_overrides_def by_id_def)
next
  case (snoc x xs)
  have d: "distinct_overrides (xs @ [x]) = put_by_id x (distinct_overrides xs)" by (simp add: distinct_overrides_def)
  have b: "by_id (xs @ [x]) i = (if i = ov_ID x then Some x else by_id xs i)" for i by (simp add: by_id_def)
  show ?case unfolding d b find_put ids_put_by_id using snoc by auto
qed

lemma by_id_None: "by_id os i = None \<longleftrightarrow> i \<notin> set (map ov_ID os)"
  by (auto simp: by_id_def map_of_eq_None_iff image_iff)

lemma install_raw: "ps_rawOverrides (install srt os s) = os"
  by (simp add: install_def)

lemma install_compiled: "distinct (map ov_ID os) \<Longrightarrow> compiled srt (install srt os s)"
  by (simp add: compiled_def install_def)

text \<open>
  C33: Overrides refine a map from IDs: loading replaces the map by the rows, upserting adds the rows to it, the
  last of several rows with one ID winning, deleting removes one ID, and after each the IDs are distinct and
  the lookup table is that of the stored overrides. A row that does not parse changes nothing.
\<close>

theorem overrides_refine_a_map:
  assumes "distinct (map ov_ID (ps_rawOverrides s))"
  shows "(case parsed_overrides rows of
      Inl e \<Rightarrow> SetOverrides srt rows s = Inl e \<and> UpsertOverrides srt rows s = Inl e
    | Inr os \<Rightarrow> (\<exists>t. SetOverrides srt rows s = Inr t \<and> compiled srt t \<and> stored t = by_id os)
        \<and> (\<exists>t. UpsertOverrides srt rows s = Inr t \<and> compiled srt t \<and> stored t = stored s ++ by_id os))
    \<and> compiled srt (DeleteOverride srt i s) \<and> stored (DeleteOverride srt i s) = (stored s)(i := None)"
proof (intro conjI)
  have drop: "find (\<lambda>p. ov_ID p = j) (filter (\<lambda>p. ov_ID p \<notin> A) xs) = (if j \<in> A then None else find (\<lambda>p. ov_ID p = j) xs)" for A j xs
    by (induction xs) auto
  have drop1: "find (\<lambda>p. ov_ID p = j) (filter (\<lambda>p. ov_ID p \<noteq> i) xs) = (if j = i then None else find (\<lambda>p. ov_ID p = j) xs)" for j xs
    by (induction xs) auto
  have keep: "distinct (map ov_ID (filter Q (ps_rawOverrides s)))" for Q using assms by (rule distinct_map_filter)
  show "compiled srt (DeleteOverride srt i s)" by (simp add: DeleteOverride_def install_compiled keep)
  show "stored (DeleteOverride srt i s) = (stored s)(i := None)"
    by (rule ext) (simp add: stored_def DeleteOverride_def install_def drop1)
  show "case parsed_overrides rows of
      Inl e \<Rightarrow> SetOverrides srt rows s = Inl e \<and> UpsertOverrides srt rows s = Inl e
    | Inr os \<Rightarrow> (\<exists>t. SetOverrides srt rows s = Inr t \<and> compiled srt t \<and> stored t = by_id os)
        \<and> (\<exists>t. UpsertOverrides srt rows s = Inr t \<and> compiled srt t \<and> stored t = stored s ++ by_id os)"
  proof (cases "parsed_overrides rows")
    case (Inl e)
    then show ?thesis by (simp add: SetOverrides_def UpsertOverrides_def)
  next
    case (Inr os)
    note d = distinct_overrides_spec [of os]
    let ?new = "filter (\<lambda>p. ov_ID p \<notin> set (map ov_ID os)) (ps_rawOverrides s) @ distinct_overrides os"
    have "distinct (map ov_ID ?new)" unfolding map_append distinct_append using d keep by auto
    moreover have "stored (install srt ?new s) = stored s ++ by_id os"
    proof
      fix j
      have "by_id os j = None" if "j \<notin> set (map ov_ID os)" using that by (simp only: by_id_None not_False_eq_True)
      moreover have "\<exists>y. by_id os j = Some y" if "j \<in> set (map ov_ID os)" using that by_id_None [of os j] by blast
      moreover have "stored (install srt ?new s) j
          = (case (if j \<in> set (map ov_ID os) then None else stored s j) of None \<Rightarrow> by_id os j | Some x \<Rightarrow> Some x)"
        unfolding drop [symmetric] stored_def install_raw find_append_cases using d by (simp only:)
      ultimately show "stored (install srt ?new s) j = (stored s ++ by_id os) j"
        by (auto simp: map_add_def split: option.split)
    qed
    moreover have "stored (install srt (distinct_overrides os) s) = by_id os" using d by (auto simp: stored_def install_def)
    ultimately show ?thesis using Inr d by (simp add: SetOverrides_def UpsertOverrides_def install_compiled)
  qed
qed

end
