(* ===== verification/Pricing_Properties.thy ===== *)
theory Pricing_Properties
  imports Cost_Calculation Override_Properties
begin

text \<open>
  What a response costs: every token of a prompt is priced once, a bill is not negative, and a call that
  failed after the provider had billed it costs what the same call costs when it succeeds.
\<close>

section \<open>The tokens of a prompt\<close>

text \<open>Counts that a provider may report: none is negative.\<close>

definition counts_ok :: "BifrostLLMUsage \<Rightarrow> bool" where
  "counts_ok u \<longleftrightarrow> 0 \<le> us_PromptTokens u \<and> 0 \<le> us_CompletionTokens u
     \<and> (case us_PromptTokensDetails u of None \<Rightarrow> True
        | Some d \<Rightarrow> 0 \<le> pd_CachedReadTokens d \<and> 0 \<le> pd_CachedWriteTokens d
            \<and> (case pd_CachedWriteTokenDetails d of None \<Rightarrow> True | Some (_, h) \<Rightarrow> 0 \<le> h))
     \<and> (case us_CompletionTokensDetails u of None \<Rightarrow> True
        | Some d \<Rightarrow> (case cd_NumSearchQueries d of None \<Rightarrow> True | Some q \<Rightarrow> 0 \<le> q))"

lemma cached_counts_bounds:
  assumes "counts_ok u" "cached_counts u = (r, w, h)"
  shows "0 \<le> r" "0 \<le> h" "h \<le> w" "r + w \<le> us_PromptTokens u"
proof -
  obtain read written hour where raw: "0 \<le> read" "0 \<le> written" "0 \<le> hour"
    "(case us_PromptTokensDetails u of None \<Rightarrow> (0, 0, 0)
      | Some d \<Rightarrow> (pd_CachedReadTokens d, pd_CachedWriteTokens d,
          case pd_CachedWriteTokenDetails d of None \<Rightarrow> 0 | Some (_, h) \<Rightarrow> h)) = (read, written, hour)"
    using assms(1) by (auto simp: counts_ok_def split: option.splits)
  then have "r = min read (us_PromptTokens u)" "w = min written (us_PromptTokens u - r)" "h = min hour w"
    using assms(2) unfolding cached_counts_def Let_def raw by (auto simp: min_def)
  moreover have "0 \<le> us_PromptTokens u" using assms(1) by (simp add: counts_ok_def)
  ultimately show "0 \<le> r" "0 \<le> h" "h \<le> w" "r + w \<le> us_PromptTokens u"
    using raw(1,2,3) by (simp_all add: min_def split: if_splits)
qed

lemma text_input_cost_split:
  assumes "counts_ok u" "cached_counts u = (r, w, h)"
  shows "text_input_cost pricing u tier =
    of_int (us_PromptTokens u - r - w) * tieredInputRate pricing (us_PromptTokens u) tier
    + of_int r * tieredCacheReadInputTokenRate pricing (us_PromptTokens u) tier
    + of_int h * tieredCacheCreationInputAbove1hrTokenRate pricing (us_PromptTokens u) tier
    + of_int (w - h) * tieredCacheCreationInputTokenRate pricing (us_PromptTokens u) tier"
proof -
  note b = cached_counts_bounds [OF assms]
  have "r > 0 \<or> r = 0" "h > 0 \<or> h = 0" "w > 0 \<or> (w = 0 \<and> h = 0)" using b by auto
  then show ?thesis by (auto simp: text_input_cost_def assms(2) Let_def)
qed

text \<open>The factor for data that stays in the United States.\<close>

definition geo_factor :: "TableModelPricing \<Rightarrow> serviceTier \<Rightarrow> rat" where
  "geo_factor pricing tier = (if inferenceGeoUS tier then rate_or 1 (price pricing ''InferenceGeoUSMultiplier'') else 1)"

lemma text_cost_parts: "computeTextCost pricing (Some u) tier = geo_factor pricing tier *
    (text_input_cost pricing u tier + of_int (us_CompletionTokens u) * tieredOutputRate pricing (us_PromptTokens u) tier
     + audio_correction pricing u tier) + search_cost pricing u"
  by (auto simp: computeTextCost_def geo_factor_def rate_or_def Let_def split: option.split)

text \<open>
  What a response reports of its prompt: the tokens read from the cache, those written to it, the written ones
  that are kept for an hour, and the audio tokens of the prompt and of the completion.
\<close>

definition reported_read :: "BifrostLLMUsage \<Rightarrow> int" where
  "reported_read u = (case us_PromptTokensDetails u of None \<Rightarrow> 0 | Some d \<Rightarrow> pd_CachedReadTokens d)"

definition reported_written :: "BifrostLLMUsage \<Rightarrow> int" where
  "reported_written u = (case us_PromptTokensDetails u of None \<Rightarrow> 0 | Some d \<Rightarrow> pd_CachedWriteTokens d)"

definition reported_hour :: "BifrostLLMUsage \<Rightarrow> int" where
  "reported_hour u = (case us_PromptTokensDetails u of None \<Rightarrow> 0
     | Some d \<Rightarrow> (case pd_CachedWriteTokenDetails d of None \<Rightarrow> 0 | Some (_, h) \<Rightarrow> h))"

definition audio_prompt :: "BifrostLLMUsage \<Rightarrow> int" where
  "audio_prompt u = (case us_PromptTokensDetails u of None \<Rightarrow> 0 | Some d \<Rightarrow> max 0 (min (pd_AudioTokens d) (us_PromptTokens u)))"

definition audio_completion :: "BifrostLLMUsage \<Rightarrow> int" where
  "audio_completion u =
     (case us_CompletionTokensDetails u of None \<Rightarrow> 0 | Some d \<Rightarrow> max 0 (min (cd_AudioTokens d) (us_CompletionTokens u)))"

lemma cached_counts_reported:
  "cached_counts u = (let r = min (reported_read u) (us_PromptTokens u); w = min (reported_written u) (us_PromptTokens u - r)
     in (r, w, min (reported_hour u) w))"
  by (auto simp: cached_counts_def reported_read_def reported_written_def reported_hour_def Let_def min_def split: option.split prod.split)

lemma audio_correction_reported:
  assumes "counts_ok u"
  shows "audio_correction pricing u tier =
    of_int (audio_prompt u) * (case price pricing ''InputCostPerAudioToken'' of None \<Rightarrow> 0
       | Some y \<Rightarrow> y - tieredInputRate pricing (us_PromptTokens u) tier)
    + of_int (audio_completion u) * (case price pricing ''OutputCostPerAudioToken'' of None \<Rightarrow> 0
       | Some y \<Rightarrow> y - tieredOutputRate pricing (us_PromptTokens u) tier)"
proof -
  have "0 \<le> us_PromptTokens u" "0 \<le> us_CompletionTokens u" using assms by (simp_all add: counts_ok_def)
  moreover from this have "clamped k (us_PromptTokens u) = max 0 (min k (us_PromptTokens u))"
      "clamped k (us_CompletionTokens u) = max 0 (min k (us_CompletionTokens u))" for k
    by (auto simp: clamped_def)
  ultimately show ?thesis
    by (auto simp: audio_correction_def audio_prompt_def audio_completion_def Let_def max_def split: option.split)
qed

text \<open>
  C29: Each token of a prompt is priced once: the tokens read from the cache, as many as the prompt has, are
  charged the cache's read rate, the tokens written to it, as many as are left, the rate for an hour or the other write rate, and the rest the
  input rate; none of the four counts is negative and they add up to the prompt. The text of a call costs their sum plus the
  completion, scaled for the region, plus the searches. Audio tokens are then moved from the text rate to the audio
  rate, which is not the rate they were charged at when they were cached as well (\<open>cached_audio_has_a_negative_price\<close>).
  No reported count is negative; more cached tokens than the prompt has may be reported.
\<close>

theorem prompt_tokens_priced_once:
  assumes "counts_ok u"
  shows "let n = us_PromptTokens u; r = min (reported_read u) n; w = min (reported_written u) (n - r); h = min (reported_hour u) w;
      audio_in = (case price pricing ''InputCostPerAudioToken'' of None \<Rightarrow> 0 | Some y \<Rightarrow> y - tieredInputRate pricing n tier);
      audio_out = (case price pricing ''OutputCostPerAudioToken'' of None \<Rightarrow> 0 | Some y \<Rightarrow> y - tieredOutputRate pricing n tier)
    in 0 \<le> n - r - w \<and> 0 \<le> r \<and> 0 \<le> h \<and> 0 \<le> w - h \<and> (n - r - w) + r + h + (w - h) = n
    \<and> computeTextCost pricing (Some u) tier = geo_factor pricing tier *
       (of_int (n - r - w) * tieredInputRate pricing n tier
        + of_int r * tieredCacheReadInputTokenRate pricing n tier
        + of_int h * tieredCacheCreationInputAbove1hrTokenRate pricing n tier
        + of_int (w - h) * tieredCacheCreationInputTokenRate pricing n tier
        + of_int (us_CompletionTokens u) * tieredOutputRate pricing n tier
        + of_int (audio_prompt u) * audio_in + of_int (audio_completion u) * audio_out) + search_cost pricing u"
proof -
  define r where "r = min (reported_read u) (us_PromptTokens u)"
  define w where "w = min (reported_written u) (us_PromptTokens u - r)"
  define h where "h = min (reported_hour u) w"
  have c: "cached_counts u = (r, w, h)" unfolding r_def w_def h_def cached_counts_reported Let_def by simp
  show ?thesis
    using cached_counts_bounds [OF assms c]
    unfolding text_cost_parts text_input_cost_split [OF assms c] audio_correction_reported [OF assms] Let_def
      r_def [symmetric] w_def [symmetric] h_def [symmetric] by simp
qed

definition sample_row :: TableModelPricing where
  "sample_row = zero_row\<lparr>mp_rates := no_rates(''InputCostPerToken'' \<mapsto> 2, ''OutputCostPerToken'' \<mapsto> 3, ''CacheReadInputTokenCost'' \<mapsto> 1)\<rparr>"

definition cached_call :: BifrostLLMUsage where
  "cached_call = no_usage\<lparr>us_PromptTokens := 10, us_CompletionTokens := 5,
     us_PromptTokensDetails := Some (no_prompt_details\<lparr>pd_CachedReadTokens := 4, pd_CachedWriteTokens := 9\<rparr>)\<rparr>"

lemma prompt_tokens_priced_once_witness:
  "computeTextCost sample_row (Some cached_call) standardTier = geo_factor sample_row standardTier *
       (of_int 0 * tieredInputRate sample_row 10 standardTier
        + of_int 4 * tieredCacheReadInputTokenRate sample_row 10 standardTier
        + of_int 0 * tieredCacheCreationInputAbove1hrTokenRate sample_row 10 standardTier
        + of_int 6 * tieredCacheCreationInputTokenRate sample_row 10 standardTier
        + of_int 5 * tieredOutputRate sample_row 10 standardTier + of_int 0 * 0 + of_int 0 * 0) + search_cost sample_row cached_call
   \<and> computeTextCost sample_row (Some cached_call) standardTier = 31"
proof
  have counts: "us_PromptTokens cached_call = 10" "us_CompletionTokens cached_call = 5" "reported_read cached_call = 4"
      "reported_written cached_call = 9" "reported_hour cached_call = 0" "audio_prompt cached_call = 0" "audio_completion cached_call = 0"
    by code_simp+
  have rates: "price sample_row ''InputCostPerAudioToken'' = None" "price sample_row ''OutputCostPerAudioToken'' = None" by code_simp+
  have "counts_ok cached_call" by code_simp
  from prompt_tokens_priced_once [OF this, of sample_row standardTier]
  show "computeTextCost sample_row (Some cached_call) standardTier = geo_factor sample_row standardTier *
       (of_int 0 * tieredInputRate sample_row 10 standardTier
        + of_int 4 * tieredCacheReadInputTokenRate sample_row 10 standardTier
        + of_int 0 * tieredCacheCreationInputAbove1hrTokenRate sample_row 10 standardTier
        + of_int 6 * tieredCacheCreationInputTokenRate sample_row 10 standardTier
        + of_int 5 * tieredOutputRate sample_row 10 standardTier + of_int 0 * 0 + of_int 0 * 0) + search_cost sample_row cached_call"
    unfolding counts rates Let_def option.case by simp
  show "computeTextCost sample_row (Some cached_call) standardTier = 31" by code_simp
qed

section \<open>Bills are not negative\<close>

text \<open>
  The correction for audio tokens replaces the text rate by the audio rate. It assumes that audio tokens
  were priced as text, which is so when none was cached.
\<close>

definition audio_in_text :: "BifrostLLMUsage \<Rightarrow> bool" where
  "audio_in_text u \<longleftrightarrow> (case us_PromptTokensDetails u of None \<Rightarrow> True
     | Some d \<Rightarrow> pd_AudioTokens d = 0 \<or> (pd_CachedReadTokens d = 0 \<and> pd_CachedWriteTokens d = 0))"

lemma audio_part:
  fixes rate :: rat
  assumes "\<And>y. c = Some y \<Longrightarrow> 0 \<le> y" "0 \<le> rate" "0 \<le> n"
  shows "0 \<le> of_int n * rate + (case c of None \<Rightarrow> 0 | Some y \<Rightarrow> if clamped k n > 0 then of_int (clamped k n) * (y - rate) else 0)"
proof (cases c)
  case None
  then show ?thesis using assms by simp
next
  case (Some y)
  have "0 \<le> clamped k n" "clamped k n \<le> n" using assms by (auto simp: clamped_def)
  then have "of_int (clamped k n) * rate \<le> of_int n * rate" "0 \<le> of_int (clamped k n) * y"
    using assms(2,3) assms(1) [OF Some] by (auto intro!: mult_right_mono)
  then show ?thesis using Some assms by (auto simp: algebra_simps)
qed

lemma audio_correction_split:
  "audio_correction pricing u tier =
     (case price pricing ''InputCostPerAudioToken'' of None \<Rightarrow> 0
      | Some y \<Rightarrow> let a = clamped (case us_PromptTokensDetails u of None \<Rightarrow> 0 | Some d \<Rightarrow> pd_AudioTokens d) (us_PromptTokens u)
                 in if a > 0 then of_int a * (y - tieredInputRate pricing (us_PromptTokens u) tier) else 0)
   + (case price pricing ''OutputCostPerAudioToken'' of None \<Rightarrow> 0
      | Some y \<Rightarrow> let a = clamped (case us_CompletionTokensDetails u of None \<Rightarrow> 0 | Some d \<Rightarrow> cd_AudioTokens d) (us_CompletionTokens u)
                 in if a > 0 then of_int a * (y - tieredOutputRate pricing (us_PromptTokens u) tier) else 0)"
  by (auto simp: audio_correction_def Let_def split: option.split)

lemma fair_rate: "priced_fairly pricing \<Longrightarrow> price pricing column = Some x \<Longrightarrow> 0 \<le> x"
  by (simp add: priced_fairly_def)

lemma fair_rate_or: "priced_fairly pricing \<Longrightarrow> 0 \<le> d \<Longrightarrow> 0 \<le> rate_or d (price pricing column)"
  by (auto simp: rate_or_def fair_rate split: option.split)

lemma search_cost_nonneg: "priced_fairly pricing \<Longrightarrow> counts_ok u \<Longrightarrow> 0 \<le> search_cost pricing u"
  by (auto simp: search_cost_def counts_ok_def fair_rate split: option.splits)

lemma text_cost_nonneg:
  assumes "priced_fairly pricing" "counts_ok u" "audio_in_text u"
  shows "0 \<le> computeTextCost pricing (Some u) tier"
proof -
  note r = rates_nonneg [OF assms(1)] fair_rate [OF assms(1)]
  let ?n = "us_PromptTokens u"
  have n: "0 \<le> ?n" "0 \<le> us_CompletionTokens u" using assms(2) by (auto simp: counts_ok_def)
  define ka where "ka = (case us_PromptTokensDetails u of None \<Rightarrow> 0 | Some d \<Rightarrow> pd_AudioTokens d)"
  define kc where "kc = (case us_CompletionTokensDetails u of None \<Rightarrow> 0 | Some d \<Rightarrow> cd_AudioTokens d)"
  obtain rd w h where c: "cached_counts u = (rd, w, h)" by (cases "cached_counts u") auto
  note b = cached_counts_bounds [OF assms(2) c]
  have "ka = 0 \<or> rd = 0 \<and> w = 0"
    using assms(3) c n by (auto simp: audio_in_text_def ka_def cached_counts_def Let_def counts_ok_def split: option.splits prod.splits if_splits)
  then have cases: "ka = 0 \<or> rd = 0 \<and> w = 0 \<and> h = 0" using b by auto
  have out: "0 \<le> of_int (us_CompletionTokens u) * tieredOutputRate pricing ?n tier
      + (case price pricing ''OutputCostPerAudioToken'' of None \<Rightarrow> 0
         | Some y \<Rightarrow> if clamped kc (us_CompletionTokens u) > 0
             then of_int (clamped kc (us_CompletionTokens u)) * (y - tieredOutputRate pricing ?n tier) else 0)"
    by (rule audio_part [OF r(12) r(2) n(2)])
  have inp: "0 \<le> text_input_cost pricing u tier
      + (case price pricing ''InputCostPerAudioToken'' of None \<Rightarrow> 0
         | Some y \<Rightarrow> if clamped ka ?n > 0 then of_int (clamped ka ?n) * (y - tieredInputRate pricing ?n tier) else 0)"
  proof (cases "ka = 0")
    case True
    then have "\<not> clamped ka ?n > 0" using n by (simp add: clamped_def)
    then show ?thesis unfolding text_input_cost_split [OF assms(2) c] using b r(1,9,10,11) by (auto split: option.split)
  next
    case False
    then have "text_input_cost pricing u tier = of_int ?n * tieredInputRate pricing ?n tier"
      using cases unfolding text_input_cost_split [OF assms(2) c] by simp
    then show ?thesis by (simp only:) (rule audio_part [OF r(12) r(1) n(1)])
  qed
  have "0 \<le> text_input_cost pricing u tier + of_int (us_CompletionTokens u) * tieredOutputRate pricing ?n tier
      + audio_correction pricing u tier"
    using inp out unfolding audio_correction_split Let_def ka_def kc_def by (simp add: algebra_simps)
  moreover have "0 \<le> geo_factor pricing tier" using fair_rate_or [OF assms(1), of 1] by (simp add: geo_factor_def)
  ultimately show ?thesis unfolding text_cost_parts using search_cost_nonneg [OF assms(1,2)] by simp
qed

text \<open>What the other kinds of request report: no negative count, and no product of pixels beyond 64 bits.\<close>

definition image_details_ok :: "ImageTokenDetails option \<Rightarrow> bool" where
  "image_details_ok d \<longleftrightarrow> (case d of None \<Rightarrow> True | Some x \<Rightarrow> 0 \<le> id_TextTokens x \<and> 0 \<le> id_ImageTokens x)"

definition image_ok :: "ImageUsage \<Rightarrow> string \<Rightarrow> bool" where
  "image_ok u sz \<longleftrightarrow> 0 \<le> iu_InputTokens u \<and> 0 \<le> iu_OutputTokens u \<and> image_details_ok (iu_InputTokensDetails u)
     \<and> image_details_ok (iu_OutputTokensDetails u) \<and> in64 (parseImagePixels sz * iu_NumInputImages u)
     \<and> in64 (parseImagePixels sz * output_images u)"

definition input_ok :: "costInput \<Rightarrow> bool" where
  "input_ok i \<longleftrightarrow>
     (case ci_usage i of None \<Rightarrow> True | Some u \<Rightarrow> counts_ok u \<and> audio_in_text u)
     \<and> (case ci_audioTokenDetails i of None \<Rightarrow> True | Some d \<Rightarrow> 0 \<le> ad_AudioTokens d \<and> 0 \<le> ad_TextTokens d)
     \<and> (case ci_imageUsage i of None \<Rightarrow> True | Some u \<Rightarrow> image_ok u (ci_imageSize i))
     \<and> (case ci_ocrProcessedPages i of None \<Rightarrow> True | Some n \<Rightarrow> 0 \<le> n)"

lemma usage_counts:
  assumes "case usage of None \<Rightarrow> True | Some u \<Rightarrow> counts_ok u \<and> audio_in_text u"
  shows "0 \<le> inputTierTokens usage" "0 \<le> completion_tokens usage"
  using assms by (auto simp: inputTierTokens_def completion_tokens_def counts_ok_def split: option.splits)

lemma positive_nonneg [simp]: "0 \<le> positive n"
  by (simp split: option.split)

lemma audio_cost_nonneg:
  assumes "priced_fairly pricing"
  shows "0 \<le> computeAudioOutputCost pricing usage secs n tier" "0 \<le> generic_audio_input pricing usage secs n tier"
    "0 \<le> computeSpeechCost pricing usage secs chars tier"
proof -
  note r = rates_nonneg [OF assms] fair_rate [OF assms]
  show o1: "0 \<le> computeAudioOutputCost pricing usage secs n tier" for n
    unfolding computeAudioOutputCost_def using r(8,12) by (auto split: option.split simp del: max_0R)
  show "0 \<le> generic_audio_input pricing usage secs n tier"
    unfolding generic_audio_input_def using r(1,5) by auto
  have "0 \<le> (if chars > 0 then (case price pricing ''InputCostPerCharacter'' of Some x \<Rightarrow> of_int chars * x
         | None \<Rightarrow> of_int chars * tieredInputRate pricing m tier) else if k > 0 then of_int k * tieredInputRate pricing m tier else 0)" for k m
    using r(1,12) by (auto split: option.split)
  from add_nonneg_nonneg [OF this o1] show "0 \<le> computeSpeechCost pricing usage secs chars tier"
    unfolding computeSpeechCost_def Let_def .
qed

lemma transcription_cost_nonneg:
  assumes "priced_fairly pricing" "case d of None \<Rightarrow> True | Some d \<Rightarrow> 0 \<le> ad_AudioTokens d \<and> 0 \<le> ad_TextTokens d"
  shows "0 \<le> computeTranscriptionCost pricing usage secs d tier"
proof -
  note r = rates_nonneg [OF assms(1)]
  have "0 \<le> computeAudioInputCost pricing usage secs d n tier" for n
    unfolding computeAudioInputCost_def using assms(2) r(1,7) audio_cost_nonneg(2) [OF assms(1)]
    by (auto split: option.split)
  then show ?thesis unfolding computeTranscriptionCost_def Let_def using r(2) by auto
qed

lemma image_cost_nonneg:
  assumes "priced_fairly pricing" "image_ok u sz"
  shows "0 \<le> computeImageCost pricing (Some u) sz quality tier"
proof -
  note r = rates_nonneg [OF assms(1)]
  have f: "0 \<le> rate_or 0 (price pricing column)" for column using fair_rate_or [OF assms(1), of 0] by simp
  have images: "0 \<le> output_images u" by (simp add: output_images_def split: option.split)
  have "0 \<le> rate_or 0 (per_image_rate pricing px q)" for px q
    unfolding per_image_rate_def Let_def by (rule cascade_nonneg [OF assms(1)]) simp
  then have "0 \<le> computeImageOutputCost pricing u n (parseImagePixels sz) quality tier" for n
    unfolding computeImageOutputCost_def Let_def using assms(2) images f r(2,4)
    by (auto simp: image_ok_def image_details_ok_def split: option.splits)
  moreover have "0 \<le> computeImageInputCost pricing u n (parseImagePixels sz) tier" for n
    unfolding computeImageInputCost_def Let_def using assms(2) f r(1,3)
    by (auto simp: image_ok_def image_details_ok_def split: option.splits)
  ultimately show ?thesis by (simp add: computeImageCost_def Let_def)
qed

lemma video_cost_nonneg:
  assumes "priced_fairly pricing"
  shows "0 \<le> computeVideoCost pricing usage secs tier"
proof -
  note r = rates_nonneg [OF assms]
  have "0 \<le> rate_or 0 (cascade (mp_rates pricing) steps)" for steps by (rule cascade_nonneg [OF assms]) simp
  then show ?thesis unfolding computeVideoCost_def Let_def using r(1,2,6)
    by (auto intro!: add_nonneg_nonneg mult_nonneg_nonneg simp del: cascade.simps)
qed

lemma compute_cost_nonneg:
  assumes "priced_fairly pricing" "input_ok i"
  shows "0 \<le> compute_cost pricing i requestType"
proof -
  note r = rates_nonneg [OF assms(1)]
  have f: "0 \<le> rate_or 0 (price pricing column)" for column using fair_rate_or [OF assms(1), of 0] by simp
  have u: "case ci_usage i of None \<Rightarrow> True | Some u \<Rightarrow> counts_ok u \<and> audio_in_text u" using assms(2) by (simp add: input_ok_def)
  have chat: "0 \<le> computeTextCost pricing (ci_usage i) (ci_tier i)"
  proof (cases "ci_usage i")
    case (Some x)
    then show ?thesis using text_cost_nonneg [OF assms(1)] u by simp
  qed (simp add: computeTextCost_def)
  have embedding: "0 \<le> computeEmbeddingCost pricing (ci_usage i) (ci_tier i)"
    using u r(1) by (auto simp: computeEmbeddingCost_def counts_ok_def split: option.split)
  have rerank: "0 \<le> computeRerankCost pricing (ci_usage i) (ci_tier i)"
  proof (cases "ci_usage i")
    case (Some x)
    then show ?thesis using u r(1,2) search_cost_nonneg [OF assms(1), of x]
      by (simp add: computeRerankCost_def) (simp add: counts_ok_def)
  qed (simp add: computeRerankCost_def)
  have image: "0 \<le> computeImageCost pricing (ci_imageUsage i) (ci_imageSize i) (ci_imageQuality i) (ci_tier i)"
  proof (cases "ci_imageUsage i")
    case (Some x)
    then show ?thesis using image_cost_nonneg [OF assms(1)] assms(2) by (simp add: input_ok_def)
  qed (simp add: computeImageCost_def)
  have ocr: "0 \<le> computeOCRCost pricing (ci_ocrProcessedPages i) (ci_ocrIsAnnotated i)"
    using assms(2) f by (auto simp: computeOCRCost_def input_ok_def split: option.splits)
  have trans: "0 \<le> computeTranscriptionCost pricing (ci_usage i) (ci_audioSeconds i) (ci_audioTokenDetails i) (ci_tier i)"
    using transcription_cost_nonneg [OF assms(1)] assms(2) by (simp add: input_ok_def)
  show ?thesis unfolding compute_cost_def
    using chat embedding rerank image ocr trans audio_cost_nonneg(3) [OF assms(1)] video_cost_nonneg [OF assms(1)] f
    by (simp add: computeContainerCreationCost_def)
qed

text \<open>A store whose catalog and whose overrides have no negative price finds no row with one.\<close>

definition fair_rates :: "rates \<Rightarrow> bool" where
  "fair_rates m \<longleftrightarrow> (\<forall>column x. m column = Some x \<longrightarrow> 0 \<le> x)"

definition entries_of :: "customPricingData \<Rightarrow> customPricingEntry set" where
  "entries_of c = (\<Union>(_, es) \<in> set (cp_exact c). set es) \<union> set (cp_wildcard c)"

definition fair_store :: "pricing_store \<Rightarrow> bool" where
  "fair_store s \<longleftrightarrow> (\<forall>k row. ps_pricingData s k = Some row \<longrightarrow> priced_fairly row)
     \<and> (case ps_customPricing s of None \<Rightarrow> True | Some c \<Rightarrow> \<forall>e \<in> entries_of c. fair_rates (en_options e))"

lemma gm_get0_entry: "e \<in> set (gm_get0 [] m k) \<Longrightarrow> \<exists>es. (k, es) \<in> set m \<and> e \<in> set es"
  by (cases "gm_get m k") (auto simp: gm_get0_def dest: map_of_SomeD)

lemma resolve_entry:
  assumes "resolve c model mode scopes = Some opts"
  shows "\<exists>e \<in> entries_of c. opts = en_options e"
proof -
  obtain k e where "find (\<lambda>e. en_scopeKind e = k \<and> matchesScope e scopes \<and> matchesMode e mode) (candidates_of c model) = Some e"
    "opts = en_options e"
    using first_hit_Some [OF assms [unfolded resolve_def]] by (auto simp: resolve_scope_def)
  moreover have "set (candidates_of c model) \<subseteq> entries_of c"
    using gm_get0_entry by (fastforce simp: candidates_of_def entries_of_def)
  ultimately show ?thesis using find_in_set by fastforce
qed

lemma applied_fairly:
  assumes "fair_store s" "priced_fairly row"
  shows "priced_fairly (fst (applyPricingOverrides s model requestType row scopes))"
proof -
  have "priced_fairly (patchPricing row patch)" if "fair_rates patch" for patch
    using that assms(2) by (auto simp: priced_fairly_def patchPricing_def fair_rates_def split: option.splits)
  moreover have "fair_rates patch" if "ps_customPricing s = Some c" "resolve c model mode scopes = Some patch" for c mode patch
    using resolve_entry [OF that(2)] assms(1) that(1) by (auto simp: fair_store_def)
  ultimately show ?thesis using assms(2)
    by (auto simp: applyPricingOverrides_def Let_def split: option.split)
qed

lemma resolved_fairly:
  assumes "fair_store s" "resolvePricing s ri requestType scopes = Some row"
  shows "priced_fairly row"
proof -
  have base: "priced_fairly b" if first: "first_hit (\<lambda>m. getBasePricing s m p requestType) ms = Some b" for b p ms
  proof -
    obtain m where m: "getBasePricing s m p requestType = Some b" using first_hit_Some [OF first] by blast
    show ?thesis using first_hit_Some [OF m [unfolded getBasePricing_def]] assms(1) by (auto simp: fair_store_def)
  qed
  have zero: "priced_fairly zero_row" by (simp add: priced_fairly_def zero_row_def no_rates_def)
  show ?thesis using assms(2) applied_fairly [OF assms(1) base] applied_fairly [OF assms(1) zero]
    unfolding resolvePricing_def Let_def by (auto split: option.splits prod.splits if_splits) (metis fst_conv)+
qed

lemma computed_nonneg: "fair_store s \<Longrightarrow> input_ok i \<Longrightarrow> 0 \<le> computeCostFromInput s i ri requestType scopes"
  unfolding computeCostFromInput_def Let_def by (auto split: option.split intro!: compute_cost_nonneg resolved_fairly)

lemma own_cost_positive: "own_cost usage = Some c \<Longrightarrow> f64_lt (Fin 0) c"
  by (auto simp: own_cost_def split: option.splits if_splits)

lemma base_cost_nonneg:
  assumes "fair_store s" "input_ok (extractCostInput (rs_body r))"
  shows "\<not> f64_lt (calculateBaseCost s r scopes) (Fin 0) \<and> calculateBaseCost s r scopes \<noteq> NaN"
proof -
  note c = computed_nonneg [OF assms]
  have azure: "0 \<le> calculateAzureModelRouterCost s b (extractCostInput (rs_body r)) ri rt scopes" for b ri rt
    unfolding calculateAzureModelRouterCost_def Let_def using c by simp
  have own: "\<not> f64_lt x (Fin 0) \<and> x \<noteq> NaN" if "f64_lt (Fin 0) x" for x using that by (cases x) auto
  show ?thesis
  proof (cases "own_cost (ci_usage (extractCostInput (rs_body r)))")
    case (Some x)
    then show ?thesis using own [OF own_cost_positive [OF Some]] by (simp add: calculateBaseCost_def)
  next
    case None
    have "\<exists>x \<ge> 0. calculateBaseCost s r scopes = Fin x"
      unfolding calculateBaseCost_def Let_def None option.case
      using c azure by (cases "rs_body r") auto
    then show ?thesis by auto
  qed
qed

lemma f64_not_neg: "\<not> f64_lt x (Fin 0) \<Longrightarrow> x \<noteq> NaN \<Longrightarrow> f64_le (Fin 0) x"
  by (cases x) auto

definition tokens_ok :: "BifrostCacheDebug option \<Rightarrow> bool" where
  "tokens_ok d \<longleftrightarrow> (case d of None \<Rightarrow> True | Some x \<Rightarrow> (case cd_InputTokens x of None \<Rightarrow> True | Some n \<Rightarrow> 0 \<le> n))"

lemma embedding_cost_nonneg:
  assumes "fair_store s" "tokens_ok (Some d)"
  shows "0 \<le> computeCacheEmbeddingCost s d scopes"
  unfolding computeCacheEmbeddingCost_def Let_def
  using assms(2) rates_nonneg(1) [OF resolved_fairly [OF assms(1)]]
  by (auto simp: tokens_ok_def split: option.splits intro!: mult_nonneg_nonneg)

text \<open>
  C30: A bill is not negative: with a catalog and overrides that have no negative price, \<^verbatim>\<open>CalculateCost\<close> is a number
  of at least zero, for every kind of request and with or without the semantic cache, when no reported count is negative,
  the pixels of all images of an image request fit 64 bits, and no text prompt has audio tokens and cached tokens at once.
  Counts may exceed the prompt. The last condition is needed: audio tokens that were read from the cache are corrected by a
  rate they were not charged (\<open>cached_audio_has_a_negative_price\<close>).
\<close>

theorem bill_is_not_negative:
  assumes "fair_store s" "input_ok (extractCostInput (rs_body r))" "tokens_ok (xf_CacheDebug (rs_ExtraFields r))"
  shows "f64_le (Fin 0) (datasheet_CalculateCost s (Some r) scopes)"
proof -
  note b = base_cost_nonneg [OF assms(1,2)]
  have sum: "f64_le (Fin 0) (f64_add (calculateBaseCost s r sc) (Fin e))" if "0 \<le> e" for sc e
    using b [of sc] that by (cases "calculateBaseCost s r sc") auto
  show ?thesis
  proof (cases "xf_CacheDebug (rs_ExtraFields r)")
    case None
    then show ?thesis using b by (simp add: datasheet_CalculateCost_def f64_not_neg)
  next
    case (Some d)
    then have "0 \<le> computeCacheEmbeddingCost s d sc" for sc using embedding_cost_nonneg [OF assms(1)] assms(3) by simp
    then show ?thesis using Some sum by (simp add: datasheet_CalculateCost_def calculateCostWithCache_def Let_def)
  qed
qed

section \<open>Failed calls\<close>

text \<open>
  A response to a chat with a usage. Its model and its routing are what the provider and the gateway filled in.
\<close>

definition chat_body :: "string \<Rightarrow> string option \<Rightarrow> BifrostLLMUsage \<Rightarrow> response_body" where
  "chat_body served service_tier u =
     ChatResponse served (Some u) \<lparr>tf_ServiceTier = service_tier, tf_Speed = us_Speed u, tf_InferenceGeo = us_InferenceGeo u\<rparr>"

definition requested_routing :: "string \<Rightarrow> string \<Rightarrow> BifrostLLMUsage \<Rightarrow> RoutingInfo" where
  "requested_routing provider model u = (routing_model provider model)\<lparr>ri_ServerSideFallbackModel := us_ServerSideFallbackModel u\<rparr>"

definition chat_answer :: "string \<Rightarrow> string \<Rightarrow> string \<Rightarrow> string option \<Rightarrow> BifrostLLMUsage \<Rightarrow> PricedResponse" where
  "chat_answer provider model requestType service_tier u =
     \<lparr>rs_ExtraFields = \<lparr>xf_RoutingInfo = requested_routing provider model u,
        xf_Provider = provider, xf_OriginalModelRequested = model, xf_ResolvedModelUsed = model, xf_RequestType = requestType,
        xf_PassthroughPath = [], xf_CacheDebug = None\<rparr>,
      rs_body = chat_body model service_tier u\<rparr>"

text \<open>
  C31: A failed call is billed like one that succeeds: the usage that a provider billed for a failed chat costs
  what a chat response with that usage costs, for every store, model, region and speed, whatever model the response
  names. The exceptions: the service tier was priority or flex, which the usage does not carry; the model is Azure's
  router; the model was sent under an alias of the key, which prices a response but not a failure
  (\<open>aliased_failure_priced_by_requested_model\<close>); the response went through the semantic cache, which charges its own
  embeddings.
\<close>

theorem failed_call_billed_like_success:
  assumes "rs_body r = chat_body served service_tier u"
    and "routing_of (rs_ExtraFields r) = requested_routing provider model u" "xf_CacheDebug (rs_ExtraFields r) = None"
    and "xf_RequestType (rs_ExtraFields r) = requestType"
    and "service_tier \<noteq> Some ''priority''" "service_tier \<noteq> Some ''flex''"
    and "provider \<noteq> ''azure'' \<or> \<not> strContains model ''model-router''"
  shows "datasheet_CalculateCostForUsage s (Some u) provider model requestType scopes = datasheet_CalculateCost s (Some r) scopes"
proof -
  have tier: "tierFromResponse service_tier x y = tierFromResponse None x y" for x y
    using assms(5,6) by (simp add: tierFromResponse_def)
  have i: "extractCostInput (rs_body r)
      = no_input\<lparr>ci_usage := Some u, ci_tier := tierFromResponse None (us_Speed u) (us_InferenceGeo u)\<rparr>"
    by (simp add: extractCostInput_def assms(1) chat_body_def tier_of_def tier)
  have "calculateBaseCost s r sc
    = (case own_cost (Some u) of Some c \<Rightarrow> c | None \<Rightarrow>
        Fin (computeCostFromInput s (no_input\<lparr>ci_usage := Some u, ci_tier := tierFromResponse None (us_Speed u) (us_InferenceGeo u)\<rparr>)
          (requested_routing provider model u) (normalizeStreamRequestType requestType) sc))" for sc
    unfolding calculateBaseCost_def Let_def assms(2,4) i using assms(1,7)
    by (auto simp: chat_body_def requested_routing_def nothing_to_price_def routing_model_def split: option.split)
  then show ?thesis
    unfolding datasheet_CalculateCost_def datasheet_CalculateCostForUsage_def Let_def requested_routing_def [symmetric] by (simp add: assms(3))
qed

end
