(* ===== verification/Pricing_Runs.thy ===== *)
theory Pricing_Runs
  imports Pricing_Properties
begin

text \<open>
  Runs of the price calculation: the hypotheses of its properties hold on concrete stores and responses, and
  what modelling showed of the code, each as one computation.
\<close>

section \<open>A store and its calls\<close>

definition one_row :: "string \<Rightarrow> (string \<times> rat) list \<Rightarrow> pricing_store" where
  "one_row mode rs = \<lparr>ps_pricingData = (\<lambda>k. if k = makeKey ''m'' ''openai'' mode then Some (zero_row\<lparr>mp_rates := map_of rs\<rparr>) else None),
     ps_rawOverrides = [], ps_customPricing = None\<rparr>"

definition plain_call :: BifrostLLMUsage where
  "plain_call = no_usage\<lparr>us_PromptTokens := 10, us_CompletionTokens := 5, us_TotalTokens := 15\<rparr>"

definition chat_rates :: "(string \<times> rat) list" where
  "chat_rates = [(''InputCostPerToken'', 2), (''OutputCostPerToken'', 3), (''InputCostPerTokenPriority'', 5)]"

lemma one_row_fair: "\<forall>r \<in> set rs. 0 \<le> snd r \<Longrightarrow> fair_store (one_row mode rs)"
  by (auto simp: fair_store_def one_row_def priced_fairly_def zero_row_def dest!: map_of_SomeD split: if_splits)

lemma bill_is_not_negative_witness:
  "f64_le (Fin 0) (datasheet_CalculateCost (one_row ''chat'' chat_rates) (Some (chat_answer ''openai'' ''m'' ''chat_completion'' None plain_call)) None)
   \<and> datasheet_CalculateCost (one_row ''chat'' chat_rates) (Some (chat_answer ''openai'' ''m'' ''chat_completion'' None plain_call)) None = Fin 35"
proof
  have "fair_store (one_row ''chat'' chat_rates)" by (rule one_row_fair) (simp add: chat_rates_def)
  moreover have "input_ok (extractCostInput (rs_body (chat_answer ''openai'' ''m'' ''chat_completion'' None plain_call)))"
    by code_simp
  moreover have "tokens_ok (xf_CacheDebug (rs_ExtraFields (chat_answer ''openai'' ''m'' ''chat_completion'' None plain_call)))"
    by code_simp
  ultimately show "f64_le (Fin 0) (datasheet_CalculateCost (one_row ''chat'' chat_rates)
      (Some (chat_answer ''openai'' ''m'' ''chat_completion'' None plain_call)) None)"
    by (rule bill_is_not_negative)
  show "datasheet_CalculateCost (one_row ''chat'' chat_rates) (Some (chat_answer ''openai'' ''m'' ''chat_completion'' None plain_call)) None = Fin 35"
    by code_simp
qed

lemma failed_call_billed_like_success_witness:
  "datasheet_CalculateCostForUsage (one_row ''chat'' chat_rates) (Some plain_call) ''openai'' ''m'' ''chat_completion_stream'' None
     = datasheet_CalculateCost (one_row ''chat'' chat_rates) (Some (chat_answer ''openai'' ''m'' ''chat_completion_stream'' None plain_call)) None
   \<and> datasheet_CalculateCostForUsage (one_row ''chat'' chat_rates) (Some plain_call) ''openai'' ''m'' ''chat_completion_stream'' None = Fin 35"
proof
  show "datasheet_CalculateCostForUsage (one_row ''chat'' chat_rates) (Some plain_call) ''openai'' ''m'' ''chat_completion_stream'' None
     = datasheet_CalculateCost (one_row ''chat'' chat_rates) (Some (chat_answer ''openai'' ''m'' ''chat_completion_stream'' None plain_call)) None"
    by (rule failed_call_billed_like_success [where served = "''m''" and service_tier = None])
      (simp_all add: chat_answer_def routing_of_def requested_routing_def routing_model_def)
  show "datasheet_CalculateCostForUsage (one_row ''chat'' chat_rates) (Some plain_call) ''openai'' ''m'' ''chat_completion_stream'' None = Fin 35"
    by code_simp
qed

section \<open>What modelling showed\<close>

text \<open>A failed call of priority tier is billed at the standard rate: the usage does not carry the tier.\<close>

lemma failed_priority_call_is_cheaper:
  "datasheet_CalculateCost (one_row ''chat'' chat_rates) (Some (chat_answer ''openai'' ''m'' ''chat_completion'' (Some ''priority'') plain_call)) None = Fin 65
   \<and> datasheet_CalculateCostForUsage (one_row ''chat'' chat_rates) (Some plain_call) ''openai'' ''m'' ''chat_completion'' None = Fin 35"
  by code_simp

text \<open>
  A model that a key serves under an alias is priced by the alias when the call succeeds and by the requested
  name when it fails: the response carries the alias, a failure is billed by the requested model.
\<close>

definition aliased_store :: pricing_store where
  "aliased_store = \<lparr>ps_pricingData = (\<lambda>k. map_option (\<lambda>p. zero_row\<lparr>mp_rates := map_of [(''InputCostPerToken'', p)]\<rparr>)
       (map_of [(makeKey ''m'' ''openai'' ''chat'', 1), (makeKey ''m-large'' ''openai'' ''chat'', 4)] k)),
     ps_rawOverrides = [], ps_customPricing = None\<rparr>"

definition aliased_answer :: PricedResponse where
  "aliased_answer = (let r = chat_answer ''openai'' ''m'' ''chat_completion'' None plain_call; x = rs_ExtraFields r
     in r\<lparr>rs_ExtraFields := x\<lparr>xf_RoutingInfo := (xf_RoutingInfo x)\<lparr>ri_ResolvedKeyAlias := Some (''m-large'', None)\<rparr>\<rparr>\<rparr>)"

lemma aliased_failure_priced_by_requested_model:
  "datasheet_CalculateCost aliased_store (Some aliased_answer) None = Fin 40
   \<and> datasheet_CalculateCostForUsage aliased_store (Some plain_call) ''openai'' ''m'' ''chat_completion'' None = Fin 10"
  by code_simp

text \<open>Audio tokens that were read from the cache are corrected by the text rate they were not charged.\<close>

definition cached_audio_call :: BifrostLLMUsage where
  "cached_audio_call = no_usage\<lparr>us_PromptTokens := 10, us_PromptTokensDetails :=
     Some (no_prompt_details\<lparr>pd_AudioTokens := 10, pd_CachedReadTokens := 10\<rparr>)\<rparr>"

lemma cached_audio_has_a_negative_price:
  "computeTextCost (zero_row\<lparr>mp_rates := map_of [(''InputCostPerToken'', 10), (''InputCostPerAudioToken'', 1), (''CacheReadInputTokenCost'', 1)]\<rparr>)
     (Some cached_audio_call) standardTier = - 80"
  by code_simp

text \<open>The seconds of speech that a provider reports are not read, so a model billed by the second is free.\<close>

definition audio_answer :: "string \<Rightarrow> response_body \<Rightarrow> PricedResponse" where
  "audio_answer requestType b = \<lparr>rs_ExtraFields = \<lparr>xf_RoutingInfo = routing_model ''openai'' ''m'', xf_Provider = ''openai'',
     xf_OriginalModelRequested = ''m'', xf_ResolvedModelUsed = ''m'', xf_RequestType = requestType, xf_PassthroughPath = [],
     xf_CacheDebug = None\<rparr>, rs_body = b\<rparr>"

lemma speech_by_the_second_is_free:
  "datasheet_CalculateCost (one_row ''audio_speech'' [(''OutputCostPerSecond'', 1)])
     (Some (audio_answer ''speech'' (SpeechResponse (Some \<lparr>su_InputTokens = 0, su_InputChars = 0, su_OutputTokens = 0,
       su_TotalTokens = 0, su_AudioSeconds = 30\<rparr>)))) None = Fin 0"
  by code_simp

text \<open>A transcription of less than a second is free, and one of almost two seconds costs one.\<close>

lemma transcription_seconds_are_cut:
  "map (\<lambda>x. datasheet_CalculateCost (one_row ''audio_transcription'' [(''InputCostPerSecond'', 1)])
     (Some (audio_answer ''transcription'' (TranscriptionResponse (Some \<lparr>tu_InputTokens = None, tu_InputTokenDetails = None,
       tu_OutputTokens = None, tu_TotalTokens = None, tu_Seconds = Some x\<rparr>)))) None) [9 / 10, 19 / 10] = [Fin 0, Fin 1]"
  by code_simp

text \<open>Saving an override again moves it behind its rivals, so another one prices the requests from then on.\<close>

definition global_override :: "string \<Rightarrow> rat \<Rightarrow> Override" where
  "global_override i p = \<lparr>ov_ID = i, ov_ScopeKind = ''global'', ov_UserID = None, ov_VirtualKeyID = None, ov_ProviderID = None,
     ov_ProviderKeyID = None, ov_MatchType = ''exact'', ov_Pattern = ''m'', ov_RequestTypes = [''chat_completion''],
     ov_Options = map_of [(''InputCostPerToken'', p)]\<rparr>"

definition input_price :: "err + pricing_store \<Rightarrow> rat option" where
  "input_price s = (case s of Inl _ \<Rightarrow> None
     | Inr t \<Rightarrow> map_option (\<lambda>row. tieredInputRate row 1 standardTier) (resolvePricing t (routing_model ''openai'' ''m'') ''chat_completion'' no_scopes))"

definition saved_again :: "err + pricing_store" where
  "saved_again = (case SetOverrides by_length [Inr (global_override ''a'' 1), Inr (global_override ''b'' 2)] (one_row ''chat'' []) of
     Inl e \<Rightarrow> Inl e | Inr t \<Rightarrow> UpsertOverrides by_length [Inr (global_override ''a'' 1)] t)"

lemma saving_again_changes_the_price:
  "input_price (SetOverrides by_length [Inr (global_override ''a'' 1), Inr (global_override ''b'' 2)] (one_row ''chat'' [])) = Some 1
   \<and> input_price saved_again = Some 2"
  by code_simp

section \<open>Overrides at work\<close>

definition wildcard_override :: "string \<Rightarrow> string \<Rightarrow> rat \<Rightarrow> Override" where
  "wildcard_override i pattern p = (global_override i p)\<lparr>ov_MatchType := ''wildcard'', ov_Pattern := pattern\<rparr>"

definition key_override :: Override where
  "key_override = (global_override ''k'' 7)\<lparr>ov_ScopeKind := ''virtual_key'', ov_VirtualKeyID := Some ''vk''\<rparr>"

definition vk_scopes :: LookupScopes where
  "vk_scopes = no_scopes\<lparr>sc_VirtualKeyID := ''vk'', sc_Provider := ''openai''\<rparr>"

definition three_overrides :: "Override list" where
  "three_overrides = [wildcard_override ''w'' ''m*'' 3, global_override ''g'' 5, key_override]"

lemma most_specific_override_wins_witness:
  "map_option (\<lambda>opts. opts ''InputCostPerToken'') (resolve (buildCustomPricingData by_length three_overrides) ''m'' ''chat'' vk_scopes) = Some (Some 7)
   \<and> (\<exists>before kind after o1. scopePriorityOrder vk_scopes = before @ kind # after
        \<and> o1 \<in> in_scope three_overrides ''m'' ''chat'' vk_scopes kind
        \<and> resolve (buildCustomPricingData by_length three_overrides) ''m'' ''chat'' vk_scopes = Some (ov_Options o1))"
proof
  show p: "map_option (\<lambda>opts. opts ''InputCostPerToken'') (resolve (buildCustomPricingData by_length three_overrides) ''m'' ''chat'' vk_scopes) = Some (Some 7)"
    by code_simp
  then obtain opts where o: "resolve (buildCustomPricingData by_length three_overrides) ''m'' ''chat'' vk_scopes = Some opts" by auto
  from most_specific_override_wins [OF by_length_sorts, where overrides = three_overrides and model = "''m''" and mode = "''chat''" and scopes = vk_scopes]
  show "\<exists>before kind after o1. scopePriorityOrder vk_scopes = before @ kind # after
        \<and> o1 \<in> in_scope three_overrides ''m'' ''chat'' vk_scopes kind
        \<and> resolve (buildCustomPricingData by_length three_overrides) ''m'' ''chat'' vk_scopes = Some (ov_Options o1)"
    unfolding o option.case by blast
qed

lemma valid_override_takes_effect_witness:
  "resolve (buildCustomPricingData by_length [key_override]) ''m'' ''chat'' vk_scopes = Some (ov_Options key_override)"
  by (rule valid_override_takes_effect [OF by_length_sorts]) code_simp+

lemma overrides_refine_a_map_witness:
  "compiled by_length (DeleteOverride by_length ''g'' (install by_length three_overrides (one_row ''chat'' [])))
   \<and> stored (DeleteOverride by_length ''g'' (install by_length three_overrides (one_row ''chat'' [])))
     = (stored (install by_length three_overrides (one_row ''chat'' [])))(''g'' := None)"
  using overrides_refine_a_map [where s = "install by_length three_overrides (one_row ''chat'' [])" and rows = "[]" and srt = by_length and i = "''g''"]
  by (simp add: install_def three_overrides_def wildcard_override_def global_override_def key_override_def)

end
