(* ===== verification/Spec2Isabelle.thy ===== *)
theory Spec2Isabelle
  imports CAS_Properties Routing_Properties Post_Hooks Reset_Worker KV_Replication Session_Keys Governed_Call Reply_Handoff
    MCP_Retry Agent_Properties Registry_Runs Pricing_Runs
begin

text \<open>
  Verification of the governance core and the request engine of the gateway.

  The program. The gateway accepts LLM and MCP requests over HTTP (transports/bifrost-http),
  hands them to a request engine (core/bifrost.go) and translates them for one of many
  providers (core/providers). What it decides by itself is governance, the plugin under
  plugins/governance: whether a request may run, which provider and which tools it may use,
  what it is charged with, and when the counters it is charged against start again. This
  development models that plugin with the rows of framework/configstore/tables it works on.

  How the parts interact. A request enters through \<open>PreRequestHook\<close>, which applies the routing
  rules, balances the load over the providers of the virtual key and stamps the tool grants;
  \<open>PreLLMHook\<close> and \<open>PreMCPHook\<close> evaluate it (\<open>EvaluateGovernanceRequest\<close>) by asking the resolver,
  which asks the checks of the store for the provider, the model, the key and its team, customer
  and user. After the call \<open>PostLLMHook\<close> and \<open>PostMCPHook\<close> compute tokens and cost and hand a
  \<open>UsageUpdate\<close> to the tracker, which claims the call so that it is billed once and bumps every
  budget and rate limit of the hierarchy. Bumps and sweeps reset the rows whose window has
  closed; a worker sweeps all rows, persists the resets and dumps the counters to the database.
  Handlers of the admin API create, update and delete the owners of the rows at any time.
  Around this the engine runs a chain of tries: \<open>handleRequest\<close> asks the provider of the request
  and then its fallbacks. Each try selects a pool of keys, restricted by the keys governance put
  into the context, pinned by the caller, or bound to the session in the key-value store, and
  calls the provider through \<open>executeRequestWithRetries\<close>, which rotates the keys on failures. The
  number of the attempt and the request ID are what the hooks after the call bill it under.

  Theories and sources (paths under src/):

  Foundations. \<open>Gateway_Prelude\<close>: Go integers, doubles, maps, strings, errors. \<open>Go_Time\<close>: the used
  part of the standard package \<^verbatim>\<open>time\<close>. \<open>Calendar_Grid\<close>: the locale \<open>period_grid\<close> for periods that
  tile the time line, interpreted for days, weeks, months, fiscal quarters and years.

  Rows, framework/configstore/tables. \<open>Windows\<close>: utils.go, the calendar snap, rolling windows,
  counting of periods. \<open>Budget\<close>: budget.go, the row, its overrides and validation. \<open>RateLimit\<close>:
  ratelimit.go. \<open>Governance_Tables\<close>: virtualkey.go, team.go, customer.go, modelconfig.go,
  provider.go and the lists of core/schemas/account.go.

  Store, plugins/governance/store.go. \<open>Governance_Store\<close>: the state \<open>LocalGovernanceStore\<close>, loads,
  upserts, resets, rebases, sweeps, bumps and the index of keys. \<open>Store_Accounting\<close>: the locale
  \<open>metered_row\<close> and the refinement of the bump loops to it; exactness of sweeps and charges.
  \<open>CAS_Interleaving\<close> and \<open>CAS_Properties\<close>: the compare-and-swap loops on a row -- charges, sweeps, upserts,
  rebases, calendar switches -- and the unchecked stores of owner updates under any schedule, the
  locale \<open>shared_row\<close>. \<open>Governance_Crud\<close>: the owner operations. \<open>Store_Invariants\<close>: all operations
  as one step relation and its invariant. \<open>Owner_Properties\<close>: what the owner operations keep or
  lose. \<open>Governance_Checks\<close>: checks, collection of the hierarchy, usage updates.
  \<open>Check_Properties\<close>: the locale \<open>policy_check\<close> and what the checks decide. \<open>Hierarchy\<close>: the locale
  \<open>row_collector\<close>; the set of budgets a request charges is the set that gates it.
  \<open>Persistence\<close> and \<open>Persistence_Properties\<close>: dumps and reset writes batch by batch, with what
  other transactions do to the table between the check of a batch and its own, the locale \<open>table_writer\<close>.

  Decisions. \<open>Resolver\<close>: resolver.go with utils.go and modelcatalog/models.go.
  \<open>Governance_Plugin\<close>: the gates of main.go. \<open>Plugin_Properties\<close>: the locale \<open>governance_check\<close> and
  the completeness of the gates. \<open>Tool_Grants\<close>: tool grants and model lists. \<open>Load_Balancer\<close> and
  \<open>Balancer_Properties\<close>: loadBalanceProvider of main.go. \<open>Routing_Rules\<close> and
  \<open>Routing_Properties\<close>: routing.go, the rule cache of store.go, PreRequestHook of main.go.

  Request engine, core. \<open>Key_Selection\<close>: the pool of keys of a call, core/bifrost.go with
  core/utils.go, core/keyselectors/weightedrandom.go and transports/bifrost-http/lib/account.go.
  \<open>Selection_Properties\<close>: what the selected keys satisfy, also under the grants of a virtual key.
  \<open>Session_Keys\<close>: the locale \<open>session_kv\<close> for the store that keeps the keys of sessions,
  interpreted on the key-value store. \<open>Request_Retries\<close>: executeRequestWithRetries of
  core/bifrost.go with the providers of keys, core/encryptedreasoning.go. \<open>Retry_Properties\<close>: the
  locale \<open>key_provider\<close>, attempts and their trail. \<open>Fallback_Chain\<close> and \<open>Fallback_Properties\<close>:
  handleRequest and handleStreamRequest, their tries and what of the tries is billed.
  \<open>Plugin_Pipeline\<close>: tryRequest and tryStreamRequest with the hooks of the plugins, the queue and
  requestWorker of core/bifrost.go. \<open>Pipeline_Properties\<close>: hooks in order and in pairs, reserved keys.
  \<open>Governed_Call\<close>: governance as a plugin of a try, from the virtual key to the provider's key.
  \<open>Reply_Handoff\<close>: how a reply gets from the worker to the request or is billed without it.

  Tools, core/mcp. \<open>Tool_Access\<close>: the filters of utils.go, the checks of exec.go and the names of
  listed tools. \<open>MCP_Gate\<close>: pluginpipeline.go, the execution of a tool call in toolmanager.go and
  exec.go, the conversions of schemas/mux.go. \<open>MCP_Properties\<close>: which calls reach a server and the
  form of their answers. \<open>MCP_Retry\<close>: the retries of utils.go. \<open>Agent_Mode\<close>: agent.go with the chat
  adapter of agentadaptors.go and the check of code blocks. \<open>Agent_Properties\<close>: its rounds, tools,
  conversations and usage. \<open>Client_Registry\<close>: the manager of clients, clientmanager.go with toolsync.go
  and mcp.go, as a step relation: a section under the lock is a step, a call that dials a task that
  other calls interleave with. \<open>Registry_Properties\<close>: well-formedness, the guard of a client, disabled
  clients. \<open>Registry_Connections\<close>: the open connections. \<open>Health_Monitor\<close>: healthmonitor.go.
  \<open>Registry_Runs\<close>: concrete runs, among them those in which the code fails to do what it means to.

  Prices, framework/modelcatalog/datasheet. \<open>Pricing_Rates\<close>: the row of a model and the choice of a rate by
  prompt size and service tier, cost.go with configstore/tables/modelpricing.go; the seventy columns of a row are
  a map from the names of the Go fields to exact rationals. \<open>Token_Usage\<close>: the usage of core/schemas and its
  sum over the rounds of agent mode. \<open>Cost_Computation\<close>: the cost of each kind of request. \<open>Pricing_Lookup\<close>:
  overrides.go, types.go and the lookup of cost.go; the sort of the wildcards, which Go leaves free among
  equals, is an argument. \<open>Cost_Calculation\<close>: from a response or the usage of a failed call to its cost.
  \<open>Override_Properties\<close>: which override prices a request, and the stored overrides as a map.
  \<open>Pricing_Properties\<close>: what a call costs. \<open>Pricing_Runs\<close>: concrete runs. \<open>Go_Strings\<close>: what the tools and the
  prices use of the package \<^verbatim>\<open>strings\<close>.

  Key-value store, framework/kvstore/kvstore.go. \<open>KV_Store\<close>: the operations. \<open>KV_Properties\<close>:
  the map with deadlines they implement. \<open>KV_Replication\<close>: the merge of replicated writes.

  Settlement. \<open>Usage_Tracker\<close> and \<open>Tracker_Properties\<close>: tracker.go, the locale
  \<open>settlement_invariant\<close>. \<open>Post_Hooks\<close>: the hooks after a call. \<open>Reset_Worker\<close>: a pass of the worker,
  start-up resets and the final flush.

  State and operations. A Go struct is a record, a method an operation from state to state
  paired with its results, a Go \<^verbatim>\<open>error\<close> an optional value of \<open>err\<close>, a pointer that may be nil an
  \<open>option\<close>, a map an association list with distinct keys whose order is the order of iteration.
  The clock, the random choices of the balancer and of the key selector, the call of a provider, the model catalog, the rows of the pricing
  catalog and, for the hooks after a call, the cost they charge, the evaluation of rule expressions and the outcome of each database transaction are arguments.

  A tool call, of a caller or of agent mode, is prepared on the map of clients (\<open>prepareToolExecution\<close>),
  goes through the hooks, of which governance is one, and then to the server. In agent mode the calls
  of one response that need no approval run together and their results go back to the model.

  What the groups of lemmas show. Windows: the snapped instant opens the period that contains
  now, counting is counting boundaries, and nodes with different clocks agree on the window.
  Accounting: a cost is charged once, in the window the row ends in, by one goroutine alone and
  by any number of them that publish by compare-and-swap; the unchecked stores of owner updates lose charges. Hierarchy: a charge and a check walk the same budgets, so spending
  closes the gate. Gates: a request that passes has passed every check that was not skipped, and
  no tool beyond the grant passes. Routing: rule chains end, decisions are justified by a rule,
  the balanced provider is eligible. Settlement: billed once, failed requests are not counted.
  Persistence: persisted windows never move back, a reset that lands before a dump checks its row survives the dump, a pass of
  the worker leaves every due window reset and, when its dumps commit, persisted. Invariants: every reachable store
  holds rows under their own identifiers with overrides derived from their windows. Tools: what is
  offered and what is let through agree, no call outside code mode reaches a server without the checks of the name it asks for,
  agent mode runs on its own only what is listed for that, answers every call and counts the tokens of all rounds. Clients:
  under every interleaving the registry stays well formed, one guarded dial of a client at a time is
  under way, disabled clients stay disabled and, without parallel dials of a client, no connection leaks. Prices: each token
  of a prompt is priced once, bills are not negative unless audio tokens were cached, failed chats cost what successful ones do but for tiers
  and aliases of models, and the most
  specific override wins.

  Bounds and fuel. No definition has fuel. The request path retries a reset three times
  (\<open>maxRequestTimeResetAttempts\<close>), the measure of the bump loops; a database batch holds
  \<open>dumpBatchSize\<close> rows; a rule chain ends because each round adds a rule to the visited ones, so its
  length is bounded by the number of rules. The loop of agent mode recurses over the rounds left and
  the retries of an MCP operation over the attempts left, so both return. The loop of attempts ends by the measure
  \<open>rounds_to_go\<close>: the retries left, and one extra attempt that is granted once. Counters of rate limits wrap at 64 bits. Costs are
  doubles without rounding: infinities and NaN behave as IEEE prescribes, finite sums are exact.

  Not modelled. The interpreter of rule expressions (CEL) and the complexity score that feeds it;
  loading the store from the database, which assembles rows the store then holds, and the reports
  (\<open>GetGovernanceData\<close>); JSON and encryption hooks of the rows; configuration store (rdb.go and
  migrations), HTTP handlers and providers, which are I/O around the decisions modelled here; of the
  pricing catalog its download, the parameters of models and the estimate before a call; of the
  MCP runtime the transports and handshakes behind a dial, the set-up of the gateway's own in-process server, the verification logins, the interpreter of
  code mode, the schemas of tools and the adapter of agent mode for the responses API, which has the interface of the one
  modelled; of the engine the worker pools, the gates of streams and spans; logging, and mutexes other than as the atomicity of a step.
\<close>

end
